(* ===== verification/CLayout.thy ===== *)
theory CLayout
  imports Prelude
begin

text \<open>
  The layout of C types on x86-64 (System V ABI), which fixes where the eBPF probe
  writes its record and from where it reads the kernel's socket. A C type is a value
  of \<open>ctype\<close>; \<open>alignof\<close>, \<open>sizeof\<close> and \<open>field_layout\<close> are the
  compiler's rules for padding, bit-fields, packed types, unions and anonymous members,
  and \<open>offsetof\<close> resolves a member path such as \<^verbatim>\<open>__sk_common.skc_daddr\<close>.
  The lemmas of the second half show that a layout is one: members are aligned, they
  are in declaration order, no two share a bit, and all of them end inside the type.
\<close>

section \<open>Types and their size\<close>

text \<open>
  \<open>CInt n\<close> is an integer, enumeration or bool of \<open>n\<close> bytes, \<open>CPtr\<close> any object
  or function pointer. The flag of a struct or union is
  \<^verbatim>\<open>__attribute__((packed))\<close>. An anonymous member has the empty name; \<open>Bits\<close> is
  a bit-field with its declared type and width.
\<close>

datatype ctype =
    CInt nat
  | CPtr
  | CArr ctype nat
  | CStruct bool "cfield list"
  | CUnion bool "cfield list"
and cfield =
    Fld string ctype
  | Bits string ctype nat

text \<open>
  An enumeration is given by its constants; it is stored in four bytes unless one of
  them needs more.
\<close>

definition cenum :: "(string \<times> int) list \<Rightarrow> ctype" where
  "cenum vs = CInt (if list_all (\<lambda>(n, v). - (2 ^ 31) \<le> v \<and> v < 2 ^ 32) vs then 4 else 8)"

definition align_up :: "nat \<Rightarrow> nat \<Rightarrow> nat" where
  "align_up x a = (x + (a - 1)) div a * a"

definition bits_to_bytes :: "nat \<Rightarrow> nat" where
  "bits_to_bytes b = (b + 7) div 8"

text \<open>
  A bit-field of width \<open>w\<close> starts at the next free bit unless it would then straddle
  a boundary of its declared type; width 0 closes the current unit.
\<close>

definition bits_start :: "bool \<Rightarrow> nat \<Rightarrow> nat \<Rightarrow> nat \<Rightarrow> nat" where
  "bits_start packed b unit w =
     (if w = 0 then align_up b (8 * unit)
      else if packed \<or> b div (8 * unit) = (b + (w - 1)) div (8 * unit) then b
      else align_up b (8 * unit))"

fun alignof :: "ctype \<Rightarrow> nat" and fields_align :: "cfield list \<Rightarrow> nat" where
  "alignof (CInt n) = n"
| "alignof CPtr = 8"
| "alignof (CArr t k) = alignof t"
| "alignof (CStruct packed fs) = (if packed then 1 else fields_align fs)"
| "alignof (CUnion packed fs) = (if packed then 1 else fields_align fs)"
| "fields_align [] = 1"
| "fields_align (Fld n t # fs) = max (alignof t) (fields_align fs)"
| "fields_align (Bits n t w # fs) =
     (if n = [] then fields_align fs else max (alignof t) (fields_align fs))"

text \<open>
  \<open>struct_end\<close> is the first free bit after the members, \<open>union_end\<close> the size in
  bytes of the largest one.
\<close>

fun sizeof :: "ctype \<Rightarrow> nat"
  and struct_end :: "bool \<Rightarrow> nat \<Rightarrow> cfield list \<Rightarrow> nat"
  and union_end :: "cfield list \<Rightarrow> nat" where
  "sizeof (CInt n) = n"
| "sizeof CPtr = 8"
| "sizeof (CArr t k) = k * sizeof t"
| "sizeof (CStruct packed fs) =
     align_up (bits_to_bytes (struct_end packed 0 fs)) (if packed then 1 else fields_align fs)"
| "sizeof (CUnion packed fs) =
     align_up (union_end fs) (if packed then 1 else fields_align fs)"
| "struct_end packed b [] = b"
| "struct_end packed b (Fld n t # fs) =
     struct_end packed
       (8 * (align_up (bits_to_bytes b) (if packed then 1 else alignof t) + sizeof t)) fs"
| "struct_end packed b (Bits n t w # fs) =
     struct_end packed (bits_start packed b (sizeof t) w + w) fs"
| "union_end [] = 0"
| "union_end (Fld n t # fs) = max (sizeof t) (union_end fs)"
| "union_end (Bits n t w # fs) = max (bits_to_bytes w) (union_end fs)"

section \<open>Where the members are\<close>

text \<open>The placement of one member: its declaration, first bit and width in bits.\<close>

record placed =
  pfield :: cfield
  pstart :: nat
  pwidth :: nat

fun struct_layout :: "bool \<Rightarrow> nat \<Rightarrow> cfield list \<Rightarrow> placed list" where
  "struct_layout packed b [] = []"
| "struct_layout packed b (Fld n t # fs) =
     (let s = 8 * align_up (bits_to_bytes b) (if packed then 1 else alignof t)
      in \<lparr>pfield = Fld n t, pstart = s, pwidth = 8 * sizeof t\<rparr>
         # struct_layout packed (s + 8 * sizeof t) fs)"
| "struct_layout packed b (Bits n t w # fs) =
     (let s = bits_start packed b (sizeof t) w
      in \<lparr>pfield = Bits n t w, pstart = s, pwidth = w\<rparr>
         # struct_layout packed (s + w) fs)"

fun field_width :: "cfield \<Rightarrow> nat" where
  "field_width (Fld n t) = 8 * sizeof t"
| "field_width (Bits n t w) = w"

fun field_layout :: "ctype \<Rightarrow> placed list" where
  "field_layout (CStruct packed fs) = struct_layout packed 0 fs"
| "field_layout (CUnion packed fs) =
     map (\<lambda>f. \<lparr>pfield = f, pstart = 0, pwidth = field_width f\<rparr>) fs"
| "field_layout _ = []"

text \<open>
  \<open>lookup_member t n\<close> finds the member called \<open>n\<close>, through anonymous structs and
  unions as C does, with its byte offset and type. Bit-fields have no address.
\<close>

fun lookup_member :: "ctype \<Rightarrow> string \<Rightarrow> (nat \<times> ctype) option"
  and lookup_struct :: "bool \<Rightarrow> nat \<Rightarrow> cfield list \<Rightarrow> string \<Rightarrow> (nat \<times> ctype) option"
  and lookup_union :: "cfield list \<Rightarrow> string \<Rightarrow> (nat \<times> ctype) option" where
  "lookup_member (CStruct packed fs) n = lookup_struct packed 0 fs n"
| "lookup_member (CUnion packed fs) n = lookup_union fs n"
| "lookup_member (CInt k) n = None"
| "lookup_member CPtr n = None"
| "lookup_member (CArr t k) n = None"
| "lookup_struct packed b [] n = None"
| "lookup_struct packed b (Fld m t # fs) n =
     (let s = align_up (bits_to_bytes b) (if packed then 1 else alignof t)
      in if m = n then Some (s, t)
         else case (if m = [] then lookup_member t n else None) of
           Some (o', t') \<Rightarrow> Some (s + o', t')
         | None \<Rightarrow> lookup_struct packed (8 * (s + sizeof t)) fs n)"
| "lookup_struct packed b (Bits m t w # fs) n =
     lookup_struct packed (bits_start packed b (sizeof t) w + w) fs n"
| "lookup_union [] n = None"
| "lookup_union (Fld m t # fs) n =
     (if m = n then Some (0, t)
      else case (if m = [] then lookup_member t n else None) of
        Some r \<Rightarrow> Some r
      | None \<Rightarrow> lookup_union fs n)"
| "lookup_union (Bits m t w # fs) n = lookup_union fs n"

fun member_path :: "ctype \<Rightarrow> string list \<Rightarrow> (nat \<times> ctype) option" where
  "member_path t [] = Some (0, t)"
| "member_path t (n # ns) =
     (case lookup_member t n of
        None \<Rightarrow> None
      | Some (s, t') \<Rightarrow>
          (case member_path t' ns of None \<Rightarrow> None | Some (s', t'') \<Rightarrow> Some (s + s', t'')))"

definition offsetof :: "ctype \<Rightarrow> string list \<Rightarrow> nat option" where
  "offsetof t ns = map_option fst (member_path t ns)"

text \<open>
  \<open>members base t\<close> lists the members of \<open>t\<close> with their first bit, those of anonymous structs and
  unions in place of these, as the type information of a compiled object does.
\<close>

fun members :: "nat \<Rightarrow> ctype \<Rightarrow> (string \<times> nat) list"
  and struct_members :: "bool \<Rightarrow> nat \<Rightarrow> nat \<Rightarrow> cfield list \<Rightarrow> (string \<times> nat) list"
  and union_members :: "nat \<Rightarrow> cfield list \<Rightarrow> (string \<times> nat) list" where
  "members base (CStruct packed fs) = struct_members packed base 0 fs"
| "members base (CUnion packed fs) = union_members base fs"
| "members base (CInt n) = []"
| "members base CPtr = []"
| "members base (CArr t k) = []"
| "struct_members packed base b [] = []"
| "struct_members packed base b (Fld n t # fs) =
     (let s = 8 * align_up (bits_to_bytes b) (if packed then 1 else alignof t)
      in if n = [] then members (base + s) t @ struct_members packed base (s + 8 * sizeof t) fs
         else (n, base + s) # struct_members packed base (s + 8 * sizeof t) fs)"
| "struct_members packed base b (Bits n t w # fs) =
     (let s = bits_start packed b (sizeof t) w
      in if n = [] then struct_members packed base (s + w) fs
         else (n, base + s) # struct_members packed base (s + w) fs)"
| "union_members base [] = []"
| "union_members base (Fld n t # fs) =
     (if n = [] then members base t @ union_members base fs else (n, base) # union_members base fs)"
| "union_members base (Bits n t w # fs) =
     (if n = [] then union_members base fs else (n, base) # union_members base fs)"

text \<open>Types that C accepts: scalars and bit-field units have a power-of-two size.\<close>

definition scalar_size :: "nat \<Rightarrow> bool" where
  "scalar_size n \<longleftrightarrow> n = 1 \<or> n = 2 \<or> n = 4 \<or> n = 8 \<or> n = 16"

fun wf_ctype :: "ctype \<Rightarrow> bool" and wf_fields :: "cfield list \<Rightarrow> bool" where
  "wf_ctype (CInt n) = scalar_size n"
| "wf_ctype CPtr = True"
| "wf_ctype (CArr t k) = wf_ctype t"
| "wf_ctype (CStruct packed fs) = wf_fields fs"
| "wf_ctype (CUnion packed fs) = wf_fields fs"
| "wf_fields [] = True"
| "wf_fields (Fld n t # fs) = (wf_ctype t \<and> wf_fields fs)"
| "wf_fields (Bits n t w # fs) =
     (wf_ctype t \<and> sizeof t > 0 \<and> w \<le> 8 * sizeof t \<and> wf_fields fs)"

section \<open>Evaluating layouts\<close>

text \<open>
  The congruence rules keep the simplifier out of the member lists that are still to
  come, so that the layout of a concrete type is computed member by member; the sizes
  of the types it contains are looked up in the collection \<open>layout_simps\<close>.
\<close>

lemma struct_end_cong: "b = b' \<Longrightarrow> struct_end packed b fs = struct_end packed b' fs"
  by simp

lemma lookup_struct_cong:
  "b = b' \<Longrightarrow> lookup_struct packed b fs n = lookup_struct packed b' fs n"
  by simp

lemma layout_arg_congs:
  "fields_align fs = fields_align fs" "union_end fs = union_end fs"
  "lookup_union fs n = lookup_union fs n" "lookup_member t n = lookup_member t n"
  "sizeof t = sizeof t" "alignof t = alignof t"
  "wf_fields fs = wf_fields fs" "wf_ctype t = wf_ctype t"
  by (rule refl)+

lemma members_congs:
  "base = base' \<Longrightarrow> b = b' \<Longrightarrow> struct_members packed base b fs = struct_members packed base' b' fs"
  "base = base' \<Longrightarrow> members base t = members base' t"
  "base = base' \<Longrightarrow> union_members base fs = union_members base' fs"
  by simp_all

lemmas layout_cong = let_weak_cong struct_end_cong lookup_struct_cong layout_arg_congs

lemmas members_cong = layout_cong members_congs

lemma align_up_one: "align_up x 1 = x"
  by (simp add: align_up_def)

lemma align_up_eval:
  "align_up x (numeral k) =
     (if x mod numeral k = 0 then x else x + (numeral k - x mod numeral k))"
proof -
  define a :: nat where "a = numeral k"
  define q r where "q = x div a" and "r = x mod a"
  have a: "0 < a" by (simp add: a_def)
  have x: "x = q * a + r" and r: "r < a" using a by (simp_all add: q_def r_def)
  have "x + (a - 1) = q * a + (r + (a - 1))" using x by simp
  moreover have "(q * a + (r + (a - 1))) div a = q + (r + (a - 1)) div a"
    by (rule div_mult_self3) (use a in simp)
  moreover have "(r + (a - 1)) div a = (if r = 0 then 0 else 1)"
    using r a by (auto intro!: div_nat_eqI)
  ultimately have "(x + (a - 1)) div a = q + (if r = 0 then 0 else 1)"
    by (simp only:)
  then have "align_up x a = (if r = 0 then q * a else q * a + a)"
    unfolding align_up_def by (simp add: add_mult_distrib)
  with x r show ?thesis by (simp add: a_def [symmetric] r_def [symmetric])
qed

lemma bits_to_bytes_eval: "bits_to_bytes b = (if b mod 8 = 0 then b div 8 else b div 8 + 1)"
  unfolding bits_to_bytes_def by presburger

lemmas layout_eval = align_up_one align_up_eval bits_to_bytes_eval bits_start_def Let_def scalar_size_def

section \<open>Properties of layouts\<close>

lemma align_up_ge: "0 < a \<Longrightarrow> x \<le> align_up x a"
proof -
  assume a: "0 < a"
  have "x + (a - 1) = (x + (a - 1)) div a * a + (x + (a - 1)) mod a" by simp
  moreover have "(x + (a - 1)) mod a < a" using a by (rule mod_less_divisor)
  ultimately show ?thesis unfolding align_up_def by linarith
qed

lemma align_up_dvd: "a dvd align_up x a"
  by (simp add: align_up_def)

lemma align_up_less: "0 < a \<Longrightarrow> align_up x a < x + a"
proof -
  assume a: "0 < a"
  have "(x + (a - 1)) div a * a \<le> x + (a - 1)" by simp
  also have "\<dots> < x + a" using a by simp
  finally show ?thesis by (simp only: align_up_def)
qed

lemma align_up_1 [simp]: "align_up x (Suc 0) = x"
  by (simp add: align_up_def)

lemma bits_to_bytes_ge: "b \<le> 8 * bits_to_bytes b"
  by (simp add: bits_to_bytes_def)

lemma bits_to_bytes_mono: "a \<le> b \<Longrightarrow> bits_to_bytes a \<le> bits_to_bytes b"
  by (simp add: bits_to_bytes_def div_le_mono)

lemma bits_to_bytes_8 [simp]: "bits_to_bytes (8 * n) = n"
  by (simp add: bits_to_bytes_def)

lemma bits_start_ge: "0 < unit \<Longrightarrow> b \<le> bits_start packed b unit w"
  by (auto simp: bits_start_def intro: align_up_ge)

lemma bits_start_one_unit:
  assumes "0 < unit" "0 < w" "w \<le> 8 * unit" "\<not> packed"
  shows "bits_start packed b unit w div (8 * unit)
       = (bits_start packed b unit w + (w - 1)) div (8 * unit)"
proof (cases "b div (8 * unit) = (b + (w - 1)) div (8 * unit)")
  case False
  obtain q where q: "align_up b (8 * unit) = 8 * unit * q"
    using align_up_dvd [of "8 * unit" b] by (auto elim: dvdE)
  have "(8 * unit * q + (w - 1)) div (8 * unit) = q + (w - 1) div (8 * unit)"
    using assms(1) by (simp del: mult_Suc)
  moreover have "(w - 1) div (8 * unit) = 0"
    using assms by (intro div_less) linarith
  ultimately show ?thesis using False assms q by (simp add: bits_start_def)
qed (use assms in \<open>simp add: bits_start_def\<close>)

lemma wf_align_pos:
  "wf_ctype t \<Longrightarrow> 0 < alignof t" "0 < fields_align fs"
  by (induction t and fs rule: alignof_fields_align.induct) (auto simp: scalar_size_def)

lemma struct_end_ge: "wf_fields fs \<Longrightarrow> b \<le> struct_end packed b fs"
proof (induction packed b fs rule: struct_layout.induct)
  case (2 packed b n t fs)
  let ?s = "align_up (bits_to_bytes b) (if packed then 1 else alignof t)"
  have "b \<le> 8 * bits_to_bytes b" by (rule bits_to_bytes_ge)
  also have "\<dots> \<le> 8 * ?s"
    using 2(2) wf_align_pos(1) [of t] by (intro mult_le_mono2 align_up_ge) auto
  finally have "b \<le> 8 * (?s + sizeof t)" by simp
  with 2 show ?case by (simp add: Let_def algebra_simps)
next
  case (3 packed b n t w fs)
  then have "b \<le> bits_start packed b (sizeof t) w" by (auto intro: bits_start_ge)
  with 3 show ?case by (simp add: Let_def)
qed simp

lemma struct_layout_start_ge:
  "wf_fields fs \<Longrightarrow> p \<in> set (struct_layout packed b fs) \<Longrightarrow> b \<le> pstart p"
proof (induction packed b fs rule: struct_layout.induct)
  case (2 packed b n t fs)
  let ?s = "align_up (bits_to_bytes b) (if packed then 1 else alignof t)"
  have "bits_to_bytes b \<le> ?s"
    using 2(2) wf_align_pos(1) [of t] by (intro align_up_ge) auto
  with bits_to_bytes_ge [of b] have s: "b \<le> 8 * ?s" by linarith
  from 2 s show ?case by (fastforce simp: Let_def simp del: align_up_1)
next
  case (3 packed b n t w fs)
  then have "b \<le> bits_start packed b (sizeof t) w" by (auto intro: bits_start_ge)
  with 3 show ?case by (fastforce simp: Let_def)
qed simp

lemma struct_layout_end_le:
  "wf_fields fs \<Longrightarrow> p \<in> set (struct_layout packed b fs) \<Longrightarrow>
   pstart p + pwidth p \<le> struct_end packed b fs"
proof (induction packed b fs rule: struct_layout.induct)
  case (2 packed b n t fs)
  let ?s = "8 * align_up (bits_to_bytes b) (if packed then 1 else alignof t)"
  have "?s + 8 * sizeof t \<le> struct_end packed (?s + 8 * sizeof t) fs"
    using 2(2) by (intro struct_end_ge) simp
  with 2 show ?case by (auto simp: Let_def algebra_simps)
next
  case (3 packed b n t w fs)
  let ?s = "bits_start packed b (sizeof t) w"
  have "?s + w \<le> struct_end packed (?s + w) fs"
    using 3(2) by (intro struct_end_ge) simp
  with 3 show ?case by (auto simp: Let_def)
qed simp

lemma struct_layout_sorted:
  "wf_fields fs \<Longrightarrow>
   sorted_wrt (\<lambda>p q. pstart p + pwidth p \<le> pstart q) (struct_layout packed b fs)"
  by (induction packed b fs rule: struct_layout.induct)
     (auto simp: Let_def dest: struct_layout_start_ge)

lemma struct_layout_aligned:
  "Fld n t = pfield p \<Longrightarrow> p \<in> set (struct_layout False b fs) \<Longrightarrow> 8 * alignof t dvd pstart p"
  by (induction "False" b fs rule: struct_layout.induct)
     (auto simp: Let_def align_up_dvd)

lemma sizeof_struct_covers:
  assumes "wf_fields fs"
  shows "struct_end packed 0 fs \<le> 8 * sizeof (CStruct packed fs)"
proof -
  have "bits_to_bytes (struct_end packed 0 fs) \<le> sizeof (CStruct packed fs)"
    using assms wf_align_pos(2) [of fs] by (auto intro!: align_up_ge)
  with bits_to_bytes_ge [of "struct_end packed 0 fs"] show ?thesis by linarith
qed

text \<open>
  \<open>sound_layout t\<close>: every member of \<open>t\<close> ends inside \<open>t\<close>, ordinary members of
  a type that is not packed are aligned as their type demands, and the members of a
  struct follow each other without sharing a bit.
\<close>

definition sound_layout :: "ctype \<Rightarrow> bool" where
  "sound_layout t \<longleftrightarrow>
     (\<forall>p \<in> set (field_layout t). pstart p + pwidth p \<le> 8 * sizeof t) \<and>
     (\<forall>p \<in> set (field_layout t). \<forall>n u. pfield p = Fld n u \<longrightarrow>
        (case t of CStruct packed fs \<Rightarrow> packed \<or> 8 * alignof u dvd pstart p | _ \<Rightarrow> pstart p = 0)) \<and>
     (case t of
        CStruct packed fs \<Rightarrow>
          sorted_wrt (\<lambda>p q. pstart p + pwidth p \<le> pstart q) (field_layout t)
      | _ \<Rightarrow> True)"

lemma union_end_ge: "f \<in> set fs \<Longrightarrow> field_width f \<le> 8 * union_end fs"
proof (induction fs)
  case (Cons g fs)
  have "field_width g \<le> 8 * union_end (g # fs)"
  proof (cases g)
    case (Bits n t w)
    then show ?thesis using bits_to_bytes_ge [of w] by (simp add: max_def)
  qed (simp add: max_def)
  moreover have "union_end fs \<le> union_end (g # fs)" by (cases g) auto
  ultimately show ?case using Cons by (auto intro: le_trans)
qed simp

lemma wf_sound_layout:
  assumes "wf_ctype t"
  shows "sound_layout t"
proof (cases t)
  case (CStruct packed fs)
  with assms have fs: "wf_fields fs" by simp
  have "pstart p + pwidth p \<le> 8 * sizeof t" if "p \<in> set (struct_layout packed 0 fs)" for p
    using struct_layout_end_le [OF fs that] sizeof_struct_covers [OF fs, of packed]
    unfolding CStruct by linarith
  moreover have "packed \<or> 8 * alignof u dvd pstart p"
    if "p \<in> set (struct_layout packed 0 fs)" "pfield p = Fld n u" for p n u
    using struct_layout_aligned [of n u p 0 fs] that by (cases packed) auto
  ultimately show ?thesis
    using CStruct struct_layout_sorted [OF fs, of packed 0] by (auto simp: sound_layout_def)
next
  case (CUnion packed fs)
  have "union_end fs \<le> sizeof t"
    using CUnion wf_align_pos(2) [of fs] by (auto intro!: align_up_ge)
  then have "field_width f \<le> 8 * sizeof t" if "f \<in> set fs" for f
    using union_end_ge [OF that] by linarith
  with CUnion show ?thesis by (auto simp: sound_layout_def)
qed (simp_all add: sound_layout_def)

end
