(* ===== verification/Kernel_Socket.thy ===== *)
theory Kernel_Socket
  imports CLayout
begin

text \<open>
  Sockets and registers: the kernel types of \<^verbatim>\<open>internal/network/ebpf/bpf/vmlinux.h\<close>
  that matter here, with everything they contain by value, in dependency order:
  the socket types the probe reads from: \<^verbatim>\<open>struct tcp_sock\<close>, the object behind the
  socket pointer that \<^verbatim>\<open>tcp_v4_connect\<close> receives, with \<^verbatim>\<open>struct sock\<close> and
  \<^verbatim>\<open>struct sock_common\<close> inside it, and \<^verbatim>\<open>struct pt_regs\<close>, the context a kprobe runs in.
  One definition per C type (a type of more than 150 lines is split into member lists);
  members keep their names and order, every pointer is \<open>CPtr\<close>. A member declaration
  that only names a tag declares nothing and has no counterpart.
\<close>

definition typedef___u64 :: ctype where
  "typedef___u64 = CInt 8"

definition typedef___addrpair :: ctype where
  "typedef___addrpair = typedef___u64"

definition typedef___u32 :: ctype where
  "typedef___u32 = CInt 4"

definition typedef___be32 :: ctype where
  "typedef___be32 = typedef___u32"

definition typedef___u16 :: ctype where
  "typedef___u16 = CInt 2"

definition typedef___portpair :: ctype where
  "typedef___portpair = typedef___u32"

definition typedef___be16 :: ctype where
  "typedef___be16 = typedef___u16"

definition struct_hlist_node :: ctype where
  "struct_hlist_node = CStruct False
    [Fld ''next'' CPtr,
     Fld ''pprev'' CPtr]"

definition typedef_possible_net_t :: ctype where
  "typedef_possible_net_t = CStruct False
    [Fld ''net'' CPtr]"

definition typedef___u8 :: ctype where
  "typedef___u8 = CInt 1"

definition struct_in6_addr :: ctype where
  "struct_in6_addr = CStruct False
    [Fld ''in6_u'' (CUnion False
       [Fld ''u6_addr8'' (CArr typedef___u8 16),
        Fld ''u6_addr16'' (CArr typedef___be16 8),
        Fld ''u6_addr32'' (CArr typedef___be32 4)])]"

definition typedef___s64 :: ctype where
  "typedef___s64 = CInt 8"

definition typedef_s64 :: ctype where
  "typedef_s64 = typedef___s64"

definition typedef_atomic64_t :: ctype where
  "typedef_atomic64_t = CStruct False
    [Fld ''counter'' typedef_s64]"

definition struct_hlist_nulls_node :: ctype where
  "struct_hlist_nulls_node = CStruct False
    [Fld ''next'' CPtr,
     Fld ''pprev'' CPtr]"

definition typedef_u32 :: ctype where
  "typedef_u32 = typedef___u32"

definition typedef_atomic_t :: ctype where
  "typedef_atomic_t = CStruct False
    [Fld ''counter'' (CInt 4)]"

definition struct_refcount_struct :: ctype where
  "struct_refcount_struct = CStruct False
    [Fld ''refs'' typedef_atomic_t]"

definition typedef_refcount_t :: ctype where
  "typedef_refcount_t = struct_refcount_struct"

definition struct_sock_common :: ctype where
  "struct_sock_common = CStruct False
    [Fld '''' (CUnion False
       [Fld ''skc_addrpair'' typedef___addrpair,
        Fld '''' (CStruct False
          [Fld ''skc_daddr'' typedef___be32,
           Fld ''skc_rcv_saddr'' typedef___be32])]),
     Fld '''' (CUnion False
       [Fld ''skc_hash'' (CInt 4),
        Fld ''skc_u16hashes'' (CArr typedef___u16 2)]),
     Fld '''' (CUnion False
       [Fld ''skc_portpair'' typedef___portpair,
        Fld '''' (CStruct False
          [Fld ''skc_dport'' typedef___be16,
           Fld ''skc_num'' typedef___u16])]),
     Fld ''skc_family'' (CInt 2),
     Fld ''skc_state'' (CInt 1),
     Bits ''skc_reuse'' (CInt 1) 4,
     Bits ''skc_reuseport'' (CInt 1) 1,
     Bits ''skc_ipv6only'' (CInt 1) 1,
     Bits ''skc_net_refcnt'' (CInt 1) 1,
     Bits ''skc_bypass_prot_mem'' (CInt 1) 1,
     Fld ''skc_bound_dev_if'' (CInt 4),
     Fld '''' (CUnion False
       [Fld ''skc_bind_node'' struct_hlist_node,
        Fld ''skc_portaddr_node'' struct_hlist_node]),
     Fld ''skc_prot'' CPtr,
     Fld ''skc_net'' typedef_possible_net_t,
     Fld ''skc_v6_daddr'' struct_in6_addr,
     Fld ''skc_v6_rcv_saddr'' struct_in6_addr,
     Fld ''skc_cookie'' typedef_atomic64_t,
     Fld '''' (CUnion False
       [Fld ''skc_flags'' (CInt 8),
        Fld ''skc_listener'' CPtr,
        Fld ''skc_tw_dr'' CPtr]),
     Fld ''skc_dontcopy_begin'' (CArr (CInt 4) 0),
     Fld '''' (CUnion False
       [Fld ''skc_node'' struct_hlist_node,
        Fld ''skc_nulls_node'' struct_hlist_nulls_node]),
     Fld ''skc_tx_queue_mapping'' (CInt 2),
     Fld ''skc_rx_queue_mapping'' (CInt 2),
     Fld '''' (CUnion False
       [Fld ''skc_incoming_cpu'' (CInt 4),
        Fld ''skc_rcv_wnd'' typedef_u32,
        Fld ''skc_tw_rcv_nxt'' typedef_u32]),
     Fld ''skc_refcnt'' typedef_refcount_t,
     Fld ''skc_dontcopy_end'' (CArr (CInt 4) 0),
     Fld '''' (CUnion False
       [Fld ''skc_rxhash'' typedef_u32,
        Fld ''skc_window_clamp'' typedef_u32,
        Fld ''skc_tw_snd_nxt'' typedef_u32])]"

definition typedef___s32 :: ctype where
  "typedef___s32 = CInt 4"

definition struct_sk_buff_list :: ctype where
  "struct_sk_buff_list = CStruct False
    [Fld ''next'' CPtr,
     Fld ''prev'' CPtr]"

definition typedef_u8 :: ctype where
  "typedef_u8 = typedef___u8"

definition typedef_u16 :: ctype where
  "typedef_u16 = typedef___u16"

definition struct_qspinlock :: ctype where
  "struct_qspinlock = CStruct False
    [Fld '''' (CUnion False
       [Fld ''val'' typedef_atomic_t,
        Fld '''' (CStruct False
          [Fld ''locked'' typedef_u8,
           Fld ''pending'' typedef_u8]),
        Fld '''' (CStruct False
          [Fld ''locked_pending'' typedef_u16,
           Fld ''tail'' typedef_u16])])]"

definition typedef_arch_spinlock_t :: ctype where
  "typedef_arch_spinlock_t = struct_qspinlock"

definition struct_raw_spinlock :: ctype where
  "struct_raw_spinlock = CStruct False
    [Fld ''raw_lock'' typedef_arch_spinlock_t]"

definition struct_spinlock :: ctype where
  "struct_spinlock = CStruct False
    [Fld '''' (CUnion False
       [Fld ''rlock'' struct_raw_spinlock])]"

definition typedef_spinlock_t :: ctype where
  "typedef_spinlock_t = struct_spinlock"

definition struct_sk_buff_head :: ctype where
  "struct_sk_buff_head = CStruct False
    [Fld '''' (CUnion False
       [Fld '''' (CStruct False
          [Fld ''next'' CPtr,
           Fld ''prev'' CPtr]),
        Fld ''list'' struct_sk_buff_list]),
     Fld ''qlen'' typedef___u32,
     Fld ''lock'' typedef_spinlock_t]"

definition struct_list_head :: ctype where
  "struct_list_head = CStruct False
    [Fld ''next'' CPtr,
     Fld ''prev'' CPtr]"

definition struct_wait_queue_head :: ctype where
  "struct_wait_queue_head = CStruct False
    [Fld ''lock'' typedef_spinlock_t,
     Fld ''head'' struct_list_head]"

definition typedef_wait_queue_head_t :: ctype where
  "typedef_wait_queue_head_t = struct_wait_queue_head"

definition typedef_socket_lock_t :: ctype where
  "typedef_socket_lock_t = CStruct False
    [Fld '''' (CUnion False
       [Fld ''combined'' (CInt 8)]),
     Fld ''wq'' typedef_wait_queue_head_t]"

definition struct_rb_root :: ctype where
  "struct_rb_root = CStruct False
    [Fld ''rb_node'' CPtr]"

definition struct_page_frag :: ctype where
  "struct_page_frag = CStruct False
    [Fld ''page'' CPtr,
     Fld ''offset'' typedef___u32,
     Fld ''size'' typedef___u32]"

definition struct_timer_list :: ctype where
  "struct_timer_list = CStruct False
    [Fld ''entry'' struct_hlist_node,
     Fld ''expires'' (CInt 8),
     Fld ''function'' CPtr,
     Fld ''flags'' typedef_u32]"

definition typedef___kernel_uid32_t :: ctype where
  "typedef___kernel_uid32_t = CInt 4"

definition typedef_uid_t :: ctype where
  "typedef_uid_t = typedef___kernel_uid32_t"

definition typedef_kuid_t :: ctype where
  "typedef_kuid_t = CStruct False
    [Fld ''val'' typedef_uid_t]"

definition typedef_u64 :: ctype where
  "typedef_u64 = typedef___u64"

definition typedef_netdev_features_t :: ctype where
  "typedef_netdev_features_t = typedef_u64"

definition typedef_gfp_t :: ctype where
  "typedef_gfp_t = CInt 4"

definition typedef_bool :: ctype where
  "typedef_bool = CInt 1"

definition struct_qrwlock :: ctype where
  "struct_qrwlock = CStruct False
    [Fld '''' (CUnion False
       [Fld ''cnts'' typedef_atomic_t,
        Fld '''' (CStruct False
          [Fld ''wlocked'' typedef_u8,
           Fld ''__lstate'' (CArr typedef_u8 3)])]),
     Fld ''wait_lock'' typedef_arch_spinlock_t]"

definition typedef_arch_rwlock_t :: ctype where
  "typedef_arch_rwlock_t = struct_qrwlock"

definition struct_rwlock :: ctype where
  "struct_rwlock = CStruct False
    [Fld ''raw_lock'' typedef_arch_rwlock_t]"

definition typedef_rwlock_t :: ctype where
  "typedef_rwlock_t = struct_rwlock"

definition typedef_ktime_t :: ctype where
  "typedef_ktime_t = typedef_s64"

definition struct_sock_cgroup_data :: ctype where
  "struct_sock_cgroup_data = CStruct False
    [Fld ''cgroup'' CPtr,
     Fld ''classid'' typedef_u32,
     Fld ''prioidx'' typedef_u16]"

definition struct_callback_head :: ctype where
  "struct_callback_head = CStruct False
    [Fld ''next'' CPtr,
     Fld ''func'' CPtr]"

definition typedef_freeptr_t :: ctype where
  "typedef_freeptr_t = CStruct False
    [Fld ''v'' (CInt 8)]"

definition typedef_netns_tracker :: ctype where
  "typedef_netns_tracker = CStruct False
    []"

definition struct_xarray :: ctype where
  "struct_xarray = CStruct False
    [Fld ''xa_lock'' typedef_spinlock_t,
     Fld ''xa_flags'' typedef_gfp_t,
     Fld ''xa_head'' CPtr]"

definition struct_sock :: ctype where
  "struct_sock = CStruct False
    [Fld ''__sk_common'' struct_sock_common,
     Fld ''__cacheline_group_begin__sock_write_rx'' (CArr typedef___u8 0),
     Fld ''sk_drops'' typedef_atomic_t,
     Fld ''sk_peek_off'' typedef___s32,
     Fld ''sk_error_queue'' struct_sk_buff_head,
     Fld ''sk_receive_queue'' struct_sk_buff_head,
     Fld ''sk_backlog'' (CStruct False
       [Fld ''rmem_alloc'' typedef_atomic_t,
        Fld ''len'' (CInt 4),
        Fld ''head'' CPtr,
        Fld ''tail'' CPtr]),
     Fld ''__cacheline_group_end__sock_write_rx'' (CArr typedef___u8 0),
     Fld ''__cacheline_group_begin__sock_read_rx'' (CArr typedef___u8 0),
     Fld ''sk_rx_dst'' CPtr,
     Fld ''sk_rx_dst_ifindex'' (CInt 4),
     Fld ''sk_rx_dst_cookie'' typedef_u32,
     Fld ''sk_ll_usec'' (CInt 4),
     Fld ''sk_napi_id'' (CInt 4),
     Fld ''sk_busy_poll_budget'' typedef_u16,
     Fld ''sk_prefer_busy_poll'' typedef_u8,
     Fld ''sk_userlocks'' typedef_u8,
     Fld ''sk_rcvbuf'' (CInt 4),
     Fld ''sk_filter'' CPtr,
     Fld '''' (CUnion False
       [Fld ''sk_wq'' CPtr,
        Fld ''sk_wq_raw'' CPtr]),
     Fld ''sk_data_ready'' CPtr,
     Fld ''sk_rcvtimeo'' (CInt 8),
     Fld ''sk_rcvlowat'' (CInt 4),
     Fld ''__cacheline_group_end__sock_read_rx'' (CArr typedef___u8 0),
     Fld ''__cacheline_group_begin__sock_read_rxtx'' (CArr typedef___u8 0),
     Fld ''sk_err'' (CInt 4),
     Fld ''sk_socket'' CPtr,
     Fld ''sk_memcg'' CPtr,
     Fld ''sk_policy'' (CArr CPtr 2),
     Fld ''__cacheline_group_end__sock_read_rxtx'' (CArr typedef___u8 0),
     Fld ''__cacheline_group_begin__sock_write_rxtx'' (CArr typedef___u8 0),
     Fld ''sk_lock'' typedef_socket_lock_t,
     Fld ''sk_reserved_mem'' typedef_u32,
     Fld ''sk_forward_alloc'' (CInt 4),
     Fld ''sk_tsflags'' typedef_u32,
     Fld ''__cacheline_group_end__sock_write_rxtx'' (CArr typedef___u8 0),
     Fld ''__cacheline_group_begin__sock_write_tx'' (CArr typedef___u8 0),
     Fld ''sk_write_pending'' (CInt 4),
     Fld ''sk_omem_alloc'' typedef_atomic_t,
     Fld ''sk_err_soft'' (CInt 4),
     Fld ''sk_wmem_queued'' (CInt 4),
     Fld ''sk_wmem_alloc'' typedef_refcount_t,
     Fld ''sk_tsq_flags'' (CInt 8),
     Fld '''' (CUnion False
       [Fld ''sk_send_head'' CPtr,
        Fld ''tcp_rtx_queue'' struct_rb_root]),
     Fld ''sk_write_queue'' struct_sk_buff_head,
     Fld ''sk_frag'' struct_page_frag,
     Fld '''' (CUnion False
       [Fld ''sk_timer'' struct_timer_list,
        Fld ''tcp_retransmit_timer'' struct_timer_list,
        Fld ''mptcp_retransmit_timer'' struct_timer_list]),
     Fld ''sk_pacing_rate'' (CInt 8),
     Fld ''sk_zckey'' typedef_atomic_t,
     Fld ''sk_tskey'' typedef_atomic_t,
     Fld ''sk_tx_queue_mapping_jiffies'' (CInt 8),
     Fld ''__cacheline_group_end__sock_write_tx'' (CArr typedef___u8 0),
     Fld ''__cacheline_group_begin__sock_read_tx'' (CArr typedef___u8 0),
     Fld ''sk_dst_pending_confirm'' typedef_u32,
     Fld ''sk_pacing_status'' typedef_u32,
     Fld ''sk_max_pacing_rate'' (CInt 8),
     Fld ''sk_sndtimeo'' (CInt 8),
     Fld ''sk_priority'' typedef_u32,
     Fld ''sk_mark'' typedef_u32,
     Fld ''sk_uid'' typedef_kuid_t,
     Fld ''sk_protocol'' typedef_u16,
     Fld ''sk_type'' typedef_u16,
     Fld ''sk_dst_cache'' CPtr,
     Fld ''sk_route_caps'' typedef_netdev_features_t,
     Fld ''sk_validate_xmit_skb'' CPtr,
     Fld ''sk_gso_type'' typedef_u16,
     Fld ''sk_gso_max_segs'' typedef_u16,
     Fld ''sk_gso_max_size'' (CInt 4),
     Fld ''sk_allocation'' typedef_gfp_t,
     Fld ''sk_txhash'' typedef_u32,
     Fld ''sk_sndbuf'' (CInt 4),
     Fld ''sk_pacing_shift'' typedef_u8,
     Fld ''sk_use_task_frag'' typedef_bool,
     Fld ''__cacheline_group_end__sock_read_tx'' (CArr typedef___u8 0),
     Bits ''sk_gso_disabled'' typedef_u8 1,
     Bits ''sk_kern_sock'' typedef_u8 1,
     Bits ''sk_no_check_tx'' typedef_u8 1,
     Bits ''sk_no_check_rx'' typedef_u8 1,
     Fld ''sk_shutdown'' typedef_u8,
     Fld ''sk_lingertime'' (CInt 8),
     Fld ''sk_prot_creator'' CPtr,
     Fld ''sk_callback_lock'' typedef_rwlock_t,
     Fld ''sk_ack_backlog'' typedef_u32,
     Fld ''sk_max_ack_backlog'' typedef_u32,
     Fld ''sk_ino'' typedef_u64,
     Fld ''sk_peer_lock'' typedef_spinlock_t,
     Fld ''sk_bind_phc'' (CInt 4),
     Fld ''sk_peer_pid'' CPtr,
     Fld ''sk_peer_cred'' CPtr,
     Fld ''sk_stamp'' typedef_ktime_t,
     Fld ''sk_disconnects'' (CInt 4),
     Fld '''' (CUnion False
       [Fld ''sk_txrehash'' typedef_u8,
        Fld ''sk_scm_recv_flags'' typedef_u8,
        Fld '''' (CStruct False
          [Bits ''sk_scm_credentials'' typedef_u8 1,
           Bits ''sk_scm_security'' typedef_u8 1,
           Bits ''sk_scm_pidfd'' typedef_u8 1,
           Bits ''sk_scm_rights'' typedef_u8 1,
           Bits ''sk_scm_unused'' typedef_u8 4])]),
     Fld ''sk_clockid'' typedef_u8,
     Bits ''sk_txtime_deadline_mode'' typedef_u8 1,
     Bits ''sk_txtime_report_errors'' typedef_u8 1,
     Bits ''sk_txtime_unused'' typedef_u8 6,
     Fld ''sk_bpf_cb_flags'' typedef_u8,
     Fld ''sk_user_data'' CPtr,
     Fld ''sk_security'' CPtr,
     Fld ''sk_cgrp_data'' struct_sock_cgroup_data,
     Fld ''sk_state_change'' CPtr,
     Fld ''sk_write_space'' CPtr,
     Fld ''sk_error_report'' CPtr,
     Fld ''sk_backlog_rcv'' CPtr,
     Fld ''sk_destruct'' CPtr,
     Fld ''sk_reuseport_cb'' CPtr,
     Fld ''sk_bpf_storage'' CPtr,
     Fld ''sk_drop_counters'' CPtr,
     Fld '''' (CUnion False
       [Fld ''sk_rcu'' struct_callback_head,
        Fld ''sk_freeptr'' typedef_freeptr_t]),
     Fld ''ns_tracker'' typedef_netns_tracker,
     Fld ''sk_user_frags'' struct_xarray]"

definition typedef___s16 :: ctype where
  "typedef___s16 = CInt 2"

definition struct_inet_cork :: ctype where
  "struct_inet_cork = CStruct False
    [Fld ''flags'' (CInt 4),
     Fld ''addr'' typedef___be32,
     Fld ''opt'' CPtr,
     Fld ''fragsize'' (CInt 4),
     Fld ''length'' (CInt 4),
     Fld ''dst'' CPtr,
     Fld ''tx_flags'' typedef_u8,
     Fld ''ttl'' typedef___u8,
     Fld ''tos'' typedef___s16,
     Fld ''priority'' typedef_u32,
     Fld ''gso_size'' typedef___u16,
     Fld ''ts_opt_id'' typedef_u32,
     Fld ''transmit_time'' typedef_u64,
     Fld ''mark'' typedef_u32]"

definition typedef_dscp_t :: ctype where
  "typedef_dscp_t = typedef_u8"

definition typedef___be64 :: ctype where
  "typedef___be64 = typedef___u64"

definition struct_flowi_tunnel :: ctype where
  "struct_flowi_tunnel = CStruct False
    [Fld ''tun_id'' typedef___be64]"

definition struct_flowi_common :: ctype where
  "struct_flowi_common = CStruct False
    [Fld ''flowic_oif'' (CInt 4),
     Fld ''flowic_iif'' (CInt 4),
     Fld ''flowic_l3mdev'' (CInt 4),
     Fld ''flowic_mark'' typedef___u32,
     Fld ''flowic_dscp'' typedef_dscp_t,
     Fld ''flowic_scope'' typedef___u8,
     Fld ''flowic_proto'' typedef___u8,
     Fld ''flowic_flags'' typedef___u8,
     Fld ''flowic_secid'' typedef___u32,
     Fld ''flowic_uid'' typedef_kuid_t,
     Fld ''flowic_multipath_hash'' typedef___u32,
     Fld ''flowic_tun_key'' struct_flowi_tunnel]"

definition union_flowi_uli :: ctype where
  "union_flowi_uli = CUnion False
    [Fld ''ports'' (CStruct False
       [Fld ''dport'' typedef___be16,
        Fld ''sport'' typedef___be16]),
     Fld ''icmpt'' (CStruct False
       [Fld ''type'' typedef___u8,
        Fld ''code'' typedef___u8]),
     Fld ''gre_key'' typedef___be32,
     Fld ''mht'' (CStruct False
       [Fld ''type'' typedef___u8])]"

definition struct_flowi4 :: ctype where
  "struct_flowi4 = CStruct False
    [Fld ''__fl_common'' struct_flowi_common,
     Fld ''saddr'' typedef___be32,
     Fld ''daddr'' typedef___be32,
     Fld ''uli'' union_flowi_uli]"

definition struct_flowi6 :: ctype where
  "struct_flowi6 = CStruct False
    [Fld ''__fl_common'' struct_flowi_common,
     Fld ''daddr'' struct_in6_addr,
     Fld ''saddr'' struct_in6_addr,
     Fld ''flowlabel'' typedef___be32,
     Fld ''uli'' union_flowi_uli,
     Fld ''mp_hash'' typedef___u32]"

definition struct_flowi :: ctype where
  "struct_flowi = CStruct False
    [Fld ''u'' (CUnion False
       [Fld ''__fl_common'' struct_flowi_common,
        Fld ''ip4'' struct_flowi4,
        Fld ''ip6'' struct_flowi6])]"

definition struct_inet6_cork :: ctype where
  "struct_inet6_cork = CStruct False
    [Fld ''opt'' CPtr,
     Fld ''hop_limit'' typedef_u8,
     Fld ''tclass'' typedef_u8,
     Bits ''dontfrag'' typedef_u8 1]"

definition struct_inet_cork_full :: ctype where
  "struct_inet_cork_full = CStruct False
    [Fld ''base'' struct_inet_cork,
     Fld ''fl'' struct_flowi,
     Fld ''base6'' struct_inet6_cork]"

definition struct_inet_sock :: ctype where
  "struct_inet_sock = CStruct False
    [Fld ''sk'' struct_sock,
     Fld ''pinet6'' CPtr,
     Fld ''ipv6_fl_list'' CPtr,
     Fld ''inet_flags'' (CInt 8),
     Fld ''inet_saddr'' typedef___be32,
     Fld ''uc_ttl'' typedef___s16,
     Fld ''inet_sport'' typedef___be16,
     Fld ''inet_opt'' CPtr,
     Fld ''inet_id'' typedef_atomic_t,
     Fld ''tos'' typedef___u8,
     Fld ''min_ttl'' typedef___u8,
     Fld ''mc_ttl'' typedef___u8,
     Fld ''pmtudisc'' typedef___u8,
     Fld ''rcv_tos'' typedef___u8,
     Fld ''convert_csum'' typedef___u8,
     Fld ''uc_index'' (CInt 4),
     Fld ''mc_index'' (CInt 4),
     Fld ''mc_addr'' typedef___be32,
     Fld ''local_port_range'' typedef_u32,
     Fld ''mc_list'' CPtr,
     Fld ''cork'' struct_inet_cork_full]"

definition struct_fastopen_queue :: ctype where
  "struct_fastopen_queue = CStruct False
    [Fld ''rskq_rst_head'' CPtr,
     Fld ''rskq_rst_tail'' CPtr,
     Fld ''lock'' typedef_spinlock_t,
     Fld ''qlen'' (CInt 4),
     Fld ''max_qlen'' (CInt 4),
     Fld ''ctx'' CPtr]"

definition struct_request_sock_queue :: ctype where
  "struct_request_sock_queue = CStruct False
    [Fld ''rskq_lock'' typedef_spinlock_t,
     Fld ''rskq_defer_accept'' typedef_u8,
     Fld ''synflood_warned'' typedef_u8,
     Fld ''qlen'' typedef_atomic_t,
     Fld ''young'' typedef_atomic_t,
     Fld ''rskq_accept_head'' CPtr,
     Fld ''rskq_accept_tail'' CPtr,
     Fld ''fastopenq'' struct_fastopen_queue]"

definition struct_inet_connection_sock :: ctype where
  "struct_inet_connection_sock = CStruct False
    [Fld ''icsk_inet'' struct_inet_sock,
     Fld ''icsk_accept_queue'' struct_request_sock_queue,
     Fld ''icsk_bind_hash'' CPtr,
     Fld ''icsk_bind2_hash'' CPtr,
     Fld ''icsk_delack_timer'' struct_timer_list,
     Fld '''' (CUnion False
       [Fld ''icsk_keepalive_timer'' struct_timer_list,
        Fld ''mptcp_tout_timer'' struct_timer_list]),
     Fld ''icsk_rto'' typedef___u32,
     Fld ''icsk_rto_min'' typedef___u32,
     Fld ''icsk_rto_max'' typedef_u32,
     Fld ''icsk_delack_max'' typedef___u32,
     Fld ''icsk_pmtu_cookie'' typedef___u32,
     Fld ''icsk_ca_ops'' CPtr,
     Fld ''icsk_af_ops'' CPtr,
     Fld ''icsk_ulp_ops'' CPtr,
     Fld ''icsk_ulp_data'' CPtr,
     Fld ''icsk_sync_mss'' CPtr,
     Bits ''icsk_ca_state'' typedef___u8 5,
     Bits ''icsk_ca_initialized'' typedef___u8 1,
     Bits ''icsk_ca_setsockopt'' typedef___u8 1,
     Bits ''icsk_ca_dst_locked'' typedef___u8 1,
     Fld ''icsk_retransmits'' typedef___u8,
     Fld ''icsk_pending'' typedef___u8,
     Fld ''icsk_backoff'' typedef___u8,
     Fld ''icsk_syn_retries'' typedef___u8,
     Fld ''icsk_probes_out'' typedef___u8,
     Fld ''icsk_ext_hdr_len'' typedef___u16,
     Fld ''icsk_ack'' (CStruct False
       [Fld ''pending'' typedef___u8,
        Fld ''quick'' typedef___u8,
        Fld ''pingpong'' typedef___u8,
        Fld ''retry'' typedef___u8,
        Bits ''ato'' typedef___u32 8,
        Bits ''lrcv_flowlabel'' typedef___u32 20,
        Bits ''dst_quick_ack'' typedef___u32 1,
        Bits ''unused'' typedef___u32 3,
        Fld ''lrcvtime'' typedef___u32,
        Fld ''last_seg_size'' typedef___u16,
        Fld ''rcv_mss'' typedef___u16]),
     Fld ''icsk_mtup'' (CStruct False
       [Fld ''search_high'' (CInt 4),
        Fld ''search_low'' (CInt 4),
        Bits ''probe_size'' typedef_u32 31,
        Bits ''enabled'' typedef_u32 1,
        Fld ''probe_timestamp'' typedef_u32]),
     Fld ''icsk_probes_tstamp'' typedef_u32,
     Fld ''icsk_user_timeout'' typedef_u32,
     Fld ''icsk_ca_priv'' (CArr typedef_u64 13)]"

definition struct_minmax_sample :: ctype where
  "struct_minmax_sample = CStruct False
    [Fld ''t'' typedef_u32,
     Fld ''v'' typedef_u32]"

definition struct_minmax :: ctype where
  "struct_minmax = CStruct False
    [Fld ''s'' (CArr struct_minmax_sample 3)]"

definition struct_tcp_options_received :: ctype where
  "struct_tcp_options_received = CStruct False
    [Fld ''ts_recent_stamp'' (CInt 4),
     Fld ''ts_recent'' typedef_u32,
     Fld ''rcv_tsval'' typedef_u32,
     Fld ''rcv_tsecr'' typedef_u32,
     Bits ''saw_tstamp'' typedef_u16 1,
     Bits ''tstamp_ok'' typedef_u16 1,
     Bits ''dsack'' typedef_u16 1,
     Bits ''wscale_ok'' typedef_u16 1,
     Bits ''sack_ok'' typedef_u16 3,
     Bits ''smc_ok'' typedef_u16 1,
     Bits ''snd_wscale'' typedef_u16 4,
     Bits ''rcv_wscale'' typedef_u16 4,
     Bits ''accecn'' typedef_u8 6,
     Bits ''saw_unknown'' typedef_u8 1,
     Bits ''unused'' typedef_u8 1,
     Fld ''num_sacks'' typedef_u8,
     Fld ''user_mss'' typedef_u16,
     Fld ''mss_clamp'' typedef_u16]"

definition struct_tcp_rack :: ctype where
  "struct_tcp_rack = CStruct False
    [Fld ''mstamp'' typedef_u64,
     Fld ''rtt_us'' typedef_u32,
     Fld ''end_seq'' typedef_u32,
     Fld ''last_delivered'' typedef_u32,
     Fld ''reo_wnd_steps'' typedef_u8,
     Bits ''reo_wnd_persist'' typedef_u8 5,
     Bits ''dsack_seen'' typedef_u8 1,
     Bits ''advanced'' typedef_u8 1]"

definition struct_rb_node :: ctype where
  "struct_rb_node = CStruct False
    [Fld ''__rb_parent_color'' (CInt 8),
     Fld ''rb_right'' CPtr,
     Fld ''rb_left'' CPtr]"

definition struct_rb_node_linked :: ctype where
  "struct_rb_node_linked = CStruct False
    [Fld ''node'' struct_rb_node,
     Fld ''prev'' CPtr,
     Fld ''next'' CPtr]"

definition struct_timerqueue_linked_node :: ctype where
  "struct_timerqueue_linked_node = CStruct False
    [Fld ''node'' struct_rb_node_linked,
     Fld ''expires'' typedef_ktime_t]"

definition struct_hrtimer :: ctype where
  "struct_hrtimer = CStruct False
    [Fld ''node'' struct_timerqueue_linked_node,
     Fld ''base'' CPtr,
     Fld ''is_queued'' typedef_bool,
     Fld ''is_rel'' typedef_bool,
     Fld ''is_soft'' typedef_bool,
     Fld ''is_hard'' typedef_bool,
     Fld ''is_lazy'' typedef_bool,
     Fld ''_softexpires'' typedef_ktime_t,
     Fld ''function'' CPtr]"

definition struct_tcp_sack_block :: ctype where
  "struct_tcp_sack_block = CStruct False
    [Fld ''start_seq'' typedef_u32,
     Fld ''end_seq'' typedef_u32]"

definition struct_tcp_sock_part1 :: "cfield list" where
  "struct_tcp_sock_part1 =
    [Fld ''inet_conn'' struct_inet_connection_sock,
     Fld ''__cacheline_group_begin__tcp_sock_read_tx'' (CArr typedef___u8 0),
     Fld ''max_window'' typedef_u32,
     Fld ''rcv_ssthresh'' typedef_u32,
     Fld ''reordering'' typedef_u32,
     Fld ''notsent_lowat'' typedef_u32,
     Fld ''gso_segs'' typedef_u16,
     Fld ''retransmit_skb_hint'' CPtr,
     Fld ''tcp_clean_acked'' CPtr,
     Fld ''__cacheline_group_end__tcp_sock_read_tx'' (CArr typedef___u8 0),
     Fld ''__cacheline_group_begin__tcp_sock_read_txrx'' (CArr typedef___u8 0),
     Fld ''tsoffset'' typedef_u32,
     Fld ''snd_wnd'' typedef_u32,
     Fld ''mss_cache'' typedef_u32,
     Fld ''snd_cwnd'' typedef_u32,
     Fld ''prr_out'' typedef_u32,
     Fld ''lost_out'' typedef_u32,
     Fld ''sacked_out'' typedef_u32,
     Fld ''tcp_header_len'' typedef_u16,
     Fld ''scaling_ratio'' typedef_u8,
     Bits ''repair'' typedef_u8 1,
     Bits ''tcp_usec_ts'' typedef_u8 1,
     Bits ''is_sack_reneg'' typedef_u8 1,
     Bits ''is_cwnd_limited'' typedef_u8 1,
     Bits ''recvmsg_inq'' typedef_u8 1,
     Fld ''__cacheline_group_end__tcp_sock_read_txrx'' (CArr typedef___u8 0),
     Fld ''__cacheline_group_begin__tcp_sock_read_rx'' (CArr typedef___u8 0),
     Fld ''copied_seq'' typedef_u32,
     Fld ''snd_wl1'' typedef_u32,
     Fld ''tlp_high_seq'' typedef_u32,
     Fld ''rttvar_us'' typedef_u32,
     Fld ''retrans_out'' typedef_u32,
     Fld ''advmss'' typedef_u16,
     Fld ''urg_data'' typedef_u16,
     Fld ''lost'' typedef_u32,
     Fld ''snd_ssthresh'' typedef_u32,
     Fld ''rtt_min'' struct_minmax,
     Fld ''out_of_order_queue'' struct_rb_root,
     Fld ''__cacheline_group_end__tcp_sock_read_rx'' (CArr typedef___u8 0),
     Bits '''' (CInt 8) 64,
     Bits '''' (CInt 8) 64,
     Bits '''' (CInt 8) 64,
     Bits '''' (CInt 8) 64,
     Fld ''__cacheline_group_begin__tcp_sock_write_tx'' (CArr typedef___u8 0),
     Fld ''segs_out'' typedef_u32,
     Fld ''data_segs_out'' typedef_u32,
     Fld ''bytes_sent'' typedef_u64,
     Fld ''snd_sml'' typedef_u32,
     Fld ''chrono_type'' typedef_u8,
     Fld ''chrono_start'' typedef_u32,
     Fld ''chrono_stat'' (CArr typedef_u32 3),
     Fld ''write_seq'' typedef_u32,
     Fld ''pushed_seq'' typedef_u32,
     Fld ''lsndtime'' typedef_u32,
     Fld ''mdev_us'' typedef_u32,
     Fld ''rtt_seq'' typedef_u32,
     Fld ''tcp_wstamp_ns'' typedef_u64,
     Fld ''accecn_opt_tstamp'' typedef_u64,
     Fld ''tsorted_sent_queue'' struct_list_head,
     Fld ''highest_sack'' CPtr,
     Fld ''ecn_flags'' typedef_u8,
     Fld ''__cacheline_group_end__tcp_sock_write_tx'' (CArr typedef___u8 0),
     Fld ''__cacheline_group_begin__tcp_sock_write_txrx'' (CArr typedef___u8 0),
     Bits ''nonagle'' typedef_u8 4,
     Bits ''rate_app_limited'' typedef_u8 1,
     Bits '''' (CInt 2) 3,
     Bits ''received_ce_pending'' typedef_u8 4,
     Bits ''accecn_opt_sent_w_dsack'' typedef_u8 1,
     Bits ''unused2'' typedef_u8 3,
     Bits ''accecn_minlen'' typedef_u8 2,
     Bits ''est_ecnfield'' typedef_u8 2,
     Bits ''accecn_opt_demand'' typedef_u8 2,
     Bits ''prev_ecnfield'' typedef_u8 2,
     Fld ''pred_flags'' typedef___be32,
     Fld ''tcp_clock_cache'' typedef_u64,
     Fld ''tcp_mstamp'' typedef_u64,
     Fld ''rcv_nxt'' typedef_u32,
     Fld ''snd_nxt'' typedef_u32,
     Fld ''snd_una'' typedef_u32,
     Fld ''window_clamp'' typedef_u32,
     Fld ''srtt_us'' typedef_u32,
     Fld ''packets_out'' typedef_u32,
     Fld ''snd_up'' typedef_u32,
     Fld ''delivered'' typedef_u32,
     Fld ''delivered_ce'' typedef_u32,
     Fld ''received_ce'' typedef_u32,
     Fld ''received_ecn_bytes'' (CArr typedef_u32 3),
     Fld ''app_limited'' typedef_u32,
     Fld ''rcv_wnd'' typedef_u32,
     Fld ''rcv_mwnd_seq'' typedef_u32,
     Fld ''rcv_tstamp'' typedef_u32,
     Fld ''rx_opt'' struct_tcp_options_received,
     Fld ''__cacheline_group_end__tcp_sock_write_txrx'' (CArr typedef___u8 0),
     Bits '''' (CInt 8) 0,
     Fld ''__cacheline_group_begin__tcp_sock_write_rx'' (CArr typedef___u8 0),
     Fld ''bytes_received'' typedef_u64,
     Fld ''segs_in'' typedef_u32,
     Fld ''data_segs_in'' typedef_u32,
     Fld ''rcv_wup'' typedef_u32,
     Fld ''max_packets_out'' typedef_u32,
     Fld ''cwnd_usage_seq'' typedef_u32,
     Fld ''rate_delivered'' typedef_u32,
     Fld ''rate_interval_us'' typedef_u32,
     Fld ''rcv_rtt_last_tsecr'' typedef_u32,
     Fld ''delivered_ecn_bytes'' (CArr typedef_u32 3),
     Fld ''pkts_acked_ewma'' typedef_u16,
     Fld ''first_tx_mstamp'' typedef_u64,
     Fld ''delivered_mstamp'' typedef_u64,
     Fld ''bytes_acked'' typedef_u64,
     Fld ''rcv_rtt_est'' (CStruct False
       [Fld ''rtt_us'' typedef_u32,
        Fld ''seq'' typedef_u32,
        Fld ''time'' typedef_u64]),
     Fld ''rcvq_space'' (CStruct False
       [Fld ''space'' (CInt 4),
        Fld ''seq'' typedef_u32,
        Fld ''time'' typedef_u64]),
     Fld ''__cacheline_group_end__tcp_sock_write_rx'' (CArr typedef___u8 0),
     Fld ''dsack_dups'' typedef_u32,
     Fld ''compressed_ack_rcv_nxt'' typedef_u32,
     Fld ''tsq_node'' struct_list_head,
     Fld ''rack'' struct_tcp_rack,
     Fld ''compressed_ack'' typedef_u8,
     Bits ''dup_ack_counter'' typedef_u8 2,
     Bits ''tlp_retrans'' typedef_u8 1,
     Bits ''syn_ect_snt'' typedef_u8 2,
     Bits ''syn_ect_rcv'' typedef_u8 2,
     Bits ''thin_lto'' typedef_u8 1,
     Bits ''fastopen_connect'' typedef_u8 1,
     Bits ''fastopen_no_cookie'' typedef_u8 1,
     Bits ''fastopen_client_fail'' typedef_u8 2,
     Bits ''frto'' typedef_u8 1,
     Fld ''repair_queue'' typedef_u8,
     Bits ''save_syn'' typedef_u8 2,
     Bits ''syn_data'' typedef_u8 1,
     Bits ''syn_fastopen'' typedef_u8 1,
     Bits ''syn_fastopen_exp'' typedef_u8 1,
     Bits ''syn_fastopen_ch'' typedef_u8 1]"

definition struct_tcp_sock_part2 :: "cfield list" where
  "struct_tcp_sock_part2 =
    [Bits ''syn_data_acked'' typedef_u8 1,
     Bits ''syn_fastopen_child'' typedef_u8 1,
     Fld ''keepalive_probes'' typedef_u8,
     Bits ''accecn_fail_mode'' typedef_u8 4,
     Bits ''saw_accecn_opt'' typedef_u8 2,
     Fld ''tcp_tx_delay'' typedef_u32,
     Fld ''mdev_max_us'' typedef_u32,
     Fld ''reord_seen'' typedef_u32,
     Fld ''snd_cwnd_cnt'' typedef_u32,
     Fld ''snd_cwnd_clamp'' typedef_u32,
     Fld ''snd_cwnd_used'' typedef_u32,
     Fld ''snd_cwnd_stamp'' typedef_u32,
     Fld ''prior_cwnd'' typedef_u32,
     Fld ''prr_delivered'' typedef_u32,
     Fld ''last_oow_ack_time'' typedef_u32,
     Fld ''pacing_timer'' struct_hrtimer,
     Fld ''compressed_ack_timer'' struct_hrtimer,
     Fld ''ooo_last_skb'' CPtr,
     Fld ''duplicate_sack'' (CArr struct_tcp_sack_block 1),
     Fld ''selective_acks'' (CArr struct_tcp_sack_block 4),
     Fld ''recv_sack_cache'' (CArr struct_tcp_sack_block 4),
     Fld ''prior_ssthresh'' typedef_u32,
     Fld ''high_seq'' typedef_u32,
     Fld ''retrans_stamp'' typedef_u32,
     Fld ''undo_marker'' typedef_u32,
     Fld ''undo_retrans'' (CInt 4),
     Fld ''mtu_info'' typedef_u32,
     Fld ''bytes_retrans'' typedef_u64,
     Fld ''total_retrans'' typedef_u32,
     Fld ''rto_stamp'' typedef_u32,
     Fld ''total_rto'' typedef_u16,
     Fld ''total_rto_recoveries'' typedef_u16,
     Fld ''total_rto_time'' typedef_u32,
     Fld ''urg_seq'' typedef_u32,
     Fld ''keepalive_time'' (CInt 4),
     Fld ''keepalive_intvl'' (CInt 4),
     Fld ''linger2'' (CInt 4),
     Fld ''bpf_sock_ops_cb_flags'' typedef_u8,
     Bits ''bpf_chg_cc_inprogress'' typedef_u8 1,
     Fld ''timeout_rehash'' typedef_u16,
     Fld ''rcv_ooopack'' typedef_u32,
     Fld ''mtu_probe'' (CStruct False
       [Fld ''probe_seq_start'' typedef_u32,
        Fld ''probe_seq_end'' typedef_u32]),
     Fld ''plb_rehash'' typedef_u32,
     Fld ''is_mptcp'' typedef_bool,
     Fld ''syn_smc'' typedef_bool,
     Fld ''smc_hs_congested'' CPtr,
     Fld ''af_specific'' CPtr,
     Fld ''md5sig_info'' CPtr,
     Fld ''fastopen_req'' CPtr,
     Fld ''fastopen_rsk'' CPtr,
     Fld ''saved_syn'' CPtr,
     Bits '''' (CInt 8) 64,
     Bits '''' (CInt 8) 64,
     Bits '''' (CInt 8) 64]"

definition struct_tcp_sock :: ctype where
  "struct_tcp_sock = CStruct False (struct_tcp_sock_part1 @ struct_tcp_sock_part2)"

definition struct_fred_cs :: ctype where
  "struct_fred_cs = CStruct False
    [Bits ''cs'' typedef_u64 16,
     Bits ''sl'' typedef_u64 2,
     Bits ''wfe'' typedef_u64 1]"

definition struct_fred_ss :: ctype where
  "struct_fred_ss = CStruct False
    [Bits ''ss'' typedef_u64 16,
     Bits ''sti'' typedef_u64 1,
     Bits ''swevent'' typedef_u64 1,
     Bits ''nmi'' typedef_u64 1,
     Bits '''' (CInt 4) 13,
     Bits ''vector'' typedef_u64 8,
     Bits '''' (CInt 2) 8,
     Bits ''type'' typedef_u64 4,
     Bits '''' (CInt 1) 4,
     Bits ''enclave'' typedef_u64 1,
     Bits ''l'' typedef_u64 1,
     Bits ''nested'' typedef_u64 1,
     Bits '''' (CInt 1) 1,
     Bits ''insnlen'' typedef_u64 4]"

definition struct_pt_regs :: ctype where
  "struct_pt_regs = CStruct False
    [Fld ''r15'' (CInt 8),
     Fld ''r14'' (CInt 8),
     Fld ''r13'' (CInt 8),
     Fld ''r12'' (CInt 8),
     Fld ''bp'' (CInt 8),
     Fld ''bx'' (CInt 8),
     Fld ''r11'' (CInt 8),
     Fld ''r10'' (CInt 8),
     Fld ''r9'' (CInt 8),
     Fld ''r8'' (CInt 8),
     Fld ''ax'' (CInt 8),
     Fld ''cx'' (CInt 8),
     Fld ''dx'' (CInt 8),
     Fld ''si'' (CInt 8),
     Fld ''di'' (CInt 8),
     Fld ''orig_ax'' (CInt 8),
     Fld ''ip'' (CInt 8),
     Fld '''' (CUnion False
       [Fld ''cs'' typedef_u16,
        Fld ''csx'' typedef_u64,
        Fld ''fred_cs'' struct_fred_cs]),
     Fld ''flags'' (CInt 8),
     Fld ''sp'' (CInt 8),
     Fld '''' (CUnion False
       [Fld ''ss'' typedef_u16,
        Fld ''ssx'' typedef_u64,
        Fld ''fred_ss'' struct_fred_ss])]"

text \<open>The structs and unions of this theory.\<close>

definition kernel_socket_types :: "ctype list" where
  "kernel_socket_types =
    [struct_hlist_node,
     struct_in6_addr,
     struct_hlist_nulls_node,
     struct_refcount_struct,
     struct_sock_common,
     struct_sk_buff_list,
     struct_qspinlock,
     struct_raw_spinlock,
     struct_spinlock,
     struct_sk_buff_head,
     struct_list_head,
     struct_wait_queue_head,
     struct_rb_root,
     struct_page_frag,
     struct_timer_list,
     struct_qrwlock,
     struct_rwlock,
     struct_sock_cgroup_data,
     struct_callback_head,
     struct_xarray,
     struct_sock,
     struct_inet_cork,
     struct_flowi_tunnel,
     struct_flowi_common,
     union_flowi_uli,
     struct_flowi4,
     struct_flowi6,
     struct_flowi,
     struct_inet6_cork,
     struct_inet_cork_full,
     struct_inet_sock,
     struct_fastopen_queue,
     struct_request_sock_queue,
     struct_inet_connection_sock,
     struct_minmax_sample,
     struct_minmax,
     struct_tcp_options_received,
     struct_tcp_rack,
     struct_rb_node,
     struct_rb_node_linked,
     struct_timerqueue_linked_node,
     struct_hrtimer,
     struct_tcp_sack_block,
     struct_tcp_sock,
     struct_fred_cs,
     struct_fred_ss,
     struct_pt_regs]"

lemmas kernel_socket_defs =
  typedef___u64_def typedef___addrpair_def typedef___u32_def typedef___be32_def
  typedef___u16_def typedef___portpair_def typedef___be16_def struct_hlist_node_def
  typedef_possible_net_t_def typedef___u8_def struct_in6_addr_def typedef___s64_def
  typedef_s64_def typedef_atomic64_t_def struct_hlist_nulls_node_def typedef_u32_def
  typedef_atomic_t_def struct_refcount_struct_def typedef_refcount_t_def struct_sock_common_def
  typedef___s32_def struct_sk_buff_list_def typedef_u8_def typedef_u16_def struct_qspinlock_def
  typedef_arch_spinlock_t_def struct_raw_spinlock_def struct_spinlock_def typedef_spinlock_t_def
  struct_sk_buff_head_def struct_list_head_def struct_wait_queue_head_def
  typedef_wait_queue_head_t_def typedef_socket_lock_t_def struct_rb_root_def
  struct_page_frag_def struct_timer_list_def typedef___kernel_uid32_t_def typedef_uid_t_def
  typedef_kuid_t_def typedef_u64_def typedef_netdev_features_t_def typedef_gfp_t_def
  typedef_bool_def struct_qrwlock_def typedef_arch_rwlock_t_def struct_rwlock_def
  typedef_rwlock_t_def typedef_ktime_t_def struct_sock_cgroup_data_def struct_callback_head_def
  typedef_freeptr_t_def typedef_netns_tracker_def struct_xarray_def struct_sock_def
  typedef___s16_def struct_inet_cork_def typedef_dscp_t_def typedef___be64_def
  struct_flowi_tunnel_def struct_flowi_common_def union_flowi_uli_def struct_flowi4_def
  struct_flowi6_def struct_flowi_def struct_inet6_cork_def struct_inet_cork_full_def
  struct_inet_sock_def struct_fastopen_queue_def struct_request_sock_queue_def
  struct_inet_connection_sock_def struct_minmax_sample_def struct_minmax_def
  struct_tcp_options_received_def struct_tcp_rack_def struct_rb_node_def
  struct_rb_node_linked_def struct_timerqueue_linked_node_def struct_hrtimer_def
  struct_tcp_sack_block_def struct_tcp_sock_part1_def struct_tcp_sock_part2_def
  struct_tcp_sock_def struct_fred_cs_def struct_fred_ss_def struct_pt_regs_def

lemma typedef___u64_layout [layout_simps]:
  "wf_ctype typedef___u64" "alignof typedef___u64 = 8" "sizeof typedef___u64 = 8"
  by (simp_all only: typedef___u64_def)
    (simp_all cong: layout_cong add: layout_eval layout_simps del: One_nat_def)

lemma typedef___addrpair_layout [layout_simps]:
  "wf_ctype typedef___addrpair" "alignof typedef___addrpair = 8" "sizeof typedef___addrpair = 8"
  by (simp_all only: typedef___addrpair_def)
    (simp_all cong: layout_cong add: layout_eval layout_simps del: One_nat_def)

lemma typedef___u32_layout [layout_simps]:
  "wf_ctype typedef___u32" "alignof typedef___u32 = 4" "sizeof typedef___u32 = 4"
  by (simp_all only: typedef___u32_def)
    (simp_all cong: layout_cong add: layout_eval layout_simps del: One_nat_def)

lemma typedef___be32_layout [layout_simps]:
  "wf_ctype typedef___be32" "alignof typedef___be32 = 4" "sizeof typedef___be32 = 4"
  by (simp_all only: typedef___be32_def)
    (simp_all cong: layout_cong add: layout_eval layout_simps del: One_nat_def)

lemma typedef___u16_layout [layout_simps]:
  "wf_ctype typedef___u16" "alignof typedef___u16 = 2" "sizeof typedef___u16 = 2"
  by (simp_all only: typedef___u16_def)
    (simp_all cong: layout_cong add: layout_eval layout_simps del: One_nat_def)

lemma typedef___portpair_layout [layout_simps]:
  "wf_ctype typedef___portpair" "alignof typedef___portpair = 4" "sizeof typedef___portpair = 4"
  by (simp_all only: typedef___portpair_def)
    (simp_all cong: layout_cong add: layout_eval layout_simps del: One_nat_def)

lemma typedef___be16_layout [layout_simps]:
  "wf_ctype typedef___be16" "alignof typedef___be16 = 2" "sizeof typedef___be16 = 2"
  by (simp_all only: typedef___be16_def)
    (simp_all cong: layout_cong add: layout_eval layout_simps del: One_nat_def)

lemma struct_hlist_node_layout [layout_simps]:
  "wf_ctype struct_hlist_node" "alignof struct_hlist_node = 8" "sizeof struct_hlist_node = 16"
  by (simp_all only: struct_hlist_node_def)
    (simp_all cong: layout_cong add: layout_eval layout_simps del: One_nat_def)

lemma typedef_possible_net_t_layout [layout_simps]:
  "wf_ctype typedef_possible_net_t" "alignof typedef_possible_net_t = 8" "sizeof typedef_possible_net_t = 8"
  by (simp_all only: typedef_possible_net_t_def)
    (simp_all cong: layout_cong add: layout_eval layout_simps del: One_nat_def)

lemma typedef___u8_layout [layout_simps]:
  "wf_ctype typedef___u8" "alignof typedef___u8 = 1" "sizeof typedef___u8 = 1"
  by (simp_all only: typedef___u8_def)
    (simp_all cong: layout_cong add: layout_eval layout_simps del: One_nat_def)

lemma struct_in6_addr_layout [layout_simps]:
  "wf_ctype struct_in6_addr" "alignof struct_in6_addr = 4" "sizeof struct_in6_addr = 16"
  by (simp_all only: struct_in6_addr_def)
    (simp_all cong: layout_cong add: layout_eval layout_simps del: One_nat_def)

lemma typedef___s64_layout [layout_simps]:
  "wf_ctype typedef___s64" "alignof typedef___s64 = 8" "sizeof typedef___s64 = 8"
  by (simp_all only: typedef___s64_def)
    (simp_all cong: layout_cong add: layout_eval layout_simps del: One_nat_def)

lemma typedef_s64_layout [layout_simps]:
  "wf_ctype typedef_s64" "alignof typedef_s64 = 8" "sizeof typedef_s64 = 8"
  by (simp_all only: typedef_s64_def)
    (simp_all cong: layout_cong add: layout_eval layout_simps del: One_nat_def)

lemma typedef_atomic64_t_layout [layout_simps]:
  "wf_ctype typedef_atomic64_t" "alignof typedef_atomic64_t = 8" "sizeof typedef_atomic64_t = 8"
  by (simp_all only: typedef_atomic64_t_def)
    (simp_all cong: layout_cong add: layout_eval layout_simps del: One_nat_def)

lemma struct_hlist_nulls_node_layout [layout_simps]:
  "wf_ctype struct_hlist_nulls_node" "alignof struct_hlist_nulls_node = 8" "sizeof struct_hlist_nulls_node = 16"
  by (simp_all only: struct_hlist_nulls_node_def)
    (simp_all cong: layout_cong add: layout_eval layout_simps del: One_nat_def)

lemma typedef_u32_layout [layout_simps]:
  "wf_ctype typedef_u32" "alignof typedef_u32 = 4" "sizeof typedef_u32 = 4"
  by (simp_all only: typedef_u32_def)
    (simp_all cong: layout_cong add: layout_eval layout_simps del: One_nat_def)

lemma typedef_atomic_t_layout [layout_simps]:
  "wf_ctype typedef_atomic_t" "alignof typedef_atomic_t = 4" "sizeof typedef_atomic_t = 4"
  by (simp_all only: typedef_atomic_t_def)
    (simp_all cong: layout_cong add: layout_eval layout_simps del: One_nat_def)

lemma struct_refcount_struct_layout [layout_simps]:
  "wf_ctype struct_refcount_struct" "alignof struct_refcount_struct = 4" "sizeof struct_refcount_struct = 4"
  by (simp_all only: struct_refcount_struct_def)
    (simp_all cong: layout_cong add: layout_eval layout_simps del: One_nat_def)

lemma typedef_refcount_t_layout [layout_simps]:
  "wf_ctype typedef_refcount_t" "alignof typedef_refcount_t = 4" "sizeof typedef_refcount_t = 4"
  by (simp_all only: typedef_refcount_t_def)
    (simp_all cong: layout_cong add: layout_eval layout_simps del: One_nat_def)

lemma struct_sock_common_layout [layout_simps]:
  "wf_ctype struct_sock_common" "alignof struct_sock_common = 8" "sizeof struct_sock_common = 136"
  by (simp_all only: struct_sock_common_def)
    (simp_all cong: layout_cong add: layout_eval layout_simps del: One_nat_def)

lemma typedef___s32_layout [layout_simps]:
  "wf_ctype typedef___s32" "alignof typedef___s32 = 4" "sizeof typedef___s32 = 4"
  by (simp_all only: typedef___s32_def)
    (simp_all cong: layout_cong add: layout_eval layout_simps del: One_nat_def)

lemma struct_sk_buff_list_layout [layout_simps]:
  "wf_ctype struct_sk_buff_list" "alignof struct_sk_buff_list = 8" "sizeof struct_sk_buff_list = 16"
  by (simp_all only: struct_sk_buff_list_def)
    (simp_all cong: layout_cong add: layout_eval layout_simps del: One_nat_def)

lemma typedef_u8_layout [layout_simps]:
  "wf_ctype typedef_u8" "alignof typedef_u8 = 1" "sizeof typedef_u8 = 1"
  by (simp_all only: typedef_u8_def)
    (simp_all cong: layout_cong add: layout_eval layout_simps del: One_nat_def)

lemma typedef_u16_layout [layout_simps]:
  "wf_ctype typedef_u16" "alignof typedef_u16 = 2" "sizeof typedef_u16 = 2"
  by (simp_all only: typedef_u16_def)
    (simp_all cong: layout_cong add: layout_eval layout_simps del: One_nat_def)

lemma struct_qspinlock_layout [layout_simps]:
  "wf_ctype struct_qspinlock" "alignof struct_qspinlock = 4" "sizeof struct_qspinlock = 4"
  by (simp_all only: struct_qspinlock_def)
    (simp_all cong: layout_cong add: layout_eval layout_simps del: One_nat_def)

lemma typedef_arch_spinlock_t_layout [layout_simps]:
  "wf_ctype typedef_arch_spinlock_t" "alignof typedef_arch_spinlock_t = 4" "sizeof typedef_arch_spinlock_t = 4"
  by (simp_all only: typedef_arch_spinlock_t_def)
    (simp_all cong: layout_cong add: layout_eval layout_simps del: One_nat_def)

lemma struct_raw_spinlock_layout [layout_simps]:
  "wf_ctype struct_raw_spinlock" "alignof struct_raw_spinlock = 4" "sizeof struct_raw_spinlock = 4"
  by (simp_all only: struct_raw_spinlock_def)
    (simp_all cong: layout_cong add: layout_eval layout_simps del: One_nat_def)

lemma struct_spinlock_layout [layout_simps]:
  "wf_ctype struct_spinlock" "alignof struct_spinlock = 4" "sizeof struct_spinlock = 4"
  by (simp_all only: struct_spinlock_def)
    (simp_all cong: layout_cong add: layout_eval layout_simps del: One_nat_def)

lemma typedef_spinlock_t_layout [layout_simps]:
  "wf_ctype typedef_spinlock_t" "alignof typedef_spinlock_t = 4" "sizeof typedef_spinlock_t = 4"
  by (simp_all only: typedef_spinlock_t_def)
    (simp_all cong: layout_cong add: layout_eval layout_simps del: One_nat_def)

lemma struct_sk_buff_head_layout [layout_simps]:
  "wf_ctype struct_sk_buff_head" "alignof struct_sk_buff_head = 8" "sizeof struct_sk_buff_head = 24"
  by (simp_all only: struct_sk_buff_head_def)
    (simp_all cong: layout_cong add: layout_eval layout_simps del: One_nat_def)

lemma struct_list_head_layout [layout_simps]:
  "wf_ctype struct_list_head" "alignof struct_list_head = 8" "sizeof struct_list_head = 16"
  by (simp_all only: struct_list_head_def)
    (simp_all cong: layout_cong add: layout_eval layout_simps del: One_nat_def)

lemma struct_wait_queue_head_layout [layout_simps]:
  "wf_ctype struct_wait_queue_head" "alignof struct_wait_queue_head = 8" "sizeof struct_wait_queue_head = 24"
  by (simp_all only: struct_wait_queue_head_def)
    (simp_all cong: layout_cong add: layout_eval layout_simps del: One_nat_def)

lemma typedef_wait_queue_head_t_layout [layout_simps]:
  "wf_ctype typedef_wait_queue_head_t" "alignof typedef_wait_queue_head_t = 8" "sizeof typedef_wait_queue_head_t = 24"
  by (simp_all only: typedef_wait_queue_head_t_def)
    (simp_all cong: layout_cong add: layout_eval layout_simps del: One_nat_def)

lemma typedef_socket_lock_t_layout [layout_simps]:
  "wf_ctype typedef_socket_lock_t" "alignof typedef_socket_lock_t = 8" "sizeof typedef_socket_lock_t = 32"
  by (simp_all only: typedef_socket_lock_t_def)
    (simp_all cong: layout_cong add: layout_eval layout_simps del: One_nat_def)

lemma struct_rb_root_layout [layout_simps]:
  "wf_ctype struct_rb_root" "alignof struct_rb_root = 8" "sizeof struct_rb_root = 8"
  by (simp_all only: struct_rb_root_def)
    (simp_all cong: layout_cong add: layout_eval layout_simps del: One_nat_def)

lemma struct_page_frag_layout [layout_simps]:
  "wf_ctype struct_page_frag" "alignof struct_page_frag = 8" "sizeof struct_page_frag = 16"
  by (simp_all only: struct_page_frag_def)
    (simp_all cong: layout_cong add: layout_eval layout_simps del: One_nat_def)

lemma struct_timer_list_layout [layout_simps]:
  "wf_ctype struct_timer_list" "alignof struct_timer_list = 8" "sizeof struct_timer_list = 40"
  by (simp_all only: struct_timer_list_def)
    (simp_all cong: layout_cong add: layout_eval layout_simps del: One_nat_def)

lemma typedef___kernel_uid32_t_layout [layout_simps]:
  "wf_ctype typedef___kernel_uid32_t" "alignof typedef___kernel_uid32_t = 4" "sizeof typedef___kernel_uid32_t = 4"
  by (simp_all only: typedef___kernel_uid32_t_def)
    (simp_all cong: layout_cong add: layout_eval layout_simps del: One_nat_def)

lemma typedef_uid_t_layout [layout_simps]:
  "wf_ctype typedef_uid_t" "alignof typedef_uid_t = 4" "sizeof typedef_uid_t = 4"
  by (simp_all only: typedef_uid_t_def)
    (simp_all cong: layout_cong add: layout_eval layout_simps del: One_nat_def)

lemma typedef_kuid_t_layout [layout_simps]:
  "wf_ctype typedef_kuid_t" "alignof typedef_kuid_t = 4" "sizeof typedef_kuid_t = 4"
  by (simp_all only: typedef_kuid_t_def)
    (simp_all cong: layout_cong add: layout_eval layout_simps del: One_nat_def)

lemma typedef_u64_layout [layout_simps]:
  "wf_ctype typedef_u64" "alignof typedef_u64 = 8" "sizeof typedef_u64 = 8"
  by (simp_all only: typedef_u64_def)
    (simp_all cong: layout_cong add: layout_eval layout_simps del: One_nat_def)

lemma typedef_netdev_features_t_layout [layout_simps]:
  "wf_ctype typedef_netdev_features_t" "alignof typedef_netdev_features_t = 8" "sizeof typedef_netdev_features_t = 8"
  by (simp_all only: typedef_netdev_features_t_def)
    (simp_all cong: layout_cong add: layout_eval layout_simps del: One_nat_def)

lemma typedef_gfp_t_layout [layout_simps]:
  "wf_ctype typedef_gfp_t" "alignof typedef_gfp_t = 4" "sizeof typedef_gfp_t = 4"
  by (simp_all only: typedef_gfp_t_def)
    (simp_all cong: layout_cong add: layout_eval layout_simps del: One_nat_def)

lemma typedef_bool_layout [layout_simps]:
  "wf_ctype typedef_bool" "alignof typedef_bool = 1" "sizeof typedef_bool = 1"
  by (simp_all only: typedef_bool_def)
    (simp_all cong: layout_cong add: layout_eval layout_simps del: One_nat_def)

lemma struct_qrwlock_layout [layout_simps]:
  "wf_ctype struct_qrwlock" "alignof struct_qrwlock = 4" "sizeof struct_qrwlock = 8"
  by (simp_all only: struct_qrwlock_def)
    (simp_all cong: layout_cong add: layout_eval layout_simps del: One_nat_def)

lemma typedef_arch_rwlock_t_layout [layout_simps]:
  "wf_ctype typedef_arch_rwlock_t" "alignof typedef_arch_rwlock_t = 4" "sizeof typedef_arch_rwlock_t = 8"
  by (simp_all only: typedef_arch_rwlock_t_def)
    (simp_all cong: layout_cong add: layout_eval layout_simps del: One_nat_def)

lemma struct_rwlock_layout [layout_simps]:
  "wf_ctype struct_rwlock" "alignof struct_rwlock = 4" "sizeof struct_rwlock = 8"
  by (simp_all only: struct_rwlock_def)
    (simp_all cong: layout_cong add: layout_eval layout_simps del: One_nat_def)

lemma typedef_rwlock_t_layout [layout_simps]:
  "wf_ctype typedef_rwlock_t" "alignof typedef_rwlock_t = 4" "sizeof typedef_rwlock_t = 8"
  by (simp_all only: typedef_rwlock_t_def)
    (simp_all cong: layout_cong add: layout_eval layout_simps del: One_nat_def)

lemma typedef_ktime_t_layout [layout_simps]:
  "wf_ctype typedef_ktime_t" "alignof typedef_ktime_t = 8" "sizeof typedef_ktime_t = 8"
  by (simp_all only: typedef_ktime_t_def)
    (simp_all cong: layout_cong add: layout_eval layout_simps del: One_nat_def)

lemma struct_sock_cgroup_data_layout [layout_simps]:
  "wf_ctype struct_sock_cgroup_data" "alignof struct_sock_cgroup_data = 8" "sizeof struct_sock_cgroup_data = 16"
  by (simp_all only: struct_sock_cgroup_data_def)
    (simp_all cong: layout_cong add: layout_eval layout_simps del: One_nat_def)

lemma struct_callback_head_layout [layout_simps]:
  "wf_ctype struct_callback_head" "alignof struct_callback_head = 8" "sizeof struct_callback_head = 16"
  by (simp_all only: struct_callback_head_def)
    (simp_all cong: layout_cong add: layout_eval layout_simps del: One_nat_def)

lemma typedef_freeptr_t_layout [layout_simps]:
  "wf_ctype typedef_freeptr_t" "alignof typedef_freeptr_t = 8" "sizeof typedef_freeptr_t = 8"
  by (simp_all only: typedef_freeptr_t_def)
    (simp_all cong: layout_cong add: layout_eval layout_simps del: One_nat_def)

lemma typedef_netns_tracker_layout [layout_simps]:
  "wf_ctype typedef_netns_tracker" "alignof typedef_netns_tracker = 1" "sizeof typedef_netns_tracker = 0"
  by (simp_all only: typedef_netns_tracker_def)
    (simp_all cong: layout_cong add: layout_eval layout_simps del: One_nat_def)

lemma struct_xarray_layout [layout_simps]:
  "wf_ctype struct_xarray" "alignof struct_xarray = 8" "sizeof struct_xarray = 16"
  by (simp_all only: struct_xarray_def)
    (simp_all cong: layout_cong add: layout_eval layout_simps del: One_nat_def)

lemma struct_sock_layout [layout_simps]:
  "wf_ctype struct_sock" "alignof struct_sock = 8" "sizeof struct_sock = 800"
  by (simp_all only: struct_sock_def)
    (simp_all cong: layout_cong add: layout_eval layout_simps del: One_nat_def)

lemma typedef___s16_layout [layout_simps]:
  "wf_ctype typedef___s16" "alignof typedef___s16 = 2" "sizeof typedef___s16 = 2"
  by (simp_all only: typedef___s16_def)
    (simp_all cong: layout_cong add: layout_eval layout_simps del: One_nat_def)

lemma struct_inet_cork_layout [layout_simps]:
  "wf_ctype struct_inet_cork" "alignof struct_inet_cork = 8" "sizeof struct_inet_cork = 64"
  by (simp_all only: struct_inet_cork_def)
    (simp_all cong: layout_cong add: layout_eval layout_simps del: One_nat_def)

lemma typedef_dscp_t_layout [layout_simps]:
  "wf_ctype typedef_dscp_t" "alignof typedef_dscp_t = 1" "sizeof typedef_dscp_t = 1"
  by (simp_all only: typedef_dscp_t_def)
    (simp_all cong: layout_cong add: layout_eval layout_simps del: One_nat_def)

lemma typedef___be64_layout [layout_simps]:
  "wf_ctype typedef___be64" "alignof typedef___be64 = 8" "sizeof typedef___be64 = 8"
  by (simp_all only: typedef___be64_def)
    (simp_all cong: layout_cong add: layout_eval layout_simps del: One_nat_def)

lemma struct_flowi_tunnel_layout [layout_simps]:
  "wf_ctype struct_flowi_tunnel" "alignof struct_flowi_tunnel = 8" "sizeof struct_flowi_tunnel = 8"
  by (simp_all only: struct_flowi_tunnel_def)
    (simp_all cong: layout_cong add: layout_eval layout_simps del: One_nat_def)

lemma struct_flowi_common_layout [layout_simps]:
  "wf_ctype struct_flowi_common" "alignof struct_flowi_common = 8" "sizeof struct_flowi_common = 40"
  by (simp_all only: struct_flowi_common_def)
    (simp_all cong: layout_cong add: layout_eval layout_simps del: One_nat_def)

lemma union_flowi_uli_layout [layout_simps]:
  "wf_ctype union_flowi_uli" "alignof union_flowi_uli = 4" "sizeof union_flowi_uli = 4"
  by (simp_all only: union_flowi_uli_def)
    (simp_all cong: layout_cong add: layout_eval layout_simps del: One_nat_def)

lemma struct_flowi4_layout [layout_simps]:
  "wf_ctype struct_flowi4" "alignof struct_flowi4 = 8" "sizeof struct_flowi4 = 56"
  by (simp_all only: struct_flowi4_def)
    (simp_all cong: layout_cong add: layout_eval layout_simps del: One_nat_def)

lemma struct_flowi6_layout [layout_simps]:
  "wf_ctype struct_flowi6" "alignof struct_flowi6 = 8" "sizeof struct_flowi6 = 88"
  by (simp_all only: struct_flowi6_def)
    (simp_all cong: layout_cong add: layout_eval layout_simps del: One_nat_def)

lemma struct_flowi_layout [layout_simps]:
  "wf_ctype struct_flowi" "alignof struct_flowi = 8" "sizeof struct_flowi = 88"
  by (simp_all only: struct_flowi_def)
    (simp_all cong: layout_cong add: layout_eval layout_simps del: One_nat_def)

lemma struct_inet6_cork_layout [layout_simps]:
  "wf_ctype struct_inet6_cork" "alignof struct_inet6_cork = 8" "sizeof struct_inet6_cork = 16"
  by (simp_all only: struct_inet6_cork_def)
    (simp_all cong: layout_cong add: layout_eval layout_simps del: One_nat_def)

lemma struct_inet_cork_full_layout [layout_simps]:
  "wf_ctype struct_inet_cork_full" "alignof struct_inet_cork_full = 8" "sizeof struct_inet_cork_full = 168"
  by (simp_all only: struct_inet_cork_full_def)
    (simp_all cong: layout_cong add: layout_eval layout_simps del: One_nat_def)

lemma struct_inet_sock_layout [layout_simps]:
  "wf_ctype struct_inet_sock" "alignof struct_inet_sock = 8" "sizeof struct_inet_sock = 1048"
  by (simp_all only: struct_inet_sock_def)
    (simp_all cong: layout_cong add: layout_eval layout_simps del: One_nat_def)

lemma struct_fastopen_queue_layout [layout_simps]:
  "wf_ctype struct_fastopen_queue" "alignof struct_fastopen_queue = 8" "sizeof struct_fastopen_queue = 40"
  by (simp_all only: struct_fastopen_queue_def)
    (simp_all cong: layout_cong add: layout_eval layout_simps del: One_nat_def)

lemma struct_request_sock_queue_layout [layout_simps]:
  "wf_ctype struct_request_sock_queue" "alignof struct_request_sock_queue = 8" "sizeof struct_request_sock_queue = 72"
  by (simp_all only: struct_request_sock_queue_def)
    (simp_all cong: layout_cong add: layout_eval layout_simps del: One_nat_def)

lemma struct_inet_connection_sock_layout [layout_simps]:
  "wf_ctype struct_inet_connection_sock" "alignof struct_inet_connection_sock = 8" "sizeof struct_inet_connection_sock = 1432"
  by (simp_all only: struct_inet_connection_sock_def)
    (simp_all cong: layout_cong add: layout_eval layout_simps del: One_nat_def)

lemma struct_minmax_sample_layout [layout_simps]:
  "wf_ctype struct_minmax_sample" "alignof struct_minmax_sample = 4" "sizeof struct_minmax_sample = 8"
  by (simp_all only: struct_minmax_sample_def)
    (simp_all cong: layout_cong add: layout_eval layout_simps del: One_nat_def)

lemma struct_minmax_layout [layout_simps]:
  "wf_ctype struct_minmax" "alignof struct_minmax = 4" "sizeof struct_minmax = 24"
  by (simp_all only: struct_minmax_def)
    (simp_all cong: layout_cong add: layout_eval layout_simps del: One_nat_def)

lemma struct_tcp_options_received_layout [layout_simps]:
  "wf_ctype struct_tcp_options_received" "alignof struct_tcp_options_received = 4" "sizeof struct_tcp_options_received = 24"
  by (simp_all only: struct_tcp_options_received_def)
    (simp_all cong: layout_cong add: layout_eval layout_simps del: One_nat_def)

lemma struct_tcp_rack_layout [layout_simps]:
  "wf_ctype struct_tcp_rack" "alignof struct_tcp_rack = 8" "sizeof struct_tcp_rack = 24"
  by (simp_all only: struct_tcp_rack_def)
    (simp_all cong: layout_cong add: layout_eval layout_simps del: One_nat_def)

lemma struct_rb_node_layout [layout_simps]:
  "wf_ctype struct_rb_node" "alignof struct_rb_node = 8" "sizeof struct_rb_node = 24"
  by (simp_all only: struct_rb_node_def)
    (simp_all cong: layout_cong add: layout_eval layout_simps del: One_nat_def)

lemma struct_rb_node_linked_layout [layout_simps]:
  "wf_ctype struct_rb_node_linked" "alignof struct_rb_node_linked = 8" "sizeof struct_rb_node_linked = 40"
  by (simp_all only: struct_rb_node_linked_def)
    (simp_all cong: layout_cong add: layout_eval layout_simps del: One_nat_def)

lemma struct_timerqueue_linked_node_layout [layout_simps]:
  "wf_ctype struct_timerqueue_linked_node" "alignof struct_timerqueue_linked_node = 8" "sizeof struct_timerqueue_linked_node = 48"
  by (simp_all only: struct_timerqueue_linked_node_def)
    (simp_all cong: layout_cong add: layout_eval layout_simps del: One_nat_def)

lemma struct_hrtimer_layout [layout_simps]:
  "wf_ctype struct_hrtimer" "alignof struct_hrtimer = 8" "sizeof struct_hrtimer = 80"
  by (simp_all only: struct_hrtimer_def)
    (simp_all cong: layout_cong add: layout_eval layout_simps del: One_nat_def)

lemma struct_tcp_sack_block_layout [layout_simps]:
  "wf_ctype struct_tcp_sack_block" "alignof struct_tcp_sack_block = 4" "sizeof struct_tcp_sack_block = 8"
  by (simp_all only: struct_tcp_sack_block_def)
    (simp_all cong: layout_cong add: layout_eval layout_simps del: One_nat_def)

lemma struct_tcp_sock_layout [layout_simps]:
  "wf_ctype struct_tcp_sock" "alignof struct_tcp_sock = 8" "sizeof struct_tcp_sock = 2432"
  by (simp_all only: struct_tcp_sock_def struct_tcp_sock_part1_def struct_tcp_sock_part2_def append.simps)
    (simp_all cong: layout_cong add: layout_eval layout_simps del: One_nat_def)

lemma struct_fred_cs_layout [layout_simps]:
  "wf_ctype struct_fred_cs" "alignof struct_fred_cs = 8" "sizeof struct_fred_cs = 8"
  by (simp_all only: struct_fred_cs_def)
    (simp_all cong: layout_cong add: layout_eval layout_simps del: One_nat_def)

lemma struct_fred_ss_layout [layout_simps]:
  "wf_ctype struct_fred_ss" "alignof struct_fred_ss = 8" "sizeof struct_fred_ss = 8"
  by (simp_all only: struct_fred_ss_def)
    (simp_all cong: layout_cong add: layout_eval layout_simps del: One_nat_def)

lemma struct_pt_regs_layout [layout_simps]:
  "wf_ctype struct_pt_regs" "alignof struct_pt_regs = 8" "sizeof struct_pt_regs = 168"
  by (simp_all only: struct_pt_regs_def)
    (simp_all cong: layout_cong add: layout_eval layout_simps del: One_nat_def)

lemma kernel_socket_types_wf: "list_all wf_ctype kernel_socket_types"
  by (simp add: kernel_socket_types_def layout_simps)

end
