(* ===== verification/Kernel_Task.thy ===== *)
theory Kernel_Task
  imports Kernel_Socket
begin

text \<open>
  Tasks: the kernel types of \<^verbatim>\<open>internal/network/ebpf/bpf/vmlinux.h\<close>
  that matter here, with everything they contain by value, in dependency order:
  \<^verbatim>\<open>struct task_struct\<close>, which holds the process id and command name that the
  helpers \<^verbatim>\<open>bpf_get_current_pid_tgid\<close> and \<^verbatim>\<open>bpf_get_current_comm\<close> report, and
  \<^verbatim>\<open>struct cred\<close>.
  One definition per C type (a type of more than 150 lines is split into member lists);
  members keep their names and order, every pointer is \<open>CPtr\<close>. A member declaration
  that only names a tag declares nothing and has no counterpart.
\<close>

definition struct_thread_info :: ctype where
  "struct_thread_info = CStruct False
    [Fld ''flags'' (CInt 8),
     Fld ''syscall_work'' (CInt 8),
     Fld ''status'' typedef_u32,
     Fld ''cpu'' typedef_u32]"

definition struct_llist_node :: ctype where
  "struct_llist_node = CStruct False
    [Fld ''next'' CPtr]"

definition struct___call_single_node :: ctype where
  "struct___call_single_node = CStruct False
    [Fld ''llist'' struct_llist_node,
     Fld '''' (CUnion False
       [Fld ''u_flags'' (CInt 4),
        Fld ''a_flags'' typedef_atomic_t]),
     Fld ''src'' typedef_u16,
     Fld ''dst'' typedef_u16]"

definition struct_load_weight :: ctype where
  "struct_load_weight = CStruct False
    [Fld ''weight'' (CInt 8),
     Fld ''inv_weight'' typedef_u32]"

definition struct_sched_avg :: ctype where
  "struct_sched_avg = CStruct False
    [Fld ''last_update_time'' typedef_u64,
     Fld ''load_sum'' typedef_u64,
     Fld ''runnable_sum'' typedef_u64,
     Fld ''util_sum'' typedef_u32,
     Fld ''period_contrib'' typedef_u32,
     Fld ''load_avg'' (CInt 8),
     Fld ''runnable_avg'' (CInt 8),
     Fld ''util_avg'' (CInt 8),
     Fld ''util_est'' (CInt 4)]"

definition struct_sched_entity :: ctype where
  "struct_sched_entity = CStruct False
    [Fld ''load'' struct_load_weight,
     Fld ''run_node'' struct_rb_node,
     Fld ''deadline'' typedef_u64,
     Fld ''min_vruntime'' typedef_u64,
     Fld ''min_slice'' typedef_u64,
     Fld ''max_slice'' typedef_u64,
     Fld ''group_node'' struct_list_head,
     Fld ''on_rq'' (CInt 1),
     Fld ''sched_delayed'' (CInt 1),
     Fld ''rel_deadline'' (CInt 1),
     Fld ''custom_slice'' (CInt 1),
     Fld ''exec_start'' typedef_u64,
     Fld ''sum_exec_runtime'' typedef_u64,
     Fld ''prev_sum_exec_runtime'' typedef_u64,
     Fld ''vruntime'' typedef_u64,
     Fld ''vlag'' typedef_s64,
     Fld ''vprot'' typedef_u64,
     Fld ''slice'' typedef_u64,
     Fld ''nr_migrations'' typedef_u64,
     Fld ''depth'' (CInt 4),
     Fld ''parent'' CPtr,
     Fld ''cfs_rq'' CPtr,
     Fld ''my_q'' CPtr,
     Fld ''runnable_weight'' (CInt 8),
     Bits '''' (CInt 8) 64,
     Bits '''' (CInt 8) 64,
     Bits '''' (CInt 8) 64,
     Bits '''' (CInt 8) 64,
     Bits '''' (CInt 8) 64,
     Bits '''' (CInt 8) 64,
     Bits '''' (CInt 8) 64,
     Fld ''avg'' struct_sched_avg]"

definition struct_sched_rt_entity :: ctype where
  "struct_sched_rt_entity = CStruct False
    [Fld ''run_list'' struct_list_head,
     Fld ''timeout'' (CInt 8),
     Fld ''watchdog_stamp'' (CInt 8),
     Fld ''time_slice'' (CInt 4),
     Fld ''on_rq'' (CInt 2),
     Fld ''on_list'' (CInt 2),
     Fld ''back'' CPtr]"

definition typedef_dl_server_pick_f :: ctype where
  "typedef_dl_server_pick_f = CPtr"

definition struct_sched_dl_entity :: ctype where
  "struct_sched_dl_entity = CStruct False
    [Fld ''rb_node'' struct_rb_node,
     Fld ''dl_runtime'' typedef_u64,
     Fld ''dl_deadline'' typedef_u64,
     Fld ''dl_period'' typedef_u64,
     Fld ''dl_bw'' typedef_u64,
     Fld ''dl_density'' typedef_u64,
     Fld ''runtime'' typedef_s64,
     Fld ''deadline'' typedef_u64,
     Fld ''flags'' (CInt 4),
     Bits ''dl_throttled'' (CInt 4) 1,
     Bits ''dl_yielded'' (CInt 4) 1,
     Bits ''dl_non_contending'' (CInt 4) 1,
     Bits ''dl_overrun'' (CInt 4) 1,
     Bits ''dl_server'' (CInt 4) 1,
     Bits ''dl_server_active'' (CInt 4) 1,
     Bits ''dl_defer'' (CInt 4) 1,
     Bits ''dl_defer_armed'' (CInt 4) 1,
     Bits ''dl_defer_running'' (CInt 4) 1,
     Bits ''dl_defer_idle'' (CInt 4) 1,
     Fld ''dl_timer'' struct_hrtimer,
     Fld ''inactive_timer'' struct_hrtimer,
     Fld ''rq'' CPtr,
     Fld ''server_pick_task'' typedef_dl_server_pick_f,
     Fld ''pi_se'' CPtr]"

definition typedef_atomic_long_t :: ctype where
  "typedef_atomic_long_t = typedef_atomic64_t"

definition struct_scx_dsq_list_node :: ctype where
  "struct_scx_dsq_list_node = CStruct False
    [Fld ''node'' struct_list_head,
     Fld ''flags'' typedef_u32,
     Fld ''priv'' typedef_u32]"

definition typedef_s32 :: ctype where
  "typedef_s32 = typedef___s32"

definition struct_sched_ext_entity :: ctype where
  "struct_sched_ext_entity = CStruct False
    [Fld ''sched'' CPtr,
     Fld ''dsq'' CPtr,
     Fld ''ops_state'' typedef_atomic_long_t,
     Fld ''ddsp_dsq_id'' typedef_u64,
     Fld ''ddsp_enq_flags'' typedef_u64,
     Fld ''dsq_list'' struct_scx_dsq_list_node,
     Fld ''dsq_priq'' struct_rb_node,
     Fld ''dsq_seq'' typedef_u32,
     Fld ''dsq_flags'' typedef_u32,
     Fld ''flags'' typedef_u32,
     Fld ''weight'' typedef_u32,
     Fld ''sticky_cpu'' typedef_s32,
     Fld ''holding_cpu'' typedef_s32,
     Fld ''selected_cpu'' typedef_s32,
     Fld ''kf_tasks'' (CArr CPtr 2),
     Fld ''runnable_node'' struct_list_head,
     Fld ''runnable_at'' (CInt 8),
     Fld ''core_sched_at'' typedef_u64,
     Fld ''slice'' typedef_u64,
     Fld ''dsq_vtime'' typedef_u64,
     Fld ''disallow'' typedef_bool,
     Fld ''cgrp_moving_from'' CPtr,
     Fld ''tasks_node'' struct_list_head]"

definition struct_uclamp_se :: ctype where
  "struct_uclamp_se = CStruct False
    [Bits ''value'' (CInt 4) 11,
     Bits ''bucket_id'' (CInt 4) 3,
     Bits ''active'' (CInt 4) 1,
     Bits ''user_defined'' (CInt 4) 1]"

definition struct_sched_statistics :: ctype where
  "struct_sched_statistics = CStruct False
    [Fld ''wait_start'' typedef_u64,
     Fld ''wait_max'' typedef_u64,
     Fld ''wait_count'' typedef_u64,
     Fld ''wait_sum'' typedef_u64,
     Fld ''iowait_count'' typedef_u64,
     Fld ''iowait_sum'' typedef_u64,
     Fld ''sleep_start'' typedef_u64,
     Fld ''sleep_max'' typedef_u64,
     Fld ''sum_sleep_runtime'' typedef_s64,
     Fld ''block_start'' typedef_u64,
     Fld ''block_max'' typedef_u64,
     Fld ''sum_block_runtime'' typedef_s64,
     Fld ''exec_max'' typedef_s64,
     Fld ''slice_max'' typedef_u64,
     Fld ''nr_migrations_cold'' typedef_u64,
     Fld ''nr_failed_migrations_affine'' typedef_u64,
     Fld ''nr_failed_migrations_running'' typedef_u64,
     Fld ''nr_failed_migrations_hot'' typedef_u64,
     Fld ''nr_forced_migrations'' typedef_u64,
     Fld ''nr_wakeups'' typedef_u64,
     Fld ''nr_wakeups_sync'' typedef_u64,
     Fld ''nr_wakeups_migrate'' typedef_u64,
     Fld ''nr_wakeups_local'' typedef_u64,
     Fld ''nr_wakeups_remote'' typedef_u64,
     Fld ''nr_wakeups_affine'' typedef_u64,
     Fld ''nr_wakeups_affine_attempts'' typedef_u64,
     Fld ''nr_wakeups_passive'' typedef_u64,
     Fld ''nr_wakeups_idle'' typedef_u64,
     Fld ''core_forceidle_sum'' typedef_u64,
     Bits '''' (CInt 8) 64,
     Bits '''' (CInt 8) 64,
     Bits '''' (CInt 8) 64]"

definition struct_hlist_head :: ctype where
  "struct_hlist_head = CStruct False
    [Fld ''first'' CPtr]"

definition struct_cpumask :: ctype where
  "struct_cpumask = CStruct False
    [Fld ''bits'' (CArr (CInt 8) 6)]"

definition typedef_cpumask_t :: ctype where
  "typedef_cpumask_t = struct_cpumask"

definition union_rcu_special :: ctype where
  "union_rcu_special = CUnion False
    [Fld ''b'' (CStruct False
       [Fld ''blocked'' typedef_u8,
        Fld ''need_qs'' typedef_u8,
        Fld ''exp_hint'' typedef_u8,
        Fld ''need_mb'' typedef_u8]),
     Fld ''s'' typedef_u32]"

definition typedef_time64_t :: ctype where
  "typedef_time64_t = typedef___s64"

definition struct_timespec64 :: ctype where
  "struct_timespec64 = CStruct False
    [Fld ''tv_sec'' typedef_time64_t,
     Fld ''tv_nsec'' (CInt 8)]"

definition struct_sched_info :: ctype where
  "struct_sched_info = CStruct False
    [Fld ''pcount'' (CInt 8),
     Fld ''run_delay'' (CInt 8),
     Fld ''max_run_delay'' (CInt 8),
     Fld ''min_run_delay'' (CInt 8),
     Fld ''last_arrival'' (CInt 8),
     Fld ''last_queued'' (CInt 8),
     Fld ''max_run_delay_ts'' struct_timespec64]"

definition struct_plist_node :: ctype where
  "struct_plist_node = CStruct False
    [Fld ''prio'' (CInt 4),
     Fld ''prio_list'' struct_list_head,
     Fld ''node_list'' struct_list_head]"

definition typedef___kernel_clockid_t :: ctype where
  "typedef___kernel_clockid_t = CInt 4"

definition typedef_clockid_t :: ctype where
  "typedef_clockid_t = typedef___kernel_clockid_t"

definition enum_timespec_type :: "(string \<times> int) list" where
  "enum_timespec_type =
    [(''TT_NONE'', 0),
     (''TT_NATIVE'', 1),
     (''TT_COMPAT'', 2)]"

definition struct_restart_block :: ctype where
  "struct_restart_block = CStruct False
    [Fld ''arch_data'' (CInt 8),
     Fld ''fn'' CPtr,
     Fld '''' (CUnion False
       [Fld ''futex'' (CStruct False
          [Fld ''uaddr'' CPtr,
           Fld ''val'' typedef_u32,
           Fld ''flags'' typedef_u32,
           Fld ''bitset'' typedef_u32,
           Fld ''time'' typedef_ktime_t,
           Fld ''uaddr2'' CPtr]),
        Fld ''nanosleep'' (CStruct False
          [Fld ''clockid'' typedef_clockid_t,
           Fld ''type'' (cenum enum_timespec_type),
           Fld '''' (CUnion False
             [Fld ''rmtp'' CPtr,
              Fld ''compat_rmtp'' CPtr]),
           Fld ''expires'' typedef_ktime_t]),
        Fld ''poll'' (CStruct False
          [Fld ''ufds'' CPtr,
           Fld ''nfds'' (CInt 4),
           Fld ''has_timeout'' (CInt 4),
           Fld ''end_time'' struct_timespec64])])]"

definition typedef___kernel_pid_t :: ctype where
  "typedef___kernel_pid_t = CInt 4"

definition typedef_pid_t :: ctype where
  "typedef_pid_t = typedef___kernel_pid_t"

definition typedef_raw_spinlock_t :: ctype where
  "typedef_raw_spinlock_t = struct_raw_spinlock"

definition struct_prev_cputime :: ctype where
  "struct_prev_cputime = CStruct False
    [Fld ''utime'' typedef_u64,
     Fld ''stime'' typedef_u64,
     Fld ''lock'' typedef_raw_spinlock_t]"

definition struct_seqcount :: ctype where
  "struct_seqcount = CStruct False
    [Fld ''sequence'' (CInt 4)]"

definition typedef_seqcount_t :: ctype where
  "typedef_seqcount_t = struct_seqcount"

definition enum_vtime_state :: "(string \<times> int) list" where
  "enum_vtime_state =
    [(''VTIME_INACTIVE'', 0),
     (''VTIME_IDLE'', 1),
     (''VTIME_SYS'', 2),
     (''VTIME_USER'', 3),
     (''VTIME_GUEST'', 4)]"

definition struct_vtime :: ctype where
  "struct_vtime = CStruct False
    [Fld ''seqcount'' typedef_seqcount_t,
     Fld ''starttime'' (CInt 8),
     Fld ''state'' (cenum enum_vtime_state),
     Fld ''cpu'' (CInt 4),
     Fld ''utime'' typedef_u64,
     Fld ''stime'' typedef_u64,
     Fld ''gtime'' typedef_u64]"

definition struct_rb_root_cached :: ctype where
  "struct_rb_root_cached = CStruct False
    [Fld ''rb_root'' struct_rb_root,
     Fld ''rb_leftmost'' CPtr]"

definition struct_timerqueue_head :: ctype where
  "struct_timerqueue_head = CStruct False
    [Fld ''rb_root'' struct_rb_root_cached]"

definition struct_posix_cputimer_base :: ctype where
  "struct_posix_cputimer_base = CStruct False
    [Fld ''nextevt'' typedef_u64,
     Fld ''tqhead'' struct_timerqueue_head]"

definition struct_posix_cputimers :: ctype where
  "struct_posix_cputimers = CStruct False
    [Fld ''bases'' (CArr struct_posix_cputimer_base 3),
     Fld ''timers_active'' (CInt 4),
     Fld ''expiry_active'' (CInt 4)]"

definition struct_optimistic_spin_queue :: ctype where
  "struct_optimistic_spin_queue = CStruct False
    [Fld ''tail'' typedef_atomic_t]"

definition struct_mutex :: ctype where
  "struct_mutex = CStruct False
    [Fld ''owner'' typedef_atomic_long_t,
     Fld ''wait_lock'' typedef_raw_spinlock_t,
     Fld ''osq'' struct_optimistic_spin_queue,
     Fld ''first_waiter'' CPtr]"

definition struct_posix_cputimers_work :: ctype where
  "struct_posix_cputimers_work = CStruct False
    [Fld ''work'' struct_callback_head,
     Fld ''mutex'' struct_mutex,
     Fld ''scheduled'' (CInt 4)]"

definition struct_sysv_sem :: ctype where
  "struct_sysv_sem = CStruct False
    [Fld ''undo_list'' CPtr]"

definition struct_sysv_shm :: ctype where
  "struct_sysv_shm = CStruct False
    [Fld ''shm_clist'' struct_list_head]"

definition typedef_sigset_t :: ctype where
  "typedef_sigset_t = CStruct False
    [Fld ''sig'' (CArr (CInt 8) 1)]"

definition struct_sigpending :: ctype where
  "struct_sigpending = CStruct False
    [Fld ''list'' struct_list_head,
     Fld ''signal'' typedef_sigset_t]"

definition typedef___kernel_ulong_t :: ctype where
  "typedef___kernel_ulong_t = CInt 8"

definition typedef___kernel_size_t :: ctype where
  "typedef___kernel_size_t = typedef___kernel_ulong_t"

definition typedef_size_t :: ctype where
  "typedef_size_t = typedef___kernel_size_t"

definition struct_seccomp :: ctype where
  "struct_seccomp = CStruct False
    [Fld ''mode'' (CInt 4),
     Fld ''filter_count'' typedef_atomic_t,
     Fld ''filter'' CPtr]"

definition struct_syscall_user_dispatch :: ctype where
  "struct_syscall_user_dispatch = CStruct False
    [Fld ''selector'' CPtr,
     Fld ''offset'' (CInt 8),
     Fld ''len'' (CInt 8),
     Fld ''on_dispatch'' typedef_bool]"

definition struct_wake_q_node :: ctype where
  "struct_wake_q_node = CStruct False
    [Fld ''next'' CPtr]"

definition struct_task_io_accounting :: ctype where
  "struct_task_io_accounting = CStruct False
    [Fld ''rchar'' typedef_u64,
     Fld ''wchar'' typedef_u64,
     Fld ''syscr'' typedef_u64,
     Fld ''syscw'' typedef_u64,
     Fld ''read_bytes'' typedef_u64,
     Fld ''write_bytes'' typedef_u64,
     Fld ''cancelled_write_bytes'' typedef_u64]"

definition typedef_nodemask_t :: ctype where
  "typedef_nodemask_t = CStruct False
    [Fld ''bits'' (CArr (CInt 8) 1)]"

definition struct_seqcount_spinlock :: ctype where
  "struct_seqcount_spinlock = CStruct False
    [Fld ''seqcount'' typedef_seqcount_t]"

definition typedef_seqcount_spinlock_t :: ctype where
  "typedef_seqcount_spinlock_t = struct_seqcount_spinlock"

definition struct_rseq_event :: ctype where
  "struct_rseq_event = CStruct False
    [Fld '''' (CUnion False
       [Fld ''all'' typedef_u64,
        Fld '''' (CStruct False
          [Fld '''' (CUnion False
             [Fld ''events'' typedef_u32,
              Fld '''' (CStruct False
                [Fld ''sched_switch'' typedef_u8,
                 Fld ''ids_changed'' typedef_u8,
                 Fld ''user_irq'' typedef_u8])]),
           Fld ''has_rseq'' typedef_u8,
           Fld ''__pad'' typedef_u8,
           Fld '''' (CUnion False
             [Fld ''error'' typedef_u16,
              Fld '''' (CStruct False
                [Fld ''fatal'' typedef_u8,
                 Fld ''slowpath'' typedef_u8])])])])]"

definition struct_rseq_ids :: ctype where
  "struct_rseq_ids = CStruct False
    [Fld '''' (CUnion False
       [Fld ''cpu_cid'' typedef_u64,
        Fld '''' (CStruct False
          [Fld ''cpu_id'' typedef_u32,
           Fld ''mm_cid'' typedef_u32])]),
     Fld ''node_id'' typedef_u32]"

definition struct_rseq_data :: ctype where
  "struct_rseq_data = CStruct False
    [Fld ''usrptr'' CPtr,
     Fld ''len'' typedef_u32,
     Fld ''sig'' typedef_u32,
     Fld ''event'' struct_rseq_event,
     Fld ''ids'' struct_rseq_ids]"

definition struct_sched_mm_cid :: ctype where
  "struct_sched_mm_cid = CStruct False
    [Fld ''active'' (CInt 4),
     Fld ''cid'' (CInt 4),
     Fld ''node'' struct_hlist_node]"

definition struct_arch_tlbflush_unmap_batch :: ctype where
  "struct_arch_tlbflush_unmap_batch = CStruct False
    [Fld ''cpumask'' struct_cpumask,
     Fld ''unmapped_pages'' typedef_bool]"

definition struct_tlbflush_unmap_batch :: ctype where
  "struct_tlbflush_unmap_batch = CStruct False
    [Fld ''arch'' struct_arch_tlbflush_unmap_batch,
     Fld ''flush_required'' typedef_bool,
     Fld ''writable'' typedef_bool]"

definition struct_lazy_mmu_state :: ctype where
  "struct_lazy_mmu_state = CStruct False
    [Fld ''enable_count'' typedef_u8,
     Fld ''pause_count'' typedef_u8]"

definition struct_kmap_ctrl :: ctype where
  "struct_kmap_ctrl = CStruct False
    []"

definition struct_llist_head :: ctype where
  "struct_llist_head = CStruct False
    [Fld ''first'' CPtr]"

definition union_unwind_task_id :: ctype where
  "union_unwind_task_id = CUnion False
    [Fld '''' (CStruct False
       [Fld ''cpu'' typedef_u32,
        Fld ''cnt'' typedef_u32]),
     Fld ''id'' typedef_u64]"

definition struct_unwind_task_info :: ctype where
  "struct_unwind_task_info = CStruct False
    [Fld ''unwind_mask'' typedef_atomic_long_t,
     Fld ''cache'' CPtr,
     Fld ''work'' struct_callback_head,
     Fld ''id'' union_unwind_task_id]"

definition struct_desc_struct :: ctype where
  "struct_desc_struct = CStruct False
    [Fld ''limit0'' typedef_u16,
     Fld ''base0'' typedef_u16,
     Bits ''base1'' typedef_u16 8,
     Bits ''type'' typedef_u16 4,
     Bits ''s'' typedef_u16 1,
     Bits ''dpl'' typedef_u16 2,
     Bits ''p'' typedef_u16 1,
     Bits ''limit1'' typedef_u16 4,
     Bits ''avl'' typedef_u16 1,
     Bits ''l'' typedef_u16 1,
     Bits ''d'' typedef_u16 1,
     Bits ''g'' typedef_u16 1,
     Bits ''base2'' typedef_u16 8]"

definition struct_thread_shstk :: ctype where
  "struct_thread_shstk = CStruct False
    [Fld ''base'' typedef_u64,
     Fld ''size'' typedef_u64]"

definition struct_thread_struct :: ctype where
  "struct_thread_struct = CStruct False
    [Fld ''tls_array'' (CArr struct_desc_struct 3),
     Fld ''sp'' (CInt 8),
     Fld ''es'' (CInt 2),
     Fld ''ds'' (CInt 2),
     Fld ''fsindex'' (CInt 2),
     Fld ''gsindex'' (CInt 2),
     Fld ''fsbase'' (CInt 8),
     Fld ''gsbase'' (CInt 8),
     Fld ''ptrace_bps'' (CArr CPtr 4),
     Fld ''virtual_dr6'' (CInt 8),
     Fld ''ptrace_dr7'' (CInt 8),
     Fld ''cr2'' (CInt 8),
     Fld ''trap_nr'' (CInt 8),
     Fld ''error_code'' (CInt 8),
     Fld ''io_bitmap'' CPtr,
     Fld ''iopl_emul'' (CInt 8),
     Bits ''iopl_warn'' (CInt 4) 1,
     Fld ''pkru'' typedef_u32,
     Fld ''features'' (CInt 8),
     Fld ''features_locked'' (CInt 8),
     Fld ''shstk'' struct_thread_shstk]"

definition struct_task_struct_part1 :: "cfield list" where
  "struct_task_struct_part1 =
    [Fld ''thread_info'' struct_thread_info,
     Fld ''__state'' (CInt 4),
     Fld ''saved_state'' (CInt 4),
     Fld ''stack'' CPtr,
     Fld ''usage'' typedef_refcount_t,
     Fld ''flags'' (CInt 4),
     Fld ''ptrace'' (CInt 4),
     Fld ''alloc_tag'' CPtr,
     Fld ''on_cpu'' (CInt 4),
     Fld ''wake_entry'' struct___call_single_node,
     Fld ''wakee_flips'' (CInt 4),
     Fld ''wakee_flip_decay_ts'' (CInt 8),
     Fld ''last_wakee'' CPtr,
     Fld ''recent_used_cpu'' (CInt 4),
     Fld ''wake_cpu'' (CInt 4),
     Fld ''on_rq'' (CInt 4),
     Fld ''prio'' (CInt 4),
     Fld ''static_prio'' (CInt 4),
     Fld ''normal_prio'' (CInt 4),
     Fld ''rt_priority'' (CInt 4),
     Bits '''' (CInt 8) 64,
     Bits '''' (CInt 8) 64,
     Bits '''' (CInt 8) 64,
     Bits '''' (CInt 8) 64,
     Bits '''' (CInt 8) 64,
     Bits '''' (CInt 8) 64,
     Fld ''se'' struct_sched_entity,
     Fld ''rt'' struct_sched_rt_entity,
     Fld ''dl'' struct_sched_dl_entity,
     Fld ''dl_server'' CPtr,
     Fld ''scx'' struct_sched_ext_entity,
     Fld ''sched_class'' CPtr,
     Fld ''core_node'' struct_rb_node,
     Fld ''core_cookie'' (CInt 8),
     Fld ''core_occupation'' (CInt 4),
     Fld ''sched_task_group'' CPtr,
     Fld ''sched_throttle_work'' struct_callback_head,
     Fld ''throttle_node'' struct_list_head,
     Fld ''throttled'' typedef_bool,
     Fld ''uclamp_req'' (CArr struct_uclamp_se 2),
     Fld ''uclamp'' (CArr struct_uclamp_se 2),
     Bits '''' (CInt 8) 64,
     Bits '''' (CInt 8) 64,
     Bits '''' (CInt 8) 64,
     Bits '''' (CInt 8) 64,
     Bits '''' (CInt 8) 64,
     Bits '''' (CInt 8) 64,
     Fld ''stats'' struct_sched_statistics,
     Fld ''preempt_notifiers'' struct_hlist_head,
     Fld ''btrace_seq'' (CInt 4),
     Fld ''policy'' (CInt 4),
     Fld ''max_allowed_capacity'' (CInt 8),
     Fld ''nr_cpus_allowed'' (CInt 4),
     Fld ''cpus_ptr'' CPtr,
     Fld ''user_cpus_ptr'' CPtr,
     Fld ''cpus_mask'' typedef_cpumask_t,
     Fld ''migration_pending'' CPtr,
     Fld ''migration_disabled'' (CInt 2),
     Fld ''migration_flags'' (CInt 2),
     Fld ''rcu_read_lock_nesting'' (CInt 4),
     Fld ''rcu_read_unlock_special'' union_rcu_special,
     Fld ''rcu_node_entry'' struct_list_head,
     Fld ''rcu_blocked_node'' CPtr,
     Fld ''rcu_tasks_nvcsw'' (CInt 8),
     Fld ''rcu_tasks_holdout'' typedef_u8,
     Fld ''rcu_tasks_idx'' typedef_u8,
     Fld ''rcu_tasks_idle_cpu'' (CInt 4),
     Fld ''rcu_tasks_holdout_list'' struct_list_head,
     Fld ''rcu_tasks_exit_cpu'' (CInt 4),
     Fld ''rcu_tasks_exit_list'' struct_list_head,
     Fld ''trc_reader_nesting'' (CInt 4),
     Fld ''trc_reader_scp'' CPtr,
     Fld ''sched_info'' struct_sched_info,
     Fld ''tasks'' struct_list_head,
     Fld ''pushable_tasks'' struct_plist_node,
     Fld ''pushable_dl_tasks'' struct_rb_node,
     Fld ''mm'' CPtr,
     Fld ''active_mm'' CPtr,
     Fld ''exit_state'' (CInt 4),
     Fld ''exit_code'' (CInt 4),
     Fld ''exit_signal'' (CInt 4),
     Fld ''pdeath_signal'' (CInt 4),
     Fld ''jobctl'' (CInt 8),
     Fld ''personality'' (CInt 4),
     Bits ''sched_reset_on_fork'' (CInt 4) 1,
     Bits ''sched_contributes_to_load'' (CInt 4) 1,
     Bits ''sched_migrated'' (CInt 4) 1,
     Bits ''sched_task_hot'' (CInt 4) 1,
     Bits '''' (CInt 8) 28,
     Bits ''sched_remote_wakeup'' (CInt 4) 1,
     Bits ''sched_rt_mutex'' (CInt 4) 1,
     Bits ''user_dumpable'' (CInt 4) 1,
     Bits ''in_execve'' (CInt 4) 1,
     Bits ''in_iowait'' (CInt 4) 1,
     Bits ''restore_sigmask'' (CInt 4) 1,
     Bits ''in_lru_fault'' (CInt 4) 1,
     Bits ''no_cgroup_migration'' (CInt 4) 1,
     Bits ''frozen'' (CInt 4) 1,
     Bits ''use_memdelay'' (CInt 4) 1,
     Bits ''in_memstall'' (CInt 4) 1,
     Bits ''in_eventfd'' (CInt 4) 1,
     Bits ''pasid_activated'' (CInt 4) 1,
     Bits ''reported_split_lock'' (CInt 4) 1,
     Bits ''in_thrashing'' (CInt 4) 1,
     Bits ''in_nf_duplicate'' (CInt 4) 1,
     Fld ''atomic_flags'' (CInt 8),
     Fld ''restart_block'' struct_restart_block,
     Fld ''pid'' typedef_pid_t,
     Fld ''tgid'' typedef_pid_t,
     Fld ''stack_canary'' (CInt 8),
     Fld ''real_parent'' CPtr,
     Fld ''parent'' CPtr,
     Fld ''children'' struct_list_head,
     Fld ''sibling'' struct_list_head,
     Fld ''group_leader'' CPtr,
     Fld ''ptraced'' struct_list_head,
     Fld ''ptrace_entry'' struct_list_head,
     Fld ''thread_pid'' CPtr,
     Fld ''pid_links'' (CArr struct_hlist_node 4),
     Fld ''thread_node'' struct_list_head,
     Fld ''vfork_done'' CPtr,
     Fld ''set_child_tid'' CPtr,
     Fld ''clear_child_tid'' CPtr,
     Fld ''worker_private'' CPtr,
     Fld ''utime'' typedef_u64,
     Fld ''stime'' typedef_u64,
     Fld ''gtime'' typedef_u64,
     Fld ''prev_cputime'' struct_prev_cputime,
     Fld ''vtime'' struct_vtime,
     Fld ''tick_dep_mask'' typedef_atomic_t,
     Fld ''nvcsw'' (CInt 8),
     Fld ''nivcsw'' (CInt 8),
     Fld ''start_time'' typedef_u64,
     Fld ''start_boottime'' typedef_u64,
     Fld ''min_flt'' (CInt 8),
     Fld ''maj_flt'' (CInt 8),
     Fld ''posix_cputimers'' struct_posix_cputimers,
     Fld ''posix_cputimers_work'' struct_posix_cputimers_work,
     Fld ''ptracer_cred'' CPtr,
     Fld ''real_cred'' CPtr]"

definition struct_task_struct_part2 :: "cfield list" where
  "struct_task_struct_part2 =
    [Fld ''cred'' CPtr,
     Fld ''cached_requested_key'' CPtr,
     Fld ''comm'' (CArr (CInt 1) 16),
     Fld ''nameidata'' CPtr,
     Fld ''sysvsem'' struct_sysv_sem,
     Fld ''sysvshm'' struct_sysv_shm,
     Fld ''last_switch_count'' (CInt 8),
     Fld ''last_switch_time'' (CInt 8),
     Fld ''fs'' CPtr,
     Fld ''files'' CPtr,
     Fld ''io_uring'' CPtr,
     Fld ''io_uring_restrict'' CPtr,
     Fld ''nsproxy'' CPtr,
     Fld ''signal'' CPtr,
     Fld ''sighand'' CPtr,
     Fld ''blocked'' typedef_sigset_t,
     Fld ''real_blocked'' typedef_sigset_t,
     Fld ''saved_sigmask'' typedef_sigset_t,
     Fld ''pending'' struct_sigpending,
     Fld ''sas_ss_sp'' (CInt 8),
     Fld ''sas_ss_size'' typedef_size_t,
     Fld ''sas_ss_flags'' (CInt 4),
     Fld ''task_works'' CPtr,
     Fld ''audit_context'' CPtr,
     Fld ''loginuid'' typedef_kuid_t,
     Fld ''sessionid'' (CInt 4),
     Fld ''seccomp'' struct_seccomp,
     Fld ''syscall_dispatch'' struct_syscall_user_dispatch,
     Fld ''parent_exec_id'' typedef_u64,
     Fld ''self_exec_id'' typedef_u64,
     Fld ''alloc_lock'' typedef_spinlock_t,
     Fld ''pi_lock'' typedef_raw_spinlock_t,
     Fld ''wake_q'' struct_wake_q_node,
     Fld ''pi_waiters'' struct_rb_root_cached,
     Fld ''pi_top_task'' CPtr,
     Fld ''pi_blocked_on'' CPtr,
     Fld ''blocked_on'' CPtr,
     Fld ''blocked_lock'' typedef_raw_spinlock_t,
     Fld ''blocker'' (CInt 8),
     Fld ''journal_info'' CPtr,
     Fld ''bio_list'' CPtr,
     Fld ''plug'' CPtr,
     Fld ''reclaim_state'' CPtr,
     Fld ''io_context'' CPtr,
     Fld ''capture_control'' CPtr,
     Fld ''ptrace_message'' (CInt 8),
     Fld ''last_siginfo'' CPtr,
     Fld ''ioac'' struct_task_io_accounting,
     Fld ''psi_flags'' (CInt 4),
     Fld ''acct_rss_mem1'' typedef_u64,
     Fld ''acct_vm_mem1'' typedef_u64,
     Fld ''acct_timexpd'' typedef_u64,
     Fld ''mems_allowed'' typedef_nodemask_t,
     Fld ''mems_allowed_seq'' typedef_seqcount_spinlock_t,
     Fld ''cpuset_mem_spread_rotor'' (CInt 4),
     Fld ''cgroups'' CPtr,
     Fld ''cg_list'' struct_list_head,
     Fld ''closid'' typedef_u32,
     Fld ''rmid'' typedef_u32,
     Fld ''robust_list'' CPtr,
     Fld ''compat_robust_list'' CPtr,
     Fld ''pi_state_list'' struct_list_head,
     Fld ''pi_state_cache'' CPtr,
     Fld ''futex_exit_mutex'' struct_mutex,
     Fld ''futex_state'' (CInt 4),
     Fld ''perf_recursion'' (CArr typedef_u8 4),
     Fld ''perf_event_ctxp'' CPtr,
     Fld ''perf_event_mutex'' struct_mutex,
     Fld ''perf_event_list'' struct_list_head,
     Fld ''perf_ctx_data'' CPtr,
     Fld ''mempolicy'' CPtr,
     Fld ''il_prev'' (CInt 2),
     Fld ''il_weight'' typedef_u8,
     Fld ''pref_node_fork'' (CInt 2),
     Fld ''numa_scan_seq'' (CInt 4),
     Fld ''numa_scan_period'' (CInt 4),
     Fld ''numa_scan_period_max'' (CInt 4),
     Fld ''numa_preferred_nid'' (CInt 4),
     Fld ''numa_migrate_retry'' (CInt 8),
     Fld ''node_stamp'' typedef_u64,
     Fld ''last_task_numa_placement'' typedef_u64,
     Fld ''last_sum_exec_runtime'' typedef_u64,
     Fld ''numa_work'' struct_callback_head,
     Fld ''numa_group'' CPtr,
     Fld ''numa_faults'' CPtr,
     Fld ''total_numa_faults'' (CInt 8),
     Fld ''numa_faults_locality'' (CArr (CInt 8) 3),
     Fld ''numa_pages_migrated'' (CInt 8),
     Fld ''rseq'' struct_rseq_data,
     Fld ''mm_cid'' struct_sched_mm_cid,
     Fld ''tlb_ubc'' struct_tlbflush_unmap_batch,
     Fld ''splice_pipe'' CPtr,
     Fld ''task_frag'' struct_page_frag,
     Fld ''lazy_mmu_state'' struct_lazy_mmu_state,
     Fld ''delays'' CPtr,
     Fld ''nr_dirtied'' (CInt 4),
     Fld ''nr_dirtied_pause'' (CInt 4),
     Fld ''dirty_paused_when'' (CInt 8),
     Fld ''timer_slack_ns'' typedef_u64,
     Fld ''default_timer_slack_ns'' typedef_u64,
     Fld ''curr_ret_stack'' (CInt 4),
     Fld ''curr_ret_depth'' (CInt 4),
     Fld ''ret_stack'' CPtr,
     Fld ''ftrace_timestamp'' (CInt 8),
     Fld ''ftrace_sleeptime'' (CInt 8),
     Fld ''trace_overrun'' typedef_atomic_t,
     Fld ''tracing_graph_pause'' typedef_atomic_t,
     Fld ''trace_recursion'' (CInt 8),
     Fld ''memcg_nr_pages_over_high'' (CInt 4),
     Fld ''active_memcg'' CPtr,
     Fld ''objcg'' CPtr,
     Fld ''throttle_disk'' CPtr,
     Fld ''utask'' CPtr,
     Fld ''sequential_io'' (CInt 4),
     Fld ''sequential_io_avg'' (CInt 4),
     Fld ''kmap_ctrl'' struct_kmap_ctrl,
     Fld ''rcu'' struct_callback_head,
     Fld ''rcu_users'' typedef_refcount_t,
     Fld ''pagefault_disabled'' (CInt 4),
     Fld ''oom_reaper_list'' CPtr,
     Fld ''oom_reaper_timer'' struct_timer_list,
     Fld ''stack_vm_area'' CPtr,
     Fld ''stack_refcount'' typedef_refcount_t,
     Fld ''security'' CPtr,
     Fld ''bpf_storage'' CPtr,
     Fld ''bpf_ctx'' CPtr,
     Fld ''bpf_net_context'' CPtr,
     Fld ''mce_vaddr'' CPtr,
     Fld ''mce_kflags'' typedef___u64,
     Fld ''mce_addr'' typedef_u64,
     Bits ''mce_ripv'' typedef___u64 1,
     Bits ''mce_whole_page'' typedef___u64 1,
     Bits ''__mce_reserved'' typedef___u64 62,
     Fld ''mce_kill_me'' struct_callback_head,
     Fld ''mce_count'' (CInt 4),
     Fld ''kretprobe_instances'' struct_llist_head,
     Fld ''rethooks'' struct_llist_head,
     Fld ''l1d_flush_kill'' struct_callback_head,
     Fld ''unwind_info'' struct_unwind_task_info,
     Fld ''thread'' struct_thread_struct]"

definition struct_task_struct :: ctype where
  "struct_task_struct = CStruct False (struct_task_struct_part1 @ struct_task_struct_part2)"

definition typedef___kernel_gid32_t :: ctype where
  "typedef___kernel_gid32_t = CInt 4"

definition typedef_gid_t :: ctype where
  "typedef_gid_t = typedef___kernel_gid32_t"

definition typedef_kgid_t :: ctype where
  "typedef_kgid_t = CStruct False
    [Fld ''val'' typedef_gid_t]"

definition typedef_kernel_cap_t :: ctype where
  "typedef_kernel_cap_t = CStruct False
    [Fld ''val'' typedef_u64]"

definition struct_cred :: ctype where
  "struct_cred = CStruct False
    [Fld ''usage'' typedef_atomic_long_t,
     Fld ''uid'' typedef_kuid_t,
     Fld ''gid'' typedef_kgid_t,
     Fld ''suid'' typedef_kuid_t,
     Fld ''sgid'' typedef_kgid_t,
     Fld ''euid'' typedef_kuid_t,
     Fld ''egid'' typedef_kgid_t,
     Fld ''fsuid'' typedef_kuid_t,
     Fld ''fsgid'' typedef_kgid_t,
     Fld ''securebits'' (CInt 4),
     Fld ''cap_inheritable'' typedef_kernel_cap_t,
     Fld ''cap_permitted'' typedef_kernel_cap_t,
     Fld ''cap_effective'' typedef_kernel_cap_t,
     Fld ''cap_bset'' typedef_kernel_cap_t,
     Fld ''cap_ambient'' typedef_kernel_cap_t,
     Fld ''jit_keyring'' (CInt 1),
     Fld ''session_keyring'' CPtr,
     Fld ''process_keyring'' CPtr,
     Fld ''thread_keyring'' CPtr,
     Fld ''request_key_auth'' CPtr,
     Fld ''security'' CPtr,
     Fld ''user'' CPtr,
     Fld ''user_ns'' CPtr,
     Fld ''ucounts'' CPtr,
     Fld ''group_info'' CPtr,
     Fld '''' (CUnion False
       [Fld ''non_rcu'' (CInt 4),
        Fld ''rcu'' struct_callback_head])]"

text \<open>The structs and unions of this theory.\<close>

definition kernel_task_types :: "ctype list" where
  "kernel_task_types =
    [struct_thread_info,
     struct_llist_node,
     struct___call_single_node,
     struct_load_weight,
     struct_sched_avg,
     struct_sched_entity,
     struct_sched_rt_entity,
     struct_sched_dl_entity,
     struct_scx_dsq_list_node,
     struct_sched_ext_entity,
     struct_uclamp_se,
     struct_sched_statistics,
     struct_hlist_head,
     struct_cpumask,
     union_rcu_special,
     struct_timespec64,
     struct_sched_info,
     struct_plist_node,
     struct_restart_block,
     struct_prev_cputime,
     struct_seqcount,
     struct_vtime,
     struct_rb_root_cached,
     struct_timerqueue_head,
     struct_posix_cputimer_base,
     struct_posix_cputimers,
     struct_optimistic_spin_queue,
     struct_mutex,
     struct_posix_cputimers_work,
     struct_sysv_sem,
     struct_sysv_shm,
     struct_sigpending,
     struct_seccomp,
     struct_syscall_user_dispatch,
     struct_wake_q_node,
     struct_task_io_accounting,
     struct_seqcount_spinlock,
     struct_rseq_event,
     struct_rseq_ids,
     struct_rseq_data,
     struct_sched_mm_cid,
     struct_arch_tlbflush_unmap_batch,
     struct_tlbflush_unmap_batch,
     struct_lazy_mmu_state,
     struct_kmap_ctrl,
     struct_llist_head,
     union_unwind_task_id,
     struct_unwind_task_info,
     struct_desc_struct,
     struct_thread_shstk,
     struct_thread_struct,
     struct_task_struct,
     struct_cred]"

lemmas kernel_task_defs =
  struct_thread_info_def struct_llist_node_def struct___call_single_node_def
  struct_load_weight_def struct_sched_avg_def struct_sched_entity_def struct_sched_rt_entity_def
  typedef_dl_server_pick_f_def struct_sched_dl_entity_def typedef_atomic_long_t_def
  struct_scx_dsq_list_node_def typedef_s32_def struct_sched_ext_entity_def struct_uclamp_se_def
  struct_sched_statistics_def struct_hlist_head_def struct_cpumask_def typedef_cpumask_t_def
  union_rcu_special_def typedef_time64_t_def struct_timespec64_def struct_sched_info_def
  struct_plist_node_def typedef___kernel_clockid_t_def typedef_clockid_t_def
  enum_timespec_type_def struct_restart_block_def typedef___kernel_pid_t_def typedef_pid_t_def
  typedef_raw_spinlock_t_def struct_prev_cputime_def struct_seqcount_def typedef_seqcount_t_def
  enum_vtime_state_def struct_vtime_def struct_rb_root_cached_def struct_timerqueue_head_def
  struct_posix_cputimer_base_def struct_posix_cputimers_def struct_optimistic_spin_queue_def
  struct_mutex_def struct_posix_cputimers_work_def struct_sysv_sem_def struct_sysv_shm_def
  typedef_sigset_t_def struct_sigpending_def typedef___kernel_ulong_t_def
  typedef___kernel_size_t_def typedef_size_t_def struct_seccomp_def
  struct_syscall_user_dispatch_def struct_wake_q_node_def struct_task_io_accounting_def
  typedef_nodemask_t_def struct_seqcount_spinlock_def typedef_seqcount_spinlock_t_def
  struct_rseq_event_def struct_rseq_ids_def struct_rseq_data_def struct_sched_mm_cid_def
  struct_arch_tlbflush_unmap_batch_def struct_tlbflush_unmap_batch_def struct_lazy_mmu_state_def
  struct_kmap_ctrl_def struct_llist_head_def union_unwind_task_id_def
  struct_unwind_task_info_def struct_desc_struct_def struct_thread_shstk_def
  struct_thread_struct_def struct_task_struct_part1_def struct_task_struct_part2_def
  struct_task_struct_def typedef___kernel_gid32_t_def typedef_gid_t_def typedef_kgid_t_def
  typedef_kernel_cap_t_def struct_cred_def

lemma struct_thread_info_layout [layout_simps]:
  "wf_ctype struct_thread_info" "alignof struct_thread_info = 8" "sizeof struct_thread_info = 24"
  by (simp_all only: struct_thread_info_def)
    (simp_all cong: layout_cong add: layout_eval layout_simps del: One_nat_def)

lemma struct_llist_node_layout [layout_simps]:
  "wf_ctype struct_llist_node" "alignof struct_llist_node = 8" "sizeof struct_llist_node = 8"
  by (simp_all only: struct_llist_node_def)
    (simp_all cong: layout_cong add: layout_eval layout_simps del: One_nat_def)

lemma struct___call_single_node_layout [layout_simps]:
  "wf_ctype struct___call_single_node" "alignof struct___call_single_node = 8" "sizeof struct___call_single_node = 16"
  by (simp_all only: struct___call_single_node_def)
    (simp_all cong: layout_cong add: layout_eval layout_simps del: One_nat_def)

lemma struct_load_weight_layout [layout_simps]:
  "wf_ctype struct_load_weight" "alignof struct_load_weight = 8" "sizeof struct_load_weight = 16"
  by (simp_all only: struct_load_weight_def)
    (simp_all cong: layout_cong add: layout_eval layout_simps del: One_nat_def)

lemma struct_sched_avg_layout [layout_simps]:
  "wf_ctype struct_sched_avg" "alignof struct_sched_avg = 8" "sizeof struct_sched_avg = 64"
  by (simp_all only: struct_sched_avg_def)
    (simp_all cong: layout_cong add: layout_eval layout_simps del: One_nat_def)

lemma struct_sched_entity_layout [layout_simps]:
  "wf_ctype struct_sched_entity" "alignof struct_sched_entity = 8" "sizeof struct_sched_entity = 320"
  by (simp_all only: struct_sched_entity_def)
    (simp_all cong: layout_cong add: layout_eval layout_simps del: One_nat_def)

lemma struct_sched_rt_entity_layout [layout_simps]:
  "wf_ctype struct_sched_rt_entity" "alignof struct_sched_rt_entity = 8" "sizeof struct_sched_rt_entity = 48"
  by (simp_all only: struct_sched_rt_entity_def)
    (simp_all cong: layout_cong add: layout_eval layout_simps del: One_nat_def)

lemma typedef_dl_server_pick_f_layout [layout_simps]:
  "wf_ctype typedef_dl_server_pick_f" "alignof typedef_dl_server_pick_f = 8" "sizeof typedef_dl_server_pick_f = 8"
  by (simp_all only: typedef_dl_server_pick_f_def)
    (simp_all cong: layout_cong add: layout_eval layout_simps del: One_nat_def)

lemma struct_sched_dl_entity_layout [layout_simps]:
  "wf_ctype struct_sched_dl_entity" "alignof struct_sched_dl_entity = 8" "sizeof struct_sched_dl_entity = 272"
  by (simp_all only: struct_sched_dl_entity_def)
    (simp_all cong: layout_cong add: layout_eval layout_simps del: One_nat_def)

lemma typedef_atomic_long_t_layout [layout_simps]:
  "wf_ctype typedef_atomic_long_t" "alignof typedef_atomic_long_t = 8" "sizeof typedef_atomic_long_t = 8"
  by (simp_all only: typedef_atomic_long_t_def)
    (simp_all cong: layout_cong add: layout_eval layout_simps del: One_nat_def)

lemma struct_scx_dsq_list_node_layout [layout_simps]:
  "wf_ctype struct_scx_dsq_list_node" "alignof struct_scx_dsq_list_node = 8" "sizeof struct_scx_dsq_list_node = 24"
  by (simp_all only: struct_scx_dsq_list_node_def)
    (simp_all cong: layout_cong add: layout_eval layout_simps del: One_nat_def)

lemma typedef_s32_layout [layout_simps]:
  "wf_ctype typedef_s32" "alignof typedef_s32 = 4" "sizeof typedef_s32 = 4"
  by (simp_all only: typedef_s32_def)
    (simp_all cong: layout_cong add: layout_eval layout_simps del: One_nat_def)

lemma struct_sched_ext_entity_layout [layout_simps]:
  "wf_ctype struct_sched_ext_entity" "alignof struct_sched_ext_entity = 8" "sizeof struct_sched_ext_entity = 216"
  by (simp_all only: struct_sched_ext_entity_def)
    (simp_all cong: layout_cong add: layout_eval layout_simps del: One_nat_def)

lemma struct_uclamp_se_layout [layout_simps]:
  "wf_ctype struct_uclamp_se" "alignof struct_uclamp_se = 4" "sizeof struct_uclamp_se = 4"
  by (simp_all only: struct_uclamp_se_def)
    (simp_all cong: layout_cong add: layout_eval layout_simps del: One_nat_def)

lemma struct_sched_statistics_layout [layout_simps]:
  "wf_ctype struct_sched_statistics" "alignof struct_sched_statistics = 8" "sizeof struct_sched_statistics = 256"
  by (simp_all only: struct_sched_statistics_def)
    (simp_all cong: layout_cong add: layout_eval layout_simps del: One_nat_def)

lemma struct_hlist_head_layout [layout_simps]:
  "wf_ctype struct_hlist_head" "alignof struct_hlist_head = 8" "sizeof struct_hlist_head = 8"
  by (simp_all only: struct_hlist_head_def)
    (simp_all cong: layout_cong add: layout_eval layout_simps del: One_nat_def)

lemma struct_cpumask_layout [layout_simps]:
  "wf_ctype struct_cpumask" "alignof struct_cpumask = 8" "sizeof struct_cpumask = 48"
  by (simp_all only: struct_cpumask_def)
    (simp_all cong: layout_cong add: layout_eval layout_simps del: One_nat_def)

lemma typedef_cpumask_t_layout [layout_simps]:
  "wf_ctype typedef_cpumask_t" "alignof typedef_cpumask_t = 8" "sizeof typedef_cpumask_t = 48"
  by (simp_all only: typedef_cpumask_t_def)
    (simp_all cong: layout_cong add: layout_eval layout_simps del: One_nat_def)

lemma union_rcu_special_layout [layout_simps]:
  "wf_ctype union_rcu_special" "alignof union_rcu_special = 4" "sizeof union_rcu_special = 4"
  by (simp_all only: union_rcu_special_def)
    (simp_all cong: layout_cong add: layout_eval layout_simps del: One_nat_def)

lemma typedef_time64_t_layout [layout_simps]:
  "wf_ctype typedef_time64_t" "alignof typedef_time64_t = 8" "sizeof typedef_time64_t = 8"
  by (simp_all only: typedef_time64_t_def)
    (simp_all cong: layout_cong add: layout_eval layout_simps del: One_nat_def)

lemma struct_timespec64_layout [layout_simps]:
  "wf_ctype struct_timespec64" "alignof struct_timespec64 = 8" "sizeof struct_timespec64 = 16"
  by (simp_all only: struct_timespec64_def)
    (simp_all cong: layout_cong add: layout_eval layout_simps del: One_nat_def)

lemma struct_sched_info_layout [layout_simps]:
  "wf_ctype struct_sched_info" "alignof struct_sched_info = 8" "sizeof struct_sched_info = 64"
  by (simp_all only: struct_sched_info_def)
    (simp_all cong: layout_cong add: layout_eval layout_simps del: One_nat_def)

lemma struct_plist_node_layout [layout_simps]:
  "wf_ctype struct_plist_node" "alignof struct_plist_node = 8" "sizeof struct_plist_node = 40"
  by (simp_all only: struct_plist_node_def)
    (simp_all cong: layout_cong add: layout_eval layout_simps del: One_nat_def)

lemma typedef___kernel_clockid_t_layout [layout_simps]:
  "wf_ctype typedef___kernel_clockid_t" "alignof typedef___kernel_clockid_t = 4" "sizeof typedef___kernel_clockid_t = 4"
  by (simp_all only: typedef___kernel_clockid_t_def)
    (simp_all cong: layout_cong add: layout_eval layout_simps del: One_nat_def)

lemma typedef_clockid_t_layout [layout_simps]:
  "wf_ctype typedef_clockid_t" "alignof typedef_clockid_t = 4" "sizeof typedef_clockid_t = 4"
  by (simp_all only: typedef_clockid_t_def)
    (simp_all cong: layout_cong add: layout_eval layout_simps del: One_nat_def)

lemma enum_timespec_type_layout [layout_simps]:
  "wf_ctype (cenum enum_timespec_type)" "alignof (cenum enum_timespec_type) = 4" "sizeof (cenum enum_timespec_type) = 4"
  by (simp_all add: cenum_def enum_timespec_type_def scalar_size_def del: One_nat_def)

lemma struct_restart_block_layout [layout_simps]:
  "wf_ctype struct_restart_block" "alignof struct_restart_block = 8" "sizeof struct_restart_block = 56"
  by (simp_all only: struct_restart_block_def)
    (simp_all cong: layout_cong add: layout_eval layout_simps del: One_nat_def)

lemma typedef___kernel_pid_t_layout [layout_simps]:
  "wf_ctype typedef___kernel_pid_t" "alignof typedef___kernel_pid_t = 4" "sizeof typedef___kernel_pid_t = 4"
  by (simp_all only: typedef___kernel_pid_t_def)
    (simp_all cong: layout_cong add: layout_eval layout_simps del: One_nat_def)

lemma typedef_pid_t_layout [layout_simps]:
  "wf_ctype typedef_pid_t" "alignof typedef_pid_t = 4" "sizeof typedef_pid_t = 4"
  by (simp_all only: typedef_pid_t_def)
    (simp_all cong: layout_cong add: layout_eval layout_simps del: One_nat_def)

lemma typedef_raw_spinlock_t_layout [layout_simps]:
  "wf_ctype typedef_raw_spinlock_t" "alignof typedef_raw_spinlock_t = 4" "sizeof typedef_raw_spinlock_t = 4"
  by (simp_all only: typedef_raw_spinlock_t_def)
    (simp_all cong: layout_cong add: layout_eval layout_simps del: One_nat_def)

lemma struct_prev_cputime_layout [layout_simps]:
  "wf_ctype struct_prev_cputime" "alignof struct_prev_cputime = 8" "sizeof struct_prev_cputime = 24"
  by (simp_all only: struct_prev_cputime_def)
    (simp_all cong: layout_cong add: layout_eval layout_simps del: One_nat_def)

lemma struct_seqcount_layout [layout_simps]:
  "wf_ctype struct_seqcount" "alignof struct_seqcount = 4" "sizeof struct_seqcount = 4"
  by (simp_all only: struct_seqcount_def)
    (simp_all cong: layout_cong add: layout_eval layout_simps del: One_nat_def)

lemma typedef_seqcount_t_layout [layout_simps]:
  "wf_ctype typedef_seqcount_t" "alignof typedef_seqcount_t = 4" "sizeof typedef_seqcount_t = 4"
  by (simp_all only: typedef_seqcount_t_def)
    (simp_all cong: layout_cong add: layout_eval layout_simps del: One_nat_def)

lemma enum_vtime_state_layout [layout_simps]:
  "wf_ctype (cenum enum_vtime_state)" "alignof (cenum enum_vtime_state) = 4" "sizeof (cenum enum_vtime_state) = 4"
  by (simp_all add: cenum_def enum_vtime_state_def scalar_size_def del: One_nat_def)

lemma struct_vtime_layout [layout_simps]:
  "wf_ctype struct_vtime" "alignof struct_vtime = 8" "sizeof struct_vtime = 48"
  by (simp_all only: struct_vtime_def)
    (simp_all cong: layout_cong add: layout_eval layout_simps del: One_nat_def)

lemma struct_rb_root_cached_layout [layout_simps]:
  "wf_ctype struct_rb_root_cached" "alignof struct_rb_root_cached = 8" "sizeof struct_rb_root_cached = 16"
  by (simp_all only: struct_rb_root_cached_def)
    (simp_all cong: layout_cong add: layout_eval layout_simps del: One_nat_def)

lemma struct_timerqueue_head_layout [layout_simps]:
  "wf_ctype struct_timerqueue_head" "alignof struct_timerqueue_head = 8" "sizeof struct_timerqueue_head = 16"
  by (simp_all only: struct_timerqueue_head_def)
    (simp_all cong: layout_cong add: layout_eval layout_simps del: One_nat_def)

lemma struct_posix_cputimer_base_layout [layout_simps]:
  "wf_ctype struct_posix_cputimer_base" "alignof struct_posix_cputimer_base = 8" "sizeof struct_posix_cputimer_base = 24"
  by (simp_all only: struct_posix_cputimer_base_def)
    (simp_all cong: layout_cong add: layout_eval layout_simps del: One_nat_def)

lemma struct_posix_cputimers_layout [layout_simps]:
  "wf_ctype struct_posix_cputimers" "alignof struct_posix_cputimers = 8" "sizeof struct_posix_cputimers = 80"
  by (simp_all only: struct_posix_cputimers_def)
    (simp_all cong: layout_cong add: layout_eval layout_simps del: One_nat_def)

lemma struct_optimistic_spin_queue_layout [layout_simps]:
  "wf_ctype struct_optimistic_spin_queue" "alignof struct_optimistic_spin_queue = 4" "sizeof struct_optimistic_spin_queue = 4"
  by (simp_all only: struct_optimistic_spin_queue_def)
    (simp_all cong: layout_cong add: layout_eval layout_simps del: One_nat_def)

lemma struct_mutex_layout [layout_simps]:
  "wf_ctype struct_mutex" "alignof struct_mutex = 8" "sizeof struct_mutex = 24"
  by (simp_all only: struct_mutex_def)
    (simp_all cong: layout_cong add: layout_eval layout_simps del: One_nat_def)

lemma struct_posix_cputimers_work_layout [layout_simps]:
  "wf_ctype struct_posix_cputimers_work" "alignof struct_posix_cputimers_work = 8" "sizeof struct_posix_cputimers_work = 48"
  by (simp_all only: struct_posix_cputimers_work_def)
    (simp_all cong: layout_cong add: layout_eval layout_simps del: One_nat_def)

lemma struct_sysv_sem_layout [layout_simps]:
  "wf_ctype struct_sysv_sem" "alignof struct_sysv_sem = 8" "sizeof struct_sysv_sem = 8"
  by (simp_all only: struct_sysv_sem_def)
    (simp_all cong: layout_cong add: layout_eval layout_simps del: One_nat_def)

lemma struct_sysv_shm_layout [layout_simps]:
  "wf_ctype struct_sysv_shm" "alignof struct_sysv_shm = 8" "sizeof struct_sysv_shm = 16"
  by (simp_all only: struct_sysv_shm_def)
    (simp_all cong: layout_cong add: layout_eval layout_simps del: One_nat_def)

lemma typedef_sigset_t_layout [layout_simps]:
  "wf_ctype typedef_sigset_t" "alignof typedef_sigset_t = 8" "sizeof typedef_sigset_t = 8"
  by (simp_all only: typedef_sigset_t_def)
    (simp_all cong: layout_cong add: layout_eval layout_simps del: One_nat_def)

lemma struct_sigpending_layout [layout_simps]:
  "wf_ctype struct_sigpending" "alignof struct_sigpending = 8" "sizeof struct_sigpending = 24"
  by (simp_all only: struct_sigpending_def)
    (simp_all cong: layout_cong add: layout_eval layout_simps del: One_nat_def)

lemma typedef___kernel_ulong_t_layout [layout_simps]:
  "wf_ctype typedef___kernel_ulong_t" "alignof typedef___kernel_ulong_t = 8" "sizeof typedef___kernel_ulong_t = 8"
  by (simp_all only: typedef___kernel_ulong_t_def)
    (simp_all cong: layout_cong add: layout_eval layout_simps del: One_nat_def)

lemma typedef___kernel_size_t_layout [layout_simps]:
  "wf_ctype typedef___kernel_size_t" "alignof typedef___kernel_size_t = 8" "sizeof typedef___kernel_size_t = 8"
  by (simp_all only: typedef___kernel_size_t_def)
    (simp_all cong: layout_cong add: layout_eval layout_simps del: One_nat_def)

lemma typedef_size_t_layout [layout_simps]:
  "wf_ctype typedef_size_t" "alignof typedef_size_t = 8" "sizeof typedef_size_t = 8"
  by (simp_all only: typedef_size_t_def)
    (simp_all cong: layout_cong add: layout_eval layout_simps del: One_nat_def)

lemma struct_seccomp_layout [layout_simps]:
  "wf_ctype struct_seccomp" "alignof struct_seccomp = 8" "sizeof struct_seccomp = 16"
  by (simp_all only: struct_seccomp_def)
    (simp_all cong: layout_cong add: layout_eval layout_simps del: One_nat_def)

lemma struct_syscall_user_dispatch_layout [layout_simps]:
  "wf_ctype struct_syscall_user_dispatch" "alignof struct_syscall_user_dispatch = 8" "sizeof struct_syscall_user_dispatch = 32"
  by (simp_all only: struct_syscall_user_dispatch_def)
    (simp_all cong: layout_cong add: layout_eval layout_simps del: One_nat_def)

lemma struct_wake_q_node_layout [layout_simps]:
  "wf_ctype struct_wake_q_node" "alignof struct_wake_q_node = 8" "sizeof struct_wake_q_node = 8"
  by (simp_all only: struct_wake_q_node_def)
    (simp_all cong: layout_cong add: layout_eval layout_simps del: One_nat_def)

lemma struct_task_io_accounting_layout [layout_simps]:
  "wf_ctype struct_task_io_accounting" "alignof struct_task_io_accounting = 8" "sizeof struct_task_io_accounting = 56"
  by (simp_all only: struct_task_io_accounting_def)
    (simp_all cong: layout_cong add: layout_eval layout_simps del: One_nat_def)

lemma typedef_nodemask_t_layout [layout_simps]:
  "wf_ctype typedef_nodemask_t" "alignof typedef_nodemask_t = 8" "sizeof typedef_nodemask_t = 8"
  by (simp_all only: typedef_nodemask_t_def)
    (simp_all cong: layout_cong add: layout_eval layout_simps del: One_nat_def)

lemma struct_seqcount_spinlock_layout [layout_simps]:
  "wf_ctype struct_seqcount_spinlock" "alignof struct_seqcount_spinlock = 4" "sizeof struct_seqcount_spinlock = 4"
  by (simp_all only: struct_seqcount_spinlock_def)
    (simp_all cong: layout_cong add: layout_eval layout_simps del: One_nat_def)

lemma typedef_seqcount_spinlock_t_layout [layout_simps]:
  "wf_ctype typedef_seqcount_spinlock_t" "alignof typedef_seqcount_spinlock_t = 4" "sizeof typedef_seqcount_spinlock_t = 4"
  by (simp_all only: typedef_seqcount_spinlock_t_def)
    (simp_all cong: layout_cong add: layout_eval layout_simps del: One_nat_def)

lemma struct_rseq_event_layout [layout_simps]:
  "wf_ctype struct_rseq_event" "alignof struct_rseq_event = 8" "sizeof struct_rseq_event = 8"
  by (simp_all only: struct_rseq_event_def)
    (simp_all cong: layout_cong add: layout_eval layout_simps del: One_nat_def)

lemma struct_rseq_ids_layout [layout_simps]:
  "wf_ctype struct_rseq_ids" "alignof struct_rseq_ids = 8" "sizeof struct_rseq_ids = 16"
  by (simp_all only: struct_rseq_ids_def)
    (simp_all cong: layout_cong add: layout_eval layout_simps del: One_nat_def)

lemma struct_rseq_data_layout [layout_simps]:
  "wf_ctype struct_rseq_data" "alignof struct_rseq_data = 8" "sizeof struct_rseq_data = 40"
  by (simp_all only: struct_rseq_data_def)
    (simp_all cong: layout_cong add: layout_eval layout_simps del: One_nat_def)

lemma struct_sched_mm_cid_layout [layout_simps]:
  "wf_ctype struct_sched_mm_cid" "alignof struct_sched_mm_cid = 8" "sizeof struct_sched_mm_cid = 24"
  by (simp_all only: struct_sched_mm_cid_def)
    (simp_all cong: layout_cong add: layout_eval layout_simps del: One_nat_def)

lemma struct_arch_tlbflush_unmap_batch_layout [layout_simps]:
  "wf_ctype struct_arch_tlbflush_unmap_batch" "alignof struct_arch_tlbflush_unmap_batch = 8" "sizeof struct_arch_tlbflush_unmap_batch = 56"
  by (simp_all only: struct_arch_tlbflush_unmap_batch_def)
    (simp_all cong: layout_cong add: layout_eval layout_simps del: One_nat_def)

lemma struct_tlbflush_unmap_batch_layout [layout_simps]:
  "wf_ctype struct_tlbflush_unmap_batch" "alignof struct_tlbflush_unmap_batch = 8" "sizeof struct_tlbflush_unmap_batch = 64"
  by (simp_all only: struct_tlbflush_unmap_batch_def)
    (simp_all cong: layout_cong add: layout_eval layout_simps del: One_nat_def)

lemma struct_lazy_mmu_state_layout [layout_simps]:
  "wf_ctype struct_lazy_mmu_state" "alignof struct_lazy_mmu_state = 1" "sizeof struct_lazy_mmu_state = 2"
  by (simp_all only: struct_lazy_mmu_state_def)
    (simp_all cong: layout_cong add: layout_eval layout_simps del: One_nat_def)

lemma struct_kmap_ctrl_layout [layout_simps]:
  "wf_ctype struct_kmap_ctrl" "alignof struct_kmap_ctrl = 1" "sizeof struct_kmap_ctrl = 0"
  by (simp_all only: struct_kmap_ctrl_def)
    (simp_all cong: layout_cong add: layout_eval layout_simps del: One_nat_def)

lemma struct_llist_head_layout [layout_simps]:
  "wf_ctype struct_llist_head" "alignof struct_llist_head = 8" "sizeof struct_llist_head = 8"
  by (simp_all only: struct_llist_head_def)
    (simp_all cong: layout_cong add: layout_eval layout_simps del: One_nat_def)

lemma union_unwind_task_id_layout [layout_simps]:
  "wf_ctype union_unwind_task_id" "alignof union_unwind_task_id = 8" "sizeof union_unwind_task_id = 8"
  by (simp_all only: union_unwind_task_id_def)
    (simp_all cong: layout_cong add: layout_eval layout_simps del: One_nat_def)

lemma struct_unwind_task_info_layout [layout_simps]:
  "wf_ctype struct_unwind_task_info" "alignof struct_unwind_task_info = 8" "sizeof struct_unwind_task_info = 40"
  by (simp_all only: struct_unwind_task_info_def)
    (simp_all cong: layout_cong add: layout_eval layout_simps del: One_nat_def)

lemma struct_desc_struct_layout [layout_simps]:
  "wf_ctype struct_desc_struct" "alignof struct_desc_struct = 2" "sizeof struct_desc_struct = 8"
  by (simp_all only: struct_desc_struct_def)
    (simp_all cong: layout_cong add: layout_eval layout_simps del: One_nat_def)

lemma struct_thread_shstk_layout [layout_simps]:
  "wf_ctype struct_thread_shstk" "alignof struct_thread_shstk = 8" "sizeof struct_thread_shstk = 16"
  by (simp_all only: struct_thread_shstk_def)
    (simp_all cong: layout_cong add: layout_eval layout_simps del: One_nat_def)

lemma struct_thread_struct_layout [layout_simps]:
  "wf_ctype struct_thread_struct" "alignof struct_thread_struct = 8" "sizeof struct_thread_struct = 184"
  by (simp_all only: struct_thread_struct_def)
    (simp_all cong: layout_cong add: layout_eval layout_simps del: One_nat_def)

lemma struct_task_struct_layout [layout_simps]:
  "wf_ctype struct_task_struct" "alignof struct_task_struct = 8" "sizeof struct_task_struct = 4032"
  by (simp_all only: struct_task_struct_def struct_task_struct_part1_def struct_task_struct_part2_def append.simps)
    (simp_all cong: layout_cong add: layout_eval layout_simps del: One_nat_def)

lemma typedef___kernel_gid32_t_layout [layout_simps]:
  "wf_ctype typedef___kernel_gid32_t" "alignof typedef___kernel_gid32_t = 4" "sizeof typedef___kernel_gid32_t = 4"
  by (simp_all only: typedef___kernel_gid32_t_def)
    (simp_all cong: layout_cong add: layout_eval layout_simps del: One_nat_def)

lemma typedef_gid_t_layout [layout_simps]:
  "wf_ctype typedef_gid_t" "alignof typedef_gid_t = 4" "sizeof typedef_gid_t = 4"
  by (simp_all only: typedef_gid_t_def)
    (simp_all cong: layout_cong add: layout_eval layout_simps del: One_nat_def)

lemma typedef_kgid_t_layout [layout_simps]:
  "wf_ctype typedef_kgid_t" "alignof typedef_kgid_t = 4" "sizeof typedef_kgid_t = 4"
  by (simp_all only: typedef_kgid_t_def)
    (simp_all cong: layout_cong add: layout_eval layout_simps del: One_nat_def)

lemma typedef_kernel_cap_t_layout [layout_simps]:
  "wf_ctype typedef_kernel_cap_t" "alignof typedef_kernel_cap_t = 8" "sizeof typedef_kernel_cap_t = 8"
  by (simp_all only: typedef_kernel_cap_t_def)
    (simp_all cong: layout_cong add: layout_eval layout_simps del: One_nat_def)

lemma struct_cred_layout [layout_simps]:
  "wf_ctype struct_cred" "alignof struct_cred = 8" "sizeof struct_cred = 184"
  by (simp_all only: struct_cred_def)
    (simp_all cong: layout_cong add: layout_eval layout_simps del: One_nat_def)

lemma kernel_task_types_wf: "list_all wf_ctype kernel_task_types"
  by (simp add: kernel_task_types_def layout_simps)

end
