(* ===== verification/Kernel_Net.thy ===== *)
theory Kernel_Net
  imports Kernel_Task
begin

text \<open>
  Network namespaces and packets: the kernel types of \<^verbatim>\<open>internal/network/ebpf/bpf/vmlinux.h\<close>
  that matter here, with everything they contain by value, in dependency order:
  \<^verbatim>\<open>struct net\<close>, the namespace a socket belongs to, and \<^verbatim>\<open>struct sk_buff\<close>.
  One definition per C type (a type of more than 150 lines is split into member lists);
  members keep their names and order, every pointer is \<open>CPtr\<close>. A member declaration
  that only names a tag declares nothing and has no counterpart.
\<close>

definition struct_idr :: ctype where
  "struct_idr = CStruct False
    [Fld ''idr_rt'' struct_xarray,
     Fld ''idr_base'' (CInt 4),
     Fld ''idr_next'' (CInt 4)]"

definition struct_ns_common :: ctype where
  "struct_ns_common = CStruct False
    [Fld '''' (CStruct False
       [Fld ''__ns_ref'' typedef_refcount_t,
        Bits '''' (CInt 8) 64,
        Bits '''' (CInt 8) 64,
        Bits '''' (CInt 8) 64,
        Bits '''' (CInt 8) 64,
        Bits '''' (CInt 8) 64,
        Bits '''' (CInt 8) 64,
        Bits '''' (CInt 8) 64]),
     Fld ''ns_type'' typedef_u32,
     Fld ''stashed'' CPtr,
     Fld ''ops'' CPtr,
     Fld ''inum'' (CInt 4),
     Fld '''' (CUnion False
       [Fld ''ns_rcu'' struct_callback_head])]"

definition struct_ref_tracker_dir :: ctype where
  "struct_ref_tracker_dir = CStruct False
    []"

definition struct_ctl_table_header :: ctype where
  "struct_ctl_table_header = CStruct False
    [Fld '''' (CUnion False
       [Fld '''' (CStruct False
          [Fld ''ctl_table'' CPtr,
           Fld ''ctl_table_size'' (CInt 4),
           Fld ''used'' (CInt 4),
           Fld ''count'' (CInt 4),
           Fld ''nreg'' (CInt 4)]),
        Fld ''rcu'' struct_callback_head]),
     Fld ''unregistering'' CPtr,
     Fld ''ctl_table_arg'' CPtr,
     Fld ''root'' CPtr,
     Fld ''set'' CPtr,
     Fld ''parent'' CPtr,
     Fld ''node'' CPtr,
     Fld ''inodes'' struct_hlist_head,
     Fld ''type'' (CInt 4)]"

definition struct_ctl_dir :: ctype where
  "struct_ctl_dir = CStruct False
    [Fld ''header'' struct_ctl_table_header,
     Fld ''root'' struct_rb_root]"

definition struct_ctl_table_set :: ctype where
  "struct_ctl_table_set = CStruct False
    [Fld ''is_seen'' CPtr,
     Fld ''dir'' struct_ctl_dir]"

definition struct_raw_notifier_head :: ctype where
  "struct_raw_notifier_head = CStruct False
    [Fld ''head'' CPtr]"

definition struct_netns_core :: ctype where
  "struct_netns_core = CStruct False
    [Fld ''sysctl_hdr'' CPtr,
     Fld ''sysctl_somaxconn'' (CInt 4),
     Fld ''sysctl_txq_reselection'' (CInt 4),
     Fld ''sysctl_optmem_max'' (CInt 4),
     Fld ''sysctl_txrehash'' typedef_u8,
     Fld ''sysctl_tstamp_allow_data'' typedef_u8,
     Fld ''sysctl_bypass_prot_mem'' typedef_u8,
     Fld ''prot_inuse'' CPtr,
     Fld ''rps_default_mask'' CPtr]"

definition struct_netns_mib :: ctype where
  "struct_netns_mib = CStruct False
    [Fld ''ip_statistics'' CPtr,
     Fld ''ipv6_statistics'' CPtr,
     Fld ''tcp_statistics'' CPtr,
     Fld ''net_statistics'' CPtr,
     Fld ''udp_statistics'' CPtr,
     Fld ''udp_stats_in6'' CPtr,
     Fld ''tls_statistics'' CPtr,
     Fld ''mptcp_statistics'' CPtr,
     Fld ''icmp_statistics'' CPtr,
     Fld ''icmpmsg_statistics'' CPtr,
     Fld ''icmpv6_statistics'' CPtr,
     Fld ''icmpv6msg_statistics'' CPtr,
     Fld ''proc_net_devsnmp6'' CPtr]"

definition struct_netns_packet :: ctype where
  "struct_netns_packet = CStruct False
    [Fld ''sklist_lock'' struct_mutex,
     Fld ''sklist'' struct_hlist_head]"

definition struct_unix_table :: ctype where
  "struct_unix_table = CStruct False
    [Fld ''locks'' CPtr,
     Fld ''buckets'' CPtr]"

definition struct_netns_unix :: ctype where
  "struct_netns_unix = CStruct False
    [Fld ''table'' struct_unix_table,
     Fld ''sysctl_max_dgram_qlen'' (CInt 4),
     Fld ''ctl'' CPtr]"

definition struct_rw_semaphore :: ctype where
  "struct_rw_semaphore = CStruct False
    [Fld ''count'' typedef_atomic_long_t,
     Fld ''owner'' typedef_atomic_long_t,
     Fld ''osq'' struct_optimistic_spin_queue,
     Fld ''wait_lock'' typedef_raw_spinlock_t,
     Fld ''first_waiter'' CPtr]"

definition struct_blocking_notifier_head :: ctype where
  "struct_blocking_notifier_head = CStruct False
    [Fld ''rwsem'' struct_rw_semaphore,
     Fld ''head'' CPtr]"

definition struct_netns_nexthop :: ctype where
  "struct_netns_nexthop = CStruct False
    [Fld ''rb_root'' struct_rb_root,
     Fld ''devhash'' CPtr,
     Fld ''seq'' (CInt 4),
     Fld ''last_id_allocated'' typedef_u32,
     Fld ''notifier_chain'' struct_blocking_notifier_head]"

definition struct_inet_timewait_death_row :: ctype where
  "struct_inet_timewait_death_row = CStruct False
    [Fld ''tw_refcount'' typedef_refcount_t,
     Bits '''' (CInt 8) 64,
     Bits '''' (CInt 8) 64,
     Bits '''' (CInt 8) 64,
     Bits '''' (CInt 8) 64,
     Bits '''' (CInt 8) 64,
     Bits '''' (CInt 8) 64,
     Bits '''' (CInt 8) 64,
     Fld ''hashinfo'' CPtr,
     Fld ''sysctl_max_tw_buckets'' (CInt 4),
     Bits '''' (CInt 8) 64,
     Bits '''' (CInt 8) 64,
     Bits '''' (CInt 8) 64,
     Bits '''' (CInt 8) 64,
     Bits '''' (CInt 8) 64,
     Bits '''' (CInt 8) 64]"

definition struct_udp_tunnel_gro :: ctype where
  "struct_udp_tunnel_gro = CStruct False
    [Fld ''sk'' CPtr,
     Fld ''list'' struct_hlist_head]"

definition struct_local_ports :: ctype where
  "struct_local_ports = CStruct False
    [Fld ''range'' typedef_u32,
     Fld ''warned'' typedef_bool]"

definition struct_seqlock :: ctype where
  "struct_seqlock = CStruct False
    [Fld ''seqcount'' typedef_seqcount_spinlock_t,
     Fld ''lock'' typedef_spinlock_t]"

definition typedef_seqlock_t :: ctype where
  "typedef_seqlock_t = struct_seqlock"

definition struct_ping_group_range :: ctype where
  "struct_ping_group_range = CStruct False
    [Fld ''lock'' typedef_seqlock_t,
     Fld ''range'' (CArr typedef_kgid_t 2)]"

definition struct_sysctl_fib_multipath_hash_seed :: ctype where
  "struct_sysctl_fib_multipath_hash_seed = CStruct False
    [Fld ''user_seed'' typedef_u32,
     Fld ''mp_seed'' typedef_u32]"

definition typedef_siphash_key_t :: ctype where
  "typedef_siphash_key_t = CStruct False
    [Fld ''key'' (CArr typedef_u64 2)]"

definition typedef_work_func_t :: ctype where
  "typedef_work_func_t = CPtr"

definition struct_work_struct :: ctype where
  "struct_work_struct = CStruct False
    [Fld ''data'' typedef_atomic_long_t,
     Fld ''entry'' struct_list_head,
     Fld ''func'' typedef_work_func_t]"

definition struct_delayed_work :: ctype where
  "struct_delayed_work = CStruct False
    [Fld ''work'' struct_work_struct,
     Fld ''timer'' struct_timer_list,
     Fld ''wq'' CPtr,
     Fld ''cpu'' (CInt 4)]"

definition struct_netns_ipv4_part1 :: "cfield list" where
  "struct_netns_ipv4_part1 =
    [Fld ''__cacheline_group_begin__netns_ipv4_read_tx'' (CArr typedef___u8 0),
     Fld ''sysctl_tcp_early_retrans'' typedef_u8,
     Fld ''sysctl_tcp_tso_win_divisor'' typedef_u8,
     Fld ''sysctl_tcp_tso_rtt_log'' typedef_u8,
     Fld ''sysctl_tcp_autocorking'' typedef_u8,
     Fld ''sysctl_tcp_min_snd_mss'' (CInt 4),
     Fld ''sysctl_tcp_notsent_lowat'' (CInt 4),
     Fld ''sysctl_tcp_limit_output_bytes'' (CInt 4),
     Fld ''sysctl_tcp_min_rtt_wlen'' (CInt 4),
     Fld ''sysctl_tcp_wmem'' (CArr (CInt 4) 3),
     Fld ''sysctl_ip_fwd_use_pmtu'' typedef_u8,
     Fld ''__cacheline_group_end__netns_ipv4_read_tx'' (CArr typedef___u8 0),
     Fld ''__cacheline_group_begin__netns_ipv4_read_txrx'' (CArr typedef___u8 0),
     Fld ''sysctl_tcp_shrink_window'' typedef_u8,
     Fld ''__cacheline_group_end__netns_ipv4_read_txrx'' (CArr typedef___u8 0),
     Fld ''__cacheline_group_begin__netns_ipv4_read_rx'' (CArr typedef___u8 0),
     Fld ''sysctl_tcp_moderate_rcvbuf'' typedef_u8,
     Fld ''sysctl_ip_early_demux'' typedef_u8,
     Fld ''sysctl_tcp_early_demux'' typedef_u8,
     Fld ''sysctl_tcp_l3mdev_accept'' typedef_u8,
     Fld ''sysctl_tcp_reordering'' (CInt 4),
     Fld ''sysctl_tcp_rmem'' (CArr (CInt 4) 3),
     Fld ''sysctl_tcp_rcvbuf_low_rtt'' (CInt 4),
     Fld ''__cacheline_group_end__netns_ipv4_read_rx'' (CArr typedef___u8 0),
     Bits '''' (CInt 8) 0,
     Fld ''__cacheline_group_begin__icmp'' (CArr typedef___u8 0),
     Fld ''icmp_global_credit'' typedef_atomic_t,
     Fld ''icmp_global_stamp'' typedef_u32,
     Fld ''__cacheline_group_end__icmp'' (CArr typedef___u8 0),
     Bits '''' (CInt 8) 64,
     Bits '''' (CInt 8) 64,
     Bits '''' (CInt 8) 64,
     Bits '''' (CInt 8) 64,
     Bits '''' (CInt 8) 64,
     Bits '''' (CInt 8) 64,
     Bits '''' (CInt 8) 64,
     Fld ''__cacheline_group_pad__icmp'' (CStruct False
       []),
     Fld ''tcp_death_row'' struct_inet_timewait_death_row,
     Fld ''udp_table'' CPtr,
     Fld ''udp_tunnel_gro'' (CArr struct_udp_tunnel_gro 2),
     Fld ''forw_hdr'' CPtr,
     Fld ''frags_hdr'' CPtr,
     Fld ''ipv4_hdr'' CPtr,
     Fld ''route_hdr'' CPtr,
     Fld ''xfrm4_hdr'' CPtr,
     Fld ''devconf_all'' CPtr,
     Fld ''devconf_dflt'' CPtr,
     Fld ''ra_chain'' CPtr,
     Fld ''ra_mutex'' struct_mutex,
     Fld ''rules_ops'' CPtr,
     Fld ''fib_main'' CPtr,
     Fld ''fib_default'' CPtr,
     Fld ''fib_rules_require_fldissect'' (CInt 4),
     Fld ''fib_has_custom_rules'' typedef_bool,
     Fld ''fib_has_custom_local_routes'' typedef_bool,
     Fld ''fib_offload_disabled'' typedef_bool,
     Fld ''fib_num_tclassid_users'' typedef_atomic_t,
     Fld ''fib_table_hash'' CPtr,
     Fld ''fibnl'' CPtr,
     Fld ''fib_info_hash'' CPtr,
     Fld ''fib_info_hash_bits'' (CInt 4),
     Fld ''fib_info_cnt'' (CInt 4),
     Fld ''mc_autojoin_sk'' CPtr,
     Fld ''peers'' CPtr,
     Fld ''fqdir'' CPtr,
     Fld ''sysctl_icmp_echo_ignore_all'' typedef_u8,
     Fld ''sysctl_icmp_echo_enable_probe'' typedef_u8,
     Fld ''sysctl_icmp_echo_ignore_broadcasts'' typedef_u8,
     Fld ''sysctl_icmp_ignore_bogus_error_responses'' typedef_u8,
     Fld ''sysctl_icmp_errors_use_inbound_ifaddr'' typedef_u8,
     Fld ''sysctl_icmp_errors_extension_mask'' typedef_u8,
     Fld ''sysctl_icmp_ratelimit'' (CInt 4),
     Fld ''sysctl_icmp_ratemask'' (CInt 4),
     Fld ''sysctl_icmp_msgs_per_sec'' (CInt 4),
     Fld ''sysctl_icmp_msgs_burst'' (CInt 4),
     Fld ''ip_rt_min_pmtu'' typedef_u32,
     Fld ''ip_rt_mtu_expires'' (CInt 4),
     Fld ''ip_rt_min_advmss'' (CInt 4),
     Fld ''ip_local_ports'' struct_local_ports,
     Fld ''sysctl_tcp_ecn'' typedef_u8,
     Fld ''sysctl_tcp_ecn_option'' typedef_u8,
     Fld ''sysctl_tcp_ecn_option_beacon'' typedef_u8,
     Fld ''sysctl_tcp_ecn_fallback'' typedef_u8,
     Fld ''sysctl_ip_default_ttl'' typedef_u8,
     Fld ''sysctl_ip_no_pmtu_disc'' typedef_u8,
     Fld ''sysctl_ip_fwd_update_priority'' typedef_u8,
     Fld ''sysctl_ip_nonlocal_bind'' typedef_u8,
     Fld ''sysctl_ip_autobind_reuse'' typedef_u8,
     Fld ''sysctl_ip_dynaddr'' typedef_u8,
     Fld ''sysctl_ip_local_port_step_width'' typedef_u32,
     Fld ''sysctl_raw_l3mdev_accept'' typedef_u8,
     Fld ''sysctl_udp_early_demux'' typedef_u8,
     Fld ''sysctl_nexthop_compat_mode'' typedef_u8,
     Fld ''sysctl_fwmark_reflect'' typedef_u8,
     Fld ''sysctl_tcp_fwmark_accept'' typedef_u8,
     Fld ''sysctl_tcp_mtu_probing'' typedef_u8,
     Fld ''sysctl_tcp_mtu_probe_floor'' (CInt 4),
     Fld ''sysctl_tcp_base_mss'' (CInt 4),
     Fld ''sysctl_tcp_probe_threshold'' (CInt 4),
     Fld ''sysctl_tcp_probe_interval'' typedef_u32,
     Fld ''sysctl_tcp_keepalive_time'' (CInt 4),
     Fld ''sysctl_tcp_keepalive_intvl'' (CInt 4),
     Fld ''sysctl_tcp_keepalive_probes'' typedef_u8,
     Fld ''sysctl_tcp_syn_retries'' typedef_u8,
     Fld ''sysctl_tcp_synack_retries'' typedef_u8,
     Fld ''sysctl_tcp_syncookies'' typedef_u8,
     Fld ''sysctl_tcp_migrate_req'' typedef_u8,
     Fld ''sysctl_tcp_comp_sack_nr'' typedef_u8,
     Fld ''sysctl_tcp_backlog_ack_defer'' typedef_u8,
     Fld ''sysctl_tcp_pingpong_thresh'' typedef_u8,
     Fld ''sysctl_tcp_retries1'' typedef_u8,
     Fld ''sysctl_tcp_retries2'' typedef_u8,
     Fld ''sysctl_tcp_orphan_retries'' typedef_u8,
     Fld ''sysctl_tcp_tw_reuse'' typedef_u8,
     Fld ''sysctl_tcp_tw_reuse_delay'' (CInt 4),
     Fld ''sysctl_tcp_fin_timeout'' (CInt 4),
     Fld ''sysctl_tcp_sack'' typedef_u8,
     Fld ''sysctl_tcp_window_scaling'' typedef_u8,
     Fld ''sysctl_tcp_timestamps'' typedef_u8,
     Fld ''sysctl_tcp_rto_min_us'' (CInt 4),
     Fld ''sysctl_tcp_rto_max_ms'' (CInt 4),
     Fld ''sysctl_tcp_recovery'' typedef_u8,
     Fld ''sysctl_tcp_thin_linear_timeouts'' typedef_u8,
     Fld ''sysctl_tcp_slow_start_after_idle'' typedef_u8,
     Fld ''sysctl_tcp_retrans_collapse'' typedef_u8,
     Fld ''sysctl_tcp_stdurg'' typedef_u8,
     Fld ''sysctl_tcp_rfc1337'' typedef_u8,
     Fld ''sysctl_tcp_abort_on_overflow'' typedef_u8,
     Fld ''sysctl_tcp_fack'' typedef_u8,
     Fld ''sysctl_tcp_max_reordering'' (CInt 4),
     Fld ''sysctl_tcp_adv_win_scale'' (CInt 4),
     Fld ''sysctl_tcp_dsack'' typedef_u8,
     Fld ''sysctl_tcp_app_win'' typedef_u8,
     Fld ''sysctl_tcp_frto'' typedef_u8,
     Fld ''sysctl_tcp_nometrics_save'' typedef_u8,
     Fld ''sysctl_tcp_no_ssthresh_metrics_save'' typedef_u8,
     Fld ''sysctl_tcp_workaround_signed_windows'' typedef_u8,
     Fld ''sysctl_tcp_challenge_ack_limit'' (CInt 4),
     Fld ''sysctl_tcp_min_tso_segs'' typedef_u8,
     Fld ''sysctl_tcp_reflect_tos'' typedef_u8]"

definition struct_netns_ipv4_part2 :: "cfield list" where
  "struct_netns_ipv4_part2 =
    [Fld ''sysctl_tcp_invalid_ratelimit'' (CInt 4),
     Fld ''sysctl_tcp_pacing_ss_ratio'' (CInt 4),
     Fld ''sysctl_tcp_pacing_ca_ratio'' (CInt 4),
     Fld ''sysctl_tcp_child_ehash_entries'' (CInt 4),
     Fld ''sysctl_tcp_comp_sack_rtt_percent'' (CInt 4),
     Fld ''sysctl_tcp_comp_sack_delay_ns'' (CInt 8),
     Fld ''sysctl_tcp_comp_sack_slack_ns'' (CInt 8),
     Fld ''sysctl_max_syn_backlog'' (CInt 4),
     Fld ''sysctl_tcp_fastopen'' (CInt 4),
     Fld ''tcp_congestion_control'' CPtr,
     Fld ''tcp_fastopen_ctx'' CPtr,
     Fld ''sysctl_tcp_fastopen_blackhole_timeout'' (CInt 4),
     Fld ''tfo_active_disable_times'' typedef_atomic_t,
     Fld ''tfo_active_disable_stamp'' (CInt 8),
     Fld ''tcp_challenge_timestamp'' typedef_u32,
     Fld ''tcp_challenge_count'' typedef_u32,
     Fld ''sysctl_tcp_plb_enabled'' typedef_u8,
     Fld ''sysctl_tcp_plb_idle_rehash_rounds'' typedef_u8,
     Fld ''sysctl_tcp_plb_rehash_rounds'' typedef_u8,
     Fld ''sysctl_tcp_plb_suspend_rto_sec'' typedef_u8,
     Fld ''sysctl_tcp_plb_cong_thresh'' (CInt 4),
     Fld ''sysctl_udp_wmem_min'' (CInt 4),
     Fld ''sysctl_udp_rmem_min'' (CInt 4),
     Fld ''sysctl_fib_notify_on_flag_change'' typedef_u8,
     Fld ''sysctl_tcp_syn_linear_timeouts'' typedef_u8,
     Fld ''sysctl_udp_l3mdev_accept'' typedef_u8,
     Fld ''sysctl_igmp_llm_reports'' typedef_u8,
     Fld ''sysctl_igmp_max_memberships'' (CInt 4),
     Fld ''sysctl_igmp_max_msf'' (CInt 4),
     Fld ''sysctl_igmp_qrv'' (CInt 4),
     Fld ''ping_group_range'' struct_ping_group_range,
     Fld ''ping_port_rover'' typedef_u16,
     Fld ''dev_addr_genid'' typedef_atomic_t,
     Fld ''sysctl_udp_child_hash_entries'' (CInt 4),
     Fld ''sysctl_local_reserved_ports'' CPtr,
     Fld ''sysctl_ip_prot_sock'' (CInt 4),
     Fld ''mr_tables'' struct_list_head,
     Fld ''mr_rules_ops'' CPtr,
     Fld ''ipmr_notifier_ops'' CPtr,
     Fld ''ipmr_seq'' typedef_atomic_t,
     Fld ''mfc_mutex'' struct_mutex,
     Fld ''sysctl_fib_multipath_hash_seed'' struct_sysctl_fib_multipath_hash_seed,
     Fld ''sysctl_fib_multipath_hash_fields'' typedef_u32,
     Fld ''sysctl_fib_multipath_use_neigh'' typedef_u8,
     Fld ''sysctl_fib_multipath_hash_policy'' typedef_u8,
     Fld ''notifier_ops'' CPtr,
     Fld ''fib_seq'' (CInt 4),
     Fld ''rt_genid'' typedef_atomic_t,
     Fld ''ip_id_key'' typedef_siphash_key_t,
     Fld ''inet_addr_lst'' CPtr,
     Fld ''addr_chk_work'' struct_delayed_work,
     Bits '''' (CInt 8) 64,
     Bits '''' (CInt 8) 64]"

definition struct_netns_ipv4 :: ctype where
  "struct_netns_ipv4 = CStruct False (struct_netns_ipv4_part1 @ struct_netns_ipv4_part2)"

definition struct_percpu_counter :: ctype where
  "struct_percpu_counter = CStruct False
    [Fld ''lock'' typedef_raw_spinlock_t,
     Fld ''count'' typedef_s64,
     Fld ''list'' struct_list_head,
     Fld ''counters'' CPtr]"

definition struct_dst_ops :: ctype where
  "struct_dst_ops = CStruct False
    [Fld ''family'' (CInt 2),
     Fld ''gc_thresh'' (CInt 4),
     Fld ''gc'' CPtr,
     Fld ''check'' CPtr,
     Fld ''default_advmss'' CPtr,
     Fld ''mtu'' CPtr,
     Fld ''cow_metrics'' CPtr,
     Fld ''destroy'' CPtr,
     Fld ''ifdown'' CPtr,
     Fld ''negative_advice'' CPtr,
     Fld ''link_failure'' CPtr,
     Fld ''update_pmtu'' CPtr,
     Fld ''redirect'' CPtr,
     Fld ''local_out'' CPtr,
     Fld ''neigh_lookup'' CPtr,
     Fld ''confirm_neigh'' CPtr,
     Fld ''kmem_cachep'' CPtr,
     Fld ''pcpuc_entries'' struct_percpu_counter,
     Bits '''' (CInt 8) 64,
     Bits '''' (CInt 8) 64,
     Bits '''' (CInt 8) 64]"

definition struct_netns_sysctl_ipv6 :: ctype where
  "struct_netns_sysctl_ipv6 = CStruct False
    [Fld ''hdr'' CPtr,
     Fld ''route_hdr'' CPtr,
     Fld ''icmp_hdr'' CPtr,
     Fld ''frags_hdr'' CPtr,
     Fld ''xfrm6_hdr'' CPtr,
     Fld ''flush_delay'' (CInt 4),
     Fld ''ip6_rt_max_size'' (CInt 4),
     Fld ''ip6_rt_gc_min_interval'' (CInt 4),
     Fld ''ip6_rt_gc_timeout'' (CInt 4),
     Fld ''ip6_rt_gc_interval'' (CInt 4),
     Fld ''ip6_rt_gc_elasticity'' (CInt 4),
     Fld ''ip6_rt_mtu_expires'' (CInt 4),
     Fld ''ip6_rt_min_advmss'' (CInt 4),
     Fld ''multipath_hash_fields'' typedef_u32,
     Fld ''multipath_hash_policy'' typedef_u8,
     Fld ''__cacheline_group_begin__sysctl_ipv6_flowlabel'' (CArr typedef___u8 0),
     Fld ''flowlabel_consistency'' typedef_u8,
     Fld ''auto_flowlabels'' typedef_u8,
     Fld ''flowlabel_state_ranges'' typedef_u8,
     Fld ''__cacheline_group_end__sysctl_ipv6_flowlabel'' (CArr typedef___u8 0),
     Fld ''icmpv6_echo_ignore_all'' typedef_u8,
     Fld ''icmpv6_echo_ignore_multicast'' typedef_u8,
     Fld ''icmpv6_echo_ignore_anycast'' typedef_u8,
     Fld ''icmpv6_time'' (CInt 4),
     Fld ''icmpv6_ratemask'' (CArr (CInt 8) 4),
     Fld ''icmpv6_ratemask_ptr'' CPtr,
     Fld ''anycast_src_echo_reply'' typedef_u8,
     Fld ''bindv6only'' typedef_u8,
     Fld ''ip_nonlocal_bind'' typedef_u8,
     Fld ''fwmark_reflect'' typedef_u8,
     Fld ''idgen_retries'' (CInt 4),
     Fld ''idgen_delay'' (CInt 4),
     Fld ''flowlabel_reflect'' (CInt 4),
     Fld ''max_dst_opts_cnt'' (CInt 4),
     Fld ''max_hbh_opts_cnt'' (CInt 4),
     Fld ''max_dst_opts_len'' (CInt 4),
     Fld ''max_hbh_opts_len'' (CInt 4),
     Fld ''seg6_flowlabel'' (CInt 4),
     Fld ''ioam6_id'' typedef_u32,
     Fld ''ioam6_id_wide'' typedef_u64,
     Fld ''skip_notify_on_dev_down'' typedef_u8,
     Fld ''fib_notify_on_flag_change'' typedef_u8,
     Fld ''icmpv6_error_anycast_as_unicast'' typedef_u8,
     Fld ''icmpv6_errors_extension_mask'' typedef_u8]"

definition struct_netns_ipv6 :: ctype where
  "struct_netns_ipv6 = CStruct False
    [Fld ''ip6_dst_ops'' struct_dst_ops,
     Fld ''sysctl'' struct_netns_sysctl_ipv6,
     Fld ''devconf_all'' CPtr,
     Fld ''devconf_dflt'' CPtr,
     Fld ''peers'' CPtr,
     Fld ''fqdir'' CPtr,
     Fld ''fib6_null_entry'' CPtr,
     Fld ''ip6_null_entry'' CPtr,
     Fld ''rt6_stats'' CPtr,
     Fld ''ip6_fib_timer'' struct_timer_list,
     Fld ''fib_table_hash'' CPtr,
     Fld ''fib_table_hash_lock'' typedef_spinlock_t,
     Fld ''fib6_main_tbl'' CPtr,
     Fld ''fib6_walkers'' struct_list_head,
     Fld ''fib6_walker_lock'' typedef_rwlock_t,
     Fld ''fib6_gc_lock'' typedef_spinlock_t,
     Fld ''ip6_rt_gc_expire'' typedef_atomic_t,
     Fld ''ip6_rt_last_gc'' (CInt 8),
     Fld ''flowlabel_has_excl'' (CInt 1),
     Fld ''fib6_has_custom_rules'' typedef_bool,
     Fld ''fib6_rules_require_fldissect'' (CInt 4),
     Fld ''fib6_routes_require_src'' (CInt 4),
     Fld ''ip6_prohibit_entry'' CPtr,
     Fld ''ip6_blk_hole_entry'' CPtr,
     Fld ''fib6_local_tbl'' CPtr,
     Fld ''fib6_rules_ops'' CPtr,
     Fld ''ndisc_sk'' CPtr,
     Fld ''tcp_sk'' CPtr,
     Fld ''igmp_sk'' CPtr,
     Fld ''mc_autojoin_sk'' CPtr,
     Fld ''inet6_addr_lst'' CPtr,
     Fld ''addrconf_hash_lock'' typedef_spinlock_t,
     Fld ''addr_chk_work'' struct_delayed_work,
     Fld ''mr6_tables'' struct_list_head,
     Fld ''mr6_rules_ops'' CPtr,
     Fld ''dev_addr_genid'' typedef_atomic_t,
     Fld ''fib6_sernum'' typedef_atomic_t,
     Fld ''seg6_data'' CPtr,
     Fld ''notifier_ops'' CPtr,
     Fld ''ip6mr_notifier_ops'' CPtr,
     Fld ''ipmr_seq'' typedef_atomic_t,
     Fld ''flowlabel_count'' (CInt 4),
     Fld ''ip6addrlbl_table'' (CStruct False
       [Fld ''head'' struct_hlist_head,
        Fld ''lock'' typedef_spinlock_t,
        Fld ''seq'' typedef_u32]),
     Fld ''ioam6_data'' CPtr,
     Bits '''' (CInt 8) 64,
     Bits '''' (CInt 8) 64,
     Bits '''' (CInt 8) 64]"

definition struct_netns_sysctl_lowpan :: ctype where
  "struct_netns_sysctl_lowpan = CStruct False
    [Fld ''frags_hdr'' CPtr]"

definition struct_netns_ieee802154_lowpan :: ctype where
  "struct_netns_ieee802154_lowpan = CStruct False
    [Fld ''sysctl'' struct_netns_sysctl_lowpan,
     Fld ''fqdir'' CPtr]"

definition struct_netns_sctp :: ctype where
  "struct_netns_sctp = CStruct False
    [Fld ''sctp_statistics'' CPtr,
     Fld ''proc_net_sctp'' CPtr,
     Fld ''sysctl_header'' CPtr,
     Fld ''ctl_sock'' CPtr,
     Fld ''udp4_sock'' CPtr,
     Fld ''udp6_sock'' CPtr,
     Fld ''udp_port'' (CInt 4),
     Fld ''encap_port'' (CInt 4),
     Fld ''local_addr_list'' struct_list_head,
     Fld ''addr_waitq'' struct_list_head,
     Fld ''addr_wq_timer'' struct_timer_list,
     Fld ''auto_asconf_splist'' struct_list_head,
     Fld ''addr_wq_lock'' typedef_spinlock_t,
     Fld ''local_addr_lock'' typedef_spinlock_t,
     Fld ''rto_initial'' (CInt 4),
     Fld ''rto_min'' (CInt 4),
     Fld ''rto_max'' (CInt 4),
     Fld ''rto_alpha'' (CInt 4),
     Fld ''rto_beta'' (CInt 4),
     Fld ''max_burst'' (CInt 4),
     Fld ''cookie_preserve_enable'' (CInt 4),
     Fld ''cookie_auth_enable'' (CInt 4),
     Fld ''valid_cookie_life'' (CInt 4),
     Fld ''sack_timeout'' (CInt 4),
     Fld ''hb_interval'' (CInt 4),
     Fld ''probe_interval'' (CInt 4),
     Fld ''max_retrans_association'' (CInt 4),
     Fld ''max_retrans_path'' (CInt 4),
     Fld ''max_retrans_init'' (CInt 4),
     Fld ''pf_retrans'' (CInt 4),
     Fld ''ps_retrans'' (CInt 4),
     Fld ''pf_enable'' (CInt 4),
     Fld ''pf_expose'' (CInt 4),
     Fld ''sndbuf_policy'' (CInt 4),
     Fld ''rcvbuf_policy'' (CInt 4),
     Fld ''default_auto_asconf'' (CInt 4),
     Fld ''addip_enable'' (CInt 4),
     Fld ''addip_noauth'' (CInt 4),
     Fld ''prsctp_enable'' (CInt 4),
     Fld ''reconf_enable'' (CInt 4),
     Fld ''auth_enable'' (CInt 4),
     Fld ''intl_enable'' (CInt 4),
     Fld ''ecn_enable'' (CInt 4),
     Fld ''scope_policy'' (CInt 4),
     Fld ''rwnd_upd_shift'' (CInt 4),
     Fld ''max_autoclose'' (CInt 8),
     Fld ''l3mdev_accept'' (CInt 4)]"

definition struct_netns_nf :: ctype where
  "struct_netns_nf = CStruct False
    [Fld ''proc_netfilter'' CPtr,
     Fld ''nf_loggers'' (CArr CPtr 11),
     Fld ''nf_log_dir_header'' CPtr,
     Fld ''nf_lwtnl_dir_header'' CPtr,
     Fld ''hooks_ipv4'' (CArr CPtr 5),
     Fld ''hooks_ipv6'' (CArr CPtr 5),
     Fld ''hooks_arp'' (CArr CPtr 3),
     Fld ''hooks_bridge'' (CArr CPtr 5),
     Fld ''defrag_ipv4_users'' (CInt 4),
     Fld ''defrag_ipv6_users'' (CInt 4)]"

definition struct_nf_generic_net :: ctype where
  "struct_nf_generic_net = CStruct False
    [Fld ''timeout'' (CInt 4)]"

definition struct_nf_tcp_net :: ctype where
  "struct_nf_tcp_net = CStruct False
    [Fld ''timeouts'' (CArr (CInt 4) 14),
     Fld ''tcp_loose'' typedef_u8,
     Fld ''tcp_be_liberal'' typedef_u8,
     Fld ''tcp_max_retrans'' typedef_u8,
     Fld ''tcp_ignore_invalid_rst'' typedef_u8,
     Fld ''offload_timeout'' (CInt 4)]"

definition struct_nf_udp_net :: ctype where
  "struct_nf_udp_net = CStruct False
    [Fld ''timeouts'' (CArr (CInt 4) 2),
     Fld ''offload_timeout'' (CInt 4)]"

definition struct_nf_icmp_net :: ctype where
  "struct_nf_icmp_net = CStruct False
    [Fld ''timeout'' (CInt 4)]"

definition struct_nf_sctp_net :: ctype where
  "struct_nf_sctp_net = CStruct False
    [Fld ''timeouts'' (CArr (CInt 4) 10)]"

definition struct_nf_gre_net :: ctype where
  "struct_nf_gre_net = CStruct False
    [Fld ''keymap_list'' struct_list_head,
     Fld ''timeouts'' (CArr (CInt 4) 2)]"

definition struct_nf_ip_net :: ctype where
  "struct_nf_ip_net = CStruct False
    [Fld ''generic'' struct_nf_generic_net,
     Fld ''tcp'' struct_nf_tcp_net,
     Fld ''udp'' struct_nf_udp_net,
     Fld ''icmp'' struct_nf_icmp_net,
     Fld ''icmpv6'' struct_nf_icmp_net,
     Fld ''sctp'' struct_nf_sctp_net,
     Fld ''gre'' struct_nf_gre_net]"

definition struct_netns_ct :: ctype where
  "struct_netns_ct = CStruct False
    [Fld ''ecache_dwork_pending'' typedef_bool,
     Fld ''sysctl_log_invalid'' typedef_u8,
     Fld ''sysctl_events'' typedef_u8,
     Fld ''sysctl_acct'' typedef_u8,
     Fld ''sysctl_tstamp'' typedef_u8,
     Fld ''sysctl_checksum'' typedef_u8,
     Fld ''stat'' CPtr,
     Fld ''nf_conntrack_event_cb'' CPtr,
     Fld ''nf_ct_proto'' struct_nf_ip_net,
     Fld ''labels_used'' typedef_atomic_t]"

definition struct_netns_nftables :: ctype where
  "struct_netns_nftables = CStruct False
    [Fld ''base_seq'' (CInt 4),
     Fld ''gencursor'' typedef_u8]"

definition struct_netns_ft :: ctype where
  "struct_netns_ft = CStruct False
    [Fld ''stat'' CPtr]"

definition struct_netns_bpf :: ctype where
  "struct_netns_bpf = CStruct False
    [Fld ''run_array'' (CArr CPtr 2),
     Fld ''progs'' (CArr CPtr 2),
     Fld ''links'' (CArr struct_list_head 2)]"

definition struct_xfrm_policy_hash :: ctype where
  "struct_xfrm_policy_hash = CStruct False
    [Fld ''table'' CPtr,
     Fld ''hmask'' (CInt 4),
     Fld ''dbits4'' typedef_u8,
     Fld ''sbits4'' typedef_u8,
     Fld ''dbits6'' typedef_u8,
     Fld ''sbits6'' typedef_u8]"

definition struct_xfrm_policy_hthresh :: ctype where
  "struct_xfrm_policy_hthresh = CStruct False
    [Fld ''work'' struct_work_struct,
     Fld ''lock'' typedef_seqlock_t,
     Fld ''lbits4'' typedef_u8,
     Fld ''rbits4'' typedef_u8,
     Fld ''lbits6'' typedef_u8,
     Fld ''rbits6'' typedef_u8]"

definition struct_netns_xfrm :: ctype where
  "struct_netns_xfrm = CStruct False
    [Fld ''state_all'' struct_list_head,
     Fld ''state_bydst'' CPtr,
     Fld ''state_bysrc'' CPtr,
     Fld ''state_byspi'' CPtr,
     Fld ''state_byseq'' CPtr,
     Fld ''state_cache_input'' CPtr,
     Fld ''state_hmask'' (CInt 4),
     Fld ''state_num'' (CInt 4),
     Fld ''state_hash_work'' struct_work_struct,
     Fld ''policy_all'' struct_list_head,
     Fld ''policy_byidx'' CPtr,
     Fld ''policy_idx_hmask'' (CInt 4),
     Fld ''idx_generator'' (CInt 4),
     Fld ''policy_bydst'' (CArr struct_xfrm_policy_hash 3),
     Fld ''policy_count'' (CArr (CInt 4) 6),
     Fld ''policy_hash_work'' struct_work_struct,
     Fld ''policy_hthresh'' struct_xfrm_policy_hthresh,
     Fld ''inexact_bins'' struct_list_head,
     Fld ''nlsk'' CPtr,
     Fld ''nlsk_stash'' CPtr,
     Fld ''sysctl_aevent_etime'' typedef_u32,
     Fld ''sysctl_aevent_rseqth'' typedef_u32,
     Fld ''sysctl_larval_drop'' (CInt 4),
     Fld ''sysctl_acq_expires'' typedef_u32,
     Fld ''policy_default'' (CArr typedef_u8 3),
     Fld ''sysctl_hdr'' CPtr,
     Bits '''' (CInt 8) 64,
     Bits '''' (CInt 8) 64,
     Bits '''' (CInt 8) 64,
     Bits '''' (CInt 8) 64,
     Bits '''' (CInt 8) 64,
     Fld ''xfrm4_dst_ops'' struct_dst_ops,
     Fld ''xfrm6_dst_ops'' struct_dst_ops,
     Fld ''xfrm_state_lock'' typedef_spinlock_t,
     Fld ''xfrm_state_hash_generation'' typedef_seqcount_spinlock_t,
     Fld ''xfrm_policy_hash_generation'' typedef_seqcount_spinlock_t,
     Fld ''xfrm_policy_lock'' typedef_spinlock_t,
     Fld ''xfrm_cfg_mutex'' struct_mutex,
     Fld ''nat_keepalive_work'' struct_delayed_work]"

definition struct_seqcount_mutex :: ctype where
  "struct_seqcount_mutex = CStruct False
    [Fld ''seqcount'' typedef_seqcount_t]"

definition typedef_seqcount_mutex_t :: ctype where
  "typedef_seqcount_mutex_t = struct_seqcount_mutex"

definition struct_netns_mpls :: ctype where
  "struct_netns_mpls = CStruct False
    [Fld ''ip_ttl_propagate'' (CInt 4),
     Fld ''default_ttl'' (CInt 4),
     Fld ''platform_labels'' typedef_size_t,
     Fld ''platform_label'' CPtr,
     Fld ''platform_mutex'' struct_mutex,
     Fld ''platform_label_seq'' typedef_seqcount_mutex_t,
     Fld ''ctl'' CPtr]"

definition struct_netns_can :: ctype where
  "struct_netns_can = CStruct False
    [Fld ''proc_dir'' CPtr,
     Fld ''pde_stats'' CPtr,
     Fld ''pde_reset_stats'' CPtr,
     Fld ''pde_rcvlist_all'' CPtr,
     Fld ''pde_rcvlist_fil'' CPtr,
     Fld ''pde_rcvlist_inv'' CPtr,
     Fld ''pde_rcvlist_sff'' CPtr,
     Fld ''pde_rcvlist_eff'' CPtr,
     Fld ''pde_rcvlist_err'' CPtr,
     Fld ''bcmproc_dir'' CPtr,
     Fld ''rx_alldev_list'' CPtr,
     Fld ''rcvlists_lock'' typedef_spinlock_t,
     Fld ''stattimer'' struct_timer_list,
     Fld ''pkg_stats'' CPtr,
     Fld ''rcv_lists_stats'' CPtr,
     Fld ''cgw_list'' struct_hlist_head]"

definition struct_netns_xdp :: ctype where
  "struct_netns_xdp = CStruct False
    [Fld ''lock'' struct_mutex,
     Fld ''list'' struct_hlist_head]"

definition struct_netns_smc :: ctype where
  "struct_netns_smc = CStruct False
    [Fld ''smc_stats'' CPtr,
     Fld ''mutex_fback_rsn'' struct_mutex,
     Fld ''fback_rsn'' CPtr,
     Fld ''limit_smc_hs'' typedef_bool,
     Fld ''smc_hdr'' CPtr,
     Fld ''hs_ctrl'' CPtr,
     Fld ''sysctl_autocorking_size'' (CInt 4),
     Fld ''sysctl_smcr_buf_type'' (CInt 4),
     Fld ''sysctl_smcr_testlink_time'' (CInt 4),
     Fld ''sysctl_wmem'' (CInt 4),
     Fld ''sysctl_rmem'' (CInt 4),
     Fld ''sysctl_max_links_per_lgr'' (CInt 4),
     Fld ''sysctl_max_conns_per_lgr'' (CInt 4),
     Fld ''sysctl_smcr_max_send_wr'' (CInt 4),
     Fld ''sysctl_smcr_max_recv_wr'' (CInt 4)]"

definition enum_vsock_net_mode :: "(string \<times> int) list" where
  "enum_vsock_net_mode =
    [(''VSOCK_NET_MODE_GLOBAL'', 0),
     (''VSOCK_NET_MODE_LOCAL'', 1)]"

definition struct_netns_vsock :: ctype where
  "struct_netns_vsock = CStruct False
    [Fld ''sysctl_hdr'' CPtr,
     Fld ''port'' typedef_u32,
     Fld ''mode'' (cenum enum_vsock_net_mode),
     Fld ''child_ns_mode'' (cenum enum_vsock_net_mode),
     Fld ''child_ns_mode_locked'' (CInt 4),
     Fld ''g2h_fallback'' (CInt 4)]"

definition struct_net :: ctype where
  "struct_net = CStruct False
    [Fld ''passive'' typedef_refcount_t,
     Fld ''rules_mod_lock'' typedef_spinlock_t,
     Fld ''dev_base_seq'' (CInt 4),
     Fld ''ifindex'' typedef_u32,
     Fld ''nsid_lock'' typedef_spinlock_t,
     Fld ''fnhe_genid'' typedef_atomic_t,
     Fld ''list'' struct_list_head,
     Fld ''exit_list'' struct_list_head,
     Fld ''defer_free_list'' struct_llist_node,
     Fld ''cleanup_list'' struct_llist_node,
     Fld ''ptype_all'' struct_list_head,
     Fld ''ptype_specific'' struct_list_head,
     Fld ''key_domain'' CPtr,
     Fld ''user_ns'' CPtr,
     Fld ''ucounts'' CPtr,
     Fld ''netns_ids'' struct_idr,
     Bits '''' (CInt 8) 64,
     Bits '''' (CInt 8) 64,
     Bits '''' (CInt 8) 64,
     Bits '''' (CInt 8) 64,
     Bits '''' (CInt 8) 64,
     Fld ''ns'' struct_ns_common,
     Fld ''refcnt_tracker'' struct_ref_tracker_dir,
     Fld ''notrefcnt_tracker'' struct_ref_tracker_dir,
     Fld ''dev_base_head'' struct_list_head,
     Fld ''proc_net'' CPtr,
     Fld ''proc_net_stat'' CPtr,
     Fld ''sysctls'' struct_ctl_table_set,
     Fld ''rtnl'' CPtr,
     Fld ''genl_sock'' CPtr,
     Fld ''uevent_sock'' CPtr,
     Fld ''dev_name_head'' CPtr,
     Fld ''dev_index_head'' CPtr,
     Fld ''dev_by_index'' struct_xarray,
     Fld ''netdev_chain'' struct_raw_notifier_head,
     Fld ''hash_mix'' typedef_u32,
     Fld ''is_dying'' typedef_bool,
     Fld ''loopback_dev'' CPtr,
     Fld ''rules_ops'' struct_list_head,
     Fld ''core'' struct_netns_core,
     Fld ''mib'' struct_netns_mib,
     Fld ''packet'' struct_netns_packet,
     Fld ''unx'' struct_netns_unix,
     Fld ''nexthop'' struct_netns_nexthop,
     Bits '''' (CInt 8) 64,
     Fld ''ipv4'' struct_netns_ipv4,
     Fld ''ipv6'' struct_netns_ipv6,
     Fld ''ieee802154_lowpan'' struct_netns_ieee802154_lowpan,
     Fld ''sctp'' struct_netns_sctp,
     Fld ''nf'' struct_netns_nf,
     Fld ''ct'' struct_netns_ct,
     Fld ''nft'' struct_netns_nftables,
     Fld ''ft'' struct_netns_ft,
     Fld ''wext_nlevents'' struct_sk_buff_head,
     Fld ''gen'' CPtr,
     Fld ''bpf'' struct_netns_bpf,
     Bits '''' (CInt 8) 64,
     Bits '''' (CInt 8) 64,
     Bits '''' (CInt 8) 64,
     Fld ''xfrm'' struct_netns_xfrm,
     Fld ''net_cookie'' typedef_u64,
     Fld ''ipvs'' CPtr,
     Fld ''mpls'' struct_netns_mpls,
     Fld ''can'' struct_netns_can,
     Fld ''xdp'' struct_netns_xdp,
     Fld ''crypto_nlsk'' CPtr,
     Fld ''diag_nlsk'' CPtr,
     Fld ''smc'' struct_netns_smc,
     Fld ''vsock'' struct_netns_vsock,
     Bits '''' (CInt 8) 64,
     Bits '''' (CInt 8) 64,
     Bits '''' (CInt 8) 64]"

definition typedef___wsum :: ctype where
  "typedef___wsum = typedef___u32"

definition typedef_sk_buff_data_t :: ctype where
  "typedef_sk_buff_data_t = CInt 4"

definition struct_sk_buff_part1 :: "cfield list" where
  "struct_sk_buff_part1 =
    [Fld '''' (CUnion False
       [Fld '''' (CStruct False
          [Fld ''next'' CPtr,
           Fld ''prev'' CPtr,
           Fld '''' (CUnion False
             [Fld ''dev'' CPtr,
              Fld ''dev_scratch'' (CInt 8)])]),
        Fld ''rbnode'' struct_rb_node,
        Fld ''list'' struct_list_head,
        Fld ''ll_node'' struct_llist_node]),
     Fld ''sk'' CPtr,
     Fld '''' (CUnion False
       [Fld ''tstamp'' typedef_ktime_t,
        Fld ''skb_mstamp_ns'' typedef_u64]),
     Fld ''cb'' (CArr (CInt 1) 48),
     Fld '''' (CUnion False
       [Fld '''' (CStruct False
          [Fld ''_skb_refdst'' (CInt 8),
           Fld ''destructor'' CPtr]),
        Fld ''tcp_tsorted_anchor'' struct_list_head,
        Fld ''_sk_redir'' (CInt 8)]),
     Fld ''_nfct'' (CInt 8),
     Fld ''len'' (CInt 4),
     Fld ''data_len'' (CInt 4),
     Fld ''mac_len'' typedef___u16,
     Fld ''hdr_len'' typedef___u16,
     Fld ''queue_mapping'' typedef___u16,
     Fld ''__cloned_offset'' (CArr typedef___u8 0),
     Bits ''cloned'' typedef___u8 1,
     Bits ''nohdr'' typedef___u8 1,
     Bits ''fclone'' typedef___u8 2,
     Bits ''peeked'' typedef___u8 1,
     Bits ''head_frag'' typedef___u8 1,
     Bits ''pfmemalloc'' typedef___u8 1,
     Bits ''pp_recycle'' typedef___u8 1,
     Fld ''active_extensions'' typedef___u8]"

definition struct_sk_buff_part2 :: "cfield list" where
  "struct_sk_buff_part2 =
    [Fld '''' (CUnion False
       [Fld '''' (CStruct False
          [Fld ''__pkt_type_offset'' (CArr typedef___u8 0),
           Bits ''pkt_type'' typedef___u8 3,
           Bits ''ignore_df'' typedef___u8 1,
           Bits ''dst_pending_confirm'' typedef___u8 1,
           Bits ''ip_summed'' typedef___u8 2,
           Bits ''ooo_okay'' typedef___u8 1,
           Fld ''__mono_tc_offset'' (CArr typedef___u8 0),
           Bits ''tstamp_type'' typedef___u8 2,
           Bits ''tc_at_ingress'' typedef___u8 1,
           Bits ''tc_skip_classify'' typedef___u8 1,
           Bits ''remcsum_offload'' typedef___u8 1,
           Bits ''csum_complete_sw'' typedef___u8 1,
           Bits ''csum_level'' typedef___u8 2,
           Bits ''inner_protocol_type'' typedef___u8 1,
           Bits ''l4_hash'' typedef___u8 1,
           Bits ''sw_hash'' typedef___u8 1,
           Bits ''wifi_acked_valid'' typedef___u8 1,
           Bits ''wifi_acked'' typedef___u8 1,
           Bits ''no_fcs'' typedef___u8 1,
           Bits ''encapsulation'' typedef___u8 1,
           Bits ''encap_hdr_csum'' typedef___u8 1,
           Bits ''csum_valid'' typedef___u8 1,
           Bits ''ndisc_nodetype'' typedef___u8 2,
           Bits ''ipvs_property'' typedef___u8 1,
           Bits ''nf_trace'' typedef___u8 1,
           Bits ''offload_fwd_mark'' typedef___u8 1,
           Bits ''offload_l3_fwd_mark'' typedef___u8 1,
           Bits ''redirected'' typedef___u8 1,
           Bits ''from_ingress'' typedef___u8 1,
           Bits ''nf_skip_egress'' typedef___u8 1,
           Bits ''decrypted'' typedef___u8 1,
           Bits ''slow_gro'' typedef___u8 1,
           Bits ''csum_not_inet'' typedef___u8 1,
           Bits ''unreadable'' typedef___u8 1,
           Bits ''tc_depth'' typedef___u8 2,
           Fld ''tc_index'' typedef___u16,
           Fld ''alloc_cpu'' typedef_u16,
           Fld '''' (CUnion False
             [Fld ''csum'' typedef___wsum,
              Fld '''' (CStruct False
                [Fld ''csum_start'' typedef___u16,
                 Fld ''csum_offset'' typedef___u16])]),
           Fld ''priority'' typedef___u32,
           Fld ''skb_iif'' (CInt 4),
           Fld ''hash'' typedef___u32,
           Fld '''' (CUnion False
             [Fld ''vlan_all'' typedef_u32,
              Fld '''' (CStruct False
                [Fld ''vlan_proto'' typedef___be16,
                 Fld ''vlan_tci'' typedef___u16])]),
           Fld '''' (CUnion False
             [Fld ''napi_id'' (CInt 4),
              Fld ''sender_cpu'' (CInt 4)]),
           Fld ''secmark'' typedef___u32,
           Fld '''' (CUnion False
             [Fld ''mark'' typedef___u32,
              Fld ''reserved_tailroom'' typedef___u32]),
           Fld '''' (CUnion False
             [Fld ''inner_protocol'' typedef___be16,
              Fld ''inner_ipproto'' typedef___u8]),
           Fld ''inner_transport_header'' typedef___u16,
           Fld ''inner_network_header'' typedef___u16,
           Fld ''inner_mac_header'' typedef___u16,
           Fld ''protocol'' typedef___be16,
           Fld ''transport_header'' typedef___u16,
           Fld ''network_header'' typedef___u16,
           Fld ''mac_header'' typedef___u16]),
        Fld ''headers'' (CStruct False
          [Fld ''__pkt_type_offset'' (CArr typedef___u8 0),
           Bits ''pkt_type'' typedef___u8 3,
           Bits ''ignore_df'' typedef___u8 1,
           Bits ''dst_pending_confirm'' typedef___u8 1,
           Bits ''ip_summed'' typedef___u8 2,
           Bits ''ooo_okay'' typedef___u8 1,
           Fld ''__mono_tc_offset'' (CArr typedef___u8 0),
           Bits ''tstamp_type'' typedef___u8 2,
           Bits ''tc_at_ingress'' typedef___u8 1,
           Bits ''tc_skip_classify'' typedef___u8 1,
           Bits ''remcsum_offload'' typedef___u8 1,
           Bits ''csum_complete_sw'' typedef___u8 1,
           Bits ''csum_level'' typedef___u8 2,
           Bits ''inner_protocol_type'' typedef___u8 1,
           Bits ''l4_hash'' typedef___u8 1,
           Bits ''sw_hash'' typedef___u8 1,
           Bits ''wifi_acked_valid'' typedef___u8 1,
           Bits ''wifi_acked'' typedef___u8 1,
           Bits ''no_fcs'' typedef___u8 1,
           Bits ''encapsulation'' typedef___u8 1,
           Bits ''encap_hdr_csum'' typedef___u8 1,
           Bits ''csum_valid'' typedef___u8 1,
           Bits ''ndisc_nodetype'' typedef___u8 2,
           Bits ''ipvs_property'' typedef___u8 1,
           Bits ''nf_trace'' typedef___u8 1,
           Bits ''offload_fwd_mark'' typedef___u8 1,
           Bits ''offload_l3_fwd_mark'' typedef___u8 1,
           Bits ''redirected'' typedef___u8 1,
           Bits ''from_ingress'' typedef___u8 1,
           Bits ''nf_skip_egress'' typedef___u8 1,
           Bits ''decrypted'' typedef___u8 1,
           Bits ''slow_gro'' typedef___u8 1,
           Bits ''csum_not_inet'' typedef___u8 1,
           Bits ''unreadable'' typedef___u8 1,
           Bits ''tc_depth'' typedef___u8 2,
           Fld ''tc_index'' typedef___u16,
           Fld ''alloc_cpu'' typedef_u16,
           Fld '''' (CUnion False
             [Fld ''csum'' typedef___wsum,
              Fld '''' (CStruct False
                [Fld ''csum_start'' typedef___u16,
                 Fld ''csum_offset'' typedef___u16])]),
           Fld ''priority'' typedef___u32,
           Fld ''skb_iif'' (CInt 4),
           Fld ''hash'' typedef___u32,
           Fld '''' (CUnion False
             [Fld ''vlan_all'' typedef_u32,
              Fld '''' (CStruct False
                [Fld ''vlan_proto'' typedef___be16,
                 Fld ''vlan_tci'' typedef___u16])]),
           Fld '''' (CUnion False
             [Fld ''napi_id'' (CInt 4),
              Fld ''sender_cpu'' (CInt 4)]),
           Fld ''secmark'' typedef___u32,
           Fld '''' (CUnion False
             [Fld ''mark'' typedef___u32,
              Fld ''reserved_tailroom'' typedef___u32]),
           Fld '''' (CUnion False
             [Fld ''inner_protocol'' typedef___be16,
              Fld ''inner_ipproto'' typedef___u8]),
           Fld ''inner_transport_header'' typedef___u16,
           Fld ''inner_network_header'' typedef___u16,
           Fld ''inner_mac_header'' typedef___u16,
           Fld ''protocol'' typedef___be16,
           Fld ''transport_header'' typedef___u16,
           Fld ''network_header'' typedef___u16,
           Fld ''mac_header'' typedef___u16])])]"

definition struct_sk_buff_part3 :: "cfield list" where
  "struct_sk_buff_part3 =
    [Fld ''tail'' typedef_sk_buff_data_t,
     Fld ''end'' typedef_sk_buff_data_t,
     Fld ''head'' CPtr,
     Fld ''data'' CPtr,
     Fld ''truesize'' (CInt 4),
     Fld ''users'' typedef_refcount_t,
     Fld ''extensions'' CPtr]"

definition struct_sk_buff :: ctype where
  "struct_sk_buff = CStruct False (struct_sk_buff_part1 @ struct_sk_buff_part2 @ struct_sk_buff_part3)"

text \<open>The structs and unions of this theory.\<close>

definition kernel_net_types :: "ctype list" where
  "kernel_net_types =
    [struct_idr,
     struct_ns_common,
     struct_ref_tracker_dir,
     struct_ctl_table_header,
     struct_ctl_dir,
     struct_ctl_table_set,
     struct_raw_notifier_head,
     struct_netns_core,
     struct_netns_mib,
     struct_netns_packet,
     struct_unix_table,
     struct_netns_unix,
     struct_rw_semaphore,
     struct_blocking_notifier_head,
     struct_netns_nexthop,
     struct_inet_timewait_death_row,
     struct_udp_tunnel_gro,
     struct_local_ports,
     struct_seqlock,
     struct_ping_group_range,
     struct_sysctl_fib_multipath_hash_seed,
     struct_work_struct,
     struct_delayed_work,
     struct_netns_ipv4,
     struct_percpu_counter,
     struct_dst_ops,
     struct_netns_sysctl_ipv6,
     struct_netns_ipv6,
     struct_netns_sysctl_lowpan,
     struct_netns_ieee802154_lowpan,
     struct_netns_sctp,
     struct_netns_nf,
     struct_nf_generic_net,
     struct_nf_tcp_net,
     struct_nf_udp_net,
     struct_nf_icmp_net,
     struct_nf_sctp_net,
     struct_nf_gre_net,
     struct_nf_ip_net,
     struct_netns_ct,
     struct_netns_nftables,
     struct_netns_ft,
     struct_netns_bpf,
     struct_xfrm_policy_hash,
     struct_xfrm_policy_hthresh,
     struct_netns_xfrm,
     struct_seqcount_mutex,
     struct_netns_mpls,
     struct_netns_can,
     struct_netns_xdp,
     struct_netns_smc,
     struct_netns_vsock,
     struct_net,
     struct_sk_buff]"

lemmas kernel_net_defs =
  struct_idr_def struct_ns_common_def struct_ref_tracker_dir_def struct_ctl_table_header_def
  struct_ctl_dir_def struct_ctl_table_set_def struct_raw_notifier_head_def struct_netns_core_def
  struct_netns_mib_def struct_netns_packet_def struct_unix_table_def struct_netns_unix_def
  struct_rw_semaphore_def struct_blocking_notifier_head_def struct_netns_nexthop_def
  struct_inet_timewait_death_row_def struct_udp_tunnel_gro_def struct_local_ports_def
  struct_seqlock_def typedef_seqlock_t_def struct_ping_group_range_def
  struct_sysctl_fib_multipath_hash_seed_def typedef_siphash_key_t_def typedef_work_func_t_def
  struct_work_struct_def struct_delayed_work_def struct_netns_ipv4_part1_def
  struct_netns_ipv4_part2_def struct_netns_ipv4_def struct_percpu_counter_def struct_dst_ops_def
  struct_netns_sysctl_ipv6_def struct_netns_ipv6_def struct_netns_sysctl_lowpan_def
  struct_netns_ieee802154_lowpan_def struct_netns_sctp_def struct_netns_nf_def
  struct_nf_generic_net_def struct_nf_tcp_net_def struct_nf_udp_net_def struct_nf_icmp_net_def
  struct_nf_sctp_net_def struct_nf_gre_net_def struct_nf_ip_net_def struct_netns_ct_def
  struct_netns_nftables_def struct_netns_ft_def struct_netns_bpf_def struct_xfrm_policy_hash_def
  struct_xfrm_policy_hthresh_def struct_netns_xfrm_def struct_seqcount_mutex_def
  typedef_seqcount_mutex_t_def struct_netns_mpls_def struct_netns_can_def struct_netns_xdp_def
  struct_netns_smc_def enum_vsock_net_mode_def struct_netns_vsock_def struct_net_def
  typedef___wsum_def typedef_sk_buff_data_t_def struct_sk_buff_part1_def
  struct_sk_buff_part2_def struct_sk_buff_part3_def struct_sk_buff_def

lemma struct_idr_layout [layout_simps]:
  "wf_ctype struct_idr" "alignof struct_idr = 8" "sizeof struct_idr = 24"
  by (simp_all only: struct_idr_def)
    (simp_all cong: layout_cong add: layout_eval layout_simps del: One_nat_def)

lemma struct_ns_common_layout [layout_simps]:
  "wf_ctype struct_ns_common" "alignof struct_ns_common = 8" "sizeof struct_ns_common = 112"
  by (simp_all only: struct_ns_common_def)
    (simp_all cong: layout_cong add: layout_eval layout_simps del: One_nat_def)

lemma struct_ref_tracker_dir_layout [layout_simps]:
  "wf_ctype struct_ref_tracker_dir" "alignof struct_ref_tracker_dir = 1" "sizeof struct_ref_tracker_dir = 0"
  by (simp_all only: struct_ref_tracker_dir_def)
    (simp_all cong: layout_cong add: layout_eval layout_simps del: One_nat_def)

lemma struct_ctl_table_header_layout [layout_simps]:
  "wf_ctype struct_ctl_table_header" "alignof struct_ctl_table_header = 8" "sizeof struct_ctl_table_header = 88"
  by (simp_all only: struct_ctl_table_header_def)
    (simp_all cong: layout_cong add: layout_eval layout_simps del: One_nat_def)

lemma struct_ctl_dir_layout [layout_simps]:
  "wf_ctype struct_ctl_dir" "alignof struct_ctl_dir = 8" "sizeof struct_ctl_dir = 96"
  by (simp_all only: struct_ctl_dir_def)
    (simp_all cong: layout_cong add: layout_eval layout_simps del: One_nat_def)

lemma struct_ctl_table_set_layout [layout_simps]:
  "wf_ctype struct_ctl_table_set" "alignof struct_ctl_table_set = 8" "sizeof struct_ctl_table_set = 104"
  by (simp_all only: struct_ctl_table_set_def)
    (simp_all cong: layout_cong add: layout_eval layout_simps del: One_nat_def)

lemma struct_raw_notifier_head_layout [layout_simps]:
  "wf_ctype struct_raw_notifier_head" "alignof struct_raw_notifier_head = 8" "sizeof struct_raw_notifier_head = 8"
  by (simp_all only: struct_raw_notifier_head_def)
    (simp_all cong: layout_cong add: layout_eval layout_simps del: One_nat_def)

lemma struct_netns_core_layout [layout_simps]:
  "wf_ctype struct_netns_core" "alignof struct_netns_core = 8" "sizeof struct_netns_core = 40"
  by (simp_all only: struct_netns_core_def)
    (simp_all cong: layout_cong add: layout_eval layout_simps del: One_nat_def)

lemma struct_netns_mib_layout [layout_simps]:
  "wf_ctype struct_netns_mib" "alignof struct_netns_mib = 8" "sizeof struct_netns_mib = 104"
  by (simp_all only: struct_netns_mib_def)
    (simp_all cong: layout_cong add: layout_eval layout_simps del: One_nat_def)

lemma struct_netns_packet_layout [layout_simps]:
  "wf_ctype struct_netns_packet" "alignof struct_netns_packet = 8" "sizeof struct_netns_packet = 32"
  by (simp_all only: struct_netns_packet_def)
    (simp_all cong: layout_cong add: layout_eval layout_simps del: One_nat_def)

lemma struct_unix_table_layout [layout_simps]:
  "wf_ctype struct_unix_table" "alignof struct_unix_table = 8" "sizeof struct_unix_table = 16"
  by (simp_all only: struct_unix_table_def)
    (simp_all cong: layout_cong add: layout_eval layout_simps del: One_nat_def)

lemma struct_netns_unix_layout [layout_simps]:
  "wf_ctype struct_netns_unix" "alignof struct_netns_unix = 8" "sizeof struct_netns_unix = 32"
  by (simp_all only: struct_netns_unix_def)
    (simp_all cong: layout_cong add: layout_eval layout_simps del: One_nat_def)

lemma struct_rw_semaphore_layout [layout_simps]:
  "wf_ctype struct_rw_semaphore" "alignof struct_rw_semaphore = 8" "sizeof struct_rw_semaphore = 32"
  by (simp_all only: struct_rw_semaphore_def)
    (simp_all cong: layout_cong add: layout_eval layout_simps del: One_nat_def)

lemma struct_blocking_notifier_head_layout [layout_simps]:
  "wf_ctype struct_blocking_notifier_head" "alignof struct_blocking_notifier_head = 8" "sizeof struct_blocking_notifier_head = 40"
  by (simp_all only: struct_blocking_notifier_head_def)
    (simp_all cong: layout_cong add: layout_eval layout_simps del: One_nat_def)

lemma struct_netns_nexthop_layout [layout_simps]:
  "wf_ctype struct_netns_nexthop" "alignof struct_netns_nexthop = 8" "sizeof struct_netns_nexthop = 64"
  by (simp_all only: struct_netns_nexthop_def)
    (simp_all cong: layout_cong add: layout_eval layout_simps del: One_nat_def)

lemma struct_inet_timewait_death_row_layout [layout_simps]:
  "wf_ctype struct_inet_timewait_death_row" "alignof struct_inet_timewait_death_row = 8" "sizeof struct_inet_timewait_death_row = 128"
  by (simp_all only: struct_inet_timewait_death_row_def)
    (simp_all cong: layout_cong add: layout_eval layout_simps del: One_nat_def)

lemma struct_udp_tunnel_gro_layout [layout_simps]:
  "wf_ctype struct_udp_tunnel_gro" "alignof struct_udp_tunnel_gro = 8" "sizeof struct_udp_tunnel_gro = 16"
  by (simp_all only: struct_udp_tunnel_gro_def)
    (simp_all cong: layout_cong add: layout_eval layout_simps del: One_nat_def)

lemma struct_local_ports_layout [layout_simps]:
  "wf_ctype struct_local_ports" "alignof struct_local_ports = 4" "sizeof struct_local_ports = 8"
  by (simp_all only: struct_local_ports_def)
    (simp_all cong: layout_cong add: layout_eval layout_simps del: One_nat_def)

lemma struct_seqlock_layout [layout_simps]:
  "wf_ctype struct_seqlock" "alignof struct_seqlock = 4" "sizeof struct_seqlock = 8"
  by (simp_all only: struct_seqlock_def)
    (simp_all cong: layout_cong add: layout_eval layout_simps del: One_nat_def)

lemma typedef_seqlock_t_layout [layout_simps]:
  "wf_ctype typedef_seqlock_t" "alignof typedef_seqlock_t = 4" "sizeof typedef_seqlock_t = 8"
  by (simp_all only: typedef_seqlock_t_def)
    (simp_all cong: layout_cong add: layout_eval layout_simps del: One_nat_def)

lemma struct_ping_group_range_layout [layout_simps]:
  "wf_ctype struct_ping_group_range" "alignof struct_ping_group_range = 4" "sizeof struct_ping_group_range = 16"
  by (simp_all only: struct_ping_group_range_def)
    (simp_all cong: layout_cong add: layout_eval layout_simps del: One_nat_def)

lemma struct_sysctl_fib_multipath_hash_seed_layout [layout_simps]:
  "wf_ctype struct_sysctl_fib_multipath_hash_seed" "alignof struct_sysctl_fib_multipath_hash_seed = 4" "sizeof struct_sysctl_fib_multipath_hash_seed = 8"
  by (simp_all only: struct_sysctl_fib_multipath_hash_seed_def)
    (simp_all cong: layout_cong add: layout_eval layout_simps del: One_nat_def)

lemma typedef_siphash_key_t_layout [layout_simps]:
  "wf_ctype typedef_siphash_key_t" "alignof typedef_siphash_key_t = 8" "sizeof typedef_siphash_key_t = 16"
  by (simp_all only: typedef_siphash_key_t_def)
    (simp_all cong: layout_cong add: layout_eval layout_simps del: One_nat_def)

lemma typedef_work_func_t_layout [layout_simps]:
  "wf_ctype typedef_work_func_t" "alignof typedef_work_func_t = 8" "sizeof typedef_work_func_t = 8"
  by (simp_all only: typedef_work_func_t_def)
    (simp_all cong: layout_cong add: layout_eval layout_simps del: One_nat_def)

lemma struct_work_struct_layout [layout_simps]:
  "wf_ctype struct_work_struct" "alignof struct_work_struct = 8" "sizeof struct_work_struct = 32"
  by (simp_all only: struct_work_struct_def)
    (simp_all cong: layout_cong add: layout_eval layout_simps del: One_nat_def)

lemma struct_delayed_work_layout [layout_simps]:
  "wf_ctype struct_delayed_work" "alignof struct_delayed_work = 8" "sizeof struct_delayed_work = 88"
  by (simp_all only: struct_delayed_work_def)
    (simp_all cong: layout_cong add: layout_eval layout_simps del: One_nat_def)

lemma struct_netns_ipv4_layout [layout_simps]:
  "wf_ctype struct_netns_ipv4" "alignof struct_netns_ipv4 = 8" "sizeof struct_netns_ipv4 = 1024"
  by (simp_all only: struct_netns_ipv4_def struct_netns_ipv4_part1_def struct_netns_ipv4_part2_def append.simps)
    (simp_all cong: layout_cong add: layout_eval layout_simps del: One_nat_def)

lemma struct_percpu_counter_layout [layout_simps]:
  "wf_ctype struct_percpu_counter" "alignof struct_percpu_counter = 8" "sizeof struct_percpu_counter = 40"
  by (simp_all only: struct_percpu_counter_def)
    (simp_all cong: layout_cong add: layout_eval layout_simps del: One_nat_def)

lemma struct_dst_ops_layout [layout_simps]:
  "wf_ctype struct_dst_ops" "alignof struct_dst_ops = 8" "sizeof struct_dst_ops = 192"
  by (simp_all only: struct_dst_ops_def)
    (simp_all cong: layout_cong add: layout_eval layout_simps del: One_nat_def)

lemma struct_netns_sysctl_ipv6_layout [layout_simps]:
  "wf_ctype struct_netns_sysctl_ipv6" "alignof struct_netns_sysctl_ipv6 = 8" "sizeof struct_netns_sysctl_ipv6 = 184"
  by (simp_all only: struct_netns_sysctl_ipv6_def)
    (simp_all cong: layout_cong add: layout_eval layout_simps del: One_nat_def)

lemma struct_netns_ipv6_layout [layout_simps]:
  "wf_ctype struct_netns_ipv6" "alignof struct_netns_ipv6 = 8" "sizeof struct_netns_ipv6 = 832"
  by (simp_all only: struct_netns_ipv6_def)
    (simp_all cong: layout_cong add: layout_eval layout_simps del: One_nat_def)

lemma struct_netns_sysctl_lowpan_layout [layout_simps]:
  "wf_ctype struct_netns_sysctl_lowpan" "alignof struct_netns_sysctl_lowpan = 8" "sizeof struct_netns_sysctl_lowpan = 8"
  by (simp_all only: struct_netns_sysctl_lowpan_def)
    (simp_all cong: layout_cong add: layout_eval layout_simps del: One_nat_def)

lemma struct_netns_ieee802154_lowpan_layout [layout_simps]:
  "wf_ctype struct_netns_ieee802154_lowpan" "alignof struct_netns_ieee802154_lowpan = 8" "sizeof struct_netns_ieee802154_lowpan = 16"
  by (simp_all only: struct_netns_ieee802154_lowpan_def)
    (simp_all cong: layout_cong add: layout_eval layout_simps del: One_nat_def)

lemma struct_netns_sctp_layout [layout_simps]:
  "wf_ctype struct_netns_sctp" "alignof struct_netns_sctp = 8" "sizeof struct_netns_sctp = 296"
  by (simp_all only: struct_netns_sctp_def)
    (simp_all cong: layout_cong add: layout_eval layout_simps del: One_nat_def)

lemma struct_netns_nf_layout [layout_simps]:
  "wf_ctype struct_netns_nf" "alignof struct_netns_nf = 8" "sizeof struct_netns_nf = 264"
  by (simp_all only: struct_netns_nf_def)
    (simp_all cong: layout_cong add: layout_eval layout_simps del: One_nat_def)

lemma struct_nf_generic_net_layout [layout_simps]:
  "wf_ctype struct_nf_generic_net" "alignof struct_nf_generic_net = 4" "sizeof struct_nf_generic_net = 4"
  by (simp_all only: struct_nf_generic_net_def)
    (simp_all cong: layout_cong add: layout_eval layout_simps del: One_nat_def)

lemma struct_nf_tcp_net_layout [layout_simps]:
  "wf_ctype struct_nf_tcp_net" "alignof struct_nf_tcp_net = 4" "sizeof struct_nf_tcp_net = 64"
  by (simp_all only: struct_nf_tcp_net_def)
    (simp_all cong: layout_cong add: layout_eval layout_simps del: One_nat_def)

lemma struct_nf_udp_net_layout [layout_simps]:
  "wf_ctype struct_nf_udp_net" "alignof struct_nf_udp_net = 4" "sizeof struct_nf_udp_net = 12"
  by (simp_all only: struct_nf_udp_net_def)
    (simp_all cong: layout_cong add: layout_eval layout_simps del: One_nat_def)

lemma struct_nf_icmp_net_layout [layout_simps]:
  "wf_ctype struct_nf_icmp_net" "alignof struct_nf_icmp_net = 4" "sizeof struct_nf_icmp_net = 4"
  by (simp_all only: struct_nf_icmp_net_def)
    (simp_all cong: layout_cong add: layout_eval layout_simps del: One_nat_def)

lemma struct_nf_sctp_net_layout [layout_simps]:
  "wf_ctype struct_nf_sctp_net" "alignof struct_nf_sctp_net = 4" "sizeof struct_nf_sctp_net = 40"
  by (simp_all only: struct_nf_sctp_net_def)
    (simp_all cong: layout_cong add: layout_eval layout_simps del: One_nat_def)

lemma struct_nf_gre_net_layout [layout_simps]:
  "wf_ctype struct_nf_gre_net" "alignof struct_nf_gre_net = 8" "sizeof struct_nf_gre_net = 24"
  by (simp_all only: struct_nf_gre_net_def)
    (simp_all cong: layout_cong add: layout_eval layout_simps del: One_nat_def)

lemma struct_nf_ip_net_layout [layout_simps]:
  "wf_ctype struct_nf_ip_net" "alignof struct_nf_ip_net = 8" "sizeof struct_nf_ip_net = 152"
  by (simp_all only: struct_nf_ip_net_def)
    (simp_all cong: layout_cong add: layout_eval layout_simps del: One_nat_def)

lemma struct_netns_ct_layout [layout_simps]:
  "wf_ctype struct_netns_ct" "alignof struct_netns_ct = 8" "sizeof struct_netns_ct = 184"
  by (simp_all only: struct_netns_ct_def)
    (simp_all cong: layout_cong add: layout_eval layout_simps del: One_nat_def)

lemma struct_netns_nftables_layout [layout_simps]:
  "wf_ctype struct_netns_nftables" "alignof struct_netns_nftables = 4" "sizeof struct_netns_nftables = 8"
  by (simp_all only: struct_netns_nftables_def)
    (simp_all cong: layout_cong add: layout_eval layout_simps del: One_nat_def)

lemma struct_netns_ft_layout [layout_simps]:
  "wf_ctype struct_netns_ft" "alignof struct_netns_ft = 8" "sizeof struct_netns_ft = 8"
  by (simp_all only: struct_netns_ft_def)
    (simp_all cong: layout_cong add: layout_eval layout_simps del: One_nat_def)

lemma struct_netns_bpf_layout [layout_simps]:
  "wf_ctype struct_netns_bpf" "alignof struct_netns_bpf = 8" "sizeof struct_netns_bpf = 64"
  by (simp_all only: struct_netns_bpf_def)
    (simp_all cong: layout_cong add: layout_eval layout_simps del: One_nat_def)

lemma struct_xfrm_policy_hash_layout [layout_simps]:
  "wf_ctype struct_xfrm_policy_hash" "alignof struct_xfrm_policy_hash = 8" "sizeof struct_xfrm_policy_hash = 16"
  by (simp_all only: struct_xfrm_policy_hash_def)
    (simp_all cong: layout_cong add: layout_eval layout_simps del: One_nat_def)

lemma struct_xfrm_policy_hthresh_layout [layout_simps]:
  "wf_ctype struct_xfrm_policy_hthresh" "alignof struct_xfrm_policy_hthresh = 8" "sizeof struct_xfrm_policy_hthresh = 48"
  by (simp_all only: struct_xfrm_policy_hthresh_def)
    (simp_all cong: layout_cong add: layout_eval layout_simps del: One_nat_def)

lemma struct_netns_xfrm_layout [layout_simps]:
  "wf_ctype struct_netns_xfrm" "alignof struct_netns_xfrm = 8" "sizeof struct_netns_xfrm = 896"
  by (simp_all only: struct_netns_xfrm_def)
    (simp_all cong: layout_cong add: layout_eval layout_simps del: One_nat_def)

lemma struct_seqcount_mutex_layout [layout_simps]:
  "wf_ctype struct_seqcount_mutex" "alignof struct_seqcount_mutex = 4" "sizeof struct_seqcount_mutex = 4"
  by (simp_all only: struct_seqcount_mutex_def)
    (simp_all cong: layout_cong add: layout_eval layout_simps del: One_nat_def)

lemma typedef_seqcount_mutex_t_layout [layout_simps]:
  "wf_ctype typedef_seqcount_mutex_t" "alignof typedef_seqcount_mutex_t = 4" "sizeof typedef_seqcount_mutex_t = 4"
  by (simp_all only: typedef_seqcount_mutex_t_def)
    (simp_all cong: layout_cong add: layout_eval layout_simps del: One_nat_def)

lemma struct_netns_mpls_layout [layout_simps]:
  "wf_ctype struct_netns_mpls" "alignof struct_netns_mpls = 8" "sizeof struct_netns_mpls = 64"
  by (simp_all only: struct_netns_mpls_def)
    (simp_all cong: layout_cong add: layout_eval layout_simps del: One_nat_def)

lemma struct_netns_can_layout [layout_simps]:
  "wf_ctype struct_netns_can" "alignof struct_netns_can = 8" "sizeof struct_netns_can = 160"
  by (simp_all only: struct_netns_can_def)
    (simp_all cong: layout_cong add: layout_eval layout_simps del: One_nat_def)

lemma struct_netns_xdp_layout [layout_simps]:
  "wf_ctype struct_netns_xdp" "alignof struct_netns_xdp = 8" "sizeof struct_netns_xdp = 32"
  by (simp_all only: struct_netns_xdp_def)
    (simp_all cong: layout_cong add: layout_eval layout_simps del: One_nat_def)

lemma struct_netns_smc_layout [layout_simps]:
  "wf_ctype struct_netns_smc" "alignof struct_netns_smc = 8" "sizeof struct_netns_smc = 104"
  by (simp_all only: struct_netns_smc_def)
    (simp_all cong: layout_cong add: layout_eval layout_simps del: One_nat_def)

lemma enum_vsock_net_mode_layout [layout_simps]:
  "wf_ctype (cenum enum_vsock_net_mode)" "alignof (cenum enum_vsock_net_mode) = 4" "sizeof (cenum enum_vsock_net_mode) = 4"
  by (simp_all add: cenum_def enum_vsock_net_mode_def scalar_size_def del: One_nat_def)

lemma struct_netns_vsock_layout [layout_simps]:
  "wf_ctype struct_netns_vsock" "alignof struct_netns_vsock = 8" "sizeof struct_netns_vsock = 32"
  by (simp_all only: struct_netns_vsock_def)
    (simp_all cong: layout_cong add: layout_eval layout_simps del: One_nat_def)

lemma struct_net_layout [layout_simps]:
  "wf_ctype struct_net" "alignof struct_net = 8" "sizeof struct_net = 4912"
  by (simp_all only: struct_net_def)
    (simp_all cong: layout_cong add: layout_eval layout_simps del: One_nat_def)

lemma typedef___wsum_layout [layout_simps]:
  "wf_ctype typedef___wsum" "alignof typedef___wsum = 4" "sizeof typedef___wsum = 4"
  by (simp_all only: typedef___wsum_def)
    (simp_all cong: layout_cong add: layout_eval layout_simps del: One_nat_def)

lemma typedef_sk_buff_data_t_layout [layout_simps]:
  "wf_ctype typedef_sk_buff_data_t" "alignof typedef_sk_buff_data_t = 4" "sizeof typedef_sk_buff_data_t = 4"
  by (simp_all only: typedef_sk_buff_data_t_def)
    (simp_all cong: layout_cong add: layout_eval layout_simps del: One_nat_def)

lemma struct_sk_buff_layout [layout_simps]:
  "wf_ctype struct_sk_buff" "alignof struct_sk_buff = 8" "sizeof struct_sk_buff = 232"
  by (simp_all only: struct_sk_buff_def struct_sk_buff_part1_def struct_sk_buff_part2_def struct_sk_buff_part3_def append.simps)
    (simp_all cong: layout_cong add: layout_eval layout_simps del: One_nat_def)

lemma kernel_net_types_wf: "list_all wf_ctype kernel_net_types"
  by (simp add: kernel_net_types_def layout_simps)

end
