(* ===== verification/Kernel_Device.thy ===== *)
theory Kernel_Device
  imports Kernel_Net
begin

text \<open>
  Devices, protocols and the BPF interface: the kernel types of \<^verbatim>\<open>internal/network/ebpf/bpf/vmlinux.h\<close>
  that matter here, with everything they contain by value, in dependency order:
  \<^verbatim>\<open>struct net_device\<close>, \<^verbatim>\<open>struct proto\<close>, \<^verbatim>\<open>struct socket\<close>, and the BPF side:
  the numbers of the helpers and map types (\<^verbatim>\<open>enum bpf_func_id\<close>,
  \<^verbatim>\<open>enum bpf_map_type\<close>) and the kernel objects for a map and a program.
  One definition per C type (a type of more than 150 lines is split into member lists);
  members keep their names and order, every pointer is \<open>CPtr\<close>. A member declaration
  that only names a tag declares nothing and has no counterpart.
\<close>

definition typedef_s16 :: ctype where
  "typedef_s16 = typedef___s16"

definition struct_netdev_tc_txq :: ctype where
  "struct_netdev_tc_txq = CStruct False
    [Fld ''count'' typedef_u16,
     Fld ''offset'' typedef_u16]"

definition enum_netdev_stat_type :: "(string \<times> int) list" where
  "enum_netdev_stat_type =
    [(''NETDEV_PCPU_STAT_NONE'', 0),
     (''NETDEV_PCPU_STAT_LSTATS'', 1),
     (''NETDEV_PCPU_STAT_TSTATS'', 2),
     (''NETDEV_PCPU_STAT_DSTATS'', 3)]"

definition typedef_xdp_features_t :: ctype where
  "typedef_xdp_features_t = typedef_u32"

definition struct_net_device_stats :: ctype where
  "struct_net_device_stats = CStruct False
    [Fld '''' (CUnion False
       [Fld ''rx_packets'' (CInt 8),
        Fld ''__rx_packets'' typedef_atomic_long_t]),
     Fld '''' (CUnion False
       [Fld ''tx_packets'' (CInt 8),
        Fld ''__tx_packets'' typedef_atomic_long_t]),
     Fld '''' (CUnion False
       [Fld ''rx_bytes'' (CInt 8),
        Fld ''__rx_bytes'' typedef_atomic_long_t]),
     Fld '''' (CUnion False
       [Fld ''tx_bytes'' (CInt 8),
        Fld ''__tx_bytes'' typedef_atomic_long_t]),
     Fld '''' (CUnion False
       [Fld ''rx_errors'' (CInt 8),
        Fld ''__rx_errors'' typedef_atomic_long_t]),
     Fld '''' (CUnion False
       [Fld ''tx_errors'' (CInt 8),
        Fld ''__tx_errors'' typedef_atomic_long_t]),
     Fld '''' (CUnion False
       [Fld ''rx_dropped'' (CInt 8),
        Fld ''__rx_dropped'' typedef_atomic_long_t]),
     Fld '''' (CUnion False
       [Fld ''tx_dropped'' (CInt 8),
        Fld ''__tx_dropped'' typedef_atomic_long_t]),
     Fld '''' (CUnion False
       [Fld ''multicast'' (CInt 8),
        Fld ''__multicast'' typedef_atomic_long_t]),
     Fld '''' (CUnion False
       [Fld ''collisions'' (CInt 8),
        Fld ''__collisions'' typedef_atomic_long_t]),
     Fld '''' (CUnion False
       [Fld ''rx_length_errors'' (CInt 8),
        Fld ''__rx_length_errors'' typedef_atomic_long_t]),
     Fld '''' (CUnion False
       [Fld ''rx_over_errors'' (CInt 8),
        Fld ''__rx_over_errors'' typedef_atomic_long_t]),
     Fld '''' (CUnion False
       [Fld ''rx_crc_errors'' (CInt 8),
        Fld ''__rx_crc_errors'' typedef_atomic_long_t]),
     Fld '''' (CUnion False
       [Fld ''rx_frame_errors'' (CInt 8),
        Fld ''__rx_frame_errors'' typedef_atomic_long_t]),
     Fld '''' (CUnion False
       [Fld ''rx_fifo_errors'' (CInt 8),
        Fld ''__rx_fifo_errors'' typedef_atomic_long_t]),
     Fld '''' (CUnion False
       [Fld ''rx_missed_errors'' (CInt 8),
        Fld ''__rx_missed_errors'' typedef_atomic_long_t]),
     Fld '''' (CUnion False
       [Fld ''tx_aborted_errors'' (CInt 8),
        Fld ''__tx_aborted_errors'' typedef_atomic_long_t]),
     Fld '''' (CUnion False
       [Fld ''tx_carrier_errors'' (CInt 8),
        Fld ''__tx_carrier_errors'' typedef_atomic_long_t]),
     Fld '''' (CUnion False
       [Fld ''tx_fifo_errors'' (CInt 8),
        Fld ''__tx_fifo_errors'' typedef_atomic_long_t]),
     Fld '''' (CUnion False
       [Fld ''tx_heartbeat_errors'' (CInt 8),
        Fld ''__tx_heartbeat_errors'' typedef_atomic_long_t]),
     Fld '''' (CUnion False
       [Fld ''tx_window_errors'' (CInt 8),
        Fld ''__tx_window_errors'' typedef_atomic_long_t]),
     Fld '''' (CUnion False
       [Fld ''rx_compressed'' (CInt 8),
        Fld ''__rx_compressed'' typedef_atomic_long_t]),
     Fld '''' (CUnion False
       [Fld ''tx_compressed'' (CInt 8),
        Fld ''__tx_compressed'' typedef_atomic_long_t])]"

definition struct_netdev_hw_addr_list :: ctype where
  "struct_netdev_hw_addr_list = CStruct False
    [Fld ''list'' struct_list_head,
     Fld ''count'' (CInt 4),
     Fld ''tree'' struct_rb_root]"

definition typedef_netdevice_tracker :: ctype where
  "typedef_netdevice_tracker = CStruct False
    []"

definition enum_netdev_ml_priv_type :: "(string \<times> int) list" where
  "enum_netdev_ml_priv_type =
    [(''ML_PRIV_NONE'', 0),
     (''ML_PRIV_CAN'', 1)]"

definition struct_kref :: ctype where
  "struct_kref = CStruct False
    [Fld ''refcount'' typedef_refcount_t]"

definition struct_kobject :: ctype where
  "struct_kobject = CStruct False
    [Fld ''name'' CPtr,
     Fld ''entry'' struct_list_head,
     Fld ''parent'' CPtr,
     Fld ''kset'' CPtr,
     Fld ''ktype'' CPtr,
     Fld ''sd'' CPtr,
     Fld ''kref'' struct_kref,
     Bits ''state_initialized'' (CInt 4) 1,
     Bits ''state_in_sysfs'' (CInt 4) 1,
     Bits ''state_add_uevent_sent'' (CInt 4) 1,
     Bits ''state_remove_uevent_sent'' (CInt 4) 1,
     Bits ''uevent_suppress'' (CInt 4) 1]"

definition enum_dl_dev_state :: "(string \<times> int) list" where
  "enum_dl_dev_state =
    [(''DL_DEV_NO_DRIVER'', 0),
     (''DL_DEV_PROBING'', 1),
     (''DL_DEV_DRIVER_BOUND'', 2),
     (''DL_DEV_UNBINDING'', 3)]"

definition struct_dev_links_info :: ctype where
  "struct_dev_links_info = CStruct False
    [Fld ''suppliers'' struct_list_head,
     Fld ''consumers'' struct_list_head,
     Fld ''defer_sync'' struct_list_head,
     Fld ''status'' (cenum enum_dl_dev_state)]"

definition struct_pm_message :: ctype where
  "struct_pm_message = CStruct False
    [Fld ''event'' (CInt 4)]"

definition typedef_pm_message_t :: ctype where
  "typedef_pm_message_t = struct_pm_message"

definition struct_swait_queue_head :: ctype where
  "struct_swait_queue_head = CStruct False
    [Fld ''lock'' typedef_raw_spinlock_t,
     Fld ''task_list'' struct_list_head]"

definition struct_completion :: ctype where
  "struct_completion = CStruct False
    [Fld ''done'' (CInt 4),
     Fld ''wait'' struct_swait_queue_head]"

definition enum_rpm_request :: "(string \<times> int) list" where
  "enum_rpm_request =
    [(''RPM_REQ_NONE'', 0),
     (''RPM_REQ_IDLE'', 1),
     (''RPM_REQ_SUSPEND'', 2),
     (''RPM_REQ_AUTOSUSPEND'', 3),
     (''RPM_REQ_RESUME'', 4)]"

definition enum_rpm_status :: "(string \<times> int) list" where
  "enum_rpm_status =
    [(''RPM_INVALID'', -1),
     (''RPM_ACTIVE'', 0),
     (''RPM_RESUMING'', 1),
     (''RPM_SUSPENDED'', 2),
     (''RPM_SUSPENDING'', 3),
     (''RPM_BLOCKED'', 4)]"

definition struct_dev_pm_info :: ctype where
  "struct_dev_pm_info = CStruct False
    [Fld ''power_state'' typedef_pm_message_t,
     Bits ''can_wakeup'' typedef_bool 1,
     Bits ''async_suspend'' typedef_bool 1,
     Bits ''in_dpm_list'' typedef_bool 1,
     Bits ''is_prepared'' typedef_bool 1,
     Bits ''is_suspended'' typedef_bool 1,
     Bits ''is_noirq_suspended'' typedef_bool 1,
     Bits ''is_late_suspended'' typedef_bool 1,
     Bits ''no_pm'' typedef_bool 1,
     Bits ''early_init'' typedef_bool 1,
     Bits ''direct_complete'' typedef_bool 1,
     Fld ''driver_flags'' typedef_u32,
     Fld ''lock'' typedef_spinlock_t,
     Fld ''entry'' struct_list_head,
     Fld ''completion'' struct_completion,
     Fld ''wakeup'' CPtr,
     Fld ''work_in_progress'' typedef_bool,
     Bits ''wakeup_path'' typedef_bool 1,
     Bits ''syscore'' typedef_bool 1,
     Bits ''no_pm_callbacks'' typedef_bool 1,
     Bits ''smart_suspend'' typedef_bool 1,
     Bits ''must_resume'' typedef_bool 1,
     Bits ''may_skip_resume'' typedef_bool 1,
     Bits ''out_band_wakeup'' typedef_bool 1,
     Bits ''strict_midlayer'' typedef_bool 1,
     Fld ''suspend_timer'' struct_hrtimer,
     Fld ''timer_expires'' typedef_u64,
     Fld ''work'' struct_work_struct,
     Fld ''wait_queue'' typedef_wait_queue_head_t,
     Fld ''wakeirq'' CPtr,
     Fld ''usage_count'' typedef_atomic_t,
     Fld ''child_count'' typedef_atomic_t,
     Bits ''disable_depth'' (CInt 4) 3,
     Bits ''idle_notification'' typedef_bool 1,
     Bits ''request_pending'' typedef_bool 1,
     Bits ''deferred_resume'' typedef_bool 1,
     Bits ''needs_force_resume'' typedef_bool 1,
     Bits ''runtime_auto'' typedef_bool 1,
     Bits ''ignore_children'' typedef_bool 1,
     Bits ''no_callbacks'' typedef_bool 1,
     Bits ''irq_safe'' typedef_bool 1,
     Bits ''use_autosuspend'' typedef_bool 1,
     Bits ''timer_autosuspends'' typedef_bool 1,
     Bits ''memalloc_noio'' typedef_bool 1,
     Fld ''links_count'' (CInt 4),
     Fld ''request'' (cenum enum_rpm_request),
     Fld ''runtime_status'' (cenum enum_rpm_status),
     Fld ''last_status'' (cenum enum_rpm_status),
     Fld ''runtime_error'' (CInt 4),
     Fld ''autosuspend_delay'' (CInt 4),
     Fld ''last_busy'' typedef_u64,
     Fld ''active_time'' typedef_u64,
     Fld ''suspended_time'' typedef_u64,
     Fld ''accounting_timestamp'' typedef_u64,
     Fld ''subsys_data'' CPtr,
     Fld ''set_latency_tolerance'' CPtr,
     Fld ''qos'' CPtr,
     Bits ''detach_power_off'' typedef_bool 1]"

definition struct_dev_msi_info :: ctype where
  "struct_dev_msi_info = CStruct False
    [Fld ''domain'' CPtr,
     Fld ''data'' CPtr]"

definition struct_dev_archdata :: ctype where
  "struct_dev_archdata = CStruct False
    []"

definition typedef___kernel_dev_t :: ctype where
  "typedef___kernel_dev_t = typedef_u32"

definition typedef_dev_t :: ctype where
  "typedef_dev_t = typedef___kernel_dev_t"

definition enum_device_removable :: "(string \<times> int) list" where
  "enum_device_removable =
    [(''DEVICE_REMOVABLE_NOT_SUPPORTED'', 0),
     (''DEVICE_REMOVABLE_UNKNOWN'', 1),
     (''DEVICE_FIXED'', 2),
     (''DEVICE_REMOVABLE'', 3)]"

definition struct_device :: ctype where
  "struct_device = CStruct False
    [Fld ''kobj'' struct_kobject,
     Fld ''parent'' CPtr,
     Fld ''p'' CPtr,
     Fld ''init_name'' CPtr,
     Fld ''type'' CPtr,
     Fld ''bus'' CPtr,
     Fld ''driver'' CPtr,
     Fld ''platform_data'' CPtr,
     Fld ''driver_data'' CPtr,
     Fld ''driver_override'' (CStruct False
       [Fld ''name'' CPtr,
        Fld ''lock'' typedef_spinlock_t]),
     Fld ''mutex'' struct_mutex,
     Fld ''links'' struct_dev_links_info,
     Fld ''power'' struct_dev_pm_info,
     Fld ''pm_domain'' CPtr,
     Fld ''em_pd'' CPtr,
     Fld ''pins'' CPtr,
     Fld ''msi'' struct_dev_msi_info,
     Fld ''dma_ops'' CPtr,
     Fld ''dma_mask'' CPtr,
     Fld ''coherent_dma_mask'' typedef_u64,
     Fld ''bus_dma_limit'' typedef_u64,
     Fld ''dma_range_map'' CPtr,
     Fld ''dma_parms'' CPtr,
     Fld ''dma_pools'' struct_list_head,
     Fld ''dma_mem'' CPtr,
     Fld ''cma_area'' CPtr,
     Fld ''dma_io_tlb_mem'' CPtr,
     Fld ''archdata'' struct_dev_archdata,
     Fld ''of_node'' CPtr,
     Fld ''fwnode'' CPtr,
     Fld ''numa_node'' (CInt 4),
     Fld ''devt'' typedef_dev_t,
     Fld ''id'' typedef_u32,
     Fld ''devres_lock'' typedef_spinlock_t,
     Fld ''devres_head'' struct_list_head,
     Fld ''class'' CPtr,
     Fld ''groups'' CPtr,
     Fld ''release'' CPtr,
     Fld ''iommu_group'' CPtr,
     Fld ''iommu'' CPtr,
     Fld ''physical_location'' CPtr,
     Fld ''removable'' (cenum enum_device_removable),
     Bits ''offline_disabled'' typedef_bool 1,
     Bits ''offline'' typedef_bool 1,
     Bits ''of_node_reused'' typedef_bool 1,
     Bits ''state_synced'' typedef_bool 1,
     Bits ''can_match'' typedef_bool 1,
     Bits ''dma_skip_sync'' typedef_bool 1,
     Bits ''dma_iommu'' typedef_bool 1,
     Fld ''flags'' (CArr (CInt 8) 1)]"

definition struct_bpf_xdp_entity :: ctype where
  "struct_bpf_xdp_entity = CStruct False
    [Fld ''prog'' CPtr,
     Fld ''link'' CPtr]"

definition struct_net_device_part1 :: "cfield list" where
  "struct_net_device_part1 =
    [Fld ''__cacheline_group_begin__net_device_read_tx'' (CArr typedef___u8 0),
     Fld '''' (CUnion False
       [Fld '''' (CStruct False
          [Bits ''priv_flags'' (CInt 8) 32,
           Bits ''lltx'' (CInt 8) 1,
           Bits ''netmem_tx'' (CInt 8) 1]),
        Fld ''priv_flags_fast'' (CStruct False
          [Bits ''priv_flags'' (CInt 8) 32,
           Bits ''lltx'' (CInt 8) 1,
           Bits ''netmem_tx'' (CInt 8) 1])]),
     Fld ''netdev_ops'' CPtr,
     Fld ''header_ops'' CPtr,
     Fld ''_tx'' CPtr,
     Fld ''gso_partial_features'' typedef_netdev_features_t,
     Fld ''real_num_tx_queues'' (CInt 4),
     Fld ''gso_max_size'' (CInt 4),
     Fld ''gso_ipv4_max_size'' (CInt 4),
     Fld ''gso_max_segs'' typedef_u16,
     Fld ''num_tc'' typedef_s16,
     Fld ''mtu'' (CInt 4),
     Fld ''needed_headroom'' (CInt 2),
     Fld ''tc_to_txq'' (CArr struct_netdev_tc_txq 16),
     Fld ''xps_maps'' (CArr CPtr 2),
     Fld ''nf_hooks_egress'' CPtr,
     Fld ''tcx_egress'' CPtr,
     Fld ''__cacheline_group_end__net_device_read_tx'' (CArr typedef___u8 0),
     Fld ''__cacheline_group_begin__net_device_read_txrx'' (CArr typedef___u8 0),
     Fld '''' (CUnion False
       [Fld ''lstats'' CPtr,
        Fld ''tstats'' CPtr,
        Fld ''dstats'' CPtr]),
     Fld ''state'' (CInt 8),
     Fld ''flags'' (CInt 4),
     Fld ''hard_header_len'' (CInt 2),
     Bits ''pcpu_stat_type'' (cenum enum_netdev_stat_type) 8,
     Fld ''features'' typedef_netdev_features_t,
     Fld ''ip6_ptr'' CPtr,
     Fld ''__cacheline_group_end__net_device_read_txrx'' (CArr typedef___u8 0),
     Fld ''__cacheline_group_begin__net_device_read_rx'' (CArr typedef___u8 0),
     Fld ''xdp_prog'' CPtr,
     Fld ''ptype_specific'' struct_list_head,
     Fld ''ifindex'' (CInt 4),
     Fld ''real_num_rx_queues'' (CInt 4),
     Fld ''_rx'' CPtr,
     Fld ''gro_max_size'' (CInt 4),
     Fld ''gro_ipv4_max_size'' (CInt 4),
     Fld ''rx_handler'' CPtr,
     Fld ''rx_handler_data'' CPtr,
     Fld ''nd_net'' typedef_possible_net_t,
     Fld ''npinfo'' CPtr,
     Fld ''tcx_ingress'' CPtr,
     Fld ''__cacheline_group_end__net_device_read_rx'' (CArr typedef___u8 0),
     Fld ''name'' (CArr (CInt 1) 16),
     Fld ''name_node'' CPtr,
     Fld ''ifalias'' CPtr,
     Fld ''mem_end'' (CInt 8),
     Fld ''mem_start'' (CInt 8),
     Fld ''base_addr'' (CInt 8),
     Fld ''dev_list'' struct_list_head,
     Fld ''napi_list'' struct_list_head,
     Fld ''unreg_list'' struct_list_head,
     Fld ''close_list'' struct_list_head,
     Fld ''ptype_all'' struct_list_head,
     Fld ''adj_list'' (CStruct False
       [Fld ''upper'' struct_list_head,
        Fld ''lower'' struct_list_head]),
     Fld ''xdp_features'' typedef_xdp_features_t,
     Fld ''xdp_metadata_ops'' CPtr,
     Fld ''xsk_tx_metadata_ops'' CPtr,
     Fld ''gflags'' (CInt 2),
     Fld ''needed_tailroom'' (CInt 2),
     Fld ''hw_features'' typedef_netdev_features_t,
     Fld ''wanted_features'' typedef_netdev_features_t,
     Fld ''vlan_features'' typedef_netdev_features_t,
     Fld ''hw_enc_features'' typedef_netdev_features_t,
     Fld ''mpls_features'' typedef_netdev_features_t,
     Fld ''mangleid_features'' typedef_netdev_features_t,
     Fld ''min_mtu'' (CInt 4),
     Fld ''max_mtu'' (CInt 4),
     Fld ''type'' (CInt 2),
     Fld ''min_header_len'' (CInt 1),
     Fld ''name_assign_type'' (CInt 1),
     Fld ''group'' (CInt 4),
     Fld ''stats'' struct_net_device_stats,
     Fld ''core_stats'' CPtr,
     Fld ''carrier_up_count'' typedef_atomic_t,
     Fld ''carrier_down_count'' typedef_atomic_t,
     Fld ''wireless_handlers'' CPtr,
     Fld ''ethtool_ops'' CPtr,
     Fld ''l3mdev_ops'' CPtr,
     Fld ''ndisc_ops'' CPtr,
     Fld ''xfrmdev_ops'' CPtr,
     Fld ''tlsdev_ops'' CPtr,
     Fld ''operstate'' (CInt 4),
     Fld ''link_mode'' (CInt 1),
     Fld ''if_port'' (CInt 1),
     Fld ''dma'' (CInt 1),
     Fld ''perm_addr'' (CArr (CInt 1) 32),
     Fld ''addr_assign_type'' (CInt 1),
     Fld ''addr_len'' (CInt 1),
     Fld ''upper_level'' (CInt 1),
     Fld ''lower_level'' (CInt 1),
     Fld ''threaded'' typedef_u8,
     Fld ''neigh_priv_len'' (CInt 2),
     Fld ''dev_id'' (CInt 2),
     Fld ''dev_port'' (CInt 2),
     Fld ''irq'' (CInt 4),
     Fld ''priv_len'' typedef_u32,
     Fld ''addr_list_lock'' typedef_spinlock_t,
     Fld ''uc'' struct_netdev_hw_addr_list,
     Fld ''mc'' struct_netdev_hw_addr_list,
     Fld ''dev_addrs'' struct_netdev_hw_addr_list,
     Fld ''queues_kset'' CPtr,
     Fld ''promiscuity'' (CInt 4),
     Fld ''allmulti'' (CInt 4),
     Fld ''uc_promisc'' typedef_bool,
     Fld ''rx_mode_node'' struct_list_head,
     Fld ''rx_mode_tracker'' typedef_netdevice_tracker,
     Fld ''rx_mode_addr_cache'' struct_netdev_hw_addr_list,
     Fld ''ip_ptr'' CPtr,
     Fld ''fib_nh_head'' struct_hlist_head,
     Fld ''vlan_info'' CPtr,
     Fld ''dsa_ptr'' CPtr,
     Fld ''tipc_ptr'' CPtr,
     Fld ''atalk_ptr'' CPtr,
     Fld ''ieee80211_ptr'' CPtr,
     Fld ''ieee802154_ptr'' CPtr,
     Fld ''mpls_ptr'' CPtr,
     Fld ''dev_addr'' CPtr,
     Fld ''num_rx_queues'' (CInt 4),
     Fld ''xdp_zc_max_segs'' (CInt 4),
     Fld ''ingress_queue'' CPtr,
     Fld ''nf_hooks_ingress'' CPtr,
     Fld ''broadcast'' (CArr (CInt 1) 32),
     Fld ''rx_cpu_rmap'' CPtr]"

definition struct_net_device_part2 :: "cfield list" where
  "struct_net_device_part2 =
    [Fld ''index_hlist'' struct_hlist_node,
     Fld ''num_tx_queues'' (CInt 4),
     Fld ''qdisc'' CPtr,
     Fld ''tx_queue_len'' (CInt 4),
     Fld ''tx_global_lock'' typedef_spinlock_t,
     Fld ''xdp_bulkq'' CPtr,
     Fld ''qdisc_hash'' (CArr struct_hlist_head 16),
     Fld ''watchdog_timer'' struct_timer_list,
     Fld ''watchdog_timeo'' (CInt 4),
     Fld ''proto_down_reason'' typedef_u32,
     Fld ''todo_list'' struct_list_head,
     Fld ''pcpu_refcnt'' CPtr,
     Fld ''refcnt_tracker'' struct_ref_tracker_dir,
     Fld ''link_watch_list'' struct_list_head,
     Fld ''reg_state'' typedef_u8,
     Fld ''dismantle'' typedef_bool,
     Fld ''moving_ns'' typedef_bool,
     Fld ''rtnl_link_initializing'' typedef_bool,
     Fld ''needs_free_netdev'' typedef_bool,
     Fld ''priv_destructor'' CPtr,
     Fld ''ml_priv'' CPtr,
     Fld ''ml_priv_type'' (cenum enum_netdev_ml_priv_type),
     Fld ''dm_private'' CPtr,
     Fld ''dev'' struct_device,
     Fld ''sysfs_groups'' (CArr CPtr 5),
     Fld ''sysfs_rx_queue_group'' CPtr,
     Fld ''rtnl_link_ops'' CPtr,
     Fld ''stat_ops'' CPtr,
     Fld ''queue_mgmt_ops'' CPtr,
     Fld ''tso_max_size'' (CInt 4),
     Fld ''tso_max_segs'' typedef_u16,
     Fld ''dcbnl_ops'' CPtr,
     Fld ''prio_tc_map'' (CArr typedef_u8 16),
     Fld ''fcoe_ddp_xid'' (CInt 4),
     Fld ''priomap'' CPtr,
     Fld ''link_topo'' CPtr,
     Fld ''phydev'' CPtr,
     Fld ''sfp_bus'' CPtr,
     Fld ''qdisc_tx_busylock'' CPtr,
     Fld ''proto_down'' typedef_bool,
     Fld ''irq_affinity_auto'' typedef_bool,
     Fld ''rx_cpu_rmap_auto'' typedef_bool,
     Bits ''see_all_hwtstamp_requests'' (CInt 8) 1,
     Bits ''change_proto_down'' (CInt 8) 1,
     Bits ''netns_immutable'' (CInt 8) 1,
     Bits ''fcoe_mtu'' (CInt 8) 1,
     Fld ''net_notifier_list'' struct_list_head,
     Fld ''macsec_ops'' CPtr,
     Fld ''udp_tunnel_nic_info'' CPtr,
     Fld ''udp_tunnel_nic'' CPtr,
     Fld ''cfg'' CPtr,
     Fld ''cfg_pending'' CPtr,
     Fld ''ethtool'' CPtr,
     Fld ''xdp_state'' (CArr struct_bpf_xdp_entity 3),
     Fld ''dev_addr_shadow'' (CArr typedef_u8 32),
     Fld ''linkwatch_dev_tracker'' typedef_netdevice_tracker,
     Fld ''watchdog_dev_tracker'' typedef_netdevice_tracker,
     Fld ''dev_registered_tracker'' typedef_netdevice_tracker,
     Fld ''offload_xstats_l3'' CPtr,
     Fld ''devlink_port'' CPtr,
     Fld ''dpll_pin'' CPtr,
     Fld ''page_pools'' struct_hlist_head,
     Fld ''irq_moder'' CPtr,
     Fld ''max_pacing_offload_horizon'' typedef_u64,
     Fld ''napi_config'' CPtr,
     Fld ''num_napi_configs'' typedef_u32,
     Fld ''napi_defer_hard_irqs'' typedef_u32,
     Fld ''gro_flush_timeout'' (CInt 8),
     Fld ''up'' typedef_bool,
     Fld ''request_ops_lock'' typedef_bool,
     Fld ''lock'' struct_mutex,
     Fld ''net_shaper_hierarchy'' CPtr,
     Fld ''neighbours'' (CArr struct_hlist_head 2),
     Fld ''hwprov'' CPtr,
     Bits '''' (CInt 8) 64,
     Bits '''' (CInt 8) 64,
     Bits '''' (CInt 8) 64,
     Bits '''' (CInt 8) 64,
     Fld ''priv'' (CArr typedef_u8 0)]"

definition struct_net_device :: ctype where
  "struct_net_device = CStruct False (struct_net_device_part1 @ struct_net_device_part2)"

definition typedef_slab_flags_t :: ctype where
  "typedef_slab_flags_t = CInt 4"

definition struct_proto :: ctype where
  "struct_proto = CStruct False
    [Fld ''close'' CPtr,
     Fld ''pre_connect'' CPtr,
     Fld ''connect'' CPtr,
     Fld ''disconnect'' CPtr,
     Fld ''accept'' CPtr,
     Fld ''ioctl'' CPtr,
     Fld ''init'' CPtr,
     Fld ''destroy'' CPtr,
     Fld ''shutdown'' CPtr,
     Fld ''setsockopt'' CPtr,
     Fld ''getsockopt'' CPtr,
     Fld ''keepalive'' CPtr,
     Fld ''compat_ioctl'' CPtr,
     Fld ''sendmsg'' CPtr,
     Fld ''recvmsg'' CPtr,
     Fld ''splice_eof'' CPtr,
     Fld ''bind'' CPtr,
     Fld ''bind_add'' CPtr,
     Fld ''backlog_rcv'' CPtr,
     Fld ''bpf_bypass_getsockopt'' CPtr,
     Fld ''release_cb'' CPtr,
     Fld ''hash'' CPtr,
     Fld ''unhash'' CPtr,
     Fld ''rehash'' CPtr,
     Fld ''get_port'' CPtr,
     Fld ''put_port'' CPtr,
     Fld ''psock_update_sk_prot'' CPtr,
     Fld ''inuse_idx'' (CInt 4),
     Fld ''stream_memory_free'' CPtr,
     Fld ''sock_is_readable'' CPtr,
     Fld ''enter_memory_pressure'' CPtr,
     Fld ''leave_memory_pressure'' CPtr,
     Fld ''memory_allocated'' CPtr,
     Fld ''per_cpu_fw_alloc'' CPtr,
     Fld ''sockets_allocated'' CPtr,
     Fld ''memory_pressure'' CPtr,
     Fld ''sysctl_mem'' CPtr,
     Fld ''sysctl_wmem'' CPtr,
     Fld ''sysctl_rmem'' CPtr,
     Fld ''sysctl_wmem_offset'' typedef_u32,
     Fld ''sysctl_rmem_offset'' typedef_u32,
     Fld ''max_header'' (CInt 4),
     Fld ''no_autobind'' typedef_bool,
     Fld ''slab'' CPtr,
     Fld ''obj_size'' (CInt 4),
     Fld ''freeptr_offset'' (CInt 4),
     Fld ''ipv6_pinfo_offset'' (CInt 4),
     Fld ''slab_flags'' typedef_slab_flags_t,
     Fld ''useroffset'' (CInt 4),
     Fld ''usersize'' (CInt 4),
     Fld ''rsk_prot'' CPtr,
     Fld ''twsk_prot'' CPtr,
     Fld ''h'' (CUnion False
       [Fld ''hashinfo'' CPtr,
        Fld ''raw_hash'' CPtr,
        Fld ''smc_hash'' CPtr]),
     Fld ''owner'' CPtr,
     Fld ''name'' (CArr (CInt 1) 32),
     Fld ''node'' struct_list_head,
     Fld ''diag_destroy'' CPtr]"

definition typedef_socket_state :: ctype where
  "typedef_socket_state = CInt 4"

definition struct_socket_wq :: ctype where
  "struct_socket_wq = CStruct False
    [Fld ''wait'' typedef_wait_queue_head_t,
     Fld ''fasync_list'' CPtr,
     Fld ''flags'' (CInt 8),
     Fld ''rcu'' struct_callback_head,
     Bits '''' (CInt 8) 64]"

definition struct_socket :: ctype where
  "struct_socket = CStruct False
    [Fld ''state'' typedef_socket_state,
     Fld ''type'' (CInt 2),
     Fld ''flags'' (CInt 8),
     Fld ''file'' CPtr,
     Fld ''sk'' CPtr,
     Fld ''ops'' CPtr,
     Bits '''' (CInt 8) 64,
     Bits '''' (CInt 8) 64,
     Bits '''' (CInt 8) 64,
     Fld ''wq'' struct_socket_wq]"

definition enum_bpf_func_id_part1 :: "(string \<times> int) list" where
  "enum_bpf_func_id_part1 =
    [(''BPF_FUNC_unspec'', 0),
     (''BPF_FUNC_map_lookup_elem'', 1),
     (''BPF_FUNC_map_update_elem'', 2),
     (''BPF_FUNC_map_delete_elem'', 3),
     (''BPF_FUNC_probe_read'', 4),
     (''BPF_FUNC_ktime_get_ns'', 5),
     (''BPF_FUNC_trace_printk'', 6),
     (''BPF_FUNC_get_prandom_u32'', 7),
     (''BPF_FUNC_get_smp_processor_id'', 8),
     (''BPF_FUNC_skb_store_bytes'', 9),
     (''BPF_FUNC_l3_csum_replace'', 10),
     (''BPF_FUNC_l4_csum_replace'', 11),
     (''BPF_FUNC_tail_call'', 12),
     (''BPF_FUNC_clone_redirect'', 13),
     (''BPF_FUNC_get_current_pid_tgid'', 14),
     (''BPF_FUNC_get_current_uid_gid'', 15),
     (''BPF_FUNC_get_current_comm'', 16),
     (''BPF_FUNC_get_cgroup_classid'', 17),
     (''BPF_FUNC_skb_vlan_push'', 18),
     (''BPF_FUNC_skb_vlan_pop'', 19),
     (''BPF_FUNC_skb_get_tunnel_key'', 20),
     (''BPF_FUNC_skb_set_tunnel_key'', 21),
     (''BPF_FUNC_perf_event_read'', 22),
     (''BPF_FUNC_redirect'', 23),
     (''BPF_FUNC_get_route_realm'', 24),
     (''BPF_FUNC_perf_event_output'', 25),
     (''BPF_FUNC_skb_load_bytes'', 26),
     (''BPF_FUNC_get_stackid'', 27),
     (''BPF_FUNC_csum_diff'', 28),
     (''BPF_FUNC_skb_get_tunnel_opt'', 29),
     (''BPF_FUNC_skb_set_tunnel_opt'', 30),
     (''BPF_FUNC_skb_change_proto'', 31),
     (''BPF_FUNC_skb_change_type'', 32),
     (''BPF_FUNC_skb_under_cgroup'', 33),
     (''BPF_FUNC_get_hash_recalc'', 34),
     (''BPF_FUNC_get_current_task'', 35),
     (''BPF_FUNC_probe_write_user'', 36),
     (''BPF_FUNC_current_task_under_cgroup'', 37),
     (''BPF_FUNC_skb_change_tail'', 38),
     (''BPF_FUNC_skb_pull_data'', 39),
     (''BPF_FUNC_csum_update'', 40),
     (''BPF_FUNC_set_hash_invalid'', 41),
     (''BPF_FUNC_get_numa_node_id'', 42),
     (''BPF_FUNC_skb_change_head'', 43),
     (''BPF_FUNC_xdp_adjust_head'', 44),
     (''BPF_FUNC_probe_read_str'', 45),
     (''BPF_FUNC_get_socket_cookie'', 46),
     (''BPF_FUNC_get_socket_uid'', 47),
     (''BPF_FUNC_set_hash'', 48),
     (''BPF_FUNC_setsockopt'', 49),
     (''BPF_FUNC_skb_adjust_room'', 50),
     (''BPF_FUNC_redirect_map'', 51),
     (''BPF_FUNC_sk_redirect_map'', 52),
     (''BPF_FUNC_sock_map_update'', 53),
     (''BPF_FUNC_xdp_adjust_meta'', 54),
     (''BPF_FUNC_perf_event_read_value'', 55),
     (''BPF_FUNC_perf_prog_read_value'', 56),
     (''BPF_FUNC_getsockopt'', 57),
     (''BPF_FUNC_override_return'', 58),
     (''BPF_FUNC_sock_ops_cb_flags_set'', 59),
     (''BPF_FUNC_msg_redirect_map'', 60),
     (''BPF_FUNC_msg_apply_bytes'', 61),
     (''BPF_FUNC_msg_cork_bytes'', 62),
     (''BPF_FUNC_msg_pull_data'', 63),
     (''BPF_FUNC_bind'', 64),
     (''BPF_FUNC_xdp_adjust_tail'', 65),
     (''BPF_FUNC_skb_get_xfrm_state'', 66),
     (''BPF_FUNC_get_stack'', 67),
     (''BPF_FUNC_skb_load_bytes_relative'', 68),
     (''BPF_FUNC_fib_lookup'', 69),
     (''BPF_FUNC_sock_hash_update'', 70),
     (''BPF_FUNC_msg_redirect_hash'', 71),
     (''BPF_FUNC_sk_redirect_hash'', 72),
     (''BPF_FUNC_lwt_push_encap'', 73),
     (''BPF_FUNC_lwt_seg6_store_bytes'', 74),
     (''BPF_FUNC_lwt_seg6_adjust_srh'', 75),
     (''BPF_FUNC_lwt_seg6_action'', 76),
     (''BPF_FUNC_rc_repeat'', 77),
     (''BPF_FUNC_rc_keydown'', 78),
     (''BPF_FUNC_skb_cgroup_id'', 79),
     (''BPF_FUNC_get_current_cgroup_id'', 80),
     (''BPF_FUNC_get_local_storage'', 81),
     (''BPF_FUNC_sk_select_reuseport'', 82),
     (''BPF_FUNC_skb_ancestor_cgroup_id'', 83),
     (''BPF_FUNC_sk_lookup_tcp'', 84),
     (''BPF_FUNC_sk_lookup_udp'', 85),
     (''BPF_FUNC_sk_release'', 86),
     (''BPF_FUNC_map_push_elem'', 87),
     (''BPF_FUNC_map_pop_elem'', 88),
     (''BPF_FUNC_map_peek_elem'', 89),
     (''BPF_FUNC_msg_push_data'', 90),
     (''BPF_FUNC_msg_pop_data'', 91),
     (''BPF_FUNC_rc_pointer_rel'', 92),
     (''BPF_FUNC_spin_lock'', 93),
     (''BPF_FUNC_spin_unlock'', 94),
     (''BPF_FUNC_sk_fullsock'', 95),
     (''BPF_FUNC_tcp_sock'', 96),
     (''BPF_FUNC_skb_ecn_set_ce'', 97),
     (''BPF_FUNC_get_listener_sock'', 98),
     (''BPF_FUNC_skc_lookup_tcp'', 99),
     (''BPF_FUNC_tcp_check_syncookie'', 100),
     (''BPF_FUNC_sysctl_get_name'', 101),
     (''BPF_FUNC_sysctl_get_current_value'', 102),
     (''BPF_FUNC_sysctl_get_new_value'', 103),
     (''BPF_FUNC_sysctl_set_new_value'', 104),
     (''BPF_FUNC_strtol'', 105),
     (''BPF_FUNC_strtoul'', 106),
     (''BPF_FUNC_sk_storage_get'', 107),
     (''BPF_FUNC_sk_storage_delete'', 108),
     (''BPF_FUNC_send_signal'', 109),
     (''BPF_FUNC_tcp_gen_syncookie'', 110),
     (''BPF_FUNC_skb_output'', 111),
     (''BPF_FUNC_probe_read_user'', 112),
     (''BPF_FUNC_probe_read_kernel'', 113),
     (''BPF_FUNC_probe_read_user_str'', 114),
     (''BPF_FUNC_probe_read_kernel_str'', 115),
     (''BPF_FUNC_tcp_send_ack'', 116),
     (''BPF_FUNC_send_signal_thread'', 117),
     (''BPF_FUNC_jiffies64'', 118),
     (''BPF_FUNC_read_branch_records'', 119),
     (''BPF_FUNC_get_ns_current_pid_tgid'', 120),
     (''BPF_FUNC_xdp_output'', 121),
     (''BPF_FUNC_get_netns_cookie'', 122),
     (''BPF_FUNC_get_current_ancestor_cgroup_id'', 123),
     (''BPF_FUNC_sk_assign'', 124),
     (''BPF_FUNC_ktime_get_boot_ns'', 125),
     (''BPF_FUNC_seq_printf'', 126),
     (''BPF_FUNC_seq_write'', 127),
     (''BPF_FUNC_sk_cgroup_id'', 128),
     (''BPF_FUNC_sk_ancestor_cgroup_id'', 129),
     (''BPF_FUNC_ringbuf_output'', 130),
     (''BPF_FUNC_ringbuf_reserve'', 131),
     (''BPF_FUNC_ringbuf_submit'', 132),
     (''BPF_FUNC_ringbuf_discard'', 133),
     (''BPF_FUNC_ringbuf_query'', 134),
     (''BPF_FUNC_csum_level'', 135),
     (''BPF_FUNC_skc_to_tcp6_sock'', 136),
     (''BPF_FUNC_skc_to_tcp_sock'', 137),
     (''BPF_FUNC_skc_to_tcp_timewait_sock'', 138),
     (''BPF_FUNC_skc_to_tcp_request_sock'', 139)]"

definition enum_bpf_func_id_part2 :: "(string \<times> int) list" where
  "enum_bpf_func_id_part2 =
    [(''BPF_FUNC_skc_to_udp6_sock'', 140),
     (''BPF_FUNC_get_task_stack'', 141),
     (''BPF_FUNC_load_hdr_opt'', 142),
     (''BPF_FUNC_store_hdr_opt'', 143),
     (''BPF_FUNC_reserve_hdr_opt'', 144),
     (''BPF_FUNC_inode_storage_get'', 145),
     (''BPF_FUNC_inode_storage_delete'', 146),
     (''BPF_FUNC_d_path'', 147),
     (''BPF_FUNC_copy_from_user'', 148),
     (''BPF_FUNC_snprintf_btf'', 149),
     (''BPF_FUNC_seq_printf_btf'', 150),
     (''BPF_FUNC_skb_cgroup_classid'', 151),
     (''BPF_FUNC_redirect_neigh'', 152),
     (''BPF_FUNC_per_cpu_ptr'', 153),
     (''BPF_FUNC_this_cpu_ptr'', 154),
     (''BPF_FUNC_redirect_peer'', 155),
     (''BPF_FUNC_task_storage_get'', 156),
     (''BPF_FUNC_task_storage_delete'', 157),
     (''BPF_FUNC_get_current_task_btf'', 158),
     (''BPF_FUNC_bprm_opts_set'', 159),
     (''BPF_FUNC_ktime_get_coarse_ns'', 160),
     (''BPF_FUNC_ima_inode_hash'', 161),
     (''BPF_FUNC_sock_from_file'', 162),
     (''BPF_FUNC_check_mtu'', 163),
     (''BPF_FUNC_for_each_map_elem'', 164),
     (''BPF_FUNC_snprintf'', 165),
     (''BPF_FUNC_sys_bpf'', 166),
     (''BPF_FUNC_btf_find_by_name_kind'', 167),
     (''BPF_FUNC_sys_close'', 168),
     (''BPF_FUNC_timer_init'', 169),
     (''BPF_FUNC_timer_set_callback'', 170),
     (''BPF_FUNC_timer_start'', 171),
     (''BPF_FUNC_timer_cancel'', 172),
     (''BPF_FUNC_get_func_ip'', 173),
     (''BPF_FUNC_get_attach_cookie'', 174),
     (''BPF_FUNC_task_pt_regs'', 175),
     (''BPF_FUNC_get_branch_snapshot'', 176),
     (''BPF_FUNC_trace_vprintk'', 177),
     (''BPF_FUNC_skc_to_unix_sock'', 178),
     (''BPF_FUNC_kallsyms_lookup_name'', 179),
     (''BPF_FUNC_find_vma'', 180),
     (''BPF_FUNC_loop'', 181),
     (''BPF_FUNC_strncmp'', 182),
     (''BPF_FUNC_get_func_arg'', 183),
     (''BPF_FUNC_get_func_ret'', 184),
     (''BPF_FUNC_get_func_arg_cnt'', 185),
     (''BPF_FUNC_get_retval'', 186),
     (''BPF_FUNC_set_retval'', 187),
     (''BPF_FUNC_xdp_get_buff_len'', 188),
     (''BPF_FUNC_xdp_load_bytes'', 189),
     (''BPF_FUNC_xdp_store_bytes'', 190),
     (''BPF_FUNC_copy_from_user_task'', 191),
     (''BPF_FUNC_skb_set_tstamp'', 192),
     (''BPF_FUNC_ima_file_hash'', 193),
     (''BPF_FUNC_kptr_xchg'', 194),
     (''BPF_FUNC_map_lookup_percpu_elem'', 195),
     (''BPF_FUNC_skc_to_mptcp_sock'', 196),
     (''BPF_FUNC_dynptr_from_mem'', 197),
     (''BPF_FUNC_ringbuf_reserve_dynptr'', 198),
     (''BPF_FUNC_ringbuf_submit_dynptr'', 199),
     (''BPF_FUNC_ringbuf_discard_dynptr'', 200),
     (''BPF_FUNC_dynptr_read'', 201),
     (''BPF_FUNC_dynptr_write'', 202),
     (''BPF_FUNC_dynptr_data'', 203),
     (''BPF_FUNC_tcp_raw_gen_syncookie_ipv4'', 204),
     (''BPF_FUNC_tcp_raw_gen_syncookie_ipv6'', 205),
     (''BPF_FUNC_tcp_raw_check_syncookie_ipv4'', 206),
     (''BPF_FUNC_tcp_raw_check_syncookie_ipv6'', 207),
     (''BPF_FUNC_ktime_get_tai_ns'', 208),
     (''BPF_FUNC_user_ringbuf_drain'', 209),
     (''BPF_FUNC_cgrp_storage_get'', 210),
     (''BPF_FUNC_cgrp_storage_delete'', 211),
     (''__BPF_FUNC_MAX_ID'', 212)]"

definition enum_bpf_func_id :: "(string \<times> int) list" where
  "enum_bpf_func_id = enum_bpf_func_id_part1 @ enum_bpf_func_id_part2"

definition enum_bpf_map_type :: "(string \<times> int) list" where
  "enum_bpf_map_type =
    [(''BPF_MAP_TYPE_UNSPEC'', 0),
     (''BPF_MAP_TYPE_HASH'', 1),
     (''BPF_MAP_TYPE_ARRAY'', 2),
     (''BPF_MAP_TYPE_PROG_ARRAY'', 3),
     (''BPF_MAP_TYPE_PERF_EVENT_ARRAY'', 4),
     (''BPF_MAP_TYPE_PERCPU_HASH'', 5),
     (''BPF_MAP_TYPE_PERCPU_ARRAY'', 6),
     (''BPF_MAP_TYPE_STACK_TRACE'', 7),
     (''BPF_MAP_TYPE_CGROUP_ARRAY'', 8),
     (''BPF_MAP_TYPE_LRU_HASH'', 9),
     (''BPF_MAP_TYPE_LRU_PERCPU_HASH'', 10),
     (''BPF_MAP_TYPE_LPM_TRIE'', 11),
     (''BPF_MAP_TYPE_ARRAY_OF_MAPS'', 12),
     (''BPF_MAP_TYPE_HASH_OF_MAPS'', 13),
     (''BPF_MAP_TYPE_DEVMAP'', 14),
     (''BPF_MAP_TYPE_SOCKMAP'', 15),
     (''BPF_MAP_TYPE_CPUMAP'', 16),
     (''BPF_MAP_TYPE_XSKMAP'', 17),
     (''BPF_MAP_TYPE_SOCKHASH'', 18),
     (''BPF_MAP_TYPE_CGROUP_STORAGE_DEPRECATED'', 19),
     (''BPF_MAP_TYPE_CGROUP_STORAGE'', 19),
     (''BPF_MAP_TYPE_REUSEPORT_SOCKARRAY'', 20),
     (''BPF_MAP_TYPE_PERCPU_CGROUP_STORAGE_DEPRECATED'', 21),
     (''BPF_MAP_TYPE_PERCPU_CGROUP_STORAGE'', 21),
     (''BPF_MAP_TYPE_QUEUE'', 22),
     (''BPF_MAP_TYPE_STACK'', 23),
     (''BPF_MAP_TYPE_SK_STORAGE'', 24),
     (''BPF_MAP_TYPE_DEVMAP_HASH'', 25),
     (''BPF_MAP_TYPE_STRUCT_OPS'', 26),
     (''BPF_MAP_TYPE_RINGBUF'', 27),
     (''BPF_MAP_TYPE_INODE_STORAGE'', 28),
     (''BPF_MAP_TYPE_TASK_STORAGE'', 29),
     (''BPF_MAP_TYPE_BLOOM_FILTER'', 30),
     (''BPF_MAP_TYPE_USER_RINGBUF'', 31),
     (''BPF_MAP_TYPE_CGRP_STORAGE'', 32),
     (''BPF_MAP_TYPE_ARENA'', 33),
     (''BPF_MAP_TYPE_INSN_ARRAY'', 34),
     (''__MAX_BPF_MAP_TYPE'', 35)]"

definition enum_bpf_prog_type :: "(string \<times> int) list" where
  "enum_bpf_prog_type =
    [(''BPF_PROG_TYPE_UNSPEC'', 0),
     (''BPF_PROG_TYPE_SOCKET_FILTER'', 1),
     (''BPF_PROG_TYPE_KPROBE'', 2),
     (''BPF_PROG_TYPE_SCHED_CLS'', 3),
     (''BPF_PROG_TYPE_SCHED_ACT'', 4),
     (''BPF_PROG_TYPE_TRACEPOINT'', 5),
     (''BPF_PROG_TYPE_XDP'', 6),
     (''BPF_PROG_TYPE_PERF_EVENT'', 7),
     (''BPF_PROG_TYPE_CGROUP_SKB'', 8),
     (''BPF_PROG_TYPE_CGROUP_SOCK'', 9),
     (''BPF_PROG_TYPE_LWT_IN'', 10),
     (''BPF_PROG_TYPE_LWT_OUT'', 11),
     (''BPF_PROG_TYPE_LWT_XMIT'', 12),
     (''BPF_PROG_TYPE_SOCK_OPS'', 13),
     (''BPF_PROG_TYPE_SK_SKB'', 14),
     (''BPF_PROG_TYPE_CGROUP_DEVICE'', 15),
     (''BPF_PROG_TYPE_SK_MSG'', 16),
     (''BPF_PROG_TYPE_RAW_TRACEPOINT'', 17),
     (''BPF_PROG_TYPE_CGROUP_SOCK_ADDR'', 18),
     (''BPF_PROG_TYPE_LWT_SEG6LOCAL'', 19),
     (''BPF_PROG_TYPE_LIRC_MODE2'', 20),
     (''BPF_PROG_TYPE_SK_REUSEPORT'', 21),
     (''BPF_PROG_TYPE_FLOW_DISSECTOR'', 22),
     (''BPF_PROG_TYPE_CGROUP_SYSCTL'', 23),
     (''BPF_PROG_TYPE_RAW_TRACEPOINT_WRITABLE'', 24),
     (''BPF_PROG_TYPE_CGROUP_SOCKOPT'', 25),
     (''BPF_PROG_TYPE_TRACING'', 26),
     (''BPF_PROG_TYPE_STRUCT_OPS'', 27),
     (''BPF_PROG_TYPE_EXT'', 28),
     (''BPF_PROG_TYPE_LSM'', 29),
     (''BPF_PROG_TYPE_SK_LOOKUP'', 30),
     (''BPF_PROG_TYPE_SYSCALL'', 31),
     (''BPF_PROG_TYPE_NETFILTER'', 32),
     (''__MAX_BPF_PROG_TYPE'', 33)]"

definition enum_bpf_attach_type :: "(string \<times> int) list" where
  "enum_bpf_attach_type =
    [(''BPF_CGROUP_INET_INGRESS'', 0),
     (''BPF_CGROUP_INET_EGRESS'', 1),
     (''BPF_CGROUP_INET_SOCK_CREATE'', 2),
     (''BPF_CGROUP_SOCK_OPS'', 3),
     (''BPF_SK_SKB_STREAM_PARSER'', 4),
     (''BPF_SK_SKB_STREAM_VERDICT'', 5),
     (''BPF_CGROUP_DEVICE'', 6),
     (''BPF_SK_MSG_VERDICT'', 7),
     (''BPF_CGROUP_INET4_BIND'', 8),
     (''BPF_CGROUP_INET6_BIND'', 9),
     (''BPF_CGROUP_INET4_CONNECT'', 10),
     (''BPF_CGROUP_INET6_CONNECT'', 11),
     (''BPF_CGROUP_INET4_POST_BIND'', 12),
     (''BPF_CGROUP_INET6_POST_BIND'', 13),
     (''BPF_CGROUP_UDP4_SENDMSG'', 14),
     (''BPF_CGROUP_UDP6_SENDMSG'', 15),
     (''BPF_LIRC_MODE2'', 16),
     (''BPF_FLOW_DISSECTOR'', 17),
     (''BPF_CGROUP_SYSCTL'', 18),
     (''BPF_CGROUP_UDP4_RECVMSG'', 19),
     (''BPF_CGROUP_UDP6_RECVMSG'', 20),
     (''BPF_CGROUP_GETSOCKOPT'', 21),
     (''BPF_CGROUP_SETSOCKOPT'', 22),
     (''BPF_TRACE_RAW_TP'', 23),
     (''BPF_TRACE_FENTRY'', 24),
     (''BPF_TRACE_FEXIT'', 25),
     (''BPF_MODIFY_RETURN'', 26),
     (''BPF_LSM_MAC'', 27),
     (''BPF_TRACE_ITER'', 28),
     (''BPF_CGROUP_INET4_GETPEERNAME'', 29),
     (''BPF_CGROUP_INET6_GETPEERNAME'', 30),
     (''BPF_CGROUP_INET4_GETSOCKNAME'', 31),
     (''BPF_CGROUP_INET6_GETSOCKNAME'', 32),
     (''BPF_XDP_DEVMAP'', 33),
     (''BPF_CGROUP_INET_SOCK_RELEASE'', 34),
     (''BPF_XDP_CPUMAP'', 35),
     (''BPF_SK_LOOKUP'', 36),
     (''BPF_XDP'', 37),
     (''BPF_SK_SKB_VERDICT'', 38),
     (''BPF_SK_REUSEPORT_SELECT'', 39),
     (''BPF_SK_REUSEPORT_SELECT_OR_MIGRATE'', 40),
     (''BPF_PERF_EVENT'', 41),
     (''BPF_TRACE_KPROBE_MULTI'', 42),
     (''BPF_LSM_CGROUP'', 43),
     (''BPF_STRUCT_OPS'', 44),
     (''BPF_NETFILTER'', 45),
     (''BPF_TCX_INGRESS'', 46),
     (''BPF_TCX_EGRESS'', 47),
     (''BPF_TRACE_UPROBE_MULTI'', 48),
     (''BPF_CGROUP_UNIX_CONNECT'', 49),
     (''BPF_CGROUP_UNIX_SENDMSG'', 50),
     (''BPF_CGROUP_UNIX_RECVMSG'', 51),
     (''BPF_CGROUP_UNIX_GETPEERNAME'', 52),
     (''BPF_CGROUP_UNIX_GETSOCKNAME'', 53),
     (''BPF_NETKIT_PRIMARY'', 54),
     (''BPF_NETKIT_PEER'', 55),
     (''BPF_TRACE_KPROBE_SESSION'', 56),
     (''BPF_TRACE_UPROBE_SESSION'', 57),
     (''BPF_TRACE_FSESSION'', 58),
     (''__MAX_BPF_ATTACH_TYPE'', 59)]"

definition struct_bpf_map :: ctype where
  "struct_bpf_map = CStruct False
    [Fld ''sha'' (CArr typedef_u8 32),
     Fld ''ops'' CPtr,
     Fld ''inner_map_meta'' CPtr,
     Fld ''security'' CPtr,
     Fld ''map_type'' (cenum enum_bpf_map_type),
     Fld ''key_size'' typedef_u32,
     Fld ''value_size'' typedef_u32,
     Fld ''max_entries'' typedef_u32,
     Fld ''map_extra'' typedef_u64,
     Fld ''map_flags'' typedef_u32,
     Fld ''id'' typedef_u32,
     Fld ''record'' CPtr,
     Fld ''numa_node'' (CInt 4),
     Fld ''btf_key_type_id'' typedef_u32,
     Fld ''btf_value_type_id'' typedef_u32,
     Fld ''btf_vmlinux_value_type_id'' typedef_u32,
     Fld ''btf'' CPtr,
     Fld ''objcg'' CPtr,
     Fld ''name'' (CArr (CInt 1) 16),
     Fld ''freeze_mutex'' struct_mutex,
     Fld ''refcnt'' typedef_atomic64_t,
     Fld ''usercnt'' typedef_atomic64_t,
     Fld '''' (CUnion False
       [Fld ''work'' struct_work_struct,
        Fld ''rcu'' struct_callback_head]),
     Fld ''writecnt'' typedef_atomic64_t,
     Fld ''owner_lock'' typedef_spinlock_t,
     Fld ''owner'' CPtr,
     Fld ''bypass_spec_v1'' typedef_bool,
     Fld ''frozen'' typedef_bool,
     Fld ''free_after_mult_rcu_gp'' typedef_bool,
     Fld ''free_after_rcu_gp'' typedef_bool,
     Fld ''sleepable_refcnt'' typedef_atomic64_t,
     Fld ''elem_count'' CPtr,
     Fld ''cookie'' typedef_u64,
     Fld ''excl_prog_sha'' CPtr]"

definition struct_sock_filter :: ctype where
  "struct_sock_filter = CStruct False
    [Fld ''code'' typedef___u16,
     Fld ''jt'' typedef___u8,
     Fld ''jf'' typedef___u8,
     Fld ''k'' typedef___u32]"

definition struct_bpf_insn :: ctype where
  "struct_bpf_insn = CStruct False
    [Fld ''code'' typedef___u8,
     Bits ''dst_reg'' typedef___u8 4,
     Bits ''src_reg'' typedef___u8 4,
     Fld ''off'' typedef___s16,
     Fld ''imm'' typedef___s32]"

definition struct_bpf_prog :: ctype where
  "struct_bpf_prog = CStruct False
    [Fld ''pages'' typedef_u16,
     Bits ''jited'' typedef_u16 1,
     Bits ''jit_requested'' typedef_u16 1,
     Bits ''gpl_compatible'' typedef_u16 1,
     Bits ''cb_access'' typedef_u16 1,
     Bits ''dst_needed'' typedef_u16 1,
     Bits ''blinding_requested'' typedef_u16 1,
     Bits ''blinded'' typedef_u16 1,
     Bits ''is_func'' typedef_u16 1,
     Bits ''kprobe_override'' typedef_u16 1,
     Bits ''has_callchain_buf'' typedef_u16 1,
     Bits ''enforce_expected_attach_type'' typedef_u16 1,
     Bits ''call_get_stack'' typedef_u16 1,
     Bits ''call_get_func_ip'' typedef_u16 1,
     Bits ''call_session_cookie'' typedef_u16 1,
     Bits ''tstamp_type_access'' typedef_u16 1,
     Bits ''sleepable'' typedef_u16 1,
     Fld ''type'' (cenum enum_bpf_prog_type),
     Fld ''expected_attach_type'' (cenum enum_bpf_attach_type),
     Fld ''len'' typedef_u32,
     Fld ''jited_len'' typedef_u32,
     Fld '''' (CUnion False
       [Fld ''digest'' (CArr typedef_u8 32),
        Fld ''tag'' (CArr typedef_u8 8)]),
     Fld ''stats'' CPtr,
     Fld ''active'' CPtr,
     Fld ''bpf_func'' CPtr,
     Fld ''aux'' CPtr,
     Fld ''orig_prog'' CPtr,
     Fld '''' (CUnion False
       [Fld '''' (CStruct False
          [Fld ''__empty_insns'' (CStruct False
             []),
           Fld ''insns'' (CArr struct_sock_filter 0)]),
        Fld '''' (CStruct False
          [Fld ''__empty_insnsi'' (CStruct False
             []),
           Fld ''insnsi'' (CArr struct_bpf_insn 0)])])]"

text \<open>The structs and unions of this theory.\<close>

definition kernel_device_types :: "ctype list" where
  "kernel_device_types =
    [struct_netdev_tc_txq,
     struct_net_device_stats,
     struct_netdev_hw_addr_list,
     struct_kref,
     struct_kobject,
     struct_dev_links_info,
     struct_pm_message,
     struct_swait_queue_head,
     struct_completion,
     struct_dev_pm_info,
     struct_dev_msi_info,
     struct_dev_archdata,
     struct_device,
     struct_bpf_xdp_entity,
     struct_net_device,
     struct_proto,
     struct_socket_wq,
     struct_socket,
     struct_bpf_map,
     struct_sock_filter,
     struct_bpf_insn,
     struct_bpf_prog]"

lemmas kernel_device_defs =
  typedef_s16_def struct_netdev_tc_txq_def enum_netdev_stat_type_def typedef_xdp_features_t_def
  struct_net_device_stats_def struct_netdev_hw_addr_list_def typedef_netdevice_tracker_def
  enum_netdev_ml_priv_type_def struct_kref_def struct_kobject_def enum_dl_dev_state_def
  struct_dev_links_info_def struct_pm_message_def typedef_pm_message_t_def
  struct_swait_queue_head_def struct_completion_def enum_rpm_request_def enum_rpm_status_def
  struct_dev_pm_info_def struct_dev_msi_info_def struct_dev_archdata_def
  typedef___kernel_dev_t_def typedef_dev_t_def enum_device_removable_def struct_device_def
  struct_bpf_xdp_entity_def struct_net_device_part1_def struct_net_device_part2_def
  struct_net_device_def typedef_slab_flags_t_def struct_proto_def typedef_socket_state_def
  struct_socket_wq_def struct_socket_def enum_bpf_func_id_part1_def enum_bpf_func_id_part2_def
  enum_bpf_func_id_def enum_bpf_map_type_def enum_bpf_prog_type_def enum_bpf_attach_type_def
  struct_bpf_map_def struct_sock_filter_def struct_bpf_insn_def struct_bpf_prog_def

lemma typedef_s16_layout [layout_simps]:
  "wf_ctype typedef_s16" "alignof typedef_s16 = 2" "sizeof typedef_s16 = 2"
  by (simp_all only: typedef_s16_def)
    (simp_all cong: layout_cong add: layout_eval layout_simps del: One_nat_def)

lemma struct_netdev_tc_txq_layout [layout_simps]:
  "wf_ctype struct_netdev_tc_txq" "alignof struct_netdev_tc_txq = 2" "sizeof struct_netdev_tc_txq = 4"
  by (simp_all only: struct_netdev_tc_txq_def)
    (simp_all cong: layout_cong add: layout_eval layout_simps del: One_nat_def)

lemma enum_netdev_stat_type_layout [layout_simps]:
  "wf_ctype (cenum enum_netdev_stat_type)" "alignof (cenum enum_netdev_stat_type) = 4" "sizeof (cenum enum_netdev_stat_type) = 4"
  by (simp_all add: cenum_def enum_netdev_stat_type_def scalar_size_def del: One_nat_def)

lemma typedef_xdp_features_t_layout [layout_simps]:
  "wf_ctype typedef_xdp_features_t" "alignof typedef_xdp_features_t = 4" "sizeof typedef_xdp_features_t = 4"
  by (simp_all only: typedef_xdp_features_t_def)
    (simp_all cong: layout_cong add: layout_eval layout_simps del: One_nat_def)

lemma struct_net_device_stats_layout [layout_simps]:
  "wf_ctype struct_net_device_stats" "alignof struct_net_device_stats = 8" "sizeof struct_net_device_stats = 184"
  by (simp_all only: struct_net_device_stats_def)
    (simp_all cong: layout_cong add: layout_eval layout_simps del: One_nat_def)

lemma struct_netdev_hw_addr_list_layout [layout_simps]:
  "wf_ctype struct_netdev_hw_addr_list" "alignof struct_netdev_hw_addr_list = 8" "sizeof struct_netdev_hw_addr_list = 32"
  by (simp_all only: struct_netdev_hw_addr_list_def)
    (simp_all cong: layout_cong add: layout_eval layout_simps del: One_nat_def)

lemma typedef_netdevice_tracker_layout [layout_simps]:
  "wf_ctype typedef_netdevice_tracker" "alignof typedef_netdevice_tracker = 1" "sizeof typedef_netdevice_tracker = 0"
  by (simp_all only: typedef_netdevice_tracker_def)
    (simp_all cong: layout_cong add: layout_eval layout_simps del: One_nat_def)

lemma enum_netdev_ml_priv_type_layout [layout_simps]:
  "wf_ctype (cenum enum_netdev_ml_priv_type)" "alignof (cenum enum_netdev_ml_priv_type) = 4" "sizeof (cenum enum_netdev_ml_priv_type) = 4"
  by (simp_all add: cenum_def enum_netdev_ml_priv_type_def scalar_size_def del: One_nat_def)

lemma struct_kref_layout [layout_simps]:
  "wf_ctype struct_kref" "alignof struct_kref = 4" "sizeof struct_kref = 4"
  by (simp_all only: struct_kref_def)
    (simp_all cong: layout_cong add: layout_eval layout_simps del: One_nat_def)

lemma struct_kobject_layout [layout_simps]:
  "wf_ctype struct_kobject" "alignof struct_kobject = 8" "sizeof struct_kobject = 64"
  by (simp_all only: struct_kobject_def)
    (simp_all cong: layout_cong add: layout_eval layout_simps del: One_nat_def)

lemma enum_dl_dev_state_layout [layout_simps]:
  "wf_ctype (cenum enum_dl_dev_state)" "alignof (cenum enum_dl_dev_state) = 4" "sizeof (cenum enum_dl_dev_state) = 4"
  by (simp_all add: cenum_def enum_dl_dev_state_def scalar_size_def del: One_nat_def)

lemma struct_dev_links_info_layout [layout_simps]:
  "wf_ctype struct_dev_links_info" "alignof struct_dev_links_info = 8" "sizeof struct_dev_links_info = 56"
  by (simp_all only: struct_dev_links_info_def)
    (simp_all cong: layout_cong add: layout_eval layout_simps del: One_nat_def)

lemma struct_pm_message_layout [layout_simps]:
  "wf_ctype struct_pm_message" "alignof struct_pm_message = 4" "sizeof struct_pm_message = 4"
  by (simp_all only: struct_pm_message_def)
    (simp_all cong: layout_cong add: layout_eval layout_simps del: One_nat_def)

lemma typedef_pm_message_t_layout [layout_simps]:
  "wf_ctype typedef_pm_message_t" "alignof typedef_pm_message_t = 4" "sizeof typedef_pm_message_t = 4"
  by (simp_all only: typedef_pm_message_t_def)
    (simp_all cong: layout_cong add: layout_eval layout_simps del: One_nat_def)

lemma struct_swait_queue_head_layout [layout_simps]:
  "wf_ctype struct_swait_queue_head" "alignof struct_swait_queue_head = 8" "sizeof struct_swait_queue_head = 24"
  by (simp_all only: struct_swait_queue_head_def)
    (simp_all cong: layout_cong add: layout_eval layout_simps del: One_nat_def)

lemma struct_completion_layout [layout_simps]:
  "wf_ctype struct_completion" "alignof struct_completion = 8" "sizeof struct_completion = 32"
  by (simp_all only: struct_completion_def)
    (simp_all cong: layout_cong add: layout_eval layout_simps del: One_nat_def)

lemma enum_rpm_request_layout [layout_simps]:
  "wf_ctype (cenum enum_rpm_request)" "alignof (cenum enum_rpm_request) = 4" "sizeof (cenum enum_rpm_request) = 4"
  by (simp_all add: cenum_def enum_rpm_request_def scalar_size_def del: One_nat_def)

lemma enum_rpm_status_layout [layout_simps]:
  "wf_ctype (cenum enum_rpm_status)" "alignof (cenum enum_rpm_status) = 4" "sizeof (cenum enum_rpm_status) = 4"
  by (simp_all add: cenum_def enum_rpm_status_def scalar_size_def del: One_nat_def)

lemma struct_dev_pm_info_layout [layout_simps]:
  "wf_ctype struct_dev_pm_info" "alignof struct_dev_pm_info = 8" "sizeof struct_dev_pm_info = 336"
  by (simp_all only: struct_dev_pm_info_def)
    (simp_all cong: layout_cong add: layout_eval layout_simps del: One_nat_def)

lemma struct_dev_msi_info_layout [layout_simps]:
  "wf_ctype struct_dev_msi_info" "alignof struct_dev_msi_info = 8" "sizeof struct_dev_msi_info = 16"
  by (simp_all only: struct_dev_msi_info_def)
    (simp_all cong: layout_cong add: layout_eval layout_simps del: One_nat_def)

lemma struct_dev_archdata_layout [layout_simps]:
  "wf_ctype struct_dev_archdata" "alignof struct_dev_archdata = 1" "sizeof struct_dev_archdata = 0"
  by (simp_all only: struct_dev_archdata_def)
    (simp_all cong: layout_cong add: layout_eval layout_simps del: One_nat_def)

lemma typedef___kernel_dev_t_layout [layout_simps]:
  "wf_ctype typedef___kernel_dev_t" "alignof typedef___kernel_dev_t = 4" "sizeof typedef___kernel_dev_t = 4"
  by (simp_all only: typedef___kernel_dev_t_def)
    (simp_all cong: layout_cong add: layout_eval layout_simps del: One_nat_def)

lemma typedef_dev_t_layout [layout_simps]:
  "wf_ctype typedef_dev_t" "alignof typedef_dev_t = 4" "sizeof typedef_dev_t = 4"
  by (simp_all only: typedef_dev_t_def)
    (simp_all cong: layout_cong add: layout_eval layout_simps del: One_nat_def)

lemma enum_device_removable_layout [layout_simps]:
  "wf_ctype (cenum enum_device_removable)" "alignof (cenum enum_device_removable) = 4" "sizeof (cenum enum_device_removable) = 4"
  by (simp_all add: cenum_def enum_device_removable_def scalar_size_def del: One_nat_def)

lemma struct_device_layout [layout_simps]:
  "wf_ctype struct_device" "alignof struct_device = 8" "sizeof struct_device = 800"
  by (simp_all only: struct_device_def)
    (simp_all cong: layout_cong add: layout_eval layout_simps del: One_nat_def)

lemma struct_bpf_xdp_entity_layout [layout_simps]:
  "wf_ctype struct_bpf_xdp_entity" "alignof struct_bpf_xdp_entity = 8" "sizeof struct_bpf_xdp_entity = 16"
  by (simp_all only: struct_bpf_xdp_entity_def)
    (simp_all cong: layout_cong add: layout_eval layout_simps del: One_nat_def)

lemma struct_net_device_layout [layout_simps]:
  "wf_ctype struct_net_device" "alignof struct_net_device = 8" "sizeof struct_net_device = 2752"
  by (simp_all only: struct_net_device_def struct_net_device_part1_def struct_net_device_part2_def append.simps)
    (simp_all cong: layout_cong add: layout_eval layout_simps del: One_nat_def)

lemma typedef_slab_flags_t_layout [layout_simps]:
  "wf_ctype typedef_slab_flags_t" "alignof typedef_slab_flags_t = 4" "sizeof typedef_slab_flags_t = 4"
  by (simp_all only: typedef_slab_flags_t_def)
    (simp_all cong: layout_cong add: layout_eval layout_simps del: One_nat_def)

lemma struct_proto_layout [layout_simps]:
  "wf_ctype struct_proto" "alignof struct_proto = 8" "sizeof struct_proto = 448"
  by (simp_all only: struct_proto_def)
    (simp_all cong: layout_cong add: layout_eval layout_simps del: One_nat_def)

lemma typedef_socket_state_layout [layout_simps]:
  "wf_ctype typedef_socket_state" "alignof typedef_socket_state = 4" "sizeof typedef_socket_state = 4"
  by (simp_all only: typedef_socket_state_def)
    (simp_all cong: layout_cong add: layout_eval layout_simps del: One_nat_def)

lemma struct_socket_wq_layout [layout_simps]:
  "wf_ctype struct_socket_wq" "alignof struct_socket_wq = 8" "sizeof struct_socket_wq = 64"
  by (simp_all only: struct_socket_wq_def)
    (simp_all cong: layout_cong add: layout_eval layout_simps del: One_nat_def)

lemma struct_socket_layout [layout_simps]:
  "wf_ctype struct_socket" "alignof struct_socket = 8" "sizeof struct_socket = 128"
  by (simp_all only: struct_socket_def)
    (simp_all cong: layout_cong add: layout_eval layout_simps del: One_nat_def)

lemma enum_bpf_func_id_layout [layout_simps]:
  "wf_ctype (cenum enum_bpf_func_id)" "alignof (cenum enum_bpf_func_id) = 4" "sizeof (cenum enum_bpf_func_id) = 4"
  by (simp_all add: cenum_def enum_bpf_func_id_def enum_bpf_func_id_part1_def enum_bpf_func_id_part2_def scalar_size_def del: One_nat_def)

lemma enum_bpf_map_type_layout [layout_simps]:
  "wf_ctype (cenum enum_bpf_map_type)" "alignof (cenum enum_bpf_map_type) = 4" "sizeof (cenum enum_bpf_map_type) = 4"
  by (simp_all add: cenum_def enum_bpf_map_type_def scalar_size_def del: One_nat_def)

lemma enum_bpf_prog_type_layout [layout_simps]:
  "wf_ctype (cenum enum_bpf_prog_type)" "alignof (cenum enum_bpf_prog_type) = 4" "sizeof (cenum enum_bpf_prog_type) = 4"
  by (simp_all add: cenum_def enum_bpf_prog_type_def scalar_size_def del: One_nat_def)

lemma enum_bpf_attach_type_layout [layout_simps]:
  "wf_ctype (cenum enum_bpf_attach_type)" "alignof (cenum enum_bpf_attach_type) = 4" "sizeof (cenum enum_bpf_attach_type) = 4"
  by (simp_all add: cenum_def enum_bpf_attach_type_def scalar_size_def del: One_nat_def)

lemma struct_bpf_map_layout [layout_simps]:
  "wf_ctype struct_bpf_map" "alignof struct_bpf_map = 8" "sizeof struct_bpf_map = 280"
  by (simp_all only: struct_bpf_map_def)
    (simp_all cong: layout_cong add: layout_eval layout_simps del: One_nat_def)

lemma struct_sock_filter_layout [layout_simps]:
  "wf_ctype struct_sock_filter" "alignof struct_sock_filter = 4" "sizeof struct_sock_filter = 8"
  by (simp_all only: struct_sock_filter_def)
    (simp_all cong: layout_cong add: layout_eval layout_simps del: One_nat_def)

lemma struct_bpf_insn_layout [layout_simps]:
  "wf_ctype struct_bpf_insn" "alignof struct_bpf_insn = 4" "sizeof struct_bpf_insn = 8"
  by (simp_all only: struct_bpf_insn_def)
    (simp_all cong: layout_cong add: layout_eval layout_simps del: One_nat_def)

lemma struct_bpf_prog_layout [layout_simps]:
  "wf_ctype struct_bpf_prog" "alignof struct_bpf_prog = 8" "sizeof struct_bpf_prog = 96"
  by (simp_all only: struct_bpf_prog_def)
    (simp_all cong: layout_cong add: layout_eval layout_simps del: One_nat_def)

lemma kernel_device_types_wf: "list_all wf_ctype kernel_device_types"
  by (simp add: kernel_device_types_def layout_simps)

end
