(* ===== verification/Kernel_Probe.thy ===== *)
theory Kernel_Probe
  imports Kernel_Device
begin

text \<open>
  The compiled probe: the kernel types of \<^verbatim>\<open>internal/network/ebpf/bpf/vmlinux.h\<close>
  that matter here, with everything they contain by value, in dependency order:
  the types that the type information of the compiled probe defines beyond those of the
  other theories.
  One definition per C type (a type of more than 150 lines is split into member lists);
  members keep their names and order, every pointer is \<open>CPtr\<close>. A member declaration
  that only names a tag declares nothing and has no counterpart.
\<close>

definition struct_xfrm_mark :: ctype where
  "struct_xfrm_mark = CStruct False
    [Fld ''v'' typedef___u32,
     Fld ''m'' typedef___u32]"

definition typedef_xfrm_address_t :: ctype where
  "typedef_xfrm_address_t = CUnion False
    [Fld ''a4'' typedef___be32,
     Fld ''a6'' (CArr typedef___be32 4),
     Fld ''in6'' struct_in6_addr]"

definition struct_xfrm_selector :: ctype where
  "struct_xfrm_selector = CStruct False
    [Fld ''daddr'' typedef_xfrm_address_t,
     Fld ''saddr'' typedef_xfrm_address_t,
     Fld ''dport'' typedef___be16,
     Fld ''dport_mask'' typedef___be16,
     Fld ''sport'' typedef___be16,
     Fld ''sport_mask'' typedef___be16,
     Fld ''family'' typedef___u16,
     Fld ''prefixlen_d'' typedef___u8,
     Fld ''prefixlen_s'' typedef___u8,
     Fld ''proto'' typedef___u8,
     Fld ''ifindex'' (CInt 4),
     Fld ''user'' typedef___kernel_uid32_t]"

definition struct_xfrm_lifetime_cfg :: ctype where
  "struct_xfrm_lifetime_cfg = CStruct False
    [Fld ''soft_byte_limit'' typedef___u64,
     Fld ''hard_byte_limit'' typedef___u64,
     Fld ''soft_packet_limit'' typedef___u64,
     Fld ''hard_packet_limit'' typedef___u64,
     Fld ''soft_add_expires_seconds'' typedef___u64,
     Fld ''hard_add_expires_seconds'' typedef___u64,
     Fld ''soft_use_expires_seconds'' typedef___u64,
     Fld ''hard_use_expires_seconds'' typedef___u64]"

definition struct_xfrm_lifetime_cur :: ctype where
  "struct_xfrm_lifetime_cur = CStruct False
    [Fld ''bytes'' typedef___u64,
     Fld ''packets'' typedef___u64,
     Fld ''add_time'' typedef___u64,
     Fld ''use_time'' typedef___u64]"

definition struct_xfrm_policy_walk_entry :: ctype where
  "struct_xfrm_policy_walk_entry = CStruct False
    [Fld ''all'' struct_list_head,
     Fld ''dead'' typedef_u8]"

definition struct_xfrm_policy_queue :: ctype where
  "struct_xfrm_policy_queue = CStruct False
    [Fld ''hold_queue'' struct_sk_buff_head,
     Fld ''hold_timer'' struct_timer_list,
     Fld ''timeout'' (CInt 8)]"

definition struct_xfrm_id :: ctype where
  "struct_xfrm_id = CStruct False
    [Fld ''daddr'' typedef_xfrm_address_t,
     Fld ''spi'' typedef___be32,
     Fld ''proto'' typedef___u8]"

definition struct_xfrm_tmpl :: ctype where
  "struct_xfrm_tmpl = CStruct False
    [Fld ''id'' struct_xfrm_id,
     Fld ''saddr'' typedef_xfrm_address_t,
     Fld ''encap_family'' (CInt 2),
     Fld ''reqid'' typedef_u32,
     Fld ''mode'' typedef_u8,
     Fld ''share'' typedef_u8,
     Fld ''optional'' typedef_u8,
     Fld ''allalgs'' typedef_u8,
     Fld ''aalgos'' typedef_u32,
     Fld ''ealgos'' typedef_u32,
     Fld ''calgos'' typedef_u32]"

definition struct_xfrm_dev_offload :: ctype where
  "struct_xfrm_dev_offload = CStruct False
    [Fld ''dev'' CPtr,
     Fld ''dev_tracker'' typedef_netdevice_tracker,
     Fld ''real_dev'' CPtr,
     Fld ''offload_handle'' (CInt 8),
     Bits ''dir'' typedef_u8 2,
     Bits ''type'' typedef_u8 2,
     Bits ''flags'' typedef_u8 2]"

definition struct_xfrm_policy :: ctype where
  "struct_xfrm_policy = CStruct False
    [Fld ''xp_net'' typedef_possible_net_t,
     Fld ''bydst'' struct_hlist_node,
     Fld ''byidx'' struct_hlist_node,
     Fld ''state_cache_list'' struct_hlist_head,
     Fld ''lock'' typedef_rwlock_t,
     Fld ''refcnt'' typedef_refcount_t,
     Fld ''pos'' typedef_u32,
     Fld ''timer'' struct_timer_list,
     Fld ''genid'' typedef_atomic_t,
     Fld ''priority'' typedef_u32,
     Fld ''index'' typedef_u32,
     Fld ''if_id'' typedef_u32,
     Fld ''mark'' struct_xfrm_mark,
     Fld ''selector'' struct_xfrm_selector,
     Fld ''lft'' struct_xfrm_lifetime_cfg,
     Fld ''curlft'' struct_xfrm_lifetime_cur,
     Fld ''walk'' struct_xfrm_policy_walk_entry,
     Fld ''polq'' struct_xfrm_policy_queue,
     Fld ''bydst_reinsert'' typedef_bool,
     Fld ''type'' typedef_u8,
     Fld ''action'' typedef_u8,
     Fld ''flags'' typedef_u8,
     Fld ''xfrm_nr'' typedef_u8,
     Fld ''family'' typedef_u16,
     Fld ''security'' CPtr,
     Fld ''xfrm_vec'' (CArr struct_xfrm_tmpl 6),
     Fld ''rcu'' struct_callback_head,
     Fld ''xdo'' struct_xfrm_dev_offload]"

definition struct_xps_dev_maps :: ctype where
  "struct_xps_dev_maps = CStruct False
    [Fld ''rcu'' struct_callback_head,
     Fld ''nr_ids'' (CInt 4),
     Fld ''num_tc'' typedef_s16,
     Fld ''attr_map'' (CArr CPtr 0)]"

definition struct_xps_map :: ctype where
  "struct_xps_map = CStruct False
    [Fld ''len'' (CInt 4),
     Fld ''alloc_len'' (CInt 4),
     Fld ''rcu'' struct_callback_head,
     Fld ''queues'' (CArr typedef_u16 0)]"

definition struct_attribute_group :: ctype where
  "struct_attribute_group = CStruct False
    [Fld ''name'' CPtr,
     Fld '''' (CUnion False
       [Fld ''is_visible'' CPtr,
        Fld ''is_visible_const'' CPtr]),
     Fld ''is_bin_visible'' CPtr,
     Fld ''bin_size'' CPtr,
     Fld '''' (CUnion False
       [Fld ''attrs'' CPtr,
        Fld ''attrs_const'' CPtr]),
     Fld ''bin_attrs'' CPtr]"

definition typedef_umode_t :: ctype where
  "typedef_umode_t = CInt 2"

definition struct_attribute :: ctype where
  "struct_attribute = CStruct False
    [Fld ''name'' CPtr,
     Fld ''mode'' typedef_umode_t]"

definition struct_bin_attribute :: ctype where
  "struct_bin_attribute = CStruct False
    [Fld ''attr'' struct_attribute,
     Fld ''size'' typedef_size_t,
     Fld ''private'' CPtr,
     Fld ''f_mapping'' CPtr,
     Fld ''read'' CPtr,
     Fld ''write'' CPtr,
     Fld ''llseek'' CPtr,
     Fld ''mmap'' CPtr]"

definition typedef_errseq_t :: ctype where
  "typedef_errseq_t = typedef_u32"

definition struct_address_space :: ctype where
  "struct_address_space = CStruct False
    [Fld ''host'' CPtr,
     Fld ''i_pages'' struct_xarray,
     Fld ''invalidate_lock'' struct_rw_semaphore,
     Fld ''gfp_mask'' typedef_gfp_t,
     Fld ''i_mmap_writable'' typedef_atomic_t,
     Fld ''i_mmap'' struct_rb_root_cached,
     Fld ''nrpages'' (CInt 8),
     Fld ''writeback_index'' (CInt 8),
     Fld ''a_ops'' CPtr,
     Fld ''flags'' (CInt 8),
     Fld ''wb_err'' typedef_errseq_t,
     Fld ''i_private_lock'' typedef_spinlock_t,
     Fld ''i_mmap_rwsem'' struct_rw_semaphore]"

definition typedef_fmode_t :: ctype where
  "typedef_fmode_t = CInt 4"

definition struct_path :: ctype where
  "struct_path = CStruct False
    [Fld ''mnt'' CPtr,
     Fld ''dentry'' CPtr]"

definition typedef___kernel_loff_t :: ctype where
  "typedef___kernel_loff_t = CInt 8"

definition typedef_loff_t :: ctype where
  "typedef_loff_t = typedef___kernel_loff_t"

definition struct_file_ra_state :: ctype where
  "struct_file_ra_state = CStruct False
    [Fld ''start'' (CInt 8),
     Fld ''size'' (CInt 4),
     Fld ''async_size'' (CInt 4),
     Fld ''ra_pages'' (CInt 4),
     Fld ''order'' (CInt 2),
     Fld ''mmap_miss'' (CInt 2),
     Fld ''prev_pos'' typedef_loff_t]"

definition typedef_file_ref_t :: ctype where
  "typedef_file_ref_t = CStruct False
    [Fld ''refcnt'' typedef_atomic64_t]"

definition struct_file :: ctype where
  "struct_file = CStruct False
    [Fld ''f_lock'' typedef_spinlock_t,
     Fld ''f_mode'' typedef_fmode_t,
     Fld ''f_op'' CPtr,
     Fld ''f_mapping'' CPtr,
     Fld ''private_data'' CPtr,
     Fld ''f_inode'' CPtr,
     Fld ''f_flags'' (CInt 4),
     Fld ''f_iocb_flags'' (CInt 4),
     Fld ''f_cred'' CPtr,
     Fld ''f_owner'' CPtr,
     Fld '''' (CUnion False
       [Fld ''f_path'' struct_path,
        Fld ''__f_path'' struct_path]),
     Fld '''' (CUnion False
       [Fld ''f_pos_lock'' struct_mutex,
        Fld ''f_pipe'' typedef_u64]),
     Fld ''f_pos'' typedef_loff_t,
     Fld ''f_security'' CPtr,
     Fld ''f_wb_err'' typedef_errseq_t,
     Fld ''f_sb_err'' typedef_errseq_t,
     Fld ''f_ep'' CPtr,
     Fld '''' (CUnion False
       [Fld ''f_task_work'' struct_callback_head,
        Fld ''f_llist'' struct_llist_node,
        Fld ''f_ra'' struct_file_ra_state,
        Fld ''f_freeptr'' typedef_freeptr_t]),
     Fld ''f_ref'' typedef_file_ref_t]"

definition typedef_pgprotval_t :: ctype where
  "typedef_pgprotval_t = CInt 8"

definition struct_pgprot :: ctype where
  "struct_pgprot = CStruct False
    [Fld ''pgprot'' typedef_pgprotval_t]"

definition typedef_pgprot_t :: ctype where
  "typedef_pgprot_t = struct_pgprot"

definition typedef_vm_flags_t :: ctype where
  "typedef_vm_flags_t = CInt 8"

definition typedef_vma_flags_t :: ctype where
  "typedef_vma_flags_t = CStruct False
    [Fld ''__vma_flags'' (CArr (CInt 8) 1)]"

definition struct_vm_userfaultfd_ctx :: ctype where
  "struct_vm_userfaultfd_ctx = CStruct False
    [Fld ''ctx'' CPtr]"

definition struct_vm_area_struct :: ctype where
  "struct_vm_area_struct = CStruct False
    [Fld '''' (CUnion False
       [Fld '''' (CStruct False
          [Fld ''vm_start'' (CInt 8),
           Fld ''vm_end'' (CInt 8)]),
        Fld ''vm_freeptr'' typedef_freeptr_t]),
     Fld ''vm_mm'' CPtr,
     Fld ''vm_page_prot'' typedef_pgprot_t,
     Fld '''' (CUnion False
       [Fld ''vm_flags'' typedef_vm_flags_t,
        Fld ''flags'' typedef_vma_flags_t]),
     Fld ''vm_lock_seq'' (CInt 4),
     Fld ''anon_vma_chain'' struct_list_head,
     Fld ''anon_vma'' CPtr,
     Fld ''vm_ops'' CPtr,
     Fld ''vm_pgoff'' (CInt 8),
     Fld ''vm_file'' CPtr,
     Fld ''vm_private_data'' CPtr,
     Fld ''swap_readahead_info'' typedef_atomic_long_t,
     Fld ''vm_policy'' CPtr,
     Fld ''numab_state'' CPtr,
     Fld ''vm_refcnt'' typedef_refcount_t,
     Fld ''shared'' (CStruct False
       [Fld ''rb'' struct_rb_node,
        Fld ''rb_subtree_last'' (CInt 8)]),
     Fld ''vm_userfaultfd_ctx'' struct_vm_userfaultfd_ctx,
     Fld ''pfnmap_track_ctx'' CPtr,
     Bits '''' (CInt 8) 64]"

text \<open>The structs and unions of this theory.\<close>

definition kernel_probe_types :: "ctype list" where
  "kernel_probe_types =
    [struct_xfrm_mark,
     struct_xfrm_selector,
     struct_xfrm_lifetime_cfg,
     struct_xfrm_lifetime_cur,
     struct_xfrm_policy_walk_entry,
     struct_xfrm_policy_queue,
     struct_xfrm_id,
     struct_xfrm_tmpl,
     struct_xfrm_dev_offload,
     struct_xfrm_policy,
     struct_xps_dev_maps,
     struct_xps_map,
     struct_attribute_group,
     struct_attribute,
     struct_bin_attribute,
     struct_address_space,
     struct_path,
     struct_file_ra_state,
     struct_file,
     struct_pgprot,
     struct_vm_userfaultfd_ctx,
     struct_vm_area_struct]"

lemmas kernel_probe_defs =
  struct_xfrm_mark_def typedef_xfrm_address_t_def struct_xfrm_selector_def
  struct_xfrm_lifetime_cfg_def struct_xfrm_lifetime_cur_def struct_xfrm_policy_walk_entry_def
  struct_xfrm_policy_queue_def struct_xfrm_id_def struct_xfrm_tmpl_def
  struct_xfrm_dev_offload_def struct_xfrm_policy_def struct_xps_dev_maps_def struct_xps_map_def
  struct_attribute_group_def typedef_umode_t_def struct_attribute_def struct_bin_attribute_def
  typedef_errseq_t_def struct_address_space_def typedef_fmode_t_def struct_path_def
  typedef___kernel_loff_t_def typedef_loff_t_def struct_file_ra_state_def typedef_file_ref_t_def
  struct_file_def typedef_pgprotval_t_def struct_pgprot_def typedef_pgprot_t_def
  typedef_vm_flags_t_def typedef_vma_flags_t_def struct_vm_userfaultfd_ctx_def
  struct_vm_area_struct_def

lemma struct_xfrm_mark_layout [layout_simps]:
  "wf_ctype struct_xfrm_mark" "alignof struct_xfrm_mark = 4" "sizeof struct_xfrm_mark = 8"
  by (simp_all only: struct_xfrm_mark_def)
    (simp_all cong: layout_cong add: layout_eval layout_simps del: One_nat_def)

lemma typedef_xfrm_address_t_layout [layout_simps]:
  "wf_ctype typedef_xfrm_address_t" "alignof typedef_xfrm_address_t = 4" "sizeof typedef_xfrm_address_t = 16"
  by (simp_all only: typedef_xfrm_address_t_def)
    (simp_all cong: layout_cong add: layout_eval layout_simps del: One_nat_def)

lemma struct_xfrm_selector_layout [layout_simps]:
  "wf_ctype struct_xfrm_selector" "alignof struct_xfrm_selector = 4" "sizeof struct_xfrm_selector = 56"
  by (simp_all only: struct_xfrm_selector_def)
    (simp_all cong: layout_cong add: layout_eval layout_simps del: One_nat_def)

lemma struct_xfrm_lifetime_cfg_layout [layout_simps]:
  "wf_ctype struct_xfrm_lifetime_cfg" "alignof struct_xfrm_lifetime_cfg = 8" "sizeof struct_xfrm_lifetime_cfg = 64"
  by (simp_all only: struct_xfrm_lifetime_cfg_def)
    (simp_all cong: layout_cong add: layout_eval layout_simps del: One_nat_def)

lemma struct_xfrm_lifetime_cur_layout [layout_simps]:
  "wf_ctype struct_xfrm_lifetime_cur" "alignof struct_xfrm_lifetime_cur = 8" "sizeof struct_xfrm_lifetime_cur = 32"
  by (simp_all only: struct_xfrm_lifetime_cur_def)
    (simp_all cong: layout_cong add: layout_eval layout_simps del: One_nat_def)

lemma struct_xfrm_policy_walk_entry_layout [layout_simps]:
  "wf_ctype struct_xfrm_policy_walk_entry" "alignof struct_xfrm_policy_walk_entry = 8" "sizeof struct_xfrm_policy_walk_entry = 24"
  by (simp_all only: struct_xfrm_policy_walk_entry_def)
    (simp_all cong: layout_cong add: layout_eval layout_simps del: One_nat_def)

lemma struct_xfrm_policy_queue_layout [layout_simps]:
  "wf_ctype struct_xfrm_policy_queue" "alignof struct_xfrm_policy_queue = 8" "sizeof struct_xfrm_policy_queue = 72"
  by (simp_all only: struct_xfrm_policy_queue_def)
    (simp_all cong: layout_cong add: layout_eval layout_simps del: One_nat_def)

lemma struct_xfrm_id_layout [layout_simps]:
  "wf_ctype struct_xfrm_id" "alignof struct_xfrm_id = 4" "sizeof struct_xfrm_id = 24"
  by (simp_all only: struct_xfrm_id_def)
    (simp_all cong: layout_cong add: layout_eval layout_simps del: One_nat_def)

lemma struct_xfrm_tmpl_layout [layout_simps]:
  "wf_ctype struct_xfrm_tmpl" "alignof struct_xfrm_tmpl = 4" "sizeof struct_xfrm_tmpl = 64"
  by (simp_all only: struct_xfrm_tmpl_def)
    (simp_all cong: layout_cong add: layout_eval layout_simps del: One_nat_def)

lemma struct_xfrm_dev_offload_layout [layout_simps]:
  "wf_ctype struct_xfrm_dev_offload" "alignof struct_xfrm_dev_offload = 8" "sizeof struct_xfrm_dev_offload = 32"
  by (simp_all only: struct_xfrm_dev_offload_def)
    (simp_all cong: layout_cong add: layout_eval layout_simps del: One_nat_def)

lemma struct_xfrm_policy_layout [layout_simps]:
  "wf_ctype struct_xfrm_policy" "alignof struct_xfrm_policy = 8" "sizeof struct_xfrm_policy = 824"
  by (simp_all only: struct_xfrm_policy_def)
    (simp_all cong: layout_cong add: layout_eval layout_simps del: One_nat_def)

lemma struct_xps_dev_maps_layout [layout_simps]:
  "wf_ctype struct_xps_dev_maps" "alignof struct_xps_dev_maps = 8" "sizeof struct_xps_dev_maps = 24"
  by (simp_all only: struct_xps_dev_maps_def)
    (simp_all cong: layout_cong add: layout_eval layout_simps del: One_nat_def)

lemma struct_xps_map_layout [layout_simps]:
  "wf_ctype struct_xps_map" "alignof struct_xps_map = 8" "sizeof struct_xps_map = 24"
  by (simp_all only: struct_xps_map_def)
    (simp_all cong: layout_cong add: layout_eval layout_simps del: One_nat_def)

lemma struct_attribute_group_layout [layout_simps]:
  "wf_ctype struct_attribute_group" "alignof struct_attribute_group = 8" "sizeof struct_attribute_group = 48"
  by (simp_all only: struct_attribute_group_def)
    (simp_all cong: layout_cong add: layout_eval layout_simps del: One_nat_def)

lemma typedef_umode_t_layout [layout_simps]:
  "wf_ctype typedef_umode_t" "alignof typedef_umode_t = 2" "sizeof typedef_umode_t = 2"
  by (simp_all only: typedef_umode_t_def)
    (simp_all cong: layout_cong add: layout_eval layout_simps del: One_nat_def)

lemma struct_attribute_layout [layout_simps]:
  "wf_ctype struct_attribute" "alignof struct_attribute = 8" "sizeof struct_attribute = 16"
  by (simp_all only: struct_attribute_def)
    (simp_all cong: layout_cong add: layout_eval layout_simps del: One_nat_def)

lemma struct_bin_attribute_layout [layout_simps]:
  "wf_ctype struct_bin_attribute" "alignof struct_bin_attribute = 8" "sizeof struct_bin_attribute = 72"
  by (simp_all only: struct_bin_attribute_def)
    (simp_all cong: layout_cong add: layout_eval layout_simps del: One_nat_def)

lemma typedef_errseq_t_layout [layout_simps]:
  "wf_ctype typedef_errseq_t" "alignof typedef_errseq_t = 4" "sizeof typedef_errseq_t = 4"
  by (simp_all only: typedef_errseq_t_def)
    (simp_all cong: layout_cong add: layout_eval layout_simps del: One_nat_def)

lemma struct_address_space_layout [layout_simps]:
  "wf_ctype struct_address_space" "alignof struct_address_space = 8" "sizeof struct_address_space = 152"
  by (simp_all only: struct_address_space_def)
    (simp_all cong: layout_cong add: layout_eval layout_simps del: One_nat_def)

lemma typedef_fmode_t_layout [layout_simps]:
  "wf_ctype typedef_fmode_t" "alignof typedef_fmode_t = 4" "sizeof typedef_fmode_t = 4"
  by (simp_all only: typedef_fmode_t_def)
    (simp_all cong: layout_cong add: layout_eval layout_simps del: One_nat_def)

lemma struct_path_layout [layout_simps]:
  "wf_ctype struct_path" "alignof struct_path = 8" "sizeof struct_path = 16"
  by (simp_all only: struct_path_def)
    (simp_all cong: layout_cong add: layout_eval layout_simps del: One_nat_def)

lemma typedef___kernel_loff_t_layout [layout_simps]:
  "wf_ctype typedef___kernel_loff_t" "alignof typedef___kernel_loff_t = 8" "sizeof typedef___kernel_loff_t = 8"
  by (simp_all only: typedef___kernel_loff_t_def)
    (simp_all cong: layout_cong add: layout_eval layout_simps del: One_nat_def)

lemma typedef_loff_t_layout [layout_simps]:
  "wf_ctype typedef_loff_t" "alignof typedef_loff_t = 8" "sizeof typedef_loff_t = 8"
  by (simp_all only: typedef_loff_t_def)
    (simp_all cong: layout_cong add: layout_eval layout_simps del: One_nat_def)

lemma struct_file_ra_state_layout [layout_simps]:
  "wf_ctype struct_file_ra_state" "alignof struct_file_ra_state = 8" "sizeof struct_file_ra_state = 32"
  by (simp_all only: struct_file_ra_state_def)
    (simp_all cong: layout_cong add: layout_eval layout_simps del: One_nat_def)

lemma typedef_file_ref_t_layout [layout_simps]:
  "wf_ctype typedef_file_ref_t" "alignof typedef_file_ref_t = 8" "sizeof typedef_file_ref_t = 8"
  by (simp_all only: typedef_file_ref_t_def)
    (simp_all cong: layout_cong add: layout_eval layout_simps del: One_nat_def)

lemma struct_file_layout [layout_simps]:
  "wf_ctype struct_file" "alignof struct_file = 8" "sizeof struct_file = 176"
  by (simp_all only: struct_file_def)
    (simp_all cong: layout_cong add: layout_eval layout_simps del: One_nat_def)

lemma typedef_pgprotval_t_layout [layout_simps]:
  "wf_ctype typedef_pgprotval_t" "alignof typedef_pgprotval_t = 8" "sizeof typedef_pgprotval_t = 8"
  by (simp_all only: typedef_pgprotval_t_def)
    (simp_all cong: layout_cong add: layout_eval layout_simps del: One_nat_def)

lemma struct_pgprot_layout [layout_simps]:
  "wf_ctype struct_pgprot" "alignof struct_pgprot = 8" "sizeof struct_pgprot = 8"
  by (simp_all only: struct_pgprot_def)
    (simp_all cong: layout_cong add: layout_eval layout_simps del: One_nat_def)

lemma typedef_pgprot_t_layout [layout_simps]:
  "wf_ctype typedef_pgprot_t" "alignof typedef_pgprot_t = 8" "sizeof typedef_pgprot_t = 8"
  by (simp_all only: typedef_pgprot_t_def)
    (simp_all cong: layout_cong add: layout_eval layout_simps del: One_nat_def)

lemma typedef_vm_flags_t_layout [layout_simps]:
  "wf_ctype typedef_vm_flags_t" "alignof typedef_vm_flags_t = 8" "sizeof typedef_vm_flags_t = 8"
  by (simp_all only: typedef_vm_flags_t_def)
    (simp_all cong: layout_cong add: layout_eval layout_simps del: One_nat_def)

lemma typedef_vma_flags_t_layout [layout_simps]:
  "wf_ctype typedef_vma_flags_t" "alignof typedef_vma_flags_t = 8" "sizeof typedef_vma_flags_t = 8"
  by (simp_all only: typedef_vma_flags_t_def)
    (simp_all cong: layout_cong add: layout_eval layout_simps del: One_nat_def)

lemma struct_vm_userfaultfd_ctx_layout [layout_simps]:
  "wf_ctype struct_vm_userfaultfd_ctx" "alignof struct_vm_userfaultfd_ctx = 8" "sizeof struct_vm_userfaultfd_ctx = 8"
  by (simp_all only: struct_vm_userfaultfd_ctx_def)
    (simp_all cong: layout_cong add: layout_eval layout_simps del: One_nat_def)

lemma struct_vm_area_struct_layout [layout_simps]:
  "wf_ctype struct_vm_area_struct" "alignof struct_vm_area_struct = 8" "sizeof struct_vm_area_struct = 192"
  by (simp_all only: struct_vm_area_struct_def)
    (simp_all cong: layout_cong add: layout_eval layout_simps del: One_nat_def)

lemma kernel_probe_types_wf: "list_all wf_ctype kernel_probe_types"
  by (simp add: kernel_probe_types_def layout_simps)

end
