(* ===== verification/Ebpf_Probe.thy ===== *)
theory Ebpf_Probe
  imports Kernel_Probe
begin

text \<open>
  The kernel side of the host network monitor, \<^verbatim>\<open>internal/network/ebpf/bpf/probe.c\<close>:
  the record it emits, its ring buffer map and the program attached to
  \<^verbatim>\<open>tcp_v4_connect\<close>. What the kernel helpers answer is a parameter
  (\<open>bpf_env\<close>): the slot \<^verbatim>\<open>bpf_ringbuf_reserve\<close> hands out (its old contents are
  arbitrary, and there may be none), the values of
  \<^verbatim>\<open>bpf_get_current_pid_tgid\<close> and \<^verbatim>\<open>bpf_get_current_comm\<close>, and kernel memory, which
  may be unmapped at some addresses. The state of the program is the list of records
  submitted to the ring buffer.
\<close>

section \<open>The record and the map\<close>

definition struct_connect_event :: ctype where
  "struct_connect_event = CStruct False
    [Fld ''pid'' typedef___u32,
     Fld ''comm'' (CArr (CInt 1) 16),
     Fld ''daddr'' typedef___u32,
     Fld ''dport'' typedef___u16]"

text \<open>The map definition: its type, a constant of the header, and its size in bytes.\<close>

record bpf_map_def =
  map_type :: "int option"
  max_entries :: nat

definition events_map :: bpf_map_def where
  "events_map =
     \<lparr>map_type = map_of enum_bpf_map_type ''BPF_MAP_TYPE_RINGBUF'', max_entries = push_bit 16 1\<rparr>"

section \<open>Kernel helpers\<close>

record bpf_env =
  ringbuf_reserve :: "nat \<Rightarrow> bytes option"
  current_pid_tgid :: u64
  current_comm :: bytes
  kmem :: "nat \<Rightarrow> byte option"

text \<open>
  What the helpers document: a reserved slot has the size asked for, and the command
  name fills the buffer of 16 bytes.
\<close>

definition wf_env :: "bpf_env \<Rightarrow> bool" where
  "wf_env env \<longleftrightarrow>
     (\<forall>n slot. ringbuf_reserve env n = Some slot \<longrightarrow> length slot = n) \<and>
     length (current_comm env) = 16"

text \<open>
  \<^verbatim>\<open>bpf_probe_read_kernel\<close>: the bytes at the address, or zeros when one of them
  cannot be read.
\<close>

definition probe_read :: "bpf_env \<Rightarrow> nat \<Rightarrow> nat \<Rightarrow> bytes" where
  "probe_read env n addr =
     (let bs = map (\<lambda>i. kmem env (addr + i)) [0..<n]
      in if None \<in> set bs then replicate n 0 else map the bs)"

definition write_at :: "bytes \<Rightarrow> nat \<Rightarrow> bytes \<Rightarrow> bytes" where
  "write_at buf off bs = take off buf @ bs @ drop (off + length bs) buf"

definition store_member :: "ctype \<Rightarrow> string list \<Rightarrow> bytes \<Rightarrow> bytes \<Rightarrow> bytes" where
  "store_member t path bs buf =
     (case offsetof t path of None \<Rightarrow> buf | Some off \<Rightarrow> write_at buf off bs)"

text \<open>
  \<^verbatim>\<open>BPF_CORE_READ_INTO(&e->dst, sk, path)\<close>: reads as many bytes as the destination
  has from the member of \<^verbatim>\<open>struct sock\<close> the path names.
\<close>

definition core_read_into ::
  "bpf_env \<Rightarrow> string list \<Rightarrow> nat \<Rightarrow> string list \<Rightarrow> bytes \<Rightarrow> bytes" where
  "core_read_into env dst sk path buf =
     (case (member_path struct_connect_event dst, offsetof struct_sock path) of
        (Some (off, t), Some src) \<Rightarrow> write_at buf off (probe_read env (sizeof t) (sk + src))
      | _ \<Rightarrow> buf)"

section \<open>The program\<close>

definition emit_connect_event :: "bpf_env \<Rightarrow> nat \<Rightarrow> bytes list \<Rightarrow> int \<times> bytes list" where
  "emit_connect_event env sk events =
     (case ringbuf_reserve env (sizeof struct_connect_event) of
        None \<Rightarrow> (0, events)
      | Some e0 \<Rightarrow>
          (let pid = unat (drop_bit 32 (current_pid_tgid env));
               e1 = store_member struct_connect_event [''pid''] (le_bytes 4 pid) e0;
               e2 = store_member struct_connect_event [''comm''] (current_comm env) e1;
               e3 = core_read_into env [''daddr''] sk [''__sk_common'', ''skc_daddr''] e2;
               e4 = core_read_into env [''dport''] sk [''__sk_common'', ''skc_dport''] e3
           in (0, events @ [e4])))"

text \<open>
  \<^verbatim>\<open>BPF_KPROBE\<close> takes the first argument of the probed function from the saved
  register \<^verbatim>\<open>di\<close> of the context.
\<close>

definition kprobe_arg1 :: "bytes \<Rightarrow> nat" where
  "kprobe_arg1 ctx =
     (case offsetof struct_pt_regs [''di''] of
        None \<Rightarrow> 0
      | Some off \<Rightarrow> le_nat (take 8 (drop off ctx)))"

definition trace_tcp_v4_connect :: "bpf_env \<Rightarrow> bytes \<Rightarrow> bytes list \<Rightarrow> int \<times> bytes list" where
  "trace_tcp_v4_connect env ctx events = emit_connect_event env (kprobe_arg1 ctx) events"

definition license :: string where
  "license = ''GPL''"

section \<open>Offsets\<close>

lemma connect_event_members [layout_simps]:
  "member_path struct_connect_event [''pid''] = Some (0, typedef___u32)"
  "member_path struct_connect_event [''comm''] = Some (4, CArr (CInt 1) 16)"
  "member_path struct_connect_event [''daddr''] = Some (20, typedef___u32)"
  "member_path struct_connect_event [''dport''] = Some (24, typedef___u16)"
  by (simp_all only: struct_connect_event_def)
    (simp_all cong: layout_cong add: layout_eval layout_simps del: One_nat_def)

lemma connect_event_layout [layout_simps]:
  "wf_ctype struct_connect_event" "alignof struct_connect_event = 4"
  "sizeof struct_connect_event = 28"
  by (simp_all only: struct_connect_event_def)
    (simp_all cong: layout_cong add: layout_eval layout_simps del: One_nat_def)

lemma sock_common_first:
  "lookup_member struct_sock ''__sk_common'' = Some (0, struct_sock_common)"
  by (simp only: struct_sock_def)
    (simp cong: layout_cong add: layout_eval layout_simps del: One_nat_def)

lemma sock_common_members:
  "lookup_member struct_sock_common ''skc_daddr'' = Some (0, typedef___be32)"
  "lookup_member struct_sock_common ''skc_dport'' = Some (12, typedef___be16)"
  by (simp_all only: struct_sock_common_def)
    (simp_all cong: layout_cong add: layout_eval layout_simps del: One_nat_def)

lemma sock_members [layout_simps]:
  "member_path struct_sock [''__sk_common'', ''skc_daddr''] = Some (0, typedef___be32)"
  "member_path struct_sock [''__sk_common'', ''skc_dport''] = Some (12, typedef___be16)"
  by (simp_all add: sock_common_first sock_common_members)

lemma pt_regs_di [layout_simps]: "offsetof struct_pt_regs [''di''] = Some 112"
proof -
  have "lookup_member struct_pt_regs ''di'' = Some (112, CInt 8)"
    by (simp only: struct_pt_regs_def)
      (simp cong: layout_cong add: layout_eval layout_simps del: One_nat_def)
  then show ?thesis by (simp add: offsetof_def)
qed

lemma tcp_sock_starts_with_sock:
  "member_path struct_tcp_sock [''inet_conn'', ''icsk_inet'', ''sk''] = Some (0, struct_sock)"
proof -
  have "lookup_member struct_tcp_sock ''inet_conn'' = Some (0, struct_inet_connection_sock)"
    by (simp only: struct_tcp_sock_def struct_tcp_sock_part1_def append.simps)
      (simp cong: layout_cong add: layout_eval layout_simps del: One_nat_def)
  moreover have "lookup_member struct_inet_connection_sock ''icsk_inet'' = Some (0, struct_inet_sock)"
    by (simp only: struct_inet_connection_sock_def)
      (simp cong: layout_cong add: layout_eval layout_simps del: One_nat_def)
  moreover have "lookup_member struct_inet_sock ''sk'' = Some (0, struct_sock)"
    by (simp only: struct_inet_sock_def)
      (simp cong: layout_cong add: layout_eval layout_simps del: One_nat_def)
  ultimately show ?thesis by simp
qed

section \<open>What is emitted\<close>

lemma length_probe_read [simp]: "length (probe_read env n addr) = n"
  by (simp add: probe_read_def Let_def)

lemma length_write_at:
  "off + length bs \<le> length buf \<Longrightarrow> length (write_at buf off bs) = length buf"
  by (simp add: write_at_def)

lemma drop_bit_32_less: "unat (drop_bit 32 (w :: u64)) < 2 ^ 32"
proof -
  have "unat w < 2 ^ 64" using unsigned_less [of w] by simp
  then show ?thesis
    unfolding unat_drop_bit_eq by (simp add: drop_bit_eq_div less_mult_imp_div_less)
qed

text \<open>The four stores leave the record in the order of the members.\<close>

lemma emit_record:
  assumes "wf_env env" "ringbuf_reserve env 28 = Some slot"
  shows "emit_connect_event env sk events =
    (0, events @
      [le_bytes 4 (unat (drop_bit 32 (current_pid_tgid env))) @ current_comm env @
       probe_read env 4 sk @ probe_read env 2 (sk + 12) @ drop 26 slot])"
proof -
  have len: "length slot = 28" "length (current_comm env) = 16"
    using assms by (auto simp: wf_env_def)
  show ?thesis
    using assms(2) len
    by (simp add: emit_connect_event_def layout_simps offsetof_def store_member_def
        core_read_into_def write_at_def Let_def
        del: member_path.simps)
qed

end
