(* ===== verification/Models.thy ===== *)
theory Models
  imports Prelude Complex_Main
begin

text \<open>
  The domain types of \<^verbatim>\<open>internal/models\<close>: events, alerts, assets and canary tokens.
  \<^verbatim>\<open>EventType\<close>, \<^verbatim>\<open>AlertStatus\<close> and \<^verbatim>\<open>CanaryTokenType\<close> are string types in the
  source, and so they are here. A value of Go's type \<^verbatim>\<open>any\<close> in an event's metadata
  is a \<open>gany\<close>; a nil map is \<open>None\<close>. A 64-bit float is its value together with the text
  that \<^verbatim>\<open>fmt\<close> prints for it.
\<close>

datatype gany =
    AString string
  | AInt int
  | ABool bool
  | AStrings "string list"
  | AList "gany list"
  | AFloat rat string
  | AMap "(string \<times> gany) list"

type_synonym metadata = "(string \<rightharpoonup> gany) option"

definition EventDNS :: string where "EventDNS = ''DNS''"
definition EventPortScan :: string where "EventPortScan = ''PORT_SCAN''"
definition EventARP :: string where "EventARP = ''ARP''"
definition EventPhysical :: string where "EventPhysical = ''PHYSICAL''"
definition EventAlert :: string where "EventAlert = ''THREAT_ALERT''"
definition EventProxy :: string where "EventProxy = ''PROXY''"
definition EventVM :: string where "EventVM = ''VM''"
definition EventCompliance :: string where "EventCompliance = ''COMPLIANCE''"
definition EventTor :: string where "EventTor = ''TOR''"
definition EventCanary :: string where "EventCanary = ''CANARY''"

lemmas event_types = EventDNS_def EventPortScan_def EventARP_def EventPhysical_def
  EventAlert_def EventProxy_def EventVM_def EventCompliance_def EventTor_def EventCanary_def

record NetworkEvent =
  ev_ID :: string
  ev_Type :: string
  ev_Source :: string
  ev_Destination :: string
  ev_Metadata :: metadata
  ev_Timestamp :: gotime
  ev_Signature :: bytes
  ev_SignerKeyID :: string

definition IsSigned :: "NetworkEvent \<Rightarrow> bool" where
  "IsSigned e \<longleftrightarrow> length (ev_Signature e) > 0 \<and> ev_SignerKeyID e \<noteq> []"

text \<open>
  \<open>CanonicalBytes\<close> zeroes the signature fields and serializes. The serializer is Go's
  \<^verbatim>\<open>encoding/json\<close>, which can fail (a channel or a NaN in the metadata); it is a
  parameter.
\<close>

definition CanonicalBytes :: "(NetworkEvent \<Rightarrow> bytes option) \<Rightarrow> NetworkEvent \<Rightarrow> bytes option" where
  "CanonicalBytes json_Marshal e = json_Marshal (e\<lparr>ev_Signature := [], ev_SignerKeyID := []\<rparr>)"

text \<open>Metadata access: a missing key and a nil map read as no value.\<close>

definition meta_get :: "metadata \<Rightarrow> string \<Rightarrow> gany option" where
  "meta_get m k = (case m of None \<Rightarrow> None | Some f \<Rightarrow> f k)"

fun as_string :: "gany option \<Rightarrow> string option" where
  "as_string (Some (AString s)) = Some s"
| "as_string _ = None"

fun as_float :: "gany option \<Rightarrow> rat option" where
  "as_float (Some (AFloat q t)) = Some q"
| "as_float _ = None"

fun as_bool :: "gany option \<Rightarrow> bool option" where
  "as_bool (Some (ABool b)) = Some b"
| "as_bool _ = None"

definition AlertStatusNew :: string where "AlertStatusNew = ''NEW''"
definition AlertStatusTriaging :: string where "AlertStatusTriaging = ''TRIAGING''"
definition AlertStatusContained :: string where "AlertStatusContained = ''CONTAINED''"
definition AlertStatusClosed :: string where "AlertStatusClosed = ''CLOSED''"

record Alert =
  al_ID :: string
  al_RuleName :: string
  al_Severity :: string
  al_Status :: string
  al_Source :: string
  al_Destination :: string
  al_MitreTactic :: string
  al_ChainEvents :: "string list"
  al_Note :: string
  al_TriggeredAt :: gotime
  al_UpdatedAt :: gotime

definition string_or_empty :: "gany option \<Rightarrow> string" where
  "string_or_empty v = (case as_string v of Some s \<Rightarrow> s | None \<Rightarrow> [])"

definition chain_events_of :: "gany option \<Rightarrow> string list" where
  "chain_events_of v =
     (case v of
        Some (AStrings ss) \<Rightarrow> ss
      | Some (AList xs) \<Rightarrow> List.map_filter (\<lambda>x. as_string (Some x)) xs
      | _ \<Rightarrow> [])"

definition AlertFromEvent :: "NetworkEvent \<Rightarrow> Alert" where
  "AlertFromEvent e =
     \<lparr>al_ID = ev_ID e,
      al_RuleName = string_or_empty (meta_get (ev_Metadata e) ''rule''),
      al_Severity = string_or_empty (meta_get (ev_Metadata e) ''severity''),
      al_Status = AlertStatusNew,
      al_Source = ev_Source e,
      al_Destination = ev_Destination e,
      al_MitreTactic = string_or_empty (meta_get (ev_Metadata e) ''mitre_tactic''),
      al_ChainEvents = chain_events_of (meta_get (ev_Metadata e) ''chain_events''),
      al_Note = [],
      al_TriggeredAt = ev_Timestamp e,
      al_UpdatedAt = ev_Timestamp e\<rparr>"

record Asset =
  as_ID :: string
  as_IP :: string
  as_MAC :: string
  as_Hostname :: string
  as_OS :: string
  as_Ports :: "int list"
  as_FirstSeen :: gotime
  as_LastSeen :: gotime

definition CanaryDNS :: string where "CanaryDNS = ''DNS''"
definition CanaryHTTP :: string where "CanaryHTTP = ''HTTP''"
definition CanaryHoneypotVM :: string where "CanaryHoneypotVM = ''HONEYPOT_VM''"

record CanaryToken =
  ct_ID :: string
  ct_Token :: string
  ct_Type :: string
  ct_Label :: string
  ct_Subdomain :: string
  ct_URL :: string
  ct_CreatedAt :: gotime
  ct_TriggeredAt :: "gotime option"
  ct_TriggerCount :: int
  ct_LastTriggerSource :: string

text \<open>The canonical bytes do not depend on the signature material.\<close>

lemma CanonicalBytes_unsigned [simp]:
  "CanonicalBytes js (e\<lparr>ev_Signature := s\<rparr>) = CanonicalBytes js e"
  "CanonicalBytes js (e\<lparr>ev_SignerKeyID := k\<rparr>) = CanonicalBytes js e"
  "CanonicalBytes js (e\<lparr>ev_Signature := s, ev_SignerKeyID := k\<rparr>) = CanonicalBytes js e"
  by (simp_all add: CanonicalBytes_def)

end
