(* ===== verification/Ebpf_Service.thy ===== *)
theory Ebpf_Service
  imports Ebpf_Probe Models
begin

text \<open>
  The Go side of the host network monitor, \<^verbatim>\<open>internal/network/ebpf/service.go\<close>: it
  loads and attaches the probe, decodes the ring buffer records, filters them against
  the configured Tor ports and the known exit nodes and pushes an event for each one
  that matches. The lemmas compose both sides: what a connection looks like when it
  reaches the event pipeline.
\<close>

section \<open>Data\<close>

text \<open>\<^verbatim>\<open>connectEvent\<close>, the mirror of the C record, and the configuration it is filtered by.\<close>

record connectEvent =
  PID :: u32
  Comm :: bytes
  DAddr :: u32
  DPort :: u16

record EBPFConfig =
  Enabled :: bool
  WatchAllEgress :: bool
  TorPorts :: "int list"

text \<open>
  \<^verbatim>\<open>binary.Read\<close> with \<^verbatim>\<open>LittleEndian\<close> fills the fields in order, without padding, and
  fails when fewer than \<open>4 + 16 + 4 + 2\<close> bytes are left.
\<close>

definition binary_Read :: "bytes \<Rightarrow> connectEvent option" where
  "binary_Read raw =
     (if length raw < 26 then None
      else Some \<lparr>PID = word_of_nat (le_nat (take 4 raw)),
                 Comm = take 16 (drop 4 raw),
                 DAddr = word_of_nat (le_nat (take 4 (drop 20 raw))),
                 DPort = word_of_nat (le_nat (take 2 (drop 24 raw)))\<rparr>)"

section \<open>Handling an event\<close>

definition ntohs :: "u16 \<Rightarrow> u16" where
  "ntohs n = push_bit 8 n OR drop_bit 8 n"

fun containsInt :: "int list \<Rightarrow> int \<Rightarrow> bool" where
  "containsInt [] needle = False"
| "containsInt (v # haystack) needle = (if v = needle then True else containsInt haystack needle)"

text \<open>\<^verbatim>\<open>net.IP.String\<close> on a 4-byte address and \<^verbatim>\<open>bytes.TrimRight\<close> of zero bytes.\<close>

fun ip_String :: "bytes \<Rightarrow> string" where
  "ip_String [] = []"
| "ip_String [b] = dec (unat b)"
| "ip_String (b # bs) = dec (unat b) @ ''.'' @ ip_String bs"

definition trim_right_zero :: "bytes \<Rightarrow> bytes" where
  "trim_right_zero bs = rev (dropWhile (\<lambda>b. b = 0) (rev bs))"

definition dest_ip :: "connectEvent \<Rightarrow> bytes" where
  "dest_ip ev = be_bytes 4 (unat (DAddr ev))"

definition dest_port :: "connectEvent \<Rightarrow> u16" where
  "dest_port ev = ntohs (DPort ev)"

text \<open>
  \<open>handleEvent\<close> returns what it pushes to the pipeline, \<open>None\<close> when it filters the
  event out. \<open>torNodes\<close> is the exit-node checker, \<open>None\<close> when there is none.
\<close>

definition handleEvent ::
  "EBPFConfig \<Rightarrow> (string \<Rightarrow> bool) option \<Rightarrow> connectEvent \<Rightarrow> NetworkEvent option" where
  "handleEvent cfg torNodes ev =
     (let destIP = dest_ip ev;
          destPort = dest_port ev;
          isTorPort = containsInt (TorPorts cfg) (uint destPort);
          isTorExitNode =
            (case torNodes of None \<Rightarrow> False | Some IsExitNode \<Rightarrow> IsExitNode (ip_String destIP))
      in if \<not> WatchAllEgress cfg \<and> \<not> isTorPort \<and> \<not> isTorExitNode then None
         else
           (let comm = gostring (trim_right_zero (Comm ev))
            in Some \<lparr>ev_ID = [], ev_Type = EventTor,
                ev_Source = ''pid:'' @ dec (unat (PID ev)) @ '':'' @ comm,
                ev_Destination = ip_String destIP @ '':'' @ dec (unat destPort),
                ev_Metadata = Some [''local_process'' \<mapsto> AString comm,
                                    ''pid'' \<mapsto> AInt (uint (PID ev)),
                                    ''tor_exit_node'' \<mapsto> ABool isTorExitNode,
                                    ''tor_port'' \<mapsto> ABool isTorPort],
                ev_Timestamp = 0, ev_Signature = [], ev_SignerKeyID = []\<rparr>))"

section \<open>The read loop\<close>

text \<open>
  What the ring buffer reader returns, one answer per call: a record, the error
  \<^verbatim>\<open>ErrClosed\<close> or another error. The loop ends at \<^verbatim>\<open>ErrClosed\<close>; an answer
  list that ends earlier is a reader that blocks. The result is what was pushed.
\<close>

datatype read_result = RawSample bytes | ErrClosed | ReadError

fun readLoop ::
  "EBPFConfig \<Rightarrow> (string \<Rightarrow> bool) option \<Rightarrow> read_result list \<Rightarrow> NetworkEvent list" where
  "readLoop cfg tor [] = []"
| "readLoop cfg tor (ErrClosed # rs) = []"
| "readLoop cfg tor (ReadError # rs) = readLoop cfg tor rs"
| "readLoop cfg tor (RawSample raw # rs) =
     (case binary_Read raw of
        None \<Rightarrow> readLoop cfg tor rs
      | Some ev \<Rightarrow>
          (case handleEvent cfg tor ev of
             None \<Rightarrow> readLoop cfg tor rs
           | Some e \<Rightarrow> e # readLoop cfg tor rs))"

section \<open>Starting and stopping\<close>

text \<open>
  The kernel resources the service holds, and the outcome of the three calls that
  acquire them (loading the objects, attaching the probe, opening the reader).
\<close>

record service =
  objs_open :: bool
  link_open :: bool
  reader_open :: bool
  loop_running :: bool

datatype start_error = LoadFailed | AttachFailed | ReaderFailed

record start_env =
  load_ok :: bool
  kprobe_ok :: bool
  newreader_ok :: bool

definition NewService :: service where
  "NewService = \<lparr>objs_open = False, link_open = False, reader_open = False, loop_running = False\<rparr>"

definition Start :: "EBPFConfig \<Rightarrow> start_env \<Rightarrow> service \<Rightarrow> start_error option \<times> service" where
  "Start cfg env s =
     (if \<not> Enabled cfg then (None, s)
      else if \<not> load_ok env then (Some LoadFailed, s)
      else
        (let s1 = s\<lparr>objs_open := True\<rparr>
         in if \<not> kprobe_ok env then (Some AttachFailed, s1\<lparr>objs_open := False\<rparr>)
            else
              (let s2 = s1\<lparr>link_open := True\<rparr>
               in if \<not> newreader_ok env
                  then (Some ReaderFailed, s2\<lparr>link_open := False, objs_open := False\<rparr>)
                  else (None, s2\<lparr>reader_open := True, loop_running := True\<rparr>))))"

text \<open>\<open>Stop\<close> closes the reader, upon which the read loop returns.\<close>

definition Stop :: "service \<Rightarrow> service" where
  "Stop s = s\<lparr>reader_open := False, loop_running := False, link_open := False, objs_open := False\<rparr>"

text \<open>A kernel and an event to try the definitions on.\<close>

definition sample_env :: bpf_env where
  "sample_env = \<lparr>ringbuf_reserve = (\<lambda>n. Some (replicate n 7)),
     current_pid_tgid = 0x000004D2000004D3, current_comm = replicate 16 65,
     kmem = (\<lambda>a. Some (word_of_nat a))\<rparr>"

definition sample_event :: connectEvent where
  "sample_event = \<lparr>PID = 7, Comm = [116, 111, 114, 0], DAddr = 0, DPort = 0x2923\<rparr>"

section \<open>Lemmas\<close>

lemma containsInt_set: "containsInt xs v \<longleftrightarrow> v \<in> set xs"
  by (induction xs) auto

text \<open>
  Reading two bytes little-endian and swapping them is reading them big-endian: the
  port comes out as it is on the wire.
\<close>

lemma ntohs_arith: "unat (ntohs w) = 256 * (unat w mod 256) + unat w div 256"
proof -
  have "push_bit 8 w AND drop_bit 8 w = 0"
    by (rule bit_eqI) (auto simp: bit_simps dest: bit_imp_le_length)
  then have "ntohs w = push_bit 8 w + drop_bit 8 w"
    by (simp add: ntohs_def disjunctive_add_eq_or)
  moreover have "unat (push_bit 8 w) = 256 * (unat w mod 256)"
    using mult_mod_right [of 256 "unat w" 256]
    by (simp add: push_bit_eq_mult unat_word_ariths mult.commute)
  moreover have "unat (drop_bit 8 w) = unat w div 256"
    unfolding unat_drop_bit_eq by (simp add: drop_bit_eq_div)
  moreover have "unat w div 256 < 256"
    using unsigned_less [of w] by (simp add: div_less_iff_less_mult)
  ultimately show ?thesis by (simp add: unat_word_ariths)
qed

lemma ntohs_le_be:
  assumes "length bs = 2"
  shows "unat (ntohs (word_of_nat (le_nat bs))) = be_nat bs"
proof -
  obtain a b where bs: "bs = [a, b]"
    using assms by (auto simp: numeral_2_eq_2 length_Suc_conv)
  have ab: "unat a < 256" "unat b < 256" by simp_all
  have "le_nat bs < 2 ^ 16" using le_nat_less [of bs] assms by simp
  then have "unat (word_of_nat (le_nat bs) :: u16) = le_nat bs" by (simp only: unat_of_nat) simp
  also have "\<dots> = unat a + 256 * unat b" using bs by simp
  finally show ?thesis using ab bs by (simp only: ntohs_arith) (simp add: be_nat_def)
qed

text \<open>
  Writing a 4-byte value that was read little-endian in big-endian order reverses it.
\<close>

lemma be_of_le_reverses:
  assumes "length bs = 4"
  shows "be_bytes 4 (unat (word_of_nat (le_nat bs) :: u32)) = rev bs"
proof -
  have "le_nat bs < 2 ^ 32" using le_nat_less [of bs] assms by simp
  then have "unat (word_of_nat (le_nat bs) :: u32) = le_nat bs" by (simp add: unat_of_nat)
  with assms show ?thesis using le_bytes_le_nat [of bs] by (simp add: be_bytes_def)
qed

text \<open>Decoding a record of the probe, whatever follows its 26 bytes.\<close>

lemma binary_Read_record:
  assumes "length comm = 16" "length daddr = 4" "length dport = 2" "pid < 2 ^ 32"
  shows "binary_Read (le_bytes 4 pid @ comm @ daddr @ dport @ pad) =
    Some \<lparr>PID = word_of_nat pid, Comm = comm,
          DAddr = word_of_nat (le_nat daddr), DPort = word_of_nat (le_nat dport)\<rparr>"
  using assms by (simp add: binary_Read_def)

lemma decode_emitted:
  assumes "wf_env env" "ringbuf_reserve env 28 = Some slot"
  shows "\<exists>raw. emit_connect_event env sk events = (0, events @ [raw]) \<and>
    binary_Read raw =
      Some \<lparr>PID = word_of_nat (unat (drop_bit 32 (current_pid_tgid env))),
            Comm = current_comm env,
            DAddr = word_of_nat (le_nat (probe_read env 4 sk)),
            DPort = word_of_nat (le_nat (probe_read env 2 (sk + 12)))\<rparr>"
  unfolding emit_record [OF assms]
  by (intro exI conjI, rule refl, rule binary_Read_record)
    (use assms(1) drop_bit_32_less in \<open>auto simp: wf_env_def\<close>)

section \<open>Properties\<close>

text \<open>
  The memory layout the probe and its reader rest on is sound: in the record of the
  probe and in every kernel type taken from the header, members lie inside their type,
  are aligned, and no two members of a struct share a bit.
\<close>

lemma kernel_layouts_sound:
  "list_all sound_layout
     (struct_connect_event # kernel_socket_types @ kernel_task_types
        @ kernel_net_types @ kernel_device_types @ kernel_probe_types)"
proof -
  have "list_all wf_ctype
     (struct_connect_event # kernel_socket_types @ kernel_task_types
        @ kernel_net_types @ kernel_device_types @ kernel_probe_types)"
    by (simp add: connect_event_layout kernel_socket_types_wf kernel_task_types_wf
        kernel_net_types_wf kernel_device_types_wf kernel_probe_types_wf)
  then show ?thesis by (rule list.pred_mono_strong) (rule wf_sound_layout)
qed

text \<open>
  The socket pointer of \<^verbatim>\<open>tcp_v4_connect\<close> points to a \<^verbatim>\<open>struct tcp_sock\<close>;
  reading it as a \<^verbatim>\<open>struct sock\<close> finds the peer address in its first four bytes and
  the peer port in bytes 12 and 13, and the record the probe reserves has 28 bytes with
  its members at 0, 4, 20 and 24, so that the 26 bytes the Go side decodes are exactly
  the members.
\<close>

theorem probe_offsets:
  "offsetof struct_tcp_sock [''inet_conn'', ''icsk_inet'', ''sk''] = Some 0 \<and>
   offsetof struct_sock [''__sk_common'', ''skc_daddr''] = Some 0 \<and>
   offsetof struct_sock [''__sk_common'', ''skc_dport''] = Some 12 \<and>
   map (\<lambda>n. offsetof struct_connect_event [n]) [''pid'', ''comm'', ''daddr'', ''dport''] =
     [Some 0, Some 4, Some 20, Some 24] \<and>
   sizeof struct_connect_event = 28"
  using tcp_sock_starts_with_sock sock_members connect_event_members connect_event_layout
  by (simp add: offsetof_def del: member_path.simps)

text \<open>
  C8: end to end, when the ring buffer has room, one outbound connection makes the
  probe submit exactly one record, and decoding that record yields the thread group id,
  the command name and the address and port words found in the socket the first argument
  register points to; when it has no room, nothing is submitted.
\<close>

theorem connect_record_roundtrip:
  assumes "wf_env env"
  shows "case ringbuf_reserve env 28 of
      None \<Rightarrow> trace_tcp_v4_connect env ctx events = (0, events)
    | Some slot \<Rightarrow>
        (\<exists>raw. trace_tcp_v4_connect env ctx events = (0, events @ [raw]) \<and>
          length raw = 28 \<and>
          binary_Read raw =
            Some \<lparr>PID = word_of_nat (unat (drop_bit 32 (current_pid_tgid env))),
                  Comm = current_comm env,
                  DAddr = word_of_nat (le_nat (probe_read env 4 (kprobe_arg1 ctx))),
                  DPort = word_of_nat (le_nat (probe_read env 2 (kprobe_arg1 ctx + 12)))\<rparr>)"
proof (cases "ringbuf_reserve env 28")
  case None
  then show ?thesis
    by (simp add: trace_tcp_v4_connect_def emit_connect_event_def connect_event_layout)
next
  case (Some slot)
  with assms have "length slot = 28" "length (current_comm env) = 16"
    by (auto simp: wf_env_def)
  then show ?thesis
    using Some decode_emitted [OF assms Some, of "kprobe_arg1 ctx" events]
    by (auto simp: trace_tcp_v4_connect_def emit_record [OF assms Some])
qed

lemma sample_env_wf: "wf_env sample_env"
  by (simp add: wf_env_def sample_env_def)

theorem connect_record_roundtrip_witness:
  "\<exists>raw. trace_tcp_v4_connect sample_env (replicate 168 1) [] = (0, [raw]) \<and> length raw = 28"
  using connect_record_roundtrip [OF sample_env_wf, of "replicate 168 1" "[]"]
  by (auto simp: sample_env_def)

text \<open>
  For every event decoded from a socket whose address bytes are \<open>addr\<close> and port
  bytes are \<open>port\<close> (network order), \<open>handleEvent\<close> computes the port correctly, but
  the four address bytes come out in reverse order: the value was read little-endian
  and is written big-endian. A connection to 10.0.0.1 is reported, and matched against
  the exit-node list, as 1.0.0.10.
\<close>

theorem destination_of_event:
  assumes "length addr = 4" "length port = 2"
    and "DAddr ev = word_of_nat (le_nat addr)" "DPort ev = word_of_nat (le_nat port)"
  shows "unat (dest_port ev) = be_nat port \<and> dest_ip ev = rev addr"
  using assms by (simp_all add: dest_port_def ntohs_le_be dest_ip_def be_of_le_reverses)

theorem destination_of_event_witness:
  "ip_String (dest_ip \<lparr>PID = 1, Comm = [], DAddr = word_of_nat (le_nat [10, 0, 0, 1]),
     DPort = word_of_nat (le_nat [0x23, 0x29])\<rparr>) = ''1.0.0.10''"
proof -
  have "dest_ip \<lparr>PID = 1, Comm = [], DAddr = word_of_nat (le_nat [10, 0, 0, 1]),
     DPort = word_of_nat (le_nat [0x23, 0x29])\<rparr> = rev [10, 0, 0, 1]"
    by (rule conjunct2 [OF destination_of_event [where port = "[0x23, 0x29]"]]) simp_all
  then show ?thesis by (simp add: dec.simps digit_chars)
qed

text \<open>
  The filter. An event is pushed exactly when all egress is watched, its port is one
  of the configured Tor ports or its printed address is a known exit node; a pushed
  event names the process, carries both verdicts and is of type TOR.
\<close>

theorem handleEvent_filter:
  "(handleEvent cfg tor ev \<noteq> None \<longleftrightarrow>
      WatchAllEgress cfg \<or> uint (dest_port ev) \<in> set (TorPorts cfg) \<or>
      (\<exists>f. tor = Some f \<and> f (ip_String (dest_ip ev)))) \<and>
   (\<forall>e. handleEvent cfg tor ev = Some e \<longrightarrow>
      ev_Type e = EventTor \<and>
      ev_Destination e = ip_String (dest_ip ev) @ '':'' @ dec (unat (dest_port ev)) \<and>
      meta_get (ev_Metadata e) ''pid'' = Some (AInt (uint (PID ev))) \<and>
      meta_get (ev_Metadata e) ''tor_port'' =
        Some (ABool (uint (dest_port ev) \<in> set (TorPorts cfg))))"
  by (auto simp: handleEvent_def Let_def containsInt_set meta_get_def split: option.splits)

theorem handleEvent_filter_witness:
  "\<exists>e. handleEvent \<lparr>Enabled = True, WatchAllEgress = True, TorPorts = []\<rparr> None sample_event = Some e
     \<and> ev_Type e = EventTor"
  using handleEvent_filter [of "\<lparr>Enabled = True, WatchAllEgress = True, TorPorts = []\<rparr>" None sample_event]
  by auto

text \<open>
  Starting never leaks: whichever of the three acquisitions fails, no kernel
  resource stays open and no read loop runs, and after a successful start \<open>Stop\<close>
  releases everything again.
\<close>

theorem start_stop_resources:
  "(fst (Start cfg env NewService) \<noteq> None \<longrightarrow> snd (Start cfg env NewService) = NewService) \<and>
   (fst (Start cfg env NewService) = None \<and> Enabled cfg \<longrightarrow>
      snd (Start cfg env NewService) =
        \<lparr>objs_open = True, link_open = True, reader_open = True, loop_running = True\<rparr>) \<and>
   Stop (snd (Start cfg env NewService)) = NewService"
  by (simp add: Start_def NewService_def Stop_def Let_def)

theorem start_stop_resources_witness:
  "Stop (snd (Start \<lparr>Enabled = True, WatchAllEgress = False, TorPorts = []\<rparr>
     \<lparr>load_ok = True, kprobe_ok = False, newreader_ok = True\<rparr> NewService)) = NewService
   \<and> fst (Start \<lparr>Enabled = True, WatchAllEgress = False, TorPorts = []\<rparr>
     \<lparr>load_ok = True, kprobe_ok = False, newreader_ok = True\<rparr> NewService) = Some AttachFailed"
  using start_stop_resources [of "\<lparr>Enabled = True, WatchAllEgress = False, TorPorts = []\<rparr>"
     "\<lparr>load_ok = True, kprobe_ok = False, newreader_ok = True\<rparr>"]
  by (simp add: Start_def) (simp add: Stop_def NewService_def)

end
