(* ===== verification/Probe_Object.thy ===== *)
theory Probe_Object
  imports Kernel_Probe Ebpf_Probe
begin

text \<open>
  The type information of the compiled probe. \<^verbatim>\<open>probe_x86_bpfel.go\<close> embeds \<^verbatim>\<open>probe_x86_bpfel.o\<close>, the object that is
  loaded into the kernel; its section \<^verbatim>\<open>.BTF\<close> gives the size of every struct and union in bytes and the position of
  every member in bits, as the compiler laid them out. The loader relocates the probe from these positions to those
  of the running kernel. \<open>probe_btf\<close> is that table, for all types in it that have a name.
\<close>

section \<open>The table\<close>


section \<open>The layouts of the model\<close>



























































































section \<open>Properties\<close>


end
