(* ===== verification/Probe_Code.thy ===== *)
theory Probe_Code
  imports Ebpf_Probe
begin

text \<open>
  The compiled probe as a program. \<open>probe_text\<close> is the section \<^verbatim>\<open>kprobe/tcp_v4_connect\<close> of the object file that
  \<^verbatim>\<open>probe_x86_bpfel.go\<close> embeds, instruction by instruction as in the file; the machine below runs the instructions
  of the eBPF instruction set that occur in it, with the same kernel helpers (\<open>bpf_env\<close>) the model of
  \<^verbatim>\<open>probe.c\<close> uses. The theorem is a validation of the translation: the object does what the source says.
\<close>

section \<open>Instructions\<close>

definition probe_text :: "bytes list" where
  "probe_text =
     [[121, 22, 112, 0, 0, 0, 0, 0], [24, 1, 0, 0, 0, 0, 0, 0], [0, 0, 0, 0, 0, 0, 0, 0],
      [183, 2, 0, 0, 28, 0, 0, 0], [183, 3, 0, 0, 0, 0, 0, 0], [133, 0, 0, 0, 131, 0, 0, 0],
      [191, 7, 0, 0, 0, 0, 0, 0], [21, 7, 24, 0, 0, 0, 0, 0], [133, 0, 0, 0, 14, 0, 0, 0],
      [119, 0, 0, 0, 32, 0, 0, 0], [99, 7, 0, 0, 0, 0, 0, 0], [191, 113, 0, 0, 0, 0, 0, 0],
      [7, 1, 0, 0, 4, 0, 0, 0], [183, 2, 0, 0, 16, 0, 0, 0], [133, 0, 0, 0, 16, 0, 0, 0],
      [183, 1, 0, 0, 0, 0, 0, 0], [191, 99, 0, 0, 0, 0, 0, 0], [15, 19, 0, 0, 0, 0, 0, 0],
      [191, 113, 0, 0, 0, 0, 0, 0], [7, 1, 0, 0, 20, 0, 0, 0], [183, 2, 0, 0, 4, 0, 0, 0],
      [133, 0, 0, 0, 113, 0, 0, 0], [183, 1, 0, 0, 12, 0, 0, 0], [15, 22, 0, 0, 0, 0, 0, 0],
      [191, 113, 0, 0, 0, 0, 0, 0], [7, 1, 0, 0, 24, 0, 0, 0], [183, 2, 0, 0, 2, 0, 0, 0],
      [191, 99, 0, 0, 0, 0, 0, 0], [133, 0, 0, 0, 113, 0, 0, 0], [191, 113, 0, 0, 0, 0, 0, 0],
      [183, 2, 0, 0, 0, 0, 0, 0], [133, 0, 0, 0, 132, 0, 0, 0], [183, 0, 0, 0, 0, 0, 0, 0],
      [149, 0, 0, 0, 0, 0, 0, 0]]"

record insn =
  in_op :: nat
  in_dst :: nat
  in_src :: nat
  in_off :: int
  in_imm :: int

text \<open>The encoding of \<^verbatim>\<open>struct bpf_insn\<close>: opcode, two register numbers of four bits, offset and immediate operand, both signed.\<close>

definition decode_insn :: "bytes \<Rightarrow> insn" where
  "decode_insn b =
     \<lparr>in_op = unat (b ! 0), in_dst = unat (b ! 1) mod 16, in_src = unat (b ! 1) div 16,
      in_off = sint (word_of_nat (le_nat (take 2 (drop 2 b))) :: 16 word),
      in_imm = sint (word_of_nat (le_nat (take 4 (drop 4 b))) :: 32 word)\<rparr>"

section \<open>The machine\<close>

text \<open>
  A register holds a number or a pointer: to the context, to the ring buffer map, or into the reserved record. Pointers of
  the kernel, which only \<^verbatim>\<open>bpf_probe_read_kernel\<close> follows, are numbers. \<open>None\<close> is a fault.
\<close>

datatype bval = Num u64 | CtxPtr | MapPtr | SlotPtr nat | Undef

record machine =
  mc_pc :: nat
  mc_regs :: "nat \<Rightarrow> bval"
  mc_slot :: bytes
  mc_submitted :: "bytes list"

definition start :: "bytes list \<Rightarrow> machine" where
  "start events = \<lparr>mc_pc = 0, mc_regs = (\<lambda>_. Undef)(1 := CtxPtr), mc_slot = [], mc_submitted = events\<rparr>"

definition set_reg :: "nat \<Rightarrow> bval \<Rightarrow> machine \<Rightarrow> machine" where
  "set_reg r v m = m\<lparr>mc_regs := (mc_regs m)(r := v)\<rparr>"

definition add_val :: "bval \<Rightarrow> u64 \<Rightarrow> bval option" where
  "add_val v n = (case v of Num k \<Rightarrow> Some (Num (k + n)) | SlotPtr o' \<Rightarrow> Some (SlotPtr (o' + unat n)) | _ \<Rightarrow> None)"

text \<open>A helper call takes its arguments from registers 1 to 5, which it destroys, and returns in register 0.\<close>

definition after_call :: "bval \<Rightarrow> machine \<Rightarrow> machine" where
  "after_call r m = m\<lparr>mc_regs := (\<lambda>i. if i = 0 then r else if i \<le> 5 then Undef else mc_regs m i)\<rparr>"

definition helper :: "string \<Rightarrow> int \<Rightarrow> bool" where
  "helper name k \<longleftrightarrow> map_of enum_bpf_func_id (''BPF_FUNC_'' @ name) = Some k"

definition call_helper :: "bpf_env \<Rightarrow> int \<Rightarrow> machine \<Rightarrow> machine option" where
  "call_helper env k m =
     (let a1 = mc_regs m 1; a2 = mc_regs m 2; a3 = mc_regs m 3
      in if helper ''ringbuf_reserve'' k then
           (case (a1, a2) of
              (MapPtr, Num sz) \<Rightarrow>
                (case ringbuf_reserve env (unat sz) of
                   None \<Rightarrow> Some (after_call (Num 0) m)
                 | Some e \<Rightarrow> Some (after_call (SlotPtr 0) (m\<lparr>mc_slot := e\<rparr>)))
            | _ \<Rightarrow> None)
         else if helper ''get_current_pid_tgid'' k then Some (after_call (Num (current_pid_tgid env)) m)
         else if helper ''get_current_comm'' k then
           (case (a1, a2) of
              (SlotPtr o', Num sz) \<Rightarrow>
                Some (after_call (Num 0) (m\<lparr>mc_slot := write_at (mc_slot m) o' (take (unat sz) (current_comm env))\<rparr>))
            | _ \<Rightarrow> None)
         else if helper ''probe_read_kernel'' k then
           (case (a1, a2, a3) of
              (SlotPtr o', Num sz, Num addr) \<Rightarrow>
                Some (after_call (Num 0) (m\<lparr>mc_slot := write_at (mc_slot m) o' (probe_read env (unat sz) (unat addr))\<rparr>))
            | _ \<Rightarrow> None)
         else if helper ''ringbuf_submit'' k then
           (case a1 of
              SlotPtr 0 \<Rightarrow> Some (after_call Undef (m\<lparr>mc_submitted := mc_submitted m @ [mc_slot m]\<rparr>))
            | _ \<Rightarrow> None)
         else None)"

text \<open>
  One instruction that is not the last: load from the context, load of the map's address (which takes two places), moves,
  additions, shift, store of 32 bits into the record, jump if equal, call.
\<close>

definition exec_insn :: "bpf_env \<Rightarrow> bytes \<Rightarrow> insn \<Rightarrow> machine \<Rightarrow> machine option" where
  "exec_insn env ctx i m =
     (let d = mc_regs m (in_dst i); s = mc_regs m (in_src i); k = word_of_int (in_imm i);
          next = (\<lambda>m. m\<lparr>mc_pc := mc_pc m + 1\<rparr>)
      in if in_op i = 0x79 then
           (case s of CtxPtr \<Rightarrow> Some (next (set_reg (in_dst i) (Num (word_of_nat (le_nat (take 8 (drop (nat (in_off i)) ctx))))) m)) | _ \<Rightarrow> None)
         else if in_op i = 0x18 then Some (set_reg (in_dst i) MapPtr m\<lparr>mc_pc := mc_pc m + 2\<rparr>)
         else if in_op i = 0xb7 then Some (next (set_reg (in_dst i) (Num k) m))
         else if in_op i = 0xbf then Some (next (set_reg (in_dst i) s m))
         else if in_op i = 0x07 then map_option (\<lambda>v. next (set_reg (in_dst i) v m)) (add_val d k)
         else if in_op i = 0x0f then (case s of Num n \<Rightarrow> map_option (\<lambda>v. next (set_reg (in_dst i) v m)) (add_val d n) | _ \<Rightarrow> None)
         else if in_op i = 0x77 then (case d of Num n \<Rightarrow> Some (next (set_reg (in_dst i) (Num (drop_bit (unat k) n)) m)) | _ \<Rightarrow> None)
         else if in_op i = 0x63 then
           (case (d, s) of
              (SlotPtr o', Num n) \<Rightarrow>
                Some (next (m\<lparr>mc_slot := write_at (mc_slot m) (nat (int o' + in_off i)) (le_bytes 4 (unat n mod 2 ^ 32))\<rparr>))
            | _ \<Rightarrow> None)
         else if in_op i = 0x15 then
           (case d of
              Num n \<Rightarrow> Some (m\<lparr>mc_pc := (if n = k then nat (int (mc_pc m) + 1 + in_off i) else mc_pc m + 1)\<rparr>)
            | SlotPtr o' \<Rightarrow> if k = 0 then Some (next m) else None
            | _ \<Rightarrow> None)
         else if in_op i = 0x85 then map_option next (call_helper env (in_imm i) m)
         else None)"

text \<open>The program ends with the exit instruction and returns register 0. There are no backward jumps; fuel is the number of instructions.\<close>

fun bpf_run :: "bpf_env \<Rightarrow> bytes \<Rightarrow> insn list \<Rightarrow> nat \<Rightarrow> machine \<Rightarrow> (int \<times> bytes list) option" where
  "bpf_run env ctx code 0 m = None"
| "bpf_run env ctx code (Suc fuel) m =
     (if mc_pc m \<ge> length code then None
      else if in_op (code ! mc_pc m) = 0x95 then
        (case mc_regs m 0 of Num n \<Rightarrow> Some (sint n, mc_submitted m) | _ \<Rightarrow> None)
      else (case exec_insn env ctx (code ! mc_pc m) m of None \<Rightarrow> None | Some m' \<Rightarrow> bpf_run env ctx code fuel m'))"

definition probe_code :: "insn list" where
  "probe_code = map decode_insn probe_text"

definition run_object :: "bpf_env \<Rightarrow> bytes \<Rightarrow> bytes list \<Rightarrow> (int \<times> bytes list) option" where
  "run_object env ctx events = bpf_run env ctx probe_code (length probe_code) (start events)"

section \<open>Lemmas\<close>

lemma decoded:
  "probe_code =
     [\<lparr>in_op = 121, in_dst = 6, in_src = 1, in_off = 112, in_imm = 0\<rparr>,
      \<lparr>in_op = 24, in_dst = 1, in_src = 0, in_off = 0, in_imm = 0\<rparr>,
      \<lparr>in_op = 0, in_dst = 0, in_src = 0, in_off = 0, in_imm = 0\<rparr>,
      \<lparr>in_op = 183, in_dst = 2, in_src = 0, in_off = 0, in_imm = 28\<rparr>,
      \<lparr>in_op = 183, in_dst = 3, in_src = 0, in_off = 0, in_imm = 0\<rparr>,
      \<lparr>in_op = 133, in_dst = 0, in_src = 0, in_off = 0, in_imm = 131\<rparr>,
      \<lparr>in_op = 191, in_dst = 7, in_src = 0, in_off = 0, in_imm = 0\<rparr>,
      \<lparr>in_op = 21, in_dst = 7, in_src = 0, in_off = 24, in_imm = 0\<rparr>,
      \<lparr>in_op = 133, in_dst = 0, in_src = 0, in_off = 0, in_imm = 14\<rparr>,
      \<lparr>in_op = 119, in_dst = 0, in_src = 0, in_off = 0, in_imm = 32\<rparr>,
      \<lparr>in_op = 99, in_dst = 7, in_src = 0, in_off = 0, in_imm = 0\<rparr>,
      \<lparr>in_op = 191, in_dst = 1, in_src = 7, in_off = 0, in_imm = 0\<rparr>,
      \<lparr>in_op = 7, in_dst = 1, in_src = 0, in_off = 0, in_imm = 4\<rparr>,
      \<lparr>in_op = 183, in_dst = 2, in_src = 0, in_off = 0, in_imm = 16\<rparr>,
      \<lparr>in_op = 133, in_dst = 0, in_src = 0, in_off = 0, in_imm = 16\<rparr>,
      \<lparr>in_op = 183, in_dst = 1, in_src = 0, in_off = 0, in_imm = 0\<rparr>,
      \<lparr>in_op = 191, in_dst = 3, in_src = 6, in_off = 0, in_imm = 0\<rparr>,
      \<lparr>in_op = 15, in_dst = 3, in_src = 1, in_off = 0, in_imm = 0\<rparr>,
      \<lparr>in_op = 191, in_dst = 1, in_src = 7, in_off = 0, in_imm = 0\<rparr>,
      \<lparr>in_op = 7, in_dst = 1, in_src = 0, in_off = 0, in_imm = 20\<rparr>,
      \<lparr>in_op = 183, in_dst = 2, in_src = 0, in_off = 0, in_imm = 4\<rparr>,
      \<lparr>in_op = 133, in_dst = 0, in_src = 0, in_off = 0, in_imm = 113\<rparr>,
      \<lparr>in_op = 183, in_dst = 1, in_src = 0, in_off = 0, in_imm = 12\<rparr>,
      \<lparr>in_op = 15, in_dst = 6, in_src = 1, in_off = 0, in_imm = 0\<rparr>,
      \<lparr>in_op = 191, in_dst = 1, in_src = 7, in_off = 0, in_imm = 0\<rparr>,
      \<lparr>in_op = 7, in_dst = 1, in_src = 0, in_off = 0, in_imm = 24\<rparr>,
      \<lparr>in_op = 183, in_dst = 2, in_src = 0, in_off = 0, in_imm = 2\<rparr>,
      \<lparr>in_op = 191, in_dst = 3, in_src = 6, in_off = 0, in_imm = 0\<rparr>,
      \<lparr>in_op = 133, in_dst = 0, in_src = 0, in_off = 0, in_imm = 113\<rparr>,
      \<lparr>in_op = 191, in_dst = 1, in_src = 7, in_off = 0, in_imm = 0\<rparr>,
      \<lparr>in_op = 183, in_dst = 2, in_src = 0, in_off = 0, in_imm = 0\<rparr>,
      \<lparr>in_op = 133, in_dst = 0, in_src = 0, in_off = 0, in_imm = 132\<rparr>,
      \<lparr>in_op = 183, in_dst = 0, in_src = 0, in_off = 0, in_imm = 0\<rparr>,
      \<lparr>in_op = 149, in_dst = 0, in_src = 0, in_off = 0, in_imm = 0\<rparr>]"
  unfolding probe_code_def probe_text_def decode_insn_def by code_simp

lemma insn_at:
  "length probe_code = 34"
  "probe_code ! 0 = \<lparr>in_op = 121, in_dst = 6, in_src = 1, in_off = 112, in_imm = 0\<rparr>"
  "probe_code ! 1 = \<lparr>in_op = 24, in_dst = 1, in_src = 0, in_off = 0, in_imm = 0\<rparr>"
  "probe_code ! 3 = \<lparr>in_op = 183, in_dst = 2, in_src = 0, in_off = 0, in_imm = 28\<rparr>"
  "probe_code ! 4 = \<lparr>in_op = 183, in_dst = 3, in_src = 0, in_off = 0, in_imm = 0\<rparr>"
  "probe_code ! 5 = \<lparr>in_op = 133, in_dst = 0, in_src = 0, in_off = 0, in_imm = 131\<rparr>"
  "probe_code ! 6 = \<lparr>in_op = 191, in_dst = 7, in_src = 0, in_off = 0, in_imm = 0\<rparr>"
  "probe_code ! 7 = \<lparr>in_op = 21, in_dst = 7, in_src = 0, in_off = 24, in_imm = 0\<rparr>"
  "probe_code ! 8 = \<lparr>in_op = 133, in_dst = 0, in_src = 0, in_off = 0, in_imm = 14\<rparr>"
  "probe_code ! 9 = \<lparr>in_op = 119, in_dst = 0, in_src = 0, in_off = 0, in_imm = 32\<rparr>"
  "probe_code ! 10 = \<lparr>in_op = 99, in_dst = 7, in_src = 0, in_off = 0, in_imm = 0\<rparr>"
  "probe_code ! 11 = \<lparr>in_op = 191, in_dst = 1, in_src = 7, in_off = 0, in_imm = 0\<rparr>"
  "probe_code ! 12 = \<lparr>in_op = 7, in_dst = 1, in_src = 0, in_off = 0, in_imm = 4\<rparr>"
  "probe_code ! 13 = \<lparr>in_op = 183, in_dst = 2, in_src = 0, in_off = 0, in_imm = 16\<rparr>"
  "probe_code ! 14 = \<lparr>in_op = 133, in_dst = 0, in_src = 0, in_off = 0, in_imm = 16\<rparr>"
  "probe_code ! 15 = \<lparr>in_op = 183, in_dst = 1, in_src = 0, in_off = 0, in_imm = 0\<rparr>"
  "probe_code ! 16 = \<lparr>in_op = 191, in_dst = 3, in_src = 6, in_off = 0, in_imm = 0\<rparr>"
  "probe_code ! 17 = \<lparr>in_op = 15, in_dst = 3, in_src = 1, in_off = 0, in_imm = 0\<rparr>"
  "probe_code ! 18 = \<lparr>in_op = 191, in_dst = 1, in_src = 7, in_off = 0, in_imm = 0\<rparr>"
  "probe_code ! 19 = \<lparr>in_op = 7, in_dst = 1, in_src = 0, in_off = 0, in_imm = 20\<rparr>"
  "probe_code ! 20 = \<lparr>in_op = 183, in_dst = 2, in_src = 0, in_off = 0, in_imm = 4\<rparr>"
  "probe_code ! 21 = \<lparr>in_op = 133, in_dst = 0, in_src = 0, in_off = 0, in_imm = 113\<rparr>"
  "probe_code ! 22 = \<lparr>in_op = 183, in_dst = 1, in_src = 0, in_off = 0, in_imm = 12\<rparr>"
  "probe_code ! 23 = \<lparr>in_op = 15, in_dst = 6, in_src = 1, in_off = 0, in_imm = 0\<rparr>"
  "probe_code ! 24 = \<lparr>in_op = 191, in_dst = 1, in_src = 7, in_off = 0, in_imm = 0\<rparr>"
  "probe_code ! 25 = \<lparr>in_op = 7, in_dst = 1, in_src = 0, in_off = 0, in_imm = 24\<rparr>"
  "probe_code ! 26 = \<lparr>in_op = 183, in_dst = 2, in_src = 0, in_off = 0, in_imm = 2\<rparr>"
  "probe_code ! 27 = \<lparr>in_op = 191, in_dst = 3, in_src = 6, in_off = 0, in_imm = 0\<rparr>"
  "probe_code ! 28 = \<lparr>in_op = 133, in_dst = 0, in_src = 0, in_off = 0, in_imm = 113\<rparr>"
  "probe_code ! 29 = \<lparr>in_op = 191, in_dst = 1, in_src = 7, in_off = 0, in_imm = 0\<rparr>"
  "probe_code ! 30 = \<lparr>in_op = 183, in_dst = 2, in_src = 0, in_off = 0, in_imm = 0\<rparr>"
  "probe_code ! 31 = \<lparr>in_op = 133, in_dst = 0, in_src = 0, in_off = 0, in_imm = 132\<rparr>"
  "probe_code ! 32 = \<lparr>in_op = 183, in_dst = 0, in_src = 0, in_off = 0, in_imm = 0\<rparr>"
  "probe_code ! 33 = \<lparr>in_op = 149, in_dst = 0, in_src = 0, in_off = 0, in_imm = 0\<rparr>"
  by (simp_all add: decoded)

lemma helper_numbers:
  "helper ''ringbuf_reserve'' k \<longleftrightarrow> k = 131" "helper ''get_current_pid_tgid'' k \<longleftrightarrow> k = 14" "helper ''get_current_comm'' k \<longleftrightarrow> k = 16"
  "helper ''probe_read_kernel'' k \<longleftrightarrow> k = 113" "helper ''ringbuf_submit'' k \<longleftrightarrow> k = 132"
proof -
  have "map_of enum_bpf_func_id ''BPF_FUNC_ringbuf_reserve'' = Some 131" "map_of enum_bpf_func_id ''BPF_FUNC_get_current_pid_tgid'' = Some 14"
    "map_of enum_bpf_func_id ''BPF_FUNC_get_current_comm'' = Some 16" "map_of enum_bpf_func_id ''BPF_FUNC_probe_read_kernel'' = Some 113"
    "map_of enum_bpf_func_id ''BPF_FUNC_ringbuf_submit'' = Some 132" by code_simp+
  then show "helper ''ringbuf_reserve'' k \<longleftrightarrow> k = 131" "helper ''get_current_pid_tgid'' k \<longleftrightarrow> k = 14" "helper ''get_current_comm'' k \<longleftrightarrow> k = 16"
    "helper ''probe_read_kernel'' k \<longleftrightarrow> k = 113" "helper ''ringbuf_submit'' k \<longleftrightarrow> k = 132" by (auto simp: helper_def)
qed

lemma bpf_run_cong: "fuel = fuel' \<Longrightarrow> m = m' \<Longrightarrow> bpf_run env ctx code fuel m = bpf_run env ctx code fuel' m'"
  by simp

lemma exec_simps:
  "exec_insn env ctx \<lparr>in_op = 121, in_dst = d, in_src = s, in_off = i, in_imm = k\<rparr> m =
     (case mc_regs m s of CtxPtr \<Rightarrow> Some (set_reg d (Num (word_of_nat (le_nat (take 8 (drop (nat i) ctx))))) m\<lparr>mc_pc := mc_pc m + 1\<rparr>) | _ \<Rightarrow> None)"
  "exec_insn env ctx \<lparr>in_op = 24, in_dst = d, in_src = s, in_off = i, in_imm = k\<rparr> m = Some (set_reg d MapPtr m\<lparr>mc_pc := mc_pc m + 2\<rparr>)"
  "exec_insn env ctx \<lparr>in_op = 183, in_dst = d, in_src = s, in_off = i, in_imm = k\<rparr> m = Some (set_reg d (Num (word_of_int k)) m\<lparr>mc_pc := mc_pc m + 1\<rparr>)"
  "exec_insn env ctx \<lparr>in_op = 191, in_dst = d, in_src = s, in_off = i, in_imm = k\<rparr> m = Some (set_reg d (mc_regs m s) m\<lparr>mc_pc := mc_pc m + 1\<rparr>)"
  "exec_insn env ctx \<lparr>in_op = 7, in_dst = d, in_src = s, in_off = i, in_imm = k\<rparr> m =
     (case add_val (mc_regs m d) (word_of_int k) of None \<Rightarrow> None | Some v \<Rightarrow> Some (set_reg d v m\<lparr>mc_pc := mc_pc m + 1\<rparr>))"
  "exec_insn env ctx \<lparr>in_op = 15, in_dst = d, in_src = s, in_off = i, in_imm = k\<rparr> m =
     (case mc_regs m s of
        Num n \<Rightarrow> (case add_val (mc_regs m d) n of None \<Rightarrow> None | Some v \<Rightarrow> Some (set_reg d v m\<lparr>mc_pc := mc_pc m + 1\<rparr>))
      | _ \<Rightarrow> None)"
  "exec_insn env ctx \<lparr>in_op = 119, in_dst = d, in_src = s, in_off = i, in_imm = k\<rparr> m =
     (case mc_regs m d of Num n \<Rightarrow> Some (set_reg d (Num (drop_bit (unat (word_of_int k :: u64)) n)) m\<lparr>mc_pc := mc_pc m + 1\<rparr>) | _ \<Rightarrow> None)"
  "exec_insn env ctx \<lparr>in_op = 99, in_dst = d, in_src = s, in_off = i, in_imm = k\<rparr> m =
     (case mc_regs m d of
        SlotPtr p \<Rightarrow> (case mc_regs m s of
           Num n \<Rightarrow> Some (m\<lparr>mc_slot := write_at (mc_slot m) (nat (int p + i)) (le_bytes 4 (unat n mod 2 ^ 32)), mc_pc := mc_pc m + 1\<rparr>)
         | _ \<Rightarrow> None)
      | _ \<Rightarrow> None)"
  "exec_insn env ctx \<lparr>in_op = 21, in_dst = d, in_src = s, in_off = i, in_imm = k\<rparr> m =
     (case mc_regs m d of
        Num n \<Rightarrow> Some (m\<lparr>mc_pc := (if n = word_of_int k then nat (int (mc_pc m) + 1 + i) else mc_pc m + 1)\<rparr>)
      | SlotPtr p \<Rightarrow> if word_of_int k = (0 :: u64) then Some (m\<lparr>mc_pc := mc_pc m + 1\<rparr>) else None
      | _ \<Rightarrow> None)"
  "exec_insn env ctx \<lparr>in_op = 133, in_dst = d, in_src = s, in_off = i, in_imm = k\<rparr> m =
     (case call_helper env k m of None \<Rightarrow> None | Some m' \<Rightarrow> Some (m'\<lparr>mc_pc := mc_pc m' + 1\<rparr>))"
  by (simp_all add: exec_insn_def set_reg_def Let_def split: bval.split option.split)

lemma call_simps:
  "call_helper env 131 m =
     (case (mc_regs m 1, mc_regs m 2) of
        (MapPtr, Num sz) \<Rightarrow>
          (case ringbuf_reserve env (unat sz) of
             None \<Rightarrow> Some (after_call (Num 0) m)
           | Some e \<Rightarrow> Some (after_call (SlotPtr 0) (m\<lparr>mc_slot := e\<rparr>)))
      | _ \<Rightarrow> None)"
  "call_helper env 14 m = Some (after_call (Num (current_pid_tgid env)) m)"
  "call_helper env 16 m =
     (case (mc_regs m 1, mc_regs m 2) of
        (SlotPtr p, Num sz) \<Rightarrow> Some (after_call (Num 0) (m\<lparr>mc_slot := write_at (mc_slot m) p (take (unat sz) (current_comm env))\<rparr>))
      | _ \<Rightarrow> None)"
  "call_helper env 113 m =
     (case (mc_regs m 1, mc_regs m 2, mc_regs m 3) of
        (SlotPtr p, Num sz, Num addr) \<Rightarrow> Some (after_call (Num 0) (m\<lparr>mc_slot := write_at (mc_slot m) p (probe_read env (unat sz) (unat addr))\<rparr>))
      | _ \<Rightarrow> None)"
  "call_helper env 132 m =
     (case mc_regs m 1 of
        SlotPtr 0 \<Rightarrow> Some (after_call Undef (m\<lparr>mc_submitted := mc_submitted m @ [mc_slot m]\<rparr>))
      | _ \<Rightarrow> None)"
  by (simp_all add: call_helper_def helper_numbers Let_def)

lemma bpf_run_numeral:
  "bpf_run env ctx probe_code (numeral n) m =
     (if mc_pc m \<ge> 34 then None
      else if in_op (probe_code ! mc_pc m) = 0x95 then (case mc_regs m 0 of Num k \<Rightarrow> Some (sint k, mc_submitted m) | _ \<Rightarrow> None)
      else (case exec_insn env ctx (probe_code ! mc_pc m) m of None \<Rightarrow> None | Some m' \<Rightarrow> bpf_run env ctx probe_code (pred_numeral n) m'))"
  by (simp add: numeral_eq_Suc insn_at(1))

lemmas machine_simps = exec_simps call_simps set_reg_def after_call_def add_val_def insn_at start_def bpf_run_numeral

lemma no_room:
  assumes "ringbuf_reserve env 28 = None"
  shows "run_object env ctx events = Some (0, events)"
  unfolding run_object_def insn_at(1)
  using assms by (simp add: machine_simps cong: bpf_run_cong del: One_nat_def)

lemma room:
  assumes "ringbuf_reserve env 28 = Some slot"
  shows "run_object env ctx events =
    (let sk = word_of_nat (le_nat (take 8 (drop 112 ctx))) :: u64
     in Some (0, events @
       [write_at (write_at (write_at (write_at slot 0 (le_bytes 4 (unat (drop_bit 32 (current_pid_tgid env)) mod 2 ^ 32)))
          4 (take 16 (current_comm env))) 20 (probe_read env 4 (unat sk))) 24 (probe_read env 2 (unat (sk + 12)))]))"
  unfolding run_object_def insn_at(1)
  using assms by (simp add: machine_simps Let_def cong: bpf_run_cong del: One_nat_def)

section \<open>Properties\<close>

text \<open>
  C39: The object that is loaded into the kernel does what \<^verbatim>\<open>probe.c\<close> says. For every context of a probed call, every answer of the
  helpers and every content of the ring buffer, the instructions of the compiled probe run to their end without a fault, return
  what the source returns, and leave the ring buffer as the source does. The socket must not wrap around
  the end of the address space.
\<close>

theorem object_code_refines:
  assumes "wf_env env" "length ctx = sizeof struct_pt_regs" "kprobe_arg1 ctx + sizeof struct_sock \<le> 2 ^ 64"
  shows "run_object env ctx events = Some (trace_tcp_v4_connect env ctx events)"
proof (cases "ringbuf_reserve env 28")
  case None
  then show ?thesis using no_room by (simp add: trace_tcp_v4_connect_def emit_connect_event_def connect_event_layout)
next
  case (Some slot)
  define sk where "sk = le_nat (take 8 (drop 112 ctx))"
  have arg: "kprobe_arg1 ctx = sk" by (simp add: kprobe_arg1_def pt_regs_di sk_def)
  have "sk + 12 < 2 ^ 64" using assms(3) by (simp add: arg struct_sock_layout)
  then have addr: "unat (word_of_nat sk :: u64) = sk" "unat (word_of_nat sk + 12 :: u64) = sk + 12"
    by (simp_all add: unat_word_ariths unat_of_nat take_bit_nat_eq_self)
  have len: "length slot = 28" "length (current_comm env) = 16" using assms(1) Some by (auto simp: wf_env_def)
  have pid: "unat (drop_bit 32 (current_pid_tgid env)) mod 2 ^ 32 = unat (drop_bit 32 (current_pid_tgid env))"
    using drop_bit_32_less by simp
  show ?thesis
    unfolding room [OF Some] sk_def [symmetric] Let_def addr pid trace_tcp_v4_connect_def arg emit_record [OF assms(1) Some]
    using len by (simp add: write_at_def)
qed

definition probe_env :: bpf_env where
  "probe_env = \<lparr>ringbuf_reserve = (\<lambda>n. Some (replicate n 7)), current_pid_tgid = 0x000004D2000004D3,
     current_comm = replicate 16 65, kmem = (\<lambda>a. Some (word_of_nat a))\<rparr>"

definition probe_ctx :: bytes where
  "probe_ctx = replicate 112 0 @ [5, 0, 0, 0, 0, 0, 0, 0] @ replicate 48 0"

theorem object_code_refines_witness:
  "run_object probe_env probe_ctx [] =
     Some (0, [le_bytes 4 1234 @ replicate 16 65 @ [5, 6, 7, 8] @ [17, 18] @ [7, 7]])"
proof -
  have arg: "kprobe_arg1 probe_ctx = 5" by (simp add: kprobe_arg1_def pt_regs_di probe_ctx_def)
  have wf: "wf_env probe_env" by (simp add: wf_env_def probe_env_def)
  have "run_object probe_env probe_ctx [] = Some (trace_tcp_v4_connect probe_env probe_ctx [])"
    by (rule object_code_refines [OF wf])
      (simp add: struct_pt_regs_layout probe_ctx_def, simp add: arg struct_sock_layout)
  moreover have "emit_connect_event probe_env 5 [] = (0, [le_bytes 4 1234 @ replicate 16 65 @ [5, 6, 7, 8] @ [17, 18] @ [7, 7]])"
  proof -
    have "probe_read probe_env 4 5 = [5, 6, 7, 8]" "probe_read probe_env 2 17 = [17, 18]" by code_simp+
    moreover have "unat (drop_bit 32 (0x000004D2000004D3 :: u64)) = 1234" by simp
    moreover have "drop 26 (replicate 28 (7 :: byte)) = [7, 7]" by (simp add: numeral_2_eq_2)
    ultimately show ?thesis using emit_record [OF wf, of "replicate 28 7" 5 "[]"] by (simp add: probe_env_def)
  qed
  ultimately show ?thesis by (simp add: trace_tcp_v4_connect_def arg)
qed

end
