(* ===== verification/GoLib.thy ===== *)
theory GoLib
  imports Prelude "HOL-Library.AList" "HOL-Library.Sublist"
begin

text \<open>
  What the Go code uses of its standard library beyond the prelude: hexadecimal
  encoding, string helpers, time, and results that are a value or an error. A result
  that may fail is \<open>'e + 'a\<close> with the error on the left; an operation that only
  reports an error returns \<open>'e option\<close>.
\<close>

named_theorems go_simps \<open>unfoldings of the operations of a component\<close>

section \<open>Errors\<close>

definition is_ok :: "'e + 'a \<Rightarrow> bool" where
  "is_ok r = (case r of Inl _ \<Rightarrow> False | Inr _ \<Rightarrow> True)"

lemma is_ok_simps [simp]: "is_ok (Inr x)" "\<not> is_ok (Inl e)"
  by (simp_all add: is_ok_def)

lemma is_okE [elim]: "is_ok r \<Longrightarrow> (\<And>x. r = Inr x \<Longrightarrow> P) \<Longrightarrow> P"
  by (cases r) auto

section \<open>Hexadecimal\<close>

definition hex_digit :: "nat \<Rightarrow> char" where
  "hex_digit d = char_of (if d < 10 then 48 + d else 87 + d)"

definition hex_byte :: "byte \<Rightarrow> string" where
  "hex_byte b = [hex_digit (unat b div 16), hex_digit (unat b mod 16)]"

definition hex_EncodeToString :: "bytes \<Rightarrow> string" where
  "hex_EncodeToString bs = concat (map hex_byte bs)"

lemma of_char_hex_digit: "d < 16 \<Longrightarrow> of_char (hex_digit d) = (if d < 10 then 48 + d else 87 + d :: nat)"
  by (simp add: hex_digit_def)

lemma hex_digit_inj:
  assumes "d < 16" "e < 16"
  shows "hex_digit d = hex_digit e \<longleftrightarrow> d = e"
proof
  assume "hex_digit d = hex_digit e"
  then have "(of_char (hex_digit d) :: nat) = of_char (hex_digit e)" by simp
  with assms show "d = e" by (simp add: of_char_hex_digit split: if_splits)
qed simp

lemma length_hex_byte [simp]: "length (hex_byte b) = 2"
  by (simp add: hex_byte_def)

lemma length_hex [simp]: "length (hex_EncodeToString bs) = 2 * length bs"
  by (induction bs) (simp_all add: hex_EncodeToString_def)

lemma hex_byte_inj: "hex_byte a = hex_byte b \<longleftrightarrow> a = b"
proof
  assume "hex_byte a = hex_byte b"
  moreover have "unat x div 16 < 16" "unat x mod 16 < 16" for x :: byte
    using unsigned_less [of x] by (auto simp: div_less_iff_less_mult)
  ultimately have "unat a div 16 = unat b div 16" "unat a mod 16 = unat b mod 16"
    by (auto simp: hex_byte_def hex_digit_inj)
  then have "unat a = unat b" by (metis div_mult_mod_eq)
  then show "a = b" by (rule unsigned_word_eqI)
qed simp

lemma hex_chars:
  assumes "c \<in> set (hex_EncodeToString bs)"
  shows "of_char c \<in> {48..57 :: nat} \<union> {97..102}"
proof -
  have "unat b div 16 < 16" for b :: byte using unsigned_less [of b] by (auto simp: div_less_iff_less_mult)
  with assms obtain d where "d < 16" "c = hex_digit d"
    by (auto simp: hex_EncodeToString_def hex_byte_def) (use mod_less_divisor [of 16] in \<open>fastforce\<close>)
  then show ?thesis using of_char_hex_digit [of d] by (auto split: if_splits)
qed

lemma hex_inj: "hex_EncodeToString as = hex_EncodeToString bs \<longleftrightarrow> as = bs"
proof (induction as arbitrary: bs)
  case Nil
  then show ?case by (cases bs) (auto simp: hex_EncodeToString_def hex_byte_def)
next
  case (Cons a as)
  then show ?case
  proof (cases bs)
    case Nil
    then show ?thesis by (simp add: hex_EncodeToString_def hex_byte_def)
  next
    case (Cons b bs')
    with Cons.IH [of bs'] show ?thesis
      by (auto simp: hex_EncodeToString_def append_eq_append_conv hex_byte_inj)
  qed
qed

section \<open>Strings\<close>

fun strings_Join :: "string list \<Rightarrow> string \<Rightarrow> string" where
  "strings_Join [] sep = []"
| "strings_Join [s] sep = s"
| "strings_Join (s # t # ss) sep = s @ sep @ strings_Join (t # ss) sep"

definition strings_HasPrefix :: "string \<Rightarrow> string \<Rightarrow> bool" where
  "strings_HasPrefix s p \<longleftrightarrow> take (length p) s = p"

definition strings_HasSuffix :: "string \<Rightarrow> string \<Rightarrow> bool" where
  "strings_HasSuffix s p \<longleftrightarrow> length p \<le> length s \<and> drop (length s - length p) s = p"

lemma HasPrefix_iff: "strings_HasPrefix s p \<longleftrightarrow> prefix p s"
  by (metis strings_HasPrefix_def take_is_prefix prefixE append_eq_conv_conj)

lemma HasSuffix_iff: "strings_HasSuffix s p \<longleftrightarrow> suffix p s"
proof
  assume "strings_HasSuffix s p"
  then show "suffix p s" by (metis strings_HasSuffix_def suffix_drop)
next
  assume "suffix p s"
  then obtain t where "s = t @ p" by (rule suffixE)
  then show "strings_HasSuffix s p" by (simp add: strings_HasSuffix_def)
qed

definition strings_Contains :: "string \<Rightarrow> string \<Rightarrow> bool" where
  "strings_Contains s sub \<longleftrightarrow> list_ex (\<lambda>i. take (length sub) (drop i s) = sub) [0..<Suc (length s)]"

section \<open>Splitting and trimming\<close>

text \<open>\<^verbatim>\<open>strings.Split\<close> and \<^verbatim>\<open>strings.SplitN\<close> with limit 2, for a separator of one character.\<close>

fun strings_Split :: "string \<Rightarrow> char \<Rightarrow> string list" where
  "strings_Split [] sep = [[]]"
| "strings_Split (c # s) sep =
     (if c = sep then [] # strings_Split s sep
      else (case strings_Split s sep of [] \<Rightarrow> [[c]] | p # ps \<Rightarrow> (c # p) # ps))"

definition strings_SplitN2 :: "string \<Rightarrow> char \<Rightarrow> string list" where
  "strings_SplitN2 s sep =
     (if sep \<in> set s then [takeWhile (\<lambda>c. c \<noteq> sep) s, tl (dropWhile (\<lambda>c. c \<noteq> sep) s)] else [s])"

lemma SplitN2_append: "sep \<notin> set a \<Longrightarrow> strings_SplitN2 (a @ [sep] @ b) sep = [a, b]"
  by (induction a) (auto simp: strings_SplitN2_def)

text \<open>
  \<^verbatim>\<open>strings.TrimSpace\<close> removes the white space of Unicode at both ends; a string is its UTF-8
  bytes, and the list has the encodings of the characters of that class.
\<close>

definition space_runes :: "string list" where
  "space_runes = map (map char_of)
     ([[9], [10], [11], [12], [13], [32], [194, 133], [194, 160], [225, 154, 128],
       [226, 128, 168], [226, 128, 169], [226, 128, 175], [226, 129, 159], [227, 128, 128]] @
      map (\<lambda>n. [226, 128, 128 + n :: nat]) [0..<11])"

function trim_front :: "string list \<Rightarrow> string \<Rightarrow> string" where
  "trim_front runes s =
     (case find (\<lambda>r. r \<noteq> [] \<and> prefix r s) runes of
        None \<Rightarrow> s
      | Some r \<Rightarrow> trim_front runes (drop (length r) s))"
  by pat_completeness auto
termination
  by (relation "measure (\<lambda>(runes, s). length s)") (auto simp: find_Some_iff prefix_def)

declare trim_front.simps [simp del]

definition strings_TrimSpace :: "string \<Rightarrow> string" where
  "strings_TrimSpace s = rev (trim_front (map rev space_runes) (rev (trim_front space_runes s)))"

lemma trim_empty: "strings_TrimSpace [] = []"
  by code_simp

text \<open>
  Case folding of the letters of ASCII. Other characters keep their case, so that a text with them is
  never equal to a folded text of ASCII letters, digits and punctuation.
\<close>

definition ascii_lower :: "char \<Rightarrow> char" where
  "ascii_lower c = (let n = of_char c :: nat in if 65 \<le> n \<and> n \<le> 90 then char_of (n + 32) else c)"

definition strings_ToLower :: "string \<Rightarrow> string" where
  "strings_ToLower s = map ascii_lower s"

section \<open>Base 64\<close>

text \<open>\<^verbatim>\<open>base64.RawURLEncoding\<close>: six bits per character, no padding.\<close>

definition b64url_digit :: "nat \<Rightarrow> char" where
  "b64url_digit d =
     (if d < 26 then char_of (65 + d) else if d < 52 then char_of (71 + d)
      else if d < 62 then char_of (d - 4) else if d = 62 then CHR ''-'' else CHR ''_'')"

fun b64url_groups :: "nat list \<Rightarrow> nat list" where
  "b64url_groups [] = []"
| "b64url_groups [a] = [a div 4, a mod 4 * 16]"
| "b64url_groups [a, b] = [a div 4, a mod 4 * 16 + b div 16, b mod 16 * 4]"
| "b64url_groups (a # b # c # rest) =
     [a div 4, a mod 4 * 16 + b div 16, b mod 16 * 4 + c div 64, c mod 64] @ b64url_groups rest"

definition RawURLEncoding :: "bytes \<Rightarrow> string" where
  "RawURLEncoding bs = map b64url_digit (b64url_groups (map unat bs))"

lemma RawURLEncoding_nonempty: "bs \<noteq> [] \<Longrightarrow> RawURLEncoding bs \<noteq> []"
  by (cases "map unat bs" rule: b64url_groups.cases) (auto simp: RawURLEncoding_def)

section \<open>Documents\<close>

text \<open>\<^verbatim>\<open>encoding/json\<close> for one document type is a parameter.\<close>

record 'a jcodec =
  jc_Marshal :: "'a \<Rightarrow> bytes option"
  jc_Unmarshal :: "bytes \<Rightarrow> 'a option"

text \<open>The value survives encoding and decoding.\<close>

definition round_trips :: "'a jcodec \<Rightarrow> 'a \<Rightarrow> bool" where
  "round_trips C x \<longleftrightarrow> (\<exists>d. jc_Marshal C x = Some d \<and> jc_Unmarshal C d = Some x)"

definition str_bytes :: "string \<Rightarrow> bytes" where
  "str_bytes s = map (\<lambda>c. word_of_nat (of_char c)) s"

lemma str_bytes_inj [simp]: "str_bytes s = str_bytes t \<longleftrightarrow> s = t"
proof -
  have "inj (\<lambda>c :: char. word_of_nat (of_char c) :: byte)"
  proof (rule injI)
    fix c d :: char
    assume "(word_of_nat (of_char c) :: byte) = word_of_nat (of_char d)"
    then have "unat (word_of_nat (of_char c) :: byte) = unat (word_of_nat (of_char d) :: byte)" by simp
    then have "(of_char c :: nat) = of_char d"
      by (simp add: unat_of_nat)
    then show "c = d" by simp
  qed
  then show ?thesis by (simp add: str_bytes_def inj_map_eq_map)
qed

section \<open>Time\<close>

text \<open>
  A \<open>gotime\<close> counts the nanoseconds since Go's zero time (year 1); \<open>UnixNano\<close> is
  the 64-bit value the code serializes.
\<close>

definition IsZero :: "gotime \<Rightarrow> bool" where
  "IsZero t \<longleftrightarrow> t = 0"

definition unix_epoch :: gotime where
  "unix_epoch = 62135596800 * 10 ^ 9"

definition UnixNano :: "gotime \<Rightarrow> u64" where
  "UnixNano t = word_of_int (t - unix_epoch)"

definition time_Second :: duration where "time_Second = 10 ^ 9"
definition time_Minute :: duration where "time_Minute = 60 * time_Second"
definition time_Hour :: duration where "time_Hour = 60 * time_Minute"

lemmas durations = time_Second_def time_Minute_def time_Hour_def

end
