(* ===== verification/Reliability.thy ===== *)
theory Reliability
  imports GoLib Complex_Main
begin

text \<open>
  \<^verbatim>\<open>internal/reliability\<close>: exponential backoff with full jitter and the retry loop
  (\<^verbatim>\<open>backoff.go\<close>), and the wrapper of the circuit breaker (\<^verbatim>\<open>breaker.go\<close>).

  The multiplier is a \<^verbatim>\<open>float64\<close> in the source; here delays are computed exactly with
  rational numbers, which is what the source computes for the default multiplier 2.0 and
  a base below 2 to the 53 nanoseconds (products with powers of two are exact, and a
  product past the range of a float64 exceeds the cap in both).
\<close>

section \<open>Errors of contexts and retries\<close>

datatype go_err =
    Canceled
  | DeadlineExceeded
  | Fail string
  | ErrOpenState
  | ErrTooManyRequests
  | ErrRetryBudgetExhausted
  | retryError go_err
  | ErrCircuitOpen go_err

text \<open>\<^verbatim>\<open>errors.Is\<close>: the error itself or one it wraps.\<close>

fun errors_Is :: "go_err \<Rightarrow> go_err \<Rightarrow> bool" where
  "errors_Is (retryError e) t \<longleftrightarrow> t = retryError e \<or> t = ErrRetryBudgetExhausted \<or> errors_Is e t"
| "errors_Is e t \<longleftrightarrow> e = t"

section \<open>Backoff\<close>

record Backoff =
  bo_base :: duration
  bo_cap :: duration
  bo_factor :: rat
  bo_attempt :: nat

datatype BackoffOption = WithFactor rat

definition apply_option :: "BackoffOption \<Rightarrow> Backoff \<Rightarrow> Backoff" where
  "apply_option opt b = (case opt of WithFactor f \<Rightarrow> if f > 1 then b\<lparr>bo_factor := f\<rparr> else b)"

text \<open>\<open>None\<close> is the panic.\<close>

definition NewBackoff :: "duration \<Rightarrow> duration \<Rightarrow> BackoffOption list \<Rightarrow> Backoff option" where
  "NewBackoff base cap opts =
     (if base \<le> 0 \<or> cap \<le> 0 \<or> base > cap then None
      else Some (fold apply_option opts
        \<lparr>bo_base = base, bo_cap = cap, bo_factor = 2, bo_attempt = 0\<rparr>))"

text \<open>\<open>rnd\<close> is the random source: \<open>rnd m\<close> is a draw from \<open>[0, m)\<close>.\<close>

definition sampleJitter :: "(int \<Rightarrow> int) \<Rightarrow> duration \<Rightarrow> duration" where
  "sampleJitter rnd m = (if m \<le> 0 then 0 else rnd m)"

definition next_bound :: "Backoff \<Rightarrow> duration" where
  "next_bound b =
     (let e = of_int (bo_base b) * bo_factor b ^ bo_attempt b
      in \<lfloor>if e > of_int (bo_cap b) then of_int (bo_cap b) else e\<rfloor>)"

definition Next :: "(int \<Rightarrow> int) \<Rightarrow> Backoff \<Rightarrow> duration \<times> Backoff" where
  "Next rnd b = (sampleJitter rnd (next_bound b), b\<lparr>bo_attempt := Suc (bo_attempt b)\<rparr>)"

definition bo_Reset :: "Backoff \<Rightarrow> Backoff" where
  "bo_Reset b = b\<lparr>bo_attempt := 0\<rparr>"

section \<open>Retrying\<close>

text \<open>
  What the loop meets in iteration \<open>i\<close>: the state of the context before the call, the
  outcome of the call, the random draw, and whether the context ends during a sleep.
\<close>

record retry_env =
  re_ctx :: "nat \<Rightarrow> go_err option"
  re_fn :: "nat \<Rightarrow> go_err option"
  re_rnd :: "nat \<Rightarrow> int \<Rightarrow> int"
  re_sleep :: "nat \<Rightarrow> go_err option"

definition wait :: "retry_env \<Rightarrow> nat \<Rightarrow> duration \<Rightarrow> go_err option" where
  "wait env i d = (if d \<le> 0 then None else re_sleep env i)"

definition exhausted :: "go_err option \<Rightarrow> go_err option" where
  "exhausted lastErr =
     (case lastErr of None \<Rightarrow> Some ErrRetryBudgetExhausted | Some e \<Rightarrow> Some (retryError e))"

text \<open>
  The loop returns the error (\<open>None\<close> for nil), the backoff and the number of calls it
  made; with \<open>attempts = 0\<close> it may run forever, which is the outer \<open>None\<close>.
\<close>

partial_function (option) retry_loop ::
  "retry_env \<Rightarrow> int \<Rightarrow> nat \<Rightarrow> go_err option \<Rightarrow> Backoff \<Rightarrow> (go_err option \<times> Backoff \<times> nat) option" where
  "retry_loop env attempts i lastErr b =
     (if \<not> (attempts = 0 \<or> int i < attempts) then Some (exhausted lastErr, b, i)
      else
        (case re_ctx env i of
           Some e \<Rightarrow> Some (Some e, b, i)
         | None \<Rightarrow>
             (case re_fn env i of
                None \<Rightarrow> Some (None, b, Suc i)
              | Some e \<Rightarrow>
                  if errors_Is e Canceled then Some (Some e, b, Suc i)
                  else if attempts > 0 \<and> int i = attempts - 1 then Some (exhausted (Some e), b, Suc i)
                  else
                    (case Next (re_rnd env i) b of (d, b') \<Rightarrow>
                       (case wait env i d of
                          Some e' \<Rightarrow> Some (Some e', b', Suc i)
                        | None \<Rightarrow> retry_loop env attempts (Suc i) (Some e) b')))))"

definition Retry :: "retry_env \<Rightarrow> Backoff \<Rightarrow> int \<Rightarrow> (go_err option \<times> Backoff \<times> nat) option" where
  "Retry env b attempts = retry_loop env attempts 0 None b"

section \<open>The breaker\<close>

record BreakerConfig =
  bc_Name :: string
  bc_MaxRequests :: u32
  bc_Interval :: duration
  bc_Timeout :: duration
  bc_FailureThreshold :: u32

definition breaker_defaults :: "BreakerConfig \<Rightarrow> BreakerConfig" where
  "breaker_defaults cfg =
     (let c1 = (if bc_FailureThreshold cfg = 0 then cfg\<lparr>bc_FailureThreshold := 5\<rparr> else cfg);
          c2 = (if bc_MaxRequests c1 = 0 then c1\<lparr>bc_MaxRequests := 1\<rparr> else c1);
          c3 = (if bc_Interval c2 = 0 then c2\<lparr>bc_Interval := 60 * time_Second\<rparr> else c2)
      in if bc_Timeout c3 = 0 then c3\<lparr>bc_Timeout := 30 * time_Second\<rparr> else c3)"

definition ReadyToTrip :: "BreakerConfig \<Rightarrow> u32 \<Rightarrow> bool" where
  "ReadyToTrip cfg consecutiveFailures \<longleftrightarrow> consecutiveFailures \<ge> bc_FailureThreshold cfg"

definition IsExcluded :: "go_err \<Rightarrow> bool" where
  "IsExcluded e \<longleftrightarrow> errors_Is e Canceled \<or> errors_Is e DeadlineExceeded"

text \<open>
  The library \<^verbatim>\<open>sony/gobreaker\<close> is a parameter: given its state and the outcome the
  wrapped function would have, it answers with the error it returns, whether it called the
  function, the state changes it announced, and its new state.
\<close>

datatype cb_state = StateClosed | StateHalfOpen | StateOpen

type_synonym 'c gobreaker =
  "'c \<Rightarrow> go_err option \<Rightarrow> go_err option \<times> bool \<times> (cb_state \<times> cb_state) list \<times> 'c"

record 'c Breaker =
  br_cb :: 'c
  br_totalOpens :: u64
  br_totalRejects :: u64

definition NewBreaker :: "(BreakerConfig \<Rightarrow> 'c) \<Rightarrow> BreakerConfig \<Rightarrow> 'c Breaker option" where
  "NewBreaker NewCircuitBreaker cfg =
     (if bc_Name cfg = [] then None
      else Some \<lparr>br_cb = NewCircuitBreaker (breaker_defaults cfg), br_totalOpens = 0, br_totalRejects = 0\<rparr>)"

definition OnStateChange :: "cb_state \<times> cb_state \<Rightarrow> 'c Breaker \<Rightarrow> 'c Breaker" where
  "OnStateChange ch b =
     (if snd ch = StateOpen then b\<lparr>br_totalOpens := br_totalOpens b + 1\<rparr> else b)"

definition br_Execute ::
  "'c gobreaker \<Rightarrow> go_err option \<Rightarrow> 'c Breaker \<Rightarrow> go_err option \<times> bool \<times> 'c Breaker" where
  "br_Execute cb fn b =
     (case cb (br_cb b) fn of (r, called, changes, c') \<Rightarrow>
        (let b' = (fold OnStateChange changes b)\<lparr>br_cb := c'\<rparr>
         in (case r of
               None \<Rightarrow> (None, called, b')
             | Some err \<Rightarrow>
                 if errors_Is err ErrOpenState \<or> errors_Is err ErrTooManyRequests
                 then (Some (ErrCircuitOpen err), called, b'\<lparr>br_totalRejects := br_totalRejects b' + 1\<rparr>)
                 else (Some err, called, b'))))"

section \<open>Lemmas\<close>

definition wf_backoff :: "Backoff \<Rightarrow> bool" where
  "wf_backoff b \<longleftrightarrow> 0 < bo_base b \<and> bo_base b \<le> bo_cap b \<and> 1 < bo_factor b"

text \<open>The contract of \<^verbatim>\<open>rand.Int63n\<close>.\<close>

definition fair_rnd :: "(int \<Rightarrow> int) \<Rightarrow> bool" where
  "fair_rnd rnd \<longleftrightarrow> (\<forall>m > 0. 0 \<le> rnd m \<and> rnd m < m)"

definition sample_backoff :: Backoff where
  "sample_backoff = \<lparr>bo_base = 100, bo_cap = 1000, bo_factor = 2, bo_attempt = 0\<rparr>"

definition failing_env :: retry_env where
  "failing_env = \<lparr>re_ctx = (\<lambda>_. None), re_fn = (\<lambda>i. Some (Fail (dec i))), re_rnd = (\<lambda>_ m. m - 1),
     re_sleep = (\<lambda>_. None)\<rparr>"

text \<open>The calls of a breaker, one outcome of the wrapped function after the other.\<close>

fun br_run :: "'c gobreaker \<Rightarrow> go_err option list \<Rightarrow> 'c Breaker \<Rightarrow> (go_err option \<times> bool) list \<times> 'c Breaker" where
  "br_run cb [] b = ([], b)"
| "br_run cb (fn # fns) b =
     (case br_Execute cb fn b of (r, called, b') \<Rightarrow>
        (case br_run cb fns b' of (rs, b'') \<Rightarrow> ((r, called) # rs, b'')))"

text \<open>What the library documents: it rejects without calling, or calls and passes the outcome on.\<close>

definition gobreaker_contract :: "'c gobreaker \<Rightarrow> bool" where
  "gobreaker_contract cb \<longleftrightarrow>
     (\<forall>c fn r called chs c'. cb c fn = (r, called, chs, c') \<longrightarrow>
        (if called then r = fn else r = Some ErrOpenState \<or> r = Some ErrTooManyRequests))"

text \<open>A breaker that is open, for trying the statements.\<close>

definition open_cb :: "nat gobreaker" where
  "open_cb c fn = (if c = 0 then (fn, True, [(StateClosed, StateOpen)], 1) else (Some ErrOpenState, False, [], c))"

lemma fold_options_wf: "wf_backoff b \<Longrightarrow> wf_backoff (fold apply_option opts b)"
proof (induction opts arbitrary: b)
  case (Cons opt opts)
  then have "wf_backoff (apply_option opt b)"
    by (cases opt) (auto simp: apply_option_def wf_backoff_def)
  with Cons.IH show ?case by simp
qed simp

lemma NewBackoff_wf: "NewBackoff base cap opts = Some b \<Longrightarrow> wf_backoff b"
  by (auto simp: NewBackoff_def wf_backoff_def intro!: fold_options_wf [unfolded wf_backoff_def] split: if_splits)

lemma next_bound_range:
  assumes "wf_backoff b"
  shows "1 \<le> next_bound b" "next_bound b \<le> bo_cap b"
    "of_int (next_bound b) \<le> of_int (bo_base b) * bo_factor b ^ bo_attempt b"
proof -
  let ?e = "of_int (bo_base b) * bo_factor b ^ bo_attempt b :: rat"
  have base: "(1::rat) \<le> of_int (bo_base b)" using assms by (simp add: wf_backoff_def)
  have pow: "1 \<le> bo_factor b ^ bo_attempt b" using assms by (simp add: wf_backoff_def one_le_power)
  have "1 * 1 \<le> ?e" using mult_mono [OF base pow] base by simp
  moreover have "(1::rat) \<le> of_int (bo_cap b)" using assms by (simp add: wf_backoff_def)
  ultimately show "1 \<le> next_bound b" by (simp add: next_bound_def Let_def le_floor_iff)
  show "next_bound b \<le> bo_cap b" by (simp add: next_bound_def Let_def floor_le_iff)
  have "of_int (next_bound b) \<le> (if ?e > of_int (bo_cap b) then of_int (bo_cap b) else ?e)"
    unfolding next_bound_def Let_def by (rule of_int_floor_le)
  then show "of_int (next_bound b) \<le> ?e" by (simp split: if_splits)
qed

lemma next_bound_min:
  "next_bound b = \<lfloor>min (of_int (bo_cap b)) (of_int (bo_base b) * bo_factor b ^ bo_attempt b)\<rfloor>"
  unfolding next_bound_def Let_def by (rule arg_cong [where f = floor]) (auto simp: min_def)

lemma next_bound_mono:
  assumes "wf_backoff b"
  shows "next_bound b \<le> next_bound (b\<lparr>bo_attempt := Suc (bo_attempt b)\<rparr>)"
proof -
  let ?e = "of_int (bo_base b) * bo_factor b ^ bo_attempt b :: rat"
  have f: "1 \<le> bo_factor b" "0 < bo_base b" using assms by (simp_all add: wf_backoff_def)
  have "0 \<le> ?e" using f by simp
  then have "?e \<le> ?e * bo_factor b" using f mult_left_mono [of 1 "bo_factor b" ?e] by simp
  then have "min (of_int (bo_cap b)) ?e \<le> min (of_int (bo_cap b)) (?e * bo_factor b)"
    by (rule min.mono [OF order_refl])
  then show ?thesis by (simp add: next_bound_min floor_mono ac_simps)
qed

lemma retry_returns:
  assumes "i \<le> j" "re_ctx env j \<noteq> None \<or> re_fn env j = None \<or> (attempts > 0 \<and> attempts \<le> int j + 1)"
  shows "\<exists>r b' n. retry_loop env attempts i l b = Some (r, b', n) \<and> n \<le> Suc j"
  using assms
proof (induction "j - i" arbitrary: i l b)
  case 0
  then have "i = j" by simp
  with "0.prems" show ?case
    by (subst retry_loop.simps) (auto split: option.splits prod.splits)
next
  case (Suc d)
  then have "i < j" "Suc i \<le> j" "d = j - Suc i" by auto
  with Suc show ?case
    by (subst retry_loop.simps) (auto split: option.splits prod.splits)
qed

text \<open>What holds of an outcome: calls before the last failed, and nil means the last succeeded.\<close>

definition retry_ok :: "retry_env \<Rightarrow> nat \<Rightarrow> go_err option \<times> Backoff \<times> nat \<Rightarrow> bool" where
  "retry_ok env i y \<longleftrightarrow>
     (case y of (r, b', n) \<Rightarrow>
        i \<le> n \<and> (\<forall>k. i \<le> k \<and> Suc k < n \<longrightarrow> re_fn env k \<noteq> None) \<and>
        (r = None \<longleftrightarrow> i < n \<and> re_fn env (n - 1) = None))"

lemma retry_ok_step:
  assumes "re_fn env i \<noteq> None" "retry_ok env (Suc i) y"
  shows "retry_ok env i y"
proof -
  obtain r b' n where y: "y = (r, b', n)" by (cases y) auto
  have "re_fn env k \<noteq> None" if "i \<le> k" "Suc k < n" for k
    using that assms y by (cases "k = i") (auto simp: retry_ok_def)
  moreover have "n = Suc i \<Longrightarrow> re_fn env (n - 1) \<noteq> None" using assms(1) by simp
  ultimately show ?thesis using assms y by (auto simp: retry_ok_def le_Suc_eq)
qed

lemma retry_result:
  assumes "retry_loop env attempts i l b = Some y"
  shows "retry_ok env i y"
proof (rule retry_loop.raw_induct [where P = "\<lambda>env attempts i l b y. retry_ok env i y", OF _ assms],
    goal_cases)
  case (1 loop env attempts i l b y)
  show ?case
  proof (cases "(\<not> (attempts = 0 \<or> int i < attempts)) \<or> re_ctx env i \<noteq> None \<or> re_fn env i = None")
    case True
    with 1(2) show ?thesis by (auto simp: retry_ok_def exhausted_def split: if_splits option.splits)
  next
    case False
    then obtain e where e: "re_fn env i = Some e" "re_ctx env i = None" by auto
    show ?thesis
    proof (cases "loop env attempts (Suc i) (Some e) (snd (Next (re_rnd env i) b)) = Some y")
      case True
      then have "retry_ok env (Suc i) y" by (rule 1(1))
      with e(1) show ?thesis using retry_ok_step [of env i y] by simp
    next
      case rec: False
      with 1(2) e False show ?thesis
        by (auto simp: retry_ok_def exhausted_def split: if_splits option.splits prod.splits)
    qed
  qed
qed

lemma retry_all_fail:
  assumes "\<And>k. re_ctx env k = None" "\<And>k. re_sleep env k = None"
    and "\<And>k. k < n \<Longrightarrow> \<exists>e. re_fn env k = Some e \<and> \<not> errors_Is e Canceled"
    and "i < n"
  shows "\<exists>b'. retry_loop env (int n) i l b = Some (Some (retryError (the (re_fn env (n - 1)))), b', n)"
  using assms(4)
proof (induction "n - i" arbitrary: i l b)
  case (Suc d)
  obtain e where e: "re_fn env i = Some e" "\<not> errors_Is e Canceled" using assms(3) Suc.prems by blast
  show ?case
  proof (cases "Suc i = n")
    case True
    with e assms(1) show ?thesis by (subst retry_loop.simps) (auto simp: exhausted_def)
  next
    case False
    with Suc have IH: "\<exists>b'. retry_loop env (int n) (Suc i) l' b2 =
        Some (Some (retryError (the (re_fn env (n - 1)))), b', n)" for l' b2
      by auto
    have "retry_loop env (int n) i l b = retry_loop env (int n) (Suc i) (Some e) (snd (Next (re_rnd env i) b))"
      using e assms(1,2) False Suc.prems
      by (subst retry_loop.simps) (auto simp: wait_def split: prod.splits)
    with IH show ?thesis by simp
  qed
qed simp

lemma OnStateChange_fold:
  "br_totalRejects (fold OnStateChange chs b) = br_totalRejects b"
  "br_totalOpens (fold OnStateChange chs b) = br_totalOpens b + of_nat (length (filter (\<lambda>ch. snd ch = StateOpen) chs))"
  by (induction chs arbitrary: b) (auto simp: OnStateChange_def)

lemma Execute_outcome:
  assumes "gobreaker_contract cb" "br_Execute cb fn b = (r, called, b1)"
    and "\<And>e. fn = Some e \<Longrightarrow> \<not> errors_Is e ErrOpenState \<and> \<not> errors_Is e ErrTooManyRequests"
  shows "(if called then r = fn else (\<exists>e. r = Some (ErrCircuitOpen e))) \<and>
    br_totalRejects b1 = br_totalRejects b + (if called then 0 else 1)"
proof -
  obtain r0 c0 chs c' where cb: "cb (br_cb b) fn = (r0, c0, chs, c')" by (cases "cb (br_cb b) fn") auto
  with assms(1) have "if c0 then r0 = fn else r0 = Some ErrOpenState \<or> r0 = Some ErrTooManyRequests"
    unfolding gobreaker_contract_def by blast
  with cb assms(2,3) show ?thesis
    by (cases fn; cases c0) (auto simp: br_Execute_def Let_def OnStateChange_fold)
qed

section \<open>Properties\<close>

text \<open>
  Backoff stays in its bounds. A backoff is constructed exactly for
  \<open>0 < base \<le> cap\<close>; each delay is at least 0, below the cap and below
  \<open>base * factor ^ attempt\<close>, the attempt counter advances, and the bound never shrinks.
\<close>

theorem backoff_bounds:
  assumes "NewBackoff base cap opts = Some b0" "b = b0\<lparr>bo_attempt := k\<rparr>" "fair_rnd rnd"
    and "Next rnd b = (d, b')"
  shows "0 < base \<and> base \<le> cap \<and> 0 \<le> d \<and> d < bo_cap b \<and>
    of_int d < of_int (bo_base b) * bo_factor b ^ k \<and>
    b' = b0\<lparr>bo_attempt := Suc k\<rparr> \<and> next_bound b \<le> next_bound b'"
proof -
  have wf: "wf_backoff b" using NewBackoff_wf [OF assms(1)] assms(2) by (simp add: wf_backoff_def)
  note range = next_bound_range [OF wf]
  have d: "d = rnd (next_bound b)" "b' = b\<lparr>bo_attempt := Suc (bo_attempt b)\<rparr>"
    using assms(4) range(1) by (auto simp: Next_def sampleJitter_def)
  then have lt: "0 \<le> d" "d < next_bound b" using assms(3) range(1) by (auto simp: fair_rnd_def)
  then have "(of_int d :: rat) < of_int (next_bound b)" by simp
  with range lt d next_bound_mono [OF wf] assms(1,2) show ?thesis
    by (auto simp: NewBackoff_def split: if_splits)
qed

theorem backoff_bounds_witness:
  "\<exists>d b'. Next (\<lambda>m. m - 1) (sample_backoff\<lparr>bo_attempt := 2\<rparr>) = (d, b') \<and> 0 \<le> d \<and> d < 1000"
proof -
  obtain d b' where n: "Next (\<lambda>m. m - 1) (sample_backoff\<lparr>bo_attempt := 2\<rparr>) = (d, b')" by fastforce
  have "NewBackoff 100 1000 [] = Some sample_backoff" by (simp add: NewBackoff_def sample_backoff_def)
  from backoff_bounds [OF this refl _ n] n show ?thesis by (simp add: fair_rnd_def sample_backoff_def)
qed

text \<open>
  C37: the retry loop. With a positive number of attempts it always returns, after at most
  that many calls; with none it returns as soon as a call succeeds or the context ends.
  It returns nil exactly when its last call succeeded, all earlier ones having failed; and
  when every call fails and nothing is cancelled, it makes exactly the allowed number of
  calls and returns the last error wrapped as an exhausted budget.
\<close>

theorem retry_correct:
  "(attempts > 0 \<longrightarrow> (\<exists>r b' n. Retry env b attempts = Some (r, b', n) \<and> n \<le> nat attempts)) \<and>
   (attempts = 0 \<and> (re_ctx env j \<noteq> None \<or> re_fn env j = None) \<longrightarrow>
      (\<exists>r b' n. Retry env b attempts = Some (r, b', n) \<and> n \<le> Suc j)) \<and>
   (Retry env b attempts = Some (r, b', n) \<longrightarrow>
      (\<forall>k. Suc k < n \<longrightarrow> re_fn env k \<noteq> None) \<and>
      (r = None \<longleftrightarrow> 0 < n \<and> re_fn env (n - 1) = None)) \<and>
   (attempts > 0 \<and> (\<forall>k. re_ctx env k = None \<and> re_sleep env k = None \<and>
        (\<exists>e. re_fn env k = Some e \<and> \<not> errors_Is e Canceled)) \<longrightarrow>
      (\<exists>b'. Retry env b attempts =
         Some (Some (retryError (the (re_fn env (nat attempts - 1)))), b', nat attempts)))"
proof (intro conjI impI)
  assume a: "attempts > 0"
  then show "\<exists>r b' n. Retry env b attempts = Some (r, b', n) \<and> n \<le> nat attempts"
    using retry_returns [of 0 "nat attempts - 1" env attempts None b] by (auto simp: Retry_def)
next
  assume "attempts = 0 \<and> (re_ctx env j \<noteq> None \<or> re_fn env j = None)"
  then show "\<exists>r b' n. Retry env b attempts = Some (r, b', n) \<and> n \<le> Suc j"
    using retry_returns [of 0 j env attempts None b] by (auto simp: Retry_def)
next
  assume "Retry env b attempts = Some (r, b', n)"
  then have "retry_ok env 0 (r, b', n)" unfolding Retry_def by (rule retry_result)
  then show "\<forall>k. Suc k < n \<longrightarrow> re_fn env k \<noteq> None" "r = None \<longleftrightarrow> 0 < n \<and> re_fn env (n - 1) = None"
    by (auto simp: retry_ok_def)
next
  assume "attempts > 0 \<and> (\<forall>k. re_ctx env k = None \<and> re_sleep env k = None \<and>
        (\<exists>e. re_fn env k = Some e \<and> \<not> errors_Is e Canceled))"
  then show "\<exists>b'. Retry env b attempts =
      Some (Some (retryError (the (re_fn env (nat attempts - 1)))), b', nat attempts)"
    using retry_all_fail [of env "nat attempts" 0 None b] by (auto simp: Retry_def)
qed

theorem retry_correct_witness:
  "\<exists>b'. Retry failing_env sample_backoff 3 = Some (Some (retryError (Fail ''2'')), b', 3)"
  using conjunct2 [OF conjunct2 [OF conjunct2 [OF retry_correct [of 3 failing_env sample_backoff 0 None sample_backoff 0]]]]
  by (simp add: failing_env_def dec.simps digit_chars)

text \<open>
  The breaker. Over any run, a call whose function was not executed returns the
  open-circuit error, every executed function's outcome is returned verbatim, and the
  reject counter counts exactly the calls that were not executed.
\<close>

theorem breaker_run:
  assumes "gobreaker_contract cb"
    and "\<forall>fn \<in> set fns. \<forall>e. fn = Some e \<longrightarrow> \<not> errors_Is e ErrOpenState \<and> \<not> errors_Is e ErrTooManyRequests"
    and "br_run cb fns b = (rs, b')"
  shows "length rs = length fns \<and>
    list_all2 (\<lambda>fn (r, called). if called then r = fn else (\<exists>e. r = Some (ErrCircuitOpen e))) fns rs \<and>
    br_totalRejects b' = br_totalRejects b + of_nat (length (filter (\<lambda>(r, called). \<not> called) rs))"
  using assms(2,3)
proof (induction fns arbitrary: b rs)
  case (Cons fn fns)
  obtain r called b1 rs1 where step: "br_Execute cb fn b = (r, called, b1)" "br_run cb fns b1 = (rs1, b')"
    "rs = (r, called) # rs1"
    using Cons.prems(2) by (auto split: prod.splits)
  have "(if called then r = fn else (\<exists>e. r = Some (ErrCircuitOpen e))) \<and>
    br_totalRejects b1 = br_totalRejects b + (if called then 0 else 1)"
    using Execute_outcome [OF assms(1) step(1)] Cons.prems(1) by simp
  with Cons.IH [OF _ step(2)] Cons.prems(1) step(3) show ?case by auto
qed simp

theorem breaker_run_witness:
  "\<exists>rs b'. br_run open_cb [Some (Fail ''x''), None] \<lparr>br_cb = 0, br_totalOpens = 0, br_totalRejects = 0\<rparr> = (rs, b')
     \<and> br_totalRejects b' = 1"
proof -
  obtain rs b' where run:
    "br_run open_cb [Some (Fail ''x''), None] \<lparr>br_cb = 0, br_totalOpens = 0, br_totalRejects = 0\<rparr> = (rs, b')"
    by fastforce
  then have "rs = [(Some (Fail ''x''), True), (Some (ErrCircuitOpen ErrOpenState), False)]"
    by (simp add: br_Execute_def open_cb_def Let_def OnStateChange_def)
  moreover have "gobreaker_contract open_cb"
    by (auto simp: gobreaker_contract_def open_cb_def split: if_splits)
  ultimately have "br_totalRejects b' = 1" using breaker_run [OF _ _ run] by simp
  with run show ?thesis by blast
qed

end
