(* ===== verification/Authz.thy ===== *)
theory Authz
  imports GoLib Models "HOL-Library.List_Lexorder" "HOL-Library.Char_ord"
begin

text \<open>
  Role-based access control of \<^verbatim>\<open>internal/authz\<close>: the policy types (\<^verbatim>\<open>types.go\<close>), the
  loader that hydrates, expands and validates a policy (\<^verbatim>\<open>loader.go\<close>), the decision engine
  (\<^verbatim>\<open>engine.go\<close>), hot reload and its diff (\<^verbatim>\<open>reload.go\<close>), the HTTP middleware
  (\<^verbatim>\<open>middleware.go\<close>) and the reload endpoint (\<^verbatim>\<open>admin.go\<close>).

  A Go map is an association list with distinct keys; its order is the order an iteration
  may take. The YAML decoder is a parameter.
\<close>

section \<open>Policies\<close>

definition Wildcard :: string where "Wildcard = ''*''"
definition ActionAdmin :: string where "ActionAdmin = ''admin''"
definition ValueNotSelf :: string where "ValueNotSelf = ''not-self''"

record Condition =
  c_Key :: string
  c_Value :: string

record Permission =
  p_Resource :: string
  p_Action :: string
  p_Conditions :: "Condition list"

record Role =
  r_Name :: string
  r_Description :: string
  r_Inherits :: "string list"
  r_Permissions :: "Permission list"

record Policy =
  pol_Version :: int
  pol_Roles :: "(string \<times> Role) list"

datatype authz_error =
    ErrPolicyMalformed
  | ErrPolicyNoAdmin
  | ErrPolicyInheritsCycle string string
  | ErrPolicyInheritsUnknown string string
  | ErrPolicyEmptyRoleName
  | ErrPolicyEmptyPermission string
  | ErrPolicyWildcardOnNonAdmin string
  | ErrEngineNotInitialized
  | ErrRead

record Decision =
  d_Allowed :: bool
  d_Role :: string
  d_Permission :: "Permission option"
  d_Reason :: string

section \<open>The loader\<close>

record yamlPermission =
  yp_Resource :: string
  yp_Action :: string
  yp_Conditions :: "(string \<times> string) list"

record yamlRole =
  yr_Description :: string
  yr_Inherits :: "string list"
  yr_Permissions :: "yamlPermission list"

record yamlPolicy =
  y_Version :: int
  y_Roles :: "(string \<times> yamlRole) list"

text \<open>Conditions are listed in the order of their sorted keys.\<close>

definition hydrate_conditions :: "(string \<times> string) list \<Rightarrow> Condition list" where
  "hydrate_conditions conds =
     map (\<lambda>k. \<lparr>c_Key = k, c_Value = the (map_of conds k)\<rparr>) (sort (map fst conds))"

definition hydrate_permission :: "yamlPermission \<Rightarrow> Permission" where
  "hydrate_permission yp =
     \<lparr>p_Resource = yp_Resource yp, p_Action = yp_Action yp,
      p_Conditions = hydrate_conditions (yp_Conditions yp)\<rparr>"

fun hydrate_permissions :: "string \<Rightarrow> yamlPermission list \<Rightarrow> authz_error + Permission list" where
  "hydrate_permissions name [] = Inr []"
| "hydrate_permissions name (yp # yps) =
     (if yp_Resource yp = [] \<or> yp_Action yp = [] then Inl (ErrPolicyEmptyPermission name)
      else
        (case hydrate_permissions name yps of
           Inl e \<Rightarrow> Inl e
         | Inr ps \<Rightarrow> Inr (hydrate_permission yp # ps)))"

fun hydrate_roles :: "(string \<times> yamlRole) list \<Rightarrow> authz_error + (string \<times> Role) list" where
  "hydrate_roles [] = Inr []"
| "hydrate_roles ((name, yr) # rest) =
     (if name = [] then Inl ErrPolicyEmptyRoleName
      else
        (case hydrate_permissions name (yr_Permissions yr) of
           Inl e \<Rightarrow> Inl e
         | Inr perms \<Rightarrow>
             (case hydrate_roles rest of
                Inl e \<Rightarrow> Inl e
              | Inr roles \<Rightarrow>
                  Inr ((name, \<lparr>r_Name = name, r_Description = yr_Description yr,
                              r_Inherits = yr_Inherits yr, r_Permissions = perms\<rparr>) # roles))))"

text \<open>
  \<open>expandInherits roles seen rname parents\<close> is the loop over the parents of the role
  \<open>rname\<close>; \<open>seen\<close> holds the roles on the visit stack. The source adds a parent before it
  descends and deletes it afterwards, so the set after an iteration is the one before it.
\<close>

function expandInherits ::
  "(string \<times> Role) list \<Rightarrow> string set \<Rightarrow> string \<Rightarrow> string list \<Rightarrow> authz_error + Permission list" where
  "expandInherits roles seen rname [] = Inr []"
| "expandInherits roles seen rname (parent # parents) =
     (if parent \<in> seen then Inl (ErrPolicyInheritsCycle rname parent)
      else
        (case map_of roles parent of
           None \<Rightarrow> Inl (ErrPolicyInheritsUnknown rname parent)
         | Some pr \<Rightarrow>
             (case expandInherits roles (insert parent seen) (r_Name pr) (r_Inherits pr) of
                Inl e \<Rightarrow> Inl e
              | Inr grand \<Rightarrow>
                  (case expandInherits roles seen rname parents of
                     Inl e \<Rightarrow> Inl e
                   | Inr rest \<Rightarrow> Inr (r_Permissions pr @ grand @ rest)))))"
  by pat_completeness auto
termination
proof (relation "measures [\<lambda>(roles, seen, _, _). card (fst ` set roles - seen),
    \<lambda>(_, _, _, parents). length parents]", goal_cases)
  case (2 roles seen rname parent parents pr)
  then have "parent \<in> fst ` set roles - seen" by (force dest: map_of_SomeD)
  then have "card (fst ` set roles - insert parent seen) < card (fst ` set roles - seen)"
    by (intro psubset_card_mono) auto
  then show ?case by simp
qed auto

definition condition_key :: "Condition \<Rightarrow> string" where
  "condition_key c = '';'' @ c_Key c @ ''='' @ c_Value c"

definition permissionKey :: "Permission \<Rightarrow> string" where
  "permissionKey p = p_Resource p @ '':'' @ p_Action p @ concat (map condition_key (p_Conditions p))"

fun dedup_loop :: "string list \<Rightarrow> Permission list \<Rightarrow> Permission list" where
  "dedup_loop seen [] = []"
| "dedup_loop seen (p # ps) =
     (if permissionKey p \<in> set seen then dedup_loop seen ps
      else p # dedup_loop (permissionKey p # seen) ps)"

definition dedupPermissions :: "Permission list \<Rightarrow> Permission list" where
  "dedupPermissions perms = dedup_loop [] perms"

text \<open>The second pass updates the roles in place, one after the other.\<close>

fun expand_roles :: "string list \<Rightarrow> (string \<times> Role) list \<Rightarrow> authz_error + (string \<times> Role) list" where
  "expand_roles [] roles = Inr roles"
| "expand_roles (name # names) roles =
     (case map_of roles name of
        None \<Rightarrow> expand_roles names roles
      | Some role \<Rightarrow>
          (case expandInherits roles {r_Name role} (r_Name role) (r_Inherits role) of
             Inl e \<Rightarrow> Inl e
           | Inr expanded \<Rightarrow>
               expand_roles names
                 (AList.update name
                    (role\<lparr>r_Permissions := dedupPermissions (r_Permissions role @ expanded)\<rparr>) roles)))"

definition is_wild_admin :: "Permission \<Rightarrow> bool" where
  "is_wild_admin p \<longleftrightarrow> p_Resource p = Wildcard \<and> p_Action p = ActionAdmin \<and> p_Conditions p = []"

definition is_wild_other :: "Permission \<Rightarrow> bool" where
  "is_wild_other p \<longleftrightarrow> p_Resource p = Wildcard \<and> p_Action p \<noteq> ActionAdmin"

fun validate_loop :: "(string \<times> Role) list \<Rightarrow> bool \<Rightarrow> authz_error option" where
  "validate_loop [] hasAdmin = (if \<not> hasAdmin then Some ErrPolicyNoAdmin else None)"
| "validate_loop ((name, role) # roles) hasAdmin =
     (if list_ex is_wild_other (r_Permissions role)
      then Some (ErrPolicyWildcardOnNonAdmin (r_Name role))
      else validate_loop roles (hasAdmin \<or> list_ex is_wild_admin (r_Permissions role)))"

definition validate :: "Policy \<Rightarrow> authz_error option" where
  "validate policy = validate_loop (pol_Roles policy) False"

definition LoadBytes :: "(bytes \<Rightarrow> yamlPolicy option) \<Rightarrow> bytes \<Rightarrow> authz_error + Policy" where
  "LoadBytes yaml data =
     (case yaml data of
        None \<Rightarrow> Inl ErrPolicyMalformed
      | Some raw \<Rightarrow>
          (case hydrate_roles (y_Roles raw) of
             Inl e \<Rightarrow> Inl e
           | Inr roles \<Rightarrow>
               (case expand_roles (map fst roles) roles of
                  Inl e \<Rightarrow> Inl e
                | Inr roles' \<Rightarrow>
                    (let policy = \<lparr>pol_Version = y_Version raw, pol_Roles = roles'\<rparr>
                     in (case validate policy of Some e \<Rightarrow> Inl e | None \<Rightarrow> Inr policy)))))"

definition Load :: "(bytes \<Rightarrow> yamlPolicy option) \<Rightarrow> bytes option \<Rightarrow> authz_error + Policy" where
  "Load yaml file = (case file of None \<Rightarrow> Inl ErrRead | Some data \<Rightarrow> LoadBytes yaml data)"

section \<open>The engine\<close>

record Principal =
  pr_ID :: string
  pr_Type :: string
  pr_Subject :: string
  pr_DisplayName :: string
  pr_Status :: string
  pr_Roles :: "string list"
  pr_Claims :: "(string \<rightharpoonup> gany) option"
  pr_CreatedAt :: gotime
  pr_LastSeenAt :: "gotime option"

type_synonym Engine = "Policy option"

type_synonym attributes = "string \<rightharpoonup> gany"

definition NewEngine :: "Policy option \<Rightarrow> Engine" where
  "NewEngine initial = initial"

definition Replace :: "Policy option \<Rightarrow> Engine \<Rightarrow> Engine" where
  "Replace p e = (case p of None \<Rightarrow> e | Some _ \<Rightarrow> p)"

text \<open>\<^verbatim>\<open>fmt.Sprint\<close> of an attribute value.\<close>

fun sprint :: "gany \<Rightarrow> string" and sprint_list :: "gany list \<Rightarrow> string list"
  and sprint_entries :: "(string \<times> gany) list \<Rightarrow> string list" where
  "sprint (AString s) = s"
| "sprint (AInt i) = (if i < 0 then ''-'' @ dec (nat (- i)) else dec (nat i))"
| "sprint (ABool b) = (if b then ''true'' else ''false'')"
| "sprint (AStrings ss) = ''['' @ strings_Join ss '' '' @ '']''"
| "sprint (AList xs) = ''['' @ strings_Join (sprint_list xs) '' '' @ '']''"
| "sprint (AFloat q t) = t"
| "sprint (AMap kvs) = ''map['' @ strings_Join (sprint_entries kvs) '' '' @ '']''"
| "sprint_list [] = []"
| "sprint_list (x # xs) = sprint x # sprint_list xs"
| "sprint_entries [] = []"
| "sprint_entries ((k, v) # kvs) = (k @ '':'' @ sprint v) # sprint_entries kvs"

definition principalRoles :: "Principal option \<Rightarrow> string list" where
  "principalRoles po =
     (case po of
        None \<Rightarrow> []
      | Some p \<Rightarrow>
          if pr_Roles p \<noteq> [] then pr_Roles p
          else
            (case pr_Claims p of
               None \<Rightarrow> []
             | Some claims \<Rightarrow>
                 (case claims ''roles'' of
                    Some (AStrings v) \<Rightarrow> v
                  | Some (AString v) \<Rightarrow> if v = [] then [] else [v]
                  | Some (AList v) \<Rightarrow>
                      filter (\<lambda>s. s \<noteq> []) (List.map_filter (\<lambda>x. as_string (Some x)) v)
                  | _ \<Rightarrow> [])))"

definition matchesResource :: "string \<Rightarrow> string \<Rightarrow> bool" where
  "matchesResource policy request \<longleftrightarrow> policy = Wildcard \<or> policy = request"

definition matchesAction :: "string \<Rightarrow> string \<Rightarrow> bool" where
  "matchesAction policy request \<longleftrightarrow> policy = ActionAdmin \<or> policy = Wildcard \<or> policy = request"

text \<open>\<open>None\<close> when all conditions hold, otherwise the reason.\<close>

fun evaluateConditions :: "Condition list \<Rightarrow> attributes \<Rightarrow> string option" where
  "evaluateConditions [] attrs = None"
| "evaluateConditions (c # cs) attrs =
     (case attrs (c_Key c) of
        None \<Rightarrow> Some (''condition '' @ c_Key c @ '' missing'')
      | Some got \<Rightarrow>
          if c_Value c = ValueNotSelf then
            (case attrs ''principal_id'' of
               None \<Rightarrow> Some ''principal_id missing for not-self check''
             | Some pid \<Rightarrow>
                 if sprint pid = sprint got
                 then Some (''condition '' @ c_Key c @ ''=not-self failed (self)'')
                 else evaluateConditions cs attrs)
          else if sprint got \<noteq> c_Value c then
            Some (''condition '' @ c_Key c @ ''='' @ c_Value c @ '' not satisfied (got '' @ sprint got @ '')'')
          else evaluateConditions cs attrs)"

definition grants :: "attributes \<Rightarrow> string \<Rightarrow> string \<Rightarrow> Permission \<Rightarrow> bool" where
  "grants attrs resource action perm \<longleftrightarrow>
     matchesResource (p_Resource perm) resource \<and> matchesAction (p_Action perm) action \<and>
     evaluateConditions (p_Conditions perm) attrs = None"

text \<open>The two nested loops: the first grant of the first role that has one.\<close>

fun search_roles ::
  "(string \<times> Role) list \<Rightarrow> attributes \<Rightarrow> string \<Rightarrow> string \<Rightarrow> string list \<Rightarrow> (string \<times> Permission) option" where
  "search_roles roles attrs resource action [] = None"
| "search_roles roles attrs resource action (roleName # names) =
     (case map_of roles roleName of
        None \<Rightarrow> search_roles roles attrs resource action names
      | Some role \<Rightarrow>
          (case find (grants attrs resource action) (r_Permissions role) of
             Some perm \<Rightarrow> Some (roleName, perm)
           | None \<Rightarrow> search_roles roles attrs resource action names))"

definition with_principal_id :: "Principal \<Rightarrow> attributes option \<Rightarrow> attributes" where
  "with_principal_id p attrs =
     (let m = (case attrs of None \<Rightarrow> Map.empty | Some m \<Rightarrow> m)
      in if m ''principal_id'' = None then m(''principal_id'' \<mapsto> AString (pr_ID p)) else m)"

definition Allowed ::
  "Engine \<Rightarrow> Principal option \<Rightarrow> string \<Rightarrow> string \<Rightarrow> attributes option \<Rightarrow> authz_error + Decision" where
  "Allowed e po resource action attrs =
     (case e of
        None \<Rightarrow> Inl ErrEngineNotInitialized
      | Some policy \<Rightarrow>
          (case po of
             None \<Rightarrow> Inr \<lparr>d_Allowed = False, d_Role = [], d_Permission = None,
                           d_Reason = ''denied: nil principal''\<rparr>
           | Some p \<Rightarrow>
               (let roles = principalRoles po
                in if roles = [] then
                     Inr \<lparr>d_Allowed = False, d_Role = [], d_Permission = None,
                          d_Reason = ''denied: principal has no roles''\<rparr>
                   else
                     (case search_roles (pol_Roles policy) (with_principal_id p attrs) resource action roles of
                        Some (roleName, perm) \<Rightarrow>
                          Inr \<lparr>d_Allowed = True, d_Role = roleName, d_Permission = Some perm,
                               d_Reason = ''matched '' @ roleName @ '':'' @ p_Resource perm @ '':'' @ p_Action perm\<rparr>
                      | None \<Rightarrow>
                          Inr \<lparr>d_Allowed = False, d_Role = [], d_Permission = None,
                               d_Reason = ''denied: no grant for '' @ resource @ '':'' @ action @
                                 '' under roles ['' @ strings_Join roles '' '' @ '']''\<rparr>))))"

definition Explain ::
  "Engine \<Rightarrow> Principal option \<Rightarrow> string \<Rightarrow> string \<Rightarrow> attributes option \<Rightarrow> authz_error + Decision" where
  "Explain e po resource action attrs = Allowed e po resource action attrs"

section \<open>Reloading\<close>

record Diff =
  df_Added :: "string list"
  df_Removed :: "string list"
  df_Modified :: "string list"

definition permissionKeys :: "Permission list \<Rightarrow> string list" where
  "permissionKeys perms = sort (map permissionKey perms)"

definition rolePermsEqual :: "Role \<Rightarrow> Role \<Rightarrow> bool" where
  "rolePermsEqual a b \<longleftrightarrow>
     length (r_Permissions a) = length (r_Permissions b) \<and>
     permissionKeys (r_Permissions a) = permissionKeys (r_Permissions b)"

definition diffPolicies :: "Policy option \<Rightarrow> Policy \<Rightarrow> Diff" where
  "diffPolicies prevo nxt =
     (case prevo of
        None \<Rightarrow> \<lparr>df_Added = sort (map fst (pol_Roles nxt)), df_Removed = [], df_Modified = []\<rparr>
      | Some prev \<Rightarrow>
          \<lparr>df_Added = sort (filter (\<lambda>n. map_of (pol_Roles prev) n = None) (map fst (pol_Roles nxt))),
           df_Removed = sort (filter (\<lambda>n. map_of (pol_Roles nxt) n = None) (map fst (pol_Roles prev))),
           df_Modified = sort (map fst (filter
              (\<lambda>(n, role). case map_of (pol_Roles prev) n of
                             None \<Rightarrow> False
                           | Some old \<Rightarrow> \<not> rolePermsEqual old role) (pol_Roles nxt)))\<rparr>)"

definition Diff_IsEmpty :: "Diff \<Rightarrow> bool" where
  "Diff_IsEmpty d \<longleftrightarrow> df_Added d = [] \<and> df_Removed d = [] \<and> df_Modified d = []"

definition joinNonEmpty :: "string list \<Rightarrow> string \<Rightarrow> string" where
  "joinNonEmpty parts sep = strings_Join (filter (\<lambda>p. p \<noteq> []) parts) sep"

definition Diff_String :: "Diff \<Rightarrow> string" where
  "Diff_String d =
     (if Diff_IsEmpty d then ''no changes''
      else joinNonEmpty
        ((if df_Added d \<noteq> [] then [''added=['' @ strings_Join (df_Added d) '' '' @ '']''] else []) @
         (if df_Removed d \<noteq> [] then [''removed=['' @ strings_Join (df_Removed d) '' '' @ '']''] else []) @
         (if df_Modified d \<noteq> [] then [''modified=['' @ strings_Join (df_Modified d) '' '' @ '']''] else []))
        '' '')"

definition ReloadBytes ::
  "(bytes \<Rightarrow> yamlPolicy option) \<Rightarrow> bytes \<Rightarrow> Engine \<Rightarrow> (authz_error + Diff) \<times> Engine" where
  "ReloadBytes yaml data e =
     (case LoadBytes yaml data of
        Inl err \<Rightarrow> (Inl err, e)
      | Inr nxt \<Rightarrow> (Inr (diffPolicies e nxt), Replace (Some nxt) e))"

definition ReloadFrom ::
  "(bytes \<Rightarrow> yamlPolicy option) \<Rightarrow> bytes option \<Rightarrow> Engine \<Rightarrow> (authz_error + Diff) \<times> Engine" where
  "ReloadFrom yaml file e =
     (case file of None \<Rightarrow> (Inl ErrRead, e) | Some data \<Rightarrow> ReloadBytes yaml data e)"

section \<open>The middleware and the reload endpoint\<close>

record AuditEvent =
  ae_PrincipalID :: string
  ae_Roles :: "string list"
  ae_Resource :: string
  ae_Action :: string
  ae_Decision :: string
  ae_Reason :: string
  ae_Attrs :: attributes

text \<open>
  What the middleware sees of a request: the authenticated principal of its context, the
  common name of a TLS peer and the query parameter \<^verbatim>\<open>subject\<close>.
\<close>

record http_request =
  rq_principal :: "Principal option"
  rq_cn :: "string option"
  rq_subject :: string

definition AttrsFromRequest :: "http_request \<Rightarrow> attributes" where
  "AttrsFromRequest r =
     (let m1 = (case rq_principal r of None \<Rightarrow> Map.empty | Some p \<Rightarrow> [''principal_id'' \<mapsto> AString (pr_ID p)]);
          m2 = (case rq_cn r of None \<Rightarrow> m1 | Some cn \<Rightarrow> m1(''cn'' \<mapsto> AString cn))
      in if rq_subject r = [] then m2 else m2(''subject'' \<mapsto> AString (rq_subject r)))"

datatype mw_outcome = Respond nat | ServeNext

text \<open>The outcome of the request and what the audit sink records.\<close>

definition engine_error_reason :: "authz_error \<Rightarrow> string" where
  "engine_error_reason err =
     (if err = ErrEngineNotInitialized then ''engine error: authz: engine not initialized with a policy''
      else ''engine error: '')"

definition RequirePermission ::
  "Engine \<Rightarrow> string \<Rightarrow> string \<Rightarrow> http_request \<Rightarrow> mw_outcome \<times> AuditEvent list" where
  "RequirePermission e resource action r =
     (case rq_principal r of
        None \<Rightarrow> (Respond 401, [])
      | Some prin \<Rightarrow>
          (let attrs = AttrsFromRequest r;
               ev = \<lparr>ae_PrincipalID = pr_ID prin, ae_Roles = principalRoles (Some prin),
                     ae_Resource = resource, ae_Action = action, ae_Decision = ''deny'',
                     ae_Reason = [], ae_Attrs = attrs\<rparr>
           in (case Allowed e (Some prin) resource action (Some attrs) of
                 Inl err \<Rightarrow> (Respond 500, [ev\<lparr>ae_Reason := engine_error_reason err\<rparr>])
               | Inr decision \<Rightarrow>
                   if \<not> d_Allowed decision then (Respond 403, [ev\<lparr>ae_Reason := d_Reason decision\<rparr>])
                   else (ServeNext, [ev\<lparr>ae_Decision := ''allow'', ae_Reason := d_Reason decision\<rparr>]))))"

text \<open>
  \<open>Allowed\<close> writes the principal's id into the caller's attribute map, which the audit
  event then refers to; a nil map is replaced by a local one and stays nil outside.
\<close>

definition attrs_after :: "Engine \<Rightarrow> Principal option \<Rightarrow> attributes option \<Rightarrow> attributes" where
  "attrs_after e po attrs =
     (case attrs of
        None \<Rightarrow> Map.empty
      | Some m \<Rightarrow>
          (case po of
             Some p \<Rightarrow> if e \<noteq> None \<and> principalRoles po \<noteq> [] then with_principal_id p attrs else m
           | None \<Rightarrow> m))"

definition PrincipalAllowed ::
  "Engine \<Rightarrow> Principal option \<Rightarrow> string \<Rightarrow> string \<Rightarrow> attributes option \<Rightarrow> (authz_error + bool) \<times> AuditEvent list" where
  "PrincipalAllowed e po resource action attrs =
     (let ev = \<lparr>ae_PrincipalID = (case po of None \<Rightarrow> [] | Some p \<Rightarrow> pr_ID p), ae_Roles = principalRoles po,
                ae_Resource = resource, ae_Action = action, ae_Decision = ''deny'', ae_Reason = [],
                ae_Attrs = attrs_after e po attrs\<rparr>
      in (case Allowed e po resource action attrs of
            Inl err \<Rightarrow> (Inl err, [ev\<lparr>ae_Reason := engine_error_reason err\<rparr>])
          | Inr decision \<Rightarrow>
              (Inr (d_Allowed decision),
               [ev\<lparr>ae_Decision := (if d_Allowed decision then ''allow'' else ''deny''),
                   ae_Reason := d_Reason decision\<rparr>])))"

text \<open>
  The reload endpoint: method, content type, the body (\<open>None\<close> when reading it fails) and
  the policy file; the answer is a status, on success the version, the diff and its
  summary, and what the audit sink records. The text of an error (which quotes messages of
  the YAML decoder and of the operating system) is the parameter \<open>err_text\<close>.
\<close>

record reload_request =
  rr_method :: string
  rr_content_type :: string
  rr_body :: "bytes option"

record reload_response =
  rp_version :: int
  rp_diff :: Diff
  rp_summary :: string

definition reload_audit :: "(authz_error \<Rightarrow> string) \<Rightarrow> authz_error + Diff \<Rightarrow> AuditEvent" where
  "reload_audit err_text res =
     \<lparr>ae_PrincipalID = [], ae_Roles = [], ae_Resource = ''config'', ae_Action = ''admin'',
      ae_Decision = (case res of Inl _ \<Rightarrow> ''deny'' | Inr _ \<Rightarrow> ''allow''),
      ae_Reason = (case res of Inl err \<Rightarrow> ''reload failed: '' @ err_text err
                             | Inr d \<Rightarrow> ''reload: '' @ Diff_String d),
      ae_Attrs = Map.empty\<rparr>"

definition reload_reply ::
  "(authz_error \<Rightarrow> string) \<Rightarrow> (authz_error + Diff) \<times> Engine \<Rightarrow>
   nat \<times> reload_response option \<times> AuditEvent list \<times> Engine" where
  "reload_reply err_text re =
     (case re of
        (Inl err, e') \<Rightarrow> (400, None, [reload_audit err_text (Inl err)], e')
      | (Inr diff, e') \<Rightarrow>
          (200, Some \<lparr>rp_version = (case e' of None \<Rightarrow> 0 | Some p \<Rightarrow> pol_Version p), rp_diff = diff,
                      rp_summary = Diff_String diff\<rparr>,
           [reload_audit err_text (Inr diff)], e'))"

definition ReloadHandler ::
  "(bytes \<Rightarrow> yamlPolicy option) \<Rightarrow> (authz_error \<Rightarrow> string) \<Rightarrow> string \<Rightarrow> bytes option \<Rightarrow>
   reload_request \<Rightarrow> Engine \<Rightarrow> nat \<times> reload_response option \<times> AuditEvent list \<times> Engine" where
  "ReloadHandler yaml err_text policyPath file r e =
     (if rr_method r \<noteq> ''POST'' then (405, None, [], e)
      else if rr_content_type r \<in> {''application/x-yaml'', ''text/yaml'', ''application/yaml''} then
        (case rr_body r of
           None \<Rightarrow> (400, None, [], e)
         | Some body \<Rightarrow> reload_reply err_text (ReloadBytes yaml body e))
      else if policyPath = [] then (500, None, [], e)
      else reload_reply err_text (ReloadFrom yaml file e))"

end
