(* ===== verification/Authz_Policy.thy ===== *)
theory Authz_Policy
  imports Authz
begin

text \<open>
  What the policy loader computes: the permissions of a role are those of all roles it
  inherits from, directly or not, whatever the order in which the roles are expanded; the
  loader accepts a policy exactly when it is well formed, acyclic and keeps an
  administrator.
\<close>

section \<open>Hydration\<close>

definition hydrated :: "string \<Rightarrow> yamlRole \<Rightarrow> Role" where
  "hydrated name yr = \<lparr>r_Name = name, r_Description = yr_Description yr, r_Inherits = yr_Inherits yr,
     r_Permissions = map hydrate_permission (yr_Permissions yr)\<rparr>"

definition hydrated_roles :: "(string \<times> yamlRole) list \<Rightarrow> (string \<times> Role) list" where
  "hydrated_roles yrs = map (\<lambda>(n, yr). (n, hydrated n yr)) yrs"

definition well_formed_roles :: "(string \<times> yamlRole) list \<Rightarrow> bool" where
  "well_formed_roles yrs \<longleftrightarrow>
     (\<forall>(n, yr) \<in> set yrs. n \<noteq> [] \<and>
        (\<forall>yp \<in> set (yr_Permissions yr). yp_Resource yp \<noteq> [] \<and> yp_Action yp \<noteq> []))"

lemma hydrate_permissions_iff:
  "hydrate_permissions name yps = Inr ps \<longleftrightarrow>
   (\<forall>yp \<in> set yps. yp_Resource yp \<noteq> [] \<and> yp_Action yp \<noteq> []) \<and> ps = map hydrate_permission yps"
  by (induction yps arbitrary: ps) (auto split: sum.splits, blast)

lemma hydrate_roles_iff:
  "hydrate_roles yrs = Inr roles \<longleftrightarrow> well_formed_roles yrs \<and> roles = hydrated_roles yrs"
proof (induction yrs arbitrary: roles)
  case (Cons nyr yrs)
  obtain n yr where nyr: "nyr = (n, yr)" by force
  show ?case
  proof (cases "hydrate_permissions n (yr_Permissions yr)")
    case (Inl e)
    with hydrate_permissions_iff [of n "yr_Permissions yr"] nyr show ?thesis
      by (auto simp: well_formed_roles_def)
  next
    case (Inr ps)
    then have "(\<forall>yp \<in> set (yr_Permissions yr). yp_Resource yp \<noteq> [] \<and> yp_Action yp \<noteq> [])"
      "ps = map hydrate_permission (yr_Permissions yr)"
      by (auto simp: hydrate_permissions_iff)
    with Inr Cons.IH nyr show ?thesis
      by (auto simp: well_formed_roles_def hydrated_roles_def hydrated_def split: sum.splits) blast
  qed
qed (auto simp: well_formed_roles_def hydrated_roles_def)

lemma hydrated_roles_map_of:
  "map_of (hydrated_roles yrs) n = map_option (hydrated n) (map_of yrs n)"
  by (induction yrs) (auto simp: hydrated_roles_def)

section \<open>The inheritance graph\<close>

definition inh :: "(string \<times> Role) list \<Rightarrow> string \<Rightarrow> string \<Rightarrow> bool" where
  "inh roles a b \<longleftrightarrow> (\<exists>r. map_of roles a = Some r \<and> b \<in> set (r_Inherits r))"

definition perms_of :: "(string \<times> Role) list \<Rightarrow> string \<Rightarrow> Permission set" where
  "perms_of roles a = (case map_of roles a of None \<Rightarrow> {} | Some r \<Rightarrow> set (r_Permissions r))"

definition inherited :: "(string \<times> Role) list \<Rightarrow> string \<Rightarrow> Permission set" where
  "inherited roles a = (\<Union>b \<in> {b. (inh roles)\<^sup>*\<^sup>* a b}. perms_of roles b)"

definition all_known :: "(string \<times> Role) list \<Rightarrow> bool" where
  "all_known roles \<longleftrightarrow> (\<forall>a b. inh roles a b \<longrightarrow> map_of roles b \<noteq> None)"

definition no_cycle :: "(string \<times> Role) list \<Rightarrow> bool" where
  "no_cycle roles \<longleftrightarrow> (\<forall>a. \<not> (inh roles)\<^sup>+\<^sup>+ a a)"

lemma inherited_unfold:
  "inherited roles a = perms_of roles a \<union> (\<Union>b \<in> {b. inh roles a b}. inherited roles b)"
proof -
  have "{b. (inh roles)\<^sup>*\<^sup>* a b} = insert a (\<Union>c \<in> {c. inh roles a c}. {b. (inh roles)\<^sup>*\<^sup>* c b})"
    by (auto elim: converse_rtranclpE intro: converse_rtranclp_into_rtranclp)
  then show ?thesis by (auto simp: inherited_def)
qed

lemma inherited_Some:
  "map_of roles a = Some r \<Longrightarrow>
   inherited roles a = set (r_Permissions r) \<union> (\<Union>b \<in> set (r_Inherits r). inherited roles b)"
  by (subst inherited_unfold) (auto simp: perms_of_def inh_def)

section \<open>Expansion follows the graph\<close>

lemma expand_set:
  "expandInherits roles seen n parents = Inr out \<Longrightarrow> set out = (\<Union>p \<in> set parents. inherited roles p)"
proof (induction roles seen n parents arbitrary: out rule: expandInherits.induct)
  case (2 roles seen n parent parents)
  then show ?case by (auto simp: inherited_Some split: if_splits option.splits sum.splits)
qed simp

lemma expand_avoids:
  "expandInherits roles seen n parents = Inr out \<Longrightarrow> p \<in> set parents \<Longrightarrow> (inh roles)\<^sup>*\<^sup>* p s \<Longrightarrow>
   s \<notin> seen \<and> map_of roles s \<noteq> None"
proof (induction roles seen n parents arbitrary: out p rule: expandInherits.induct)
  case (2 roles seen n parent parents)
  from "2.prems"(1) obtain pr grand rest where ok: "parent \<notin> seen" "map_of roles parent = Some pr"
    "expandInherits roles (insert parent seen) (r_Name pr) (r_Inherits pr) = Inr grand"
    "expandInherits roles seen n parents = Inr rest"
    by (auto split: if_splits option.splits sum.splits)
  show ?case
  proof (cases "p = parent")
    case False
    with "2.prems"(2,3) "2.IH"(2) [OF ok(1,2,3,4)] show ?thesis by auto
  next
    case True
    from "2.prems"(3) show ?thesis
    proof (cases rule: converse_rtranclpE)
      case base
      with True ok show ?thesis by simp
    next
      case (step c)
      with True ok(2) have "c \<in> set (r_Inherits pr)" by (auto simp: inh_def)
      with "2.IH"(1) [OF ok(1,2,3)] step(2) show ?thesis by auto
    qed
  qed
qed simp

lemma expand_succeeds:
  "no_cycle roles \<Longrightarrow>
   (\<And>p s. p \<in> set parents \<Longrightarrow> (inh roles)\<^sup>*\<^sup>* p s \<Longrightarrow> s \<notin> seen \<and> map_of roles s \<noteq> None) \<Longrightarrow>
   \<exists>out. expandInherits roles seen n parents = Inr out"
proof (induction roles seen n parents rule: expandInherits.induct)
  case (2 roles seen n parent parents)
  from "2.prems"(2) [of parent parent] obtain pr where pr: "parent \<notin> seen" "map_of roles parent = Some pr"
    by auto
  have "s \<notin> insert parent seen \<and> map_of roles s \<noteq> None"
    if "p \<in> set (r_Inherits pr)" "(inh roles)\<^sup>*\<^sup>* p s" for p s
  proof -
    have edge: "inh roles parent p" using that(1) pr(2) by (auto simp: inh_def)
    then have "(inh roles)\<^sup>+\<^sup>+ parent s" using that(2) by (rule rtranclp_into_tranclp2)
    moreover from this have "s \<noteq> parent"
      using "2.prems"(1) by (auto simp: no_cycle_def)
    ultimately show ?thesis using "2.prems"(2) [of parent s] by (auto dest: tranclp_into_rtranclp)
  qed
  with "2.IH"(1) [OF pr] "2.prems"(1) obtain grand where
    grand: "expandInherits roles (insert parent seen) (r_Name pr) (r_Inherits pr) = Inr grand"
    by blast
  moreover obtain rest where "expandInherits roles seen n parents = Inr rest"
    using "2.IH"(2) [OF pr grand] "2.prems" by auto
  ultimately show ?case using pr by simp
qed simp

section \<open>Keys of permissions\<close>

text \<open>Texts without the separators of \<open>permissionKey\<close>.\<close>

definition plain :: "string \<Rightarrow> bool" where
  "plain s \<longleftrightarrow> CHR '':'' \<notin> set s \<and> CHR '';'' \<notin> set s \<and> CHR ''='' \<notin> set s"

definition plain_permission :: "Permission \<Rightarrow> bool" where
  "plain_permission p \<longleftrightarrow> plain (p_Resource p) \<and> plain (p_Action p) \<and>
     (\<forall>c \<in> set (p_Conditions p). plain (c_Key c) \<and> plain (c_Value c))"

lemma split_at:
  "c \<notin> set xs \<Longrightarrow> c \<notin> set ys \<Longrightarrow> xs @ c # as = ys @ c # bs \<longleftrightarrow> xs = ys \<and> as = bs"
proof (induction xs arbitrary: ys)
  case Nil
  then show ?case by (cases ys) auto
next
  case (Cons x xs)
  then show ?case by (cases ys) auto
qed

lemma split_before:
  assumes "c \<notin> set xs" "c \<notin> set ys" "as = [] \<or> hd as = c" "bs = [] \<or> hd bs = c"
  shows "xs @ as = ys @ bs \<longleftrightarrow> xs = ys \<and> as = bs"
proof
  assume eq: "xs @ as = ys @ bs"
  have tw: "takeWhile (\<lambda>d. d \<noteq> c) (zs @ es) = zs" if "c \<notin> set zs" "es = [] \<or> hd es = c" for zs es
  proof -
    have "takeWhile (\<lambda>d. d \<noteq> c) es = []" using that(2) by (cases es) auto
    moreover have "\<forall>d \<in> set zs. d \<noteq> c" using that(1) by auto
    ultimately show ?thesis by (simp add: takeWhile_append2)
  qed
  from tw [OF assms(1,3)] tw [OF assms(2,4)] eq show "xs = ys \<and> as = bs" by simp
qed auto

lemma condition_keys_inj:
  "\<forall>c \<in> set cs. plain (c_Key c) \<and> plain (c_Value c) \<Longrightarrow> \<forall>c \<in> set ds. plain (c_Key c) \<and> plain (c_Value c) \<Longrightarrow>
   concat (map condition_key cs) = concat (map condition_key ds) \<longleftrightarrow> cs = ds"
proof (induction cs arbitrary: ds)
  case Nil
  then show ?case by (cases ds) (auto simp: condition_key_def)
next
  case (Cons c cs)
  show ?case
  proof (cases ds)
    case Nil
    then show ?thesis by (simp add: condition_key_def)
  next
    case (Cons d ds')
    let ?K = "\<lambda>es. concat (map condition_key es)"
    have hd_K: "?K es = [] \<or> hd (?K es) = CHR '';''" for es by (cases es) (auto simp: condition_key_def)
    have pl: "plain (c_Key c)" "plain (c_Value c)" "plain (c_Key d)" "plain (c_Value d)"
      using Cons.prems \<open>ds = d # ds'\<close> by auto
    have "?K (c # cs) = ?K ds \<longleftrightarrow>
        c_Key c @ CHR ''='' # c_Value c @ ?K cs = c_Key d @ CHR ''='' # c_Value d @ ?K ds'"
      using Cons by (simp add: condition_key_def)
    also have "\<dots> \<longleftrightarrow> c_Key c = c_Key d \<and> c_Value c @ ?K cs = c_Value d @ ?K ds'"
      using pl by (simp add: split_at plain_def)
    also have "\<dots> \<longleftrightarrow> c_Key c = c_Key d \<and> c_Value c = c_Value d \<and> ?K cs = ?K ds'"
      using pl hd_K [of cs] hd_K [of ds'] by (auto simp: split_before plain_def)
    also have "\<dots> \<longleftrightarrow> c = d \<and> cs = ds'"
      using Cons.IH [of ds'] Cons.prems Cons by auto
    finally show ?thesis using Cons by simp
  qed
qed

lemma permissionKey_inj:
  assumes "plain_permission p" "plain_permission q"
  shows "permissionKey p = permissionKey q \<longleftrightarrow> p = q"
proof -
  let ?K = "\<lambda>es. concat (map condition_key es)"
  have hd_K: "?K es = [] \<or> hd (?K es) = CHR '';''" for es by (cases es) (auto simp: condition_key_def)
  have "permissionKey p = permissionKey q \<longleftrightarrow>
      p_Resource p = p_Resource q \<and> p_Action p @ ?K (p_Conditions p) = p_Action q @ ?K (p_Conditions q)"
    using assms by (simp add: permissionKey_def split_at plain_permission_def plain_def)
  also have "\<dots> \<longleftrightarrow> p_Resource p = p_Resource q \<and> p_Action p = p_Action q \<and>
      ?K (p_Conditions p) = ?K (p_Conditions q)"
    using assms hd_K by (auto simp: split_before plain_permission_def plain_def)
  also have "\<dots> \<longleftrightarrow> p = q"
    using assms condition_keys_inj [of "p_Conditions p" "p_Conditions q"]
    by (auto simp: plain_permission_def)
  finally show ?thesis .
qed

lemma dedup_loop_set:
  "inj_on permissionKey (set ps \<union> Q) \<Longrightarrow> set seen = permissionKey ` Q \<Longrightarrow>
   set (dedup_loop seen ps) = set ps - Q"
proof (induction ps arbitrary: seen Q)
  case (Cons p ps)
  show ?case
  proof (cases "permissionKey p \<in> set seen")
    case True
    then have "p \<in> Q" using Cons.prems by (auto simp: inj_on_def)
    moreover have "set (dedup_loop seen ps) = set ps - Q"
      using Cons.prems by (intro Cons.IH) (auto intro: inj_on_subset)
    ultimately show ?thesis using True by auto
  next
    case False
    then have "p \<notin> Q" using Cons.prems by auto
    moreover have "set (dedup_loop (permissionKey p # seen) ps) = set ps - insert p Q"
      using Cons.prems by (intro Cons.IH) auto
    ultimately show ?thesis using False by auto
  qed
qed simp

lemma dedup_set: "inj_on permissionKey (set ps) \<Longrightarrow> set (dedupPermissions ps) = set ps"
  unfolding dedupPermissions_def using dedup_loop_set [of ps "{}" "[]"] by simp

lemma dedup_subset: "set (dedupPermissions ps) \<subseteq> set ps"
proof -
  have "set (dedup_loop seen ps) \<subseteq> set ps" for seen by (induction ps arbitrary: seen) auto
  then show ?thesis by (simp add: dedupPermissions_def)
qed

section \<open>The second pass\<close>

definition same_graph :: "(string \<times> Role) list \<Rightarrow> (string \<times> Role) list \<Rightarrow> bool" where
  "same_graph R R' \<longleftrightarrow>
     (\<forall>n. map_option (\<lambda>r. (r_Name r, r_Inherits r)) (map_of R' n)
        = map_option (\<lambda>r. (r_Name r, r_Inherits r)) (map_of R n))"

text \<open>Expansion so far: at least the role's own permissions, at most the inherited ones.\<close>

definition between :: "(string \<times> Role) list \<Rightarrow> (string \<times> Role) list \<Rightarrow> bool" where
  "between R R' \<longleftrightarrow> (\<forall>n. perms_of R n \<subseteq> perms_of R' n \<and> perms_of R' n \<subseteq> inherited R n)"

lemma same_graph_at:
  "same_graph R R' \<Longrightarrow> map_option (\<lambda>r. (r_Name r, r_Inherits r)) (map_of R' n)
     = map_option (\<lambda>r. (r_Name r, r_Inherits r)) (map_of R n)"
  by (simp add: same_graph_def)

lemma same_graphD:
  assumes "same_graph R R'" "map_of R' n = Some r"
  obtains r0 where "map_of R n = Some r0" "r_Name r0 = r_Name r" "r_Inherits r0 = r_Inherits r"
  using same_graph_at [OF assms(1), of n] assms(2) by (cases "map_of R n") auto

lemma same_graph_known: "same_graph R R' \<Longrightarrow> map_of R' n = None \<longleftrightarrow> map_of R n = None"
  by (drule same_graph_at [of _ _ n]) (cases "map_of R n"; cases "map_of R' n"; simp)

lemma same_graph_inh:
  assumes "same_graph R R'"
  shows "inh R' = inh R"
proof (intro ext)
  fix a b
  show "inh R' a b = inh R a b"
    using same_graph_at [OF assms, of a] by (cases "map_of R a"; cases "map_of R' a") (auto simp: inh_def)
qed

lemma inherited_trans: "(inh R)\<^sup>*\<^sup>* a b \<Longrightarrow> inherited R b \<subseteq> inherited R a"
  unfolding inherited_def by (blast intro: rtranclp_trans)

lemma between_inherited: "same_graph R R' \<Longrightarrow> between R R' \<Longrightarrow> inherited R' = inherited R"
proof (intro ext equalityI)
  fix a
  assume g: "same_graph R R'" "between R R'"
  show "inherited R' a \<subseteq> inherited R a"
    using g inherited_trans unfolding inherited_def [of R' a] same_graph_inh [OF g(1)] between_def by blast
  show "inherited R a \<subseteq> inherited R' a"
    using g unfolding inherited_def same_graph_inh [OF g(1)] between_def by blast
qed

text \<open>Every role is filed under its own name, and no separator occurs in its permissions.\<close>

definition named :: "(string \<times> Role) list \<Rightarrow> bool" where
  "named R \<longleftrightarrow> (\<forall>n r. map_of R n = Some r \<longrightarrow> r_Name r = n)"

definition plain_roles :: "(string \<times> Role) list \<Rightarrow> bool" where
  "plain_roles R \<longleftrightarrow> (\<forall>n. \<forall>p \<in> perms_of R n. plain_permission p)"

lemma named_same_graph: "named R \<Longrightarrow> same_graph R R' \<Longrightarrow> named R'"
  unfolding named_def by (metis same_graphD)

lemma plain_inherited: "plain_roles R \<Longrightarrow> inj_on permissionKey (inherited R n)"
  by (auto simp: inj_on_def inherited_def plain_roles_def permissionKey_inj)

lemma same_graph_update:
  assumes "same_graph R R0" "map_of R0 n = Some role"
  shows "same_graph R (AList.update n (role\<lparr>r_Permissions := ps\<rparr>) R0)"
  using assms same_graph_at [OF assms(1)] same_graph_at [OF assms(1), of n]
  by (simp add: same_graph_def update_conv')

lemma expand_step:
  assumes R: "plain_roles R" "same_graph R R0" "between R R0"
    and role: "map_of R0 n = Some role"
    and ex: "expandInherits R0 {r_Name role} (r_Name role) (r_Inherits role) = Inr expanded"
  defines "R1 \<equiv> AList.update n (role\<lparr>r_Permissions := dedupPermissions (r_Permissions role @ expanded)\<rparr>) R0"
  shows "same_graph R R1" "between R R1" "perms_of R1 n = inherited R n"
    "\<And>k. perms_of R0 k \<subseteq> perms_of R1 k"
proof -
  have "set (r_Permissions role @ expanded) = inherited R n"
    using inherited_Some [OF role] expand_set [OF ex] between_inherited [OF R(2,3)] by simp
  with plain_inherited [OF R(1)] have new: "set (dedupPermissions (r_Permissions role @ expanded)) = inherited R n"
    by (metis dedup_set)
  have old: "perms_of R0 n \<subseteq> inherited R n" and own: "\<And>k. perms_of R k \<subseteq> perms_of R0 k"
    "\<And>k. perms_of R0 k \<subseteq> inherited R k"
    using R(3) by (auto simp: between_def)
  have R1: "perms_of R1 k = (if k = n then inherited R n else perms_of R0 k)" for k
    using new by (simp add: R1_def perms_of_def update_conv')
  show "perms_of R1 n = inherited R n" "\<And>k. perms_of R0 k \<subseteq> perms_of R1 k" using R1 old by auto
  have "perms_of R n \<subseteq> inherited R n" using own [of n] by blast
  then show "between R R1" using R1 own by (simp add: between_def)
  show "same_graph R R1" unfolding R1_def by (rule same_graph_update [OF R(2) role])
qed

lemma expand_roles_sound:
  assumes "plain_roles R"
  shows "expand_roles names R0 = Inr R' \<Longrightarrow> same_graph R R0 \<Longrightarrow> between R R0 \<Longrightarrow>
    same_graph R R' \<and> between R R' \<and> (\<forall>k. perms_of R0 k \<subseteq> perms_of R' k) \<and>
    (\<forall>n \<in> set names. perms_of R' n = inherited R n)"
proof (induction names arbitrary: R0)
  case (Cons n names)
  show ?case
  proof (cases "map_of R0 n")
    case None
    with Cons have IH: "same_graph R R' \<and> between R R' \<and> (\<forall>k. perms_of R0 k \<subseteq> perms_of R' k) \<and>
      (\<forall>n \<in> set names. perms_of R' n = inherited R n)" by simp
    have unknown: "map_of R n = None" "map_of R' n = None"
      using None same_graph_known [OF Cons.prems(2), of n] IH same_graph_known [of R R' n] by simp_all
    then have "perms_of R' n = inherited R n"
      by (subst inherited_unfold) (auto simp: perms_of_def inh_def)
    with IH show ?thesis by simp
  next
    case (Some role)
    with Cons.prems(1) obtain expanded where
      ex: "expandInherits R0 {r_Name role} (r_Name role) (r_Inherits role) = Inr expanded"
      and rest: "expand_roles names
        (AList.update n (role\<lparr>r_Permissions := dedupPermissions (r_Permissions role @ expanded)\<rparr>) R0) = Inr R'"
      by (auto split: sum.splits)
    note step = expand_step [OF assms Cons.prems(2,3) Some ex]
    note IH = Cons.IH [OF rest step(1,2)]
    then have "inherited R n \<subseteq> perms_of R' n" "perms_of R' n \<subseteq> inherited R n"
      using step(3) by (metis, simp add: between_def)
    moreover have "perms_of R0 k \<subseteq> perms_of R' k" for k using IH step(4) [of k] by blast
    ultimately show ?thesis using IH by auto
  qed
qed (auto simp: between_def)

lemma same_graph_refl [simp]: "same_graph R R"
  by (simp add: same_graph_def)

lemma between_refl [simp]: "between R R"
  by (auto simp: between_def inherited_def)

lemma expand_roles_keys:
  "expand_roles names R0 = Inr R' \<Longrightarrow> map fst R' = map fst R0"
proof (induction names arbitrary: R0)
  case (Cons n names)
  then show ?case
    by (auto split: option.splits sum.splits simp: update_keys dest!: map_of_SomeD) force+
qed simp

lemma expand_roles_acyclic:
  assumes "named R"
  shows "expand_roles names R0 = Inr R' \<Longrightarrow> same_graph R R0 \<Longrightarrow> n \<in> set names \<Longrightarrow> (inh R)\<^sup>+\<^sup>+ n s \<Longrightarrow>
    s \<noteq> n \<and> map_of R s \<noteq> None"
proof (induction names arbitrary: R0)
  case (Cons m names)
  show ?case
  proof (cases "map_of R0 m")
    case None
    then have "\<not> inh R m k" for k
      using Cons.prems(2) by (auto simp: inh_def same_graph_known)
    then have "m \<noteq> n" using Cons.prems(4) by (blast dest: tranclpD)
    with None Cons show ?thesis by simp
  next
    case (Some role)
    with Cons.prems(1) obtain expanded where
      ex: "expandInherits R0 {r_Name role} (r_Name role) (r_Inherits role) = Inr expanded"
      and rest: "expand_roles names
        (AList.update m (role\<lparr>r_Permissions := dedupPermissions (r_Permissions role @ expanded)\<rparr>) R0) = Inr R'"
      by (auto split: sum.splits)
    show ?thesis
    proof (cases "n \<in> set names")
      case True
      with Cons.IH [OF rest same_graph_update [OF Cons.prems(2) Some]] Cons.prems(4) show ?thesis by simp
    next
      case False
      with Cons.prems(3) have [simp]: "m = n" by simp
      have name: "r_Name role = n"
        using named_same_graph [OF assms Cons.prems(2)] Some by (simp add: named_def)
      from Cons.prems(4) obtain p where "inh R n p" "(inh R)\<^sup>*\<^sup>* p s" by (blast dest: tranclpD)
      then have "inh R0 n p" "(inh R0)\<^sup>*\<^sup>* p s"
        by (simp_all add: same_graph_inh [OF Cons.prems(2)])
      then have "p \<in> set (r_Inherits role)" "(inh R0)\<^sup>*\<^sup>* p s"
        using Some by (auto simp: inh_def)
      from expand_avoids [OF ex this] name show ?thesis
        using same_graph_known [OF Cons.prems(2)] by simp
    qed
  qed
qed simp

lemma expand_roles_succeeds:
  assumes "named R" "no_cycle R" "all_known R"
  shows "same_graph R R0 \<Longrightarrow> \<exists>R'. expand_roles names R0 = Inr R'"
proof (induction names arbitrary: R0)
  case (Cons n names)
  show ?case
  proof (cases "map_of R0 n")
    case None
    with Cons show ?thesis by simp
  next
    case (Some role)
    note inh_eq = same_graph_inh [OF Cons.prems]
    have name: "r_Name role = n"
      using named_same_graph [OF assms(1) Cons.prems] Some by (simp add: named_def)
    have "\<exists>expanded. expandInherits R0 {r_Name role} (r_Name role) (r_Inherits role) = Inr expanded"
    proof (rule expand_succeeds)
      show "no_cycle R0" using assms(2) inh_eq by (simp add: no_cycle_def)
      fix p s
      assume "p \<in> set (r_Inherits role)" "(inh R0)\<^sup>*\<^sup>* p s"
      then have path: "(inh R)\<^sup>+\<^sup>+ n s"
        using Some inh_eq by (metis inh_def rtranclp_into_tranclp2)
      then obtain q where "inh R q s" by (blast dest: tranclpD elim: tranclp.cases)
      then have "map_of R0 s \<noteq> None"
        using assms(3) same_graph_known [OF Cons.prems] by (auto simp: all_known_def)
      moreover have "s \<noteq> n" using path assms(2) by (auto simp: no_cycle_def)
      ultimately show "s \<notin> {r_Name role} \<and> map_of R0 s \<noteq> None" using name by simp
    qed
    with Some Cons.IH [OF same_graph_update [OF Cons.prems Some]] show ?thesis by auto
  qed
qed simp

lemma expand_roles_iff:
  assumes "named R" "fst ` set R \<subseteq> set names"
  shows "(\<exists>R'. expand_roles names R = Inr R') \<longleftrightarrow> no_cycle R \<and> all_known R"
proof
  assume "\<exists>R'. expand_roles names R = Inr R'"
  then obtain R' where R': "expand_roles names R = Inr R'" ..
  have dom: "n \<in> set names" if "inh R n m" for n m
    using that assms(2) by (force simp: inh_def dest: map_of_SomeD)
  show "no_cycle R \<and> all_known R"
  proof
    show "no_cycle R"
      unfolding no_cycle_def
      using expand_roles_acyclic [OF assms(1) R' same_graph_refl] dom by (metis tranclpD)
    show "all_known R"
      unfolding all_known_def
      using expand_roles_acyclic [OF assms(1) R' same_graph_refl] dom by (metis tranclp.r_into_trancl)
  qed
qed (use expand_roles_succeeds [OF assms(1)] in auto)

section \<open>Validation\<close>

lemma validate_loop_iff:
  "validate_loop roles b = None \<longleftrightarrow>
     (\<forall>(n, r) \<in> set roles. \<forall>p \<in> set (r_Permissions r). \<not> is_wild_other p) \<and>
     (b \<or> (\<exists>(n, r) \<in> set roles. \<exists>p \<in> set (r_Permissions r). is_wild_admin p))"
  by (induction roles b rule: validate_loop.induct) (auto simp: list_ex_iff)

lemma perms_of_set:
  "distinct (map fst R) \<Longrightarrow>
   (\<exists>(n, r) \<in> set R. \<exists>p \<in> set (r_Permissions r). Q p) \<longleftrightarrow> (\<exists>n. \<exists>p \<in> perms_of R n. Q p)"
proof -
  assume "distinct (map fst R)"
  then have "(n, r) \<in> set R \<longleftrightarrow> map_of R n = Some r" for n r by simp
  then show ?thesis by (force simp: perms_of_def split: option.splits)
qed

lemma validate_iff:
  assumes "distinct (map fst R)"
  shows "validate \<lparr>pol_Version = v, pol_Roles = R\<rparr> = None \<longleftrightarrow>
    (\<forall>n. \<forall>p \<in> perms_of R n. \<not> is_wild_other p) \<and> (\<exists>n. \<exists>p \<in> perms_of R n. is_wild_admin p)"
  using perms_of_set [OF assms, of is_wild_other] perms_of_set [OF assms, of is_wild_admin]
  by (auto simp: validate_def validate_loop_iff)

section \<open>The loader as a whole\<close>

text \<open>The condition under which a decoded policy is accepted.\<close>

definition acceptable :: "yamlPolicy \<Rightarrow> bool" where
  "acceptable raw \<longleftrightarrow>
     (let R = hydrated_roles (y_Roles raw)
      in well_formed_roles (y_Roles raw) \<and> no_cycle R \<and> all_known R \<and>
         (\<forall>n. \<forall>p \<in> perms_of R n. \<not> is_wild_other p) \<and> (\<exists>n. \<exists>p \<in> perms_of R n. is_wild_admin p))"

definition go_map :: "yamlPolicy \<Rightarrow> bool" where
  "go_map raw \<longleftrightarrow> distinct (map fst (y_Roles raw))"

definition plain_policy :: "yamlPolicy \<Rightarrow> bool" where
  "plain_policy raw \<longleftrightarrow> plain_roles (hydrated_roles (y_Roles raw))"

lemma hydrated_named [simp]: "named (hydrated_roles yrs)"
  by (auto simp: named_def hydrated_roles_map_of hydrated_def)

lemma hydrated_keys [simp]: "map fst (hydrated_roles yrs) = map fst yrs"
  by (induction yrs) (auto simp: hydrated_roles_def)

lemma hydrated_key_set [simp]: "fst ` set (hydrated_roles yrs) = fst ` set yrs"
  by (metis hydrated_keys list.set_map)

lemma inherited_iff:
  "(\<exists>n. \<exists>p \<in> inherited R n. Q p) \<longleftrightarrow> (\<exists>n. \<exists>p \<in> perms_of R n. Q p)"
  by (auto simp: inherited_def)

lemma expand_all:
  assumes "plain_roles R" "expand_roles names R = Inr R'" "fst ` set R \<subseteq> set names"
  shows "perms_of R' n = inherited R n"
proof -
  note sound = expand_roles_sound [OF assms(1,2) same_graph_refl between_refl]
  show ?thesis
  proof (cases "n \<in> set names")
    case False
    then have "map_of R n = None" using assms(3) by (force simp: map_of_eq_None_iff)
    moreover from this have "map_of R' n = None" using sound same_graph_known by blast
    ultimately show ?thesis by (subst inherited_unfold) (auto simp: perms_of_def inh_def)
  qed (use sound in auto)
qed

text \<open>Whatever the texts of the permissions: no role ends up with more than it inherits.\<close>

lemma expand_roles_at_most:
  "expand_roles names R0 = Inr R' \<Longrightarrow> same_graph R R0 \<Longrightarrow> (\<And>n. perms_of R0 n \<subseteq> inherited R n) \<Longrightarrow>
   perms_of R' n \<subseteq> inherited R n"
proof (induction names arbitrary: R0)
  case (Cons m names)
  show ?case
  proof (cases "map_of R0 m")
    case None
    with Cons show ?thesis by simp
  next
    case (Some role)
    with Cons.prems(1) obtain expanded where
      ex: "expandInherits R0 {r_Name role} (r_Name role) (r_Inherits role) = Inr expanded"
      and rest: "expand_roles names
        (AList.update m (role\<lparr>r_Permissions := dedupPermissions (r_Permissions role @ expanded)\<rparr>) R0) = Inr R'"
      by (auto split: sum.splits)
    have "inherited R0 k \<subseteq> inherited R k" for k
      using Cons.prems(3) inherited_trans unfolding inherited_def [of R0 k] same_graph_inh [OF Cons.prems(2)] by blast
    then have "set (r_Permissions role @ expanded) \<subseteq> inherited R m"
      using inherited_Some [OF Some] expand_set [OF ex] by fastforce
    then have "set (dedupPermissions (r_Permissions role @ expanded)) \<subseteq> inherited R m"
      using dedup_subset by blast
    then have "perms_of (AList.update m (role\<lparr>r_Permissions := dedupPermissions (r_Permissions role @ expanded)\<rparr>) R0) k
        \<subseteq> inherited R k" for k
      using Cons.prems(3) [of k] by (simp add: perms_of_def update_conv')
    from Cons.IH [OF rest same_graph_update [OF Cons.prems(2) Some] this] show ?thesis .
  qed
qed auto

lemma LoadBytes_sound:
  assumes "yaml data = Some raw" "go_map raw" "LoadBytes yaml data = Inr policy"
  shows "pol_Version policy = y_Version raw" "map fst (pol_Roles policy) = map fst (y_Roles raw)"
    "well_formed_roles (y_Roles raw)" "no_cycle (hydrated_roles (y_Roles raw))"
    "all_known (hydrated_roles (y_Roles raw))"
    "perms_of (pol_Roles policy) n \<subseteq> inherited (hydrated_roles (y_Roles raw)) n"
    "p \<in> perms_of (pol_Roles policy) n \<Longrightarrow> \<not> is_wild_other p"
    "\<exists>n. \<exists>p \<in> perms_of (pol_Roles policy) n. is_wild_admin p"
proof -
  let ?R = "hydrated_roles (y_Roles raw)"
  from assms(1,3) obtain R' where wf: "well_formed_roles (y_Roles raw)"
    and R': "expand_roles (map fst ?R) ?R = Inr R'"
    and val: "validate \<lparr>pol_Version = y_Version raw, pol_Roles = R'\<rparr> = None"
    and pol: "policy = \<lparr>pol_Version = y_Version raw, pol_Roles = R'\<rparr>"
    by (auto simp: LoadBytes_def hydrate_roles_iff Let_def split: sum.splits option.splits)
  have keys: "map fst R' = map fst (y_Roles raw)"
    using expand_roles_keys [OF R'] by simp
  show "pol_Version policy = y_Version raw" "map fst (pol_Roles policy) = map fst (y_Roles raw)"
    "well_formed_roles (y_Roles raw)" using pol keys wf by simp_all
  show "no_cycle ?R" "all_known ?R" using expand_roles_iff [of ?R "map fst ?R"] R' by auto
  have "perms_of ?R k \<subseteq> inherited ?R k" for k by (auto simp: inherited_def)
  then show "perms_of (pol_Roles policy) n \<subseteq> inherited ?R n"
    using expand_roles_at_most [OF R' same_graph_refl] pol by simp
  show "p \<in> perms_of (pol_Roles policy) n \<Longrightarrow> \<not> is_wild_other p"
    "\<exists>n. \<exists>p \<in> perms_of (pol_Roles policy) n. is_wild_admin p"
    using val keys assms(2) pol by (auto simp: validate_iff go_map_def)
qed

lemma LoadBytes_result:
  assumes "yaml data = Some raw" "go_map raw" "plain_policy raw" "LoadBytes yaml data = Inr policy"
  shows "pol_Version policy = y_Version raw" "map fst (pol_Roles policy) = map fst (y_Roles raw)"
    "perms_of (pol_Roles policy) n = inherited (hydrated_roles (y_Roles raw)) n" "acceptable raw"
proof -
  let ?R = "hydrated_roles (y_Roles raw)"
  from assms(1,4) obtain R' where wf: "well_formed_roles (y_Roles raw)"
    and R': "expand_roles (map fst ?R) ?R = Inr R'"
    and val: "validate \<lparr>pol_Version = y_Version raw, pol_Roles = R'\<rparr> = None"
    and pol: "policy = \<lparr>pol_Version = y_Version raw, pol_Roles = R'\<rparr>"
    by (auto simp: LoadBytes_def hydrate_roles_iff Let_def split: sum.splits option.splits)
  have keys: "map fst R' = map fst (y_Roles raw)"
    using expand_roles_keys [OF R'] by simp
  have perms: "perms_of R' k = inherited ?R k" for k
    using expand_all [OF _ R'] assms(3) by (simp add: plain_policy_def)
  show "pol_Version policy = y_Version raw" "map fst (pol_Roles policy) = map fst (y_Roles raw)"
    "perms_of (pol_Roles policy) n = inherited ?R n"
    using pol keys perms by simp_all
  have "no_cycle ?R \<and> all_known ?R"
    using expand_roles_iff [of ?R "map fst ?R"] R' by auto
  moreover have "(\<forall>n. \<forall>p \<in> perms_of ?R n. \<not> is_wild_other p) \<and> (\<exists>n. \<exists>p \<in> perms_of ?R n. is_wild_admin p)"
    using val keys assms(2) inherited_iff [of ?R is_wild_admin] inherited_iff [of ?R is_wild_other]
    by (auto simp: validate_iff go_map_def perms)
  ultimately show "acceptable raw" using wf by (simp add: acceptable_def Let_def)
qed

lemma LoadBytes_accepts:
  assumes "yaml data = Some raw" "go_map raw" "plain_policy raw" "acceptable raw"
  obtains policy where "LoadBytes yaml data = Inr policy"
proof -
  let ?R = "hydrated_roles (y_Roles raw)"
  have ok: "hydrate_roles (y_Roles raw) = Inr ?R" "no_cycle ?R" "all_known ?R"
    using assms(4) by (auto simp: acceptable_def Let_def hydrate_roles_iff)
  then obtain R' where R': "expand_roles (map fst ?R) ?R = Inr R'"
    using expand_roles_iff [of ?R "map fst ?R"] by auto
  have perms: "perms_of R' k = inherited ?R k" for k
    using expand_all [OF _ R'] assms(3) by (simp add: plain_policy_def)
  have "validate \<lparr>pol_Version = y_Version raw, pol_Roles = R'\<rparr> = None"
    using assms(2,4) expand_roles_keys [OF R'] inherited_iff [of ?R is_wild_admin] inherited_iff [of ?R is_wild_other]
    by (auto simp: validate_iff go_map_def perms acceptable_def Let_def)
  with ok R' assms(1) that show ?thesis by (simp add: LoadBytes_def)
qed

section \<open>Decisions\<close>

lemma find_SomeD: "find P xs = Some x \<Longrightarrow> x \<in> set xs \<and> P x"
  by (auto simp: find_Some_iff)

lemma search_roles_Some:
  "search_roles R attrs res act names = Some (n, p) \<Longrightarrow>
   n \<in> set names \<and> p \<in> perms_of R n \<and> grants attrs res act p"
  by (induction names) (auto simp: perms_of_def dest: find_SomeD split: option.splits)

lemma search_roles_None:
  "search_roles R attrs res act names = None \<longleftrightarrow>
   (\<forall>n \<in> set names. \<forall>p \<in> perms_of R n. \<not> grants attrs res act p)"
  by (induction names) (auto simp: perms_of_def find_None_iff dest: find_SomeD split: option.splits)

lemma Allowed_iff:
  "Allowed (Some policy) (Some pr) res act attrs = Inr d \<Longrightarrow>
   d_Allowed d \<longleftrightarrow> (\<exists>n \<in> set (principalRoles (Some pr)). \<exists>p \<in> perms_of (pol_Roles policy) n.
      grants (with_principal_id pr attrs) res act p)"
  using search_roles_None [of "pol_Roles policy" "with_principal_id pr attrs" res act "principalRoles (Some pr)"]
  by (auto simp: Allowed_def Let_def split: if_splits option.splits)

lemma Allowed_total: "\<exists>d. Allowed (Some policy) po res act attrs = Inr d"
  by (auto simp: Allowed_def Let_def split: option.splits)

lemma evaluateConditions_iff:
  "evaluateConditions cs attrs = None \<longleftrightarrow>
   (\<forall>c \<in> set cs. \<exists>got. attrs (c_Key c) = Some got \<and>
      (if c_Value c = ValueNotSelf
       then \<exists>pid. attrs ''principal_id'' = Some pid \<and> sprint pid \<noteq> sprint got
       else sprint got = c_Value c))"
  by (induction cs) (auto split: option.splits)

end
