(* ===== verification/Authz_Reload.thy ===== *)
theory Authz_Reload
  imports Authz_Policy
begin

text \<open>
  The properties of the access control component: what the loader accepts and computes,
  when a request is allowed, and what any sequence of policy reloads keeps.
\<close>

section \<open>Reload steps\<close>

inductive reload_step :: "(bytes \<Rightarrow> yamlPolicy option) \<Rightarrow> Engine \<Rightarrow> Engine \<Rightarrow> bool"
  for yaml where
  endpoint: "ReloadHandler yaml err_text path file r e = (status, rsp, audit, e') \<Longrightarrow> reload_step yaml e e'"
| signal: "ReloadFrom yaml file e = (res, e') \<Longrightarrow> reload_step yaml e e'"

inductive_cases reload_stepE: "reload_step yaml e e'"

lemma ReloadBytes_cases:
  assumes "ReloadBytes yaml data e = (res, e')"
  obtains (rejected) err where "res = Inl err" "LoadBytes yaml data = Inl err" "e' = e"
    | (replaced) p where "res = Inr (diffPolicies e p)" "LoadBytes yaml data = Inr p" "e' = Some p"
  using assms by (auto simp: ReloadBytes_def Replace_def split: sum.splits)

lemma ReloadHandler_cases:
  assumes "ReloadHandler yaml err_text path file r e = (status, rsp, audit, e')"
  obtains (refused) "status \<in> {400, 405, 500}" "rsp = None" "e' = e"
      "\<And>ev. ev \<in> set audit \<Longrightarrow> ae_Decision ev = ''deny''"
    | (replaced) data p where "status = 200" "LoadBytes yaml data = Inr p" "e' = Some p"
      "rsp = Some \<lparr>rp_version = pol_Version p, rp_diff = diffPolicies e p,
                   rp_summary = Diff_String (diffPolicies e p)\<rparr>"
      "audit = [reload_audit err_text (Inr (diffPolicies e p))]"
  using assms
  by (auto simp: ReloadHandler_def ReloadFrom_def ReloadBytes_def Replace_def reload_reply_def reload_audit_def
      split: if_splits option.splits sum.splits)

lemma reload_step_loaded:
  "reload_step yaml e e' \<Longrightarrow> e' = e \<or> (\<exists>data p. LoadBytes yaml data = Inr p \<and> e' = Some p)"
  by (erule reload_stepE)
    (auto elim!: ReloadHandler_cases ReloadBytes_cases simp: ReloadFrom_def split: option.splits)

lemma reload_steps_loaded:
  "(reload_step yaml)\<^sup>*\<^sup>* e e' \<Longrightarrow> e' = e \<or> (\<exists>data p. LoadBytes yaml data = Inr p \<and> e' = Some p)"
  by (induction rule: rtranclp_induct) (auto dest: reload_step_loaded)

text \<open>A role whose holders pass every check.\<close>

definition admin_role :: "Policy \<Rightarrow> string \<Rightarrow> bool" where
  "admin_role policy n \<longleftrightarrow> (\<exists>p \<in> perms_of (pol_Roles policy) n. is_wild_admin p)"

lemma LoadBytes_admin:
  assumes "\<And>d raw. yaml d = Some raw \<Longrightarrow> go_map raw" "LoadBytes yaml data = Inr policy"
  obtains n where "admin_role policy n"
proof -
  from assms(2) obtain raw R' where raw: "yaml data = Some raw"
    and R': "expand_roles (map fst (hydrated_roles (y_Roles raw))) (hydrated_roles (y_Roles raw)) = Inr R'"
    and val: "validate \<lparr>pol_Version = y_Version raw, pol_Roles = R'\<rparr> = None"
    and pol: "policy = \<lparr>pol_Version = y_Version raw, pol_Roles = R'\<rparr>"
    by (auto simp: LoadBytes_def hydrate_roles_iff Let_def split: sum.splits option.splits)
  have "distinct (map fst R')"
    using expand_roles_keys [OF R'] assms(1) [OF raw] by (simp add: go_map_def)
  from val validate_iff [OF this] pol that show ?thesis by (auto simp: admin_role_def)
qed

lemma admin_allowed:
  assumes "admin_role policy n" "n \<in> set (principalRoles (Some pr))"
  shows "\<exists>d. Allowed (Some policy) (Some pr) res act attrs = Inr d \<and> d_Allowed d"
proof -
  obtain d where d: "Allowed (Some policy) (Some pr) res act attrs = Inr d" using Allowed_total by blast
  from assms(1) obtain p where "p \<in> perms_of (pol_Roles policy) n" "is_wild_admin p"
    by (auto simp: admin_role_def)
  moreover from this have "grants (with_principal_id pr attrs) res act p"
    by (simp add: is_wild_admin_def grants_def matchesResource_def matchesAction_def)
  ultimately show ?thesis using Allowed_iff [OF d] assms(2) d by blast
qed

section \<open>Diffs\<close>

lemma sort_empty: "sort xs = [] \<longleftrightarrow> xs = []"
  by (metis length_0_conv length_sort)

lemma map_of_known: "map_of R n \<noteq> None \<longleftrightarrow> n \<in> fst ` set R"
  by (simp add: map_of_eq_None_iff)

lemma rolePermsEqual_set:
  assumes "rolePermsEqual a b"
    and "\<forall>p \<in> set (r_Permissions a). plain_permission p" "\<forall>p \<in> set (r_Permissions b). plain_permission p"
  shows "set (r_Permissions a) = set (r_Permissions b)"
proof -
  have "set (permissionKeys (r_Permissions a)) = set (permissionKeys (r_Permissions b))"
    using assms(1) by (simp add: rolePermsEqual_def)
  then have "permissionKey ` set (r_Permissions a) = permissionKey ` set (r_Permissions b)"
    by (simp add: permissionKeys_def)
  moreover have "inj_on permissionKey (set (r_Permissions a) \<union> set (r_Permissions b))"
    using assms(2,3) by (auto simp: inj_on_def permissionKey_inj)
  ultimately show ?thesis by (simp add: inj_on_Un_image_eq_iff)
qed

section \<open>The shipped policy\<close>

definition plain_grant :: "string \<Rightarrow> string \<Rightarrow> yamlPermission" where
  "plain_grant res act = \<lparr>yp_Resource = res, yp_Action = act, yp_Conditions = []\<rparr>"

definition baseline :: yamlPolicy where
  "baseline = \<lparr>y_Version = 1, y_Roles =
     [(''viewer'', \<lparr>yr_Description = ''Read-only operational access'', yr_Inherits = [],
        yr_Permissions = [plain_grant ''events'' ''read'', plain_grant ''assets'' ''read'',
          plain_grant ''rules'' ''read'', plain_grant ''topology'' ''read'', plain_grant ''ml'' ''read'']\<rparr>),
      (''auditor'', \<lparr>yr_Description = ''Compliance review; audit log + lifecycle read'', yr_Inherits = [],
        yr_Permissions = [\<lparr>yp_Resource = ''audit'', yp_Action = ''read'',
            yp_Conditions = [(''subject'', ''not-self'')]\<rparr>,
          plain_grant ''principals'' ''read'', plain_grant ''tokens'' ''read'']\<rparr>),
      (''admin'', \<lparr>yr_Description = ''Owner; full access'', yr_Inherits = [],
        yr_Permissions = [plain_grant ''*'' ''admin'']\<rparr>),
      (''service'', \<lparr>yr_Description = ''Ecosystem peer (Spectre, Cerebro, ingestors)'', yr_Inherits = [],
        yr_Permissions =
          [\<lparr>yp_Resource = ''events'', yp_Action = ''write'', yp_Conditions = [(''cn'', ''spectre'')]\<rparr>,
           \<lparr>yp_Resource = ''events'', yp_Action = ''read'', yp_Conditions = [(''cn'', ''cerebro'')]\<rparr>]\<rparr>)]\<rparr>"

text \<open>The shipped policy with one more role, which inherits two of its roles.\<close>

definition extended :: yamlPolicy where
  "extended = baseline\<lparr>y_Roles := y_Roles baseline @
     [(''analyst'', \<lparr>yr_Description = [], yr_Inherits = [''viewer'', ''auditor''],
        yr_Permissions = [plain_grant ''alerts'' ''ack'']\<rparr>)]\<rparr>"

lemmas policy_data = extended_def baseline_def plain_grant_def

lemma extended_go_map: "go_map extended"
  by (simp add: go_map_def policy_data)

lemma plain_policyI:
  "\<forall>(n, yr) \<in> set (y_Roles raw). \<forall>yp \<in> set (yr_Permissions yr). plain_permission (hydrate_permission yp) \<Longrightarrow>
   plain_policy raw"
  by (fastforce simp: plain_policy_def plain_roles_def perms_of_def hydrated_roles_map_of hydrated_def
      split: option.splits dest: map_of_SomeD)

lemma extended_plain: "plain_policy extended"
  by (rule plain_policyI)
    (simp add: policy_data hydrate_permission_def hydrate_conditions_def plain_permission_def plain_def)

lemma extended_loads: "is_ok (LoadBytes (\<lambda>_. Some extended) [])"
  unfolding policy_data by code_simp

section \<open>Properties\<close>

text \<open>
  Expanding the inheritance of roles. Whatever the order in which the roles are visited,
  the second pass of the loader succeeds exactly when no role inherits itself along some
  chain and every parent is defined, and then the permissions of each role are those of all
  roles reachable through \<open>inherits\<close>: although roles are updated in place while others
  still have to be expanded, nothing depends on the order.
\<close>

theorem expansion_any_order:
  assumes "named R" "plain_roles R" "set names = fst ` set R"
  shows "((\<exists>R'. expand_roles names R = Inr R') \<longleftrightarrow> no_cycle R \<and> all_known R) \<and>
    (\<forall>R'. expand_roles names R = Inr R' \<longrightarrow>
       map fst R' = map fst R \<and> (\<forall>n. perms_of R' n = inherited R n))"
  using expand_roles_iff [OF assms(1)] expand_all [OF assms(2)] expand_roles_keys assms(3) by simp

theorem expansion_any_order_witness:
  "\<exists>R'. expand_roles [''analyst'', ''service'', ''admin'', ''auditor'', ''viewer'']
      (hydrated_roles (y_Roles extended)) = Inr R' \<and>
    perms_of R' ''analyst'' = inherited (hydrated_roles (y_Roles extended)) ''analyst''"
proof -
  let ?R = "hydrated_roles (y_Roles extended)"
  let ?names = "[''analyst'', ''service'', ''admin'', ''auditor'', ''viewer'']"
  have plain: "plain_roles ?R" using extended_plain by (simp add: plain_policy_def)
  have names: "set ?names = fst ` set ?R" by (simp add: policy_data insert_commute)
  have "is_ok (expand_roles ?names ?R)"
    unfolding policy_data hydrated_roles_def hydrated_def by code_simp
  then obtain R' where "expand_roles ?names ?R = Inr R'" by (auto simp: is_ok_def split: sum.splits)
  with expansion_any_order [OF hydrated_named plain names] show ?thesis by blast
qed

text \<open>
  C25: what the loader accepts. It accepts only policies in which role names, resources and
  actions are not empty, the inheritance graph is acyclic and closed and some role has an
  unconditional \<open>*:admin\<close>; every role with a permission on the wildcard resource then has
  one for the action \<open>admin\<close> on it. It keeps version and role names, and gives a role no
  permission but those it inherits. Conversely a policy that meets these conditions, uses
  the wildcard resource with the action \<open>admin\<close> only and has no separator (colon,
  semicolon, equals sign) in the texts of its permissions is accepted, and every role gets
  all the permissions it inherits.
\<close>

theorem load_accepts:
  assumes "yaml data = Some raw" "go_map raw" "R = hydrated_roles (y_Roles raw)"
  shows "(\<forall>policy. LoadBytes yaml data = Inr policy \<longrightarrow>
      well_formed_roles (y_Roles raw) \<and> no_cycle R \<and> all_known R \<and>
      (\<exists>n. \<exists>p \<in> perms_of R n. is_wild_admin p) \<and>
      (\<forall>n. (\<exists>p \<in> perms_of (pol_Roles policy) n. p_Resource p = Wildcard) \<longrightarrow>
         (\<exists>p \<in> perms_of (pol_Roles policy) n. p_Resource p = Wildcard \<and> p_Action p = ActionAdmin)) \<and>
      pol_Version policy = y_Version raw \<and> map fst (pol_Roles policy) = map fst (y_Roles raw) \<and>
      (\<forall>n. perms_of (pol_Roles policy) n \<subseteq> inherited R n)) \<and>
    (well_formed_roles (y_Roles raw) \<and> no_cycle R \<and> all_known R \<and>
      (\<exists>n. \<exists>p \<in> perms_of R n. is_wild_admin p) \<and>
      (\<forall>n. \<forall>p \<in> perms_of R n. p_Resource p = Wildcard \<longrightarrow> p_Action p = ActionAdmin) \<and> plain_policy raw \<longrightarrow>
      (\<exists>policy. LoadBytes yaml data = Inr policy \<and> (\<forall>n. perms_of (pol_Roles policy) n = inherited R n)))"
proof (intro conjI allI impI)
  fix policy
  assume l: "LoadBytes yaml data = Inr policy"
  note sound = LoadBytes_sound [OF assms(1,2) l, folded assms(3)]
  show "well_formed_roles (y_Roles raw)" "no_cycle R" "all_known R" "pol_Version policy = y_Version raw"
    "map fst (pol_Roles policy) = map fst (y_Roles raw)" by (rule sound)+
  show "perms_of (pol_Roles policy) n \<subseteq> inherited R n" for n by (rule sound(6))
  show "\<exists>n. \<exists>p \<in> perms_of R n. is_wild_admin p"
    using sound(6,8) inherited_iff [of R is_wild_admin] by blast
  show "\<exists>p \<in> perms_of (pol_Roles policy) n. p_Resource p = Wildcard \<and> p_Action p = ActionAdmin"
    if "\<exists>p \<in> perms_of (pol_Roles policy) n. p_Resource p = Wildcard" for n
    using that sound(7) by (auto simp: is_wild_other_def)
next
  assume a: "well_formed_roles (y_Roles raw) \<and> no_cycle R \<and> all_known R \<and>
      (\<exists>n. \<exists>p \<in> perms_of R n. is_wild_admin p) \<and>
      (\<forall>n. \<forall>p \<in> perms_of R n. p_Resource p = Wildcard \<longrightarrow> p_Action p = ActionAdmin) \<and> plain_policy raw"
  then have "acceptable raw" by (auto simp: acceptable_def Let_def is_wild_other_def assms(3))
  with a obtain policy where l: "LoadBytes yaml data = Inr policy"
    using LoadBytes_accepts [where yaml = yaml and data = data, OF assms(1,2)] by blast
  moreover have "perms_of (pol_Roles policy) n = inherited R n" for n
    using LoadBytes_result(3) [OF assms(1,2) _ l] a by (simp add: assms(3))
  ultimately show "\<exists>policy. LoadBytes yaml data = Inr policy \<and> (\<forall>n. perms_of (pol_Roles policy) n = inherited R n)"
    by blast
qed

theorem load_accepts_witness:
  "\<exists>policy. LoadBytes (\<lambda>_. Some extended) [] = Inr policy \<and>
    perms_of (pol_Roles policy) ''analyst'' = inherited (hydrated_roles (y_Roles extended)) ''analyst''"
proof -
  obtain policy where l: "LoadBytes (\<lambda>_. Some extended) [] = Inr policy"
    using extended_loads by (auto simp: is_ok_def split: sum.splits)
  note acc = load_accepts [of "\<lambda>_. Some extended" "[]" extended, OF refl extended_go_map refl]
  from LoadBytes_result(4) [OF _ extended_go_map extended_plain l]
  have "acceptable extended" by simp
  then have "\<exists>policy. LoadBytes (\<lambda>_. Some extended) [] = Inr policy \<and>
      (\<forall>n. perms_of (pol_Roles policy) n = inherited (hydrated_roles (y_Roles extended)) n)"
    using conjunct2 [OF acc] extended_plain by (auto simp: acceptable_def Let_def is_wild_other_def)
  then show ?thesis by blast
qed

text \<open>The stricter condition on the wildcard: not even a role with \<open>*:admin\<close> may have \<open>*:read\<close>.\<close>

lemma wildcard_read_refused:
  "LoadBytes (\<lambda>_. Some \<lparr>y_Version = 1, y_Roles =
      [(''admin'', \<lparr>yr_Description = [], yr_Inherits = [],
          yr_Permissions = [plain_grant ''*'' ''admin'', plain_grant ''*'' ''read'']\<rparr>)]\<rparr>) [] = Inl (ErrPolicyWildcardOnNonAdmin ''admin'')"
  unfolding plain_grant_def by code_simp

text \<open>
  C3: the authorization decision, end to end. Under a loaded policy the engine always
  decides, and it allows a request only when one of the principal's roles reaches, through
  \<open>inherits\<close>, a role of the policy file with a permission that covers resource and action
  and whose conditions all hold: each condition's attribute is present and equals the
  required value, or, for \<open>not-self\<close>, differs from the principal's id. When no text of a
  permission of the file has a colon, a semicolon or an equals sign in it (the separators
  of the keys by which duplicate permissions are recognised), it allows every such request.
\<close>

theorem decision_sound_complete:
  assumes "yaml data = Some raw" "go_map raw" "LoadBytes yaml data = Inr policy"
  shows "\<exists>d. Allowed (NewEngine (Some policy)) (Some pr) res act attrs = Inr d \<and>
    (let covered =
      (\<exists>n \<in> set (principalRoles (Some pr)). \<exists>b. (inh (hydrated_roles (y_Roles raw)))\<^sup>*\<^sup>* n b \<and>
        (\<exists>p \<in> perms_of (hydrated_roles (y_Roles raw)) b.
          p_Resource p \<in> {Wildcard, res} \<and> p_Action p \<in> {ActionAdmin, Wildcard, act} \<and>
          (\<forall>c \<in> set (p_Conditions p). \<exists>got. with_principal_id pr attrs (c_Key c) = Some got \<and>
             (if c_Value c = ValueNotSelf
              then \<exists>pid. with_principal_id pr attrs ''principal_id'' = Some pid \<and> sprint pid \<noteq> sprint got
              else sprint got = c_Value c))))
     in (d_Allowed d \<longrightarrow> covered) \<and> (plain_policy raw \<longrightarrow> d_Allowed d = covered))"
proof -
  obtain d where d: "Allowed (Some policy) (Some pr) res act attrs = Inr d" using Allowed_total by blast
  let ?R = "hydrated_roles (y_Roles raw)"
  note grants_cond = grants_def evaluateConditions_iff matchesResource_def matchesAction_def
  have "perms_of (pol_Roles policy) n \<subseteq> inherited ?R n" for n
    by (rule LoadBytes_sound(6) [OF assms])
  then have "d_Allowed d \<longrightarrow> (\<exists>n \<in> set (principalRoles (Some pr)). \<exists>p \<in> inherited ?R n. grants (with_principal_id pr attrs) res act p)"
    using Allowed_iff [OF d] by blast
  moreover have "d_Allowed d \<longleftrightarrow> (\<exists>n \<in> set (principalRoles (Some pr)). \<exists>p \<in> inherited ?R n. grants (with_principal_id pr attrs) res act p)"
    if "plain_policy raw"
    using Allowed_iff [OF d] LoadBytes_result(3) [OF assms(1,2) that assms(3)] by simp
  ultimately show ?thesis
    using d by (auto simp: NewEngine_def Let_def grants_cond inherited_def)
qed

definition analyst :: "string \<Rightarrow> Principal" where
  "analyst i = \<lparr>pr_ID = i, pr_Type = ''user'', pr_Subject = [], pr_DisplayName = [], pr_Status = [],
     pr_Roles = [''analyst''], pr_Claims = None, pr_CreatedAt = 0, pr_LastSeenAt = None\<rparr>"

text \<open>An analyst may read the audit log of somebody else, by the role it inherits.\<close>

theorem decision_sound_complete_witness:
  "\<exists>policy. LoadBytes (\<lambda>_. Some extended) [] = Inr policy \<and>
    (\<exists>d. Allowed (NewEngine (Some policy)) (Some (analyst ''u1'')) ''audit'' ''read'' (Some [''subject'' \<mapsto> AString ''u2'']) = Inr d \<and>
       d_Allowed d)"
proof -
  let ?R = "hydrated_roles (y_Roles extended)"
  let ?p = "\<lparr>p_Resource = ''audit'', p_Action = ''read'', p_Conditions = [\<lparr>c_Key = ''subject'', c_Value = ''not-self''\<rparr>]\<rparr>"
  obtain policy where l: "LoadBytes (\<lambda>_. Some extended) [] = Inr policy"
    using extended_loads by (auto simp: is_ok_def split: sum.splits)
  have "inh ?R ''analyst'' ''auditor''"
    by (simp add: inh_def hydrated_roles_map_of hydrated_def policy_data)
  then have reach: "(inh ?R)\<^sup>*\<^sup>* ''analyst'' ''auditor''" by (rule r_into_rtranclp)
  have own: "?p \<in> perms_of ?R ''auditor''"
    by (simp add: perms_of_def hydrated_roles_map_of hydrated_def policy_data hydrate_permission_def hydrate_conditions_def)
  have attrs: "with_principal_id (analyst ''u1'') (Some [''subject'' \<mapsto> AString ''u2'']) ''subject'' = Some (AString ''u2'')"
    "with_principal_id (analyst ''u1'') (Some [''subject'' \<mapsto> AString ''u2'']) ''principal_id'' = Some (AString ''u1'')"
    "sprint (AString ''u1'') \<noteq> sprint (AString ''u2'')"
    "''analyst'' \<in> set (principalRoles (Some (analyst ''u1'')))"
    by (simp_all add: with_principal_id_def analyst_def principalRoles_def)
  from decision_sound_complete [OF refl extended_go_map l, of "analyst ''u1''" "''audit''" "''read''" "Some [''subject'' \<mapsto> AString ''u2'']"]
  obtain d where "Allowed (NewEngine (Some policy)) (Some (analyst ''u1'')) ''audit'' ''read'' (Some [''subject'' \<mapsto> AString ''u2'']) = Inr d"
    "d_Allowed d"
    using reach own attrs extended_plain by (fastforce simp: Let_def ValueNotSelf_def)
  with l show ?thesis by blast
qed

text \<open>
  C9: no reload locks the operators out. Starting from an engine with a loaded policy, after
  any number of reloads by the endpoint or by signal, valid or not, the engine has a policy
  with a role whose holders are allowed everything.
\<close>

theorem reloads_keep_admin:
  assumes "\<And>d raw. yaml d = Some raw \<Longrightarrow> go_map raw"
    and "LoadBytes yaml data = Inr p0" "(reload_step yaml)\<^sup>*\<^sup>* (NewEngine (Some p0)) e"
  shows "\<exists>policy n. e = Some policy \<and> admin_role policy n \<and>
    (\<forall>pr res act attrs. n \<in> set (principalRoles (Some pr)) \<longrightarrow>
       (\<exists>d. Allowed e (Some pr) res act attrs = Inr d \<and> d_Allowed d))"
proof -
  from reload_steps_loaded [OF assms(3)] assms(2) obtain data' p where
    p: "LoadBytes yaml data' = Inr p" "e = Some p" by (auto simp: NewEngine_def)
  then obtain n where "admin_role p n" using LoadBytes_admin [of yaml] assms(1) by blast
  with p admin_allowed show ?thesis by blast
qed

theorem reloads_keep_admin_witness:
  "\<exists>policy. LoadBytes (\<lambda>_. Some extended) [] = Inr policy \<and> (\<exists>n. admin_role policy n)"
proof -
  obtain policy where pol: "LoadBytes (\<lambda>_. Some extended) [] = Inr policy"
    using extended_loads by (auto simp: is_ok_def split: sum.splits)
  have "\<exists>p n. NewEngine (Some policy) = Some p \<and> admin_role p n"
    using reloads_keep_admin [of "\<lambda>_. Some extended" "[]" policy "NewEngine (Some policy)"] extended_go_map pol
    by auto
  then show ?thesis using pol by (auto simp: NewEngine_def)
qed

text \<open>
  The reload endpoint is all or nothing. It answers 200 exactly when it put a policy
  that the loader accepted in force, and reports that policy's version and the difference to
  the one before, with one audit record; every other answer leaves the engine as it was and
  records no permission.
\<close>

theorem reload_all_or_nothing:
  assumes "ReloadHandler yaml err_text path file r e = (status, rsp, audit, e')"
  shows "(status = 200 \<and> (\<exists>data p. LoadBytes yaml data = Inr p \<and> e' = Some p \<and>
            rsp = Some \<lparr>rp_version = pol_Version p, rp_diff = diffPolicies e p,
                        rp_summary = Diff_String (diffPolicies e p)\<rparr> \<and>
            audit = [reload_audit err_text (Inr (diffPolicies e p))]))
       \<or> (status \<in> {400, 405, 500} \<and> rsp = None \<and> e' = e \<and> (\<forall>ev \<in> set audit. ae_Decision ev = ''deny''))"
  using assms by (rule ReloadHandler_cases) blast+

theorem reload_all_or_nothing_witness:
  "\<exists>audit. ReloadHandler (\<lambda>_. None) (\<lambda>_. []) [] None
     \<lparr>rr_method = ''POST'', rr_content_type = ''text/yaml'', rr_body = Some [0]\<rparr> None = (400, None, audit, None) \<and>
     (\<forall>ev \<in> set audit. ae_Decision ev = ''deny'')"
proof -
  obtain audit where a: "ReloadHandler (\<lambda>_. None) (\<lambda>_. []) [] None
     \<lparr>rr_method = ''POST'', rr_content_type = ''text/yaml'', rr_body = Some [0]\<rparr> None = (400, None, audit, None)"
    by (simp add: ReloadHandler_def ReloadBytes_def LoadBytes_def reload_reply_def)
  with reload_all_or_nothing [OF a] show ?thesis by simp
qed

text \<open>
  What the reported difference means. Added and removed are exactly the role names that
  only the new or only the old policy has, and if the report is empty, every role keeps its
  permissions (for texts without the separators of the permission keys).
\<close>

theorem reload_diff_complete:
  assumes "plain_roles (pol_Roles old)" "plain_roles (pol_Roles new)"
    and "distinct (map fst (pol_Roles old))" "distinct (map fst (pol_Roles new))"
    and "d = diffPolicies (Some old) new"
  shows "set (df_Added d) = fst ` set (pol_Roles new) - fst ` set (pol_Roles old) \<and>
    set (df_Removed d) = fst ` set (pol_Roles old) - fst ` set (pol_Roles new) \<and>
    (Diff_IsEmpty d \<longrightarrow> (\<forall>n. perms_of (pol_Roles new) n = perms_of (pol_Roles old) n))"
proof (intro conjI impI allI)
  show added: "set (df_Added d) = fst ` set (pol_Roles new) - fst ` set (pol_Roles old)"
    and removed: "set (df_Removed d) = fst ` set (pol_Roles old) - fst ` set (pol_Roles new)"
    by (auto simp: assms(5) diffPolicies_def map_of_eq_None_iff)
  fix n
  assume empty: "Diff_IsEmpty d"
  then have dom: "fst ` set (pol_Roles new) = fst ` set (pol_Roles old)"
    using added removed by (auto simp: Diff_IsEmpty_def)
  show "perms_of (pol_Roles new) n = perms_of (pol_Roles old) n"
  proof (cases "map_of (pol_Roles new) n")
    case None
    moreover from this have "map_of (pol_Roles old) n = None" using dom by (simp add: map_of_eq_None_iff)
    ultimately show ?thesis by (simp add: perms_of_def)
  next
    case (Some r)
    then obtain o' where o': "map_of (pol_Roles old) n = Some o'"
      using dom by (metis map_of_known option.distinct(1) not_None_eq)
    have "(n, r) \<in> set (pol_Roles new)" using Some by (rule map_of_SomeD)
    moreover have "filter (\<lambda>(n, role). case map_of (pol_Roles old) n of None \<Rightarrow> False
          | Some old \<Rightarrow> \<not> rolePermsEqual old role) (pol_Roles new) = []"
      using empty by (simp add: Diff_IsEmpty_def assms(5) diffPolicies_def sort_empty)
    ultimately have "rolePermsEqual o' r" using o' by (auto simp: filter_empty_conv)
    moreover have "\<forall>p \<in> set (r_Permissions o'). plain_permission p" "\<forall>p \<in> set (r_Permissions r). plain_permission p"
      using assms(1,2) o' Some by (auto simp: plain_roles_def perms_of_def split: option.splits)
    ultimately have "set (r_Permissions o') = set (r_Permissions r)" by (rule rolePermsEqual_set)
    then show ?thesis using o' Some by (simp add: perms_of_def)
  qed
qed

theorem reload_diff_complete_witness:
  "set (df_Added (diffPolicies (Some \<lparr>pol_Version = 1, pol_Roles = hydrated_roles (y_Roles baseline)\<rparr>)
      \<lparr>pol_Version = 1, pol_Roles = hydrated_roles (y_Roles extended)\<rparr>)) = {''analyst''}"
proof -
  have "plain_policy baseline"
    by (rule plain_policyI)
      (simp add: policy_data hydrate_permission_def hydrate_conditions_def plain_permission_def plain_def)
  then show ?thesis
    using extended_plain
    by (subst conjunct1 [OF reload_diff_complete [OF _ _ _ _ refl]]) (auto simp: plain_policy_def policy_data)
qed

text \<open>
  Complete mediation. The middleware passes a request on exactly when a principal is
  present and the engine's decision on the request's own attributes allows it; every
  authenticated request leaves exactly one audit record, which says \<open>allow\<close> exactly when
  the request was passed on, and a request without principal is answered 401.
\<close>

theorem middleware_mediates:
  "RequirePermission e res act r = (out, audit) \<Longrightarrow>
   (case rq_principal r of
      None \<Rightarrow> out = Respond 401 \<and> audit = []
    | Some prin \<Rightarrow>
        (out = ServeNext \<longleftrightarrow>
           (\<exists>d. Allowed e (Some prin) res act (Some (AttrsFromRequest r)) = Inr d \<and> d_Allowed d)) \<and>
        (out \<noteq> ServeNext \<longrightarrow> out = Respond (if e = None then 500 else 403)) \<and>
        (\<exists>ev. audit = [ev] \<and> ae_PrincipalID ev = pr_ID prin \<and> ae_Resource ev = res \<and> ae_Action ev = act \<and>
           (ae_Decision ev = ''allow'' \<longleftrightarrow> out = ServeNext)))"
  by (cases e) (auto simp: RequirePermission_def Let_def Allowed_def split: option.splits sum.splits if_splits)

theorem middleware_mediates_witness:
  "RequirePermission None ''events'' ''read'' \<lparr>rq_principal = None, rq_cn = None, rq_subject = []\<rparr> = (Respond 401, [])"
proof -
  obtain out audit where oa: "RequirePermission None ''events'' ''read''
      \<lparr>rq_principal = None, rq_cn = None, rq_subject = []\<rparr> = (out, audit)" by fastforce
  from middleware_mediates [OF this] oa show ?thesis by simp
qed

section \<open>Permission keys that collide\<close>

definition colliding :: "string \<Rightarrow> string \<Rightarrow> yamlPolicy" where
  "colliding res act = \<lparr>y_Version = 1, y_Roles =
     [(''admin'', \<lparr>yr_Description = [], yr_Inherits = [], yr_Permissions = [plain_grant ''*'' ''admin'']\<rparr>),
      (''op'', \<lparr>yr_Description = [], yr_Inherits = [], yr_Permissions = [plain_grant res act]\<rparr>)]\<rparr>"

definition loaded :: "yamlPolicy \<Rightarrow> Policy" where
  "loaded raw = (case LoadBytes (\<lambda>_. Some raw) [] of Inr p \<Rightarrow> p | Inl _ \<Rightarrow> \<lparr>pol_Version = 0, pol_Roles = []\<rparr>)"

text \<open>
  A key joins resource, action and conditions with characters that may occur in them. Two
  policies that grant different permissions are then reported as \<open>no changes\<close>.
\<close>

lemma reload_diff_collision:
  "Diff_String (diffPolicies (Some (loaded (colliding ''a:b'' ''c''))) (loaded (colliding ''a'' ''b:c''))) = ''no changes''"
  "map_of (pol_Roles (loaded (colliding ''a:b'' ''c''))) ''op'' \<noteq>
   map_of (pol_Roles (loaded (colliding ''a'' ''b:c''))) ''op''"
  by code_simp+

end
