(* ===== verification/Bolt.thy ===== *)
theory Bolt
  imports GoLib
begin

text \<open>
  The embedded database \<^verbatim>\<open>go.etcd.io/bbolt\<close> is a parameter of the development: a record
  of the operations the code calls inside a transaction. The locale states what its
  documentation promises of them: buckets are maps from byte strings to byte strings, an
  iteration yields the entries in byte-sorted key order, and a transaction whose function
  or commit fails leaves the database as it was (\<open>db_Update\<close>). \<open>mem_bolt\<close> is a
  concrete database with these laws, on which the parametric statements are tried.
\<close>

section \<open>Byte order\<close>

fun bytes_less :: "bytes \<Rightarrow> bytes \<Rightarrow> bool" where
  "bytes_less xs [] = False"
| "bytes_less [] (y # ys) = True"
| "bytes_less (x # xs) (y # ys) = (x < y \<or> x = y \<and> bytes_less xs ys)"

lemma bytes_less_irrefl [simp]: "\<not> bytes_less xs xs"
  by (induction xs) auto

lemma bytes_less_trans: "bytes_less xs ys \<Longrightarrow> bytes_less ys zs \<Longrightarrow> bytes_less xs zs"
proof (induction xs ys arbitrary: zs rule: bytes_less.induct)
  case (2 y ys)
  then show ?case by (cases zs) auto
next
  case (3 x xs y ys)
  then show ?case by (cases zs) auto
qed simp

lemma bytes_less_total: "xs \<noteq> ys \<Longrightarrow> bytes_less xs ys \<or> bytes_less ys xs"
proof (induction xs ys rule: bytes_less.induct)
  case (1 xs)
  then show ?case by (cases xs) auto
qed auto

lemma bytes_less_append_same: "bytes_less (xs @ ys) (xs @ zs) \<longleftrightarrow> bytes_less ys zs"
  by (induction xs) auto

lemma bytes_less_append_left: "length xs = length ys \<Longrightarrow> bytes_less xs ys \<Longrightarrow> bytes_less (xs @ as) (ys @ bs)"
  by (induction xs ys rule: list_induct2) auto

text \<open>Big-endian numbers of a fixed width sort as numbers.\<close>

lemma be_bytes_less: "x < y \<Longrightarrow> y < 256 ^ n \<Longrightarrow> bytes_less (be_bytes n x) (be_bytes n y)"
proof (induction n arbitrary: x y)
  case 0
  then show ?case by simp
next
  case (Suc n)
  have be: "be_bytes (Suc n) z = be_bytes n (z div 256) @ [word_of_nat (z mod 256)]" for z
    by (simp add: be_bytes_def)
  show ?case
  proof (cases "x div 256 < y div 256")
    case True
    have "y div 256 < 256 ^ n" using Suc.prems(2) by (simp add: less_mult_imp_div_less mult.commute)
    with Suc.IH True show ?thesis unfolding be by (intro bytes_less_append_left) auto
  next
    case False
    with Suc.prems(1) have eq: "x div 256 = y div 256" by (simp add: div_le_mono antisym)
    with Suc.prems(1) have "x mod 256 < y mod 256"
      by (metis add_less_cancel_left mult_div_mod_eq)
    then have "(word_of_nat (x mod 256) :: byte) < word_of_nat (y mod 256)"
      by (simp add: word_less_nat_alt unat_of_nat)
    then show ?thesis unfolding be eq by (simp add: bytes_less_append_same)
  qed
qed

lemma sorted_bytes_unique:
  assumes "sorted_wrt bytes_less (map fst xs)" "sorted_wrt bytes_less (map fst ys)" "set xs = set ys"
  shows "xs = ys"
  using assms
proof (induction xs arbitrary: ys)
  case Nil
  then show ?case by simp
next
  case (Cons x xs)
  from Cons.prems(3) obtain y ys' where ys: "ys = y # ys'" by (cases ys) auto
  have "x = y"
  proof (rule ccontr)
    assume "x \<noteq> y"
    with Cons.prems ys have "y \<in> set xs" "x \<in> set ys'" by auto
    with Cons.prems(1,2) ys have "bytes_less (fst x) (fst y)" "bytes_less (fst y) (fst x)" by auto
    then show False using bytes_less_trans bytes_less_irrefl by blast
  qed
  moreover have "x \<notin> set xs" "y \<notin> set ys'"
    using Cons.prems(1,2) ys by (auto dest: bspec [of _ _ "fst _"])
  with Cons.prems(3) ys \<open>x = y\<close> have "set xs = set ys'" by auto
  ultimately show ?case using Cons ys by auto
qed

section \<open>The database\<close>

record 'db bolt =
  bk_Has :: "'db \<Rightarrow> string \<Rightarrow> bool"
  bk_Create :: "'db \<Rightarrow> string \<Rightarrow> string option \<times> 'db"
  bk_Get :: "'db \<Rightarrow> string \<Rightarrow> bytes \<Rightarrow> bytes option"
  bk_Put :: "'db \<Rightarrow> string \<Rightarrow> bytes \<Rightarrow> bytes \<Rightarrow> string option \<times> 'db"
  bk_Delete :: "'db \<Rightarrow> string \<Rightarrow> bytes \<Rightarrow> string option \<times> 'db"
  bk_Items :: "'db \<Rightarrow> string \<Rightarrow> (bytes \<times> bytes) list"
  bk_Commit :: "'db \<Rightarrow> 'db \<Rightarrow> string option"

text \<open>
  \<^verbatim>\<open>db.Update\<close>: a function that returns an error or a commit that fails rolls the
  transaction back. \<open>wrap\<close> makes an error of the caller out of a message of the
  database.
\<close>

definition db_Update ::
  "'db bolt \<Rightarrow> (string \<Rightarrow> 'e) \<Rightarrow> ('db \<Rightarrow> 'e option \<times> 'db) \<Rightarrow> 'db \<Rightarrow> 'e option \<times> 'db" where
  "db_Update B wrap f db =
     (case f db of
        (Some e, _) \<Rightarrow> (Some e, db)
      | (None, db') \<Rightarrow>
          (case bk_Commit B db db' of Some m \<Rightarrow> (Some (wrap m), db) | None \<Rightarrow> (None, db')))"

definition bput ::
  "'db bolt \<Rightarrow> (string \<Rightarrow> 'e) \<Rightarrow> string \<Rightarrow> bytes \<Rightarrow> bytes \<Rightarrow> 'db \<Rightarrow> 'e option \<times> 'db" where
  "bput B wrap b k v db = (case bk_Put B db b k v of (e, db') \<Rightarrow> (map_option wrap e, db'))"

text \<open>The loop that deletes collected keys and stops at the first error.\<close>

fun bdelete_all ::
  "'db bolt \<Rightarrow> (string \<Rightarrow> 'e) \<Rightarrow> string \<Rightarrow> bytes list \<Rightarrow> 'db \<Rightarrow> 'e option \<times> 'db" where
  "bdelete_all B wrap b [] db = (None, db)"
| "bdelete_all B wrap b (k # ks) db =
     (case bk_Delete B db b k of
        (Some e, db') \<Rightarrow> (Some (wrap e), db')
      | (None, db') \<Rightarrow> bdelete_all B wrap b ks db')"

lemma db_Update_cases:
  obtains (failed) e where "db_Update B wrap f db = (Some e, db)"
    | (committed) db' where "db_Update B wrap f db = (None, db')" "f db = (None, db')"
proof (cases "f db")
  case (Pair r db')
  then show thesis
    using failed committed by (cases r; cases "bk_Commit B db db'") (auto simp: db_Update_def)
qed

locale bolt_db =
  fixes B :: "'db bolt"
  assumes items_sorted: "sorted_wrt bytes_less (map fst (bk_Items B db b))"
    and items_get: "(k, v) \<in> set (bk_Items B db b) \<longleftrightarrow> bk_Get B db b k = Some v"
    and put_get: "bk_Has B db b \<Longrightarrow> bk_Put B db b k v = (None, db') \<Longrightarrow>
      bk_Get B db' c j = (if c = b \<and> j = k then Some v else bk_Get B db c j)"
    and put_has: "bk_Has B db b \<Longrightarrow> bk_Put B db b k v = (None, db') \<Longrightarrow> bk_Has B db' = bk_Has B db"
    and delete_get: "bk_Has B db b \<Longrightarrow> bk_Delete B db b k = (None, db') \<Longrightarrow>
      bk_Get B db' c j = (if c = b \<and> j = k then None else bk_Get B db c j)"
    and delete_has: "bk_Delete B db b k = (None, db') \<Longrightarrow> bk_Has B db' = bk_Has B db"
    and create_has: "bk_Create B db b = (None, db') \<Longrightarrow>
      bk_Has B db' c \<longleftrightarrow> c = b \<or> bk_Has B db c"
    and create_get: "bk_Create B db b = (None, db') \<Longrightarrow> bk_Get B db' = bk_Get B db"
    and get_has: "bk_Get B db b k = Some v \<Longrightarrow> bk_Has B db b"
begin

text \<open>Reading back a bucket whose contents are known.\<close>

lemma items_eq:
  assumes "sorted_wrt bytes_less (map fst kvs)"
    and "\<And>k v. (k, v) \<in> set kvs \<longleftrightarrow> bk_Get B db b k = Some v"
  shows "bk_Items B db b = kvs"
  using assms items_sorted items_get by (intro sorted_bytes_unique) auto

lemma items_put_last:
  assumes "bk_Has B db b" "bk_Put B db b k v = (None, db')"
    and "\<And>j w. (j, w) \<in> set (bk_Items B db b) \<Longrightarrow> bytes_less j k"
  shows "bk_Items B db' b = bk_Items B db b @ [(k, v)]"
proof (rule items_eq)
  show "sorted_wrt bytes_less (map fst (bk_Items B db b @ [(k, v)]))"
    using items_sorted assms(3) by (fastforce simp: sorted_wrt_append)
  fix j w
  have "bk_Get B db b k = None"
    using assms(3) items_get bytes_less_irrefl by (metis not_Some_eq)
  then show "(j, w) \<in> set (bk_Items B db b @ [(k, v)]) \<longleftrightarrow> bk_Get B db' b j = Some w"
    by (auto simp: items_get put_get [OF assms(1,2)])
qed

lemma delete_all:
  assumes "bk_Has B db b" "bdelete_all B wrap b ks db = (None, db')"
  shows "bk_Has B db' = bk_Has B db \<and>
    bk_Get B db' c j = (if c = b \<and> j \<in> set ks then None else bk_Get B db c j)"
  using assms
proof (induction ks arbitrary: db)
  case (Cons k ks)
  from Cons.prems(2) obtain db1 where db1: "bk_Delete B db b k = (None, db1)" "bdelete_all B wrap b ks db1 = (None, db')"
    by (auto split: prod.splits option.splits)
  from Cons.IH [OF _ db1(2)] Cons.prems(1) show ?case
    using delete_has [OF db1(1)] delete_get [OF Cons.prems(1) db1(1), of c j] by auto
qed simp

lemma items_keys: "k \<in> fst ` set (bk_Items B db b) \<longleftrightarrow> bk_Get B db b k \<noteq> None"
  using items_get by force

lemma items_put_other:
  assumes "bk_Has B db b" "bk_Put B db b k v = (None, db')" "c \<noteq> b"
  shows "bk_Items B db' c = bk_Items B db c"
  using assms by (intro items_eq) (auto simp: items_sorted items_get put_get)

end

section \<open>A concrete database\<close>

text \<open>The newest entry of a key comes first; an iteration sorts.\<close>

type_synonym mem_db = "string \<rightharpoonup> (bytes \<times> bytes) list"

fun insert_item :: "bytes \<Rightarrow> bytes \<Rightarrow> (bytes \<times> bytes) list \<Rightarrow> (bytes \<times> bytes) list" where
  "insert_item k v [] = [(k, v)]"
| "insert_item k v ((j, w) # kvs) =
     (if k = j then (k, v) # kvs
      else if bytes_less k j then (k, v) # (j, w) # kvs
      else (j, w) # insert_item k v kvs)"

definition mem_entries :: "mem_db \<Rightarrow> string \<Rightarrow> (bytes \<times> bytes) list" where
  "mem_entries db b = (case db b of None \<Rightarrow> [] | Some kvs \<Rightarrow> kvs)"

definition mem_bolt :: "mem_db bolt" where
  "mem_bolt =
     \<lparr>bk_Has = (\<lambda>db b. db b \<noteq> None),
      bk_Create = (\<lambda>db b. (None, if db b = None then db(b \<mapsto> []) else db)),
      bk_Get = (\<lambda>db b k. map_of (mem_entries db b) k),
      bk_Put = (\<lambda>db b k v. (None, db(b \<mapsto> (k, v) # mem_entries db b))),
      bk_Delete = (\<lambda>db b k. (None, db(b := map_option (filter (\<lambda>kv. fst kv \<noteq> k)) (db b)))),
      bk_Items = (\<lambda>db b. foldr (\<lambda>(k, v). insert_item k v) (mem_entries db b) []),
      bk_Commit = (\<lambda>_ _. None)\<rparr>"

lemma insert_item_get:
  "sorted_wrt bytes_less (map fst kvs) \<Longrightarrow>
   (j, w) \<in> set (insert_item k v kvs) \<longleftrightarrow> (if j = k then w = v else (j, w) \<in> set kvs)"
proof (induction kvs)
  case (Cons kv kvs)
  obtain a b where "kv = (a, b)" by force
  with Cons show ?case by (auto dest: bytes_less_trans)
qed auto

lemma insert_item_keys: "(j, w) \<in> set (insert_item k v kvs) \<Longrightarrow> j = k \<or> (j, w) \<in> set kvs"
  by (induction k v kvs rule: insert_item.induct) (auto split: if_splits)

lemma insert_item_sorted:
  "sorted_wrt bytes_less (map fst kvs) \<Longrightarrow> sorted_wrt bytes_less (map fst (insert_item k v kvs))"
proof (induction kvs)
  case (Cons kv kvs)
  obtain a b where kv: "kv = (a, b)" by force
  show ?case
    using Cons kv bytes_less_total [of k a]
    by (auto intro: bytes_less_trans dest!: insert_item_keys)
qed simp

lemma sorted_items: "sorted_wrt bytes_less (map fst (foldr (\<lambda>(k, v). insert_item k v) kvs []))"
  by (induction kvs) (auto intro: insert_item_sorted)

lemma items_lookup: "(k, v) \<in> set (foldr (\<lambda>(k, v). insert_item k v) kvs []) \<longleftrightarrow> map_of kvs k = Some v"
proof (induction kvs)
  case (Cons kv kvs)
  then show ?case using sorted_items [of kvs] by (cases kv) (auto simp: insert_item_get)
qed simp

lemma map_of_filter_key: "map_of (filter (\<lambda>kv. fst kv \<noteq> k) kvs) j = (if j = k then None else map_of kvs j)"
  by (induction kvs) auto

interpretation mem: bolt_db mem_bolt
proof (unfold_locales, goal_cases)
  case (1 db b)
  show ?case by (simp add: mem_bolt_def sorted_items)
next
  case (2 k v db b)
  show ?case by (simp add: mem_bolt_def items_lookup)
next
  case (3 db b k v db' c j)
  then show ?case by (auto simp: mem_bolt_def mem_entries_def)
next
  case (4 db b k v db')
  then show ?case by (intro ext) (auto simp: mem_bolt_def split: if_splits)
next
  case (5 db b k db' c j)
  then show ?case by (auto simp: mem_bolt_def mem_entries_def map_of_filter_key split: option.splits if_splits)
next
  case (6 db b k db')
  then show ?case by (intro ext) (auto simp: mem_bolt_def split: if_splits)
next
  case (7 db b db' c)
  then show ?case by (auto simp: mem_bolt_def split: if_splits)
next
  case (8 db b db')
  then have "mem_entries db' = mem_entries db"
    by (intro ext) (auto simp: mem_bolt_def mem_entries_def split: if_splits)
  then show ?case by (simp add: mem_bolt_def)
next
  case (9 db b k v)
  then show ?case by (auto simp: mem_bolt_def mem_entries_def split: option.splits)
qed

end
