(* ===== verification/Repository.thy ===== *)
theory Repository
  imports Bolt Models
begin

text \<open>
  The repository of \<^verbatim>\<open>internal/storage/db\<close>: assets, events, canary tokens and alerts as JSON
  documents in four buckets (\<^verbatim>\<open>bolt.go\<close>, \<^verbatim>\<open>repository.go\<close>). The database is the parameter
  \<open>B\<close> of theory Bolt, the serializer of a document type is a \<open>jcodec\<close> (theory GoLib).

  A bucket that does not exist is a nil pointer in the source, and the operations on it
  panic; here they end with \<open>NilBucket\<close>, and the transaction is rolled back.
\<close>

section \<open>The database file\<close>

definition BucketAssets :: string where "BucketAssets = ''assets''"
definition BucketEvents :: string where "BucketEvents = ''events''"
definition BucketCanaryTokens :: string where "BucketCanaryTokens = ''canary_tokens''"
definition BucketAlerts :: string where "BucketAlerts = ''alerts''"

lemmas bucket_names = BucketAssets_def BucketEvents_def BucketCanaryTokens_def BucketAlerts_def

datatype repo_error =
    NotFound string
  | RepoBolt string
  | MarshalErr
  | UnmarshalErr
  | NilBucket

fun create_buckets :: "'db bolt \<Rightarrow> string list \<Rightarrow> 'db \<Rightarrow> repo_error option \<times> 'db" where
  "create_buckets B [] db = (None, db)"
| "create_buckets B (b # bs) db =
     (case bk_Create B db b of
        (Some m, db') \<Rightarrow> (Some (RepoBolt m), db')
      | (None, db') \<Rightarrow> create_buckets B bs db')"

text \<open>The part of \<^verbatim>\<open>New\<close> after the file is open.\<close>

definition db_New :: "'db bolt \<Rightarrow> 'db \<Rightarrow> repo_error option \<times> 'db" where
  "db_New B db =
     db_Update B RepoBolt (create_buckets B [BucketAssets, BucketEvents, BucketCanaryTokens, BucketAlerts]) db"

section \<open>Saving and reading one document\<close>

definition repo_save ::
  "'db bolt \<Rightarrow> 'a jcodec \<Rightarrow> string \<Rightarrow> string \<Rightarrow> 'a \<Rightarrow> 'db \<Rightarrow> repo_error option \<times> 'db" where
  "repo_save B C bucket key x db =
     db_Update B RepoBolt
       (\<lambda>db. case jc_Marshal C x of
               None \<Rightarrow> (Some MarshalErr, db)
             | Some data \<Rightarrow>
                 if \<not> bk_Has B db bucket then (Some NilBucket, db)
                 else bput B RepoBolt bucket (str_bytes key) data db) db"

definition repo_get ::
  "'db bolt \<Rightarrow> 'a jcodec \<Rightarrow> string \<Rightarrow> string \<Rightarrow> string \<Rightarrow> 'db \<Rightarrow> repo_error + 'a" where
  "repo_get B C bucket missing key db =
     (if \<not> bk_Has B db bucket then Inl NilBucket
      else
        (case bk_Get B db bucket (str_bytes key) of
           None \<Rightarrow> Inl (NotFound missing)
         | Some data \<Rightarrow> (case jc_Unmarshal C data of None \<Rightarrow> Inl UnmarshalErr | Some x \<Rightarrow> Inr x)))"

text \<open>\<^verbatim>\<open>ForEach\<close> over a bucket, skipping corrupt entries.\<close>

definition repo_list :: "'db bolt \<Rightarrow> 'a jcodec \<Rightarrow> string \<Rightarrow> 'db \<Rightarrow> repo_error + 'a list" where
  "repo_list B C bucket db =
     (if \<not> bk_Has B db bucket then Inl NilBucket
      else Inr (List.map_filter (\<lambda>(k, v). jc_Unmarshal C v) (bk_Items B db bucket)))"

text \<open>A cursor from the last key backwards, up to \<open>limit\<close> documents that pass the filter.\<close>

fun cursor_scan :: "'a jcodec \<Rightarrow> ('a \<Rightarrow> bool) \<Rightarrow> nat \<Rightarrow> 'a list \<Rightarrow> (bytes \<times> bytes) list \<Rightarrow> 'a list" where
  "cursor_scan C keep limit out [] = out"
| "cursor_scan C keep limit out ((k, v) # kvs) =
     (if limit \<le> length out then out
      else
        (case jc_Unmarshal C v of
           None \<Rightarrow> cursor_scan C keep limit out kvs
         | Some x \<Rightarrow> cursor_scan C keep limit (if keep x then out @ [x] else out) kvs))"

definition repo_scan ::
  "'db bolt \<Rightarrow> 'a jcodec \<Rightarrow> string \<Rightarrow> ('a \<Rightarrow> bool) \<Rightarrow> nat \<Rightarrow> 'db \<Rightarrow> repo_error + 'a list" where
  "repo_scan B C bucket keep limit db =
     (if \<not> bk_Has B db bucket then Inl NilBucket
      else Inr (cursor_scan C keep limit [] (rev (bk_Items B db bucket))))"

section \<open>The operations\<close>

definition SaveAsset :: "'db bolt \<Rightarrow> Asset jcodec \<Rightarrow> Asset \<Rightarrow> 'db \<Rightarrow> repo_error option \<times> 'db" where
  "SaveAsset B C a db = repo_save B C BucketAssets (as_ID a) a db"

definition GetAsset :: "'db bolt \<Rightarrow> Asset jcodec \<Rightarrow> string \<Rightarrow> 'db \<Rightarrow> repo_error + Asset" where
  "GetAsset B C i db = repo_get B C BucketAssets ''asset not found'' i db"

definition ListAssets :: "'db bolt \<Rightarrow> Asset jcodec \<Rightarrow> 'db \<Rightarrow> repo_error + Asset list" where
  "ListAssets B C db = repo_list B C BucketAssets db"

definition GetEvent :: "'db bolt \<Rightarrow> NetworkEvent jcodec \<Rightarrow> string \<Rightarrow> 'db \<Rightarrow> repo_error + NetworkEvent" where
  "GetEvent B C i db = repo_get B C BucketEvents ''event not found'' i db"

definition LogEvent :: "'db bolt \<Rightarrow> NetworkEvent jcodec \<Rightarrow> NetworkEvent \<Rightarrow> 'db \<Rightarrow> repo_error option \<times> 'db" where
  "LogEvent B C e db = repo_save B C BucketEvents (ev_ID e) e db"

definition SaveCanaryToken :: "'db bolt \<Rightarrow> CanaryToken jcodec \<Rightarrow> CanaryToken \<Rightarrow> 'db \<Rightarrow> repo_error option \<times> 'db" where
  "SaveCanaryToken B C t db = repo_save B C BucketCanaryTokens (ct_ID t) t db"

definition GetCanaryToken :: "'db bolt \<Rightarrow> CanaryToken jcodec \<Rightarrow> string \<Rightarrow> 'db \<Rightarrow> repo_error + CanaryToken" where
  "GetCanaryToken B C i db = repo_get B C BucketCanaryTokens ''canary token not found'' i db"

definition ListCanaryTokens :: "'db bolt \<Rightarrow> CanaryToken jcodec \<Rightarrow> 'db \<Rightarrow> repo_error + CanaryToken list" where
  "ListCanaryTokens B C db = repo_list B C BucketCanaryTokens db"

definition SaveAlert :: "'db bolt \<Rightarrow> Alert jcodec \<Rightarrow> Alert \<Rightarrow> 'db \<Rightarrow> repo_error option \<times> 'db" where
  "SaveAlert B C a db = repo_save B C BucketAlerts (al_ID a) a db"

definition GetAlert :: "'db bolt \<Rightarrow> Alert jcodec \<Rightarrow> string \<Rightarrow> 'db \<Rightarrow> repo_error + Alert" where
  "GetAlert B C i db = repo_get B C BucketAlerts ''alert not found'' i db"

text \<open>The patch: an empty status or note leaves the field.\<close>

definition patch_alert :: "string \<Rightarrow> string \<Rightarrow> gotime \<Rightarrow> Alert \<Rightarrow> Alert" where
  "patch_alert status note now a =
     (let a1 = (if status \<noteq> [] then a\<lparr>al_Status := status\<rparr> else a);
          a2 = (if note \<noteq> [] then a1\<lparr>al_Note := note\<rparr> else a1)
      in a2\<lparr>al_UpdatedAt := now\<rparr>)"

text \<open>The alert is read, patched and written in one transaction.\<close>

definition UpdateAlert ::
  "'db bolt \<Rightarrow> Alert jcodec \<Rightarrow> gotime \<Rightarrow> string \<Rightarrow> string \<Rightarrow> string \<Rightarrow> 'db \<Rightarrow>
   (repo_error + Alert) \<times> 'db" where
  "UpdateAlert B C now i status note db =
     (case db_Update B RepoBolt
        (\<lambda>db. case GetAlert B C i db of
                Inl e \<Rightarrow> (Some e, db)
              | Inr a \<Rightarrow>
                  (case jc_Marshal C (patch_alert status note now a) of
                     None \<Rightarrow> (Some MarshalErr, db)
                   | Some out \<Rightarrow> bput B RepoBolt BucketAlerts (str_bytes i) out db)) db of
        (Some e, db') \<Rightarrow> (Inl e, db')
      | (None, db') \<Rightarrow>
          (case GetAlert B C i db of
             Inl e \<Rightarrow> (Inl e, db')
           | Inr a \<Rightarrow> (Inr (patch_alert status note now a), db')))"

record AlertFilter =
  af_Status :: string
  af_Severity :: string
  af_Limit :: int

text \<open>\<open>fold_eq\<close> is \<^verbatim>\<open>strings.EqualFold\<close>, which compares under Unicode case folding.\<close>

definition alert_matches :: "(string \<Rightarrow> string \<Rightarrow> bool) \<Rightarrow> AlertFilter \<Rightarrow> Alert \<Rightarrow> bool" where
  "alert_matches fold_eq f a \<longleftrightarrow>
     (af_Status f = [] \<or> al_Status a = af_Status f) \<and>
     (af_Severity f = [] \<or> fold_eq (al_Severity a) (af_Severity f))"

definition ListAlerts ::
  "'db bolt \<Rightarrow> Alert jcodec \<Rightarrow> (string \<Rightarrow> string \<Rightarrow> bool) \<Rightarrow> AlertFilter \<Rightarrow> 'db \<Rightarrow> repo_error + Alert list" where
  "ListAlerts B C fold_eq f db =
     repo_scan B C BucketAlerts (alert_matches fold_eq f) (nat (if af_Limit f \<le> 0 then 50 else af_Limit f)) db"

definition event_matches :: "string \<Rightarrow> gotime \<Rightarrow> NetworkEvent \<Rightarrow> bool" where
  "event_matches eventType since e \<longleftrightarrow>
     (eventType = [] \<or> ev_Type e = eventType) \<and> (IsZero since \<or> \<not> ev_Timestamp e < since)"

definition ListEventsByType ::
  "'db bolt \<Rightarrow> NetworkEvent jcodec \<Rightarrow> string \<Rightarrow> gotime \<Rightarrow> int \<Rightarrow> 'db \<Rightarrow> repo_error + NetworkEvent list" where
  "ListEventsByType B C eventType since limit db =
     repo_scan B C BucketEvents (event_matches eventType since) (nat (if limit \<le> 0 then 100 else limit)) db"

text \<open>The last document of the iteration with the slug wins.\<close>

definition FindCanaryTokenByToken ::
  "'db bolt \<Rightarrow> CanaryToken jcodec \<Rightarrow> string \<Rightarrow> 'db \<Rightarrow> repo_error + CanaryToken" where
  "FindCanaryTokenByToken B C token db =
     (case repo_list B C BucketCanaryTokens db of
        Inl e \<Rightarrow> Inl e
      | Inr ts \<Rightarrow>
          (case find (\<lambda>t. ct_Token t = token) (rev ts) of
             None \<Rightarrow> Inl (NotFound ''canary token not found'')
           | Some t \<Rightarrow> Inr t))"

definition Healthy :: "'db bolt option \<Rightarrow> (unit \<Rightarrow> string option) \<Rightarrow> string option" where
  "Healthy d view =
     (case d of None \<Rightarrow> Some ''database not initialized'' | Some _ \<Rightarrow> view ())"

section \<open>Lemmas\<close>

lemma cursor_scan_eq:
  "cursor_scan C keep limit out kvs =
   out @ take (limit - length out) (filter keep (List.map_filter (\<lambda>(k, v). jc_Unmarshal C v) kvs))"
proof (induction C keep limit out kvs rule: cursor_scan.induct)
  case (2 C keep limit out k v kvs)
  then show ?case
    by (auto simp: map_filter_simps not_le take_Cons' split: option.splits)
qed (simp add: map_filter_simps)

lemma map_filter_set: "x \<in> set (List.map_filter f xs) \<longleftrightarrow> (\<exists>y \<in> set xs. f y = Some x)"
  by (induction xs) (auto simp: map_filter_simps split: option.splits)

lemma repo_save_cases:
  assumes "repo_save B C b k x db = (r, db')"
  obtains (failed) e where "r = Some e" "db' = db"
    | (saved) d where "r = None" "jc_Marshal C x = Some d" "bk_Has B db b"
        "bk_Put B db b (str_bytes k) d = (None, db')"
proof -
  let ?f = "\<lambda>db. case jc_Marshal C x of None \<Rightarrow> (Some MarshalErr, db)
     | Some data \<Rightarrow> if \<not> bk_Has B db b then (Some NilBucket, db) else bput B RepoBolt b (str_bytes k) data db"
  show thesis
  proof (cases rule: db_Update_cases [of B RepoBolt ?f db])
    case (failed e)
    with assms have "r = Some e" "db' = db" by (simp_all add: repo_save_def)
    then show thesis by (rule that(1))
  next
    case (committed db'')
    with assms have "r = None" "db'' = db'" by (simp_all add: repo_save_def)
    with committed(2) that(2) show thesis
      by (auto simp: bput_def split: option.splits if_splits prod.splits)
  qed
qed

lemma repo_get_iff:
  "repo_get B C b m k db = Inr x \<longleftrightarrow>
   bk_Has B db b \<and> (\<exists>d. bk_Get B db b (str_bytes k) = Some d \<and> jc_Unmarshal C d = Some x)"
  by (auto simp: repo_get_def split: option.splits)

context bolt_db
begin

lemma put_repo_get_same:
  assumes "bk_Has B db b" "bk_Put B db b (str_bytes k) d = (None, db')" "jc_Unmarshal C d = Some x"
  shows "repo_get B C b m k db' = Inr x"
  using put_get [OF assms(1,2)] put_has [OF assms(1,2)] assms by (simp add: repo_get_iff)

lemma put_repo_get_other:
  assumes "bk_Has B db b" "bk_Put B db b (str_bytes k) d = (None, db')" "(b', k') \<noteq> (b, k)"
  shows "repo_get B C b' m k' db' = repo_get B C b' m k' db"
  using put_get [OF assms(1,2)] put_has [OF assms(1,2)] assms(3) by (auto simp: repo_get_def)

lemma repo_save_get:
  assumes "repo_save B C b k x db = (r, db')" "round_trips C x"
  shows "r = None \<Longrightarrow> repo_get B C b m k db' = Inr x"
    and "(b', k') \<noteq> (b, k) \<Longrightarrow> repo_get B D b' m k' db' = repo_get B D b' m k' db"
    and "r \<noteq> None \<Longrightarrow> db' = db"
    and "bk_Has B db' = bk_Has B db"
  using assms
  by (auto elim!: repo_save_cases simp: round_trips_def put_repo_get_same put_repo_get_other dest: put_has)

lemma repo_list_set:
  assumes "repo_list B C b db = Inr xs"
  shows "x \<in> set xs \<longleftrightarrow> (\<exists>k d. bk_Get B db b k = Some d \<and> jc_Unmarshal C d = Some x)"
proof -
  have "xs = List.map_filter (\<lambda>(k, v). jc_Unmarshal C v) (bk_Items B db b)"
    using assms by (simp add: repo_list_def split: if_splits)
  then have "x \<in> set xs \<longleftrightarrow> (\<exists>k d. (k, d) \<in> set (bk_Items B db b) \<and> jc_Unmarshal C d = Some x)"
    by (force simp: map_filter_set)
  then show ?thesis by (simp add: items_get)
qed

lemma find_token:
  assumes "bk_Has B db BucketCanaryTokens"
  shows "case FindCanaryTokenByToken B C token db of
      Inr t \<Rightarrow> ct_Token t = token \<and> (\<exists>k d. bk_Get B db BucketCanaryTokens k = Some d \<and> jc_Unmarshal C d = Some t)
    | Inl e \<Rightarrow> e = NotFound ''canary token not found'' \<and>
        (\<forall>k d t. bk_Get B db BucketCanaryTokens k = Some d \<longrightarrow> jc_Unmarshal C d = Some t \<longrightarrow> ct_Token t \<noteq> token)"
proof -
  obtain ts where ts: "repo_list B C BucketCanaryTokens db = Inr ts"
    using assms by (simp add: repo_list_def)
  show ?thesis
  proof (cases "find (\<lambda>t. ct_Token t = token) (rev ts)")
    case None
    moreover from this have "\<forall>t \<in> set ts. ct_Token t \<noteq> token" by (simp add: find_None_iff)
    ultimately show ?thesis using ts repo_list_set [OF ts] by (auto simp: FindCanaryTokenByToken_def)
  next
    case (Some t)
    then have "t \<in> set ts" "ct_Token t = token" by (auto simp: find_Some_iff) (metis nth_mem set_rev length_rev)
    with ts Some repo_list_set [OF ts] show ?thesis by (auto simp: FindCanaryTokenByToken_def)
  qed
qed

lemma update_alert_cases:
  assumes "UpdateAlert B C now i status note db = (res, db')"
  obtains (failed) e where "res = Inl e" "db' = db"
    | (patched) a d where "GetAlert B C i db = Inr a" "res = Inr (patch_alert status note now a)"
        "jc_Marshal C (patch_alert status note now a) = Some d" "bk_Has B db BucketAlerts"
        "bk_Put B db BucketAlerts (str_bytes i) d = (None, db')"
proof -
  let ?f = "\<lambda>db. case GetAlert B C i db of Inl e \<Rightarrow> (Some e, db)
     | Inr a \<Rightarrow> (case jc_Marshal C (patch_alert status note now a) of None \<Rightarrow> (Some MarshalErr, db)
         | Some out \<Rightarrow> bput B RepoBolt BucketAlerts (str_bytes i) out db)"
  show thesis
  proof (cases rule: db_Update_cases [of B RepoBolt ?f db])
    case (failed e)
    with assms have "res = Inl e" "db' = db" by (simp_all add: UpdateAlert_def)
    then show thesis by (rule that(1))
  next
    case (committed db'')
    from committed(2) obtain a d where a: "GetAlert B C i db = Inr a"
      "jc_Marshal C (patch_alert status note now a) = Some d"
      "bk_Put B db BucketAlerts (str_bytes i) d = (None, db'')"
      by (auto simp: bput_def split: sum.splits option.splits prod.splits)
    moreover from a(1) have "bk_Has B db BucketAlerts" by (simp add: GetAlert_def repo_get_iff)
    moreover from assms committed(1) a(1) have "res = Inr (patch_alert status note now a)" "db'' = db'"
      by (simp_all add: UpdateAlert_def)
    ultimately show thesis using that(2) by blast
  qed
qed

end

section \<open>Properties\<close>

text \<open>
  Saving and reading documents. A save that reports success makes exactly that document
  readable under its key and leaves every other document of every bucket as it was; a save
  that fails, whether in the serializer, in the database or in the commit, changes nothing.
\<close>

theorem repository_roundtrip:
  assumes "bolt_db B" "repo_save B C b k x db = (r, db')" "round_trips C x"
  shows "(case r of None \<Rightarrow> repo_get B C b m k db' = Inr x | Some e \<Rightarrow> db' = db) \<and>
    (\<forall>b' k'. (b', k') \<noteq> (b, k) \<longrightarrow> repo_get B D b' m' k' db' = repo_get B D b' m' k' db)"
  using bolt_db.repo_save_get(1,3) [OF assms] bolt_db.repo_save_get(2) [OF assms, where D = D and m = m']
  by (auto split: option.splits)

definition sample_alert :: Alert where
  "sample_alert =
     \<lparr>al_ID = ''a1'', al_RuleName = ''SCAN'', al_Severity = ''high'', al_Status = AlertStatusNew,
      al_Source = ''10.0.0.7'', al_Destination = [], al_MitreTactic = [], al_ChainEvents = [], al_Note = [],
      al_TriggeredAt = 5, al_UpdatedAt = 5\<rparr>"

text \<open>A serializer of alerts for trying the statements: it writes id, status, note and time.\<close>

definition sample_codec :: "Alert jcodec" where
  "sample_codec =
     \<lparr>jc_Marshal = (\<lambda>a. Some (be_bytes 1 (length (al_Status a)) @ be_bytes 1 (nat (al_UpdatedAt a)) @
        str_bytes (al_Status a) @ str_bytes (al_Note a))),
      jc_Unmarshal = (\<lambda>d. case d of
        n # t # rest \<Rightarrow>
          Some (sample_alert\<lparr>al_Status := map (\<lambda>b. char_of (unat b)) (take (unat n) rest),
            al_Note := map (\<lambda>b. char_of (unat b)) (drop (unat n) rest), al_UpdatedAt := int (unat t)\<rparr>)
      | _ \<Rightarrow> None)\<rparr>"

lemma sample_alert_trips: "round_trips sample_codec sample_alert"
  unfolding round_trips_def sample_codec_def sample_alert_def AlertStatusNew_def
  by (simp add: be_bytes_def str_bytes_def) code_simp

theorem repository_roundtrip_witness:
  "\<exists>db'. repo_save mem_bolt sample_codec BucketAlerts ''a1'' sample_alert [BucketAlerts \<mapsto> []] = (None, db') \<and>
     repo_get mem_bolt sample_codec BucketAlerts [] ''a1'' db' = Inr sample_alert"
proof -
  obtain d where d: "jc_Marshal sample_codec sample_alert = Some d" by (simp add: sample_codec_def)
  have "repo_save mem_bolt sample_codec BucketAlerts ''a1'' sample_alert [BucketAlerts \<mapsto> []] =
      (None, [BucketAlerts \<mapsto> [(str_bytes ''a1'', d)]])"
    using d by (simp add: repo_save_def db_Update_def bput_def mem_bolt_def mem_entries_def)
  with repository_roundtrip [OF mem.bolt_db_axioms this sample_alert_trips] show ?thesis by auto
qed

text \<open>
  Listing. The alerts are the first \<open>limit\<close> (50 by default) that match the filter when
  the readable alerts are taken in descending order of their keys; likewise for events by
  type and time (100 by default). In particular every result matches, and when fewer than
  the limit are returned, no matching document is missing.
\<close>

theorem listing_exact:
  assumes "bolt_db B"
  shows "(\<forall>as. ListAlerts B C fold_eq f db = Inr as \<longrightarrow>
      (\<exists>kvs. sorted_wrt (\<lambda>x y. bytes_less y x) (map fst kvs) \<and>
        (\<forall>k v. (k, v) \<in> set kvs \<longleftrightarrow> bk_Get B db BucketAlerts k = Some v) \<and>
        as = take (if af_Limit f \<le> 0 then 50 else nat (af_Limit f))
          (filter (alert_matches fold_eq f) (List.map_filter (\<lambda>(k, v). jc_Unmarshal C v) kvs)))) \<and>
    (\<forall>es. ListEventsByType B C' ty since limit db = Inr es \<longrightarrow>
      (\<exists>kvs. sorted_wrt (\<lambda>x y. bytes_less y x) (map fst kvs) \<and>
        (\<forall>k v. (k, v) \<in> set kvs \<longleftrightarrow> bk_Get B db BucketEvents k = Some v) \<and>
        es = take (if limit \<le> 0 then 100 else nat limit)
          (filter (event_matches ty since) (List.map_filter (\<lambda>(k, v). jc_Unmarshal C' v) kvs))))"
  by (auto simp: ListAlerts_def ListEventsByType_def repo_scan_def cursor_scan_eq bolt_db.items_get [OF assms]
      sorted_wrt_rev rev_map [symmetric] bolt_db.items_sorted [OF assms] split: if_splits
      intro!: exI [of _ "rev (bk_Items B db _)"])

theorem listing_exact_witness:
  "\<exists>kvs. (\<forall>k v. (k, v) \<in> set kvs \<longleftrightarrow> bk_Get mem_bolt [BucketAlerts \<mapsto> []] BucketAlerts k = Some v) \<and>
    ListAlerts mem_bolt sample_codec (=) \<lparr>af_Status = [], af_Severity = [], af_Limit = 0\<rparr> [BucketAlerts \<mapsto> []]
      = Inr (take 50 (List.map_filter (\<lambda>(k, v). jc_Unmarshal sample_codec v) kvs))"
proof -
  have "ListAlerts mem_bolt sample_codec (=) \<lparr>af_Status = [], af_Severity = [], af_Limit = 0\<rparr>
      [BucketAlerts \<mapsto> []] = Inr []"
    by (simp add: ListAlerts_def repo_scan_def mem_bolt_def mem_entries_def)
  note r = this
  from conjunct1 [OF listing_exact [OF mem.bolt_db_axioms], rule_format, OF r] obtain kvs where
    "\<forall>k v. (k, v) \<in> set kvs \<longleftrightarrow> bk_Get mem_bolt [BucketAlerts \<mapsto> []] BucketAlerts k = Some v"
    "[] = take 50 (filter (alert_matches (=) \<lparr>af_Status = [], af_Severity = [], af_Limit = 0\<rparr>)
       (List.map_filter (\<lambda>(k, v). jc_Unmarshal sample_codec v) kvs))" by auto
  moreover have "filter (alert_matches (=) \<lparr>af_Status = [], af_Severity = [], af_Limit = 0\<rparr>) xs = xs" for xs
    by (induction xs) (auto simp: alert_matches_def)
  ultimately show ?thesis using r by metis
qed

text \<open>
  Triage. Patching an alert sets status and note where the request gives them and the
  time of the change, and nothing else; the patched alert is what is read afterwards and
  no other document changes. When it fails (unknown alert, unreadable document, failing
  commit) the database stays as it was.
\<close>

theorem alert_patch:
  assumes "bolt_db B" "UpdateAlert B C now i status note db = (res, db')"
    and "\<And>a. GetAlert B C i db = Inr a \<Longrightarrow> round_trips C (patch_alert status note now a)"
  shows "case res of
      Inl e \<Rightarrow> db' = db
    | Inr a' \<Rightarrow> GetAlert B C i db' = Inr a' \<and>
        (\<forall>b' k'. (b', k') \<noteq> (BucketAlerts, i) \<longrightarrow> repo_get B D b' m k' db' = repo_get B D b' m k' db) \<and>
        (\<exists>a. GetAlert B C i db = Inr a \<and>
           a' = a\<lparr>al_Status := (if status = [] then al_Status a else status),
                  al_Note := (if note = [] then al_Note a else note), al_UpdatedAt := now\<rparr>)"
proof (cases rule: bolt_db.update_alert_cases [OF assms(1,2)])
  case (2 a d)
  then have "jc_Unmarshal C d = Some (patch_alert status note now a)"
    using assms(3) by (auto simp: round_trips_def)
  then have "GetAlert B C i db' = Inr (patch_alert status note now a)"
    using bolt_db.put_repo_get_same [OF assms(1) 2(4,5)] by (simp add: GetAlert_def)
  moreover have "patch_alert status note now a = a\<lparr>al_Status := (if status = [] then al_Status a else status),
      al_Note := (if note = [] then al_Note a else note), al_UpdatedAt := now\<rparr>"
    by (simp add: patch_alert_def)
  ultimately show ?thesis
    using 2 bolt_db.put_repo_get_other [OF assms(1) 2(4,5)] by auto
qed simp

theorem alert_patch_witness:
  "case UpdateAlert mem_bolt sample_codec 9 ''a1'' ''CLOSED'' [] [BucketAlerts \<mapsto> []] of
     (res, db') \<Rightarrow> (case res of Inl e \<Rightarrow> db' = [BucketAlerts \<mapsto> []] | Inr a \<Rightarrow> al_Status a = ''CLOSED'')"
proof -
  obtain res db' where r: "UpdateAlert mem_bolt sample_codec 9 ''a1'' ''CLOSED'' [] [BucketAlerts \<mapsto> []] = (res, db')"
    by fastforce
  have "GetAlert mem_bolt sample_codec ''a1'' [BucketAlerts \<mapsto> []] = Inl (NotFound ''alert not found'')"
    by (simp add: GetAlert_def repo_get_def mem_bolt_def mem_entries_def)
  with alert_patch [OF mem.bolt_db_axioms r] r show ?thesis by (auto split: sum.splits)
qed

section \<open>The order of listings\<close>

text \<open>
  Keys are random identifiers, so descending key order is not the order of time: an alert
  triggered later can be listed after an older one.
\<close>

lemma listing_not_newest_first:
  "\<exists>old new. al_TriggeredAt old < al_TriggeredAt new \<and>
     bytes_less (str_bytes (al_ID new)) (str_bytes (al_ID old)) \<and>
     ListAlerts mem_bolt \<lparr>jc_Marshal = (\<lambda>_. None), jc_Unmarshal = (\<lambda>d. if d = [0] then Some old else Some new)\<rparr>
       (=) \<lparr>af_Status = [], af_Severity = [], af_Limit = 0\<rparr>
       [BucketAlerts \<mapsto> [(str_bytes (al_ID old), [0]), (str_bytes (al_ID new), [1])]] = Inr [old, new]"
  by (rule exI [of _ "sample_alert\<lparr>al_ID := ''f0'', al_TriggeredAt := 1\<rparr>"],
      rule exI [of _ "sample_alert\<lparr>al_ID := ''0a'', al_TriggeredAt := 2\<rparr>"])
    (simp add: ListAlerts_def repo_scan_def mem_bolt_def mem_entries_def str_bytes_def alert_matches_def
      sample_alert_def)

end
