(* ===== verification/Canary.thy ===== *)
theory Canary
  imports Repository
begin

text \<open>
  Canary tokens (\<^verbatim>\<open>internal/canary\<close>, \<^verbatim>\<open>internal/api/canary_webhook.go\<close>): decoy host names and
  URLs that nobody has a reason to touch. A token is minted around a random slug and stored
  (\<^verbatim>\<open>token.go\<close>, \<^verbatim>\<open>http_token.go\<close>, \<^verbatim>\<open>honeypot_token.go\<close>); the webhook turns a request for a
  known slug into an event; when the correlation engine raises its alert, \<open>RecordTrigger\<close>
  (\<^verbatim>\<open>trigger.go\<close>) finds the token again and counts the trigger.
\<close>

section \<open>Strings\<close>

definition trim_right :: "char \<Rightarrow> string \<Rightarrow> string" where
  "trim_right c s = rev (dropWhile (\<lambda>d. d = c) (rev s))"

definition trim_both :: "char \<Rightarrow> string \<Rightarrow> string" where
  "trim_both c s = trim_right c (dropWhile (\<lambda>d. d = c) s)"

definition trim_suffix :: "string \<Rightarrow> string \<Rightarrow> string" where
  "trim_suffix s suf = (if strings_HasSuffix s suf then take (length s - length suf) s else s)"

definition trim_prefix :: "string \<Rightarrow> string \<Rightarrow> string" where
  "trim_prefix s pre = (if strings_HasPrefix s pre then drop (length pre) s else s)"

section \<open>Minting\<close>

text \<open>The eight random bytes (\<open>None\<close> when the source fails), a fresh identifier, the time.\<close>

record mint_env =
  me_random :: "bytes option"
  me_uuid :: string
  me_now :: gotime

datatype canary_error = RandomFailed | SaveFailed repo_error

definition randomSlug :: "mint_env \<Rightarrow> canary_error + string" where
  "randomSlug env =
     (case me_random env of None \<Rightarrow> Inl RandomFailed | Some b \<Rightarrow> Inr (hex_EncodeToString b))"

definition new_token :: "mint_env \<Rightarrow> string \<Rightarrow> string \<Rightarrow> string \<Rightarrow> CanaryToken" where
  "new_token env slug ty label =
     \<lparr>ct_ID = me_uuid env, ct_Token = slug, ct_Type = ty, ct_Label = label, ct_Subdomain = [], ct_URL = [],
      ct_CreatedAt = me_now env, ct_TriggeredAt = None, ct_TriggerCount = 0, ct_LastTriggerSource = []\<rparr>"

definition mint ::
  "'db bolt \<Rightarrow> CanaryToken jcodec \<Rightarrow> mint_env \<Rightarrow> (string \<Rightarrow> CanaryToken) \<Rightarrow> 'db \<Rightarrow>
   (canary_error + CanaryToken) \<times> 'db" where
  "mint B C env build db =
     (case randomSlug env of
        Inl e \<Rightarrow> (Inl e, db)
      | Inr slug \<Rightarrow>
          (case SaveCanaryToken B C (build slug) db of
             (Some e, db') \<Rightarrow> (Inl (SaveFailed e), db')
           | (None, db') \<Rightarrow> (Inr (build slug), db')))"

definition GenerateDNSToken ::
  "'db bolt \<Rightarrow> CanaryToken jcodec \<Rightarrow> mint_env \<Rightarrow> string \<Rightarrow> string \<Rightarrow> 'db \<Rightarrow> (canary_error + CanaryToken) \<times> 'db" where
  "GenerateDNSToken B C env zone label db =
     mint B C env (\<lambda>slug. (new_token env slug CanaryDNS label)\<lparr>ct_Subdomain := slug @ ''.'' @ zone\<rparr>) db"

definition decoy_url :: "string \<Rightarrow> string \<Rightarrow> string \<Rightarrow> string" where
  "decoy_url baseURL webhookPath slug =
     trim_right (CHR ''/'') baseURL @ ''/'' @ trim_both (CHR ''/'') webhookPath @ ''/'' @ slug"

definition GenerateHTTPToken ::
  "'db bolt \<Rightarrow> CanaryToken jcodec \<Rightarrow> mint_env \<Rightarrow> string \<Rightarrow> string \<Rightarrow> string \<Rightarrow> 'db \<Rightarrow>
   (canary_error + CanaryToken) \<times> 'db" where
  "GenerateHTTPToken B C env baseURL webhookPath label db =
     mint B C env (\<lambda>slug. (new_token env slug CanaryHTTP label)\<lparr>ct_URL := decoy_url baseURL webhookPath slug\<rparr>) db"

definition GenerateHoneypotToken ::
  "'db bolt \<Rightarrow> CanaryToken jcodec \<Rightarrow> mint_env \<Rightarrow> string \<Rightarrow> string \<Rightarrow> string \<Rightarrow> 'db \<Rightarrow>
   (canary_error + CanaryToken) \<times> 'db" where
  "GenerateHoneypotToken B C env baseURL webhookPath label db =
     mint B C env
       (\<lambda>slug. (new_token env slug CanaryHoneypotVM label)\<lparr>ct_URL := decoy_url baseURL webhookPath slug\<rparr>) db"

section \<open>The webhook\<close>

record webhook_request =
  wr_Method :: string
  wr_Path :: string
  wr_RemoteAddr :: string
  wr_UserAgent :: string
  wr_Referer :: string

text \<open>The status of the answer and the events pushed into the pipeline.\<close>

definition CanaryWebhookHandler ::
  "'db bolt \<Rightarrow> CanaryToken jcodec \<Rightarrow> gotime \<Rightarrow> webhook_request \<Rightarrow> 'db \<Rightarrow> nat \<times> NetworkEvent list" where
  "CanaryWebhookHandler B C now r db =
     (if wr_Method r \<noteq> ''POST'' then (405, [])
      else
        (let token = trim_prefix (wr_Path r) ''/api/canary/webhook/''
         in if token = [] then (404, [])
            else
              (case FindCanaryTokenByToken B C token db of
                 Inl e \<Rightarrow> (404, [])
               | Inr t \<Rightarrow>
                   (204, [\<lparr>ev_ID = [], ev_Type = EventCanary, ev_Source = wr_RemoteAddr r,
                           ev_Destination = token,
                           ev_Metadata = Some [''canary_token'' \<mapsto> AString token,
                             ''canary_type'' \<mapsto> AString ''HTTP'', ''user_agent'' \<mapsto> AString (wr_UserAgent r),
                             ''referer'' \<mapsto> AString (wr_Referer r)],
                           ev_Timestamp = now, ev_Signature = [], ev_SignerKeyID = []\<rparr>]))))"

section \<open>Recording a trigger\<close>

definition dnsTokenFromQueryName :: "string \<Rightarrow> string" where
  "dnsTokenFromQueryName name = takeWhile (\<lambda>c. c \<noteq> CHR ''.'') (trim_suffix name ''.'')"

text \<open>The slug of the event that an alert of one of the two canary rules refers to.\<close>

definition trigger_slug ::
  "'db bolt \<Rightarrow> NetworkEvent jcodec \<Rightarrow> NetworkEvent \<Rightarrow> 'db \<Rightarrow> string option" where
  "trigger_slug B CE alert db =
     (let rule = string_or_empty (meta_get (ev_Metadata alert) ''rule'')
      in if rule \<noteq> ''DNS_CANARY_TRIGGERED'' \<and> rule \<noteq> ''HTTP_CANARY_TRIGGERED'' then None
         else
           (case GetEvent B CE (string_or_empty (meta_get (ev_Metadata alert) ''trigger_id'')) db of
              Inl e \<Rightarrow> None
            | Inr orig \<Rightarrow>
                (let token =
                   (if rule = ''DNS_CANARY_TRIGGERED''
                    then dnsTokenFromQueryName (string_or_empty (meta_get (ev_Metadata orig) ''name''))
                    else string_or_empty (meta_get (ev_Metadata orig) ''canary_token''))
                 in if token = [] then None else Some token)))"

definition triggered :: "gotime \<Rightarrow> string \<Rightarrow> CanaryToken \<Rightarrow> CanaryToken" where
  "triggered now source ct =
     ct\<lparr>ct_TriggeredAt := Some now, ct_TriggerCount := ct_TriggerCount ct + 1, ct_LastTriggerSource := source\<rparr>"

text \<open>
  The token is read in one transaction and written in another; the outcome of the write is
  discarded.
\<close>

definition trigger_read ::
  "'db bolt \<Rightarrow> NetworkEvent jcodec \<Rightarrow> CanaryToken jcodec \<Rightarrow> NetworkEvent \<Rightarrow> 'db \<Rightarrow> CanaryToken option" where
  "trigger_read B CE C alert db =
     (case trigger_slug B CE alert db of
        None \<Rightarrow> None
      | Some token \<Rightarrow>
          (case FindCanaryTokenByToken B C token db of Inl e \<Rightarrow> None | Inr ct \<Rightarrow> Some ct))"

definition trigger_write ::
  "'db bolt \<Rightarrow> CanaryToken jcodec \<Rightarrow> gotime \<Rightarrow> NetworkEvent \<Rightarrow> CanaryToken \<Rightarrow> 'db \<Rightarrow> 'db" where
  "trigger_write B C now alert ct db =
     snd (SaveCanaryToken B C (triggered now (ev_Destination alert) ct) db)"

definition RecordTrigger ::
  "'db bolt \<Rightarrow> NetworkEvent jcodec \<Rightarrow> CanaryToken jcodec \<Rightarrow> gotime \<Rightarrow> NetworkEvent \<Rightarrow> 'db \<Rightarrow> 'db" where
  "RecordTrigger B CE C now alert db =
     (case trigger_read B CE C alert db of None \<Rightarrow> db | Some ct \<Rightarrow> trigger_write B C now alert ct db)"

section \<open>Lemmas\<close>

lemma hex_no_dot: "CHR ''.'' \<notin> set (hex_EncodeToString bs)"
  by (auto dest: hex_chars)

lemma dns_slug:
  assumes "CHR ''.'' \<notin> set slug"
  shows "dnsTokenFromQueryName (slug @ ''.'' @ zone @ ''.'') = slug"
    and "\<not> strings_HasSuffix zone ''.'' \<Longrightarrow> zone \<noteq> [] \<Longrightarrow> dnsTokenFromQueryName (slug @ ''.'' @ zone) = slug"
proof -
  have tw: "takeWhile (\<lambda>c. c \<noteq> CHR ''.'') (slug @ ''.'' @ zone) = slug"
    using assms by (induction slug) auto
  have "trim_suffix (slug @ ''.'' @ zone @ ''.'') ''.'' = slug @ ''.'' @ zone"
    by (simp add: trim_suffix_def strings_HasSuffix_def)
  with tw show "dnsTokenFromQueryName (slug @ ''.'' @ zone @ ''.'') = slug"
    by (simp add: dnsTokenFromQueryName_def)
  assume "\<not> strings_HasSuffix zone ''.''" "zone \<noteq> []"
  then have "\<not> strings_HasSuffix (slug @ ''.'' @ zone) ''.''"
    by (auto simp: HasSuffix_iff suffix_def append_eq_append_conv2 append_eq_Cons_conv Cons_eq_append_conv)
  with tw show "dnsTokenFromQueryName (slug @ ''.'' @ zone) = slug"
    by (simp add: dnsTokenFromQueryName_def trim_suffix_def)
qed

text \<open>Tokens are filed under their identifiers.\<close>

definition tokens_keyed :: "'db bolt \<Rightarrow> CanaryToken jcodec \<Rightarrow> 'db \<Rightarrow> bool" where
  "tokens_keyed B C db \<longleftrightarrow>
     (\<forall>k d t. bk_Get B db BucketCanaryTokens k = Some d \<longrightarrow> jc_Unmarshal C d = Some t \<longrightarrow> k = str_bytes (ct_ID t))"

definition slug_unused :: "'db bolt \<Rightarrow> CanaryToken jcodec \<Rightarrow> string \<Rightarrow> 'db \<Rightarrow> bool" where
  "slug_unused B C slug db \<longleftrightarrow>
     (\<forall>k d t. bk_Get B db BucketCanaryTokens k = Some d \<longrightarrow> jc_Unmarshal C d = Some t \<longrightarrow> ct_Token t \<noteq> slug)"

lemma mint_cases:
  assumes "mint B C env build db = (Inr t, db')"
  obtains rnd d where "me_random env = Some rnd" "t = build (hex_EncodeToString rnd)"
    "jc_Marshal C t = Some d" "bk_Has B db BucketCanaryTokens"
    "bk_Put B db BucketCanaryTokens (str_bytes (ct_ID t)) d = (None, db')"
proof -
  from assms obtain rnd where rnd: "me_random env = Some rnd" "t = build (hex_EncodeToString rnd)"
    and s: "SaveCanaryToken B C t db = (None, db')"
    by (auto simp: mint_def randomSlug_def split: option.splits prod.splits)
  from s [unfolded SaveCanaryToken_def] show thesis
    using that rnd by (cases rule: repo_save_cases) auto
qed

context bolt_db
begin

lemma minted_found:
  assumes "bk_Has B db BucketCanaryTokens" "bk_Put B db BucketCanaryTokens (str_bytes (ct_ID t)) d = (None, db')"
    and "jc_Unmarshal C d = Some t" "slug_unused B C (ct_Token t) db"
  shows "FindCanaryTokenByToken B C (ct_Token t) db' = Inr t"
proof -
  have has: "bk_Has B db' BucketCanaryTokens" using put_has [OF assms(1,2)] assms(1) by simp
  note get = put_get [OF assms(1,2)]
  show ?thesis
  proof (cases "FindCanaryTokenByToken B C (ct_Token t) db'")
    case (Inl e)
    with find_token [OF has, of C "ct_Token t"] have
      "\<forall>k d. bk_Get B db' BucketCanaryTokens k = Some d \<longrightarrow> (\<forall>u. jc_Unmarshal C d = Some u \<longrightarrow> ct_Token u \<noteq> ct_Token t)"
      by auto
    moreover have "bk_Get B db' BucketCanaryTokens (str_bytes (ct_ID t)) = Some d" by (simp add: get)
    ultimately show ?thesis using assms(3) by blast
  next
    case (Inr t')
    with find_token [OF has, of C "ct_Token t"] obtain k d' where
      t': "ct_Token t' = ct_Token t" "bk_Get B db' BucketCanaryTokens k = Some d'" "jc_Unmarshal C d' = Some t'"
      by auto
    then have "k = str_bytes (ct_ID t)" using get assms(4) by (auto simp: slug_unused_def split: if_splits)
    with t' get assms(3) Inr show ?thesis by simp
  qed
qed

lemma trigger_write_effect:
  assumes "round_trips C (triggered now (ev_Destination alert) ct)"
    and "SaveCanaryToken B C (triggered now (ev_Destination alert) ct) db = (None, db')"
  shows "GetCanaryToken B C (ct_ID ct) (trigger_write B C now alert ct db) = Inr (triggered now (ev_Destination alert) ct)"
    and "(b', k') \<noteq> (BucketCanaryTokens, ct_ID ct) \<Longrightarrow>
      repo_get B D b' m k' (trigger_write B C now alert ct db) = repo_get B D b' m k' db"
  using repo_save_get(1) [OF assms(2) [unfolded SaveCanaryToken_def] assms(1)]
    repo_save_get(2) [OF assms(2) [unfolded SaveCanaryToken_def] assms(1), where D = D and m = m] assms(2)
  by (simp_all add: trigger_write_def GetCanaryToken_def triggered_def)

end

section \<open>Properties\<close>

text \<open>
  A planted DNS token is recognised. Once a token is minted, stored and its slug was not
  in use, a query for its subdomain, in the form a resolver sees it (with the final dot),
  leads back to exactly that token; so does the path of the webhook for a web token, and
  the request becomes one event.
\<close>

theorem canary_recognised:
  assumes "bolt_db B" "me_random env = Some rnd" "slug_unused B C (hex_EncodeToString rnd) db"
    and "GenerateDNSToken B C env zone label db = (Inr t, db')" "round_trips C t"
    and "GenerateHTTPToken B C env2 baseURL path label2 db2 = (Inr u, db3)" "round_trips C u"
    and "me_random env2 = Some rnd2" "rnd2 \<noteq> []" "slug_unused B C (hex_EncodeToString rnd2) db2"
  shows "FindCanaryTokenByToken B C (dnsTokenFromQueryName (ct_Subdomain t @ ''.'')) db' = Inr t \<and>
    (\<forall>r now. wr_Method r = ''POST'' \<longrightarrow> wr_Path r = ''/api/canary/webhook/'' @ ct_Token u \<longrightarrow>
      (\<exists>e. CanaryWebhookHandler B C now r db3 = (204, [e]) \<and> ev_Type e = EventCanary \<and>
        meta_get (ev_Metadata e) ''canary_token'' = Some (AString (ct_Token u))))"
proof (intro conjI allI impI)
  from assms(4) obtain d where
    t: "t = (new_token env (hex_EncodeToString rnd) CanaryDNS label)\<lparr>ct_Subdomain := hex_EncodeToString rnd @ ''.'' @ zone\<rparr>"
    and put: "jc_Marshal C t = Some d" "bk_Has B db BucketCanaryTokens"
      "bk_Put B db BucketCanaryTokens (str_bytes (ct_ID t)) d = (None, db')"
    using assms(2) by (auto simp: GenerateDNSToken_def elim!: mint_cases)
  have tok: "ct_Token t = hex_EncodeToString rnd" by (simp add: t new_token_def)
  have "dnsTokenFromQueryName (ct_Subdomain t @ ''.'') = ct_Token t"
    using dns_slug(1) [OF hex_no_dot, of rnd zone] by (simp add: t new_token_def)
  moreover have "FindCanaryTokenByToken B C (ct_Token t) db' = Inr t"
    using bolt_db.minted_found [OF assms(1) put(2,3)] assms(3,5) put(1) tok by (auto simp: round_trips_def)
  ultimately show "FindCanaryTokenByToken B C (dnsTokenFromQueryName (ct_Subdomain t @ ''.'')) db' = Inr t" by simp
next
  fix r :: webhook_request and now :: gotime
  assume r: "wr_Method r = ''POST''" "wr_Path r = ''/api/canary/webhook/'' @ ct_Token u"
  from assms(6) obtain d where put: "jc_Marshal C u = Some d" "bk_Has B db2 BucketCanaryTokens"
      "bk_Put B db2 BucketCanaryTokens (str_bytes (ct_ID u)) d = (None, db3)"
    and tok: "ct_Token u = hex_EncodeToString rnd2"
    using assms(8) by (auto simp: GenerateHTTPToken_def new_token_def elim!: mint_cases)
  have "FindCanaryTokenByToken B C (ct_Token u) db3 = Inr u"
    using bolt_db.minted_found [OF assms(1) put(2,3)] assms(7,10) put(1) tok by (auto simp: round_trips_def)
  moreover have "trim_prefix (wr_Path r) ''/api/canary/webhook/'' = ct_Token u"
    using r(2) by (simp add: trim_prefix_def strings_HasPrefix_def)
  moreover have "ct_Token u \<noteq> []"
    using tok assms(9) length_hex [of rnd2] by (metis length_0_conv mult_is_0 zero_neq_numeral)
  ultimately show "\<exists>e. CanaryWebhookHandler B C now r db3 = (204, [e]) \<and> ev_Type e = EventCanary \<and>
        meta_get (ev_Metadata e) ''canary_token'' = Some (AString (ct_Token u))"
    using r(1) by (simp add: CanaryWebhookHandler_def Let_def meta_get_def)
qed

definition sample_env :: "nat \<Rightarrow> mint_env" where
  "sample_env n = \<lparr>me_random = Some [word_of_nat n], me_uuid = ''id'', me_now = 3\<rparr>"

text \<open>A serializer that tells the two kinds of sample tokens apart.\<close>

definition sample_tokens :: "CanaryToken jcodec" where
  "sample_tokens =
     \<lparr>jc_Marshal = (\<lambda>t. Some [if ct_Type t = CanaryDNS then 0 else 1]),
      jc_Unmarshal = (\<lambda>d. if d = [0]
        then Some ((new_token (sample_env 7) (hex_EncodeToString [7]) CanaryDNS ''x'')\<lparr>ct_Subdomain := hex_EncodeToString [7] @ ''.c.local''\<rparr>)
        else Some ((new_token (sample_env 9) (hex_EncodeToString [9]) CanaryHTTP ''y'')
          \<lparr>ct_URL := decoy_url ''https://h/'' ''/w/'' (hex_EncodeToString [9])\<rparr>))\<rparr>"

theorem canary_recognised_witness:
  "\<exists>t db'. GenerateDNSToken mem_bolt sample_tokens (sample_env 7) ''c.local'' ''x'' [BucketCanaryTokens \<mapsto> []] = (Inr t, db') \<and>
     FindCanaryTokenByToken mem_bolt sample_tokens (dnsTokenFromQueryName (ct_Subdomain t @ ''.'')) db' = Inr t"
proof -
  let ?db = "[BucketCanaryTokens \<mapsto> []] :: mem_db"
  let ?t = "(new_token (sample_env 7) (hex_EncodeToString [7]) CanaryDNS ''x'')\<lparr>ct_Subdomain := hex_EncodeToString [7] @ ''.c.local''\<rparr>"
  let ?u = "(new_token (sample_env 9) (hex_EncodeToString [9]) CanaryHTTP ''y'')
    \<lparr>ct_URL := decoy_url ''https://h/'' ''/w/'' (hex_EncodeToString [9])\<rparr>"
  have gen: "GenerateDNSToken mem_bolt sample_tokens (sample_env 7) ''c.local'' ''x'' ?db =
      (Inr ?t, [BucketCanaryTokens \<mapsto> [(str_bytes ''id'', [0])]])"
    "GenerateHTTPToken mem_bolt sample_tokens (sample_env 9) ''https://h/'' ''/w/'' ''y'' ?db =
      (Inr ?u, [BucketCanaryTokens \<mapsto> [(str_bytes ''id'', [1])]])"
    by (simp_all add: GenerateDNSToken_def GenerateHTTPToken_def mint_def randomSlug_def sample_env_def
        SaveCanaryToken_def repo_save_def db_Update_def bput_def mem_bolt_def mem_entries_def sample_tokens_def
        new_token_def CanaryDNS_def CanaryHTTP_def)
  have unused: "slug_unused mem_bolt sample_tokens s ?db" for s
    by (simp add: slug_unused_def mem_bolt_def mem_entries_def)
  have "FindCanaryTokenByToken mem_bolt sample_tokens (dnsTokenFromQueryName (ct_Subdomain ?t @ ''.''))
      [BucketCanaryTokens \<mapsto> [(str_bytes ''id'', [0])]] = Inr ?t"
    using conjunct1 [OF canary_recognised [OF mem.bolt_db_axioms _ unused gen(1) _ gen(2) _ _ _ unused, of "[7]" "[9]"]]
    by (simp add: sample_env_def round_trips_def sample_tokens_def new_token_def CanaryDNS_def CanaryHTTP_def)
  with gen(1) show ?thesis by blast
qed

text \<open>
  Recording a trigger. An alert that is not of a canary rule, or whose token cannot be
  found, changes nothing. Otherwise, if the write succeeds, the token that the alert's event
  names has been triggered once more, at that time, from the address the alert carries, and
  every other token and every other document is as before.
\<close>

theorem trigger_counts_once:
  assumes "bolt_db B"
  shows "(trigger_read B CE C alert db = None \<longrightarrow> RecordTrigger B CE C now alert db = db) \<and>
    (\<forall>ct. trigger_read B CE C alert db = Some ct \<longrightarrow> round_trips C (triggered now (ev_Destination alert) ct) \<longrightarrow>
      fst (SaveCanaryToken B C (triggered now (ev_Destination alert) ct) db) = None \<longrightarrow>
      (\<exists>slug. trigger_slug B CE alert db = Some slug \<and> ct_Token ct = slug) \<and>
      GetCanaryToken B C (ct_ID ct) (RecordTrigger B CE C now alert db) =
        Inr (ct\<lparr>ct_TriggeredAt := Some now, ct_TriggerCount := ct_TriggerCount ct + 1,
                ct_LastTriggerSource := ev_Destination alert\<rparr>) \<and>
      (\<forall>b' k'. (b', k') \<noteq> (BucketCanaryTokens, ct_ID ct) \<longrightarrow>
         repo_get B D b' m k' (RecordTrigger B CE C now alert db) = repo_get B D b' m k' db))"
proof (intro conjI [of "_ \<longrightarrow> _"] impI allI)
  show "trigger_read B CE C alert db = None \<Longrightarrow> RecordTrigger B CE C now alert db = db"
    by (simp add: RecordTrigger_def)
next
  fix ct
  assume r: "trigger_read B CE C alert db = Some ct" and rt: "round_trips C (triggered now (ev_Destination alert) ct)"
    and ok: "fst (SaveCanaryToken B C (triggered now (ev_Destination alert) ct) db) = None"
  from r obtain slug where slug: "trigger_slug B CE alert db = Some slug" "FindCanaryTokenByToken B C slug db = Inr ct"
    by (auto simp: trigger_read_def split: option.splits sum.splits)
  then have "bk_Has B db BucketCanaryTokens"
    by (auto simp: FindCanaryTokenByToken_def repo_list_def split: if_splits)
  from bolt_db.find_token [OF assms this, of C slug] slug(2) have tok: "ct_Token ct = slug" by simp
  obtain db' where save: "SaveCanaryToken B C (triggered now (ev_Destination alert) ct) db = (None, db')"
    using ok by (metis prod.collapse)
  note eff = bolt_db.trigger_write_effect [OF assms rt save]
  have rec: "RecordTrigger B CE C now alert db = trigger_write B C now alert ct db"
    using r by (simp add: RecordTrigger_def)
  show "(\<exists>slug. trigger_slug B CE alert db = Some slug \<and> ct_Token ct = slug) \<and>
      GetCanaryToken B C (ct_ID ct) (RecordTrigger B CE C now alert db) =
        Inr (ct\<lparr>ct_TriggeredAt := Some now, ct_TriggerCount := ct_TriggerCount ct + 1,
                ct_LastTriggerSource := ev_Destination alert\<rparr>) \<and>
      (\<forall>b' k'. (b', k') \<noteq> (BucketCanaryTokens, ct_ID ct) \<longrightarrow>
         repo_get B D b' m k' (RecordTrigger B CE C now alert db) = repo_get B D b' m k' db)"
    unfolding rec using slug tok eff(1) eff(2) [where D = D and m = m] by (auto simp: triggered_def)
qed

definition sample_event :: "metadata \<Rightarrow> NetworkEvent" where
  "sample_event md =
     \<lparr>ev_ID = ''e1'', ev_Type = EventAlert, ev_Source = [], ev_Destination = ''10.0.0.9'', ev_Metadata = md,
      ev_Timestamp = 1, ev_Signature = [], ev_SignerKeyID = []\<rparr>"

definition sample_canary :: CanaryToken where
  "sample_canary = new_token (sample_env 7) ''07'' CanaryHTTP ''x''"

theorem trigger_counts_once_witness:
  "GetCanaryToken mem_bolt
     \<lparr>jc_Marshal = (\<lambda>t. Some [1]),
      jc_Unmarshal = (\<lambda>d. Some (if d = [0] then sample_canary else triggered 4 ''10.0.0.9'' sample_canary))\<rparr> ''id''
     (RecordTrigger mem_bolt
        \<lparr>jc_Marshal = (\<lambda>_. None), jc_Unmarshal = (\<lambda>_. Some (sample_event (Some [''canary_token'' \<mapsto> AString ''07''])))\<rparr>
        \<lparr>jc_Marshal = (\<lambda>t. Some [1]),
         jc_Unmarshal = (\<lambda>d. Some (if d = [0] then sample_canary else triggered 4 ''10.0.0.9'' sample_canary))\<rparr> 4
        (sample_event (Some [''rule'' \<mapsto> AString ''HTTP_CANARY_TRIGGERED'', ''trigger_id'' \<mapsto> AString ''e1'']))
        [BucketEvents \<mapsto> [(str_bytes ''e1'', [])], BucketCanaryTokens \<mapsto> [(str_bytes ''id'', [0])]])
   = Inr (triggered 4 ''10.0.0.9'' sample_canary)"
proof -
  let ?C = "\<lparr>jc_Marshal = (\<lambda>t. Some [1]),
     jc_Unmarshal = (\<lambda>d. Some (if d = [0] then sample_canary else triggered 4 ''10.0.0.9'' sample_canary))\<rparr>"
  let ?CE = "\<lparr>jc_Marshal = (\<lambda>_. None), jc_Unmarshal = (\<lambda>_. Some (sample_event (Some [''canary_token'' \<mapsto> AString ''07''])))\<rparr>"
  let ?a = "sample_event (Some [''rule'' \<mapsto> AString ''HTTP_CANARY_TRIGGERED'', ''trigger_id'' \<mapsto> AString ''e1''])"
  let ?db = "[BucketEvents \<mapsto> [(str_bytes ''e1'', [])], BucketCanaryTokens \<mapsto> [(str_bytes ''id'', [0])]] :: mem_db"
  have r: "trigger_read mem_bolt ?CE ?C ?a ?db = Some sample_canary"
    by (simp add: trigger_read_def trigger_slug_def GetEvent_def repo_get_def meta_get_def string_or_empty_def
        FindCanaryTokenByToken_def repo_list_def mem_bolt_def mem_entries_def map_filter_simps sample_event_def
        sample_canary_def new_token_def bucket_names Let_def)
  have "round_trips ?C (triggered 4 (ev_Destination ?a) sample_canary)"
    "fst (SaveCanaryToken mem_bolt ?C (triggered 4 (ev_Destination ?a) sample_canary) ?db) = None"
    by (simp_all add: round_trips_def sample_event_def SaveCanaryToken_def repo_save_def db_Update_def bput_def
        mem_bolt_def)
  note eff = conjunct1 [OF conjunct2 [OF conjunct2 [OF trigger_counts_once [OF mem.bolt_db_axioms], rule_format, OF r this]]]
  have "ct_ID sample_canary = ''id''" "ev_Destination ?a = ''10.0.0.9''"
    by (simp_all add: sample_canary_def new_token_def sample_env_def sample_event_def)
  with eff show ?thesis by (simp add: triggered_def)
qed

section \<open>Two triggers at once\<close>

text \<open>
  Events are analysed in goroutines of their own, so two triggers of one token can both read
  it before either writes: then one of them is lost.
\<close>

lemma concurrent_triggers_lose_one:
  assumes "bolt_db B" "ct_ID ct = i"
    and "round_trips C (triggered now1 (ev_Destination a1) ct)" "round_trips C (triggered now2 (ev_Destination a2) ct)"
    and "\<And>t db. bk_Has B db BucketCanaryTokens \<Longrightarrow> fst (SaveCanaryToken B C t db) = None"
    and "bk_Has B db BucketCanaryTokens"
    and "trigger_read B CE C a1 db = Some ct" "trigger_read B CE C a2 db = Some ct"
  shows "GetCanaryToken B C i (trigger_write B C now2 a2 ct (trigger_write B C now1 a1 ct db)) =
    Inr (triggered now2 (ev_Destination a2) ct)"
proof -
  let ?db1 = "trigger_write B C now1 a1 ct db"
  obtain db1 where s1: "SaveCanaryToken B C (triggered now1 (ev_Destination a1) ct) db = (None, db1)"
    using assms(5,6) by (metis prod.collapse)
  have "bk_Has B ?db1 BucketCanaryTokens"
    using bolt_db.repo_save_get(4) [OF assms(1) s1 [unfolded SaveCanaryToken_def] assms(3)] assms(6) s1
    by (simp add: trigger_write_def)
  then obtain db2 where "SaveCanaryToken B C (triggered now2 (ev_Destination a2) ct) ?db1 = (None, db2)"
    using assms(5) by (metis prod.collapse)
  from bolt_db.trigger_write_effect(1) [OF assms(1,4) this] assms(2) show ?thesis by simp
qed

end
