(* ===== verification/Transparency_Merkle.thy ===== *)
theory Transparency_Merkle
  imports Sha256
begin

text \<open>
  The pure part of the transparency log: the RFC 6962 hashes and tree hash of
  \<^verbatim>\<open>internal/storage/transparency/hash.go\<close> and the inclusion and consistency proofs of
  \<^verbatim>\<open>proofs.go\<close>. A \<^verbatim>\<open>RootHash\<close> is a list of 32 bytes, a \<^verbatim>\<open>Proof\<close> a list of byte
  slices. The indices and sizes of the source are \<^verbatim>\<open>uint64\<close>; they are natural
  numbers here, which is exact: the code only compares, halves and decrements positive
  ones, and the tree sizes that it doubles are slice lengths.
\<close>

type_synonym RootHash = bytes
type_synonym Proof = "bytes list"

section \<open>Hashes\<close>

definition leafPrefix :: byte where "leafPrefix = 0x00"
definition innerPrefix :: byte where "innerPrefix = 0x01"

definition HashLeaf :: "bytes \<Rightarrow> RootHash" where
  "HashLeaf payload = sha256 (leafPrefix # payload)"

definition HashChildren :: "RootHash \<Rightarrow> RootHash \<Rightarrow> RootHash" where
  "HashChildren left right = sha256 (innerPrefix # left @ right)"

definition EmptyRoot :: RootHash where
  "EmptyRoot = sha256 []"

text \<open>The zero value of the array type \<^verbatim>\<open>RootHash\<close>, and \<^verbatim>\<open>copy(p[:], raw)\<close> into one.\<close>

definition zeroHash :: RootHash where
  "zeroHash = replicate 32 0"

definition copy32 :: "bytes \<Rightarrow> RootHash" where
  "copy32 raw = take 32 raw @ replicate (32 - length raw) 0"

text \<open>The loop \<^verbatim>\<open>for k*2 < n { k *= 2 }\<close> starts at 1.\<close>

function pow2_loop :: "nat \<Rightarrow> nat \<Rightarrow> nat" where
  "pow2_loop k n = (if 0 < k \<and> k * 2 < n then pow2_loop (k * 2) n else k)"
  by pat_completeness auto
termination
  by (relation "measure (\<lambda>(k, n). n - k)") auto

declare pow2_loop.simps [simp del]

definition largestPowerOfTwoLessThan :: "nat \<Rightarrow> nat" where
  "largestPowerOfTwoLessThan n = (if n \<le> 1 then 0 else pow2_loop 1 n)"

lemma pow2_loop_spec:
  "\<exists>i. k = 2 ^ i \<Longrightarrow> k < n \<Longrightarrow>
   (\<exists>j. pow2_loop k n = 2 ^ j) \<and> pow2_loop k n < n \<and> n \<le> 2 * pow2_loop k n"
proof (induction k n rule: pow2_loop.induct)
  case (1 k n)
  then obtain i where k: "k = 2 ^ i" by blast
  show ?case
  proof (cases "k * 2 < n")
    case True
    have "\<exists>i. k * 2 = 2 ^ i" using k by (auto intro: exI [of _ "Suc i"])
    with 1 True k have "(\<exists>j. pow2_loop (k * 2) n = 2 ^ j) \<and>
        pow2_loop (k * 2) n < n \<and> n \<le> 2 * pow2_loop (k * 2) n" by simp
    with True k show ?thesis by (subst (1 2 3) pow2_loop.simps) simp
  next
    case False
    then have "pow2_loop k n = k" by (subst pow2_loop.simps) simp
    with False 1 show ?thesis by simp
  qed
qed

text \<open>The split point of a tree of \<open>n\<close> leaves: a power of two, less than \<open>n\<close>, at least half.\<close>

lemma split_point:
  assumes "2 \<le> n"
  obtains j where "largestPowerOfTwoLessThan n = 2 ^ j" "2 ^ j < n" "n \<le> 2 * 2 ^ j"
proof -
  have "\<exists>i. (1 :: nat) = 2 ^ i" by (rule exI [of _ 0]) simp
  with pow2_loop_spec [of 1 n] assms have "(\<exists>j. pow2_loop 1 n = 2 ^ j) \<and>
      pow2_loop 1 n < n \<and> n \<le> 2 * pow2_loop 1 n" by simp
  with that assms show ?thesis by (auto simp: largestPowerOfTwoLessThan_def)
qed

lemma split_bounds [simp]:
  assumes "Suc 0 < n"
  shows "0 < largestPowerOfTwoLessThan n" "largestPowerOfTwoLessThan n < n"
    "n - largestPowerOfTwoLessThan n < n"
proof -
  have "2 \<le> n" using assms by simp
  then obtain j where "largestPowerOfTwoLessThan n = 2 ^ j" "2 ^ j < n" by (rule split_point)
  then show "0 < largestPowerOfTwoLessThan n" "largestPowerOfTwoLessThan n < n"
    "n - largestPowerOfTwoLessThan n < n"
    by simp_all
qed

section \<open>Tree hash and proofs\<close>

function MerkleTreeHash :: "RootHash list \<Rightarrow> RootHash" where
  "MerkleTreeHash leafHashes =
     (case leafHashes of
        [] \<Rightarrow> EmptyRoot
      | [h] \<Rightarrow> h
      | _ \<Rightarrow>
          (let k = largestPowerOfTwoLessThan (length leafHashes);
               left = MerkleTreeHash (take k leafHashes);
               right = MerkleTreeHash (drop k leafHashes)
           in HashChildren left right))"
  by pat_completeness auto
termination
  by (relation "measure length") (auto simp: min_def not_le)

declare MerkleTreeHash.simps [simp del]

definition appendHash :: "Proof \<Rightarrow> RootHash \<Rightarrow> Proof" where
  "appendHash p h = p @ [copy32 h]"

function inclusionPath :: "nat \<Rightarrow> RootHash list \<Rightarrow> Proof" where
  "inclusionPath m d =
     (let n = length d
      in if n \<le> 1 then []
         else
           (let k = largestPowerOfTwoLessThan n
            in if m < k then appendHash (inclusionPath m (take k d)) (MerkleTreeHash (drop k d))
               else appendHash (inclusionPath (m - k) (drop k d)) (MerkleTreeHash (take k d))))"
  by pat_completeness auto
termination
  by (relation "measure (\<lambda>(m, d). length d)") (auto simp: min_def not_le)

declare inclusionPath.simps [simp del]

text \<open>
  The recursion is entered with a leaf of a tree that is not empty; an empty slice, on
  which the source would not return, cannot arise and is given the empty path.
  A nil proof and an empty one are both \<open>[]\<close>, as they are for every reader in Go.
\<close>

definition InclusionProof :: "nat \<Rightarrow> RootHash list \<Rightarrow> Proof" where
  "InclusionProof m leafHashes =
     (let n = length leafHashes
      in if n = 0 \<or> m \<ge> n then [] else inclusionPath m leafHashes)"

text \<open>The inner loop \<^verbatim>\<open>for fn != 0 && fn&1 == 0\<close> halves both positions together.\<close>

function strip_zeros :: "nat \<Rightarrow> nat \<Rightarrow> nat \<times> nat" where
  "strip_zeros fn sn =
     (if fn \<noteq> 0 \<and> even fn then strip_zeros (fn div 2) (sn div 2) else (fn, sn))"
  by pat_completeness auto
termination
  by (relation "measure fst") auto

declare strip_zeros.simps [simp del]

fun verify_inclusion_loop :: "RootHash \<Rightarrow> nat \<Rightarrow> nat \<Rightarrow> Proof \<Rightarrow> RootHash" where
  "verify_inclusion_loop current fn sn [] = current"
| "verify_inclusion_loop current fn sn (raw # proof) =
     (if sn = 0 then current
      else
        (let p = copy32 raw
         in if odd fn \<or> fn = sn then
              (case strip_zeros fn sn of (fn', sn') \<Rightarrow>
                 verify_inclusion_loop (HashChildren p current) (fn' div 2) (sn' div 2) proof)
            else verify_inclusion_loop (HashChildren current p) (fn div 2) (sn div 2) proof))"

definition VerifyInclusion :: "RootHash \<Rightarrow> nat \<Rightarrow> nat \<Rightarrow> Proof \<Rightarrow> RootHash" where
  "VerifyInclusion leafHash leafIndex treeSize proof =
     (if treeSize = 0 \<or> leafIndex \<ge> treeSize then zeroHash
      else if treeSize = 1 then leafHash
      else verify_inclusion_loop leafHash leafIndex (treeSize - 1) proof)"

function subProof :: "nat \<Rightarrow> RootHash list \<Rightarrow> bool \<Rightarrow> Proof" where
  "subProof m d b =
     (let n = length d
      in if m = n then (if b then [] else [MerkleTreeHash d])
         else if n \<le> 1 then []
         else
           (let k = largestPowerOfTwoLessThan n
            in if m \<le> k then appendHash (subProof m (take k d) b) (MerkleTreeHash (drop k d))
               else appendHash (subProof (m - k) (drop k d) False) (MerkleTreeHash (take k d))))"
  by pat_completeness auto
termination
  by (relation "measure (\<lambda>(m, d, b). length d)") (auto simp: min_def not_le)

declare subProof.simps [simp del]

definition ConsistencyProof :: "nat \<Rightarrow> nat \<Rightarrow> RootHash list \<Rightarrow> Proof" where
  "ConsistencyProof n1 n2 leafHashes =
     (if n1 = 0 \<or> n1 > n2 \<or> n2 > length leafHashes then []
      else if n1 = n2 then []
      else subProof n1 (take n2 leafHashes) True)"

text \<open>
  The three loops of \<^verbatim>\<open>VerifyConsistency\<close>: past the levels where the boundary is a right
  child, up to the root of the smaller tree, and on to the root of the larger one. The
  second and third return \<open>None\<close> where the source returns false because the proof ran
  out, and otherwise what is left of the proof.
\<close>

function strip_odd :: "nat \<Rightarrow> nat \<Rightarrow> nat \<times> nat" where
  "strip_odd node lastNode =
     (if odd node then strip_odd (node div 2) (lastNode div 2) else (node, lastNode))"
  by pat_completeness auto
termination
  by (relation "measure fst") (auto elim: oddE)

declare strip_odd.simps [simp del]

function climb_both ::
  "nat \<Rightarrow> nat \<Rightarrow> RootHash \<Rightarrow> RootHash \<Rightarrow> Proof \<Rightarrow> (nat \<times> RootHash \<times> RootHash \<times> Proof) option" where
  "climb_both node lastNode hash1 hash2 proof =
     (if node = 0 then Some (lastNode, hash1, hash2, proof)
      else
        (case proof of
           [] \<Rightarrow> None
         | raw # rest \<Rightarrow>
             (let p = copy32 raw
              in if odd node then
                   climb_both (node div 2) (lastNode div 2)
                     (HashChildren p hash1) (HashChildren p hash2) rest
                 else if node < lastNode then
                   climb_both (node div 2) (lastNode div 2) hash1 (HashChildren hash2 p) rest
                 else climb_both (node div 2) (lastNode div 2) hash1 hash2 proof)))"
  by pat_completeness auto
termination
  by (relation "measure fst") auto

declare climb_both.simps [simp del]

function climb_last :: "nat \<Rightarrow> RootHash \<Rightarrow> Proof \<Rightarrow> (RootHash \<times> Proof) option" where
  "climb_last lastNode hash2 proof =
     (if lastNode = 0 then Some (hash2, proof)
      else
        (case proof of
           [] \<Rightarrow> None
         | raw # rest \<Rightarrow> climb_last (lastNode div 2) (HashChildren hash2 (copy32 raw)) rest))"
  by pat_completeness auto
termination
  by (relation "measure fst") auto

declare climb_last.simps [simp del]

definition VerifyConsistency :: "nat \<Rightarrow> nat \<Rightarrow> RootHash \<Rightarrow> Proof \<Rightarrow> RootHash \<times> bool" where
  "VerifyConsistency n1 n2 root1 proof =
     (if n1 = 0 \<or> n1 > n2 then (zeroHash, False)
      else if n1 = n2 then (if length proof \<noteq> 0 then (zeroHash, False) else (root1, True))
      else
        (case strip_odd (n1 - 1) (n2 - 1) of (node, lastNode) \<Rightarrow>
          (case (if node > 0
                 then (case proof of [] \<Rightarrow> None | raw # rest \<Rightarrow> Some (copy32 raw, rest))
                 else Some (root1, proof)) of
             None \<Rightarrow> (zeroHash, False)
           | Some (hash, proof1) \<Rightarrow>
               (case climb_both node lastNode hash hash proof1 of
                  None \<Rightarrow> (zeroHash, False)
                | Some (lastNode', hash1, hash2, proof2) \<Rightarrow>
                    (case climb_last lastNode' hash2 proof2 of
                       None \<Rightarrow> (zeroHash, False)
                     | Some (root2, proof3) \<Rightarrow>
                         if proof3 \<noteq> [] then (zeroHash, False)
                         else if hash1 \<noteq> root1 then (zeroHash, False)
                         else (root2, True))))))"

definition isPowerOfTwo :: "u64 \<Rightarrow> bool" where
  "isPowerOfTwo n \<longleftrightarrow> n > 0 \<and> n AND (n - 1) = 0"

end
