(* ===== verification/Transparency_Proofs.thy ===== *)
theory Transparency_Proofs
  imports Transparency_Merkle
begin

text \<open>
  Correctness of the proofs of the transparency log: every inclusion and consistency
  proof the log generates is accepted by its verifier, and what an accepted inclusion
  proof does and does not establish.
\<close>

section \<open>Tree hashes\<close>

definition hashes32 :: "RootHash list \<Rightarrow> bool" where
  "hashes32 d \<longleftrightarrow> (\<forall>h \<in> set d. length h = 32)"

lemma hashes32_take_drop [simp]:
  "hashes32 d \<Longrightarrow> hashes32 (take k d)" "hashes32 d \<Longrightarrow> hashes32 (drop k d)"
  by (auto simp: hashes32_def dest: in_set_takeD in_set_dropD)

lemma copy32_id [simp]: "length h = 32 \<Longrightarrow> copy32 h = h"
  by (simp add: copy32_def)

lemma length_HashChildren [simp]: "length (HashChildren a b) = 32"
  by (simp add: HashChildren_def)

lemma length_HashLeaf [simp]: "length (HashLeaf p) = 32"
  by (simp add: HashLeaf_def)

lemma MTH_single: "MerkleTreeHash [h] = h"
  by (subst MerkleTreeHash.simps) simp

lemma MTH_one: "length d = 1 \<Longrightarrow> MerkleTreeHash d = d ! 0"
  by (auto simp: length_Suc_conv MTH_single)

lemma MTH_split:
  assumes "Suc 0 < length d"
  shows "MerkleTreeHash d =
    HashChildren (MerkleTreeHash (take (largestPowerOfTwoLessThan (length d)) d))
                 (MerkleTreeHash (drop (largestPowerOfTwoLessThan (length d)) d))"
  using assms by (subst MerkleTreeHash.simps) (auto simp: Let_def split: list.split)

lemma length_MTH: "hashes32 d \<Longrightarrow> d \<noteq> [] \<Longrightarrow> length (MerkleTreeHash d) = 32"
proof (cases "Suc 0 < length d")
  case False
  assume "hashes32 d" "d \<noteq> []"
  with False have "length d = 1" by (cases d) auto
  with \<open>hashes32 d\<close> show ?thesis by (auto simp: length_Suc_conv MTH_single hashes32_def)
qed (simp add: MTH_split)

lemma pow2_sandwich:
  assumes "(2::nat) ^ a < n" "n \<le> 2 * 2 ^ a" "2 ^ b < n" "n \<le> 2 * 2 ^ b"
  shows "a = b"
proof -
  have "\<not> a < b" if "(2::nat) ^ b < n" "n \<le> 2 * 2 ^ a" for a b
  proof
    assume "a < b"
    then have "(2::nat) ^ Suc a \<le> 2 ^ b" by (intro power_increasing) auto
    with that show False by simp
  qed
  with assms show ?thesis by (meson linorder_neqE_nat)
qed

lemma split_unique:
  assumes "2 ^ j < n" "n \<le> 2 * 2 ^ j"
  shows "largestPowerOfTwoLessThan n = 2 ^ j"
proof -
  have "2 \<le> n" using assms(1) one_le_power [of "2::nat" j] by linarith
  then obtain i where "largestPowerOfTwoLessThan n = 2 ^ i" "2 ^ i < n" "n \<le> 2 * 2 ^ i"
    by (rule split_point)
  with pow2_sandwich assms show ?thesis by metis
qed

lemma MTH_node:
  assumes "2 ^ j < length d" "length d \<le> 2 * 2 ^ j"
  shows "MerkleTreeHash d =
    HashChildren (MerkleTreeHash (take (2 ^ j) d)) (MerkleTreeHash (drop (2 ^ j) d))"
proof -
  have "Suc 0 < length d" using assms(1) one_le_power [of "2::nat" j] by linarith
  with split_unique [OF assms] show ?thesis by (simp add: MTH_split)
qed

text \<open>A tree with more than one leaf splits at a power of two below any power that covers it.\<close>

lemma split_cases:
  fixes n :: nat
  assumes "n \<le> 2 ^ i" "0 < n"
  obtains (one) "n = 1"
    | (node) j where "2 ^ j < n" "n \<le> 2 * 2 ^ j" "j < i"
proof (cases "n = 1")
  case False
  with assms have "2 \<le> n" by linarith
  then obtain j where j: "2 ^ j < n" "n \<le> 2 * 2 ^ j" by (rule split_point)
  with assms have "(2::nat) ^ j < 2 ^ i" by linarith
  then have "j < i" by (simp add: power_strict_increasing_iff)
  with j node show ?thesis by blast
qed (rule one)

section \<open>The verifier's loop follows the shape of the tree\<close>

text \<open>
  The reference: \<open>rebuild n m h ps\<close> recomputes the root of a tree of \<open>n\<close> leaves from
  the hash \<open>h\<close> of leaf \<open>m\<close> by the recursion of RFC 6962, the sibling of the topmost
  level last; \<open>audit_len n m\<close> is the number of siblings that takes.
\<close>

function audit_len :: "nat \<Rightarrow> nat \<Rightarrow> nat" where
  "audit_len n m =
     (if n \<le> 1 then 0
      else
        (let k = largestPowerOfTwoLessThan n
         in Suc (if m < k then audit_len k m else audit_len (n - k) (m - k))))"
  by pat_completeness auto
termination
  by (relation "measure fst") auto

declare audit_len.simps [simp del]

function rebuild :: "nat \<Rightarrow> nat \<Rightarrow> RootHash \<Rightarrow> Proof \<Rightarrow> RootHash" where
  "rebuild n m h ps =
     (if n \<le> 1 \<or> ps = [] then h
      else
        (let k = largestPowerOfTwoLessThan n; p = copy32 (last ps)
         in if m < k then HashChildren (rebuild k m h (butlast ps)) p
            else HashChildren p (rebuild (n - k) (m - k) h (butlast ps))))"
  by pat_completeness auto
termination
  by (relation "measure fst") auto

declare rebuild.simps [simp del]

lemma rebuild_one: "rebuild (Suc 0) m h ps = h"
  by (subst rebuild.simps) simp

lemma node_gt_one: "(2::nat) ^ j < n \<Longrightarrow> Suc 0 < n"
  using one_le_power [of "2::nat" j] by linarith

lemma rebuild_node:
  assumes "2 ^ j < n" "n \<le> 2 * 2 ^ j"
  shows "rebuild n m h (ps @ [p]) =
    (if m < 2 ^ j then HashChildren (rebuild (2 ^ j) m h ps) (copy32 p)
     else HashChildren (copy32 p) (rebuild (n - 2 ^ j) (m - 2 ^ j) h ps))"
  using node_gt_one [OF assms(1)] split_unique [OF assms]
  by (subst rebuild.simps) (simp add: Let_def)

lemma audit_len_node:
  assumes "2 ^ j < n" "n \<le> 2 * 2 ^ j"
  shows "audit_len n m =
    Suc (if m < 2 ^ j then audit_len (2 ^ j) m else audit_len (n - 2 ^ j) (m - 2 ^ j))"
  using node_gt_one [OF assms(1)] split_unique [OF assms]
  by (subst audit_len.simps) (simp add: Let_def)

lemma audit_len_one: "audit_len (Suc 0) m = 0"
  by (subst audit_len.simps) simp

lemma audit_len_complete: "m < 2 ^ j \<Longrightarrow> audit_len (2 ^ j) m = j"
proof (induction j arbitrary: m)
  case (Suc j)
  then show ?case by (subst audit_len_node [of j]) auto
qed (simp add: audit_len_one)

lemma strip_zeros_odd: "odd a \<Longrightarrow> strip_zeros (2 ^ t * a) (2 ^ t * a) = (a, a)"
proof (induction t)
  case 0
  then show ?case by (subst strip_zeros.simps) simp
next
  case (Suc t)
  have "strip_zeros (2 ^ Suc t * a) (2 ^ Suc t * a) = strip_zeros (2 ^ t * a) (2 ^ t * a)"
    using Suc.prems by (subst strip_zeros.simps) (auto simp: odd_pos)
  with Suc show ?case by simp
qed

text \<open>One step of the verifier, by the side the sibling is on.\<close>

lemma verify_left_sibling:
  assumes "odd a" "Q = 2 ^ t * a"
  shows "verify_inclusion_loop h Q Q (p # rest)
       = verify_inclusion_loop (HashChildren (copy32 p) h) (a div 2) (a div 2) rest"
  using assms odd_pos [OF assms(1)] by (simp add: strip_zeros_odd)

lemma verify_right_sibling:
  assumes "even f" "f \<noteq> s" "s \<noteq> 0"
  shows "verify_inclusion_loop h f s (p # rest)
       = verify_inclusion_loop (HashChildren h (copy32 p)) (f div 2) (s div 2) rest"
  using assms by simp

lemma verify_odd:
  assumes "odd f" "s \<noteq> 0"
  shows "verify_inclusion_loop h f s (p # rest)
       = verify_inclusion_loop (HashChildren (copy32 p) h) (f div 2) (s div 2) rest"
  using assms by (simp add: strip_zeros.simps [of f s])

lemma pow2_cancel:
  assumes "l \<le> j" "Q * 2 ^ l = 2 ^ j * (a::nat)"
  shows "Q = 2 ^ (j - l) * a"
proof -
  have "(2::nat) ^ j = 2 ^ (j - l) * 2 ^ l" using assms(1) by (simp flip: power_add)
  with assms(2) have "Q * 2 ^ l = (2 ^ (j - l) * a) * 2 ^ l" by (simp add: ac_simps)
  then show ?thesis by simp
qed

lemma div_pow_Suc: "x div 2 ^ Suc j = x div 2 ^ j div (2::nat)"
  by (simp add: div_mult2_eq [symmetric] mult.commute [of 2])

text \<open>
  Inside the tree: a complete subtree of \<open>2 ^ j\<close> leaves, the \<open>q\<close>-th of its level, is
  climbed to its root.
\<close>

lemma verify_complete:
  "length ps = j \<Longrightarrow> m < 2 ^ j \<Longrightarrow> q < sn div 2 ^ j \<Longrightarrow>
   verify_inclusion_loop h (m + 2 ^ j * q) sn (ps @ rest)
   = verify_inclusion_loop (rebuild (2 ^ j) m h ps) q (sn div 2 ^ j) rest"
proof (induction j arbitrary: ps m q rest)
  case 0
  then show ?case by (simp add: rebuild_one)
next
  case (Suc j)
  let ?s = "sn div 2 ^ j"
  have node: "(2::nat) ^ j < 2 ^ Suc j" "(2::nat) ^ Suc j \<le> 2 * 2 ^ j" by simp_all
  obtain ps' p where ps: "ps = ps' @ [p]" "length ps' = j"
    using Suc.prems(1) by (cases ps rule: rev_cases) auto
  have s: "2 * q + 2 \<le> ?s" "sn div 2 ^ Suc j = ?s div 2"
    using Suc.prems(3) unfolding div_pow_Suc by simp_all
  show ?case
  proof (cases "m < 2 ^ j")
    case True
    have "verify_inclusion_loop h (m + 2 ^ j * (2 * q)) sn (ps' @ p # rest)
      = verify_inclusion_loop (rebuild (2 ^ j) m h ps') (2 * q) ?s (p # rest)"
      using True ps s by (intro Suc.IH) auto
    also have "\<dots> = verify_inclusion_loop (rebuild (2 ^ Suc j) m h ps) q (?s div 2) rest"
      using s True by (subst verify_right_sibling)
        (simp_all only: ps rebuild_node [OF node] if_True, simp_all)
    finally show ?thesis using ps s by (simp add: algebra_simps)
  next
    case False
    then have m: "m - 2 ^ j < 2 ^ j" "m = m - 2 ^ j + 2 ^ j"
      using Suc.prems by simp_all
    have fn: "m + 2 ^ Suc j * q = m - 2 ^ j + 2 ^ j * (2 * q + 1)"
      using m(2) by (simp add: algebra_simps)
    have "verify_inclusion_loop h (m - 2 ^ j + 2 ^ j * (2 * q + 1)) sn (ps' @ p # rest)
      = verify_inclusion_loop (rebuild (2 ^ j) (m - 2 ^ j) h ps') (2 * q + 1) ?s (p # rest)"
      using m ps s by (intro Suc.IH) auto
    also have "\<dots> = verify_inclusion_loop (rebuild (2 ^ Suc j) m h ps) q (?s div 2) rest"
      using s False by (subst verify_odd)
        (simp_all only: ps rebuild_node [OF node] if_False, simp_all)
    finally show ?thesis unfolding fn using ps s by simp
  qed
qed

text \<open>
  At the right edge: a subtree of at most \<open>2 ^ i\<close> leaves, at the end of the tree,
  is climbed until leaf position and last position agree.
\<close>

lemma verify_edge:
  "n \<le> 2 ^ i \<Longrightarrow> m < n \<Longrightarrow> length ps = audit_len n m \<Longrightarrow>
   \<exists>Q l. l \<le> i \<and> Q * 2 ^ l = 2 ^ i * q \<and>
     (\<forall>rest. verify_inclusion_loop h (m + 2 ^ i * q) (n - 1 + 2 ^ i * q) (ps @ rest)
        = verify_inclusion_loop (rebuild n m h ps) Q Q rest)"
proof (induction n arbitrary: m i q ps rule: less_induct)
  case (less n)
  have "0 < n" using less.prems(2) by linarith
  with less.prems(1) show ?case
  proof (cases rule: split_cases)
    case one
    then show ?thesis
      using less.prems by (intro exI [of _ "2 ^ i * q"] exI [of _ 0])
        (simp add: audit_len_one rebuild_one)
  next
    case (node j)
    define c where "c = 2 ^ (i - j - 1) * q"
    have ij: "2 ^ i * q = 2 ^ j * (2 * c)" "2 ^ i * q = 2 ^ Suc j * c"
      using node(3) by (simp_all add: c_def power_add [symmetric] mult.assoc [symmetric]
          flip: power_Suc)
    obtain ps' p where ps: "ps = ps' @ [p]"
      using less.prems(3) audit_len_node [OF node(1,2), of m] by (cases ps rule: rev_cases) auto
    have "verify_inclusion_loop h (m + 2 ^ i * q) (n - 1 + 2 ^ i * q) (ps @ rest)
      = verify_inclusion_loop (rebuild n m h ps) c c rest" for rest
    proof (cases "m < 2 ^ j")
      case True
      have len: "length ps' = j"
        using less.prems(3) True ps by (simp add: audit_len_node [OF node(1,2)] audit_len_complete)
      have "(n - 1) div 2 ^ j = 1" using node by (intro div_nat_eqI) auto
      then have sn: "(n - 1 + 2 ^ i * q) div 2 ^ j = 2 * c + 1" unfolding ij(1) by simp
      have "verify_inclusion_loop h (m + 2 ^ j * (2 * c)) (n - 1 + 2 ^ i * q) (ps' @ p # rest)
        = verify_inclusion_loop (rebuild (2 ^ j) m h ps') (2 * c) (2 * c + 1) (p # rest)"
        using True len sn by (subst verify_complete) auto
      also have "\<dots> = verify_inclusion_loop (rebuild n m h ps) c c rest"
        using True by (subst verify_right_sibling) (simp_all add: ps rebuild_node [OF node(1,2)])
      finally show ?thesis by (simp add: ps ij(1))
    next
      case False
      let ?o = "2 * c + 1"
      have m: "m = m - 2 ^ j + 2 ^ j" using False by simp
      have "length ps' = audit_len (n - 2 ^ j) (m - 2 ^ j)"
        using less.prems(3) False ps by (simp add: audit_len_node [OF node(1,2)])
      then have "\<exists>Q l. l \<le> j \<and> Q * 2 ^ l = 2 ^ j * ?o \<and>
         (\<forall>rest. verify_inclusion_loop h (m - 2 ^ j + 2 ^ j * ?o) (n - 2 ^ j - 1 + 2 ^ j * ?o) (ps' @ rest)
          = verify_inclusion_loop (rebuild (n - 2 ^ j) (m - 2 ^ j) h ps') Q Q rest)"
        using node less.prems False by (intro less.IH) auto
      then obtain Q l where Q: "l \<le> j" "Q * 2 ^ l = 2 ^ j * ?o"
        and run: "\<And>rest. verify_inclusion_loop h (m - 2 ^ j + 2 ^ j * ?o)
            (n - 2 ^ j - 1 + 2 ^ j * ?o) (ps' @ rest)
          = verify_inclusion_loop (rebuild (n - 2 ^ j) (m - 2 ^ j) h ps') Q Q rest" by blast
      have fn: "m + 2 ^ i * q = m - 2 ^ j + 2 ^ j * ?o"
        "n - 1 + 2 ^ i * q = n - 2 ^ j - 1 + 2 ^ j * ?o"
        using m node unfolding ij(1) by (simp_all add: algebra_simps)
      have "verify_inclusion_loop (rebuild (n - 2 ^ j) (m - 2 ^ j) h ps') Q Q (p # rest)
        = verify_inclusion_loop (rebuild n m h ps) c c rest"
        using False by (subst verify_left_sibling [OF _ pow2_cancel [OF Q]])
          (simp_all add: ps rebuild_node [OF node(1,2)])
      with run [of "p # rest"] show ?thesis unfolding fn by (simp add: ps)
    qed
    then show ?thesis
      using node(3) ij(2) by (intro exI [of _ c] exI [of _ "Suc j"]) (simp add: mult.commute)
  qed
qed

lemma VerifyInclusion_rebuild:
  assumes "m < n" "length ps = audit_len n m"
  shows "VerifyInclusion h m n (ps @ extra) = rebuild n m h ps"
proof (cases "n = 1")
  case True
  with assms show ?thesis by (simp add: VerifyInclusion_def rebuild_one)
next
  case False
  have "n \<le> 2 ^ n" by (simp add: less_imp_le)
  from verify_edge [OF this assms, of 0] obtain Q l where "Q * 2 ^ l = 0"
    and "verify_inclusion_loop h m (n - 1) (ps @ extra)
       = verify_inclusion_loop (rebuild n m h ps) Q Q extra" by auto
  moreover have "verify_inclusion_loop x 0 0 extra = x" for x by (cases extra) auto
  ultimately show ?thesis
    using assms False by (auto simp: VerifyInclusion_def)
qed

section \<open>Generated inclusion proofs\<close>

lemma inclusionPath_one: "length d = 1 \<Longrightarrow> inclusionPath m d = []"
  by (subst inclusionPath.simps) simp

lemma inclusionPath_node:
  assumes "2 ^ j < length d" "length d \<le> 2 * 2 ^ j" "hashes32 d"
  shows "inclusionPath m d =
    (if m < 2 ^ j then inclusionPath m (take (2 ^ j) d) @ [MerkleTreeHash (drop (2 ^ j) d)]
     else inclusionPath (m - 2 ^ j) (drop (2 ^ j) d) @ [MerkleTreeHash (take (2 ^ j) d)])"
proof -
  have "length (MerkleTreeHash (drop (2 ^ j) d)) = 32"
    "length (MerkleTreeHash (take (2 ^ j) d)) = 32"
    using assms by (auto intro!: length_MTH)
  then show ?thesis
    using node_gt_one [OF assms(1)] split_unique [OF assms(1,2)]
    by (subst inclusionPath.simps) (simp add: Let_def appendHash_def)
qed

lemma inclusionPath_rebuilds:
  assumes "m < length d" "hashes32 d"
  shows "length (inclusionPath m d) = audit_len (length d) m
    \<and> rebuild (length d) m (d ! m) (inclusionPath m d) = MerkleTreeHash d"
  using assms
proof (induction "length d" arbitrary: d m rule: less_induct)
  case less
  have "0 < length d" using less.prems(1) by linarith
  with less_imp_le [OF less_exp] show ?case
  proof (cases rule: split_cases)
    case one
    with less.prems show ?thesis
      by (simp add: inclusionPath_one audit_len_one rebuild_one MTH_one)
  next
    case (node j)
    let ?L = "take (2 ^ j) d" and ?R = "drop (2 ^ j) d"
    have h32: "length (MerkleTreeHash ?L) = 32" "length (MerkleTreeHash ?R) = 32"
      using less.prems node by (auto intro!: length_MTH)
    note simps = inclusionPath_node [OF node(1,2) less.prems(2)] audit_len_node [OF node(1,2)]
      rebuild_node [OF node(1,2)] MTH_node [OF node(1,2)]
    show ?thesis
    proof (cases "m < 2 ^ j")
      case True
      with node less.prems have "length (inclusionPath m ?L) = audit_len (2 ^ j) m
          \<and> rebuild (2 ^ j) m (?L ! m) (inclusionPath m ?L) = MerkleTreeHash ?L"
        using less.hyps [of ?L m] by simp
      with True h32 show ?thesis by (simp add: simps)
    next
      case False
      with node less.prems have "length (inclusionPath (m - 2 ^ j) ?R) = audit_len (length d - 2 ^ j) (m - 2 ^ j)
          \<and> rebuild (length d - 2 ^ j) (m - 2 ^ j) (?R ! (m - 2 ^ j)) (inclusionPath (m - 2 ^ j) ?R)
            = MerkleTreeHash ?R"
        using less.hyps [of ?R "m - 2 ^ j"] by simp
      with False h32 node show ?thesis by (simp add: simps)
    qed
  qed
qed

lemma VerifyInclusion_path:
  assumes "hashes32 d" "m < length d"
  shows "VerifyInclusion (d ! m) m (length d) (InclusionProof m d @ extra) = MerkleTreeHash d"
proof -
  have "InclusionProof m d = inclusionPath m d"
    using assms(2) by (auto simp: InclusionProof_def)
  with inclusionPath_rebuilds [OF assms(2,1)] show ?thesis
    using VerifyInclusion_rebuild [OF assms(2), of "inclusionPath m d" "d ! m" extra] by simp
qed

section \<open>What an accepted inclusion proof establishes\<close>

text \<open>
  SHA-256 has collisions, so soundness is stated with one: the messages the verifier
  hashes (\<open>audit_msgs\<close>, and the leaf) and those hashed to build the tree
  (\<open>tree_msgs\<close>); two different ones with the same digest are a collision found.
\<close>

function audit_msgs :: "nat \<Rightarrow> nat \<Rightarrow> RootHash \<Rightarrow> Proof \<Rightarrow> bytes list" where
  "audit_msgs n m h ps =
     (if n \<le> 1 \<or> ps = [] then []
      else
        (let k = largestPowerOfTwoLessThan n; p = copy32 (last ps); qs = butlast ps
         in if m < k then (innerPrefix # rebuild k m h qs @ p) # audit_msgs k m h qs
            else (innerPrefix # p @ rebuild (n - k) (m - k) h qs) # audit_msgs (n - k) (m - k) h qs))"
  by pat_completeness auto
termination
  by (relation "measure fst") auto

declare audit_msgs.simps [simp del]

function tree_msgs :: "bytes list \<Rightarrow> bytes list" where
  "tree_msgs xs =
     (if length xs \<le> 1 then map (\<lambda>x. leafPrefix # x) xs
      else
        (let k = largestPowerOfTwoLessThan (length xs)
         in (innerPrefix # MerkleTreeHash (map HashLeaf (take k xs))
               @ MerkleTreeHash (map HashLeaf (drop k xs)))
            # tree_msgs (take k xs) @ tree_msgs (drop k xs)))"
  by pat_completeness auto
termination
  by (relation "measure length") (auto simp: min_def not_le)

declare tree_msgs.simps [simp del]

definition collision :: "bytes list \<Rightarrow> bytes list \<Rightarrow> bool" where
  "collision as bs \<longleftrightarrow> (\<exists>a \<in> set as. \<exists>b \<in> set bs. a \<noteq> b \<and> sha256 a = sha256 b)"

lemma collision_mono: "collision as bs \<Longrightarrow> set as \<subseteq> set as' \<Longrightarrow> set bs \<subseteq> set bs' \<Longrightarrow> collision as' bs'"
  by (auto simp: collision_def)

lemma audit_msgs_node:
  assumes "2 ^ j < n" "n \<le> 2 * 2 ^ j"
  shows "audit_msgs n m h (ps @ [p]) =
    (if m < 2 ^ j then (innerPrefix # rebuild (2 ^ j) m h ps @ copy32 p) # audit_msgs (2 ^ j) m h ps
     else (innerPrefix # copy32 p @ rebuild (n - 2 ^ j) (m - 2 ^ j) h ps)
          # audit_msgs (n - 2 ^ j) (m - 2 ^ j) h ps)"
  using node_gt_one [OF assms(1)] split_unique [OF assms]
  by (subst audit_msgs.simps) (simp add: Let_def)

lemma tree_msgs_node:
  assumes "2 ^ j < length xs" "length xs \<le> 2 * 2 ^ j"
  shows "tree_msgs xs =
    (innerPrefix # MerkleTreeHash (map HashLeaf (take (2 ^ j) xs))
       @ MerkleTreeHash (map HashLeaf (drop (2 ^ j) xs)))
    # tree_msgs (take (2 ^ j) xs) @ tree_msgs (drop (2 ^ j) xs)"
  using node_gt_one [OF assms(1)] split_unique [OF assms]
  by (subst tree_msgs.simps) (simp add: Let_def)

lemma hashes32_leaves [simp]: "hashes32 (map HashLeaf xs)"
  by (simp add: hashes32_def)

lemma length_copy32 [simp]: "length (copy32 p) = 32"
  by (simp add: copy32_def)

lemma length_rebuild: "length h = 32 \<Longrightarrow> length (rebuild n m h ps) = 32"
  by (subst rebuild.simps) (simp add: Let_def)

text \<open>Equal inner hashes have equal children, or their messages collide.\<close>

lemma HashChildren_eq:
  assumes "HashChildren a b = HashChildren c d" "length a = 32" "length c = 32"
    and "innerPrefix # a @ b \<in> set as" "innerPrefix # c @ d \<in> set bs"
  shows "a = c \<and> b = d \<or> collision as bs"
proof (cases "a @ b = c @ d")
  case True
  with assms(2,3) show ?thesis by (metis append_eq_append_conv)
next
  case False
  with assms show ?thesis
    unfolding collision_def HashChildren_def
    by (intro disjI2 bexI [of _ "innerPrefix # a @ b"] bexI [of _ "innerPrefix # c @ d"]) auto
qed

lemma rebuild_sound:
  assumes "m < length xs" "length ps = audit_len (length xs) m" "length h = 32"
    and "rebuild (length xs) m h ps = MerkleTreeHash (map HashLeaf xs)"
  shows "h = HashLeaf (xs ! m) \<or> collision (audit_msgs (length xs) m h ps) (tree_msgs xs)"
  using assms
proof (induction "length xs" arbitrary: xs m ps rule: less_induct)
  case less
  have "0 < length xs" using less.prems(1) by linarith
  with less_imp_le [OF less_exp] show ?case
  proof (cases rule: split_cases)
    case one
    with less.prems show ?thesis by (simp add: rebuild_one MTH_one)
  next
    case (node j)
    let ?L = "take (2 ^ j) xs" and ?R = "drop (2 ^ j) xs" and ?n = "length xs"
    let ?l = "MerkleTreeHash (map HashLeaf ?L)" and ?r = "MerkleTreeHash (map HashLeaf ?R)"
    let ?A = "audit_msgs ?n m h ps" and ?T = "tree_msgs xs"
    obtain ps' p where ps: "ps = ps' @ [p]"
      using less.prems(2) audit_len_node [OF node(1,2), of m] by (cases ps rule: rev_cases) auto
    have root: "MerkleTreeHash (map HashLeaf xs) = HashChildren ?l ?r"
      using MTH_node [of j "map HashLeaf xs"] node by (simp add: take_map drop_map)
    have len: "length ?l = 32" "length (rebuild k i h ps') = 32" for k i
      using node less.prems(3) by (auto intro!: length_MTH length_rebuild)
    have sub: "innerPrefix # ?l @ ?r \<in> set ?T" "set (tree_msgs ?L) \<subseteq> set ?T"
      "set (tree_msgs ?R) \<subseteq> set ?T"
      using tree_msgs_node [OF node(1,2)] by auto
    note simps = ps audit_msgs_node [OF node(1,2)] audit_len_node [OF node(1,2)]
      rebuild_node [OF node(1,2)]
    show ?thesis
    proof (cases "m < 2 ^ j")
      case True
      have "rebuild (2 ^ j) m h ps' = ?l \<and> copy32 p = ?r \<or> collision ?A ?T"
        using less.prems(4) root True len sub(1) by (intro HashChildren_eq) (auto simp: simps)
      moreover have "h = HashLeaf (?L ! m) \<or> collision (audit_msgs (length ?L) m h ps') (tree_msgs ?L)"
        if "rebuild (2 ^ j) m h ps' = ?l"
        using that True node less.prems(2,3) by (intro less.hyps) (auto simp: simps)
      moreover have "collision (audit_msgs (2 ^ j) m h ps') (tree_msgs ?L) \<Longrightarrow> collision ?A ?T"
        by (erule collision_mono) (use True sub(2) in \<open>auto simp: simps\<close>)
      ultimately show ?thesis using True node by auto
    next
      case False
      have "copy32 p = ?l \<and> rebuild (?n - 2 ^ j) (m - 2 ^ j) h ps' = ?r \<or> collision ?A ?T"
        using less.prems(4) root False len sub(1) by (intro HashChildren_eq) (auto simp: simps)
      moreover have "h = HashLeaf (?R ! (m - 2 ^ j))
          \<or> collision (audit_msgs (length ?R) (m - 2 ^ j) h ps') (tree_msgs ?R)"
        if "rebuild (?n - 2 ^ j) (m - 2 ^ j) h ps' = ?r"
        using that False node less.prems by (intro less.hyps) (auto simp: simps)
      moreover have "collision (audit_msgs (?n - 2 ^ j) (m - 2 ^ j) h ps') (tree_msgs ?R)
          \<Longrightarrow> collision ?A ?T"
        by (erule collision_mono) (use False sub(3) in \<open>auto simp: simps\<close>)
      ultimately show ?thesis using False node by auto
    qed
  qed
qed

lemma leaf_msg_in_tree: "m < length xs \<Longrightarrow> leafPrefix # xs ! m \<in> set (tree_msgs xs)"
proof (induction "length xs" arbitrary: xs m rule: less_induct)
  case less
  have "0 < length xs" using less.prems by linarith
  with less_imp_le [OF less_exp] show ?case
  proof (cases rule: split_cases)
    case one
    with less.prems show ?thesis by (subst tree_msgs.simps) auto
  next
    case (node j)
    show ?thesis
    proof (cases "m < 2 ^ j")
      case True
      then have "leafPrefix # take (2 ^ j) xs ! m \<in> set (tree_msgs (take (2 ^ j) xs))"
        using node by (intro less.hyps) auto
      with True show ?thesis by (simp add: tree_msgs_node [OF node(1,2)])
    next
      case False
      then have "leafPrefix # drop (2 ^ j) xs ! (m - 2 ^ j) \<in> set (tree_msgs (drop (2 ^ j) xs))"
        using node less.prems by (intro less.hyps) auto
      with False node show ?thesis by (simp add: tree_msgs_node [OF node(1,2)])
    qed
  qed
qed

lemma HashLeaf_eq:
  assumes "HashLeaf x = HashLeaf (xs ! m)" "m < length xs"
  shows "x = xs ! m \<or> collision [leafPrefix # x] (tree_msgs xs)"
  using assms leaf_msg_in_tree [OF assms(2)] by (auto simp: HashLeaf_def collision_def)

section \<open>Properties\<close>

text \<open>
  C24: completeness of inclusion proofs. For a log of any size and any leaf in it, the
  audit path the log returns makes the verifier recompute the log's root.
\<close>

theorem inclusion_proof_complete:
  assumes "hashes32 d" "m < length d"
  shows "VerifyInclusion (d ! m) m (length d) (InclusionProof m d) = MerkleTreeHash d"
  using VerifyInclusion_path [OF assms, of "[]"] by simp

theorem inclusion_proof_complete_witness:
  "VerifyInclusion (HashLeaf [3]) 2 5 (InclusionProof 2 (map HashLeaf [[1], [2], [3], [4], [5]]))
   = MerkleTreeHash (map HashLeaf [[1], [2], [3], [4], [5]])"
  using inclusion_proof_complete [of "map HashLeaf [[1], [2], [3], [4], [5]]" 2]
  by (simp add: hashes32_def eval_nat_numeral)

text \<open>
  C11: soundness of inclusion proofs. If a payload is accepted at index \<open>m\<close> of a log of
  payloads \<open>xs\<close> with a proof that is not shorter than the audit path of that index, then
  it is the payload at that index, or the verifier has hashed a message that collides
  with one hashed to build the log.
\<close>

theorem inclusion_proof_sound:
  assumes "m < length xs" "audit_len (length xs) m \<le> length ps"
    and "VerifyInclusion (HashLeaf x) m (length xs) ps = MerkleTreeHash (map HashLeaf xs)"
  shows "x = xs ! m \<or>
    collision ((leafPrefix # x) #
        audit_msgs (length xs) m (HashLeaf x) (take (audit_len (length xs) m) ps))
      (tree_msgs xs)"
proof -
  let ?l = "audit_len (length xs) m"
  have "VerifyInclusion (HashLeaf x) m (length xs) (take ?l ps @ drop ?l ps)
      = rebuild (length xs) m (HashLeaf x) (take ?l ps)"
    using assms(1,2) by (intro VerifyInclusion_rebuild) auto
  then have "HashLeaf x = HashLeaf (xs ! m) \<or>
      collision (audit_msgs (length xs) m (HashLeaf x) (take ?l ps)) (tree_msgs xs)"
    using assms by (intro rebuild_sound) auto
  then show ?thesis
    using HashLeaf_eq [of x xs m] assms(1) by (auto simp: collision_def)
qed

text \<open>
  For the second of three payloads, with the path that the log returns: the payload itself
  is accepted, and whatever else is accepted collides.
\<close>

theorem inclusion_proof_sound_witness:
  "let xs = [[1], [2], [3 :: byte]]; ps = InclusionProof 1 (map HashLeaf xs);
       accepted = {x. VerifyInclusion (HashLeaf x) 1 3 ps = MerkleTreeHash (map HashLeaf xs)}
   in [2] \<in> accepted \<and>
      accepted \<subseteq> insert [2] {x. collision ((leafPrefix # x) # audit_msgs 3 1 (HashLeaf x) ps) (tree_msgs xs)}"
proof -
  let ?xs = "[[1], [2], [3 :: byte]]"
  let ?ps = "InclusionProof 1 (map HashLeaf ?xs)"
  have len: "audit_len 3 1 = 2" using audit_len_node [of 1 3 1] audit_len_complete [of 1 1] by simp
  have three: "Suc (Suc (Suc 0)) = 3" by simp
  have ps: "length ?ps = 2"
    using inclusionPath_rebuilds [of 1 "map HashLeaf ?xs"] len by (simp add: InclusionProof_def hashes32_def three)
  have "VerifyInclusion (HashLeaf [2]) 1 3 ?ps = MerkleTreeHash (map HashLeaf ?xs)"
    using VerifyInclusion_path [of "map HashLeaf ?xs" 1 "[]"] by (simp add: hashes32_def three)
  moreover have "x = [2] \<or> collision ((leafPrefix # x) # audit_msgs 3 1 (HashLeaf x) ?ps) (tree_msgs ?xs)"
    if "VerifyInclusion (HashLeaf x) 1 3 ?ps = MerkleTreeHash (map HashLeaf ?xs)" for x
    using inclusion_proof_sound [of 1 ?xs ?ps x] that ps len by (simp add: three)
  ultimately show ?thesis unfolding Let_def by blast
qed

text \<open>
  Soundness needs the condition on the length of the proof, because \<open>VerifyInclusion\<close> does not check that
  the proof reaches the root: in a log of three leaves, the third leaf is accepted as
  the second one with a proof of one entry.
\<close>

theorem truncated_proof_accepted:
  assumes "length l0 = 32" "length l1 = 32" "length l2 = 32"
  shows "VerifyInclusion l2 1 3 [HashChildren l0 l1] = MerkleTreeHash [l0, l1, l2]
    \<and> audit_len 3 1 = 2"
proof -
  have "MerkleTreeHash [l0, l1, l2] = HashChildren (HashChildren l0 l1) l2"
    using MTH_node [of 1 "[l0, l1, l2]"] MTH_node [of 0 "[l0, l1]"] by (simp add: MTH_single)
  moreover have "VerifyInclusion l2 1 3 [HashChildren l0 l1] = HashChildren (HashChildren l0 l1) l2"
    by (simp add: VerifyInclusion_def strip_zeros.simps)
  moreover have "audit_len 3 1 = 2"
    using audit_len_node [of 1 3 1] audit_len_complete [of 1 1] by simp
  ultimately show ?thesis by simp
qed

theorem truncated_proof_accepted_witness:
  "VerifyInclusion (HashLeaf [3]) 1 3 [HashChildren (HashLeaf [1]) (HashLeaf [2])]
   = MerkleTreeHash (map HashLeaf [[1], [2], [3]])"
  using truncated_proof_accepted [of "HashLeaf [1]" "HashLeaf [2]" "HashLeaf [3]"] by simp

end
