(* ===== verification/Transparency_Consistency.thy ===== *)
theory Transparency_Consistency
  imports Transparency_Proofs
begin

text \<open>
  Consistency proofs of the transparency log verify: from the root of the first
  \<open>m\<close> leaves and the proof the log generates, \<open>VerifyConsistency\<close> computes the root
  of all leaves.
\<close>

section \<open>The two climbing loops as one\<close>

text \<open>
  \<open>climb\<close> is the second and third loop of \<open>VerifyConsistency\<close> together: once the
  boundary has reached position 0, the third loop takes the step the second one takes
  for an even position left of the last.
\<close>

function climb ::
  "nat \<Rightarrow> nat \<Rightarrow> RootHash \<Rightarrow> RootHash \<Rightarrow> Proof \<Rightarrow> (RootHash \<times> RootHash \<times> Proof) option" where
  "climb node lastNode hash1 hash2 proof =
     (if lastNode = 0 then Some (hash1, hash2, proof)
      else
        (case proof of
           [] \<Rightarrow> None
         | raw # rest \<Rightarrow>
             if odd node then
               climb (node div 2) (lastNode div 2)
                 (HashChildren (copy32 raw) hash1) (HashChildren (copy32 raw) hash2) rest
             else if node < lastNode then
               climb (node div 2) (lastNode div 2) hash1 (HashChildren hash2 (copy32 raw)) rest
             else climb (node div 2) (lastNode div 2) hash1 hash2 proof))"
  by pat_completeness auto
termination
  by (relation "measure (\<lambda>(node, lastNode, h1, h2, p). lastNode)") auto

declare climb.simps [simp del]

lemma climb_zero:
  "climb 0 l h1 h2 p = map_option (\<lambda>(r, p'). (h1, r, p')) (climb_last l h2 p)"
proof (induction l h2 p rule: climb_last.induct)
  case (1 l h2 p)
  then show ?case
    by (subst climb.simps, subst climb_last.simps) (auto split: list.split)
qed

lemma climb_loops:
  "node \<le> l \<Longrightarrow>
   climb node l h1 h2 p =
     (case climb_both node l h1 h2 p of
        None \<Rightarrow> None
      | Some (l', h1', h2', p') \<Rightarrow> map_option (\<lambda>(r, p''). (h1', r, p'')) (climb_last l' h2' p'))"
proof (induction node l h1 h2 p rule: climb_both.induct)
  case (1 node l h1 h2 p)
  show ?case
  proof (cases "node = 0")
    case True
    then show ?thesis by (simp add: climb_zero climb_both.simps [of 0])
  next
    case False
    with "1.prems" have "node div 2 \<le> l div 2" "l \<noteq> 0" by (auto intro: div_le_mono)
    with 1 False show ?thesis
      by (subst climb.simps, subst climb_both.simps) (auto simp: Let_def split: list.split)
  qed
qed

section \<open>Steps\<close>

lemma climb_odd:
  "odd f \<Longrightarrow> s \<noteq> 0 \<Longrightarrow> length p = 32 \<Longrightarrow>
   climb f s h1 h2 (p # rest) = climb (f div 2) (s div 2) (HashChildren p h1) (HashChildren p h2) rest"
  by (subst climb.simps) simp

lemma climb_right:
  "even f \<Longrightarrow> f < s \<Longrightarrow> length p = 32 \<Longrightarrow>
   climb f s h1 h2 (p # rest) = climb (f div 2) (s div 2) h1 (HashChildren h2 p) rest"
  by (subst climb.simps) simp

lemma climb_silent:
  "odd a \<Longrightarrow> climb (2 ^ t * a) (2 ^ t * a) h1 h2 (p # rest) = climb a a h1 h2 (p # rest)"
proof (induction t)
  case (Suc t)
  have "climb (2 ^ Suc t * a) (2 ^ Suc t * a) h1 h2 (p # rest)
      = climb (2 ^ t * a) (2 ^ t * a) h1 h2 (p # rest)"
    using odd_pos [OF Suc.prems] by (subst climb.simps) simp
  with Suc show ?case by simp
qed simp

lemma climb_edge:
  assumes "odd a" "Q = 2 ^ t * a" "length p = 32"
  shows "climb Q Q h1 h2 (p # rest)
       = climb (a div 2) (a div 2) (HashChildren p h1) (HashChildren p h2) rest"
  using assms odd_pos [OF assms(1)] by (simp add: climb_silent climb_odd)

lemma strip_odd_pow2: "odd a \<Longrightarrow> strip_odd (2 ^ t * a - 1) l = (a - 1, l div 2 ^ t)"
proof (induction t arbitrary: l)
  case 0
  then show ?case by (subst strip_odd.simps) simp
next
  case (Suc t)
  have pos: "0 < 2 ^ t * a" using odd_pos [OF Suc.prems] by simp
  then have "odd (2 ^ Suc t * a - 1)" "(2 ^ Suc t * a - 1) div 2 = 2 ^ t * a - 1"
    by (auto simp: algebra_simps)
  with Suc show ?case by (subst strip_odd.simps) (simp add: div_mult2_eq)
qed

section \<open>Generated proofs\<close>

lemma subProof_node:
  assumes "2 ^ j < length d" "length d \<le> 2 * 2 ^ j" "hashes32 d" "m < length d"
  shows "subProof m d b =
    (if m \<le> 2 ^ j then subProof m (take (2 ^ j) d) b @ [MerkleTreeHash (drop (2 ^ j) d)]
     else subProof (m - 2 ^ j) (drop (2 ^ j) d) False @ [MerkleTreeHash (take (2 ^ j) d)])"
proof -
  have "length (MerkleTreeHash (drop (2 ^ j) d)) = 32"
    "length (MerkleTreeHash (take (2 ^ j) d)) = 32"
    using assms by (auto intro!: length_MTH)
  then show ?thesis
    using node_gt_one [OF assms(1)] split_unique [OF assms(1,2)] assms(4)
    by (subst subProof.simps) (simp add: Let_def appendHash_def)
qed

lemma subProof_all: "subProof (length d) d b = (if b then [] else [MerkleTreeHash d])"
  by (subst subProof.simps) simp

text \<open>The flag only decides whether the hash of the whole smaller tree is left out.\<close>

lemma subProof_flag:
  assumes "0 < m" "m < length d" "hashes32 d"
  shows "subProof m d False =
    (if \<exists>t. m = 2 ^ t then MerkleTreeHash (take m d) # subProof m d True else subProof m d True)"
  using assms
proof (induction "length d" arbitrary: d rule: less_induct)
  case less
  have "0 < length d" using less.prems by linarith
  with less_imp_le [OF less_exp] show ?case
  proof (cases rule: split_cases)
    case one
    with less.prems show ?thesis by simp
  next
    case (node j)
    note sub = subProof_node [OF node(1,2) less.prems(3,2)]
    let ?L = "take (2 ^ j) d"
    consider "m < 2 ^ j" | "m = 2 ^ j" | "2 ^ j < m" by linarith
    then show ?thesis
    proof cases
      case 1
      then have "subProof m ?L False = (if \<exists>t. m = 2 ^ t then MerkleTreeHash (take m ?L) # subProof m ?L True
          else subProof m ?L True)"
        using node less.prems by (intro less.hyps) auto
      with 1 show ?thesis by (simp add: sub min_def)
    next
      case 2
      have "length ?L = 2 ^ j" using node by simp
      then have "subProof (2 ^ j) ?L b = (if b then [] else [MerkleTreeHash ?L])" for b
        using subProof_all [of ?L b] by simp
      with 2 show ?thesis unfolding sub by auto
    next
      case 3
      have "m \<noteq> 2 ^ t" for t
      proof
        assume t: "m = 2 ^ t"
        with 3 have "j < t" by (simp add: power_strict_increasing_iff)
        then have "(2::nat) ^ Suc j \<le> 2 ^ t" by (intro power_increasing) auto
        with t less.prems(2) node(2) show False by simp
      qed
      with 3 show ?thesis by (simp add: sub)
    qed
  qed
qed

lemma pred_div: "0 < c \<Longrightarrow> (c - 1 + c * q) div c = (q::nat)"
  by (subst div_mult_self2) auto

lemma pred_div_pow2: "0 < (a::nat) \<Longrightarrow> (2 ^ t * a - 1) div 2 ^ t = a - 1"
  using pred_div [of "2 ^ t" "a - 1"] by (cases a) auto

text \<open>How the number of trailing zeros of the smaller size moves down the tree.\<close>

lemma odd_pow2: "odd a \<Longrightarrow> 2 ^ t * a = 2 ^ j \<Longrightarrow> t = j \<and> a = (1::nat)"
proof (induction t arbitrary: j)
  case 0
  then show ?case by (cases j) auto
next
  case (Suc t)
  then show ?case by (cases j) auto
qed

lemma zeros_right_half:
  assumes "m = 2 ^ t * a" "odd (a::nat)" "2 ^ j < m" "m < 2 * 2 ^ j"
  shows "m - 2 ^ j = 2 ^ t * (a - 2 ^ (j - t))" "odd (a - 2 ^ (j - t))"
proof -
  have "t < j"
  proof (rule ccontr)
    assume "\<not> t < j"
    then have "2 ^ j dvd m" using assms(1) by (simp add: le_imp_power_dvd)
    with assms(3) have "2 ^ j dvd m - 2 ^ j" by (simp add: dvd_diff_nat)
    with assms(3,4) show False by (auto dest!: dvd_imp_le)
  qed
  then have pj: "(2::nat) ^ j = 2 ^ t * 2 ^ (j - t)" by (simp flip: power_add)
  then show "m - 2 ^ j = 2 ^ t * (a - 2 ^ (j - t))"
    using assms(1) by (simp add: diff_mult_distrib2)
  have "2 ^ (j - t) \<le> a" using assms(1,3) pj by simp
  with \<open>t < j\<close> assms(2) show "odd (a - 2 ^ (j - t))" by simp
qed

lemma MTH_take_node:
  assumes "2 ^ j < m" "m < length d" "length d \<le> 2 * 2 ^ j"
  shows "MerkleTreeHash (take m d) =
    HashChildren (MerkleTreeHash (take (2 ^ j) d)) (MerkleTreeHash (take (m - 2 ^ j) (drop (2 ^ j) d)))"
  using MTH_node [of j "take m d"] assms by (simp add: min_def take_drop)

text \<open>
  Inside the tree: \<open>m = 2 ^ t * a\<close> leaves of a complete subtree of \<open>2 ^ j\<close> leaves.
  The walk starts at the subtree that ends the smaller tree, whose hash is the first
  entry of the proof.
\<close>

lemma climb_complete:
  "length d = 2 ^ j \<Longrightarrow> m = 2 ^ t * a \<Longrightarrow> odd a \<Longrightarrow> m \<le> 2 ^ j \<Longrightarrow>
   hashes32 d \<Longrightarrow> q < sn div 2 ^ j \<Longrightarrow>
   \<exists>h ps. subProof m d False = h # ps \<and> length h = 32 \<and>
     (\<forall>rest. climb ((m - 1 + 2 ^ j * q) div 2 ^ t) (sn div 2 ^ t) h h (ps @ rest)
        = climb q (sn div 2 ^ j) (MerkleTreeHash (take m d)) (MerkleTreeHash d) rest)"
proof (induction j arbitrary: d m a q)
  case 0
  have "0 < m" using "0.prems"(2,3) by (simp add: odd_pos)
  with "0.prems"(4) have "m = 1" by simp
  with 0 odd_pow2 [of a t 0] have "subProof m d False = [MerkleTreeHash d]" "t = 0"
    using subProof_all [of d False] by auto
  moreover have "length (MerkleTreeHash d) = 32"
    using "0.prems"(1,5) by (intro length_MTH) auto
  ultimately show ?case using 0 \<open>m = 1\<close> by auto
next
  case (Suc j)
  let ?L = "take (2 ^ j) d" and ?R = "drop (2 ^ j) d" and ?s = "sn div 2 ^ j"
  have node: "2 ^ j < length d" "length d \<le> 2 * 2 ^ j" using Suc.prems(1) by simp_all
  have len: "length ?L = 2 ^ j" "length ?R = 2 ^ j" "hashes32 ?L" "hashes32 ?R"
    using Suc.prems by simp_all
  have h32: "length (MerkleTreeHash ?L) = 32" "length (MerkleTreeHash ?R) = 32"
    using len by (auto intro!: length_MTH)
  have s: "2 * q + 2 \<le> ?s" "sn div 2 ^ Suc j = ?s div 2"
    using Suc.prems(6) unfolding div_pow_Suc by simp_all
  consider "m = 2 ^ Suc j" | "m \<le> 2 ^ j" | "2 ^ j < m" "m < 2 ^ Suc j"
    using Suc.prems(4) by linarith
  then show ?case
  proof cases
    case 1
    with Suc.prems(2,3) odd_pow2 have "t = Suc j" by metis
    with 1 have "(m - 1 + 2 ^ Suc j * q) div 2 ^ t = q" by (simp only: pred_div zero_less_power zero_less_numeral)
    moreover have "length (MerkleTreeHash d) = 32"
      using node Suc.prems(5) by (intro length_MTH) auto
    ultimately show ?thesis using 1 \<open>t = Suc j\<close> Suc.prems(1) subProof_all [of d False] by auto
  next
    case 2
    then have ml: "m < length d" using node(1) by simp
    have "\<exists>h ps. subProof m ?L False = h # ps \<and> length h = 32 \<and>
       (\<forall>rest. climb ((m - 1 + 2 ^ j * (2 * q)) div 2 ^ t) (sn div 2 ^ t) h h (ps @ rest)
          = climb (2 * q) ?s (MerkleTreeHash (take m ?L)) (MerkleTreeHash ?L) rest)"
      using 2 Suc.prems len s by (intro Suc.IH) auto
    moreover have "climb (2 * q) ?s h1 (MerkleTreeHash ?L) (MerkleTreeHash ?R # rest)
      = climb q (sn div 2 ^ Suc j) h1 (MerkleTreeHash d) rest" for h1 rest
      using s h32 by (subst climb_right) (simp_all add: MTH_node [OF node])
    ultimately show ?thesis using 2
      by (auto simp: subProof_node [OF node Suc.prems(5) ml] min_def algebra_simps)
  next
    case 3
    then have ml: "m < length d" using Suc.prems(1) by simp
    have fn: "m - 1 + 2 ^ Suc j * q = m - 2 ^ j - 1 + 2 ^ j * (2 * q + 1)"
      using 3 by (simp add: algebra_simps)
    have "\<exists>h ps. subProof (m - 2 ^ j) ?R False = h # ps \<and> length h = 32 \<and>
       (\<forall>rest. climb ((m - 2 ^ j - 1 + 2 ^ j * (2 * q + 1)) div 2 ^ t) (sn div 2 ^ t) h h (ps @ rest)
          = climb (2 * q + 1) ?s (MerkleTreeHash (take (m - 2 ^ j) ?R)) (MerkleTreeHash ?R) rest)"
      using 3 len s by (intro Suc.IH [OF _ zeros_right_half [OF Suc.prems(2,3)]]) auto
    moreover have "climb (2 * q + 1) ?s (MerkleTreeHash (take (m - 2 ^ j) ?R)) (MerkleTreeHash ?R)
        (MerkleTreeHash ?L # rest)
      = climb q (sn div 2 ^ Suc j) (MerkleTreeHash (take m d)) (MerkleTreeHash d) rest" for rest
      using s h32 3 ml node
      by (subst climb_odd) (simp_all add: MTH_node [OF node] MTH_take_node [of j])
    ultimately show ?thesis unfolding fn using 3
      by (auto simp: subProof_node [OF node Suc.prems(5) ml])
  qed
qed

text \<open>
  At the right edge: \<open>m\<close> leaves of a subtree of at most \<open>2 ^ i\<close> leaves that ends the
  larger tree.
\<close>

lemma climb_right_edge:
  "length d \<le> 2 ^ i \<Longrightarrow> m = 2 ^ t * a \<Longrightarrow> odd a \<Longrightarrow> m < length d \<Longrightarrow> hashes32 d \<Longrightarrow>
   \<exists>Q l. l \<le> i \<and> Q * 2 ^ l = 2 ^ i * q \<and> (\<exists>h ps. subProof m d False = h # ps \<and> length h = 32 \<and>
     (\<forall>rest. climb ((m - 1 + 2 ^ i * q) div 2 ^ t) ((length d - 1 + 2 ^ i * q) div 2 ^ t) h h (ps @ rest)
        = climb Q Q (MerkleTreeHash (take m d)) (MerkleTreeHash d) rest))"
proof (induction "length d" arbitrary: d m a i q rule: less_induct)
  case less
  have pos: "0 < m" "0 < length d" using less.prems(2,3,4) odd_pos by fastforce+
  from less.prems(1) pos(2) show ?case
  proof (cases rule: split_cases)
    case one
    with less.prems(4) pos show ?thesis by simp
  next
    case (node j)
    let ?L = "take (2 ^ j) d" and ?R = "drop (2 ^ j) d" and ?q = "2 ^ (i - j) * q"
    have ij: "2 ^ i * q = 2 ^ j * ?q" "even ?q" "?q div 2 * 2 ^ Suc j = 2 ^ i * q"
    proof -
      have "(2::nat) ^ i = 2 ^ j * 2 ^ (i - j)" using node(3) by (simp flip: power_add)
      then show "2 ^ i * q = 2 ^ j * ?q" by simp
      moreover show "even ?q" using node(3) by simp
      ultimately show "?q div 2 * 2 ^ Suc j = 2 ^ i * q" by (auto elim!: evenE)
    qed
    have sn: "(length d - 1 + 2 ^ j * ?q) div 2 ^ j = ?q + 1"
      using node(1,2) by (intro div_nat_eqI) (auto simp: algebra_simps)
    have h32: "length (MerkleTreeHash ?L) = 32" "length (MerkleTreeHash ?R) = 32"
      using node less.prems(5) by (auto intro!: length_MTH)
    note sub = subProof_node [OF node(1,2) less.prems(5,4)]
    show ?thesis
    proof (cases "m \<le> 2 ^ j")
      case True
      have "\<exists>h ps. subProof m ?L False = h # ps \<and> length h = 32 \<and>
        (\<forall>rest. climb ((m - 1 + 2 ^ j * ?q) div 2 ^ t) ((length d - 1 + 2 ^ j * ?q) div 2 ^ t) h h (ps @ rest)
          = climb ?q ((length d - 1 + 2 ^ j * ?q) div 2 ^ j) (MerkleTreeHash (take m ?L)) (MerkleTreeHash ?L) rest)"
        using True less.prems node sn by (intro climb_complete) auto
      moreover have "climb ?q (?q + 1) h1 (MerkleTreeHash ?L) (MerkleTreeHash ?R # rest)
          = climb (?q div 2) (?q div 2) h1 (MerkleTreeHash d) rest" for h1 rest
        using ij(2) h32 by (subst climb_right) (simp_all add: MTH_node [OF node(1,2)])
      ultimately show ?thesis unfolding ij(1) sn using True node(3) ij(3)
        by (intro exI [of _ "?q div 2"] exI [of _ "Suc j"]) (auto simp: sub min_def ij(1))
    next
      case False
      have fn: "m - 1 + 2 ^ j * ?q = m - 2 ^ j - 1 + 2 ^ j * (?q + 1)"
        "length d - 1 + 2 ^ j * ?q = length ?R - 1 + 2 ^ j * (?q + 1)"
        using False node(1) by (simp_all add: algebra_simps)
      have "\<exists>Q l. l \<le> j \<and> Q * 2 ^ l = 2 ^ j * (?q + 1) \<and>
          (\<exists>h ps. subProof (m - 2 ^ j) ?R False = h # ps \<and> length h = 32 \<and>
        (\<forall>rest. climb ((m - 2 ^ j - 1 + 2 ^ j * (?q + 1)) div 2 ^ t)
             ((length ?R - 1 + 2 ^ j * (?q + 1)) div 2 ^ t) h h (ps @ rest)
          = climb Q Q (MerkleTreeHash (take (m - 2 ^ j) ?R)) (MerkleTreeHash ?R) rest))"
        using False less.prems(4,5) node
        by (intro less.hyps [OF _ _ zeros_right_half [OF less.prems(2,3)]]) auto
      then obtain h ps Q l where IH: "subProof (m - 2 ^ j) ?R False = h # ps" "length h = 32" "l \<le> j"
          "Q * 2 ^ l = 2 ^ j * (?q + 1)"
        "\<And>rest. climb ((m - 2 ^ j - 1 + 2 ^ j * (?q + 1)) div 2 ^ t)
             ((length ?R - 1 + 2 ^ j * (?q + 1)) div 2 ^ t) h h (ps @ rest)
          = climb Q Q (MerkleTreeHash (take (m - 2 ^ j) ?R)) (MerkleTreeHash ?R) rest"
        by blast
      have "climb Q Q (MerkleTreeHash (take (m - 2 ^ j) ?R)) (MerkleTreeHash ?R) (MerkleTreeHash ?L # rest)
          = climb (?q div 2) (?q div 2) (MerkleTreeHash (take m d)) (MerkleTreeHash d) rest" for rest
        using climb_edge [OF _ pow2_cancel [OF IH(3,4)] h32(1)] ij(2) False less.prems(4) node
        by (simp add: MTH_node [OF node(1,2)] MTH_take_node [of j])
      with IH show ?thesis unfolding ij(1) fn using False node(3) ij(3)
        by (intro exI [of _ "?q div 2"] exI [of _ "Suc j"]) (auto simp: sub ij(1))
    qed
  qed
qed

section \<open>The log's consistency proofs verify\<close>

lemma odd_part: "0 < m \<Longrightarrow> \<exists>t a. m = 2 ^ t * a \<and> odd (a::nat)"
proof (induction m rule: less_induct)
  case (less m)
  show ?case
  proof (cases "even m")
    case True
    then obtain k where k: "m = 2 * k" by (rule evenE)
    with less.prems have "k < m" "0 < k" by simp_all
    from less.IH [OF this] obtain t a where "k = 2 ^ t * a" "odd a" by blast
    with k show ?thesis by (intro exI [of _ "Suc t"] exI [of _ a]) simp
  next
    case False
    then show ?thesis by (intro exI [of _ 0] exI [of _ m]) simp
  qed
qed

lemma VerifyConsistency_climb:
  assumes "0 < m" "m < n" "m = 2 ^ t * a" "odd a"
    and "ps = (if a = 1 then ps' else h # ps')" "a = 1 \<Longrightarrow> h = r" "length h = 32"
    and "climb (a - 1) ((n - 1) div 2 ^ t) h h ps' = Some (r, r2, [])"
  shows "VerifyConsistency m n r ps = (r2, True)"
proof -
  have "2 ^ t * a - 1 \<le> n - 1" using assms(2,3) by simp
  then have "(2 ^ t * a - 1) div 2 ^ t \<le> (n - 1) div 2 ^ t" by (rule div_le_mono)
  then have le: "a - 1 \<le> (n - 1) div 2 ^ t"
    using pred_div_pow2 [OF odd_pos [OF assms(4)], of t] by simp
  obtain l' h2 p where loops: "climb_both (a - 1) ((n - 1) div 2 ^ t) h h ps' = Some (l', r, h2, p)"
    "climb_last l' h2 p = Some (r2, [])"
    using assms(8) unfolding climb_loops [OF le] by (auto split: option.splits)
  have "strip_odd (m - 1) (n - 1) = (a - 1, (n - 1) div 2 ^ t)"
    unfolding assms(3) by (rule strip_odd_pow2 [OF assms(4)])
  with assms(1,2,5,6,7) loops odd_pos [OF assms(4)] show ?thesis
    by (cases "a = 1") (simp_all add: VerifyConsistency_def)
qed

lemma VerifyConsistency_subProof:
  assumes "0 < m" "m < length d" "hashes32 d"
  shows "VerifyConsistency m (length d) (MerkleTreeHash (take m d)) (subProof m d True)
       = (MerkleTreeHash d, True)"
proof -
  obtain t a where ta: "m = 2 ^ t * a" "odd a" using odd_part [OF assms(1)] by blast
  have len: "length d \<le> 2 ^ length d" using less_exp [of "length d"] by simp
  obtain h ps Q l where walk: "subProof m d False = h # ps" "length h = 32" "Q * 2 ^ l = 0"
    "\<forall>rest. climb ((m - 1) div 2 ^ t) ((length d - 1) div 2 ^ t) h h (ps @ rest)
      = climb Q Q (MerkleTreeHash (take m d)) (MerkleTreeHash d) rest"
    using climb_right_edge [OF len ta assms(2,3), of 0] unfolding mult_0_right add_0_right by blast
  have pow: "(\<exists>t. m = 2 ^ t) \<longleftrightarrow> a = 1"
    using odd_pow2 [OF ta(2), of t] ta(1) by auto
  have "(m - 1) div 2 ^ t = a - 1"
    using pred_div_pow2 [OF odd_pos [OF ta(2)], of t] ta(1) by simp
  with walk(3) walk(4) [rule_format, of "[]"] have walk': "climb (a - 1) ((length d - 1) div 2 ^ t) h h ps
      = Some (MerkleTreeHash (take m d), MerkleTreeHash d, [])"
    by (simp add: climb.simps [of 0 0])
  have flag: "subProof m d True = (if a = 1 then ps else h # ps)" "a = 1 \<Longrightarrow> h = MerkleTreeHash (take m d)"
    using subProof_flag [OF assms] walk(1) unfolding pow by (auto split: if_splits)
  show ?thesis using VerifyConsistency_climb [OF assms(1,2) ta flag walk(2) walk'] .
qed

lemma VerifyConsistency_complete:
  assumes "hashes32 leafHashes" "0 < m" "m \<le> n" "n \<le> length leafHashes"
  shows "VerifyConsistency m n (MerkleTreeHash (take m leafHashes)) (ConsistencyProof m n leafHashes)
       = (MerkleTreeHash (take n leafHashes), True)"
proof (cases "m = n")
  case True
  with assms show ?thesis by (simp add: VerifyConsistency_def ConsistencyProof_def)
next
  case False
  with assms VerifyConsistency_subProof [of m "take n leafHashes"] show ?thesis
    by (simp add: ConsistencyProof_def min.absorb2 min.absorb1)
qed

text \<open>
  C21: Whatever the two sizes, the consistency proof the log generates convinces a client that
  holds only the root of the smaller tree: the verifier accepts it and the second root it
  computes is the root of the larger tree.
\<close>

theorem consistency_proof_complete:
  assumes "hashes32 leafHashes" "0 < m" "m \<le> n" "n \<le> length leafHashes"
  shows "VerifyConsistency m n (MerkleTreeHash (take m leafHashes)) (ConsistencyProof m n leafHashes)
       = (MerkleTreeHash (take n leafHashes), True)"
  using assms by (rule VerifyConsistency_complete)

theorem consistency_proof_complete_witness:
  "hashes32 (replicate 7 zeroHash) \<and>
   VerifyConsistency 3 7 (MerkleTreeHash (take 3 (replicate 7 zeroHash)))
     (ConsistencyProof 3 7 (replicate 7 zeroHash)) = (MerkleTreeHash (replicate 7 zeroHash), True)"
  using consistency_proof_complete [of "replicate 7 zeroHash" 3 7]
  by (simp add: hashes32_def zeroHash_def)

end
