(* ===== verification/Pki.thy ===== *)
theory Pki
  imports GoLib Sha256
begin

text \<open>
  The public key infrastructure of \<^verbatim>\<open>internal/storage/pki\<close>: key pairs and their life
  cycle (\<^verbatim>\<open>types.go\<close>), the key store (\<^verbatim>\<open>keystore.go\<close>) and the authority that generates,
  rotates and retires keys and issues certificates (\<^verbatim>\<open>authority.go\<close>).

  \<^verbatim>\<open>KeyStore\<close> is an interface in the source: here a record of operations on a store
  state, of which \<open>memory_keystore\<close> is the implementation of the source. The clock, the
  entropy of \<^verbatim>\<open>crypto/ed25519\<close>, the identifiers of \<^verbatim>\<open>google/uuid\<close> and the certificate
  functions of \<^verbatim>\<open>crypto/x509\<close> are arguments.
\<close>

section \<open>Keys\<close>

definition PurposeCA :: string where "PurposeCA = ''ca''"
definition PurposeJWTSigning :: string where "PurposeJWTSigning = ''jwt-signing''"
definition PurposeServiceCert :: string where "PurposeServiceCert = ''service-cert''"
definition PurposeEventSigning :: string where "PurposeEventSigning = ''event-signing''"
definition PurposeTransparencyLogSTH :: string where
  "PurposeTransparencyLogSTH = ''transparency-sth''"

lemmas purposes = PurposeCA_def PurposeJWTSigning_def PurposeServiceCert_def
  PurposeEventSigning_def PurposeTransparencyLogSTH_def

definition StatusKeyActive :: string where "StatusKeyActive = ''active''"
definition StatusKeyRotating :: string where "StatusKeyRotating = ''rotating''"
definition StatusKeyRetired :: string where "StatusKeyRetired = ''retired''"

lemmas key_statuses = StatusKeyActive_def StatusKeyRotating_def StatusKeyRetired_def

record KeyPair =
  kp_ID :: string
  kp_Purpose :: string
  kp_Public :: bytes
  kp_Private :: bytes
  kp_Status :: string
  kp_CreatedAt :: gotime
  kp_NotBefore :: gotime
  kp_NotAfter :: gotime

definition IsUsable :: "KeyPair option \<Rightarrow> gotime \<Rightarrow> bool" where
  "IsUsable k at =
     (case k of
        None \<Rightarrow> False
      | Some kp \<Rightarrow>
          if kp_Status kp \<noteq> StatusKeyActive then False
          else if at < kp_NotBefore kp \<or> at > kp_NotAfter kp then False
          else True)"

definition IsVerifyable :: "KeyPair option \<Rightarrow> gotime \<Rightarrow> bool" where
  "IsVerifyable k at =
     (case k of
        None \<Rightarrow> False
      | Some kp \<Rightarrow> if kp_Status kp = StatusKeyRetired then False else \<not> at > kp_NotAfter kp)"

datatype pki_error =
    ErrKeyNotFound
  | ErrNoActiveKey
  | ErrKeyExpired
  | ErrInvalidPurpose
  | ErrAuthorityNoRoot
  | PkiOther string

section \<open>The key store\<close>

record 's KeyStore =
  ks_Get :: "'s \<Rightarrow> string \<Rightarrow> pki_error + KeyPair"
  ks_FindByPurpose :: "'s \<Rightarrow> string \<Rightarrow> pki_error + KeyPair list"
  ks_ActiveByPurpose :: "'s \<Rightarrow> string \<Rightarrow> pki_error + KeyPair"
  ks_Save :: "'s \<Rightarrow> KeyPair option \<Rightarrow> pki_error option \<times> 's"
  ks_UpdateStatus :: "'s \<Rightarrow> string \<Rightarrow> string \<Rightarrow> pki_error option \<times> 's"

text \<open>
  The memory store is a Go map from key ids; the list gives the order an iteration over
  the map may take, and every statement holds for each order.
\<close>

type_synonym MemoryKeyStore = "(string \<times> KeyPair) list"

definition NewMemoryKeyStore :: MemoryKeyStore where
  "NewMemoryKeyStore = []"

definition mem_Get :: "MemoryKeyStore \<Rightarrow> string \<Rightarrow> pki_error + KeyPair" where
  "mem_Get keys i = (case map_of keys i of None \<Rightarrow> Inl ErrKeyNotFound | Some kp \<Rightarrow> Inr kp)"

definition mem_FindByPurpose :: "MemoryKeyStore \<Rightarrow> string \<Rightarrow> pki_error + KeyPair list" where
  "mem_FindByPurpose keys purpose =
     Inr (filter (\<lambda>kp. kp_Purpose kp = purpose) (map snd keys))"

definition mem_ActiveByPurpose :: "MemoryKeyStore \<Rightarrow> string \<Rightarrow> pki_error + KeyPair" where
  "mem_ActiveByPurpose keys purpose =
     (case find (\<lambda>kp. kp_Purpose kp = purpose \<and> kp_Status kp = StatusKeyActive) (map snd keys) of
        Some kp \<Rightarrow> Inr kp
      | None \<Rightarrow> Inl ErrNoActiveKey)"

definition mem_Save :: "MemoryKeyStore \<Rightarrow> KeyPair option \<Rightarrow> pki_error option \<times> MemoryKeyStore" where
  "mem_Save keys kp =
     (case kp of
        None \<Rightarrow> (Some ErrKeyNotFound, keys)
      | Some k \<Rightarrow>
          if kp_ID k = [] then (Some ErrKeyNotFound, keys)
          else (None, AList.update (kp_ID k) k keys))"

definition mem_UpdateStatus ::
  "MemoryKeyStore \<Rightarrow> string \<Rightarrow> string \<Rightarrow> pki_error option \<times> MemoryKeyStore" where
  "mem_UpdateStatus keys i status =
     (case map_of keys i of
        None \<Rightarrow> (Some ErrKeyNotFound, keys)
      | Some kp \<Rightarrow> (None, AList.update i (kp\<lparr>kp_Status := status\<rparr>) keys))"

definition memory_keystore :: "MemoryKeyStore KeyStore" where
  "memory_keystore =
     \<lparr>ks_Get = mem_Get, ks_FindByPurpose = mem_FindByPurpose,
      ks_ActiveByPurpose = mem_ActiveByPurpose, ks_Save = mem_Save,
      ks_UpdateStatus = mem_UpdateStatus\<rparr>"

section \<open>The authority\<close>

text \<open>
  What one generation draws from its surroundings: the clock, a fresh identifier, and
  the key pair or the failure of the entropy source.
\<close>

record keygen =
  gen_now :: gotime
  gen_uuid :: string
  gen_key :: "(bytes \<times> bytes) option"

definition GenerateKeyPair ::
  "'s KeyStore \<Rightarrow> keygen \<Rightarrow> string \<Rightarrow> duration \<Rightarrow> 's \<Rightarrow> (pki_error + KeyPair) \<times> 's" where
  "GenerateKeyPair K g purpose ttl s =
     (if purpose = [] then (Inl ErrInvalidPurpose, s)
      else
        (case gen_key g of
           None \<Rightarrow> (Inl (PkiOther ''pki: generate ed25519''), s)
         | Some (pub, priv) \<Rightarrow>
             (let now = gen_now g;
                  kp = \<lparr>kp_ID = gen_uuid g, kp_Purpose = purpose, kp_Public = pub,
                        kp_Private = priv, kp_Status = StatusKeyActive, kp_CreatedAt = now,
                        kp_NotBefore = now, kp_NotAfter = now + ttl\<rparr>
              in (case ks_Save K s (Some kp) of
                    (Some err, s') \<Rightarrow> (Inl err, s')
                  | (None, s') \<Rightarrow> (Inr kp, s')))))"

definition ActiveKey :: "'s KeyStore \<Rightarrow> 's \<Rightarrow> string \<Rightarrow> pki_error + KeyPair" where
  "ActiveKey K s purpose = ks_ActiveByPurpose K s purpose"

definition GetKey :: "'s KeyStore \<Rightarrow> 's \<Rightarrow> string \<Rightarrow> pki_error + KeyPair" where
  "GetKey K s i = ks_Get K s i"

definition KeysForPurpose :: "'s KeyStore \<Rightarrow> 's \<Rightarrow> string \<Rightarrow> pki_error + KeyPair list" where
  "KeysForPurpose K s purpose = ks_FindByPurpose K s purpose"

definition Rotate ::
  "'s KeyStore \<Rightarrow> keygen \<Rightarrow> string \<Rightarrow> duration \<Rightarrow> 's \<Rightarrow> (pki_error + KeyPair) \<times> 's" where
  "Rotate K g purpose newTTL s =
     (case ks_ActiveByPurpose K s purpose of
        Inl err \<Rightarrow>
          if err \<noteq> ErrNoActiveKey then (Inl err, s) else GenerateKeyPair K g purpose newTTL s
      | Inr current \<Rightarrow>
          (case ks_UpdateStatus K s (kp_ID current) StatusKeyRotating of
             (Some err, s') \<Rightarrow> (Inl err, s')
           | (None, s') \<Rightarrow> GenerateKeyPair K g purpose newTTL s'))"

definition Retire :: "'s KeyStore \<Rightarrow> string \<Rightarrow> 's \<Rightarrow> pki_error option \<times> 's" where
  "Retire K i s = ks_UpdateStatus K s i StatusKeyRetired"

definition EnsureRootCA ::
  "'s KeyStore \<Rightarrow> keygen \<Rightarrow> duration \<Rightarrow> 's \<Rightarrow> (pki_error + KeyPair) \<times> 's" where
  "EnsureRootCA K g ttl s =
     (case ks_ActiveByPurpose K s PurposeCA of
        Inr kp \<Rightarrow> (Inr kp, s)
      | Inl err \<Rightarrow>
          if err \<noteq> ErrNoActiveKey then (Inl err, s) else GenerateKeyPair K g PurposeCA ttl s)"

text \<open>The fingerprint: the digest in hexadecimal, two digits between colons.\<close>

fun hex_pairs :: "string \<Rightarrow> string list" where
  "hex_pairs (a # b # rest) = [a, b] # hex_pairs rest"
| "hex_pairs _ = []"

definition Fingerprint :: "bytes \<Rightarrow> string" where
  "Fingerprint pub = strings_Join (hex_pairs (hex_EncodeToString (sha256 pub))) '':''"

definition RootFingerprint :: "'s KeyStore \<Rightarrow> 's \<Rightarrow> pki_error + string" where
  "RootFingerprint K s =
     (case ks_ActiveByPurpose K s PurposeCA of
        Inl err \<Rightarrow> Inl (if err = ErrNoActiveKey then ErrAuthorityNoRoot else err)
      | Inr kp \<Rightarrow> Inr (Fingerprint (kp_Public kp)))"

section \<open>Certificates\<close>

datatype key_usage = DigitalSignature | CertSign | CRLSign
datatype ext_key_usage = ClientAuth | ServerAuth

record x509_template =
  xt_Serial :: int
  xt_CommonName :: string
  xt_Organization :: "string list"
  xt_DNSNames :: "string list"
  xt_NotBefore :: gotime
  xt_NotAfter :: gotime
  xt_KeyUsage :: "key_usage list"
  xt_ExtKeyUsage :: "ext_key_usage list"
  xt_IsCA :: bool
  xt_MaxPathLenZero :: bool

text \<open>
  What issuing draws from its surroundings: the clock, two random serials, and the
  functions of \<^verbatim>\<open>crypto/x509\<close>; \<open>crt\<close> is the type of parsed certificates.
\<close>

record 'crt certenv =
  ce_now :: gotime
  ce_serial :: "int option"
  ce_root_serial :: "int option"
  ce_Create :: "x509_template \<Rightarrow> x509_template \<Rightarrow> bytes \<Rightarrow> bytes \<Rightarrow> bytes option"
  ce_Parse :: "bytes \<Rightarrow> 'crt option"

record 'crt IssuedCert =
  ic_Subject :: string
  ic_Certificate :: 'crt
  ic_DER :: bytes
  ic_KeyPair :: KeyPair
  ic_RootKeyID :: string

definition buildRootCertTemplate :: "int \<Rightarrow> KeyPair \<Rightarrow> x509_template" where
  "buildRootCertTemplate serial root =
     \<lparr>xt_Serial = serial, xt_CommonName = ''OWASAKA Root CA'', xt_Organization = [''voidnxlabs''],
      xt_DNSNames = [], xt_NotBefore = kp_NotBefore root, xt_NotAfter = kp_NotAfter root,
      xt_KeyUsage = [CertSign, CRLSign], xt_ExtKeyUsage = [], xt_IsCA = True,
      xt_MaxPathLenZero = True\<rparr>"

definition leaf_template :: "int \<Rightarrow> string \<Rightarrow> gotime \<Rightarrow> duration \<Rightarrow> x509_template" where
  "leaf_template serial subject now ttl =
     \<lparr>xt_Serial = serial, xt_CommonName = subject, xt_Organization = [''voidnxlabs''],
      xt_DNSNames = [subject], xt_NotBefore = now, xt_NotAfter = now + ttl,
      xt_KeyUsage = [DigitalSignature], xt_ExtKeyUsage = [ClientAuth, ServerAuth],
      xt_IsCA = False, xt_MaxPathLenZero = False\<rparr>"

definition IssueServiceCert ::
  "'s KeyStore \<Rightarrow> keygen \<Rightarrow> 'crt certenv \<Rightarrow> string \<Rightarrow> duration \<Rightarrow> 's \<Rightarrow>
   (pki_error + 'crt IssuedCert) \<times> 's" where
  "IssueServiceCert K g ce subject ttl s =
     (if subject = [] then (Inl (PkiOther ''pki: subject required for service cert''), s)
      else
        (case ks_ActiveByPurpose K s PurposeCA of
           Inl err \<Rightarrow> (Inl (if err = ErrNoActiveKey then ErrAuthorityNoRoot else err), s)
         | Inr root \<Rightarrow>
             (case GenerateKeyPair K g PurposeServiceCert ttl s of
                (Inl err, s') \<Rightarrow> (Inl err, s')
              | (Inr leafKP, s') \<Rightarrow>
                  (case (ce_serial ce, ce_root_serial ce) of
                     (Some serial, Some rserial) \<Rightarrow>
                       (case ce_Create ce (leaf_template serial subject (ce_now ce) ttl)
                               (buildRootCertTemplate rserial root)
                               (kp_Public leafKP) (kp_Private root) of
                          None \<Rightarrow> (Inl (PkiOther ''pki: sign leaf cert''), s')
                        | Some der \<Rightarrow>
                            (case ce_Parse ce der of
                               None \<Rightarrow> (Inl (PkiOther ''pki: parse leaf cert''), s')
                             | Some leaf \<Rightarrow>
                                 (Inr \<lparr>ic_Subject = subject, ic_Certificate = leaf, ic_DER = der,
                                       ic_KeyPair = leafKP, ic_RootKeyID = kp_ID root\<rparr>, s')))
                   | _ \<Rightarrow> (Inl (PkiOther ''pki: random serial''), s')))))"

section \<open>Life of a key\<close>

text \<open>
  What the operations do to the store, call by call: the store is locked for one call
  only, so operations of different goroutines interleave between their calls. A step saves a
  generated key of any purpose, with an identifier the store does not have yet, or sets the
  status of a key, present or not, to rotating or to retired.
\<close>

definition fresh_gen :: "keygen \<Rightarrow> MemoryKeyStore \<Rightarrow> bool" where
  "fresh_gen g keys \<longleftrightarrow> gen_uuid g \<noteq> [] \<and> map_of keys (gen_uuid g) = None"

inductive pki_step :: "MemoryKeyStore \<Rightarrow> MemoryKeyStore \<Rightarrow> bool" where
  generate: "fresh_gen g s \<Longrightarrow> pki_step s (snd (GenerateKeyPair memory_keystore g p ttl s))"
| demote: "pki_step s (snd (ks_UpdateStatus memory_keystore s i StatusKeyRotating))"
| retire: "pki_step s (snd (Retire memory_keystore i s))"

definition active_for :: "string \<Rightarrow> KeyPair \<Rightarrow> bool" where
  "active_for p kp \<longleftrightarrow> kp_Purpose kp = p \<and> kp_Status kp = StatusKeyActive"

text \<open>At most one key of the purpose is active.\<close>

definition sole_active :: "string \<Rightarrow> (string \<rightharpoonup> KeyPair) \<Rightarrow> bool" where
  "sole_active p m \<longleftrightarrow>
     (\<forall>i j a b. m i = Some a \<and> m j = Some b \<and> active_for p a \<and> active_for p b \<longrightarrow> i = j)"

text \<open>Keys stay, only their status changes, and a key that is not active does not become active.\<close>

definition evolves :: "(string \<rightharpoonup> KeyPair) \<Rightarrow> (string \<rightharpoonup> KeyPair) \<Rightarrow> bool" where
  "evolves m m' \<longleftrightarrow>
     (\<forall>i kp. m i = Some kp \<longrightarrow>
        (\<exists>st. m' i = Some (kp\<lparr>kp_Status := st\<rparr>) \<and>
              (kp_Status kp \<noteq> StatusKeyActive \<longrightarrow> st \<noteq> StatusKeyActive)))"

lemma evolves_refl [intro]: "evolves m m"
  unfolding evolves_def by (metis KeyPair.surjective KeyPair.update_convs(5))

lemma evolves_trans: "evolves a b \<Longrightarrow> evolves b c \<Longrightarrow> evolves a c"
  unfolding evolves_def by (fastforce simp: evolves_def)

lemma evolves_fresh: "m i = None \<Longrightarrow> evolves m (m(i \<mapsto> k))"
  using evolves_refl [of m] unfolding evolves_def by (metis fun_upd_other option.distinct(1))

lemma evolves_status:
  "m i = Some kp \<Longrightarrow> st \<noteq> StatusKeyActive \<Longrightarrow>
   evolves m (m(i \<mapsto> kp\<lparr>kp_Status := st\<rparr>))"
  using evolves_refl [of m] unfolding evolves_def by (metis fun_upd_apply option.inject)

lemma sole_activeI:
  "(\<And>i j a b. m i = Some a \<Longrightarrow> m j = Some b \<Longrightarrow> active_for p a \<Longrightarrow> active_for p b \<Longrightarrow> i = j) \<Longrightarrow>
   sole_active p m"
  by (auto simp: sole_active_def)

lemma sole_activeD:
  "sole_active p m \<Longrightarrow> m i = Some a \<Longrightarrow> m j = Some b \<Longrightarrow> active_for p a \<Longrightarrow> active_for p b \<Longrightarrow> i = j"
  by (auto simp: sole_active_def)

lemma sole_fresh: "\<forall>a \<in> ran m. \<not> active_for p a \<Longrightarrow> sole_active p (m(i \<mapsto> k))"
  by (rule sole_activeI) (auto split: if_splits dest: ranI)

lemma sole_inactive: "sole_active p m \<Longrightarrow> \<not> active_for p k \<Longrightarrow> sole_active p (m(i \<mapsto> k))"
  by (rule sole_activeI) (auto split: if_splits dest: sole_activeD)

lemma active_for_status [simp]:
  "active_for p (kp\<lparr>kp_Status := st\<rparr>) \<longleftrightarrow> kp_Purpose kp = p \<and> st = StatusKeyActive"
  by (simp add: active_for_def)

lemma none_active_after:
  assumes "sole_active p m" "m i = Some kp" "active_for p kp" "st \<noteq> StatusKeyActive"
  shows "\<forall>a \<in> ran (m(i \<mapsto> kp\<lparr>kp_Status := st\<rparr>)). \<not> active_for p a"
  using sole_activeD [OF assms(1) _ assms(2)] assms(3,4) by (auto simp: ran_def)

section \<open>The interface of a key store, and the authority over it\<close>

locale key_store =
  fixes K :: "'s KeyStore"
    and keys_of :: "'s \<Rightarrow> (string \<rightharpoonup> KeyPair)"
    and inv :: "'s \<Rightarrow> bool"
  assumes ids: "inv s \<Longrightarrow> keys_of s i = Some kp \<Longrightarrow> kp_ID kp = i"
    and get: "inv s \<Longrightarrow>
      ks_Get K s i = (case keys_of s i of None \<Rightarrow> Inl ErrKeyNotFound | Some kp \<Rightarrow> Inr kp)"
    and active_found: "inv s \<Longrightarrow> ks_ActiveByPurpose K s p = Inr kp \<Longrightarrow>
      keys_of s (kp_ID kp) = Some kp \<and> active_for p kp"
    and active_missing: "inv s \<Longrightarrow> ks_ActiveByPurpose K s p = Inl e \<Longrightarrow>
      e = ErrNoActiveKey \<and> (\<forall>a \<in> ran (keys_of s). \<not> active_for p a)"
    and save: "inv s \<Longrightarrow> kp_ID k \<noteq> [] \<Longrightarrow>
      \<exists>s'. ks_Save K s (Some k) = (None, s') \<and> inv s' \<and> keys_of s' = (keys_of s)(kp_ID k \<mapsto> k)"
    and update_known: "inv s \<Longrightarrow> keys_of s i = Some kp \<Longrightarrow>
      \<exists>s'. ks_UpdateStatus K s i st = (None, s') \<and> inv s' \<and>
           keys_of s' = (keys_of s)(i \<mapsto> kp\<lparr>kp_Status := st\<rparr>)"
    and update_unknown: "inv s \<Longrightarrow> keys_of s i = None \<Longrightarrow>
      ks_UpdateStatus K s i st = (Some ErrKeyNotFound, s)"
begin

definition fresh :: "keygen \<Rightarrow> 's \<Rightarrow> bool" where
  "fresh g s \<longleftrightarrow> gen_uuid g \<noteq> [] \<and> keys_of s (gen_uuid g) = None"

lemma generate_cases:
  assumes "inv s" "fresh g s"
  shows "(p = [] \<or> gen_key g = None) \<and> (\<exists>e. GenerateKeyPair K g p ttl s = (Inl e, s)) \<or>
    (\<exists>k s'. GenerateKeyPair K g p ttl s = (Inr k, s') \<and> inv s' \<and> kp_ID k = gen_uuid g \<and>
       active_for p k \<and> keys_of s' = (keys_of s)(gen_uuid g \<mapsto> k))"
proof (cases "p = [] \<or> gen_key g = None")
  case True
  then show ?thesis by (auto simp: GenerateKeyPair_def)
next
  case False
  then obtain pub priv where key: "gen_key g = Some (pub, priv)" "p \<noteq> []" by auto
  let ?k = "\<lparr>kp_ID = gen_uuid g, kp_Purpose = p, kp_Public = pub, kp_Private = priv,
    kp_Status = StatusKeyActive, kp_CreatedAt = gen_now g, kp_NotBefore = gen_now g,
    kp_NotAfter = gen_now g + ttl\<rparr>"
  obtain s' where "ks_Save K s (Some ?k) = (None, s')" "inv s'"
    "keys_of s' = (keys_of s)(gen_uuid g \<mapsto> ?k)"
    using save [OF assms(1), of ?k] assms(2) by (auto simp: fresh_def)
  with key show ?thesis
    by (auto simp: GenerateKeyPair_def Let_def active_for_def)
qed

lemma generate_success:
  assumes "inv s" "fresh g s" "p \<noteq> []" "gen_key g \<noteq> None"
  obtains k s' where "GenerateKeyPair K g p ttl s = (Inr k, s')" "inv s'" "kp_ID k = gen_uuid g"
    "active_for p k" "keys_of s' = (keys_of s)(gen_uuid g \<mapsto> k)"
  using generate_cases [OF assms(1,2), of p ttl] assms(3,4) by auto

text \<open>What every operation keeps.\<close>

definition keeps :: "'s \<Rightarrow> 's \<Rightarrow> bool" where
  "keeps s s' \<longleftrightarrow> inv s' \<and> evolves (keys_of s) (keys_of s')"

lemma keeps_refl: "inv s \<Longrightarrow> keeps s s"
  by (auto simp: keeps_def)

lemma keeps_trans: "keeps a b \<Longrightarrow> keeps b c \<Longrightarrow> keeps a c"
  unfolding keeps_def using evolves_trans by blast

lemma generate_keeps:
  assumes "inv s" "fresh g s"
  shows "keeps s (snd (GenerateKeyPair K g p ttl s))"
  using generate_cases [OF assms, of p ttl] assms keeps_refl
  by (auto simp: keeps_def fresh_def evolves_fresh)

lemma update_keeps:
  assumes "inv s" "st \<noteq> StatusKeyActive"
  shows "keeps s (snd (ks_UpdateStatus K s i st))"
proof (cases "keys_of s i")
  case None
  with assms(1) show ?thesis by (simp add: update_unknown keeps_refl)
next
  case (Some kp)
  with update_known [OF assms(1) Some, of st] assms show ?thesis
    by (auto simp: keeps_def evolves_status)
qed

lemma active_iff:
  assumes "inv s"
  shows "(\<exists>kp. ks_ActiveByPurpose K s p = Inr kp) \<longleftrightarrow> (\<exists>i kp. keys_of s i = Some kp \<and> active_for p kp)"
  using active_found [OF assms] active_missing [OF assms]
  by (cases "ks_ActiveByPurpose K s p") (fastforce simp: ran_def)+

lemma rotate_current:
  assumes "inv s" "fresh g s" "ks_ActiveByPurpose K s p = Inr kp"
  obtains s' where "ks_UpdateStatus K s (kp_ID kp) StatusKeyRotating = (None, s')" "inv s'" "fresh g s'"
    "Rotate K g p ttl s = GenerateKeyPair K g p ttl s'"
    "keys_of s' = (keys_of s)(kp_ID kp \<mapsto> kp\<lparr>kp_Status := StatusKeyRotating\<rparr>)"
proof -
  have kp: "keys_of s (kp_ID kp) = Some kp" using active_found [OF assms(1,3)] by simp
  obtain s' where "ks_UpdateStatus K s (kp_ID kp) StatusKeyRotating = (None, s')" "inv s'"
    "keys_of s' = (keys_of s)(kp_ID kp \<mapsto> kp\<lparr>kp_Status := StatusKeyRotating\<rparr>)"
    using update_known [OF assms(1) kp] by blast
  moreover from this assms(2) kp have "fresh g s'" by (auto simp: fresh_def)
  ultimately show ?thesis using assms(3) that by (simp add: Rotate_def)
qed

text \<open>Rotation, in full.\<close>

lemma rotate_spec:
  assumes "inv s" "fresh g s" "p \<noteq> []" "gen_key g \<noteq> None" "sole_active p (keys_of s)"
  shows "\<exists>k s'. Rotate K g p ttl s = (Inr k, s') \<and> inv s' \<and> active_for p k \<and> kp_ID k = gen_uuid g \<and>
    ks_ActiveByPurpose K s' p = Inr k \<and> sole_active p (keys_of s') \<and>
    (\<forall>i kp. keys_of s i = Some kp \<longrightarrow>
       keys_of s' i = Some (if active_for p kp then kp\<lparr>kp_Status := StatusKeyRotating\<rparr> else kp))"
proof -
  have "\<exists>k s'. Rotate K g p ttl s = (Inr k, s') \<and> inv s' \<and> active_for p k \<and> kp_ID k = gen_uuid g \<and>
    sole_active p (keys_of s') \<and> keys_of s' (gen_uuid g) = Some k \<and>
    (\<forall>i kp. keys_of s i = Some kp \<longrightarrow>
       keys_of s' i = Some (if active_for p kp then kp\<lparr>kp_Status := StatusKeyRotating\<rparr> else kp))"
  proof (cases "ks_ActiveByPurpose K s p")
    case (Inl e)
    note none = active_missing [OF assms(1) Inl]
    obtain k s' where "GenerateKeyPair K g p ttl s = (Inr k, s')" "inv s'" "kp_ID k = gen_uuid g"
      "active_for p k" "keys_of s' = (keys_of s)(gen_uuid g \<mapsto> k)"
      using generate_success [OF assms(1-4)] by blast
    with none Inl assms(2) show ?thesis
      by (auto simp: Rotate_def fresh_def intro: sole_fresh ranI)
  next
    case (Inr kp)
    obtain s1 where s1: "inv s1" "fresh g s1" "Rotate K g p ttl s = GenerateKeyPair K g p ttl s1"
      "keys_of s1 = (keys_of s)(kp_ID kp \<mapsto> kp\<lparr>kp_Status := StatusKeyRotating\<rparr>)"
      using rotate_current [OF assms(1,2) Inr] by blast
    have kp: "keys_of s (kp_ID kp) = Some kp" "active_for p kp"
      using active_found [OF assms(1) Inr] by simp_all
    have none: "\<forall>a \<in> ran (keys_of s1). \<not> active_for p a"
      unfolding s1(4) by (rule none_active_after [OF assms(5) kp]) (simp add: key_statuses)
    obtain k s' where k: "GenerateKeyPair K g p ttl s1 = (Inr k, s')" "inv s'" "kp_ID k = gen_uuid g"
      "active_for p k" "keys_of s' = (keys_of s1)(gen_uuid g \<mapsto> k)"
      using generate_success [OF s1(1,2) assms(3,4)] by blast
    have "keys_of s' i = Some (if active_for p a then a\<lparr>kp_Status := StatusKeyRotating\<rparr> else a)"
      if "keys_of s i = Some a" for i a
    proof (cases "active_for p a")
      case True
      with that kp assms(5) have "i = kp_ID kp" by (auto simp: sole_active_def)
      with that kp k(5) s1(4) assms(2) True show ?thesis by (auto simp: fresh_def)
    next
      case False
      with that kp have "i \<noteq> kp_ID kp" by auto
      with that k(5) s1(4) assms(2) False show ?thesis by (auto simp: fresh_def)
    qed
    with k s1 none show ?thesis
      by (auto simp: fresh_def intro: sole_fresh)
  qed
  then obtain k s' where r: "Rotate K g p ttl s = (Inr k, s')" "inv s'" "active_for p k"
    "kp_ID k = gen_uuid g" "sole_active p (keys_of s')" "keys_of s' (gen_uuid g) = Some k"
    "\<forall>i kp. keys_of s i = Some kp \<longrightarrow>
       keys_of s' i = Some (if active_for p kp then kp\<lparr>kp_Status := StatusKeyRotating\<rparr> else kp)"
    by blast
  have "ks_ActiveByPurpose K s' p = Inr k"
  proof (cases "ks_ActiveByPurpose K s' p")
    case (Inl e)
    with active_missing [OF r(2) Inl] r(3,6) show ?thesis by (auto simp: ran_def)
  next
    case (Inr a)
    with active_found [OF r(2) Inr] r(3,5,6) show ?thesis by (fastforce simp: sole_active_def)
  qed
  with r show ?thesis by blast
qed

end

section \<open>The memory store provides the interface\<close>

definition mem_inv :: "MemoryKeyStore \<Rightarrow> bool" where
  "mem_inv keys \<longleftrightarrow> distinct (map fst keys) \<and> (\<forall>(i, kp) \<in> set keys. kp_ID kp = i)"

lemma mem_inv_update: "mem_inv keys \<Longrightarrow> kp_ID k = i \<Longrightarrow> mem_inv (AList.update i k keys)"
proof -
  assume inv: "mem_inv keys" "kp_ID k = i"
  have "set (AList.update i k keys) \<subseteq> insert (i, k) (set keys)"
    by (induction keys) auto
  with inv show ?thesis by (auto simp: mem_inv_def distinct_update)
qed

lemma find_active_Some:
  assumes "find P (map snd keys) = Some kp" "mem_inv keys"
  shows "map_of keys (kp_ID kp) = Some kp \<and> P kp"
proof -
  from assms(1) have "kp \<in> set (map snd keys)" "P kp"
    by (auto simp: find_Some_iff)
  with assms(2) show ?thesis by (auto simp: mem_inv_def)
qed

lemma find_active_None:
  "find P (map snd keys) = None \<Longrightarrow> \<forall>a \<in> ran (map_of keys). \<not> P a"
  by (force simp: find_None_iff ran_def dest: map_of_SomeD)

interpretation mks: key_store memory_keystore map_of mem_inv
proof (unfold_locales, goal_cases)
  case (1 s i kp)
  then show ?case by (auto simp: mem_inv_def dest: map_of_SomeD)
next
  case (2 s i)
  then show ?case by (simp add: memory_keystore_def mem_Get_def)
next
  case (3 s p kp)
  then show ?case
    by (auto simp: memory_keystore_def mem_ActiveByPurpose_def active_for_def
        dest: find_active_Some split: option.splits)
next
  case (4 s p e)
  then show ?case
    by (auto simp: memory_keystore_def mem_ActiveByPurpose_def active_for_def
        dest: find_active_None split: option.splits)
next
  case (5 s k)
  then show ?case
    by (simp add: memory_keystore_def mem_Save_def mem_inv_update update_conv')
next
  case (6 s i kp st)
  then have "kp_ID kp = i" by (auto simp: mem_inv_def dest: map_of_SomeD)
  with 6 show ?case
    by (simp add: memory_keystore_def mem_UpdateStatus_def mem_inv_update update_conv')
next
  case (7 s i st)
  then show ?case by (simp add: memory_keystore_def mem_UpdateStatus_def)
qed

lemma fresh_gen_fresh: "fresh_gen g s \<longleftrightarrow> mks.fresh g s"
  by (simp add: fresh_gen_def mks.fresh_def)

lemma pki_step_keeps: "pki_step s s' \<Longrightarrow> mem_inv s \<Longrightarrow> mks.keeps s s'"
  by (erule pki_step.cases) (auto simp: fresh_gen_fresh Retire_def key_statuses mks.generate_keeps mks.update_keeps)

lemma pki_steps_keep:
  assumes "pki_step\<^sup>*\<^sup>* s s'" "mem_inv s"
  shows "mks.keeps s s'"
  using assms
proof (induction rule: rtranclp_induct)
  case (step s' s'')
  then show ?case using mks.keeps_trans pki_step_keeps by (metis mks.keeps_def)
qed (simp add: mks.keeps_refl)

lemma reachable_inv: "pki_step\<^sup>*\<^sup>* NewMemoryKeyStore s \<Longrightarrow> mem_inv s"
  using pki_steps_keep [of NewMemoryKeyStore s] by (simp add: mks.keeps_def NewMemoryKeyStore_def mem_inv_def)

text \<open>Run without interruption, the operations of the authority are such steps.\<close>

lemma fresh_gen_update: "fresh_gen g s \<Longrightarrow> fresh_gen g (snd (ks_UpdateStatus memory_keystore s i st))"
  by (auto simp: fresh_gen_def memory_keystore_def mem_UpdateStatus_def update_conv' split: option.splits)

lemma Rotate_steps:
  assumes "fresh_gen g s"
  shows "pki_step\<^sup>*\<^sup>* s (snd (Rotate memory_keystore g p ttl s))"
proof (cases "ks_ActiveByPurpose memory_keystore s p")
  case (Inl e)
  then show ?thesis using assms by (auto simp: Rotate_def intro: pki_step.generate)
next
  case (Inr kp)
  obtain r s1 where u: "ks_UpdateStatus memory_keystore s (kp_ID kp) StatusKeyRotating = (r, s1)" by fastforce
  then have "pki_step s s1" "fresh_gen g s1"
    using pki_step.demote [of s "kp_ID kp"] fresh_gen_update [OF assms, of "kp_ID kp" StatusKeyRotating] by simp_all
  then show ?thesis
    using Inr u pki_step.generate [of g s1 p ttl]
    by (cases r) (auto simp: Rotate_def intro: converse_rtranclp_into_rtranclp)
qed

lemma EnsureRootCA_steps: "fresh_gen g s \<Longrightarrow> pki_step\<^sup>*\<^sup>* s (snd (EnsureRootCA memory_keystore g ttl s))"
  by (auto simp: EnsureRootCA_def intro: pki_step.generate split: sum.split)

lemma IssueServiceCert_steps:
  assumes "fresh_gen g s"
  shows "pki_step\<^sup>*\<^sup>* s (snd (IssueServiceCert memory_keystore g ce subject ttl s))"
proof -
  have "snd (IssueServiceCert memory_keystore g ce subject ttl s) \<in>
    {s, snd (GenerateKeyPair memory_keystore g PurposeServiceCert ttl s)}"
    by (auto simp: IssueServiceCert_def split: sum.splits prod.splits option.splits)
  then show ?thesis using pki_step.generate [OF assms, of PurposeServiceCert ttl] by auto
qed

section \<open>Fingerprints\<close>

lemma hex_pairs_encode: "hex_pairs (hex_EncodeToString bs) = map hex_byte bs"
  by (induction bs) (simp_all add: hex_EncodeToString_def hex_byte_def)

lemma length_Join_bytes: "length (strings_Join (map hex_byte bs) '':'') = 3 * length bs - 1"
proof (induction bs)
  case (Cons b bs)
  then show ?case by (cases bs) auto
qed simp

lemma Join_bytes_inj:
  "length as = length bs \<Longrightarrow>
   strings_Join (map hex_byte as) '':'' = strings_Join (map hex_byte bs) '':'' \<longleftrightarrow> as = bs"
proof (induction as bs rule: list_induct2)
  case (Cons a as b bs)
  then show ?case by (cases as; cases bs) (auto simp: append_eq_append_conv hex_byte_inj)
qed simp

section \<open>Properties\<close>

definition sample_gen :: "string \<Rightarrow> keygen" where
  "sample_gen i = \<lparr>gen_now = 100, gen_uuid = i, gen_key = Some ([1], [2])\<rparr>"

definition sample_keys :: MemoryKeyStore where
  "sample_keys = snd (GenerateKeyPair memory_keystore (sample_gen ''k1'') PurposeJWTSigning 50 [])"

text \<open>
  C23: the life of a key. However generations (at start-up, for certificates, in a rotation),
  rotations and retirements interleave, call by call, from the empty store on: no key
  disappears or changes in anything but its status, and one that is no longer active never
  signs again; a purpose has a signing key exactly when one of its keys is active, and
  the store answers with such a key. A rotation that runs without interruption while at most
  one key of the purpose is active makes a new key the only active one, which is the one
  that signs from then on, and moves the previous one to rotating.
\<close>

theorem key_lifecycle:
  assumes "pki_step\<^sup>*\<^sup>* NewMemoryKeyStore s" "pki_step\<^sup>*\<^sup>* s s'"
  shows "(\<forall>i kp. map_of s i = Some kp \<longrightarrow>
       (\<exists>st. GetKey memory_keystore s' i = Inr (kp\<lparr>kp_Status := st\<rparr>) \<and>
          (kp_Status kp \<noteq> StatusKeyActive \<longrightarrow> st \<noteq> StatusKeyActive))) \<and>
    (\<forall>p. (\<exists>kp. ActiveKey memory_keystore s' p = Inr kp) \<longleftrightarrow> (\<exists>i kp. map_of s' i = Some kp \<and> active_for p kp)) \<and>
    (\<forall>p kp. ActiveKey memory_keystore s' p = Inr kp \<longrightarrow> map_of s' (kp_ID kp) = Some kp \<and> active_for p kp) \<and>
    (\<forall>p g ttl. fresh_gen g s' \<and> p \<noteq> [] \<and> gen_key g \<noteq> None \<and> sole_active p (map_of s') \<longrightarrow>
       (\<exists>k s''. Rotate memory_keystore g p ttl s' = (Inr k, s'') \<and> pki_step\<^sup>*\<^sup>* s' s'' \<and>
          ActiveKey memory_keystore s'' p = Inr k \<and> kp_ID k = gen_uuid g \<and> sole_active p (map_of s'') \<and>
          (\<forall>i kp. map_of s' i = Some kp \<longrightarrow>
             GetKey memory_keystore s'' i = Inr (if active_for p kp then kp\<lparr>kp_Status := StatusKeyRotating\<rparr> else kp))))"
proof -
  have inv: "mem_inv s" "mem_inv s'"
    using reachable_inv [OF assms(1)] reachable_inv [OF rtranclp_trans [OF assms]] by simp_all
  have "evolves (map_of s) (map_of s')"
    using pki_steps_keep [OF assms(2) inv(1)] by (simp add: mks.keeps_def)
  then have "\<forall>i kp. map_of s i = Some kp \<longrightarrow>
       (\<exists>st. GetKey memory_keystore s' i = Inr (kp\<lparr>kp_Status := st\<rparr>) \<and>
          (kp_Status kp \<noteq> StatusKeyActive \<longrightarrow> st \<noteq> StatusKeyActive))"
    unfolding evolves_def GetKey_def mks.get [OF inv(2)] by fastforce
  moreover have "\<exists>k s''. Rotate memory_keystore g p ttl s' = (Inr k, s'') \<and> pki_step\<^sup>*\<^sup>* s' s'' \<and>
          ActiveKey memory_keystore s'' p = Inr k \<and> kp_ID k = gen_uuid g \<and> sole_active p (map_of s'') \<and>
          (\<forall>i kp. map_of s' i = Some kp \<longrightarrow>
             GetKey memory_keystore s'' i = Inr (if active_for p kp then kp\<lparr>kp_Status := StatusKeyRotating\<rparr> else kp))"
    if "fresh_gen g s' \<and> p \<noteq> [] \<and> gen_key g \<noteq> None \<and> sole_active p (map_of s')" for p g ttl
    using mks.rotate_spec [OF inv(2), of g p ttl] Rotate_steps [of g s' p ttl] that
    by (fastforce simp: fresh_gen_fresh ActiveKey_def GetKey_def mks.get)
  ultimately show ?thesis
    using mks.active_iff [OF inv(2)] mks.active_found [OF inv(2)] unfolding ActiveKey_def by blast
qed

text \<open>A store with one key; it is rotated, and the successor signs.\<close>

theorem key_lifecycle_witness:
  "\<exists>k s''. Rotate memory_keystore (sample_gen ''k2'') PurposeJWTSigning 60 sample_keys = (Inr k, s'') \<and>
     ActiveKey memory_keystore s'' PurposeJWTSigning = Inr k \<and> kp_ID k = ''k2''"
proof -
  have reach: "pki_step\<^sup>*\<^sup>* NewMemoryKeyStore sample_keys"
    using pki_step.generate [of "sample_gen ''k1''" "[]" PurposeJWTSigning 50]
    by (simp add: sample_keys_def fresh_gen_def sample_gen_def NewMemoryKeyStore_def)
  have s: "fresh_gen (sample_gen ''k2'') sample_keys" "sole_active PurposeJWTSigning (map_of sample_keys)"
    "PurposeJWTSigning \<noteq> []" "gen_key (sample_gen ''k2'') \<noteq> None" "gen_uuid (sample_gen ''k2'') = ''k2''"
    by (simp_all add: sample_keys_def GenerateKeyPair_def memory_keystore_def mem_Save_def Let_def
        fresh_gen_def sample_gen_def sole_active_def purposes)
  show ?thesis
    using key_lifecycle [OF reach rtranclp.rtrancl_refl] s by fastforce
qed

text \<open>
  Rotation looks up the active key and changes its status in two calls. A retirement between
  them is undone: the key is rotating again, and may verify.
\<close>

lemma stale_rotation_unretires:
  assumes "mem_inv s" "ks_ActiveByPurpose memory_keystore s p = Inr kp"
  shows "map_of (snd (ks_UpdateStatus memory_keystore (snd (Retire memory_keystore (kp_ID kp) s)) (kp_ID kp) StatusKeyRotating)) (kp_ID kp)
    = Some (kp\<lparr>kp_Status := StatusKeyRotating\<rparr>)"
  using mks.active_found [OF assms]
  by (simp add: Retire_def memory_keystore_def mem_UpdateStatus_def update_conv')

text \<open>
  A fingerprint is 95 characters long and determines the digest of the key: two keys have
  the same fingerprint exactly when they have the same SHA-256 value.
\<close>

theorem fingerprint_faithful:
  "length (Fingerprint pub) = 95 \<and> (Fingerprint pub = Fingerprint pub' \<longleftrightarrow> sha256 pub = sha256 pub')"
  by (simp add: Fingerprint_def hex_pairs_encode length_Join_bytes Join_bytes_inj)

end
