(* ===== verification/Transparency_Log.thy ===== *)
theory Transparency_Log
  imports Transparency_Consistency Bolt Pki
begin

text \<open>
  The transparency log of \<^verbatim>\<open>internal/storage/transparency\<close>: the persistent tree
  (\<^verbatim>\<open>tree.go\<close>), signed tree heads (\<^verbatim>\<open>sth.go\<close>) and the HTTP surface (\<^verbatim>\<open>http.go\<close>).
  The database, the JSON codec and Ed25519 are parameters. Sizes and indices are
  \<^verbatim>\<open>uint64\<close> in the source; they are \<open>nat\<close> here, bounded by the length of a Go slice
  where an encoding depends on it.
\<close>

section \<open>Leaves, tree heads, errors\<close>

definition BucketLeaves :: string where "BucketLeaves = ''transparency.leaves''"
definition BucketNodes :: string where "BucketNodes = ''transparency.nodes''"
definition BucketSTH :: string where "BucketSTH = ''transparency.sth''"
definition BucketSTHHistory :: string where "BucketSTHHistory = ''transparency.sth.history''"

definition LatestSTHKey :: bytes where
  "LatestSTHKey = map (\<lambda>c. of_char c) ''latest''"

lemmas buckets = BucketLeaves_def BucketNodes_def BucketSTH_def BucketSTHHistory_def

record Leaf =
  lf_Kind :: string
  lf_Timestamp :: gotime
  lf_Payload :: bytes

record STH =
  sth_TreeSize :: nat
  sth_RootHash :: bytes
  sth_Timestamp :: gotime
  sth_Signature :: bytes
  sth_SignerKeyID :: string

datatype log_error =
    ErrLeafIndexOutOfRange
  | ErrTreeSizeMismatch
  | ErrConsistencyRange
  | ErrNoSTHSigningKey
  | ErrCorruptedTree
  | LogPki pki_error
  | LogOther string
  | LogPanic string

text \<open>
  \<open>codec\<close>: the two directions of \<^verbatim>\<open>encoding/json\<close> for leaves and for tree heads.
\<close>

record codec =
  leaf_Marshal :: "Leaf \<Rightarrow> bytes option"
  leaf_Unmarshal :: "bytes \<Rightarrow> Leaf option"
  sth_Marshal :: "STH \<Rightarrow> bytes option"
  sth_Unmarshal :: "bytes \<Rightarrow> STH option"

section \<open>The tree\<close>

record 'db Tree =
  t_db :: 'db
  t_hashes :: "RootHash list"

definition encodeIndex :: "nat \<Rightarrow> bytes" where
  "encodeIndex idx = be_bytes 8 idx"

fun create_all :: "'db bolt \<Rightarrow> string list \<Rightarrow> 'db \<Rightarrow> log_error option \<times> 'db" where
  "create_all B [] db = (None, db)"
| "create_all B (b # bs) db =
     (case bk_Create B db b of
        (Some m, db') \<Rightarrow> (Some (LogOther m), db')
      | (None, db') \<Rightarrow> create_all B bs db')"

text \<open>The iteration of \<^verbatim>\<open>rehydrate\<close> stops at the first leaf that does not decode.\<close>

fun rehydrate_loop :: "codec \<Rightarrow> (bytes \<times> bytes) list \<Rightarrow> RootHash list \<Rightarrow> log_error + RootHash list" where
  "rehydrate_loop J [] hashes = Inr hashes"
| "rehydrate_loop J ((k, v) # items) hashes =
     (case leaf_Unmarshal J v of
        None \<Rightarrow> Inl ErrCorruptedTree
      | Some leaf \<Rightarrow> rehydrate_loop J items (hashes @ [HashLeaf (lf_Payload leaf)]))"

definition rehydrate :: "'db bolt \<Rightarrow> codec \<Rightarrow> 'db \<Rightarrow> log_error + RootHash list" where
  "rehydrate B J db =
     (if \<not> bk_Has B db BucketLeaves then Inl (LogPanic ''nil bucket'')
      else rehydrate_loop J (bk_Items B db BucketLeaves) [])"

definition Open :: "'db bolt \<Rightarrow> codec \<Rightarrow> 'db option \<Rightarrow> log_error + 'db Tree" where
  "Open B J dbo =
     (case dbo of
        None \<Rightarrow> Inl (LogOther ''transparency: nil bolt db'')
      | Some db \<Rightarrow>
          (case db_Update B LogOther
                  (create_all B [BucketLeaves, BucketNodes, BucketSTH, BucketSTHHistory]) db of
             (Some e, db') \<Rightarrow> Inl e
           | (None, db') \<Rightarrow>
               (case rehydrate B J db' of
                  Inl e \<Rightarrow> Inl e
                | Inr hashes \<Rightarrow> Inr \<lparr>t_db = db', t_hashes = hashes\<rparr>)))"

definition Append :: "'db bolt \<Rightarrow> codec \<Rightarrow> Leaf \<Rightarrow> 'db Tree \<Rightarrow> (log_error + nat) \<times> 'db Tree" where
  "Append B J leaf t =
     (let idx = length (t_hashes t); key = encodeIndex idx
      in (case leaf_Marshal J leaf of
            None \<Rightarrow> (Inl (LogOther ''transparency: marshal leaf''), t)
          | Some payload \<Rightarrow>
              if \<not> bk_Has B (t_db t) BucketLeaves then (Inl (LogPanic ''nil bucket''), t)
              else
                (case db_Update B LogOther (bput B LogOther BucketLeaves key payload) (t_db t) of
                   (Some e, db') \<Rightarrow> (Inl e, t\<lparr>t_db := db'\<rparr>)
                 | (None, db') \<Rightarrow>
                     (Inr idx,
                      \<lparr>t_db = db', t_hashes = t_hashes t @ [HashLeaf (lf_Payload leaf)]\<rparr>))))"

definition Size :: "'db Tree \<Rightarrow> nat" where
  "Size t = length (t_hashes t)"

definition Root :: "'db Tree \<Rightarrow> RootHash" where
  "Root t = (if length (t_hashes t) = 0 then EmptyRoot else MerkleTreeHash (t_hashes t))"

definition RootAt :: "'db Tree \<Rightarrow> nat \<Rightarrow> log_error + RootHash" where
  "RootAt t sz =
     (if sz > length (t_hashes t) then Inl ErrTreeSizeMismatch
      else if sz = 0 then Inr EmptyRoot
      else Inr (MerkleTreeHash (take sz (t_hashes t))))"

definition LeafAt :: "'db bolt \<Rightarrow> codec \<Rightarrow> 'db Tree \<Rightarrow> nat \<Rightarrow> log_error + Leaf" where
  "LeafAt B J t idx =
     (if idx \<ge> length (t_hashes t) then Inl ErrLeafIndexOutOfRange
      else if \<not> bk_Has B (t_db t) BucketLeaves then Inl (LogPanic ''nil bucket'')
      else
        (case bk_Get B (t_db t) BucketLeaves (encodeIndex idx) of
           None \<Rightarrow> Inl ErrLeafIndexOutOfRange
         | Some raw \<Rightarrow>
             (case leaf_Unmarshal J raw of
                None \<Rightarrow> Inl (LogOther ''json'')
              | Some leaf \<Rightarrow> Inr leaf)))"

definition tree_InclusionProof :: "'db Tree \<Rightarrow> nat \<Rightarrow> nat \<Rightarrow> log_error + Proof" where
  "tree_InclusionProof t m n =
     (if n > length (t_hashes t) then Inl ErrTreeSizeMismatch
      else if m \<ge> n then Inl ErrLeafIndexOutOfRange
      else Inr (InclusionProof m (take n (t_hashes t))))"

definition tree_ConsistencyProof :: "'db Tree \<Rightarrow> nat \<Rightarrow> nat \<Rightarrow> log_error + Proof" where
  "tree_ConsistencyProof t first second =
     (if second > length (t_hashes t) \<or> first > second \<or> first = 0 then Inl ErrConsistencyRange
      else Inr (ConsistencyProof first second (take second (t_hashes t))))"

definition AppendBytes ::
  "'db bolt \<Rightarrow> codec \<Rightarrow> gotime \<Rightarrow> bytes \<Rightarrow> bytes \<Rightarrow> gotime \<Rightarrow> 'db Tree \<Rightarrow> log_error option \<times> 'db Tree" where
  "AppendBytes B J now kind payload timestamp t =
     (let ts = (if IsZero timestamp then now else timestamp)
      in (case Append B J \<lparr>lf_Kind = gostring kind, lf_Timestamp = ts, lf_Payload = payload\<rparr> t of
            (Inl e, t') \<Rightarrow> (Some e, t')
          | (Inr _, t') \<Rightarrow> (None, t')))"

section \<open>Signed tree heads\<close>

definition canonicalSTHBytes :: "nat \<Rightarrow> RootHash \<Rightarrow> gotime \<Rightarrow> bytes" where
  "canonicalSTHBytes sz root ts = be_bytes 8 sz @ copy32 root @ be_bytes 8 (unat (UnixNano ts))"

text \<open>\<open>sign\<close> and \<open>verify\<close> are those of \<^verbatim>\<open>crypto/ed25519\<close>.\<close>

definition SignSTH ::
  "'s KeyStore \<Rightarrow> (bytes \<Rightarrow> bytes \<Rightarrow> bytes) \<Rightarrow> gotime \<Rightarrow> 's \<Rightarrow> nat \<Rightarrow> RootHash \<Rightarrow> log_error + STH" where
  "SignSTH K sign now s sz root =
     (case ActiveKey K s PurposeTransparencyLogSTH of
        Inl err \<Rightarrow> Inl (if err = ErrNoActiveKey then ErrNoSTHSigningKey else LogPki err)
      | Inr kp \<Rightarrow>
          Inr \<lparr>sth_TreeSize = sz, sth_RootHash = root, sth_Timestamp = now,
               sth_Signature = sign (kp_Private kp) (canonicalSTHBytes sz root now),
               sth_SignerKeyID = kp_ID kp\<rparr>)"

definition VerifySTH ::
  "'s KeyStore \<Rightarrow> (bytes \<Rightarrow> bytes \<Rightarrow> bytes \<Rightarrow> bool) \<Rightarrow> 's \<Rightarrow> STH \<Rightarrow> gotime \<Rightarrow> log_error option" where
  "VerifySTH K verify s sth now =
     (if length (sth_RootHash sth) \<noteq> 32 then Some (LogOther ''STH RootHash must be 32 bytes'')
      else if sth_Signature sth = [] \<or> sth_SignerKeyID sth = [] then
        Some (LogOther ''STH has no signature'')
      else
        (case GetKey K s (sth_SignerKeyID sth) of
           Inl err \<Rightarrow>
             Some (if err = ErrKeyNotFound then LogOther ''STH signer key not found'' else LogPki err)
         | Inr kp \<Rightarrow>
             if \<not> IsVerifyable (Some kp) now then Some (LogOther ''STH signer key retired'')
             else if kp_Purpose kp \<noteq> PurposeTransparencyLogSTH then
               Some (LogOther ''STH signer key has wrong purpose'')
             else if \<not> verify (kp_Public kp)
                 (canonicalSTHBytes (sth_TreeSize sth) (copy32 (sth_RootHash sth)) (sth_Timestamp sth))
                 (sth_Signature sth) then Some (LogOther ''STH signature invalid'')
             else None))"

definition PersistSTH :: "'db bolt \<Rightarrow> codec \<Rightarrow> 'db option \<Rightarrow> STH \<Rightarrow> log_error option \<times> 'db option" where
  "PersistSTH B J dbo sth =
     (case dbo of
        None \<Rightarrow> (Some (LogOther ''transparency: nil bolt db''), None)
      | Some db \<Rightarrow>
          (case sth_Marshal J sth of
             None \<Rightarrow> (Some (LogOther ''transparency: marshal STH''), Some db)
           | Some raw \<Rightarrow>
               if \<not> bk_Has B db BucketSTH \<or> \<not> bk_Has B db BucketSTHHistory then
                 (Some (LogPanic ''nil bucket''), Some db)
               else
                 (case db_Update B LogOther
                         (\<lambda>d. case bput B LogOther BucketSTH LatestSTHKey raw d of
                                (Some e, d') \<Rightarrow> (Some e, d')
                              | (None, d') \<Rightarrow>
                                  bput B LogOther BucketSTHHistory
                                    (encodeIndex (sth_TreeSize sth)) raw d') db of
                    (e, db') \<Rightarrow> (e, Some db'))))"

definition read_sth :: "codec \<Rightarrow> bytes option \<Rightarrow> log_error + STH option" where
  "read_sth J rawo =
     (case rawo of
        None \<Rightarrow> Inr None
      | Some raw \<Rightarrow>
          (case sth_Unmarshal J raw of None \<Rightarrow> Inl (LogOther ''json'') | Some sth \<Rightarrow> Inr (Some sth)))"

definition LatestSTH :: "'db bolt \<Rightarrow> codec \<Rightarrow> 'db \<Rightarrow> log_error + STH option" where
  "LatestSTH B J db =
     (if \<not> bk_Has B db BucketSTH then Inl (LogPanic ''nil bucket'')
      else read_sth J (bk_Get B db BucketSTH LatestSTHKey))"

definition STHAt :: "'db bolt \<Rightarrow> codec \<Rightarrow> 'db \<Rightarrow> nat \<Rightarrow> log_error + STH option" where
  "STHAt B J db sz =
     (if \<not> bk_Has B db BucketSTHHistory then Inl (LogPanic ''nil bucket'')
      else read_sth J (bk_Get B db BucketSTHHistory (encodeIndex sz)))"

section \<open>The HTTP surface\<close>

text \<open>
  A handler answers with a status and a body; a request's query is a map from names to
  values, where a missing parameter reads as the empty string.
\<close>

datatype http_body =
    ErrorText string
  | STHResponse nat string u64 string string
  | InclusionResponse nat nat "string list"
  | ConsistencyResponse nat nat nat "string list"
  | LeafResponse nat string u64 string string

type_synonym query = "string \<Rightarrow> string"

definition is_digit :: "char \<Rightarrow> bool" where
  "is_digit c \<longleftrightarrow> 48 \<le> (of_char c :: nat) \<and> (of_char c :: nat) < 58"

text \<open>\<^verbatim>\<open>strconv.ParseUint(raw, 10, 64)\<close>: decimal digits only, at most \<open>2 ^ 64 - 1\<close>.\<close>

definition ParseUint :: "string \<Rightarrow> nat option" where
  "ParseUint raw =
     (if raw = [] \<or> \<not> list_all is_digit raw then None
      else if undec raw 0 \<ge> 2 ^ 64 then None
      else Some (undec raw 0))"

definition parseUintParam :: "query \<Rightarrow> string \<Rightarrow> string + nat" where
  "parseUintParam r name =
     (let raw = r name
      in if raw = [] then Inl (''parameter '' @ name @ '': missing'')
         else (case ParseUint raw of
                 None \<Rightarrow> Inl (''parameter '' @ name @ '': must be a non-negative integer'')
               | Some v \<Rightarrow> Inr v))"

definition hexProof :: "Proof \<Rightarrow> string list" where
  "hexProof p = map hex_EncodeToString p"

definition STHHandler :: "'db bolt \<Rightarrow> codec \<Rightarrow> 'db \<Rightarrow> nat \<times> http_body" where
  "STHHandler B J db =
     (case LatestSTH B J db of
        Inl e \<Rightarrow> (500, ErrorText ''sth read'')
      | Inr None \<Rightarrow> (503, ErrorText ''no STH yet'')
      | Inr (Some sth) \<Rightarrow>
          (200, STHResponse (sth_TreeSize sth) (hex_EncodeToString (sth_RootHash sth))
                  (UnixNano (sth_Timestamp sth)) (hex_EncodeToString (sth_Signature sth))
                  (sth_SignerKeyID sth)))"

definition InclusionHandler :: "'db Tree \<Rightarrow> query \<Rightarrow> nat \<times> http_body" where
  "InclusionHandler t r =
     (case parseUintParam r ''leaf_index'' of
        Inl m \<Rightarrow> (400, ErrorText m)
      | Inr leafIdx \<Rightarrow>
          (case parseUintParam r ''tree_size'' of
             Inl m \<Rightarrow> (400, ErrorText m)
           | Inr treeSize \<Rightarrow>
               (case tree_InclusionProof t leafIdx treeSize of
                  Inr proof \<Rightarrow> (200, InclusionResponse treeSize leafIdx (hexProof proof))
                | Inl ErrLeafIndexOutOfRange \<Rightarrow> (404, ErrorText ''leaf index out of range'')
                | Inl ErrTreeSizeMismatch \<Rightarrow> (404, ErrorText ''requested tree size larger than current'')
                | Inl _ \<Rightarrow> (500, ErrorText []))))"

definition ConsistencyHandler :: "'db Tree \<Rightarrow> query \<Rightarrow> nat \<times> http_body" where
  "ConsistencyHandler t r =
     (case parseUintParam r ''first'' of
        Inl m \<Rightarrow> (400, ErrorText m)
      | Inr first \<Rightarrow>
          (case parseUintParam r ''second'' of
             Inl m \<Rightarrow> (400, ErrorText m)
           | Inr second \<Rightarrow>
               (case tree_ConsistencyProof t first second of
                  Inr proof \<Rightarrow> (200, ConsistencyResponse second first second (hexProof proof))
                | Inl ErrConsistencyRange \<Rightarrow> (404, ErrorText ''consistency range'')
                | Inl ErrTreeSizeMismatch \<Rightarrow> (404, ErrorText ''requested tree size larger than current'')
                | Inl _ \<Rightarrow> (500, ErrorText []))))"

definition LeafHandler :: "'db bolt \<Rightarrow> codec \<Rightarrow> 'db Tree \<Rightarrow> query \<Rightarrow> nat \<times> http_body" where
  "LeafHandler B J t r =
     (case parseUintParam r ''index'' of
        Inl m \<Rightarrow> (400, ErrorText m)
      | Inr idx \<Rightarrow>
          (case LeafAt B J t idx of
             Inl ErrLeafIndexOutOfRange \<Rightarrow> (404, ErrorText ''leaf index out of range'')
           | Inl _ \<Rightarrow> (500, ErrorText [])
           | Inr leaf \<Rightarrow>
               (200, LeafResponse idx (lf_Kind leaf) (UnixNano (lf_Timestamp leaf))
                       (hex_EncodeToString (lf_Payload leaf))
                       (hex_EncodeToString (HashLeaf (lf_Payload leaf))))))"

section \<open>The persistent log\<close>

text \<open>
  \<open>log_ok B J t ps\<close>: the tree holds the payloads \<open>ps\<close>. Its cached hashes are theirs,
  and its bucket has one entry per index, in order, that decodes to the payload.
\<close>

definition log_ok :: "'db bolt \<Rightarrow> codec \<Rightarrow> 'db Tree \<Rightarrow> bytes list \<Rightarrow> bool" where
  "log_ok B J t ps \<longleftrightarrow>
     bk_Has B (t_db t) BucketLeaves \<and> t_hashes t = map HashLeaf ps \<and>
     (\<exists>raws. bk_Items B (t_db t) BucketLeaves = zip (map encodeIndex [0..<length ps]) raws \<and>
        map (\<lambda>r. map_option lf_Payload (leaf_Unmarshal J r)) raws = map Some ps)"

text \<open>What the log relies on of the JSON codec: payload bytes survive.\<close>

definition leaf_codec :: "codec \<Rightarrow> bool" where
  "leaf_codec J \<longleftrightarrow>
     (\<forall>leaf raw. leaf_Marshal J leaf = Some raw \<longrightarrow>
        map_option lf_Payload (leaf_Unmarshal J raw) = Some (lf_Payload leaf))"

definition mem_codec :: codec where
  "mem_codec =
     \<lparr>leaf_Marshal = (\<lambda>leaf. Some (lf_Payload leaf)),
      leaf_Unmarshal = (\<lambda>raw. Some \<lparr>lf_Kind = [], lf_Timestamp = 0, lf_Payload = raw\<rparr>),
      sth_Marshal = (\<lambda>s. Some (be_bytes 8 (sth_TreeSize s) @ sth_RootHash s @ sth_Signature s)),
      sth_Unmarshal = (\<lambda>raw. Some \<lparr>sth_TreeSize = be_nat (take 8 raw), sth_RootHash = take 32 (drop 8 raw),
         sth_Timestamp = 0, sth_Signature = drop 40 raw, sth_SignerKeyID = ''k''\<rparr>)\<rparr>"

definition empty_db :: mem_db where
  "empty_db = (\<lambda>b. None)"

lemma encodeIndex_less: "i < j \<Longrightarrow> j < 2 ^ 64 \<Longrightarrow> bytes_less (encodeIndex i) (encodeIndex j)"
  unfolding encodeIndex_def by (rule be_bytes_less) simp_all

lemma encodeIndex_inj: "i < 2 ^ 64 \<Longrightarrow> j < 2 ^ 64 \<Longrightarrow> encodeIndex i = encodeIndex j \<longleftrightarrow> i = j"
  unfolding encodeIndex_def using be_bytes_inj [of 8 i j] by auto

lemma rehydrate_loop_payloads:
  "map (\<lambda>r. map_option lf_Payload (leaf_Unmarshal J r)) raws = map Some ps \<Longrightarrow> length ks = length raws \<Longrightarrow>
   rehydrate_loop J (zip ks raws) hs = Inr (hs @ map HashLeaf ps)"
proof (induction raws arbitrary: ps ks hs)
  case (Cons r raws)
  then obtain k ks' p ps' where "ks = k # ks'" "ps = p # ps'" by (cases ks; cases ps) auto
  with Cons show ?case by (auto split: option.splits)
qed auto

locale log_store = bolt_db B for B :: "'db bolt" +
  fixes J :: codec
  assumes codec: "leaf_codec J"
begin

lemma append_ok:
  assumes "log_ok B J t ps" "length ps < 2 ^ 64"
  shows "(\<exists>e. Append B J leaf t = (Inl e, t)) \<or>
    (\<exists>t'. Append B J leaf t = (Inr (length ps), t') \<and> log_ok B J t' (ps @ [lf_Payload leaf]))"
proof (cases "leaf_Marshal J leaf")
  case None
  then show ?thesis by (simp add: Append_def Let_def)
next
  case (Some raw)
  let ?f = "bput B LogOther BucketLeaves (encodeIndex (length ps)) raw"
  obtain raws where log: "bk_Has B (t_db t) BucketLeaves" "t_hashes t = map HashLeaf ps"
    "bk_Items B (t_db t) BucketLeaves = zip (map encodeIndex [0..<length ps]) raws"
    "map (\<lambda>r. map_option lf_Payload (leaf_Unmarshal J r)) raws = map Some ps"
    using assms(1) by (auto simp: log_ok_def)
  have len: "length raws = length ps" using log(4) by (metis length_map)
  show ?thesis
  proof (cases rule: db_Update_cases [of B LogOther ?f "t_db t"])
    case (failed e)
    with Some log(1,2) show ?thesis by (simp add: Append_def Let_def)
  next
    case (committed db')
    then have put: "bk_Put B (t_db t) BucketLeaves (encodeIndex (length ps)) raw = (None, db')"
      by (auto simp: bput_def split: prod.splits)
    have "bytes_less j (encodeIndex (length ps))"
      if "(j, w) \<in> set (bk_Items B (t_db t) BucketLeaves)" for j w
      using that assms(2) len by (auto simp: log(3) in_set_zip intro!: encodeIndex_less)
    then have "bk_Items B db' BucketLeaves = zip (map encodeIndex [0..<Suc (length ps)]) (raws @ [raw])"
      using items_put_last [OF log(1) put] log(3) len by simp
    moreover have "map_option lf_Payload (leaf_Unmarshal J raw) = Some (lf_Payload leaf)"
      using codec Some by (simp add: leaf_codec_def)
    ultimately have "log_ok B J \<lparr>t_db = db', t_hashes = t_hashes t @ [HashLeaf (lf_Payload leaf)]\<rparr>
        (ps @ [lf_Payload leaf])"
      using log put_has [OF log(1) put] by (auto simp: log_ok_def intro!: exI [of _ "raws @ [raw]"])
    with Some log(1,2) committed show ?thesis by (simp add: Append_def Let_def)
  qed
qed

lemma create_all_keeps:
  "create_all B bs db = (None, db') \<Longrightarrow>
   bk_Get B db' = bk_Get B db \<and> (\<forall>c. bk_Has B db' c \<longleftrightarrow> c \<in> set bs \<or> bk_Has B db c)"
proof (induction bs arbitrary: db)
  case (Cons b bs)
  then obtain d where d: "bk_Create B db b = (None, d)" "create_all B bs d = (None, db')"
    by (auto split: prod.splits option.splits)
  with Cons.IH create_has [OF d(1)] create_get [OF d(1)] show ?case by auto
qed simp

lemma open_ok:
  assumes "log_ok B J t ps"
  shows "(\<exists>m. Open B J (Some (t_db t)) = Inl (LogOther m)) \<or>
    (\<exists>t'. Open B J (Some (t_db t)) = Inr t' \<and> t_hashes t' = t_hashes t \<and> log_ok B J t' ps)"
proof -
  let ?bs = "[BucketLeaves, BucketNodes, BucketSTH, BucketSTHHistory]"
  have err: "create_all B bs db = (Some e, db') \<Longrightarrow> \<exists>m. e = LogOther m" for bs db e db'
    by (induction bs arbitrary: db) (auto split: prod.splits option.splits)
  obtain raws where log: "t_hashes t = map HashLeaf ps"
    "bk_Items B (t_db t) BucketLeaves = zip (map encodeIndex [0..<length ps]) raws"
    "map (\<lambda>r. map_option lf_Payload (leaf_Unmarshal J r)) raws = map Some ps"
    using assms by (auto simp: log_ok_def)
  have len: "length raws = length ps" using log(3) by (metis length_map)
  show ?thesis
  proof (cases "create_all B ?bs (t_db t)")
    case (Pair r db')
    show ?thesis
    proof (cases "r = None \<and> bk_Commit B (t_db t) db' = None")
      case False
      with Pair err [of ?bs "t_db t"] show ?thesis
        by (auto simp: Open_def db_Update_def split: option.splits)
    next
      case True
      with Pair create_all_keeps [of ?bs "t_db t" db']
      have db': "bk_Get B db' = bk_Get B (t_db t)" "bk_Has B db' BucketLeaves" by auto
      then have "bk_Items B db' BucketLeaves = bk_Items B (t_db t) BucketLeaves"
        using items_sorted items_get by (intro items_eq) auto
      with db' log rehydrate_loop_payloads [OF log(3), of "map encodeIndex [0..<length ps]" "[]"] len
      show ?thesis using True Pair
        by (auto simp: Open_def db_Update_def rehydrate_def log_ok_def)
    qed
  qed
qed

lemma leaf_at_ok:
  assumes "log_ok B J t ps" "i < length ps"
  shows "\<exists>leaf. LeafAt B J t i = Inr leaf \<and> lf_Payload leaf = ps ! i"
proof -
  obtain raws where log: "bk_Has B (t_db t) BucketLeaves" "t_hashes t = map HashLeaf ps"
    "bk_Items B (t_db t) BucketLeaves = zip (map encodeIndex [0..<length ps]) raws"
    "map (\<lambda>r. map_option lf_Payload (leaf_Unmarshal J r)) raws = map Some ps"
    using assms(1) by (auto simp: log_ok_def)
  have len: "length raws = length ps" using log(4) by (metis length_map)
  have "(encodeIndex i, raws ! i) \<in> set (bk_Items B (t_db t) BucketLeaves)"
    using assms(2) len by (auto simp: log(3) in_set_zip intro!: exI [of _ i])
  then have "bk_Get B (t_db t) BucketLeaves (encodeIndex i) = Some (raws ! i)"
    by (simp add: items_get)
  moreover have "map_option lf_Payload (leaf_Unmarshal J (raws ! i)) = Some (ps ! i)"
    using arg_cong [OF log(4), of "\<lambda>xs. xs ! i"] assms(2) len by simp
  ultimately show ?thesis using log assms(2) by (auto simp: LeafAt_def)
qed

end

interpretation mem_log: log_store mem_bolt mem_codec
  by unfold_locales (simp add: leaf_codec_def mem_codec_def)

section \<open>Sequences of appends\<close>

fun append_all :: "'db bolt \<Rightarrow> codec \<Rightarrow> Leaf list \<Rightarrow> 'db Tree \<Rightarrow> 'db Tree" where
  "append_all B J [] t = t"
| "append_all B J (leaf # leaves) t = append_all B J leaves (snd (Append B J leaf t))"

definition sample_start :: "mem_db Tree" where
  "sample_start = \<lparr>t_db = empty_db(BucketLeaves \<mapsto> []), t_hashes = []\<rparr>"

definition sample_leaf :: "nat \<Rightarrow> Leaf" where
  "sample_leaf i = \<lparr>lf_Kind = ''backup'', lf_Timestamp = 1, lf_Payload = [word_of_nat i]\<rparr>"

definition sample_tree :: "mem_db Tree" where
  "sample_tree = append_all mem_bolt mem_codec [sample_leaf 1, sample_leaf 2] sample_start"

definition sample_sth_key :: KeyPair where
  "sample_sth_key = \<lparr>kp_ID = ''k'', kp_Purpose = PurposeTransparencyLogSTH, kp_Public = [1],
     kp_Private = [1], kp_Status = StatusKeyActive, kp_CreatedAt = 0, kp_NotBefore = 0,
     kp_NotAfter = 100\<rparr>"

definition sample_sth :: STH where
  "sample_sth = \<lparr>sth_TreeSize = 2, sth_RootHash = replicate 32 5, sth_Timestamp = 0,
     sth_Signature = [1], sth_SignerKeyID = ''k''\<rparr>"

context log_store
begin

lemma append_all_extends:
  "log_ok B J t ps \<Longrightarrow> length ps + length leaves \<le> 2 ^ 64 \<Longrightarrow>
   \<exists>qs. log_ok B J (append_all B J leaves t) (ps @ qs)"
proof (induction leaves arbitrary: t ps)
  case Nil
  then show ?case by (intro exI [of _ "[]"]) simp
next
  case (Cons leaf leaves)
  then have "length ps < 2 ^ 64" by simp
  from append_ok [OF Cons.prems(1) this, of leaf]
  obtain rs where "log_ok B J (snd (Append B J leaf t)) (ps @ rs)" "length rs \<le> 1"
    using Cons.prems(1) by (metis append_Nil2 le0 length_Cons list.size(3) One_nat_def order_refl snd_conv)
  with Cons.IH [of "snd (Append B J leaf t)" "ps @ rs"] Cons.prems(2) show ?case by fastforce
qed

end

context bolt_db
begin

lemma persist_ok:
  assumes "bk_Has B db BucketSTH" "bk_Has B db BucketSTHHistory" "sth_Marshal J sth = Some raw"
  shows "(\<exists>e. PersistSTH B J (Some db) sth = (Some e, Some db)) \<or>
    (\<exists>db'. PersistSTH B J (Some db) sth = (None, Some db') \<and>
      bk_Has B db' = bk_Has B db \<and>
      bk_Get B db' BucketSTH LatestSTHKey = Some raw \<and>
      bk_Get B db' BucketSTHHistory (encodeIndex (sth_TreeSize sth)) = Some raw \<and>
      (\<forall>k. k \<noteq> encodeIndex (sth_TreeSize sth) \<longrightarrow>
         bk_Get B db' BucketSTHHistory k = bk_Get B db BucketSTHHistory k) \<and>
      bk_Items B db' BucketLeaves = bk_Items B db BucketLeaves)"
proof -
  let ?f = "\<lambda>d. case bput B LogOther BucketSTH LatestSTHKey raw d of
              (Some e, d') \<Rightarrow> (Some e, d')
            | (None, d') \<Rightarrow> bput B LogOther BucketSTHHistory (encodeIndex (sth_TreeSize sth)) raw d'"
  show ?thesis
  proof (cases rule: db_Update_cases [of B LogOther ?f db])
    case (failed e)
    with assms show ?thesis by (auto simp: PersistSTH_def)
  next
    case (committed db')
    then obtain d where put: "bk_Put B db BucketSTH LatestSTHKey raw = (None, d)"
      "bk_Put B d BucketSTHHistory (encodeIndex (sth_TreeSize sth)) raw = (None, db')"
      by (auto simp: bput_def split: prod.splits option.splits)
    note has = put_has [OF assms(1) put(1)]
    have d: "bk_Has B d BucketSTHHistory" using has assms(2) by simp
    note gets = put_get [OF d put(2)] put_get [OF assms(1) put(1)]
    have "bk_Items B db' BucketLeaves = bk_Items B db BucketLeaves"
      using items_put_other [OF d put(2), of BucketLeaves] items_put_other [OF assms(1) put(1), of BucketLeaves]
      by (simp add: buckets)
    with committed assms gets has put_has [OF d put(2)] show ?thesis
      by (auto simp: PersistSTH_def buckets)
  qed
qed

end

lemma hashes_of_log: "log_ok B J t ps \<Longrightarrow> t_hashes t = map HashLeaf ps"
  by (simp add: log_ok_def)

lemma Root_take: "Root t = MerkleTreeHash (t_hashes t)"
  by (auto simp: Root_def MerkleTreeHash.simps [of "[]"])

lemma RootAt_take: "n \<le> length (t_hashes t) \<Longrightarrow> RootAt t n = Inr (MerkleTreeHash (take n (t_hashes t)))"
  by (auto simp: RootAt_def MerkleTreeHash.simps [of "[]"])

lemma ParseUint_empty: "ParseUint [] = None"
  by (simp add: ParseUint_def)

lemma ParseUint_dec: "n < 2 ^ 64 \<Longrightarrow> ParseUint (dec n) = Some n"
  using dec_digits [of _ n] by (simp add: ParseUint_def undec_dec list_all_iff is_digit_def dec_nonempty)

lemma parseUintParam_dec: "r name = dec n \<Longrightarrow> n < 2 ^ 64 \<Longrightarrow> parseUintParam r name = Inr n"
  by (simp add: parseUintParam_def ParseUint_dec dec_nonempty)

lemma sample_start_ok: "log_ok mem_bolt mem_codec sample_start []"
  by (simp add: log_ok_def sample_start_def mem_bolt_def mem_entries_def)

lemma mem_append:
  "t_db t BucketLeaves = Some kvs \<Longrightarrow>
   Append mem_bolt mem_codec leaf t =
     (Inr (length (t_hashes t)),
      \<lparr>t_db = (t_db t)(BucketLeaves \<mapsto> (encodeIndex (length (t_hashes t)), lf_Payload leaf) # kvs),
       t_hashes = t_hashes t @ [HashLeaf (lf_Payload leaf)]\<rparr>)"
  by (simp add: Append_def Let_def mem_codec_def mem_bolt_def db_Update_def bput_def mem_entries_def)

lemma sample_tree_ok: "log_ok mem_bolt mem_codec sample_tree [[1], [2]]"
proof -
  have tree: "sample_tree = \<lparr>t_db = empty_db(BucketLeaves \<mapsto> [(encodeIndex 1, [2]), (encodeIndex 0, [1])]),
      t_hashes = map HashLeaf [[1], [2]]\<rparr>"
    by (simp add: sample_tree_def sample_start_def sample_leaf_def mem_append)
  have "bytes_less (encodeIndex 0) (encodeIndex 1)" "encodeIndex 0 \<noteq> encodeIndex 1"
    by (simp_all add: encodeIndex_less encodeIndex_inj)
  moreover from this have "\<not> bytes_less (encodeIndex 1) (encodeIndex 0)"
    using bytes_less_trans bytes_less_irrefl by blast
  ultimately show ?thesis
    by (auto simp: log_ok_def tree mem_bolt_def mem_entries_def mem_codec_def intro!: exI [of _ "[[1], [2]]"])
qed

section \<open>Properties\<close>

text \<open>
  C10: the log is durable. Appending either fails and leaves the tree as it was, or
  returns the number of leaves as the index and the tree then holds exactly one payload
  more, on disk and in its cache; and opening the database of such a tree again, after a
  crash or a restart, rebuilds the very same hashes, unless the database itself reports
  an error.
\<close>

theorem log_append_durable:
  assumes "bolt_db B" "leaf_codec J" "log_ok B J t ps" "length ps < 2 ^ 64"
  shows "(case Append B J leaf t of
      (Inl e, t') \<Rightarrow> t' = t
    | (Inr idx, t') \<Rightarrow> idx = length ps \<and> log_ok B J t' (ps @ [lf_Payload leaf])) \<and>
    (case Open B J (Some (t_db t)) of
      Inl e \<Rightarrow> \<exists>m. e = LogOther m
    | Inr t' \<Rightarrow> t_hashes t' = t_hashes t \<and> log_ok B J t' ps)"
proof -
  have L: "log_store B J" by (simp add: log_store_def log_store_axioms_def assms(1,2))
  show ?thesis
    using log_store.append_ok [OF L assms(3,4), of leaf] log_store.open_ok [OF L assms(3)] by auto
qed

theorem log_append_durable_witness:
  "case Append mem_bolt mem_codec (sample_leaf 1) sample_start of
     (Inl e, t') \<Rightarrow> t' = sample_start
   | (Inr idx, t') \<Rightarrow> idx = 0 \<and> log_ok mem_bolt mem_codec t' [lf_Payload (sample_leaf 1)]"
  using conjunct1 [OF log_append_durable [OF mem.bolt_db_axioms mem_log.codec sample_start_ok,
      where leaf = "sample_leaf 1"]] unfolding list.size(3) append_Nil by simp

text \<open>
  Every answer of the log can be checked. For each leaf and each tree size that
  includes it, the log serves a leaf, an audit path and a root such that the verifier,
  given the hash of the served payload, computes the served root.
\<close>

theorem log_serves_inclusion:
  assumes "bolt_db B" "leaf_codec J" "log_ok B J t ps" "m < n" "n \<le> length ps"
  shows "\<exists>leaf proof root. LeafAt B J t m = Inr leaf \<and> lf_Payload leaf = ps ! m \<and>
    tree_InclusionProof t m n = Inr proof \<and> RootAt t n = Inr root \<and>
    VerifyInclusion (HashLeaf (lf_Payload leaf)) m n proof = root"
proof -
  have L: "log_store B J" by (simp add: log_store_def log_store_axioms_def assms(1,2))
  have "m < length ps" using assms(4,5) by simp
  then obtain leaf where "LeafAt B J t m = Inr leaf" "lf_Payload leaf = ps ! m"
    using log_store.leaf_at_ok [OF L assms(3)] by blast
  moreover have "VerifyInclusion (HashLeaf (ps ! m)) m n (InclusionProof m (take n (map HashLeaf ps)))
      = MerkleTreeHash (take n (map HashLeaf ps))"
    using VerifyInclusion_path [of "take n (map HashLeaf ps)" m "[]"] assms(4,5) by simp
  ultimately show ?thesis
    using assms(4,5) hashes_of_log [OF assms(3)]
    by (auto simp: tree_InclusionProof_def RootAt_take)
qed

theorem log_serves_inclusion_witness:
  "\<exists>leaf proof root. LeafAt mem_bolt mem_codec sample_tree 1 = Inr leaf \<and>
    tree_InclusionProof sample_tree 1 2 = Inr proof \<and> RootAt sample_tree 2 = Inr root \<and>
    VerifyInclusion (HashLeaf (lf_Payload leaf)) 1 2 proof = root"
  using log_serves_inclusion [OF mem.bolt_db_axioms mem_log.codec sample_tree_ok, of 1 2] by auto

text \<open>
  C4: the log is append-only, verifiably. After any sequence of appends, some of which may
  have failed, the root at the earlier size is the earlier root, and the consistency proof
  the log serves between the two sizes takes a verifier from the earlier root to the
  current one.
\<close>

theorem log_append_only:
  assumes "bolt_db B" "leaf_codec J" "log_ok B J t ps" "ps \<noteq> []"
    and "length ps + length leaves \<le> 2 ^ 64" "t' = append_all B J leaves t"
  shows "RootAt t' (Size t) = Inr (Root t) \<and>
    (\<exists>proof. tree_ConsistencyProof t' (Size t) (Size t') = Inr proof \<and>
       VerifyConsistency (Size t) (Size t') (Root t) proof = (Root t', True))"
proof -
  have L: "log_store B J" by (simp add: log_store_def log_store_axioms_def assms(1,2))
  obtain qs where "log_ok B J t' (ps @ qs)"
    using log_store.append_all_extends [OF L assms(3,5)] assms(6) by blast
  then have hs: "t_hashes t' = map HashLeaf (ps @ qs)" "t_hashes t = map HashLeaf ps"
    using hashes_of_log assms(3) by blast+
  have "VerifyConsistency (length ps) (length (ps @ qs)) (MerkleTreeHash (take (length ps) (t_hashes t')))
      (ConsistencyProof (length ps) (length (ps @ qs)) (t_hashes t'))
    = (MerkleTreeHash (take (length (ps @ qs)) (t_hashes t')), True)"
    using hs assms(4) by (intro VerifyConsistency_complete) (auto simp flip: map_append)
  with hs assms(4) show ?thesis
    by (simp add: Size_def RootAt_take Root_take tree_ConsistencyProof_def)
qed

theorem log_append_only_witness:
  "\<exists>proof. tree_ConsistencyProof (append_all mem_bolt mem_codec [sample_leaf 3] sample_tree)
      (Size sample_tree) (Size (append_all mem_bolt mem_codec [sample_leaf 3] sample_tree)) = Inr proof"
  using log_append_only [OF mem.bolt_db_axioms mem_log.codec sample_tree_ok _ _ refl, of "[sample_leaf 3]"]
  by auto

text \<open>
  The bytes a tree head's signature covers determine size, root and timestamp, and a
  tree head signed with the active key verifies for as long as that key verifies, given
  only that Ed25519 verifies what it signs.
\<close>

theorem sth_sign_verify:
  assumes "mem_inv s" "ActiveKey memory_keystore s PurposeTransparencyLogSTH = Inr kp"
    and "\<And>msg. verify (kp_Public kp) msg (sign (kp_Private kp) msg)"
    and "\<And>msg. sign (kp_Private kp) msg \<noteq> []"
    and "length root = 32" "kp_ID kp \<noteq> []" "IsVerifyable (Some kp) later"
  shows "(\<exists>sth. SignSTH memory_keystore sign now s n root = Inr sth \<and>
      VerifySTH memory_keystore verify s sth later = None) \<and>
    (n < 2 ^ 64 \<longrightarrow> n' < 2 ^ 64 \<longrightarrow> length root' = 32 \<longrightarrow>
     canonicalSTHBytes n root now = canonicalSTHBytes n' root' now' \<longrightarrow>
     n = n' \<and> root = root' \<and> UnixNano now = UnixNano now')"
proof
  have "map_of s (kp_ID kp) = Some kp \<and> active_for PurposeTransparencyLogSTH kp"
    using mks.active_found [OF assms(1)] assms(2) by (simp add: ActiveKey_def)
  then have "GetKey memory_keystore s (kp_ID kp) = Inr kp" "kp_Purpose kp = PurposeTransparencyLogSTH"
    using mks.get [OF assms(1)] by (simp_all add: GetKey_def active_for_def)
  with assms show "\<exists>sth. SignSTH memory_keystore sign now s n root = Inr sth \<and>
      VerifySTH memory_keystore verify s sth later = None"
    by (simp add: SignSTH_def VerifySTH_def)
next
  have unat_eq: "be_bytes 8 (unat (x :: u64)) = be_bytes 8 (unat y) \<longleftrightarrow> x = y" for x y
    using be_bytes_inj [of 8 "unat x" "unat y"] unsigned_less [of x] unsigned_less [of y]
    by (auto intro: unsigned_word_eqI)
  show "n < 2 ^ 64 \<longrightarrow> n' < 2 ^ 64 \<longrightarrow> length root' = 32 \<longrightarrow>
     canonicalSTHBytes n root now = canonicalSTHBytes n' root' now' \<longrightarrow>
     n = n' \<and> root = root' \<and> UnixNano now = UnixNano now'"
    using assms(5) be_bytes_inj [of 8 n n'] unat_eq
    by (auto simp: canonicalSTHBytes_def append_eq_append_conv)
qed

theorem sth_sign_verify_witness:
  "\<exists>sth. SignSTH memory_keystore (\<lambda>k m. [9]) 5 [(''k'', sample_sth_key)] 2 (replicate 32 5) = Inr sth \<and>
     VerifySTH memory_keystore (\<lambda>k m sg. sg = [9]) [(''k'', sample_sth_key)] sth 50 = None"
  using conjunct1 [OF sth_sign_verify [of "[(''k'', sample_sth_key)]" sample_sth_key
      "\<lambda>k m sg. sg = [9]" "\<lambda>k m. [9]" "replicate 32 5" 50 5 2]]
  by (simp add: mem_inv_def sample_sth_key_def ActiveKey_def memory_keystore_def
      mem_ActiveByPurpose_def IsVerifyable_def key_statuses)

text \<open>
  A tree head that was persisted is the latest one and the one recorded for its size;
  heads of other sizes and the leaves stay as they were, and if the transaction fails
  nothing changes.
\<close>

theorem persist_sth:
  assumes "bolt_db B" "bk_Has B db BucketSTH" "bk_Has B db BucketSTHHistory"
    and "sth_Marshal J sth = Some raw" "sth_Unmarshal J raw = Some sth"
    and "PersistSTH B J (Some db) sth = (r, Some db')"
  shows "if r = None
    then LatestSTH B J db' = Inr (Some sth) \<and> STHAt B J db' (sth_TreeSize sth) = Inr (Some sth) \<and>
      (\<forall>n. n < 2 ^ 64 \<and> sth_TreeSize sth < 2 ^ 64 \<and> n \<noteq> sth_TreeSize sth \<longrightarrow>
         STHAt B J db' n = STHAt B J db n) \<and>
      bk_Items B db' BucketLeaves = bk_Items B db BucketLeaves
    else db' = db"
proof (cases r)
  case None
  with bolt_db.persist_ok [OF assms(1-4)] assms(6) have
    "bk_Has B db' = bk_Has B db" "bk_Get B db' BucketSTH LatestSTHKey = Some raw"
    "bk_Get B db' BucketSTHHistory (encodeIndex (sth_TreeSize sth)) = Some raw"
    "\<And>k. k \<noteq> encodeIndex (sth_TreeSize sth) \<Longrightarrow>
       bk_Get B db' BucketSTHHistory k = bk_Get B db BucketSTHHistory k"
    "bk_Items B db' BucketLeaves = bk_Items B db BucketLeaves"
    by auto
  with None assms(2,3,5) show ?thesis
    by (simp add: LatestSTH_def STHAt_def read_sth_def encodeIndex_inj)
next
  case (Some e)
  with bolt_db.persist_ok [OF assms(1-4)] assms(6) show ?thesis by auto
qed

theorem persist_sth_witness:
  "LatestSTH mem_bolt mem_codec
     (the (snd (PersistSTH mem_bolt mem_codec (Some (empty_db(BucketSTH \<mapsto> [], BucketSTHHistory \<mapsto> [])))
        sample_sth))) = Inr (Some sample_sth)"
proof -
  let ?db = "empty_db(BucketSTH \<mapsto> [], BucketSTHHistory \<mapsto> [])"
  obtain raw where raw: "sth_Marshal mem_codec sample_sth = Some raw" "sth_Unmarshal mem_codec raw = Some sample_sth"
    by (simp add: mem_codec_def sample_sth_def)
  have has: "bk_Has mem_bolt ?db BucketSTH" "bk_Has mem_bolt ?db BucketSTHHistory"
    by (simp_all add: mem_bolt_def)
  obtain db' where "PersistSTH mem_bolt mem_codec (Some ?db) sample_sth = (None, Some db')"
    using has raw(1) by (simp add: PersistSTH_def db_Update_def bput_def mem_bolt_def)
  from persist_sth [OF mem.bolt_db_axioms has raw this] this show ?thesis by simp
qed

text \<open>
  The inclusion endpoint. A request whose two parameters are the decimal numerals of
  a leaf index and a tree size that includes it is answered with status 200 and the
  hexadecimal form of an audit path that verifies; status 200 is given to no request with
  parameters out of range, and every other request gets status 400 or 404, never an
  internal error.
\<close>

theorem inclusion_endpoint:
  assumes "t_hashes t = map HashLeaf ps"
  shows "(\<forall>m n. m < n \<and> n \<le> length ps \<and> n < 2 ^ 64 \<and> r ''leaf_index'' = dec m \<and> r ''tree_size'' = dec n \<longrightarrow>
      (\<exists>path. InclusionHandler t r = (200, InclusionResponse n m (map hex_EncodeToString path)) \<and>
         RootAt t n = Inr (VerifyInclusion (HashLeaf (ps ! m)) m n path))) \<and>
    (fst (InclusionHandler t r) = 200 \<longleftrightarrow>
      (\<exists>m n. ParseUint (r ''leaf_index'') = Some m \<and> ParseUint (r ''tree_size'') = Some n \<and>
         m < n \<and> n \<le> length ps)) \<and>
    fst (InclusionHandler t r) \<in> {200, 400, 404}"
proof (intro conjI allI impI)
  fix m n
  assume mn: "m < n \<and> n \<le> length ps \<and> n < 2 ^ 64 \<and> r ''leaf_index'' = dec m \<and> r ''tree_size'' = dec n"
  then have "InclusionHandler t r =
      (200, InclusionResponse n m (hexProof (InclusionProof m (take n (map HashLeaf ps)))))"
    using assms by (simp add: InclusionHandler_def parseUintParam_dec tree_InclusionProof_def)
  moreover have "RootAt t n = Inr (VerifyInclusion (HashLeaf (ps ! m)) m n (InclusionProof m (take n (map HashLeaf ps))))"
    using VerifyInclusion_path [of "take n (map HashLeaf ps)" m "[]"] mn assms
    by (simp add: RootAt_take)
  ultimately show "\<exists>path. InclusionHandler t r = (200, InclusionResponse n m (map hex_EncodeToString path)) \<and>
      RootAt t n = Inr (VerifyInclusion (HashLeaf (ps ! m)) m n path)"
    unfolding hexProof_def by blast
next
  show "fst (InclusionHandler t r) = 200 \<longleftrightarrow>
      (\<exists>m n. ParseUint (r ''leaf_index'') = Some m \<and> ParseUint (r ''tree_size'') = Some n \<and>
         m < n \<and> n \<le> length ps)"
    using assms by (auto simp: InclusionHandler_def parseUintParam_def tree_InclusionProof_def
        Let_def ParseUint_empty split: option.splits)
  show "fst (InclusionHandler t r) \<in> {200, 400, 404}"
    by (auto simp: InclusionHandler_def tree_InclusionProof_def split: sum.splits)
qed

theorem inclusion_endpoint_witness:
  "fst (InclusionHandler sample_tree (\<lambda>name. if name = ''leaf_index'' then dec 1 else dec 2)) = 200"
proof -
  have "\<exists>path. InclusionHandler sample_tree (\<lambda>name. if name = ''leaf_index'' then dec 1 else dec 2)
      = (200, InclusionResponse 2 1 (map hex_EncodeToString path))"
    using conjunct1 [OF inclusion_endpoint [OF hashes_of_log [OF sample_tree_ok],
        of "\<lambda>name. if name = ''leaf_index'' then dec 1 else dec 2"], rule_format, of 1 2] by auto
  then show ?thesis by auto
qed

end
