(* ===== verification/Events.thy ===== *)
theory Events
  imports Repository Transparency_Log
begin

text \<open>
  The event bus (\<^verbatim>\<open>internal/events\<close>): signing and verification of events (\<^verbatim>\<open>signer.go\<close>,
  \<^verbatim>\<open>verifier.go\<close>), the pipeline that every event and asset passes (\<^verbatim>\<open>pipeline.go\<close>), the
  publisher on the message broker (\<^verbatim>\<open>publisher.go\<close>) and the subscriber that turns compliance
  messages of the broker into events (\<^verbatim>\<open>neotron.go\<close>).

  The pipeline's state is the transparency tree: its database is also the repository's. What
  the pipeline hands to other components (the web socket hub, the broker, the analysis
  goroutines) and the failure counters it increments are a list of effects in program order.
  Identifiers, the clock, the signature scheme, the JSON serializers and the broker are
  parameters.
\<close>

section \<open>Signatures\<close>

datatype events_error =
    ErrSignerNoActiveKey
  | ErrSignatureMissing
  | ErrSignatureInvalid
  | ErrSignerKeyUnknown
  | ErrSignerKeyRetired
  | NilEvent
  | KeyLookup pki_error
  | CanonicalFailed

text \<open>The event is updated in place: on a failing serializer its old signature is gone.\<close>

definition Sign ::
  "'s KeyStore \<Rightarrow> (bytes \<Rightarrow> bytes \<Rightarrow> bytes) \<Rightarrow> (NetworkEvent \<Rightarrow> bytes option) \<Rightarrow> 's \<Rightarrow>
   NetworkEvent option \<Rightarrow> events_error option \<times> NetworkEvent option" where
  "Sign K sign js s eo =
     (case eo of
        None \<Rightarrow> (Some NilEvent, None)
      | Some e \<Rightarrow>
          (case ActiveKey K s PurposeEventSigning of
             Inl err \<Rightarrow> (Some (if err = ErrNoActiveKey then ErrSignerNoActiveKey else KeyLookup err), Some e)
           | Inr kp \<Rightarrow>
               (let e0 = e\<lparr>ev_Signature := [], ev_SignerKeyID := []\<rparr>
                in (case CanonicalBytes js e0 of
                      None \<Rightarrow> (Some CanonicalFailed, Some e0)
                    | Some canonical \<Rightarrow>
                        (None, Some (e0\<lparr>ev_Signature := sign (kp_Private kp) canonical,
                                        ev_SignerKeyID := kp_ID kp\<rparr>))))))"

definition Verify ::
  "'s KeyStore \<Rightarrow> (bytes \<Rightarrow> bytes \<Rightarrow> bytes \<Rightarrow> bool) \<Rightarrow> (NetworkEvent \<Rightarrow> bytes option) \<Rightarrow> 's \<Rightarrow> gotime \<Rightarrow>
   NetworkEvent \<Rightarrow> events_error option" where
  "Verify K verify js s now e =
     (if \<not> IsSigned e then Some ErrSignatureMissing
      else
        (case GetKey K s (ev_SignerKeyID e) of
           Inl err \<Rightarrow> Some (if err = ErrKeyNotFound then ErrSignerKeyUnknown else KeyLookup err)
         | Inr kp \<Rightarrow>
             if \<not> IsVerifyable (Some kp) now then Some ErrSignerKeyRetired
             else if kp_Purpose kp \<noteq> PurposeEventSigning then Some ErrSignerKeyUnknown
             else
               (case CanonicalBytes js e of
                  None \<Rightarrow> Some CanonicalFailed
                | Some canonical \<Rightarrow>
                    if \<not> verify (kp_Public kp) canonical (ev_Signature e) then Some ErrSignatureInvalid else None)))"

fun SignerErrorIs :: "events_error \<Rightarrow> string option" where
  "SignerErrorIs ErrSignatureMissing = Some ''missing''"
| "SignerErrorIs ErrSignatureInvalid = Some ''invalid''"
| "SignerErrorIs ErrSignerKeyUnknown = Some ''unknown_key''"
| "SignerErrorIs ErrSignerKeyRetired = Some ''retired_key''"
| "SignerErrorIs ErrSignerNoActiveKey = Some ''no_active_key''"
| "SignerErrorIs _ = None"

section \<open>The publisher\<close>

record Event =
  be_EventID :: string
  be_EventType :: string
  be_Timestamp :: gotime
  be_SourceService :: string
  be_CorrelationID :: string
  be_Payload :: metadata

record nats =
  nc_connected :: bool
  nc_status :: string
  nc_marshal :: "Event \<Rightarrow> bytes option"
  nc_publish :: "string \<Rightarrow> bytes \<Rightarrow> string option"

datatype publish_error = NotConnected string string | MarshalEvent | NatsErr string

definition Publish :: "nats \<Rightarrow> string \<Rightarrow> Event \<Rightarrow> publish_error option" where
  "Publish nc subject e =
     (if \<not> nc_connected nc then Some (NotConnected (nc_status nc) subject)
      else
        (case nc_marshal nc e of
           None \<Rightarrow> Some MarshalEvent
         | Some data \<Rightarrow> map_option NatsErr (nc_publish nc subject data)))"

definition IsConnected :: "nats option \<Rightarrow> bool" where
  "IsConnected p = (case p of None \<Rightarrow> False | Some nc \<Rightarrow> nc_connected nc)"

definition pub_Status :: "nats option \<Rightarrow> string" where
  "pub_Status p = (case p of None \<Rightarrow> ''disabled'' | Some nc \<Rightarrow> nc_status nc)"

section \<open>The pipeline\<close>

definition isCriticalEvent :: "NetworkEvent \<Rightarrow> bool" where
  "isCriticalEvent e \<longleftrightarrow>
     ev_Type e = EventAlert \<or>
     ev_Type e = EventCompliance \<and>
       as_bool (meta_get (ev_Metadata e) ''compliance_passed'') \<noteq> Some True \<and>
       string_or_empty (meta_get (ev_Metadata e) ''compliance_severity'') \<in> {''block'', ''critical'', ''high''}"

definition transparencyKind :: "string \<Rightarrow> string" where
  "transparencyKind t =
     (if t = EventAlert then ''alert.high''
      else if t = EventCompliance then ''compliance.violation''
      else ''event.'' @ t)"

definition spectreNetworkSubject :: "string \<Rightarrow> string" where
  "spectreNetworkSubject t =
     (if t = EventDNS then ''network.dns.query.v1''
      else if t = EventPortScan \<or> t = EventProxy then ''network.service.detected.v1''
      else if t = EventAlert then ''network.dns.threat.v1''
      else if t = EventCompliance then ''neotron.compliance.siem.v1''
      else ''network.asset.discovered.v1'')"

record pipeline =
  pl_repo :: bool
  pl_hub :: bool
  pl_pub :: "nats option"
  pl_engine :: bool
  pl_topology :: bool
  pl_stream :: "(NetworkEvent \<Rightarrow> NetworkEvent) option"
  pl_observer :: bool
  pl_chains :: bool
  pl_signer :: "(NetworkEvent option \<Rightarrow> events_error option \<times> NetworkEvent option) option"
  pl_transparency :: bool

definition NewPipeline :: "bool \<Rightarrow> bool \<Rightarrow> nats option \<Rightarrow> pipeline" where
  "NewPipeline repo hub pub =
     \<lparr>pl_repo = repo, pl_hub = hub, pl_pub = pub, pl_engine = False, pl_topology = False, pl_stream = None,
      pl_observer = False, pl_chains = False, pl_signer = None, pl_transparency = False\<rparr>"

datatype effect =
    EFailure string
  | EBroadcast NetworkEvent
  | EBroadcastAsset Asset
  | EPublish string Event
  | EOnEvent NetworkEvent
  | EOnAsset Asset
  | EAnalyze NetworkEvent
  | EObserve NetworkEvent
  | EChain NetworkEvent

text \<open>
  Serializers, and what one call draws from the clock, the generator of identifiers and the
  scheduler: how many of the two entries that publishing writes into the event's metadata
  map are in it when the goroutine of the hub encodes the event for a client.
\<close>

record bus_env =
  bv_uuid :: string
  bv_now :: gotime
  bv_hub_writes :: nat
  bv_canonical :: "NetworkEvent \<Rightarrow> bytes option"
  bv_events :: "NetworkEvent jcodec"
  bv_assets :: "Asset jcodec"

definition hydrate_event :: "bus_env \<Rightarrow> NetworkEvent \<Rightarrow> NetworkEvent" where
  "hydrate_event v e =
     (let e1 = (if ev_ID e = [] then e\<lparr>ev_ID := bv_uuid v\<rparr> else e)
      in if IsZero (ev_Timestamp e1) then e1\<lparr>ev_Timestamp := bv_now v\<rparr> else e1)"

definition enrich_event :: "pipeline \<Rightarrow> NetworkEvent \<Rightarrow> NetworkEvent" where
  "enrich_event p e = (case pl_stream p of None \<Rightarrow> e | Some f \<Rightarrow> f e)"

definition sign_event :: "pipeline \<Rightarrow> NetworkEvent \<Rightarrow> NetworkEvent \<times> effect list" where
  "sign_event p e =
     (case pl_signer p of
        None \<Rightarrow> (e, [])
      | Some sg \<Rightarrow>
          (case sg (Some e) of
             (err, eo) \<Rightarrow> ((case eo of None \<Rightarrow> e | Some e' \<Rightarrow> e'),
                          (case err of None \<Rightarrow> [] | Some _ \<Rightarrow> [EFailure ''sign_failed'']))))"

definition log_event ::
  "'db bolt \<Rightarrow> codec \<Rightarrow> pipeline \<Rightarrow> bus_env \<Rightarrow> NetworkEvent \<Rightarrow> 'db Tree \<Rightarrow> 'db Tree \<times> effect list" where
  "log_event B J p v e t =
     (if pl_transparency p \<and> isCriticalEvent e then
        (case CanonicalBytes (bv_canonical v) e of
           None \<Rightarrow> (t, [EFailure ''marshal_failed''])
         | Some canonical \<Rightarrow>
             (case AppendBytes B J (bv_now v) (str_bytes (transparencyKind (ev_Type e))) canonical (ev_Timestamp e) t of
                (Some err, t') \<Rightarrow> (t', [EFailure ''transparency_failed''])
              | (None, t') \<Rightarrow> (t', [])))
      else (t, []))"

definition persist_event ::
  "'db bolt \<Rightarrow> pipeline \<Rightarrow> bus_env \<Rightarrow> NetworkEvent \<Rightarrow> 'db Tree \<Rightarrow> 'db Tree" where
  "persist_event B p v e t =
     (if pl_repo p then t\<lparr>t_db := snd (LogEvent B (bv_events v) e (t_db t))\<rparr> else t)"

text \<open>
  The payload of the broker message is the event's own metadata map: the entries written
  into the payload also appear in the event that the later consumers receive. A nil map is
  replaced by a new one, which the event does not share.
\<close>

definition out_payload :: "NetworkEvent \<Rightarrow> metadata" where
  "out_payload e =
     (let m = (case ev_Metadata e of None \<Rightarrow> Map.empty | Some m \<Rightarrow> m)
      in Some (m(''source'' \<mapsto> AString (ev_Source e), ''destination'' \<mapsto> AString (ev_Destination e))))"

definition publish_event :: "pipeline \<Rightarrow> NetworkEvent \<Rightarrow> NetworkEvent \<times> effect list" where
  "publish_event p e =
     (case pl_pub p of
        None \<Rightarrow> (e, [])
      | Some nc \<Rightarrow>
          (let out = \<lparr>be_EventID = ev_ID e, be_EventType = ev_Type e, be_Timestamp = ev_Timestamp e,
                      be_SourceService = ''SIEM'', be_CorrelationID = [], be_Payload = out_payload e\<rparr>;
               e' = (if ev_Metadata e = None then e else e\<lparr>ev_Metadata := out_payload e\<rparr>)
           in (case Publish nc (spectreNetworkSubject (ev_Type e)) out of
                 None \<Rightarrow> (e', [EPublish (spectreNetworkSubject (ev_Type e)) out])
               | Some err \<Rightarrow> (e', [EFailure ''nats_disconnected'']))))"

text \<open>
  The hub queues the event with the same map and encodes it in another goroutine, before,
  between or after the two writes.
\<close>

definition broadcast_event :: "pipeline \<Rightarrow> bus_env \<Rightarrow> NetworkEvent \<Rightarrow> NetworkEvent" where
  "broadcast_event p v e =
     (case (pl_pub p, ev_Metadata e) of
        (Some nc, Some m) \<Rightarrow>
          e\<lparr>ev_Metadata := Some (m ++ map_of (take (bv_hub_writes v)
             [(''source'', AString (ev_Source e)), (''destination'', AString (ev_Destination e))]))\<rparr>
      | _ \<Rightarrow> e)"

definition analysis_effects :: "pipeline \<Rightarrow> NetworkEvent \<Rightarrow> effect list" where
  "analysis_effects p e =
     (if ev_Type e = EventAlert then []
      else (if pl_topology p then [EOnEvent e] else []) @ (if pl_engine p then [EAnalyze e] else []) @
           (if pl_observer p then [EObserve e] else []) @ (if pl_chains p then [EChain e] else []))"

definition PushNetworkEvent ::
  "'db bolt \<Rightarrow> codec \<Rightarrow> pipeline \<Rightarrow> bus_env \<Rightarrow> NetworkEvent \<Rightarrow> 'db Tree \<Rightarrow> 'db Tree \<times> effect list" where
  "PushNetworkEvent B J p v e0 t =
     (let e1 = enrich_event p (hydrate_event v e0);
          (e2, f1) = sign_event p e1;
          (t1, f2) = log_event B J p v e2 t;
          t2 = persist_event B p v e2 t1;
          f3 = (if pl_hub p then [EBroadcast (broadcast_event p v e2)] else []);
          (e3, f4) = publish_event p e2
      in (t2, f1 @ f2 @ f3 @ f4 @ analysis_effects p e3))"

definition PushAsset ::
  "'db bolt \<Rightarrow> pipeline \<Rightarrow> bus_env \<Rightarrow> (Asset \<Rightarrow> string) \<Rightarrow> Asset \<Rightarrow> 'db Tree \<Rightarrow> 'db Tree \<times> effect list" where
  "PushAsset B p v asset_json a0 t =
     (let a1 = (if as_ID a0 = [] then a0\<lparr>as_ID := bv_uuid v\<rparr> else a0);
          a2 = (if IsZero (as_FirstSeen a1) then a1\<lparr>as_FirstSeen := bv_now v\<rparr> else a1);
          a = a2\<lparr>as_LastSeen := bv_now v\<rparr>;
          t1 = (if pl_repo p then t\<lparr>t_db := snd (SaveAsset B (bv_assets v) a (t_db t))\<rparr> else t);
          out = \<lparr>be_EventID = as_ID a, be_EventType = ''TOPOLOGY_UPDATE'', be_Timestamp = bv_now v,
                 be_SourceService = [], be_CorrelationID = [],
                 be_Payload = Some [''asset'' \<mapsto> AString (asset_json a)]\<rparr>
      in (t1,
          (if pl_hub p then [EBroadcastAsset a] else []) @ (if pl_topology p then [EOnAsset a] else []) @
          (case pl_pub p of
             None \<Rightarrow> []
           | Some nc \<Rightarrow>
               (case Publish nc ''network.topology.updated.v1'' out of
                  None \<Rightarrow> [EPublish ''network.topology.updated.v1'' out]
                | Some err \<Rightarrow> []))))"

section \<open>Compliance messages\<close>

definition determineEventType :: "string \<Rightarrow> (string \<rightharpoonup> gany) \<Rightarrow> string" where
  "determineEventType subject raw =
     (if subject = ''neotron.compliance.violation.v1'' then EventAlert
      else if as_bool (raw ''passed'') = Some True then EventCompliance
      else if string_or_empty (raw ''severity'') \<in> {''block'', ''critical'', ''high''} then EventAlert
      else EventCompliance)"

text \<open>\<^verbatim>\<open>int\<close> of a float truncates towards zero (for values that fit an int).\<close>

definition int_of_float :: "rat \<Rightarrow> int" where
  "int_of_float q = (if q < 0 then - \<lfloor>- q\<rfloor> else \<lfloor>q\<rfloor>)"

definition handled_fields :: "string set" where
  "handled_fields = {''guardrail_name'', ''regulation'', ''severity'', ''passed'', ''audit_id'', ''timestamp'',
     ''confidence'', ''risk_score'', ''reputation'', ''agent_id'', ''agent_output_hash'', ''details'',
     ''subject'', ''source''}"

definition copy_float :: "(string \<rightharpoonup> gany) \<Rightarrow> string \<Rightarrow> string \<Rightarrow> (string \<rightharpoonup> gany) \<Rightarrow> (string \<rightharpoonup> gany)" where
  "copy_float raw from to m = (if as_float (raw from) = None then m else m(to := raw from))"

definition copy_string :: "(string \<rightharpoonup> gany) \<Rightarrow> string \<Rightarrow> string \<Rightarrow> (string \<rightharpoonup> gany) \<Rightarrow> (string \<rightharpoonup> gany)" where
  "copy_string raw from to m = (if as_string (raw from) = None then m else m(to := raw from))"

definition convert_metadata :: "string \<Rightarrow> (string \<rightharpoonup> gany) \<Rightarrow> (string \<rightharpoonup> gany)" where
  "convert_metadata subject raw =
     (let base =
        [''compliance_guardrail'' \<mapsto> AString (string_or_empty (raw ''guardrail_name'')),
         ''compliance_regulation'' \<mapsto> AString (string_or_empty (raw ''regulation'')),
         ''compliance_severity'' \<mapsto> AString (string_or_empty (raw ''severity'')),
         ''compliance_passed'' \<mapsto> ABool (as_bool (raw ''passed'') = Some True),
         ''compliance_audit_id'' \<mapsto>
           AInt (int_of_float (case as_float (raw ''audit_id'') of None \<Rightarrow> 0 | Some q \<Rightarrow> q)),
         ''nats_subject'' \<mapsto> AString subject, ''source_service'' \<mapsto> AString ''neotron''];
          m = copy_string raw ''details'' ''details''
                (copy_string raw ''agent_output_hash'' ''output_hash''
                (copy_string raw ''agent_id'' ''agent_id''
                (copy_float raw ''reputation'' ''compliance_reputation''
                (copy_float raw ''risk_score'' ''compliance_risk_score''
                (copy_float raw ''confidence'' ''compliance_confidence'' base)))))
      in (\<lambda>k. if k \<notin> handled_fields \<and> raw k \<noteq> None then raw k else m k))"

text \<open>\<open>parse_time\<close> is \<^verbatim>\<open>time.Parse\<close> for RFC 3339.\<close>

definition convertToNetworkEvent ::
  "(string \<Rightarrow> gotime option) \<Rightarrow> bus_env \<Rightarrow> string \<Rightarrow> (string \<rightharpoonup> gany) \<Rightarrow> NetworkEvent" where
  "convertToNetworkEvent parse_time v subject raw =
     \<lparr>ev_ID = bv_uuid v, ev_Type = determineEventType subject raw, ev_Source = ''neotron'',
      ev_Destination = string_or_empty (raw ''guardrail_name''),
      ev_Metadata = Some (convert_metadata subject raw),
      ev_Timestamp = (case as_string (raw ''timestamp'') of
                        None \<Rightarrow> bv_now v
                      | Some s \<Rightarrow> (case parse_time s of None \<Rightarrow> bv_now v | Some ts \<Rightarrow> ts)),
      ev_Signature = [], ev_SignerKeyID = []\<rparr>"

definition handleComplianceEvent ::
  "'db bolt \<Rightarrow> codec \<Rightarrow> (bytes \<Rightarrow> (string \<rightharpoonup> gany) option) \<Rightarrow> (string \<Rightarrow> gotime option) \<Rightarrow> pipeline \<Rightarrow> bus_env \<Rightarrow>
   string \<Rightarrow> bytes \<Rightarrow> 'db Tree \<Rightarrow> 'db Tree \<times> effect list" where
  "handleComplianceEvent B J json_map parse_time p v subject data t =
     (case json_map data of
        None \<Rightarrow> (t, [])
      | Some raw \<Rightarrow> PushNetworkEvent B J p v (convertToNetworkEvent parse_time v subject raw) t)"

text \<open>The subscription \<^verbatim>\<open>neotron.compliance.>\<close> matches every subject with that prefix.\<close>

definition subscribed :: "string \<Rightarrow> bool" where
  "subscribed subject \<longleftrightarrow>
     strings_HasPrefix subject ''neotron.compliance.'' \<and> subject \<noteq> ''neotron.compliance.''"

section \<open>Lemmas\<close>

lemma Verify_iff:
  "Verify K verify js s now e = None \<longleftrightarrow>
   IsSigned e \<and> (\<exists>kp c. GetKey K s (ev_SignerKeyID e) = Inr kp \<and> IsVerifyable (Some kp) now \<and>
     kp_Purpose kp = PurposeEventSigning \<and> CanonicalBytes js e = Some c \<and> verify (kp_Public kp) c (ev_Signature e))"
  by (auto simp: Verify_def split: sum.splits option.splits if_splits)

lemma Sign_verifies:
  assumes "mem_inv s" "ActiveKey memory_keystore s PurposeEventSigning = Inr kp"
    and "\<And>m. verify (kp_Public kp) m (sign (kp_Private kp) m)" "\<And>m. sign (kp_Private kp) m \<noteq> []"
    and "kp_ID kp \<noteq> []" "CanonicalBytes js e = Some c"
  shows "\<exists>e'. Sign memory_keystore sign js s (Some e) = (None, Some e') \<and>
    e' = e\<lparr>ev_Signature := sign (kp_Private kp) c, ev_SignerKeyID := kp_ID kp\<rparr> \<and>
    (IsVerifyable (Some kp) now \<longrightarrow> Verify memory_keystore verify js s now e' = None)"
proof -
  have "map_of s (kp_ID kp) = Some kp \<and> active_for PurposeEventSigning kp"
    using mks.active_found [OF assms(1)] assms(2) by (simp add: ActiveKey_def)
  then have "GetKey memory_keystore s (kp_ID kp) = Inr kp" "kp_Purpose kp = PurposeEventSigning"
    using mks.get [OF assms(1)] by (simp_all add: GetKey_def active_for_def)
  with assms show ?thesis by (simp add: Sign_def Verify_iff IsSigned_def)
qed

lemma BucketLeaves_fresh: "BucketLeaves \<noteq> BucketEvents" "BucketEvents \<noteq> BucketLeaves"
  by (simp_all add: BucketLeaves_def BucketEvents_def)

lemma AppendBytes_cases:
  assumes "AppendBytes B J now kind payload ts t = (r, t')"
  obtains (failed) e where "r = Some e" "t' = t"
    | (appended) raw where "r = None"
        "Append B J \<lparr>lf_Kind = gostring kind, lf_Timestamp = (if IsZero ts then now else ts), lf_Payload = payload\<rparr> t
           = (Inr (length (t_hashes t)), t')"
        "bk_Has B (t_db t) BucketLeaves"
        "bk_Put B (t_db t) BucketLeaves (encodeIndex (length (t_hashes t))) raw = (None, t_db t')"
proof -
  let ?leaf = "\<lparr>lf_Kind = gostring kind, lf_Timestamp = (if IsZero ts then now else ts), lf_Payload = payload\<rparr>"
  show thesis
  proof (cases "leaf_Marshal J ?leaf")
    case None
    with assms failed show thesis by (auto simp: AppendBytes_def Append_def Let_def)
  next
    case (Some raw)
    show thesis
    proof (cases "bk_Has B (t_db t) BucketLeaves")
      case False
      with Some assms failed show thesis by (auto simp: AppendBytes_def Append_def Let_def)
    next
      case True
      show thesis
      proof (cases rule: db_Update_cases [of B LogOther "bput B LogOther BucketLeaves (encodeIndex (length (t_hashes t))) raw" "t_db t"])
        case (failed e)
        with Some True assms that(1) show thesis by (auto simp: AppendBytes_def Append_def Let_def)
      next
        case (committed db')
        with Some True assms that(2) show thesis
          by (auto simp: AppendBytes_def Append_def Let_def bput_def split: prod.splits)
      qed
    qed
  qed
qed

context log_store
begin

lemma log_ok_other_bucket:
  assumes "log_ok B J t ps" "bk_Has B (t_db t) b" "bk_Put B (t_db t) b k v = (None, db')" "b \<noteq> BucketLeaves"
  shows "log_ok B J (t\<lparr>t_db := db'\<rparr>) ps"
  using assms items_put_other [OF assms(2,3), of BucketLeaves] put_has [OF assms(2,3)]
  by (auto simp: log_ok_def)

lemma log_event_effect:
  assumes "log_ok B J t ps" "length ps < 2 ^ 64" "log_event B J p v e t = (t', f)"
  shows "(if pl_transparency p \<and> isCriticalEvent e
      then (f = [] \<and> (\<exists>c. CanonicalBytes (bv_canonical v) e = Some c \<and> log_ok B J t' (ps @ [c])))
         \<or> (f = [EFailure ''marshal_failed''] \<and> CanonicalBytes (bv_canonical v) e = None \<and> t' = t)
         \<or> (f = [EFailure ''transparency_failed''] \<and> t' = t)
      else f = [] \<and> t' = t)"
    and "bk_Get B (t_db t') BucketEvents = bk_Get B (t_db t) BucketEvents"
    and "bk_Has B (t_db t') = bk_Has B (t_db t)"
proof -
  consider (skip) "\<not> (pl_transparency p \<and> isCriticalEvent e)" "t' = t" "f = []"
    | (unserializable) "pl_transparency p" "isCriticalEvent e" "t' = t" "f = [EFailure ''marshal_failed'']"
        "CanonicalBytes (bv_canonical v) e = None"
    | (append) c r where "pl_transparency p" "isCriticalEvent e" "CanonicalBytes (bv_canonical v) e = Some c"
        "AppendBytes B J (bv_now v) (str_bytes (transparencyKind (ev_Type e))) c (ev_Timestamp e) t = (r, t')"
        "f = (case r of None \<Rightarrow> [] | Some _ \<Rightarrow> [EFailure ''transparency_failed''])"
    using assms(3) by (auto simp: log_event_def split: if_splits option.splits prod.splits)
  then have all: "(if pl_transparency p \<and> isCriticalEvent e
      then (f = [] \<and> (\<exists>c. CanonicalBytes (bv_canonical v) e = Some c \<and> log_ok B J t' (ps @ [c])))
         \<or> (f = [EFailure ''marshal_failed''] \<and> CanonicalBytes (bv_canonical v) e = None \<and> t' = t)
         \<or> (f = [EFailure ''transparency_failed''] \<and> t' = t)
      else f = [] \<and> t' = t) \<and>
    bk_Get B (t_db t') BucketEvents = bk_Get B (t_db t) BucketEvents \<and> bk_Has B (t_db t') = bk_Has B (t_db t)"
  proof cases
    case (append c r)
    from append(4) show ?thesis
    proof (cases rule: AppendBytes_cases)
      case (failed err)
      with append show ?thesis by simp
    next
      case (appended raw)
      have "log_ok B J t' (ps @ [c])"
        using append_ok [OF assms(1,2)] appended(2) by (metis Inl_Inr_False Leaf.select_convs(3) Pair_inject)
      moreover have "bk_Get B (t_db t') BucketEvents = bk_Get B (t_db t) BucketEvents"
        using put_get [OF appended(3,4)] BucketLeaves_fresh by (intro ext) simp
      ultimately show ?thesis using append appended put_has [OF appended(3,4)] by simp
    qed
  qed auto
  then show "(if pl_transparency p \<and> isCriticalEvent e
      then (f = [] \<and> (\<exists>c. CanonicalBytes (bv_canonical v) e = Some c \<and> log_ok B J t' (ps @ [c])))
         \<or> (f = [EFailure ''marshal_failed''] \<and> CanonicalBytes (bv_canonical v) e = None \<and> t' = t)
         \<or> (f = [EFailure ''transparency_failed''] \<and> t' = t)
      else f = [] \<and> t' = t)"
    "bk_Get B (t_db t') BucketEvents = bk_Get B (t_db t) BucketEvents"
    "bk_Has B (t_db t') = bk_Has B (t_db t)"
    by blast+
qed

lemma persist_event_effect:
  assumes "log_ok B J t ps" "round_trips (bv_events v) e" "pl_repo p"
  shows "log_ok B J (persist_event B p v e t) ps"
    and "GetEvent B (bv_events v) (ev_ID e) (t_db (persist_event B p v e t)) = Inr e \<or> persist_event B p v e t = t"
proof -
  obtain r db' where save: "LogEvent B (bv_events v) e (t_db t) = (r, db')" by fastforce
  then have pe: "persist_event B p v e t = t\<lparr>t_db := db'\<rparr>" using assms(3) by (simp add: persist_event_def)
  note sv = save [unfolded LogEvent_def]
  show "log_ok B J (persist_event B p v e t) ps"
    using sv
  proof (cases rule: repo_save_cases)
    case (failed err)
    with pe assms(1) show ?thesis by simp
  next
    case (saved d)
    with pe log_ok_other_bucket [OF assms(1) saved(3,4)] BucketLeaves_fresh show ?thesis by simp
  qed
  show "GetEvent B (bv_events v) (ev_ID e) (t_db (persist_event B p v e t)) = Inr e \<or> persist_event B p v e t = t"
    using repo_save_get(1,3) [OF sv assms(2)] pe by (cases r) (auto simp: GetEvent_def)
qed

end

end
