(* ===== verification/Events_Properties.thy ===== *)
theory Events_Properties
  imports Events
begin

text \<open>
  The properties of the event bus: signatures, the provenance of what the pipeline stores,
  logs and broadcasts, and the message that comes back from the broker.
\<close>

section \<open>Lemmas\<close>


lemma Push_stages:
  assumes "PushNetworkEvent B J p v e0 t = (t', effs)"
  obtains e2 f1 t1 f2 e3 f4 where "sign_event p (enrich_event p (hydrate_event v e0)) = (e2, f1)"
    "log_event B J p v e2 t = (t1, f2)" "t' = persist_event B p v e2 t1" "publish_event p e2 = (e3, f4)"
    "effs = f1 @ f2 @ (if pl_hub p then [EBroadcast (broadcast_event p v e2)] else []) @ f4 @ analysis_effects p e3"
  using assms by (auto simp: PushNetworkEvent_def Let_def split: prod.splits)


section \<open>Signing\<close>

text \<open>
  Signatures. With an active event key, signing succeeds and changes nothing but the
  signature fields, whatever signature the event carried before; the result verifies as
  long as the key may verify. And an event verifies only if it carries a signature and the
  id of a stored key that is made for events, may verify at that time, and accepts the
  event's canonical bytes: an event altered so that its canonical bytes differ has to be
  signed anew.
\<close>

theorem event_signatures:
  assumes "mem_inv s" "ActiveKey memory_keystore s PurposeEventSigning = Inr kp"
    and "\<And>m. verify (kp_Public kp) m (sign (kp_Private kp) m)" "\<And>m. sign (kp_Private kp) m \<noteq> []"
    and "kp_ID kp \<noteq> []" "CanonicalBytes js e = Some c" "IsVerifyable (Some kp) now"
  shows "(\<exists>e'. Sign memory_keystore sign js s (Some e) = (None, Some e') \<and>
      e' = e\<lparr>ev_Signature := ev_Signature e', ev_SignerKeyID := kp_ID kp\<rparr> \<and>
      Verify memory_keystore verify js s now e' = None \<and>
      Sign memory_keystore sign js s (Some e') = (None, Some e')) \<and>
    (\<forall>d. Verify memory_keystore verify js s now d = None \<longrightarrow>
      (\<exists>kp c. map_of s (ev_SignerKeyID d) = Some kp \<and> kp_Purpose kp = PurposeEventSigning \<and>
        IsVerifyable (Some kp) now \<and> CanonicalBytes js d = Some c \<and> verify (kp_Public kp) c (ev_Signature d)))"
proof (intro conjI allI impI)
  let ?e = "e\<lparr>ev_Signature := sign (kp_Private kp) c, ev_SignerKeyID := kp_ID kp\<rparr>"
  have "Sign memory_keystore sign js s (Some e) = (None, Some ?e)" "Verify memory_keystore verify js s now ?e = None"
    using Sign_verifies [where verify = verify and sign = sign, OF assms(1-6), of now] assms(7) by auto
  moreover have "Sign memory_keystore sign js s (Some ?e) = (None, Some ?e)"
    using Sign_verifies [where verify = verify and sign = sign, OF assms(1-5), of js ?e c] assms(6) by simp
  ultimately show "\<exists>e'. Sign memory_keystore sign js s (Some e) = (None, Some e') \<and>
      e' = e\<lparr>ev_Signature := ev_Signature e', ev_SignerKeyID := kp_ID kp\<rparr> \<and>
      Verify memory_keystore verify js s now e' = None \<and>
      Sign memory_keystore sign js s (Some e') = (None, Some e')" by auto
next
  fix d
  assume "Verify memory_keystore verify js s now d = None"
  then show "\<exists>kp c. map_of s (ev_SignerKeyID d) = Some kp \<and> kp_Purpose kp = PurposeEventSigning \<and>
        IsVerifyable (Some kp) now \<and> CanonicalBytes js d = Some c \<and> verify (kp_Public kp) c (ev_Signature d)"
    using mks.get [OF assms(1)] by (auto simp: Verify_iff GetKey_def split: option.splits)
qed

definition sample_event_key :: KeyPair where
  "sample_event_key =
     \<lparr>kp_ID = ''k'', kp_Purpose = PurposeEventSigning, kp_Public = [1], kp_Private = [2],
      kp_Status = StatusKeyActive, kp_CreatedAt = 0, kp_NotBefore = 0, kp_NotAfter = 100\<rparr>"

definition bus_event :: "string \<Rightarrow> NetworkEvent" where
  "bus_event ty =
     \<lparr>ev_ID = ''e'', ev_Type = ty, ev_Source = ''10.0.0.5'', ev_Destination = [],
      ev_Metadata = Some Map.empty, ev_Timestamp = 7, ev_Signature = [], ev_SignerKeyID = []\<rparr>"

lemma sample_key_ok:
  "mem_inv [(''k'', sample_event_key)]"
  "ActiveKey memory_keystore [(''k'', sample_event_key)] PurposeEventSigning = Inr sample_event_key"
  "IsVerifyable (Some sample_event_key) 50" "kp_ID sample_event_key \<noteq> []"
  by (simp_all add: mem_inv_def sample_event_key_def ActiveKey_def memory_keystore_def
      mem_ActiveByPurpose_def IsVerifyable_def key_statuses)

theorem event_signatures_witness:
  "\<exists>e'. Sign memory_keystore (\<lambda>k m. [9]) (\<lambda>e. Some [4]) [(''k'', sample_event_key)] (Some (bus_event EventDNS)) = (None, Some e') \<and>
     Verify memory_keystore (\<lambda>k m sg. sg = [9]) (\<lambda>e. Some [4]) [(''k'', sample_event_key)] 50 e' = None"
  using event_signatures [OF sample_key_ok(1,2), of "\<lambda>k m sg. sg = [9]" "\<lambda>k m. [9]" "\<lambda>e. Some [4]"
      "bus_event EventDNS" "[4]" 50] sample_key_ok(3,4)
  by (auto simp: CanonicalBytes_def)

section \<open>The pipeline\<close>






section \<open>The loop through the broker\<close>

text \<open>
  The pipeline publishes compliance events on a subject that its own subscriber listens to.
  What the subscriber receives of the pipeline's own messages: the first message published
  on such a subject, as the broker delivers it. A connected broker that accepts the message
  hands every compliance event back to the process that sent it.
\<close>

fun own_message :: "nats \<Rightarrow> effect list \<Rightarrow> (string \<times> bytes) option" where
  "own_message nc [] = None"
| "own_message nc (EPublish subject out # fs) =
     (if subscribed subject then map_option (\<lambda>d. (subject, d)) (nc_marshal nc out) else own_message nc fs)"
| "own_message nc (_ # fs) = own_message nc fs"

definition siem_subject :: string where
  "siem_subject = ''neotron.compliance.siem.v1''"

text \<open>The enricher and the signer do not change the type of an event.\<close>

definition keeps_type :: "pipeline \<Rightarrow> bool" where
  "keeps_type p \<longleftrightarrow>
     (case pl_stream p of None \<Rightarrow> True | Some f \<Rightarrow> \<forall>e. ev_Type (f e) = ev_Type e) \<and>
     (case pl_signer p of None \<Rightarrow> True
      | Some sg \<Rightarrow> \<forall>e. case snd (sg (Some e)) of None \<Rightarrow> True | Some e' \<Rightarrow> ev_Type e' = ev_Type e)"

lemma own_message_skip:
  "\<forall>f \<in> set fs. \<forall>s out. f \<noteq> EPublish s out \<Longrightarrow> own_message nc (fs @ gs) = own_message nc gs"
proof (induction fs)
  case (Cons f fs)
  then show ?case by (cases f) simp_all
qed simp

lemma siem_subscribed: "subscribed siem_subject"
  by (simp add: subscribed_def siem_subject_def strings_HasPrefix_def)

lemma Push_compliance:
  assumes "keeps_type p" "pl_pub p = Some nc" "nc_connected nc" "\<And>e. nc_marshal nc e \<noteq> None"
    and "\<And>s d. nc_publish nc s d = None" "ev_Type e = EventCompliance"
    and "PushNetworkEvent B J p v e t = (t', effs)"
  obtains data out where "own_message nc effs = Some (siem_subject, data)" "nc_marshal nc out = Some data"
proof -
  obtain e2 f1 t1 f2 e3 f4 where st: "sign_event p (enrich_event p (hydrate_event v e)) = (e2, f1)"
    "log_event B J p v e2 t = (t1, f2)" "publish_event p e2 = (e3, f4)"
    "effs = f1 @ f2 @ (if pl_hub p then [EBroadcast (broadcast_event p v e2)] else []) @ f4 @ analysis_effects p e3"
    using Push_stages [OF assms(7)] by metis
  have "ev_Type (enrich_event p (hydrate_event v e)) = EventCompliance"
    using assms(1,6) by (auto simp: keeps_type_def enrich_event_def hydrate_event_def Let_def split: option.splits)
  then have ty: "ev_Type e2 = EventCompliance"
    using st(1) assms(1)
    by (auto simp: sign_event_def keeps_type_def split: option.splits prod.splits) (metis option.case snd_conv)+
  have quiet: "\<forall>f \<in> set f1. \<forall>s out. f \<noteq> EPublish s out" "\<forall>f \<in> set f2. \<forall>s out. f \<noteq> EPublish s out"
    using st(1,2) by (auto simp: sign_event_def log_event_def split: option.splits prod.splits if_splits)
  let ?out = "\<lparr>be_EventID = ev_ID e2, be_EventType = ev_Type e2, be_Timestamp = ev_Timestamp e2,
     be_SourceService = ''SIEM'', be_CorrelationID = [], be_Payload = out_payload e2\<rparr>"
  obtain data where data: "nc_marshal nc ?out = Some data" using assms(4) by blast
  have subj: "spectreNetworkSubject EventCompliance = siem_subject"
    by (simp add: spectreNetworkSubject_def siem_subject_def event_types)
  have "f4 = [EPublish siem_subject ?out]"
    using st(3) assms(2,3,5) data ty by (auto simp: publish_event_def Publish_def Let_def subj)
  then have "own_message nc effs = Some (siem_subject, data)"
    using st(4) quiet data siem_subscribed own_message_skip [of f1 nc] own_message_skip [of f2 nc] by simp
  with data that show thesis by blast
qed

section \<open>The metadata map is shared\<close>

text \<open>
  With a broker configured, the event handed to the analysis differs from the event that was
  signed and stored whenever it carries metadata: the payload of the message is the same map.
\<close>

lemma analysis_sees_altered_event:
  assumes "pl_pub p = Some nc" "ev_Metadata e = Some m" "m ''source'' = None" "pl_engine p" "ev_Type e \<noteq> EventAlert"
  shows "\<exists>e'. EAnalyze e' \<in> set (analysis_effects p (fst (publish_event p e))) \<and> ev_Metadata e' \<noteq> ev_Metadata e"
proof -
  let ?e = "e\<lparr>ev_Metadata := out_payload e\<rparr>"
  have "fst (publish_event p e) = ?e"
    using assms(1,2) by (simp add: publish_event_def Let_def split: option.splits)
  moreover have "out_payload e \<noteq> ev_Metadata e"
    using assms(2,3) by (auto simp: out_payload_def dest: fun_cong [of _ _ "''source''"])
  ultimately show ?thesis using assms(4,5) by (auto simp: analysis_effects_def intro!: exI [of _ ?e])
qed

end
