(* ===== verification/Stream_Processor.thy ===== *)
theory Stream_Processor
  imports GoLib Models
begin

text \<open>
  The stream processor of \<^verbatim>\<open>internal/analytics/stream\<close>: the bounded ring buffer of recent
  events (\<^verbatim>\<open>buffer.go\<close>), the per-minute counters behind the sliding windows (\<^verbatim>\<open>window.go\<close>),
  address normalization (\<^verbatim>\<open>normalizer.go\<close>) and the enrichment step of the pipeline
  (\<^verbatim>\<open>processor.go\<close>). The ring buffer implements a bounded queue, which is stated as a locale.
\<close>

section \<open>The ring buffer\<close>

definition PolicyDropOldest :: string where "PolicyDropOldest = ''drop_oldest''"
definition PolicyDropNewest :: string where "PolicyDropNewest = ''drop_newest''"

record circularBuffer =
  cb_data :: "NetworkEvent list"
  cb_head :: nat
  cb_count :: nat
  cb_capacity :: nat
  cb_policy :: string
  cb_dropped :: u64

datatype buffer_error = ErrBufferFull

definition zero_event :: NetworkEvent where
  "zero_event =
     \<lparr>ev_ID = [], ev_Type = [], ev_Source = [], ev_Destination = [], ev_Metadata = None, ev_Timestamp = 0,
      ev_Signature = [], ev_SignerKeyID = []\<rparr>"

definition newCircularBuffer :: "int \<Rightarrow> string \<Rightarrow> circularBuffer" where
  "newCircularBuffer capacity policy =
     (let cap = nat (if capacity \<le> 0 then 10000 else capacity)
      in \<lparr>cb_data = replicate cap zero_event, cb_head = 0, cb_count = 0, cb_capacity = cap,
          cb_policy = (if policy \<noteq> PolicyDropNewest then PolicyDropOldest else policy), cb_dropped = 0\<rparr>)"

definition buf_push :: "NetworkEvent \<Rightarrow> circularBuffer \<Rightarrow> buffer_error option \<times> circularBuffer" where
  "buf_push e b =
     (if cb_count b = cb_capacity b \<and> cb_policy b = PolicyDropNewest then
        (Some ErrBufferFull, b\<lparr>cb_dropped := cb_dropped b + 1\<rparr>)
      else
        (None,
         b\<lparr>cb_dropped := (if cb_count b = cb_capacity b then cb_dropped b + 1 else cb_dropped b),
           cb_data := (cb_data b)[cb_head b := e],
           cb_head := (cb_head b + 1) mod cb_capacity b,
           cb_count := (if cb_count b < cb_capacity b then cb_count b + 1 else cb_count b)\<rparr>))"

definition buf_len :: "circularBuffer \<Rightarrow> nat" where
  "buf_len b = cb_count b"

definition Dropped :: "circularBuffer \<Rightarrow> u64" where
  "Dropped b = cb_dropped b"

definition snapshot :: "circularBuffer \<Rightarrow> NetworkEvent list" where
  "snapshot b =
     (let start = (cb_head b + cb_capacity b - cb_count b) mod cb_capacity b
      in map (\<lambda>i. cb_data b ! ((start + i) mod cb_capacity b)) [0..<cb_count b])"

section \<open>The per-minute counters\<close>

definition bucketDuration :: duration where "bucketDuration = time_Minute"
definition totalBuckets :: nat where "totalBuckets = 15"

record bucket =
  bu_ts :: gotime
  bu_counts :: "(string \<times> (string \<times> nat) list) list"

definition newBucket :: "gotime \<Rightarrow> bucket" where
  "newBucket ts = \<lparr>bu_ts = ts, bu_counts = []\<rparr>"

definition bucket_record :: "string \<Rightarrow> string \<Rightarrow> bucket \<Rightarrow> bucket" where
  "bucket_record ip ty b =
     (let types = (case map_of (bu_counts b) ip of None \<Rightarrow> [] | Some ts \<Rightarrow> ts);
          n = (case map_of types ty of None \<Rightarrow> 0 | Some n \<Rightarrow> n)
      in b\<lparr>bu_counts := AList.update ip (AList.update ty (n + 1) types) (bu_counts b)\<rparr>)"

record WindowStats =
  ws_IP :: string
  ws_Count1m :: nat
  ws_Count5m :: nat
  ws_Count15m :: nat
  ws_Rate1m :: rat

record windower =
  wi_buckets :: "bucket list"
  wi_current :: nat

definition Truncate :: "gotime \<Rightarrow> duration \<Rightarrow> gotime" where
  "Truncate t d = t - t mod d"

definition newWindower :: "gotime \<Rightarrow> windower" where
  "newWindower now =
     \<lparr>wi_buckets = replicate totalBuckets (newBucket (Truncate now bucketDuration)), wi_current = 0\<rparr>"

definition win_record :: "gotime \<Rightarrow> string \<Rightarrow> string \<Rightarrow> windower \<Rightarrow> windower" where
  "win_record clock ip ty w =
     (let now = Truncate clock bucketDuration;
          w1 = (if now > bu_ts (wi_buckets w ! wi_current w)
                then (let c = (wi_current w + 1) mod totalBuckets
                      in \<lparr>wi_buckets = (wi_buckets w)[c := newBucket now], wi_current = c\<rparr>)
                else w);
          c = wi_current w1
      in w1\<lparr>wi_buckets := (wi_buckets w1)[c := bucket_record ip ty (wi_buckets w1 ! c)]\<rparr>)"

definition bucket_total :: "string \<Rightarrow> bucket \<Rightarrow> nat" where
  "bucket_total ip b =
     (case map_of (bu_counts b) ip of None \<Rightarrow> 0 | Some types \<Rightarrow> sum_list (map snd types))"

text \<open>The buckets from the active one backwards.\<close>

definition recent :: "windower \<Rightarrow> bucket list" where
  "recent w = map (\<lambda>i. wi_buckets w ! ((wi_current w + totalBuckets - i) mod totalBuckets)) [0..<totalBuckets]"

definition win_stats :: "string \<Rightarrow> windower \<Rightarrow> WindowStats" where
  "win_stats ip w =
     (let totals = map (bucket_total ip) (recent w);
          c1 = sum_list (take 1 totals)
      in \<lparr>ws_IP = ip, ws_Count1m = c1, ws_Count5m = sum_list (take 5 totals), ws_Count15m = sum_list totals,
          ws_Rate1m = rat_of_nat c1 / 60\<rparr>)"

text \<open>
  The addresses of the five most recent buckets, in the order a map iteration may take
  them, sorted by an insertion sort that moves an entry left past smaller ones.
\<close>

fun sink :: "WindowStats \<Rightarrow> WindowStats list \<Rightarrow> WindowStats list" where
  "sink x [] = [x]"
| "sink x (y # ys) = (if ws_Count5m x > ws_Count5m y then y # sink x ys else x # y # ys)"

definition insertion_sort :: "WindowStats list \<Rightarrow> WindowStats list" where
  "insertion_sort xs = rev (fold sink xs [])"

definition topIPs :: "int \<Rightarrow> windower \<Rightarrow> WindowStats list" where
  "topIPs n w =
     (let ips = remdups (concat (map (\<lambda>b. map fst (bu_counts b)) (take 5 (recent w))));
          result = insertion_sort (map (\<lambda>ip. win_stats ip w) ips)
      in if n > 0 \<and> int (length result) > n then take (nat n) result else result)"

section \<open>Normalization and enrichment\<close>

text \<open>\<^verbatim>\<open>net.SplitHostPort\<close> and \<^verbatim>\<open>net.ParseIP\<close>; an address is multicast or not and prints as a text.\<close>

record ip_addr =
  ip_multicast :: bool
  ip_String :: string

record netlib =
  nl_SplitHost :: "string \<Rightarrow> string option"
  nl_ParseIP :: "string \<Rightarrow> ip_addr option"
  nl_TrimSpace :: "string \<Rightarrow> string"

definition normalizeIP :: "netlib \<Rightarrow> string \<Rightarrow> string" where
  "normalizeIP N raw =
     (if raw = [] then []
      else
        (let host = (case nl_SplitHost N raw of None \<Rightarrow> raw | Some h \<Rightarrow> h)
         in (case nl_ParseIP N (nl_TrimSpace N host) of
               None \<Rightarrow> raw
             | Some ip \<Rightarrow> if ip_multicast ip then [] else ip_String ip)))"

definition Normalize :: "netlib \<Rightarrow> NetworkEvent \<Rightarrow> NetworkEvent" where
  "Normalize N e =
     e\<lparr>ev_Source := normalizeIP N (ev_Source e), ev_Destination := normalizeIP N (ev_Destination e)\<rparr>"

record Processor =
  ps_buf :: circularBuffer
  ps_win :: windower

definition NewProcessor :: "gotime \<Rightarrow> int \<Rightarrow> string \<Rightarrow> Processor" where
  "NewProcessor now bufferSize policy =
     \<lparr>ps_buf = newCircularBuffer (if bufferSize \<le> 0 then 10000 else bufferSize)
        (if policy \<noteq> PolicyDropNewest then PolicyDropOldest else policy),
      ps_win = newWindower now\<rparr>"

text \<open>\<open>rate_text\<close> is what \<^verbatim>\<open>fmt\<close> prints for a rate.\<close>

definition annotate :: "(rat \<Rightarrow> string) \<Rightarrow> WindowStats \<Rightarrow> metadata \<Rightarrow> metadata" where
  "annotate rate_text st md =
     Some ((case md of None \<Rightarrow> Map.empty | Some m \<Rightarrow> m)
       (''stream.count_1m'' \<mapsto> AInt (int (ws_Count1m st)), ''stream.count_5m'' \<mapsto> AInt (int (ws_Count5m st)),
        ''stream.count_15m'' \<mapsto> AInt (int (ws_Count15m st)),
        ''stream.rate_1m'' \<mapsto> AFloat (ws_Rate1m st) (rate_text (ws_Rate1m st))))"

text \<open>
  The counters are updated before they are read. The buffer keeps a copy of the event whose
  metadata is the same map, unless it was nil, so the annotations also appear there.
\<close>

definition TryEnrich ::
  "netlib \<Rightarrow> (rat \<Rightarrow> string) \<Rightarrow> gotime \<Rightarrow> NetworkEvent \<Rightarrow> Processor \<Rightarrow>
   (NetworkEvent \<times> buffer_error option) \<times> Processor" where
  "TryEnrich N rate_text now e p =
     (let e1 = Normalize N e;
          w = (if ev_Source e1 \<noteq> [] then win_record now (ev_Source e1) (ev_Type e1) (ps_win p) else ps_win p);
          e2 = (if ev_Source e1 \<noteq> []
                then e1\<lparr>ev_Metadata := annotate rate_text (win_stats (ev_Source e1) w) (ev_Metadata e1)\<rparr>
                else e1\<lparr>ev_Metadata := Some (case ev_Metadata e1 of None \<Rightarrow> Map.empty | Some m \<Rightarrow> m)\<rparr>);
          (err, b) = buf_push (if ev_Metadata e1 = None then e1 else e2) (ps_buf p)
      in ((e2, err), \<lparr>ps_buf = b, ps_win = w\<rparr>))"

definition Enrich ::
  "netlib \<Rightarrow> (rat \<Rightarrow> string) \<Rightarrow> gotime \<Rightarrow> NetworkEvent \<Rightarrow> Processor \<Rightarrow> NetworkEvent \<times> Processor" where
  "Enrich N rate_text now e p = (case TryEnrich N rate_text now e p of ((e', _), p') \<Rightarrow> (e', p'))"

record ProcessorStats =
  pst_BufferedEvents :: nat
  pst_DroppedEvents :: u64
  pst_Policy :: string
  pst_TopIPs :: "WindowStats list"

definition Stats :: "Processor \<Rightarrow> ProcessorStats" where
  "Stats p =
     \<lparr>pst_BufferedEvents = buf_len (ps_buf p), pst_DroppedEvents = Dropped (ps_buf p),
      pst_Policy = cb_policy (ps_buf p), pst_TopIPs = topIPs 10 (ps_win p)\<rparr>"

definition WindowStatsForIP :: "string \<Rightarrow> Processor \<Rightarrow> WindowStats" where
  "WindowStatsForIP ip p = win_stats ip (ps_win p)"

section \<open>Bounded queues\<close>

locale bounded_queue =
  fixes push :: "'e \<Rightarrow> 'q \<Rightarrow> 'err option \<times> 'q"
    and contents :: "'q \<Rightarrow> 'e list"
    and inv :: "'q \<Rightarrow> bool"
    and cap :: "'q \<Rightarrow> nat"
    and keeps_old :: "'q \<Rightarrow> bool"
    and drops :: "'q \<Rightarrow> u64"
  assumes push_inv: "inv q \<Longrightarrow> inv (snd (push e q))"
    and bounded: "inv q \<Longrightarrow> length (contents q) \<le> cap q"
    and cap_pos: "inv q \<Longrightarrow> 0 < cap q"
    and push_cap: "inv q \<Longrightarrow> cap (snd (push e q)) = cap q"
    and push_keeps: "inv q \<Longrightarrow> keeps_old (snd (push e q)) = keeps_old q"
    and room: "inv q \<Longrightarrow> length (contents q) < cap q \<Longrightarrow>
      fst (push e q) = None \<and> contents (snd (push e q)) = contents q @ [e] \<and> drops (snd (push e q)) = drops q"
    and full_keep: "inv q \<Longrightarrow> length (contents q) = cap q \<Longrightarrow> keeps_old q \<Longrightarrow>
      fst (push e q) \<noteq> None \<and> contents (snd (push e q)) = contents q"
    and full_drop: "inv q \<Longrightarrow> length (contents q) = cap q \<Longrightarrow> \<not> keeps_old q \<Longrightarrow>
      fst (push e q) = None \<and> contents (snd (push e q)) = tl (contents q) @ [e]"
    and full_count: "inv q \<Longrightarrow> length (contents q) = cap q \<Longrightarrow> drops (snd (push e q)) = drops q + 1"
begin

definition pushes :: "'e list \<Rightarrow> 'q \<Rightarrow> 'q" where
  "pushes es q = fold (\<lambda>e q. snd (push e q)) es q"

lemma pushes_spec:
  assumes "inv q" "contents q = []"
  shows "inv (pushes es q) \<and> cap (pushes es q) = cap q \<and> keeps_old (pushes es q) = keeps_old q \<and>
    contents (pushes es q) = (if keeps_old q then take (cap q) es else drop (length es - cap q) es) \<and>
    drops (pushes es q) = drops q + of_nat (length es - cap q)"
proof (induction es rule: rev_induct)
  case Nil
  then show ?case using assms by (simp add: pushes_def)
next
  case (snoc e es)
  let ?q = "pushes es q"
  have step: "pushes (es @ [e]) q = snd (push e ?q)" by (simp add: pushes_def)
  note q = snoc.IH cap_pos [OF assms(1)]
  then have len: "length (contents ?q) = min (cap q) (length es)" by auto
  show ?case
  proof (cases "length es < cap q")
    case True
    with q len room [of ?q e] push_inv [of ?q e] push_cap [of ?q e] push_keeps [of ?q e] show ?thesis
      unfolding step by auto
  next
    case False
    then have full: "length (contents ?q) = cap ?q" using len q by simp
    have sd: "Suc (length es) - cap q = Suc (length es - cap q)" using False by simp
    have "contents (snd (push e ?q)) = (if keeps_old q then take (cap q) (es @ [e]) else drop (length (es @ [e]) - cap q) (es @ [e]))"
      using full_keep [of ?q e] full_drop [of ?q e] full q False
      by (auto simp: sd drop_Suc tl_drop [symmetric])
    with q full full_count [of ?q e] push_inv [of ?q e] push_cap [of ?q e] push_keeps [of ?q e] False show ?thesis
      unfolding step by (simp add: sd)
  qed
qed

end

section \<open>The ring buffer is a bounded queue\<close>

definition buf_inv :: "circularBuffer \<Rightarrow> bool" where
  "buf_inv b \<longleftrightarrow> 0 < cb_capacity b \<and> length (cb_data b) = cb_capacity b \<and> cb_head b < cb_capacity b \<and>
     cb_count b \<le> cb_capacity b"

lemma length_snapshot [simp]: "length (snapshot b) = cb_count b"
  by (simp add: snapshot_def Let_def)

lemma snapshot_nth:
  "i < cb_count b \<Longrightarrow>
   snapshot b ! i = cb_data b ! ((cb_head b + cb_capacity b - cb_count b + i) mod cb_capacity b)"
  by (simp add: snapshot_def Let_def mod_add_left_eq)

text \<open>Positions in the ring: the next free one is the head, the others differ from it.\<close>

lemma ring_head:
  fixes h c k :: nat
  assumes "h < c" "k \<le> c"
  shows "(h + c - k + k) mod c = h"
  using assms by simp

lemma ring_other:
  fixes h c k i :: nat
  assumes "h < c" "k < c" "i < k"
  shows "(h + c - k + i) mod c \<noteq> h"
proof (cases "h + c - k + i < c")
  case True
  then show ?thesis using assms by simp
next
  case False
  then have "(h + c - k + i) mod c = h + c - k + i - c" using assms by (simp add: mod_if)
  then show ?thesis using assms False by simp
qed

lemma snapshot_room:
  assumes "buf_inv b" "cb_count b < cb_capacity b"
  shows "snapshot (b\<lparr>cb_data := (cb_data b)[cb_head b := e], cb_head := (cb_head b + 1) mod cb_capacity b,
      cb_count := cb_count b + 1\<rparr>) = snapshot b @ [e]"
    (is "snapshot ?b = _")
proof (rule nth_equalityI)
  fix i
  assume "i < length (snapshot ?b)"
  then have i: "i \<le> cb_count b" by simp
  let ?c = "cb_capacity b"
  have "((cb_head b + 1) mod ?c + ?c - (cb_count b + 1) + i) mod ?c = (cb_head b + ?c - cb_count b + i) mod ?c"
  proof (cases "cb_head b + 1 = ?c")
    case True
    then have "(cb_head b + 1) mod ?c + ?c - (cb_count b + 1) + i + ?c = cb_head b + ?c - cb_count b + i"
      using assms by simp
    then show ?thesis by (metis mod_add_self2)
  next
    case False
    then show ?thesis using assms by (simp add: buf_inv_def)
  qed
  moreover have "(cb_head b + ?c - cb_count b + i) mod ?c = cb_head b \<longleftrightarrow> i = cb_count b"
    using i [unfolded le_less] assms ring_head [of "cb_head b" ?c "cb_count b"]
      ring_other [of "cb_head b" ?c "cb_count b" i]
    by (auto simp: buf_inv_def)
  ultimately show "snapshot ?b ! i = (snapshot b @ [e]) ! i"
    using i assms by (auto simp: snapshot_nth nth_append buf_inv_def nth_list_update)
qed simp

lemma snapshot_full:
  assumes "buf_inv b" "cb_count b = cb_capacity b"
  shows "snapshot (b\<lparr>cb_data := (cb_data b)[cb_head b := e], cb_head := (cb_head b + 1) mod cb_capacity b\<rparr>)
    = tl (snapshot b) @ [e]"
    (is "snapshot ?b = _")
proof (rule nth_equalityI)
  show "length (snapshot ?b) = length (tl (snapshot b) @ [e])" using assms by (simp add: buf_inv_def)
  fix i
  assume "i < length (snapshot ?b)"
  then have i: "i < cb_capacity b" using assms by simp
  let ?c = "cb_capacity b"
  have pos: "((cb_head b + 1) mod ?c + ?c - ?c + i) mod ?c = (cb_head b + Suc i) mod ?c"
    by (simp add: mod_add_left_eq)
  have "(cb_head b + Suc i) mod ?c = cb_head b \<longleftrightarrow> Suc i = ?c"
  proof (cases "cb_head b + Suc i < ?c")
    case False
    then have "(cb_head b + Suc i) mod ?c = cb_head b + Suc i - ?c"
      using i assms by (auto simp: buf_inv_def mod_if)
    then show ?thesis using False i assms by (auto simp: buf_inv_def)
  qed (use assms in \<open>auto simp: buf_inv_def\<close>)
  then show "snapshot ?b ! i = (tl (snapshot b) @ [e]) ! i"
    using i assms pos by (auto simp: snapshot_nth nth_append nth_tl buf_inv_def)
qed

interpretation ring: bounded_queue buf_push snapshot buf_inv cb_capacity "\<lambda>b. cb_policy b = PolicyDropNewest" cb_dropped
proof (unfold_locales, goal_cases)
  case (6 q e)
  then have "cb_count q < cb_capacity q" by simp
  then show ?case using snapshot_room [OF 6(1), of e] by (simp add: buf_push_def snapshot_def)
next
  case (8 q e)
  then show ?case using snapshot_full [OF 8(1)] by (simp add: buf_push_def snapshot_def)
qed (auto simp: buf_push_def buf_inv_def snapshot_def)

section \<open>The counters as a list of minutes\<close>

definition win_ok :: "windower \<Rightarrow> bool" where
  "win_ok w \<longleftrightarrow> length (wi_buckets w) = totalBuckets \<and> wi_current w < totalBuckets"

lemma length_recent [simp]: "length (recent w) = totalBuckets"
  by (simp add: recent_def)

lemma totalBuckets_pos: "0 < totalBuckets"
  by (simp add: totalBuckets_def)

lemma recent_nth: "i < totalBuckets \<Longrightarrow>
  recent w ! i = wi_buckets w ! ((wi_current w + totalBuckets - i) mod totalBuckets)"
  by (simp add: recent_def)

lemma recent_hd: "win_ok w \<Longrightarrow> hd (recent w) = wi_buckets w ! wi_current w"
  using totalBuckets_pos recent_nth [of 0 w]
  by (metis add.commute diff_zero hd_conv_nth length_recent list.size(3) mod_add_self1 mod_less nat_neq_iff win_ok_def)

lemma back_other:
  fixes c n j :: nat
  assumes "c < n" "0 < j" "j < n"
  shows "(c + n - j) mod n \<noteq> c"
proof (cases "j \<le> c")
  case True
  then have "(c + n - j) mod n = c - j" using assms by (metis Nat.add_diff_assoc2 mod_add_self2 mod_less less_imp_diff_less)
  then show ?thesis using assms True by simp
next
  case False
  then show ?thesis using assms by simp
qed

lemma back_next:
  fixes c n j :: nat
  assumes "c < n" "j < n"
  shows "((c + 1) mod n + n - Suc j) mod n = (c + n - j) mod n"
proof (cases "c + 1 = n")
  case True
  then have "(c + 1) mod n + n - Suc j + n = c + n - j" using assms by simp
  then show ?thesis by (metis mod_add_self2)
next
  case False
  then show ?thesis using assms by simp
qed

lemma recent_rotate:
  assumes "win_ok w"
  shows "recent \<lparr>wi_buckets = (wi_buckets w)[(wi_current w + 1) mod totalBuckets := b],
      wi_current = (wi_current w + 1) mod totalBuckets\<rparr> = b # butlast (recent w)"
    (is "recent ?w = _")
proof (rule nth_equalityI)
  show "length (recent ?w) = length (b # butlast (recent w))" using totalBuckets_pos by simp
  fix i
  assume "i < length (recent ?w)"
  then have i: "i < totalBuckets" by simp
  let ?c = "(wi_current w + 1) mod totalBuckets"
  have c: "?c < totalBuckets" using totalBuckets_pos by simp
  show "recent ?w ! i = (b # butlast (recent w)) ! i"
  proof (cases i)
    case 0
    then show ?thesis using i c assms by (simp add: recent_nth win_ok_def)
  next
    case (Suc j)
    have "(?c + totalBuckets - Suc j) mod totalBuckets \<noteq> ?c" using back_other [OF c, of "Suc j"] i Suc by simp
    moreover have "(?c + totalBuckets - Suc j) mod totalBuckets = (wi_current w + totalBuckets - j) mod totalBuckets"
      using back_next [of "wi_current w" totalBuckets j] assms i Suc by (simp add: win_ok_def)
    ultimately have "recent ?w ! i = recent w ! j" using i Suc by (simp add: recent_nth)
    then show ?thesis using i Suc by (simp add: nth_butlast)
  qed
qed

lemma recent_update:
  assumes "win_ok w"
  shows "recent (w\<lparr>wi_buckets := (wi_buckets w)[wi_current w := b]\<rparr>) = b # tl (recent w)"
    (is "recent ?w = _")
proof (rule nth_equalityI)
  show "length (recent ?w) = length (b # tl (recent w))" using totalBuckets_pos by simp
  fix i
  assume "i < length (recent ?w)"
  then have i: "i < totalBuckets" by simp
  show "recent ?w ! i = (b # tl (recent w)) ! i"
  proof (cases i)
    case 0
    then show ?thesis using i assms by (simp add: recent_nth win_ok_def)
  next
    case (Suc j)
    have "(wi_current w + totalBuckets - i) mod totalBuckets \<noteq> wi_current w"
      using back_other [of "wi_current w" totalBuckets i] assms i Suc by (simp add: win_ok_def)
    then have "recent ?w ! i = recent w ! i" using i by (simp add: recent_nth)
    then show ?thesis using i Suc by (simp add: nth_tl)
  qed
qed

abbreviation minute :: "gotime \<Rightarrow> gotime" where
  "minute t \<equiv> Truncate t bucketDuration"

lemma recent_record:
  assumes "win_ok w"
  shows "win_ok (win_record t ip ty w)"
    and "recent (win_record t ip ty w) =
      (let bs = (if minute t > bu_ts (hd (recent w)) then newBucket (minute t) # butlast (recent w) else recent w)
       in bucket_record ip ty (hd bs) # tl bs)"
proof -
  let ?c = "(wi_current w + 1) mod totalBuckets"
  let ?w = "if minute t > bu_ts (wi_buckets w ! wi_current w)
    then \<lparr>wi_buckets = (wi_buckets w)[?c := newBucket (minute t)], wi_current = ?c\<rparr> else w"
  have ok: "win_ok ?w" using assms totalBuckets_pos by (simp add: win_ok_def)
  have rec: "win_record t ip ty w =
      ?w\<lparr>wi_buckets := (wi_buckets ?w)[wi_current ?w := bucket_record ip ty (wi_buckets ?w ! wi_current ?w)]\<rparr>"
    by (simp add: win_record_def Let_def)
  show "win_ok (win_record t ip ty w)" unfolding rec using ok by (simp add: win_ok_def)
  have "recent ?w = (if minute t > bu_ts (hd (recent w)) then newBucket (minute t) # butlast (recent w) else recent w)"
    using recent_rotate [OF assms] recent_hd [OF assms] by simp
  then show "recent (win_record t ip ty w) =
      (let bs = (if minute t > bu_ts (hd (recent w)) then newBucket (minute t) # butlast (recent w) else recent w)
       in bucket_record ip ty (hd bs) # tl bs)"
    unfolding rec recent_update [OF ok] using recent_hd [OF ok] by (simp add: Let_def)
qed

lemma sum_update:
  "sum_list (map snd (AList.update ty (Suc (case map_of types ty of None \<Rightarrow> 0 | Some n \<Rightarrow> n)) types))
   = Suc (sum_list (map snd types))" for types :: "(string \<times> nat) list"
  by (induction types) auto

lemma bucket_total_record:
  "bucket_total ip (bucket_record ip' ty b) = bucket_total ip b + (if ip = ip' then 1 else 0)"
  by (auto simp: bucket_total_def bucket_record_def Let_def update_conv' sum_update split: option.splits)

lemma bucket_total_new: "bucket_total ip (newBucket m) = 0"
  by (simp add: bucket_total_def newBucket_def)

lemma bucket_record_ts [simp]: "bu_ts (bucket_record ip ty b) = bu_ts b"
  by (simp add: bucket_record_def Let_def)

text \<open>Observations of an address in a set of minutes, and the minutes that had any.\<close>

type_synonym history = "(gotime \<times> string \<times> string) list"

definition observations :: "history \<Rightarrow> string \<Rightarrow> gotime set \<Rightarrow> nat" where
  "observations h ip ms = length (filter (\<lambda>(t, i, ty). i = ip \<and> minute t \<in> ms) h)"

definition active_minutes :: "gotime \<Rightarrow> history \<Rightarrow> gotime list" where
  "active_minutes t0 h = rev (remdups_adj (map minute (t0 # map fst h)))"

definition win_run :: "gotime \<Rightarrow> history \<Rightarrow> windower" where
  "win_run t0 h = fold (\<lambda>(t, ip, ty). win_record t ip ty) h (newWindower t0)"

lemma minute_mono: "t \<le> t' \<Longrightarrow> minute t \<le> minute t'"
proof -
  assume "t \<le> t'"
  then have "t div bucketDuration \<le> t' div bucketDuration"
    by (intro zdiv_mono1) (simp_all add: bucketDuration_def durations)
  then have "t div bucketDuration * bucketDuration \<le> t' div bucketDuration * bucketDuration"
    by (intro mult_right_mono) (simp_all add: bucketDuration_def durations)
  then show ?thesis by (simp add: Truncate_def minus_mod_eq_div_mult)
qed

lemma active_snoc:
  "active_minutes t0 (h @ [(t, ip, ty)]) =
   (if minute t = hd (active_minutes t0 h) then active_minutes t0 h else minute t # active_minutes t0 h)"
    (is ?step)
  and active_hd: "active_minutes t0 h \<noteq> [] \<and> hd (active_minutes t0 h) = minute (last (t0 # map fst h))" (is ?hd)
proof -
  let ?ms = "map minute (t0 # map fst h)"
  obtain ys where ys: "?ms = ys @ [last ?ms]" by (metis append_butlast_last_id list.map_disc_iff list.distinct(1))
  have rl: "last (remdups_adj ?ms) = last ?ms" by (metis last_remdups_adj)
  have "last ?ms = minute (last (t0 # map fst h))" by (rule last_map) simp
  with rl have hd: "hd (active_minutes t0 h) = minute (last (t0 # map fst h))"
    by (simp only: active_minutes_def hd_rev)
  then show ?hd by (simp add: active_minutes_def)
  have "remdups_adj (?ms @ [minute t]) = remdups_adj ?ms @ (if last ?ms = minute t then [] else [minute t])"
    using remdups_adj_append_two [of ys "last ?ms" "minute t"] ys by (metis append.assoc append_Cons append_Nil)
  moreover have "hd (active_minutes t0 h) = last ?ms" using rl by (simp add: active_minutes_def hd_rev)
  ultimately show ?step by (auto simp: active_minutes_def)
qed

lemma observations_snoc:
  "observations (h @ [(t, ip', ty)]) ip ms = observations h ip ms + (if ip = ip' \<and> minute t \<in> ms then 1 else 0)"
  by (auto simp: observations_def)

lemma observations_none: "(\<And>t ip ty. (t, ip, ty) \<in> set h \<Longrightarrow> minute t \<notin> ms) \<Longrightarrow> observations h ip ms = 0"
  by (auto simp: observations_def filter_empty_conv)

text \<open>What the buckets hold after a run with a clock that does not go back.\<close>

definition tracks :: "gotime \<Rightarrow> history \<Rightarrow> windower \<Rightarrow> bool" where
  "tracks t0 h w \<longleftrightarrow>
     win_ok w \<and> bu_ts (hd (recent w)) = hd (active_minutes t0 h) \<and> sorted_wrt (>) (active_minutes t0 h) \<and>
     (\<forall>ip i. i < totalBuckets \<longrightarrow> bucket_total ip (recent w ! i) =
        (if i < length (active_minutes t0 h) then observations h ip {active_minutes t0 h ! i} else 0))"

lemma tracks_record:
  assumes tr: "tracks t0 h w" and ord: "last (t0 # map fst h) \<le> t" "\<And>x. x \<in> set h \<Longrightarrow> fst x \<le> last (t0 # map fst h)"
  shows "tracks t0 (h @ [(t, ip', ty)]) (win_record t ip' ty w)"
proof -
  let ?act = "active_minutes t0 h"
  let ?m = "minute t"
  have ok: "win_ok w" and ts: "bu_ts (hd (recent w)) = hd ?act" and dec: "sorted_wrt (>) ?act"
    and tot: "\<And>ip i. i < totalBuckets \<Longrightarrow> bucket_total ip (recent w ! i) =
        (if i < length ?act then observations h ip {?act ! i} else 0)"
    using tr by (auto simp: tracks_def)
  obtain a as where act: "?act = a # as" using active_hd by (meson neq_Nil_conv)
  have hd_le: "a \<le> ?m" using minute_mono [OF ord(1)] active_hd [of t0 h] act by simp
  have old: "minute u \<le> a" if "(u, i, y) \<in> set h" for u i y
    using minute_mono [OF ord(2) [OF that]] active_hd [of t0 h] act by simp
  have len: "length (recent w) = totalBuckets" "0 < totalBuckets" using totalBuckets_pos by simp_all
  show ?thesis
  proof (cases "?m = a")
    case True
    have act': "active_minutes t0 (h @ [(t, ip', ty)]) = a # as" using active_snoc [of t0 h t ip' ty] act True by simp
    have rec: "recent (win_record t ip' ty w) = bucket_record ip' ty (hd (recent w)) # tl (recent w)"
      using recent_record(2) [OF ok, of t ip' ty] ts act True by (simp add: Let_def)
    have "bucket_total ip (recent (win_record t ip' ty w) ! i) =
        (if i < length (a # as) then observations (h @ [(t, ip', ty)]) ip {(a # as) ! i} else 0)"
      if i: "i < totalBuckets" for ip i
    proof (cases i)
      case 0
      with tot [OF i, of ip] len act True show ?thesis
        by (simp add: rec bucket_total_record observations_snoc hd_conv_nth [of "recent w"] flip: length_greater_0_conv)
    next
      case (Suc j)
      have "as ! j \<noteq> a" if "j < length as" using dec act that by auto
      with tot [OF i, of ip] len i act True Suc show ?thesis by (auto simp: rec observations_snoc nth_tl)
    qed
    with recent_record(1) [OF ok] dec act act' ts rec show ?thesis by (simp add: tracks_def)
  next
    case False
    then have new: "?m > a" using hd_le by simp
    have act': "active_minutes t0 (h @ [(t, ip', ty)]) = ?m # a # as"
      using active_snoc [of t0 h t ip' ty] act False by simp
    have rec: "recent (win_record t ip' ty w) = bucket_record ip' ty (newBucket ?m) # butlast (recent w)"
      using recent_record(2) [OF ok, of t ip' ty] ts act new by (simp add: Let_def)
    have none: "observations h ip {?m} = 0" for ip
      using old new by (intro observations_none) force
    have "bucket_total ip (recent (win_record t ip' ty w) ! i) =
        (if i < length (?m # a # as) then observations (h @ [(t, ip', ty)]) ip {(?m # a # as) ! i} else 0)"
      if i: "i < totalBuckets" for ip i
    proof (cases i)
      case 0
      then show ?thesis by (simp add: rec bucket_total_record observations_snoc none bucket_total_new)
    next
      case (Suc j)
      have "(a # as) ! j \<noteq> ?m" if "j < length (a # as)"
        using dec act that new nth_mem [OF that] by auto
      with tot [of j ip] len i act Suc show ?thesis by (auto simp: rec observations_snoc nth_butlast)
    qed
    moreover have "sorted_wrt (>) (?m # a # as)" using dec act new by auto
    ultimately show ?thesis using recent_record(1) [OF ok] act' rec by (simp add: tracks_def newBucket_def)
  qed
qed

lemma tracks_new: "tracks t0 [] (newWindower t0)"
proof -
  have "recent (newWindower t0) = replicate totalBuckets (newBucket (minute t0))"
    by (rule nth_equalityI) (simp_all add: recent_nth newWindower_def totalBuckets_pos)
  then show ?thesis
    using totalBuckets_pos
    by (simp add: tracks_def win_ok_def newWindower_def active_minutes_def newBucket_def bucket_total_def observations_def)
qed

lemma sorted_last: "sorted xs \<Longrightarrow> x \<in> set xs \<Longrightarrow> x \<le> last xs" for xs :: "gotime list"
  by (induction xs rule: rev_induct) (auto simp: sorted_append)

lemma tracks_run: "sorted (t0 # map fst h) \<Longrightarrow> tracks t0 h (win_run t0 h)"
proof (induction h rule: rev_induct)
  case Nil
  show ?case by (simp add: win_run_def tracks_new)
next
  case (snoc x h)
  obtain t ip ty where x: "x = (t, ip, ty)" by (metis prod_cases3)
  have srt: "sorted (t0 # map fst h)" "\<forall>u \<in> set (t0 # map fst h). u \<le> t"
    using snoc.prems x by (auto simp: sorted_append)
  then have "last (t0 # map fst h) \<le> t" by (metis last_in_set list.distinct(1))
  moreover have "fst y \<le> last (t0 # map fst h)" if "y \<in> set h" for y
    using sorted_last [OF srt(1)] that by simp
  ultimately show ?case using tracks_record [OF snoc.IH [OF srt(1)], of t ip ty] x
    by (simp add: win_run_def)
qed

lemma observations_insert:
  "m \<notin> ms \<Longrightarrow> observations h ip (insert m ms) = observations h ip {m} + observations h ip ms"
  by (induction h) (auto simp: observations_def)

lemma decreasing_distinct: "sorted_wrt (>) xs \<Longrightarrow> distinct xs" for xs :: "gotime list"
  by (induction xs) auto

lemma tracks_sum:
  assumes "tracks t0 h w"
  shows "k \<le> totalBuckets \<Longrightarrow> sum_list (take k (map (bucket_total ip) (recent w))) =
    observations h ip (set (take k (active_minutes t0 h)))"
proof (induction k)
  case 0
  then show ?case by (simp add: observations_def)
next
  case (Suc k)
  let ?act = "active_minutes t0 h"
  have tot: "bucket_total ip (recent w ! k) = (if k < length ?act then observations h ip {?act ! k} else 0)"
    using assms Suc.prems by (simp add: tracks_def)
  have "sorted_wrt (>) ?act" using assms by (simp add: tracks_def)
  then have dist: "distinct ?act" by (rule decreasing_distinct)
  have "sum_list (take (Suc k) (map (bucket_total ip) (recent w))) =
      sum_list (take k (map (bucket_total ip) (recent w))) + bucket_total ip (recent w ! k)"
    using Suc.prems by (simp add: take_Suc_conv_app_nth)
  also have "\<dots> = observations h ip (set (take (Suc k) ?act))"
  proof (cases "k < length ?act")
    case True
    have "?act ! k \<notin> set (take k ?act)"
      using dist True by (auto simp: in_set_conv_nth nth_eq_iff_index_eq)
    from observations_insert [OF this, of h ip] show ?thesis using Suc tot True by (simp add: take_Suc_conv_app_nth)
  qed (use Suc tot in simp)
  finally show ?case .
qed

section \<open>Properties\<close>

text \<open>
  C20: the event buffer is a bounded queue. After any sequence of pushes into a new buffer its
  snapshot is the newest events in order, as many as fit, or with the policy
  \<open>drop_newest\<close> the oldest; it never holds more than its capacity, a push is refused
  exactly when the policy says so and the buffer is full, and the counter of dropped events
  is the number of events that did not fit (modulo its 64 bits).
\<close>

theorem ring_buffer_is_queue:
  "let cap = (if capacity \<le> 0 then 10000 else nat capacity);
       b = fold (\<lambda>e b. snd (buf_push e b)) es (newCircularBuffer capacity policy)
   in snapshot b = (if policy = PolicyDropNewest then take cap es else drop (length es - cap) es) \<and>
      buf_len b = min cap (length es) \<and> Dropped b = of_nat (length es - cap) \<and>
      (\<forall>e. fst (buf_push e b) = Some ErrBufferFull \<longleftrightarrow> policy = PolicyDropNewest \<and> cap \<le> length es)"
proof -
  let ?b0 = "newCircularBuffer capacity policy"
  let ?cap = "if capacity \<le> 0 then 10000 else nat capacity"
  have b0: "buf_inv ?b0" "snapshot ?b0 = []" "cb_capacity ?b0 = ?cap" "cb_dropped ?b0 = 0"
    "cb_policy ?b0 = PolicyDropNewest \<longleftrightarrow> policy = PolicyDropNewest"
    by (simp_all add: newCircularBuffer_def Let_def buf_inv_def snapshot_def PolicyDropNewest_def PolicyDropOldest_def)
  note run = ring.pushes_spec [OF b0(1,2), of es, unfolded ring.pushes_def b0]
  let ?b = "fold (\<lambda>e b. snd (buf_push e b)) es ?b0"
  have "cb_count ?b = length (snapshot ?b)" by simp
  with run have len: "cb_count ?b = min ?cap (length es)" by auto
  have "fst (buf_push e ?b) = Some ErrBufferFull \<longleftrightarrow> policy = PolicyDropNewest \<and> ?cap \<le> length es" for e
    using run len by (auto simp: buf_push_def)
  with run len show ?thesis by (simp add: Let_def buf_len_def Dropped_def)
qed

text \<open>
  The sliding windows. With a clock that does not go back, the counts for an address are
  its observations in the latest one, five and fifteen minutes that had any observation at
  all; if no minute in between was silent, these are the observations of the last one, five
  and fifteen minutes.
\<close>

theorem window_counts:
  assumes "sorted (t0 # map fst h)"
  shows "(let w = win_run t0 h; act = active_minutes t0 h
    in ws_Count1m (win_stats ip w) = observations h ip (set (take 1 act)) \<and>
       ws_Count5m (win_stats ip w) = observations h ip (set (take 5 act)) \<and>
       ws_Count15m (win_stats ip w) = observations h ip (set (take 15 act)) \<and>
       ((\<forall>i. Suc i < length act \<longrightarrow> act ! i = act ! Suc i + bucketDuration) \<longrightarrow>
         set (take 5 act) = {m \<in> set act. hd act - 5 * bucketDuration < m}))"
proof -
  let ?act = "active_minutes t0 h"
  note sums = tracks_sum [OF tracks_run [OF assms], of _ ip]
  have "set (take 5 ?act) = {m \<in> set ?act. hd ?act - 5 * bucketDuration < m}"
    if step: "\<forall>i. Suc i < length ?act \<longrightarrow> ?act ! i = ?act ! Suc i + bucketDuration"
  proof -
    have ne: "?act \<noteq> []" using active_hd by blast
    have pos: "0 < bucketDuration" by (simp add: bucketDuration_def durations)
    have at: "?act ! i = hd ?act - int i * bucketDuration" if "i < length ?act" for i
      using that
    proof (induction i)
      case 0
      then show ?case using ne by (simp add: hd_conv_nth)
    next
      case (Suc i)
      then show ?case using step by (simp add: algebra_simps)
    qed
    have recent: "hd ?act - 5 * bucketDuration < ?act ! i \<longleftrightarrow> i < 5" if "i < length ?act" for i
      using at [OF that] pos by (simp add: mult_less_cancel_right_pos)
    have "m \<in> set (take 5 ?act) \<longleftrightarrow> (\<exists>i < length ?act. i < 5 \<and> m = ?act ! i)" for m
      by (auto simp: in_set_conv_nth)
    with recent show ?thesis by (auto simp: set_conv_nth)
  qed
  moreover have "sum_list (map (bucket_total ip) (recent (win_run t0 h))) = observations h ip (set (take 15 ?act))"
    using sums [of 15] by (simp add: totalBuckets_def)
  ultimately show ?thesis
    using sums [of 1] sums [of 5] by (simp add: Let_def win_stats_def totalBuckets_def)
qed

theorem window_counts_witness:
  "ws_Count1m (win_stats ''a'' (win_run 0 [(5, ''a'', ''DNS''), (9, ''b'', ''DNS'')])) =
     observations [(5, ''a'', ''DNS''), (9, ''b'', ''DNS'')] ''a''
       (set (take 1 (active_minutes 0 [(5, ''a'', ''DNS''), (9, ''b'', ''DNS'')])))"
  using window_counts [of 0 "[(5, ''a'', ''DNS''), (9, ''b'', ''DNS'')]" "''a''"] by (simp add: Let_def)

section \<open>Silent minutes\<close>

text \<open>
  The ring advances by one bucket per minute with observations, not per minute: after an
  hour of silence the count of the last five minutes still has the earlier observation.
\<close>

lemma window_counts_stale:
  "ws_Count5m (win_stats ''a'' (win_run 0 [(0, ''a'', ''DNS''), (60 * bucketDuration, ''a'', ''DNS'')])) = 2"
  unfolding bucketDuration_def durations by code_simp

end
