(* ===== verification/Correlation.thy ===== *)
theory Correlation
  imports Authz
begin

text \<open>
  Threat detection (\<^verbatim>\<open>internal/analytics/correlation\<close>): rules over single events written in
  YAML (\<^verbatim>\<open>yaml_rule.go\<close>), the engine that applies them (\<^verbatim>\<open>engine.go\<close>), and the correlator
  that recognises kill chains, ordered sequences of events of one source within a time
  window (\<^verbatim>\<open>temporal.go\<close>). A rule is a function from an event to an optional alert; the
  entropy heuristic of \<^verbatim>\<open>rules.go\<close> works on floating point numbers and is such a rule.
\<close>

section \<open>Rules over one event\<close>

record RuleCondition =
  rc_Field :: string
  rc_Operator :: string
  rc_Value :: string

record YAMLRuleSpec =
  rs_RuleName :: string
  rs_Description :: string
  rs_Severity :: string
  rs_EventType :: string
  rs_Logic :: string
  rs_Conditions :: "RuleCondition list"

definition resolveField :: "string \<Rightarrow> NetworkEvent \<Rightarrow> gany option" where
  "resolveField field e =
     (if field = ''source'' then Some (AString (ev_Source e))
      else if field = ''destination'' then Some (AString (ev_Destination e))
      else if field = ''type'' then Some (AString (ev_Type e))
      else meta_get (ev_Metadata e) field)"

text \<open>\<open>parse_float\<close> is \<^verbatim>\<open>strconv.ParseFloat\<close> with its error ignored.\<close>

definition toFloat :: "(string \<Rightarrow> rat) \<Rightarrow> gany option \<Rightarrow> rat" where
  "toFloat parse_float v =
     (case v of
        Some (AFloat q _) \<Rightarrow> q
      | Some (AInt i) \<Rightarrow> of_int i
      | Some (AString s) \<Rightarrow> parse_float s
      | _ \<Rightarrow> 0)"

definition sprint_any :: "gany option \<Rightarrow> string" where
  "sprint_any v = (case v of None \<Rightarrow> ''<nil>'' | Some x \<Rightarrow> sprint x)"

definition evalCondition :: "(string \<Rightarrow> rat) \<Rightarrow> RuleCondition \<Rightarrow> NetworkEvent \<Rightarrow> bool" where
  "evalCondition parse_float c e =
     (let raw = resolveField (rc_Field c) e
      in if rc_Operator c = ''exists'' then raw \<noteq> None
         else if rc_Operator c = ''equals'' then sprint_any raw = rc_Value c
         else if rc_Operator c = ''contains'' then strings_Contains (sprint_any raw) (rc_Value c)
         else if rc_Operator c = ''gt'' then toFloat parse_float raw > parse_float (rc_Value c)
         else if rc_Operator c = ''lt'' then toFloat parse_float raw < parse_float (rc_Value c)
         else False)"

text \<open>The counting loop: with \<open>or\<close> it stops at the first match.\<close>

fun count_matches :: "(RuleCondition \<Rightarrow> bool) \<Rightarrow> bool \<Rightarrow> nat \<Rightarrow> RuleCondition list \<Rightarrow> nat" where
  "count_matches P useOr matched [] = matched"
| "count_matches P useOr matched (c # cs) =
     (if P c then (if useOr then matched + 1 else count_matches P useOr (matched + 1) cs)
      else count_matches P useOr matched cs)"

record alert_env =
  an_uuid :: string
  an_now :: gotime

definition Evaluate ::
  "(string \<Rightarrow> string \<Rightarrow> bool) \<Rightarrow> (string \<Rightarrow> rat) \<Rightarrow> alert_env \<Rightarrow> YAMLRuleSpec \<Rightarrow> NetworkEvent \<Rightarrow> NetworkEvent option" where
  "Evaluate fold_eq parse_float v spec e =
     (if rs_EventType spec \<noteq> [] \<and> ev_Type e \<noteq> rs_EventType spec then None
      else if rs_Conditions spec = [] then None
      else
        (let useOr = fold_eq (rs_Logic spec) ''or'';
             matched = count_matches (\<lambda>c. evalCondition parse_float c e) useOr 0 (rs_Conditions spec);
             fire = (if useOr then matched > 0 else matched = length (rs_Conditions spec))
         in if \<not> fire then None
            else
              Some \<lparr>ev_ID = an_uuid v, ev_Type = EventAlert, ev_Source = ''CorrelationEngine'',
                    ev_Destination = ev_Source e,
                    ev_Metadata = Some [''rule'' \<mapsto> AString (rs_RuleName spec),
                      ''description'' \<mapsto> AString (rs_Description spec),
                      ''severity'' \<mapsto> AString (if rs_Severity spec = [] then ''MEDIUM'' else rs_Severity spec),
                      ''trigger_id'' \<mapsto> AString (ev_ID e)],
                    ev_Timestamp = an_now v, ev_Signature = [], ev_SignerKeyID = []\<rparr>))"

section \<open>The engine\<close>

type_synonym rule = "NetworkEvent \<Rightarrow> NetworkEvent option"

text \<open>The alerts handed to the callback, in order.\<close>

definition Analyze :: "bool \<Rightarrow> bool \<Rightarrow> rule list \<Rightarrow> NetworkEvent \<Rightarrow> NetworkEvent list" where
  "Analyze enabled has_callback rules event =
     (if \<not> enabled \<or> ev_Type event = EventAlert then []
      else if \<not> has_callback then []
      else List.map_filter (\<lambda>rule. rule event) rules)"

section \<open>Kill chains\<close>

record ChainRule =
  cr_Name :: string
  cr_Tactic :: string
  cr_Severity :: string
  cr_Window :: duration
  cr_Sequence :: "string list"

record stampedEvent =
  se_ID :: string
  se_Type :: string
  se_Timestamp :: gotime

record TemporalCorrelator =
  tc_windows :: "string \<Rightarrow> stampedEvent list"
  tc_chains :: "ChainRule list"
  tc_onAlert :: bool
  tc_maxAge :: duration

definition mk_chain :: "string \<Rightarrow> string \<Rightarrow> string \<Rightarrow> duration \<Rightarrow> string list \<Rightarrow> ChainRule" where
  "mk_chain n t sv w sq = \<lparr>cr_Name = n, cr_Tactic = t, cr_Severity = sv, cr_Window = w, cr_Sequence = sq\<rparr>"

definition DefaultChains :: "ChainRule list" where
  "DefaultChains =
     [mk_chain ''RECON_TO_PORTSCAN'' ''TA0043'' ''HIGH'' (10 * time_Minute) [EventARP, EventPortScan],
      mk_chain ''TOR_EVASION_SCAN'' ''TA0005'' ''CRITICAL'' (5 * time_Minute) [EventTor, EventPortScan],
      mk_chain ''TOR_EVASION_DNS'' ''TA0011'' ''HIGH'' (5 * time_Minute) [EventTor, EventDNS],
      mk_chain ''CANARY_THEN_SCAN'' ''TA0007'' ''CRITICAL'' (15 * time_Minute) [EventCanary, EventPortScan],
      mk_chain ''PROXY_TO_SCAN'' ''TA0003'' ''HIGH'' (5 * time_Minute) [EventProxy, EventPortScan]]"

definition NewTemporalCorrelator :: "ChainRule list \<Rightarrow> TemporalCorrelator" where
  "NewTemporalCorrelator crs =
     \<lparr>tc_windows = (\<lambda>_. []), tc_chains = crs, tc_onAlert = False,
      tc_maxAge = fold (\<lambda>c m. if cr_Window c > m then cr_Window c else m) crs time_Minute\<rparr>"

text \<open>The walk through the window: the rest of the sequence to be found in the rest of the events.\<close>

fun match_loop :: "gotime \<Rightarrow> string list \<Rightarrow> stampedEvent list \<Rightarrow> string list option" where
  "match_loop cutoff [] evs = Some []"
| "match_loop cutoff (s # ss) [] = None"
| "match_loop cutoff (s # ss) (ev # evs) =
     (if se_Timestamp ev < cutoff then match_loop cutoff (s # ss) evs
      else if se_Type ev = s then map_option ((#) (se_ID ev)) (match_loop cutoff ss evs)
      else match_loop cutoff (s # ss) evs)"

definition matchChain :: "stampedEvent list \<Rightarrow> ChainRule \<Rightarrow> gotime \<Rightarrow> string list option" where
  "matchChain window c now =
     (if cr_Sequence c = [] then None else match_loop (now - cr_Window c) (cr_Sequence c) window)"

text \<open>
  The loop over the chains. \<open>arr\<close> is the array behind the slice \<^verbatim>\<open>trimmed\<close>, which every
  chain is matched against, and the first \<open>n\<close> of its elements are the stored window.
  Clearing a matched sequence compacts the stored window in place, in the same array.
\<close>

fun check_chains ::
  "bool \<Rightarrow> gotime \<Rightarrow> ChainRule list \<Rightarrow> stampedEvent list \<Rightarrow> nat \<Rightarrow>
   (ChainRule \<times> string list) list \<times> stampedEvent list \<times> nat" where
  "check_chains onAlert now [] arr n = ([], arr, n)"
| "check_chains onAlert now (c # cs) arr n =
     (case matchChain arr c now of
        None \<Rightarrow> check_chains onAlert now cs arr n
      | Some ids \<Rightarrow>
          if \<not> onAlert then check_chains onAlert now cs arr n
          else
            (let filtered = filter (\<lambda>ev. se_ID ev \<notin> set ids) (take n arr);
                 (fired, arr', n') =
                   check_chains onAlert now cs (filtered @ drop (length filtered) arr) (length filtered)
             in ((c, ids) # fired, arr', n')))"

definition chain_alert :: "(duration \<Rightarrow> string) \<Rightarrow> alert_env \<Rightarrow> NetworkEvent \<Rightarrow> ChainRule \<times> string list \<Rightarrow> NetworkEvent" where
  "chain_alert dur_text v trigger cf =
     (case cf of
        (c, ids) \<Rightarrow>
          \<lparr>ev_ID = an_uuid v, ev_Type = EventAlert, ev_Source = ''TemporalCorrelator'',
           ev_Destination = ev_Source trigger,
           ev_Metadata = Some [''rule'' \<mapsto> AString (cr_Name c),
             ''description'' \<mapsto> AString (''Kill-chain sequence detected: '' @ cr_Name c),
             ''severity'' \<mapsto> AString (if cr_Severity c = [] then ''HIGH'' else cr_Severity c),
             ''mitre_tactic'' \<mapsto> AString (cr_Tactic c), ''chain_events'' \<mapsto> AStrings ids,
             ''trigger_id'' \<mapsto> AString (ev_ID trigger), ''window'' \<mapsto> AString (dur_text (cr_Window c))],
           ev_Timestamp = an_now v, ev_Signature = [], ev_SignerKeyID = []\<rparr>)"

text \<open>The window of the event's source: what is young enough, and the event itself.\<close>

definition observe_window :: "gotime \<Rightarrow> NetworkEvent \<Rightarrow> TemporalCorrelator \<Rightarrow> stampedEvent list" where
  "observe_window clock e t =
     (let now = (if IsZero (ev_Timestamp e) then clock else ev_Timestamp e)
      in filter (\<lambda>ev. se_Timestamp ev > now - tc_maxAge t) (tc_windows t (ev_Source e)) @
         [\<lparr>se_ID = ev_ID e, se_Type = ev_Type e, se_Timestamp = now\<rparr>])"

text \<open>The completed chains, in order, and the new state; each is reported by one alert.\<close>

definition Observe ::
  "gotime \<Rightarrow> NetworkEvent \<Rightarrow> TemporalCorrelator \<Rightarrow> (ChainRule \<times> string list) list \<times> TemporalCorrelator" where
  "Observe clock e t =
     (if ev_Source e = [] \<or> ev_Type e = EventAlert then ([], t)
      else
        (let now = (if IsZero (ev_Timestamp e) then clock else ev_Timestamp e);
             window = observe_window clock e t;
             (fired, arr, n) = check_chains (tc_onAlert t) now (tc_chains t) window (length window)
         in (fired, t\<lparr>tc_windows := (tc_windows t)(ev_Source e := take n arr)\<rparr>)))"

section \<open>Lemmas\<close>

lemma count_or: "count_matches P True k cs > k \<longleftrightarrow> list_ex P cs"
  by (induction cs arbitrary: k) auto

lemma count_and: "count_matches P False k cs = k + length (filter P cs)"
  by (induction cs arbitrary: k) auto

lemma Evaluate_iff:
  "Evaluate fold_eq pf v spec e \<noteq> None \<longleftrightarrow>
   (rs_EventType spec = [] \<or> ev_Type e = rs_EventType spec) \<and> rs_Conditions spec \<noteq> [] \<and>
   (if fold_eq (rs_Logic spec) ''or'' then \<exists>c \<in> set (rs_Conditions spec). evalCondition pf c e
    else \<forall>c \<in> set (rs_Conditions spec). evalCondition pf c e)"
proof -
  let ?P = "\<lambda>c. evalCondition pf c e" and ?cs = "rs_Conditions spec"
  have "0 < count_matches ?P True 0 ?cs \<longleftrightarrow> (\<exists>c \<in> set ?cs. ?P c)"
    using count_or [where P = ?P and k = 0] by (simp add: list_ex_iff)
  moreover have "count_matches ?P False 0 ?cs = length ?cs \<longleftrightarrow> (\<forall>c \<in> set ?cs. ?P c)"
    by (simp add: count_and) (metis filter_id_conv length_filter_less less_irrefl)
  ultimately show ?thesis by (auto simp: Evaluate_def Let_def)
qed

lemma Evaluate_alert: "Evaluate fold_eq pf v spec e = Some a \<Longrightarrow> ev_Type a = EventAlert"
  by (auto simp: Evaluate_def Let_def split: if_splits)

text \<open>The events of a window that a chain may use.\<close>

definition in_window :: "ChainRule \<Rightarrow> gotime \<Rightarrow> stampedEvent list \<Rightarrow> stampedEvent list" where
  "in_window c now w = filter (\<lambda>ev. now - cr_Window c \<le> se_Timestamp ev) w"

definition occurs :: "ChainRule \<Rightarrow> gotime \<Rightarrow> stampedEvent list \<Rightarrow> bool" where
  "occurs c now w \<longleftrightarrow> cr_Sequence c \<noteq> [] \<and> subseq (cr_Sequence c) (map se_Type (in_window c now w))"

lemma match_loop_iff:
  "(\<exists>ids. match_loop k ss w = Some ids) \<longleftrightarrow> subseq ss (map se_Type (filter (\<lambda>ev. k \<le> se_Timestamp ev) w))"
proof (induction k ss w rule: match_loop.induct)
  case (3 k s ss ev evs)
  then show ?case by (auto simp: not_le)
qed auto

lemma match_loop_ids:
  "match_loop k ss w = Some ids \<Longrightarrow>
   \<exists>evs. subseq evs (filter (\<lambda>ev. k \<le> se_Timestamp ev) w) \<and> map se_Type evs = ss \<and> map se_ID evs = ids"
proof (induction k ss w arbitrary: ids rule: match_loop.induct)
  case (1 k w)
  then show ?case by (intro exI [of _ "[]"]) simp
next
  case (3 k s ss ev evs)
  show ?case
  proof (cases "k \<le> se_Timestamp ev \<and> se_Type ev = s")
    case False
    with 3 show ?thesis by (auto simp: not_le split: if_splits intro: exI)
  next
    case True
    with "3.prems" obtain ids' where "match_loop k ss evs = Some ids'" "ids = se_ID ev # ids'" by auto
    moreover from this "3.IH"(2) True obtain es where
      "subseq es (filter (\<lambda>ev. k \<le> se_Timestamp ev) evs)" "map se_Type es = ss" "map se_ID es = ids'"
      by (auto simp: not_less)
    ultimately show ?thesis using True by (intro exI [of _ "ev # es"]) auto
  qed
qed simp

lemma matchChain_iff: "(\<exists>ids. matchChain w c now = Some ids) \<longleftrightarrow> occurs c now w"
  using match_loop_iff by (auto simp: matchChain_def occurs_def in_window_def)

lemma matchChain_ids:
  "matchChain w c now = Some ids \<Longrightarrow>
   \<exists>evs. subseq evs (in_window c now w) \<and> map se_Type evs = cr_Sequence c \<and> map se_ID evs = ids"
  using match_loop_ids by (auto simp: matchChain_def in_window_def split: if_splits)

lemma subseq_set: "subseq xs ys \<Longrightarrow> set xs \<subseteq> set ys"
  by (auto dest: list_emb_set)

lemma check_chains_none:
  "\<forall>c \<in> set cs. \<not> occurs c now arr \<Longrightarrow> check_chains on now cs arr n = ([], arr, n)"
proof (induction cs)
  case (Cons c cs)
  then have "matchChain arr c now = None" using matchChain_iff [of arr c now] by auto
  with Cons show ?case by simp
qed simp

lemma check_chains_first:
  "\<exists>c \<in> set cs. occurs c now arr \<Longrightarrow>
   \<exists>c ids fired arr' n'. check_chains True now cs arr n = ((c, ids) # fired, arr', n') \<and>
     find (\<lambda>c. occurs c now arr) cs = Some c \<and> matchChain arr c now = Some ids"
proof (induction cs)
  case (Cons c cs)
  show ?case
  proof (cases "matchChain arr c now")
    case None
    with Cons matchChain_iff [of arr c now] show ?thesis by auto
  next
    case (Some ids)
    with matchChain_iff [of arr c now] show ?thesis by (auto simp: Let_def split: prod.splits)
  qed
qed simp

text \<open>The array never holds anything but events of the window, and the stored part shrinks.\<close>

lemma check_chains_stored:
  "check_chains on now cs arr n = (fired, arr', n') \<Longrightarrow> n \<le> length arr \<Longrightarrow>
   set arr' \<subseteq> set arr \<and> n' \<le> length arr' \<and> subseq (take n' arr') (take n arr) \<and>
   (\<forall>(c, ids) \<in> set fired. set ids \<subseteq> se_ID ` set arr \<and> (\<forall>ev \<in> set (take n' arr'). se_ID ev \<notin> set ids))"
proof (induction on now cs arr n arbitrary: fired arr' n' rule: check_chains.induct)
  case (2 on now c cs arr n)
  show ?case
  proof (cases "matchChain arr c now")
    case None
    with 2 show ?thesis by simp
  next
    case (Some ids)
    show ?thesis
    proof (cases on)
      case False
      with 2 Some show ?thesis by simp
    next
      case True
      let ?f = "filter (\<lambda>ev. se_ID ev \<notin> set ids) (take n arr)"
      let ?a = "?f @ drop (length ?f) arr"
      obtain fired' where rec: "check_chains on now cs ?a (length ?f) = (fired', arr', n')" "fired = (c, ids) # fired'"
        using "2.prems"(1) Some True by (auto simp: Let_def split: prod.splits)
      have sub: "set ?a \<subseteq> set arr" by (auto dest: in_set_takeD in_set_dropD)
      note IH = "2.IH"(3) [OF Some _ refl rec(1)]
      have ids: "set ids \<subseteq> se_ID ` set arr"
        using matchChain_ids [OF Some] by (auto simp: in_window_def dest!: subseq_set) blast
      from IH True have IH: "set arr' \<subseteq> set ?a" "n' \<le> length arr'" "subseq (take n' arr') ?f"
        "\<forall>(c, ids) \<in> set fired'. set ids \<subseteq> se_ID ` set ?a \<and> (\<forall>ev \<in> set (take n' arr'). se_ID ev \<notin> set ids)"
        by simp_all
      have "\<forall>ev \<in> set (take n' arr'). se_ID ev \<notin> set ids"
        using subseq_set [OF IH(3)] by auto
      moreover have "subseq (take n' arr') (take n arr)"
        using IH(3) subseq_filter_left subseq_order.trans by blast
      moreover have "set arr' \<subseteq> set arr" "\<forall>(c, ids) \<in> set fired'. set ids \<subseteq> se_ID ` set arr"
        using IH(1,4) sub by blast+
      ultimately show ?thesis using IH(2,4) ids rec(2) by auto
    qed
  qed
qed auto

section \<open>Properties\<close>

text \<open>
  C7: kill chains. An event of a source raises a chain alert exactly when some chain occurs:
  its sequence of types is a subsequence of the types of the source's retained events that
  lie within the chain's window, the new event included. The first alert is for the first
  such chain and names events that form the sequence in order. Every alert names events of
  that window, events named by an alert are no longer in the window afterwards, the window
  keeps its order and only events younger than the longest window, and the windows of other
  sources do not change.
\<close>

theorem chain_detection:
  assumes "ev_Source e \<noteq> []" "ev_Type e \<noteq> EventAlert" "tc_onAlert t"
    and "now = (if IsZero (ev_Timestamp e) then clock else ev_Timestamp e)" "w = observe_window clock e t"
    and "Observe clock e t = (fired, t')"
  shows "(fired \<noteq> [] \<longleftrightarrow> (\<exists>c \<in> set (tc_chains t). occurs c now w)) \<and>
    (\<forall>c ids rest. fired = (c, ids) # rest \<longrightarrow>
       find (\<lambda>c. occurs c now w) (tc_chains t) = Some c \<and>
       (\<exists>evs. subseq evs (in_window c now w) \<and> map se_Type evs = cr_Sequence c \<and> map se_ID evs = ids)) \<and>
    (\<forall>(c, ids) \<in> set fired. set ids \<subseteq> se_ID ` set w \<and>
       (\<forall>ev \<in> set (tc_windows t' (ev_Source e)). se_ID ev \<notin> set ids)) \<and>
    subseq (tc_windows t' (ev_Source e)) w \<and>
    (\<forall>ev \<in> set (tc_windows t' (ev_Source e)). now - tc_maxAge t < se_Timestamp ev \<or> se_ID ev = ev_ID e) \<and>
    (\<forall>src. src \<noteq> ev_Source e \<longrightarrow> tc_windows t' src = tc_windows t src)"
proof -
  obtain arr n where run: "check_chains True now (tc_chains t) w (length w) = (fired, arr, n)"
    and t': "t' = t\<lparr>tc_windows := (tc_windows t)(ev_Source e := take n arr)\<rparr>"
    using assms by (auto simp: Observe_def Let_def split: prod.splits)
  note stored = check_chains_stored [OF run order_refl]
  have iff: "fired \<noteq> [] \<longleftrightarrow> (\<exists>c \<in> set (tc_chains t). occurs c now w)"
    using check_chains_none [of "tc_chains t" now w True "length w"] check_chains_first [of "tc_chains t" now w "length w"] run
    by fastforce
  have first: "find (\<lambda>c. occurs c now w) (tc_chains t) = Some c \<and>
      (\<exists>evs. subseq evs (in_window c now w) \<and> map se_Type evs = cr_Sequence c \<and> map se_ID evs = ids)"
    if "fired = (c, ids) # rest" for c ids rest
    using check_chains_first [of "tc_chains t" now w "length w"] iff run that matchChain_ids by fastforce
  have young: "now - tc_maxAge t < se_Timestamp ev \<or> se_ID ev = ev_ID e" if "ev \<in> set w" for ev
    using that assms(4,5) by (auto simp: observe_window_def Let_def)
  have win: "subseq (take n arr) w" using stored by simp
  then have "\<forall>ev \<in> set (take n arr). now - tc_maxAge t < se_Timestamp ev \<or> se_ID ev = ev_ID e"
    using young subseq_set by blast
  then show ?thesis using iff first stored win t' by simp
qed

definition observed :: "string \<Rightarrow> string \<Rightarrow> gotime \<Rightarrow> NetworkEvent" where
  "observed i ty ts =
     \<lparr>ev_ID = i, ev_Type = ty, ev_Source = ''10.0.0.3'', ev_Destination = [], ev_Metadata = None,
      ev_Timestamp = ts, ev_Signature = [], ev_SignerKeyID = []\<rparr>"

definition armed :: "ChainRule list \<Rightarrow> TemporalCorrelator" where
  "armed cs = (NewTemporalCorrelator cs)\<lparr>tc_onAlert := True\<rparr>"

theorem chain_detection_witness:
  "\<exists>c ids rest t'. Observe 0 (observed ''p'' EventPortScan 20) (snd (Observe 0 (observed ''a'' EventARP 10) (armed DefaultChains)))
      = ((c, ids) # rest, t') \<and> ids = [''a'', ''p''] \<and>
    (\<forall>ev \<in> set (tc_windows t' ''10.0.0.3''). se_ID ev \<notin> set ids)"
proof -
  let ?t = "snd (Observe 0 (observed ''a'' EventARP 10) (armed DefaultChains))"
  obtain fired t' where run: "Observe 0 (observed ''p'' EventPortScan 20) ?t = (fired, t')" by fastforce
  have f: "map snd (fst (Observe 0 (observed ''p'' EventPortScan 20) ?t)) = [[''a'', ''p'']]" by code_simp
  then obtain c where c: "fired = [(c, [''a'', ''p''])]" using run by (auto simp: map_eq_Cons_conv)
  have on: "tc_onAlert ?t" by code_simp
  have "\<forall>(c, ids) \<in> set fired. \<forall>ev \<in> set (tc_windows t' (ev_Source (observed ''p'' EventPortScan 20))). se_ID ev \<notin> set ids"
    using chain_detection [OF _ _ on refl refl run] by (auto simp: observed_def event_types)
  with run c show ?thesis by (auto simp: observed_def)
qed

section \<open>The shared array\<close>

text \<open>
  After a first alert the remaining chains are matched against the compacted array with its
  stale tail. A single event can then stand for two: here one TOR event completes a chain
  that asks for two.
\<close>

lemma chain_counts_event_twice:
  "map (\<lambda>(c, ids). (cr_Name c, ids))
     (fst (Observe 0 (observed ''p'' EventPortScan 3)
       (snd (Observe 0 (observed ''t'' EventTor 2)
       (snd (Observe 0 (observed ''a'' EventARP 1)
         (armed [mk_chain ''FIRST'' [] [] time_Minute [EventARP, EventPortScan],
                 mk_chain ''TWICE'' [] [] time_Minute [EventTor, EventTor]])))))))
   = [(''FIRST'', [''a'', ''p'']), (''TWICE'', [''t'', ''t''])]"
  by code_simp

section \<open>Alerts are not analysed\<close>

text \<open>
  One event leads to finitely many others: neither the engine nor the correlator reacts to
  an alert, and all they produce are alerts.
\<close>

lemma no_alert_cascade:
  assumes "\<And>r e a. r \<in> set rules \<Longrightarrow> r e = Some a \<Longrightarrow> ev_Type a = EventAlert"
    and "a \<in> set (Analyze enabled cb rules e) \<union> chain_alert dt v e ` set (fst (Observe clock e t))"
  shows "Analyze enabled cb rules a = [] \<and> Observe clock' a t' = ([], t')"
proof -
  have "ev_Type a = EventAlert"
    using assms by (auto simp: Analyze_def map_filter_def chain_alert_def split: if_splits)
  then show ?thesis by (simp add: Analyze_def Observe_def)
qed

end
