(* ===== verification/Identity.thy ===== *)
theory Identity
  imports Authz Pki
begin

text \<open>
  Principals and their credentials, \<^verbatim>\<open>internal/identity\<close>: the life of a principal
  (\<^verbatim>\<open>principal.go\<close>, \<^verbatim>\<open>roles.go\<close>), the three kinds of credential (\<^verbatim>\<open>password_totp.go\<close>,
  \<^verbatim>\<open>apikey.go\<close>, \<^verbatim>\<open>mtls.go\<close>), the in-memory stores (\<^verbatim>\<open>memory_store.go\<close>) and the
  authenticator (\<^verbatim>\<open>authenticator.go\<close>).

  The packages bcrypt and totp and the certificate verification of \<^verbatim>\<open>crypto/x509\<close> are
  arguments (\<open>auth_lib\<close>); what one minting of a key draws from \<^verbatim>\<open>crypto/rand\<close> and bcrypt is
  the record \<open>key_mint\<close>. The interface \<^verbatim>\<open>CredentialStore\<close> is the locale \<open>credential_store\<close>,
  which the memory store interprets.
\<close>

section \<open>Principals\<close>

definition PrincipalHuman :: string where "PrincipalHuman = ''human''"
definition PrincipalService :: string where "PrincipalService = ''service''"
definition PrincipalAgent :: string where "PrincipalAgent = ''agent''"

lemmas principal_types = PrincipalHuman_def PrincipalService_def PrincipalAgent_def

definition StatusActive :: string where "StatusActive = ''active''"
definition StatusSuspended :: string where "StatusSuspended = ''suspended''"
definition StatusRevoked :: string where "StatusRevoked = ''revoked''"

lemmas principal_statuses = StatusActive_def StatusSuspended_def StatusRevoked_def

definition IsActive :: "Principal option \<Rightarrow> bool" where
  "IsActive po = (case po of None \<Rightarrow> False | Some p \<Rightarrow> pr_Status p = StatusActive)"

definition Claim :: "Principal option \<Rightarrow> string \<Rightarrow> string" where
  "Claim po name =
     (case po of
        None \<Rightarrow> []
      | Some p \<Rightarrow>
          (case pr_Claims p of
             None \<Rightarrow> []
           | Some claims \<Rightarrow> (case claims name of Some (AString v) \<Rightarrow> v | _ \<Rightarrow> [])))"

definition HasRole :: "Principal option \<Rightarrow> string \<Rightarrow> bool" where
  "HasRole po name = (case po of None \<Rightarrow> False | Some p \<Rightarrow> find (\<lambda>r. r = name) (pr_Roles p) \<noteq> None)"

text \<open>Certificates, as far as they are read.\<close>

record x509_leaf =
  lf_RawSPKI :: bytes
  lf_OU :: "string list"

definition RolesFromCert :: "x509_leaf option \<Rightarrow> string list" where
  "RolesFromCert cert =
     (case cert of
        None \<Rightarrow> []
      | Some c \<Rightarrow>
          filter (\<lambda>name. name \<noteq> [])
            (map (\<lambda>ou. strings_TrimSpace (drop (length ''role:'') ou))
              (filter (\<lambda>ou. strings_HasPrefix ou ''role:'') (lf_OU c))))"

fun assign_loop :: "string list \<Rightarrow> string set \<Rightarrow> string list" where
  "assign_loop [] seen = []"
| "assign_loop (n # ns) seen =
     (let t = strings_TrimSpace n
      in if t = [] \<or> t \<in> seen then assign_loop ns seen else t # assign_loop ns (insert t seen))"

definition AssignRoles :: "Principal option \<Rightarrow> string list \<Rightarrow> Principal option" where
  "AssignRoles po names = map_option (\<lambda>p. p\<lparr>pr_Roles := assign_loop names {}\<rparr>) po"

lemma assign_loop_set: "set (assign_loop ns seen) = strings_TrimSpace ` set ns - {[]} - seen"
  by (induction ns seen rule: assign_loop.induct) (auto simp: Let_def)

lemma assign_loop_distinct: "distinct (assign_loop ns seen)"
  by (induction ns seen rule: assign_loop.induct) (auto simp: Let_def assign_loop_set)

section \<open>Errors and factors\<close>

datatype id_error =
    ErrPrincipalNotFound
  | ErrPrincipalInactive
  | ErrCredentialNotFound
  | ErrCredentialInvalid
  | ErrInsufficientFactor
  | ErrUnsupportedFactor
  | IdOther string

definition CredentialPassword :: string where "CredentialPassword = ''password''"
definition CredentialWebAuthn :: string where "CredentialWebAuthn = ''webauthn''"
definition CredentialAPIKey :: string where "CredentialAPIKey = ''apikey''"
definition CredentialMTLS :: string where "CredentialMTLS = ''mtls''"
definition CredentialOIDC :: string where "CredentialOIDC = ''oidc''"

lemmas credential_kinds = CredentialPassword_def CredentialWebAuthn_def CredentialAPIKey_def
  CredentialMTLS_def CredentialOIDC_def

record AuthFactor =
  af_Kind :: string
  af_Subject :: string
  af_Proof :: bytes
  af_Extra :: "(string \<rightharpoonup> gany) option"

record auth_lib =
  al_Compare :: "bytes \<Rightarrow> bytes \<Rightarrow> bool"
  al_totp_Validate :: "string \<Rightarrow> string \<Rightarrow> bool"

section \<open>Credentials\<close>

record PasswordTOTPCredential =
  pc_principalID :: string
  pc_subject :: string
  pc_passwordHash :: bytes
  pc_totpSecret :: string
  pc_issuer :: string

record APIKeyCredential =
  ak_principalID :: string
  ak_keyID :: string
  ak_hash :: bytes
  ak_label :: string

record MTLSCredential =
  mt_principalID :: string
  mt_subject :: string
  mt_fingerprint :: string

datatype Credential =
    PasswordC PasswordTOTPCredential
  | APIKeyC APIKeyCredential
  | MTLSC MTLSCredential

fun Kind :: "Credential \<Rightarrow> string" where
  "Kind (PasswordC _) = CredentialPassword"
| "Kind (APIKeyC _) = CredentialAPIKey"
| "Kind (MTLSC _) = CredentialMTLS"

fun PrincipalID :: "Credential \<Rightarrow> string" where
  "PrincipalID (PasswordC c) = pc_principalID c"
| "PrincipalID (APIKeyC c) = ak_principalID c"
| "PrincipalID (MTLSC c) = mt_principalID c"

fun Subject :: "Credential \<Rightarrow> string" where
  "Subject (PasswordC c) = pc_subject c"
| "Subject (APIKeyC c) = ak_keyID c"
| "Subject (MTLSC c) = mt_fingerprint c"

definition NewPasswordTOTPCredential ::
  "(bytes \<Rightarrow> bytes option) \<Rightarrow> string \<Rightarrow> string \<Rightarrow> string \<Rightarrow> string \<Rightarrow> string \<Rightarrow> id_error + PasswordTOTPCredential" where
  "NewPasswordTOTPCredential bcrypt principalID subject password totpSecret issuer =
     (if principalID = [] \<or> subject = [] then Inl (IdOther ''principal id and subject required'')
      else if password = [] then Inl (IdOther ''password required'')
      else if totpSecret = [] then Inl (IdOther ''totp secret required'')
      else
        (case bcrypt (str_bytes password) of
           None \<Rightarrow> Inl (IdOther ''bcrypt'')
         | Some h \<Rightarrow>
             Inr \<lparr>pc_principalID = principalID, pc_subject = subject, pc_passwordHash = h,
                  pc_totpSecret = totpSecret,
                  pc_issuer = (if issuer = [] then ''OWASAKA'' else issuer)\<rparr>))"

definition LoadPasswordTOTPCredential ::
  "string \<Rightarrow> string \<Rightarrow> bytes \<Rightarrow> string \<Rightarrow> string \<Rightarrow> PasswordTOTPCredential" where
  "LoadPasswordTOTPCredential principalID subject h totpSecret issuer =
     \<lparr>pc_principalID = principalID, pc_subject = subject, pc_passwordHash = h,
      pc_totpSecret = totpSecret, pc_issuer = (if issuer = [] then ''OWASAKA'' else issuer)\<rparr>"

definition totp_code :: "AuthFactor \<Rightarrow> string" where
  "totp_code f =
     (case af_Extra f of
        None \<Rightarrow> []
      | Some m \<Rightarrow> (case m ''totp'' of Some (AString code) \<Rightarrow> code | _ \<Rightarrow> []))"

definition password_Verify :: "auth_lib \<Rightarrow> PasswordTOTPCredential \<Rightarrow> AuthFactor \<Rightarrow> id_error option" where
  "password_Verify L c f =
     (if af_Kind f \<noteq> CredentialPassword then Some ErrUnsupportedFactor
      else if \<not> al_Compare L (pc_passwordHash c) (af_Proof f) then Some ErrCredentialInvalid
      else if totp_code f = [] then Some ErrInsufficientFactor
      else if \<not> al_totp_Validate L (totp_code f) (pc_totpSecret c) then Some ErrCredentialInvalid
      else None)"

text \<open>API keys: \<^verbatim>\<open>oswk_<keyID>_<secret>\<close>.\<close>

definition APIKeyPrefix :: string where "APIKeyPrefix = ''oswk_''"

record key_mint =
  km_keyID :: "bytes option"
  km_secret :: "bytes option"
  km_bcrypt :: "bytes \<Rightarrow> bytes option"

definition NewAPIKey :: "key_mint \<Rightarrow> string \<Rightarrow> string \<Rightarrow> id_error + APIKeyCredential \<times> string" where
  "NewAPIKey m principalID label =
     (if principalID = [] then Inl (IdOther ''principal id required'')
      else
        (case (km_keyID m, km_secret m) of
           (Some keyIDBytes, Some secretBytes) \<Rightarrow>
             (let keyID = hex_EncodeToString keyIDBytes;
                  secret = RawURLEncoding secretBytes
              in (case km_bcrypt m (str_bytes secret) of
                    None \<Rightarrow> Inl (IdOther ''bcrypt'')
                  | Some h \<Rightarrow>
                      Inr (\<lparr>ak_principalID = principalID, ak_keyID = keyID, ak_hash = h, ak_label = label\<rparr>,
                           APIKeyPrefix @ keyID @ ''_'' @ secret)))
         | _ \<Rightarrow> Inl (IdOther ''read random'')))"

definition LoadAPIKey :: "string \<Rightarrow> string \<Rightarrow> bytes \<Rightarrow> string \<Rightarrow> APIKeyCredential" where
  "LoadAPIKey principalID keyID h label =
     \<lparr>ak_principalID = principalID, ak_keyID = keyID, ak_hash = h, ak_label = label\<rparr>"

definition ParseAPIKey :: "string \<Rightarrow> id_error + string \<times> string" where
  "ParseAPIKey presented =
     (if \<not> strings_HasPrefix presented APIKeyPrefix then Inl ErrCredentialInvalid
      else
        (case strings_SplitN2 (drop (length APIKeyPrefix) presented) (CHR ''_'') of
           [keyID, secret] \<Rightarrow> if keyID = [] \<or> secret = [] then Inl ErrCredentialInvalid else Inr (keyID, secret)
         | _ \<Rightarrow> Inl ErrCredentialInvalid))"

definition apikey_Verify :: "auth_lib \<Rightarrow> APIKeyCredential \<Rightarrow> AuthFactor \<Rightarrow> id_error option" where
  "apikey_Verify L c f =
     (if af_Kind f \<noteq> CredentialAPIKey then Some ErrUnsupportedFactor
      else if \<not> al_Compare L (ak_hash c) (af_Proof f) then Some ErrCredentialInvalid
      else None)"

text \<open>Client certificates, bound by the fingerprint of their key.\<close>

definition SPKIFingerprint :: "x509_leaf \<Rightarrow> string" where
  "SPKIFingerprint cert = strings_Join (hex_pairs (hex_EncodeToString (sha256 (lf_RawSPKI cert)))) '':''"

definition normalizeFingerprint :: "string \<Rightarrow> string" where
  "normalizeFingerprint s = strings_ToLower (strings_TrimSpace s)"

definition NewMTLSCredential :: "string \<Rightarrow> string \<Rightarrow> x509_leaf option \<Rightarrow> id_error + MTLSCredential" where
  "NewMTLSCredential principalID subject leaf =
     (if principalID = [] \<or> subject = [] then Inl (IdOther ''principal id and subject required'')
      else
        (case leaf of
           None \<Rightarrow> Inl (IdOther ''leaf cert required'')
         | Some l \<Rightarrow>
             Inr \<lparr>mt_principalID = principalID, mt_subject = subject, mt_fingerprint = SPKIFingerprint l\<rparr>))"

definition LoadMTLSCredential :: "string \<Rightarrow> string \<Rightarrow> string \<Rightarrow> MTLSCredential" where
  "LoadMTLSCredential principalID subject fingerprint =
     \<lparr>mt_principalID = principalID, mt_subject = subject, mt_fingerprint = normalizeFingerprint fingerprint\<rparr>"

definition MTLS_Validate :: "(x509_leaf \<Rightarrow> gotime \<Rightarrow> bool) \<Rightarrow> gotime \<Rightarrow> x509_leaf option \<Rightarrow> id_error + string" where
  "MTLS_Validate chain_ok now leaf =
     (case leaf of
        None \<Rightarrow> Inl ErrCredentialInvalid
      | Some l \<Rightarrow> if \<not> chain_ok l now then Inl ErrCredentialInvalid else Inr (SPKIFingerprint l))"

definition mtls_Verify :: "MTLSCredential \<Rightarrow> AuthFactor \<Rightarrow> id_error option" where
  "mtls_Verify c f =
     (if af_Kind f \<noteq> CredentialMTLS then Some ErrUnsupportedFactor
      else
        (let presented = normalizeFingerprint (af_Subject f)
         in if presented = [] \<or> presented \<noteq> mt_fingerprint c then Some ErrCredentialInvalid else None))"

fun cred_Verify :: "auth_lib \<Rightarrow> Credential \<Rightarrow> AuthFactor \<Rightarrow> id_error option" where
  "cred_Verify L (PasswordC c) f = password_Verify L c f"
| "cred_Verify L (APIKeyC c) f = apikey_Verify L c f"
| "cred_Verify L (MTLSC c) f = mtls_Verify c f"

section \<open>Stores\<close>

record MemoryPrincipalStore =
  ps_byID :: "string \<rightharpoonup> Principal"
  ps_bySubject :: "string \<rightharpoonup> string"

definition NewMemoryPrincipalStore :: MemoryPrincipalStore where
  "NewMemoryPrincipalStore = \<lparr>ps_byID = Map.empty, ps_bySubject = Map.empty\<rparr>"

definition ps_Get :: "MemoryPrincipalStore \<Rightarrow> string \<Rightarrow> id_error + Principal" where
  "ps_Get s i = (case ps_byID s i of None \<Rightarrow> Inl ErrPrincipalNotFound | Some p \<Rightarrow> Inr p)"

text \<open>A subject whose id is not stored would yield a nil principal without an error.\<close>

definition ps_FindBySubject :: "MemoryPrincipalStore \<Rightarrow> string \<Rightarrow> id_error + Principal option" where
  "ps_FindBySubject s subject =
     (case ps_bySubject s subject of None \<Rightarrow> Inl ErrPrincipalNotFound | Some i \<Rightarrow> Inr (ps_byID s i))"

definition ps_Save :: "MemoryPrincipalStore \<Rightarrow> Principal option \<Rightarrow> id_error option \<times> MemoryPrincipalStore" where
  "ps_Save s po =
     (case po of
        None \<Rightarrow> (Some ErrPrincipalNotFound, s)
      | Some p \<Rightarrow>
          if pr_ID p = [] then (Some ErrPrincipalNotFound, s)
          else
            (None, s\<lparr>ps_byID := (ps_byID s)(pr_ID p \<mapsto> p),
                     ps_bySubject := (if pr_Subject p \<noteq> [] then (ps_bySubject s)(pr_Subject p \<mapsto> pr_ID p)
                                      else ps_bySubject s)\<rparr>))"

definition ps_UpdateStatus ::
  "MemoryPrincipalStore \<Rightarrow> string \<Rightarrow> string \<Rightarrow> id_error option \<times> MemoryPrincipalStore" where
  "ps_UpdateStatus s i status =
     (case ps_byID s i of
        None \<Rightarrow> (Some ErrPrincipalNotFound, s)
      | Some p \<Rightarrow> (None, s\<lparr>ps_byID := (ps_byID s)(i \<mapsto> p\<lparr>pr_Status := status\<rparr>)\<rparr>))"

definition ps_UpdateLastSeen ::
  "MemoryPrincipalStore \<Rightarrow> string \<Rightarrow> gotime \<Rightarrow> id_error option \<times> MemoryPrincipalStore" where
  "ps_UpdateLastSeen s i t =
     (case ps_byID s i of
        None \<Rightarrow> (Some ErrPrincipalNotFound, s)
      | Some p \<Rightarrow> (None, s\<lparr>ps_byID := (ps_byID s)(i \<mapsto> p\<lparr>pr_LastSeenAt := Some t\<rparr>)\<rparr>))"

text \<open>No subject is bound to an id that is not stored.\<close>

definition ps_inv :: "MemoryPrincipalStore \<Rightarrow> bool" where
  "ps_inv s \<longleftrightarrow> (\<forall>i \<in> ran (ps_bySubject s). ps_byID s i \<noteq> None)"

lemma ps_inv_ops:
  "ps_inv NewMemoryPrincipalStore"
  "ps_inv s \<Longrightarrow> ps_inv (snd (ps_Save s po))"
  "ps_inv s \<Longrightarrow> ps_inv (snd (ps_UpdateStatus s i st))"
  "ps_inv s \<Longrightarrow> ps_inv (snd (ps_UpdateLastSeen s i t))"
  by (auto simp: ps_inv_def NewMemoryPrincipalStore_def ps_Save_def ps_UpdateStatus_def
      ps_UpdateLastSeen_def ran_def split: option.splits if_splits)

lemma find_by_subject_not_nil: "ps_inv s \<Longrightarrow> ps_FindBySubject s x \<noteq> Inr None"
  by (auto simp: ps_inv_def ps_FindBySubject_def ran_def split: option.splits)

type_synonym credentialKey = "string \<times> string"

record MemoryCredentialStore =
  cs_credentials :: "credentialKey \<rightharpoonup> Credential"
  cs_byPrincipal :: "string \<Rightarrow> credentialKey list"

definition NewMemoryCredentialStore :: MemoryCredentialStore where
  "NewMemoryCredentialStore = \<lparr>cs_credentials = Map.empty, cs_byPrincipal = (\<lambda>_. [])\<rparr>"

definition cs_Lookup :: "MemoryCredentialStore \<Rightarrow> string \<Rightarrow> Credential list" where
  "cs_Lookup s principalID = List.map_filter (cs_credentials s) (cs_byPrincipal s principalID)"

definition cs_FindBySubject :: "MemoryCredentialStore \<Rightarrow> string \<Rightarrow> string \<Rightarrow> id_error + Credential" where
  "cs_FindBySubject s kind subject =
     (case cs_credentials s (kind, subject) of None \<Rightarrow> Inl ErrCredentialNotFound | Some c \<Rightarrow> Inr c)"

definition appendUnique :: "credentialKey list \<Rightarrow> credentialKey \<Rightarrow> credentialKey list" where
  "appendUnique ks k = (if k \<in> set ks then ks else ks @ [k])"

definition removeKey :: "credentialKey list \<Rightarrow> credentialKey \<Rightarrow> credentialKey list" where
  "removeKey ks k = filter (\<lambda>existing. existing \<noteq> k) ks"

definition cs_Save :: "MemoryCredentialStore \<Rightarrow> Credential \<Rightarrow> id_error option \<times> MemoryCredentialStore" where
  "cs_Save s c =
     (let key = (Kind c, Subject c)
      in (None, s\<lparr>cs_credentials := (cs_credentials s)(key \<mapsto> c),
                  cs_byPrincipal := (cs_byPrincipal s)
                    (PrincipalID c := appendUnique (cs_byPrincipal s (PrincipalID c)) key)\<rparr>))"

definition cs_Revoke ::
  "MemoryCredentialStore \<Rightarrow> string \<Rightarrow> string \<Rightarrow> id_error option \<times> MemoryCredentialStore" where
  "cs_Revoke s kind subject =
     (let key = (kind, subject)
      in (case cs_credentials s key of
            None \<Rightarrow> (Some ErrCredentialNotFound, s)
          | Some c \<Rightarrow>
              (let s' = s\<lparr>cs_credentials := (cs_credentials s)(key := None)\<rparr>;
                   pid = PrincipalID c
               in (None,
                   if pid \<noteq> []
                   then s'\<lparr>cs_byPrincipal := (cs_byPrincipal s')(pid := removeKey (cs_byPrincipal s' pid) key)\<rparr>
                   else s'))))"

section \<open>The authenticator\<close>

fun verify_all :: "auth_lib \<Rightarrow> Credential \<Rightarrow> AuthFactor list \<Rightarrow> id_error option" where
  "verify_all L c [] = None"
| "verify_all L c (f # fs) = (case cred_Verify L c f of Some e \<Rightarrow> Some e | None \<Rightarrow> verify_all L c fs)"

definition Authenticate ::
  "auth_lib \<Rightarrow> (string \<Rightarrow> id_error + Principal) \<Rightarrow> (string \<Rightarrow> string \<Rightarrow> id_error + Credential) \<Rightarrow>
   AuthFactor list \<Rightarrow> id_error + Principal" where
  "Authenticate L principals_Get creds_FindBySubject factors =
     (case factors of
        [] \<Rightarrow> Inl ErrInsufficientFactor
      | f0 # _ \<Rightarrow>
          (let kind = af_Kind f0; subject = af_Subject f0
           in (case creds_FindBySubject kind subject of
                 Inl err \<Rightarrow> Inl (if err = ErrCredentialNotFound then ErrCredentialInvalid else err)
               | Inr cred \<Rightarrow>
                   (case verify_all L cred factors of
                      Some err \<Rightarrow> Inl err
                    | None \<Rightarrow>
                        (case principals_Get (PrincipalID cred) of
                           Inl err \<Rightarrow> Inl err
                         | Inr p \<Rightarrow>
                             if \<not> IsActive (Some p) then Inl ErrPrincipalInactive
                             else if pr_Type p = PrincipalHuman then
                               (if kind = CredentialPassword
                                then (if length factors \<noteq> 1 then Inl ErrInsufficientFactor else Inr p)
                                else (if length factors < 2 then Inl ErrInsufficientFactor else Inr p))
                             else if pr_Type p = PrincipalService then
                               (if kind \<noteq> CredentialMTLS then Inl ErrUnsupportedFactor else Inr p)
                             else if pr_Type p = PrincipalAgent then Inr p
                             else Inl ErrUnsupportedFactor)))))"

section \<open>What a factor proves\<close>

fun proves :: "auth_lib \<Rightarrow> Credential \<Rightarrow> AuthFactor \<Rightarrow> bool" where
  "proves L (PasswordC c) f \<longleftrightarrow>
     af_Kind f = CredentialPassword \<and> al_Compare L (pc_passwordHash c) (af_Proof f) \<and>
     (\<exists>m code. af_Extra f = Some m \<and> m ''totp'' = Some (AString code) \<and> code \<noteq> [] \<and>
       al_totp_Validate L code (pc_totpSecret c))"
| "proves L (APIKeyC c) f \<longleftrightarrow> af_Kind f = CredentialAPIKey \<and> al_Compare L (ak_hash c) (af_Proof f)"
| "proves L (MTLSC c) f \<longleftrightarrow>
     af_Kind f = CredentialMTLS \<and> mt_fingerprint c \<noteq> [] \<and> normalizeFingerprint (af_Subject f) = mt_fingerprint c"

text \<open>
  The checks on kind and number of the factors at the end of \<^verbatim>\<open>Authenticate\<close>. They admit more than
  the comment before it lists: a human with two factors of any kind but the password, and an agent
  with any kind.
\<close>

definition admissible :: "string \<Rightarrow> string \<Rightarrow> nat \<Rightarrow> bool" where
  "admissible ptype kind n \<longleftrightarrow>
     ptype = PrincipalHuman \<and> (if kind = CredentialPassword then n = 1 else 2 \<le> n) \<or>
     ptype = PrincipalService \<and> kind = CredentialMTLS \<or>
     ptype = PrincipalAgent"

lemma totp_code_iff:
  "(\<exists>m code. af_Extra f = Some m \<and> m ''totp'' = Some (AString code) \<and> code \<noteq> [] \<and> P code) \<longleftrightarrow>
   totp_code f \<noteq> [] \<and> P (totp_code f)"
  by (auto simp: totp_code_def split: option.splits gany.splits)

lemma verify_proves: "cred_Verify L c f = None \<longleftrightarrow> proves L c f"
proof (cases c)
  case (PasswordC p)
  then show ?thesis unfolding PasswordC proves.simps totp_code_iff by (simp add: password_Verify_def)
qed (auto simp: apikey_Verify_def mtls_Verify_def Let_def)

lemma verify_all_proves: "verify_all L c fs = None \<longleftrightarrow> (\<forall>f \<in> set fs. proves L c f)"
  by (induction fs) (auto simp: verify_proves [symmetric] split: option.splits)

lemma types_distinct [simp]:
  "PrincipalHuman \<noteq> PrincipalService" "PrincipalHuman \<noteq> PrincipalAgent" "PrincipalService \<noteq> PrincipalAgent"
  "PrincipalService \<noteq> PrincipalHuman" "PrincipalAgent \<noteq> PrincipalHuman" "PrincipalAgent \<noteq> PrincipalService"
  "CredentialPassword \<noteq> CredentialAPIKey" "CredentialPassword \<noteq> CredentialMTLS" "CredentialAPIKey \<noteq> CredentialMTLS"
  "CredentialAPIKey \<noteq> CredentialPassword" "CredentialMTLS \<noteq> CredentialPassword" "CredentialMTLS \<noteq> CredentialAPIKey"
  by (simp_all add: principal_types credential_kinds)

lemma Authenticate_iff:
  "Authenticate L get lookup fs = Inr p \<longleftrightarrow>
   (\<exists>f c. fs \<noteq> [] \<and> f = hd fs \<and> lookup (af_Kind f) (af_Subject f) = Inr c \<and> (\<forall>g \<in> set fs. proves L c g) \<and>
     get (PrincipalID c) = Inr p \<and> pr_Status p = StatusActive \<and> admissible (pr_Type p) (af_Kind f) (length fs))"
proof (cases fs)
  case (Cons f rest)
  show ?thesis
  proof (cases "lookup (af_Kind f) (af_Subject f)")
    case (Inr c)
    then show ?thesis
      unfolding verify_all_proves [symmetric] Cons
      by (cases "verify_all L c (f # rest)"; cases "get (PrincipalID c)")
        (auto simp: Authenticate_def IsActive_def admissible_def Suc_le_eq simp del: verify_all.simps split: if_splits)
  qed (simp add: Cons Authenticate_def)
qed (simp add: Authenticate_def)

section \<open>The credential store as an interface\<close>

text \<open>What the authenticator relies on, and what follows for it.\<close>

locale credential_store =
  fixes lookup :: "'s \<Rightarrow> string \<Rightarrow> string \<Rightarrow> id_error + Credential"
    and save :: "'s \<Rightarrow> Credential \<Rightarrow> id_error option \<times> 's"
    and revoke :: "'s \<Rightarrow> string \<Rightarrow> string \<Rightarrow> id_error option \<times> 's"
  assumes find_save: "save s c = (None, s') \<Longrightarrow>
      lookup s' k x = (if k = Kind c \<and> x = Subject c then Inr c else lookup s k x)"
    and find_revoke: "revoke s k x = (None, s') \<Longrightarrow>
      lookup s' k' x' = (if k' = k \<and> x' = x then Inl ErrCredentialNotFound else lookup s k' x')"
    and revoke_fails: "revoke s k x = (Some e, s') \<Longrightarrow> s' = s \<and> lookup s k x = Inl ErrCredentialNotFound"
begin

lemma revoked_refused:
  assumes "revoke s (af_Kind f) (af_Subject f) = (r, s')"
  shows "Authenticate L get (lookup s') (f # fs) = Inl ErrCredentialInvalid"
proof (cases r)
  case None
  with assms show ?thesis by (simp add: Authenticate_def find_revoke)
next
  case (Some e)
  with assms revoke_fails [of s "af_Kind f" "af_Subject f" e s'] show ?thesis by (simp add: Authenticate_def)
qed

lemma revoke_keeps_others:
  assumes "revoke s k x = (r, s')" "(af_Kind f, af_Subject f) \<noteq> (k, x)"
  shows "Authenticate L get (lookup s') (f # fs) = Authenticate L get (lookup s) (f # fs)"
proof (cases r)
  case None
  with assms find_revoke have "lookup s' (af_Kind f) (af_Subject f) = lookup s (af_Kind f) (af_Subject f)" by auto
  then show ?thesis by (simp add: Authenticate_def)
next
  case (Some e)
  with assms revoke_fails [of s k x e s'] show ?thesis by simp
qed

lemma saved_found: "save s c = (None, s') \<Longrightarrow> lookup s' (Kind c) (Subject c) = Inr c"
  by (simp add: find_save)

end

interpretation memory_creds: credential_store cs_FindBySubject cs_Save cs_Revoke
proof (unfold_locales, goal_cases)
  case (1 s c s' k x)
  then show ?case by (auto simp: cs_Save_def cs_FindBySubject_def Let_def)
next
  case (2 s k x s' k' x')
  then show ?case by (auto simp: cs_Revoke_def cs_FindBySubject_def Let_def split: option.splits if_splits)
next
  case (3 s k x e s')
  then show ?case by (auto simp: cs_Revoke_def cs_FindBySubject_def Let_def split: option.splits if_splits)
qed

section \<open>Histories of a credential store\<close>

datatype cred_op = SaveCred Credential | RevokeCred string string

fun cred_step :: "MemoryCredentialStore \<Rightarrow> cred_op \<Rightarrow> MemoryCredentialStore" where
  "cred_step s (SaveCred c) = snd (cs_Save s c)"
| "cred_step s (RevokeCred k x) = snd (cs_Revoke s k x)"

definition run_creds :: "cred_op list \<Rightarrow> MemoryCredentialStore" where
  "run_creds ops = foldl cred_step NewMemoryCredentialStore ops"

fun touches :: "cred_op \<Rightarrow> credentialKey \<Rightarrow> bool" where
  "touches (SaveCred c) key \<longleftrightarrow> (Kind c, Subject c) = key"
| "touches (RevokeCred k x) key \<longleftrightarrow> (k, x) = key"

text \<open>The credential was saved under this key, and nothing touched the key since.\<close>

definition current :: "cred_op list \<Rightarrow> credentialKey \<Rightarrow> Credential \<Rightarrow> bool" where
  "current ops key c \<longleftrightarrow>
     (\<exists>before after. ops = before @ SaveCred c # after \<and> (Kind c, Subject c) = key \<and>
        (\<forall>op \<in> set after. \<not> touches op key))"

lemma current_snoc:
  "current (ops @ [op]) key c \<longleftrightarrow>
   (if touches op key then op = SaveCred c \<and> (Kind c, Subject c) = key else current ops key c)" (is "?l \<longleftrightarrow> ?r")
proof
  assume ?l
  then obtain b a where "ops @ [op] = b @ SaveCred c # a" "(Kind c, Subject c) = key" "\<forall>op \<in> set a. \<not> touches op key"
    by (auto simp: current_def)
  then show ?r by (cases a rule: rev_cases) (auto simp: current_def)
next
  assume r: ?r
  show ?l
  proof (cases "touches op key")
    case True
    with r show ?thesis unfolding current_def by (intro exI [of _ ops] exI [of _ "[]"]) auto
  next
    case False
    with r obtain b a where "ops = b @ SaveCred c # a" "(Kind c, Subject c) = key" "\<forall>op \<in> set a. \<not> touches op key"
      by (auto simp: current_def)
    with False show ?thesis unfolding current_def by (intro exI [of _ b] exI [of _ "a @ [op]"]) auto
  qed
qed

lemma run_creds_current: "cs_FindBySubject (run_creds ops) k x = Inr c \<longleftrightarrow> current ops (k, x) c"
proof (induction ops rule: rev_induct)
  case Nil
  then show ?case by (simp add: run_creds_def NewMemoryCredentialStore_def cs_FindBySubject_def current_def)
next
  case (snoc op ops)
  have run: "run_creds (ops @ [op]) = cred_step (run_creds ops) op" by (simp add: run_creds_def)
  show ?case
  proof (cases op)
    case (SaveCred d)
    have "cs_Save (run_creds ops) d = (None, run_creds (ops @ [op]))" unfolding run by (simp add: SaveCred cs_Save_def Let_def)
    from memory_creds.find_save [OF this] show ?thesis using snoc SaveCred by (auto simp: current_snoc)
  next
    case (RevokeCred k' x')
    obtain r where r: "cs_Revoke (run_creds ops) k' x' = (r, run_creds (ops @ [op]))"
      using prod.collapse by (metis cred_step.simps(2) run RevokeCred)
    show ?thesis
    proof (cases r)
      case None
      with memory_creds.find_revoke [OF r [unfolded None], of k x] show ?thesis
        using snoc RevokeCred by (auto simp: current_snoc)
    next
      case (Some e)
      with memory_creds.revoke_fails [OF r [unfolded Some]] show ?thesis
        using snoc RevokeCred by (auto simp: current_snoc)
    qed
  qed
qed

section \<open>Properties\<close>

text \<open>
  C12: authentication, over any history of the credential store. A login yields a principal only if
  the first factor names a credential that was saved and neither replaced nor revoked since, every
  factor proves that credential (password and time code, the secret of the key, or the pinned
  fingerprint), and the credential's principal is stored, active and of a known type; a service gets in
  by its client certificate only, and a human neither by a single key or certificate nor by anything
  besides the combined password factor when that comes first. Conversely, one factor that proves the
  current credential of an active principal is enough for a human with the password, for an agent with a
  key or a certificate and for a service with a certificate.
\<close>

theorem authentication_policy:
  "(\<forall>p. Authenticate L (ps_Get ps) (cs_FindBySubject (run_creds ops)) factors = Inr p \<longrightarrow>
     (\<exists>f fs c. factors = f # fs \<and> current ops (af_Kind f, af_Subject f) c \<and> af_Kind f = Kind c \<and>
        (\<forall>g \<in> set factors. proves L c g) \<and>
        ps_byID ps (PrincipalID c) = Some p \<and> pr_Status p = StatusActive \<and>
        pr_Type p \<in> {PrincipalHuman, PrincipalService, PrincipalAgent} \<and>
        (pr_Type p = PrincipalService \<longrightarrow> Kind c = CredentialMTLS) \<and>
        (pr_Type p = PrincipalHuman \<longrightarrow>
           (fs = [] \<longrightarrow> Kind c \<notin> {CredentialAPIKey, CredentialMTLS}) \<and> (Kind c = CredentialPassword \<longrightarrow> fs = [])))) \<and>
   (\<forall>f c p. factors = [f] \<and> current ops (af_Kind f, af_Subject f) c \<and> proves L c f \<and>
      ps_byID ps (PrincipalID c) = Some p \<and> pr_Status p = StatusActive \<and>
      (pr_Type p, Kind c) \<in> {(PrincipalHuman, CredentialPassword), (PrincipalAgent, CredentialAPIKey),
         (PrincipalAgent, CredentialMTLS), (PrincipalService, CredentialMTLS)} \<longrightarrow>
      Authenticate L (ps_Get ps) (cs_FindBySubject (run_creds ops)) factors = Inr p)"
proof -
  have kind: "Kind c = k" if "current ops (k, x) c" for k x c using that by (auto simp: current_def)
  have get: "ps_Get ps i = Inr p \<longleftrightarrow> ps_byID ps i = Some p" for i p by (auto simp: ps_Get_def split: option.splits)
  note auth = Authenticate_iff [of L "ps_Get ps" "cs_FindBySubject (run_creds ops)", unfolded run_creds_current get]
  show ?thesis
  proof (intro conjI allI impI)
    fix p
    assume "Authenticate L (ps_Get ps) (cs_FindBySubject (run_creds ops)) factors = Inr p"
    then obtain f c where a: "factors \<noteq> []" "f = hd factors" "current ops (af_Kind f, af_Subject f) c"
      "\<forall>g \<in> set factors. proves L c g" "ps_byID ps (PrincipalID c) = Some p" "pr_Status p = StatusActive"
      "admissible (pr_Type p) (af_Kind f) (length factors)"
      unfolding auth by blast
    from kind [OF a(3)] have k: "af_Kind f = Kind c" by simp
    have "pr_Type p \<in> {PrincipalHuman, PrincipalService, PrincipalAgent} \<and>
        (pr_Type p = PrincipalService \<longrightarrow> Kind c = CredentialMTLS) \<and>
        (pr_Type p = PrincipalHuman \<longrightarrow>
           (tl factors = [] \<longrightarrow> Kind c \<notin> {CredentialAPIKey, CredentialMTLS}) \<and>
           (Kind c = CredentialPassword \<longrightarrow> tl factors = []))"
      using a(1,7) k by (cases factors) (auto simp: admissible_def split: if_splits)
    with a k show "\<exists>f fs c. factors = f # fs \<and> current ops (af_Kind f, af_Subject f) c \<and> af_Kind f = Kind c \<and>
        (\<forall>g \<in> set factors. proves L c g) \<and>
        ps_byID ps (PrincipalID c) = Some p \<and> pr_Status p = StatusActive \<and>
        pr_Type p \<in> {PrincipalHuman, PrincipalService, PrincipalAgent} \<and>
        (pr_Type p = PrincipalService \<longrightarrow> Kind c = CredentialMTLS) \<and>
        (pr_Type p = PrincipalHuman \<longrightarrow>
           (fs = [] \<longrightarrow> Kind c \<notin> {CredentialAPIKey, CredentialMTLS}) \<and> (Kind c = CredentialPassword \<longrightarrow> fs = []))"
      by (intro exI [of _ f] exI [of _ "tl factors"] exI [of _ c]) simp
  next
    fix f c p
    assume a: "factors = [f] \<and> current ops (af_Kind f, af_Subject f) c \<and> proves L c f \<and>
      ps_byID ps (PrincipalID c) = Some p \<and> pr_Status p = StatusActive \<and>
      (pr_Type p, Kind c) \<in> {(PrincipalHuman, CredentialPassword), (PrincipalAgent, CredentialAPIKey),
         (PrincipalAgent, CredentialMTLS), (PrincipalService, CredentialMTLS)}"
    then have "admissible (pr_Type p) (af_Kind f) 1" using kind by (auto simp: admissible_def)
    with a show "Authenticate L (ps_Get ps) (cs_FindBySubject (run_creds ops)) factors = Inr p"
      unfolding auth by auto
  qed
qed

definition sample_lib :: auth_lib where
  "sample_lib = \<lparr>al_Compare = (\<lambda>h pw. h = rev pw), al_totp_Validate = (\<lambda>code secret. code = secret)\<rparr>"

definition sample_mint :: key_mint where
  "sample_mint = \<lparr>km_keyID = Some [1, 2, 3, 4, 5, 6, 7, 8], km_secret = Some (replicate 32 9), km_bcrypt = (\<lambda>pw. Some (rev pw))\<rparr>"

definition sample_principal :: "string \<Rightarrow> Principal" where
  "sample_principal t = \<lparr>pr_ID = ''p'', pr_Type = t, pr_Subject = ''admin'', pr_DisplayName = [],
     pr_Status = StatusActive, pr_Roles = [''admin''], pr_Claims = None, pr_CreatedAt = 0, pr_LastSeenAt = None\<rparr>"

definition sample_principals :: "string \<Rightarrow> MemoryPrincipalStore" where
  "sample_principals t = snd (ps_Save NewMemoryPrincipalStore (Some (sample_principal t)))"

definition sample_key :: Credential where
  "sample_key = APIKeyC \<lparr>ak_principalID = ''p'', ak_keyID = ''k1'', ak_hash = [7], ak_label = []\<rparr>"

definition sample_factor :: AuthFactor where
  "sample_factor = \<lparr>af_Kind = CredentialAPIKey, af_Subject = ''k1'', af_Proof = [7], af_Extra = None\<rparr>"

lemmas samples = sample_lib_def sample_principal_def sample_principals_def sample_key_def sample_factor_def
  ps_Save_def NewMemoryPrincipalStore_def

lemma current_single: "current [SaveCred c] (Kind c, Subject c) c"
  unfolding current_def by (intro exI [of _ "[]"]) simp

theorem authentication_policy_witness:
  "Authenticate sample_lib (ps_Get (sample_principals PrincipalAgent))
     (cs_FindBySubject (run_creds [SaveCred sample_key])) [sample_factor] = Inr (sample_principal PrincipalAgent)"
  by (rule conjunct2 [OF authentication_policy, rule_format, of "[sample_factor]" sample_factor _ sample_key])
    (use current_single [of sample_key] in \<open>simp add: samples\<close>)

text \<open>
  The second factor that a human needs besides a key is not checked to be another one: the same key
  presented twice is enough, although once is refused.
\<close>

lemma repeated_factor_accepted:
  "Authenticate sample_lib (ps_Get (sample_principals PrincipalHuman))
     (cs_FindBySubject (run_creds [SaveCred sample_key])) [sample_factor] = Inl ErrInsufficientFactor"
  "Authenticate sample_lib (ps_Get (sample_principals PrincipalHuman))
     (cs_FindBySubject (run_creds [SaveCred sample_key])) [sample_factor, sample_factor] =
   Inr (sample_principal PrincipalHuman)"
  by (simp_all add: Authenticate_def run_creds_def cs_Save_def cs_FindBySubject_def ps_Get_def samples Let_def
      NewMemoryCredentialStore_def apikey_Verify_def IsActive_def)

text \<open>
  A credential that is saved again for another principal stays in the list of the first one: the lookup
  of the first principal then yields a credential of the second.
\<close>

lemma lookup_foreign_credential:
  "cs_Lookup (run_creds [SaveCred sample_key,
     SaveCred (APIKeyC \<lparr>ak_principalID = ''q'', ak_keyID = ''k1'', ak_hash = [8], ak_label = []\<rparr>)]) ''p'' =
   [APIKeyC \<lparr>ak_principalID = ''q'', ak_keyID = ''k1'', ak_hash = [8], ak_label = []\<rparr>]"
  by (simp add: run_creds_def cs_Save_def cs_Lookup_def samples Let_def NewMemoryCredentialStore_def
      appendUnique_def map_filter_def)

subsection \<open>API keys\<close>

lemma hex_no_underscore: "CHR ''_'' \<notin> set (hex_EncodeToString bs)"
  by (auto dest: hex_chars)

definition api_factor :: "string \<Rightarrow> string \<Rightarrow> AuthFactor" where
  "api_factor keyID secret = \<lparr>af_Kind = CredentialAPIKey, af_Subject = keyID, af_Proof = str_bytes secret, af_Extra = None\<rparr>"

lemma parse_api_key:
  assumes "CHR ''_'' \<notin> set k" "k \<noteq> []" "x \<noteq> []"
  shows "ParseAPIKey (APIKeyPrefix @ k @ ''_'' @ x) = Inr (k, x)"
  using SplitN2_append [OF assms(1), of x] assms(2,3)
  by (simp add: ParseAPIKey_def HasPrefix_iff APIKeyPrefix_def)

text \<open>
  The text of a minted key is split into the id and the secret it was made of; presented as a
  factor they authenticate the agent the key was minted for, as soon as the credential is saved
  and whatever else the store holds, and no longer once it is revoked. The only thing relied on is
  that bcrypt accepts the password it hashed.
\<close>

theorem api_key_roundtrip:
  assumes mint: "NewAPIKey m pid label = Inr (cred, plaintext)"
    and random: "\<forall>b. km_keyID m = Some b \<longrightarrow> length b = 8" "\<forall>b. km_secret m = Some b \<longrightarrow> length b = 32"
    and bcrypt: "\<forall>pw h. km_bcrypt m pw = Some h \<longrightarrow> al_Compare L h pw"
    and agent: "ps_byID ps pid = Some p" "pr_Status p = StatusActive" "pr_Type p = PrincipalAgent"
    and save: "cs_Save cs (APIKeyC cred) = (None, cs')"
    and revoke: "cs_Revoke cs' CredentialAPIKey (ak_keyID cred) = (r, cs'')"
  shows "\<exists>secret. ParseAPIKey plaintext = Inr (ak_keyID cred, secret) \<and>
    Authenticate L (ps_Get ps) (cs_FindBySubject cs') [api_factor (ak_keyID cred) secret] = Inr p \<and>
    (\<forall>other. Authenticate L (ps_Get ps) (cs_FindBySubject cs'') [api_factor (ak_keyID cred) other] = Inl ErrCredentialInvalid)"
proof -
  from mint obtain kb sb h where kb: "km_keyID m = Some kb" and sb: "km_secret m = Some sb"
    and h: "km_bcrypt m (str_bytes (RawURLEncoding sb)) = Some h"
    and cred: "cred = \<lparr>ak_principalID = pid, ak_keyID = hex_EncodeToString kb, ak_hash = h, ak_label = label\<rparr>"
    and pt: "plaintext = APIKeyPrefix @ hex_EncodeToString kb @ ''_'' @ RawURLEncoding sb"
    by (auto simp: NewAPIKey_def Let_def split: if_splits option.splits)
  from random kb sb have "kb \<noteq> []" "sb \<noteq> []" by auto
  then have "hex_EncodeToString kb \<noteq> []" "RawURLEncoding sb \<noteq> []"
    by (simp_all add: RawURLEncoding_nonempty flip: length_greater_0_conv [of "hex_EncodeToString kb"])
  with parse_api_key [OF hex_no_underscore] pt cred
  have parse: "ParseAPIKey plaintext = Inr (ak_keyID cred, RawURLEncoding sb)" by simp
  from bcrypt h have "al_Compare L h (str_bytes (RawURLEncoding sb))" by simp
  with memory_creds.saved_found [OF save] agent cred
  have "Authenticate L (ps_Get ps) (cs_FindBySubject cs') [api_factor (ak_keyID cred) (RawURLEncoding sb)] = Inr p"
    unfolding Authenticate_iff by (simp add: api_factor_def admissible_def ps_Get_def)
  moreover have "Authenticate L (ps_Get ps) (cs_FindBySubject cs'') [api_factor (ak_keyID cred) other] = Inl ErrCredentialInvalid" for other
    by (rule memory_creds.revoked_refused [of cs']) (use revoke in \<open>simp add: api_factor_def\<close>)
  ultimately show ?thesis using parse by blast
qed

definition minted :: APIKeyCredential where
  "minted = (case NewAPIKey sample_mint ''p'' ''ci'' of Inr (c, _) \<Rightarrow> c | Inl _ \<Rightarrow> undefined)"

theorem api_key_roundtrip_witness:
  "\<exists>secret. Authenticate sample_lib (ps_Get (sample_principals PrincipalAgent))
     (cs_FindBySubject (snd (cs_Save NewMemoryCredentialStore (APIKeyC minted))))
     [api_factor (ak_keyID minted) secret] = Inr (sample_principal PrincipalAgent)"
proof -
  have ok: "is_ok (NewAPIKey sample_mint ''p'' ''ci'')" by (simp add: NewAPIKey_def sample_mint_def Let_def)
  then obtain x where x: "NewAPIKey sample_mint ''p'' ''ci'' = Inr (minted, x)"
    by (cases "NewAPIKey sample_mint ''p'' ''ci''") (auto simp: minted_def)
  have save: "cs_Save NewMemoryCredentialStore (APIKeyC minted) = (None, snd (cs_Save NewMemoryCredentialStore (APIKeyC minted)))"
    by (simp add: cs_Save_def Let_def)
  show ?thesis
    using api_key_roundtrip [OF x _ _ _ _ _ _ save surjective_pairing, of sample_lib "sample_principals PrincipalAgent"
        "sample_principal PrincipalAgent"]
    by (auto simp: sample_mint_def samples)
qed

end
