(* ===== verification/Revocation.thy ===== *)
theory Revocation
  imports Bolt
begin

text \<open>
  The denylist of revoked tokens, \<^verbatim>\<open>internal/identity/revocation/store.go\<close>: entries in a
  bucket of the database and a set of token ids in memory that mirrors it. The database is the
  parameter \<open>B\<close> of theory Bolt, the serializer of entries a \<open>jcodec\<close>. A missing bucket is a nil
  pointer whose use panics; here the operation ends with \<open>RevNilBucket\<close>.
\<close>

definition RevokedBucket :: string where "RevokedBucket = ''auth.revoked''"

record Entry =
  en_JTI :: string
  en_Reason :: string
  en_RevokedAt :: gotime
  en_RevokedBy :: string
  en_ExpiresAt :: gotime

datatype rev_error = RevJTIRequired | RevMarshal | RevUnmarshal | RevNilBucket | RevBolt string

record 'db BoltStore =
  rs_db :: 'db
  rs_cache :: "string set"

definition key_string :: "bytes \<Rightarrow> string" where
  "key_string k = map (\<lambda>b. char_of (unat b)) k"

lemma key_string_bytes [simp]: "key_string (str_bytes s) = s"
proof -
  have "(of_char c :: nat) < 256" for c :: char by simp
  then have "char_of (unat (word_of_nat (of_char c) :: byte)) = c" for c by (simp add: unat_of_nat)
  then show ?thesis by (simp add: key_string_def str_bytes_def map_idI)
qed

lemma str_bytes_key [simp]: "str_bytes (key_string k) = k"
proof -
  have "(word_of_nat (unat b mod 256) :: byte) = b" for b by simp
  then show ?thesis by (simp add: key_string_def str_bytes_def map_idI)
qed

definition rev_Open :: "'db bolt \<Rightarrow> 'db \<Rightarrow> (rev_error + 'db BoltStore) \<times> 'db" where
  "rev_Open B db =
     (case db_Update B RevBolt
             (\<lambda>d. case bk_Create B d RevokedBucket of (e, d') \<Rightarrow> (map_option RevBolt e, d')) db of
        (Some e, db') \<Rightarrow> (Inl e, db')
      | (None, db') \<Rightarrow>
          (Inr \<lparr>rs_db = db', rs_cache = key_string ` set (map fst (bk_Items B db' RevokedBucket))\<rparr>, db'))"

definition stamp :: "gotime \<Rightarrow> Entry \<Rightarrow> Entry" where
  "stamp now e = (if IsZero (en_RevokedAt e) then e\<lparr>en_RevokedAt := now\<rparr> else e)"

lemma stamp_JTI [simp]: "en_JTI (stamp now e) = en_JTI e" "en_ExpiresAt (stamp now e) = en_ExpiresAt e"
  by (simp_all add: stamp_def)

text \<open>The transaction keeps an entry that is already stored.\<close>

definition revoke_tx :: "'db bolt \<Rightarrow> string \<Rightarrow> bytes \<Rightarrow> 'db \<Rightarrow> rev_error option \<times> 'db" where
  "revoke_tx B jti raw d =
     (if \<not> bk_Has B d RevokedBucket then (Some RevNilBucket, d)
      else if bk_Get B d RevokedBucket (str_bytes jti) \<noteq> None then (None, d)
      else bput B RevBolt RevokedBucket (str_bytes jti) raw d)"

definition Revoke ::
  "'db bolt \<Rightarrow> Entry jcodec \<Rightarrow> gotime \<Rightarrow> Entry \<Rightarrow> 'db BoltStore \<Rightarrow> rev_error option \<times> 'db BoltStore" where
  "Revoke B J now entry0 st =
     (if en_JTI entry0 = [] then (Some RevJTIRequired, st)
      else
        (let entry = stamp now entry0
         in if en_JTI entry \<in> rs_cache st then (None, st)
            else
              (case jc_Marshal J entry of
                 None \<Rightarrow> (Some RevMarshal, st)
               | Some raw \<Rightarrow>
                   (case db_Update B RevBolt (revoke_tx B (en_JTI entry) raw) (rs_db st) of
                      (Some e, db') \<Rightarrow> (Some e, st\<lparr>rs_db := db'\<rparr>)
                    | (None, db') \<Rightarrow>
                        (None, st\<lparr>rs_db := db', rs_cache := insert (en_JTI entry) (rs_cache st)\<rparr>)))))"

definition IsRevoked :: "'db BoltStore \<Rightarrow> string \<Rightarrow> bool" where
  "IsRevoked st jti = (if jti = [] then False else jti \<in> rs_cache st)"

fun decode_entries :: "Entry jcodec \<Rightarrow> (bytes \<times> bytes) list \<Rightarrow> (rev_error + (bytes \<times> Entry) list)" where
  "decode_entries J [] = Inr []"
| "decode_entries J ((k, v) # kvs) =
     (case jc_Unmarshal J v of
        None \<Rightarrow> Inl RevUnmarshal
      | Some e \<Rightarrow> (case decode_entries J kvs of Inl err \<Rightarrow> Inl err | Inr es \<Rightarrow> Inr ((k, e) # es)))"

definition rev_List :: "'db bolt \<Rightarrow> Entry jcodec \<Rightarrow> 'db BoltStore \<Rightarrow> rev_error + Entry list" where
  "rev_List B J st =
     (if \<not> bk_Has B (rs_db st) RevokedBucket then Inl RevNilBucket
      else
        (case decode_entries J (bk_Items B (rs_db st) RevokedBucket) of
           Inl err \<Rightarrow> Inl err
         | Inr es \<Rightarrow> Inr (map snd es)))"

definition expired_entry :: "gotime \<Rightarrow> Entry \<Rightarrow> bool" where
  "expired_entry now e \<longleftrightarrow> \<not> IsZero (en_ExpiresAt e) \<and> en_ExpiresAt e < now"

definition GC ::
  "'db bolt \<Rightarrow> Entry jcodec \<Rightarrow> gotime \<Rightarrow> 'db BoltStore \<Rightarrow> (rev_error + nat) \<times> 'db BoltStore" where
  "GC B J now st =
     (if \<not> bk_Has B (rs_db st) RevokedBucket then (Inl RevNilBucket, st)
      else
        (case decode_entries J (bk_Items B (rs_db st) RevokedBucket) of
           Inl err \<Rightarrow> (Inl err, st)
         | Inr es \<Rightarrow>
             (let toDelete = map fst (filter (\<lambda>(k, e). expired_entry now e) es)
              in if toDelete = [] then (Inr 0, st)
                 else
                   (case db_Update B RevBolt
                           (\<lambda>d. if \<not> bk_Has B d RevokedBucket then (Some RevNilBucket, d)
                                else bdelete_all B RevBolt RevokedBucket toDelete d) (rs_db st) of
                      (Some e, db') \<Rightarrow> (Inl e, st\<lparr>rs_db := db'\<rparr>)
                    | (None, db') \<Rightarrow>
                        (Inr (length toDelete),
                         st\<lparr>rs_db := db', rs_cache := rs_cache st - key_string ` set toDelete\<rparr>)))))"

section \<open>The cache mirrors the bucket\<close>

definition rev_entry :: "'db bolt \<Rightarrow> Entry jcodec \<Rightarrow> 'db BoltStore \<Rightarrow> string \<Rightarrow> Entry option" where
  "rev_entry B J st j = Option.bind (bk_Get B (rs_db st) RevokedBucket (str_bytes j)) (jc_Unmarshal J)"

definition rev_inv :: "'db bolt \<Rightarrow> 'db BoltStore \<Rightarrow> bool" where
  "rev_inv B st \<longleftrightarrow>
     bk_Has B (rs_db st) RevokedBucket \<and>
     (\<forall>j. j \<in> rs_cache st \<longleftrightarrow> bk_Get B (rs_db st) RevokedBucket (str_bytes j) \<noteq> None)"

lemma decode_entries_set:
  "decode_entries J kvs = Inr es \<Longrightarrow>
   (k, e) \<in> set es \<longleftrightarrow> (\<exists>v. (k, v) \<in> set kvs \<and> jc_Unmarshal J v = Some e)"
proof (induction J kvs arbitrary: es rule: decode_entries.induct)
  case (2 J k' v kvs)
  then show ?case by (fastforce split: option.splits sum.splits)
qed simp

lemma decode_entries_all:
  "decode_entries J kvs = Inr es \<Longrightarrow> (k, v) \<in> set kvs \<Longrightarrow> jc_Unmarshal J v \<noteq> None"
  by (induction J kvs arbitrary: es rule: decode_entries.induct) (auto split: option.splits sum.splits)

context bolt_db
begin

lemma open_inv:
  assumes "rev_Open B db = (Inr st, db')"
  shows "rev_inv B st" "rs_db st = db'" "bk_Get B db' = bk_Get B db"
proof -
  from assms obtain "db_Update B RevBolt
      (\<lambda>d. case bk_Create B d RevokedBucket of (e, d') \<Rightarrow> (map_option RevBolt e, d')) db = (None, db')"
    and st: "st = \<lparr>rs_db = db', rs_cache = key_string ` set (map fst (bk_Items B db' RevokedBucket))\<rparr>"
    by (auto simp: rev_Open_def split: prod.splits option.splits)
  then have create: "bk_Create B db RevokedBucket = (None, db')"
    by (auto simp: db_Update_def split: prod.splits option.splits)
  show "rs_db st = db'" by (simp add: st)
  show "bk_Get B db' = bk_Get B db" by (rule create_get [OF create])
  have "j \<in> key_string ` set (map fst (bk_Items B db' RevokedBucket)) \<longleftrightarrow>
      str_bytes j \<in> fst ` set (bk_Items B db' RevokedBucket)" for j
    by (metis (no_types, lifting) imageE imageI key_string_bytes set_map str_bytes_key)
  then show "rev_inv B st"
    using create_has [OF create, of RevokedBucket] by (simp add: rev_inv_def st items_keys)
qed

text \<open>Revoking: a failure changes nothing; otherwise the id is in the list, with the first entry that was stored for it.\<close>

lemma revoke_cases:
  assumes "rev_inv B st" "Revoke B J now e st = (r, st')"
  obtains (unchanged) "st' = st" "r = None \<longrightarrow> IsRevoked st (en_JTI e)"
    | (stored) raw db' where "r = None" "en_JTI e \<noteq> []" "en_JTI e \<notin> rs_cache st" "jc_Marshal J (stamp now e) = Some raw"
        "bk_Put B (rs_db st) RevokedBucket (str_bytes (en_JTI e)) raw = (None, db')"
        "st' = st\<lparr>rs_db := db', rs_cache := insert (en_JTI e) (rs_cache st)\<rparr>"
proof (cases "en_JTI e = [] \<or> en_JTI e \<in> rs_cache st \<or> jc_Marshal J (stamp now e) = None")
  case True
  then show thesis
    using assms(2) by (intro unchanged) (auto simp: Revoke_def Let_def IsRevoked_def split: if_splits)
next
  case False
  then obtain raw where raw: "jc_Marshal J (stamp now e) = Some raw" by auto
  from False assms(1) have new: "bk_Has B (rs_db st) RevokedBucket"
      "bk_Get B (rs_db st) RevokedBucket (str_bytes (en_JTI e)) = None"
    by (auto simp: rev_inv_def)
  show thesis
  proof (cases rule: db_Update_cases [of B RevBolt "revoke_tx B (en_JTI e) raw" "rs_db st"])
    case (failed err)
    with False raw assms(2) show thesis by (intro unchanged) (auto simp: Revoke_def Let_def)
  next
    case (committed db')
    with False raw assms(2) new show thesis
      by (intro stored [of raw db']) (auto simp: Revoke_def Let_def revoke_tx_def bput_def split: prod.splits)
  qed
qed

lemma revoke_effect:
  assumes "rev_inv B st" "Revoke B J now e st = (r, st')" "\<forall>x. jc_Marshal J x \<noteq> None \<longrightarrow> round_trips J x"
  shows "rev_inv B st' \<and> (r \<noteq> None \<longrightarrow> st' = st) \<and>
    (j \<noteq> en_JTI e \<longrightarrow> rev_entry B J st' j = rev_entry B J st j) \<and>
    (IsRevoked st (en_JTI e) \<longrightarrow> rev_entry B J st' (en_JTI e) = rev_entry B J st (en_JTI e)) \<and>
    (r = None \<longrightarrow> \<not> IsRevoked st (en_JTI e) \<longrightarrow> rev_entry B J st' (en_JTI e) = Some (stamp now e)) \<and>
    (r = None \<longrightarrow> IsRevoked st' (en_JTI e))"
  using assms(1,2)
proof (cases rule: revoke_cases)
  case unchanged
  with assms(1) show ?thesis by auto
next
  case (stored raw db')
  from assms(1) have has: "bk_Has B (rs_db st) RevokedBucket" by (simp add: rev_inv_def)
  from assms(3) stored(4) have "jc_Unmarshal J raw = Some (stamp now e)" by (auto simp: round_trips_def)
  then show ?thesis
    using assms(1) stored
    by (auto simp: rev_inv_def rev_entry_def IsRevoked_def put_get [OF has stored(5)] put_has [OF has stored(5)])
qed

text \<open>Collecting garbage: a failure changes nothing; otherwise exactly the expired entries go.\<close>

lemma gc_cases:
  assumes "rev_inv B st" "GC B J now st = (r, st')"
  obtains (unchanged) "\<not> is_ok r" "st' = st"
    | (swept) es ks db' where "is_ok r" "decode_entries J (bk_Items B (rs_db st) RevokedBucket) = Inr es"
        "ks = map fst (filter (\<lambda>(k, e). expired_entry now e) es)"
        "bdelete_all B RevBolt RevokedBucket ks (rs_db st) = (None, db')"
        "st' = st\<lparr>rs_db := db', rs_cache := rs_cache st - key_string ` set ks\<rparr>"
proof (cases "decode_entries J (bk_Items B (rs_db st) RevokedBucket)")
  case (Inl err)
  with assms show thesis by (intro unchanged) (auto simp: GC_def rev_inv_def)
next
  case (Inr es)
  define ks where "ks = map fst (filter (\<lambda>(k, e). expired_entry now e) es)"
  from assms(1) have has: "bk_Has B (rs_db st) RevokedBucket" by (simp add: rev_inv_def)
  show thesis
  proof (cases "ks = []")
    case True
    with assms(2) has Inr show thesis
      by (intro swept [of es ks "rs_db st"]) (auto simp: GC_def ks_def Let_def)
  next
    case False
    show thesis
    proof (cases rule: db_Update_cases [of B RevBolt "\<lambda>d. if \<not> bk_Has B d RevokedBucket then (Some RevNilBucket, d)
        else bdelete_all B RevBolt RevokedBucket ks d" "rs_db st"])
      case (failed e)
      with assms(2) has Inr False show thesis
        by (intro unchanged) (auto simp: GC_def Let_def ks_def [symmetric])
    next
      case (committed db')
      with assms(2) has Inr False show thesis
        by (intro swept [of es ks db'] ks_def) (auto simp: GC_def Let_def ks_def [symmetric])
    qed
  qed
qed

lemma gc_effect:
  assumes "rev_inv B st" "GC B J now st = (r, st')"
  shows "rev_inv B st' \<and> (\<not> is_ok r \<longrightarrow> st' = st) \<and>
    (is_ok r \<longrightarrow> rev_entry B J st' j =
      (case rev_entry B J st j of None \<Rightarrow> None | Some e \<Rightarrow> if expired_entry now e then None else Some e))"
  using assms
proof (cases rule: gc_cases)
  case unchanged
  with assms(1) show ?thesis by auto
next
  case (swept es ks db')
  from assms(1) have has: "bk_Has B (rs_db st) RevokedBucket" by (simp add: rev_inv_def)
  note del = delete_all [OF has swept(4)]
  have mem: "str_bytes i \<in> set ks \<longleftrightarrow> (\<exists>v e. bk_Get B (rs_db st) RevokedBucket (str_bytes i) = Some v \<and>
      jc_Unmarshal J v = Some e \<and> expired_entry now e)" for i
    using decode_entries_set [OF swept(2), of "str_bytes i"] by (auto simp: swept(3) items_get image_iff)
  have "i \<in> key_string ` set ks \<longleftrightarrow> str_bytes i \<in> set ks" for i
    by (metis imageE imageI key_string_bytes str_bytes_key)
  moreover have "jc_Unmarshal J v \<noteq> None" if "bk_Get B (rs_db st) RevokedBucket k = Some v" for k v
    using that decode_entries_all [OF swept(2), of k v] by (auto simp: items_get)
  ultimately show ?thesis
    using assms(1) swept(1,5) mem
    by (auto simp: rev_inv_def rev_entry_def del bind_eq_Some_conv split: option.splits)
qed

end

section \<open>Life of a revocation\<close>

text \<open>
  The operations on a store as time passes: revoking, collecting garbage, and reopening the
  database after a restart, which rebuilds the cache.
\<close>

inductive rev_step :: "'db bolt \<Rightarrow> Entry jcodec \<Rightarrow> gotime \<times> 'db BoltStore \<Rightarrow> gotime \<times> 'db BoltStore \<Rightarrow> bool"
  for B J where
  revoke: "t \<le> t' \<Longrightarrow> rev_step B J (t, st) (t', snd (Revoke B J t' e st))"
| gc: "t \<le> t' \<Longrightarrow> rev_step B J (t, st) (t', snd (GC B J t' st))"
| reopen: "t \<le> t' \<Longrightarrow> rev_Open B (rs_db st) = (Inr st', db') \<Longrightarrow> rev_step B J (t, st) (t', st')"

inductive_cases rev_stepE: "rev_step B J (t, st) (t', st')"

text \<open>The id is still listed, or the tokens it stood for expired before now.\<close>

definition barred :: "'db bolt \<Rightarrow> Entry jcodec \<Rightarrow> string \<Rightarrow> gotime \<Rightarrow> gotime \<Rightarrow> 'db BoltStore \<Rightarrow> bool" where
  "barred B J j X t st \<longleftrightarrow>
     rev_inv B st \<and>
     ((\<exists>e. rev_entry B J st j = Some e \<and> en_ExpiresAt e = X) \<or> \<not> IsZero X \<and> X < t)"

context bolt_db
begin

lemma barred_revoke:
  assumes "barred B J j X t st" "t \<le> t'" "\<forall>x. jc_Marshal J x \<noteq> None \<longrightarrow> round_trips J x" "j \<noteq> []"
  shows "barred B J j X t' (snd (Revoke B J t' e st))"
proof -
  obtain r st' where r: "Revoke B J t' e st = (r, st')" by force
  from assms(1) have inv: "rev_inv B st" by (simp add: barred_def)
  have "IsRevoked st j" if "rev_entry B J st j \<noteq> None"
    using that inv assms(4) by (auto simp: IsRevoked_def rev_entry_def rev_inv_def bind_eq_Some_conv)
  then show ?thesis
    using assms(1,2) revoke_effect [OF inv r assms(3), of j] by (cases "j = en_JTI e") (auto simp: barred_def r)
qed

lemma barred_gc:
  assumes "barred B J j X t st" "t \<le> t'"
  shows "barred B J j X t' (snd (GC B J t' st))"
proof -
  obtain r st' where r: "GC B J t' st = (r, st')" by force
  from assms(1) have inv: "rev_inv B st" by (simp add: barred_def)
  show ?thesis
    using assms gc_effect [OF inv r, of j]
    by (cases "is_ok r") (auto simp: barred_def r expired_entry_def split: if_splits)
qed

lemma barred_reopen:
  assumes "barred B J j X t st" "t \<le> t'" "rev_Open B (rs_db st) = (Inr st', db')"
  shows "barred B J j X t' st'"
  using assms(1,2) open_inv [OF assms(3)] by (auto simp: barred_def rev_entry_def)

lemma barred_steps:
  assumes "(rev_step B J)\<^sup>*\<^sup>* (t, st) (t', st')" "barred B J j X t st"
    and "\<forall>x. jc_Marshal J x \<noteq> None \<longrightarrow> round_trips J x" "j \<noteq> []"
  shows "barred B J j X t' st'"
  using assms(1,2)
proof (induction rule: rtranclp_induct2)
  case (step t1 st1 t2 st2)
  from step.hyps(2) step.IH [OF step.prems] assms(3,4) show ?case
    by (auto elim!: rev_stepE intro: barred_revoke barred_gc barred_reopen)
qed

lemma barred_checked:
  "barred B J j X t st \<Longrightarrow> j \<noteq> [] \<Longrightarrow> IsRevoked st j \<or> \<not> IsZero X \<and> X < t"
  by (auto simp: barred_def IsRevoked_def rev_inv_def rev_entry_def bind_eq_Some_conv)

end

end
