(* ===== verification/Identity_Token.thy ===== *)
theory Identity_Token
  imports Identity Revocation
begin

text \<open>
  Tokens and the authentication of requests: issuing and verification of access and refresh tokens
  (\<^verbatim>\<open>internal/identity/jwt\<close>), the published keys (\<^verbatim>\<open>jwks.go\<close>), the HTTP middleware
  (\<^verbatim>\<open>internal/identity/middleware\<close>), the login endpoint (\<^verbatim>\<open>internal/api/login.go\<close>) and the
  registration of protected handlers (\<^verbatim>\<open>internal/api/server.go\<close>).

  The package \<^verbatim>\<open>golang-jwt/jwt/v5\<close> is the argument \<open>D\<close>: signing, decoding, checking a signature,
  the rounding of dates, and the parser, which calls the key function of the source. Its
  documented behaviour is \<open>jwt_lib_ok\<close>. An error of the parser is the list of the sentinels it
  wraps, as \<^verbatim>\<open>errors.Is\<close> sees them. One call reads the clock once.
\<close>

section \<open>Claims\<close>

definition IssuerName :: string where "IssuerName = ''owasaka''"
definition AudienceAccess :: string where "AudienceAccess = ''owasaka-api''"
definition AudienceRefresh :: string where "AudienceRefresh = ''owasaka-refresh''"
definition DefaultAccessTTL :: duration where "DefaultAccessTTL = 15 * time_Minute"
definition DefaultRefreshTTL :: duration where "DefaultRefreshTTL = 24 * time_Hour"
definition TypeAccess :: string where "TypeAccess = ''access''"
definition TypeRefresh :: string where "TypeRefresh = ''refresh''"

lemmas token_names = IssuerName_def AudienceAccess_def AudienceRefresh_def TypeAccess_def TypeRefresh_def

record Claims =
  cl_Issuer :: string
  cl_Subject :: string
  cl_Audience :: "string list"
  cl_ExpiresAt :: "gotime option"
  cl_NotBefore :: "gotime option"
  cl_IssuedAt :: "gotime option"
  cl_ID :: string
  cl_PrincipalType :: string
  cl_PrincipalSubject :: string
  cl_TokenType :: string

record TokenPair =
  tp_AccessToken :: string
  tp_RefreshToken :: string
  tp_AccessJTI :: string
  tp_RefreshJTI :: string
  tp_AccessExp :: gotime
  tp_RefreshExp :: gotime
  tp_SigningKeyID :: string

section \<open>The token library\<close>

record token_header =
  th_Alg :: string
  th_Kid :: "gany option"

datatype key_error = KfInvalidSignature | KfUnknownKey | KfKeyExpired

datatype jwt_sentinel =
    LibTokenExpired
  | LibSignatureInvalid
  | LibTokenMalformed
  | LibOther string
  | LibCallback key_error

record jwt_lib =
  jl_NumericDate :: "gotime \<Rightarrow> gotime"
  jl_SignedString :: "token_header \<Rightarrow> Claims \<Rightarrow> bytes \<Rightarrow> string option"
  jl_Decode :: "string \<Rightarrow> (token_header \<times> Claims) option"
  jl_SigOk :: "bytes \<Rightarrow> string \<Rightarrow> bool"
  jl_Parse :: "string list \<Rightarrow> gotime \<Rightarrow> string \<Rightarrow> (token_header \<Rightarrow> key_error + bytes) \<Rightarrow>
    jwt_sentinel list + Claims \<times> bool"

definition in_time :: "gotime \<Rightarrow> Claims \<Rightarrow> bool" where
  "in_time now c \<longleftrightarrow>
     (case cl_ExpiresAt c of None \<Rightarrow> True | Some e \<Rightarrow> now < e) \<and>
     (case cl_NotBefore c of None \<Rightarrow> True | Some n \<Rightarrow> n \<le> now)"

definition jwt_lib_ok :: "jwt_lib \<Rightarrow> bool" where
  "jwt_lib_ok D \<longleftrightarrow>
     (\<forall>methods now raw kf c v. jl_Parse D methods now raw kf = Inr (c, v) \<longleftrightarrow>
        v \<and> (\<exists>h key. jl_Decode D raw = Some (h, c) \<and> th_Alg h \<in> set methods \<and> kf h = Inr key \<and>
                     jl_SigOk D key raw \<and> in_time now c)) \<and>
     (\<forall>h c priv raw. jl_SignedString D h c priv = Some raw \<longrightarrow> raw \<noteq> [] \<and> jl_Decode D raw = Some (h, c)) \<and>
     (\<forall>t. jl_NumericDate D t \<le> t \<and> t < jl_NumericDate D t + time_Second)"

text \<open>What the private half of a key pair signs, the public half accepts.\<close>

definition key_matches :: "jwt_lib \<Rightarrow> KeyPair \<Rightarrow> bool" where
  "key_matches D kp \<longleftrightarrow>
     (\<forall>h c raw. jl_SignedString D h c (kp_Private kp) = Some raw \<longrightarrow> jl_SigOk D (kp_Public kp) raw)"

section \<open>Issuing\<close>

datatype jwt_error =
    ErrInvalidSignature
  | ErrTokenExpired
  | ErrTokenMalformed
  | ErrWrongAudience
  | ErrWrongTokenType
  | JwtWrapped "jwt_sentinel list"
  | JwtPki pki_error
  | JwtIdentity id_error
  | JwtSign
  | JwtRevocation rev_error

record Issuer =
  is_accessTTL :: duration
  is_refreshTTL :: duration

definition WithAccessTTL :: "duration \<Rightarrow> Issuer \<Rightarrow> Issuer" where
  "WithAccessTTL d i = i\<lparr>is_accessTTL := d\<rparr>"

definition WithRefreshTTL :: "duration \<Rightarrow> Issuer \<Rightarrow> Issuer" where
  "WithRefreshTTL d i = i\<lparr>is_refreshTTL := d\<rparr>"

definition NewIssuer :: "(Issuer \<Rightarrow> Issuer) list \<Rightarrow> Issuer" where
  "NewIssuer opts = fold (\<lambda>opt i. opt i) opts \<lparr>is_accessTTL = DefaultAccessTTL, is_refreshTTL = DefaultRefreshTTL\<rparr>"

definition buildClaims :: "jwt_lib \<Rightarrow> Principal \<Rightarrow> string \<Rightarrow> gotime \<Rightarrow> gotime \<Rightarrow> string \<Rightarrow> string \<Rightarrow> Claims" where
  "buildClaims D p jti now expiry audience tt =
     \<lparr>cl_Issuer = IssuerName, cl_Subject = pr_ID p, cl_Audience = [audience],
      cl_ExpiresAt = Some (jl_NumericDate D expiry), cl_NotBefore = Some (jl_NumericDate D now),
      cl_IssuedAt = Some (jl_NumericDate D now), cl_ID = jti, cl_PrincipalType = pr_Type p,
      cl_PrincipalSubject = pr_Subject p, cl_TokenType = tt\<rparr>"

definition signClaims :: "jwt_lib \<Rightarrow> Claims \<Rightarrow> KeyPair \<Rightarrow> string option" where
  "signClaims D claims kp =
     jl_SignedString D \<lparr>th_Alg = ''EdDSA'', th_Kid = Some (AString (kp_ID kp))\<rparr> claims (kp_Private kp)"

definition Issue ::
  "jwt_lib \<Rightarrow> 's KeyStore \<Rightarrow> 's \<Rightarrow> Issuer \<Rightarrow> gotime \<Rightarrow> string \<times> string \<Rightarrow> Principal option \<Rightarrow> jwt_error + TokenPair" where
  "Issue D K s i now uuids po =
     (case po of
        None \<Rightarrow> Inl (JwtIdentity ErrPrincipalNotFound)
      | Some p \<Rightarrow>
          if \<not> IsActive (Some p) then Inl (JwtIdentity ErrPrincipalInactive)
          else
            (case ActiveKey K s PurposeJWTSigning of
               Inl err \<Rightarrow> Inl (JwtPki err)
             | Inr signingKey \<Rightarrow>
                 (let accessJTI = fst uuids; refreshJTI = snd uuids;
                      accessExp = now + is_accessTTL i; refreshExp = now + is_refreshTTL i
                  in (case signClaims D (buildClaims D p accessJTI now accessExp AudienceAccess TypeAccess) signingKey of
                        None \<Rightarrow> Inl JwtSign
                      | Some access \<Rightarrow>
                          (case signClaims D (buildClaims D p refreshJTI now refreshExp AudienceRefresh TypeRefresh) signingKey of
                             None \<Rightarrow> Inl JwtSign
                           | Some refresh \<Rightarrow>
                               Inr \<lparr>tp_AccessToken = access, tp_RefreshToken = refresh, tp_AccessJTI = accessJTI,
                                    tp_RefreshJTI = refreshJTI, tp_AccessExp = accessExp,
                                    tp_RefreshExp = refreshExp, tp_SigningKeyID = kp_ID signingKey\<rparr>)))))"

section \<open>Verification\<close>

type_synonym RevocationChecker = "string \<Rightarrow> rev_error + bool"

text \<open>The denylist as the checker of a verifier; its read never fails.\<close>

definition denylist :: "'db BoltStore \<Rightarrow> RevocationChecker" where
  "denylist st jti = Inr (IsRevoked st jti)"

record 's Verifier =
  vf_keys :: "'s KeyStore"
  vf_store :: 's
  vf_revocations :: "RevocationChecker option"

definition NewVerifier :: "'s KeyStore \<Rightarrow> 's \<Rightarrow> ('s Verifier \<Rightarrow> 's Verifier) list \<Rightarrow> 's Verifier" where
  "NewVerifier K s opts = fold (\<lambda>opt v. opt v) opts \<lparr>vf_keys = K, vf_store = s, vf_revocations = None\<rparr>"

definition WithRevocationChecker :: "RevocationChecker \<Rightarrow> 's Verifier \<Rightarrow> 's Verifier" where
  "WithRevocationChecker r v = v\<lparr>vf_revocations := Some r\<rparr>"

definition token_key :: "'s Verifier \<Rightarrow> gotime \<Rightarrow> token_header \<Rightarrow> key_error + bytes" where
  "token_key v now h =
     (if th_Alg h \<noteq> ''EdDSA'' then Inl KfInvalidSignature
      else
        (case th_Kid h of
           Some (AString kid) \<Rightarrow>
             if kid = [] then Inl KfUnknownKey
             else
               (case GetKey (vf_keys v) (vf_store v) kid of
                  Inl _ \<Rightarrow> Inl KfUnknownKey
                | Inr kp \<Rightarrow> if \<not> IsVerifyable (Some kp) now then Inl KfKeyExpired else Inr (kp_Public kp))
         | _ \<Rightarrow> Inl KfUnknownKey))"

definition parse_failure :: "jwt_sentinel list \<Rightarrow> jwt_error" where
  "parse_failure err =
     (if LibTokenExpired \<in> set err then ErrTokenExpired
      else if LibSignatureInvalid \<in> set err then ErrInvalidSignature
      else if LibTokenMalformed \<in> set err then ErrTokenMalformed
      else if LibCallback KfUnknownKey \<in> set err \<or> LibCallback KfKeyExpired \<in> set err \<or>
              LibCallback KfInvalidSignature \<in> set err
      then JwtWrapped err
      else ErrTokenMalformed)"

definition assertAudience :: "Claims \<Rightarrow> string \<Rightarrow> jwt_error option" where
  "assertAudience claims tt =
     (if tt = [] then None
      else
        (let want = (if tt = TypeRefresh then AudienceRefresh else AudienceAccess)
         in if want \<in> set (cl_Audience claims) then None else Some ErrWrongAudience))"

definition token_Verify :: "jwt_lib \<Rightarrow> 's Verifier \<Rightarrow> gotime \<Rightarrow> string \<Rightarrow> string \<Rightarrow> jwt_error + Claims" where
  "token_Verify D v now raw expectedType =
     (case jl_Parse D [''EdDSA''] now raw (token_key v now) of
        Inl err \<Rightarrow> Inl (parse_failure err)
      | Inr (claims, valid) \<Rightarrow>
          if \<not> valid then Inl ErrInvalidSignature
          else if expectedType \<noteq> [] \<and> cl_TokenType claims \<noteq> expectedType then Inl ErrWrongTokenType
          else
            (case assertAudience claims expectedType of
               Some err \<Rightarrow> Inl err
             | None \<Rightarrow>
                 (case vf_revocations v of
                    None \<Rightarrow> Inr claims
                  | Some r \<Rightarrow>
                      (case r (cl_ID claims) of
                         Inl err \<Rightarrow> Inl (JwtRevocation err)
                       | Inr revoked \<Rightarrow> if revoked then Inl ErrInvalidSignature else Inr claims))))"

section \<open>Published keys\<close>

record JWK =
  jk_Kty :: string
  jk_Crv :: string
  jk_X :: string
  jk_Use :: string
  jk_Alg :: string
  jk_Kid :: string
  jk_Purpose :: string

definition publishedPurposes :: "string list" where
  "publishedPurposes = [PurposeJWTSigning, PurposeEventSigning]"

definition jwk_of :: "string \<Rightarrow> KeyPair \<Rightarrow> JWK" where
  "jwk_of purpose kp =
     \<lparr>jk_Kty = ''OKP'', jk_Crv = ''Ed25519'', jk_X = RawURLEncoding (kp_Public kp), jk_Use = ''sig'',
      jk_Alg = ''EdDSA'', jk_Kid = kp_ID kp, jk_Purpose = purpose\<rparr>"

fun publish_loop :: "'s KeyStore \<Rightarrow> 's \<Rightarrow> gotime \<Rightarrow> string list \<Rightarrow> pki_error + JWK list" where
  "publish_loop K s now [] = Inr []"
| "publish_loop K s now (purpose # ps) =
     (case KeysForPurpose K s purpose of
        Inl err \<Rightarrow> Inl err
      | Inr keys \<Rightarrow>
          (case publish_loop K s now ps of
             Inl err \<Rightarrow> Inl err
           | Inr out \<Rightarrow> Inr (map (jwk_of purpose) (filter (\<lambda>kp. IsVerifyable (Some kp) now) keys) @ out)))"

definition PublishKeys :: "'s KeyStore \<Rightarrow> 's \<Rightarrow> gotime \<Rightarrow> pki_error + JWK list" where
  "PublishKeys K s now = publish_loop K s now publishedPurposes"

section \<open>The middleware\<close>

datatype mw_error = ErrMissingAuthHeader | ErrMalformedAuthHeader | MwJwt jwt_error | MwIdentity id_error

record Middleware =
  mw_devToken :: string
  mw_devPrincipal :: "Principal option"
  mw_devWarned :: int
  mw_devWarningRate :: duration

definition NewMiddleware :: "(Middleware \<Rightarrow> Middleware) list \<Rightarrow> Middleware" where
  "NewMiddleware opts =
     fold (\<lambda>opt m. opt m) opts
       \<lparr>mw_devToken = [], mw_devPrincipal = None, mw_devWarned = 0, mw_devWarningRate = time_Minute\<rparr>"

definition WithDevMode :: "string \<Rightarrow> Principal option \<Rightarrow> Middleware \<Rightarrow> Middleware" where
  "WithDevMode token p m = m\<lparr>mw_devToken := token, mw_devPrincipal := p\<rparr>"

definition WithDevWarningInterval :: "duration \<Rightarrow> Middleware \<Rightarrow> Middleware" where
  "WithDevWarningInterval d m = m\<lparr>mw_devWarningRate := d\<rparr>"

record auth_request =
  ar_Authorization :: string
  ar_WSProtocol :: string

definition extractBearer :: "auth_request \<Rightarrow> mw_error + string" where
  "extractBearer r =
     (let h = ar_Authorization r
      in if h = [] then
           (case find (\<lambda>p. strings_HasPrefix p ''bearer.'')
                   (map strings_TrimSpace (if ar_WSProtocol r = [] then [] else strings_Split (ar_WSProtocol r) (CHR '',''))) of
              Some p \<Rightarrow> Inr (drop (length ''bearer.'') p)
            | None \<Rightarrow> Inl ErrMissingAuthHeader)
         else
           (case strings_SplitN2 h (CHR '' '') of
              [scheme, token] \<Rightarrow>
                if strings_ToLower scheme \<noteq> ''bearer'' \<or> token = [] then Inl ErrMalformedAuthHeader else Inr token
            | _ \<Rightarrow> Inl ErrMalformedAuthHeader))"

text \<open>The warning of the development mode: whether it is logged, and the time it remembers.\<close>

definition maybeWarnDevMode :: "int \<Rightarrow> Middleware \<Rightarrow> bool \<times> Middleware" where
  "maybeWarnDevMode now m =
     (let cadence0 = (if mw_devWarningRate m < 0 then - (- mw_devWarningRate m div time_Second)
                      else mw_devWarningRate m div time_Second);
          cadence = (if cadence0 < 1 then 1 else cadence0)
      in if now - mw_devWarned m < cadence then (False, m) else (True, m\<lparr>mw_devWarned := now\<rparr>))"

definition mw_Authenticate ::
  "jwt_lib \<Rightarrow> 's Verifier \<Rightarrow> MemoryPrincipalStore \<Rightarrow> gotime \<Rightarrow> int \<Rightarrow> auth_request \<Rightarrow> Middleware \<Rightarrow>
   (mw_error + Principal) \<times> Middleware" where
  "mw_Authenticate D v ps now unix r m =
     (case extractBearer r of
        Inl err \<Rightarrow> (Inl err, m)
      | Inr raw \<Rightarrow>
          if mw_devToken m \<noteq> [] \<and> raw = mw_devToken m then
            (let m' = snd (maybeWarnDevMode unix m)
             in (case mw_devPrincipal m' of
                   None \<Rightarrow> (Inl (MwIdentity ErrPrincipalInactive), m')
                 | Some p \<Rightarrow> (if \<not> IsActive (Some p) then Inl (MwIdentity ErrPrincipalInactive) else Inr p, m')))
          else
            (case token_Verify D v now raw TypeAccess of
               Inl err \<Rightarrow> (Inl (MwJwt err), m)
             | Inr claims \<Rightarrow>
                 (case ps_Get ps (cl_Subject claims) of
                    Inl err \<Rightarrow> (Inl (MwIdentity err), m)
                  | Inr p \<Rightarrow> (if \<not> IsActive (Some p) then Inl (MwIdentity ErrPrincipalInactive) else Inr p, m))))"

text \<open>
  The wrapped handler runs with the principal in its context, or the request is answered: a
  handler is a function of the principal it finds there.
\<close>

definition writeAuthError :: "mw_error \<Rightarrow> nat \<times> string" where
  "writeAuthError err =
     (if err = MwIdentity ErrPrincipalInactive \<or> err = MwJwt (JwtIdentity ErrPrincipalInactive)
      then (403, ''principal inactive'') else (401, ''authentication required''))"

definition RequireAuth ::
  "jwt_lib \<Rightarrow> 's Verifier \<Rightarrow> MemoryPrincipalStore \<Rightarrow> gotime \<Rightarrow> int \<Rightarrow> (Principal option \<Rightarrow> 'a) \<Rightarrow> auth_request \<Rightarrow>
   Middleware \<Rightarrow> (nat \<times> string + 'a) \<times> Middleware" where
  "RequireAuth D v ps now unix handler r m =
     (case mw_Authenticate D v ps now unix r m of
        (Inl err, m') \<Rightarrow> (Inl (writeAuthError err), m')
      | (Inr p, m') \<Rightarrow> (Inr (handler (Some p)), m'))"

text \<open>Without an authentication middleware the handler is registered as it is.\<close>

definition RegisterProtectedHandler ::
  "jwt_lib \<Rightarrow> 's Verifier \<Rightarrow> MemoryPrincipalStore \<Rightarrow> (Principal option \<Rightarrow> 'a) \<Rightarrow> Middleware option \<Rightarrow>
   gotime \<Rightarrow> int \<Rightarrow> auth_request \<Rightarrow> nat \<times> string + 'a" where
  "RegisterProtectedHandler D v ps handler mwo now unix r =
     (case mwo of
        None \<Rightarrow> Inr (handler None)
      | Some m \<Rightarrow> fst (RequireAuth D v ps now unix handler r m))"

section \<open>Login\<close>

record login_request =
  lr_Username :: string
  lr_Password :: string
  lr_TOTP :: string

datatype login_response =
    LoginError string nat
  | LoginOK TokenPair int Principal

definition seconds_until :: "gotime \<Rightarrow> gotime \<Rightarrow> int" where
  "seconds_until now t = (if t < now then - ((now - t) div time_Second) else (t - now) div time_Second)"

text \<open>
  \<open>deps\<close> has the stores of the authenticator; the principal in the answer is the stored object, whose
  time of last use was just set. \<open>body\<close> is the decoded request, and \<open>uuids\<close> and the clock readings
  \<open>now\<close>, \<open>seen\<close> and \<open>replied\<close> are what the call draws from its surroundings.
\<close>

definition LoginHandler ::
  "auth_lib \<Rightarrow> jwt_lib \<Rightarrow> 's KeyStore \<Rightarrow> 's \<Rightarrow> Issuer \<Rightarrow> MemoryCredentialStore \<Rightarrow> string \<times> string \<Rightarrow>
   gotime \<Rightarrow> gotime \<Rightarrow> gotime \<Rightarrow> string \<Rightarrow> login_request option \<Rightarrow> MemoryPrincipalStore \<Rightarrow>
   login_response \<times> MemoryPrincipalStore" where
  "LoginHandler L D K s i cs uuids now seen replied meth body ps =
     (if meth \<noteq> ''POST'' then (LoginError ''method not allowed'' 405, ps)
      else
        (case body of
           None \<Rightarrow> (LoginError ''invalid request body'' 400, ps)
         | Some req \<Rightarrow>
             if lr_Username req = [] \<or> lr_Password req = [] \<or> lr_TOTP req = []
             then (LoginError ''username, password, and totp are required'' 400, ps)
             else
               (let factors = [\<lparr>af_Kind = CredentialPassword, af_Subject = lr_Username req,
                                af_Proof = str_bytes (lr_Password req),
                                af_Extra = Some [''totp'' \<mapsto> AString (lr_TOTP req)]\<rparr>]
                in (case Authenticate L (ps_Get ps) (cs_FindBySubject cs) factors of
                      Inl _ \<Rightarrow> (LoginError ''authentication failed'' 401, ps)
                    | Inr p \<Rightarrow>
                        (case Issue D K s i now uuids (Some p) of
                           Inl _ \<Rightarrow> (LoginError ''token issuance failed'' 500, ps)
                         | Inr pair \<Rightarrow>
                             (case ps_UpdateLastSeen ps (pr_ID p) seen of
                                (None, ps') \<Rightarrow>
                                  (LoginOK pair (seconds_until replied (tp_AccessExp pair)) (p\<lparr>pr_LastSeenAt := Some seen\<rparr>), ps')
                              | (Some _, ps') \<Rightarrow>
                                  (LoginOK pair (seconds_until replied (tp_AccessExp pair)) p, ps')))))))"

section \<open>What a token must be\<close>

definition unrevoked :: "'s Verifier \<Rightarrow> string \<Rightarrow> bool" where
  "unrevoked v j \<longleftrightarrow> (case vf_revocations v of None \<Rightarrow> True | Some r \<Rightarrow> r j = Inr False)"

text \<open>A stored key that may still verify accepts the signature of the token, which carries these claims.\<close>

definition signed_claims :: "jwt_lib \<Rightarrow> 's Verifier \<Rightarrow> gotime \<Rightarrow> string \<Rightarrow> Claims \<Rightarrow> bool" where
  "signed_claims D v now raw c \<longleftrightarrow>
     (\<exists>kid kp. jl_Decode D raw = Some (\<lparr>th_Alg = ''EdDSA'', th_Kid = Some (AString kid)\<rparr>, c) \<and> kid \<noteq> [] \<and>
        GetKey (vf_keys v) (vf_store v) kid = Inr kp \<and> kp_Status kp \<noteq> StatusKeyRetired \<and> now \<le> kp_NotAfter kp \<and>
        jl_SigOk D (kp_Public kp) raw)"

definition good_access :: "jwt_lib \<Rightarrow> 's Verifier \<Rightarrow> gotime \<Rightarrow> string \<Rightarrow> Claims \<Rightarrow> bool" where
  "good_access D v now raw c \<longleftrightarrow>
     signed_claims D v now raw c \<and> in_time now c \<and> cl_TokenType c = TypeAccess \<and>
     AudienceAccess \<in> set (cl_Audience c) \<and> unrevoked v (cl_ID c)"

lemma token_key_iff:
  "token_key v now h = Inr key \<longleftrightarrow>
   (\<exists>kid kp. h = \<lparr>th_Alg = ''EdDSA'', th_Kid = Some (AString kid)\<rparr> \<and> kid \<noteq> [] \<and>
      GetKey (vf_keys v) (vf_store v) kid = Inr kp \<and> kp_Status kp \<noteq> StatusKeyRetired \<and> now \<le> kp_NotAfter kp \<and>
      key = kp_Public kp)"
  by (cases h) (auto simp: token_key_def IsVerifyable_def split: option.splits gany.splits sum.splits if_splits)

lemma parse_iff:
  assumes "jwt_lib_ok D"
  shows "jl_Parse D [''EdDSA''] now raw (token_key v now) = Inr (c, valid) \<longleftrightarrow>
    valid \<and> signed_claims D v now raw c \<and> in_time now c"
proof -
  have "jl_Parse D [''EdDSA''] now raw (token_key v now) = Inr (c, valid) \<longleftrightarrow>
      valid \<and> (\<exists>h key. jl_Decode D raw = Some (h, c) \<and> th_Alg h \<in> set [''EdDSA''] \<and> token_key v now h = Inr key \<and>
        jl_SigOk D key raw \<and> in_time now c)"
    using assms by (simp add: jwt_lib_ok_def)
  then show ?thesis unfolding token_key_iff signed_claims_def by fastforce
qed

lemma verify_access_iff:
  assumes "jwt_lib_ok D"
  shows "token_Verify D v now raw TypeAccess = Inr c \<longleftrightarrow> good_access D v now raw c"
proof (cases "jl_Parse D [''EdDSA''] now raw (token_key v now)")
  case (Inl e)
  with parse_iff [OF assms, of now raw v] have "\<not> (signed_claims D v now raw c \<and> in_time now c)" by auto
  with Inl show ?thesis by (auto simp: token_Verify_def good_access_def)
next
  case (Inr cv)
  obtain c' valid where cv: "cv = (c', valid)" by force
  with Inr parse_iff [OF assms, of now raw v c' valid]
  have ok: valid "signed_claims D v now raw c'" "in_time now c'" by simp_all
  have same: "signed_claims D v now raw c \<Longrightarrow> c = c'" using ok(2) by (auto simp: signed_claims_def)
  show ?thesis
    using ok same by (auto simp: token_Verify_def Inr cv good_access_def assertAudience_def unrevoked_def token_names
        split: option.splits sum.splits)
qed

lemma wrong_type_refused:
  assumes "jwt_lib_ok D" "signed_claims D v now raw c" "in_time now c" "cl_TokenType c \<noteq> TypeAccess"
  shows "token_Verify D v now raw TypeAccess = Inl ErrWrongTokenType"
  using parse_iff [OF assms(1), of now raw v c True] assms(2-4) by (simp add: token_Verify_def token_names)

section \<open>A token library\<close>

text \<open>
  A library with the documented behaviour, on which the parametric statements are tried: it knows the
  tokens of a table, and one key pair.
\<close>

definition table_jwt :: "(string \<times> token_header \<times> Claims) list \<Rightarrow> jwt_lib" where
  "table_jwt tbl =
     \<lparr>jl_NumericDate = (\<lambda>t. t - t mod time_Second),
      jl_SignedString = (\<lambda>h c priv. if priv = [2] then map_option fst (find (\<lambda>e. snd e = (h, c)) tbl) else None),
      jl_Decode = map_of tbl,
      jl_SigOk = (\<lambda>key raw. key = [1]),
      jl_Parse = (\<lambda>methods now raw kf.
        (case map_of tbl raw of
           None \<Rightarrow> Inl [LibTokenMalformed]
         | Some (h, c) \<Rightarrow>
             if th_Alg h \<notin> set methods then Inl [LibSignatureInvalid]
             else
               (case kf h of
                  Inl e \<Rightarrow> Inl [LibCallback e]
                | Inr key \<Rightarrow>
                    if key \<noteq> [1] then Inl [LibSignatureInvalid]
                    else if \<not> in_time now c then Inl [LibTokenExpired] else Inr (c, True))))\<rparr>"

lemma table_jwt_ok:
  assumes "distinct (map fst tbl)" "[] \<notin> fst ` set tbl"
  shows "jwt_lib_ok (table_jwt tbl)"
proof -
  have "raw \<noteq> [] \<and> map_of tbl raw = Some (h, c)"
    if "map_option fst (find (\<lambda>e. snd e = (h, c)) tbl) = Some raw" for h c raw
  proof -
    from that obtain e where e: "find (\<lambda>e. snd e = (h, c)) tbl = Some e" "fst e = raw" by auto
    then have "e \<in> set tbl" "snd e = (h, c)" by (auto simp: find_Some_iff)
    with e(2) have "(raw, h, c) \<in> set tbl" by (metis prod.collapse)
    with assms show ?thesis by (auto intro!: map_of_is_SomeI simp: image_iff)
  qed
  moreover have "t - t mod time_Second \<le> t \<and> t < t - t mod time_Second + time_Second" for t :: gotime
    using pos_mod_sign [of time_Second t] pos_mod_bound [of time_Second t] by (simp add: time_Second_def)
  ultimately show ?thesis
    unfolding jwt_lib_ok_def table_jwt_def
    by (auto split: option.splits prod.splits sum.splits if_splits)
qed

section \<open>Protected handlers\<close>

lemma protected_iff:
  assumes "jwt_lib_ok D" "mw_devToken m = []"
  shows "RegisterProtectedHandler D v ps handler (Some m) now unix r = Inr x \<longleftrightarrow>
    (\<exists>raw c p. extractBearer r = Inr raw \<and> good_access D v now raw c \<and>
       ps_byID ps (cl_Subject c) = Some p \<and> pr_Status p = StatusActive \<and> x = handler (Some p))"
  unfolding verify_access_iff [OF assms(1), symmetric] using assms(2)
  by (auto simp: RegisterProtectedHandler_def RequireAuth_def mw_Authenticate_def ps_Get_def IsActive_def
      split: sum.splits option.splits)

text \<open>
  C2: complete authentication. Behind the middleware, without development mode, a handler runs exactly
  when the request bears a token that a stored, verifiable key signed, that is in its period of
  validity, is an access token for this service and not revoked, and whose subject is a stored active
  principal; the handler then sees that principal. Every other request is answered 401, or 403 for a
  principal that is not active.
\<close>

theorem protected_handler:
  assumes "jwt_lib_ok D" "mw_devToken m = []"
  shows "(RegisterProtectedHandler D v ps handler (Some m) now unix r = Inr x \<longleftrightarrow>
      (\<exists>raw c p. extractBearer r = Inr raw \<and> good_access D v now raw c \<and>
         ps_byID ps (cl_Subject c) = Some p \<and> pr_Status p = StatusActive \<and> x = handler (Some p))) \<and>
    (\<forall>code msg. RegisterProtectedHandler D v ps handler (Some m) now unix r = Inl (code, msg) \<longrightarrow>
      code = (if \<exists>raw c p. extractBearer r = Inr raw \<and> good_access D v now raw c \<and>
                ps_byID ps (cl_Subject c) = Some p then 403 else 401))"
proof (intro conjI allI impI)
  show "RegisterProtectedHandler D v ps handler (Some m) now unix r = Inr x \<longleftrightarrow>
      (\<exists>raw c p. extractBearer r = Inr raw \<and> good_access D v now raw c \<and>
         ps_byID ps (cl_Subject c) = Some p \<and> pr_Status p = StatusActive \<and> x = handler (Some p))"
    by (rule protected_iff [OF assms])
  fix code msg
  assume refused: "RegisterProtectedHandler D v ps handler (Some m) now unix r = Inl (code, msg)"
  have bearer: "e = ErrMissingAuthHeader \<or> e = ErrMalformedAuthHeader" if "extractBearer r = Inl e" for e
    using that by (auto simp: extractBearer_def Let_def split: if_splits option.splits list.splits)
  have verify: "e \<noteq> JwtIdentity ErrPrincipalInactive" if "token_Verify D v now raw TypeAccess = Inl e" for raw e
    using that by (auto simp: token_Verify_def parse_failure_def assertAudience_def Let_def
        split: sum.splits option.splits if_splits)
  show "code = (if \<exists>raw c p. extractBearer r = Inr raw \<and> good_access D v now raw c \<and>
      ps_byID ps (cl_Subject c) = Some p then 403 else 401)"
    unfolding verify_access_iff [OF assms(1), symmetric] using assms(2) refused
    by (auto simp: RegisterProtectedHandler_def RequireAuth_def mw_Authenticate_def ps_Get_def IsActive_def
        writeAuthError_def split: sum.splits option.splits if_splits dest: bearer verify)
qed

section \<open>Sessions\<close>

lemma issue_okE:
  assumes "Issue D K s i now uuids (Some p) = Inr pair"
  obtains kp where "ActiveKey K s PurposeJWTSigning = Inr kp" "tp_SigningKeyID pair = kp_ID kp"
    "signClaims D (buildClaims D p (tp_AccessJTI pair) now (tp_AccessExp pair) AudienceAccess TypeAccess) kp =
      Some (tp_AccessToken pair)"
    "signClaims D (buildClaims D p (tp_RefreshJTI pair) now (tp_RefreshExp pair) AudienceRefresh TypeRefresh) kp =
      Some (tp_RefreshToken pair)"
    "tp_AccessExp pair = now + is_accessTTL i" "tp_RefreshExp pair = now + is_refreshTTL i"
    "tp_AccessJTI pair = fst uuids"
  using assms by (auto simp: Issue_def Let_def split: if_splits sum.splits option.splits)

lemma bearer_lower: "strings_ToLower ''Bearer'' = ''bearer''"
  by code_simp

lemma bearer_of: "tok \<noteq> [] \<Longrightarrow> extractBearer \<lparr>ar_Authorization = ''Bearer '' @ tok, ar_WSProtocol = w\<rparr> = Inr tok"
  using SplitN2_append [of "CHR '' ''" "''Bearer''" tok]
  by (simp add: extractBearer_def bearer_lower)

lemma signed_by:
  assumes lib: "jwt_lib_ok D" and sign: "signClaims D c kp = Some raw" "key_matches D kp" "kp_ID kp \<noteq> []"
    and key: "GetKey (vf_keys v) (vf_store v) (kp_ID kp) = Inr (kp\<lparr>kp_Status := st\<rparr>)"
  shows "signed_claims D v now raw c' \<longleftrightarrow> c' = c \<and> st \<noteq> StatusKeyRetired \<and> now \<le> kp_NotAfter kp"
    and "raw \<noteq> []"
proof -
  from lib sign(1) have raw: "raw \<noteq> []"
      "jl_Decode D raw = Some (\<lparr>th_Alg = ''EdDSA'', th_Kid = Some (AString (kp_ID kp))\<rparr>, c)"
    by (auto simp: jwt_lib_ok_def signClaims_def)
  from sign have "jl_SigOk D (kp_Public kp) raw" by (auto simp: key_matches_def signClaims_def)
  with raw key sign(3) show "signed_claims D v now raw c' \<longleftrightarrow> c' = c \<and> st \<noteq> StatusKeyRetired \<and> now \<le> kp_NotAfter kp"
    by (auto simp: signed_claims_def)
  from raw show "raw \<noteq> []" by simp
qed

lemma active_key_later:
  assumes "pki_step\<^sup>*\<^sup>* NewMemoryKeyStore s" "pki_step\<^sup>*\<^sup>* s s'" "ActiveKey memory_keystore s p = Inr kp"
  obtains st where "GetKey memory_keystore s' (kp_ID kp) = Inr (kp\<lparr>kp_Status := st\<rparr>)" "map_of s (kp_ID kp) = Some kp"
proof -
  have inv: "mem_inv s" using assms(1) by (rule reachable_inv)
  have ev: "evolves (map_of s) (map_of s')" using pki_steps_keep [OF assms(2) inv] by (simp add: mks.keeps_def)
  from assms(3) have "map_of s (kp_ID kp) = Some kp"
    using find_active_Some [OF _ inv]
    by (auto simp: ActiveKey_def memory_keystore_def mem_ActiveByPurpose_def split: option.splits)
  with ev that show thesis by (fastforce simp: evolves_def GetKey_def memory_keystore_def mem_Get_def)
qed

lemma login_okE:
  assumes "LoginHandler L D K s i cs uuids now seen replied meth body ps = (LoginOK pair n p, ps')"
  obtains p0 where "Issue D K s i now uuids (Some p0) = Inr pair" "pr_ID p = pr_ID p0"
  using assms
  by (auto simp: LoginHandler_def Let_def split: if_splits option.splits sum.splits prod.splits)

text \<open>The two tokens of an issued pair, presented at a later time.\<close>

lemma issued_session:
  assumes lib: "jwt_lib_ok D" "\<forall>kp \<in> ran (map_of s). key_matches D kp \<and> kp_ID kp \<noteq> []"
    and keys: "pki_step\<^sup>*\<^sup>* NewMemoryKeyStore s" "pki_step\<^sup>*\<^sup>* s s'"
    and iss: "Issue D memory_keystore s i now uuids (Some p0) = Inr pair"
    and later: "now \<le> t" "v = \<lparr>vf_keys = memory_keystore, vf_store = s', vf_revocations = rv\<rparr>"
    and stored: "ps_byID ps'' (pr_ID p0) = Some q"
    and mw: "mw_devToken m = []"
  shows "(RegisterProtectedHandler D v ps'' handler (Some m) t unix
        \<lparr>ar_Authorization = ''Bearer '' @ tp_AccessToken pair, ar_WSProtocol = w\<rparr> = Inr x \<longleftrightarrow>
      t < jl_NumericDate D (tp_AccessExp pair) \<and> IsVerifyable (map_of s' (tp_SigningKeyID pair)) t \<and>
      unrevoked v (tp_AccessJTI pair) \<and> pr_Status q = StatusActive \<and> x = handler (Some q)) \<and>
    RegisterProtectedHandler D v ps'' handler (Some m) t unix
      \<lparr>ar_Authorization = ''Bearer '' @ tp_RefreshToken pair, ar_WSProtocol = w\<rparr> \<noteq> Inr x"
proof -
  let ?a = "buildClaims D p0 (tp_AccessJTI pair) now (tp_AccessExp pair) AudienceAccess TypeAccess"
  let ?r = "buildClaims D p0 (tp_RefreshJTI pair) now (tp_RefreshExp pair) AudienceRefresh TypeRefresh"
  from iss obtain kp where kp: "ActiveKey memory_keystore s PurposeJWTSigning = Inr kp" "tp_SigningKeyID pair = kp_ID kp"
      "signClaims D ?a kp = Some (tp_AccessToken pair)" "signClaims D ?r kp = Some (tp_RefreshToken pair)"
    by (rule issue_okE)
  from keys kp(1) obtain st where st: "GetKey memory_keystore s' (kp_ID kp) = Inr (kp\<lparr>kp_Status := st\<rparr>)"
    and kps: "map_of s (kp_ID kp) = Some kp"
    by (rule active_key_later)
  with lib(2) have match: "key_matches D kp" "kp_ID kp \<noteq> []" by (auto intro: ranI)
  from st later(2) have get: "GetKey (vf_keys v) (vf_store v) (kp_ID kp) = Inr (kp\<lparr>kp_Status := st\<rparr>)" by simp
  note a = signed_by [OF lib(1) kp(3) match get] and r = signed_by [OF lib(1) kp(4) match get]
  have "map_of s' (kp_ID kp) = Some (kp\<lparr>kp_Status := st\<rparr>)"
    using st by (auto simp: GetKey_def memory_keystore_def mem_Get_def split: option.splits)
  then have ver: "IsVerifyable (map_of s' (tp_SigningKeyID pair)) t \<longleftrightarrow> st \<noteq> StatusKeyRetired \<and> t \<le> kp_NotAfter kp"
    by (simp add: kp(2) IsVerifyable_def not_less)
  have nb: "jl_NumericDate D now \<le> t" using lib(1) later(1) order_trans [of "jl_NumericDate D now" now t] by (simp add: jwt_lib_ok_def)
  have "good_access D v t (tp_AccessToken pair) c \<longleftrightarrow> c = ?a \<and> t < jl_NumericDate D (tp_AccessExp pair) \<and>
      IsVerifyable (map_of s' (tp_SigningKeyID pair)) t \<and> unrevoked v (tp_AccessJTI pair)" for c
    using nb by (auto simp: good_access_def a(1) ver in_time_def buildClaims_def)
  moreover have "\<not> good_access D v t (tp_RefreshToken pair) c" for c
    by (auto simp: good_access_def r(1) buildClaims_def token_names)
  moreover have "cl_Subject ?a = pr_ID p0" by (simp add: buildClaims_def)
  ultimately show ?thesis
    unfolding protected_iff [OF lib(1) mw] bearer_of [OF a(2)] bearer_of [OF r(2)] using stored by auto
qed

text \<open>
  C19: a session. The access token of a login opens protected handlers, as the logged-in principal, exactly
  while the token has not expired, its key is not retired or past its validity, its id is not revoked and the
  principal is active; whatever happened to the key store since, a rotation included. The refresh token of the
  login opens none.
\<close>

theorem session_roundtrip:
  assumes lib: "jwt_lib_ok D" "\<forall>kp \<in> ran (map_of s). key_matches D kp \<and> kp_ID kp \<noteq> []"
    and keys: "pki_step\<^sup>*\<^sup>* NewMemoryKeyStore s" "pki_step\<^sup>*\<^sup>* s s'"
    and login: "LoginHandler L D memory_keystore s i cs uuids now seen replied meth body ps = (LoginOK pair n p, ps')"
    and later: "now \<le> t" "v = \<lparr>vf_keys = memory_keystore, vf_store = s', vf_revocations = rv\<rparr>"
    and stored: "ps_byID ps'' (pr_ID p) = Some q"
    and mw: "mw_devToken m = []"
  shows "(RegisterProtectedHandler D v ps'' handler (Some m) t unix
        \<lparr>ar_Authorization = ''Bearer '' @ tp_AccessToken pair, ar_WSProtocol = w\<rparr> = Inr x \<longleftrightarrow>
      t < jl_NumericDate D (tp_AccessExp pair) \<and> IsVerifyable (map_of s' (tp_SigningKeyID pair)) t \<and>
      unrevoked v (tp_AccessJTI pair) \<and> pr_Status q = StatusActive \<and> x = handler (Some q)) \<and>
    RegisterProtectedHandler D v ps'' handler (Some m) t unix
      \<lparr>ar_Authorization = ''Bearer '' @ tp_RefreshToken pair, ar_WSProtocol = w\<rparr> \<noteq> Inr x"
proof -
  from login obtain p0 where iss: "Issue D memory_keystore s i now uuids (Some p0) = Inr pair" and p0: "pr_ID p = pr_ID p0"
    by (rule login_okE)
  from stored have "ps_byID ps'' (pr_ID p0) = Some q" by (simp add: p0)
  from issued_session [OF lib keys iss later this mw] show ?thesis .
qed

section \<open>Revoked tokens\<close>

lemma verify_okD:
  assumes "jwt_lib_ok D" "token_Verify D v now raw tt = Inr c" "jl_Decode D raw = Some (h, c')"
  shows "c' = c" "in_time now c" "unrevoked v (cl_ID c)"
proof -
  from assms(2) have parse: "jl_Parse D [''EdDSA''] now raw (token_key v now) = Inr (c, True)"
    and un: "unrevoked v (cl_ID c)"
    by (auto simp: token_Verify_def unrevoked_def split: sum.splits prod.splits option.splits if_splits)
  from parse_iff [OF assms(1)] parse have "signed_claims D v now raw c" "in_time now c" by blast+
  then show "c' = c" "in_time now c" "unrevoked v (cl_ID c)" using assms(3) un by (auto simp: signed_claims_def)
qed

text \<open>
  C6: revocation is final. Once a token id is newly revoked with an entry that does not expire before the
  token, every later verification against the denylist refuses the token: through any further
  revocations, garbage collections and restarts, as long as the clock does not go back.
\<close>

theorem revoked_stays_out:
  assumes "bolt_db B" "jwt_lib_ok D" "\<forall>x. jc_Marshal J x \<noteq> None \<longrightarrow> round_trips J x"
    and inv: "rev_inv B st" "\<not> IsRevoked st (en_JTI e)"
    and rev: "Revoke B J t0 e st = (None, st1)"
    and steps: "(rev_step B J)\<^sup>*\<^sup>* (t0, st1) (t, st')" "t \<le> now"
    and tok: "jl_Decode D raw = Some (h, c)" "cl_ID c = en_JTI e"
      "IsZero (en_ExpiresAt e) \<or> (\<exists>x. cl_ExpiresAt c = Some x \<and> x \<le> en_ExpiresAt e)"
    and v: "vf_revocations v = Some (denylist st')"
  shows "\<not> is_ok (token_Verify D v now raw tt)"
proof
  assume "is_ok (token_Verify D v now raw tt)"
  then obtain c' where c': "token_Verify D v now raw tt = Inr c'" by auto
  note ok = verify_okD [OF assms(2) c' tok(1)]
  have j: "en_JTI e \<noteq> []" using rev by (auto simp: Revoke_def)
  note eff = bolt_db.revoke_effect [OF assms(1) inv(1) rev assms(3), of "en_JTI e"]
  then have "barred B J (en_JTI e) (en_ExpiresAt e) t0 st1" using inv(2) by (auto simp: barred_def)
  from bolt_db.barred_steps [OF assms(1) steps(1) this assms(3) j]
  have "IsRevoked st' (en_JTI e) \<or> \<not> IsZero (en_ExpiresAt e) \<and> en_ExpiresAt e < t"
    using bolt_db.barred_checked [OF assms(1) _ j] by blast
  then show False
    using ok tok steps(2) v by (auto simp: unrevoked_def denylist_def in_time_def split: option.splits)
qed

section \<open>Witnesses\<close>

definition sample_pw :: Credential where
  "sample_pw = PasswordC \<lparr>pc_principalID = ''p'', pc_subject = ''admin'', pc_passwordHash = rev (str_bytes ''pw''),
     pc_totpSecret = ''123456'', pc_issuer = ''OWASAKA''\<rparr>"

definition sample_claims :: "string \<Rightarrow> gotime \<Rightarrow> string \<Rightarrow> string \<Rightarrow> Claims" where
  "sample_claims jti = buildClaims (table_jwt []) (sample_principal PrincipalHuman) jti 0"

definition sample_jwt :: jwt_lib where
  "sample_jwt = table_jwt
     [(''A'', \<lparr>th_Alg = ''EdDSA'', th_Kid = Some (AString ''k1'')\<rparr>, sample_claims ''j1'' DefaultAccessTTL AudienceAccess TypeAccess),
      (''R'', \<lparr>th_Alg = ''EdDSA'', th_Kid = Some (AString ''k1'')\<rparr>, sample_claims ''j2'' DefaultRefreshTTL AudienceRefresh TypeRefresh)]"

definition session_keys :: MemoryKeyStore where
  "session_keys = snd (Rotate memory_keystore \<lparr>gen_now = 0, gen_uuid = ''k1'', gen_key = Some ([1], [2])\<rparr>
     PurposeJWTSigning (24 * time_Hour) NewMemoryKeyStore)"

definition sample_login :: "login_response \<times> MemoryPrincipalStore" where
  "sample_login = LoginHandler sample_lib sample_jwt memory_keystore session_keys (NewIssuer [])
     (snd (cs_Save NewMemoryCredentialStore sample_pw)) (''j1'', ''j2'') 0 1 2 ''POST''
     (Some \<lparr>lr_Username = ''admin'', lr_Password = ''pw'', lr_TOTP = ''123456''\<rparr>) (sample_principals PrincipalHuman)"

definition sample_pair :: TokenPair where
  "sample_pair = \<lparr>tp_AccessToken = ''A'', tp_RefreshToken = ''R'', tp_AccessJTI = ''j1'', tp_RefreshJTI = ''j2'',
     tp_AccessExp = DefaultAccessTTL, tp_RefreshExp = DefaultRefreshTTL, tp_SigningKeyID = ''k1''\<rparr>"

lemma sample_jwt_ok: "jwt_lib_ok sample_jwt"
  unfolding sample_jwt_def by (rule table_jwt_ok) simp_all

lemma session_keys_eq: "session_keys = [(''k1'', \<lparr>kp_ID = ''k1'', kp_Purpose = PurposeJWTSigning, kp_Public = [1],
    kp_Private = [2], kp_Status = StatusKeyActive, kp_CreatedAt = 0, kp_NotBefore = 0, kp_NotAfter = 24 * time_Hour\<rparr>)]"
  by (simp add: session_keys_def Rotate_def memory_keystore_def mem_ActiveByPurpose_def NewMemoryKeyStore_def
      GenerateKeyPair_def mem_Save_def Let_def purposes)

lemma session_keys_reach: "pki_step\<^sup>*\<^sup>* NewMemoryKeyStore session_keys"
  unfolding session_keys_def
  by (rule Rotate_steps) (simp add: fresh_gen_def NewMemoryKeyStore_def)

lemma sample_build: "buildClaims sample_jwt = buildClaims (table_jwt [])"
  by (intro ext) (simp add: buildClaims_def sample_jwt_def table_jwt_def)

lemma sample_sign:
  "signClaims sample_jwt (sample_claims ''j1'' DefaultAccessTTL AudienceAccess TypeAccess) (snd (hd session_keys)) = Some ''A''"
  "signClaims sample_jwt (sample_claims ''j2'' DefaultRefreshTTL AudienceRefresh TypeRefresh) (snd (hd session_keys)) = Some ''R''"
  by (simp_all add: signClaims_def sample_jwt_def table_jwt_def session_keys_eq sample_claims_def buildClaims_def)

lemma sample_login_eq: "\<exists>n p ps'. sample_login = (LoginOK sample_pair n p, ps') \<and> pr_ID p = ''p''"
proof -
  have "ActiveKey memory_keystore session_keys PurposeJWTSigning = Inr (snd (hd session_keys))"
    by (simp add: ActiveKey_def memory_keystore_def mem_ActiveByPurpose_def session_keys_eq)
  moreover have "kp_ID (snd (hd session_keys)) = ''k1''" by (simp add: session_keys_eq)
  ultimately have "Issue sample_jwt memory_keystore session_keys (NewIssuer []) 0 (''j1'', ''j2'')
      (Some (sample_principal PrincipalHuman)) = Inr sample_pair"
    using sample_sign
    by (simp add: Issue_def Let_def sample_build NewIssuer_def sample_claims_def sample_pair_def IsActive_def sample_principal_def)
  moreover have "Authenticate sample_lib (ps_Get (sample_principals PrincipalHuman))
      (cs_FindBySubject (snd (cs_Save NewMemoryCredentialStore sample_pw)))
      [\<lparr>af_Kind = CredentialPassword, af_Subject = ''admin'', af_Proof = str_bytes ''pw'',
        af_Extra = Some [''totp'' \<mapsto> AString ''123456'']\<rparr>] = Inr (sample_principal PrincipalHuman)"
    unfolding Authenticate_iff
    by (simp add: cs_Save_def cs_FindBySubject_def sample_pw_def NewMemoryCredentialStore_def Let_def ps_Get_def samples
        admissible_def)
  ultimately show ?thesis
    by (simp add: sample_login_def LoginHandler_def Let_def ps_UpdateLastSeen_def samples)
qed

theorem protected_handler_witness:
  "RegisterProtectedHandler sample_jwt \<lparr>vf_keys = memory_keystore, vf_store = session_keys, vf_revocations = None\<rparr>
     (sample_principals PrincipalHuman) id (Some (NewMiddleware [])) 5 0
     \<lparr>ar_Authorization = ''Bearer A'', ar_WSProtocol = []\<rparr> = Inr (Some (sample_principal PrincipalHuman))"
proof -
  let ?v = "\<lparr>vf_keys = memory_keystore, vf_store = session_keys, vf_revocations = None\<rparr>"
  have "mw_devToken (NewMiddleware []) = []" by (simp add: NewMiddleware_def)
  note * = conjunct1 [OF protected_handler [OF sample_jwt_ok this]]
  have good: "good_access sample_jwt ?v 5 ''A'' (sample_claims ''j1'' DefaultAccessTTL AudienceAccess TypeAccess)"
    unfolding good_access_def signed_claims_def
    by (simp add: sample_jwt_def table_jwt_def session_keys_eq GetKey_def memory_keystore_def mem_Get_def key_statuses
        durations in_time_def sample_claims_def buildClaims_def DefaultAccessTTL_def unrevoked_def)
  show ?thesis
    unfolding *
    using bearer_of [of "''A''" "[]"] good
    by (auto simp: sample_claims_def buildClaims_def samples intro!: exI)
qed

theorem session_roundtrip_witness:
  "RegisterProtectedHandler sample_jwt \<lparr>vf_keys = memory_keystore, vf_store = session_keys, vf_revocations = None\<rparr>
     (sample_principals PrincipalHuman) (\<lambda>_. ()) (Some (NewMiddleware [])) 5 0
     \<lparr>ar_Authorization = ''Bearer '' @ tp_AccessToken sample_pair, ar_WSProtocol = []\<rparr> = Inr ()"
proof -
  from sample_login_eq obtain n p ps' where login: "sample_login = (LoginOK sample_pair n p, ps')" "pr_ID p = ''p''" by blast
  have match: "\<forall>kp \<in> ran (map_of session_keys). key_matches sample_jwt kp \<and> kp_ID kp \<noteq> []"
    by (simp add: session_keys_eq key_matches_def sample_jwt_def table_jwt_def)
  have "ps_byID (sample_principals PrincipalHuman) (pr_ID p) = Some (sample_principal PrincipalHuman)"
    by (simp add: login(2) samples)
  moreover have "5 < jl_NumericDate sample_jwt (tp_AccessExp sample_pair)"
    by (simp add: sample_jwt_def table_jwt_def sample_pair_def DefaultAccessTTL_def durations)
  ultimately show ?thesis
    using session_roundtrip [OF sample_jwt_ok match session_keys_reach rtranclp.rtrancl_refl
        login(1) [unfolded sample_login_def] _ refl, of 5 "sample_principals PrincipalHuman" "sample_principal PrincipalHuman"
        "NewMiddleware []" None "\<lambda>_. ()" 0 "[]" "()"]
    by (simp add: NewMiddleware_def unrevoked_def IsVerifyable_def session_keys_eq sample_pair_def key_statuses
        durations sample_principal_def)
qed

definition sample_entry :: Entry where
  "sample_entry = \<lparr>en_JTI = ''j1'', en_Reason = [], en_RevokedAt = 1, en_RevokedBy = [], en_ExpiresAt = DefaultAccessTTL\<rparr>"

definition sample_entry_codec :: "Entry jcodec" where
  "sample_entry_codec = \<lparr>jc_Marshal = (\<lambda>e. if e = sample_entry then Some [7] else None),
     jc_Unmarshal = (\<lambda>b. if b = [7] then Some sample_entry else None)\<rparr>"

definition empty_denylist :: "mem_db BoltStore" where
  "empty_denylist = \<lparr>rs_db = [RevokedBucket \<mapsto> []], rs_cache = {}\<rparr>"

theorem revoked_stays_out_witness:
  "\<not> is_ok (token_Verify sample_jwt \<lparr>vf_keys = memory_keystore, vf_store = session_keys,
     vf_revocations = Some (denylist (snd (Revoke mem_bolt sample_entry_codec 1 sample_entry empty_denylist)))\<rparr> 5 ''A'' TypeAccess)"
proof -
  have codec: "\<forall>x. jc_Marshal sample_entry_codec x \<noteq> None \<longrightarrow> round_trips sample_entry_codec x"
    by (auto simp: sample_entry_codec_def round_trips_def)
  have rev: "Revoke mem_bolt sample_entry_codec 1 sample_entry empty_denylist =
      (None, snd (Revoke mem_bolt sample_entry_codec 1 sample_entry empty_denylist))"
    by (simp add: Revoke_def sample_entry_codec_def stamp_def IsZero_def sample_entry_def empty_denylist_def
        revoke_tx_def db_Update_def bput_def mem_bolt_def mem_entries_def)
  have inv: "rev_inv mem_bolt empty_denylist" "\<not> IsRevoked empty_denylist (en_JTI sample_entry)"
    by (simp_all add: rev_inv_def empty_denylist_def mem_bolt_def mem_entries_def IsRevoked_def)
  have dec: "jl_Decode sample_jwt ''A'' = Some (\<lparr>th_Alg = ''EdDSA'', th_Kid = Some (AString ''k1'')\<rparr>,
      sample_claims ''j1'' DefaultAccessTTL AudienceAccess TypeAccess)"
    by (simp add: sample_jwt_def table_jwt_def)
  show ?thesis
    by (rule revoked_stays_out [OF mem.bolt_db_axioms sample_jwt_ok codec inv rev rtranclp.rtrancl_refl _ dec])
      (simp_all add: sample_claims_def buildClaims_def sample_entry_def table_jwt_def DefaultAccessTTL_def durations)
qed

section \<open>Keys and tokens\<close>

text \<open>
  A key past its validity still signs: the login succeeds, and every token it returns is refused.
\<close>

lemma expired_key_signs:
  assumes "jwt_lib_ok D" "Issue D K s i now uuids (Some p) = Inr pair"
    and "ActiveKey K s PurposeJWTSigning = Inr kp" "GetKey K s (kp_ID kp) = Inr kp" "kp_NotAfter kp < now"
  shows "\<not> is_ok (token_Verify D \<lparr>vf_keys = K, vf_store = s, vf_revocations = rv\<rparr> now (tp_AccessToken pair) TypeAccess)"
proof
  let ?v = "\<lparr>vf_keys = K, vf_store = s, vf_revocations = rv\<rparr>"
  assume "is_ok (token_Verify D ?v now (tp_AccessToken pair) TypeAccess)"
  then obtain c where "good_access D ?v now (tp_AccessToken pair) c" using verify_access_iff [OF assms(1)] by blast
  moreover from assms(2) obtain kp' where "ActiveKey K s PurposeJWTSigning = Inr kp'"
    "signClaims D (buildClaims D p (tp_AccessJTI pair) now (tp_AccessExp pair) AudienceAccess TypeAccess) kp' = Some (tp_AccessToken pair)"
    by (rule issue_okE)
  ultimately show False
    using assms(1,3-5) by (auto simp: good_access_def signed_claims_def signClaims_def jwt_lib_ok_def)
qed

text \<open>
  The verifier does not look at the purpose of a key: a token signed with a key of any purpose, also one
  that is not published, is taken.
\<close>

lemma any_purpose_verifies:
  assumes "GetKey (vf_keys v) (vf_store v) kid = Inr kp" "kid \<noteq> []" "IsVerifyable (Some kp) now"
  shows "token_key v now \<lparr>th_Alg = ''EdDSA'', th_Kid = Some (AString kid)\<rparr> = Inr (kp_Public kp)"
  using assms by (simp add: token_key_def)

lemma published_keys:
  assumes "PublishKeys memory_keystore s now = Inr ks"
  shows "set ks = (\<Union>p \<in> {PurposeJWTSigning, PurposeEventSigning}.
    jwk_of p ` {kp \<in> snd ` set s. kp_Purpose kp = p \<and> IsVerifyable (Some kp) now})"
proof -
  from assms have "ks = map (jwk_of PurposeJWTSigning)
        (filter (\<lambda>kp. kp_Purpose kp = PurposeJWTSigning \<and> IsVerifyable (Some kp) now) (map snd s)) @
      map (jwk_of PurposeEventSigning)
        (filter (\<lambda>kp. kp_Purpose kp = PurposeEventSigning \<and> IsVerifyable (Some kp) now) (map snd s))"
    by (simp add: PublishKeys_def publishedPurposes_def KeysForPurpose_def memory_keystore_def mem_FindByPurpose_def
        conj_commute)
  then show ?thesis by simp
qed

end
