(* ===== verification/Migrations.thy ===== *)
theory Migrations
  imports Bolt
begin

text \<open>
  Schema migrations, \<^verbatim>\<open>internal/storage/migrations\<close>: the registry and the applied id
  (\<^verbatim>\<open>migrations.go\<close>), the runner and the gate at boot (\<^verbatim>\<open>runner.go\<close>) and the initial schema
  (\<^verbatim>\<open>0001_initial.go\<close>). The database is the parameter \<open>B\<close> of theory Bolt; a migration is a
  function on it that runs inside a transaction. The wording of error messages is left out.
\<close>

definition BucketSchema :: string where "BucketSchema = ''schema_version''"
definition keyAppliedID :: string where "keyAppliedID = ''applied''"
definition keyAppliedAt :: string where "keyAppliedAt = ''applied_at''"

datatype mig_error =
    ErrPendingMigrations nat
  | ErrDowngradeDetected
  | ErrUnknownMigration u32
  | MigWrongLength nat
  | MigNoUp u32
  | MigUp u32 string
  | MigDown u32 string
  | MigNothingApplied
  | MigIrreversible u32
  | MigBolt string

record 'db Migration =
  mg_ID :: u32
  mg_Description :: string
  mg_Up :: "('db \<Rightarrow> string option \<times> 'db) option"
  mg_Down :: "('db \<Rightarrow> string option \<times> 'db) option"

text \<open>A duplicate id panics, which is \<open>None\<close>.\<close>

definition Register :: "'db Migration \<Rightarrow> 'db Migration list \<Rightarrow> 'db Migration list option" where
  "Register m registry =
     (if find (\<lambda>existing. mg_ID existing = mg_ID m) registry \<noteq> None then None else Some (registry @ [m]))"

definition AllMigrations :: "'db Migration list \<Rightarrow> 'db Migration list" where
  "AllMigrations registry = sort_key mg_ID registry"

record 'db Status =
  st_Applied :: u32
  st_Available :: u32
  st_Pending :: "'db Migration list"

definition AppliedID :: "'db bolt \<Rightarrow> 'db \<Rightarrow> mig_error + u32" where
  "AppliedID B db =
     (if \<not> bk_Has B db BucketSchema then Inr 0
      else
        (case bk_Get B db BucketSchema (str_bytes keyAppliedID) of
           None \<Rightarrow> Inr 0
         | Some raw \<Rightarrow>
             if length raw \<noteq> 4 then Inl (MigWrongLength (length raw)) else Inr (word_of_nat (be_nat raw))))"

definition AvailableID :: "'db Migration list \<Rightarrow> u32" where
  "AvailableID registry = (let all = AllMigrations registry in if all = [] then 0 else mg_ID (last all))"

definition CurrentStatus :: "'db bolt \<Rightarrow> 'db Migration list \<Rightarrow> 'db \<Rightarrow> mig_error + 'db Status" where
  "CurrentStatus B registry db =
     (case AppliedID B db of
        Inl err \<Rightarrow> Inl err
      | Inr applied \<Rightarrow>
          Inr \<lparr>st_Applied = applied, st_Available = AvailableID registry,
               st_Pending = filter (\<lambda>m. mg_ID m > applied) (AllMigrations registry)\<rparr>)"

definition EnsureBucket :: "'db bolt \<Rightarrow> 'db \<Rightarrow> mig_error option \<times> 'db" where
  "EnsureBucket B db =
     db_Update B MigBolt (\<lambda>d. case bk_Create B d BucketSchema of (e, d') \<Rightarrow> (map_option MigBolt e, d')) db"

text \<open>The result of the first write is ignored; a write that fails leaves the bucket as it was.\<close>

definition writeAppliedID :: "'db bolt \<Rightarrow> u32 \<Rightarrow> 'db \<Rightarrow> string option \<times> 'db" where
  "writeAppliedID B i db =
     (case (if \<not> bk_Has B db BucketSchema then bk_Create B db BucketSchema else (None, db)) of
        (Some e, d) \<Rightarrow> (Some e, d)
      | (None, d) \<Rightarrow>
          (let d' = (case bk_Put B d BucketSchema (str_bytes keyAppliedAt) [] of (None, x) \<Rightarrow> x | (Some _, _) \<Rightarrow> d)
           in bk_Put B d' BucketSchema (str_bytes keyAppliedID) (be_bytes 4 (unat i))))"

section \<open>The runner\<close>

definition up_tx :: "'db bolt \<Rightarrow> u32 \<Rightarrow> ('db \<Rightarrow> string option \<times> 'db) \<Rightarrow> 'db \<Rightarrow> mig_error option \<times> 'db" where
  "up_tx B i up db =
     (case up db of
        (Some e, d) \<Rightarrow> (Some (MigUp i e), d)
      | (None, d) \<Rightarrow> (case writeAppliedID B i d of (e, d') \<Rightarrow> (map_option MigBolt e, d')))"

fun up_loop :: "'db bolt \<Rightarrow> 'db Migration list \<Rightarrow> u32 \<Rightarrow> 'db \<Rightarrow> (u32 \<times> mig_error option) \<times> 'db" where
  "up_loop B [] lastApplied db = ((lastApplied, None), db)"
| "up_loop B (m # ms) lastApplied db =
     (case mg_Up m of
        None \<Rightarrow> ((lastApplied, Some (MigNoUp (mg_ID m))), db)
      | Some up \<Rightarrow>
          (case db_Update B MigBolt (up_tx B (mg_ID m) up) db of
             (Some err, db') \<Rightarrow> ((lastApplied, Some err), db')
           | (None, db') \<Rightarrow> up_loop B ms (mg_ID m) db'))"

definition RunUp :: "'db bolt \<Rightarrow> 'db Migration list \<Rightarrow> 'db \<Rightarrow> (u32 \<times> mig_error option) \<times> 'db" where
  "RunUp B registry db =
     (case EnsureBucket B db of
        (Some err, db0) \<Rightarrow> ((0, Some err), db0)
      | (None, db0) \<Rightarrow>
          (case CurrentStatus B registry db0 of
             Inl err \<Rightarrow> ((0, Some err), db0)
           | Inr status \<Rightarrow>
               if st_Applied status > st_Available status then ((0, Some ErrDowngradeDetected), db0)
               else if st_Pending status = [] then ((st_Applied status, None), db0)
               else up_loop B (st_Pending status) 0 db0))"

definition down_tx :: "'db bolt \<Rightarrow> u32 \<Rightarrow> u32 \<Rightarrow> ('db \<Rightarrow> string option \<times> 'db) \<Rightarrow> 'db \<Rightarrow> mig_error option \<times> 'db" where
  "down_tx B i new down db =
     (case down db of
        (Some e, d) \<Rightarrow> (Some (MigDown i e), d)
      | (None, d) \<Rightarrow> (case writeAppliedID B new d of (e, d') \<Rightarrow> (map_option MigBolt e, d')))"

definition previous_id :: "'db Migration list \<Rightarrow> u32 \<Rightarrow> u32" where
  "previous_id all target =
     fold (\<lambda>m newApplied. if mg_ID m < target \<and> mg_ID m > newApplied then mg_ID m else newApplied) all 0"

definition RunDown :: "'db bolt \<Rightarrow> 'db Migration list \<Rightarrow> 'db \<Rightarrow> (u32 \<times> mig_error option) \<times> 'db" where
  "RunDown B registry db =
     (case CurrentStatus B registry db of
        Inl err \<Rightarrow> ((0, Some err), db)
      | Inr status \<Rightarrow>
          if st_Applied status = 0 then ((0, Some MigNothingApplied), db)
          else
            (case find (\<lambda>m. mg_ID m = st_Applied status) (AllMigrations registry) of
               None \<Rightarrow> ((st_Applied status, Some (ErrUnknownMigration (st_Applied status))), db)
             | Some target \<Rightarrow>
                 (case mg_Down target of
                    None \<Rightarrow> ((st_Applied status, Some (MigIrreversible (mg_ID target))), db)
                  | Some down \<Rightarrow>
                      (let newApplied = previous_id (AllMigrations registry) (mg_ID target)
                       in (case db_Update B MigBolt (down_tx B (mg_ID target) newApplied down) db of
                             (Some err, db') \<Rightarrow> ((st_Applied status, Some err), db')
                           | (None, db') \<Rightarrow> ((newApplied, None), db'))))))"

definition CheckBoot :: "'db bolt \<Rightarrow> 'db Migration list \<Rightarrow> bool \<Rightarrow> 'db \<Rightarrow> mig_error option \<times> 'db" where
  "CheckBoot B registry autoMigrate db =
     (case EnsureBucket B db of
        (Some err, db0) \<Rightarrow> (Some err, db0)
      | (None, db0) \<Rightarrow>
          (case CurrentStatus B registry db0 of
             Inl err \<Rightarrow> (Some err, db0)
           | Inr status \<Rightarrow>
               if st_Applied status > st_Available status then (Some ErrDowngradeDetected, db0)
               else if st_Pending status = [] then (None, db0)
               else if \<not> autoMigrate then (Some (ErrPendingMigrations (length (st_Pending status))), db0)
               else (case RunUp B registry db0 of ((_, err), db') \<Rightarrow> (err, db'))))"

section \<open>The initial schema\<close>

definition initialBuckets :: "string list" where
  "initialBuckets =
     [''assets'', ''events'', ''auth.revoked'', ''audit.api.access'', ''transparency.leaves'',
      ''transparency.nodes'', ''transparency.sth'', ''transparency.sth.history'']"

fun create_buckets :: "'db bolt \<Rightarrow> string list \<Rightarrow> 'db \<Rightarrow> string option \<times> 'db" where
  "create_buckets B [] db = (None, db)"
| "create_buckets B (b # bs) db =
     (case bk_Create B db b of (Some e, d) \<Rightarrow> (Some e, d) | (None, d) \<Rightarrow> create_buckets B bs d)"

definition migration_0001 :: "'db bolt \<Rightarrow> 'db Migration" where
  "migration_0001 B =
     \<lparr>mg_ID = 1, mg_Description = ''initial schema - events, assets, identity, transparency log'',
      mg_Up = Some (create_buckets B initialBuckets), mg_Down = None\<rparr>"

section \<open>Runs\<close>

text \<open>The migrations ran one after the other, each in a transaction that also recorded its id.\<close>

inductive applied_in_order :: "'db bolt \<Rightarrow> 'db \<Rightarrow> 'db Migration list \<Rightarrow> 'db \<Rightarrow> bool" for B where
  none: "applied_in_order B db [] db"
| more: "mg_Up m = Some up \<Longrightarrow> up db = (None, d) \<Longrightarrow> writeAppliedID B (mg_ID m) d = (None, db1) \<Longrightarrow>
    bk_Commit B db db1 = None \<Longrightarrow> applied_in_order B db1 ms db' \<Longrightarrow> applied_in_order B db (m # ms) db'"

inductive_cases applied_consE: "applied_in_order B db (m # ms) db'"
inductive_cases applied_nilE: "applied_in_order B db [] db'"

lemma up_loop_runs:
  assumes "up_loop B ms n0 db = ((n, err), db')"
  shows "\<exists>did todo. ms = did @ todo \<and> applied_in_order B db did db' \<and> (err = None \<longleftrightarrow> todo = []) \<and>
    n = (if did = [] then n0 else mg_ID (last did))"
  using assms
proof (induction B ms n0 db rule: up_loop.induct)
  case (1 B n0 db)
  then show ?case by (auto intro: applied_in_order.none)
next
  case (2 B m ms n0 db)
  show ?case
  proof (cases "mg_Up m")
    case None
    with 2 show ?thesis by (intro exI [of _ "[]"] exI [of _ "m # ms"]) (auto intro: applied_in_order.none)
  next
    case (Some up)
    show ?thesis
    proof (cases rule: db_Update_cases [of B MigBolt "up_tx B (mg_ID m) up" db])
      case (failed e)
      with 2 Some show ?thesis by (intro exI [of _ "[]"] exI [of _ "m # ms"]) (auto intro: applied_in_order.none)
    next
      case (committed db1)
      from committed(2) obtain d where d: "up db = (None, d)" "writeAppliedID B (mg_ID m) d = (None, db1)"
        by (auto simp: up_tx_def split: prod.splits option.splits)
      have c: "bk_Commit B db db1 = None"
        using committed by (auto simp: db_Update_def split: option.splits)
      from 2(2) Some committed have "up_loop B ms (mg_ID m) db1 = ((n, err), db')" by simp
      from 2(1) [OF Some committed(1) [symmetric] refl this] obtain did todo where
        "ms = did @ todo" "applied_in_order B db1 did db'" "err = None \<longleftrightarrow> todo = []"
        "n = (if did = [] then mg_ID m else mg_ID (last did))" by blast
      with applied_in_order.more [OF Some d c] show ?thesis
        by (intro exI [of _ "m # did"] exI [of _ todo]) auto
    qed
  qed
qed

context bolt_db
begin

lemma write_applied:
  assumes "writeAppliedID B i db = (None, db')"
  shows "AppliedID B db' = Inr i"
proof -
  obtain d where d: "(if \<not> bk_Has B db BucketSchema then bk_Create B db BucketSchema else (None, db)) = (None, d)"
    using assms by (fastforce simp: writeAppliedID_def split: prod.splits option.splits)
  have has: "bk_Has B d BucketSchema" using d create_has by (auto split: if_splits)
  define d' where "d' = (case bk_Put B d BucketSchema (str_bytes keyAppliedAt) [] of (None, x) \<Rightarrow> x | (Some _, _) \<Rightarrow> d)"
  have has': "bk_Has B d' BucketSchema"
    using has put_has [OF has] by (auto simp: d'_def split: prod.splits option.splits)
  have put: "bk_Put B d' BucketSchema (str_bytes keyAppliedID) (be_bytes 4 (unat i)) = (None, db')"
    using assms d by (simp add: writeAppliedID_def d'_def Let_def)
  have "unat i < 256 ^ 4" using unsigned_less [of i] by simp
  then show ?thesis
    using has' by (simp add: AppliedID_def put_has [OF has' put] put_get [OF has' put])
qed

lemma applied_last: "applied_in_order B db ms db' \<Longrightarrow> ms \<noteq> [] \<Longrightarrow> AppliedID B db' = Inr (mg_ID (last ms))"
proof (induction rule: applied_in_order.induct)
  case (more m up db d db1 ms db')
  then show ?case by (cases "ms = []") (auto dest: write_applied elim: applied_nilE)
qed simp

lemma ensure_applied:
  assumes "EnsureBucket B db = (None, db0)"
  shows "AppliedID B db0 = AppliedID B db" "bk_Get B db0 = bk_Get B db"
proof -
  from assms have create: "bk_Create B db BucketSchema = (None, db0)"
    by (auto simp: EnsureBucket_def db_Update_def split: prod.splits option.splits)
  show "bk_Get B db0 = bk_Get B db" by (rule create_get [OF create])
  then show "AppliedID B db0 = AppliedID B db"
    using create_has [OF create, of BucketSchema] get_has [of db BucketSchema "str_bytes keyAppliedID"]
    by (auto simp: AppliedID_def split: option.splits)
qed

end

lemma pending_after:
  assumes "sorted (map mg_ID all)" "distinct (map mg_ID all)" "filter (\<lambda>m. a < mg_ID m) all = did @ todo" "did \<noteq> []"
  shows "filter (\<lambda>m. mg_ID (last did) < mg_ID m) all = todo"
proof -
  have "sorted_wrt (<) (map mg_ID all)" using assms(1,2) by (simp add: strict_sorted_iff)
  then have s: "sorted_wrt (<) (map mg_ID (did @ todo))"
    unfolding assms(3) [symmetric] by (simp add: sorted_wrt_map sorted_wrt_filter)
  have a: "a < mg_ID m" if "m \<in> set (did @ todo)" for m
    using that unfolding assms(3) [symmetric] by simp
  have l: "last did \<in> set did" using assms(4) by simp
  have "filter (\<lambda>m. mg_ID (last did) < mg_ID m) all = filter (\<lambda>m. mg_ID (last did) < mg_ID m) (filter (\<lambda>m. a < mg_ID m) all)"
    using a [of "last did"] l by (auto simp: intro!: filter_cong)
  also have "\<dots> = filter (\<lambda>m. mg_ID (last did) < mg_ID m) did @ filter (\<lambda>m. mg_ID (last did) < mg_ID m) todo"
    by (simp add: assms(3))
  also have "filter (\<lambda>m. mg_ID (last did) < mg_ID m) did = []"
  proof -
    have "mg_ID m \<le> mg_ID (last did)" if "m \<in> set did" for m
      using that s assms(4) by (cases did rule: rev_cases) (auto simp: sorted_wrt_append less_imp_le)
    then show ?thesis by (auto simp: filter_empty_conv not_less)
  qed
  also have "filter (\<lambda>m. mg_ID (last did) < mg_ID m) todo = todo"
    using s l by (auto simp: sorted_wrt_append filter_id_conv)
  finally show ?thesis by simp
qed

lemma all_sorted:
  "sorted (map mg_ID (AllMigrations reg))" "set (AllMigrations reg) = set reg"
  "distinct (map mg_ID (AllMigrations reg)) = distinct (map mg_ID reg)"
  by (simp_all add: AllMigrations_def distinct_map)

lemma sorted_le_last: "sorted xs \<Longrightarrow> x \<in> set xs \<Longrightarrow> x \<le> last xs"
  by (cases xs rule: rev_cases) (auto simp: sorted_append)

lemma available_last: "reg \<noteq> [] \<Longrightarrow> AvailableID reg = last (map mg_ID (AllMigrations reg)) \<and> AllMigrations reg \<noteq> []"
proof -
  assume "reg \<noteq> []"
  then have "AllMigrations reg \<noteq> []" using all_sorted(2) [of reg] by auto
  then show ?thesis by (simp add: AvailableID_def Let_def last_map)
qed

lemma available_max:
  assumes "m \<in> set reg"
  shows "mg_ID m \<le> AvailableID reg"
proof -
  have "mg_ID m \<in> set (map mg_ID (AllMigrations reg))" using assms all_sorted(2) [of reg] by simp
  moreover have "reg \<noteq> []" using assms by auto
  ultimately show ?thesis using sorted_le_last [OF all_sorted(1), of "mg_ID m" reg] available_last [of reg] by simp
qed

lemma available_in: "reg \<noteq> [] \<Longrightarrow> \<exists>m \<in> set (AllMigrations reg). AvailableID reg = mg_ID m"
  using available_last [of reg] by (intro bexI [of _ "last (AllMigrations reg)"]) (auto simp: last_map)

lemma run_up_core:
  assumes bolt: "bolt_db B" and reg: "distinct (map mg_ID reg)"
    and ok: "EnsureBucket B db = (None, db0)" "AppliedID B db = Inr a" "a \<le> AvailableID reg"
    and run: "RunUp B reg db = ((n, err), db')"
  obtains did todo where "filter (\<lambda>m. a < mg_ID m) (AllMigrations reg) = did @ todo"
    "applied_in_order B db0 did db'" "AppliedID B db' = Inr (if did = [] then a else mg_ID (last did))"
    "filter (\<lambda>m. (if did = [] then a else mg_ID (last did)) < mg_ID m) (AllMigrations reg) = todo"
    "err = None \<longleftrightarrow> todo = []"
proof -
  let ?p = "filter (\<lambda>m. a < mg_ID m) (AllMigrations reg)"
  have a0: "AppliedID B db0 = Inr a" using bolt_db.ensure_applied [OF bolt ok(1)] ok(2) by simp
  have le: "\<not> AvailableID reg < a" using ok(3) by simp
  have "(if ?p = [] then ((a, None), db0) else up_loop B ?p 0 db0) = ((n, err), db')"
    using run by (cases "?p = []") (simp_all add: RunUp_def ok(1) CurrentStatus_def a0 le)
  then obtain did todo where split: "?p = did @ todo" and ran: "applied_in_order B db0 did db'"
    and err: "err = None \<longleftrightarrow> todo = []"
    using up_loop_runs [of B ?p 0 db0 n err db']
    by (cases "?p = []") (auto simp: applied_in_order.none split: if_splits)
  have app: "AppliedID B db' = Inr (if did = [] then a else mg_ID (last did))"
    using ran a0 bolt_db.applied_last [OF bolt ran] by (auto elim: applied_nilE)
  have "filter (\<lambda>m. (if did = [] then a else mg_ID (last did)) < mg_ID m) (AllMigrations reg) = todo"
    using split pending_after [OF all_sorted(1) _ split] reg by (auto simp: all_sorted(3))
  from that [OF split ran app this err] show thesis .
qed

lemma nothing_pending:
  assumes "filter (\<lambda>m. a < mg_ID m) (AllMigrations reg) = []" "a \<le> AvailableID reg"
  shows "a = AvailableID reg"
proof (cases "reg = []")
  case True
  with assms(2) show ?thesis by (simp add: AvailableID_def AllMigrations_def)
next
  case False
  with available_in [OF this] assms show ?thesis by (fastforce simp: filter_empty_conv)
qed

lemma up_to_date:
  assumes "filter (\<lambda>m. a < mg_ID m) (AllMigrations reg) = did @ todo" "a \<le> AvailableID reg"
    and "filter (\<lambda>m. (if did = [] then a else mg_ID (last did)) < mg_ID m) (AllMigrations reg) = todo" "todo = []"
  shows "(if did = [] then a else mg_ID (last did)) = AvailableID reg"
proof -
  have "last did \<in> set reg" if "did \<noteq> []"
    using that arg_cong [OF assms(1), of set] all_sorted(2) [of reg] by auto
  then have "(if did = [] then a else mg_ID (last did)) \<le> AvailableID reg" using assms(2) by (auto intro: available_max)
  then show ?thesis using nothing_pending [OF assms(3) [unfolded assms(4)]] by blast
qed

section \<open>Properties\<close>

text \<open>
  C22: migrating up. Of the migrations pending at the start, a prefix in the order of the ids has been
  run, each in a transaction that also recorded its id; the recorded id is that of the last one run,
  and what is pending afterwards is exactly the rest, so that a run that failed is resumed without
  running any migration twice. The run reports success exactly when nothing is left, and the
  recorded id is then the highest one.
\<close>

theorem run_up_resumable:
  assumes bolt: "bolt_db B" and reg: "distinct (map mg_ID reg)"
    and ok: "EnsureBucket B db = (None, db0)" "AppliedID B db = Inr a" "a \<le> AvailableID reg"
    and run: "RunUp B reg db = ((n, err), db')"
  shows "\<exists>did todo. filter (\<lambda>m. a < mg_ID m) (AllMigrations reg) = did @ todo \<and>
    applied_in_order B db0 did db' \<and>
    AppliedID B db' = Inr (if did = [] then a else mg_ID (last did)) \<and>
    (\<exists>st. CurrentStatus B reg db' = Inr st \<and> st_Pending st = todo) \<and>
    (err = None \<longleftrightarrow> todo = []) \<and>
    (err = None \<longrightarrow> AppliedID B db' = Inr (AvailableID reg))"
proof -
  from assms obtain did todo where split: "filter (\<lambda>m. a < mg_ID m) (AllMigrations reg) = did @ todo"
    and ran: "applied_in_order B db0 did db'" and app: "AppliedID B db' = Inr (if did = [] then a else mg_ID (last did))"
    and pend: "filter (\<lambda>m. (if did = [] then a else mg_ID (last did)) < mg_ID m) (AllMigrations reg) = todo"
    and err: "err = None \<longleftrightarrow> todo = []"
    by (rule run_up_core)
  have "err = None \<longrightarrow> AppliedID B db' = Inr (AvailableID reg)"
    using app err up_to_date [OF split ok(3) pend] by auto
  moreover have "\<exists>st. CurrentStatus B reg db' = Inr st \<and> st_Pending st = todo"
    using pend by (simp add: CurrentStatus_def app)
  ultimately show ?thesis using split ran app err by blast
qed

theorem run_up_resumable_witness:
  "\<exists>did todo. filter (\<lambda>m. 0 < mg_ID m) (AllMigrations [migration_0001 mem_bolt]) = did @ todo \<and>
     AppliedID mem_bolt (snd (RunUp mem_bolt [migration_0001 mem_bolt] Map.empty)) =
       Inr (if did = [] then 0 else mg_ID (last did))"
proof -
  have "EnsureBucket mem_bolt Map.empty = (None, [BucketSchema \<mapsto> []])"
    "AppliedID mem_bolt Map.empty = Inr 0"
    by (simp_all add: EnsureBucket_def db_Update_def mem_bolt_def AppliedID_def)
  moreover obtain n err db' where "RunUp mem_bolt [migration_0001 mem_bolt] Map.empty = ((n, err), db')"
    by (metis surj_pair)
  ultimately show ?thesis
    using run_up_resumable [OF mem.bolt_db_axioms, of "[migration_0001 mem_bolt]" Map.empty] by fastforce
qed

text \<open>
  The gate at boot: it passes only with the highest id recorded; without permission to migrate it changes no
  document, and a database of a newer program is refused.
\<close>

lemma check_boot_gate:
  assumes "bolt_db B" "distinct (map mg_ID reg)" "CheckBoot B reg auto_migrate db = (r, db')"
    and a: "AppliedID B db = Inr a"
  shows "r = None \<Longrightarrow> AppliedID B db' = Inr (AvailableID reg)"
    and "\<not> auto_migrate \<Longrightarrow> bk_Get B db' = bk_Get B db"
    and "AvailableID reg < a \<Longrightarrow> r \<noteq> None \<and> bk_Get B db' = bk_Get B db"
proof -
  obtain e db0 where ens: "EnsureBucket B db = (e, db0)" by force
  have same: "e = None \<Longrightarrow> AppliedID B db0 = Inr a \<and> bk_Get B db0 = bk_Get B db"
    using bolt_db.ensure_applied [OF assms(1)] ens a by simp
  have fail: "e \<noteq> None \<Longrightarrow> db0 = db"
    using ens unfolding EnsureBucket_def
    by (cases rule: db_Update_cases [of B MigBolt "\<lambda>d. case bk_Create B d BucketSchema of (e, d') \<Rightarrow> (map_option MigBolt e, d')" db]) auto
  show "\<not> auto_migrate \<Longrightarrow> bk_Get B db' = bk_Get B db" "AvailableID reg < a \<Longrightarrow> r \<noteq> None \<and> bk_Get B db' = bk_Get B db"
    using assms(3) ens same fail by (auto simp: CheckBoot_def CurrentStatus_def split: option.splits if_splits)
  show "AppliedID B db' = Inr (AvailableID reg)" if r: "r = None"
  proof -
    have e: "e = None" and le: "a \<le> AvailableID reg"
      using assms(3) ens same r by (auto simp: CheckBoot_def CurrentStatus_def not_less split: option.splits if_splits)
    show ?thesis
    proof (cases "filter (\<lambda>m. a < mg_ID m) (AllMigrations reg) = []")
      case True
      then have "db' = db0"
        using assms(3) ens same e r by (auto simp: CheckBoot_def CurrentStatus_def split: if_splits)
      with nothing_pending [OF True le] same e show ?thesis by simp
    next
      case False
      obtain n err d where run: "RunUp B reg db0 = ((n, err), d)" by (metis surj_pair)
      have le': "\<not> AvailableID reg < a" using le by simp
      from False e same assms(3) ens r run have "err = None" "db' = d"
        by (auto simp: CheckBoot_def CurrentStatus_def le' split: if_splits)
      moreover obtain e0 db1 where "EnsureBucket B db0 = (e0, db1)" by force
      moreover have "e0 = None" using calculation run by (cases e0) (auto simp: RunUp_def)
      ultimately have ens0: "EnsureBucket B db0 = (None, db1)" "err = None" "db' = d" by simp_all
      from same e have a0: "AppliedID B db0 = Inr a" by simp
      from run_up_core [OF assms(1,2) ens0(1) a0 le run] obtain did todo where
        split: "filter (\<lambda>m. a < mg_ID m) (AllMigrations reg) = did @ todo"
        and app: "AppliedID B d = Inr (if did = [] then a else mg_ID (last did))"
        and pend: "filter (\<lambda>m. (if did = [] then a else mg_ID (last did)) < mg_ID m) (AllMigrations reg) = todo"
        and "err = None \<longleftrightarrow> todo = []" .
      with ens0 up_to_date [OF split le pend] show ?thesis by simp
    qed
  qed
qed

end
