(* ===== verification/Retention.thy ===== *)
theory Retention
  imports Bolt
begin

text \<open>
  Retention, \<^verbatim>\<open>internal/storage/retention\<close>: the sweep that removes old events, alerts and
  stale assets, the scheduled loop, and the compaction of the database file. The database is the
  parameter \<open>B\<close> of theory Bolt; what the sweep reads of a document, its type and times, is decoded
  by the two functions of \<open>doc_heads\<close>. Only messages to the log are left out.
\<close>

record Config =
  cf_EventsDefaultTTL :: duration
  cf_AlertsTTL :: duration
  cf_AssetsStaleTTL :: duration
  cf_SweepInterval :: duration
  cf_CompactionFreelistThreshold :: int

definition or_default :: "duration \<Rightarrow> duration \<Rightarrow> duration" where
  "or_default d default_ttl = (if d = 0 then default_ttl else d)"

definition EnsureDefaults :: "Config \<Rightarrow> Config" where
  "EnsureDefaults c =
     c\<lparr>cf_EventsDefaultTTL := or_default (cf_EventsDefaultTTL c) (90 * 24 * time_Hour),
       cf_AlertsTTL := or_default (cf_AlertsTTL c) (365 * 24 * time_Hour),
       cf_AssetsStaleTTL := or_default (cf_AssetsStaleTTL c) (30 * 24 * time_Hour),
       cf_SweepInterval := or_default (cf_SweepInterval c) (24 * time_Hour)\<rparr>"

definition NewRetention :: "Config \<Rightarrow> Config" where
  "NewRetention cfg = EnsureDefaults cfg"

record doc_heads =
  dh_event :: "bytes \<Rightarrow> (string \<times> gotime) option"
  dh_asset :: "bytes \<Rightarrow> gotime option"

text \<open>\<^verbatim>\<open>Time.Sub\<close> saturates at the largest and smallest 64-bit duration.\<close>

definition time_Sub :: "gotime \<Rightarrow> gotime \<Rightarrow> duration" where
  "time_Sub t u = max (- (2 ^ 63)) (min (2 ^ 63 - 1) (t - u))"

definition shouldDropEvent :: "Config \<Rightarrow> doc_heads \<Rightarrow> gotime \<Rightarrow> bytes \<Rightarrow> bool \<times> bool" where
  "shouldDropEvent cfg H now raw =
     (case dh_event H raw of
        None \<Rightarrow> (False, False)
      | Some (typ, ts) \<Rightarrow>
          (let isAlert = (typ = ''THREAT_ALERT'');
               ttl = (if isAlert then cf_AlertsTTL cfg else cf_EventsDefaultTTL cfg)
           in if ttl = 0 \<or> IsZero ts then (False, isAlert) else (time_Sub now ts > ttl, isAlert)))"

definition assetIsStale :: "doc_heads \<Rightarrow> gotime \<Rightarrow> bytes \<Rightarrow> bool" where
  "assetIsStale H cutoff raw =
     (case dh_asset H raw of
        None \<Rightarrow> False
      | Some lastSeen \<Rightarrow> if IsZero lastSeen then False else lastSeen < cutoff)"

record Report =
  rp_EventsRemoved :: nat
  rp_AlertsRemoved :: nat
  rp_AssetsRemoved :: nat
  rp_CompactionRan :: bool
  rp_FreelistPagesAfter :: int
  rp_StartedAt :: gotime
  rp_FinishedAt :: gotime

definition empty_report :: "gotime \<Rightarrow> Report" where
  "empty_report now =
     \<lparr>rp_EventsRemoved = 0, rp_AlertsRemoved = 0, rp_AssetsRemoved = 0, rp_CompactionRan = False,
      rp_FreelistPagesAfter = 0, rp_StartedAt = now, rp_FinishedAt = 0\<rparr>"

datatype ret_error = RetCancelled | RetEvents string | RetAssets string

section \<open>The sweep\<close>

definition dropped_events :: "Config \<Rightarrow> doc_heads \<Rightarrow> gotime \<Rightarrow> (bytes \<times> bytes) list \<Rightarrow> (bytes \<times> bytes) list" where
  "dropped_events cfg H now items = filter (\<lambda>(k, v). fst (shouldDropEvent cfg H now v)) items"

text \<open>
  The counters are raised while the transaction runs and stay raised when it fails; an asset is counted
  once its deletion succeeded, so that a failing pass reports the ones before.
\<close>

definition events_pass ::
  "'db bolt \<Rightarrow> Config \<Rightarrow> doc_heads \<Rightarrow> gotime \<Rightarrow> Report \<Rightarrow> 'db \<Rightarrow> ret_error option \<times> Report \<times> 'db" where
  "events_pass B cfg H now rep db =
     (if \<not> bk_Has B db ''events''
      then (case db_Update B RetEvents (\<lambda>d. (None, d)) db of (e, db') \<Rightarrow> (e, rep, db'))
      else
        (let dropped = dropped_events cfg H now (bk_Items B db ''events'');
             alerts = length (filter (\<lambda>(k, v). snd (shouldDropEvent cfg H now v)) dropped);
             rep' = rep\<lparr>rp_AlertsRemoved := alerts, rp_EventsRemoved := length dropped - alerts\<rparr>
         in (case db_Update B RetEvents (bdelete_all B RetEvents ''events'' (map fst dropped)) db of
               (e, db') \<Rightarrow> (e, rep', db'))))"

definition stale_assets :: "doc_heads \<Rightarrow> gotime \<Rightarrow> (bytes \<times> bytes) list \<Rightarrow> (bytes \<times> bytes) list" where
  "stale_assets H cutoff items = filter (\<lambda>(k, v). assetIsStale H cutoff v) items"

fun deletes_before_error :: "'db bolt \<Rightarrow> string \<Rightarrow> bytes list \<Rightarrow> 'db \<Rightarrow> nat" where
  "deletes_before_error B b [] db = 0"
| "deletes_before_error B b (k # ks) db =
     (case bk_Delete B db b k of (Some e, _) \<Rightarrow> 0 | (None, db') \<Rightarrow> Suc (deletes_before_error B b ks db'))"

definition assets_pass ::
  "'db bolt \<Rightarrow> Config \<Rightarrow> doc_heads \<Rightarrow> gotime \<Rightarrow> Report \<Rightarrow> 'db \<Rightarrow> ret_error option \<times> Report \<times> 'db" where
  "assets_pass B cfg H now rep db =
     (if \<not> bk_Has B db ''assets''
      then (case db_Update B RetAssets (\<lambda>d. (None, d)) db of (e, db') \<Rightarrow> (e, rep, db'))
      else
        (let stale = map fst (stale_assets H (now - cf_AssetsStaleTTL cfg) (bk_Items B db ''assets''));
             rep' = rep\<lparr>rp_AssetsRemoved := deletes_before_error B ''assets'' stale db\<rparr>
         in (case db_Update B RetAssets (bdelete_all B RetAssets ''assets'' stale) db of
               (e, db') \<Rightarrow> (e, rep', db'))))"

section \<open>The database file\<close>

text \<open>
  The open handle works on the file it was opened on; the path names that file until a compaction renames
  a copy over it. What a restart opens is the file the path names.
\<close>

record 'db db_file =
  df_handle :: 'db
  df_linked :: bool
  df_path :: 'db

definition opened :: "'db \<Rightarrow> 'db db_file" where
  "opened db = \<lparr>df_handle = db, df_linked = True, df_path = db\<rparr>"

definition reopen :: "'db db_file \<Rightarrow> 'db" where
  "reopen f = (if df_linked f then df_handle f else df_path f)"

definition write_handle :: "('db \<Rightarrow> 'db) \<Rightarrow> 'db db_file \<Rightarrow> 'db db_file" where
  "write_handle g f = f\<lparr>df_handle := g (df_handle f)\<rparr>"

text \<open>\<open>copied\<close> and \<open>renamed\<close> tell whether the two system operations succeeded.\<close>

definition compact :: "bool \<Rightarrow> bool \<Rightarrow> 'db db_file \<Rightarrow> bool \<times> 'db db_file" where
  "compact copied renamed f =
     (if \<not> copied then (False, f)
      else if \<not> renamed then (False, f)
      else (True, f\<lparr>df_linked := False, df_path := df_handle f\<rparr>))"

text \<open>What a sweep finds outside: a cancelled context, the clock, free pages, and the outcome of a compaction.\<close>

record sweep_env =
  se_cancelled :: bool
  se_now :: gotime
  se_finished :: gotime
  se_pages :: int
  se_copied :: bool
  se_renamed :: bool

definition Sweep ::
  "'db bolt \<Rightarrow> Config \<Rightarrow> doc_heads \<Rightarrow> sweep_env \<Rightarrow> 'db db_file \<Rightarrow> (Report \<times> ret_error option) \<times> 'db db_file" where
  "Sweep B cfg H env f =
     (if se_cancelled env then ((empty_report 0, Some RetCancelled), f)
      else
        (let now = se_now env
         in (case events_pass B cfg H now (empty_report now) (df_handle f) of
               (Some e, rep, db1) \<Rightarrow> ((rep, Some e), f\<lparr>df_handle := db1\<rparr>)
             | (None, rep, db1) \<Rightarrow>
                 (case assets_pass B cfg H now rep db1 of
                    (Some e, rep', db2) \<Rightarrow> ((rep', Some e), f\<lparr>df_handle := db2\<rparr>)
                  | (None, rep', db2) \<Rightarrow>
                      (let f2 = f\<lparr>df_handle := db2\<rparr>;
                           finish = (\<lambda>r. r\<lparr>rp_FinishedAt := se_finished env\<rparr>)
                       in if cf_CompactionFreelistThreshold cfg > 0 then
                            (let rep'' = rep'\<lparr>rp_FreelistPagesAfter := se_pages env\<rparr>
                             in if se_pages env > cf_CompactionFreelistThreshold cfg then
                                  (case compact (se_copied env) (se_renamed env) f2 of
                                     (False, f3) \<Rightarrow> ((finish rep'', None), f3)
                                   | (True, f3) \<Rightarrow> ((finish (rep''\<lparr>rp_CompactionRan := True\<rparr>), None), f3))
                                else ((finish rep'', None), f2))
                          else ((finish rep', None), f2))))))"

text \<open>The scheduled loop: one sweep per tick until the context ends, errors only logged.\<close>

fun sweep_loop :: "'db bolt \<Rightarrow> Config \<Rightarrow> doc_heads \<Rightarrow> sweep_env list \<Rightarrow> 'db db_file \<Rightarrow> 'db db_file" where
  "sweep_loop B cfg H [] f = f"
| "sweep_loop B cfg H (env # envs) f = sweep_loop B cfg H envs (snd (Sweep B cfg H env f))"

section \<open>What a sweep removes\<close>

definition expired :: "duration \<Rightarrow> gotime \<Rightarrow> gotime \<Rightarrow> bool" where
  "expired ttl now t \<longleftrightarrow> ttl \<noteq> 0 \<and> \<not> IsZero t \<and> ttl < time_Sub now t"

definition outdated :: "Config \<Rightarrow> doc_heads \<Rightarrow> gotime \<Rightarrow> string \<Rightarrow> bytes \<Rightarrow> bool" where
  "outdated cfg H now b v \<longleftrightarrow>
     b = ''events'' \<and>
       (\<exists>typ ts. dh_event H v = Some (typ, ts) \<and>
          expired (if typ = ''THREAT_ALERT'' then cf_AlertsTTL cfg else cf_EventsDefaultTTL cfg) now ts) \<or>
     b = ''assets'' \<and> (\<exists>t. dh_asset H v = Some t \<and> \<not> IsZero t \<and> t < now - cf_AssetsStaleTTL cfg)"

lemma drop_iff: "fst (shouldDropEvent cfg H now v) \<longleftrightarrow> outdated cfg H now ''events'' v"
  by (auto simp: shouldDropEvent_def outdated_def expired_def Let_def split: option.splits)

lemma stale_iff: "assetIsStale H (now - cf_AssetsStaleTTL cfg) v \<longleftrightarrow> outdated cfg H now ''assets'' v"
  by (auto simp: assetIsStale_def outdated_def split: option.splits)

lemma deletes_all: "bdelete_all B w b ks db = (None, db') \<Longrightarrow> deletes_before_error B b ks db = length ks"
  by (induction ks arbitrary: db) (auto split: prod.splits option.splits)

definition removed_from :: "'db bolt \<Rightarrow> Config \<Rightarrow> doc_heads \<Rightarrow> gotime \<Rightarrow> string \<Rightarrow> 'db \<Rightarrow> (bytes \<times> bytes) list" where
  "removed_from B cfg H now b db = filter (\<lambda>(k, v). outdated cfg H now b v) (bk_Items B db b)"

context bolt_db
begin

lemma delete_outdated:
  assumes "bk_Has B db b" "bdelete_all B wrap b (map fst (removed_from B cfg H now b db)) db = (None, db')"
  shows "bk_Has B db' = bk_Has B db \<and>
    bk_Get B db' c k = (case bk_Get B db c k of None \<Rightarrow> None
      | Some v \<Rightarrow> if c = b \<and> outdated cfg H now b v then None else Some v)"
proof -
  have "k \<in> fst ` set (removed_from B cfg H now b db) \<longleftrightarrow> (\<exists>v. bk_Get B db b k = Some v \<and> outdated cfg H now b v)"
    by (auto simp: removed_from_def items_get image_iff)
  then show ?thesis using delete_all [OF assms, of c k] by (auto split: option.splits)
qed

lemma not_there: "\<not> bk_Has B db b \<Longrightarrow> removed_from B cfg H now b db = [] \<and> bk_Get B db b k = None"
proof -
  assume n: "\<not> bk_Has B db b"
  then have "bk_Get B db b k = None" for k using get_has by (cases "bk_Get B db b k") auto
  then show ?thesis by (auto simp: removed_from_def filter_empty_conv items_get)
qed

lemma events_effect:
  assumes "events_pass B cfg H now rep db = (None, rep', db')"
  shows "bk_Has B db' = bk_Has B db"
    and "bk_Get B db' c k = (case bk_Get B db c k of None \<Rightarrow> None
      | Some v \<Rightarrow> if c = ''events'' \<and> outdated cfg H now ''events'' v then None else Some v)"
    and "rp_EventsRemoved rep + rp_AlertsRemoved rep = 0 \<Longrightarrow>
      rp_EventsRemoved rep' + rp_AlertsRemoved rep' = length (removed_from B cfg H now ''events'' db)"
    and "rp_AssetsRemoved rep' = rp_AssetsRemoved rep"
proof -
  have rem: "dropped_events cfg H now (bk_Items B db ''events'') = removed_from B cfg H now ''events'' db"
    by (simp add: dropped_events_def removed_from_def drop_iff)
  show "bk_Has B db' = bk_Has B db"
    "bk_Get B db' c k = (case bk_Get B db c k of None \<Rightarrow> None
      | Some v \<Rightarrow> if c = ''events'' \<and> outdated cfg H now ''events'' v then None else Some v)"
    using assms delete_outdated [of db "''events''" RetEvents cfg H now db' c k] not_there [of db "''events''" cfg H now k]
    by (auto simp: events_pass_def rem Let_def db_Update_def split: if_splits prod.splits option.splits)
  show "rp_EventsRemoved rep + rp_AlertsRemoved rep = 0 \<Longrightarrow>
      rp_EventsRemoved rep' + rp_AlertsRemoved rep' = length (removed_from B cfg H now ''events'' db)"
    "rp_AssetsRemoved rep' = rp_AssetsRemoved rep"
    using assms not_there [of db "''events''" cfg H now]
    by (auto simp: events_pass_def rem Let_def split: if_splits prod.splits)
qed

lemma assets_effect:
  assumes "assets_pass B cfg H now rep db = (None, rep', db')"
  shows "bk_Get B db' c k = (case bk_Get B db c k of None \<Rightarrow> None
      | Some v \<Rightarrow> if c = ''assets'' \<and> outdated cfg H now ''assets'' v then None else Some v)"
    and "rp_AssetsRemoved rep = 0 \<Longrightarrow> rp_AssetsRemoved rep' = length (removed_from B cfg H now ''assets'' db)"
    and "rp_EventsRemoved rep' = rp_EventsRemoved rep" "rp_AlertsRemoved rep' = rp_AlertsRemoved rep"
proof -
  have rem: "stale_assets H (now - cf_AssetsStaleTTL cfg) (bk_Items B db ''assets'') = removed_from B cfg H now ''assets'' db"
    by (simp add: stale_assets_def removed_from_def stale_iff)
  show "bk_Get B db' c k = (case bk_Get B db c k of None \<Rightarrow> None
      | Some v \<Rightarrow> if c = ''assets'' \<and> outdated cfg H now ''assets'' v then None else Some v)"
    using assms delete_outdated [of db "''assets''" RetAssets cfg H now db' c k] not_there [of db "''assets''" cfg H now k]
    by (auto simp: assets_pass_def rem Let_def db_Update_def split: if_splits prod.splits option.splits)
  show "rp_AssetsRemoved rep = 0 \<Longrightarrow> rp_AssetsRemoved rep' = length (removed_from B cfg H now ''assets'' db)"
    "rp_EventsRemoved rep' = rp_EventsRemoved rep" "rp_AlertsRemoved rep' = rp_AlertsRemoved rep"
    using assms not_there [of db "''assets''" cfg H now]
    by (auto simp: assets_pass_def rem Let_def db_Update_def deletes_all split: if_splits prod.splits option.splits)
qed

lemma events_keep_assets:
  assumes "events_pass B cfg H now rep db = (None, rep', db')"
  shows "removed_from B cfg H now ''assets'' db' = removed_from B cfg H now ''assets'' db"
proof -
  have "bk_Items B db' ''assets'' = bk_Items B db ''assets''"
    using events_effect(2) [OF assms, of "''assets''"]
    by (intro items_eq items_sorted) (auto simp: items_get split: option.splits)
  then show ?thesis by (simp add: removed_from_def)
qed

lemma sweep_effect:
  assumes "Sweep B cfg H env f = ((rep, None), f')"
  shows "bk_Get B (df_handle f') b k = (case bk_Get B (df_handle f) b k of None \<Rightarrow> None
      | Some v \<Rightarrow> if outdated cfg H (se_now env) b v then None else Some v) \<and>
    rp_EventsRemoved rep + rp_AlertsRemoved rep = length (removed_from B cfg H (se_now env) ''events'' (df_handle f)) \<and>
    rp_AssetsRemoved rep = length (removed_from B cfg H (se_now env) ''assets'' (df_handle f))"
proof -
  let ?now = "se_now env"
  obtain rep1 db1 where ev: "events_pass B cfg H ?now (empty_report ?now) (df_handle f) = (None, rep1, db1)"
    using assms by (auto simp: Sweep_def Let_def split: if_splits prod.splits option.splits)
  obtain rep2 db2 where as: "assets_pass B cfg H ?now rep1 db1 = (None, rep2, db2)"
    using assms by (auto simp: Sweep_def Let_def ev split: if_splits prod.splits option.splits)
  have "df_handle f' = db2" "rp_EventsRemoved rep = rp_EventsRemoved rep2" "rp_AlertsRemoved rep = rp_AlertsRemoved rep2"
    "rp_AssetsRemoved rep = rp_AssetsRemoved rep2"
    using assms by (auto simp: Sweep_def Let_def ev as compact_def split: if_splits)
  then show ?thesis
    using events_effect(2) [OF ev, of b k] events_effect(3,4) [OF ev] assets_effect(1) [OF as, of b k]
      assets_effect(2-) [OF as] events_keep_assets [OF ev]
    by (auto simp: empty_report_def outdated_def split: option.splits)
qed

end

section \<open>Properties\<close>

text \<open>
  C36: a successful sweep removes from the database exactly the events and alerts older than the limit of their
  kind and the assets not seen within theirs: every other document of every bucket, malformed ones and those
  of the transparency log included, stays as it was, and the report counts what was removed.
\<close>

theorem sweep_exact:
  assumes "bolt_db B" "Sweep B cfg H env f = ((rep, None), f')"
  shows "(\<forall>b k. bk_Get B (df_handle f') b k = (case bk_Get B (df_handle f) b k of None \<Rightarrow> None
      | Some v \<Rightarrow> if outdated cfg H (se_now env) b v then None else Some v)) \<and>
    rp_EventsRemoved rep + rp_AlertsRemoved rep = length (removed_from B cfg H (se_now env) ''events'' (df_handle f)) \<and>
    rp_AssetsRemoved rep = length (removed_from B cfg H (se_now env) ''assets'' (df_handle f))"
  using bolt_db.sweep_effect [OF assms] by blast

definition sample_heads :: doc_heads where
  "sample_heads = \<lparr>dh_event = (\<lambda>v. if v = [1] then Some (''DNS'', 5) else None), dh_asset = (\<lambda>_. None)\<rparr>"

definition sample_cfg :: Config where
  "sample_cfg = \<lparr>cf_EventsDefaultTTL = 10, cf_AlertsTTL = 20, cf_AssetsStaleTTL = 30, cf_SweepInterval = 1,
     cf_CompactionFreelistThreshold = 0\<rparr>"

definition sample_sweep :: sweep_env where
  "sample_sweep = \<lparr>se_cancelled = False, se_now = 100, se_finished = 101, se_pages = 0, se_copied = True, se_renamed = True\<rparr>"

definition sample_file :: "mem_db db_file" where
  "sample_file = opened [''events'' \<mapsto> [([7], [1]), ([8], [2])], ''assets'' \<mapsto> []]"

lemma mem_update: "fst (g db) = None \<Longrightarrow> fst (db_Update mem_bolt w g db) = None"
  by (cases "g db") (simp add: db_Update_def mem_bolt_def)

lemma mem_deletes: "fst (bdelete_all mem_bolt w b ks db) = None"
  by (induction ks arbitrary: db) (simp_all add: mem_bolt_def)

lemma mem_passes:
  "fst (events_pass mem_bolt cfg H now rep db) = None" "fst (assets_pass mem_bolt cfg H now rep db) = None"
  by (simp_all add: events_pass_def assets_pass_def Let_def case_prod_beta mem_update mem_deletes)

lemma mem_sweep_succeeds:
  assumes "\<not> se_cancelled env"
  shows "\<exists>rep f'. Sweep mem_bolt cfg H env f = ((rep, None), f')"
proof -
  obtain r1 d1 where "events_pass mem_bolt cfg H (se_now env) (empty_report (se_now env)) (df_handle f) = (None, r1, d1)"
    by (metis mem_passes(1) prod.collapse)
  moreover obtain r2 d2 where "assets_pass mem_bolt cfg H (se_now env) r1 d1 = (None, r2, d2)"
    by (metis mem_passes(2) prod.collapse)
  ultimately show ?thesis using assms by (simp add: Sweep_def Let_def compact_def)
qed

theorem sweep_exact_witness:
  "bk_Get mem_bolt (df_handle (snd (Sweep mem_bolt sample_cfg sample_heads sample_sweep sample_file))) ''events'' [7] = None \<and>
   bk_Get mem_bolt (df_handle (snd (Sweep mem_bolt sample_cfg sample_heads sample_sweep sample_file))) ''events'' [8] = Some [2]"
proof -
  obtain rep f' where sw: "Sweep mem_bolt sample_cfg sample_heads sample_sweep sample_file = ((rep, None), f')"
    using mem_sweep_succeeds [of sample_sweep sample_cfg sample_heads sample_file] unfolding sample_sweep_def by auto
  have "bk_Get mem_bolt (df_handle sample_file) ''events'' [7] = Some [1]"
    "bk_Get mem_bolt (df_handle sample_file) ''events'' [8] = Some [2]"
    by (simp_all add: sample_file_def opened_def mem_bolt_def mem_entries_def)
  moreover have "outdated sample_cfg sample_heads (se_now sample_sweep) ''events'' [1]"
    "\<not> outdated sample_cfg sample_heads (se_now sample_sweep) ''events'' [2]"
    by (simp_all add: outdated_def sample_heads_def sample_sweep_def sample_cfg_def expired_def IsZero_def time_Sub_def)
  ultimately show ?thesis using conjunct1 [OF sweep_exact [OF mem.bolt_db_axioms sw]] by (simp add: sw)
qed

text \<open>A zero limit, documented to switch a sweep off, is replaced by its default.\<close>

lemma zero_limit_replaced:
  "cf_EventsDefaultTTL (NewRetention c) \<noteq> 0 \<and> cf_AlertsTTL (NewRetention c) \<noteq> 0 \<and> cf_AssetsStaleTTL (NewRetention c) \<noteq> 0"
  by (simp add: NewRetention_def EnsureDefaults_def or_default_def durations)

text \<open>
  After a compaction the handle writes to a file that no path names: whatever is written until the
  restart, a restart opens the copy made at the time of the compaction.
\<close>

lemma compaction_detaches_writes:
  assumes "compact True True f = (True, f')"
  shows "reopen (fold write_handle gs f') = df_handle f"
proof -
  have keep: "df_linked (fold write_handle gs h) = df_linked h" "df_path (fold write_handle gs h) = df_path h" for h :: "'a db_file"
    by (induction gs arbitrary: h) (simp_all add: write_handle_def)
  from assms have "\<not> df_linked f'" "df_path f' = df_handle f" by (auto simp: compact_def)
  then show ?thesis unfolding reopen_def keep by simp
qed

end
