(* ===== verification/Integrity.thy ===== *)
theory Integrity
  imports Repository Sha256
begin

text \<open>
  Integrity of stored data, \<^verbatim>\<open>internal/storage/integrity\<close>: the hash-chained audit log
  (\<^verbatim>\<open>auditlog.go\<close>), the snapshot tree (\<^verbatim>\<open>merkle.go\<close>) and the service that uses both
  (\<^verbatim>\<open>service.go\<close>). A log is the contents of its file; whether a write or a sync of the file succeeds
  is an input. The serializer of entries is a \<open>jcodec\<close>, and the RFC 3339 text of a time is the argument
  \<open>fmt\<close>.
\<close>

section \<open>The audit log\<close>

record AuditEntry =
  au_Sequence :: u64
  au_Timestamp :: gotime
  au_Action :: string
  au_Subject :: string
  au_Details :: string
  au_PrevHash :: string
  au_Hash :: string

record AuditLog =
  al_file :: bytes
  al_lastHash :: string
  al_seq :: u64

definition genesis :: string where "genesis = ''genesis''"

definition entry_payload :: "(gotime \<Rightarrow> string) \<Rightarrow> AuditEntry \<Rightarrow> string" where
  "entry_payload fmt e =
     dec (unat (au_Sequence e)) @ ''|'' @ fmt (au_Timestamp e) @ ''|'' @ au_Action e @ ''|'' @
     au_Subject e @ ''|'' @ au_Details e @ ''|'' @ au_PrevHash e"

definition computeEntryHash :: "(gotime \<Rightarrow> string) \<Rightarrow> AuditEntry \<Rightarrow> string" where
  "computeEntryHash fmt e = hex_EncodeToString (sha256 (str_bytes (entry_payload fmt e)))"

text \<open>\<open>cur\<close> is the line being read; text after the last newline is a line if there is any.\<close>

fun split_loop :: "bytes \<Rightarrow> bytes \<Rightarrow> bytes list" where
  "split_loop cur [] = (if cur = [] then [] else [cur])"
| "split_loop cur (b # bs) = (if b = 10 then cur # split_loop [] bs else split_loop (cur @ [b]) bs)"

definition splitLines :: "bytes \<Rightarrow> bytes list" where
  "splitLines contents = split_loop [] contents"

definition recover_entry :: "AuditEntry jcodec \<Rightarrow> AuditLog \<Rightarrow> bytes \<Rightarrow> AuditLog" where
  "recover_entry J al line =
     (if line = [] then al
      else
        (case jc_Unmarshal J line of
           None \<Rightarrow> al
         | Some e \<Rightarrow> al\<lparr>al_lastHash := au_Hash e, al_seq := au_Sequence e\<rparr>))"

definition recoverState :: "AuditEntry jcodec \<Rightarrow> AuditLog \<Rightarrow> AuditLog" where
  "recoverState J al = foldl (recover_entry J) al (splitLines (al_file al))"

definition NewAuditLog :: "AuditEntry jcodec \<Rightarrow> bytes \<Rightarrow> AuditLog" where
  "NewAuditLog J contents = recoverState J \<lparr>al_file = contents, al_lastHash = genesis, al_seq = 0\<rparr>"

datatype audit_error = AuditRead | AuditMarshal | AuditWrite | AuditSync | AuditCorrupt | AuditBroken u64 | AuditTampered u64

text \<open>
  What the file system does with one append: how many bytes it wrote (all of them on success) and
  whether the sync succeeded.
\<close>

record append_env =
  ap_now :: gotime
  ap_written :: "nat option"
  ap_synced :: bool

definition audit_Append ::
  "AuditEntry jcodec \<Rightarrow> (gotime \<Rightarrow> string) \<Rightarrow> append_env \<Rightarrow> string \<Rightarrow> string \<Rightarrow> string \<Rightarrow> AuditLog \<Rightarrow>
   audit_error option \<times> AuditLog" where
  "audit_Append J fmt env action subject details al =
     (let al1 = al\<lparr>al_seq := al_seq al + 1\<rparr>;
          entry0 = \<lparr>au_Sequence = al_seq al1, au_Timestamp = ap_now env, au_Action = action, au_Subject = subject,
                    au_Details = details, au_PrevHash = al_lastHash al1, au_Hash = []\<rparr>;
          entry = entry0\<lparr>au_Hash := computeEntryHash fmt entry0\<rparr>;
          al2 = al1\<lparr>al_lastHash := au_Hash entry\<rparr>
      in (case jc_Marshal J entry of
            None \<Rightarrow> (Some AuditMarshal, al2)
          | Some line \<Rightarrow>
              (case ap_written env of
                 Some n \<Rightarrow> (Some AuditWrite, al2\<lparr>al_file := al_file al2 @ take n (line @ [10])\<rparr>)
               | None \<Rightarrow>
                   (let al3 = al2\<lparr>al_file := al_file al2 @ line @ [10]\<rparr>
                    in (if ap_synced env then None else Some AuditSync, al3)))))"

fun decode_lines :: "AuditEntry jcodec \<Rightarrow> bytes list \<Rightarrow> AuditEntry list option" where
  "decode_lines J [] = Some []"
| "decode_lines J (l # ls) =
     (if l = [] then decode_lines J ls
      else
        (case jc_Unmarshal J l of
           None \<Rightarrow> None
         | Some e \<Rightarrow> (case decode_lines J ls of None \<Rightarrow> None | Some es \<Rightarrow> Some (e # es))))"

fun verify_chain :: "(gotime \<Rightarrow> string) \<Rightarrow> string \<Rightarrow> AuditEntry list \<Rightarrow> audit_error option" where
  "verify_chain fmt prevHash [] = None"
| "verify_chain fmt prevHash (e # es) =
     (if au_PrevHash e \<noteq> prevHash then Some (AuditBroken (au_Sequence e))
      else if au_Hash e \<noteq> computeEntryHash fmt e then Some (AuditTampered (au_Sequence e))
      else verify_chain fmt (au_Hash e) es)"

definition audit_Verify :: "AuditEntry jcodec \<Rightarrow> (gotime \<Rightarrow> string) \<Rightarrow> bytes \<Rightarrow> audit_error option" where
  "audit_Verify J fmt contents =
     (case decode_lines J (splitLines contents) of
        None \<Rightarrow> Some AuditCorrupt
      | Some entries \<Rightarrow> verify_chain fmt genesis entries)"

text \<open>\<^verbatim>\<open>Verify\<close> reads the file first; \<open>None\<close> is a file that cannot be read.\<close>

definition audit_Verify_file :: "AuditEntry jcodec \<Rightarrow> (gotime \<Rightarrow> string) \<Rightarrow> bytes option \<Rightarrow> audit_error option" where
  "audit_Verify_file J fmt file =
     (case file of None \<Rightarrow> Some AuditRead | Some contents \<Rightarrow> audit_Verify J fmt contents)"

section \<open>The snapshot tree\<close>

record MerkleTree =
  mk_Leaves :: "bytes list"
  mk_Nodes :: "bytes list"
  mk_Root :: "bytes option"

definition pad_even :: "bytes list \<Rightarrow> bytes list" where
  "pad_even nodes = (if odd (length nodes) then nodes @ [last nodes] else nodes)"

fun next_level :: "bytes list \<Rightarrow> bytes list" where
  "next_level (a # b # rest) = sha256 (a @ b) # next_level rest"
| "next_level _ = []"

lemma length_next_level: "length (next_level ns) = length ns div 2"
  by (induction ns rule: next_level.induct) auto

text \<open>The nodes of a level come in pairs; the loop ends at one node.\<close>

function build_loop :: "bytes list \<Rightarrow> bytes list \<Rightarrow> bytes list \<times> bytes" where
  "build_loop allNodes nodes =
     (if length nodes > 1 then
        (let level = next_level nodes;
             padded = (if length level > 1 then pad_even level else level)
         in build_loop (allNodes @ level) padded)
      else (allNodes, hd nodes))"
  by pat_completeness auto
termination
  by (relation "measure (\<lambda>(a, nodes). length nodes)")
    (auto simp: length_next_level pad_even_def)

declare build_loop.simps [simp del]

definition BuildTree :: "bytes list \<Rightarrow> MerkleTree" where
  "BuildTree blocks =
     (if blocks = [] then \<lparr>mk_Leaves = [], mk_Nodes = [], mk_Root = None\<rparr>
      else
        (let leaves = map sha256 blocks;
             nodes = pad_even leaves
         in (case build_loop nodes nodes of
               (allNodes, top_node) \<Rightarrow> \<lparr>mk_Leaves = leaves, mk_Nodes = allNodes, mk_Root = Some top_node\<rparr>)))"

definition RootHex :: "MerkleTree \<Rightarrow> string" where
  "RootHex t = (case mk_Root t of None \<Rightarrow> [] | Some r \<Rightarrow> hex_EncodeToString r)"

definition VerifyLeaf :: "MerkleTree \<Rightarrow> int \<Rightarrow> bytes \<Rightarrow> bool" where
  "VerifyLeaf t i block =
     (if i < 0 \<or> i \<ge> int (length (mk_Leaves t)) then False
      else hex_EncodeToString (sha256 block) = hex_EncodeToString (mk_Leaves t ! nat i))"

definition HashBlock :: "bytes \<Rightarrow> string" where
  "HashBlock block = hex_EncodeToString (sha256 block)"

section \<open>The service\<close>

record Service =
  sv_enabled :: bool
  sv_merkle :: bool
  sv_auditPath :: string
  sv_auditLog :: "AuditLog option"
  sv_lastRoot :: string

text \<open>\<open>file\<close> is the audit log on disk, \<open>None\<close> if it cannot be opened.\<close>

definition NewIntegrityService ::
  "AuditEntry jcodec \<Rightarrow> bool \<Rightarrow> bool \<Rightarrow> string \<Rightarrow> bytes option \<Rightarrow> Service option" where
  "NewIntegrityService J enabled merkle path file =
     (if path \<noteq> [] then
        (case file of
           None \<Rightarrow> None
         | Some contents \<Rightarrow>
             Some \<lparr>sv_enabled = enabled, sv_merkle = merkle, sv_auditPath = path,
                   sv_auditLog = Some (NewAuditLog J contents), sv_lastRoot = []\<rparr>)
      else Some \<lparr>sv_enabled = enabled, sv_merkle = merkle, sv_auditPath = path, sv_auditLog = None, sv_lastRoot = []\<rparr>)"

definition LogAction ::
  "AuditEntry jcodec \<Rightarrow> (gotime \<Rightarrow> string) \<Rightarrow> append_env \<Rightarrow> string \<Rightarrow> string \<Rightarrow> string \<Rightarrow> Service \<Rightarrow> Service" where
  "LogAction J fmt env action subject details sv =
     (case sv_auditLog sv of
        None \<Rightarrow> sv
      | Some al \<Rightarrow> sv\<lparr>sv_auditLog := Some (snd (audit_Append J fmt env action subject details al))\<rparr>)"

definition takeSnapshot ::
  "'db bolt \<Rightarrow> Asset jcodec \<Rightarrow> AuditEntry jcodec \<Rightarrow> (gotime \<Rightarrow> string) \<Rightarrow> append_env \<Rightarrow> 'db \<Rightarrow> Service \<Rightarrow> Service" where
  "takeSnapshot B C J fmt env db sv =
     (if \<not> sv_merkle sv then sv
      else
        (case ListAssets B C db of
           Inl _ \<Rightarrow> sv
         | Inr assets \<Rightarrow>
             (let blocks = map (\<lambda>a. case jc_Marshal C a of None \<Rightarrow> [] | Some d \<Rightarrow> d) assets;
                  r = RootHex (BuildTree blocks);
                  sv' = (case sv_auditLog sv of
                           None \<Rightarrow> sv
                         | Some al \<Rightarrow> sv\<lparr>sv_auditLog := Some (snd (audit_Append J fmt env ''snapshot'' ''merkle_tree'' r al))\<rparr>)
              in sv'\<lparr>sv_lastRoot := r\<rparr>)))"

text \<open>The alert, with the text of the error, that the service pushes when the file on disk does not verify.\<close>

definition verifyAuditLog ::
  "AuditEntry jcodec \<Rightarrow> (gotime \<Rightarrow> string) \<Rightarrow> (audit_error \<Rightarrow> string) \<Rightarrow> gotime \<Rightarrow> bytes option \<Rightarrow> Service \<Rightarrow> NetworkEvent option" where
  "verifyAuditLog J fmt describe now file sv =
     (if sv_auditPath sv = [] then None
      else
        (case audit_Verify_file J fmt file of
           None \<Rightarrow> None
         | Some err \<Rightarrow>
             Some \<lparr>ev_ID = [], ev_Type = EventAlert, ev_Source = ''integrity-verifier'', ev_Destination = ''audit-log'',
                   ev_Metadata = Some [''error'' \<mapsto> AString (describe err), ''severity'' \<mapsto> AString ''critical'',
                     ''log_path'' \<mapsto> AString (sv_auditPath sv)],
                   ev_Timestamp = now, ev_Signature = [], ev_SignerKeyID = []\<rparr>))"

text \<open>
  \<^verbatim>\<open>Start\<close>: a snapshot at once, then at every tick a snapshot and a verification of the file. A tick brings the
  database, the outcome of the append, the time and the file as it is on disk.
\<close>

record 'db integrity_tick =
  it_env :: append_env
  it_db :: 'db
  it_now :: gotime
  it_file :: "bytes option"

primrec integrity_loop ::
  "'db bolt \<Rightarrow> Asset jcodec \<Rightarrow> AuditEntry jcodec \<Rightarrow> (gotime \<Rightarrow> string) \<Rightarrow> (audit_error \<Rightarrow> string) \<Rightarrow>
   'db integrity_tick list \<Rightarrow> Service \<Rightarrow> Service \<times> NetworkEvent list" where
  "integrity_loop B C J fmt describe [] sv = (sv, [])"
| "integrity_loop B C J fmt describe (t # ts) sv =
     (let sv1 = takeSnapshot B C J fmt (it_env t) (it_db t) sv;
          alert = verifyAuditLog J fmt describe (it_now t) (it_file t) sv1;
          (sv2, alerts) = integrity_loop B C J fmt describe ts sv1
      in (sv2, (case alert of None \<Rightarrow> [] | Some a \<Rightarrow> [a]) @ alerts))"

definition integrity_interval :: "int \<Rightarrow> duration" where
  "integrity_interval SnapshotIntervalHours =
     (let interval = signed_take_bit 63 (SnapshotIntervalHours * time_Hour)
      in if interval = 0 then time_Hour else interval)"

definition integrity_Start ::
  "'db bolt \<Rightarrow> Asset jcodec \<Rightarrow> AuditEntry jcodec \<Rightarrow> (gotime \<Rightarrow> string) \<Rightarrow> (audit_error \<Rightarrow> string) \<Rightarrow>
   append_env \<Rightarrow> 'db \<Rightarrow> 'db integrity_tick list \<Rightarrow> Service \<Rightarrow> Service \<times> NetworkEvent list" where
  "integrity_Start B C J fmt describe env db ticks sv =
     (if \<not> sv_enabled sv then (sv, [])
      else integrity_loop B C J fmt describe ticks (takeSnapshot B C J fmt env db sv))"

section \<open>Lines\<close>

lemma split_loop_line: "10 \<notin> set l \<Longrightarrow> split_loop cur (l @ 10 # rest) = (cur @ l) # split_loop [] rest"
  by (induction l arbitrary: cur) auto

lemma split_lines: "\<forall>l \<in> set ls. 10 \<notin> set l \<Longrightarrow> splitLines (concat (map (\<lambda>l. l @ [10]) ls)) = ls"
  by (induction ls) (auto simp: splitLines_def split_loop_line)

text \<open>JSON text has no raw newline, is not empty and decodes to what was encoded.\<close>

definition line_codec :: "AuditEntry jcodec \<Rightarrow> bool" where
  "line_codec J \<longleftrightarrow>
     (\<forall>e l. jc_Marshal J e = Some l \<longrightarrow> jc_Unmarshal J l = Some e \<and> l \<noteq> [] \<and> 10 \<notin> set l)"

definition file_of :: "AuditEntry jcodec \<Rightarrow> AuditEntry list \<Rightarrow> bytes option" where
  "file_of J es =
     (if \<forall>e \<in> set es. jc_Marshal J e \<noteq> None
      then Some (concat (map (\<lambda>e. the (jc_Marshal J e) @ [10]) es)) else None)"

lemma file_lines:
  assumes "line_codec J" "file_of J es = Some f"
  shows "splitLines f = map (\<lambda>e. the (jc_Marshal J e)) es" "decode_lines J (splitLines f) = Some es"
proof -
  have ok: "jc_Unmarshal J (the (jc_Marshal J e)) = Some e" "the (jc_Marshal J e) \<noteq> []" "10 \<notin> set (the (jc_Marshal J e))"
    if "e \<in> set es" for e
    using that assms by (auto simp: line_codec_def file_of_def split: if_splits)
  have "f = concat (map (\<lambda>l. l @ [10]) (map (\<lambda>e. the (jc_Marshal J e)) es))"
    using assms(2) by (auto simp: file_of_def comp_def split: if_splits)
  then show lines: "splitLines f = map (\<lambda>e. the (jc_Marshal J e)) es"
    using split_lines [of "map (\<lambda>e. the (jc_Marshal J e)) es"] ok by auto
  show "decode_lines J (splitLines f) = Some es"
    unfolding lines using ok by (induction es) auto
qed

lemma file_of_snoc:
  "file_of J es = Some f \<Longrightarrow> jc_Marshal J e = Some l \<Longrightarrow> file_of J (es @ [e]) = Some (f @ l @ [10])"
  by (auto simp: file_of_def split: if_splits)

section \<open>Chains\<close>

definition chain_end :: "string \<Rightarrow> AuditEntry list \<Rightarrow> string" where
  "chain_end p es = (if es = [] then p else au_Hash (last es))"

lemma verify_snoc:
  "verify_chain fmt p (es @ [e]) = None \<longleftrightarrow>
   verify_chain fmt p es = None \<and> au_PrevHash e = chain_end p es \<and> au_Hash e = computeEntryHash fmt e"
  by (induction es arbitrary: p) (auto simp: chain_end_def)

text \<open>The state of an open log agrees with its file, which is a valid chain numbered from one.\<close>

definition audit_ok :: "AuditEntry jcodec \<Rightarrow> (gotime \<Rightarrow> string) \<Rightarrow> AuditLog \<Rightarrow> AuditEntry list \<Rightarrow> bool" where
  "audit_ok J fmt al es \<longleftrightarrow>
     file_of J es = Some (al_file al) \<and> verify_chain fmt genesis es = None \<and>
     al_lastHash al = chain_end genesis es \<and> al_seq al = of_nat (length es) \<and>
     map au_Sequence es = map (\<lambda>i. of_nat (Suc i)) [0..<length es]"

definition next_entry :: "(gotime \<Rightarrow> string) \<Rightarrow> append_env \<Rightarrow> string \<Rightarrow> string \<Rightarrow> string \<Rightarrow> AuditLog \<Rightarrow> AuditEntry" where
  "next_entry fmt env action subject details al =
     (let e = \<lparr>au_Sequence = al_seq al + 1, au_Timestamp = ap_now env, au_Action = action, au_Subject = subject,
               au_Details = details, au_PrevHash = al_lastHash al, au_Hash = []\<rparr>
      in e\<lparr>au_Hash := computeEntryHash fmt e\<rparr>)"

lemma hash_ignores_hash [simp]: "computeEntryHash fmt (e\<lparr>au_Hash := h\<rparr>) = computeEntryHash fmt e"
  by (simp add: computeEntryHash_def entry_payload_def)

lemma audit_append_ok:
  assumes "audit_ok J fmt al es" "audit_Append J fmt env action subject details al = (None, al')"
  shows "audit_ok J fmt al' (es @ [next_entry fmt env action subject details al])"
proof -
  let ?e = "next_entry fmt env action subject details al"
  from assms(2) obtain l where l: "jc_Marshal J ?e = Some l" and
    al': "al' = \<lparr>al_file = al_file al @ l @ [10], al_lastHash = au_Hash ?e, al_seq = al_seq al + 1\<rparr>"
    by (cases al) (auto simp: audit_Append_def next_entry_def Let_def split: option.splits if_splits)
  have e: "au_Hash ?e = computeEntryHash fmt ?e" "au_PrevHash ?e = al_lastHash al" "au_Sequence ?e = al_seq al + 1"
    by (simp_all add: next_entry_def Let_def computeEntryHash_def entry_payload_def)
  show ?thesis
    using assms(1) e l
    by (auto simp: audit_ok_def al' verify_snoc file_of_snoc chain_end_def)
qed

lemma recover_lines:
  assumes "\<forall>l \<in> set ls. l \<noteq> []" "map (jc_Unmarshal J) ls = map Some es"
  shows "foldl (recover_entry J) al ls =
    (if es = [] then al else al\<lparr>al_lastHash := au_Hash (last es), al_seq := au_Sequence (last es)\<rparr>)"
  using assms
proof (induction ls arbitrary: al es)
  case (Cons l ls)
  then obtain e es' where "es = e # es'" by (cases es) auto
  with Cons show ?case by (auto simp: recover_entry_def)
qed simp

lemma reopen_ok:
  assumes "line_codec J" "audit_ok J fmt al es"
  shows "NewAuditLog J (al_file al) = al"
proof -
  from assms(2) have f: "file_of J es = Some (al_file al)" by (simp add: audit_ok_def)
  note lines = file_lines(1) [OF assms(1) f]
  have "\<forall>l \<in> set (map (\<lambda>e. the (jc_Marshal J e)) es). l \<noteq> []"
    "map (jc_Unmarshal J) (map (\<lambda>e. the (jc_Marshal J e)) es) = map Some es"
    using assms(1) f by (auto simp: line_codec_def file_of_def split: if_splits)
  note rec = recover_lines [OF this]
  have "au_Sequence (last es) = of_nat (length es)" if "es \<noteq> []"
  proof -
    from that obtain n where n: "length es = Suc n" by (cases es) auto
    have "au_Sequence (last es) = last (map au_Sequence es)" using that by (simp add: last_map)
    also have "map au_Sequence es = map (\<lambda>i. of_nat (Suc i)) [0..<length es]" using assms(2) by (simp add: audit_ok_def)
    finally show ?thesis by (simp add: n)
  qed
  then show ?thesis
    using assms(2) unfolding NewAuditLog_def recoverState_def AuditLog.simps lines rec
    by (cases al) (auto simp: audit_ok_def chain_end_def)
qed

section \<open>Tampering\<close>

lemma after_last_bar:
  assumes "a @ ''|'' @ x = b @ ''|'' @ y" "CHR ''|'' \<notin> set x" "CHR ''|'' \<notin> set y"
  shows "x = y"
proof -
  have "takeWhile (\<lambda>c. c \<noteq> CHR ''|'') (w @ CHR ''|'' # c) = w" if "CHR ''|'' \<notin> set w" for c w
    using that by (induction w) auto
  then have "rev (takeWhile (\<lambda>c. c \<noteq> CHR ''|'') (rev (c @ ''|'' @ z))) = z" if "CHR ''|'' \<notin> set z" for c z
    using that by simp
  with assms show ?thesis by metis
qed

lemma payload_prev:
  assumes "entry_payload fmt e = entry_payload fmt e'"
    and "CHR ''|'' \<notin> set (au_PrevHash e)" "CHR ''|'' \<notin> set (au_PrevHash e')"
  shows "au_PrevHash e = au_PrevHash e'"
proof (rule after_last_bar)
  let ?front = "\<lambda>e. dec (unat (au_Sequence e)) @ ''|'' @ fmt (au_Timestamp e) @ ''|'' @ au_Action e @ ''|'' @
     au_Subject e @ ''|'' @ au_Details e"
  show "?front e @ ''|'' @ au_PrevHash e = ?front e' @ ''|'' @ au_PrevHash e'"
    using assms(1) by (simp add: entry_payload_def)
qed (use assms in auto)

lemma entry_hash_text: "CHR ''|'' \<notin> set (computeEntryHash fmt e)" "length (computeEntryHash fmt e) = 64"
  by (auto simp: computeEntryHash_def dest: hex_chars)

lemma chain_end_text:
  assumes "verify_chain fmt genesis es = None"
  shows "CHR ''|'' \<notin> set (chain_end genesis es)" "chain_end genesis es = genesis \<longleftrightarrow> es = []"
proof -
  have "au_Hash (last es) = computeEntryHash fmt (last es)" if "es \<noteq> []"
    using that assms by (cases es rule: rev_cases) (auto simp: verify_snoc)
  then show "CHR ''|'' \<notin> set (chain_end genesis es)" "chain_end genesis es = genesis \<longleftrightarrow> es = []"
    using entry_hash_text [of fmt "last es"] by (auto simp: chain_end_def genesis_def)
qed

definition hash_collision :: "(gotime \<Rightarrow> string) \<Rightarrow> AuditEntry list \<Rightarrow> AuditEntry list \<Rightarrow> bool" where
  "hash_collision fmt es es' \<longleftrightarrow>
     (\<exists>e \<in> set es. \<exists>e' \<in> set es'. entry_payload fmt e \<noteq> entry_payload fmt e' \<and>
        sha256 (str_bytes (entry_payload fmt e)) = sha256 (str_bytes (entry_payload fmt e')))"

lemma same_end_same_chain:
  assumes "verify_chain fmt genesis es = None" "verify_chain fmt genesis es' = None"
    and "chain_end genesis es = chain_end genesis es'" "\<not> hash_collision fmt es es'"
  shows "map (entry_payload fmt) es = map (entry_payload fmt) es'"
  using assms
proof (induction es arbitrary: es' rule: rev_induct)
  case Nil
  then show ?case using chain_end_text(2) [of fmt es'] by (simp add: chain_end_def)
next
  case (snoc e es)
  have "es' \<noteq> []"
    using snoc.prems(1-3) chain_end_text(2) [of fmt "es @ [e]"] by (auto simp: chain_end_def)
  then obtain fs f where es': "es' = fs @ [f]" by (cases es' rule: rev_cases) auto
  from snoc.prems es' have v: "verify_chain fmt genesis es = None" "au_PrevHash e = chain_end genesis es"
    "au_Hash e = computeEntryHash fmt e" "verify_chain fmt genesis fs = None" "au_PrevHash f = chain_end genesis fs"
    "au_Hash f = computeEntryHash fmt f" by (simp_all add: verify_snoc)
  from snoc.prems(3) es' v have "computeEntryHash fmt e = computeEntryHash fmt f" by (simp add: chain_end_def)
  then have "sha256 (str_bytes (entry_payload fmt e)) = sha256 (str_bytes (entry_payload fmt f))"
    by (simp add: computeEntryHash_def hex_inj)
  with snoc.prems(4) es' have pay: "entry_payload fmt e = entry_payload fmt f"
    unfolding hash_collision_def by (metis in_set_conv_decomp)
  with payload_prev [OF pay] v chain_end_text(1) have "chain_end genesis es = chain_end genesis fs" by simp
  moreover have "\<not> hash_collision fmt es fs" using snoc.prems(4) es' by (auto simp: hash_collision_def)
  ultimately show ?case using snoc.IH [OF v(1,4)] pay es' by simp
qed

section \<open>Properties\<close>

text \<open>Appends that succeed, and reopening after a restart.\<close>

inductive audit_step :: "AuditEntry jcodec \<Rightarrow> (gotime \<Rightarrow> string) \<Rightarrow> AuditLog \<Rightarrow> AuditLog \<Rightarrow> bool" for J fmt where
  append: "audit_Append J fmt env action subject details al = (None, al') \<Longrightarrow> audit_step J fmt al al'"
| reopen: "audit_step J fmt al (NewAuditLog J (al_file al))"

lemma steps_ok:
  assumes "(audit_step J fmt)\<^sup>*\<^sup>* al al'" "line_codec J" "audit_ok J fmt al es"
  shows "\<exists>more. audit_ok J fmt al' (es @ more)"
  using assms(1)
proof (induction rule: rtranclp_induct)
  case base
  show ?case using assms(3) by (intro exI [of _ "[]"]) simp
next
  case (step al1 al2)
  then obtain more where more: "audit_ok J fmt al1 (es @ more)" by blast
  from step.hyps(2) show ?case
  proof cases
    case (append env action subject details)
    from audit_append_ok [OF more append] show ?thesis by auto
  next
    case reopen
    with reopen_ok [OF assms(2) more] more show ?thesis by auto
  qed
qed

text \<open>
  C15: an honest audit log verifies. After any sequence of successful appends and restarts, starting from a file
  that holds a valid chain, the file verifies, still begins with the entries it had, and its entries are
  numbered consecutively; the in-memory state is what a restart would recover.
\<close>

theorem audit_log_verifies:
  assumes "line_codec J" "audit_ok J fmt al es" "(audit_step J fmt)\<^sup>*\<^sup>* al al'"
  shows "\<exists>more. audit_Verify J fmt (al_file al') = None \<and> decode_lines J (splitLines (al_file al')) = Some (es @ more) \<and>
    map au_Sequence (es @ more) = map (\<lambda>i. of_nat (Suc i)) [0..<length (es @ more)] \<and>
    NewAuditLog J (al_file al') = al'"
proof -
  from steps_ok [OF assms(3,1,2)] obtain more where more: "audit_ok J fmt al' (es @ more)" by blast
  then have f: "file_of J (es @ more) = Some (al_file al')" by (simp add: audit_ok_def)
  show ?thesis
    using more file_lines(2) [OF assms(1) f] reopen_ok [OF assms(1) more]
    by (intro exI [of _ more]) (simp add: audit_Verify_def audit_ok_def)
qed

text \<open>
  C35: the chain is tamper-evident against its last hash. Two files that both verify and end in the same
  hash have, entry by entry, the same hashed content, so the same number of entries; otherwise two
  different contents with the same SHA-256 value can be read off them.
\<close>

theorem audit_tamper_evident:
  assumes "audit_Verify J fmt f = None" "decode_lines J (splitLines f) = Some es"
    and "audit_Verify J fmt f' = None" "decode_lines J (splitLines f') = Some es'"
    and "chain_end genesis es = chain_end genesis es'"
  shows "map (entry_payload fmt) es = map (entry_payload fmt) es' \<or> hash_collision fmt es es'"
  using assms same_end_same_chain [of fmt es es'] by (auto simp: audit_Verify_def)

definition first_entry :: AuditEntry where
  "first_entry = next_entry (\<lambda>_. ''t'') \<lparr>ap_now = 7, ap_written = None, ap_synced = True\<rparr> ''login'' ''admin'' []
     \<lparr>al_file = [], al_lastHash = genesis, al_seq = 0\<rparr>"

definition sample_line_codec :: "AuditEntry jcodec" where
  "sample_line_codec = \<lparr>jc_Marshal = (\<lambda>e. if e = first_entry then Some [1] else None),
     jc_Unmarshal = (\<lambda>l. if l = [1] then Some first_entry else None)\<rparr>"

lemma sample_append:
  "audit_Append sample_line_codec (\<lambda>_. ''t'') \<lparr>ap_now = 7, ap_written = None, ap_synced = True\<rparr> ''login'' ''admin'' []
     \<lparr>al_file = [], al_lastHash = genesis, al_seq = 0\<rparr> =
   (None, \<lparr>al_file = [1, 10], al_lastHash = au_Hash first_entry, al_seq = 1\<rparr>)"
  by (simp add: audit_Append_def sample_line_codec_def first_entry_def next_entry_def Let_def)

lemma sample_codec_ok: "line_codec sample_line_codec"
  by (simp add: line_codec_def sample_line_codec_def)

theorem audit_log_verifies_witness:
  "audit_Verify sample_line_codec (\<lambda>_. ''t'') [1, 10] = None"
proof -
  have "audit_ok sample_line_codec (\<lambda>_. ''t'') \<lparr>al_file = [], al_lastHash = genesis, al_seq = 0\<rparr> []"
    by (simp add: audit_ok_def file_of_def chain_end_def)
  moreover have "(audit_step sample_line_codec (\<lambda>_. ''t''))\<^sup>*\<^sup>* \<lparr>al_file = [], al_lastHash = genesis, al_seq = 0\<rparr>
      \<lparr>al_file = [1, 10], al_lastHash = au_Hash first_entry, al_seq = 1\<rparr>"
    by (rule r_into_rtranclp) (rule audit_step.append [OF sample_append])
  ultimately show ?thesis using audit_log_verifies [OF sample_codec_ok] by fastforce
qed

text \<open>
  Two logs of two entries: the second one has been edited, text having moved from the subject of its first entry
  to the action. Both verify and end in the same hash.
\<close>

definition chained :: "string \<Rightarrow> string \<Rightarrow> AuditEntry list" where
  "chained action subject =
     (let e = next_entry (\<lambda>_. ''t'') \<lparr>ap_now = 7, ap_written = None, ap_synced = True\<rparr> action subject []
                \<lparr>al_file = [], al_lastHash = genesis, al_seq = 0\<rparr>
      in [e, next_entry (\<lambda>_. ''t'') \<lparr>ap_now = 9, ap_written = None, ap_synced = True\<rparr> ''logout'' ''admin'' []
               \<lparr>al_file = [], al_lastHash = au_Hash e, al_seq = 1\<rparr>])"

definition edited_codec :: "AuditEntry jcodec" where
  "edited_codec = \<lparr>jc_Marshal = (\<lambda>_. None),
     jc_Unmarshal = map_of [([1], chained ''login'' ''a|b'' ! 0), ([2], chained ''login|a'' ''b'' ! 0),
       ([3], chained ''login'' ''a|b'' ! 1)]\<rparr>"

lemma chained_same_end: "chained ''login|a'' ''b'' ! 1 = chained ''login'' ''a|b'' ! 1"
  by (simp add: chained_def next_entry_def Let_def computeEntryHash_def entry_payload_def)

lemma edited_lines:
  "decode_lines edited_codec (splitLines [1, 10, 3, 10]) = Some (chained ''login'' ''a|b'')"
  "decode_lines edited_codec (splitLines [2, 10, 3, 10]) = Some (chained ''login|a'' ''b'')"
  using chained_same_end by (simp_all add: edited_codec_def splitLines_def) (simp_all add: chained_def Let_def)

lemma chained_verifies: "verify_chain (\<lambda>_. ''t'') genesis (chained a s) = None"
  by (simp add: chained_def next_entry_def Let_def computeEntryHash_def entry_payload_def)

lemmas edited_verifies = chained_verifies [of "''login''" "''a|b''"] chained_verifies [of "''login|a''" "''b''"]

text \<open>
  The theorem speaks about both of them and about every other file of the set: the set is not a singleton, its
  members have different entries, and each has the hashed content of the first.
\<close>

theorem audit_tamper_evident_witness:
  "{[1, 10, 3, 10], [2, 10, 3, 10]} \<subseteq>
     {f. audit_Verify edited_codec (\<lambda>_. ''t'') f = None \<and>
         map_option (chain_end genesis) (decode_lines edited_codec (splitLines f)) =
           Some (chain_end genesis (chained ''login'' ''a|b''))} \<and>
   {f. audit_Verify edited_codec (\<lambda>_. ''t'') f = None \<and>
       map_option (chain_end genesis) (decode_lines edited_codec (splitLines f)) =
         Some (chain_end genesis (chained ''login'' ''a|b''))} \<subseteq>
     {f. \<exists>es. decode_lines edited_codec (splitLines f) = Some es \<and>
         (map (entry_payload (\<lambda>_. ''t'')) es = map (entry_payload (\<lambda>_. ''t'')) (chained ''login'' ''a|b'') \<or>
          hash_collision (\<lambda>_. ''t'') es (chained ''login'' ''a|b''))} \<and>
   decode_lines edited_codec (splitLines [1, 10, 3, 10]) \<noteq> decode_lines edited_codec (splitLines [2, 10, 3, 10])"
proof (intro conjI)
  have ver: "audit_Verify edited_codec (\<lambda>_. ''t'') [1, 10, 3, 10] = None"
    "audit_Verify edited_codec (\<lambda>_. ''t'') [2, 10, 3, 10] = None"
    by (simp_all add: audit_Verify_def edited_lines edited_verifies del: verify_chain.simps)
  have end_same: "chain_end genesis (chained ''login|a'' ''b'') = chain_end genesis (chained ''login'' ''a|b'')"
    using chained_same_end by (simp add: chain_end_def chained_def Let_def)
  show "{[1, 10, 3, 10], [2, 10, 3, 10]} \<subseteq>
     {f. audit_Verify edited_codec (\<lambda>_. ''t'') f = None \<and>
         map_option (chain_end genesis) (decode_lines edited_codec (splitLines f)) =
           Some (chain_end genesis (chained ''login'' ''a|b''))}"
    by (simp add: ver edited_lines end_same)
  show "{f. audit_Verify edited_codec (\<lambda>_. ''t'') f = None \<and>
       map_option (chain_end genesis) (decode_lines edited_codec (splitLines f)) =
         Some (chain_end genesis (chained ''login'' ''a|b''))} \<subseteq>
     {f. \<exists>es. decode_lines edited_codec (splitLines f) = Some es \<and>
         (map (entry_payload (\<lambda>_. ''t'')) es = map (entry_payload (\<lambda>_. ''t'')) (chained ''login'' ''a|b'') \<or>
          hash_collision (\<lambda>_. ''t'') es (chained ''login'' ''a|b''))}"
    using audit_tamper_evident [OF _ _ ver(1) edited_lines(1)] by blast
  show "decode_lines edited_codec (splitLines [1, 10, 3, 10]) \<noteq> decode_lines edited_codec (splitLines [2, 10, 3, 10])"
    unfolding edited_lines by (simp add: chained_def next_entry_def Let_def)
qed

section \<open>What the chain does not show\<close>

text \<open>
  Entries cut off at the end go unnoticed: every prefix of a valid chain is valid, and the verification does not
  compare with a remembered hash.
\<close>

lemma truncated_log_verifies: "verify_chain fmt p (es @ es') = None \<Longrightarrow> verify_chain fmt p es = None"
  by (induction es arbitrary: p) (auto split: if_splits)

text \<open>The fields are joined without escaping: text can move from one field to the next without changing the hash.\<close>

lemma fields_shift:
  "computeEntryHash fmt \<lparr>au_Sequence = n, au_Timestamp = t, au_Action = ''a|b'', au_Subject = ''c'', au_Details = d, au_PrevHash = p, au_Hash = h\<rparr> =
   computeEntryHash fmt \<lparr>au_Sequence = n, au_Timestamp = t, au_Action = ''a'', au_Subject = ''b|c'', au_Details = d, au_PrevHash = p, au_Hash = h\<rparr>"
  by (simp add: computeEntryHash_def entry_payload_def)

text \<open>
  A failing write advances the chain in memory: the next entry refers to one that is not in the file, and the
  file no longer verifies.
\<close>

lemma failed_write_breaks_chain:
  assumes "line_codec J" "audit_ok J fmt al es" "jc_Marshal J (next_entry fmt env a x d al) \<noteq> None" "ap_written env = Some 0"
    and "audit_Append J fmt env' a' x' d' (snd (audit_Append J fmt env a x d al)) = (None, al')"
    and "au_Hash (next_entry fmt env a x d al) \<noteq> al_lastHash al"
  shows "audit_Verify J fmt (al_file al') \<noteq> None"
proof -
  let ?lost = "next_entry fmt env a x d al"
  have al1: "snd (audit_Append J fmt env a x d al) = al\<lparr>al_seq := al_seq al + 1, al_lastHash := au_Hash ?lost\<rparr>"
    using assms(3,4) by (auto simp: audit_Append_def next_entry_def Let_def)
  let ?e = "next_entry fmt env' a' x' d' (al\<lparr>al_seq := al_seq al + 1, al_lastHash := au_Hash ?lost\<rparr>)"
  from assms(5) obtain l where l: "jc_Marshal J ?e = Some l" "al_file al' = al_file al @ l @ [10]"
    unfolding al1 by (auto simp: audit_Append_def next_entry_def Let_def split: option.splits)
  from assms(2) have f: "file_of J es = Some (al_file al)" "al_lastHash al = chain_end genesis es" by (simp_all add: audit_ok_def)
  from file_lines(2) [OF assms(1) file_of_snoc [OF f(1) l(1)]]
  have "audit_Verify J fmt (al_file al') = verify_chain fmt genesis (es @ [?e])" by (simp add: audit_Verify_def l(2))
  moreover have "au_PrevHash ?e = au_Hash ?lost" by (simp add: next_entry_def Let_def)
  ultimately show ?thesis using assms(6) f(2) by (simp add: verify_snoc)
qed

text \<open>The tree repeats the last block of an odd list: with and without the repetition the root is the same.\<close>

lemma duplicated_block_same_root:
  assumes "odd (length blocks)"
  shows "RootHex (BuildTree (blocks @ [last blocks])) = RootHex (BuildTree blocks)"
proof -
  have "pad_even (map sha256 (blocks @ [last blocks])) = pad_even (map sha256 blocks)"
    using assms by (cases blocks rule: rev_cases) (auto simp: pad_even_def)
  moreover have "blocks \<noteq> []" using assms by auto
  ultimately show ?thesis by (auto simp: BuildTree_def RootHex_def Let_def split: prod.splits)
qed

end
