(* ===== verification/Inventory.thy ===== *)
theory Inventory
  imports Repository
begin

text \<open>
  The picture of the network: the topology graph (\<^verbatim>\<open>internal/network/topology\<close>: \<^verbatim>\<open>graph.go\<close>,
  \<^verbatim>\<open>builder.go\<close>, \<^verbatim>\<open>differ.go\<close>) and the reconciliation of asset snapshots
  (\<^verbatim>\<open>internal/discovery/reconciliation\<close>: \<^verbatim>\<open>diff.go\<close>, \<^verbatim>\<open>engine.go\<close>). A Go map is an association list
  with distinct keys: its order is the one an iteration may take, and every statement holds for each
  order. Events that are pushed are returned as a list.
\<close>

section \<open>The topology graph\<close>

definition NodeTypeHost :: string where "NodeTypeHost = ''host''"
definition NodeTypeUnknown :: string where "NodeTypeUnknown = ''unknown''"

record Node =
  nd_ID :: string
  nd_Label :: string
  nd_Type :: string
  nd_MAC :: string
  nd_OS :: string
  nd_Ports :: "int list"
  nd_LastSeen :: gotime

record Edge =
  eg_Source :: string
  eg_Target :: string
  eg_Count :: int
  eg_Protocol :: string

record Graph =
  gr_nodes :: "(string \<times> Node) list"
  gr_edges :: "(string \<times> Edge) list"

definition NewGraph :: Graph where
  "NewGraph = \<lparr>gr_nodes = [], gr_edges = []\<rparr>"

definition merge_node :: "Node \<Rightarrow> Node \<Rightarrow> bool \<times> Node" where
  "merge_node n existing =
     (let (c1, e1) = (if nd_Label n \<noteq> [] \<and> nd_Label n \<noteq> nd_Label existing
                      then (True, existing\<lparr>nd_Label := nd_Label n\<rparr>) else (False, existing));
          (c2, e2) = (if nd_MAC n \<noteq> [] \<and> nd_MAC n \<noteq> nd_MAC e1 then (True, e1\<lparr>nd_MAC := nd_MAC n\<rparr>) else (c1, e1));
          (c3, e3) = (if nd_OS n \<noteq> [] \<and> nd_OS n \<noteq> nd_OS e2 then (True, e2\<lparr>nd_OS := nd_OS n\<rparr>) else (c2, e2));
          (c4, e4) = (if length (nd_Ports n) > 0 then (True, e3\<lparr>nd_Ports := nd_Ports n\<rparr>) else (c3, e3));
          (c5, e5) = (if nd_Type n \<noteq> NodeTypeUnknown \<and> nd_Type n \<noteq> nd_Type e4
                      then (True, e4\<lparr>nd_Type := nd_Type n\<rparr>) else (c4, e4))
      in (c5, e5\<lparr>nd_LastSeen := nd_LastSeen n\<rparr>))"

definition UpsertNode :: "Node \<Rightarrow> Graph \<Rightarrow> bool \<times> Graph" where
  "UpsertNode n g =
     (case map_of (gr_nodes g) (nd_ID n) of
        None \<Rightarrow> (True, g\<lparr>gr_nodes := AList.update (nd_ID n) n (gr_nodes g)\<rparr>)
      | Some existing \<Rightarrow>
          (case merge_node n existing of
             (changed, existing') \<Rightarrow> (changed, g\<lparr>gr_nodes := AList.update (nd_ID n) existing' (gr_nodes g)\<rparr>)))"

definition edge_key :: "string \<Rightarrow> string \<Rightarrow> string" where
  "edge_key src dst = src @ ''->'' @ dst"

definition UpsertEdge :: "string \<Rightarrow> string \<Rightarrow> string \<Rightarrow> Graph \<Rightarrow> bool \<times> Graph" where
  "UpsertEdge src dst protocol g =
     (if src = dst \<or> src = [] \<or> dst = [] then (False, g)
      else
        (let key = edge_key src dst
         in (case map_of (gr_edges g) key of
               Some e \<Rightarrow> (False, g\<lparr>gr_edges := AList.update key (e\<lparr>eg_Count := eg_Count e + 1\<rparr>) (gr_edges g)\<rparr>)
             | None \<Rightarrow>
                 (True, g\<lparr>gr_edges := AList.update key
                    \<lparr>eg_Source = src, eg_Target = dst, eg_Count = 1, eg_Protocol = protocol\<rparr> (gr_edges g)\<rparr>))))"

definition NodeCount :: "Graph \<Rightarrow> nat" where
  "NodeCount g = length (gr_nodes g)"

record GraphSnapshot =
  sn_Nodes :: "Node list"
  sn_Edges :: "Edge list"

definition Snapshot :: "Graph \<Rightarrow> GraphSnapshot" where
  "Snapshot g = \<lparr>sn_Nodes = map snd (gr_nodes g), sn_Edges = map snd (gr_edges g)\<rparr>"

text \<open>The builder: the new graph, and the snapshot given to the callback if the graph changed.\<close>

definition OnAsset :: "Asset \<Rightarrow> Graph \<Rightarrow> Graph \<times> GraphSnapshot option" where
  "OnAsset a g =
     (let label0 = as_Hostname a;
          label1 = (if label0 = [] then as_MAC a else label0);
          label = (if label1 = [] then as_IP a else label1);
          (changed, g') = UpsertNode
            \<lparr>nd_ID = as_IP a, nd_Label = label, nd_Type = NodeTypeHost, nd_MAC = as_MAC a, nd_OS = as_OS a,
             nd_Ports = as_Ports a, nd_LastSeen = as_LastSeen a\<rparr> g
      in (g', if changed then Some (Snapshot g') else None))"

definition event_node :: "string \<Rightarrow> gotime \<Rightarrow> Node" where
  "event_node i t =
     \<lparr>nd_ID = i, nd_Label = i, nd_Type = NodeTypeUnknown, nd_MAC = [], nd_OS = [], nd_Ports = [], nd_LastSeen = t\<rparr>"

definition OnEvent :: "NetworkEvent \<Rightarrow> Graph \<Rightarrow> Graph \<times> GraphSnapshot option" where
  "OnEvent e g =
     (if ev_Source e = [] \<or> ev_Destination e = [] then (g, None)
      else
        (let g1 = snd (UpsertNode (event_node (ev_Source e) (ev_Timestamp e)) g);
             g2 = snd (UpsertNode (event_node (ev_Destination e) (ev_Timestamp e)) g1);
             (isNew, g3) = UpsertEdge (ev_Source e) (ev_Destination e) (ev_Type e) g2
         in (g3, if isNew then Some (Snapshot g3) else None)))"

definition ChangeNodeAdded :: string where "ChangeNodeAdded = ''node_added''"
definition ChangeNodeRemoved :: string where "ChangeNodeRemoved = ''node_removed''"
definition ChangeEdgeAdded :: string where "ChangeEdgeAdded = ''edge_added''"

record TopoChange =
  tc_Kind :: string
  tc_NodeID :: string
  tc_Edge :: "Edge option"

definition edge_key_of :: "Edge \<Rightarrow> string" where
  "edge_key_of e = edge_key (eg_Source e) (eg_Target e)"

definition topo_Diff :: "GraphSnapshot \<Rightarrow> GraphSnapshot \<Rightarrow> TopoChange list" where
  "topo_Diff prev nxt =
     (let prevNodes = nd_ID ` set (sn_Nodes prev);
          nextNodes = nd_ID ` set (sn_Nodes nxt);
          prevEdges = edge_key_of ` set (sn_Edges prev)
      in map (\<lambda>n. \<lparr>tc_Kind = ChangeNodeAdded, tc_NodeID = nd_ID n, tc_Edge = None\<rparr>)
           (filter (\<lambda>n. nd_ID n \<notin> prevNodes) (sn_Nodes nxt)) @
         map (\<lambda>n. \<lparr>tc_Kind = ChangeNodeRemoved, tc_NodeID = nd_ID n, tc_Edge = None\<rparr>)
           (filter (\<lambda>n. nd_ID n \<notin> nextNodes) (sn_Nodes prev)) @
         map (\<lambda>e. \<lparr>tc_Kind = ChangeEdgeAdded, tc_NodeID = [], tc_Edge = Some e\<rparr>)
           (filter (\<lambda>e. edge_key_of e \<notin> prevEdges) (sn_Edges nxt)))"

text \<open>The graph in the form the web interface draws.\<close>

record D3Node =
  d3n_ID :: string
  d3n_Label :: string
  d3n_Type :: string
  d3n_OS :: string
  d3n_Ports :: "int list"

record D3Link =
  d3l_Source :: string
  d3l_Target :: string
  d3l_Count :: int

record D3Graph =
  d3_Nodes :: "D3Node list"
  d3_Links :: "D3Link list"

definition ToD3 :: "GraphSnapshot \<Rightarrow> D3Graph" where
  "ToD3 snap =
     \<lparr>d3_Nodes = map (\<lambda>n. \<lparr>d3n_ID = nd_ID n, d3n_Label = nd_Label n, d3n_Type = nd_Type n, d3n_OS = nd_OS n,
        d3n_Ports = nd_Ports n\<rparr>) (sn_Nodes snap),
      d3_Links = map (\<lambda>e. \<lparr>d3l_Source = eg_Source e, d3l_Target = eg_Target e, d3l_Count = eg_Count e\<rparr>) (sn_Edges snap)\<rparr>"

section \<open>Reconciliation\<close>

definition ChangeAdded :: string where "ChangeAdded = ''ASSET_ADDED''"
definition ChangeRemoved :: string where "ChangeRemoved = ''ASSET_REMOVED''"
definition ChangeModified :: string where "ChangeModified = ''ASSET_MODIFIED''"

lemmas change_types = ChangeAdded_def ChangeRemoved_def ChangeModified_def

record Change =
  ch_Type :: string
  ch_AssetID :: string
  ch_Fields :: "(string \<times> gany) list"

definition indexAssets :: "Asset list \<Rightarrow> (string \<times> Asset) list" where
  "indexAssets assets = foldl (\<lambda>m a. AList.update (as_ID a) a m) [] assets"

definition portsEqual :: "int list \<Rightarrow> int list \<Rightarrow> bool" where
  "portsEqual a b = (if length a \<noteq> length b then False else list_all (\<lambda>p. p \<in> set a) b)"

definition old_new :: "gany \<Rightarrow> gany \<Rightarrow> gany" where
  "old_new old new = AMap [(''old'', old), (''new'', new)]"

definition diffAsset :: "Asset \<Rightarrow> Asset \<Rightarrow> (string \<times> gany) list" where
  "diffAsset prev cur =
     (if as_IP prev \<noteq> as_IP cur then [(''ip'', old_new (AString (as_IP prev)) (AString (as_IP cur)))] else []) @
     (if as_MAC prev \<noteq> as_MAC cur then [(''mac'', old_new (AString (as_MAC prev)) (AString (as_MAC cur)))] else []) @
     (if as_Hostname prev \<noteq> as_Hostname cur
      then [(''hostname'', old_new (AString (as_Hostname prev)) (AString (as_Hostname cur)))] else []) @
     (if as_OS prev \<noteq> as_OS cur then [(''os'', old_new (AString (as_OS prev)) (AString (as_OS cur)))] else []) @
     (if \<not> portsEqual (as_Ports prev) (as_Ports cur)
      then [(''ports'', old_new (AList (map AInt (as_Ports prev))) (AList (map AInt (as_Ports cur))))] else [])"

definition added_or_modified :: "(string \<times> Asset) list \<Rightarrow> string \<times> Asset \<Rightarrow> Change list" where
  "added_or_modified prevMap ica =
     (case ica of (i, ca) \<Rightarrow>
        (case map_of prevMap i of
           None \<Rightarrow>
             [\<lparr>ch_Type = ChangeAdded, ch_AssetID = i,
               ch_Fields = [(''ip'', AString (as_IP ca)), (''hostname'', AString (as_Hostname ca)), (''os'', AString (as_OS ca))]\<rparr>]
         | Some pa \<Rightarrow>
             (let fields = diffAsset pa ca
              in if length fields > 0 then [\<lparr>ch_Type = ChangeModified, ch_AssetID = i, ch_Fields = fields\<rparr>] else [])))"

definition asset_Diff :: "Asset list \<Rightarrow> Asset list \<Rightarrow> Change list" where
  "asset_Diff prev cur =
     (let prevMap = indexAssets prev; currMap = indexAssets cur
      in concat (map (added_or_modified prevMap) currMap) @
         map (\<lambda>(i, _). \<lparr>ch_Type = ChangeRemoved, ch_AssetID = i, ch_Fields = []\<rparr>)
           (filter (\<lambda>(i, _). map_of currMap i = None) prevMap))"

definition countByType :: "Change list \<Rightarrow> string \<Rightarrow> nat" where
  "countByType changes ct = length (filter (\<lambda>c. ch_Type c = ct) changes)"

definition severityFor :: "string \<Rightarrow> string" where
  "severityFor ct = (if ct = ChangeRemoved then ''high'' else if ct = ChangeModified then ''medium'' else ''low'')"

record ReconciliationConfig =
  rc_Enabled :: bool
  rc_AlertOnChange :: bool
  rc_TrackHistory :: bool

definition change_event :: "gotime \<Rightarrow> Change \<Rightarrow> NetworkEvent" where
  "change_event now ch =
     \<lparr>ev_ID = [], ev_Type = EventAlert, ev_Source = ''reconciliation'', ev_Destination = ch_AssetID ch,
      ev_Metadata = Some [''change_type'' \<mapsto> AString (ch_Type ch), ''asset_id'' \<mapsto> AString (ch_AssetID ch),
        ''fields'' \<mapsto> AMap (ch_Fields ch), ''severity'' \<mapsto> AString (severityFor (ch_Type ch))],
      ev_Timestamp = now, ev_Signature = [], ev_SignerKeyID = []\<rparr>"

definition summary_event :: "gotime \<Rightarrow> Change list \<Rightarrow> Asset list \<Rightarrow> NetworkEvent" where
  "summary_event now changes cur =
     \<lparr>ev_ID = [], ev_Type = EventVM, ev_Source = ''reconciliation'', ev_Destination = ''drift-summary'',
      ev_Metadata = Some [''total_changes'' \<mapsto> AInt (int (length changes)),
        ''added'' \<mapsto> AInt (int (countByType changes ChangeAdded)),
        ''removed'' \<mapsto> AInt (int (countByType changes ChangeRemoved)),
        ''modified'' \<mapsto> AInt (int (countByType changes ChangeModified)),
        ''total_assets'' \<mapsto> AInt (int (length cur))],
      ev_Timestamp = now, ev_Signature = [], ev_SignerKeyID = []\<rparr>"

definition reconcile ::
  "'db bolt \<Rightarrow> Asset jcodec \<Rightarrow> ReconciliationConfig \<Rightarrow> gotime \<Rightarrow> 'db \<Rightarrow> Asset list \<Rightarrow> NetworkEvent list \<times> Asset list" where
  "reconcile B C cfg now db prev =
     (case ListAssets B C db of
        Inl _ \<Rightarrow> ([], prev)
      | Inr cur \<Rightarrow>
          (let changes = asset_Diff prev cur
           in if length changes = 0 then ([], cur)
              else
                ((if rc_AlertOnChange cfg then map (change_event now) changes else []) @
                 (if rc_TrackHistory cfg then [summary_event now changes cur] else []), cur)))"

text \<open>
  The goroutine of \<^verbatim>\<open>Start\<close>: the baseline is taken once, then each tick reconciles against the assets of the
  database at that moment. A database that cannot be listed at the start leaves the baseline empty.
\<close>

definition asset_baseline :: "'db bolt \<Rightarrow> Asset jcodec \<Rightarrow> 'db \<Rightarrow> Asset list" where
  "asset_baseline B C db = (case ListAssets B C db of Inl _ \<Rightarrow> [] | Inr assets \<Rightarrow> assets)"

primrec reconcile_loop ::
  "'db bolt \<Rightarrow> Asset jcodec \<Rightarrow> ReconciliationConfig \<Rightarrow> (gotime \<times> 'db) list \<Rightarrow> Asset list \<Rightarrow> NetworkEvent list" where
  "reconcile_loop B C cfg [] prev = []"
| "reconcile_loop B C cfg (tick # ticks) prev =
     (case reconcile B C cfg (fst tick) (snd tick) prev of
        (pushed, prev') \<Rightarrow> pushed @ reconcile_loop B C cfg ticks prev')"

definition reconciliation_interval :: "int \<Rightarrow> int" where
  "reconciliation_interval CheckIntervalMinutes =
     (let interval = signed_take_bit 63 (CheckIntervalMinutes * time_Minute)
      in if interval = 0 then 15 * time_Minute else interval)"

definition reconciliation_Start ::
  "'db bolt \<Rightarrow> Asset jcodec \<Rightarrow> ReconciliationConfig \<Rightarrow> 'db \<Rightarrow> (gotime \<times> 'db) list \<Rightarrow> NetworkEvent list" where
  "reconciliation_Start B C cfg db0 ticks =
     (if \<not> rc_Enabled cfg then [] else reconcile_loop B C cfg ticks (asset_baseline B C db0))"

section \<open>Lemmas\<close>

subsection \<open>The topology graph\<close>

datatype observation = Asset_seen Asset | Event_seen NetworkEvent

definition observe :: "Graph \<Rightarrow> observation \<Rightarrow> Graph" where
  "observe g ob = (case ob of Asset_seen a \<Rightarrow> fst (OnAsset a g) | Event_seen e \<Rightarrow> fst (OnEvent e g))"

definition topology_of :: "observation list \<Rightarrow> Graph" where
  "topology_of obs = foldl observe NewGraph obs"

text \<open>The specification: what a sequence of observations says about nodes and edges.\<close>

definition node_ids :: "observation \<Rightarrow> string set" where
  "node_ids ob =
     (case ob of
        Asset_seen a \<Rightarrow> {as_IP a}
      | Event_seen e \<Rightarrow> if ev_Source e = [] \<or> ev_Destination e = [] then {} else {ev_Source e, ev_Destination e})"

definition links_of :: "observation \<Rightarrow> NetworkEvent list" where
  "links_of ob =
     (case ob of
        Asset_seen _ \<Rightarrow> []
      | Event_seen e \<Rightarrow>
          if ev_Source e = [] \<or> ev_Destination e = [] \<or> ev_Source e = ev_Destination e then [] else [e])"

definition links_with :: "string \<Rightarrow> observation list \<Rightarrow> NetworkEvent list" where
  "links_with k obs = filter (\<lambda>e. edge_key (ev_Source e) (ev_Destination e) = k) (concat (map links_of obs))"

definition edge_of :: "NetworkEvent list \<Rightarrow> Edge option" where
  "edge_of es =
     (case es of
        [] \<Rightarrow> None
      | e # _ \<Rightarrow> Some \<lparr>eg_Source = ev_Source e, eg_Target = ev_Destination e, eg_Count = int (length es), eg_Protocol = ev_Type e\<rparr>)"

lemma UpsertNode_dom: "dom (map_of (gr_nodes (snd (UpsertNode n g)))) = insert (nd_ID n) (dom (map_of (gr_nodes g)))"
  by (auto simp: UpsertNode_def update_conv' split: option.splits prod.splits)

lemma UpsertNode_edges [simp]: "gr_edges (snd (UpsertNode n g)) = gr_edges g"
  by (simp add: UpsertNode_def split: option.split prod.split)

lemma UpsertEdge_nodes [simp]: "gr_nodes (snd (UpsertEdge s d p g)) = gr_nodes g"
  by (simp add: UpsertEdge_def Let_def split: option.split)

lemma fst_OnAsset_nodes: "dom (map_of (gr_nodes (fst (OnAsset a g)))) = insert (as_IP a) (dom (map_of (gr_nodes g)))"
  by (simp add: OnAsset_def Let_def case_prod_beta UpsertNode_dom)

lemma fst_OnAsset_edges: "gr_edges (fst (OnAsset a g)) = gr_edges g"
  by (simp add: OnAsset_def Let_def case_prod_beta)

lemma fst_OnEvent:
  "fst (OnEvent e g) =
     (if ev_Source e = [] \<or> ev_Destination e = [] then g
      else snd (UpsertEdge (ev_Source e) (ev_Destination e) (ev_Type e)
        (snd (UpsertNode (event_node (ev_Destination e) (ev_Timestamp e))
           (snd (UpsertNode (event_node (ev_Source e) (ev_Timestamp e)) g))))))"
  by (simp add: OnEvent_def Let_def case_prod_beta)

lemma observe_nodes: "dom (map_of (gr_nodes (observe g ob))) = dom (map_of (gr_nodes g)) \<union> node_ids ob"
  by (cases ob) (auto simp: observe_def node_ids_def fst_OnAsset_nodes fst_OnEvent UpsertNode_dom event_node_def)

lemma edge_of_snoc:
  "edge_of (es @ [e]) =
     Some (case edge_of es of
             None \<Rightarrow> \<lparr>eg_Source = ev_Source e, eg_Target = ev_Destination e, eg_Count = 1, eg_Protocol = ev_Type e\<rparr>
           | Some eg \<Rightarrow> eg\<lparr>eg_Count := eg_Count eg + 1\<rparr>)"
  by (cases es) (simp_all add: edge_of_def)

lemma UpsertEdge_lookup:
  "map_of (gr_edges (snd (UpsertEdge s d p g))) k =
     (if s = d \<or> s = [] \<or> d = [] \<or> edge_key s d \<noteq> k then map_of (gr_edges g) k
      else Some (case map_of (gr_edges g) k of
                   None \<Rightarrow> \<lparr>eg_Source = s, eg_Target = d, eg_Count = 1, eg_Protocol = p\<rparr>
                 | Some e \<Rightarrow> e\<lparr>eg_Count := eg_Count e + 1\<rparr>))"
  by (auto simp: UpsertEdge_def Let_def update_conv' split: option.splits)

lemma observe_edges:
  assumes "\<And>k. map_of (gr_edges g) k = edge_of (links_with k obs)"
  shows "map_of (gr_edges (observe g ob)) k = edge_of (links_with k (obs @ [ob]))"
proof (cases ob)
  case (Asset_seen a)
  then show ?thesis using assms by (simp add: observe_def fst_OnAsset_edges links_with_def links_of_def)
next
  case (Event_seen e)
  then show ?thesis
    by (auto simp: observe_def fst_OnEvent UpsertEdge_lookup assms links_with_def links_of_def edge_of_snoc)
qed

lemma topology_snoc: "topology_of (obs @ [ob]) = observe (topology_of obs) ob"
  by (simp add: topology_of_def)

lemma topology_edges: "map_of (gr_edges (topology_of obs)) k = edge_of (links_with k obs)"
proof (induction obs arbitrary: k rule: rev_induct)
  case Nil
  then show ?case by (simp add: topology_of_def NewGraph_def links_with_def edge_of_def)
next
  case (snoc ob obs)
  show ?case unfolding topology_snoc by (rule observe_edges) (rule snoc)
qed

lemma topology_nodes: "dom (map_of (gr_nodes (topology_of obs))) = (\<Union>ob \<in> set obs. node_ids ob)"
  by (induction obs rule: rev_induct) (auto simp: topology_snoc observe_nodes, auto simp: topology_of_def NewGraph_def)

lemma link_ends:
  assumes "edge_of (links_with k obs) = Some e"
  shows "edge_key_of e = k \<and> eg_Source e \<noteq> eg_Target e \<and> {eg_Source e, eg_Target e} \<subseteq> (\<Union>ob \<in> set obs. node_ids ob)"
proof -
  from assms obtain x xs where x: "links_with k obs = x # xs"
    and e: "eg_Source e = ev_Source x" "eg_Target e = ev_Destination x"
    by (auto simp: edge_of_def split: list.splits)
  have "x \<in> set (links_with k obs)" by (simp add: x)
  then obtain ob where ob: "ob \<in> set obs" "x \<in> set (links_of ob)" "edge_key (ev_Source x) (ev_Destination x) = k"
    by (auto simp: links_with_def)
  then have "ev_Source x \<noteq> ev_Destination x \<and> {ev_Source x, ev_Destination x} \<subseteq> node_ids ob"
    by (auto simp: links_of_def node_ids_def split: observation.splits if_splits)
  with ob e show ?thesis by (auto simp: edge_key_of_def)
qed

lemma observe_distinct:
  "distinct (map fst (gr_nodes g)) \<and> distinct (map fst (gr_edges g)) \<Longrightarrow>
   distinct (map fst (gr_nodes (observe g ob))) \<and> distinct (map fst (gr_edges (observe g ob)))"
proof -
  have n: "distinct (map fst (gr_nodes g)) \<Longrightarrow> distinct (map fst (gr_nodes (snd (UpsertNode n g))))" for n g
    by (simp add: UpsertNode_def distinct_update split: option.split prod.split)
  have e: "distinct (map fst (gr_edges g)) \<Longrightarrow> distinct (map fst (gr_edges (snd (UpsertEdge s d p g))))" for s d p g
    by (simp add: UpsertEdge_def Let_def distinct_update split: option.split)
  show "distinct (map fst (gr_nodes g)) \<and> distinct (map fst (gr_edges g)) \<Longrightarrow> ?thesis"
    by (cases ob) (auto simp: observe_def fst_OnEvent fst_OnAsset_edges OnAsset_def Let_def case_prod_beta intro: n e)
qed

lemma topology_distinct:
  "distinct (map fst (gr_nodes (topology_of obs))) \<and> distinct (map fst (gr_edges (topology_of obs)))"
proof (induction obs rule: rev_induct)
  case Nil
  show ?case by (simp add: topology_of_def NewGraph_def)
next
  case (snoc ob obs)
  then show ?case unfolding topology_snoc by (rule observe_distinct)
qed

subsection \<open>Pairs of ends\<close>

lemma edge_key_inj:
  assumes "CHR ''>'' \<notin> set s \<union> set d" "CHR ''>'' \<notin> set s' \<union> set d'"
  shows "edge_key s d = edge_key s' d' \<longleftrightarrow> s = s' \<and> d = d'"
proof
  have split: "takeWhile (\<lambda>c. c \<noteq> CHR ''>'') (edge_key s d) = s @ ''-''" if "CHR ''>'' \<notin> set s \<union> set d" for s d
  proof -
    have "\<And>c. c \<in> set s \<Longrightarrow> c \<noteq> CHR ''>''" using that by auto
    then show ?thesis by (simp add: edge_key_def takeWhile_append2)
  qed
  assume "edge_key s d = edge_key s' d'"
  moreover from this split [OF assms(1)] split [OF assms(2)] have "s = s'" by simp
  ultimately show "s = s' \<and> d = d'" by (simp add: edge_key_def)
qed simp

definition events_between :: "string \<Rightarrow> string \<Rightarrow> observation list \<Rightarrow> NetworkEvent list" where
  "events_between src dst obs = [e. Event_seen e \<leftarrow> obs, ev_Source e = src \<and> ev_Destination e = dst]"

lemma events_between_Cons:
  "events_between src dst (ob # obs) =
     (case ob of Asset_seen _ \<Rightarrow> [] | Event_seen e \<Rightarrow> if ev_Source e = src \<and> ev_Destination e = dst then [e] else []) @
     events_between src dst obs"
  by (simp add: events_between_def split: observation.splits)

lemma links_between:
  assumes "\<And>e. Event_seen e \<in> set obs \<Longrightarrow> CHR ''>'' \<notin> set (ev_Source e) \<union> set (ev_Destination e)"
    and "CHR ''>'' \<notin> set src \<union> set dst"
  shows "links_with (edge_key src dst) obs = (if src = dst \<or> src = [] \<or> dst = [] then [] else events_between src dst obs)"
  using assms(1)
proof (induction obs)
  case (Cons ob obs)
  then have IH: "links_with (edge_key src dst) obs = (if src = dst \<or> src = [] \<or> dst = [] then [] else events_between src dst obs)"
    by simp
  show ?case
  proof (cases ob)
    case (Event_seen e)
    with Cons.prems have "CHR ''>'' \<notin> set (ev_Source e) \<union> set (ev_Destination e)" by simp
    then have key: "edge_key (ev_Source e) (ev_Destination e) = edge_key src dst \<longleftrightarrow> ev_Source e = src \<and> ev_Destination e = dst"
      using assms(2) by (rule edge_key_inj)
    have "links_with (edge_key src dst) (ob # obs) =
        (if ev_Source e = [] \<or> ev_Destination e = [] \<or> ev_Source e = ev_Destination e \<or> \<not> (ev_Source e = src \<and> ev_Destination e = dst)
         then [] else [e]) @ links_with (edge_key src dst) obs"
      by (simp add: Event_seen links_with_def links_of_def key)
    then show ?thesis unfolding IH events_between_Cons Event_seen by auto
  qed (use IH in \<open>simp add: links_with_def links_of_def events_between_Cons\<close>)
qed (simp add: links_with_def events_between_def)

lemma filter_key_map_of:
  "distinct (map fst xs) \<Longrightarrow> map snd (filter (\<lambda>x. fst x = k) xs) = (case map_of xs k of None \<Rightarrow> [] | Some v \<Rightarrow> [v])"
proof (induction xs)
  case (Cons x xs)
  then show ?case by (cases x) (auto simp: filter_empty_conv image_iff)
qed simp

text \<open>The edges of a snapshot between two ends.\<close>

lemma topology_pair:
  assumes "\<And>e. Event_seen e \<in> set obs \<Longrightarrow> CHR ''>'' \<notin> set (ev_Source e) \<union> set (ev_Destination e)"
  shows "filter (\<lambda>eg. eg_Source eg = src \<and> eg_Target eg = dst) (sn_Edges (Snapshot (topology_of obs))) =
    (if src = dst \<or> src = [] \<or> dst = [] then []
     else (case [e. Event_seen e \<leftarrow> obs, ev_Source e = src \<and> ev_Destination e = dst] of
             [] \<Rightarrow> []
           | e # es \<Rightarrow> [\<lparr>eg_Source = src, eg_Target = dst, eg_Count = int (Suc (length es)), eg_Protocol = ev_Type e\<rparr>]))"
proof -
  let ?E = "gr_edges (topology_of obs)"
  have clean: "CHR ''>'' \<notin> set (eg_Source eg) \<union> set (eg_Target eg) \<and> edge_key_of eg = k"
    if "(k, eg) \<in> set ?E" for k eg
  proof -
    have "edge_of (links_with k obs) = Some eg"
      using that topology_distinct topology_edges by (metis map_of_eq_Some_iff)
    then obtain x xs where x: "links_with k obs = x # xs" "eg_Source eg = ev_Source x" "eg_Target eg = ev_Destination x"
      by (auto simp: edge_of_def split: list.splits)
    then have "x \<in> set (links_with k obs)" by simp
    then have "Event_seen x \<in> set obs" "edge_key (ev_Source x) (ev_Destination x) = k"
      by (auto simp: links_with_def links_of_def split: observation.splits if_splits)
    with assms x show ?thesis by (auto simp: edge_key_of_def)
  qed
  show ?thesis
  proof (cases "CHR ''>'' \<in> set src \<union> set dst")
    case True
    then have "filter (\<lambda>eg. eg_Source eg = src \<and> eg_Target eg = dst) (map snd ?E) = []"
      using clean by (fastforce simp: filter_empty_conv)
    moreover have "events_between src dst obs = []"
      using True assms by (fastforce simp: events_between_def concat_eq_Nil_conv split: observation.splits)
    ultimately show ?thesis unfolding Snapshot_def events_between_def [symmetric] by simp
  next
    case False
    have "filter (\<lambda>eg. eg_Source eg = src \<and> eg_Target eg = dst) (map snd ?E) =
        map snd (filter (\<lambda>x. fst x = edge_key src dst) ?E)"
      unfolding filter_map comp_def using clean edge_key_inj False
      by (intro arg_cong [where f = "map snd"] filter_cong) (auto simp: edge_key_of_def, metis+)
    also have "\<dots> = (case map_of ?E (edge_key src dst) of None \<Rightarrow> [] | Some eg \<Rightarrow> [eg])"
      using topology_distinct by (intro filter_key_map_of) simp
    also have "\<dots> = (case edge_of (if src = dst \<or> src = [] \<or> dst = [] then [] else events_between src dst obs) of None \<Rightarrow> [] | Some eg \<Rightarrow> [eg])"
      unfolding topology_edges using links_between [OF assms] False by simp
    also have "\<dots> = (if src = dst \<or> src = [] \<or> dst = [] then []
     else (case events_between src dst obs of
             [] \<Rightarrow> []
           | e # es \<Rightarrow> [\<lparr>eg_Source = src, eg_Target = dst, eg_Count = int (Suc (length es)), eg_Protocol = ev_Type e\<rparr>]))"
    proof -
      have "ev_Source e = src \<and> ev_Destination e = dst" if "e \<in> set (events_between src dst obs)" for e
        using that by (auto simp: events_between_def split: observation.splits if_splits)
      then show ?thesis by (auto simp: edge_of_def split: list.splits)
    qed
    finally show ?thesis unfolding Snapshot_def events_between_def [symmetric] by simp
  qed
qed

text \<open>Every node is filed under its own id.\<close>

lemma topology_node_ids: "(k, n) \<in> set (gr_nodes (topology_of obs)) \<Longrightarrow> nd_ID n = k"
proof -
  have merge: "nd_ID (snd (merge_node n e)) = nd_ID e" for n e
    by (simp add: merge_node_def Let_def)
  have update: "nd_ID v = k \<Longrightarrow> (\<forall>(k, n) \<in> set xs. nd_ID n = k) \<Longrightarrow> (\<forall>(k, n) \<in> set (AList.update k v xs). nd_ID n = k)" for k v xs
    by (induction xs) (auto split: if_splits)
  define ok where "ok g \<longleftrightarrow> (\<forall>(k, n) \<in> set (gr_nodes g). nd_ID n = k)" for g :: Graph
  have upsert: "ok (snd (UpsertNode n g))" if "ok g" for n g
  proof (cases "map_of (gr_nodes g) (nd_ID n)")
    case None
    then show ?thesis using update [OF refl that [unfolded ok_def], of n] by (simp add: UpsertNode_def ok_def)
  next
    case (Some e)
    then have "nd_ID e = nd_ID n" using that by (auto simp: ok_def dest: map_of_SomeD)
    with Some update [OF _ that [unfolded ok_def], of "snd (merge_node n e)" "nd_ID n"] merge show ?thesis
      by (simp add: UpsertNode_def ok_def case_prod_beta)
  qed
  have edge: "ok (snd (UpsertEdge src dst p g)) = ok g" for src dst p g by (simp add: ok_def)
  have "ok (topology_of obs)"
  proof (induction obs rule: rev_induct)
    case Nil
    show ?case by (simp add: topology_of_def NewGraph_def ok_def)
  next
    case (snoc ob obs)
    then show ?case
      unfolding topology_snoc observe_def
      by (cases ob) (simp_all add: fst_OnEvent OnAsset_def Let_def case_prod_beta upsert edge)
  qed
  then show "(k, n) \<in> set (gr_nodes (topology_of obs)) \<Longrightarrow> nd_ID n = k" by (auto simp: ok_def)
qed

text \<open>
  An event after the discovery of a host replaces the name shown for it by its address; the type and the
  other facts stay.
\<close>

lemma event_overwrites_label:
  "map_of (gr_nodes (topology_of [Asset_seen a, Event_seen e])) (as_IP a) =
     Some \<lparr>nd_ID = as_IP a, nd_Label = as_IP a, nd_Type = NodeTypeHost, nd_MAC = as_MAC a, nd_OS = as_OS a,
       nd_Ports = as_Ports a, nd_LastSeen = ev_Timestamp e\<rparr>"
  if "ev_Source e = as_IP a" "ev_Destination e \<noteq> []" "as_IP a \<noteq> []" "ev_Destination e \<noteq> as_IP a"
  using that
  by (simp add: topology_of_def NewGraph_def observe_def OnAsset_def OnEvent_def UpsertNode_def event_node_def
      merge_node_def UpsertEdge_def update_conv' Let_def)

subsection \<open>Reconciliation\<close>

lemma index_snoc: "indexAssets (as @ [a]) = AList.update (as_ID a) a (indexAssets as)"
  by (simp add: indexAssets_def)

lemma index_distinct: "distinct (map fst (indexAssets as))"
  by (induction as rule: rev_induct) (simp_all add: index_snoc distinct_update, simp add: indexAssets_def)

text \<open>The asset of an id is the last one in the list.\<close>

lemma index_lookup: "map_of (indexAssets as) i = find (\<lambda>a. as_ID a = i) (rev as)"
  by (induction as rule: rev_induct) (auto simp: index_snoc update_conv', simp add: indexAssets_def)

definition asset_of :: "Asset list \<Rightarrow> string \<Rightarrow> Asset option" where
  "asset_of as i = find (\<lambda>a. as_ID a = i) (rev as)"

lemma index_member: "(i, a) \<in> set (indexAssets as) \<longleftrightarrow> asset_of as i = Some a"
  using index_distinct [of as] by (simp add: asset_of_def index_lookup [symmetric] map_of_eq_Some_iff)

lemma diffAsset_empty:
  "diffAsset p a = [] \<longleftrightarrow> as_IP p = as_IP a \<and> as_MAC p = as_MAC a \<and> as_Hostname p = as_Hostname a \<and>
     as_OS p = as_OS a \<and> portsEqual (as_Ports p) (as_Ports a)"
  by (simp add: diffAsset_def)

definition change_for :: "Asset option \<Rightarrow> Asset option \<Rightarrow> string \<Rightarrow> Change option" where
  "change_for po co i =
     (case (po, co) of
        (None, None) \<Rightarrow> None
      | (None, Some a) \<Rightarrow>
          Some \<lparr>ch_Type = ChangeAdded, ch_AssetID = i,
                ch_Fields = [(''ip'', AString (as_IP a)), (''hostname'', AString (as_Hostname a)), (''os'', AString (as_OS a))]\<rparr>
      | (Some p, None) \<Rightarrow> Some \<lparr>ch_Type = ChangeRemoved, ch_AssetID = i, ch_Fields = []\<rparr>
      | (Some p, Some a) \<Rightarrow>
          if diffAsset p a = [] then None
          else Some \<lparr>ch_Type = ChangeModified, ch_AssetID = i, ch_Fields = diffAsset p a\<rparr>)"

lemma added_or_modified_iff:
  "c \<in> set (added_or_modified (indexAssets prev) (i, a)) \<longleftrightarrow> change_for (asset_of prev i) (Some a) i = Some c"
  by (auto simp: added_or_modified_def change_for_def index_lookup asset_of_def Let_def split: option.splits)

lemma change_for_id: "change_for po co i = Some c \<Longrightarrow> ch_AssetID c = i"
  by (auto simp: change_for_def split: option.splits if_splits)

lemma Diff_member: "c \<in> set (asset_Diff prev cur) \<longleftrightarrow> (\<exists>i. change_for (asset_of prev i) (asset_of cur i) i = Some c)"
proof
  assume "c \<in> set (asset_Diff prev cur)"
  then consider (cur) i a where "asset_of cur i = Some a" "c \<in> set (added_or_modified (indexAssets prev) (i, a))"
    | (gone) i p where "asset_of prev i = Some p" "asset_of cur i = None"
        "c = \<lparr>ch_Type = ChangeRemoved, ch_AssetID = i, ch_Fields = []\<rparr>"
    by (auto simp: asset_Diff_def Let_def index_member index_lookup asset_of_def [symmetric])
  then show "\<exists>i. change_for (asset_of prev i) (asset_of cur i) i = Some c"
  proof cases
    case (cur i a)
    then show ?thesis unfolding added_or_modified_iff by (intro exI [of _ i]) simp
  next
    case (gone i p)
    then show ?thesis by (intro exI [of _ i]) (simp add: change_for_def)
  qed
next
  assume "\<exists>i. change_for (asset_of prev i) (asset_of cur i) i = Some c"
  then obtain i where i: "change_for (asset_of prev i) (asset_of cur i) i = Some c" by blast
  show "c \<in> set (asset_Diff prev cur)"
  proof (cases "asset_of cur i")
    case None
    with i obtain p where p: "asset_of prev i = Some p" "c = \<lparr>ch_Type = ChangeRemoved, ch_AssetID = i, ch_Fields = []\<rparr>"
      by (auto simp: change_for_def split: option.splits)
    have "(i, p) \<in> set (indexAssets prev)" "map_of (indexAssets cur) i = None"
      using p(1) None by (simp_all add: index_member index_lookup asset_of_def)
    then show ?thesis unfolding asset_Diff_def Let_def p(2) by force
  next
    case (Some a)
    with i have "(i, a) \<in> set (indexAssets cur)" "c \<in> set (added_or_modified (indexAssets prev) (i, a))"
      by (simp_all add: index_member added_or_modified_iff)
    then show ?thesis unfolding asset_Diff_def Let_def by force
  qed
qed

lemma added_or_modified_ids: "map ch_AssetID (added_or_modified m x) = [] \<or> map ch_AssetID (added_or_modified m x) = [fst x]"
  by (cases x) (auto simp: added_or_modified_def Let_def split: option.splits)

lemma added_ids_subset: "ch_AssetID ` set (concat (map (added_or_modified m) xs)) \<subseteq> fst ` set xs"
proof
  fix i
  assume "i \<in> ch_AssetID ` set (concat (map (added_or_modified m) xs))"
  then obtain x where "x \<in> set xs" "i \<in> set (map ch_AssetID (added_or_modified m x))" by auto
  then show "i \<in> fst ` set xs" using added_or_modified_ids [of m x] by auto
qed

lemma added_ids_distinct:
  "distinct (map fst xs) \<Longrightarrow> distinct (map ch_AssetID (concat (map (added_or_modified m) xs)))"
proof (induction xs)
  case (Cons x xs)
  have "fst x \<notin> ch_AssetID ` set (concat (map (added_or_modified m) xs))"
    using Cons.prems added_ids_subset [of m xs] by auto
  then have "set [fst x] \<inter> set (map ch_AssetID (concat (map (added_or_modified m) xs))) = {}" by simp
  moreover have "distinct (map ch_AssetID (added_or_modified m x))"
    "set (map ch_AssetID (added_or_modified m x)) \<subseteq> set [fst x]"
    using added_or_modified_ids [of m x] by auto
  moreover have "distinct (map ch_AssetID (concat (map (added_or_modified m) xs)))" using Cons by simp
  ultimately show ?case unfolding list.map concat.simps map_append distinct_append by blast
qed simp

text \<open>A changed field with its old and new value, for the specification.\<close>

definition changed_field :: "gany \<Rightarrow> gany \<Rightarrow> gany option" where
  "changed_field old new = (if old = new then None else Some (AMap [(''old'', old), (''new'', new)]))"

lemma portsEqual_set:
  assumes "distinct a" "distinct b"
  shows "portsEqual a b \<longleftrightarrow> set a = set b"
proof -
  have "set a = set b" if "length a = length b" "set b \<subseteq> set a"
    using that assms by (metis card_subset_eq distinct_card finite_set)
  moreover have "length a = length b" if "set a = set b" using that assms by (metis distinct_card)
  ultimately show ?thesis by (auto simp: portsEqual_def list_all_iff subset_iff)
qed

lemma asset_of_member: "asset_of as i = Some a \<Longrightarrow> a \<in> set as"
  by (auto simp: asset_of_def find_Some_iff) (metis nth_mem length_rev set_rev)

lemma diffAsset_fields:
  "map_of (diffAsset p a) ''ip'' = changed_field (AString (as_IP p)) (AString (as_IP a))"
  "map_of (diffAsset p a) ''mac'' = changed_field (AString (as_MAC p)) (AString (as_MAC a))"
  "map_of (diffAsset p a) ''hostname'' = changed_field (AString (as_Hostname p)) (AString (as_Hostname a))"
  "map_of (diffAsset p a) ''os'' = changed_field (AString (as_OS p)) (AString (as_OS a))"
  "map_of (diffAsset p a) ''ports'' =
     (if portsEqual (as_Ports p) (as_Ports a) then None
      else Some (AMap [(''old'', AList (map AInt (as_Ports p))), (''new'', AList (map AInt (as_Ports a)))]))"
  "fst ` set (diffAsset p a) \<subseteq> {''ip'', ''mac'', ''hostname'', ''os'', ''ports''}"
  by (simp_all add: diffAsset_def changed_field_def old_new_def) auto

lemma changed_ports:
  "set a \<noteq> set b \<Longrightarrow> changed_field (AList (map AInt a)) (AList (map AInt b)) =
     Some (AMap [(''old'', AList (map AInt a)), (''new'', AList (map AInt b))])"
  by (auto simp: changed_field_def inj_map_eq_map inj_def)

lemma Diff_distinct: "distinct (map ch_AssetID (asset_Diff prev cur))"
proof -
  define gone where "gone = filter (\<lambda>(i, _). map_of (indexAssets cur) i = None) (indexAssets prev)"
  have "fst ` set gone \<inter> fst ` set (indexAssets cur) = {}"
    by (auto simp: gone_def map_of_eq_None_iff image_iff)
  then have "set (map ch_AssetID (concat (map (added_or_modified (indexAssets prev)) (indexAssets cur)))) \<inter> set (map fst gone) = {}"
    using added_ids_subset [of "indexAssets prev" "indexAssets cur"] unfolding set_map by blast
  moreover have "distinct (map fst gone)"
    unfolding gone_def using index_distinct by (rule distinct_map_filter)
  moreover have "asset_Diff prev cur = concat (map (added_or_modified (indexAssets prev)) (indexAssets cur)) @
      map (\<lambda>(i, _). \<lparr>ch_Type = ChangeRemoved, ch_AssetID = i, ch_Fields = []\<rparr>) gone"
    by (simp add: asset_Diff_def gone_def Let_def)
  moreover have "map ch_AssetID (map (\<lambda>(i, _). \<lparr>ch_Type = ChangeRemoved, ch_AssetID = i, ch_Fields = []\<rparr>) gone) = map fst gone"
    by (simp add: comp_def case_prod_beta)
  ultimately show ?thesis
    using added_ids_distinct [OF index_distinct, of "indexAssets prev" cur] by (simp only: map_append distinct_append)
qed

section \<open>Properties\<close>

text \<open>
  C16: the topology is exactly what was observed, as long as no end of an event has the character \<open>>\<close> in its
  name. After any sequence of assets and events the nodes of a snapshot are the addresses of the assets and the
  ends of the events that name both, each once; for every pair of different ends there is one edge if some event
  goes from the one to the other, which counts those events and carries the protocol of the first, and none
  otherwise.
\<close>

theorem topology_exact:
  assumes "\<And>e. Event_seen e \<in> set obs \<Longrightarrow> CHR ''>'' \<notin> set (ev_Source e) \<union> set (ev_Destination e)"
    and "snap = Snapshot (topology_of obs)"
  shows "(\<forall>src dst. filter (\<lambda>eg. eg_Source eg = src \<and> eg_Target eg = dst) (sn_Edges snap) =
      (if src = dst \<or> src = [] \<or> dst = [] then []
       else (case [e. Event_seen e \<leftarrow> obs, ev_Source e = src \<and> ev_Destination e = dst] of
               [] \<Rightarrow> []
             | e # es \<Rightarrow> [\<lparr>eg_Source = src, eg_Target = dst, eg_Count = int (Suc (length es)), eg_Protocol = ev_Type e\<rparr>]))) \<and>
    distinct (map nd_ID (sn_Nodes snap)) \<and>
    nd_ID ` set (sn_Nodes snap) =
      {as_IP a | a. Asset_seen a \<in> set obs} \<union>
      (\<Union>e \<in> {e. Event_seen e \<in> set obs \<and> ev_Source e \<noteq> [] \<and> ev_Destination e \<noteq> []}. {ev_Source e, ev_Destination e})"
proof (intro conjI allI)
  let ?g = "topology_of obs"
  have ids: "map nd_ID (sn_Nodes snap) = map fst (gr_nodes ?g)"
    using topology_node_ids [where obs = obs] by (auto simp: assms(2) Snapshot_def)
  then show "distinct (map nd_ID (sn_Nodes snap))" using topology_distinct by simp
  have "nd_ID ` set (sn_Nodes snap) = dom (map_of (gr_nodes ?g))"
    using ids by (metis dom_map_of_conv_image_fst list.set_map)
  then show "nd_ID ` set (sn_Nodes snap) = {as_IP a | a. Asset_seen a \<in> set obs} \<union>
      (\<Union>e \<in> {e. Event_seen e \<in> set obs \<and> ev_Source e \<noteq> [] \<and> ev_Destination e \<noteq> []}. {ev_Source e, ev_Destination e})"
    unfolding topology_nodes by (fastforce simp: node_ids_def split: observation.splits if_splits)
  show "filter (\<lambda>eg. eg_Source eg = src \<and> eg_Target eg = dst) (sn_Edges snap) =
      (if src = dst \<or> src = [] \<or> dst = [] then []
       else (case [e. Event_seen e \<leftarrow> obs, ev_Source e = src \<and> ev_Destination e = dst] of
               [] \<Rightarrow> []
             | e # es \<Rightarrow> [\<lparr>eg_Source = src, eg_Target = dst, eg_Count = int (Suc (length es)), eg_Protocol = ev_Type e\<rparr>]))"
    for src dst
    using topology_pair [where obs = obs and src = src and dst = dst] assms by simp
qed

definition dns_seen :: "string \<Rightarrow> string \<Rightarrow> observation" where
  "dns_seen src dst = Event_seen \<lparr>ev_ID = [], ev_Type = ''DNS'', ev_Source = src, ev_Destination = dst,
     ev_Metadata = None, ev_Timestamp = 0, ev_Signature = [], ev_SignerKeyID = []\<rparr>"

text \<open>Two events of one pair and one of another.\<close>

theorem topology_exact_witness:
  "filter (\<lambda>eg. eg_Source eg = ''10.0.0.1'' \<and> eg_Target eg = ''b'')
     (sn_Edges (Snapshot (topology_of [dns_seen ''10.0.0.1'' ''b'', dns_seen ''10.0.0.1'' ''c'', dns_seen ''10.0.0.1'' ''b'']))) =
   [\<lparr>eg_Source = ''10.0.0.1'', eg_Target = ''b'', eg_Count = 2, eg_Protocol = ''DNS''\<rparr>]"
proof -
  let ?obs = "[dns_seen ''10.0.0.1'' ''b'', dns_seen ''10.0.0.1'' ''c'', dns_seen ''10.0.0.1'' ''b'']"
  have plain: "CHR ''>'' \<notin> set (ev_Source e) \<union> set (ev_Destination e)" if "Event_seen e \<in> set ?obs" for e
    using that by (auto simp: dns_seen_def)
  show ?thesis
    by (subst conjunct1 [OF topology_exact [of ?obs, OF plain refl], rule_format]) (simp_all add: dns_seen_def)
qed

text \<open>Two pairs of ends share an edge when the separator occurs in a name.\<close>

lemma edges_merged:
  "map eg_Count (sn_Edges (Snapshot (topology_of [dns_seen ''a'' ''b->c'', dns_seen ''a->b'' ''c'']))) = [2]"
  by (simp add: topology_of_def observe_def dns_seen_def OnEvent_def UpsertNode_def UpsertEdge_def NewGraph_def
      event_node_def merge_node_def edge_key_def Snapshot_def Let_def)

text \<open>
  C34: the reconciliation reports the drift. For assets whose port lists have no repetitions, and with the last
  asset of an id in either snapshot, an id is reported, and once only, exactly when its asset appeared,
  disappeared or differs in IP address, MAC address, host name, operating system or the set of its ports. An
  appearance carries address, name and system of the asset, a disappearance nothing, and a modification the old
  and the new value of exactly the fields that differ.
\<close>

theorem drift_exact:
  assumes "\<And>a. a \<in> set prev \<union> set cur \<Longrightarrow> distinct (as_Ports a)"
  shows "distinct (map ch_AssetID (asset_Diff prev cur)) \<and>
    (\<forall>i. i \<in> ch_AssetID ` set (asset_Diff prev cur) \<longleftrightarrow>
      (case (asset_of prev i, asset_of cur i) of
         (None, None) \<Rightarrow> False
       | (Some p, Some a) \<Rightarrow> as_IP p \<noteq> as_IP a \<or> as_MAC p \<noteq> as_MAC a \<or> as_Hostname p \<noteq> as_Hostname a \<or>
           as_OS p \<noteq> as_OS a \<or> set (as_Ports p) \<noteq> set (as_Ports a)
       | _ \<Rightarrow> True)) \<and>
    (\<forall>c. c \<in> set (asset_Diff prev cur) \<longrightarrow>
      (case (asset_of prev (ch_AssetID c), asset_of cur (ch_AssetID c)) of
         (None, None) \<Rightarrow> False
       | (None, Some a) \<Rightarrow> ch_Type c = ''ASSET_ADDED'' \<and>
           map_of (ch_Fields c) = [''ip'' \<mapsto> AString (as_IP a), ''hostname'' \<mapsto> AString (as_Hostname a), ''os'' \<mapsto> AString (as_OS a)]
       | (Some p, None) \<Rightarrow> ch_Type c = ''ASSET_REMOVED'' \<and> ch_Fields c = []
       | (Some p, Some a) \<Rightarrow> ch_Type c = ''ASSET_MODIFIED'' \<and>
           map_of (ch_Fields c) ''ip'' = changed_field (AString (as_IP p)) (AString (as_IP a)) \<and>
           map_of (ch_Fields c) ''mac'' = changed_field (AString (as_MAC p)) (AString (as_MAC a)) \<and>
           map_of (ch_Fields c) ''hostname'' = changed_field (AString (as_Hostname p)) (AString (as_Hostname a)) \<and>
           map_of (ch_Fields c) ''os'' = changed_field (AString (as_OS p)) (AString (as_OS a)) \<and>
           map_of (ch_Fields c) ''ports'' =
             (if set (as_Ports p) = set (as_Ports a) then None
              else changed_field (AList (map AInt (as_Ports p))) (AList (map AInt (as_Ports a)))) \<and>
           fst ` set (ch_Fields c) \<subseteq> {''ip'', ''mac'', ''hostname'', ''os'', ''ports''}))"
proof (intro conjI allI impI)
  have ports: "portsEqual (as_Ports p) (as_Ports a) \<longleftrightarrow> set (as_Ports p) = set (as_Ports a)"
    if "asset_of prev i = Some p" "asset_of cur i = Some a" for i p a
    using that assms asset_of_member by (intro portsEqual_set) blast+
  show "distinct (map ch_AssetID (asset_Diff prev cur))" by (rule Diff_distinct)
  show "i \<in> ch_AssetID ` set (asset_Diff prev cur) \<longleftrightarrow>
      (case (asset_of prev i, asset_of cur i) of
         (None, None) \<Rightarrow> False
       | (Some p, Some a) \<Rightarrow> as_IP p \<noteq> as_IP a \<or> as_MAC p \<noteq> as_MAC a \<or> as_Hostname p \<noteq> as_Hostname a \<or>
           as_OS p \<noteq> as_OS a \<or> set (as_Ports p) \<noteq> set (as_Ports a)
       | _ \<Rightarrow> True)" for i
  proof -
    have "i \<in> ch_AssetID ` set (asset_Diff prev cur) \<longleftrightarrow> change_for (asset_of prev i) (asset_of cur i) i \<noteq> None"
      unfolding image_iff Bex_def Diff_member using change_for_id by fastforce
    then show ?thesis using ports by (auto simp: change_for_def diffAsset_empty split: option.splits)
  qed
  fix c
  assume "c \<in> set (asset_Diff prev cur)"
  then have c: "change_for (asset_of prev (ch_AssetID c)) (asset_of cur (ch_AssetID c)) (ch_AssetID c) = Some c"
    unfolding Diff_member by (metis change_for_id)
  show "case (asset_of prev (ch_AssetID c), asset_of cur (ch_AssetID c)) of
         (None, None) \<Rightarrow> False
       | (None, Some a) \<Rightarrow> ch_Type c = ''ASSET_ADDED'' \<and>
           map_of (ch_Fields c) = [''ip'' \<mapsto> AString (as_IP a), ''hostname'' \<mapsto> AString (as_Hostname a), ''os'' \<mapsto> AString (as_OS a)]
       | (Some p, None) \<Rightarrow> ch_Type c = ''ASSET_REMOVED'' \<and> ch_Fields c = []
       | (Some p, Some a) \<Rightarrow> ch_Type c = ''ASSET_MODIFIED'' \<and>
           map_of (ch_Fields c) ''ip'' = changed_field (AString (as_IP p)) (AString (as_IP a)) \<and>
           map_of (ch_Fields c) ''mac'' = changed_field (AString (as_MAC p)) (AString (as_MAC a)) \<and>
           map_of (ch_Fields c) ''hostname'' = changed_field (AString (as_Hostname p)) (AString (as_Hostname a)) \<and>
           map_of (ch_Fields c) ''os'' = changed_field (AString (as_OS p)) (AString (as_OS a)) \<and>
           map_of (ch_Fields c) ''ports'' =
             (if set (as_Ports p) = set (as_Ports a) then None
              else changed_field (AList (map AInt (as_Ports p))) (AList (map AInt (as_Ports a)))) \<and>
           fst ` set (ch_Fields c) \<subseteq> {''ip'', ''mac'', ''hostname'', ''os'', ''ports''}"
  proof (cases "asset_of prev (ch_AssetID c)")
    case None
    with c obtain a where "asset_of cur (ch_AssetID c) = Some a"
      "c = \<lparr>ch_Type = ChangeAdded, ch_AssetID = ch_AssetID c,
             ch_Fields = [(''ip'', AString (as_IP a)), (''hostname'', AString (as_Hostname a)), (''os'', AString (as_OS a))]\<rparr>"
      by (auto simp: change_for_def split: option.splits)
    then have "asset_of cur (ch_AssetID c) = Some a" "ch_Type c = ChangeAdded"
      "ch_Fields c = [(''ip'', AString (as_IP a)), (''hostname'', AString (as_Hostname a)), (''os'', AString (as_OS a))]"
      by (simp, metis Change.select_convs(1), metis Change.select_convs(3))
    with None show ?thesis by (simp add: change_types fun_upd_twist)
  next
    case (Some p)
    show ?thesis
    proof (cases "asset_of cur (ch_AssetID c)")
      case None
      with Some c have "c = \<lparr>ch_Type = ChangeRemoved, ch_AssetID = ch_AssetID c, ch_Fields = []\<rparr>"
        by (simp add: change_for_def)
      then have "ch_Type c = ChangeRemoved" "ch_Fields c = []"
        by (metis Change.select_convs(1), metis Change.select_convs(3))
      with Some None show ?thesis by (simp add: change_types)
    next
      case cur: (Some a)
      from c Some cur have "c = \<lparr>ch_Type = ChangeModified, ch_AssetID = ch_AssetID c, ch_Fields = diffAsset p a\<rparr>"
        by (simp add: change_for_def split: if_splits)
      then have "ch_Type c = ChangeModified" "ch_Fields c = diffAsset p a"
        by (metis Change.select_convs(1), metis Change.select_convs(3))
      with Some cur diffAsset_fields [of p a] ports [OF Some cur] changed_ports show ?thesis by (simp add: change_types)
    qed
  qed
qed

definition host_asset :: "string \<Rightarrow> string \<Rightarrow> int list \<Rightarrow> Asset" where
  "host_asset i mac ports = \<lparr>as_ID = i, as_IP = [], as_MAC = mac, as_Hostname = [], as_OS = [], as_Ports = ports, as_FirstSeen = 0, as_LastSeen = 0\<rparr>"

text \<open>One asset has a new network card, one is unchanged but for the order of its ports, one is gone.\<close>

theorem drift_exact_witness:
  "ch_AssetID ` set (asset_Diff [host_asset ''a'' ''m1'' [80], host_asset ''b'' ''m'' [22, 80], host_asset ''c'' ''m'' []]
      [host_asset ''a'' ''m2'' [80], host_asset ''b'' ''m'' [80, 22]]) = {''a'', ''c''}"
proof -
  let ?prev = "[host_asset ''a'' ''m1'' [80], host_asset ''b'' ''m'' [22, 80], host_asset ''c'' ''m'' []]"
  let ?cur = "[host_asset ''a'' ''m2'' [80], host_asset ''b'' ''m'' [80, 22]]"
  have ports: "distinct (as_Ports a)" if "a \<in> set ?prev \<union> set ?cur" for a
    using that by (auto simp: host_asset_def)
  have "i \<in> ch_AssetID ` set (asset_Diff ?prev ?cur) \<longleftrightarrow> i \<in> {''a'', ''c''}" for i
    using conjunct1 [OF conjunct2 [OF drift_exact [of ?prev ?cur, OF ports]], THEN spec, of i]
    by (auto simp: asset_of_def host_asset_def split: if_splits)
  then show ?thesis by blast
qed

text \<open>Ports are compared as a set from one side only: a port that is replaced by a repetition is not noticed.\<close>

lemma ports_change_missed: "portsEqual [80, 443] [80, 80] \<and> \<not> portsEqual [80, 80] [80, 443]"
  by (simp add: portsEqual_def)

end
