(* ===== verification/Files.thy ===== *)
theory Files
  imports GoLib "HOL-Library.List_Lexorder" "HOL-Library.Char_ord"
begin

text \<open>
  The part of the file system that backups and cached lists use: \<^verbatim>\<open>os\<close> and \<^verbatim>\<open>path/filepath\<close>. A disk holds
  regular files under clean absolute paths; directories are the prefixes of paths. Which calls fail is a
  parameter of the disk: \<open>dk_fails\<close> by operation and path, and \<open>dk_torn\<close> says how much of a failed write
  reached the file. A rename is atomic.
\<close>

section \<open>Disks\<close>

datatype fs_op = FsRead | FsWrite | FsRename | FsRemove | FsStat | FsReadDir | FsMkdir | FsTemp

datatype fs_error = ErrNotExist | FsFailed

record disk =
  dk_files :: "(string \<times> bytes) list"
  dk_fails :: "fs_op \<Rightarrow> string \<Rightarrow> bool"
  dk_torn :: "string \<Rightarrow> nat"

abbreviation file_at :: "disk \<Rightarrow> string \<Rightarrow> bytes option" where
  "file_at d p \<equiv> map_of (dk_files d) p"

definition os_ReadFile :: "string \<Rightarrow> disk \<Rightarrow> fs_error + bytes" where
  "os_ReadFile p d =
     (if dk_fails d FsRead p then Inl FsFailed
      else (case file_at d p of None \<Rightarrow> Inl ErrNotExist | Some c \<Rightarrow> Inr c))"

definition set_file :: "string \<Rightarrow> bytes \<Rightarrow> disk \<Rightarrow> disk" where
  "set_file p c d = d\<lparr>dk_files := AList.update p c (dk_files d)\<rparr>"

definition drop_file :: "string \<Rightarrow> disk \<Rightarrow> disk" where
  "drop_file p d = d\<lparr>dk_files := AList.delete p (dk_files d)\<rparr>"

definition os_WriteFile :: "string \<Rightarrow> bytes \<Rightarrow> disk \<Rightarrow> fs_error option \<times> disk" where
  "os_WriteFile p c d =
     (if dk_fails d FsWrite p then (Some FsFailed, set_file p (take (dk_torn d p) c) d)
      else (None, set_file p c d))"

definition os_Rename :: "string \<Rightarrow> string \<Rightarrow> disk \<Rightarrow> fs_error option \<times> disk" where
  "os_Rename old new d =
     (if dk_fails d FsRename old then (Some FsFailed, d)
      else (case file_at d old of
              None \<Rightarrow> (Some ErrNotExist, d)
            | Some c \<Rightarrow> (None, set_file new c (drop_file old d))))"

definition os_Remove :: "string \<Rightarrow> disk \<Rightarrow> fs_error option \<times> disk" where
  "os_Remove p d =
     (if dk_fails d FsRemove p then (Some FsFailed, d)
      else if file_at d p = None then (Some ErrNotExist, d)
      else (None, drop_file p d))"

definition os_Stat :: "string \<Rightarrow> disk \<Rightarrow> fs_error option" where
  "os_Stat p d = (if dk_fails d FsStat p then Some FsFailed else if file_at d p = None then Some ErrNotExist else None)"

section \<open>Paths\<close>

definition filepath_Join :: "string \<Rightarrow> string \<Rightarrow> string" where
  "filepath_Join dir name = dir @ ''/'' @ name"

definition filepath_Ext :: "string \<Rightarrow> string" where
  "filepath_Ext name =
     (if CHR ''.'' \<in> set name then CHR ''.'' # rev (takeWhile (\<lambda>c. c \<noteq> CHR ''.'') (rev name)) else [])"

definition entries_of :: "string \<Rightarrow> disk \<Rightarrow> string list" where
  "entries_of dir d =
     map (drop (length dir + 1))
       (filter (\<lambda>p. prefix (dir @ ''/'') p \<and> CHR ''/'' \<notin> set (drop (length dir + 1) p)) (map fst (dk_files d)))"

text \<open>\<^verbatim>\<open>os.ReadDir\<close> sorts by name.\<close>

definition os_ReadDir :: "string \<Rightarrow> disk \<Rightarrow> fs_error + string list" where
  "os_ReadDir dir d = (if dk_fails d FsReadDir dir then Inl FsFailed else Inr (sort (entries_of dir d)))"

section \<open>Lemmas\<close>

definition disk_ok :: "disk \<Rightarrow> bool" where
  "disk_ok d \<longleftrightarrow> distinct (map fst (dk_files d))"

lemma file_at_set [simp]: "file_at (set_file p c d) q = (if q = p then Some c else file_at d q)"
  by (simp add: set_file_def update_conv')

lemma file_at_drop [simp]: "file_at (drop_file p d) q = (if q = p then None else file_at d q)"
  by (simp add: drop_file_def delete_conv')

lemma fails_set [simp]: "dk_fails (set_file p c d) = dk_fails d" "dk_torn (set_file p c d) = dk_torn d"
  by (simp_all add: set_file_def)

lemma fails_drop [simp]: "dk_fails (drop_file p d) = dk_fails d" "dk_torn (drop_file p d) = dk_torn d"
  by (simp_all add: drop_file_def)

lemma disk_ok_set [simp]: "disk_ok d \<Longrightarrow> disk_ok (set_file p c d)"
  by (simp add: disk_ok_def set_file_def distinct_update)

lemma disk_ok_drop [simp]: "disk_ok d \<Longrightarrow> disk_ok (drop_file p d)"
  by (simp add: disk_ok_def drop_file_def distinct_delete)

lemma entries_iff:
  "n \<in> set (entries_of dir d) \<longleftrightarrow> CHR ''/'' \<notin> set n \<and> file_at d (filepath_Join dir n) \<noteq> None"
proof
  assume "n \<in> set (entries_of dir d)"
  then obtain p where p: "p \<in> fst ` set (dk_files d)" "prefix (dir @ ''/'') p" "n = drop (length dir + 1) p" "CHR ''/'' \<notin> set n"
    by (auto simp: entries_of_def)
  from p(2,3) have "p = filepath_Join dir n" by (auto simp: prefix_def filepath_Join_def)
  with p(1,4) show "CHR ''/'' \<notin> set n \<and> file_at d (filepath_Join dir n) \<noteq> None" by (auto simp: map_of_eq_None_iff)
next
  assume n: "CHR ''/'' \<notin> set n \<and> file_at d (filepath_Join dir n) \<noteq> None"
  then have "filepath_Join dir n \<in> fst ` set (dk_files d)" by (auto simp: map_of_eq_None_iff)
  then have "n \<in> drop (length dir + 1) ` {p \<in> fst ` set (dk_files d). prefix (dir @ ''/'') p \<and> CHR ''/'' \<notin> set (drop (length dir + 1) p)}"
    using n by (intro image_eqI [of _ _ "filepath_Join dir n"]) (auto simp: filepath_Join_def)
  then show "n \<in> set (entries_of dir d)" by (auto simp: entries_of_def)
qed

lemma entries_distinct:
  assumes "disk_ok d"
  shows "distinct (entries_of dir d)"
proof -
  let ?ps = "filter (\<lambda>p. prefix (dir @ ''/'') p \<and> CHR ''/'' \<notin> set (drop (length dir + 1) p)) (map fst (dk_files d))"
  have "inj_on (drop (length dir + 1)) (set ?ps)"
    by (rule inj_onI) (auto simp: prefix_def)
  with assms show ?thesis by (simp add: entries_of_def distinct_map disk_ok_def del: filter_filter)
qed

lemma Join_inj [simp]: "filepath_Join dir m = filepath_Join dir n \<longleftrightarrow> m = n"
  by (simp add: filepath_Join_def)

lemma Ext_iff:
  assumes "e \<noteq> []" "hd e = CHR ''.''" "CHR ''.'' \<notin> set (tl e)"
  shows "filepath_Ext s = e \<longleftrightarrow> suffix e s"
proof
  assume ext: "filepath_Ext s = e"
  with assms(1) have "CHR ''.'' \<in> set s" by (auto simp: filepath_Ext_def split: if_splits)
  then obtain ys zs where s: "s = ys @ CHR ''.'' # zs" "CHR ''.'' \<notin> set zs" by (metis split_list_last)
  then have "takeWhile (\<lambda>c. c \<noteq> CHR ''.'') (rev zs @ CHR ''.'' # rev ys) = rev zs"
    by (subst takeWhile_append2) auto
  with ext s(1) have "e = CHR ''.'' # zs" by (simp add: filepath_Ext_def)
  with s(1) show "suffix e s" by (auto simp: suffix_def)
next
  assume "suffix e s"
  then obtain r where s: "s = r @ e" by (rule suffixE)
  obtain u where e: "e = CHR ''.'' # u" "CHR ''.'' \<notin> set u" using assms by (cases e) auto
  then have "takeWhile (\<lambda>c. c \<noteq> CHR ''.'') (rev u @ CHR ''.'' # rev r) = rev u"
    by (subst takeWhile_append2) auto
  with s e show "filepath_Ext s = e" by (simp add: filepath_Ext_def)
qed

lemma gostring_str_bytes [simp]: "gostring (str_bytes s) = s"
  by (induction s) (simp_all add: gostring_def str_bytes_def unat_of_nat)

text \<open>A hexadecimal digest with white space after it is trimmed to the digest.\<close>

lemma trim_front_stop:
  assumes "\<forall>r \<in> set runes. hd r \<noteq> c"
  shows "trim_front runes (c # s) = c # s"
proof -
  have "find (\<lambda>r. r \<noteq> [] \<and> prefix r (c # s)) runes = None"
    using assms by (auto simp: find_None_iff prefix_Cons)
  then show ?thesis by (subst trim_front.simps) simp
qed

lemma trim_front_step:
  assumes "[c] \<in> set runes" "\<forall>r \<in> set runes. hd r = c \<longrightarrow> r = [c] \<or> r = []"
  shows "trim_front runes (c # s) = trim_front runes s"
proof -
  have "find (\<lambda>r. r \<noteq> [] \<and> prefix r (c # s)) runes \<noteq> None"
    using assms(1) by (auto simp: find_None_iff)
  then obtain r where r: "find (\<lambda>r. r \<noteq> [] \<and> prefix r (c # s)) runes = Some r" by blast
  then have "r \<in> set runes" "r \<noteq> []" "prefix r (c # s)" by (auto simp: find_Some_iff)
  with assms(2) have "r = [c]" by (auto simp: prefix_Cons)
  with r show ?thesis by (subst trim_front.simps) simp
qed

lemma space_heads:
  assumes "of_char c \<in> {48..57 :: nat} \<union> {97..102}" "r \<in> set space_runes \<union> set (map rev space_runes)"
  shows "hd r \<noteq> c"
proof
  assume "hd r = c"
  then have "of_char (hd r) \<in> {48..57 :: nat} \<union> {97..102}" using assms(1) by simp
  with assms(2) show False by (auto simp: space_runes_def upt_rec)
qed

lemma trim_front_solid:
  assumes "s \<noteq> []" "of_char (hd s) \<in> {48..57 :: nat} \<union> {97..102}"
  shows "trim_front space_runes s = s" "trim_front (map rev space_runes) s = s"
proof -
  obtain c t where s: "s = c # t" using assms(1) by (cases s) auto
  have "hd r \<noteq> c" if "r \<in> set space_runes \<union> set (map rev space_runes)" for r using space_heads [OF _ that] assms(2) s by simp
  then show "trim_front space_runes s = s" "trim_front (map rev space_runes) s = s"
    unfolding s by (blast intro: trim_front_stop)+
qed

lemma trim_solid:
  assumes "s \<noteq> []" "of_char (hd s) \<in> {48..57 :: nat} \<union> {97..102}" "of_char (last s) \<in> {48..57 :: nat} \<union> {97..102}"
  shows "strings_TrimSpace s = s"
  using trim_front_solid(1) [OF assms(1,2)] trim_front_solid(2) [of "rev s"] assms by (simp add: strings_TrimSpace_def hd_rev)

lemma trim_hex_line:
  assumes "bs \<noteq> []"
  shows "strings_TrimSpace (hex_EncodeToString bs @ [CHR 0x0A]) = hex_EncodeToString bs"
proof -
  let ?h = "hex_EncodeToString bs"
  have ne: "?h \<noteq> []" using assms by (metis length_hex length_0_conv mult_eq_0_iff zero_neq_numeral)
  have "of_char (hd ?h) \<in> {48..57 :: nat} \<union> {97..102}" "of_char (last ?h) \<in> {48..57 :: nat} \<union> {97..102}"
    using ne hex_chars by (meson hd_in_set last_in_set)+
  with ne have "trim_front space_runes (?h @ [CHR 0x0A]) = ?h @ [CHR 0x0A]" "trim_front (map rev space_runes) (rev ?h) = rev ?h"
    using trim_front_solid(1) [of "?h @ [CHR 0x0A]"] trim_front_solid(2) [of "rev ?h"] by (simp_all add: hd_rev)
  moreover have "trim_front (map rev space_runes) (CHR 0x0A # rev ?h) = trim_front (map rev space_runes) (rev ?h)"
    by (rule trim_front_step) code_simp+
  ultimately show ?thesis by (simp add: strings_TrimSpace_def)
qed

end
