(* ===== verification/Backup.thy ===== *)
theory Backup
  imports Files Transparency_Log
begin

text \<open>
  Encrypted hot backups and their restoration (\<^verbatim>\<open>internal/storage/backup\<close>: \<^verbatim>\<open>types.go\<close>, \<^verbatim>\<open>source.go\<close>,
  \<^verbatim>\<open>engine.go\<close>, \<^verbatim>\<open>sinks.go\<close>, \<^verbatim>\<open>restore.go\<close>) and the administration endpoint (\<^verbatim>\<open>internal/api/admin_backup.go\<close>).
  Parameters are the encryption library \<^verbatim>\<open>age\<close>, the file format of the database, the format of time
  stamps and the file system of \<^verbatim>\<open>Files\<close>. \<open>ctx\<close> gives the error of the context when the disk is in a given state.
\<close>

section \<open>Parameters\<close>

text \<open>\<^verbatim>\<open>filippo.io/age\<close>: encryption to recipients, decryption with identities.\<close>

record ('rcp, 'idt) age =
  age_Encrypt :: "bytes \<Rightarrow> 'rcp list \<Rightarrow> bytes option"
  age_Decrypt :: "bytes \<Rightarrow> 'idt list \<Rightarrow> bytes option"

text \<open>
  The file of a database: \<open>bf_Image\<close> is what \<^verbatim>\<open>Tx.WriteTo\<close> copies out, \<open>bf_Load\<close> the database \<^verbatim>\<open>bolt.Open\<close>
  finds in a file, \<open>bf_Store\<close> the file after the database in it was changed and closed.
\<close>

record 'db boltfile =
  bf_Image :: "'db \<Rightarrow> bytes"
  bf_Load :: "bytes \<Rightarrow> 'db option"
  bf_Store :: "bytes \<Rightarrow> 'db \<Rightarrow> bytes"

section \<open>Artifacts and errors\<close>

record Artifact =
  ar_Filename :: string
  ar_Encrypted :: bytes
  ar_Sidecar :: bytes
  ar_CreatedAt :: gotime
  ar_TreeSize :: u64
  ar_RootHashHex :: string

datatype ctx_error = Canceled | DeadlineExceeded

type_synonym ctxt = "disk \<Rightarrow> ctx_error option"

datatype backup_error =
    ErrNoSinks | ErrNoSource | ErrNoRecipients | ErrBackupCanceled | ErrContext ctx_error | ErrSTHMismatch string
  | NoDB | SourceWrite backup_error | EncryptFailed | DecryptFailed
  | EmptySidecar | SidecarMismatch string string
  | SinkFailed string backup_error | MultiFailed string backup_error
  | DirRequired | SinkMkdir | FileError fs_error | RotateFailed fs_error
  | PathsRequired | ReadEncrypted fs_error | ReadSidecar fs_error | SidecarVerify backup_error
  | CreateStaging fs_error | WriteStaging fs_error | StagedInvalid | RenameAside fs_error | RenameIntoPlace fs_error

section \<open>The source\<close>

record 'db BoltSource =
  so_DB :: "'db option"
  so_Tree :: "'db Tree option"

definition source_WriteTo :: "'db boltfile \<Rightarrow> ctx_error option \<Rightarrow> 'db BoltSource \<Rightarrow> backup_error + bytes" where
  "source_WriteTo F ctx_err s =
     (case so_DB s of
        None \<Rightarrow> Inl NoDB
      | Some db \<Rightarrow> (case ctx_err of Some c \<Rightarrow> Inl (ErrContext c) | None \<Rightarrow> Inr (bf_Image F db)))"

definition BackupMetadata :: "'db BoltSource \<Rightarrow> u64 \<times> string" where
  "BackupMetadata s =
     (case so_Tree s of None \<Rightarrow> (0, []) | Some t \<Rightarrow> (of_nat (Size t), hex_EncodeToString (Root t)))"

section \<open>Sinks\<close>

datatype Sink = LocalSink string int | MultiSink "Sink list"

definition NewLocalSink :: "string \<Rightarrow> int \<Rightarrow> disk \<Rightarrow> backup_error + Sink" where
  "NewLocalSink dir keepLast d =
     (if dir = [] then Inl DirRequired
      else if dk_fails d FsMkdir dir then Inl SinkMkdir
      else Inr (LocalSink dir keepLast))"

definition NewMultiSink :: "Sink list \<Rightarrow> backup_error + Sink" where
  "NewMultiSink sinks = (if sinks = [] then Inl ErrNoSinks else Inr (MultiSink sinks))"

fun sink_Name :: "Sink \<Rightarrow> string" where
  "sink_Name (LocalSink dir _) = ''local:'' @ dir"
| "sink_Name (MultiSink sinks) = ''multi['' @ strings_Join (map sink_Name sinks) '','' @ '']''"

definition atomicWrite :: "string \<Rightarrow> bytes \<Rightarrow> disk \<Rightarrow> fs_error option \<times> disk" where
  "atomicWrite path body d =
     (case os_WriteFile (path @ ''.tmp'') body d of
        (Some e, d1) \<Rightarrow> (Some e, d1)
      | (None, d1) \<Rightarrow> os_Rename (path @ ''.tmp'') path d1)"

definition sidecar_of :: "string \<Rightarrow> string" where
  "sidecar_of path = path @ ''.sha256''"

definition backup_pairs :: "string \<Rightarrow> disk \<Rightarrow> string list \<Rightarrow> string list" where
  "backup_pairs dir d entries =
     filter (\<lambda>name. filepath_Ext name = ''.age'' \<and> os_Stat (sidecar_of (filepath_Join dir name)) d = None) entries"

definition remove_pair :: "string \<Rightarrow> string \<Rightarrow> disk \<Rightarrow> disk" where
  "remove_pair dir name d =
     snd (os_Remove (sidecar_of (filepath_Join dir name)) (snd (os_Remove (filepath_Join dir name) d)))"

definition rotate :: "string \<Rightarrow> int \<Rightarrow> disk \<Rightarrow> fs_error option \<times> disk" where
  "rotate dir keepLast d =
     (case os_ReadDir dir d of
        Inl e \<Rightarrow> (Some e, d)
      | Inr entries \<Rightarrow>
          (let pairs = backup_pairs dir d entries
           in if int (length pairs) \<le> keepLast then (None, d)
              else
                (let toRemove = take (length pairs - nat keepLast) (sort pairs)
                 in (None, fold (remove_pair dir) toRemove d))))"

definition local_Write :: "ctxt \<Rightarrow> string \<Rightarrow> int \<Rightarrow> Artifact \<Rightarrow> disk \<Rightarrow> backup_error option \<times> disk" where
  "local_Write ctx dir keepLast art d =
     (case ctx d of
        Some c \<Rightarrow> (Some (ErrContext c), d)
      | None \<Rightarrow>
        (let encPath = filepath_Join dir (ar_Filename art);
             sidePath = sidecar_of encPath
         in (case atomicWrite encPath (ar_Encrypted art) d of
               (Some e, d1) \<Rightarrow> (Some (FileError e), d1)
             | (None, d1) \<Rightarrow>
                 (case atomicWrite sidePath (ar_Sidecar art) d1 of
                    (Some e, d2) \<Rightarrow> (Some (FileError e), snd (os_Remove encPath d2))
                  | (None, d2) \<Rightarrow>
                      if keepLast > 0 then
                        (case rotate dir keepLast d2 of
                           (Some e, d3) \<Rightarrow> (Some (RotateFailed e), d3)
                         | (None, d3) \<Rightarrow> (None, d3))
                      else (None, d2)))))"

fun sink_Write :: "ctxt \<Rightarrow> Artifact \<Rightarrow> Sink \<Rightarrow> disk \<Rightarrow> backup_error option \<times> disk"
  and multi_Write :: "ctxt \<Rightarrow> Artifact \<Rightarrow> Sink list \<Rightarrow> disk \<Rightarrow> backup_error option \<times> disk" where
  "sink_Write ctx art (LocalSink dir keepLast) d = local_Write ctx dir keepLast art d"
| "sink_Write ctx art (MultiSink sinks) d = multi_Write ctx art sinks d"
| "multi_Write ctx art [] d = (None, d)"
| "multi_Write ctx art (s # ss) d =
     (case ctx d of
        Some c \<Rightarrow> (Some (ErrContext c), d)
      | None \<Rightarrow>
        (case sink_Write ctx art s d of
           (Some e, d1) \<Rightarrow> (Some (MultiFailed (sink_Name s) e), d1)
         | (None, d1) \<Rightarrow> multi_Write ctx art ss d1))"

section \<open>The engine\<close>

record ('db, 'rcp) BackupEngine =
  en_source :: "'db BoltSource"
  en_sinks :: "Sink list"
  en_recipients :: "'rcp list"

definition NewBackupEngine :: "'db BoltSource option \<Rightarrow> Sink list \<Rightarrow> 'rcp list \<Rightarrow> backup_error + ('db, 'rcp) BackupEngine" where
  "NewBackupEngine source sinks recipients =
     (case source of
        None \<Rightarrow> Inl ErrNoSource
      | Some s \<Rightarrow>
          if sinks = [] then Inl ErrNoSinks
          else if recipients = [] then Inl ErrNoRecipients
          else Inr \<lparr>en_source = s, en_sinks = sinks, en_recipients = recipients\<rparr>)"

definition formatFilename :: "(gotime \<Rightarrow> string) \<Rightarrow> gotime \<Rightarrow> u64 \<Rightarrow> string" where
  "formatFilename stamp t treeSize = ''backup-'' @ stamp t @ ''-tree'' @ dec (unat treeSize) @ ''.db.age''"

definition sidecar_text :: "bytes \<Rightarrow> bytes" where
  "sidecar_text encrypted = str_bytes (hex_EncodeToString (sha256 encrypted) @ [CHR 0x0A])"

definition encryptForRecipients :: "('rcp, 'idt) age \<Rightarrow> bytes \<Rightarrow> 'rcp list \<Rightarrow> bytes option" where
  "encryptForRecipients A cleartext recipients = age_Encrypt A cleartext recipients"

fun write_sinks :: "ctxt \<Rightarrow> Artifact \<Rightarrow> Sink list \<Rightarrow> disk \<Rightarrow> backup_error option \<times> disk" where
  "write_sinks ctx art [] d = (None, d)"
| "write_sinks ctx art (s # ss) d =
     (case sink_Write ctx art s d of
        (Some e, d1) \<Rightarrow> (Some (SinkFailed (sink_Name s) e), d1)
      | (None, d1) \<Rightarrow> write_sinks ctx art ss d1)"

text \<open>
  \<open>tx_ctx\<close> is the state of the context when the read transaction starts. \<open>meta\<close> is the source when its metadata is read: that happens after the copy, outside its transaction, so the
  log may have grown. The first component of the result is the artifact the caller gets next to the error.
\<close>

definition empty_artifact :: Artifact where
  "empty_artifact = \<lparr>ar_Filename = [], ar_Encrypted = [], ar_Sidecar = [], ar_CreatedAt = 0, ar_TreeSize = 0, ar_RootHashHex = []\<rparr>"

definition Run ::
  "'db boltfile \<Rightarrow> ('rcp, 'idt) age \<Rightarrow> (gotime \<Rightarrow> string) \<Rightarrow> ctxt \<Rightarrow> ctx_error option \<Rightarrow> gotime \<Rightarrow> 'db BoltSource \<Rightarrow>
   ('db, 'rcp) BackupEngine \<Rightarrow> disk \<Rightarrow> (Artifact \<times> backup_error option) \<times> disk" where
  "Run F A stamp ctx tx_ctx now meta e d =
     (if ctx d \<noteq> None then ((empty_artifact, Some ErrBackupCanceled), d)
      else
        (case source_WriteTo F tx_ctx (en_source e) of
           Inl err \<Rightarrow> ((empty_artifact, Some (SourceWrite err)), d)
         | Inr raw \<Rightarrow>
             (case encryptForRecipients A raw (en_recipients e) of
                None \<Rightarrow> ((empty_artifact, Some EncryptFailed), d)
              | Some encrypted \<Rightarrow>
                  (let (treeSize, rootHex) = BackupMetadata meta;
                       artifact = \<lparr>ar_Filename = formatFilename stamp now treeSize, ar_Encrypted = encrypted,
                         ar_Sidecar = sidecar_text encrypted, ar_CreatedAt = now, ar_TreeSize = treeSize,
                         ar_RootHashHex = rootHex\<rparr>
                   in (case write_sinks ctx artifact (en_sinks e) d of (err, d1) \<Rightarrow> ((artifact, err), d1))))))"

definition DecryptArtifact :: "('rcp, 'idt) age \<Rightarrow> bytes \<Rightarrow> 'idt list \<Rightarrow> backup_error + bytes" where
  "DecryptArtifact A encrypted identities =
     (if identities = [] then Inl ErrNoRecipients
      else (case age_Decrypt A encrypted identities of None \<Rightarrow> Inl DecryptFailed | Some out \<Rightarrow> Inr out))"

definition VerifySidecar :: "bytes \<Rightarrow> bytes \<Rightarrow> backup_error option" where
  "VerifySidecar encrypted sidecar =
     (let expectedHex = strings_TrimSpace (gostring sidecar);
          gotHex = hex_EncodeToString (sha256 encrypted)
      in if expectedHex = [] then Some EmptySidecar
         else if strings_ToLower expectedHex \<noteq> strings_ToLower gotHex then Some (SidecarMismatch expectedHex gotHex)
         else None)"

section \<open>Restoration\<close>

record 'idt RestoreInput =
  ri_EncryptedPath :: string
  ri_SidecarPath :: string
  ri_Identities :: "'idt list"
  ri_TargetPath :: string
  ri_ExpectedSTH :: "STH option"
  ri_AllowSTHMismatch :: bool

record RestoreReport =
  rr_BackupCreatedAt :: gotime
  rr_BackupTreeSize :: u64
  rr_BackupRootHex :: string
  rr_SwappedAt :: gotime
  rr_OldDBBackupPath :: string
  rr_NewDBPath :: string
  rr_STHMatch :: bool
  rr_STHMismatchNote :: string

definition empty_restore_report :: RestoreReport where
  "empty_restore_report = \<lparr>rr_BackupCreatedAt = 0, rr_BackupTreeSize = 0, rr_BackupRootHex = [], rr_SwappedAt = 0,
     rr_OldDBBackupPath = [], rr_NewDBPath = [], rr_STHMatch = False, rr_STHMismatchNote = []\<rparr>"

text \<open>
  What the surroundings contribute to one restoration: the name \<^verbatim>\<open>os.CreateTemp\<close> chose, the time the
  staging file is written, and the time of the swap.
\<close>

record restore_env =
  re_staging :: string
  re_written :: gotime
  re_swap :: gotime

text \<open>
  The staged file is opened for writing: the log creates its buckets if they are missing, and the file keeps them.
\<close>

definition inspectStaged ::
  "'db bolt \<Rightarrow> codec \<Rightarrow> 'db boltfile \<Rightarrow> gotime \<Rightarrow> string \<Rightarrow> disk \<Rightarrow> (u64 \<times> string \<times> gotime) option \<times> disk" where
  "inspectStaged B J F written path d =
     (if os_Stat path d \<noteq> None then (None, d)
      else
        (case file_at d path of
           None \<Rightarrow> (None, d)
         | Some contents \<Rightarrow>
             (case bf_Load F contents of
                None \<Rightarrow> (None, d)
              | Some db \<Rightarrow>
                  (case Open B J (Some db) of
                     Inl _ \<Rightarrow> (None, d)
                   | Inr tree \<Rightarrow>
                       (Some (of_nat (Size tree), hex_EncodeToString (Root tree), written),
                        set_file path (bf_Store F contents (t_db tree)) d)))))"

definition mismatch_note :: "STH \<Rightarrow> u64 \<Rightarrow> string \<Rightarrow> string" where
  "mismatch_note sth sz rootHex =
     ''journal expected size='' @ dec (sth_TreeSize sth) @ '' root='' @ hex_EncodeToString (sth_RootHash sth) @
     '', backup carries size='' @ dec (unat sz) @ '' root='' @ rootHex"

text \<open>The journal check fills in the report; \<open>Some\<close> is the refusal.\<close>

definition check_sth ::
  "'idt RestoreInput \<Rightarrow> u64 \<Rightarrow> string \<Rightarrow> RestoreReport \<Rightarrow> backup_error option \<times> RestoreReport" where
  "check_sth inp sz rootHex report =
     (case ri_ExpectedSTH inp of
        None \<Rightarrow>
          (None, report\<lparr>rr_STHMatch := True,
             rr_STHMismatchNote := ''no ExpectedSTH supplied '' @ [CHR 0xE2, CHR 0x80, CHR 0x94] @ '' restored without journal-record comparison''\<rparr>)
      | Some sth \<Rightarrow>
          (let match = (of_nat (sth_TreeSize sth) = sz \<and> hex_EncodeToString (sth_RootHash sth) = rootHex);
               report1 = report\<lparr>rr_STHMatch := match\<rparr>
           in if match then (None, report1)
              else
                (let note = mismatch_note sth sz rootHex; report2 = report1\<lparr>rr_STHMismatchNote := note\<rparr>
                 in if ri_AllowSTHMismatch inp then (None, report2) else (Some (ErrSTHMismatch note), report2))))"

definition backup_path :: "(gotime \<Rightarrow> string) \<Rightarrow> restore_env \<Rightarrow> string \<Rightarrow> string" where
  "backup_path stamp env target = target @ ''.bak.'' @ stamp (re_swap env)"

definition swap_in ::
  "(gotime \<Rightarrow> string) \<Rightarrow> restore_env \<Rightarrow> string \<Rightarrow> RestoreReport \<Rightarrow> disk \<Rightarrow>
   (RestoreReport \<times> backup_error option) \<times> disk" where
  "swap_in stamp env target report d =
     (let report1 = report\<lparr>rr_SwappedAt := re_swap env\<rparr>;
          aside = (if os_Stat target d = None
                   then (case os_Rename target (backup_path stamp env target) d of
                           (Some e, d1) \<Rightarrow> (Some e, report1, d1)
                         | (None, d1) \<Rightarrow> (None, report1\<lparr>rr_OldDBBackupPath := backup_path stamp env target\<rparr>, d1))
                   else (None, report1, d))
      in (case aside of
            (Some e, report2, d1) \<Rightarrow> ((report2, Some (RenameAside e)), snd (os_Remove (re_staging env) d1))
          | (None, report2, d1) \<Rightarrow>
              (case os_Rename (re_staging env) target d1 of
                 (Some e, d2) \<Rightarrow> ((report2, Some (RenameIntoPlace e)), snd (os_Remove (re_staging env) d2))
               | (None, d2) \<Rightarrow> ((report2, None), d2))))"

definition install ::
  "'db bolt \<Rightarrow> codec \<Rightarrow> 'db boltfile \<Rightarrow> (gotime \<Rightarrow> string) \<Rightarrow> restore_env \<Rightarrow> 'idt RestoreInput \<Rightarrow> bytes \<Rightarrow> disk \<Rightarrow>
   (RestoreReport \<times> backup_error option) \<times> disk" where
  "install B J F stamp env inp plain d =
     (if dk_fails d FsTemp (re_staging env) then ((empty_restore_report, Some (CreateStaging FsFailed)), d)
      else
        (case os_WriteFile (re_staging env) plain d of
           (Some e, d1) \<Rightarrow> ((empty_restore_report, Some (WriteStaging e)), snd (os_Remove (re_staging env) d1))
         | (None, d1) \<Rightarrow>
             (case inspectStaged B J F (re_written env) (re_staging env) d1 of
                (None, d2) \<Rightarrow> ((empty_restore_report, Some StagedInvalid), snd (os_Remove (re_staging env) d2))
              | (Some (sz, rootHex, created), d2) \<Rightarrow>
                  (case check_sth inp sz rootHex
                     (empty_restore_report\<lparr>rr_BackupCreatedAt := created, rr_BackupTreeSize := sz, rr_BackupRootHex := rootHex,
                        rr_NewDBPath := ri_TargetPath inp\<rparr>) of
                     (Some e, report) \<Rightarrow> ((report, Some e), snd (os_Remove (re_staging env) d2))
                   | (None, report) \<Rightarrow> swap_in stamp env (ri_TargetPath inp) report d2))))"

definition Restore ::
  "'db bolt \<Rightarrow> codec \<Rightarrow> 'db boltfile \<Rightarrow> ('rcp, 'idt) age \<Rightarrow> (gotime \<Rightarrow> string) \<Rightarrow> ctxt \<Rightarrow> restore_env \<Rightarrow>
   'idt RestoreInput \<Rightarrow> disk \<Rightarrow> (RestoreReport \<times> backup_error option) \<times> disk" where
  "Restore B J F A stamp ctx env inp d =
     (if ctx d \<noteq> None then ((empty_restore_report, Some ErrBackupCanceled), d)
      else if ri_EncryptedPath inp = [] \<or> ri_TargetPath inp = [] then ((empty_restore_report, Some PathsRequired), d)
      else if ri_Identities inp = [] then ((empty_restore_report, Some ErrNoRecipients), d)
      else
        (let sidePath = (if ri_SidecarPath inp = [] then sidecar_of (ri_EncryptedPath inp) else ri_SidecarPath inp)
         in (case os_ReadFile (ri_EncryptedPath inp) d of
               Inl e \<Rightarrow> ((empty_restore_report, Some (ReadEncrypted e)), d)
             | Inr enc \<Rightarrow>
                 (case os_ReadFile sidePath d of
                    Inl e \<Rightarrow> ((empty_restore_report, Some (ReadSidecar e)), d)
                  | Inr side \<Rightarrow>
                      (case VerifySidecar enc side of
                         Some e \<Rightarrow> ((empty_restore_report, Some (SidecarVerify e)), d)
                       | None \<Rightarrow>
                           (case DecryptArtifact A enc (ri_Identities inp) of
                              Inl e \<Rightarrow> ((empty_restore_report, Some e), d)
                            | Inr plain \<Rightarrow> install B J F stamp env inp plain d))))))"

section \<open>The administration endpoint\<close>

record ('db, 'rcp) AdminBackupHandler =
  ab_DB :: "'db option"
  ab_Tree :: "'db Tree option"
  ab_Recipients :: "'rcp list"
  ab_SinkDir :: string
  ab_KeepLast :: int

record adminBackupResponse =
  br_Filename :: string
  br_TreeSize :: u64
  br_RootHashHex :: string
  br_CreatedAt :: gotime
  br_SinkDir :: string

datatype backup_reply = BackupText string | BackupFailure string backup_error | BackupDone adminBackupResponse

text \<open>\<^verbatim>\<open>errors.Is(err, context.DeadlineExceeded)\<close>; the error of an engine that was cancelled before it started does not wrap it.\<close>

fun deadline_exceeded :: "backup_error \<Rightarrow> bool" where
  "deadline_exceeded (ErrContext c) = (c = DeadlineExceeded)"
| "deadline_exceeded (SourceWrite e) = deadline_exceeded e"
| "deadline_exceeded (SinkFailed n e) = deadline_exceeded e"
| "deadline_exceeded (MultiFailed n e) = deadline_exceeded e"
| "deadline_exceeded _ = False"

text \<open>\<open>running\<close> is the flag another request may hold; \<open>meta\<close> is as for the engine.\<close>

definition backup_ServeHTTP ::
  "'db boltfile \<Rightarrow> ('rcp, 'idt) age \<Rightarrow> (gotime \<Rightarrow> string) \<Rightarrow> ctxt \<Rightarrow> ctx_error option \<Rightarrow> gotime \<Rightarrow> 'db BoltSource \<Rightarrow> string \<Rightarrow> bool \<Rightarrow>
   ('db, 'rcp) AdminBackupHandler \<Rightarrow> disk \<Rightarrow> (nat \<times> backup_reply) \<times> disk" where
  "backup_ServeHTTP F A stamp ctx tx_ctx now meta method running h d =
     (if method \<noteq> ''POST'' then ((405, BackupText ''POST only''), d)
      else if ab_DB h = None then ((503, BackupText ''backup unavailable (db not initialised)''), d)
      else if ab_Recipients h = [] then ((503, BackupText ''backup unconfigured (no age recipients)''), d)
      else if ab_SinkDir h = [] then ((503, BackupText ''backup unconfigured (no output dir)''), d)
      else if running then ((409, BackupText ''backup already in progress''), d)
      else
        (case NewLocalSink (ab_SinkDir h) (ab_KeepLast h) d of
           Inl e \<Rightarrow> ((500, BackupFailure ''sink init'' e), d)
         | Inr sink \<Rightarrow>
             (case NewBackupEngine (Some \<lparr>so_DB = ab_DB h, so_Tree = ab_Tree h\<rparr>) [sink] (ab_Recipients h) of
                Inl e \<Rightarrow> ((500, BackupFailure ''engine init'' e), d)
              | Inr engine \<Rightarrow>
                  (case Run F A stamp ctx tx_ctx now meta engine d of
                     ((art, Some e), d1) \<Rightarrow>
                       (if deadline_exceeded e then ((504, BackupFailure ''backup timed out'' e), d1)
                        else ((500, BackupFailure ''backup failed'' e), d1))
                   | ((art, None), d1) \<Rightarrow>
                       ((201, BackupDone \<lparr>br_Filename = ar_Filename art, br_TreeSize = ar_TreeSize art,
                          br_RootHashHex = ar_RootHashHex art, br_CreatedAt = ar_CreatedAt art, br_SinkDir = ab_SinkDir h\<rparr>), d1)))))"

end
