(* ===== verification/Backup_Properties.thy ===== *)
theory Backup_Properties
  imports Backup
begin

text \<open>
  Properties of backups: a restoration never loses the database, a backup restores to what was backed up, and
  the rotation of a directory keeps the newest backups. The encryption library and the file format of the
  database enter through \<open>age_correct\<close> and \<open>file_holds\<close>.
\<close>


subsection \<open>What is relied on\<close>

text \<open>An identity that matches one of the recipients recovers what was encrypted to them.\<close>

definition age_correct :: "('rcp, 'idt) age \<Rightarrow> ('rcp \<Rightarrow> 'idt \<Rightarrow> bool) \<Rightarrow> bool" where
  "age_correct A matches \<longleftrightarrow>
     (\<forall>m rs c is. age_Encrypt A m rs = Some c \<longrightarrow> (\<exists>r \<in> set rs. \<exists>i \<in> set is. matches r i) \<longrightarrow> age_Decrypt A c is = Some m)"

text \<open>A database that is copied or stored is found again when the file is opened.\<close>

definition file_holds :: "'db boltfile \<Rightarrow> 'db \<Rightarrow> bool" where
  "file_holds F db \<longleftrightarrow> bf_Load F (bf_Image F db) = Some db \<and> (\<forall>f. bf_Load F (bf_Store F f db) = Some db)"

definition healthy :: "disk \<Rightarrow> bool" where
  "healthy d \<longleftrightarrow> (\<forall>op p. \<not> dk_fails d op p)"

lemma healthy_set [simp]: "healthy (set_file p c d) = healthy d" "healthy (drop_file p d) = healthy d"
  by (simp_all add: healthy_def)

lemma verify_own_sidecar: "VerifySidecar enc (sidecar_text enc) = None"
proof -
  have "sha256 enc \<noteq> []" using length_sha256 [of enc] by (metis list.size(3) zero_neq_numeral)
  moreover from this have "hex_EncodeToString (sha256 enc) \<noteq> []" 
    by (metis length_0_conv length_hex mult_eq_0_iff zero_neq_numeral)
  ultimately show ?thesis by (simp add: VerifySidecar_def sidecar_text_def trim_hex_line)
qed

subsection \<open>Restoring\<close>

lemma os_Remove_files: "file_at (snd (os_Remove p d)) q = (if q = p \<and> \<not> dk_fails d FsRemove p then None else file_at d q)"
  by (auto simp: os_Remove_def)

lemma bak_differs: "backup_path stamp env target \<noteq> target"
  by (simp add: backup_path_def)

definition swapped :: "(gotime \<Rightarrow> string) \<Rightarrow> restore_env \<Rightarrow> string \<Rightarrow> backup_error option \<Rightarrow> disk \<Rightarrow> disk \<Rightarrow> bool" where
  "swapped stamp env target err d d' \<longleftrightarrow>
     (let bak = backup_path stamp env target
      in (\<forall>p. p \<notin> {re_staging env, target, bak} \<longrightarrow> file_at d' p = file_at d p) \<and>
         (case err of
            None \<Rightarrow> file_at d' target \<noteq> None \<and> file_at d' bak = (if file_at d target = None then file_at d bak else file_at d target)
          | Some (RenameIntoPlace e) \<Rightarrow>
              file_at d' target = None \<and> file_at d' bak = (if file_at d target = None then file_at d bak else file_at d target)
          | Some _ \<Rightarrow> file_at d' target = file_at d target \<and> file_at d' bak = file_at d bak))"

lemma swap_in_safe:
  assumes "swap_in stamp env target report d = ((report', err), d')"
    and "re_staging env \<notin> {target, backup_path stamp env target}" "\<not> dk_fails d FsStat target"
  shows "swapped stamp env target err d d'"
proof (cases "file_at d target")
  case None
  with assms bak_differs [of stamp env target] show ?thesis
    by (auto simp: swap_in_def swapped_def os_Stat_def os_Rename_def os_Remove_files Let_def split: if_splits option.splits)
next
  case (Some c)
  with assms bak_differs [of stamp env target] show ?thesis
    by (auto simp: swap_in_def swapped_def os_Stat_def os_Rename_def os_Remove_files Let_def split: if_splits option.splits)
qed

lemma swap_in_done:
  assumes "swap_in stamp env target report d = ((report', None), d')" "re_staging env \<notin> {target, backup_path stamp env target}"
  shows "file_at d' target = file_at d (re_staging env) \<and> file_at d' target \<noteq> None \<and>
    rr_BackupTreeSize report' = rr_BackupTreeSize report \<and> rr_BackupRootHex report' = rr_BackupRootHex report \<and>
    rr_STHMatch report' = rr_STHMatch report"
  using assms bak_differs [of stamp env target]
  by (auto simp: swap_in_def os_Rename_def Let_def split: if_splits option.splits prod.splits)

lemma swap_in_healthy:
  assumes "healthy d" "file_at d (re_staging env) \<noteq> None" "re_staging env \<notin> {target, backup_path stamp env target}"
  shows "\<exists>report' d'. swap_in stamp env target report d = ((report', None), d')"
  using assms by (auto simp: swap_in_def healthy_def os_Rename_def os_Stat_def Let_def split: option.splits)

text \<open>The file that is installed, as a fact about its parts.\<close>

definition restored :: "'db bolt \<Rightarrow> codec \<Rightarrow> 'db boltfile \<Rightarrow> bytes \<Rightarrow> 'idt RestoreInput \<Rightarrow> RestoreReport \<Rightarrow> bytes option \<Rightarrow> bool" where
  "restored B J F plain inp report f \<longleftrightarrow>
     (\<exists>db tree. bf_Load F plain = Some db \<and> Open B J (Some db) = Inr tree \<and> f = Some (bf_Store F plain (t_db tree)) \<and>
        rr_BackupTreeSize report = of_nat (Size tree) \<and> rr_BackupRootHex report = hex_EncodeToString (Root tree) \<and>
        (case ri_ExpectedSTH inp of
           None \<Rightarrow> True
         | Some sth \<Rightarrow>
             rr_STHMatch report = (of_nat (sth_TreeSize sth) = (of_nat (Size tree) :: u64) \<and> sth_RootHash sth = Root tree) \<and>
             (rr_STHMatch report \<or> ri_AllowSTHMismatch inp)))"

lemma check_sth_report:
  assumes "check_sth inp sz rootHex report = (err, report')"
  shows "rr_BackupTreeSize report' = rr_BackupTreeSize report \<and> rr_BackupRootHex report' = rr_BackupRootHex report \<and>
    (\<forall>sth. ri_ExpectedSTH inp = Some sth \<longrightarrow>
       rr_STHMatch report' = (of_nat (sth_TreeSize sth) = sz \<and> hex_EncodeToString (sth_RootHash sth) = rootHex) \<and>
       (err = None \<longrightarrow> rr_STHMatch report' \<or> ri_AllowSTHMismatch inp)) \<and>
    (\<forall>e. err = Some e \<longrightarrow> (\<exists>n. e = ErrSTHMismatch n))"
  using assms by (auto simp: check_sth_def Let_def split: option.splits if_splits)

lemma inspectStaged_cases:
  obtains (invalid) "inspectStaged B J F w p d = (None, d)"
  | (valid) contents db tree where "file_at d p = Some contents" "bf_Load F contents = Some db" "Open B J (Some db) = Inr tree"
      "inspectStaged B J F w p d =
         (Some (of_nat (Size tree), hex_EncodeToString (Root tree), w), set_file p (bf_Store F contents (t_db tree)) d)"
  by (cases "os_Stat p d = None"; cases "file_at d p"; cases "bf_Load F (the (file_at d p))";
      cases "Open B J (Some (the (bf_Load F (the (file_at d p)))))") (auto simp: inspectStaged_def)

text \<open>A step that only touches the staging file changes nothing else.\<close>

lemma swapped_staging:
  assumes "\<And>p. p \<noteq> re_staging env \<Longrightarrow> file_at d' p = file_at d p" "re_staging env \<notin> {target, backup_path stamp env target}"
    and "err = Some e" "\<And>x. e \<noteq> RenameIntoPlace x"
  shows "swapped stamp env target err d d'"
  using assms by (cases e) (auto simp: swapped_def Let_def)

lemma swapped_trans:
  assumes "\<And>p. p \<noteq> re_staging env \<Longrightarrow> file_at d1 p = file_at d p" "re_staging env \<notin> {target, backup_path stamp env target}"
    and "swapped stamp env target err d1 d'"
  shows "swapped stamp env target err d d'"
  using assms by (auto simp: swapped_def Let_def split: option.splits backup_error.splits)

lemma install_safe:
  assumes "install B J F stamp env inp plain d = ((report, err), d')"
    and "re_staging env \<notin> {ri_TargetPath inp, backup_path stamp env (ri_TargetPath inp)}" "\<not> dk_fails d FsStat (ri_TargetPath inp)"
  shows "swapped stamp env (ri_TargetPath inp) err d d' \<and>
    (err = None \<longrightarrow> restored B J F plain inp report (file_at d' (ri_TargetPath inp)))"
proof (cases "dk_fails d FsTemp (re_staging env) \<or> dk_fails d FsWrite (re_staging env)")
  case True
  with assms show ?thesis
    by (auto simp: install_def os_WriteFile_def os_Remove_files intro!: swapped_staging split: if_splits)
next
  case False
  let ?d1 = "set_file (re_staging env) plain d"
  have d1: "os_WriteFile (re_staging env) plain d = (None, ?d1)" using False by (simp add: os_WriteFile_def)
  show ?thesis
  proof (cases rule: inspectStaged_cases [of B J F "re_written env" "re_staging env" ?d1])
    case invalid
    with assms False d1 show ?thesis
      by (auto simp: install_def os_Remove_files intro!: swapped_staging)
  next
    case (valid contents db tree)
    then have contents: "contents = plain" by simp
    let ?d2 = "set_file (re_staging env) (bf_Store F contents (t_db tree)) ?d1"
    let ?r0 = "empty_restore_report\<lparr>rr_BackupCreatedAt := re_written env, rr_BackupTreeSize := of_nat (Size tree),
      rr_BackupRootHex := hex_EncodeToString (Root tree), rr_NewDBPath := ri_TargetPath inp\<rparr>"
    obtain ce r1 where ch: "check_sth inp (of_nat (Size tree)) (hex_EncodeToString (Root tree)) ?r0 = (ce, r1)" by force
    note chr = check_sth_report [OF ch]
    show ?thesis
    proof (cases ce)
      case (Some e)
      with assms False d1 valid ch chr show ?thesis
        by (auto simp: install_def os_Remove_files intro!: swapped_staging)
    next
      case None
      with assms False d1 valid ch have sw: "swap_in stamp env (ri_TargetPath inp) r1 ?d2 = ((report, err), d')"
        by (simp add: install_def)
      have "swapped stamp env (ri_TargetPath inp) err ?d2 d'" using swap_in_safe [OF sw] assms by simp
      then have "swapped stamp env (ri_TargetPath inp) err d d'" by (rule swapped_trans [rotated 2]) (use assms in auto)
      moreover have "err = None \<longrightarrow> restored B J F plain inp report (file_at d' (ri_TargetPath inp))"
      proof
        assume "err = None"
        with swap_in_done [of stamp env "ri_TargetPath inp" r1 ?d2 report d'] sw assms(2) chr valid None
        show "restored B J F plain inp report (file_at d' (ri_TargetPath inp))"
          unfolding restored_def contents
          by (intro exI [of _ db] exI [of _ tree]) (auto simp: hex_inj split: option.splits)
      qed
      ultimately show ?thesis by blast
    qed
  qed
qed

lemma Restore_reaches_install:
  assumes "ctx d = None" "ri_EncryptedPath inp \<noteq> []" "ri_TargetPath inp \<noteq> []" "ri_Identities inp \<noteq> []" "healthy d"
    and "file_at d (ri_EncryptedPath inp) = Some enc"
    and "file_at d (if ri_SidecarPath inp = [] then sidecar_of (ri_EncryptedPath inp) else ri_SidecarPath inp) = Some (sidecar_text enc)"
    and "age_Decrypt A enc (ri_Identities inp) = Some plain"
  shows "Restore B J F A stamp ctx env inp d = install B J F stamp env inp plain d"
  using assms by (simp add: Restore_def os_ReadFile_def healthy_def verify_own_sidecar DecryptArtifact_def)

lemma check_sth_accepts:
  "(\<And>sth. ri_ExpectedSTH inp = Some sth \<Longrightarrow> \<not> ri_AllowSTHMismatch inp \<Longrightarrow>
      of_nat (sth_TreeSize sth) = sz \<and> hex_EncodeToString (sth_RootHash sth) = rootHex) \<Longrightarrow>
   fst (check_sth inp sz rootHex report) = None"
  by (cases "ri_AllowSTHMismatch inp") (auto simp: check_sth_def Let_def split: option.split)

lemma install_healthy:
  assumes "healthy d" "bf_Load F plain = Some db" "Open B J (Some db) = Inr tree"
    and "re_staging env \<notin> {ri_TargetPath inp, backup_path stamp env (ri_TargetPath inp)}"
    and "\<And>sth. ri_ExpectedSTH inp = Some sth \<Longrightarrow> \<not> ri_AllowSTHMismatch inp \<Longrightarrow>
      of_nat (sth_TreeSize sth) = (of_nat (Size tree) :: u64) \<and> sth_RootHash sth = Root tree"
  shows "\<exists>report d'. install B J F stamp env inp plain d = ((report, None), d')"
proof -
  let ?d2 = "set_file (re_staging env) (bf_Store F plain (t_db tree)) (set_file (re_staging env) plain d)"
  let ?r0 = "empty_restore_report\<lparr>rr_BackupCreatedAt := re_written env, rr_BackupTreeSize := of_nat (Size tree),
      rr_BackupRootHex := hex_EncodeToString (Root tree), rr_NewDBPath := ri_TargetPath inp\<rparr>"
  have "inspectStaged B J F (re_written env) (re_staging env) (set_file (re_staging env) plain d) =
      (Some (of_nat (Size tree), hex_EncodeToString (Root tree), re_written env), ?d2)"
    using assms(1-3) by (simp add: inspectStaged_def os_Stat_def healthy_def)
  moreover obtain r1 where "check_sth inp (of_nat (Size tree)) (hex_EncodeToString (Root tree)) ?r0 = (None, r1)"
    using check_sth_accepts [of inp "of_nat (Size tree)" "hex_EncodeToString (Root tree)" ?r0] assms(5)
    by (metis prod.collapse)
  moreover have "\<exists>report d'. swap_in stamp env (ri_TargetPath inp) r1 ?d2 = ((report, None), d')"
    using assms(1,4) by (intro swap_in_healthy) auto
  ultimately show ?thesis using assms(1) by (auto simp: install_def healthy_def os_WriteFile_def)
qed

lemma open_keeps:
  assumes "bolt_db B" "leaf_codec J" "Open B J (Some db) = Inr t"
  shows "bk_Get B (t_db t) = bk_Get B db"
proof -
  have L: "log_store B J" by (simp add: log_store_def log_store_axioms_def assms(1,2))
  let ?bs = "[BucketLeaves, BucketNodes, BucketSTH, BucketSTHHistory]"
  show ?thesis
  proof (cases rule: db_Update_cases [of B LogOther "create_all B ?bs" db])
    case (failed e)
    with assms(3) show ?thesis by (simp add: Open_def)
  next
    case (committed db')
    with log_store.create_all_keeps [OF L committed(2)] assms(3) show ?thesis
      by (auto simp: Open_def split: sum.splits)
  qed
qed

section \<open>What can go wrong\<close>

text \<open>
  The size and root in the artifact are those of the log when the metadata is read, after the copy: a leaf
  appended in between is counted but not copied.
\<close>

lemma metadata_after_copy:
  assumes "Run F A stamp ctx tx_ctx now meta e d = ((art, None), d1)"
  shows "(ar_TreeSize art, ar_RootHashHex art) = BackupMetadata meta"
  using assms by (auto simp: Run_def Let_def split: if_splits option.splits sum.splits prod.splits)

text \<open>
  Any failure to look at the target counts as its absence: the live database is then replaced without a copy aside.
\<close>

lemma unreadable_target_overwritten:
  assumes "swap_in stamp env target report d = ((report', None), d')" "dk_fails d FsStat target"
    and "re_staging env \<notin> {target, backup_path stamp env target}"
  shows "file_at d' target = file_at d (re_staging env) \<and> file_at d' (backup_path stamp env target) = file_at d (backup_path stamp env target)"
  using assms bak_differs [of stamp env target]
  by (auto simp: swap_in_def os_Stat_def os_Rename_def Let_def split: if_splits option.splits)

section \<open>Rotation\<close>

text \<open>The complete backups of a directory, in the order of their names.\<close>

definition pairs_of :: "string \<Rightarrow> disk \<Rightarrow> string list" where
  "pairs_of dir d = sort (filter (\<lambda>n. suffix ''.age'' n \<and> file_at d (sidecar_of (filepath_Join dir n)) \<noteq> None) (entries_of dir d))"

lemma pairs_iff:
  "n \<in> set (pairs_of dir d) \<longleftrightarrow>
     CHR ''/'' \<notin> set n \<and> suffix ''.age'' n \<and> file_at d (filepath_Join dir n) \<noteq> None \<and>
     file_at d (sidecar_of (filepath_Join dir n)) \<noteq> None"
  by (auto simp: pairs_of_def entries_iff)

lemma pairs_sorted: "sorted (pairs_of dir d)"
  by (simp add: pairs_of_def)

lemma pairs_distinct: "disk_ok d \<Longrightarrow> distinct (pairs_of dir d)"
  by (simp add: pairs_of_def entries_distinct)

lemma pairs_eq: "disk_ok d \<Longrightarrow> sorted_wrt (<) ns \<Longrightarrow> (\<And>n. n \<in> set (pairs_of dir d) \<longleftrightarrow> n \<in> set ns) \<Longrightarrow> pairs_of dir d = ns"
  by (intro sorted_distinct_set_unique) (auto simp: pairs_sorted pairs_distinct strict_sorted_iff)

lemma backup_pairs_healthy:
  assumes "healthy d"
  shows "sort (backup_pairs dir d (sort (entries_of dir d))) = pairs_of dir d"
proof -
  have "backup_pairs dir d (sort (entries_of dir d)) =
      filter (\<lambda>n. suffix ''.age'' n \<and> file_at d (sidecar_of (filepath_Join dir n)) \<noteq> None) (sort (entries_of dir d))"
    using assms by (auto simp: backup_pairs_def Ext_iff os_Stat_def healthy_def intro!: filter_cong)
  then show ?thesis by (simp add: pairs_of_def filter_sort sorted_sort_id)
qed

lemma atomicWrite_healthy:
  "healthy d \<Longrightarrow> atomicWrite p c d = (None, set_file p c (drop_file (p @ ''.tmp'') (set_file (p @ ''.tmp'') c d)))"
  by (simp add: atomicWrite_def os_WriteFile_def os_Rename_def healthy_def)

text \<open>The paths of one backup, and what the two atomic writes leave.\<close>

definition written :: "string \<Rightarrow> Artifact \<Rightarrow> disk \<Rightarrow> disk" where
  "written dir art d =
     (let p = filepath_Join dir (ar_Filename art)
      in snd (atomicWrite (sidecar_of p) (ar_Sidecar art) (snd (atomicWrite p (ar_Encrypted art) d))))"

lemma written_files:
  assumes "healthy d"
  shows "file_at (written dir art d) q =
    (let p = filepath_Join dir (ar_Filename art)
     in if q = sidecar_of p then Some (ar_Sidecar art) else if q = p then Some (ar_Encrypted art)
        else if q = p @ ''.tmp'' \<or> q = sidecar_of p @ ''.tmp'' then None else file_at d q)"
  using assms by (simp add: written_def atomicWrite_healthy Let_def sidecar_of_def)

lemma written_keeps [simp]:
  "healthy d \<Longrightarrow> healthy (written dir art d)" "healthy d \<Longrightarrow> disk_ok d \<Longrightarrow> disk_ok (written dir art d)"
  by (simp_all add: written_def atomicWrite_healthy Let_def)

lemma last_chars [simp]:
  "last (sidecar_of p) = CHR ''6''" "suffix ''.age'' n \<Longrightarrow> last (filepath_Join dir n) = CHR ''e''"
  by (auto simp: sidecar_of_def filepath_Join_def suffix_def)

lemma age_paths:
  assumes "suffix ''.age'' n" "suffix ''.age'' m"
  shows "filepath_Join dir n \<noteq> sidecar_of q" "filepath_Join dir n \<noteq> q @ ''.tmp''" "sidecar_of q \<noteq> r @ ''.tmp''"
    "sidecar_of (filepath_Join dir n) = sidecar_of (filepath_Join dir m) \<longleftrightarrow> n = m"
proof -
  show "filepath_Join dir n \<noteq> sidecar_of q" 
  proof
    assume "filepath_Join dir n = sidecar_of q"
    then have "last (filepath_Join dir n) = last (sidecar_of q)" by simp
    with assms(1) show False by simp
  qed
  show "filepath_Join dir n \<noteq> q @ ''.tmp''" using last_chars(2) [OF assms(1), of dir] by auto
  show "sidecar_of q \<noteq> r @ ''.tmp''"
  proof
    assume "sidecar_of q = r @ ''.tmp''"
    then have "last (sidecar_of q) = last (r @ ''.tmp'')" by (rule arg_cong)
    then show False by simp
  qed
  show "sidecar_of (filepath_Join dir n) = sidecar_of (filepath_Join dir m) \<longleftrightarrow> n = m" by (simp add: sidecar_of_def)
qed

lemma written_pairs:
  assumes "healthy d" "CHR ''/'' \<notin> set (ar_Filename art)" "suffix ''.age'' (ar_Filename art)"
  shows "n \<in> set (pairs_of dir (written dir art d)) \<longleftrightarrow> n = ar_Filename art \<or> n \<in> set (pairs_of dir d)"
proof (cases "suffix ''.age'' n")
  case True
  note a = age_paths [OF True assms(3)] age_paths [OF assms(3) True]
  show ?thesis
    using assms True by (auto simp: pairs_iff written_files Let_def a(1-4) a(5) [symmetric] a(5-7))
next
  case False
  with assms(3) show ?thesis by (auto simp: pairs_iff)
qed

lemma os_Remove_keeps [simp]:
  "dk_fails (snd (os_Remove p d)) = dk_fails d" "disk_ok d \<Longrightarrow> disk_ok (snd (os_Remove p d))"
  by (simp_all add: os_Remove_def)

lemma remove_pair_files:
  "healthy d \<Longrightarrow> file_at (remove_pair dir n d) q =
     (if q = filepath_Join dir n \<or> q = sidecar_of (filepath_Join dir n) then None else file_at d q)"
  by (simp add: remove_pair_def os_Remove_files healthy_def)

lemma remove_pair_keeps: "healthy d \<Longrightarrow> healthy (remove_pair dir n d)" "disk_ok d \<Longrightarrow> disk_ok (remove_pair dir n d)"
  by (simp_all add: remove_pair_def healthy_def)

lemma remove_pairs:
  "healthy d \<Longrightarrow> disk_ok d \<Longrightarrow> healthy (fold (remove_pair dir) ns d) \<and> disk_ok (fold (remove_pair dir) ns d) \<and>
     (\<forall>q. file_at (fold (remove_pair dir) ns d) q =
        (if \<exists>n \<in> set ns. q = filepath_Join dir n \<or> q = sidecar_of (filepath_Join dir n) then None else file_at d q))"
  by (induction ns arbitrary: d) (auto simp: remove_pair_files remove_pair_keeps)

definition keep_last :: "nat \<Rightarrow> 'a list \<Rightarrow> 'a list" where
  "keep_last k xs = drop (length xs - k) xs"

lemma keep_last_again: "keep_last k (keep_last k xs @ ys) = keep_last k (xs @ ys)"
  by (cases "k \<le> length xs") (auto simp: keep_last_def add.commute)

lemma length_keep_last: "length (keep_last k xs) \<le> k"
  by (simp add: keep_last_def)

lemma set_keep_last: "set (keep_last k xs) \<subseteq> set xs"
  by (simp add: keep_last_def set_drop_subset)

lemma set_diff_take: "distinct xs \<Longrightarrow> set xs - set (take n xs) = set (drop n xs)"
proof -
  assume "distinct xs"
  then have "set (take n xs) \<inter> set (drop n xs) = {}" by (simp add: set_take_disj_set_drop_if_distinct)
  moreover have "set xs = set (take n xs) \<union> set (drop n xs)" by (metis append_take_drop_id set_append)
  ultimately show ?thesis by blast
qed

text \<open>Between two states of a directory: the pairs that remain are as they were.\<close>

definition same_pairs :: "string \<Rightarrow> disk \<Rightarrow> disk \<Rightarrow> bool" where
  "same_pairs dir d d' \<longleftrightarrow>
     (\<forall>n \<in> set (pairs_of dir d) \<inter> set (pairs_of dir d').
        file_at d' (filepath_Join dir n) = file_at d (filepath_Join dir n) \<and>
        file_at d' (sidecar_of (filepath_Join dir n)) = file_at d (sidecar_of (filepath_Join dir n)))"

lemma rotate_healthy:
  assumes "healthy d" "disk_ok d" "k > 0"
  shows "\<exists>d'. rotate dir k d = (None, d') \<and> healthy d' \<and> disk_ok d' \<and>
    pairs_of dir d' = keep_last (nat k) (pairs_of dir d) \<and> same_pairs dir d d'"
proof -
  let ?ps = "pairs_of dir d"
  let ?rm = "take (length ?ps - nat k) ?ps"
  let ?d' = "fold (remove_pair dir) ?rm d"
  have dist: "distinct ?ps" using assms(2) by (rule pairs_distinct)
  have age: "suffix ''.age'' n" if "n \<in> set ?ps" for n using that by (simp add: pairs_iff)
  note rm = remove_pairs [OF assms(1,2), of dir ?rm]
  have files: "file_at ?d' (filepath_Join dir n) = (if n \<in> set ?rm then None else file_at d (filepath_Join dir n)) \<and>
      file_at ?d' (sidecar_of (filepath_Join dir n)) = (if n \<in> set ?rm then None else file_at d (sidecar_of (filepath_Join dir n)))"
    if n: "suffix ''.age'' n" for n
  proof -
    have m: "m \<in> set ?rm \<Longrightarrow> suffix ''.age'' m" for m using age in_set_takeD by fast
    have "(\<exists>m \<in> set ?rm. filepath_Join dir n = filepath_Join dir m \<or> filepath_Join dir n = sidecar_of (filepath_Join dir m)) \<longleftrightarrow> n \<in> set ?rm"
      using age_paths(1) [OF n n] by auto
    moreover have "(\<exists>m \<in> set ?rm. sidecar_of (filepath_Join dir n) = filepath_Join dir m \<or>
        sidecar_of (filepath_Join dir n) = sidecar_of (filepath_Join dir m)) \<longleftrightarrow> n \<in> set ?rm"
      using age_paths(1,4) [OF m n] by metis
    ultimately show ?thesis using rm by presburger
  qed
  have mem: "n \<in> set (pairs_of dir ?d') \<longleftrightarrow> n \<in> set ?ps - set ?rm" for n
  proof (cases "suffix ''.age'' n")
    case True
    with files [OF True] show ?thesis unfolding Diff_iff pairs_iff by (cases "n \<in> set ?rm") simp_all
  qed (simp add: pairs_iff)
  have "set ?ps - set ?rm = set (drop (length ?ps - nat k) ?ps)"
    using dist by (rule set_diff_take)
  then have "pairs_of dir ?d' = keep_last (nat k) ?ps"
    unfolding keep_last_def using rm mem dist pairs_sorted [of dir d]
    by (intro pairs_eq) (auto simp: strict_sorted_iff sorted_wrt_drop)
  moreover have "same_pairs dir d ?d'"
    unfolding same_pairs_def using files mem by (metis DiffD2 IntE age)
  moreover have "rotate dir k d = (None, ?d')"
  proof -
    have "length (backup_pairs dir d (sort (entries_of dir d))) = length ?ps"
      using backup_pairs_healthy [OF assms(1), of dir] by (metis length_sort)
    then show ?thesis using assms(1,3) backup_pairs_healthy [OF assms(1), of dir]
      by (auto simp: rotate_def os_ReadDir_def healthy_def Let_def)
  qed
  ultimately show ?thesis using rm by blast
qed

fun write_all :: "string \<Rightarrow> int \<Rightarrow> Artifact list \<Rightarrow> disk \<Rightarrow> disk option" where
  "write_all dir k [] d = Some d"
| "write_all dir k (a # as) d =
     (case local_Write (\<lambda>_. None) dir k a d of (None, d1) \<Rightarrow> write_all dir k as d1 | (Some _, _) \<Rightarrow> None)"

definition holds_artifact :: "string \<Rightarrow> disk \<Rightarrow> Artifact \<Rightarrow> bool" where
  "holds_artifact dir d a \<longleftrightarrow>
     file_at d (filepath_Join dir (ar_Filename a)) = Some (ar_Encrypted a) \<and>
     file_at d (sidecar_of (filepath_Join dir (ar_Filename a))) = Some (ar_Sidecar a)"

definition backup_name :: "string \<Rightarrow> bool" where
  "backup_name n \<longleftrightarrow> CHR ''/'' \<notin> set n \<and> suffix ''.age'' n"

lemma local_Write_healthy:
  assumes "healthy d" "disk_ok d" "k > 0" "backup_name (ar_Filename a)" "\<forall>n \<in> set (pairs_of dir d). n < ar_Filename a"
  shows "\<exists>d'. local_Write (\<lambda>_. None) dir k a d = (None, d') \<and> healthy d' \<and> disk_ok d' \<and>
    pairs_of dir d' = keep_last (nat k) (pairs_of dir d @ [ar_Filename a]) \<and> same_pairs dir d d' \<and> holds_artifact dir d' a"
proof -
  let ?d1 = "written dir a d"
  have fn: "CHR ''/'' \<notin> set (ar_Filename a)" "suffix ''.age'' (ar_Filename a)" using assms(4) by (simp_all add: backup_name_def)
  have d1: "healthy ?d1" "disk_ok ?d1" using assms by simp_all
  have pairs: "pairs_of dir ?d1 = pairs_of dir d @ [ar_Filename a]"
    using d1 assms pairs_sorted [of dir d] pairs_distinct [of d dir] written_pairs [OF assms(1) fn]
    by (intro pairs_eq) (auto simp: sorted_wrt_append strict_sorted_iff)
  have holds: "holds_artifact dir ?d1 a"
    using age_paths(1) [OF fn(2) fn(2)] by (simp add: holds_artifact_def written_files assms(1) Let_def)
  have same1: "file_at ?d1 (filepath_Join dir n) = file_at d (filepath_Join dir n) \<and>
      file_at ?d1 (sidecar_of (filepath_Join dir n)) = file_at d (sidecar_of (filepath_Join dir n))"
    if n: "n \<in> set (pairs_of dir d)" for n
  proof -
    have age: "suffix ''.age'' n" using n by (simp add: pairs_iff)
    have "n \<noteq> ar_Filename a" using n assms(5) by blast
    then show ?thesis
      using age_paths [OF age fn(2)] age_paths(1) [OF fn(2) age] by (simp add: written_files assms(1) Let_def) metis
  qed
  from rotate_healthy [OF d1 assms(3), of dir] obtain d' where
    d': "rotate dir k ?d1 = (None, d')" "healthy d'" "disk_ok d'" "pairs_of dir d' = keep_last (nat k) (pairs_of dir ?d1)"
      "same_pairs dir ?d1 d'" by blast
  have "local_Write (\<lambda>_. None) dir k a d = (None, d')"
    using d'(1) assms(1,3) by (simp add: local_Write_def written_def atomicWrite_healthy Let_def)
  moreover have "same_pairs dir d d'"
    unfolding same_pairs_def using d'(5) same1 pairs by (fastforce simp: same_pairs_def)
  moreover have "holds_artifact dir d' a"
  proof -
    have "ar_Filename a \<in> set (pairs_of dir d')" unfolding d'(4) pairs keep_last_def using assms(3) by simp
    with d'(5) pairs holds show ?thesis by (auto simp: same_pairs_def holds_artifact_def)
  qed
  ultimately show ?thesis using d' pairs by auto
qed

lemma same_pairs_trans:
  assumes "same_pairs dir d d1" "same_pairs dir d1 d2" "set (pairs_of dir d2) \<inter> set (pairs_of dir d) \<subseteq> set (pairs_of dir d1)"
  shows "same_pairs dir d d2"
  using assms by (fastforce simp: same_pairs_def)

lemma write_all_healthy:
  assumes "healthy d" "disk_ok d" "k > 0" "list_all (backup_name \<circ> ar_Filename) as" "length (pairs_of dir d) \<le> nat k"
    and "sorted_wrt (<) (pairs_of dir d @ map ar_Filename as)"
  shows "\<exists>d'. write_all dir k as d = Some d' \<and> pairs_of dir d' = keep_last (nat k) (pairs_of dir d @ map ar_Filename as) \<and>
    same_pairs dir d d' \<and> (\<forall>a \<in> set as. ar_Filename a \<in> set (pairs_of dir d') \<longrightarrow> holds_artifact dir d' a)"
  using assms
proof (induction as arbitrary: d)
  case Nil
  then show ?case by (simp add: keep_last_def same_pairs_def)
next
  case (Cons a as)
  have "\<forall>n \<in> set (pairs_of dir d). n < ar_Filename a" using Cons.prems(6) by (auto simp: sorted_wrt_append)
  with local_Write_healthy [OF Cons.prems(1-3), of a dir] Cons.prems(4) obtain d1 where
    d1: "local_Write (\<lambda>_. None) dir k a d = (None, d1)" "healthy d1" "disk_ok d1"
      "pairs_of dir d1 = keep_last (nat k) (pairs_of dir d @ [ar_Filename a])" "same_pairs dir d d1" "holds_artifact dir d1 a"
    by auto
  let ?old = "pairs_of dir d @ [ar_Filename a]"
  have sub: "set (pairs_of dir d1) \<subseteq> set ?old" unfolding d1(4) by (rule set_keep_last)
  have "sorted_wrt (<) (?old @ map ar_Filename as)" using Cons.prems(6) by simp
  then have sorted: "sorted_wrt (<) (pairs_of dir d1 @ map ar_Filename as)"
    unfolding d1(4) sorted_wrt_append using set_keep_last [of "nat k" ?old]
    by (auto simp: keep_last_def sorted_wrt_append simp del: drop_append intro!: sorted_wrt_drop)
  from Cons.IH [OF d1(2,3) Cons.prems(3) _ _ sorted] Cons.prems(4) obtain d' where
    d': "write_all dir k as d1 = Some d'" "pairs_of dir d' = keep_last (nat k) (pairs_of dir d1 @ map ar_Filename as)"
      "same_pairs dir d1 d'" "\<forall>a \<in> set as. ar_Filename a \<in> set (pairs_of dir d') \<longrightarrow> holds_artifact dir d' a"
    by (auto simp: d1(4) length_keep_last)
  have pairs: "pairs_of dir d' = keep_last (nat k) (pairs_of dir d @ map ar_Filename (a # as))"
    unfolding d'(2) d1(4) keep_last_again by simp
  have new: "set (map ar_Filename as) \<inter> set ?old = {}"
    using \<open>sorted_wrt (<) (?old @ map ar_Filename as)\<close> by (fastforce simp: sorted_wrt_append)
  have mono: "set (pairs_of dir d') \<inter> set ?old \<subseteq> set (pairs_of dir d1)"
    using set_keep_last [of "nat k" "pairs_of dir d1 @ map ar_Filename as"] new unfolding d'(2) by auto
  have "same_pairs dir d d'" by (rule same_pairs_trans [OF d1(5) d'(3)]) (use mono in auto)
  moreover have "holds_artifact dir d' a" if "ar_Filename a \<in> set (pairs_of dir d')"
    using that mono d'(3) d1(6) by (auto simp: same_pairs_def holds_artifact_def)
  ultimately show ?case using d1(1) d' pairs by auto
qed

subsection \<open>Names\<close>

lemma less_append_same: "(xs @ ys :: string) < xs @ zs \<longleftrightarrow> ys < zs"
  by (induction xs) simp_all

lemma less_append_left: "length (xs :: string) = length ys \<Longrightarrow> xs < ys \<Longrightarrow> xs @ as < ys @ bs"
  by (induction xs ys rule: list_induct2) auto

text \<open>The format of time stamps: all of one length, without a slash.\<close>

definition stamp_format :: "(gotime \<Rightarrow> string) \<Rightarrow> bool" where
  "stamp_format stamp \<longleftrightarrow> (\<forall>t. length (stamp t) = 20 \<and> CHR ''/'' \<notin> set (stamp t))"

lemma dec_no_slash: "CHR ''/'' \<notin> set (dec n)"
  using dec_digits [of "CHR ''/''" n] by auto

lemma formatFilename_name: "stamp_format stamp \<Longrightarrow> backup_name (formatFilename stamp t n)"
  by (auto simp: backup_name_def formatFilename_def stamp_format_def dec_no_slash suffix_def)

lemma formatFilename_less:
  "stamp_format stamp \<Longrightarrow> stamp t < stamp t' \<Longrightarrow> formatFilename stamp t n < formatFilename stamp t' m"
  unfolding formatFilename_def less_append_same by (rule less_append_left) (auto simp: stamp_format_def)

text \<open>
  Within one second the order of names is not the order of time: the larger log sorts first when its
  size has one digit more.
\<close>

lemma same_second_inverted: "formatFilename stamp t 10 < formatFilename stamp t 9"
  unfolding formatFilename_def less_append_same by (simp add: dec.simps digit_chars less_char_def)

section \<open>Properties\<close>

text \<open>
  C13: a restoration does not lose the database. As long as the target path can be inspected (\<^verbatim>\<open>os.Stat\<close> on it
  does not fail while the file is there), and whichever other steps fail, files other than the target, its
  copy aside and the staging file are untouched. Before the swap an error leaves the target as it was; if only
  the last rename fails the old database is in the copy aside; on success it is there too, and the target is
  the file of a database that opened, with the log size and root the report gives, and with those of the
  expected tree head unless a mismatch was allowed.
\<close>

theorem restore_safe:
  assumes "Restore B J F A stamp ctx env inp d = ((report, err), d')"
    and "re_staging env \<notin> {ri_TargetPath inp, backup_path stamp env (ri_TargetPath inp)}"
    and "\<not> dk_fails d FsStat (ri_TargetPath inp)"
  shows "swapped stamp env (ri_TargetPath inp) err d d' \<and>
    (err = None \<longrightarrow> (\<exists>plain. restored B J F plain inp report (file_at d' (ri_TargetPath inp))))"
proof -
  consider (early) e where "err = Some e" "\<And>x. e \<noteq> RenameIntoPlace x" "d' = d"
    | (late) plain where "install B J F stamp env inp plain d = ((report, err), d')"
    using assms(1)
    by (auto simp: Restore_def VerifySidecar_def DecryptArtifact_def Let_def split: if_splits sum.splits option.splits)
  then show ?thesis
  proof cases
    case early
    with assms(2) swapped_staging [of env d d "ri_TargetPath inp" stamp err e] show ?thesis by simp
  next
    case (late plain)
    from install_safe [OF late assms(2,3)] show ?thesis by blast
  qed
qed

definition sample_env :: restore_env where
  "sample_env = \<lparr>re_staging = ''/d/restore-1.db'', re_written = 1, re_swap = 2\<rparr>"

definition sample_disk :: disk where
  "sample_disk = \<lparr>dk_files = [(''/b/x'', [1]), (''/b/x.sha256'', sidecar_text [1])], dk_fails = (\<lambda>_ _. False), dk_torn = (\<lambda>_. 0)\<rparr>"

definition sample_age :: "(unit, unit) age" where
  "sample_age = \<lparr>age_Encrypt = (\<lambda>m rs. Some m), age_Decrypt = (\<lambda>c is. Some c)\<rparr>"

definition sample_reopened :: "mem_db Tree" where
  "sample_reopened = (case Open mem_bolt mem_codec (Some (t_db sample_tree)) of Inl _ \<Rightarrow> sample_tree | Inr t \<Rightarrow> t)"

definition sample_file :: "mem_db boltfile" where
  "sample_file =
     \<lparr>bf_Image = (\<lambda>db. if db = t_db sample_tree then [1] else [2]),
      bf_Load = (\<lambda>f. Some (if f = [1] then t_db sample_tree else t_db sample_reopened)),
      bf_Store = (\<lambda>f db. if db = t_db sample_tree then [1] else [2])\<rparr>"

definition sample_input :: "unit RestoreInput" where
  "sample_input = \<lparr>ri_EncryptedPath = ''/b/x'', ri_SidecarPath = [], ri_Identities = [()], ri_TargetPath = ''/d/owasaka.db'',
     ri_ExpectedSTH = None, ri_AllowSTHMismatch = False\<rparr>"

text \<open>A live database at the target, and a disk on which the staging file cannot be moved into its place.\<close>

definition live_disk :: disk where
  "live_disk = \<lparr>dk_files = (''/d/owasaka.db'', [9]) # dk_files sample_disk,
     dk_fails = (\<lambda>op p. op = FsRename \<and> p = ''/d/restore-1.db''), dk_torn = (\<lambda>_. 0)\<rparr>"

theorem restore_safe_witness:
  "\<exists>report err d'. Restore mem_bolt mem_codec sample_file sample_age (\<lambda>_. ''t'') (\<lambda>_. None) sample_env sample_input live_disk =
      ((report, err), d') \<and>
    Some [9] \<in> {file_at d' ''/d/owasaka.db'', file_at d' ''/d/owasaka.db.bak.t''} \<and> file_at d' ''/b/x'' = Some [1]"
proof -
  obtain report err d' where r: "Restore mem_bolt mem_codec sample_file sample_age (\<lambda>_. ''t'') (\<lambda>_. None) sample_env sample_input live_disk =
      ((report, err), d')"
    by (metis surj_pair)
  have "swapped (\<lambda>_. ''t'') sample_env ''/d/owasaka.db'' err live_disk d'"
    using restore_safe [OF r] by (simp add: sample_env_def sample_input_def live_disk_def backup_path_def)
  then have "Some [9] \<in> {file_at d' ''/d/owasaka.db'', file_at d' ''/d/owasaka.db.bak.t''} \<and> file_at d' ''/b/x'' = Some [1]"
    by (auto simp: swapped_def live_disk_def sample_disk_def sample_env_def backup_path_def Let_def
        split: option.splits backup_error.splits)
  with r show ?thesis by blast
qed

text \<open>
  C5: what was backed up is what is restored. From the encrypted file and the sidecar that a successful run of
  the engine made of a database with the log \<open>ps\<close>, any matching identity restores it on a working disk: the
  target opens as a database with the same content in every bucket, whose log is \<open>ps\<close> again, and the tree head
  of that log, given as the journal record, is accepted.
\<close>

theorem backup_restore_roundtrip:
  assumes "bolt_db B" "leaf_codec J" "file_holds F (t_db t)" "age_correct A matches" "log_ok B J t ps"
    and run: "Run F A stamp ctx tx_ctx now meta \<lparr>en_source = \<lparr>so_DB = Some (t_db t), so_Tree = tr\<rparr>, en_sinks = sinks, en_recipients = rs\<rparr> d0 =
      ((art, None), d1)"
    and "r \<in> set rs" "i \<in> set ids" "matches r i" "Open B J (Some (t_db t)) = Inr t'" "file_holds F (t_db t')"
    and "healthy d" "ctx d = None" "path \<noteq> []" "target \<noteq> []"
    and "file_at d path = Some (ar_Encrypted art)" "file_at d (sidecar_of path) = Some (ar_Sidecar art)"
    and "re_staging env \<notin> {target, backup_path stamp env target}"
    and "sth = None \<or> (\<exists>h. sth = Some h \<and> sth_TreeSize h = length ps \<and> sth_RootHash h = Root t)"
  shows "\<exists>report d' f t''. Restore B J F A stamp ctx env \<lparr>ri_EncryptedPath = path, ri_SidecarPath = [], ri_Identities = ids,
      ri_TargetPath = target, ri_ExpectedSTH = sth, ri_AllowSTHMismatch = False\<rparr> d = ((report, None), d') \<and>
    file_at d' target = Some f \<and> bf_Load F f = Some (t_db t'') \<and> bk_Get B (t_db t'') = bk_Get B (t_db t) \<and>
    log_ok B J t'' ps \<and> rr_BackupTreeSize report = of_nat (length ps)"
proof -
  let ?inp = "\<lparr>ri_EncryptedPath = path, ri_SidecarPath = [], ri_Identities = ids,
      ri_TargetPath = target, ri_ExpectedSTH = sth, ri_AllowSTHMismatch = False\<rparr>"
  have L: "log_store B J" by (simp add: log_store_def log_store_axioms_def assms(1,2))
  have t': "t_hashes t' = t_hashes t" "log_ok B J t' ps"
    using log_store.open_ok [OF L assms(5)] assms(10) by auto
  have sz: "Size t' = length ps" "Root t' = Root t" using t' by (auto simp: Size_def Root_def log_ok_def)
  from run have enc: "age_Encrypt A (bf_Image F (t_db t)) rs = Some (ar_Encrypted art)" "ar_Sidecar art = sidecar_text (ar_Encrypted art)"
    by (auto simp: Run_def source_WriteTo_def encryptForRecipients_def Let_def
        split: if_splits option.splits sum.splits prod.splits)
  from enc(1) assms(4,7-9) have "age_Decrypt A (ar_Encrypted art) ids = Some (bf_Image F (t_db t))" unfolding age_correct_def by blast
  then have R: "Restore B J F A stamp ctx env ?inp d = install B J F stamp env ?inp (bf_Image F (t_db t)) d"
    using assms(8,12-17) enc(2) by (intro Restore_reaches_install) auto
  have load: "bf_Load F (bf_Image F (t_db t)) = Some (t_db t)" using assms(3) by (simp add: file_holds_def)
  obtain report d' where inst: "install B J F stamp env ?inp (bf_Image F (t_db t)) d = ((report, None), d')"
    using install_healthy [OF assms(12) load assms(10), of env ?inp stamp] assms(18,19) sz by auto
  have "restored B J F (bf_Image F (t_db t)) ?inp report (file_at d' target)"
    using install_safe [OF inst] assms(12,18) by (simp add: healthy_def)
  then have "file_at d' target = Some (bf_Store F (bf_Image F (t_db t)) (t_db t'))" "rr_BackupTreeSize report = of_nat (length ps)"
    using load assms(10) sz by (auto simp: restored_def)
  then show ?thesis
    using R inst t'(2) open_keeps [OF assms(1,2,10)] assms(11) by (auto simp: file_holds_def)
qed

lemma mem_rehydrate: "\<exists>hs'. rehydrate_loop mem_codec items hs = Inr hs'"
  by (induction items arbitrary: hs) (auto simp: mem_codec_def)

lemma mem_create_all: "\<exists>db'. create_all mem_bolt bs db = (None, db')"
  by (induction bs arbitrary: db) (auto simp: mem_bolt_def)

lemma sample_Open: "Open mem_bolt mem_codec (Some (t_db sample_tree)) = Inr sample_reopened"
proof -
  obtain db' where db': "create_all mem_bolt [BucketLeaves, BucketNodes, BucketSTH, BucketSTHHistory] (t_db sample_tree) = (None, db')"
    using mem_create_all by blast
  from mem_log.create_all_keeps [OF db'] have "bk_Has mem_bolt db' BucketLeaves" by simp
  then have "\<exists>t. Open mem_bolt mem_codec (Some (t_db sample_tree)) = Inr t"
    using db' mem_rehydrate [of "bk_Items mem_bolt db' BucketLeaves" "[]"]
    by (auto simp: Open_def db_Update_def rehydrate_def mem_bolt_def)
  then show ?thesis by (auto simp: sample_reopened_def)
qed

theorem backup_restore_roundtrip_witness:
  "\<exists>report d' f t''. Restore mem_bolt mem_codec sample_file sample_age (\<lambda>_. ''t'') (\<lambda>_. None) sample_env sample_input sample_disk =
      ((report, None), d') \<and>
    file_at d' ''/d/owasaka.db'' = Some f \<and> bf_Load sample_file f = Some (t_db t'') \<and>
    log_ok mem_bolt mem_codec t'' [[1], [2]]"
proof -
  define art where "art = \<lparr>ar_Filename = formatFilename (\<lambda>_. ''t'') 0 0, ar_Encrypted = [1], ar_Sidecar = sidecar_text [1],
    ar_CreatedAt = 0, ar_TreeSize = 0, ar_RootHashHex = []\<rparr>"
  let ?e = "\<lparr>en_source = \<lparr>so_DB = Some (t_db sample_tree), so_Tree = None\<rparr>, en_sinks = [LocalSink ''/b'' 0], en_recipients = [()]\<rparr>"
  have "healthy sample_disk" by (simp add: healthy_def sample_disk_def)
  then have "\<exists>d1. Run sample_file sample_age (\<lambda>_. ''t'') (\<lambda>_. None) None 0 \<lparr>so_DB = None, so_Tree = None\<rparr> ?e sample_disk = ((art, None), d1)"
    by (simp add: Run_def source_WriteTo_def encryptForRecipients_def sample_age_def sample_file_def BackupMetadata_def art_def
        local_Write_def atomicWrite_healthy Let_def)
  then obtain d1 where run: "Run sample_file sample_age (\<lambda>_. ''t'') (\<lambda>_. None) None 0 \<lparr>so_DB = None, so_Tree = None\<rparr> ?e sample_disk = ((art, None), d1)"
    by blast
  have F: "file_holds sample_file (t_db sample_tree)" "file_holds sample_file (t_db sample_reopened)"
    by (simp_all add: file_holds_def sample_file_def)
  have A: "age_correct sample_age (\<lambda>_ _. True)" by (simp add: age_correct_def sample_age_def)
  show ?thesis
    using backup_restore_roundtrip [OF mem.bolt_db_axioms mem_log.codec F(1) A sample_tree_ok run _ _ _ sample_Open F(2) \<open>healthy sample_disk\<close>,
        of "()" "()" "[()]" "''/b/x''" "''/d/owasaka.db''" sample_env None]
    by (auto simp: sample_input_def sample_env_def sample_disk_def art_def sidecar_of_def backup_path_def)
qed

text \<open>
  A directory keeps the newest backups. Writing any number of artifacts with increasing time stamps to a local sink that keeps
  \<open>k\<close>, on a working disk whose directory holds no complete backup, succeeds, and afterwards the complete
  backups are exactly the last \<open>k\<close> of them, each with its own body and sidecar.
\<close>

theorem rotation_keeps_newest:
  assumes "healthy d" "disk_ok d" "k > 0" "pairs_of dir d = []" "stamp_format stamp"
    and "sorted_wrt (\<lambda>a b. stamp (ar_CreatedAt a) < stamp (ar_CreatedAt b)) as"
    and "\<forall>a \<in> set as. ar_Filename a = formatFilename stamp (ar_CreatedAt a) (ar_TreeSize a)"
  shows "\<exists>d'. write_all dir k as d = Some d' \<and> pairs_of dir d' = map ar_Filename (keep_last (nat k) as) \<and>
    (\<forall>a \<in> set (keep_last (nat k) as). holds_artifact dir d' a)"
proof -
  have names: "list_all (backup_name \<circ> ar_Filename) as"
    using assms(5,7) by (auto simp: list_all_iff formatFilename_name)
  have "sorted_wrt (\<lambda>a b. ar_Filename a < ar_Filename b) as"
    using assms(6) by (rule sorted_wrt_mono_rel [rotated]) (use assms(5,7) formatFilename_less in auto)
  then have "sorted_wrt (<) (pairs_of dir d @ map ar_Filename as)" by (simp add: assms(4) sorted_wrt_map)
  from write_all_healthy [OF assms(1-3) names _ this] assms(4) obtain d' where
    d': "write_all dir k as d = Some d'" "pairs_of dir d' = keep_last (nat k) (map ar_Filename as)"
      "\<forall>a \<in> set as. ar_Filename a \<in> set (pairs_of dir d') \<longrightarrow> holds_artifact dir d' a"
    by auto
  have map: "keep_last (nat k) (map ar_Filename as) = map ar_Filename (keep_last (nat k) as)"
    by (simp add: keep_last_def drop_map)
  then have "\<forall>a \<in> set (keep_last (nat k) as). holds_artifact dir d' a"
    using d'(2,3) set_keep_last [of "nat k" as] by auto
  with d' map show ?thesis by auto
qed

definition sample_stamp :: "gotime \<Rightarrow> string" where
  "sample_stamp t = replicate 20 (if t = 0 then CHR ''0'' else CHR ''1'')"

definition sample_artifact :: "gotime \<Rightarrow> Artifact" where
  "sample_artifact t = \<lparr>ar_Filename = formatFilename sample_stamp t 3, ar_Encrypted = [1], ar_Sidecar = [2],
     ar_CreatedAt = t, ar_TreeSize = 3, ar_RootHashHex = []\<rparr>"

theorem rotation_keeps_newest_witness:
  "\<exists>d'. write_all ''/c'' 1 [sample_artifact 0, sample_artifact 5] sample_disk = Some d' \<and>
     pairs_of ''/c'' d' = [ar_Filename (sample_artifact 5)]"
proof -
  have d: "healthy sample_disk" "disk_ok sample_disk" "pairs_of ''/c'' sample_disk = []" "stamp_format sample_stamp"
    by (simp_all add: healthy_def disk_ok_def sample_disk_def pairs_of_def entries_of_def stamp_format_def sample_stamp_def)
  have order: "sample_stamp 0 < sample_stamp 5" by (simp add: sample_stamp_def numeral_eq_Suc less_char_def)
  have names: "ar_Filename (sample_artifact t) = formatFilename sample_stamp t 3" "ar_CreatedAt (sample_artifact t) = t"
    "ar_TreeSize (sample_artifact t) = 3" for t by (simp_all add: sample_artifact_def)
  have sorted: "sorted_wrt (\<lambda>a b. sample_stamp (ar_CreatedAt a) < sample_stamp (ar_CreatedAt b)) [sample_artifact 0, sample_artifact 5]"
    using order by (simp add: names(2))
  have files: "\<forall>a \<in> set [sample_artifact 0, sample_artifact 5]. ar_Filename a = formatFilename sample_stamp (ar_CreatedAt a) (ar_TreeSize a)"
    by (simp add: names)
  have keep: "keep_last (nat 1) [sample_artifact 0, sample_artifact 5] = [sample_artifact 5]" by (simp add: keep_last_def)
  from rotation_keeps_newest [OF d(1,2) zero_less_one d(3,4) sorted files] show ?thesis unfolding keep list.map by blast
qed

end
