(* ===== verification/Encoding.thy ===== *)
theory Encoding
  imports GoLib Sha256
begin

text \<open>
  Two more pieces of the Go library, with their round trips: decoding of \<^verbatim>\<open>base64.RawURLEncoding\<close> and the
  keyed hash \<^verbatim>\<open>crypto/hmac\<close> over SHA-256.
\<close>

section \<open>Base 64\<close>

definition b64url_value :: "char \<Rightarrow> nat option" where
  "b64url_value c =
     (let n = of_char c
      in if 65 \<le> n \<and> n \<le> 90 then Some (n - 65)
         else if 97 \<le> n \<and> n \<le> 122 then Some (n - 71)
         else if 48 \<le> n \<and> n \<le> 57 then Some (n + 4)
         else if n = 45 then Some 62 else if n = 95 then Some 63 else None)"

text \<open>A last group of two or three digits gives one or two bytes; its unused bits are not looked at.\<close>

fun b64url_ungroup :: "nat list \<Rightarrow> nat list option" where
  "b64url_ungroup [] = Some []"
| "b64url_ungroup [a] = None"
| "b64url_ungroup [a, b] = Some [a * 4 + b div 16]"
| "b64url_ungroup [a, b, c] = Some [a * 4 + b div 16, b mod 16 * 16 + c div 4]"
| "b64url_ungroup (a # b # c # d # rest) =
     map_option (\<lambda>bs. [a * 4 + b div 16, b mod 16 * 16 + c div 4, c mod 4 * 64 + d] @ bs) (b64url_ungroup rest)"

text \<open>Line breaks are skipped.\<close>

definition RawURLDecoding :: "string \<Rightarrow> bytes option" where
  "RawURLDecoding s =
     (case those (map b64url_value (filter (\<lambda>c. c \<noteq> CHR 0x0A \<and> c \<noteq> CHR 0x0D) s)) of
        None \<Rightarrow> None
      | Some ds \<Rightarrow> map_option (map word_of_nat) (b64url_ungroup ds))"

lemma of_char_b64: "d < 64 \<Longrightarrow> of_char (b64url_digit d) =
    (if d < 26 then 65 + d else if d < 52 then 71 + d else if d < 62 then d - 4 else if d = 62 then 45 else 95 :: nat)"
  by (auto simp: b64url_digit_def)

lemma b64url_value_digit: "d < 64 \<Longrightarrow> b64url_value (b64url_digit d) = Some d"
  by (auto simp: b64url_value_def of_char_b64 Let_def)

lemma b64url_digit_text: "d < 64 \<Longrightarrow> of_char (b64url_digit d) \<in> {45 :: nat} \<union> {48..57} \<union> {65..90} \<union> {95} \<union> {97..122}"
  by (auto simp: of_char_b64)

lemma b64url_groups_small: "\<forall>a \<in> set as. a < 256 \<Longrightarrow> \<forall>d \<in> set (b64url_groups as). d < 64"
  by (induction as rule: b64url_groups.induct) (auto simp: div_less_iff_less_mult; fail)+

lemma b64url_join:
  fixes x y :: nat
  shows "y < 16 \<Longrightarrow> (x * 16 + y) div 16 = x" "y < 16 \<Longrightarrow> (x * 16 + y) mod 16 = y"
    "y < 4 \<Longrightarrow> (x * 4 + y) div 4 = x" "y < 4 \<Longrightarrow> (x * 4 + y) mod 4 = y"
  by simp_all

lemma b64url_ungroup_groups: "\<forall>a \<in> set as. a < 256 \<Longrightarrow> b64url_ungroup (b64url_groups as) = Some as"
proof (induction as rule: b64url_groups.induct)
  case (3 a b)
  then have "b div 16 < 16" by auto
  then show ?case by (simp add: b64url_join)
next
  case (4 a b c rest)
  then have "b div 16 < 16" "c div 64 < 4" by auto
  then show ?case using 4 by (simp add: b64url_join)
qed simp_all

lemma unat_bytes_small: "\<forall>a \<in> set (map unat bs). a < 256" for bs :: bytes
proof -
  have "unat b < 256" for b :: byte using unsigned_less [of b] by simp
  then show ?thesis by simp
qed

lemma RawURL_chars:
  assumes "c \<in> set (RawURLEncoding bs)"
  shows "of_char c \<in> {45 :: nat} \<union> {48..57} \<union> {65..90} \<union> {95} \<union> {97..122}"
proof -
  from assms obtain d where d: "d \<in> set (b64url_groups (map unat bs))" "c = b64url_digit d" by (auto simp: RawURLEncoding_def)
  then have "d < 64" using b64url_groups_small [OF unat_bytes_small] by blast
  then show ?thesis unfolding d(2) by (rule b64url_digit_text)
qed

lemma RawURL_no_dot: "CHR ''.'' \<notin> set (RawURLEncoding bs)"
  using RawURL_chars [of "CHR ''.''" bs] by auto

lemma RawURL_roundtrip: "RawURLDecoding (RawURLEncoding bs) = Some bs"
proof -
  let ?ds = "b64url_groups (map unat bs)"
  have small: "\<forall>d \<in> set ?ds. d < 64" using unat_bytes_small by (rule b64url_groups_small)
  have plain: "filter (\<lambda>c. c \<noteq> CHR 0x0A \<and> c \<noteq> CHR 0x0D) (RawURLEncoding bs) = RawURLEncoding bs"
    using RawURL_chars [of "CHR 0x0A" bs] RawURL_chars [of "CHR 0x0D" bs] by (intro filter_True) auto
  have "map b64url_value (RawURLEncoding bs) = map Some ?ds"
    using small by (simp add: RawURLEncoding_def b64url_value_digit)
  moreover have "those (map Some xs) = Some xs" for xs :: "nat list" by (induction xs) simp_all
  moreover have "b64url_ungroup ?ds = Some (map unat bs)"
    using unat_bytes_small by (rule b64url_ungroup_groups)
  ultimately show ?thesis unfolding RawURLDecoding_def plain by (simp add: map_idI)
qed

section \<open>HMAC\<close>

unbundle bit_operations_syntax

definition hmac_key :: "bytes \<Rightarrow> bytes" where
  "hmac_key key = (let k = (if length key > 64 then sha256 key else key) in k @ replicate (64 - length k) 0)"

definition hmac_sha256 :: "bytes \<Rightarrow> bytes \<Rightarrow> bytes" where
  "hmac_sha256 key msg =
     (let k = hmac_key key
      in sha256 (map (\<lambda>b. b XOR 0x5c) k @ sha256 (map (\<lambda>b. b XOR 0x36) k @ msg)))"

lemma length_hmac [simp]: "length (hmac_sha256 key msg) = 32"
  by (simp add: hmac_sha256_def Let_def)

end
