(* ===== verification/Oidc.thy ===== *)
theory Oidc
  imports Identity_Token Encoding
begin

text \<open>
  Login through an external identity provider (\<^verbatim>\<open>internal/identity/oidc\<close>: \<^verbatim>\<open>config.go\<close>, \<^verbatim>\<open>state.go\<close>,
  \<^verbatim>\<open>client.go\<close>, \<^verbatim>\<open>mapping.go\<close>, \<^verbatim>\<open>handlers.go\<close>). The provider and the libraries that talk to it are the argument \<open>P\<close>;
  the JSON form of the state is a codec. The store is the memory store of \<^verbatim>\<open>Identity\<close>, tokens are issued by
  \<^verbatim>\<open>Identity_Token\<close>.
\<close>

section \<open>Configuration\<close>

record OidcConfig =
  oc_Enabled :: bool
  oc_IssuerURL :: string
  oc_ClientID :: string
  oc_ClientSecret :: string
  oc_RedirectURL :: string
  oc_Scopes :: "string list"
  oc_AutoProvision :: bool
  oc_LoginStateTTL :: duration
  oc_GroupRoleMap :: "(string \<times> string) list"

datatype oidc_error =
    ErrDisabled | ErrInvalidState | ErrInvalidIDToken | ErrPrincipalUnknown
  | OidcMissing string | OidcDiscovery | OidcRandom | OidcMarshal | OidcExchange | OidcClaims | OidcStore id_error

definition oidc_Validate :: "OidcConfig \<Rightarrow> oidc_error option" where
  "oidc_Validate c =
     (if \<not> oc_Enabled c then Some ErrDisabled
      else if oc_IssuerURL c = [] then Some (OidcMissing ''IssuerURL'')
      else if oc_ClientID c = [] then Some (OidcMissing ''ClientID'')
      else if oc_ClientSecret c = [] then Some (OidcMissing ''ClientSecret'')
      else if oc_RedirectURL c = [] then Some (OidcMissing ''RedirectURL'')
      else None)"

section \<open>State tokens\<close>

record stateClaims =
  st_Nonce :: string
  st_RedirectURL :: string
  st_IssuedAt :: int
  st_ExpiresAt :: int

record stateCodec =
  sc_key :: bytes
  sc_ttl :: duration

text \<open>\<open>None\<close> is the panic on an empty key.\<close>

definition newStateCodec :: "bytes \<Rightarrow> duration \<Rightarrow> stateCodec option" where
  "newStateCodec key ttl =
     (if key = [] then None
      else Some \<lparr>sc_key = key, sc_ttl = (if ttl \<le> 0 then 5 * time_Minute else ttl)\<rparr>)"

definition Unix :: "gotime \<Rightarrow> int" where
  "Unix t = (t - unix_epoch) div time_Second"

definition state_Encode :: "stateClaims jcodec \<Rightarrow> stateCodec \<Rightarrow> gotime \<Rightarrow> string \<Rightarrow> string \<Rightarrow> oidc_error + string" where
  "state_Encode J c now nonce redirect =
     (let claims = \<lparr>st_Nonce = nonce, st_RedirectURL = redirect, st_IssuedAt = Unix now, st_ExpiresAt = Unix (now + sc_ttl c)\<rparr>
      in (case jc_Marshal J claims of
            None \<Rightarrow> Inl OidcMarshal
          | Some payload \<Rightarrow>
              (let sig = hmac_sha256 (sc_key c) payload
               in Inr (RawURLEncoding payload @ ''.'' @ RawURLEncoding sig))))"

definition state_Decode :: "stateClaims jcodec \<Rightarrow> stateCodec \<Rightarrow> gotime \<Rightarrow> string \<Rightarrow> oidc_error + stateClaims" where
  "state_Decode J c now token =
     (if CHR ''.'' \<notin> set token then Inl ErrInvalidState
      else
        (case RawURLDecoding (takeWhile (\<lambda>x. x \<noteq> CHR ''.'') token) of
           None \<Rightarrow> Inl ErrInvalidState
         | Some payload \<Rightarrow>
             (case RawURLDecoding (tl (dropWhile (\<lambda>x. x \<noteq> CHR ''.'') token)) of
                None \<Rightarrow> Inl ErrInvalidState
              | Some sig \<Rightarrow>
                  if hmac_sha256 (sc_key c) payload \<noteq> sig then Inl ErrInvalidState
                  else
                    (case jc_Unmarshal J payload of
                       None \<Rightarrow> Inl ErrInvalidState
                     | Some claims \<Rightarrow> if Unix now > st_ExpiresAt claims then Inl ErrInvalidState else Inr claims))))"

section \<open>The client\<close>

record IDClaims =
  ic_Subject :: string
  ic_Email :: string
  ic_EmailVerified :: bool
  ic_Name :: string
  ic_PreferredUsername :: string
  ic_Groups :: "string list"
  ic_Issuer :: string

text \<open>
  The provider: discovery, the authorization URL for a state, the exchange of a code for the raw id token (\<open>None\<close> inside if
  the answer has none), verification of an id token, and its claims.
\<close>

record 'tok provider =
  pv_discover :: "string \<Rightarrow> bool"
  pv_AuthCodeURL :: "string list \<Rightarrow> string \<Rightarrow> string"
  pv_Exchange :: "string \<Rightarrow> string option option"
  pv_Verify :: "string \<Rightarrow> 'tok option"
  pv_Claims :: "'tok \<Rightarrow> IDClaims option"

record OidcClient =
  oi_cfg :: OidcConfig
  oi_scopes :: "string list"
  oi_state :: stateCodec

fun dedup_scopes :: "string list \<Rightarrow> string set \<Rightarrow> string list" where
  "dedup_scopes [] seen = []"
| "dedup_scopes (s # ss) seen =
     (if s = [] \<or> s \<in> seen then dedup_scopes ss seen else s # dedup_scopes ss (insert s seen))"

definition mergeScopes :: "string list \<Rightarrow> string list" where
  "mergeScopes ins =
     (let out = dedup_scopes ins {}
      in if ''openid'' \<notin> set out then ''openid'' # out else out)"

definition NewClient :: "'tok provider \<Rightarrow> OidcConfig \<Rightarrow> bytes \<Rightarrow> (oidc_error + OidcClient) option" where
  "NewClient P cfg stateKey =
     (case oidc_Validate cfg of
        Some e \<Rightarrow> Some (Inl e)
      | None \<Rightarrow>
          (case newStateCodec stateKey (oc_LoginStateTTL cfg) of
             None \<Rightarrow> None
           | Some codec \<Rightarrow>
               Some (if \<not> pv_discover P (oc_IssuerURL cfg) then Inl OidcDiscovery
                     else Inr \<lparr>oi_cfg = cfg, oi_scopes = mergeScopes (oc_Scopes cfg), oi_state = codec\<rparr>)))"

definition randomNonce :: "bytes option \<Rightarrow> oidc_error + string" where
  "randomNonce random = (case random of None \<Rightarrow> Inl OidcRandom | Some b \<Rightarrow> Inr (RawURLEncoding b))"

definition AuthURL ::
  "stateClaims jcodec \<Rightarrow> 'tok provider \<Rightarrow> OidcClient \<Rightarrow> gotime \<Rightarrow> bytes option \<Rightarrow> string \<Rightarrow> oidc_error + string \<times> string" where
  "AuthURL J P c now random redirectAfter =
     (case randomNonce random of
        Inl e \<Rightarrow> Inl e
      | Inr nonce \<Rightarrow>
          (case state_Encode J (oi_state c) now nonce redirectAfter of
             Inl e \<Rightarrow> Inl e
           | Inr state \<Rightarrow> Inr (pv_AuthCodeURL P (oi_scopes c) state, state)))"

definition VerifyState :: "stateClaims jcodec \<Rightarrow> OidcClient \<Rightarrow> gotime \<Rightarrow> string \<Rightarrow> oidc_error + string \<times> string" where
  "VerifyState J c now state =
     (case state_Decode J (oi_state c) now state of
        Inl e \<Rightarrow> Inl e
      | Inr claims \<Rightarrow> Inr (st_Nonce claims, st_RedirectURL claims))"

definition Exchange :: "'tok provider \<Rightarrow> string \<Rightarrow> oidc_error + IDClaims" where
  "Exchange P code =
     (case pv_Exchange P code of
        None \<Rightarrow> Inl OidcExchange
      | Some None \<Rightarrow> Inl ErrInvalidIDToken
      | Some (Some rawID) \<Rightarrow>
          if rawID = [] then Inl ErrInvalidIDToken
          else
            (case pv_Verify P rawID of
               None \<Rightarrow> Inl ErrInvalidIDToken
             | Some idToken \<Rightarrow>
                 (case pv_Claims P idToken of None \<Rightarrow> Inl ErrInvalidIDToken | Some claims \<Rightarrow> Inr claims)))"

section \<open>Mapping claims to principals\<close>

record DefaultMapper =
  dm_AutoProvision :: bool
  dm_GroupRoleMap :: "(string \<times> string) list"

definition rolesForGroups :: "DefaultMapper \<Rightarrow> string list \<Rightarrow> string list" where
  "rolesForGroups m groups =
     (if groups = [] \<or> dm_GroupRoleMap m = [] then []
      else concat (map (\<lambda>g. case map_of (dm_GroupRoleMap m) g of
                              None \<Rightarrow> [] | Some role \<Rightarrow> if role \<noteq> [] then [role] else []) groups))"

definition PrincipalSubject :: "IDClaims \<Rightarrow> string" where
  "PrincipalSubject claims = ''oidc:'' @ ic_Issuer claims @ '':'' @ ic_Subject claims"

definition enrichClaims :: "(string \<rightharpoonup> gany) option \<Rightarrow> IDClaims \<Rightarrow> (string \<rightharpoonup> gany) option" where
  "enrichClaims base c =
     (let b0 = (case base of None \<Rightarrow> Map.empty | Some b \<Rightarrow> b);
          b1 = b0(''oidc_sub'' \<mapsto> AString (ic_Subject c), ''oidc_iss'' \<mapsto> AString (ic_Issuer c));
          b2 = (if ic_Email c \<noteq> [] then b1(''email'' \<mapsto> AString (ic_Email c), ''email_verified'' \<mapsto> ABool (ic_EmailVerified c)) else b1);
          b3 = (if ic_Name c \<noteq> [] then b2(''name'' \<mapsto> AString (ic_Name c)) else b2);
          b4 = (if ic_PreferredUsername c \<noteq> [] then b3(''preferred_username'' \<mapsto> AString (ic_PreferredUsername c)) else b3)
      in Some (if ic_Groups c \<noteq> [] then b4(''groups'' \<mapsto> AStrings (ic_Groups c)) else b4))"

text \<open>\<open>new_id\<close> and \<open>now\<close> are the fresh identifier and the time of a first login.\<close>

definition oidc_Map ::
  "DefaultMapper \<Rightarrow> string \<Rightarrow> gotime \<Rightarrow> IDClaims \<Rightarrow> MemoryPrincipalStore \<Rightarrow> (oidc_error + Principal) \<times> MemoryPrincipalStore" where
  "oidc_Map m new_id now claims ps =
     (if ic_Subject claims = [] \<or> ic_Issuer claims = [] then (Inl OidcClaims, ps)
      else
        (let subject = PrincipalSubject claims
         in (case ps_FindBySubject ps subject of
               Inr existing \<Rightarrow>
                 (case existing of
                    None \<Rightarrow> (Inl (OidcStore ErrPrincipalInactive), ps)
                  | Some p \<Rightarrow>
                      if \<not> IsActive (Some p) then (Inl (OidcStore ErrPrincipalInactive), ps)
                      else
                        (let p1 = p\<lparr>pr_Claims := enrichClaims (pr_Claims p) claims\<rparr>;
                             p2 = the (AssignRoles (Some p1) (rolesForGroups m (ic_Groups claims)))
                         in (Inr p2, snd (ps_Save ps (Some p2)))))
             | Inl err \<Rightarrow>
                 if err \<noteq> ErrPrincipalNotFound then (Inl (OidcStore err), ps)
                 else if \<not> dm_AutoProvision m then (Inl ErrPrincipalUnknown, ps)
                 else
                   (let display = (if ic_Name claims = [] then ic_PreferredUsername claims else ic_Name claims);
                        p = \<lparr>pr_ID = new_id, pr_Type = PrincipalHuman, pr_Subject = subject, pr_DisplayName = display,
                             pr_Status = StatusActive, pr_Roles = [], pr_Claims = enrichClaims None claims,
                             pr_CreatedAt = now, pr_LastSeenAt = None\<rparr>;
                        p1 = the (AssignRoles (Some p) (rolesForGroups m (ic_Groups claims)))
                    in (case ps_Save ps (Some p1) of
                          (Some e, ps') \<Rightarrow> (Inl (OidcStore e), ps')
                        | (None, ps') \<Rightarrow> (Inr p1, ps'))))))"

section \<open>The endpoints\<close>

datatype oidc_reply =
    OidcFail string nat
  | OidcToProvider string string gotime
  | OidcSession TokenPair string

text \<open>The redirect to the provider, with the cookie and its expiry.\<close>

definition oidc_Login ::
  "stateClaims jcodec \<Rightarrow> 'tok provider \<Rightarrow> OidcClient \<Rightarrow> gotime \<Rightarrow> bytes option \<Rightarrow> string \<Rightarrow> oidc_reply" where
  "oidc_Login J P c now random returnTo =
     (case AuthURL J P c now random returnTo of
        Inl _ \<Rightarrow> OidcFail ''login failed'' 500
      | Inr (authURL, state) \<Rightarrow> OidcToProvider authURL state (now + 10 * time_Minute))"

definition coerceIssuer :: "OidcClient \<Rightarrow> string \<Rightarrow> string" where
  "coerceIssuer c iss = (if iss \<noteq> [] then iss else oc_IssuerURL (oi_cfg c))"

record oidc_request =
  oq_error :: string
  oq_code :: string
  oq_state :: string
  oq_cookie :: "string option"

definition map_failure :: "oidc_error \<Rightarrow> oidc_reply" where
  "map_failure err =
     (if err = ErrPrincipalUnknown then OidcFail ''user not provisioned'' 403
      else if err = OidcStore ErrPrincipalInactive then OidcFail ''user inactive'' 403
      else OidcFail ''principal mapping failed'' 500)"

definition oidc_Callback ::
  "stateClaims jcodec \<Rightarrow> 'tok provider \<Rightarrow> OidcClient \<Rightarrow> DefaultMapper \<Rightarrow> jwt_lib \<Rightarrow> 's KeyStore \<Rightarrow> 's \<Rightarrow> Issuer \<Rightarrow>
   gotime \<Rightarrow> string \<Rightarrow> string \<times> string \<Rightarrow> oidc_request \<Rightarrow> MemoryPrincipalStore \<Rightarrow> oidc_reply \<times> MemoryPrincipalStore" where
  "oidc_Callback J P c m D K s i now new_id uuids r ps =
     (if oq_error r \<noteq> [] then (OidcFail (''idp error: '' @ oq_error r) 400, ps)
      else if oq_code r = [] \<or> oq_state r = [] then (OidcFail ''missing code or state'' 400, ps)
      else if oq_cookie r \<noteq> Some (oq_state r) then (OidcFail ''state mismatch'' 400, ps)
      else
        (case VerifyState J c now (oq_state r) of
           Inl _ \<Rightarrow> (OidcFail ''invalid state'' 400, ps)
         | Inr (nonce, url) \<Rightarrow>
             (case Exchange P (oq_code r) of
                Inl _ \<Rightarrow> (OidcFail ''exchange failed'' 401, ps)
              | Inr claims0 \<Rightarrow>
                  (let claims = claims0\<lparr>ic_Issuer := coerceIssuer c (ic_Issuer claims0)\<rparr>
                   in (case oidc_Map m new_id now claims ps of
                         (Inl err, ps') \<Rightarrow> (map_failure err, ps')
                       | (Inr p, ps') \<Rightarrow>
                           (case Issue D K s i now uuids (Some p) of
                              Inl _ \<Rightarrow> (OidcFail ''session issuance failed'' 500, ps')
                            | Inr pair \<Rightarrow> (OidcSession pair (if url = [] then ''/'' else url), ps')))))))"

section \<open>Lemmas\<close>

lemma state_parts:
  "takeWhile (\<lambda>x. x \<noteq> CHR ''.'') (RawURLEncoding a @ ''.'' @ t) = RawURLEncoding a"
  "tl (dropWhile (\<lambda>x. x \<noteq> CHR ''.'') (RawURLEncoding a @ ''.'' @ t)) = t"
  using RawURL_no_dot [of a] by (simp_all add: takeWhile_append dropWhile_append)

lemma decode_signed:
  "jc_Unmarshal J payload = Some claims \<Longrightarrow>
   state_Decode J c t (RawURLEncoding payload @ ''.'' @ RawURLEncoding (hmac_sha256 (sc_key c) payload)) =
     (if Unix t > st_ExpiresAt claims then Inl ErrInvalidState else Inr claims)"
  unfolding state_Decode_def state_parts RawURL_roundtrip by simp

lemma AssignRoles_some: "the (AssignRoles (Some p) names) = p\<lparr>pr_Roles := assign_loop names {}\<rparr>"
  by (simp add: AssignRoles_def)

text \<open>The principal a login ends with, from the one found or made for the subject.\<close>

definition refreshed :: "DefaultMapper \<Rightarrow> IDClaims \<Rightarrow> Principal \<Rightarrow> Principal" where
  "refreshed m claims p =
     p\<lparr>pr_Claims := enrichClaims (pr_Claims p) claims, pr_Roles := assign_loop (rolesForGroups m (ic_Groups claims)) {}\<rparr>"

definition newcomer :: "string \<Rightarrow> gotime \<Rightarrow> IDClaims \<Rightarrow> Principal" where
  "newcomer new_id now claims =
     \<lparr>pr_ID = new_id, pr_Type = PrincipalHuman, pr_Subject = PrincipalSubject claims,
      pr_DisplayName = (if ic_Name claims = [] then ic_PreferredUsername claims else ic_Name claims),
      pr_Status = StatusActive, pr_Roles = [], pr_Claims = None, pr_CreatedAt = now, pr_LastSeenAt = None\<rparr>"

definition store_ok :: "MemoryPrincipalStore \<Rightarrow> bool" where
  "store_ok ps \<longleftrightarrow> ps_inv ps \<and> (\<forall>i p. ps_byID ps i = Some p \<longrightarrow> pr_ID p = i \<and> i \<noteq> [])"

lemma store_ok_ops:
  "store_ok NewMemoryPrincipalStore"
  "store_ok ps \<Longrightarrow> store_ok (snd (ps_Save ps po))"
  "store_ok ps \<Longrightarrow> store_ok (snd (ps_UpdateStatus ps i st))"
  "store_ok ps \<Longrightarrow> store_ok (snd (ps_UpdateLastSeen ps i t))"
  using ps_inv_ops
  by (auto simp: store_ok_def NewMemoryPrincipalStore_def ps_Save_def ps_UpdateStatus_def ps_UpdateLastSeen_def split: option.splits)

text \<open>The principal a login starts from: the stored active one of the subject, or a new one where that is allowed.\<close>

definition login_start :: "DefaultMapper \<Rightarrow> string \<Rightarrow> gotime \<Rightarrow> IDClaims \<Rightarrow> MemoryPrincipalStore \<Rightarrow> Principal \<Rightarrow> bool" where
  "login_start m new_id now claims ps q \<longleftrightarrow>
     ic_Subject claims \<noteq> [] \<and> ic_Issuer claims \<noteq> [] \<and>
     (case ps_bySubject ps (PrincipalSubject claims) of
        Some i \<Rightarrow> ps_byID ps i = Some q \<and> pr_Status q = StatusActive
      | None \<Rightarrow> dm_AutoProvision m \<and> q = newcomer new_id now claims)"

lemma refreshed_simps [simp]:
  "pr_ID (refreshed m c q) = pr_ID q" "pr_Status (refreshed m c q) = pr_Status q"
  "pr_Roles (refreshed m c q) = assign_loop (rolesForGroups m (ic_Groups c)) {}" "pr_Subject (refreshed m c q) = pr_Subject q"
  by (simp_all add: refreshed_def)

lemma oidc_Map_iff:
  assumes "store_ok ps" "new_id \<noteq> []"
  shows "oidc_Map m new_id now claims ps = (Inr p, ps') \<longleftrightarrow>
    (\<exists>q. login_start m new_id now claims ps q \<and> p = refreshed m claims q \<and> ps_Save ps (Some p) = (None, ps'))"
proof (cases "ps_bySubject ps (PrincipalSubject claims)")
  case None
  then show ?thesis
    using assms(2)
    by (auto simp: oidc_Map_def login_start_def ps_FindBySubject_def AssignRoles_some refreshed_def newcomer_def ps_Save_def
        Let_def)
next
  case (Some i)
  with assms(1) obtain q where q: "ps_byID ps i = Some q" "pr_ID q \<noteq> []"
    by (auto simp: store_ok_def ps_inv_def ran_def)
  with Some show ?thesis
    by (auto simp: oidc_Map_def login_start_def ps_FindBySubject_def AssignRoles_some refreshed_def ps_Save_def IsActive_def Let_def)
qed

lemma Save_stored: "ps_Save ps (Some p) = (None, ps') \<Longrightarrow> ps_byID ps' (pr_ID p) = Some p"
  by (auto simp: ps_Save_def split: if_splits)

lemma Callback_session:
  assumes "store_ok ps" "new_id \<noteq> []"
  shows "oidc_Callback J P c m D K s i now new_id uuids r ps = (OidcSession pair url, ps') \<longleftrightarrow>
    oq_error r = [] \<and> oq_code r \<noteq> [] \<and> oq_state r \<noteq> [] \<and> oq_cookie r = Some (oq_state r) \<and>
    (\<exists>st claims q. state_Decode J (oi_state c) now (oq_state r) = Inr st \<and>
       url = (if st_RedirectURL st = [] then ''/'' else st_RedirectURL st) \<and> Exchange P (oq_code r) = Inr claims \<and>
       (let claims' = claims\<lparr>ic_Issuer := coerceIssuer c (ic_Issuer claims)\<rparr>; p = refreshed m claims' q
        in login_start m new_id now claims' ps q \<and> ps_Save ps (Some p) = (None, ps') \<and> Issue D K s i now uuids (Some p) = Inr pair))"
proof (cases "oq_error r = [] \<and> oq_code r \<noteq> [] \<and> oq_state r \<noteq> [] \<and> oq_cookie r = Some (oq_state r)")
  case False
  then show ?thesis by (auto simp: oidc_Callback_def)
next
  case True
  have fail: "map_failure e \<noteq> OidcSession pair url" for e by (simp add: map_failure_def)
  show ?thesis
  proof (cases "state_Decode J (oi_state c) now (oq_state r)")
    case (Inl e)
    with True show ?thesis by (simp add: oidc_Callback_def VerifyState_def)
  next
    case st: (Inr st)
    show ?thesis
    proof (cases "Exchange P (oq_code r)")
      case (Inl e)
      with True st show ?thesis by (simp add: oidc_Callback_def VerifyState_def)
    next
      case ex: (Inr claims)
      let ?claims = "claims\<lparr>ic_Issuer := coerceIssuer c (ic_Issuer claims)\<rparr>"
      let ?url = "if st_RedirectURL st = [] then ''/'' else st_RedirectURL st"
      have "oidc_Callback J P c m D K s i now new_id uuids r ps =
          (case oidc_Map m new_id now ?claims ps of
             (Inl err, ps') \<Rightarrow> (map_failure err, ps')
           | (Inr p, ps') \<Rightarrow>
               (case Issue D K s i now uuids (Some p) of
                  Inl _ \<Rightarrow> (OidcFail ''session issuance failed'' 500, ps') | Inr pair \<Rightarrow> (OidcSession pair ?url, ps')))"
        using True st ex by (simp add: oidc_Callback_def VerifyState_def Let_def)
      then have "oidc_Callback J P c m D K s i now new_id uuids r ps = (OidcSession pair url, ps') \<longleftrightarrow>
          (\<exists>p. oidc_Map m new_id now ?claims ps = (Inr p, ps') \<and> Issue D K s i now uuids (Some p) = Inr pair \<and> url = ?url)"
        using fail by (auto split: prod.splits sum.splits)
      then show ?thesis using True st ex unfolding oidc_Map_iff [OF assms] Let_def by auto
    qed
  qed
qed

section \<open>Properties\<close>

text \<open>
  The state of a login comes back. A state token decodes to the nonce and the return address it was made
  with, until its expiry and not after; and nothing is accepted without the keyed hash of its payload.
\<close>

theorem state_roundtrip:
  assumes "state_Encode J c now nonce redirect = Inr token"
    and "round_trips J \<lparr>st_Nonce = nonce, st_RedirectURL = redirect, st_IssuedAt = Unix now, st_ExpiresAt = Unix (now + sc_ttl c)\<rparr>"
  shows "state_Decode J c t token =
      (if Unix t > Unix (now + sc_ttl c) then Inl ErrInvalidState
       else Inr \<lparr>st_Nonce = nonce, st_RedirectURL = redirect, st_IssuedAt = Unix now, st_ExpiresAt = Unix (now + sc_ttl c)\<rparr>) \<and>
    (\<forall>other claims. state_Decode J c t other = Inr claims \<longrightarrow>
       (\<exists>a b payload. other = a @ ''.'' @ b \<and> RawURLDecoding a = Some payload \<and>
          RawURLDecoding b = Some (hmac_sha256 (sc_key c) payload) \<and> jc_Unmarshal J payload = Some claims))"
proof
  let ?claims = "\<lparr>st_Nonce = nonce, st_RedirectURL = redirect, st_IssuedAt = Unix now, st_ExpiresAt = Unix (now + sc_ttl c)\<rparr>"
  from assms(2) obtain payload where payload: "jc_Marshal J ?claims = Some payload" "jc_Unmarshal J payload = Some ?claims"
    by (auto simp: round_trips_def)
  then have token: "token = RawURLEncoding payload @ ''.'' @ RawURLEncoding (hmac_sha256 (sc_key c) payload)"
    using assms(1) by (simp add: state_Encode_def Let_def)
  show "state_Decode J c t token = (if Unix t > Unix (now + sc_ttl c) then Inl ErrInvalidState else Inr ?claims)"
    unfolding token using decode_signed [OF payload(2)] by simp
next
  show "\<forall>other claims. state_Decode J c t other = Inr claims \<longrightarrow>
       (\<exists>a b payload. other = a @ ''.'' @ b \<and> RawURLDecoding a = Some payload \<and>
          RawURLDecoding b = Some (hmac_sha256 (sc_key c) payload) \<and> jc_Unmarshal J payload = Some claims)"
  proof (intro allI impI)
    fix other claims
    assume dec: "state_Decode J c t other = Inr claims"
    then have "CHR ''.'' \<in> set other" by (auto simp: state_Decode_def split: if_splits)
    then obtain a b where ab: "other = a @ CHR ''.'' # b" "CHR ''.'' \<notin> set a" by (metis split_list_first)
    then have "takeWhile (\<lambda>x. x \<noteq> CHR ''.'') other = a" "tl (dropWhile (\<lambda>x. x \<noteq> CHR ''.'') other) = b"
      by (auto simp: takeWhile_append dropWhile_append)
    with dec ab show "\<exists>a b payload. other = a @ ''.'' @ b \<and> RawURLDecoding a = Some payload \<and>
        RawURLDecoding b = Some (hmac_sha256 (sc_key c) payload) \<and> jc_Unmarshal J payload = Some claims"
      by (intro exI [of _ a] exI [of _ b]) (auto simp: state_Decode_def split: option.splits if_splits)
  qed
qed

definition sample_state :: stateClaims where
  "sample_state = \<lparr>st_Nonce = ''n'', st_RedirectURL = ''/dash'', st_IssuedAt = Unix 0, st_ExpiresAt = Unix (0 + 5 * time_Minute)\<rparr>"

definition sample_state_json :: "stateClaims jcodec" where
  "sample_state_json = \<lparr>jc_Marshal = (\<lambda>_. Some [7]), jc_Unmarshal = (\<lambda>_. Some sample_state)\<rparr>"

definition sample_codec :: stateCodec where
  "sample_codec = \<lparr>sc_key = [1, 2], sc_ttl = 5 * time_Minute\<rparr>"

definition sample_token :: string where
  "sample_token = RawURLEncoding [7] @ ''.'' @ RawURLEncoding (hmac_sha256 [1, 2] [7])"

theorem state_roundtrip_witness:
  "state_Decode sample_state_json sample_codec time_Minute sample_token = Inr sample_state"
proof -
  have enc: "state_Encode sample_state_json sample_codec 0 ''n'' ''/dash'' = Inr sample_token"
    by (simp add: state_Encode_def sample_state_json_def sample_codec_def sample_token_def Let_def)
  have "round_trips sample_state_json \<lparr>st_Nonce = ''n'', st_RedirectURL = ''/dash'', st_IssuedAt = Unix 0,
      st_ExpiresAt = Unix (0 + sc_ttl sample_codec)\<rparr>"
    by (simp add: round_trips_def sample_state_json_def sample_state_def sample_codec_def)
  from conjunct1 [OF state_roundtrip [OF enc this, of time_Minute]] show ?thesis
    by (simp add: sample_state_def sample_codec_def Unix_def durations unix_epoch_def)
qed

lemma mapped_roles:
  assumes "dm_GroupRoleMap m \<noteq> []"
  shows "set (assign_loop (rolesForGroups m groups) {}) = {role. role \<noteq> [] \<and>
    (\<exists>g \<in> set groups. \<exists>name. map_of (dm_GroupRoleMap m) g = Some name \<and> role = strings_TrimSpace name)}"
proof -
  have "set (rolesForGroups m groups) = {name. name \<noteq> [] \<and> (\<exists>g \<in> set groups. map_of (dm_GroupRoleMap m) g = Some name)}"
    using assms by (force simp: rolesForGroups_def split: option.splits if_splits)
  then show ?thesis using trim_empty unfolding assign_loop_set by blast
qed

text \<open>
  C14: a federated session. The callback opens a session only for a request whose cookie carries its state, a state token that
  decodes, and a code the provider exchanges for verified claims; it belongs to the active principal the store has under
  the combined text of issuer and subject, or to a new one where that is allowed. When a group map is configured, the
  principal has exactly the roles that the map gives to the groups of the claims. The session's access token opens
  protected handlers as that principal exactly while it has not expired, its key verifies and it is not revoked.
\<close>

theorem federated_session:
  assumes lib: "jwt_lib_ok D" "\<forall>kp \<in> ran (map_of s). key_matches D kp \<and> kp_ID kp \<noteq> []"
    and keys: "pki_step\<^sup>*\<^sup>* NewMemoryKeyStore s" "pki_step\<^sup>*\<^sup>* s s'"
    and store: "store_ok ps" "new_id \<noteq> []"
    and callback: "oidc_Callback J P c m D memory_keystore s i now new_id uuids r ps = (OidcSession pair url, ps')"
    and later: "now \<le> t" "v = \<lparr>vf_keys = memory_keystore, vf_store = s', vf_revocations = rv\<rparr>"
    and mw: "mw_devToken mw = []"
  shows "\<exists>st claims q p. oq_cookie r = Some (oq_state r) \<and> state_Decode J (oi_state c) now (oq_state r) = Inr st \<and>
    Exchange P (oq_code r) = Inr claims \<and>
    login_start m new_id now (claims\<lparr>ic_Issuer := coerceIssuer c (ic_Issuer claims)\<rparr>) ps q \<and>
    ps_byID ps' (pr_ID q) = Some p \<and> pr_ID p = pr_ID q \<and> pr_Status p = StatusActive \<and>
    (dm_GroupRoleMap m \<noteq> [] \<longrightarrow>
      set (pr_Roles p) = {role. role \<noteq> [] \<and> (\<exists>g \<in> set (ic_Groups claims). \<exists>name.
         map_of (dm_GroupRoleMap m) g = Some name \<and> role = strings_TrimSpace name)}) \<and>
    (RegisterProtectedHandler D v ps' handler (Some mw) t unix
       \<lparr>ar_Authorization = ''Bearer '' @ tp_AccessToken pair, ar_WSProtocol = w\<rparr> = Inr x \<longleftrightarrow>
     t < jl_NumericDate D (tp_AccessExp pair) \<and> IsVerifyable (map_of s' (tp_SigningKeyID pair)) t \<and>
     unrevoked v (tp_AccessJTI pair) \<and> x = handler (Some p))"
proof -
  from callback obtain st claims q where cb: "oq_cookie r = Some (oq_state r)" "state_Decode J (oi_state c) now (oq_state r) = Inr st"
      "Exchange P (oq_code r) = Inr claims"
    and start: "login_start m new_id now (claims\<lparr>ic_Issuer := coerceIssuer c (ic_Issuer claims)\<rparr>) ps q"
    and save: "ps_Save ps (Some (refreshed m (claims\<lparr>ic_Issuer := coerceIssuer c (ic_Issuer claims)\<rparr>) q)) = (None, ps')"
    and iss: "Issue D memory_keystore s i now uuids (Some (refreshed m (claims\<lparr>ic_Issuer := coerceIssuer c (ic_Issuer claims)\<rparr>) q)) = Inr pair"
    unfolding Callback_session [OF store] Let_def by blast
  let ?p = "refreshed m (claims\<lparr>ic_Issuer := coerceIssuer c (ic_Issuer claims)\<rparr>) q"
  have active: "pr_Status q = StatusActive" using start by (auto simp: login_start_def newcomer_def split: option.splits)
  have stored: "ps_byID ps' (pr_ID ?p) = Some ?p" using save by (rule Save_stored)
  note session = conjunct1 [OF issued_session [OF lib keys iss later stored mw, of handler unix w x]]
  have roles: "dm_GroupRoleMap m \<noteq> [] \<longrightarrow>
      set (pr_Roles ?p) = {role. role \<noteq> [] \<and> (\<exists>g \<in> set (ic_Groups claims). \<exists>name.
         map_of (dm_GroupRoleMap m) g = Some name \<and> role = strings_TrimSpace name)}"
    using mapped_roles [of m "ic_Groups claims"] by simp
  show ?thesis
    by (rule exI [of _ st], rule exI [of _ claims], rule exI [of _ q], rule exI [of _ ?p])
      (use session cb start stored active roles in auto)
qed

definition sample_federated :: Principal where
  "sample_federated = (sample_principal PrincipalHuman)\<lparr>pr_Subject := ''oidc:i:s''\<rparr>"

definition sample_provider :: "unit provider" where
  "sample_provider = \<lparr>pv_discover = (\<lambda>_. True), pv_AuthCodeURL = (\<lambda>_ s. s), pv_Exchange = (\<lambda>_. Some (Some ''t'')),
     pv_Verify = (\<lambda>_. Some ()),
     pv_Claims = (\<lambda>_. Some \<lparr>ic_Subject = ''s'', ic_Email = [], ic_EmailVerified = False, ic_Name = [], ic_PreferredUsername = [],
       ic_Groups = [''g''], ic_Issuer = ''i''\<rparr>)\<rparr>"

definition sample_client :: OidcClient where
  "sample_client = \<lparr>oi_cfg = \<lparr>oc_Enabled = True, oc_IssuerURL = ''i'', oc_ClientID = ''c'', oc_ClientSecret = ''x'', oc_RedirectURL = ''r'',
     oc_Scopes = [], oc_AutoProvision = False, oc_LoginStateTTL = 0, oc_GroupRoleMap = []\<rparr>,
     oi_scopes = [''openid''], oi_state = sample_codec\<rparr>"

definition sample_federated_jwt :: jwt_lib where
  "sample_federated_jwt = table_jwt
     [(''A'', \<lparr>th_Alg = ''EdDSA'', th_Kid = Some (AString ''k1'')\<rparr>,
         buildClaims (table_jwt []) sample_federated ''j1'' 0 DefaultAccessTTL AudienceAccess TypeAccess),
      (''R'', \<lparr>th_Alg = ''EdDSA'', th_Kid = Some (AString ''k1'')\<rparr>,
         buildClaims (table_jwt []) sample_federated ''j2'' 0 DefaultRefreshTTL AudienceRefresh TypeRefresh)]"

lemma buildClaims_cong:
  "jl_NumericDate D = jl_NumericDate D' \<Longrightarrow> pr_ID p = pr_ID q \<Longrightarrow> pr_Type p = pr_Type q \<Longrightarrow> pr_Subject p = pr_Subject q \<Longrightarrow>
   buildClaims D p = buildClaims D' q"
  by (intro ext) (simp add: buildClaims_def)

lemma federated_issue:
  assumes "pr_ID p = pr_ID sample_federated" "pr_Type p = pr_Type sample_federated" "pr_Subject p = pr_Subject sample_federated"
    "pr_Status p = StatusActive"
  shows "Issue sample_federated_jwt memory_keystore session_keys (NewIssuer []) 0 (''j1'', ''j2'') (Some p) = Inr sample_pair"
proof -
  have "buildClaims sample_federated_jwt p = buildClaims (table_jwt []) sample_federated"
    using assms by (intro buildClaims_cong) (simp_all add: sample_federated_jwt_def table_jwt_def)
  moreover have "ActiveKey memory_keystore session_keys PurposeJWTSigning = Inr (snd (hd session_keys))"
    by (simp add: ActiveKey_def memory_keystore_def mem_ActiveByPurpose_def session_keys_eq)
  moreover have "kp_ID (snd (hd session_keys)) = ''k1''" by (simp add: session_keys_eq)
  moreover have
    "signClaims sample_federated_jwt (buildClaims (table_jwt []) sample_federated ''j1'' 0 DefaultAccessTTL AudienceAccess TypeAccess)
      (snd (hd session_keys)) = Some ''A''"
    "signClaims sample_federated_jwt (buildClaims (table_jwt []) sample_federated ''j2'' 0 DefaultRefreshTTL AudienceRefresh TypeRefresh)
      (snd (hd session_keys)) = Some ''R''"
    by (simp_all add: signClaims_def sample_federated_jwt_def table_jwt_def session_keys_eq buildClaims_def)
  ultimately show ?thesis
    using assms(4) by (simp add: Issue_def Let_def NewIssuer_def sample_pair_def IsActive_def)
qed

theorem federated_session_witness:
  "\<exists>p ps'. RegisterProtectedHandler sample_federated_jwt \<lparr>vf_keys = memory_keystore, vf_store = session_keys, vf_revocations = None\<rparr>
     ps' id (Some (NewMiddleware [])) 5 0
     \<lparr>ar_Authorization = ''Bearer '' @ tp_AccessToken sample_pair, ar_WSProtocol = []\<rparr> = Inr (Some p) \<and> pr_Roles p = [''admin'']"
proof -
  let ?m = "\<lparr>dm_AutoProvision = False, dm_GroupRoleMap = [(''g'', ''admin'')]\<rparr>"
  let ?ps = "\<lparr>ps_byID = [''p'' \<mapsto> sample_federated], ps_bySubject = [''oidc:i:s'' \<mapsto> ''p'']\<rparr>"
  let ?r = "\<lparr>oq_error = [], oq_code = ''x'', oq_state = sample_token, oq_cookie = Some sample_token\<rparr>"
  have ok: "store_ok ?ps" "''n'' \<noteq> []" by (auto simp: store_ok_def ps_inv_def sample_federated_def samples)
  define claims where "claims = \<lparr>ic_Subject = ''s'', ic_Email = [], ic_EmailVerified = False, ic_Name = [], ic_PreferredUsername = [],
       ic_Groups = [''g''], ic_Issuer = ''i''\<rparr>"
  let ?p = "refreshed ?m (claims\<lparr>ic_Issuer := coerceIssuer sample_client (ic_Issuer claims)\<rparr>) sample_federated"
  let ?cb = "oidc_Callback sample_state_json sample_provider sample_client ?m sample_federated_jwt memory_keystore session_keys
      (NewIssuer []) 0 ''n'' (''j1'', ''j2'') ?r ?ps"
  have start: "login_start ?m ''n'' 0 (claims\<lparr>ic_Issuer := coerceIssuer sample_client (ic_Issuer claims)\<rparr>) ?ps q \<longleftrightarrow> q = sample_federated" for q
    by (auto simp: login_start_def claims_def coerceIssuer_def PrincipalSubject_def sample_federated_def samples)
  have dec: "state_Decode sample_state_json (oi_state sample_client) 0 sample_token = Inr sample_state"
    using decode_signed [of sample_state_json "[7]" sample_state sample_codec 0]
    by (simp add: sample_client_def sample_token_def sample_codec_def sample_state_json_def sample_state_def Unix_def durations unix_epoch_def)
  have ex: "Exchange sample_provider ''x'' = Inr claims" by (simp add: Exchange_def sample_provider_def claims_def)
  have iss: "Issue sample_federated_jwt memory_keystore session_keys (NewIssuer []) 0 (''j1'', ''j2'') (Some ?p) = Inr sample_pair"
    by (rule federated_issue) (simp_all add: refreshed_def sample_federated_def samples)
  have "sample_token \<noteq> []" by (simp add: sample_token_def)
  moreover have "fst (ps_Save ?ps (Some ?p)) = None" by (simp add: ps_Save_def sample_federated_def samples)
  ultimately have cb: "?cb = (OidcSession sample_pair ''/dash'', snd (ps_Save ?ps (Some ?p)))"
    unfolding Callback_session [OF ok] Let_def using dec ex iss start
    by (intro conjI exI [of _ sample_state] exI [of _ claims] exI [of _ sample_federated] prod_eqI)
      (simp_all add: sample_state_def)
  have lib: "jwt_lib_ok sample_federated_jwt" unfolding sample_federated_jwt_def by (rule table_jwt_ok) simp_all
  have match: "\<forall>kp \<in> ran (map_of session_keys). key_matches sample_federated_jwt kp \<and> kp_ID kp \<noteq> []"
    by (simp add: session_keys_eq key_matches_def sample_federated_jwt_def table_jwt_def)
  have mw: "mw_devToken (NewMiddleware []) = []" by (simp add: NewMiddleware_def)
  have time: "5 < jl_NumericDate sample_federated_jwt (tp_AccessExp sample_pair)"
    by (simp add: sample_federated_jwt_def table_jwt_def sample_pair_def DefaultAccessTTL_def durations)
  have groups: "assign_loop (rolesForGroups ?m [''g'']) {} = [''admin'']" by code_simp
  let ?ps' = "snd (ps_Save ?ps (Some ?p))"
  have stored: "ps_byID ?ps' (pr_ID sample_federated) = Some ?p" by (simp add: ps_Save_def sample_federated_def samples)
  from federated_session [OF lib match session_keys_reach rtranclp.rtrancl_refl ok cb _ refl mw,
      where t = 5 and handler = id and unix = 0 and w = "[]" and x = "Some ?p" and rv = None]
  have "RegisterProtectedHandler sample_federated_jwt \<lparr>vf_keys = memory_keystore, vf_store = session_keys, vf_revocations = None\<rparr>
      ?ps' id (Some (NewMiddleware [])) 5 0 \<lparr>ar_Authorization = ''Bearer '' @ tp_AccessToken sample_pair, ar_WSProtocol = []\<rparr> = Inr (Some ?p)"
    using ex start stored time
    by (auto simp: unrevoked_def IsVerifyable_def session_keys_eq sample_pair_def key_statuses durations)
  moreover have "pr_Roles ?p = [''admin'']" using groups by (simp add: claims_def)
  ultimately show ?thesis by blast
qed

text \<open>
  A login replaces all roles: one whose groups map to nothing takes away the roles an operator assigned in the
  store.
\<close>

lemma login_clears_roles:
  assumes "store_ok ps" "new_id \<noteq> []" "oidc_Map \<lparr>dm_AutoProvision = a, dm_GroupRoleMap = []\<rparr> new_id now claims ps = (Inr p, ps')"
  shows "pr_Roles p = [] \<and> ps_byID ps' (pr_ID p) = Some p"
  using assms(3) Save_stored unfolding oidc_Map_iff [OF assms(1,2)] by (auto simp: rolesForGroups_def)

text \<open>Issuer and subject are joined with a colon: different pairs can name the same principal.\<close>

lemma subjects_collide:
  "PrincipalSubject (c\<lparr>ic_Issuer := ''a'', ic_Subject := ''b:c''\<rparr>) = PrincipalSubject (c\<lparr>ic_Issuer := ''a:b'', ic_Subject := ''c''\<rparr>)"
  by (simp add: PrincipalSubject_def)

end
