(* ===== verification/Dns.thy ===== *)
theory Dns
  imports Events
begin

text \<open>
  The caching DNS forwarder (\<^verbatim>\<open>internal/network/dns/resolver.go\<close>). Messages are those of \<^verbatim>\<open>miekg/dns\<close> as far as the
  resolver looks at them: the questions, the response code and the three record sections; a record is a
  parameter type. That package's \<^verbatim>\<open>SetReply\<close>, its table of type names and its exchange with a server are
  arguments, and so is what each question draws from the outside: times and an identifier. The events pushed and
  the exchanges made are returned as a log.
\<close>

section \<open>Messages\<close>

record dns_question =
  dq_Name :: string
  dq_Qtype :: nat

record 'rr dns_msg =
  dm_Question :: "dns_question list"
  dm_Authoritative :: bool
  dm_Rcode :: nat
  dm_Answer :: "'rr list"
  dm_Ns :: "'rr list"
  dm_Extra :: "'rr list"

section \<open>The resolver\<close>

record DNSConfig =
  dc_UpstreamServers :: "string list"
  dc_CacheSize :: int
  dc_CacheTTLSeconds :: int

record 'rr cacheEntry =
  ce_msg :: "'rr dns_msg"
  ce_expires :: gotime

text \<open>\<open>rs_pipeline\<close> says whether the resolver has a pipeline to push to.\<close>

record 'rr Resolver =
  rs_cfg :: DNSConfig
  rs_pipeline :: bool
  rs_cache :: "(string \<times> 'rr cacheEntry) list"

definition NewResolver :: "DNSConfig \<Rightarrow> bool \<Rightarrow> 'rr Resolver" where
  "NewResolver cfg pipeline = \<lparr>rs_cfg = cfg, rs_pipeline = pipeline, rs_cache = []\<rparr>"

definition cache_limit :: "DNSConfig \<Rightarrow> int" where
  "cache_limit cfg = (if dc_CacheSize cfg \<le> 0 then 10000 else dc_CacheSize cfg)"

text \<open>The lifetime is a product of 64-bit durations and wraps around.\<close>

definition cache_ttl :: "DNSConfig \<Rightarrow> duration" where
  "cache_ttl cfg = signed_take_bit 63 ((if dc_CacheTTLSeconds cfg \<le> 0 then 300 else dc_CacheTTLSeconds cfg) * time_Second)"

definition evictExpired :: "gotime \<Rightarrow> 'rr Resolver \<Rightarrow> 'rr Resolver" where
  "evictExpired now r = r\<lparr>rs_cache := filter (\<lambda>(k, e). \<not> now > ce_expires e) (rs_cache r)\<rparr>"

definition cacheKey :: "string \<Rightarrow> nat \<Rightarrow> string" where
  "cacheKey name qtype = name @ '':'' @ dec qtype"

definition cacheLookup :: "gotime \<Rightarrow> string \<Rightarrow> nat \<Rightarrow> 'rr Resolver \<Rightarrow> 'rr dns_msg option" where
  "cacheLookup now name qtype r =
     (case map_of (rs_cache r) (cacheKey name qtype) of
        None \<Rightarrow> None
      | Some e \<Rightarrow> if now > ce_expires e then None else Some (ce_msg e))"

definition cacheStore :: "gotime \<Rightarrow> string \<Rightarrow> nat \<Rightarrow> 'rr dns_msg \<Rightarrow> 'rr Resolver \<Rightarrow> 'rr Resolver" where
  "cacheStore now name qtype msg r =
     (if int (length (rs_cache r)) \<ge> cache_limit (rs_cfg r) then r
      else r\<lparr>rs_cache := AList.update (cacheKey name qtype)
               \<lparr>ce_msg = msg, ce_expires = now + cache_ttl (rs_cfg r)\<rparr> (rs_cache r)\<rparr>)"

text \<open>
  An exchange maps a server and a request to an error (\<open>None\<close>) or to the answer, which may be missing
  (\<open>Some None\<close>).
\<close>

type_synonym 'rr exchange = "string \<Rightarrow> 'rr dns_msg \<Rightarrow> 'rr dns_msg option option"

definition forward :: "'rr exchange \<Rightarrow> 'rr dns_msg \<Rightarrow> 'rr Resolver \<Rightarrow> 'rr dns_msg option option" where
  "forward X req r =
     (case dc_UpstreamServers (rs_cfg r) of [] \<Rightarrow> None | server # _ \<Rightarrow> X server req)"

definition dns_event :: "(nat \<Rightarrow> string) \<Rightarrow> string \<Rightarrow> gotime \<Rightarrow> string \<Rightarrow> dns_question \<Rightarrow> NetworkEvent" where
  "dns_event TypeToString uuid now remote q =
     \<lparr>ev_ID = uuid, ev_Type = EventDNS, ev_Source = remote, ev_Destination = ''SIEM_DNS'',
      ev_Metadata = Some [''type'' \<mapsto> AString (TypeToString (dq_Qtype q)), ''name'' \<mapsto> AString (dq_Name q)],
      ev_Timestamp = now, ev_Signature = [], ev_SignerKeyID = []\<rparr>"

definition add_sections :: "'rr dns_msg \<Rightarrow> 'rr dns_msg \<Rightarrow> 'rr dns_msg" where
  "add_sections msg m =
     msg\<lparr>dm_Answer := dm_Answer msg @ dm_Answer m, dm_Ns := dm_Ns msg @ dm_Ns m, dm_Extra := dm_Extra msg @ dm_Extra m\<rparr>"

text \<open>
  What one question draws: the time and identifier of its event, the time of the lookup, the exchange with the
  server, and the time of the store. The log of a request holds its events and the exchanges that were answered.
\<close>

record 'rr dns_draw =
  dd_event :: gotime
  dd_uuid :: string
  dd_lookup :: gotime
  dd_exchange :: "'rr exchange"
  dd_store :: gotime

datatype 'rr dns_effect =
    Pushed NetworkEvent
  | Answered dns_question "'rr dns_msg" gotime "'rr dns_msg"

text \<open>
  The loop over the questions. The result is the reply, or \<open>None\<close> if the request is answered with
  \<^verbatim>\<open>dns.HandleFailed\<close>; the resolver; and the log.
\<close>

fun serve_loop ::
  "(nat \<Rightarrow> string) \<Rightarrow> string \<Rightarrow> 'rr dns_msg \<Rightarrow> (dns_question \<times> 'rr dns_draw) list \<Rightarrow> 'rr dns_msg \<Rightarrow> 'rr Resolver \<Rightarrow>
   'rr dns_msg option \<times> 'rr Resolver \<times> 'rr dns_effect list" where
  "serve_loop N remote req [] msg r = (Some msg, r, [])"
| "serve_loop N remote req ((q, d) # qs) msg r =
     (let evs = (if rs_pipeline r then [Pushed (dns_event N (dd_uuid d) (dd_event d) remote q)] else [])
      in case cacheLookup (dd_lookup d) (dq_Name q) (dq_Qtype q) r of
           Some cached \<Rightarrow>
             (case serve_loop N remote req qs (add_sections msg cached) r of (res, r', l) \<Rightarrow> (res, r', evs @ l))
         | None \<Rightarrow>
             (case forward (dd_exchange d) req r of
                None \<Rightarrow> (None, r, evs)
              | Some None \<Rightarrow> (case serve_loop N remote req qs msg r of (res, r', l) \<Rightarrow> (res, r', evs @ l))
              | Some (Some resp) \<Rightarrow>
                  (case serve_loop N remote req qs (add_sections msg resp)
                          (cacheStore (dd_store d) (dq_Name q) (dq_Qtype q) resp r) of
                     (res, r', l) \<Rightarrow> (res, r', evs @ Answered q req (dd_store d) resp # l))))"

definition ServeDNS ::
  "('rr dns_msg \<Rightarrow> 'rr dns_msg) \<Rightarrow> (nat \<Rightarrow> string) \<Rightarrow> string \<Rightarrow> (nat \<Rightarrow> 'rr dns_draw) \<Rightarrow> 'rr dns_msg \<Rightarrow> 'rr Resolver \<Rightarrow>
   'rr dns_msg option \<times> 'rr Resolver \<times> 'rr dns_effect list" where
  "ServeDNS SetReply N remote draws req r =
     (let qs = dm_Question req
      in serve_loop N remote req (zip qs (map draws [0..<length qs])) ((SetReply req)\<lparr>dm_Authoritative := True\<rparr>) r)"

text \<open>A run of the resolver: requests, and the evictions of \<^verbatim>\<open>StartCacheEvictor\<close>, one after the other.\<close>

datatype 'rr dns_op =
    Serve string "nat \<Rightarrow> 'rr dns_draw" "'rr dns_msg"
  | Evict gotime

fun dns_run ::
  "('rr dns_msg \<Rightarrow> 'rr dns_msg) \<Rightarrow> (nat \<Rightarrow> string) \<Rightarrow> 'rr dns_op list \<Rightarrow> 'rr Resolver \<Rightarrow> 'rr Resolver \<times> 'rr dns_effect list" where
  "dns_run SR N [] r = (r, [])"
| "dns_run SR N (Serve remote draws req # ops) r =
     (case ServeDNS SR N remote draws req r of
        (res, r', l) \<Rightarrow> (case dns_run SR N ops r' of (r'', l') \<Rightarrow> (r'', l @ l')))"
| "dns_run SR N (Evict now # ops) r = dns_run SR N ops (evictExpired now r)"

section \<open>Cache keys\<close>

lemma cacheKey_inj: "cacheKey n q = cacheKey n' q' \<longleftrightarrow> n = n' \<and> q = q'"
proof
  assume eq: "cacheKey n q = cacheKey n' q'"
  have no: "CHR '':'' \<notin> set (dec k)" for k using dec_digits [of "CHR '':''" k] by auto
  have "takeWhile (\<lambda>c. c \<noteq> CHR '':'') (rev (dec k) @ CHR '':'' # s) = rev (dec k)" for k s
    using no [of k] by (subst takeWhile_append2) auto
  then have "takeWhile (\<lambda>c. c \<noteq> CHR '':'') (rev (cacheKey m k)) = rev (dec k)" for m k by (simp add: cacheKey_def)
  with eq have "rev (dec q) = rev (dec q')" by metis
  then have *: "dec q = dec q'" by simp
  then have "q = q'" using undec_dec by metis
  with eq * show "n = n' \<and> q = q'" by (simp add: cacheKey_def)
qed simp

section \<open>What the cache holds\<close>

text \<open>
  Relative to the log: every entry is an answer that was fetched for the key's name and type and expires one
  lifetime after it was stored; and the cache is within its limit.
\<close>

definition backed :: "DNSConfig \<Rightarrow> 'rr dns_effect set \<Rightarrow> string \<Rightarrow> 'rr cacheEntry \<Rightarrow> bool" where
  "backed cfg L k e \<longleftrightarrow>
     (\<exists>q req t. Answered q req t (ce_msg e) \<in> L \<and> k = cacheKey (dq_Name q) (dq_Qtype q) \<and> ce_expires e = t + cache_ttl cfg)"

definition cache_inv :: "DNSConfig \<Rightarrow> 'rr dns_effect set \<Rightarrow> 'rr Resolver \<Rightarrow> bool" where
  "cache_inv cfg L r \<longleftrightarrow>
     rs_cfg r = cfg \<and> distinct (map fst (rs_cache r)) \<and> int (length (rs_cache r)) \<le> cache_limit cfg \<and>
     (\<forall>k e. (k, e) \<in> set (rs_cache r) \<longrightarrow> backed cfg L k e)"

lemma cache_limit_pos: "0 < cache_limit cfg"
  by (simp add: cache_limit_def)

lemma cache_inv_new: "cache_inv cfg L (NewResolver cfg p)"
  using cache_limit_pos [of cfg] by (simp add: cache_inv_def NewResolver_def)

lemma backed_mono: "backed cfg L k e \<Longrightarrow> L \<subseteq> L' \<Longrightarrow> backed cfg L' k e"
  unfolding backed_def by blast

lemma cache_inv_mono: "cache_inv cfg L r \<Longrightarrow> L \<subseteq> L' \<Longrightarrow> cache_inv cfg L' r"
  unfolding cache_inv_def using backed_mono by blast

lemma cache_inv_evict:
  assumes "cache_inv cfg L r"
  shows "cache_inv cfg L (evictExpired now r)"
proof -
  have "int (length (filter P (rs_cache r))) \<le> cache_limit cfg" for P
    by (rule order_trans [of _ "int (length (rs_cache r))"]) (use assms in \<open>simp_all add: cache_inv_def\<close>)
  with assms show ?thesis unfolding cache_inv_def evictExpired_def by (auto simp: distinct_map_filter)
qed

lemma update_entries:
  "distinct (map fst al) \<Longrightarrow> (k', e') \<in> set (AList.update k e al) \<Longrightarrow> (k', e') = (k, e) \<or> (k', e') \<in> set al"
  by (induction al) (auto split: if_splits)

lemma length_update_le: "length (AList.update k e al) \<le> Suc (length al)"
  by (induction al) auto

lemma cache_inv_store:
  assumes "cache_inv cfg L r"
  shows "cache_inv cfg (insert (Answered q req t m) L) (cacheStore t (dq_Name q) (dq_Qtype q) m r)"
proof (cases "int (length (rs_cache r)) \<ge> cache_limit (rs_cfg r)")
  case True
  then show ?thesis using cache_inv_mono [OF assms subset_insertI] by (simp add: cacheStore_def)
next
  case False
  let ?k = "cacheKey (dq_Name q) (dq_Qtype q)"
  let ?e = "\<lparr>ce_msg = m, ce_expires = t + cache_ttl cfg\<rparr>"
  have inv: "rs_cfg r = cfg" "distinct (map fst (rs_cache r))" "\<And>k e. (k, e) \<in> set (rs_cache r) \<Longrightarrow> backed cfg L k e"
    using assms by (auto simp: cache_inv_def)
  have "backed cfg (insert (Answered q req t m) L) ?k ?e" unfolding backed_def by auto
  moreover have "int (length (AList.update ?k ?e (rs_cache r))) \<le> cache_limit cfg"
    using False inv(1) length_update_le [of ?k ?e "rs_cache r"] by simp
  moreover have "distinct (map fst (AList.update ?k ?e (rs_cache r)))" using inv(2) by (rule distinct_update)
  moreover have "backed cfg (insert (Answered q req t m) L) k e" if "(k, e) \<in> set (AList.update ?k ?e (rs_cache r))" for k e
    using update_entries [OF inv(2) that] inv(3) calculation(1) backed_mono [OF _ subset_insertI] by blast
  ultimately show ?thesis using False inv(1) by (auto simp: cache_inv_def cacheStore_def)
qed

lemma cache_inv_loop:
  fixes r :: "'a Resolver"
  shows "serve_loop N remote req qs msg r = (res, r', l) \<Longrightarrow> cache_inv cfg L r \<Longrightarrow> cache_inv cfg (L \<union> set l) r'"
proof (induction qs arbitrary: msg r L res r' l)
  case (Cons qd qs)
  obtain q d where qd: "qd = (q, d)" by (cases qd)
  define evs :: "'a dns_effect list" where "evs = (if rs_pipeline r then [Pushed (dns_event N (dd_uuid d) (dd_event d) remote q)] else [])"
  have ev: "cache_inv cfg (L \<union> set evs \<union> A) r" for A
    using Cons.prems(2) by (rule cache_inv_mono) auto
  note run = Cons.prems(1) [unfolded qd serve_loop.simps Let_def, folded evs_def]
  show ?case
  proof (cases "cacheLookup (dd_lookup d) (dq_Name q) (dq_Qtype q) r")
    case hit: None
    show ?thesis
    proof (cases "forward (dd_exchange d) req r")
      case None
      with hit run ev [of "{}"] show ?thesis by simp
    next
      case (Some a)
      show ?thesis
      proof (cases a)
        case None
        with hit Some run obtain l' where "serve_loop N remote req qs msg r = (res, r', l')" "l = evs @ l'"
          by (auto split: prod.splits)
        with Cons.IH [OF _ ev [of "{}"]] show ?thesis by (simp add: Un_assoc)
      next
        case (Some resp)
        let ?A = "Answered q req (dd_store d) resp"
        obtain l' where l': "serve_loop N remote req qs (add_sections msg resp)
            (cacheStore (dd_store d) (dq_Name q) (dq_Qtype q) resp r) = (res, r', l')" "l = evs @ ?A # l'"
          using hit Some \<open>forward _ _ r = Some a\<close> run by (auto split: prod.splits)
        have "cache_inv cfg (insert ?A (L \<union> set evs)) (cacheStore (dd_store d) (dq_Name q) (dq_Qtype q) resp r)"
          using cache_inv_store [OF ev [of "{}"]] by simp
        from Cons.IH [OF l'(1) this] show ?thesis by (simp add: l'(2) Un_assoc)
      qed
    qed
  next
    case (Some c)
    with run obtain l' where "serve_loop N remote req qs (add_sections msg c) r = (res, r', l')" "l = evs @ l'"
      by (auto split: prod.splits)
    with Cons.IH [OF _ ev [of "{}"]] show ?thesis by (simp add: Un_assoc)
  qed
qed simp

lemma cache_inv_run:
  "dns_run SR N ops r = (r', l) \<Longrightarrow> cache_inv cfg L r \<Longrightarrow> cache_inv cfg (L \<union> set l) r'"
proof (induction ops arbitrary: r L r' l)
  case (Cons op ops)
  show ?case
  proof (cases op)
    case (Serve remote draws req)
    obtain res r1 l1 where 1: "ServeDNS SR N remote draws req r = (res, r1, l1)" by (cases "ServeDNS SR N remote draws req r")
    then obtain l2 where 2: "dns_run SR N ops r1 = (r', l2)" "l = l1 @ l2"
      using Cons.prems(1) Serve by (auto split: prod.splits)
    have "cache_inv cfg (L \<union> set l1) r1" using cache_inv_loop 1 Cons.prems(2) unfolding ServeDNS_def Let_def by metis
    from Cons.IH [OF 2(1) this] show ?thesis by (simp add: 2(2) Un_assoc)
  next
    case (Evict now)
    with Cons show ?thesis using cache_inv_evict by fastforce
  qed
qed simp

lemma lookup_backed:
  assumes "cache_inv cfg L r" "cacheLookup now n q r = Some m"
  shows "\<exists>q' req t. Answered q' req t m \<in> L \<and> dq_Name q' = n \<and> dq_Qtype q' = q \<and> now \<le> t + cache_ttl cfg"
proof -
  obtain e where e: "map_of (rs_cache r) (cacheKey n q) = Some e" "\<not> now > ce_expires e" "m = ce_msg e"
    using assms(2) by (auto simp: cacheLookup_def split: option.splits if_splits)
  with assms(1) have "backed cfg L (cacheKey n q) e" by (auto simp: cache_inv_def dest: map_of_SomeD)
  with e show ?thesis by (fastforce simp: backed_def cacheKey_inj)
qed

section \<open>What a request is answered with\<close>

text \<open>
  The messages one question contributes to the reply: none if the server answered without a message, and
  otherwise one, which was logged for that name and type at most one lifetime before the lookup, or is the
  server's answer to this request.
\<close>

definition sourced ::
  "DNSConfig \<Rightarrow> 'rr dns_effect set \<Rightarrow> 'rr dns_msg \<Rightarrow> dns_question \<times> 'rr dns_draw \<Rightarrow> 'rr dns_msg list \<Rightarrow> bool" where
  "sourced cfg L req qd ms \<longleftrightarrow>
     (case qd of (q, d) \<Rightarrow>
        (case ms of
           [] \<Rightarrow> dc_UpstreamServers cfg \<noteq> [] \<and> dd_exchange d (hd (dc_UpstreamServers cfg)) req = Some None
         | [m] \<Rightarrow>
             (\<exists>q' req' t. Answered q' req' t m \<in> L \<and> dq_Name q' = dq_Name q \<and> dq_Qtype q' = dq_Qtype q \<and>
                dd_lookup d \<le> t + cache_ttl cfg) \<or>
             (dc_UpstreamServers cfg \<noteq> [] \<and> dd_exchange d (hd (dc_UpstreamServers cfg)) req = Some (Some m))
         | _ \<Rightarrow> False))"

lemma sourced_mono: "sourced cfg L req qd ms \<Longrightarrow> L \<subseteq> L' \<Longrightarrow> sourced cfg L' req qd ms"
  unfolding sourced_def by (auto split: prod.splits list.splits)

lemma all_sourced_mono: "list_all2 (sourced cfg L req) qs ms \<Longrightarrow> L \<subseteq> L' \<Longrightarrow> list_all2 (sourced cfg L' req) qs ms"
  using sourced_mono list_all2_mono by metis

lemma forward_exchanged:
  "forward X req r = Some a \<longleftrightarrow>
   dc_UpstreamServers (rs_cfg r) \<noteq> [] \<and> X (hd (dc_UpstreamServers (rs_cfg r))) req = Some a"
  unfolding forward_def by (cases "dc_UpstreamServers (rs_cfg r)") auto

lemma cacheStore_cfg [simp]: "rs_cfg (cacheStore t n q m r) = rs_cfg r"
  by (simp add: cacheStore_def)

text \<open>What is logged as an answer is one, of the first upstream server to the whole request.\<close>

lemma loop_answers:
  fixes r :: "'a Resolver"
  shows "serve_loop N remote req qs msg r = (res, r', l) \<Longrightarrow>
    rs_cfg r' = rs_cfg r \<and>
    (Answered q req' t m \<in> set l \<longrightarrow>
      req' = req \<and> (\<exists>d. (q, d) \<in> set qs \<and> dd_store d = t \<and> forward (dd_exchange d) req r = Some (Some m)))"
proof (induction qs arbitrary: msg r res r' l)
  case (Cons qd qs)
  obtain p d where qd: "qd = (p, d)" by (cases qd)
  define evs :: "'a dns_effect list" where "evs = (if rs_pipeline r then [Pushed (dns_event N (dd_uuid d) (dd_event d) remote p)] else [])"
  have evs: "Answered q req' t m \<notin> set evs" by (simp add: evs_def)
  note run = Cons.prems(1) [unfolded qd serve_loop.simps Let_def, folded evs_def]
  have step: ?case
    if "serve_loop N remote req qs msg1 r1 = (res, r', l1)" "rs_cfg r1 = rs_cfg r" "set l \<subseteq> set evs \<union> A \<union> set l1"
      "Answered q req' t m \<in> A \<Longrightarrow> req' = req \<and> p = q \<and> dd_store d = t \<and> forward (dd_exchange d) req r = Some (Some m)"
    for msg1 r1 l1 A
  proof -
    have "forward X req r1 = forward X req r" for X using that(2) by (simp add: forward_def)
    with Cons.IH [OF that(1)] that evs show ?thesis by (fastforce simp: qd)
  qed
  show ?case
  proof (cases "cacheLookup (dd_lookup d) (dq_Name p) (dq_Qtype p) r")
    case miss: None
    show ?thesis
    proof (cases "forward (dd_exchange d) req r")
      case None
      with miss run evs show ?thesis by auto
    next
      case (Some a)
      show ?thesis
      proof (cases a)
        case None
        with miss Some run obtain l1 where "serve_loop N remote req qs msg r = (res, r', l1)" "l = evs @ l1"
          by (auto split: prod.splits)
        then show ?thesis by (intro step [of msg r l1 "{}"]) auto
      next
        case (Some resp)
        let ?r = "cacheStore (dd_store d) (dq_Name p) (dq_Qtype p) resp r" and ?A = "Answered p req (dd_store d) resp"
        obtain l1 where "serve_loop N remote req qs (add_sections msg resp) ?r = (res, r', l1)" "l = evs @ ?A # l1"
          using miss Some \<open>forward _ _ r = Some a\<close> run by (auto split: prod.splits)
        then show ?thesis
          using Some \<open>forward _ _ r = Some a\<close> by (intro step [of "add_sections msg resp" ?r l1 "{?A}"]) auto
      qed
    qed
  next
    case (Some c)
    with run obtain l1 where "serve_loop N remote req qs (add_sections msg c) r = (res, r', l1)" "l = evs @ l1"
      by (auto split: prod.splits)
    then show ?thesis by (intro step [of "add_sections msg c" r l1 "{}"]) auto
  qed
qed simp

text \<open>An answer of the first upstream server to one of the served requests, for a question in it.\<close>

definition upstream_answer :: "DNSConfig \<Rightarrow> 'rr dns_op set \<Rightarrow> dns_question \<Rightarrow> gotime \<Rightarrow> 'rr dns_msg \<Rightarrow> bool" where
  "upstream_answer cfg S q t m \<longleftrightarrow>
     dc_UpstreamServers cfg \<noteq> [] \<and>
     (\<exists>remote draws req i. Serve remote draws req \<in> S \<and> i < length (dm_Question req) \<and>
        dq_Name (dm_Question req ! i) = dq_Name q \<and> dq_Qtype (dm_Question req ! i) = dq_Qtype q \<and>
        dd_exchange (draws i) (hd (dc_UpstreamServers cfg)) req = Some (Some m) \<and> dd_store (draws i) = t)"

lemma upstream_answer_mono: "upstream_answer cfg S q t m \<Longrightarrow> S \<subseteq> S' \<Longrightarrow> upstream_answer cfg S' q t m"
  unfolding upstream_answer_def by blast

lemma serve_answers:
  assumes "ServeDNS SR N remote draws req r = (res, r', l)"
  shows "rs_cfg r' = rs_cfg r"
    and "Answered q req' t m \<in> set l \<Longrightarrow> upstream_answer (rs_cfg r) {Serve remote draws req} q t m"
proof -
  note loop = loop_answers [OF assms [unfolded ServeDNS_def Let_def], of q req' t m]
  then show "rs_cfg r' = rs_cfg r" by blast
  assume "Answered q req' t m \<in> set l"
  with loop obtain d where d: "(q, d) \<in> set (zip (dm_Question req) (map draws [0..<length (dm_Question req)]))"
    "dd_store d = t" "forward (dd_exchange d) req r = Some (Some m)" by blast
  from d(1) obtain i where "i < length (dm_Question req)" "q = dm_Question req ! i" "d = draws i"
    by (auto simp: set_zip)
  with d(2,3) show "upstream_answer (rs_cfg r) {Serve remote draws req} q t m"
    unfolding upstream_answer_def forward_exchanged by blast
qed

lemma run_answers:
  "dns_run SR N ops r = (r', l) \<Longrightarrow>
   rs_cfg r' = rs_cfg r \<and> (Answered q req' t m \<in> set l \<longrightarrow> upstream_answer (rs_cfg r) (set ops) q t m)"
proof (induction ops arbitrary: r r' l)
  case (Cons op ops)
  show ?case
  proof (cases op)
    case (Serve remote draws req)
    obtain res r1 l1 where 1: "ServeDNS SR N remote draws req r = (res, r1, l1)" by (cases "ServeDNS SR N remote draws req r")
    then obtain l2 where 2: "dns_run SR N ops r1 = (r', l2)" "l = l1 @ l2"
      using Cons.prems(1) Serve by (auto split: prod.splits)
    show ?thesis
      using Cons.IH [OF 2(1)] serve_answers(1) [OF 1] serve_answers(2) [OF 1, of q req' t m] 2(2) Serve
        upstream_answer_mono [of _ "set ops" _ _ _ "set (op # ops)"] upstream_answer_mono [of _ "{op}" _ _ _ "set (op # ops)"]
      by auto
  next
    case (Evict now)
    with Cons.prems Cons.IH [of "evictExpired now r" r' l] upstream_answer_mono [of _ "set ops" _ _ _ "set (op # ops)"]
    show ?thesis by (auto simp: evictExpired_def)
  qed
qed simp

lemma serve_sourced:
  fixes r :: "'a Resolver"
  shows "serve_loop N remote req qs msg r = (Some reply, r', l) \<Longrightarrow> cache_inv cfg L r \<Longrightarrow>
    \<exists>mss. list_all2 (sourced cfg (L \<union> set l) req) qs mss \<and> reply = foldl add_sections msg (concat mss)"
proof (induction qs arbitrary: msg r L r' l)
  case Nil
  then show ?case by (intro exI [of _ "[]"]) simp
next
  case (Cons qd qs)
  obtain q d where qd: "qd = (q, d)" by (cases qd)
  define evs :: "'a dns_effect list" where "evs = (if rs_pipeline r then [Pushed (dns_event N (dd_uuid d) (dd_event d) remote q)] else [])"
  note run = Cons.prems(1) [unfolded qd serve_loop.simps Let_def, folded evs_def]
  have step: ?case
    if rest: "serve_loop N remote req qs (foldl add_sections msg ms) r1 = (Some reply, r', l1)"
      and sub: "set l1 \<subseteq> set l" and inv: "cache_inv cfg L1 r1" "L1 \<subseteq> L \<union> set l"
      and src: "sourced cfg (L \<union> set l) req qd ms" for ms r1 l1 L1
  proof -
    from Cons.IH [OF rest inv(1)] obtain mss where
      "list_all2 (sourced cfg (L1 \<union> set l1) req) qs mss" "reply = foldl add_sections (foldl add_sections msg ms) (concat mss)"
      by blast
    moreover have "L1 \<union> set l1 \<subseteq> L \<union> set l" using sub inv(2) by blast
    ultimately show ?thesis using src all_sourced_mono by (intro exI [of _ "ms # mss"]) fastforce
  qed
  show ?case
  proof (cases "cacheLookup (dd_lookup d) (dq_Name q) (dq_Qtype q) r")
    case miss: None
    show ?thesis
    proof (cases "forward (dd_exchange d) req r")
      case (Some a)
      have cfg: "rs_cfg r = cfg" using Cons.prems(2) by (simp add: cache_inv_def)
      note ex = Some [unfolded forward_exchanged cfg]
      show ?thesis
      proof (cases a)
        case None
        with miss Some run obtain l' where l': "serve_loop N remote req qs msg r = (Some reply, r', l')" "l = evs @ l'"
          by (auto split: prod.splits)
        show ?thesis by (rule step [of "[]" r l' L]) (use None l' ex Cons.prems(2) in \<open>auto simp: sourced_def qd\<close>)
      next
        case (Some resp)
        let ?r = "cacheStore (dd_store d) (dq_Name q) (dq_Qtype q) resp r"
        from miss \<open>forward _ _ r = Some a\<close> Some run obtain l' where
          l': "serve_loop N remote req qs (add_sections msg resp) ?r = (Some reply, r', l')" "l = evs @ Answered q req (dd_store d) resp # l'"
          by (auto split: prod.splits)
        show ?thesis
          by (rule step [of "[resp]" ?r l' "insert (Answered q req (dd_store d) resp) L"])
            (use l' ex Some cache_inv_store [OF Cons.prems(2)] in \<open>auto simp: sourced_def qd\<close>)
      qed
    qed (use miss run in simp)
  next
    case (Some c)
    with run obtain l' where l': "serve_loop N remote req qs (add_sections msg c) r = (Some reply, r', l')" "l = evs @ l'"
      by (auto split: prod.splits)
    show ?thesis
      by (rule step [of "[c]" r l' L]) (use l' Cons.prems(2) lookup_backed [OF Cons.prems(2) Some] in \<open>auto simp: sourced_def qd\<close>)
  qed
qed

lemma add_sections_all:
  "foldl add_sections msg ms = msg\<lparr>dm_Answer := dm_Answer msg @ concat (map dm_Answer ms),
     dm_Ns := dm_Ns msg @ concat (map dm_Ns ms), dm_Extra := dm_Extra msg @ concat (map dm_Extra ms)\<rparr>"
  by (induction ms arbitrary: msg) (simp_all add: add_sections_def)

section \<open>Properties\<close>

text \<open>
  C29: Over any sequence of requests, one after the other, and evictions the cache of the resolver stays within
  its configured size. A request that is answered gets the reply the DNS library sets up for it, marked as
  authoritative, with the answer, authority and additional records of a list of messages and with nothing else
  changed. Each question contributes one message, or none if the server answered without one. The message is what
  the first configured upstream server answered to this request, or to a request (this one or an earlier
  one) that had a question of the same name and type, which it stored at most one cache lifetime (the
  configured seconds as a 64-bit duration) before the question was looked up.
\<close>

theorem dns_replies_from_upstream:
  assumes "dns_run SR N ops (NewResolver cfg pipeline) = (r, past)"
  shows "int (length (rs_cache r)) \<le> cache_limit cfg \<and>
    (\<forall>remote draws req reply r' now. ServeDNS SR N remote draws req r = (Some reply, r', now) \<longrightarrow>
      (\<exists>mss. length mss = length (dm_Question req) \<and>
        reply = (SR req)\<lparr>dm_Authoritative := True,
          dm_Answer := dm_Answer (SR req) @ concat (map dm_Answer (concat mss)),
          dm_Ns := dm_Ns (SR req) @ concat (map dm_Ns (concat mss)),
          dm_Extra := dm_Extra (SR req) @ concat (map dm_Extra (concat mss))\<rparr> \<and>
        (\<forall>i < length (dm_Question req).
          dc_UpstreamServers cfg \<noteq> [] \<and> dd_exchange (draws i) (hd (dc_UpstreamServers cfg)) req = Some None \<and> mss ! i = [] \<or>
          (\<exists>m. mss ! i = [m] \<and>
            (dc_UpstreamServers cfg \<noteq> [] \<and> dd_exchange (draws i) (hd (dc_UpstreamServers cfg)) req = Some (Some m) \<or>
             (\<exists>t. upstream_answer cfg (insert (Serve remote draws req) (set ops)) (dm_Question req ! i) t m \<and>
                dd_lookup (draws i) \<le> t + cache_ttl cfg))))))"
proof (intro conjI allI impI)
  have inv: "cache_inv cfg (set past) r" using cache_inv_run [OF assms cache_inv_new [where L = "{}"]] by simp
  then show "int (length (rs_cache r)) \<le> cache_limit cfg" by (simp add: cache_inv_def)
  fix remote draws req reply r' now
  assume served: "ServeDNS SR N remote draws req r = (Some reply, r', now)"
  let ?qs = "dm_Question req" and ?O = "insert (Serve remote draws req) (set ops)"
  from serve_sourced [OF served [unfolded ServeDNS_def Let_def] inv] obtain mss where
    mss: "list_all2 (sourced cfg (set past \<union> set now) req) (zip ?qs (map draws [0..<length ?qs])) mss"
    and reply: "reply = foldl add_sections ((SR req)\<lparr>dm_Authoritative := True\<rparr>) (concat mss)" by blast
  have cfg: "rs_cfg r = cfg" using inv by (simp add: cache_inv_def)
  have logged: "upstream_answer cfg ?O q t m" if "Answered q req' t m \<in> set past \<union> set now" for q req' t m
    using that run_answers [OF assms, of q req' t m] serve_answers(2) [OF served, of q req' t m]
      upstream_answer_mono [of cfg "set ops" q t m ?O] upstream_answer_mono [of cfg "{Serve remote draws req}" q t m ?O]
    by (auto simp: NewResolver_def cfg)
  have len: "length mss = length ?qs" using list_all2_lengthD [OF mss] by simp
  have each: "dc_UpstreamServers cfg \<noteq> [] \<and> dd_exchange (draws i) (hd (dc_UpstreamServers cfg)) req = Some None \<and> mss ! i = [] \<or>
      (\<exists>m. mss ! i = [m] \<and>
        (dc_UpstreamServers cfg \<noteq> [] \<and> dd_exchange (draws i) (hd (dc_UpstreamServers cfg)) req = Some (Some m) \<or>
         (\<exists>t. upstream_answer cfg ?O (?qs ! i) t m \<and> dd_lookup (draws i) \<le> t + cache_ttl cfg)))" if "i < length ?qs" for i
  proof -
    have "sourced cfg (set past \<union> set now) req (?qs ! i, draws i) (mss ! i)"
      using list_all2_nthD [OF mss, of i] that by simp
    moreover have "upstream_answer cfg ?O (?qs ! i) t m"
      if "Answered q req' t m \<in> set past \<union> set now" "dq_Name q = dq_Name (?qs ! i)" "dq_Qtype q = dq_Qtype (?qs ! i)" for q req' t m
      using logged [OF that(1)] that(2,3) by (simp add: upstream_answer_def)
    ultimately show ?thesis unfolding sourced_def by (fastforce split: list.splits)
  qed
  show "\<exists>mss. length mss = length ?qs \<and>
        reply = (SR req)\<lparr>dm_Authoritative := True,
          dm_Answer := dm_Answer (SR req) @ concat (map dm_Answer (concat mss)),
          dm_Ns := dm_Ns (SR req) @ concat (map dm_Ns (concat mss)),
          dm_Extra := dm_Extra (SR req) @ concat (map dm_Extra (concat mss))\<rparr> \<and>
        (\<forall>i < length ?qs.
          dc_UpstreamServers cfg \<noteq> [] \<and> dd_exchange (draws i) (hd (dc_UpstreamServers cfg)) req = Some None \<and> mss ! i = [] \<or>
          (\<exists>m. mss ! i = [m] \<and>
            (dc_UpstreamServers cfg \<noteq> [] \<and> dd_exchange (draws i) (hd (dc_UpstreamServers cfg)) req = Some (Some m) \<or>
             (\<exists>t. upstream_answer cfg ?O (?qs ! i) t m \<and> dd_lookup (draws i) \<le> t + cache_ttl cfg))))"
    using len each reply by (intro exI [of _ mss]) (simp add: add_sections_all)
qed

definition sample_query :: "string dns_msg" where
  "sample_query = \<lparr>dm_Question = [\<lparr>dq_Name = ''a.example.'', dq_Qtype = 1\<rparr>], dm_Authoritative = False, dm_Rcode = 0,
     dm_Answer = [], dm_Ns = [], dm_Extra = []\<rparr>"

definition sample_draws :: "gotime \<Rightarrow> string list \<Rightarrow> nat \<Rightarrow> string dns_draw" where
  "sample_draws t ans i = \<lparr>dd_event = t, dd_uuid = ''u'', dd_lookup = t,
     dd_exchange = (\<lambda>server req. Some (Some (req\<lparr>dm_Rcode := 3, dm_Answer := ans\<rparr>))), dd_store = t\<rparr>"

definition sample_dns :: DNSConfig where
  "sample_dns = \<lparr>dc_UpstreamServers = [''192.0.2.53:53''], dc_CacheSize = 1, dc_CacheTTLSeconds = 60\<rparr>"

lemmas sample_simps = sample_query_def sample_draws_def sample_dns_def ServeDNS_def NewResolver_def cacheLookup_def
  cacheStore_def cacheKey_def cache_limit_def cache_ttl_def time_Second_def forward_def add_sections_def

text \<open>Ten seconds after the first request the second is answered from the cache, ninety seconds after it from the server.\<close>

theorem dns_replies_from_upstream_witness:
  "\<exists>r past. dns_run id (\<lambda>_. ''A'') [Serve ''c'' (sample_draws 0 [''one'']) sample_query] (NewResolver sample_dns False) = (r, past) \<and>
     length (rs_cache r) = 1 \<and> int (length (rs_cache r)) \<le> cache_limit sample_dns \<and>
     (\<exists>reply. fst (ServeDNS id (\<lambda>_. ''A'') ''c'' (sample_draws (10 * time_Second) [''two'']) sample_query r) = Some reply \<and>
        dm_Answer reply = [''one''] \<and> dm_Rcode reply = 0) \<and>
     (\<exists>reply. fst (ServeDNS id (\<lambda>_. ''A'') ''c'' (sample_draws (90 * time_Second) [''two'']) sample_query r) = Some reply \<and>
        dm_Answer reply = [''two''])"
proof -
  let ?ops = "[Serve ''c'' (sample_draws 0 [''one'']) sample_query]"
  obtain r past where run: "dns_run id (\<lambda>_. ''A'') ?ops (NewResolver sample_dns False) = (r, past)"
    by (cases "dns_run id (\<lambda>_. ''A'') ?ops (NewResolver sample_dns False)")
  then have r: "rs_cache r = [(cacheKey ''a.example.'' 1, \<lparr>ce_msg = sample_query\<lparr>dm_Rcode := 3, dm_Answer := [''one'']\<rparr>, ce_expires = cache_ttl sample_dns\<rparr>)]"
    "rs_cfg r = sample_dns" "rs_pipeline r = False"
    by (auto simp: sample_simps Let_def)
  with run dns_replies_from_upstream [OF run] show ?thesis
    by (intro exI [of _ r] exI [of _ past]) (simp add: r sample_simps Let_def)
qed

end
