(* ===== verification/Health.thy ===== *)
theory Health
  imports Files
begin

text \<open>
  The health registry and its three endpoints (\<^verbatim>\<open>internal/health/health.go\<close>). A probe reports on the state
  \<open>'w\<close> of the rest of the program, which is an argument of the endpoints. Responses are the status code and the
  value that is encoded as the body.
\<close>

section \<open>Probes and the registry\<close>

definition StatusHealthy :: string where "StatusHealthy = ''healthy''"
definition StatusDegraded :: string where "StatusDegraded = ''degraded''"
definition StatusUnhealthy :: string where "StatusUnhealthy = ''unhealthy''"
definition StatusStarting :: string where "StatusStarting = ''starting''"

record health_Result =
  hr_Status :: string
  hr_Message :: string

text \<open>The interface \<^verbatim>\<open>Probe\<close> as the value of its methods; \<^verbatim>\<open>StaticProbe\<close> implements it from a function that may be missing.\<close>

record 'w Probe =
  pb_Name :: string
  pb_Required :: bool
  pb_Check :: "'w \<Rightarrow> health_Result"

definition NewStaticProbe :: "string \<Rightarrow> bool \<Rightarrow> ('w \<Rightarrow> health_Result) option \<Rightarrow> 'w Probe" where
  "NewStaticProbe name required get =
     \<lparr>pb_Name = name, pb_Required = required,
      pb_Check = (\<lambda>w. case get of None \<Rightarrow> \<lparr>hr_Status = StatusHealthy, hr_Message = []\<rparr> | Some f \<Rightarrow> f w)\<rparr>"

record 'w Registry =
  rg_probes :: "(string \<times> 'w Probe) list"
  rg_startupComplete :: bool
  rg_startupCompleteAt :: gotime

definition NewRegistry :: "'w Registry" where
  "NewRegistry = \<lparr>rg_probes = [], rg_startupComplete = False, rg_startupCompleteAt = 0\<rparr>"

definition health_Register :: "'w Probe option \<Rightarrow> 'w Registry \<Rightarrow> 'w Registry" where
  "health_Register p r =
     (case p of
        None \<Rightarrow> r
      | Some p \<Rightarrow> if pb_Name p = [] then r else r\<lparr>rg_probes := AList.update (pb_Name p) p (rg_probes r)\<rparr>)"

definition Deregister :: "string \<Rightarrow> 'w Registry \<Rightarrow> 'w Registry" where
  "Deregister name r = r\<lparr>rg_probes := AList.delete name (rg_probes r)\<rparr>"

definition MarkStartupComplete :: "gotime \<Rightarrow> 'w Registry \<Rightarrow> 'w Registry" where
  "MarkStartupComplete now r =
     (if rg_startupComplete r then r else r\<lparr>rg_startupComplete := True, rg_startupCompleteAt := now\<rparr>)"

section \<open>Aggregation\<close>

record SubsystemStatus =
  ss_Name :: string
  ss_Required :: bool
  ss_Status :: string
  ss_Message :: string

record health_Snapshot =
  sn_OverallStatus :: string
  sn_RequiredStatus :: string
  sn_StartupComplete :: bool
  sn_StartupCompleteAt :: gotime
  sn_Subsystems :: "SubsystemStatus list"

definition status_rank :: "string \<Rightarrow> nat" where
  "status_rank s =
     (if s = StatusUnhealthy then 3 else if s = StatusDegraded then 2 else if s = StatusStarting then 1 else 0)"

definition statusWorse :: "string \<Rightarrow> string \<Rightarrow> bool" where
  "statusWorse a b \<longleftrightarrow> status_rank a > status_rank b"

fun snapshot_loop :: "'w \<Rightarrow> (string \<rightharpoonup> 'w Probe) \<Rightarrow> string list \<Rightarrow> health_Snapshot \<Rightarrow> health_Snapshot" where
  "snapshot_loop w probes [] out = out"
| "snapshot_loop w probes (n # names) out =
     (case probes n of
        None \<Rightarrow> snapshot_loop w probes names out
      | Some p \<Rightarrow>
          (let res = pb_Check p w;
               ss = \<lparr>ss_Name = pb_Name p, ss_Required = pb_Required p, ss_Status = hr_Status res, ss_Message = hr_Message res\<rparr>
           in snapshot_loop w probes names
                (out\<lparr>sn_Subsystems := sn_Subsystems out @ [ss],
                     sn_OverallStatus := (if statusWorse (hr_Status res) (sn_OverallStatus out) then hr_Status res else sn_OverallStatus out),
                     sn_RequiredStatus := (if pb_Required p \<and> statusWorse (hr_Status res) (sn_RequiredStatus out) then hr_Status res
                                           else sn_RequiredStatus out)\<rparr>)))"

definition health_snapshot :: "'w \<Rightarrow> 'w Registry \<Rightarrow> health_Snapshot" where
  "health_snapshot w r =
     snapshot_loop w (map_of (rg_probes r)) (sort (map fst (rg_probes r)))
       \<lparr>sn_OverallStatus = StatusHealthy, sn_RequiredStatus = StatusHealthy, sn_StartupComplete = rg_startupComplete r,
        sn_StartupCompleteAt = rg_startupCompleteAt r, sn_Subsystems = []\<rparr>"

section \<open>Endpoints\<close>

datatype health_body = Alive | Subsystems health_Snapshot | StillStarting | StartedAt gotime

definition LivenessHandler :: "nat \<times> health_body" where
  "LivenessHandler = (200, Alive)"

definition ReadinessHandler :: "'w \<Rightarrow> 'w Registry \<Rightarrow> nat \<times> health_body" where
  "ReadinessHandler w r =
     (let s = health_snapshot w r
      in (if sn_RequiredStatus s = StatusUnhealthy \<or> sn_RequiredStatus s = StatusDegraded then 503 else 200, Subsystems s))"

definition StartupHandler :: "'w \<Rightarrow> 'w Registry \<Rightarrow> nat \<times> health_body" where
  "StartupHandler w r =
     (let s = health_snapshot w r
      in if \<not> sn_StartupComplete s then (503, StillStarting) else (200, StartedAt (sn_StartupCompleteAt s)))"

section \<open>Histories\<close>

datatype 'w health_op = OpRegister "'w Probe option" | OpDeregister string | OpStarted gotime

fun health_step :: "'w health_op \<Rightarrow> 'w Registry \<Rightarrow> 'w Registry" where
  "health_step (OpRegister p) r = health_Register p r"
| "health_step (OpDeregister n) r = Deregister n r"
| "health_step (OpStarted t) r = MarkStartupComplete t r"

definition health_run :: "'w health_op list \<Rightarrow> 'w Registry" where
  "health_run ops = fold health_step ops NewRegistry"

text \<open>The specification reads the history from its end: the last operation on a name decides.\<close>

fun registered :: "'w health_op list \<Rightarrow> string \<Rightarrow> 'w Probe option" where
  "registered [] n = None"
| "registered (OpRegister (Some p) # later) n =
     (case registered later n of
        Some q \<Rightarrow> Some q
      | None \<Rightarrow> if pb_Name p = n \<and> n \<noteq> [] \<and> OpDeregister n \<notin> set later then Some p else None)"
| "registered (_ # later) n = registered later n"

fun first_started :: "'w health_op list \<Rightarrow> gotime option" where
  "first_started [] = None"
| "first_started (OpStarted t # ops) = Some t"
| "first_started (_ # ops) = first_started ops"

lemma run_probes:
  "map_of (rg_probes (fold health_step ops r)) n =
     (case registered ops n of Some p \<Rightarrow> Some p | None \<Rightarrow> if OpDeregister n \<in> set ops then None else map_of (rg_probes r) n)"
proof (induction ops arbitrary: r)
  case (Cons a ops)
  show ?case
    by (cases a; simp add: Cons.IH health_Register_def Deregister_def MarkStartupComplete_def update_conv' delete_conv' split: option.split)
qed simp

lemma run_distinct: "distinct (map fst (rg_probes r)) \<Longrightarrow> distinct (map fst (rg_probes (fold health_step ops r)))"
proof (induction ops arbitrary: r)
  case (Cons a ops)
  have "distinct (map fst (rg_probes (health_step a r)))"
    using Cons.prems
    by (cases a) (auto simp: health_Register_def Deregister_def MarkStartupComplete_def distinct_update distinct_delete split: option.split)
  with Cons.IH show ?case by simp
qed simp

lemma run_started:
  "rg_startupComplete (fold health_step ops r) \<longleftrightarrow> rg_startupComplete r \<or> first_started ops \<noteq> None"
  "\<not> rg_startupComplete r \<Longrightarrow> first_started ops = Some t \<Longrightarrow> rg_startupCompleteAt (fold health_step ops r) = t"
  "rg_startupComplete r \<Longrightarrow> rg_startupCompleteAt (fold health_step ops r) = rg_startupCompleteAt r"
proof (induction ops arbitrary: r)
  case (Cons a ops)
  {
    case 1 then show ?case
      by (cases a) (auto simp: Cons.IH health_Register_def Deregister_def MarkStartupComplete_def split: option.split)
  next
    case 2 then show ?case
      by (cases a) (auto simp: Cons.IH health_Register_def Deregister_def MarkStartupComplete_def split: option.split)
  next
    case 3 then show ?case
      by (cases a) (auto simp: Cons.IH health_Register_def Deregister_def MarkStartupComplete_def split: option.split)
  }
qed simp_all

lemma registered_name: "registered ops n = Some p \<Longrightarrow> pb_Name p = n \<and> n \<noteq> []"
  by (induction ops n rule: registered.induct) (auto split: option.splits if_splits)

section \<open>What a snapshot says\<close>

definition subsystem_of :: "'w \<Rightarrow> 'w Probe \<Rightarrow> SubsystemStatus" where
  "subsystem_of w p =
     \<lparr>ss_Name = pb_Name p, ss_Required = pb_Required p, ss_Status = hr_Status (pb_Check p w), ss_Message = hr_Message (pb_Check p w)\<rparr>"

lemma loop_subsystems:
  "sn_Subsystems (snapshot_loop w m names out) = sn_Subsystems out @ map (subsystem_of w) (List.map_filter m names)"
  by (induction names arbitrary: out) (simp_all add: List.map_filter_simps Let_def subsystem_of_def split: option.split)

lemma loop_startup:
  "sn_StartupComplete (snapshot_loop w m names out) = sn_StartupComplete out"
  "sn_StartupCompleteAt (snapshot_loop w m names out) = sn_StartupCompleteAt out"
  by (induction names arbitrary: out) (simp_all add: Let_def split: option.split)

lemma loop_required:
  "k \<le> status_rank (sn_RequiredStatus (snapshot_loop w m names out)) \<longleftrightarrow>
     k \<le> status_rank (sn_RequiredStatus out) \<or>
     (\<exists>n \<in> set names. \<exists>p. m n = Some p \<and> pb_Required p \<and> k \<le> status_rank (hr_Status (pb_Check p w)))"
proof (induction names arbitrary: out)
  case (Cons n names)
  show ?case
    by (cases "m n") (auto simp: Cons.IH Let_def statusWorse_def)
qed simp

lemma loop_overall:
  "k \<le> status_rank (sn_OverallStatus (snapshot_loop w m names out)) \<longleftrightarrow>
     k \<le> status_rank (sn_OverallStatus out) \<or>
     (\<exists>n \<in> set names. \<exists>p. m n = Some p \<and> k \<le> status_rank (hr_Status (pb_Check p w)))"
proof (induction names arbitrary: out)
  case (Cons n names)
  show ?case
    by (cases "m n") (auto simp: Cons.IH Let_def statusWorse_def)
qed simp

lemma status_distinct:
  "StatusUnhealthy \<noteq> StatusDegraded" "StatusUnhealthy \<noteq> StatusHealthy" "StatusDegraded \<noteq> StatusHealthy"
  by (simp_all add: StatusUnhealthy_def StatusDegraded_def StatusHealthy_def)

lemma rank_failing: "2 \<le> status_rank s \<longleftrightarrow> s = StatusUnhealthy \<or> s = StatusDegraded"
  using status_distinct by (auto simp: status_rank_def)

lemma rank_healthy: "status_rank StatusHealthy = 0"
  by (simp add: status_rank_def StatusUnhealthy_def StatusDegraded_def StatusHealthy_def StatusStarting_def)

lemma map_filter_names:
  "(\<And>n p. m n = Some p \<Longrightarrow> pb_Name p = n) \<Longrightarrow> (\<And>n. n \<in> set names \<Longrightarrow> m n \<noteq> None) \<Longrightarrow>
   map pb_Name (List.map_filter m names) = names"
  by (induction names) (auto simp: List.map_filter_simps split: option.split)

lemma health_probes: "map_of (rg_probes (health_run ops)) n = registered ops n"
  using run_probes [of ops NewRegistry n] by (simp add: health_run_def NewRegistry_def split: option.splits)

lemma health_distinct: "distinct (map fst (rg_probes (health_run ops)))"
  unfolding health_run_def by (rule run_distinct) (simp add: NewRegistry_def)

lemma health_names: "fst ` set (rg_probes (health_run ops)) = {n. registered ops n \<noteq> None}"
  using dom_map_of_conv_image_fst [of "rg_probes (health_run ops)"] by (simp add: dom_def health_probes)

text \<open>What holds of the sorted names a snapshot visits holds of the registered probes.\<close>

lemma snapshot_names:
  "(\<exists>n \<in> set (sort (map fst (rg_probes (health_run ops)))). \<exists>p. registered ops n = Some p \<and> P p) \<longleftrightarrow>
   (\<exists>n p. registered ops n = Some p \<and> P p)"
  by (auto simp: health_names)

lemma snapshot_lists:
  fixes ops :: "'w health_op list" and w :: 'w
  defines "l \<equiv> sn_Subsystems (health_snapshot w (health_run ops))"
  shows "sorted (map ss_Name l)" "distinct (map ss_Name l)"
    "e \<in> set l \<longleftrightarrow> (\<exists>n p. registered ops n = Some p \<and> e = subsystem_of w p)"
proof -
  let ?names = "sort (map fst (rg_probes (health_run ops)))"
  have l: "l = map (subsystem_of w) (List.map_filter (registered ops) ?names)"
    by (simp add: l_def health_snapshot_def loop_subsystems health_probes [abs_def])
  have "map pb_Name (List.map_filter (registered ops) ?names) = ?names"
    by (rule map_filter_names) (simp_all add: registered_name health_names)
  then have "map ss_Name l = ?names" by (simp add: l subsystem_of_def o_def)
  then show "sorted (map ss_Name l)" "distinct (map ss_Name l)" using health_distinct by simp_all
  have "set (List.map_filter (registered ops) ?names) = {p. \<exists>n. registered ops n = Some p}"
    by (force simp: List.map_filter_def health_names)
  then show "e \<in> set l \<longleftrightarrow> (\<exists>n p. registered ops n = Some p \<and> e = subsystem_of w p)" by (auto simp: l)
qed

section \<open>Properties\<close>

text \<open>
  After any history of registrations, removals and startup marks, the readiness endpoint answers 200 exactly
  when no required probe that is still registered reports degraded or unhealthy, and 503 otherwise. Its body
  lists exactly the registered probes with their results, each once and in the order of their names, with an
  overall status as bad as the worst of them. The startup endpoint answers 503 before the first mark and from
  then on 200 with the time of the first mark.
\<close>

theorem health_endpoints:
  "fst (ReadinessHandler w (health_run ops)) =
     (if \<exists>n p. registered ops n = Some p \<and> pb_Required p \<and> hr_Status (pb_Check p w) \<in> {StatusDegraded, StatusUnhealthy} then 503 else 200) \<and>
   (\<exists>s. snd (ReadinessHandler w (health_run ops)) = Subsystems s \<and>
      sorted (map ss_Name (sn_Subsystems s)) \<and> distinct (map ss_Name (sn_Subsystems s)) \<and>
      set (sn_Subsystems s) = {subsystem_of w p | n p. registered ops n = Some p} \<and>
      status_rank (sn_OverallStatus s) = Max (insert 0 {status_rank (ss_Status e) | e. e \<in> set (sn_Subsystems s)})) \<and>
   StartupHandler w (health_run ops) = (case first_started ops of None \<Rightarrow> (503, StillStarting) | Some t \<Rightarrow> (200, StartedAt t))"
proof (intro conjI exI)
  let ?s = "health_snapshot w (health_run ops)"
  have req: "k \<le> status_rank (sn_RequiredStatus ?s) \<longleftrightarrow>
      k = 0 \<or> (\<exists>n p. registered ops n = Some p \<and> pb_Required p \<and> k \<le> status_rank (hr_Status (pb_Check p w)))" for k
    unfolding health_snapshot_def loop_required health_probes [abs_def] snapshot_names by (simp add: rank_healthy)
  show "fst (ReadinessHandler w (health_run ops)) =
     (if \<exists>n p. registered ops n = Some p \<and> pb_Required p \<and> hr_Status (pb_Check p w) \<in> {StatusDegraded, StatusUnhealthy} then 503 else 200)"
    using req [of 2] by (auto simp: ReadinessHandler_def Let_def rank_failing)
  show "snd (ReadinessHandler w (health_run ops)) = Subsystems ?s" by (simp add: ReadinessHandler_def Let_def)
  show "sorted (map ss_Name (sn_Subsystems ?s))" "distinct (map ss_Name (sn_Subsystems ?s))" by (rule snapshot_lists)+
  show set: "set (sn_Subsystems ?s) = {subsystem_of w p | n p. registered ops n = Some p}"
    unfolding set_eq_iff snapshot_lists(3) by blast
  have ov: "k \<le> status_rank (sn_OverallStatus ?s) \<longleftrightarrow>
      k = 0 \<or> (\<exists>n p. registered ops n = Some p \<and> k \<le> status_rank (hr_Status (pb_Check p w)))" for k
    unfolding health_snapshot_def loop_overall health_probes [abs_def] snapshot_names by (simp add: rank_healthy)
  have ss: "ss_Status (subsystem_of w p) = hr_Status (pb_Check p w)" for p by (simp add: subsystem_of_def)
  let ?R = "{status_rank (ss_Status e) | e. e \<in> set (sn_Subsystems ?s)}"
  have "?R = (\<lambda>e. status_rank (ss_Status e)) ` set (sn_Subsystems ?s)" by blast
  then have fin: "finite (insert 0 ?R)" by simp
  have "?R = {status_rank (hr_Status (pb_Check p w)) | n p. registered ops n = Some p}"
    unfolding set ss [symmetric] by blast
  then have "(\<exists>x \<in> insert 0 ?R. k \<le> x) \<longleftrightarrow> k = 0 \<or> (\<exists>n p. registered ops n = Some p \<and> k \<le> status_rank (hr_Status (pb_Check p w)))" for k
    by auto
  then have iff: "k \<le> status_rank (sn_OverallStatus ?s) \<longleftrightarrow> k \<le> Max (insert 0 ?R)" for k
    unfolding ov Max_ge_iff [OF fin insert_not_empty] by (rule sym)
  show "status_rank (sn_OverallStatus ?s) = Max (insert 0 {status_rank (ss_Status e) | e. e \<in> set (sn_Subsystems ?s)})"
    by (rule order_antisym [OF iffD1 [OF iff order_refl] iffD2 [OF iff order_refl]])
  show "StartupHandler w (health_run ops) = (case first_started ops of None \<Rightarrow> (503, StillStarting) | Some t \<Rightarrow> (200, StartedAt t))"
    using run_started(1,2) [where r = NewRegistry and ops = ops]
    by (auto simp: StartupHandler_def Let_def health_snapshot_def loop_startup health_run_def NewRegistry_def split: option.split)
qed

text \<open>A required probe that reports \<^verbatim>\<open>starting\<close> leaves the process ready, although readiness is documented to need every required probe healthy.\<close>

lemma starting_is_ready:
  "fst (ReadinessHandler () (health_run [OpRegister (Some (NewStaticProbe ''boltdb'' True (Some (\<lambda>_. \<lparr>hr_Status = StatusStarting, hr_Message = []\<rparr>))))])) = 200"
  by code_simp

end
