(* ===== verification/Tor.thy ===== *)
theory Tor
  imports Files Ebpf_Service
begin

text \<open>
  The list of Tor exit nodes (\<^verbatim>\<open>internal/network/tor/exitlist.go\<close>, \<^verbatim>\<open>service.go\<close>, \<^verbatim>\<open>control.go\<close>): the set in
  memory, its cache on disk and the periodic refresh. The HTTP client is a parameter: a refresh comes with what
  the request returned. So are the JSON encoding and the order in which a Go map is iterated.
\<close>

section \<open>The list\<close>

type_synonym exit_nodes = "string set"

definition NewExitNodeList :: exit_nodes where
  "NewExitNodeList = {}"

definition Contains :: "string \<Rightarrow> exit_nodes \<Rightarrow> bool" where
  "Contains ip l \<longleftrightarrow> (if ip = [] then False else ip \<in> l)"

definition exit_Size :: "exit_nodes \<Rightarrow> nat" where
  "exit_Size l = card l"

definition replace_nodes :: "string list \<Rightarrow> exit_nodes" where
  "replace_nodes ips = set (filter (\<lambda>ip. ip \<noteq> []) ips)"

datatype tor_error = TorRead | TorParse | TorRequest | TorFetch | TorStatus nat | TorBody | TorMarshal | TorWrite

definition tor_LoadFile :: "string list jcodec \<Rightarrow> string \<Rightarrow> disk \<Rightarrow> exit_nodes \<Rightarrow> tor_error option \<times> exit_nodes" where
  "tor_LoadFile C path d l =
     (case os_ReadFile path d of
        Inl ErrNotExist \<Rightarrow> (None, l)
      | Inl _ \<Rightarrow> (Some TorRead, l)
      | Inr data \<Rightarrow>
          (case jc_Unmarshal C data of
             None \<Rightarrow> (Some TorParse, l)
           | Some ips \<Rightarrow> (None, replace_nodes ips)))"

definition tor_SaveFile ::
  "string list jcodec \<Rightarrow> (exit_nodes \<Rightarrow> string list) \<Rightarrow> string \<Rightarrow> exit_nodes \<Rightarrow> disk \<Rightarrow> tor_error option \<times> disk" where
  "tor_SaveFile C order path l d =
     (case jc_Marshal C (order l) of
        None \<Rightarrow> (Some TorMarshal, d)
      | Some data \<Rightarrow>
          (case os_WriteFile path data d of
             (Some _, d') \<Rightarrow> (Some TorWrite, d')
           | (None, d') \<Rightarrow> (None, d')))"

text \<open>What the HTTP exchange comes to.\<close>

datatype fetch_outcome = BadRequest | NoResponse | Response nat "bytes option"

definition tor_Fetch :: "string list jcodec \<Rightarrow> fetch_outcome \<Rightarrow> exit_nodes \<Rightarrow> tor_error option \<times> exit_nodes" where
  "tor_Fetch C out l =
     (case out of
        BadRequest \<Rightarrow> (Some TorRequest, l)
      | NoResponse \<Rightarrow> (Some TorFetch, l)
      | Response status body \<Rightarrow>
          if status \<noteq> 200 then (Some (TorStatus status), l)
          else (case body of
                  None \<Rightarrow> (Some TorBody, l)
                | Some data \<Rightarrow>
                    (case jc_Unmarshal C data of
                       None \<Rightarrow> (Some TorParse, l)
                     | Some ips \<Rightarrow> (None, replace_nodes ips))))"

section \<open>The service\<close>

record TorConfig =
  tc_DetectionEnabled :: bool
  tc_ExitNodeListURL :: string
  tc_ExitNodeListPath :: string
  tc_ExitNodeRefreshHours :: int

record ExitNodeService =
  es_cfg :: TorConfig
  es_list :: exit_nodes

definition NewExitNodeService :: "TorConfig \<Rightarrow> ExitNodeService" where
  "NewExitNodeService cfg = \<lparr>es_cfg = cfg, es_list = NewExitNodeList\<rparr>"

text \<open>
  \<open>exit_Start\<close> returns the interval of the refresh loop it starts, if it starts one. The product is a signed
  64-bit number; after the first refresh the loop makes a ticker of it, which panics unless it is positive.
\<close>

definition exit_Start :: "string list jcodec \<Rightarrow> disk \<Rightarrow> ExitNodeService \<Rightarrow> duration option \<times> ExitNodeService" where
  "exit_Start C d s =
     (if \<not> tc_DetectionEnabled (es_cfg s) then (None, s)
      else
        (let s' = (if tc_ExitNodeListPath (es_cfg s) \<noteq> []
                   then s\<lparr>es_list := snd (tor_LoadFile C (tc_ExitNodeListPath (es_cfg s)) d (es_list s))\<rparr> else s)
         in if tc_ExitNodeListURL (es_cfg s) = [] then (None, s')
            else (let hours = tc_ExitNodeRefreshHours (es_cfg s)
                  in (Some (signed_take_bit 63 ((if hours \<le> 0 then 24 else hours) * time_Hour)), s'))))"

definition exit_refresh ::
  "string list jcodec \<Rightarrow> (exit_nodes \<Rightarrow> string list) \<Rightarrow> fetch_outcome \<Rightarrow> ExitNodeService \<times> disk \<Rightarrow> ExitNodeService \<times> disk" where
  "exit_refresh C order out sd =
     (case sd of (s, d) \<Rightarrow>
        (case tor_Fetch C out (es_list s) of
           (Some _, l) \<Rightarrow> (s\<lparr>es_list := l\<rparr>, d)
         | (None, l) \<Rightarrow>
             (s\<lparr>es_list := l\<rparr>,
              if tc_ExitNodeListPath (es_cfg s) \<noteq> [] then snd (tor_SaveFile C order (tc_ExitNodeListPath (es_cfg s)) l d) else d)))"

definition IsExitNode :: "ExitNodeService \<Rightarrow> string \<Rightarrow> bool" where
  "IsExitNode s ip = Contains ip (es_list s)"

definition ReadOnionHostname :: "string \<Rightarrow> disk \<Rightarrow> tor_error + string" where
  "ReadOnionHostname dataDir d =
     (if dataDir = [] then Inl TorRequest
      else (case os_ReadFile (filepath_Join dataDir ''hostname'') d of
              Inl _ \<Rightarrow> Inl TorRead
            | Inr data \<Rightarrow> Inr (strings_TrimSpace (gostring data))))"

text \<open>
  The life of the process: refreshes while the loop runs, and restarts, which begin with an empty list and the
  disk as it is.
\<close>

datatype exit_op = Refresh fetch_outcome | Restart

definition exit_boot :: "string list jcodec \<Rightarrow> TorConfig \<Rightarrow> disk \<Rightarrow> ExitNodeService" where
  "exit_boot C cfg d = snd (exit_Start C d (NewExitNodeService cfg))"

fun exit_step ::
  "string list jcodec \<Rightarrow> (exit_nodes \<Rightarrow> string list) \<Rightarrow> exit_op \<Rightarrow> ExitNodeService \<times> disk \<Rightarrow> ExitNodeService \<times> disk" where
  "exit_step C order (Refresh out) sd =
     (if fst (exit_Start C (snd sd) (fst sd)) = None then sd else exit_refresh C order out sd)"
| "exit_step C order Restart sd = (exit_boot C (es_cfg (fst sd)) (snd sd), snd sd)"

definition exit_run ::
  "string list jcodec \<Rightarrow> (exit_nodes \<Rightarrow> string list) \<Rightarrow> TorConfig \<Rightarrow> exit_op list \<Rightarrow> disk \<Rightarrow> ExitNodeService \<times> disk" where
  "exit_run C order cfg ops d = fold (exit_step C order) ops (exit_boot C cfg d, d)"

section \<open>The list that is in force\<close>

text \<open>A list obtained by a refresh, and the last one of a history, starting from the cached one.\<close>

definition fetched :: "string list jcodec \<Rightarrow> fetch_outcome \<Rightarrow> exit_nodes option" where
  "fetched C out =
     (case out of
        Response status (Some data) \<Rightarrow> if status = 200 then map_option replace_nodes (jc_Unmarshal C data) else None
      | _ \<Rightarrow> None)"

fun last_good :: "string list jcodec \<Rightarrow> exit_op list \<Rightarrow> exit_nodes \<Rightarrow> exit_nodes" where
  "last_good C [] l = l"
| "last_good C (Refresh out # ops) l = last_good C ops (case fetched C out of None \<Rightarrow> l | Some l' \<Rightarrow> l')"
| "last_good C (Restart # ops) l = last_good C ops l"

lemma Fetch_fetched:
  "tor_Fetch C out l = (e, l') \<Longrightarrow> (e = None \<longleftrightarrow> fetched C out \<noteq> None) \<and> l' = (case fetched C out of None \<Rightarrow> l | Some m \<Rightarrow> m)"
  by (auto simp: tor_Fetch_def fetched_def split: fetch_outcome.splits option.splits if_splits)

lemma replace_nonempty: "[] \<notin> replace_nodes ips" "finite (replace_nodes ips)"
  by (simp_all add: replace_nodes_def)

definition cached :: "string list jcodec \<Rightarrow> TorConfig \<Rightarrow> disk \<Rightarrow> exit_nodes" where
  "cached C cfg d = snd (tor_LoadFile C (tc_ExitNodeListPath cfg) d NewExitNodeList)"

text \<open>
  The deployment the refresh is for: detection on, an address to fetch from, a cache file that can be read and
  written and a number of hours whose interval does not overflow.
\<close>

definition refreshing :: "TorConfig \<Rightarrow> disk \<Rightarrow> bool" where
  "refreshing cfg d \<longleftrightarrow>
     tc_DetectionEnabled cfg \<and> tc_ExitNodeListURL cfg \<noteq> [] \<and> tc_ExitNodeListPath cfg \<noteq> [] \<and>
     tc_ExitNodeRefreshHours cfg \<le> 2562047 \<and>
     \<not> dk_fails d FsRead (tc_ExitNodeListPath cfg) \<and> \<not> dk_fails d FsWrite (tc_ExitNodeListPath cfg)"

lemma ticker_interval:
  assumes "refreshing cfg d"
  shows "fst (exit_Start C d \<lparr>es_cfg = cfg, es_list = l\<rparr>) =
      Some ((if tc_ExitNodeRefreshHours cfg \<le> 0 then 24 else tc_ExitNodeRefreshHours cfg) * time_Hour)"
    and "0 < (if tc_ExitNodeRefreshHours cfg \<le> 0 then 24 else tc_ExitNodeRefreshHours cfg) * time_Hour"
proof -
  have fits: "signed_take_bit 63 (h * time_Hour) = h * time_Hour" if "0 < h" "h \<le> 2562047" for h :: int
    unfolding signed_take_bit_int_eq_self_iff using that by (simp add: durations)
  show "fst (exit_Start C d \<lparr>es_cfg = cfg, es_list = l\<rparr>) =
      Some ((if tc_ExitNodeRefreshHours cfg \<le> 0 then 24 else tc_ExitNodeRefreshHours cfg) * time_Hour)"
    using assms by (simp add: exit_Start_def refreshing_def Let_def fits)
  show "0 < (if tc_ExitNodeRefreshHours cfg \<le> 0 then 24 else tc_ExitNodeRefreshHours cfg) * time_Hour"
    by (simp add: durations)
qed

lemma boot_cached: "refreshing cfg d \<Longrightarrow> exit_boot C cfg d = \<lparr>es_cfg = cfg, es_list = cached C cfg d\<rparr>"
  by (simp add: exit_boot_def exit_Start_def refreshing_def NewExitNodeService_def cached_def Let_def)

lemma save_then_cached:
  assumes "refreshing cfg d" "round_trips C (order l)" "set (order l) = l" "[] \<notin> l"
  shows "\<exists>d'. tor_SaveFile C order (tc_ExitNodeListPath cfg) l d = (None, d') \<and> refreshing cfg d' \<and> cached C cfg d' = l"
proof -
  obtain data where data: "jc_Marshal C (order l) = Some data" "jc_Unmarshal C data = Some (order l)"
    using assms(2) by (auto simp: round_trips_def)
  have "replace_nodes (order l) = l" using assms(3,4) by (auto simp: replace_nodes_def)
  with data assms(1) show ?thesis
    by (auto simp: tor_SaveFile_def os_WriteFile_def refreshing_def cached_def tor_LoadFile_def os_ReadFile_def)
qed

text \<open>What the iteration order and the encoding have to do for the lists that a history fetches.\<close>

definition storable :: "string list jcodec \<Rightarrow> (exit_nodes \<Rightarrow> string list) \<Rightarrow> fetch_outcome \<Rightarrow> bool" where
  "storable C order out \<longleftrightarrow> (case fetched C out of None \<Rightarrow> True | Some l \<Rightarrow> round_trips C (order l) \<and> set (order l) = l)"

lemma fetched_nonempty: "fetched C out = Some l \<Longrightarrow> [] \<notin> l"
  by (auto simp: fetched_def replace_nodes_def split: fetch_outcome.splits option.splits if_splits)

lemma refresh_step:
  assumes "refreshing cfg d" "storable C order out"
  shows "\<exists>d'. exit_step C order (Refresh out) (\<lparr>es_cfg = cfg, es_list = cached C cfg d\<rparr>, d) =
      (\<lparr>es_cfg = cfg, es_list = cached C cfg d'\<rparr>, d') \<and> refreshing cfg d' \<and>
      cached C cfg d' = (case fetched C out of None \<Rightarrow> cached C cfg d | Some l \<Rightarrow> l)"
proof -
  obtain e l where f: "tor_Fetch C out (cached C cfg d) = (e, l)" by (cases "tor_Fetch C out (cached C cfg d)")
  note fl = Fetch_fetched [OF f]
  have loop: "fst (exit_Start C d \<lparr>es_cfg = cfg, es_list = cached C cfg d\<rparr>) \<noteq> None"
    using ticker_interval(1) [OF assms(1)] by simp
  show ?thesis
  proof (cases "fetched C out")
    case None
    with fl f loop assms(1) show ?thesis by (auto simp: exit_refresh_def)
  next
    case (Some m)
    have "round_trips C (order m)" "set (order m) = m" "[] \<notin> m"
      using assms(2) fetched_nonempty [OF Some] by (simp_all add: storable_def Some)
    from save_then_cached [of cfg d C order m, OF assms(1) this] obtain d' where
      "tor_SaveFile C order (tc_ExitNodeListPath cfg) m d = (None, d')" "refreshing cfg d'" "cached C cfg d' = m"
      by blast
    with Some fl f loop assms(1) show ?thesis by (auto simp: exit_refresh_def refreshing_def)
  qed
qed

lemma run_in_force:
  "refreshing cfg d \<Longrightarrow> (\<forall>out. Refresh out \<in> set ops \<longrightarrow> storable C order out) \<Longrightarrow>
   \<exists>d'. fold (exit_step C order) ops (\<lparr>es_cfg = cfg, es_list = cached C cfg d\<rparr>, d) =
       (\<lparr>es_cfg = cfg, es_list = cached C cfg d'\<rparr>, d') \<and> refreshing cfg d' \<and>
     cached C cfg d' = last_good C ops (cached C cfg d)"
proof (induction ops arbitrary: d)
  case (Cons op ops)
  show ?case
  proof (cases op)
    case (Refresh out)
    with Cons.prems have "storable C order out" by simp
    from refresh_step [OF Cons.prems(1) this] obtain d1 where d1:
      "exit_step C order op (\<lparr>es_cfg = cfg, es_list = cached C cfg d\<rparr>, d) = (\<lparr>es_cfg = cfg, es_list = cached C cfg d1\<rparr>, d1)"
      "refreshing cfg d1" "cached C cfg d1 = (case fetched C out of None \<Rightarrow> cached C cfg d | Some l \<Rightarrow> l)"
      using Refresh by blast
    from Cons.IH [OF d1(2)] Cons.prems(2) show ?thesis using d1 Refresh by simp
  next
    case Restart
    with Cons.IH [OF Cons.prems(1)] Cons.prems show ?thesis by (simp add: boot_cached)
  qed
qed simp

section \<open>The interface the monitors use\<close>

text \<open>
  \<^verbatim>\<open>exitNodeChecker\<close>, the interface of the eBPF monitor and of the proxy: a check against a set of addresses.
\<close>

locale exit_node_checker =
  fixes is_exit :: "'s \<Rightarrow> string \<Rightarrow> bool" and known :: "'s \<Rightarrow> string set"
  assumes checks: "is_exit s ip \<longleftrightarrow> ip \<in> known s"
begin

lemma probe_flags:
  assumes "length addr = 4" "DAddr ev = word_of_nat (le_nat addr)"
  shows "handleEvent cfg (Some (is_exit s)) ev = None \<Longrightarrow> ip_String (rev addr) \<notin> known s"
    and "handleEvent cfg (Some (is_exit s)) ev = Some e \<Longrightarrow>
      meta_get (ev_Metadata e) ''tor_exit_node'' = Some (ABool (ip_String (rev addr) \<in> known s))"
  using assms by (auto simp: handleEvent_def Let_def dest_ip_def be_of_le_reverses checks meta_get_def split: if_splits)

end

interpretation exit_service: exit_node_checker IsExitNode "\<lambda>s. es_list s - {[]}"
  by unfold_locales (simp add: IsExitNode_def Contains_def)

section \<open>Properties\<close>

text \<open>
  C28: In a deployment with detection on, an address to fetch from, a cache file that can be read and written, a
  refresh interval that fits a duration, and an encoding that reads back the lists it wrote, after any sequence of
  refreshes, successful or not, and restarts, an address counts as an exit node exactly if it is in the last
  list that was fetched and decoded, or in the cache at the beginning if there was none, and a process started next
  would answer the same.
\<close>

theorem exit_list_in_force:
  assumes "refreshing cfg d" "\<forall>out. Refresh out \<in> set ops \<longrightarrow> storable C order out"
  shows "\<exists>s d'. exit_run C order cfg ops d = (s, d') \<and> exit_boot C cfg d' = s \<and>
    (\<forall>ip. IsExitNode s ip \<longleftrightarrow> ip \<noteq> [] \<and> ip \<in> last_good C ops (cached C cfg d))"
proof -
  from run_in_force [OF assms] obtain d' where d':
    "exit_run C order cfg ops d = (\<lparr>es_cfg = cfg, es_list = cached C cfg d'\<rparr>, d')" "refreshing cfg d'"
    "cached C cfg d' = last_good C ops (cached C cfg d)"
    unfolding exit_run_def boot_cached [OF assms(1)] by blast
  have "IsExitNode \<lparr>es_cfg = cfg, es_list = cached C cfg d'\<rparr> ip \<longleftrightarrow> ip \<noteq> [] \<and> ip \<in> last_good C ops (cached C cfg d)" for ip
    using exit_service.checks [of "\<lparr>es_cfg = cfg, es_list = cached C cfg d'\<rparr>" ip] by (auto simp: d'(3))
  with d'(1) boot_cached [OF d'(2), of C] show ?thesis by simp
qed

definition exit_codec :: "string list jcodec" where
  "exit_codec =
     \<lparr>jc_Marshal = (\<lambda>ips. if ips = [] then None else Some (str_bytes (strings_Join ips [CHR 0x0A]))),
      jc_Unmarshal = (\<lambda>data. if data = [] then None else Some (strings_Split (gostring data) (CHR 0x0A)))\<rparr>"

definition sample_tor :: TorConfig where
  "sample_tor = \<lparr>tc_DetectionEnabled = True, tc_ExitNodeListURL = ''https://list.example'', tc_ExitNodeListPath = ''/d/exit.json'',
     tc_ExitNodeRefreshHours = 0\<rparr>"

definition empty_disk :: disk where
  "empty_disk = \<lparr>dk_files = [], dk_fails = (\<lambda>_ _. False), dk_torn = (\<lambda>_. 0)\<rparr>"

abbreviation sample_answer :: fetch_outcome where
  "sample_answer \<equiv> Response 200 (Some (str_bytes ''1.0.0.10''))"

lemma sample_fetched: "fetched exit_codec sample_answer = Some {''1.0.0.10''}" "fetched exit_codec NoResponse = None"
  by (simp_all add: fetched_def exit_codec_def replace_nodes_def) (auto simp: str_bytes_def)

lemma sample_storable: "storable exit_codec sorted_list_of_set sample_answer" "storable exit_codec sorted_list_of_set NoResponse"
  unfolding storable_def sample_fetched by (simp_all add: exit_codec_def round_trips_def) (simp add: str_bytes_def)

text \<open>The list survives a failed refresh and a restart.\<close>

theorem exit_list_in_force_witness:
  "\<exists>s d'. exit_run exit_codec sorted_list_of_set sample_tor [Refresh sample_answer, Refresh NoResponse, Restart] empty_disk = (s, d') \<and>
     IsExitNode s ''1.0.0.10'' \<and> \<not> IsExitNode s ''10.0.0.1''"
proof -
  let ?ops = "[Refresh sample_answer, Refresh NoResponse, Restart]"
  have "refreshing sample_tor empty_disk" by (simp add: refreshing_def sample_tor_def empty_disk_def)
  moreover have "\<forall>out. Refresh out \<in> set ?ops \<longrightarrow> storable exit_codec sorted_list_of_set out" using sample_storable by simp
  moreover have "last_good exit_codec ?ops L = {''1.0.0.10''}" for L by (simp add: sample_fetched)
  ultimately show ?thesis
    using exit_list_in_force [of sample_tor empty_disk ?ops exit_codec sorted_list_of_set] by auto
qed

text \<open>
  The monitor asks for the address with its bytes reversed: with 1.0.0.10 on the list, a connection to 10.0.0.1
  is flagged.
\<close>

lemma mirrored_address_flagged:
  assumes "handleEvent probe (Some (IsExitNode s)) ev = Some e" "es_list s = {''1.0.0.10''}"
    and "DAddr ev = word_of_nat (le_nat [10, 0, 0, 1])"
  shows "meta_get (ev_Metadata e) ''tor_exit_node'' = Some (ABool True)"
proof -
  have ip: "ip_String (rev [10, 0, 0, 1]) = ''1.0.0.10''" by (simp add: dec.simps digit_chars)
  have four: "length [10, 0, 0, 1 :: byte] = 4" by simp
  show ?thesis using exit_service.probe_flags(2) [OF four assms(3,1)] by (simp only: ip assms(2)) simp
qed

text \<open>
  The cache is overwritten in place: a write that stops early leaves a file that does not decode, and the next
  process starts with an empty list, although a list was fetched and an older one had been cached.
\<close>

lemma torn_cache_is_empty:
  assumes "refreshing cfg d"
    and "d' = d\<lparr>dk_fails := (\<lambda>op p. op = FsWrite), dk_torn := (\<lambda>_. 0)\<rparr>"
    and "fetched C out = Some l" "jc_Marshal C (order l) = Some data" "jc_Unmarshal C [] = None"
  shows "es_list (exit_boot C cfg (snd (exit_refresh C order out (s\<lparr>es_cfg := cfg\<rparr>, d')))) = {}"
proof -
  obtain e m where f: "tor_Fetch C out (es_list s) = (e, m)" by (cases "tor_Fetch C out (es_list s)")
  with Fetch_fetched [OF f] assms show ?thesis
    by (auto simp: exit_refresh_def tor_SaveFile_def os_WriteFile_def exit_boot_def exit_Start_def refreshing_def NewExitNodeService_def
        NewExitNodeList_def tor_LoadFile_def os_ReadFile_def Let_def)
qed

end
