(* ===== verification/Proxy.thy ===== *)
theory Proxy
  imports Tor
begin

text \<open>
  The inspecting forward proxy (\<^verbatim>\<open>internal/network/proxy\<close>): what it records of a request (\<^verbatim>\<open>dpi.go\<close>,
  \<^verbatim>\<open>protocol.go\<close>, \<^verbatim>\<open>interceptor.go\<close>), which headers it forwards (\<^verbatim>\<open>proxy.go\<close>) and the cache of the certificates it
  forges (\<^verbatim>\<open>tls.go\<close>). Connections are not modelled. \<^verbatim>\<open>strings.EqualFold\<close>, \<^verbatim>\<open>net.ParseIP\<close> and the making of a
  certificate are arguments.
\<close>

section \<open>Requests\<close>

type_synonym http_header = "(string \<times> string list) list"

record proxy_request =
  px_Method :: string
  px_Host :: string
  px_URL :: string
  px_Header :: http_header
  px_ContentLength :: int
  px_RemoteAddr :: string

definition header_Get :: "http_header \<Rightarrow> string \<Rightarrow> string" where
  "header_Get h k = (case map_of h k of Some (v # vs) \<Rightarrow> v | _ \<Rightarrow> [])"

text \<open>\<^verbatim>\<open>net.SplitHostPort\<close>.\<close>

definition after_last :: "char \<Rightarrow> string \<Rightarrow> string" where
  "after_last c s = rev (takeWhile (\<lambda>d. d \<noteq> c) (rev s))"

definition SplitHostPort :: "string \<Rightarrow> (string \<times> string) option" where
  "SplitHostPort hp =
     (if CHR '':'' \<notin> set hp then None
      else
        (let port = after_last (CHR '':'') hp;
             before = take (length hp - length port - 1) hp
         in if hp \<noteq> [] \<and> hd hp = CHR ''['' then
              (let host = takeWhile (\<lambda>c. c \<noteq> CHR '']'') (tl hp)
               in if before = CHR ''['' # host @ '']'' \<and> CHR ''['' \<notin> set (tl hp) \<and> CHR '']'' \<notin> set port then Some (host, port) else None)
            else if CHR '':'' \<in> set before \<or> CHR ''['' \<in> set hp \<or> CHR '']'' \<in> set hp then None
            else Some (before, port)))"

definition splitHostPort :: "string \<Rightarrow> string \<Rightarrow> string \<times> string" where
  "splitHostPort addr defaultPort =
     (if CHR '':'' \<notin> set addr then (addr, defaultPort)
      else (case SplitHostPort addr of None \<Rightarrow> (addr, defaultPort) | Some hp \<Rightarrow> hp))"

section \<open>Classification\<close>

definition DetectProtocol :: "(string \<Rightarrow> string \<Rightarrow> bool) \<Rightarrow> proxy_request \<Rightarrow> string \<Rightarrow> string" where
  "DetectProtocol fold_eq r port =
     (if fold_eq (header_Get (px_Header r) ''Upgrade'') ''websocket'' then ''WebSocket''
      else if strings_HasPrefix (header_Get (px_Header r) ''Content-Type'') ''application/grpc'' then ''gRPC''
      else if px_Method r = ''CONNECT'' then ''HTTPS''
      else if port = ''443'' \<or> port = ''8443'' then ''HTTPS'' else ''HTTP'')"

definition suspicious_patterns :: "string list" where
  "suspicious_patterns =
     [''/etc/passwd'', ''/etc/shadow'', ''..%2f'', ''../../'', ''<script'', ''cmd.exe'', ''powershell'', ''/wp-admin'', ''/phpmyadmin'']"

definition isSuspicious :: "proxy_request \<Rightarrow> bool" where
  "isSuspicious r \<longleftrightarrow> (\<exists>p \<in> set suspicious_patterns. strings_Contains (strings_ToLower (px_URL r)) p)"

section \<open>Recording\<close>

definition meta_if :: "bool \<Rightarrow> string \<Rightarrow> gany \<Rightarrow> (string \<rightharpoonup> gany) \<Rightarrow> (string \<rightharpoonup> gany)" where
  "meta_if c k v m = (if c then m(k \<mapsto> v) else m)"

definition ExtractMetadata :: "proxy_request \<Rightarrow> string \<Rightarrow> (string \<rightharpoonup> gany)" where
  "ExtractMetadata r proto =
     (let get = header_Get (px_Header r);
          auth = get ''Authorization'';
          m0 = [''method'' \<mapsto> AString (px_Method r), ''host'' \<mapsto> AString (px_Host r), ''url'' \<mapsto> AString (px_URL r),
                ''protocol'' \<mapsto> AString proto];
          m1 = meta_if (get ''User-Agent'' \<noteq> []) ''user_agent'' (AString (get ''User-Agent'')) m0;
          m2 = meta_if (get ''Content-Type'' \<noteq> []) ''content_type'' (AString (get ''Content-Type'')) m1;
          m3 = meta_if (get ''Referer'' \<noteq> []) ''referer'' (AString (get ''Referer'')) m2;
          m4 = meta_if (auth \<noteq> []) ''has_auth'' (ABool True) m3;
          m5 = meta_if (auth \<noteq> []) ''auth_scheme'' (AString (hd (strings_SplitN2 auth (CHR '' '')))) m4;
          m6 = meta_if (px_ContentLength r > 0) ''content_length'' (AInt (px_ContentLength r)) m5
      in meta_if (isSuspicious r) ''suspicious'' (ABool True) m6)"

definition tagTorExitNode ::
  "(string \<Rightarrow> bool) \<Rightarrow> (string \<Rightarrow> bool) option \<Rightarrow> string \<Rightarrow> (string \<rightharpoonup> gany) \<Rightarrow> (string \<rightharpoonup> gany)" where
  "tagTorExitNode isIP torNodes host m =
     (case torNodes of
        None \<Rightarrow> m
      | Some is_exit \<Rightarrow>
          (let h = (case SplitHostPort host of Some (hostOnly, _) \<Rightarrow> hostOnly | None \<Rightarrow> host)
           in if \<not> isIP h then m else meta_if (is_exit h) ''tor_exit_node'' (ABool True) m))"

definition proxy_event :: "string \<Rightarrow> string \<Rightarrow> (string \<rightharpoonup> gany) \<Rightarrow> gotime \<Rightarrow> NetworkEvent" where
  "proxy_event src dst m now =
     \<lparr>ev_ID = [], ev_Type = EventProxy, ev_Source = src, ev_Destination = dst, ev_Metadata = Some m, ev_Timestamp = now,
      ev_Signature = [], ev_SignerKeyID = []\<rparr>"

definition logRequest ::
  "(string \<Rightarrow> string \<Rightarrow> bool) \<Rightarrow> (string \<Rightarrow> bool) \<Rightarrow> (string \<Rightarrow> bool) option \<Rightarrow> gotime \<Rightarrow> string \<Rightarrow> duration \<Rightarrow> int \<Rightarrow> proxy_request \<Rightarrow> NetworkEvent" where
  "logRequest fold_eq isIP torNodes now port dur statusCode r =
     (let m0 = (ExtractMetadata r (DetectProtocol fold_eq r port))(''duration_ms'' \<mapsto> AInt (dur div 10 ^ 6));
          m1 = meta_if (statusCode > 0) ''status_code'' (AInt statusCode) m0
      in proxy_event (px_RemoteAddr r) (px_Host r) (tagTorExitNode isIP torNodes (px_Host r) m1) now)"

definition logTunnel ::
  "(string \<Rightarrow> bool) \<Rightarrow> (string \<Rightarrow> bool) option \<Rightarrow> gotime \<Rightarrow> string \<Rightarrow> string \<Rightarrow> NetworkEvent" where
  "logTunnel isIP torNodes now clientAddr targetHost =
     proxy_event clientAddr targetHost
       (tagTorExitNode isIP torNodes targetHost
          [''method'' \<mapsto> AString ''CONNECT'', ''protocol'' \<mapsto> AString ''HTTPS'', ''tunnel'' \<mapsto> ABool True]) now"

section \<open>Forwarding\<close>

definition hop_by_hop :: "string set" where
  "hop_by_hop =
     {''Connection'', ''Proxy-Connection'', ''Proxy-Authenticate'', ''Proxy-Authorization'', ''Te'', ''Trailer'', ''Transfer-Encoding'', ''Upgrade''}"

fun header_Add :: "string \<Rightarrow> string \<Rightarrow> http_header \<Rightarrow> http_header" where
  "header_Add k v [] = [(k, [v])]"
| "header_Add k v ((k', vs) # h) = (if k' = k then (k', vs @ [v]) # h else (k', vs) # header_Add k v h)"

fun copyHeaders :: "http_header \<Rightarrow> http_header \<Rightarrow> http_header" where
  "copyHeaders dst [] = dst"
| "copyHeaders dst ((k, vv) # src) =
     (if k \<in> hop_by_hop then copyHeaders dst src else copyHeaders (fold (header_Add k) vv dst) src)"

section \<open>Forged certificates\<close>

record leaf_cert =
  lc_host :: string
  lc_NotBefore :: gotime
  lc_NotAfter :: gotime

text \<open>\<open>ok\<close> says whether generating the key and the certificate succeed.\<close>

definition certFor :: "bool \<Rightarrow> gotime \<Rightarrow> string \<Rightarrow> (string \<times> leaf_cert) list \<Rightarrow> leaf_cert option \<times> (string \<times> leaf_cert) list" where
  "certFor ok now hostname cache =
     (case map_of cache hostname of
        Some c \<Rightarrow> (Some c, cache)
      | None \<Rightarrow>
          if \<not> ok then (None, cache)
          else (let c = \<lparr>lc_host = hostname, lc_NotBefore = now - time_Minute, lc_NotAfter = now + 24 * time_Hour\<rparr>
                in (Some c, AList.update hostname c cache)))"

text \<open>
  The cache does not look at the validity: once made, the certificate of a host is handed out for good, and after
  a day every client rejects it.
\<close>

lemma stale_certificate:
  assumes "map_of cache hostname = None" "certFor True t0 hostname cache = (Some c, cache')" "t0 + 24 * time_Hour < t1"
  shows "certFor ok t1 hostname cache' = (Some c, cache') \<and> lc_NotAfter c < t1"
  using assms by (auto simp: certFor_def Let_def update_conv')

section \<open>Lemmas\<close>

context exit_node_checker
begin

lemma proxy_flags:
  assumes "h = (case SplitHostPort host of Some (hostOnly, _) \<Rightarrow> hostOnly | None \<Rightarrow> host)"
  shows "tagTorExitNode isIP (Some (is_exit s)) host m = (if isIP h \<and> h \<in> known s then m(''tor_exit_node'' \<mapsto> ABool True) else m)"
  by (simp add: tagTorExitNode_def meta_if_def Let_def checks assms)

end

text \<open>The values of a header, in order.\<close>

definition header_values :: "http_header \<Rightarrow> string \<Rightarrow> string list" where
  "header_values h k = (case map_of h k of None \<Rightarrow> [] | Some vs \<Rightarrow> vs)"

lemma add_values: "header_values (header_Add k v h) k' = header_values h k' @ (if k' = k then [v] else [])"
  by (induction k v h rule: header_Add.induct) (auto simp: header_values_def)

lemma adds_values: "header_values (fold (header_Add k) vv h) k' = header_values h k' @ (if k' = k then vv else [])"
  by (induction vv arbitrary: h) (simp_all add: add_values)

lemma copy_values:
  "distinct (map fst src) \<Longrightarrow>
   header_values (copyHeaders dst src) k = header_values dst k @ (if k \<in> hop_by_hop then [] else header_values src k)"
proof (induction dst src rule: copyHeaders.induct)
  case (2 dst k0 vv src)
  then have "map_of src k0 = None" by (simp add: map_of_eq_None_iff)
  then have "header_values src k0 = []" by (simp add: header_values_def)
  moreover have "header_values ((k0, vv) # src) k = (if k = k0 then vv else header_values src k)" by (simp add: header_values_def)
  ultimately show ?case using 2 by (cases "k = k0") (auto simp: adds_values)
qed (simp add: header_values_def)

lemma scheme_only: "CHR '' '' \<notin> set scheme \<Longrightarrow> hd (strings_SplitN2 (scheme @ '' '' @ secret) (CHR '' '')) = scheme"
  using SplitN2_append [of "CHR '' ''" scheme secret] by simp

lemma metadata_cong:
  assumes "\<And>k. k \<noteq> ''Authorization'' \<Longrightarrow> header_Get h k = header_Get h' k"
    and "header_Get h ''Authorization'' = scheme @ '' '' @ secret" "header_Get h' ''Authorization'' = scheme @ '' '' @ secret'"
    and "CHR '' '' \<notin> set scheme"
  shows "ExtractMetadata (r\<lparr>px_Header := h\<rparr>) proto = ExtractMetadata (r\<lparr>px_Header := h'\<rparr>) proto"
  using assms scheme_only [OF assms(4)] by (simp add: ExtractMetadata_def Let_def isSuspicious_def)

section \<open>Properties\<close>

text \<open>
  The event recorded for a request does not depend on the credentials in its authorization header: requests
  that differ only in what follows the scheme are recorded alike. It is flagged as one to a Tor exit node exactly
  if the host is a literal address on the list in force. Of the headers exactly the hop-by-hop ones are not
  forwarded, the others with all their values in order.
\<close>

theorem proxy_records:
  assumes "\<And>k. k \<noteq> ''Authorization'' \<Longrightarrow> header_Get h k = header_Get h' k"
    and "header_Get h ''Authorization'' = scheme @ '' '' @ secret" "header_Get h' ''Authorization'' = scheme @ '' '' @ secret'"
    and "CHR '' '' \<notin> set scheme" "distinct (map fst h)"
    and "host = (case SplitHostPort (px_Host r) of Some (hostOnly, _) \<Rightarrow> hostOnly | None \<Rightarrow> px_Host r)"
  shows "logRequest fold_eq isIP torNodes now port dur status (r\<lparr>px_Header := h\<rparr>) =
      logRequest fold_eq isIP torNodes now port dur status (r\<lparr>px_Header := h'\<rparr>) \<and>
    meta_get (ev_Metadata (logRequest fold_eq isIP (Some (IsExitNode s)) now port dur status r)) ''tor_exit_node'' =
      (if isIP host \<and> host \<noteq> [] \<and> host \<in> es_list s then Some (ABool True) else None) \<and>
    header_values (copyHeaders [] h) k = (if k \<in> hop_by_hop then [] else header_values h k)"
proof (intro conjI)
  have "DetectProtocol fold_eq (r\<lparr>px_Header := h\<rparr>) port = DetectProtocol fold_eq (r\<lparr>px_Header := h'\<rparr>) port"
    using assms(1) by (simp add: DetectProtocol_def)
  with metadata_cong [OF assms(1-4)]
  show "logRequest fold_eq isIP torNodes now port dur status (r\<lparr>px_Header := h\<rparr>) =
      logRequest fold_eq isIP torNodes now port dur status (r\<lparr>px_Header := h'\<rparr>)"
    by (simp add: logRequest_def Let_def)
  have "ExtractMetadata r proto ''tor_exit_node'' = None" for proto
    by (simp add: ExtractMetadata_def Let_def meta_if_def)
  then show "meta_get (ev_Metadata (logRequest fold_eq isIP (Some (IsExitNode s)) now port dur status r)) ''tor_exit_node'' =
      (if isIP host \<and> host \<noteq> [] \<and> host \<in> es_list s then Some (ABool True) else None)"
    by (simp add: logRequest_def Let_def proxy_event_def exit_service.proxy_flags [OF assms(6)] meta_get_def meta_if_def)
  show "header_values (copyHeaders [] h) k = (if k \<in> hop_by_hop then [] else header_values h k)"
    using copy_values [OF assms(5), of "[]" k] by (simp add: header_values_def)
qed

text \<open>Without a scheme the whole header is taken for one: the credential is recorded.\<close>

lemma bare_credential_recorded:
  assumes "header_Get (px_Header r) ''Authorization'' = secret" "secret \<noteq> []" "CHR '' '' \<notin> set secret"
  shows "ExtractMetadata r proto ''auth_scheme'' = Some (AString secret)"
  using assms by (simp add: ExtractMetadata_def Let_def meta_if_def strings_SplitN2_def)

definition sample_proxied :: proxy_request where
  "sample_proxied = \<lparr>px_Method = ''GET'', px_Host = ''192.0.2.7:80'', px_URL = ''http://192.0.2.7/x'', px_Header = [], px_ContentLength = 0,
     px_RemoteAddr = ''10.0.0.2:4711''\<rparr>"

theorem proxy_records_witness:
  "logRequest (=) (\<lambda>_. True) None 0 ''80'' 0 200 (sample_proxied\<lparr>px_Header := [(''Authorization'', [''Basic'' @ '' '' @ ''one''])]\<rparr>) =
     logRequest (=) (\<lambda>_. True) None 0 ''80'' 0 200 (sample_proxied\<lparr>px_Header := [(''Authorization'', [''Basic'' @ '' '' @ ''two''])]\<rparr>) \<and>
   meta_get (ev_Metadata (logRequest (=) (\<lambda>_. True) (Some (IsExitNode \<lparr>es_cfg = sample_tor, es_list = {''192.0.2.7''}\<rparr>)) 0 ''80'' 0 200 sample_proxied))
     ''tor_exit_node'' = Some (ABool True)"
proof -
  let ?h = "\<lambda>s. [(''Authorization'', [''Basic'' @ '' '' @ s])]"
  have host: "''192.0.2.7'' = (case SplitHostPort (px_Host sample_proxied) of Some (hostOnly, _) \<Rightarrow> hostOnly | None \<Rightarrow> px_Host sample_proxied)"
    unfolding sample_proxied_def proxy_request.simps by code_simp
  have "header_Get (?h s) k = (if k = ''Authorization'' then ''Basic'' @ '' '' @ s else [])" for s k by (simp add: header_Get_def)
  then show ?thesis
    using proxy_records [of "?h ''one''" "?h ''two''" "''Basic''" "''one''" "''two''", OF _ _ _ _ _ host, where isIP = "\<lambda>_. True"
        and fold_eq = "(=)" and torNodes = None and s = "\<lparr>es_cfg = sample_tor, es_list = {''192.0.2.7''}\<rparr>"
        and now = 0 and port = "''80''" and dur = 0 and status = 200]
    by simp
qed

end
