(* ===== verification/Hub.thy ===== *)
theory Hub
  imports GoLib "HOL-Library.Sublist"
begin

text \<open>
  The WebSocket hub (\<^verbatim>\<open>internal/api/websocket.go\<close>). Connections are numbers; what has been written to each and
  which were closed is part of the state. The buffered channel \<^verbatim>\<open>broadcast\<close> is a queue of bounded length;
  \<^verbatim>\<open>register\<close> and \<^verbatim>\<open>unregister\<close> have no buffer, so a send is the step of the loop that receives it. The loop picks any
  channel that is ready: its runs are all sequences of the steps below. The encoding and the failures of single
  writes are arguments.
\<close>

section \<open>State and steps\<close>

record 'm WSHub =
  hb_clients :: "nat set"
  hb_broadcast :: "'m list"
  hb_written :: "nat \<Rightarrow> bytes list"
  hb_closed :: "nat set"

definition broadcast_cap :: nat where "broadcast_cap = 256"

definition NewWSHub :: "'m WSHub" where
  "NewWSHub = \<lparr>hb_clients = {}, hb_broadcast = [], hb_written = (\<lambda>_. []), hb_closed = {}\<rparr>"

text \<open>\<^verbatim>\<open>Broadcast\<close> never blocks: on a full channel the message is dropped.\<close>

definition hub_Broadcast :: "'m \<Rightarrow> 'm WSHub \<Rightarrow> 'm WSHub" where
  "hub_Broadcast msg h =
     (if length (hb_broadcast h) < broadcast_cap then h\<lparr>hb_broadcast := hb_broadcast h @ [msg]\<rparr> else h)"

definition hub_register :: "nat \<Rightarrow> 'm WSHub \<Rightarrow> 'm WSHub" where
  "hub_register c h = h\<lparr>hb_clients := insert c (hb_clients h)\<rparr>"

definition hub_unregister :: "nat \<Rightarrow> 'm WSHub \<Rightarrow> 'm WSHub" where
  "hub_unregister c h =
     (if c \<in> hb_clients h then h\<lparr>hb_clients := hb_clients h - {c}, hb_closed := insert c (hb_closed h)\<rparr> else h)"

text \<open>A client whose write fails is closed and removed; \<open>ok\<close> says whose succeeds.\<close>

definition hub_write :: "(nat \<Rightarrow> bool) \<Rightarrow> bytes \<Rightarrow> 'm WSHub \<Rightarrow> 'm WSHub" where
  "hub_write ok data h =
     h\<lparr>hb_written := (\<lambda>c. if c \<in> hb_clients h \<and> ok c then hb_written h c @ [data] else hb_written h c),
       hb_clients := {c \<in> hb_clients h. ok c},
       hb_closed := hb_closed h \<union> {c \<in> hb_clients h. \<not> ok c}\<rparr>"

definition hub_deliver :: "('m \<Rightarrow> bytes option) \<Rightarrow> (nat \<Rightarrow> bool) \<Rightarrow> 'm WSHub \<Rightarrow> 'm WSHub" where
  "hub_deliver marshal ok h =
     (case hb_broadcast h of
        [] \<Rightarrow> h
      | msg # rest \<Rightarrow>
          (case marshal msg of
             None \<Rightarrow> h\<lparr>hb_broadcast := rest\<rparr>
           | Some data \<Rightarrow> hub_write ok data (h\<lparr>hb_broadcast := rest\<rparr>)))"

datatype 'm hub_act = Send 'm | Connect nat | Disconnect nat | Deliver "nat \<Rightarrow> bool"

text \<open>
  The steps of the loop and of its callers. A connection is new when it is registered: it is the one the upgrade
  just made.
\<close>

inductive hub_step :: "('m \<Rightarrow> bytes option) \<Rightarrow> 'm WSHub \<Rightarrow> 'm hub_act \<Rightarrow> 'm WSHub \<Rightarrow> bool" for marshal where
  send: "hub_step marshal h (Send m) (hub_Broadcast m h)"
| register: "c \<notin> hb_clients h \<Longrightarrow> c \<notin> hb_closed h \<Longrightarrow> hb_written h c = [] \<Longrightarrow> hub_step marshal h (Connect c) (hub_register c h)"
| unregister: "hub_step marshal h (Disconnect c) (hub_unregister c h)"
| deliver: "hb_broadcast h \<noteq> [] \<Longrightarrow> hub_step marshal h (Deliver ok) (hub_deliver marshal ok h)"

inductive_cases hub_stepE: "hub_step marshal h a h'"

inductive hub_steps :: "('m \<Rightarrow> bytes option) \<Rightarrow> 'm WSHub \<Rightarrow> 'm hub_act list \<Rightarrow> 'm WSHub \<Rightarrow> bool" for marshal where
  stop: "hub_steps marshal h [] h"
| more: "hub_step marshal h a h' \<Longrightarrow> hub_steps marshal h' as h'' \<Longrightarrow> hub_steps marshal h (a # as) h''"

section \<open>What goes in and what comes out\<close>

text \<open>The messages that the channel accepts and the ones the loop takes from it along a run, by the length of the queue.\<close>

fun accepted :: "nat \<Rightarrow> 'm hub_act list \<Rightarrow> 'm list" where
  "accepted n [] = []"
| "accepted n (Send m # as) = (if n < broadcast_cap then m # accepted (Suc n) as else accepted n as)"
| "accepted n (Deliver ok # as) = accepted (n - 1) as"
| "accepted n (_ # as) = accepted n as"

fun deliveries :: "'m hub_act list \<Rightarrow> nat" where
  "deliveries [] = 0"
| "deliveries (Deliver ok # as) = Suc (deliveries as)"
| "deliveries (_ # as) = deliveries as"

definition taken :: "'m WSHub \<Rightarrow> 'm hub_act list \<Rightarrow> 'm list" where
  "taken h as = take (deliveries as) (hb_broadcast h @ accepted (length (hb_broadcast h)) as)"

lemma deliver_queue: "hb_broadcast (hub_deliver marshal ok h) = tl (hb_broadcast h)"
  by (auto simp: hub_deliver_def hub_write_def split: list.split option.split)

lemma step_queue:
  "hub_step marshal h a h' \<Longrightarrow> length (hb_broadcast h) \<le> broadcast_cap \<Longrightarrow> length (hb_broadcast h') \<le> broadcast_cap"
  by (erule hub_stepE) (auto simp: hub_Broadcast_def hub_register_def hub_unregister_def deliver_queue)

text \<open>First in, first out: what was waiting and what is accepted is what is taken out, in that order, and what still waits.\<close>

lemma run_queue:
  assumes "hub_steps marshal h as h'"
  shows "hb_broadcast h @ accepted (length (hb_broadcast h)) as =
      taken h as @ hb_broadcast h'"
    and "length (hb_broadcast h) \<le> broadcast_cap \<Longrightarrow> length (hb_broadcast h') \<le> broadcast_cap"
  using assms
proof (induction rule: hub_steps.induct)
  case (stop h)
  { case 1 then show ?case by (simp add: taken_def) next case 2 then show ?case . }
next
  case (more h a h1 as h2)
  {
    case 1
    show ?case using more.hyps(1)
    proof (cases rule: hub_step.cases)
      case (send m)
      with more.IH(1) show ?thesis by (simp add: taken_def hub_Broadcast_def del: take_append split: if_splits)
    next
      case (register c)
      with more.IH(1) show ?thesis by (simp add: taken_def hub_register_def del: take_append)
    next
      case (unregister c)
      with more.IH(1) show ?thesis by (simp add: taken_def hub_unregister_def del: take_append split: if_splits)
    next
      case (deliver ok)
      then obtain m q where "hb_broadcast h = m # q" by (cases "hb_broadcast h") auto
      with deliver more.IH(1) show ?thesis by (simp add: taken_def deliver_queue del: take_append)
    qed
  next
    case 2
    with step_queue [OF more.hyps(1)] more.IH(2) show ?case by blast
  }
qed

section \<open>What a client gets\<close>

lemma deliver_written:
  assumes "hb_broadcast h = m # q"
  shows "c \<in> hb_clients (hub_deliver marshal ok h) \<Longrightarrow>
      c \<in> hb_clients h \<and> hb_written (hub_deliver marshal ok h) c = hb_written h c @ (case marshal m of None \<Rightarrow> [] | Some d \<Rightarrow> [d])"
    and "c \<notin> hb_clients h \<Longrightarrow> hb_written (hub_deliver marshal ok h) c = hb_written h c"
    and "c \<in> hb_clients h \<Longrightarrow> c \<notin> hb_clients (hub_deliver marshal ok h) \<Longrightarrow>
      c \<in> hb_closed (hub_deliver marshal ok h) \<and> hb_written (hub_deliver marshal ok h) c = hb_written h c"
  using assms by (auto simp: hub_deliver_def hub_write_def split: option.splits)

lemma closed_stays: "hub_step marshal h a h' \<Longrightarrow> c \<in> hb_closed h \<Longrightarrow> c \<in> hb_closed h'"
  by (erule hub_stepE)
    (auto simp: hub_Broadcast_def hub_register_def hub_unregister_def hub_deliver_def hub_write_def split: list.splits option.splits)

lemma closed_silent:
  "hub_steps marshal h as h' \<Longrightarrow> c \<in> hb_closed h \<Longrightarrow> c \<notin> hb_clients h \<Longrightarrow>
   c \<notin> hb_clients h' \<and> c \<in> hb_closed h' \<and> hb_written h' c = hb_written h c"
proof (induction rule: hub_steps.induct)
  case (more h a h1 as h2)
  from more.hyps(1) more.prems have "c \<in> hb_closed h1 \<and> c \<notin> hb_clients h1 \<and> hb_written h1 c = hb_written h c"
    by (cases rule: hub_step.cases)
      (auto simp: hub_Broadcast_def hub_register_def hub_unregister_def hub_deliver_def hub_write_def split: list.splits option.splits)
  with more.IH show ?case by auto
qed simp

text \<open>
  From the moment a connection is a client, what it gets are the encodings of the messages the loop takes out, all
  of them while it stays one, and a prefix of them once it is closed.
\<close>

lemma client_gets:
  "hub_steps marshal h as h' \<Longrightarrow> c \<in> hb_clients h \<Longrightarrow>
   \<exists>got. hb_written h' c = hb_written h c @ got \<and>
     (if c \<in> hb_clients h' then got = List.map_filter marshal (taken h as)
      else c \<in> hb_closed h' \<and> prefix got (List.map_filter marshal (taken h as)))"
proof (induction rule: hub_steps.induct)
  case (stop h)
  then show ?case by (simp add: taken_def List.map_filter_simps)
next
  case (more h a h1 as h2)
  let ?all = "\<lambda>h as. List.map_filter marshal (taken h as)"
  have keep: ?case if "hb_written h1 c = hb_written h c" "c \<in> hb_clients h1" "?all h (a # as) = ?all h1 as"
    using more.IH [OF that(2)] unfolding that(1,3) .
  have gone: ?case if "hb_written h1 c = hb_written h c" "c \<notin> hb_clients h1" "c \<in> hb_closed h1"
    using closed_silent [OF more.hyps(2) that(3,2)] that(1) by (intro exI [of _ "[]"]) simp
  show ?case using more.hyps(1)
  proof (cases rule: hub_step.cases)
    case (send m)
    with more.prems show ?thesis by (intro keep) (simp_all add: taken_def hub_Broadcast_def del: take_append)
  next
    case (register d)
    with more.prems show ?thesis by (intro keep) (simp_all add: taken_def hub_register_def)
  next
    case (unregister d)
    show ?thesis
    proof (cases "d = c")
      case True
      with unregister more.prems show ?thesis by (intro gone) (simp_all add: hub_unregister_def)
    next
      case False
      with unregister more.prems show ?thesis by (intro keep) (simp_all add: taken_def hub_unregister_def)
    qed
  next
    case (deliver ok)
    then obtain m q where q: "hb_broadcast h = m # q" by (cases "hb_broadcast h") auto
    show ?thesis
    proof (cases "c \<in> hb_clients h1")
      case True
      let ?d = "case marshal m of None \<Rightarrow> [] | Some d \<Rightarrow> [d]"
      from True deliver deliver_written(1) [OF q] have w: "hb_written h1 c = hb_written h c @ ?d" by simp
      have all: "?all h (a # as) = ?d @ ?all h1 as"
        using deliver q by (simp add: taken_def deliver_queue List.map_filter_simps split: option.split)
      from more.IH [OF True] obtain got where got: "hb_written h2 c = hb_written h1 c @ got"
        "if c \<in> hb_clients h2 then got = ?all h1 as else c \<in> hb_closed h2 \<and> prefix got (?all h1 as)" by blast
      then show ?thesis unfolding all by (intro exI [of _ "?d @ got"]) (auto simp: w split: if_splits)
    next
      case False
      with deliver deliver_written(3) [OF q more.prems] show ?thesis by (intro gone) simp_all
    qed
  qed
qed

lemma stays_client:
  "hub_steps marshal h as h' \<Longrightarrow> c \<in> hb_clients h \<Longrightarrow> Disconnect c \<notin> set as \<Longrightarrow> (\<And>ok. Deliver ok \<in> set as \<Longrightarrow> ok c) \<Longrightarrow>
   c \<in> hb_clients h'"
proof (induction rule: hub_steps.induct)
  case (more h a h1 as h2)
  from more.hyps(1) more.prems have "c \<in> hb_clients h1"
    by (cases rule: hub_step.cases)
      (auto simp: hub_Broadcast_def hub_register_def hub_unregister_def hub_deliver_def hub_write_def split: list.splits option.splits)
  with more.IH more.prems show ?case by auto
qed

section \<open>Properties\<close>

text \<open>
  C18: Whatever the interleaving of broadcasts, connections, disconnections, deliveries and failing writes, the
  channel stays within its capacity and is first in, first out. A client gets the messages that are taken out
  after it connected, encoded, in that order, without gap or repetition, and only the ones whose encoding fails
  are left out: all of them as long as it is connected, and the first ones if it was closed. A client that does
  not disconnect and whose writes succeed stays connected.
\<close>

theorem hub_delivery:
  assumes "hub_steps marshal NewWSHub before h" "hub_step marshal h (Connect c) h1" "hub_steps marshal h1 after h2"
  shows "length (hb_broadcast h2) \<le> broadcast_cap \<and>
    hb_broadcast h @ accepted (length (hb_broadcast h)) after = taken h after @ hb_broadcast h2 \<and>
    (if c \<in> hb_clients h2 then hb_written h2 c = List.map_filter marshal (taken h after)
     else c \<in> hb_closed h2 \<and> prefix (hb_written h2 c) (List.map_filter marshal (taken h after))) \<and>
    (Disconnect c \<notin> set after \<and> (\<forall>ok. Deliver ok \<in> set after \<longrightarrow> ok c) \<longrightarrow> c \<in> hb_clients h2)"
proof -
  from assms(2) have h1: "h1 = hub_register c h" "hb_written h c = []" by (auto elim: hub_stepE)
  then have "taken h1 after = taken h after" "hb_broadcast h1 = hb_broadcast h" "c \<in> hb_clients h1" "hb_written h1 c = []"
    by (simp_all add: taken_def hub_register_def)
  moreover have "length (hb_broadcast h2) \<le> broadcast_cap"
    using run_queue(2) [OF assms(3)] step_queue [OF assms(2)] run_queue(2) [OF assms(1)] by (simp add: NewWSHub_def)
  ultimately show ?thesis
    using run_queue(1) [OF assms(3)] client_gets [OF assms(3), of c] stays_client [OF assms(3), of c] by auto
qed

text \<open>One message before the client connects, still waiting, and one that is encoded to nothing.\<close>

theorem hub_delivery_witness:
  "\<exists>h h1 h2. hub_steps (\<lambda>m :: nat. if m = 7 then None else Some [word_of_nat m]) NewWSHub [Send 1] h \<and> hub_step (\<lambda>m. if m = 7 then None else Some [word_of_nat m]) h (Connect 0) h1 \<and>
     hub_steps (\<lambda>m. if m = 7 then None else Some [word_of_nat m]) h1 [Deliver (\<lambda>_. True), Send 7, Deliver (\<lambda>_. True)] h2 \<and> hb_written h2 0 = [[1]]"
proof -
  let ?M = "\<lambda>m :: nat. if m = 7 then None else Some [word_of_nat m :: byte]"
  let ?T = "\<lambda>_ :: nat. True"
  define h where "h = hub_Broadcast (1 :: nat) NewWSHub"
  define h1 where "h1 = hub_register 0 h"
  define h2 where "h2 = hub_deliver ?M ?T (hub_Broadcast 7 (hub_deliver ?M ?T h1))"
  have 1: "hub_steps ?M NewWSHub [Send 1] h" unfolding h_def by (rule hub_steps.more [OF hub_step.send hub_steps.stop])
  have 2: "hub_step ?M h (Connect 0) h1" unfolding h1_def
    by (rule hub_step.register) (simp_all add: h_def hub_Broadcast_def NewWSHub_def)
  have 3: "hub_steps ?M h1 [Deliver ?T, Send 7, Deliver ?T] h2" unfolding h2_def
    by (rule hub_steps.more [OF hub_step.deliver hub_steps.more [OF hub_step.send hub_steps.more [OF hub_step.deliver hub_steps.stop]]])
      (simp_all add: h1_def h_def hub_register_def hub_Broadcast_def NewWSHub_def broadcast_cap_def hub_deliver_def hub_write_def)
  have "c = 0 \<longrightarrow> hb_written h2 c = List.map_filter ?M (taken h [Deliver ?T, Send 7, Deliver ?T])" for c
    using hub_delivery [OF 1 2 3] by auto
  moreover have "taken h [Deliver ?T, Send 7, Deliver ?T] = [1, 7]"
    by (simp add: taken_def h_def hub_Broadcast_def NewWSHub_def broadcast_cap_def)
  ultimately show ?thesis using 1 2 3 by (intro exI conjI) (auto simp: List.map_filter_simps)
qed

end
