(* ===== verification/Server.thy ===== *)
theory Server
  imports Identity_Token
begin

text \<open>
  The HTTP server (\<^verbatim>\<open>internal/api/server.go\<close>) and the endpoints that \<^verbatim>\<open>internal/app/app.go\<close> mounts on it. An
  endpoint is a name; what it does is modelled with the component it belongs to and enters the dispatch as a
  function of the principal in the context of the request. \<^verbatim>\<open>http.ServeMux\<close> is modelled for the patterns the
  program uses, paths without method or wildcard, and for requests whose path is already clean.
\<close>

section \<open>The multiplexer\<close>

datatype endpoint =
    EpHealth | EpMetrics | EpLiveness | EpReadiness | EpStartup | EpBackup | EpLogin | EpJwks | EpStats | EpTopology
  | EpCanaryWebhook | EpCanaryDNS | EpCanaryHTTP | EpCanaryList | EpHoneypot | EpPatchAlert | EpServeAlerts
  | EpContainment | EpEvents | EpOnion | EpWebSocket

text \<open>A route is a pattern with the endpoint and the middleware it was wrapped in when it was registered.\<close>

type_synonym route = "string \<times> Middleware option \<times> endpoint"

text \<open>Registering a pattern twice panics (\<open>None\<close>).\<close>

definition mux_Handle :: "route \<Rightarrow> route list \<Rightarrow> route list option" where
  "mux_Handle r mux = (if fst r \<in> set (map fst mux) then None else Some (mux @ [r]))"

definition is_subtree :: "string \<Rightarrow> bool" where
  "is_subtree pat \<longleftrightarrow> pat \<noteq> [] \<and> last pat = CHR ''/''"

definition pattern_matches :: "string \<Rightarrow> string \<Rightarrow> bool" where
  "pattern_matches path pat \<longleftrightarrow> pat = path \<or> is_subtree pat \<and> strings_HasPrefix path pat"

text \<open>The longest pattern that matches wins.\<close>

fun longest :: "route list \<Rightarrow> route option" where
  "longest [] = None"
| "longest (r # rs) =
     (case longest rs of
        None \<Rightarrow> Some r
      | Some s \<Rightarrow> if length (fst s) > length (fst r) then Some s else Some r)"

datatype mux_result = NotMounted | RedirectTo string | Mounted route

definition mux_find :: "route list \<Rightarrow> string \<Rightarrow> mux_result" where
  "mux_find mux path =
     (if path \<notin> set (map fst mux) \<and> path @ ''/'' \<in> set (map fst mux) then RedirectTo (path @ ''/'')
      else (case longest (filter (\<lambda>r. pattern_matches path (fst r)) mux) of
              None \<Rightarrow> NotMounted
            | Some r \<Rightarrow> Mounted r))"

section \<open>The server\<close>

record ServerConfig =
  sc_WebSocketEnabled :: bool
  sc_WebSocketPath :: string
  sc_TLSEnabled :: bool
  sc_CertFile :: string
  sc_KeyFile :: string

record api_Server =
  sv_cfg :: ServerConfig
  sv_auth :: "Middleware option"
  sv_mux :: "route list"

definition NewServer :: "ServerConfig \<Rightarrow> api_Server" where
  "NewServer cfg = \<lparr>sv_cfg = cfg, sv_auth = None, sv_mux = [(''/health'', None, EpHealth), (''/metrics'', None, EpMetrics)]\<rparr>"

definition SetAuthMiddleware :: "Middleware \<Rightarrow> api_Server \<Rightarrow> api_Server" where
  "SetAuthMiddleware mw s = s\<lparr>sv_auth := Some mw\<rparr>"

definition RegisterHandler :: "string \<Rightarrow> endpoint \<Rightarrow> api_Server \<Rightarrow> api_Server option" where
  "RegisterHandler path ep s = map_option (\<lambda>mux. s\<lparr>sv_mux := mux\<rparr>) (mux_Handle (path, None, ep) (sv_mux s))"

text \<open>The wrapper is chosen when the handler is registered; without a middleware it is left out.\<close>

definition RegisterProtected :: "string \<Rightarrow> endpoint \<Rightarrow> api_Server \<Rightarrow> api_Server option" where
  "RegisterProtected path ep s = map_option (\<lambda>mux. s\<lparr>sv_mux := mux\<rparr>) (mux_Handle (path, sv_auth s, ep) (sv_mux s))"

datatype server_error = TLSFilesMissing

text \<open>\<open>server_Start\<close> adds the WebSocket endpoint; its error is returned after that.\<close>

definition server_Start :: "api_Server \<Rightarrow> (server_error option \<times> api_Server) option" where
  "server_Start s =
     map_option
       (\<lambda>s'. (if sc_TLSEnabled (sv_cfg s) \<and> (sc_CertFile (sv_cfg s) = [] \<or> sc_KeyFile (sv_cfg s) = [])
              then Some TLSFilesMissing else None, s'))
       (if sc_WebSocketEnabled (sv_cfg s) then RegisterHandler (sc_WebSocketPath (sv_cfg s)) EpWebSocket s else Some s)"

section \<open>The endpoints of the application\<close>

record app_config =
  ac_server :: ServerConfig
  ac_backup :: bool
  ac_onion :: bool

text \<open>\<open>ac_backup\<close> says whether there are recipients for backups, \<open>ac_onion\<close> whether the hidden service is enabled.\<close>

definition app_routes :: "app_config \<Rightarrow> (string \<times> bool \<times> endpoint) list" where
  "app_routes cfg =
     [(''/healthz'', False, EpLiveness), (''/readyz'', False, EpReadiness), (''/startupz'', False, EpStartup)] @
     (if ac_backup cfg then [(''/api/admin/backup'', True, EpBackup)] else []) @
     [(''/auth/login'', False, EpLogin), (''/.well-known/jwks.json'', False, EpJwks),
      (''/api/stats'', True, EpStats), (''/api/topology'', True, EpTopology),
      (''/api/canary/webhook/'', False, EpCanaryWebhook),
      (''/api/admin/canary/dns'', True, EpCanaryDNS), (''/api/admin/canary/http'', True, EpCanaryHTTP),
      (''/api/admin/canary'', True, EpCanaryList), (''/api/admin/honeypot'', True, EpHoneypot),
      (''/api/alerts/'', True, EpPatchAlert), (''/api/alerts'', True, EpServeAlerts),
      (''/api/incidents/containment'', True, EpContainment), (''/api/events'', True, EpEvents)] @
     (if ac_onion cfg then [(''/api/tor/onion'', False, EpOnion)] else [])"

fun register_all :: "(string \<times> bool \<times> endpoint) list \<Rightarrow> api_Server \<Rightarrow> api_Server option" where
  "register_all [] s = Some s"
| "register_all ((path, prot, ep) # rs) s =
     Option.bind (if prot then RegisterProtected path ep s else RegisterHandler path ep s) (register_all rs)"

text \<open>The application sets the middleware before it registers anything.\<close>

definition app_server :: "app_config \<Rightarrow> Middleware \<Rightarrow> (server_error option \<times> api_Server) option" where
  "app_server cfg m =
     Option.bind (register_all (app_routes cfg) (SetAuthMiddleware m (NewServer (ac_server cfg)))) server_Start"

section \<open>Serving a request\<close>

definition cors_headers :: "(string \<times> string) list" where
  "cors_headers =
     [(''Access-Control-Allow-Origin'', ''*''), (''Access-Control-Allow-Methods'', ''GET, POST, OPTIONS''),
      (''Access-Control-Allow-Headers'', ''Authorization, Content-Type'')]"

definition hsts_header :: "string \<times> string" where
  "hsts_header = (''Strict-Transport-Security'', ''max-age=31536000'')"

datatype 'a served =
    Preflight | NotFound404 | Redirected string | AuthRefused nat string | Ran endpoint "Principal option" 'a

text \<open>
  \<open>run\<close> is what the endpoints do. The headers are those the middlewares have set by the time the endpoint answers.
\<close>

definition ServeHTTP ::
  "jwt_lib \<Rightarrow> 's Verifier \<Rightarrow> MemoryPrincipalStore \<Rightarrow> gotime \<Rightarrow> int \<Rightarrow> (endpoint \<Rightarrow> Principal option \<Rightarrow> 'a) \<Rightarrow> route list \<Rightarrow>
   string \<Rightarrow> string \<Rightarrow> auth_request \<Rightarrow> (string \<times> string) list \<times> 'a served" where
  "ServeHTTP D v ps now unix run mux method path r =
     (if method = ''OPTIONS'' then (cors_headers, Preflight)
      else
        (cors_headers @ [hsts_header],
         case mux_find mux path of
           NotMounted \<Rightarrow> NotFound404
         | RedirectTo p \<Rightarrow> Redirected p
         | Mounted (pat, mwo, ep) \<Rightarrow>
             (case RegisterProtectedHandler D v ps (\<lambda>p. (p, run ep p)) mwo now unix r of
                Inl (code, msg) \<Rightarrow> AuthRefused code msg
              | Inr (p, res) \<Rightarrow> Ran ep p res)))"

section \<open>Lemmas\<close>

lemma longest_in: "longest rs = Some r \<Longrightarrow> r \<in> set rs"
  by (induction rs) (auto split: option.splits if_splits)

lemma longest_max: "longest rs = Some r \<Longrightarrow> s \<in> set rs \<Longrightarrow> length (fst s) \<le> length (fst r)"
proof (induction rs arbitrary: r)
  case (Cons a rs)
  show ?case
  proof (cases "longest rs")
    case None
    then have "rs = []" by (cases rs) (auto split: option.splits if_splits)
    with Cons.prems show ?thesis by simp
  next
    case (Some t)
    have "length (fst s) \<le> length (fst t)" if "s \<in> set rs" using Cons.IH [OF Some that] .
    with Cons.prems Some show ?thesis by (force split: if_splits)
  qed
qed simp

lemma longest_None: "longest rs = None \<longleftrightarrow> rs = []"
  by (cases rs) (auto split: option.splits if_splits)

lemma register_mux:
  "register_all rs s = Some s' \<Longrightarrow>
   sv_mux s' = sv_mux s @ map (\<lambda>(path, prot, ep). (path, if prot then sv_auth s else None, ep)) rs \<and> sv_cfg s' = sv_cfg s"
proof (induction rs arbitrary: s)
  case (Cons r rs)
  obtain path prot ep where r: "r = (path, prot, ep)" by (cases r)
  with Cons.prems obtain s1 where s1: "(if prot then RegisterProtected path ep s else RegisterHandler path ep s) = Some s1"
    "register_all rs s1 = Some s'" by (auto simp: bind_eq_Some_conv)
  then have eqs: "sv_mux s1 = sv_mux s @ [(path, if prot then sv_auth s else None, ep)]" "sv_auth s1 = sv_auth s" "sv_cfg s1 = sv_cfg s"
    by (auto simp: RegisterProtected_def RegisterHandler_def mux_Handle_def split: if_splits)
  from Cons.IH [OF s1(2)] show ?case unfolding eqs r by simp
qed simp

lemma app_mux:
  assumes "app_server cfg m = Some (e, s)"
  shows "sv_mux s =
    [(''/health'', None, EpHealth), (''/metrics'', None, EpMetrics)] @
    map (\<lambda>(path, prot, ep). (path, if prot then Some m else None, ep)) (app_routes cfg) @
    (if sc_WebSocketEnabled (ac_server cfg) then [(sc_WebSocketPath (ac_server cfg), None, EpWebSocket)] else [])"
proof -
  from assms obtain s1 where s1: "register_all (app_routes cfg) (SetAuthMiddleware m (NewServer (ac_server cfg))) = Some s1"
    "server_Start s1 = Some (e, s)" by (auto simp: app_server_def bind_eq_Some_conv)
  from register_mux [OF s1(1)] s1(2) show ?thesis
    by (auto simp: SetAuthMiddleware_def NewServer_def server_Start_def RegisterHandler_def mux_Handle_def split: if_splits)
qed

definition public_endpoints :: "endpoint set" where
  "public_endpoints =
     {EpHealth, EpMetrics, EpLiveness, EpReadiness, EpStartup, EpLogin, EpJwks, EpCanaryWebhook, EpOnion, EpWebSocket}"

lemma app_route_middleware:
  assumes "app_server cfg m = Some (e, s)" "(pat, mwo, ep) \<in> set (sv_mux s)"
  shows "mwo = (if ep \<in> public_endpoints then None else Some m)"
  using assms(2) unfolding app_mux [OF assms(1)] app_routes_def
  by (auto simp: public_endpoints_def split: if_splits)

lemma find_mounted: "mux_find mux path = Mounted r \<Longrightarrow> r \<in> set mux \<and> pattern_matches path (fst r)"
  by (auto simp: mux_find_def dest: longest_in split: if_splits option.splits)

text \<open>The WebSocket endpoint runs for every request, with or without credentials.\<close>

lemma websocket_open:
  assumes "app_server cfg m = Some (e, s)" "sc_WebSocketEnabled (ac_server cfg)"
    and "mux_find (sv_mux s) path = Mounted (pat, mwo, EpWebSocket)" "method \<noteq> ''OPTIONS''"
  shows "snd (ServeHTTP D v ps now unix run (sv_mux s) method path r) = Ran EpWebSocket None (run EpWebSocket None)"
proof -
  have "mwo = None"
    using app_route_middleware [OF assms(1), of pat mwo EpWebSocket] find_mounted [OF assms(3)] by (simp add: public_endpoints_def)
  with assms(3,4) show ?thesis by (simp add: ServeHTTP_def RegisterProtectedHandler_def)
qed

text \<open>
  The handler that serves single alerts is mounted on the exact path of the listing only, so no request for
  \<^verbatim>\<open>/api/alerts/{id}\<close> reaches it; these go to the handler of patches, which refuses every other method.
\<close>

lemma serve_alerts_exact:
  assumes "app_server cfg m = Some (e, s)" "mux_find (sv_mux s) path = Mounted (pat, mwo, EpServeAlerts)"
  shows "path = ''/api/alerts''"
proof -
  from find_mounted [OF assms(2)] have "(pat, mwo, EpServeAlerts) \<in> set (sv_mux s)" "pattern_matches path pat" by simp_all
  moreover from this(1) have "pat = ''/api/alerts''"
    unfolding app_mux [OF assms(1)] app_routes_def by (auto split: if_splits)
  ultimately show ?thesis by (simp add: pattern_matches_def is_subtree_def)
qed

section \<open>Properties\<close>

text \<open>
  C17: On the server as the application builds it, an endpoint runs only for a path that its pattern matches, and no
  mounted pattern that matches is longer. The endpoints for statistics, topology, events, alerts, containment, canaries,
  honeypots and backups run only after the middleware authenticated the request, with the authenticated principal in
  their context.
\<close>

theorem api_surface:
  assumes "app_server cfg m = Some (e, s)"
    and "snd (ServeHTTP D v ps now unix run (sv_mux s) method path r) = Ran ep po res"
  shows "method \<noteq> ''OPTIONS'' \<and> res = run ep po \<and>
    (\<exists>pat mwo. (pat, mwo, ep) \<in> set (sv_mux s) \<and> pattern_matches path pat \<and>
       (\<forall>r' \<in> set (sv_mux s). pattern_matches path (fst r') \<longrightarrow> length (fst r') \<le> length pat)) \<and>
    (ep \<in> {EpStats, EpTopology, EpEvents, EpServeAlerts, EpPatchAlert, EpContainment, EpCanaryDNS, EpCanaryHTTP,
        EpCanaryList, EpHoneypot, EpBackup} \<longrightarrow>
      (\<exists>p. fst (mw_Authenticate D v ps now unix r m) = Inr p \<and> po = Some p))"
proof -
  from assms(2) obtain pat mwo where f: "mux_find (sv_mux s) path = Mounted (pat, mwo, ep)" and
    opt: "method \<noteq> ''OPTIONS''" and
    ran: "RegisterProtectedHandler D v ps (\<lambda>p. (p, run ep p)) mwo now unix r = Inr (po, res)"
    by (auto simp: ServeHTTP_def split: if_splits mux_result.splits sum.splits)
  note mounted = find_mounted [OF f]
  then have mw: "mwo = (if ep \<in> public_endpoints then None else Some m)" using app_route_middleware [OF assms(1), of pat mwo ep] by simp
  have "longest (filter (\<lambda>r. pattern_matches path (fst r)) (sv_mux s)) = Some (pat, mwo, ep)"
    using f by (auto simp: mux_find_def split: if_splits option.splits)
  from longest_max [OF this] have "\<forall>r' \<in> set (sv_mux s). pattern_matches path (fst r') \<longrightarrow> length (fst r') \<le> length pat" by simp
  moreover have "res = run ep po \<and> (if ep \<in> public_endpoints then po = None
     else \<exists>p. fst (mw_Authenticate D v ps now unix r m) = Inr p \<and> po = Some p)"
    using ran by (auto simp: mw RegisterProtectedHandler_def RequireAuth_def split: prod.splits sum.splits if_splits)
  ultimately show ?thesis using mounted opt by (auto simp: public_endpoints_def)
qed

text \<open>A patch of an alert in development mode.\<close>

abbreviation dev_principal :: Principal where
  "dev_principal \<equiv> sample_principal PrincipalHuman"

definition dev_middleware :: Middleware where
  "dev_middleware = NewMiddleware [WithDevMode ''tok'' (Some dev_principal)]"

definition dev_config :: app_config where
  "dev_config = \<lparr>ac_server = \<lparr>sc_WebSocketEnabled = True, sc_WebSocketPath = ''/ws'', sc_TLSEnabled = False, sc_CertFile = [], sc_KeyFile = []\<rparr>,
     ac_backup = False, ac_onion = False\<rparr>"

lemma dev_server: "\<exists>s. app_server dev_config dev_middleware = Some (None, s)"
  by (simp add: app_server_def dev_config_def app_routes_def RegisterProtected_def RegisterHandler_def mux_Handle_def
      SetAuthMiddleware_def NewServer_def server_Start_def)

theorem api_surface_witness:
  "\<exists>s. app_server dev_config dev_middleware = Some (None, s) \<and>
     snd (ServeHTTP sample_jwt \<lparr>vf_keys = memory_keystore, vf_store = session_keys, vf_revocations = None\<rparr> (sample_principals PrincipalHuman)
       5 0 (\<lambda>ep p. ep) (sv_mux s) ''PATCH'' ''/api/alerts/a1'' \<lparr>ar_Authorization = ''Bearer tok'', ar_WSProtocol = []\<rparr>) =
     Ran EpPatchAlert (Some dev_principal) EpPatchAlert"
proof -
  obtain s where s: "app_server dev_config dev_middleware = Some (None, s)" using dev_server by blast
  let ?v = "\<lparr>vf_keys = memory_keystore, vf_store = session_keys, vf_revocations = None\<rparr>"
  let ?r = "\<lparr>ar_Authorization = ''Bearer tok'', ar_WSProtocol = []\<rparr>"
  have "fst (mw_Authenticate sample_jwt ?v (sample_principals PrincipalHuman) 5 0 ?r dev_middleware) = Inr dev_principal"
    using bearer_of [of "''tok''" "[]"]
    by (simp add: mw_Authenticate_def dev_middleware_def NewMiddleware_def WithDevMode_def Let_def maybeWarnDevMode_def
        IsActive_def sample_principal_def)
  moreover have "mux_find (sv_mux s) ''/api/alerts/a1'' = Mounted (''/api/alerts/'', Some dev_middleware, EpPatchAlert)"
    unfolding app_mux [OF s] by (simp add: app_routes_def dev_config_def mux_find_def pattern_matches_def is_subtree_def strings_HasPrefix_def)
  ultimately have "snd (ServeHTTP sample_jwt ?v (sample_principals PrincipalHuman) 5 0 (\<lambda>ep p. ep) (sv_mux s) ''PATCH'' ''/api/alerts/a1'' ?r) =
      Ran EpPatchAlert (Some dev_principal) EpPatchAlert"
    by (auto simp: ServeHTTP_def RegisterProtectedHandler_def RequireAuth_def split: prod.splits)
  from s this api_surface [OF s this] show ?thesis by blast
qed

end
