(* ===== verification/Api.thy ===== *)
theory Api
  imports Server Hub Canary Files
begin

text \<open>
  The REST handlers of \<^verbatim>\<open>internal/api\<close> over the repository and the hub: alerts and containment
  (\<^verbatim>\<open>alerts_handler.go\<close>), event search (\<^verbatim>\<open>events_handler.go\<close>), canary tokens (\<^verbatim>\<open>canary_admin.go\<close>) and honeypots
  (\<^verbatim>\<open>admin_honeypot.go\<close>). A response is the status with the value that is encoded as the body. The decoding of
  request bodies, \<^verbatim>\<open>time.ParseDuration\<close> and the texts of errors are arguments.
\<close>

section \<open>Numbers in queries\<close>

text \<open>\<^verbatim>\<open>strconv.Atoi\<close>: the number and whether it is free of error; out of range it is the nearest \<^verbatim>\<open>int64\<close>.\<close>

fun atoi_digits :: "string \<Rightarrow> nat \<Rightarrow> nat option" where
  "atoi_digits [] n = Some n"
| "atoi_digits (c # cs) n =
     (if of_char c < (48 :: nat) \<or> of_char c > (57 :: nat) then None
      else (let m = 10 * n + (of_char c - 48) in if m \<ge> 2 ^ 64 then Some (2 ^ 64 - 1) else atoi_digits cs m))"

definition strconv_Atoi :: "string \<Rightarrow> int \<times> bool" where
  "strconv_Atoi s =
     (let neg = (s \<noteq> [] \<and> hd s = CHR ''-'');
          ds = (if s \<noteq> [] \<and> (hd s = CHR ''-'' \<or> hd s = CHR ''+'') then tl s else s)
      in if ds = [] then (0, False)
         else (case atoi_digits ds 0 of
                 None \<Rightarrow> (0, False)
               | Some n \<Rightarrow>
                   if neg then (if n > 2 ^ 63 then (- (2 ^ 63), False) else (- int n, True))
                   else (if n \<ge> 2 ^ 63 then (2 ^ 63 - 1, False) else (int n, True))))"

definition parseDuration :: "(string \<Rightarrow> duration option) \<Rightarrow> string \<Rightarrow> duration option" where
  "parseDuration ParseDuration s =
     (if strings_HasSuffix s ''d'' then
        (case strconv_Atoi (trim_suffix s ''d'') of
           (days, True) \<Rightarrow> Some (signed_take_bit 63 (days * 24 * time_Hour))
         | (_, False) \<Rightarrow> None)
      else ParseDuration s)"

section \<open>Requests and responses\<close>

record api_request =
  rq_Method :: string
  rq_Path :: string
  rq_Query :: "string \<Rightarrow> string"
  rq_Body :: bytes

record canaryTokenResponse =
  cr_ID :: string
  cr_Token :: string
  cr_Type :: string
  cr_Label :: string
  cr_Subdomain :: string
  cr_URL :: string
  cr_CreatedAt :: gotime
  cr_TriggeredAt :: "gotime option"
  cr_TriggerCount :: int
  cr_LastTriggerSource :: string

datatype api_body =
    ErrorBody string
  | AlertBody Alert
  | AlertsBody "Alert list"
  | EventsBody "NetworkEvent list"
  | ContainmentBody string string
  | TokenBody canaryTokenResponse
  | TokensBody "canaryTokenResponse list"
  | HoneypotBody string string string

text \<open>What the handlers broadcast.\<close>

datatype ws_message = AlertUpdate Alert | ContainmentRequest string

section \<open>Alerts\<close>

definition listAlerts ::
  "'db bolt \<Rightarrow> Alert jcodec \<Rightarrow> (string \<Rightarrow> string \<Rightarrow> bool) \<Rightarrow> (repo_error \<Rightarrow> string) \<Rightarrow> api_request \<Rightarrow> 'db \<Rightarrow> nat \<times> api_body" where
  "listAlerts B C fold_eq err_text r db =
     (case ListAlerts B C fold_eq
             \<lparr>af_Status = rq_Query r ''status'', af_Severity = rq_Query r ''severity'', af_Limit = fst (strconv_Atoi (rq_Query r ''limit''))\<rparr> db of
        Inl e \<Rightarrow> (500, ErrorBody (err_text e))
      | Inr alerts \<Rightarrow> (200, AlertsBody alerts))"

definition getAlert :: "'db bolt \<Rightarrow> Alert jcodec \<Rightarrow> (repo_error \<Rightarrow> string) \<Rightarrow> string \<Rightarrow> 'db \<Rightarrow> nat \<times> api_body" where
  "getAlert B C err_text i db =
     (case GetAlert B C i db of Inl e \<Rightarrow> (404, ErrorBody (err_text e)) | Inr a \<Rightarrow> (200, AlertBody a))"

definition ServeAlerts ::
  "'db bolt \<Rightarrow> Alert jcodec \<Rightarrow> (string \<Rightarrow> string \<Rightarrow> bool) \<Rightarrow> (repo_error \<Rightarrow> string) \<Rightarrow> api_request \<Rightarrow> 'db \<Rightarrow> nat \<times> api_body" where
  "ServeAlerts B C fold_eq err_text r db =
     (let i = trim_both (CHR ''/'') (trim_prefix (rq_Path r) ''/api/alerts'')
      in if rq_Method r = ''GET'' then (if i \<noteq> [] then getAlert B C err_text i db else listAlerts B C fold_eq err_text r db)
         else (405, ErrorBody ''method not allowed''))"

definition PatchAlert ::
  "'db bolt \<Rightarrow> Alert jcodec \<Rightarrow> (bytes \<Rightarrow> (string \<times> string) option) \<Rightarrow> (repo_error \<Rightarrow> string) \<Rightarrow> gotime \<Rightarrow> api_request \<Rightarrow>
   'db \<times> ws_message WSHub \<Rightarrow> (nat \<times> api_body) \<times> 'db \<times> ws_message WSHub" where
  "PatchAlert B C decode err_text now r st =
     (case st of (db, hub) \<Rightarrow>
        if rq_Method r \<noteq> ''PATCH'' then ((405, ErrorBody ''method not allowed''), db, hub)
        else
          (let i = trim_prefix (rq_Path r) ''/api/alerts/''
           in if i = [] then ((400, ErrorBody ''missing alert id''), db, hub)
              else
                (case decode (rq_Body r) of
                   None \<Rightarrow> ((400, ErrorBody ''invalid JSON body''), db, hub)
                 | Some (status, note) \<Rightarrow>
                     (case UpdateAlert B C now i status note db of
                        (Inl e, db') \<Rightarrow> ((404, ErrorBody (err_text e)), db', hub)
                      | (Inr updated, db') \<Rightarrow> ((200, AlertBody updated), db', hub_Broadcast (AlertUpdate updated) hub)))))"

definition containment_usage :: string where
  "containment_usage = ''invalid body: require {\"ip\":\"...\"}''"

definition ServeContainment ::
  "(bytes \<Rightarrow> string option) \<Rightarrow> api_request \<Rightarrow> ws_message WSHub \<Rightarrow> (nat \<times> api_body) \<times> ws_message WSHub" where
  "ServeContainment decode r hub =
     (if rq_Method r \<noteq> ''POST'' then ((405, ErrorBody ''method not allowed''), hub)
      else
        (case decode (rq_Body r) of
           None \<Rightarrow> ((400, ErrorBody containment_usage), hub)
         | Some ip \<Rightarrow>
             if ip = [] then ((400, ErrorBody containment_usage), hub)
             else ((202, ContainmentBody ip (''nft add rule inet filter input ip saddr '' @ ip @ '' drop'')),
                   hub_Broadcast (ContainmentRequest ip) hub)))"

section \<open>Event search\<close>

definition ServeEvents ::
  "'db bolt \<Rightarrow> NetworkEvent jcodec \<Rightarrow> (string \<Rightarrow> duration option) \<Rightarrow> (repo_error \<Rightarrow> string) \<Rightarrow> gotime \<Rightarrow> api_request \<Rightarrow> 'db \<Rightarrow> nat \<times> api_body" where
  "ServeEvents B C PD err_text now r db =
     (if rq_Method r \<noteq> ''GET'' then (405, ErrorBody ''method not allowed'')
      else
        (let since =
               (if rq_Query r ''from'' = [] then 0
                else (case parseDuration PD (strings_TrimSpace (rq_Query r ''from'')) of
                        None \<Rightarrow> 0
                      | Some dur \<Rightarrow> now + signed_take_bit 63 (- dur)))
         in (case ListEventsByType B C (rq_Query r ''type'') since (fst (strconv_Atoi (rq_Query r ''limit''))) db of
               Inl e \<Rightarrow> (500, ErrorBody (err_text e))
             | Inr evs \<Rightarrow> (200, EventsBody evs))))"

section \<open>Canary tokens and honeypots\<close>

record CanaryConfig =
  cc_DNSZone :: string
  cc_WebhookPath :: string
  cc_WebhookBaseURL :: string

definition toCanaryResponse :: "CanaryToken \<Rightarrow> canaryTokenResponse" where
  "toCanaryResponse t =
     \<lparr>cr_ID = ct_ID t, cr_Token = ct_Token t, cr_Type = ct_Type t, cr_Label = ct_Label t, cr_Subdomain = ct_Subdomain t, cr_URL = ct_URL t,
      cr_CreatedAt = ct_CreatedAt t, cr_TriggeredAt = ct_TriggeredAt t, cr_TriggerCount = ct_TriggerCount t,
      cr_LastTriggerSource = ct_LastTriggerSource t\<rparr>"

text \<open>The label is optional: \<open>decode\<close> yields what the decoder left in it, empty if the body is missing or malformed.\<close>

definition CreateDNS ::
  "'db bolt \<Rightarrow> CanaryToken jcodec \<Rightarrow> (bytes \<Rightarrow> string) \<Rightarrow> CanaryConfig \<Rightarrow> mint_env \<Rightarrow> api_request \<Rightarrow> 'db \<Rightarrow> (nat \<times> api_body) \<times> 'db" where
  "CreateDNS B C decode cfg env r db =
     (if rq_Method r \<noteq> ''POST'' then ((405, ErrorBody ''POST only''), db)
      else (case GenerateDNSToken B C env (cc_DNSZone cfg) (decode (rq_Body r)) db of
              (Inl _, db') \<Rightarrow> ((500, ErrorBody ''failed to generate token''), db')
            | (Inr t, db') \<Rightarrow> ((200, TokenBody (toCanaryResponse t)), db')))"

definition CreateHTTP ::
  "'db bolt \<Rightarrow> CanaryToken jcodec \<Rightarrow> (bytes \<Rightarrow> string) \<Rightarrow> CanaryConfig \<Rightarrow> mint_env \<Rightarrow> api_request \<Rightarrow> 'db \<Rightarrow> (nat \<times> api_body) \<times> 'db" where
  "CreateHTTP B C decode cfg env r db =
     (if rq_Method r \<noteq> ''POST'' then ((405, ErrorBody ''POST only''), db)
      else (case GenerateHTTPToken B C env (cc_WebhookBaseURL cfg) (cc_WebhookPath cfg) (decode (rq_Body r)) db of
              (Inl _, db') \<Rightarrow> ((500, ErrorBody ''failed to generate token''), db')
            | (Inr t, db') \<Rightarrow> ((200, TokenBody (toCanaryResponse t)), db')))"

definition canary_List :: "'db bolt \<Rightarrow> CanaryToken jcodec \<Rightarrow> api_request \<Rightarrow> 'db \<Rightarrow> nat \<times> api_body" where
  "canary_List B C r db =
     (if rq_Method r \<noteq> ''GET'' then (405, ErrorBody ''GET only'')
      else (case ListCanaryTokens B C db of
              Inl _ \<Rightarrow> (500, ErrorBody ''failed to list tokens'')
            | Inr ts \<Rightarrow> (200, TokensBody (map toCanaryResponse ts))))"

definition honeypot_lines :: "string \<Rightarrow> string \<Rightarrow> string list" where
  "honeypot_lines url short =
     [''# Add to your NixOS flake and run: nix run .#honeypot-'' @ short,
      ''nixosConfigurations.\"honeypot-'' @ short @ ''\" = nixpkgs.lib.nixosSystem {'',
      ''  system = \"x86_64-linux\";'',
      ''  modules = ['',
      ''    microvm.nixosModules.microvm'',
      ''    owasaka.nixosModules.honeypot'',
      ''    {'',
      ''      owasaka.honeypot.enable = true;'',
      ''      owasaka.honeypot.webhookURL = \"'' @ url @ ''\";'',
      ''    }'',
      ''  ];'',
      ''};'',
      ''# Runner (add to apps):'',
      ''# apps.\"x86_64-linux\".\"honeypot-'' @ short @ ''\" = {'',
      ''#   type = \"app\";'',
      ''#   program = \"${nixosConfigurations.\"honeypot-'' @ short @ ''\".config.microvm.runner.qemu}/bin/microvm-run\";'',
      ''# };'']"

text \<open>A slug of fewer than eight bytes makes the slice expression panic (\<open>None\<close>).\<close>

definition honeypotVMSnippet :: "string \<Rightarrow> string \<Rightarrow> string option" where
  "honeypotVMSnippet url slug =
     (if length slug < 8 then None else Some (strings_Join (honeypot_lines url (take 8 slug)) [CHR 0x0A]))"

definition CreateHoneypot ::
  "'db bolt \<Rightarrow> CanaryToken jcodec \<Rightarrow> (bytes \<Rightarrow> string) \<Rightarrow> CanaryConfig \<Rightarrow> mint_env \<Rightarrow> api_request \<Rightarrow> 'db \<Rightarrow> (nat \<times> api_body) option \<times> 'db" where
  "CreateHoneypot B C decode cfg env r db =
     (if rq_Method r \<noteq> ''POST'' then (Some (405, ErrorBody ''POST only''), db)
      else (case GenerateHoneypotToken B C env (cc_WebhookBaseURL cfg) (cc_WebhookPath cfg) (decode (rq_Body r)) db of
              (Inl _, db') \<Rightarrow> (Some (500, ErrorBody ''failed to generate token''), db')
            | (Inr t, db') \<Rightarrow>
                (map_option (\<lambda>snippet. (200, HoneypotBody (ct_Token t) (ct_URL t) snippet)) (honeypotVMSnippet (ct_URL t) (ct_Token t)), db')))"

section \<open>Reading numbers\<close>

lemma undec_ge: "acc \<le> undec cs acc"
proof (induction cs arbitrary: acc)
  case (Cons c cs)
  have "acc \<le> 10 * acc + (of_char c - 48)" by simp
  also have "\<dots> \<le> undec cs (10 * acc + (of_char c - 48))" by (rule Cons.IH)
  finally show ?case by simp
qed simp

lemma atoi_undec:
  "undec cs acc < 2 ^ 64 \<Longrightarrow> (\<And>c. c \<in> set cs \<Longrightarrow> 48 \<le> (of_char c :: nat) \<and> (of_char c :: nat) < 58) \<Longrightarrow> atoi_digits cs acc = Some (undec cs acc)"
proof (induction cs arbitrary: acc)
  case (Cons c cs)
  let ?m = "10 * acc + (of_char c - 48)"
  have "?m < 2 ^ 64" using Cons.prems(1) undec_ge [of ?m cs] by simp
  moreover have "48 \<le> (of_char c :: nat)" "(of_char c :: nat) \<le> 57" using Cons.prems(2) [of c] by simp_all
  ultimately show ?case using Cons by (simp add: Let_def not_less)
qed simp

lemma Atoi_dec: "n < 2 ^ 63 \<Longrightarrow> strconv_Atoi (dec n) = (int n, True)"
proof -
  assume n: "n < 2 ^ 63"
  have "atoi_digits (dec n) 0 = Some n" using atoi_undec [of "dec n" 0] n dec_digits by (simp add: undec_dec)
  moreover have "hd (dec n) \<noteq> CHR ''-''" "hd (dec n) \<noteq> CHR ''+''"
    using dec_digits [OF hd_in_set [OF dec_nonempty], of n] by auto
  ultimately show ?thesis using n dec_nonempty by (simp add: strconv_Atoi_def Let_def)
qed

lemma parse_days:
  assumes "n < 2 ^ 63"
  shows "parseDuration PD (dec n @ ''d'') = Some (signed_take_bit 63 (int n * (24 * time_Hour)))"
proof -
  have "strings_HasSuffix (dec n @ ''d'') ''d''" "trim_suffix (dec n @ ''d'') ''d'' = dec n"
    by (simp_all add: strings_HasSuffix_def trim_suffix_def suffix_def)
  with Atoi_dec [OF assms] show ?thesis by (simp add: parseDuration_def mult.assoc)
qed

text \<open>The largest number of days whose nanoseconds fit into 63 bits.\<close>

lemma days_fit: "signed_take_bit 63 (int n * (24 * time_Hour)) = int n * (24 * time_Hour) \<longleftrightarrow> n \<le> 106751"
  unfolding signed_take_bit_int_eq_self_iff by (auto simp: time_Hour_def time_Minute_def time_Second_def)

lemma trim_days: "strings_TrimSpace (dec n @ ''d'') = dec n @ ''d''"
proof (rule trim_solid)
  show "of_char (hd (dec n @ ''d'')) \<in> {48..57 :: nat} \<union> {97..102}"
    using dec_digits [OF hd_in_set [OF dec_nonempty], of n] dec_nonempty [of n] by simp
qed simp_all

lemma patch_fields:
  "patch_alert status nt now a = a\<lparr>al_Status := (if status = [] then al_Status a else status),
     al_Note := (if nt = [] then al_Note a else nt), al_UpdatedAt := now\<rparr>"
  by (simp add: patch_alert_def)

section \<open>Honeypots\<close>

text \<open>A minted slug is long enough for its prefix: with eight random bytes the handler does not panic.\<close>

lemma honeypot_answers:
  assumes "me_random env = Some b" "length b = 8"
  shows "fst (CreateHoneypot B C decode cfg env r db) \<noteq> None"
  using assms
  by (auto simp: CreateHoneypot_def GenerateHoneypotToken_def mint_def randomSlug_def honeypotVMSnippet_def new_token_def
      split: sum.splits prod.splits option.splits)

section \<open>Properties\<close>

text \<open>
  A search of the events of the last \<open>n\<close> days, for \<open>n\<close> up to 106751, returns the first documents of the event
  bucket, in descending order of their keys, that have the requested type and a time stamp within the last \<open>n\<close>
  days, up to the requested limit. From 106752 days on the duration does not fit into 64 bits and wraps.
\<close>

theorem event_search:
  assumes "bolt_db B" "rq_Method r = ''GET''" "rq_Query r ''from'' = dec n @ ''d''" "n < 2 ^ 63"
  shows "(parseDuration PD (dec n @ ''d'') = Some (int n * (24 * time_Hour)) \<longleftrightarrow> n \<le> 106751) \<and>
    (n \<le> 106751 \<longrightarrow> int n * (24 * time_Hour) < now \<longrightarrow>
      (case ServeEvents B C PD err_text now r db of
         (code, EventsBody es) \<Rightarrow> code = 200 \<and>
           (\<exists>kvs. sorted_wrt (\<lambda>x y. bytes_less y x) (map fst kvs) \<and>
             (\<forall>k v. (k, v) \<in> set kvs \<longleftrightarrow> bk_Get B db BucketEvents k = Some v) \<and>
             es = take (let limit = fst (strconv_Atoi (rq_Query r ''limit'')) in if limit \<le> 0 then 100 else nat limit)
               (filter (\<lambda>e. (rq_Query r ''type'' = [] \<or> ev_Type e = rq_Query r ''type'') \<and> now - int n * (24 * time_Hour) \<le> ev_Timestamp e)
                 (List.map_filter (\<lambda>(k, v). jc_Unmarshal C v) kvs)))
       | (code, _) \<Rightarrow> code = 500))"
proof (intro conjI impI)
  let ?d = "int n * (24 * time_Hour)"
  show "parseDuration PD (dec n @ ''d'') = Some ?d \<longleftrightarrow> n \<le> 106751"
    by (simp only: parse_days [OF assms(4)] option.inject days_fit)
  assume n: "n \<le> 106751" and now: "?d < now"
  have "parseDuration PD (strings_TrimSpace (rq_Query r ''from'')) = Some ?d"
    using n by (simp only: assms(3) trim_days parse_days [OF assms(4)] option.inject days_fit)
  moreover have "signed_take_bit 63 (- ?d) = - ?d"
    unfolding signed_take_bit_int_eq_self_iff using n by (simp add: time_Hour_def time_Minute_def time_Second_def)
  ultimately have serve: "ServeEvents B C PD err_text now r db =
      (case ListEventsByType B C (rq_Query r ''type'') (now - ?d) (fst (strconv_Atoi (rq_Query r ''limit''))) db of
         Inl e \<Rightarrow> (500, ErrorBody (err_text e)) | Inr evs \<Rightarrow> (200, EventsBody evs))"
    using assms(2,3) dec_nonempty [of n] by (simp add: ServeEvents_def Let_def)
  have m: "event_matches ty (now - ?d) = (\<lambda>e. (ty = [] \<or> ev_Type e = ty) \<and> now - ?d \<le> ev_Timestamp e)" for ty
    using now by (auto simp: fun_eq_iff event_matches_def IsZero_def)
  show "case ServeEvents B C PD err_text now r db of
         (code, EventsBody es) \<Rightarrow> code = 200 \<and>
           (\<exists>kvs. sorted_wrt (\<lambda>x y. bytes_less y x) (map fst kvs) \<and>
             (\<forall>k v. (k, v) \<in> set kvs \<longleftrightarrow> bk_Get B db BucketEvents k = Some v) \<and>
             es = take (let limit = fst (strconv_Atoi (rq_Query r ''limit'')) in if limit \<le> 0 then 100 else nat limit)
               (filter (\<lambda>e. (rq_Query r ''type'' = [] \<or> ev_Type e = rq_Query r ''type'') \<and> now - ?d \<le> ev_Timestamp e)
                 (List.map_filter (\<lambda>(k, v). jc_Unmarshal C v) kvs)))
       | (code, _) \<Rightarrow> code = 500"
    using conjunct2 [OF listing_exact [OF assms(1), where ty = "rq_Query r ''type''" and since = "now - ?d" and C' = C and db = db
        and limit = "fst (strconv_Atoi (rq_Query r ''limit''))"]]
    unfolding serve m Let_def by (auto split: sum.split)
qed

text \<open>
  C26: A patch of an alert that is answered with 200 changes that alert in the database as requested, reads back as
  the alert in the answer, and announces it: if the channel of the hub had room, every client that is connected
  then has the encoded announcement when the hub has worked off its queue, unless it was disconnected before. A
  patch that is answered otherwise changes and announces nothing.
\<close>

theorem alert_update_visible:
  assumes "bolt_db B" "rq_Path r = ''/api/alerts/'' @ i"
    and "\<forall>a status note. decode (rq_Body r) = Some (status, note) \<and> GetAlert B C i db = Inr a \<longrightarrow> round_trips C (patch_alert status note now a)"
    and "PatchAlert B C decode err_text now r (db, hub) = ((code, body), db', hub')"
  shows "(code \<noteq> 200 \<longrightarrow> db' = db \<and> hub' = hub) \<and>
    (code = 200 \<longrightarrow>
      (\<exists>status note a. decode (rq_Body r) = Some (status, note) \<and> GetAlert B C i db = Inr a \<and>
        body = AlertBody (patch_alert status note now a) \<and> GetAlert B C i db' = Inr (patch_alert status note now a) \<and>
        (\<forall>marshal data after h2 c.
           length (hb_broadcast hub) < broadcast_cap \<and> marshal (AlertUpdate (patch_alert status note now a)) = Some data \<and>
           c \<in> hb_clients hub \<and> hub_steps marshal hub' after h2 \<and> length (hb_broadcast hub') \<le> deliveries after \<and>
           c \<in> hb_clients h2 \<longrightarrow> data \<in> set (hb_written h2 c))))"
proof -
  have path: "trim_prefix (rq_Path r) ''/api/alerts/'' = i"
    by (simp add: assms(2) trim_prefix_def strings_HasPrefix_def)
  show ?thesis
  proof (cases "rq_Method r = ''PATCH'' \<and> i \<noteq> [] \<and> decode (rq_Body r) \<noteq> None")
    case False
    with assms(4) path show ?thesis by (cases "decode (rq_Body r)") (auto simp: PatchAlert_def Let_def split: if_splits)
  next
    case True
    then obtain status nt where dec: "decode (rq_Body r) = Some (status, nt)" by auto
    obtain res db1 where up: "UpdateAlert B C now i status nt db = (res, db1)" by fastforce
    have trips: "\<And>a. GetAlert B C i db = Inr a \<Longrightarrow> round_trips C (patch_alert status nt now a)" using assms(3) dec by blast
    show ?thesis
    proof (cases res)
      case (Inl e)
      with alert_patch [OF assms(1) up trips] have "db1 = db" by simp
      with assms(4) path True dec up Inl show ?thesis by (auto simp: PatchAlert_def Let_def)
    next
      case (Inr a')
      with alert_patch [OF assms(1) up trips, where D = C and m = "[]"] obtain a where a:
        "GetAlert B C i db = Inr a" "GetAlert B C i db1 = Inr a'" "a' = patch_alert status nt now a" by (auto simp: patch_fields)
      from assms(4) path True dec up Inr have res: "code = 200" "body = AlertBody a'" "db' = db1" "hub' = hub_Broadcast (AlertUpdate a') hub"
        by (auto simp: PatchAlert_def Let_def)
      have "data \<in> set (hb_written h2 c)"
        if h: "length (hb_broadcast hub) < broadcast_cap" "marshal (AlertUpdate a') = Some data" "c \<in> hb_clients hub"
          "hub_steps marshal hub' after h2" "length (hb_broadcast hub') \<le> deliveries after" "c \<in> hb_clients h2"
        for marshal data after h2 c
      proof -
        from h(1,3) res(4) have hub': "c \<in> hb_clients hub'" "AlertUpdate a' \<in> set (hb_broadcast hub')"
          by (simp_all add: hub_Broadcast_def)
        from client_gets [OF h(4) hub'(1)] h(6) obtain old where
          "hb_written h2 c = old @ List.map_filter marshal (taken hub' after)" by auto
        moreover have "AlertUpdate a' \<in> set (taken hub' after)" using hub'(2) h(5) by (simp add: taken_def)
        ultimately show ?thesis using h(2) by (auto simp: map_filter_set)
      qed
      with res a dec show ?thesis by blast
    qed
  qed
qed

theorem event_search_witness:
  "parseDuration (\<lambda>_. None) (dec 7 @ ''d'') = Some (7 * (24 * time_Hour)) \<and>
   parseDuration (\<lambda>_. None) (dec 106752 @ ''d'') \<noteq> Some (106752 * (24 * time_Hour)) \<and>
   (\<exists>es. ServeEvents mem_bolt \<lparr>jc_Marshal = (\<lambda>_. None), jc_Unmarshal = (\<lambda>_. None)\<rparr> (\<lambda>_. None) (\<lambda>_. []) (8 * (24 * time_Hour))
      \<lparr>rq_Method = ''GET'', rq_Path = ''/api/events'', rq_Query = (\<lambda>k. if k = ''from'' then dec 7 @ ''d'' else []), rq_Body = []\<rparr>
      [BucketEvents \<mapsto> [(str_bytes ''e1'', [0])]] = (200, EventsBody es))"
proof -
  let ?C = "\<lparr>jc_Marshal = (\<lambda>_. None), jc_Unmarshal = (\<lambda>_. None)\<rparr> :: NetworkEvent jcodec"
  let ?r = "\<lambda>n. \<lparr>rq_Method = ''GET'', rq_Path = ''/api/events'', rq_Query = (\<lambda>k. if k = ''from'' then dec n @ ''d'' else []), rq_Body = []\<rparr>"
  let ?db = "[BucketEvents \<mapsto> [(str_bytes ''e1'', [0])]] :: mem_db"
  note search = event_search [OF mem.bolt_db_axioms, where C = ?C and db = ?db and PD = "\<lambda>_. None" and err_text = "\<lambda>_. []"]
  from conjunct1 [OF search [of "?r 106752" 106752]]
  have big: "parseDuration (\<lambda>_. None) (dec 106752 @ ''d'') \<noteq> Some (106752 * (24 * time_Hour))" by simp
  from search [of "?r 7" 7 "8 * (24 * time_Hour)"]
  have small: "parseDuration (\<lambda>_. None) (dec 7 @ ''d'') = Some (7 * (24 * time_Hour))" by simp
  have "\<exists>es. ServeEvents mem_bolt ?C (\<lambda>_. None) (\<lambda>_. []) (8 * (24 * time_Hour)) (?r 7) ?db = (200, EventsBody es)"
    by (simp add: ServeEvents_def Let_def ListEventsByType_def repo_scan_def mem_bolt_def mem_entries_def)
  with big small show ?thesis by blast
qed

text \<open>One client is connected; the alert is closed, announced and delivered.\<close>

definition closed_alert :: Alert where
  "closed_alert = patch_alert ''CLOSED'' ''done'' 9 sample_alert"

definition two_alerts :: "Alert jcodec" where
  "two_alerts = \<lparr>jc_Marshal = (\<lambda>a. if a = closed_alert then Some [1] else None), jc_Unmarshal = (\<lambda>d. Some (if d = [1] then closed_alert else sample_alert))\<rparr>"

definition one_client :: "ws_message WSHub" where
  "one_client = hub_register 0 NewWSHub"

theorem alert_update_visible_witness:
  "\<exists>db' hub'. PatchAlert mem_bolt two_alerts (\<lambda>_. Some (''CLOSED'', ''done'')) (\<lambda>_. []) 9
       \<lparr>rq_Method = ''PATCH'', rq_Path = ''/api/alerts/a1'', rq_Query = (\<lambda>_. []), rq_Body = []\<rparr>
       ([BucketAlerts \<mapsto> [(str_bytes ''a1'', [0])]], one_client) = ((200, AlertBody closed_alert), db', hub') \<and>
     GetAlert mem_bolt two_alerts ''a1'' db' = Inr closed_alert \<and>
     [7] \<in> set (hb_written (hub_deliver (\<lambda>_. Some [7]) (\<lambda>_. True) hub') 0)"
proof -
  let ?db = "[BucketAlerts \<mapsto> [(str_bytes ''a1'', [0])]] :: mem_db"
  let ?r = "\<lparr>rq_Method = ''PATCH'', rq_Path = ''/api/alerts/'' @ ''a1'', rq_Query = (\<lambda>_. []), rq_Body = []\<rparr>"
  let ?D = "\<lambda>_ :: bytes. Some (''CLOSED'', ''done'')"
  have get: "GetAlert mem_bolt two_alerts ''a1'' ?db = Inr sample_alert"
    by (simp add: GetAlert_def repo_get_def mem_bolt_def mem_entries_def two_alerts_def)
  have trips: "round_trips two_alerts closed_alert" by (simp add: round_trips_def two_alerts_def)
  obtain db' where "bput mem_bolt RepoBolt BucketAlerts (str_bytes ''a1'') [1] ?db = (None, db')"
    by (simp add: bput_def mem_bolt_def mem_entries_def)
  moreover have "bk_Commit mem_bolt x y = None" for x y by (simp add: mem_bolt_def)
  moreover have "jc_Marshal two_alerts closed_alert = Some [1]" by (simp add: two_alerts_def)
  ultimately have up: "UpdateAlert mem_bolt two_alerts 9 ''a1'' ''CLOSED'' ''done'' ?db = (Inr closed_alert, db')"
    using get by (simp add: UpdateAlert_def db_Update_def closed_alert_def)
  let ?hub' = "hub_Broadcast (AlertUpdate closed_alert) one_client"
  have patch: "PatchAlert mem_bolt two_alerts ?D (\<lambda>_. []) 9 ?r (?db, one_client) = ((200, AlertBody closed_alert), db', ?hub')"
    using up by (simp add: PatchAlert_def trim_prefix_def strings_HasPrefix_def)
  have hub: "length (hb_broadcast one_client) < broadcast_cap" "0 \<in> hb_clients one_client" "hb_broadcast ?hub' = [AlertUpdate closed_alert]"
    by (simp_all add: one_client_def hub_register_def NewWSHub_def broadcast_cap_def hub_Broadcast_def)
  let ?M = "\<lambda>_ :: ws_message. Some [7 :: byte]"
  let ?h2 = "hub_deliver ?M (\<lambda>_. True) ?hub'"
  have steps: "hub_steps ?M ?hub' [Deliver (\<lambda>_. True)] ?h2"
    by (rule hub_steps.more [OF hub_step.deliver hub_steps.stop]) (simp add: hub)
  have client: "0 \<in> hb_clients ?h2" using hub by (simp add: hub_deliver_def hub_write_def) (simp add: hub_Broadcast_def)
  have "\<forall>a status note. ?D (rq_Body ?r) = Some (status, note) \<and> GetAlert mem_bolt two_alerts ''a1'' ?db = Inr a \<longrightarrow>
      round_trips two_alerts (patch_alert status note 9 a)"
    using get trips by (simp add: closed_alert_def)
  from alert_update_visible [OF mem.bolt_db_axioms _ this patch]
  have got: "GetAlert mem_bolt two_alerts ''a1'' db' = Inr closed_alert"
    "\<forall>marshal data after h2 c. length (hb_broadcast one_client) < broadcast_cap \<and> marshal (AlertUpdate closed_alert) = Some data \<and>
       c \<in> hb_clients one_client \<and> hub_steps marshal ?hub' after h2 \<and> length (hb_broadcast ?hub') \<le> deliveries after \<and>
       c \<in> hb_clients h2 \<longrightarrow> data \<in> set (hb_written h2 c)"
    using get by (auto simp: closed_alert_def)
  from got(2) [rule_format, of ?M "[7]" 0 "[Deliver (\<lambda>_. True)]" ?h2] hub steps client have "[7] \<in> set (hb_written ?h2 0)" by simp
  with patch got(1) show ?thesis by auto
qed

end
