(* ===== verification/Dga.thy ===== *)
theory Dga
  imports Complex_Main Models GoLib
begin

text \<open>
  The entropy heuristic for generated domain names (\<^verbatim>\<open>internal/analytics/correlation/rules.go\<close>). The floating point
  numbers of the source are real numbers here. A Go string is iterated by the code points of its UTF-8 encoding,
  where a byte that starts no valid sequence counts as the replacement character.
\<close>

section \<open>Code points\<close>

text \<open>The number of continuation bytes of a valid sequence with lead byte \<open>b\<close> before \<open>bs\<close>; \<open>None\<close> if there is none.\<close>

definition cont_between :: "nat \<Rightarrow> nat \<Rightarrow> nat \<Rightarrow> nat list \<Rightarrow> bool" where
  "cont_between k lo hi bs \<longleftrightarrow>
     k \<le> length bs \<and> lo \<le> bs ! 0 \<and> bs ! 0 \<le> hi \<and> list_all (\<lambda>b. 128 \<le> b \<and> b \<le> 191) (take k bs)"

definition utf8_tail :: "nat \<Rightarrow> nat list \<Rightarrow> nat option" where
  "utf8_tail b bs =
     (if b < 128 then Some 0
      else if 194 \<le> b \<and> b \<le> 223 \<and> cont_between 1 128 191 bs then Some 1
      else if b = 224 \<and> cont_between 2 160 191 bs then Some 2
      else if b = 237 \<and> cont_between 2 128 159 bs then Some 2
      else if 225 \<le> b \<and> b \<le> 239 \<and> b \<noteq> 237 \<and> cont_between 2 128 191 bs then Some 2
      else if b = 240 \<and> cont_between 3 144 191 bs then Some 3
      else if 241 \<le> b \<and> b \<le> 243 \<and> cont_between 3 128 191 bs then Some 3
      else if b = 244 \<and> cont_between 3 128 143 bs then Some 3
      else None)"

definition utf8_value :: "nat \<Rightarrow> nat list \<Rightarrow> nat" where
  "utf8_value b tail =
     fold (\<lambda>c v. 64 * v + c mod 64) tail (if tail = [] then b else b mod 2 ^ (6 - length tail))"

fun utf8_runes :: "nat list \<Rightarrow> nat list" where
  "utf8_runes [] = []"
| "utf8_runes (b # bs) =
     (case utf8_tail b bs of
        None \<Rightarrow> 65533 # utf8_runes bs
      | Some k \<Rightarrow> utf8_value b (take k bs) # utf8_runes (drop k bs))"

definition runes_of :: "string \<Rightarrow> nat list" where
  "runes_of s = utf8_runes (map of_char s)"

section \<open>The rule\<close>

definition shannonEntropy :: "string \<Rightarrow> real" where
  "shannonEntropy s =
     (if s = [] then 0
      else (let rs = runes_of s; n = real (length s)
            in sum_list (map (\<lambda>c. - (real (count_list rs c) / n * log 2 (real (count_list rs c) / n))) (remdups rs))))"

definition countVowels :: "string \<Rightarrow> nat" where
  "countVowels s = length (filter (\<lambda>c. c \<in> set (map of_char ''aeiouAEIOU'')) (runes_of s))"

record DGADetectionRule =
  dr_EntropyThreshold :: real
  dr_MinLength :: nat

definition DefaultRules :: DGADetectionRule where
  "DefaultRules = \<lparr>dr_EntropyThreshold = 38 / 10, dr_MinLength = 10\<rparr>"

text \<open>The alert with its two measurements, which the source puts into the metadata as well.\<close>

record dga_alert =
  da_event :: NetworkEvent
  da_entropy :: real
  da_vowel_ratio :: real

definition first_label :: "string \<Rightarrow> string option" where
  "first_label name =
     (let labels = strings_Split (if strings_HasSuffix name ''.'' then butlast name else name) (CHR ''.'')
      in if length labels < 2 then None else Some (hd labels))"

definition dga_Evaluate :: "DGADetectionRule \<Rightarrow> gotime \<Rightarrow> string \<Rightarrow> NetworkEvent \<Rightarrow> dga_alert option" where
  "dga_Evaluate r now uuid e =
     (if ev_Type e \<noteq> EventDNS then None
      else
        (case as_string (meta_get (ev_Metadata e) ''name'') of
           None \<Rightarrow> None
         | Some name \<Rightarrow>
             if length name < dr_MinLength r then None
             else
               (case first_label name of
                  None \<Rightarrow> None
                | Some label \<Rightarrow>
                    if length label < dr_MinLength r then None
                    else
                      (let entropy = shannonEntropy label
                       in if entropy < dr_EntropyThreshold r then None
                          else
                            (let vowelRatio = real (countVowels label) / real (length label)
                             in if vowelRatio > 38 / 100 then None
                                else Some
                                  \<lparr>da_event =
                                     \<lparr>ev_ID = uuid, ev_Type = EventAlert, ev_Source = ''CorrelationEngine'', ev_Destination = ev_Source e,
                                      ev_Metadata = Some [''rule'' \<mapsto> AString ''DGA_DOMAIN_DETECTED'',
                                        ''description'' \<mapsto> AString ''DNS query to high-entropy domain consistent with DGA-generated C2'',
                                        ''severity'' \<mapsto> AString ''HIGH'', ''trigger_id'' \<mapsto> AString (ev_ID e),
                                        ''domain'' \<mapsto> AString name, ''label'' \<mapsto> AString label],
                                      ev_Timestamp = now, ev_Signature = [], ev_SignerKeyID = []\<rparr>,
                                   da_entropy = entropy, da_vowel_ratio = vowelRatio\<rparr>)))))"

section \<open>Bounds of the entropy\<close>

lemma utf8_length: "length (utf8_runes bs) \<le> length bs"
  by (induction bs rule: utf8_runes.induct) (auto split: option.split intro: le_trans)

lemma runes_length: "length (runes_of s) \<le> length s"
  using utf8_length [of "map of_char s"] by (simp add: runes_of_def)

lemma sum_counts: "sum_list (map (count_list rs) (remdups rs)) = length rs"
  using sum_count_set [of rs "set rs"] by (simp add: sum_list_distinct_conv_sum_set)

lemma real_sum_list: "real (sum_list (map f xs)) = sum_list (map (\<lambda>x. real (f x)) xs)"
  by (induction xs) simp_all

lemma count_distinct: "distinct xs \<Longrightarrow> c \<in> set xs \<Longrightarrow> count_list xs c = 1"
  by (induction xs) auto

text \<open>
  No more than the logarithm of the number of bytes: every share of a code point is at least one of them.
\<close>

lemma entropy_le_log: "shannonEntropy s \<le> log 2 (real (length s))" if "s \<noteq> []"
proof -
  let ?rs = "runes_of s" and ?n = "real (length s)"
  have n: "1 \<le> ?n" using that by (cases s) auto
  have "0 \<le> log 2 ?n" using n by (subst zero_le_log_cancel_iff) auto
  then have nonneg: "0 \<le> log 2 ?n / ?n" by simp
  have share: "- (real (count_list ?rs c) / ?n * log 2 (real (count_list ?rs c) / ?n)) \<le> real (count_list ?rs c) * (log 2 ?n / ?n)"
    if "c \<in> set ?rs" for c
  proof -
    have c: "1 \<le> real (count_list ?rs c)" using that by (metis One_nat_def Suc_leI count_list_0_iff gr0I of_nat_1 of_nat_le_iff)
    then have "log 2 (real (count_list ?rs c) / ?n) = log 2 (real (count_list ?rs c)) - log 2 ?n"
      using n by (subst log_divide) auto
    moreover have "0 \<le> log 2 (real (count_list ?rs c))" using c by simp
    ultimately have "- log 2 (real (count_list ?rs c) / ?n) \<le> log 2 ?n" by simp
    then have "real (count_list ?rs c) / ?n * - log 2 (real (count_list ?rs c) / ?n) \<le> real (count_list ?rs c) / ?n * log 2 ?n"
      using n by (intro mult_left_mono) auto
    then show ?thesis by simp
  qed
  have "shannonEntropy s = sum_list (map (\<lambda>c. - (real (count_list ?rs c) / ?n * log 2 (real (count_list ?rs c) / ?n))) (remdups ?rs))"
    using that by (simp add: shannonEntropy_def Let_def)
  also have "\<dots> \<le> sum_list (map (\<lambda>c. real (count_list ?rs c) * (log 2 ?n / ?n)) (remdups ?rs))"
    by (rule sum_list_mono) (use share in simp)
  also have "\<dots> = real (sum_list (map (count_list ?rs) (remdups ?rs))) * (log 2 ?n / ?n)"
    unfolding real_sum_list by (rule sum_list_mult_const)
  also have "\<dots> \<le> ?n * (log 2 ?n / ?n)"
    unfolding sum_counts using runes_length [of s] nonneg by (intro mult_right_mono) auto
  finally show ?thesis using that by simp
qed

text \<open>Bytes below 128 are code points of their own.\<close>

lemma utf8_ascii: "\<forall>b \<in> set bs. b < 128 \<Longrightarrow> utf8_runes bs = bs"
  by (induction bs) (simp_all add: utf8_tail_def utf8_value_def)

lemma runes_ascii: "\<forall>c \<in> set s. of_char c < (128 :: nat) \<Longrightarrow> runes_of s = map of_char s"
  unfolding runes_of_def by (rule utf8_ascii) simp

lemma entropy_distinct:
  assumes "s \<noteq> []" "distinct s" "\<forall>c \<in> set s. of_char c < (128 :: nat)"
  shows "shannonEntropy s = log 2 (real (length s))"
proof -
  let ?rs = "map of_char s :: nat list" and ?n = "real (length s)"
  have n: "1 \<le> ?n" using assms(1) by (cases s) auto
  have d: "distinct ?rs" using assms(2) by (simp add: distinct_map inj_on_def)
  then have one: "count_list ?rs c = 1" if "c \<in> set ?rs" for c using that by (rule count_distinct)
  have "shannonEntropy s = sum_list (map (\<lambda>c. - (real (count_list ?rs c) / ?n * log 2 (real (count_list ?rs c) / ?n))) ?rs)"
    using assms(1) d by (simp add: shannonEntropy_def Let_def runes_ascii [OF assms(3)] distinct_remdups_id)
  also have "\<dots> = sum_list (map (\<lambda>c. log 2 ?n / ?n) ?rs)"
    by (rule arg_cong [where f = sum_list], rule map_cong) (use one n in \<open>simp_all add: log_divide\<close>)
  also have "\<dots> = log 2 ?n" using assms(1) by (simp add: o_def sum_list_triv)
  finally show ?thesis .
qed

lemma log_power: "log 2 ((2 :: real) ^ 19) = 19" "log 2 ((13 :: real) ^ 5) = 5 * log 2 13" "log 2 ((14 :: real) ^ 5) = 5 * log 2 14"
  using log_nat_power [of 2 2 19] log_nat_power [of 13 2 5] log_nat_power [of 14 2 5] by simp_all

lemma threshold_13: "log 2 13 < 38 / 10"
proof -
  have "log 2 ((13 :: real) ^ 5) < log 2 (2 ^ 19)" by (subst log_less_cancel_iff) simp_all
  then show ?thesis unfolding log_power by simp
qed

lemma threshold_14: "38 / 10 \<le> log 2 14"
proof -
  have "log 2 (2 ^ 19) \<le> log 2 ((14 :: real) ^ 5)" by (subst log_le_cancel_iff) simp_all
  then show ?thesis unfolding log_power by simp
qed

section \<open>Properties\<close>

text \<open>
  C38: With the default thresholds an alert is raised only for DNS events whose first label has at least 14 bytes,
  an entropy of at least 3.8 and at most the logarithm of its length, and a share of vowels of at most 0.38; the
  configured minimal length of 10 never decides. Every label of at least 14 different ASCII characters with so few
  vowels raises one.
\<close>

theorem dga_threshold:
  "(\<forall>a. dga_Evaluate DefaultRules now uuid e = Some a \<longrightarrow>
      (\<exists>name label. as_string (meta_get (ev_Metadata e) ''name'') = Some name \<and> first_label name = Some label \<and> ev_Type e = EventDNS \<and>
        14 \<le> length label \<and> 38 / 10 \<le> shannonEntropy label \<and> shannonEntropy label \<le> log 2 (real (length label)) \<and>
        da_entropy a = shannonEntropy label \<and> da_vowel_ratio a \<le> 38 / 100)) \<and>
   (\<forall>name label. ev_Type e = EventDNS \<and> as_string (meta_get (ev_Metadata e) ''name'') = Some name \<and> first_label name = Some label \<and>
      length label \<le> length name \<and> 14 \<le> length label \<and> distinct label \<and> (\<forall>c \<in> set label. of_char c < (128 :: nat)) \<and>
      real (countVowels label) / real (length label) \<le> 38 / 100 \<longrightarrow>
      dga_Evaluate DefaultRules now uuid e \<noteq> None)"
proof (intro conjI allI impI)
  fix a assume "dga_Evaluate DefaultRules now uuid e = Some a"
  then obtain name label where l: "as_string (meta_get (ev_Metadata e) ''name'') = Some name" "first_label name = Some label"
    "ev_Type e = EventDNS" "\<not> length label < 10" "\<not> shannonEntropy label < 38 / 10" "da_entropy a = shannonEntropy label"
    "da_vowel_ratio a \<le> 38 / 100"
    by (auto simp: dga_Evaluate_def DefaultRules_def Let_def split: if_splits option.splits)
  from l(4) have "label \<noteq> []" by auto
  note le = entropy_le_log [OF this]
  have "14 \<le> length label"
  proof (rule ccontr)
    assume "\<not> 14 \<le> length label"
    then have "log 2 (real (length label)) \<le> log 2 13" using \<open>label \<noteq> []\<close> by (subst log_le_cancel_iff) auto
    with le l(5) threshold_13 show False by simp
  qed
  with l le show "\<exists>name label. as_string (meta_get (ev_Metadata e) ''name'') = Some name \<and> first_label name = Some label \<and> ev_Type e = EventDNS \<and>
        14 \<le> length label \<and> 38 / 10 \<le> shannonEntropy label \<and> shannonEntropy label \<le> log 2 (real (length label)) \<and>
        da_entropy a = shannonEntropy label \<and> da_vowel_ratio a \<le> 38 / 100" by auto
next
  fix name label
  assume h: "ev_Type e = EventDNS \<and> as_string (meta_get (ev_Metadata e) ''name'') = Some name \<and> first_label name = Some label \<and>
      length label \<le> length name \<and> 14 \<le> length label \<and> distinct label \<and> (\<forall>c \<in> set label. of_char c < (128 :: nat)) \<and>
      real (countVowels label) / real (length label) \<le> 38 / 100"
  then have "label \<noteq> []" by auto
  with h have "shannonEntropy label = log 2 (real (length label))" by (intro entropy_distinct) auto
  moreover have "log 2 14 \<le> log 2 (real (length label))" using h by (subst log_le_cancel_iff) auto
  ultimately have "\<not> shannonEntropy label < 38 / 10" using threshold_14 by simp
  with h show "dga_Evaluate DefaultRules now uuid e \<noteq> None" by (simp add: dga_Evaluate_def DefaultRules_def Let_def)
qed

definition sample_query_event :: NetworkEvent where
  "sample_query_event = \<lparr>ev_ID = ''1'', ev_Type = EventDNS, ev_Source = ''10.0.0.7'', ev_Destination = [],
     ev_Metadata = Some [''name'' \<mapsto> AString ''bcdfghjklmnpqr.net.''], ev_Timestamp = 0, ev_Signature = [], ev_SignerKeyID = []\<rparr>"

theorem dga_threshold_witness:
  "\<exists>a. dga_Evaluate DefaultRules 0 ''u'' sample_query_event = Some a \<and> 38 / 10 \<le> da_entropy a"
proof -
  let ?e = sample_query_event
  have name: "as_string (meta_get (ev_Metadata ?e) ''name'') = Some ''bcdfghjklmnpqr.net.''" "ev_Type ?e = EventDNS"
    by (simp_all add: sample_query_event_def meta_get_def)
  have label: "first_label ''bcdfghjklmnpqr.net.'' = Some ''bcdfghjklmnpqr''" by code_simp
  have "countVowels ''bcdfghjklmnpqr'' = 0" by code_simp
  then have "dga_Evaluate DefaultRules 0 ''u'' ?e \<noteq> None"
    using name label conjunct2 [OF dga_threshold [of 0 "''u''" ?e], rule_format, of "''bcdfghjklmnpqr.net.''" "''bcdfghjklmnpqr''"] by simp
  then obtain a where a: "dga_Evaluate DefaultRules 0 ''u'' ?e = Some a" by blast
  with conjunct1 [OF dga_threshold [of 0 "''u''" ?e], rule_format, OF a] show ?thesis by auto
qed

end
