(* ===== verification/Vault.thy ===== *)
theory Vault
  imports Files
begin

text \<open>
  The encryption of stored data (\<^verbatim>\<open>internal/storage/crypto\<close>): the master key on disk and the vault. AES-GCM is a
  parameter, a record of its operations by key, with \<open>gcm_ok\<close> for what it promises. Random bytes are arguments,
  \<open>None\<close> when the source fails. \<^verbatim>\<open>DeriveKey\<close> is a single call of Argon2 and is not used by the others.
\<close>

section \<open>Authenticated encryption\<close>

record aead =
  ae_NonceSize :: nat
  ae_Seal :: "bytes \<Rightarrow> bytes \<Rightarrow> bytes"
  ae_Open :: "bytes \<Rightarrow> bytes \<Rightarrow> bytes option"

text \<open>
  \<open>gcm\<close> makes the cipher of a key; \<open>None\<close> is the error for a key of the wrong length. What is promised: keys of 16,
  24 or 32 bytes are accepted, a nonce has 12 bytes, and opening yields a plaintext exactly for what sealing it
  under the same nonce produces.
\<close>

definition gcm_ok :: "(bytes \<Rightarrow> aead option) \<Rightarrow> bool" where
  "gcm_ok gcm \<longleftrightarrow>
     (\<forall>key. gcm key \<noteq> None \<longleftrightarrow> length key \<in> {16, 24, 32}) \<and>
     (\<forall>key c. gcm key = Some c \<longrightarrow> ae_NonceSize c = 12 \<and>
        (\<forall>nonce ct pt. length nonce = 12 \<longrightarrow> (ae_Open c nonce ct = Some pt \<longleftrightarrow> ct = ae_Seal c nonce pt)))"

section \<open>The vault\<close>

datatype crypto_error = CipherFailed | RandomFailed | TooShort | DecryptFailed | Disabled | MkdirFailed | BadKeyLength nat | SaveKeyFailed

definition GenerateRandomBytes :: "bytes option \<Rightarrow> crypto_error + bytes" where
  "GenerateRandomBytes rnd = (case rnd of None \<Rightarrow> Inl RandomFailed | Some b \<Rightarrow> Inr b)"

definition NewVault :: "(bytes \<Rightarrow> aead option) \<Rightarrow> bytes \<Rightarrow> crypto_error + aead" where
  "NewVault gcm masterKey = (case gcm masterKey of None \<Rightarrow> Inl CipherFailed | Some c \<Rightarrow> Inr c)"

text \<open>\<^verbatim>\<open>Seal\<close> appends to the nonce.\<close>

definition Encrypt :: "bytes option \<Rightarrow> bytes \<Rightarrow> aead \<Rightarrow> crypto_error + bytes" where
  "Encrypt rnd plaintext v =
     (case rnd of None \<Rightarrow> Inl RandomFailed | Some nonce \<Rightarrow> Inr (nonce @ ae_Seal v nonce plaintext))"

definition Decrypt :: "bytes \<Rightarrow> aead \<Rightarrow> crypto_error + bytes" where
  "Decrypt ciphertext v =
     (let nonceSize = ae_NonceSize v
      in if length ciphertext < nonceSize then Inl TooShort
         else (case ae_Open v (take nonceSize ciphertext) (drop nonceSize ciphertext) of
                 None \<Rightarrow> Inl DecryptFailed
               | Some plaintext \<Rightarrow> Inr plaintext))"

section \<open>The master key\<close>

record EncryptionConfig =
  ec_Enabled :: bool
  ec_KeyFile :: string

text \<open>The key file is read; whatever the reading fails with, a new key is made and written over it.\<close>

definition GetMasterKey :: "EncryptionConfig \<Rightarrow> bytes option \<Rightarrow> disk \<Rightarrow> (crypto_error + bytes) \<times> disk" where
  "GetMasterKey cfg rnd d =
     (if \<not> ec_Enabled cfg then (Inl Disabled, d)
      else if dk_fails d FsMkdir (ec_KeyFile cfg) then (Inl MkdirFailed, d)
      else
        (case os_ReadFile (ec_KeyFile cfg) d of
           Inr key \<Rightarrow> if length key \<noteq> 32 then (Inl (BadKeyLength (length key)), d) else (Inr key, d)
         | Inl _ \<Rightarrow>
             (case GenerateRandomBytes rnd of
                Inl e \<Rightarrow> (Inl e, d)
              | Inr key \<Rightarrow>
                  (case os_WriteFile (ec_KeyFile cfg) key d of
                     (Some _, d') \<Rightarrow> (Inl SaveKeyFailed, d')
                   | (None, d') \<Rightarrow> (Inr key, d')))))"

section \<open>Lemmas\<close>

lemma decrypt_iff:
  assumes "gcm_ok gcm" "gcm key = Some v" "12 \<le> length ct"
  shows "Decrypt ct v = Inr pt \<longleftrightarrow> ct = take 12 ct @ ae_Seal v (take 12 ct) pt"
proof -
  have v: "ae_NonceSize v = 12" "\<And>n c p. length n = 12 \<Longrightarrow> ae_Open v n c = Some p \<longleftrightarrow> c = ae_Seal v n p"
    using assms(1,2) by (auto simp: gcm_ok_def)
  have "Decrypt ct v = Inr pt \<longleftrightarrow> ae_Open v (take 12 ct) (drop 12 ct) = Some pt"
    using assms(3) by (auto simp: Decrypt_def v(1) split: option.splits)
  also have "\<dots> \<longleftrightarrow> drop 12 ct = ae_Seal v (take 12 ct) pt" using v(2) assms(3) by simp
  also have "\<dots> \<longleftrightarrow> ct = take 12 ct @ ae_Seal v (take 12 ct) pt" by (metis append_eq_conv_conj append_take_drop_id)
  finally show ?thesis .
qed

lemma short_rejected: "gcm_ok gcm \<Longrightarrow> gcm key = Some v \<Longrightarrow> length ct < 12 \<Longrightarrow> Decrypt ct v = Inl TooShort"
  by (simp add: Decrypt_def gcm_ok_def)

lemma encrypt_decrypt:
  assumes "gcm_ok gcm" "gcm key = Some v" "length nonce = 12" "Encrypt (Some nonce) pt v = Inr ct"
  shows "Decrypt ct v = Inr pt"
  using assms decrypt_iff [OF assms(1,2), of ct pt] by (simp add: Encrypt_def) fastforce

text \<open>The disk lets the key file be read and written.\<close>

definition key_disk :: "EncryptionConfig \<Rightarrow> disk \<Rightarrow> bool" where
  "key_disk cfg d \<longleftrightarrow> (\<forall>op \<in> {FsRead, FsWrite, FsMkdir}. \<not> dk_fails d op (ec_KeyFile cfg))"

lemma master_key_cases:
  assumes "GetMasterKey cfg rnd d = (Inr key, d')"
  shows "ec_Enabled cfg"
    and "\<not> dk_fails d FsRead (ec_KeyFile cfg) \<Longrightarrow> file_at d (ec_KeyFile cfg) = Some old \<Longrightarrow> key = old \<and> d' = d \<and> length key = 32"
    and "\<not> dk_fails d FsRead (ec_KeyFile cfg) \<Longrightarrow> file_at d' (ec_KeyFile cfg) = Some key"
    and "file_at d (ec_KeyFile cfg) = None \<Longrightarrow> rnd = Some key"
    and "dk_fails d' = dk_fails d"
  using assms
  by (auto simp: GetMasterKey_def os_ReadFile_def os_WriteFile_def GenerateRandomBytes_def split: if_splits option.splits sum.splits)

text \<open>
  A key file that is there but cannot be read, for example for lack of permission, is replaced by a new key: what
  was encrypted under the old one is lost.
\<close>

lemma unreadable_key_replaced:
  assumes "ec_Enabled cfg" "file_at d (ec_KeyFile cfg) = Some old" "dk_fails d FsRead (ec_KeyFile cfg)"
    and "\<not> dk_fails d FsWrite (ec_KeyFile cfg)" "\<not> dk_fails d FsMkdir (ec_KeyFile cfg)"
  shows "\<exists>d'. GetMasterKey cfg (Some new) d = (Inr new, d') \<and> file_at d' (ec_KeyFile cfg) = Some new"
  using assms by (simp add: GetMasterKey_def os_ReadFile_def os_WriteFile_def GenerateRandomBytes_def)

section \<open>Properties\<close>

text \<open>
  C27: Once a process has got its master key, every later one on the same disk gets the same key, whatever random
  bytes it draws, and decrypts what the first one encrypted. Nothing decrypts under that key but what
  encryption with a nonce produces.
\<close>

theorem vault_roundtrip:
  assumes "gcm_ok gcm" "key_disk cfg d" "length fresh = 32" "length nonce = 12"
    and "GetMasterKey cfg (Some fresh) d = (Inr key, d')" "NewVault gcm key = Inr v" "Encrypt (Some nonce) pt v = Inr ct"
  shows "length key = 32 \<and> GetMasterKey cfg rnd d' = (Inr key, d') \<and> Decrypt ct v = Inr pt \<and>
    (\<forall>ct' pt'. Decrypt ct' v = Inr pt' \<longrightarrow> (\<exists>n. length n = 12 \<and> Encrypt (Some n) pt' v = Inr ct'))"
proof -
  have v: "gcm key = Some v" using assms(6) by (auto simp: NewVault_def split: option.splits)
  have read: "\<not> dk_fails d FsRead (ec_KeyFile cfg)" using assms(2) by (simp add: key_disk_def)
  note facts = master_key_cases [OF assms(5)]
  have len: "length key = 32"
    using facts(2) [OF read] facts(4) assms(3) by (cases "file_at d (ec_KeyFile cfg)") auto
  have again: "GetMasterKey cfg rnd d' = (Inr key, d')"
    using facts(1,5) facts(3) [OF read] len assms(2) by (simp add: GetMasterKey_def os_ReadFile_def key_disk_def)
  have "\<exists>n. length n = 12 \<and> Encrypt (Some n) pt' v = Inr ct'" if "Decrypt ct' v = Inr pt'" for ct' pt'
  proof -
    have l: "12 \<le> length ct'" using that short_rejected [OF assms(1) v, of ct'] by (cases "length ct' < 12") auto
    then show ?thesis
      using that decrypt_iff [OF assms(1) v l] by (intro exI [of _ "take 12 ct'"]) (simp add: Encrypt_def)
  qed
  with len again encrypt_decrypt [OF assms(1) v assms(4,7)] show ?thesis by blast
qed

text \<open>A cipher that adds the key and nonce as a tag, to try the statement.\<close>

definition strip_tag :: "bytes \<Rightarrow> bytes \<Rightarrow> bytes option" where
  "strip_tag tag ct = (if take (length tag) ct = tag then Some (drop (length tag) ct) else None)"

definition tag_cipher :: "bytes \<Rightarrow> aead option" where
  "tag_cipher key =
     (if length key \<in> {16, 24, 32}
      then Some \<lparr>ae_NonceSize = 12, ae_Seal = (\<lambda>n pt. (key @ n) @ pt), ae_Open = (\<lambda>n. strip_tag (key @ n))\<rparr>
      else None)"

lemma strip_tag_iff: "strip_tag tag ct = Some pt \<longleftrightarrow> ct = tag @ pt"
proof
  assume "strip_tag tag ct = Some pt"
  then have "take (length tag) ct = tag" "pt = drop (length tag) ct" by (auto simp: strip_tag_def split: if_splits)
  then show "ct = tag @ pt" by (metis append_take_drop_id)
qed (simp add: strip_tag_def)

lemma tag_cipher_ok: "gcm_ok tag_cipher"
  unfolding gcm_ok_def by (auto simp: tag_cipher_def strip_tag_iff simp del: append_assoc split: if_splits)

theorem vault_roundtrip_witness:
  "\<exists>d'. GetMasterKey \<lparr>ec_Enabled = True, ec_KeyFile = ''/k''\<rparr> (Some (replicate 32 7)) \<lparr>dk_files = [], dk_fails = (\<lambda>_ _. False), dk_torn = (\<lambda>_. 0)\<rparr> =
       (Inr (replicate 32 7), d') \<and>
     GetMasterKey \<lparr>ec_Enabled = True, ec_KeyFile = ''/k''\<rparr> (Some (replicate 32 9)) d' = (Inr (replicate 32 7), d') \<and>
     Decrypt (replicate 12 0 @ replicate 32 7 @ replicate 12 0 @ [1, 2]) (the (tag_cipher (replicate 32 7))) = Inr [1, 2]"
proof -
  let ?cfg = "\<lparr>ec_Enabled = True, ec_KeyFile = ''/k''\<rparr>"
  let ?d = "\<lparr>dk_files = [], dk_fails = (\<lambda>_ _. False), dk_torn = (\<lambda>_. 0)\<rparr>"
  let ?k = "replicate 32 7 :: bytes"
  obtain d' where k: "GetMasterKey ?cfg (Some ?k) ?d = (Inr ?k, d')"
    by (simp add: GetMasterKey_def os_ReadFile_def os_WriteFile_def GenerateRandomBytes_def)
  have v: "NewVault tag_cipher ?k = Inr (the (tag_cipher ?k))" by (simp add: NewVault_def tag_cipher_def)
  have e: "Encrypt (Some (replicate 12 0)) [1, 2] (the (tag_cipher ?k)) = Inr (replicate 12 0 @ ?k @ replicate 12 0 @ [1, 2])"
    by (simp add: Encrypt_def tag_cipher_def)
  have disk: "key_disk ?cfg ?d" by (simp add: key_disk_def)
  show ?thesis
    using vault_roundtrip [OF tag_cipher_ok disk _ _ k v e, of "Some (replicate 32 9)"] k by auto
qed

end
