(* ===== verification/Nas.thy ===== *)
theory Nas
  imports Events GoLib
begin

text \<open>
  The network attached storage (\<^verbatim>\<open>internal/storage/nas\<close>): building the mount command, mounting with retries and
  the health loop. What the system answers is an argument: the text of \<^verbatim>\<open>/proc/mounts\<close> (\<open>None\<close> if it cannot be
  read), whether the directory could be made and whether the command succeeded. Effects are returned as a list.
\<close>

section \<open>Mounting\<close>

record NASConfig =
  nc_Enabled :: bool
  nc_Type :: string
  nc_Host :: string
  nc_Share :: string
  nc_MountPoint :: string
  nc_Username :: string
  nc_Password :: string
  nc_RetryAttempts :: int

record nas_env =
  ne_mkdir :: bool
  ne_mounts :: "string option"
  ne_command :: bool

datatype nas_error = NasMkdir | UnsupportedType | MountFailed | NasCancelled

datatype nas_effect = Command "string list" | Health string string

definition IsMounted :: "NASConfig \<Rightarrow> string option \<Rightarrow> bool" where
  "IsMounted cfg mounts = (case mounts of None \<Rightarrow> False | Some text \<Rightarrow> strings_Contains text (nc_MountPoint cfg))"

definition nfsMount :: "NASConfig \<Rightarrow> string list" where
  "nfsMount cfg =
     [''mount'', ''-t'', ''nfs'', ''-o'', ''noatime,soft,timeo=100,retrans=3'', nc_Host cfg @ '':'' @ nc_Share cfg, nc_MountPoint cfg]"

definition smbMount :: "NASConfig \<Rightarrow> string list" where
  "smbMount cfg =
     [''mount'', ''-t'', ''cifs'', ''-o'',
      ''username='' @ nc_Username cfg @ '',password='' @ nc_Password cfg @ '',iocharset=utf8,vers=3.0'',
      ''//'' @ nc_Host cfg @ ''/'' @ nc_Share cfg, nc_MountPoint cfg]"

definition nas_Mount :: "NASConfig \<Rightarrow> nas_env \<Rightarrow> nas_error option \<times> nas_effect list" where
  "nas_Mount cfg env =
     (if \<not> ne_mkdir env then (Some NasMkdir, [])
      else if IsMounted cfg (ne_mounts env) then (None, [])
      else
        (let ty = strings_ToLower (nc_Type cfg);
             run = (\<lambda>cmd. (if ne_command env then None else Some MountFailed, [Command cmd]))
         in if ty = ''nfs'' then run (nfsMount cfg)
            else if ty = ''smb'' \<or> ty = ''cifs'' then run (smbMount cfg)
            else (Some UnsupportedType, [])))"

definition nas_Unmount :: "NASConfig \<Rightarrow> nas_env \<Rightarrow> nas_error option \<times> nas_effect list" where
  "nas_Unmount cfg env =
     (if \<not> IsMounted cfg (ne_mounts env) then (None, [])
      else (if ne_command env then None else Some MountFailed, [Command [''umount'', nc_MountPoint cfg]]))"

text \<open>
  The loop makes \<open>n\<close> further attempts; an attempt comes with its environment and with whether the context is
  cancelled while it waits for the next one. \<open>last\<close> is the last error.
\<close>

fun mount_loop ::
  "NASConfig \<Rightarrow> nat \<Rightarrow> (nat \<Rightarrow> nas_env \<times> bool) \<Rightarrow> nat \<Rightarrow> nas_error option \<Rightarrow> nas_error option \<times> nas_effect list" where
  "mount_loop cfg 0 world i lst = (lst, [])"
| "mount_loop cfg (Suc n) world i lst =
     (case nas_Mount cfg (fst (world i)) of
        (None, eff) \<Rightarrow> (None, eff)
      | (Some e, eff) \<Rightarrow>
          if snd (world i) then (Some NasCancelled, eff)
          else (case mount_loop cfg n world (Suc i) (Some e) of (res, eff') \<Rightarrow> (res, eff @ eff')))"

definition mountWithRetry :: "NASConfig \<Rightarrow> (nat \<Rightarrow> nas_env \<times> bool) \<Rightarrow> nas_error option \<times> nas_effect list" where
  "mountWithRetry cfg world =
     (let retries = (if nc_RetryAttempts cfg = 0 then 3 else nc_RetryAttempts cfg) in mount_loop cfg (nat retries) world 0 None)"

section \<open>The health loop\<close>

text \<open>One tick: the text of the mounts at the check and the environment of a remount.\<close>

definition health_tick :: "NASConfig \<Rightarrow> bool \<Rightarrow> string option \<times> nas_env \<Rightarrow> bool \<times> nas_effect list" where
  "health_tick cfg wasHealthy tick =
     (case tick of (mounts, env) \<Rightarrow>
        (let mounted = IsMounted cfg mounts
         in if mounted \<and> \<not> wasHealthy then (True, [Health ''recovered'' ''info''])
            else if \<not> mounted \<and> wasHealthy then
              (case nas_Mount cfg env of
                 (Some e, eff) \<Rightarrow> (False, Health ''mount_lost'' ''high'' # eff)
               | (None, eff) \<Rightarrow> (True, Health ''mount_lost'' ''high'' # eff @ [Health ''remounted'' ''info'']))
            else (wasHealthy, [])))"

fun healthLoop :: "NASConfig \<Rightarrow> bool \<Rightarrow> (string option \<times> nas_env) list \<Rightarrow> bool \<times> nas_effect list" where
  "healthLoop cfg wasHealthy [] = (wasHealthy, [])"
| "healthLoop cfg wasHealthy (tick # ticks) =
     (case health_tick cfg wasHealthy tick of
        (h, eff) \<Rightarrow> (case healthLoop cfg h ticks of (h', eff') \<Rightarrow> (h', eff @ eff')))"

definition nas_Start :: "NASConfig \<Rightarrow> (nat \<Rightarrow> nas_env \<times> bool) \<Rightarrow> (string option \<times> nas_env) list \<Rightarrow> nas_effect list" where
  "nas_Start cfg world ticks =
     (if \<not> nc_Enabled cfg then []
      else
        (case mountWithRetry cfg world of
           (Some e, eff) \<Rightarrow> eff @ [Health ''mount_failed'' ''high'']
         | (None, eff) \<Rightarrow> eff @ [Health ''mounted'' ''info''] @ snd (healthLoop cfg True ticks)))"

definition nas_Stop :: "NASConfig \<Rightarrow> nas_env \<Rightarrow> nas_effect list" where
  "nas_Stop cfg env = snd (nas_Unmount cfg env)"

text \<open>What a report pushes into the event pipeline, if the service was given one.\<close>

definition emitHealthEvent :: "NASConfig \<Rightarrow> bool \<Rightarrow> gotime \<Rightarrow> string \<Rightarrow> string \<Rightarrow> NetworkEvent list" where
  "emitHealthEvent cfg pipeline now status severity =
     (if \<not> pipeline then []
      else
        [\<lparr>ev_ID = [], ev_Type = EventAlert, ev_Source = ''nas-connector'', ev_Destination = nc_Host cfg,
          ev_Metadata = Some [''nas_type'' \<mapsto> AString (nc_Type cfg), ''mount_point'' \<mapsto> AString (nc_MountPoint cfg),
            ''status'' \<mapsto> AString status, ''severity'' \<mapsto> AString severity],
          ev_Timestamp = now, ev_Signature = [], ev_SignerKeyID = []\<rparr>])"

section \<open>Mounting with retries\<close>

lemma mount_loop_result:
  "mount_loop cfg n world i lst = (res, eff) \<Longrightarrow> 0 < n \<Longrightarrow>
   (res = None \<longleftrightarrow> (\<exists>j < n. fst (nas_Mount cfg (fst (world (i + j)))) = None \<and> (\<forall>k < j. \<not> snd (world (i + k)))))"
proof (induction n arbitrary: i lst res eff)
  case (Suc n)
  obtain r e where m: "nas_Mount cfg (fst (world i)) = (r, e)" by fastforce
  show ?case
  proof (cases r)
    case None
    then have "fst (nas_Mount cfg (fst (world (i + 0)))) = None" using m by simp
    moreover have "res = None" using Suc.prems(1) m None by simp
    ultimately show ?thesis by (metis not_less_zero zero_less_Suc)
  next
    case (Some err)
    show ?thesis
    proof (cases "snd (world i) \<or> n = 0")
      case True
      have "\<not> (\<exists>j < Suc n. fst (nas_Mount cfg (fst (world (i + j)))) = None \<and> (\<forall>k < j. \<not> snd (world (i + k))))"
      proof
        assume "\<exists>j < Suc n. fst (nas_Mount cfg (fst (world (i + j)))) = None \<and> (\<forall>k < j. \<not> snd (world (i + k)))"
        then obtain j where j: "j < Suc n" "fst (nas_Mount cfg (fst (world (i + j)))) = None" "\<forall>k < j. \<not> snd (world (i + k))" by blast
        from j(2) m Some have "j \<noteq> 0" by (metis add_0_right fst_conv option.distinct(1))
        with j(1,3) True show False by force
      qed
      moreover have "res \<noteq> None" using Suc.prems(1) m Some True by (auto split: if_splits)
      ultimately show ?thesis by blast
    next
      case False
      then obtain eff' where rest: "mount_loop cfg n world (Suc i) (Some err) = (res, eff')" using Suc.prems(1) m Some
        by (auto split: prod.splits)
      have "(\<exists>j < Suc n. P j) \<longleftrightarrow> P 0 \<or> (\<exists>j < n. P (Suc j))" for P :: "nat \<Rightarrow> bool" by (metis Suc_less_eq less_Suc_eq_0_disj)
      moreover have "(\<forall>k < Suc j. P k) \<longleftrightarrow> P 0 \<and> (\<forall>k < j. P (Suc k))" for j and P :: "nat \<Rightarrow> bool" by (metis Suc_less_eq less_Suc_eq_0_disj)
      ultimately show ?thesis using Suc.IH [OF rest] False m Some by simp
    qed
  qed
qed simp

definition commands :: "nas_effect list \<Rightarrow> nat" where
  "commands eff = length (filter (\<lambda>e. case e of Command c \<Rightarrow> True | _ \<Rightarrow> False) eff)"

lemma mount_commands: "nas_Mount cfg env = (r, eff) \<Longrightarrow> commands eff \<le> 1"
  by (auto simp: nas_Mount_def Let_def commands_def split: if_splits)

lemma retry_commands: "mount_loop cfg n world i lst = (res, eff) \<Longrightarrow> commands eff \<le> n"
proof (induction n arbitrary: i lst res eff)
  case (Suc n)
  obtain r e where m: "nas_Mount cfg (fst (world i)) = (r, e)" by fastforce
  obtain res' eff' where rest: "mount_loop cfg n world (Suc i) r = (res', eff')" by fastforce
  have "commands (e @ eff') \<le> Suc n" using mount_commands [OF m] Suc.IH [OF rest] by (simp add: commands_def)
  moreover have "commands e \<le> Suc n" using mount_commands [OF m] by simp
  moreover have "eff = e \<or> eff = e @ eff'" using Suc.prems m rest by (cases r) (auto split: if_splits)
  ultimately show ?case by blast
qed (simp add: commands_def)

text \<open>With a positive budget mounting succeeds exactly if an attempt within it does before a cancellation; it runs at most that many commands.\<close>

theorem mount_with_retry:
  assumes "0 \<le> nc_RetryAttempts cfg" "mountWithRetry cfg world = (res, eff)"
  shows "let n = (if nc_RetryAttempts cfg = 0 then 3 else nat (nc_RetryAttempts cfg))
    in (res = None \<longleftrightarrow> (\<exists>j < n. fst (nas_Mount cfg (fst (world j))) = None \<and> (\<forall>k < j. \<not> snd (world k)))) \<and> commands eff \<le> n"
proof -
  let ?n = "if nc_RetryAttempts cfg = 0 then 3 else nat (nc_RetryAttempts cfg)"
  have run: "mount_loop cfg ?n world 0 None = (res, eff)" using assms by (simp add: mountWithRetry_def Let_def split: if_splits)
  have "0 < ?n" using assms(1) by simp
  from mount_loop_result [OF run this] retry_commands [OF run] show ?thesis unfolding Let_def by simp
qed

text \<open>A negative budget is reported as a mounted share without an attempt.\<close>

lemma negative_budget_mounts: "nc_RetryAttempts cfg < 0 \<Longrightarrow> mountWithRetry cfg world = (None, [])"
  by (simp add: mountWithRetry_def Let_def)

section \<open>Watching\<close>

text \<open>
  After a remount failed, the loop only waits: as long as the share stays away it neither tries again nor reports
  anything, whatever the number of ticks.
\<close>

theorem no_second_remount:
  assumes "\<forall>tick \<in> set ticks. \<not> IsMounted cfg (fst tick)"
  shows "healthLoop cfg False ticks = (False, [])"
  using assms by (induction ticks) (auto simp: health_tick_def Let_def split: prod.splits)

text \<open>The reports of a run: a loss is followed by a recovery of one of the two kinds before the next loss.\<close>

definition reports :: "nas_effect list \<Rightarrow> string list" where
  "reports eff = List.map_filter (\<lambda>e. case e of Health s _ \<Rightarrow> Some s | _ \<Rightarrow> None) eff"

fun alternating :: "bool \<Rightarrow> string list \<Rightarrow> bool" where
  "alternating up [] = True"
| "alternating up (s # ss) =
     (if up then s = ''mount_lost'' \<and> alternating False ss
      else s \<in> {''recovered'', ''remounted''} \<and> alternating True ss)"

fun up_after :: "bool \<Rightarrow> string list \<Rightarrow> bool" where
  "up_after up [] = up"
| "up_after up (s # ss) = up_after (s \<noteq> ''mount_lost'') ss"

lemma reports_append: "reports (a @ b) = reports a @ reports b"
  by (simp add: reports_def List.map_filter_def)

lemma alternating_append: "alternating up (a @ b) \<longleftrightarrow> alternating up a \<and> alternating (up_after up a) b"
proof (induction a arbitrary: up)
  case (Cons s a)
  show ?case by (cases up; cases "s = ''mount_lost''") (simp_all add: Cons.IH)
qed simp

lemma up_after_append: "up_after up (a @ b) = up_after (up_after up a) b"
  by (induction a arbitrary: up) simp_all

lemma mount_silent: "nas_Mount cfg env = (r, eff) \<Longrightarrow> reports eff = []"
  by (auto simp: nas_Mount_def Let_def reports_def List.map_filter_simps split: if_splits)

lemma tick_reports:
  assumes "health_tick cfg up tick = (up', eff)"
  shows "alternating up (reports eff) \<and> up_after up (reports eff) = up'"
proof -
  obtain mounts env where t: "tick = (mounts, env)" by fastforce
  obtain r e where m: "nas_Mount cfg env = (r, e)" by fastforce
  have r: "reports (Health s sv # xs) = s # reports xs" "reports [] = []" for s sv xs
    by (simp_all add: reports_def List.map_filter_simps)
  show ?thesis
    using assms mount_silent [OF m] m t
    by (cases r) (auto simp: health_tick_def Let_def r reports_append split: if_splits)
qed

theorem nas_reports_alternate:
  "healthLoop cfg up ticks = (up', eff) \<Longrightarrow> alternating up (reports eff) \<and> up_after up (reports eff) = up'"
proof (induction ticks arbitrary: up up' eff)
  case Nil
  then show ?case by (simp add: reports_def List.map_filter_simps)
next
  case (Cons tick ticks)
  obtain h e where t: "health_tick cfg up tick = (h, e)" by fastforce
  obtain h' e' where l: "healthLoop cfg h ticks = (h', e')" by fastforce
  from tick_reports [OF t] Cons.IH [OF l] Cons.prems t l show ?case by (auto simp: reports_append alternating_append up_after_append)
qed

text \<open>The check looks for the mount point anywhere in the text: a longer path that contains it counts.\<close>

lemma other_mount_counts:
  "IsMounted \<lparr>nc_Enabled = True, nc_Type = ''nfs'', nc_Host = [], nc_Share = [], nc_MountPoint = ''/mnt/nas'', nc_Username = [], nc_Password = [], nc_RetryAttempts = 0\<rparr>
     (Some ''h:/x /mnt/nas2 nfs rw 0 0'')"
  by code_simp

end
