(* ===== verification/Forest.thy ===== *)
theory Forest
  imports Complex_Main GoLib Files "HOL-Library.Multiset"
begin

text \<open>
  The isolation forest (\<^verbatim>\<open>internal/analytics/ml/iforest.go\<close>). Floating point numbers are real numbers. The random
  source is a parameter with a state of its own that every draw advances; it holds what \<^verbatim>\<open>math/rand\<close> documents. A
  result of \<open>None\<close> is a panic: an index out of range or a nil tree. The encoding of the trees on disk (\<^verbatim>\<open>encoding/gob\<close>)
  is a parameter.
\<close>

section \<open>Trees\<close>

record 'g randsrc =
  rnd_Intn :: "nat \<Rightarrow> 'g \<Rightarrow> nat \<times> 'g"
  rnd_Float64 :: "'g \<Rightarrow> real \<times> 'g"
  rnd_Perm :: "nat \<Rightarrow> 'g \<Rightarrow> nat list \<times> 'g"

definition random_ok :: "'g randsrc \<Rightarrow> bool" where
  "random_ok R \<longleftrightarrow>
     (\<forall>n g. 0 < n \<longrightarrow> fst (rnd_Intn R n g) < n) \<and>
     (\<forall>g. 0 \<le> fst (rnd_Float64 R g) \<and> fst (rnd_Float64 R g) < 1) \<and>
     (\<forall>n g. mset (fst (rnd_Perm R n g)) = mset [0..<n])"

datatype ITree =
  ITree (it_Left: "ITree option") (it_Right: "ITree option") (it_SplitAttr: int) (it_SplitVal: real) (it_Size: int) (it_IsLeaf: bool)

type_synonym point = "real list"

definition index :: "point \<Rightarrow> int \<Rightarrow> real option" where
  "index p i = (if 0 \<le> i \<and> i < int (length p) then Some (p ! nat i) else None)"

definition averagePathLength :: "real \<Rightarrow> real" where
  "averagePathLength n = (if n \<le> 1 then 0 else 2 * (ln (n - 1) + 5772156649 / 10000000000) - 2 * (n - 1) / n)"

text \<open>The conversion of a float to an integer drops the fraction.\<close>

definition go_trunc :: "real \<Rightarrow> int" where
  "go_trunc x = (if x < 0 then \<lceil>x\<rceil> else \<lfloor>x\<rfloor>)"

function pathLength :: "point \<Rightarrow> ITree option \<Rightarrow> int \<Rightarrow> int option" where
  "pathLength p None depth = None"
| "pathLength p (Some (ITree l r a v sz leaf)) depth =
     (if leaf then Some (depth + go_trunc (averagePathLength (real_of_int sz)))
      else (case index p a of
              None \<Rightarrow> None
            | Some x \<Rightarrow> if x < v then pathLength p l (depth + 1) else pathLength p r (depth + 1)))"
  by pat_completeness auto

termination by (relation "measure (\<lambda>(_, t, _). size_option size t)") auto

definition minMax :: "point list \<Rightarrow> nat \<Rightarrow> (real \<times> real) option" where
  "minMax data attr =
     (if \<exists>row \<in> set data. length row \<le> attr then None
      else Some (fold (\<lambda>row m. if row ! attr < m then row ! attr else m) (tl data) (hd data ! attr),
                 fold (\<lambda>row m. if row ! attr > m then row ! attr else m) (tl data) (hd data ! attr)))"

definition leaf_for :: "point list \<Rightarrow> ITree" where
  "leaf_for data = ITree None None 0 0 (int (length data)) True"

function buildITree :: "'g randsrc \<Rightarrow> point list \<Rightarrow> int \<Rightarrow> int \<Rightarrow> 'g \<Rightarrow> (ITree \<times> 'g) option" where
  "buildITree R data depth maxDepth g =
     (if length data \<le> 1 \<or> maxDepth \<le> depth then Some (leaf_for data, g)
      else
        (let dims = length (hd data)
         in if dims = 0 then Some (leaf_for data, g)
            else
              (case rnd_Intn R dims g of (attr, g1) \<Rightarrow>
                 (case minMax data attr of
                    None \<Rightarrow> None
                  | Some (minVal, maxVal) \<Rightarrow>
                      if minVal = maxVal then Some (leaf_for data, g1)
                      else
                        (case rnd_Float64 R g1 of (u, g2) \<Rightarrow>
                           (let splitVal = minVal + u * (maxVal - minVal)
                            in (case buildITree R (filter (\<lambda>row. row ! attr < splitVal) data) (depth + 1) maxDepth g2 of
                                  None \<Rightarrow> None
                                | Some (l, g3) \<Rightarrow>
                                    (case buildITree R (filter (\<lambda>row. \<not> row ! attr < splitVal) data) (depth + 1) maxDepth g3 of
                                       None \<Rightarrow> None
                                     | Some (r, g4) \<Rightarrow> Some (ITree (Some l) (Some r) (int attr) splitVal 0 False, g4)))))))))"
  by pat_completeness auto

termination by (relation "measure (\<lambda>(_, _, depth, maxDepth, _). nat (maxDepth - depth))") auto

declare buildITree.simps [simp del]

text \<open>A sample of \<open>size\<close> rows; the first ones of a random permutation if there are more.\<close>

definition subsample :: "'g randsrc \<Rightarrow> point list \<Rightarrow> nat \<Rightarrow> 'g \<Rightarrow> point list \<times> 'g" where
  "subsample R data sz g =
     (if length data \<le> sz then (data, g)
      else (case rnd_Perm R (length data) g of (perm, g') \<Rightarrow> (map (\<lambda>i. data ! (perm ! i)) [0..<sz], g')))"

section \<open>Forests\<close>

record IsolationForest =
  fo_trees :: "ITree option list"
  fo_numTrees :: int
  fo_maxDepth :: int
  fo_threshold :: real

definition NewIsolationForest :: "int \<Rightarrow> int \<Rightarrow> real \<Rightarrow> IsolationForest" where
  "NewIsolationForest numTrees maxDepth threshold =
     \<lparr>fo_trees = [], fo_numTrees = (if numTrees = 0 then 100 else numTrees), fo_maxDepth = (if maxDepth = 0 then 10 else maxDepth),
      fo_threshold = (if threshold = 0 then 6 / 10 else threshold)\<rparr>"

text \<open>
  Training writes into the forest while it runs: first a slice of nil trees, then one tree after the other.
  \<open>train_steps k\<close> is the forest after \<open>k\<close> trees, as a concurrent reader finds it.
\<close>

fun train_steps :: "'g randsrc \<Rightarrow> point list \<Rightarrow> nat \<Rightarrow> IsolationForest \<Rightarrow> 'g \<Rightarrow> (IsolationForest \<times> 'g) option" where
  "train_steps R data 0 f g =
     (if fo_numTrees f < 0 then None else Some (f\<lparr>fo_trees := replicate (nat (fo_numTrees f)) None\<rparr>, g))"
| "train_steps R data (Suc k) f g =
     (case train_steps R data k f g of
        None \<Rightarrow> None
      | Some (f', g1) \<Rightarrow>
          (case subsample R data (min 256 (length data)) g1 of (sample, g2) \<Rightarrow>
             (case buildITree R sample 0 (fo_maxDepth f') g2 of
                None \<Rightarrow> None
              | Some (t, g3) \<Rightarrow> Some (f'\<lparr>fo_trees := (fo_trees f')[k := Some t]\<rparr>, g3))))"

definition Train :: "'g randsrc \<Rightarrow> point list \<Rightarrow> IsolationForest \<Rightarrow> 'g \<Rightarrow> (IsolationForest \<times> 'g) option" where
  "Train R data f g = train_steps R data (nat (fo_numTrees f)) f g"

definition Score :: "IsolationForest \<Rightarrow> point \<Rightarrow> real option" where
  "Score f p =
     (if fo_trees f = [] then Some 0
      else (case those (map (\<lambda>t. pathLength p t 0) (fo_trees f)) of
              None \<Rightarrow> None
            | Some paths \<Rightarrow>
                (let avgPath = sum_list (map real_of_int paths) / real (length (fo_trees f)); c = averagePathLength 256
                 in Some (2 powr (- avgPath / c)))))"

definition IsAnomaly :: "IsolationForest \<Rightarrow> point \<Rightarrow> bool option" where
  "IsAnomaly f p = map_option (\<lambda>s. s > fo_threshold f) (Score f p)"

definition Trained :: "IsolationForest \<Rightarrow> bool" where
  "Trained f \<longleftrightarrow> length (fo_trees f) > 0"

datatype forest_error = ForestFile | ForestEncode | ForestDecode

text \<open>\<^verbatim>\<open>os.Create\<close> empties the file before anything is encoded.\<close>

definition forest_Save :: "ITree option list jcodec \<Rightarrow> string \<Rightarrow> IsolationForest \<Rightarrow> disk \<Rightarrow> forest_error option \<times> disk" where
  "forest_Save C path f d =
     (case os_WriteFile path [] d of
        (Some _, d1) \<Rightarrow> (Some ForestFile, d)
      | (None, d1) \<Rightarrow>
          (case jc_Marshal C (fo_trees f) of
             None \<Rightarrow> (Some ForestEncode, d1)
           | Some data \<Rightarrow> (case os_WriteFile path data d1 of (Some _, d2) \<Rightarrow> (Some ForestFile, d2) | (None, d2) \<Rightarrow> (None, d2))))"

definition forest_Load :: "ITree option list jcodec \<Rightarrow> string \<Rightarrow> disk \<Rightarrow> IsolationForest \<Rightarrow> forest_error option \<times> IsolationForest" where
  "forest_Load C path d f =
     (case os_ReadFile path d of
        Inl _ \<Rightarrow> (Some ForestFile, f)
      | Inr data \<Rightarrow>
          (case jc_Unmarshal C data of
             None \<Rightarrow> (Some ForestDecode, f)
           | Some ts \<Rightarrow> (None, f\<lparr>fo_trees := ts\<rparr>)))"

section \<open>Trees of a sample\<close>

text \<open>
  What a tree over points of \<open>d\<close> coordinates must look like: no nil children below a split, and splits on existing
  coordinates.
\<close>

fun tree_ok :: "nat \<Rightarrow> ITree \<Rightarrow> bool" where
  "tree_ok d (ITree l r a v sz leaf) =
     (if leaf then 0 \<le> sz
      else 0 \<le> a \<and> a < int d \<and> (case l of None \<Rightarrow> False | Some t \<Rightarrow> tree_ok d t) \<and> (case r of None \<Rightarrow> False | Some t \<Rightarrow> tree_ok d t))"

fun it_height :: "ITree \<Rightarrow> nat" where
  "it_height (ITree l r a v sz leaf) =
     (if leaf then 0
      else Suc (max (case l of None \<Rightarrow> 0 | Some t \<Rightarrow> it_height t) (case r of None \<Rightarrow> 0 | Some t \<Rightarrow> it_height t)))"

text \<open>The turns a point takes, and the size recorded where it ends.\<close>

fun turns :: "point \<Rightarrow> ITree \<Rightarrow> bool list" where
  "turns p (ITree l r a v sz leaf) =
     (if leaf then []
      else if p ! nat a < v then True # (case l of None \<Rightarrow> [] | Some t \<Rightarrow> turns p t)
      else False # (case r of None \<Rightarrow> [] | Some t \<Rightarrow> turns p t))"

fun leaf_size :: "point \<Rightarrow> ITree \<Rightarrow> int" where
  "leaf_size p (ITree l r a v sz leaf) =
     (if leaf then sz
      else if p ! nat a < v then (case l of None \<Rightarrow> 0 | Some t \<Rightarrow> leaf_size p t)
      else (case r of None \<Rightarrow> 0 | Some t \<Rightarrow> leaf_size p t))"

definition built :: "nat \<Rightarrow> int \<Rightarrow> point list \<Rightarrow> ITree \<Rightarrow> bool" where
  "built d rest data t \<longleftrightarrow>
     tree_ok d t \<and> int (it_height t) \<le> max 0 rest \<and>
     (\<forall>p. leaf_size p t = int (length (filter (\<lambda>row. turns row t = turns p t) data)))"

lemma built_leaf: "built d rest data (leaf_for data)"
  by (simp add: built_def leaf_for_def)

lemma built_node:
  assumes "built d (rest - 1) (filter (\<lambda>row. row ! attr < v) data) l" "built d (rest - 1) (filter (\<lambda>row. \<not> row ! attr < v) data) r"
    and "attr < d" "0 < rest"
  shows "built d rest data (ITree (Some l) (Some r) (int attr) v 0 False)" (is "built d rest data ?t")
proof -
  have side: "filter (\<lambda>row. turns row ?t = turns p ?t) data =
      (if p ! attr < v then filter (\<lambda>row. turns row l = turns p l) (filter (\<lambda>row. row ! attr < v) data)
       else filter (\<lambda>row. turns row r = turns p r) (filter (\<lambda>row. \<not> row ! attr < v) data))" for p
    by (auto intro: filter_cong)
  have "leaf_size p ?t = int (length (filter (\<lambda>row. turns row ?t = turns p ?t) data))" for p
    unfolding side using assms(1,2) by (auto simp: built_def)
  moreover have "int (it_height ?t) \<le> max 0 rest" using assms(1,2,4) by (auto simp: built_def)
  moreover have "tree_ok d ?t" using assms by (simp add: built_def)
  ultimately show ?thesis unfolding built_def by blast
qed

lemma minMax_defined: "\<forall>row \<in> set data. length row = d \<Longrightarrow> attr < d \<Longrightarrow> \<exists>mn mx. minMax data attr = Some (mn, mx)"
  by (auto simp: minMax_def)

text \<open>
  On rows of equal length the construction never panics, whatever is drawn: the tree splits on existing coordinates,
  is no deeper than allowed, and the size at the leaf a point reaches is the number of rows of the sample that
  take the same turns.
\<close>

lemma build_tree:
  assumes "random_ok R" "\<forall>row \<in> set data. length row = d"
  shows "\<exists>t g'. buildITree R data depth maxDepth g = Some (t, g') \<and> built d (maxDepth - depth) data t"
  using assms(2)
proof (induction "nat (maxDepth - depth)" arbitrary: data depth g rule: less_induct)
  case less
  show ?case
  proof (cases "length data \<le> 1 \<or> maxDepth \<le> depth \<or> d = 0")
    case True
    with less.prems show ?thesis by (subst buildITree.simps, cases data) (auto simp: built_leaf Let_def)
  next
    case False
    then have hd: "length (hd data) = d" using less.prems by (cases data) auto
    obtain attr g1 where draw: "rnd_Intn R d g = (attr, g1)" by fastforce
    have attr: "attr < d" using assms(1) draw False unfolding random_ok_def by (metis fst_conv gr0I)
    then obtain mn mx where mm: "minMax data attr = Some (mn, mx)" using minMax_defined [OF less.prems] by blast
    obtain u g2 where u: "rnd_Float64 R g1 = (u, g2)" by fastforce
    let ?v = "mn + u * (mx - mn)"
    have smaller: "nat (maxDepth - (depth + 1)) < nat (maxDepth - depth)" using False by simp
    obtain l g3 where l: "buildITree R (filter (\<lambda>row. row ! attr < ?v) data) (depth + 1) maxDepth g2 = Some (l, g3)"
      "built d (maxDepth - depth - 1) (filter (\<lambda>row. row ! attr < ?v) data) l"
      using less.hyps [OF smaller, of "filter (\<lambda>row. row ! attr < ?v) data" g2] less.prems by (auto simp: algebra_simps)
    obtain r g4 where r: "buildITree R (filter (\<lambda>row. \<not> row ! attr < ?v) data) (depth + 1) maxDepth g3 = Some (r, g4)"
      "built d (maxDepth - depth - 1) (filter (\<lambda>row. \<not> row ! attr < ?v) data) r"
      using less.hyps [OF smaller, of "filter (\<lambda>row. \<not> row ! attr < ?v) data" g3] less.prems by (auto simp: algebra_simps)
    have "built d (maxDepth - depth) data (ITree (Some l) (Some r) (int attr) ?v 0 False)"
      using built_node [OF l(2) r(2) attr] False by simp
    with False hd draw mm u l(1) r(1) show ?thesis by (subst buildITree.simps) (simp add: built_leaf Let_def)
  qed
qed

section \<open>Path lengths and scores\<close>

definition path_of :: "point \<Rightarrow> ITree \<Rightarrow> int" where
  "path_of p t = int (length (turns p t)) + go_trunc (averagePathLength (real_of_int (leaf_size p t)))"

lemma pathLength_ok: "tree_ok d t \<Longrightarrow> length p = d \<Longrightarrow> pathLength p (Some t) depth = Some (depth + path_of p t)"
proof (induction p t arbitrary: depth rule: turns.induct)
  case (1 p l r a v sz leaf)
  show ?case
  proof (cases leaf)
    case False
    with 1 show ?thesis by (auto simp: index_def path_of_def split: option.splits)
  qed (simp add: path_of_def)
qed

lemma averagePathLength_nonneg: "0 \<le> averagePathLength (real_of_int n)"
proof (cases "n \<le> 1")
  case False
  define x a b where "x = real_of_int n" and "a = 1 / (x - 1)" and "b = 1 / x"
  have x: "2 \<le> x" using False by (simp add: x_def)
  then have "ln (1 / (x - 1)) \<le> 1 / (x - 1) - 1" by (intro ln_le_minus_one) simp
  then have ln: "1 - a \<le> ln (x - 1)" using x by (simp add: ln_div a_def)
  have "1 * 2 \<le> (x - 1) * x" using x by (intro mult_mono) auto
  then have "1 / ((x - 1) * x) \<le> 1 / 2" by (intro divide_left_mono) auto
  moreover have "a - b = 1 / ((x - 1) * x)" using x by (simp add: a_def b_def field_simps)
  ultimately have "a - b \<le> 1 / 2" by metis
  moreover have "averagePathLength x = 2 * (ln (x - 1) + 5772156649 / 10000000000) - (2 - 2 * b)"
    using x by (simp add: averagePathLength_def b_def field_simps)
  ultimately have "0 \<le> averagePathLength x" using ln by argo
  then show ?thesis by (simp add: x_def)
qed (simp add: averagePathLength_def)

lemma path_nonneg: "0 \<le> path_of p t"
  using averagePathLength_nonneg [of "leaf_size p t"] by (simp add: path_of_def go_trunc_def)

text \<open>Bounds of the logarithm of 2, and of the normalising constant, the mean path of 256 points.\<close>

lemma ln2_lower: "2 / 3 \<le> ln (2 :: real)"
proof -
  have "exp (1 / 12) \<le> 157 / (144 :: real)" using exp_bound [of "1 / 12 :: real"] by (simp add: power2_eq_square)
  then have "exp (1 / 12) ^ 8 \<le> (157 / (144 :: real)) ^ 8" by (intro power_mono) simp_all
  also have "\<dots> \<le> 2" by (simp add: power_divide)
  finally have "exp (2 / 3 :: real) \<le> 2" by (simp flip: exp_of_nat_mult)
  then show ?thesis by (subst ln_ge_iff) simp_all
qed

lemma ln2_upper: "ln (2 :: real) \<le> 3 / 4"
proof -
  have "9 / (8 :: real) \<le> exp (1 / 8)" using exp_ge_add_one_self [of "1 / 8 :: real"] by simp
  then have "(9 / (8 :: real)) ^ 6 \<le> exp (1 / 8) ^ 6" by (intro power_mono) simp_all
  moreover have "(2 :: real) \<le> (9 / 8) ^ 6" by (simp add: power_divide)
  moreover have "exp (1 / 8 :: real) ^ 6 = exp (3 / 4)" by (simp flip: exp_of_nat_mult)
  ultimately have "(2 :: real) \<le> exp (3 / 4)" by linarith
  then show ?thesis by (metis ln_exp ln_le_cancel_iff exp_gt_zero zero_less_numeral)
qed

lemma path_256: "84 / 10 \<le> averagePathLength 256"
proof -
  have "7 * ln (2 :: real) = ln (2 ^ 7)" by (subst ln_realpow) simp_all
  also have "\<dots> \<le> ln 255" by (subst ln_le_cancel_iff) simp_all
  finally have "14 / 3 \<le> ln (255 :: real)" using ln2_lower by simp
  then show ?thesis by (simp add: averagePathLength_def)
qed

definition forest_ok :: "nat \<Rightarrow> IsolationForest \<Rightarrow> bool" where
  "forest_ok d f \<longleftrightarrow> list_all (\<lambda>t. case t of None \<Rightarrow> False | Some t \<Rightarrow> tree_ok d t) (fo_trees f)"

definition mean_path :: "point \<Rightarrow> ITree list \<Rightarrow> real" where
  "mean_path p ts = sum_list (map (\<lambda>t. real_of_int (path_of p t)) ts) / real (length ts)"

lemma forest_ok_iff: "forest_ok d f \<longleftrightarrow> (\<exists>ts. fo_trees f = map Some ts \<and> (\<forall>t \<in> set ts. tree_ok d t))"
proof -
  have "list_all (\<lambda>t. case t of None \<Rightarrow> False | Some t \<Rightarrow> tree_ok d t) xs \<longleftrightarrow> (\<exists>ts. xs = map Some ts \<and> (\<forall>t \<in> set ts. tree_ok d t))" for xs
  proof (induction xs)
    case (Cons x xs)
    then show ?case by (cases x) (auto simp: Cons_eq_map_conv)
  qed simp
  then show ?thesis by (simp add: forest_ok_def)
qed

lemma those_map_Some: "those (map (\<lambda>x. Some (h x)) xs) = Some (map h xs)"
  by (induction xs) simp_all

lemma those_None: "None \<in> set xs \<Longrightarrow> those xs = None"
  by (induction xs) (auto split: option.splits)

lemma Score_eq:
  assumes "fo_trees f = map Some ts" "\<forall>t \<in> set ts. tree_ok (length p) t" "ts \<noteq> []"
  shows "Score f p = Some (2 powr (- mean_path p ts / averagePathLength 256))"
proof -
  have "map (\<lambda>t. pathLength p t 0) (fo_trees f) = map (\<lambda>t. Some (path_of p t)) ts" using assms(1,2) pathLength_ok [OF _ refl, of p] by simp
  then have "those (map (\<lambda>t. pathLength p t 0) (fo_trees f)) = Some (map (path_of p) ts)" by (simp add: those_map_Some)
  then show ?thesis using assms(1,3) by (simp add: Score_def mean_path_def Let_def o_def)
qed

lemma mean_path_nonneg: "0 \<le> mean_path p ts"
  unfolding mean_path_def by (intro divide_nonneg_nonneg sum_list_nonneg) (auto simp: path_nonneg)

text \<open>A well-formed forest scores every point of its dimension, above 0 and at most 1; points with shorter paths score higher.\<close>

lemma Score_range:
  assumes "forest_ok (length p) f" "Trained f"
  shows "\<exists>s. Score f p = Some s \<and> 0 < s \<and> s \<le> 1"
proof -
  from assms(1) obtain ts where ts: "fo_trees f = map Some ts" "\<forall>t \<in> set ts. tree_ok (length p) t" unfolding forest_ok_iff by blast
  then have "ts \<noteq> []" using assms(2) by (auto simp: Trained_def)
  moreover have "- mean_path p ts / averagePathLength 256 \<le> 0" using mean_path_nonneg [of p ts] path_256 by (simp add: divide_nonpos_nonneg)
  then have "2 powr (- mean_path p ts / averagePathLength 256) \<le> 1" by (metis powr_mono one_le_numeral powr_zero_eq_one zero_neq_numeral)
  ultimately show ?thesis using Score_eq [OF ts] by simp
qed

lemma IsAnomaly_iff:
  assumes "fo_trees f = map Some ts" "\<forall>t \<in> set ts. tree_ok (length p) t" "ts \<noteq> []" "0 < fo_threshold f"
  shows "IsAnomaly f p = Some (mean_path p ts < - (log 2 (fo_threshold f) * averagePathLength 256))"
proof -
  let ?c = "averagePathLength 256"
  have c: "0 < ?c" using path_256 by simp
  have "fo_threshold f < 2 powr (- mean_path p ts / ?c) \<longleftrightarrow> log 2 (fo_threshold f) < - mean_path p ts / ?c"
    using assms(4) by (subst less_powr_iff) simp_all
  also have "\<dots> \<longleftrightarrow> log 2 (fo_threshold f) * ?c < - mean_path p ts" by (rule pos_less_divide_eq [OF c])
  also have "\<dots> \<longleftrightarrow> mean_path p ts < - (log 2 (fo_threshold f) * ?c)" by linarith
  finally show ?thesis using Score_eq [OF assms(1-3)] by (simp add: IsAnomaly_def)
qed

section \<open>Training\<close>

lemma subsample_rows:
  assumes "random_ok R" "subsample R data sz g = (sample, g')"
  shows "mset sample \<subseteq># mset data \<and> length sample = min sz (length data)"
proof (cases "length data \<le> sz")
  case False
  obtain perm g1 where p: "rnd_Perm R (length data) g = (perm, g1)" by fastforce
  then have perm: "mset perm = mset [0..<length data]" using assms(1) unfolding random_ok_def by (metis fst_conv)
  then have len: "length perm = length data" using mset_eq_length by fastforce
  have "map (\<lambda>i. data ! (perm ! i)) [0..<sz] = map ((!) data) (take sz perm)"
    using False len by (intro nth_equalityI) simp_all
  moreover have "mset (map ((!) data) (take sz perm)) \<subseteq># mset (map ((!) data) perm)"
    by (metis append_take_drop_id map_append mset_append mset_subset_eq_add_left)
  moreover have "mset (map ((!) data) perm) = mset data" by (metis mset_map perm map_nth)
  moreover have "sample = map (\<lambda>i. data ! (perm ! i)) [0..<sz]" using assms(2) False p by (simp add: subsample_def)
  ultimately have "sample = map ((!) data) (take sz perm)" "mset (map ((!) data) (take sz perm)) \<subseteq># mset data" by simp_all
  then show ?thesis using False len by simp
qed (use assms(2) in \<open>simp add: subsample_def\<close>)

text \<open>The forest after some steps: the finished trees, each of a sample of its own, before the nil ones.\<close>

definition grown :: "'g randsrc \<Rightarrow> int \<Rightarrow> point list \<Rightarrow> ITree \<Rightarrow> bool" where
  "grown R maxDepth data t \<longleftrightarrow>
     (\<exists>sample g g'. mset sample \<subseteq># mset data \<and> length sample = min 256 (length data) \<and> buildITree R sample 0 maxDepth g = Some (t, g'))"

lemma train_progress:
  assumes "random_ok R" "\<forall>row \<in> set data. length row = d" "0 \<le> fo_numTrees f" "int k \<le> fo_numTrees f"
  shows "\<exists>ts g'. train_steps R data k f g = Some (f\<lparr>fo_trees := map Some ts @ replicate (nat (fo_numTrees f) - k) None\<rparr>, g') \<and>
    length ts = k \<and> (\<forall>t \<in> set ts. grown R (fo_maxDepth f) data t)"
  using assms(4)
proof (induction k)
  case 0
  with assms(3) show ?case by simp
next
  case (Suc k)
  then obtain ts g1 where ts: "train_steps R data k f g = Some (f\<lparr>fo_trees := map Some ts @ replicate (nat (fo_numTrees f) - k) None\<rparr>, g1)"
    "length ts = k" "\<forall>t \<in> set ts. grown R (fo_maxDepth f) data t" by auto
  obtain sample g2 where s: "subsample R data (min 256 (length data)) g1 = (sample, g2)" by fastforce
  note rows = subsample_rows [OF assms(1) s]
  then have "\<forall>row \<in> set sample. length row = d" using assms(2) by (metis mset_subset_eqD set_mset_mset)
  then obtain t g3 where t: "buildITree R sample 0 (fo_maxDepth f) g2 = Some (t, g3)"
    using build_tree [OF assms(1), of sample d 0 "fo_maxDepth f" g2] by auto
  then have "grown R (fo_maxDepth f) data t" using rows unfolding grown_def by (metis min.idem min.assoc)
  moreover obtain m where m: "nat (fo_numTrees f) - k = Suc m" "nat (fo_numTrees f) - Suc k = m" using Suc.prems by (metis Suc_diff_Suc Suc_le_lessD nat_le_iff of_nat_le_iff nat_int nat_mono)
  ultimately show ?case using ts s t
    by (intro exI [of _ "ts @ [t]"] exI [of _ g3]) (auto simp: list_update_append)
qed

lemma grown_built:
  assumes "random_ok R" "\<forall>row \<in> set data. length row = d" "grown R maxDepth data t"
  shows "\<exists>sample. mset sample \<subseteq># mset data \<and> length sample = min 256 (length data) \<and> built d maxDepth sample t"
proof -
  from assms(3) obtain sample g g' where s: "mset sample \<subseteq># mset data" "length sample = min 256 (length data)"
    "buildITree R sample 0 maxDepth g = Some (t, g')" unfolding grown_def by blast
  then have "\<forall>row \<in> set sample. length row = d" using assms(2) by (metis mset_subset_eqD set_mset_mset)
  from build_tree [OF assms(1) this, of 0 maxDepth g] s show ?thesis by auto
qed

lemma grown_ok:
  assumes "random_ok R" "\<forall>row \<in> set data. length row = d" "grown R maxDepth data t"
  shows "tree_ok d t"
  using grown_built [OF assms] by (auto simp: built_def)

text \<open>Training always ends with a complete forest.\<close>

lemma Train_complete:
  assumes "random_ok R" "\<forall>row \<in> set data. length row = d" "0 \<le> fo_numTrees f"
  shows "\<exists>ts g'. Train R data f g = Some (f\<lparr>fo_trees := map Some ts\<rparr>, g') \<and> length ts = nat (fo_numTrees f) \<and>
    (\<forall>t \<in> set ts. grown R (fo_maxDepth f) data t)"
  using train_progress [OF assms, of "nat (fo_numTrees f)" g] assms(3) by (simp add: Train_def)

text \<open>A score that is asked for while the forest is being trained meets a nil tree: the process panics.\<close>

lemma score_during_training:
  assumes "random_ok R" "\<forall>row \<in> set data. length row = d" "int k < fo_numTrees f" "train_steps R data k f g = Some (f', g')"
  shows "Trained f' \<and> Score f' p = None"
proof -
  have "0 \<le> fo_numTrees f" using assms(3) by simp
  from train_progress [OF assms(1,2) this, of k g] assms(3,4) obtain ts where
    "f' = f\<lparr>fo_trees := map Some ts @ replicate (nat (fo_numTrees f) - k) None\<rparr>" by auto
  moreover have "nat (fo_numTrees f) - k \<noteq> 0" using assms(3) by simp
  ultimately have nil: "None \<in> set (fo_trees f')" by simp
  then have "None \<in> set (map (\<lambda>t. pathLength p t 0) (fo_trees f'))" by (auto simp: image_iff intro!: bexI [OF _ nil])
  from those_None [OF this] nil show ?thesis by (auto simp: Score_def Trained_def)
qed

section \<open>Few hosts\<close>

text \<open>
  The mean path is divided by that of 256 points whatever the size of the sample. Between 10 and 33 equal rows leave
  trees of one leaf with a mean path below 7, and every point, these rows included, scores above 0.6.
\<close>

lemma minMax_same: "0 < n \<Longrightarrow> attr < length v \<Longrightarrow> minMax (replicate n v) attr = Some (v ! attr, v ! attr)"
proof -
  have "fold (\<lambda>row m. if row ! attr < m then row ! attr else m) (replicate k v) (v ! attr) = v ! attr"
    "fold (\<lambda>row m. if row ! attr > m then row ! attr else m) (replicate k v) (v ! attr) = v ! attr" for k
    by (induction k) simp_all
  then show "0 < n \<Longrightarrow> attr < length v \<Longrightarrow> ?thesis" by (cases n) (auto simp: minMax_def)
qed

lemma build_same:
  assumes "random_ok R" "0 < n" "buildITree R (replicate n v) depth maxDepth g = Some (t, g')"
  shows "t = leaf_for (replicate n v)"
proof -
  have "fst (rnd_Intn R (length v) g) < length v" if "v \<noteq> []" using assms(1) that unfolding random_ok_def by simp
  then show ?thesis using assms(2,3) by (subst (asm) buildITree.simps) (auto simp: minMax_same Let_def split: if_splits prod.splits)
qed

lemma grown_same:
  assumes "random_ok R" "0 < n" "n \<le> 256" "grown R maxDepth (replicate n v) t"
  shows "t = leaf_for (replicate n v)"
proof -
  from assms(3,4) obtain sample g g' where s: "mset sample \<subseteq># mset (replicate n v)" "length sample = n"
    "buildITree R sample 0 maxDepth g = Some (t, g')" unfolding grown_def by auto
  then have "set sample \<subseteq> {v}" by (metis mset_subset_eqD set_mset_mset set_replicate_conv_if subsetI empty_iff)
  then have "sample = replicate n v" using s(2) by (metis replicate_eqI singletonD subsetD)
  then show ?thesis using build_same [OF assms(1,2)] s(3) by blast
qed

lemma few_path: "10 \<le> n \<Longrightarrow> n \<le> 33 \<Longrightarrow> go_trunc (averagePathLength (real n)) \<le> 6"
proof -
  assume n: "10 \<le> n" "n \<le> 33"
  have "ln (real n - 1) \<le> ln (2 ^ 5)" using n by (subst ln_le_cancel_iff) simp_all
  also have "\<dots> = 5 * ln (2 :: real)" by (subst ln_realpow) simp_all
  finally have "ln (real n - 1) \<le> 15 / 4" using ln2_upper by simp
  moreover have "1 / real n \<le> 1 / 10" using n by (intro divide_left_mono) simp_all
  moreover have "averagePathLength (real n) = 2 * (ln (real n - 1) + 5772156649 / 10000000000) - (2 - 2 * (1 / real n))"
    using n by (simp add: averagePathLength_def field_simps)
  ultimately have "averagePathLength (real n) < 7" by argo
  moreover have "0 \<le> averagePathLength (real n)" using averagePathLength_nonneg [of "int n"] by simp
  ultimately show "go_trunc (averagePathLength (real n)) \<le> 6" by (simp add: go_trunc_def)
qed

lemma score_above: "6 / 10 < 2 powr (- 6 / averagePathLength 256)"
proof -
  have "(6 / 10) ^ 7 < (2 :: real) powr (- 5)" by (simp add: powr_minus power_divide)
  also have "\<dots> = (2 powr (- 5 / 7)) ^ 7" by (simp add: powr_powr flip: powr_realpow)
  finally have "6 / 10 < (2 :: real) powr (- 5 / 7)" by (rule power_less_imp_less_base) simp
  also have "\<dots> \<le> 2 powr (- 6 / averagePathLength 256)" using path_256 by (intro powr_mono) (auto simp: field_simps)
  finally show ?thesis .
qed

lemma few_hosts_flagged:
  assumes "random_ok R" "10 \<le> n" "n \<le> 33" "0 < fo_numTrees f" "Train R (replicate n v) f g = Some (f', g')" "length p = length v"
  shows "\<exists>s. Score f' p = Some s \<and> 6 / 10 < s"
proof -
  have rows: "\<forall>row \<in> set (replicate n v). length row = length v" by simp
  from Train_complete [OF assms(1) rows, of f g] assms(4,5) obtain ts where
    ts: "f' = f\<lparr>fo_trees := map Some ts\<rparr>" "length ts = nat (fo_numTrees f)" "\<forall>t \<in> set ts. grown R (fo_maxDepth f) (replicate n v) t"
    by fastforce
  let ?c = "averagePathLength 256"
  have "ts \<noteq> []" using ts(2) assms(4) by auto
  have leaf: "t = leaf_for (replicate n v)" if "t \<in> set ts" for t using grown_same [OF assms(1) _ _ ts(3) [rule_format, OF that]] assms(2,3) by simp
  moreover have "path_of p (leaf_for (replicate n v)) \<le> 6" using few_path [OF assms(2,3)] by (simp add: path_of_def leaf_for_def)
  ultimately have "real_of_int (path_of p t) \<le> 6" if "t \<in> set ts" for t using that by force
  then have "sum_list (map (\<lambda>t. real_of_int (path_of p t)) ts) \<le> sum_list (map (\<lambda>t. 6) ts)" by (intro sum_list_mono) simp
  then have "mean_path p ts \<le> 6" using \<open>ts \<noteq> []\<close> by (simp add: mean_path_def sum_list_triv field_simps)
  then have "2 powr (- 6 / ?c) \<le> 2 powr (- mean_path p ts / ?c)" using path_256 by (intro powr_mono divide_right_mono) simp_all
  moreover have "Score f' p = Some (2 powr (- mean_path p ts / ?c))"
    using ts \<open>ts \<noteq> []\<close> grown_ok [OF assms(1) rows] assms(6) by (intro Score_eq) auto
  ultimately show ?thesis using score_above by (metis order_less_le_trans)
qed

section \<open>The model on disk\<close>

lemma save_load:
  assumes "round_trips C (fo_trees f)" "forest_Save C path f d = (None, d')" "\<not> dk_fails d' FsRead path"
  shows "forest_Load C path d' f' = (None, f'\<lparr>fo_trees := fo_trees f\<rparr>)"
  using assms by (auto simp: round_trips_def forest_Save_def forest_Load_def os_WriteFile_def os_ReadFile_def split: option.splits if_splits prod.splits)

end
