(* ===== verification/Ml.thy ===== *)
theory Ml
  imports Forest Models
begin

text \<open>
  Anomaly detection (\<^verbatim>\<open>internal/analytics/ml\<close>): the baseline of every host and the service around the forest. The
  clock is an argument, as is the offset of the local time zone, with which Go takes the hour of a time. The
  order in which Go walks a map is an argument of training.
\<close>

section \<open>Baselines\<close>

record hostProfile =
  hp_eventCounts :: "(string \<times> nat) list"
  hp_totalEvents :: nat
  hp_uniqueDests :: "string list"
  hp_bytesTotal :: int
  hp_firstSeen :: gotime
  hp_lastSeen :: gotime
  hp_hourHistogram :: "nat list"

record Baseline =
  bl_profiles :: "(string \<times> hostProfile) list"
  bl_window :: duration
  bl_started :: gotime

text \<open>
  A Go time carries a location, which only \<^verbatim>\<open>Hour\<close> looks at; \<open>off\<close> is the offset of that location from UTC. Below,
  \<open>tz (Some e)\<close> is the location of the timestamp of the event \<open>e\<close> and \<open>tz None\<close> that of \<^verbatim>\<open>time.Now\<close>.
\<close>

type_synonym zone = "NetworkEvent option \<Rightarrow> gotime \<Rightarrow> int"

definition go_Hour :: "(gotime \<Rightarrow> int) \<Rightarrow> gotime \<Rightarrow> nat" where
  "go_Hour off t = nat ((t + off t) div time_Hour mod 24)"

text \<open>\<^verbatim>\<open>Time.Sub\<close> saturates.\<close>

definition go_Sub :: "gotime \<Rightarrow> gotime \<Rightarrow> duration" where
  "go_Sub t u = max (- (2 ^ 63)) (min (2 ^ 63 - 1) (t - u))"

definition NewBaseline :: "int \<Rightarrow> gotime \<Rightarrow> Baseline" where
  "NewBaseline learningDays now =
     \<lparr>bl_profiles = [], bl_window = signed_take_bit 63 ((if learningDays = 0 then 7 else learningDays) * 24 * time_Hour), bl_started = now\<rparr>"

definition new_profile :: "NetworkEvent \<Rightarrow> hostProfile" where
  "new_profile e =
     \<lparr>hp_eventCounts = [], hp_totalEvents = 0, hp_uniqueDests = [], hp_bytesTotal = 0,
      hp_firstSeen = ev_Timestamp e, hp_lastSeen = 0, hp_hourHistogram = replicate 24 0\<rparr>"

definition count_up :: "'k \<Rightarrow> ('k \<times> nat) list \<Rightarrow> ('k \<times> nat) list" where
  "count_up k m = AList.update k (case map_of m k of None \<Rightarrow> 1 | Some n \<Rightarrow> n + 1) m"

definition profile_add :: "zone \<Rightarrow> NetworkEvent \<Rightarrow> hostProfile \<Rightarrow> hostProfile" where
  "profile_add tz e p =
     (let hour = go_Hour (tz (Some e)) (ev_Timestamp e)
      in p\<lparr>hp_eventCounts := count_up (ev_Type e) (hp_eventCounts p), hp_totalEvents := hp_totalEvents p + 1,
           hp_lastSeen := ev_Timestamp e,
           hp_uniqueDests := (if ev_Destination e \<noteq> [] then List.insert (ev_Destination e) (hp_uniqueDests p) else hp_uniqueDests p),
           hp_hourHistogram := (hp_hourHistogram p)[hour := hp_hourHistogram p ! hour + 1]\<rparr>)"

definition ml_Record :: "zone \<Rightarrow> NetworkEvent \<Rightarrow> Baseline \<Rightarrow> Baseline" where
  "ml_Record tz e b =
     (if ev_Source e = [] then b
      else (let p = (case map_of (bl_profiles b) (ev_Source e) of None \<Rightarrow> new_profile e | Some p \<Rightarrow> p)
            in b\<lparr>bl_profiles := AList.update (ev_Source e) (profile_add tz e p) (bl_profiles b)\<rparr>))"

definition IsLearning :: "gotime \<Rightarrow> Baseline \<Rightarrow> bool" where
  "IsLearning now b \<longleftrightarrow> go_Sub now (bl_started b) < bl_window b"

text \<open>Hours come from \<open>go_Hour\<close> and are below 24, the length of the histogram.\<close>

definition hourDeviation :: "hostProfile \<Rightarrow> nat \<Rightarrow> real" where
  "hourDeviation p hour =
     (let total = sum_list (hp_hourHistogram p)
      in if total = 0 then 0
         else (let avg = real total / 24 in if avg = 0 then 0 else \<bar>real (hp_hourHistogram p ! hour) - avg\<bar> / avg))"

definition typeEntropy :: "hostProfile \<Rightarrow> real" where
  "typeEntropy p =
     (if hp_totalEvents p = 0 then 0
      else sum_list (map (\<lambda>(_, n). let prob = real n / real (hp_totalEvents p) in if prob > 0 then - (prob * log 2 prob) else 0) (hp_eventCounts p)))"

definition features_of :: "hostProfile \<Rightarrow> nat \<Rightarrow> point" where
  "features_of p hour =
     (let hours = real_of_int (go_Sub (hp_lastSeen p) (hp_firstSeen p)) / real_of_int time_Hour;
          duration = (if hours < 1 then 1 else hours);
          eventRate = real (hp_totalEvents p) / duration;
          destDiversity = real (length (hp_uniqueDests p)) / max 1 (real (hp_totalEvents p))
      in [eventRate, destDiversity, hourDeviation p hour, typeEntropy p])"

definition FeatureVector :: "Baseline \<Rightarrow> string \<Rightarrow> nat \<Rightarrow> point" where
  "FeatureVector b source currentHour =
     (case map_of (bl_profiles b) source of None \<Rightarrow> [0, 0, 0, 0] | Some p \<Rightarrow> features_of p currentHour)"

type_synonym map_order = "(string \<times> hostProfile) list \<Rightarrow> (string \<times> hostProfile) list"

definition TrainingData :: "map_order \<Rightarrow> nat \<Rightarrow> Baseline \<Rightarrow> point list" where
  "TrainingData order hour b = map (\<lambda>(_, p). features_of p hour) (order (bl_profiles b))"

section \<open>The service\<close>

record MLConfig =
  mc_Enabled :: bool
  mc_ModelDir :: string
  mc_TrainingIntervalHours :: int
  mc_AnomalyThreshold :: real
  mc_BaselineLearningDays :: int

record ml_Service =
  ms_cfg :: MLConfig
  ms_pipeline :: bool
  ms_forest :: IsolationForest
  ms_baseline :: Baseline

definition model_path :: "MLConfig \<Rightarrow> string" where
  "model_path cfg = filepath_Join (mc_ModelDir cfg) ''iforest.gob''"

definition ml_NewService :: "ITree option list jcodec \<Rightarrow> MLConfig \<Rightarrow> bool \<Rightarrow> gotime \<Rightarrow> disk \<Rightarrow> ml_Service" where
  "ml_NewService C cfg pipeline now d =
     (let forest = NewIsolationForest 100 10 (mc_AnomalyThreshold cfg)
      in \<lparr>ms_cfg = cfg, ms_pipeline = pipeline,
          ms_forest = (if mc_ModelDir cfg \<noteq> [] then snd (forest_Load C (model_path cfg) d forest) else forest),
          ms_baseline = NewBaseline (mc_BaselineLearningDays cfg) now\<rparr>)"

text \<open>Starting only sets the interval between trainings, if it is enabled.\<close>

definition ml_Start :: "ml_Service \<Rightarrow> duration option" where
  "ml_Start s =
     (if \<not> mc_Enabled (ms_cfg s) then None
      else (let trainingInterval = signed_take_bit 63 (mc_TrainingIntervalHours (ms_cfg s) * time_Hour)
            in Some (if trainingInterval = 0 then 6 * time_Hour else trainingInterval)))"

definition ml_train ::
  "'g randsrc \<Rightarrow> ITree option list jcodec \<Rightarrow> zone \<Rightarrow> map_order \<Rightarrow> gotime \<Rightarrow> ml_Service \<times> 'g \<times> disk \<Rightarrow> (ml_Service \<times> 'g \<times> disk) option" where
  "ml_train R C tz order now sgd =
     (case sgd of (s, g, d) \<Rightarrow>
        (let data = TrainingData order (go_Hour (tz None) now) (ms_baseline s)
         in if length data < 10 then Some (s, g, d)
            else (case Train R data (ms_forest s) g of
                    None \<Rightarrow> None
                  | Some (f, g') \<Rightarrow>
                      Some (s\<lparr>ms_forest := f\<rparr>, g',
                            if mc_ModelDir (ms_cfg s) \<noteq> [] then snd (forest_Save C (model_path (ms_cfg s)) f d) else d))))"

definition severityFromScore :: "real \<Rightarrow> string" where
  "severityFromScore score =
     (if score > 8 / 10 then ''critical'' else if score > 7 / 10 then ''high'' else if score > 6 / 10 then ''medium'' else ''low'')"

text \<open>The alert with the two measurements that the source puts into its metadata as well.\<close>

record ml_alert =
  ma_event :: NetworkEvent
  ma_score :: real
  ma_features :: point

definition ml_emitAlert :: "bool \<Rightarrow> gotime \<Rightarrow> NetworkEvent \<Rightarrow> real \<Rightarrow> point \<Rightarrow> ml_alert option" where
  "ml_emitAlert pipeline now e score features =
     (if \<not> pipeline then None
      else Some
        \<lparr>ma_event =
           \<lparr>ev_ID = [], ev_Type = EventAlert, ev_Source = ''ml-anomaly-detector'', ev_Destination = ev_Source e,
            ev_Metadata = Some [''original_type'' \<mapsto> AString (ev_Type e), ''severity'' \<mapsto> AString (severityFromScore score),
              ''detection_method'' \<mapsto> AString ''isolation_forest''],
            ev_Timestamp = now, ev_Signature = [], ev_SignerKeyID = []\<rparr>,
         ma_score = score, ma_features = features\<rparr>)"

definition ml_Observe :: "zone \<Rightarrow> gotime \<Rightarrow> NetworkEvent \<Rightarrow> ml_Service \<Rightarrow> (ml_Service \<times> ml_alert option) option" where
  "ml_Observe tz now e s =
     (let s' = s\<lparr>ms_baseline := ml_Record tz e (ms_baseline s)\<rparr>
      in if IsLearning now (ms_baseline s') then Some (s', None)
         else if \<not> Trained (ms_forest s') then Some (s', None)
         else if ev_Type e = EventAlert then Some (s', None)
         else
           (let features = FeatureVector (ms_baseline s') (ev_Source e) (go_Hour (tz (Some e)) (ev_Timestamp e))
            in (case IsAnomaly (ms_forest s') features of
                  None \<Rightarrow> None
                | Some False \<Rightarrow> Some (s', None)
                | Some True \<Rightarrow>
                    (case Score (ms_forest s') features of
                       None \<Rightarrow> None
                     | Some score \<Rightarrow> Some (s', ml_emitAlert (ms_pipeline s') now e score features)))))"

section \<open>What a profile holds\<close>

lemma go_Hour_less [simp]: "go_Hour off t < 24"
  by (simp add: go_Hour_def nat_less_iff)

lemma map_of_count_up: "map_of (count_up k m) = (map_of m)(k \<mapsto> (case map_of m k of None \<Rightarrow> 1 | Some n \<Rightarrow> n + 1))"
  by (simp add: count_up_def AList.update_conv')

lemma distinct_count_up: "distinct (map fst m) \<Longrightarrow> distinct (map fst (count_up k m))"
  by (simp add: count_up_def AList.distinct_update)

lemma sum_count_up: "distinct (map fst m) \<Longrightarrow> sum_list (map snd (count_up k m)) = Suc (sum_list (map snd m))"
proof -
  have "distinct (map fst m) \<Longrightarrow>
      sum_list (map snd (AList.update k v m)) + (case map_of m k of None \<Rightarrow> 0 | Some n \<Rightarrow> n) = v + sum_list (map snd m)" for v
    by (induction m) (auto split: option.splits dest: weak_map_of_SomeI map_of_SomeD)
  from this [of "case map_of m k of None \<Rightarrow> 1 | Some n \<Rightarrow> n + 1"]
  show "distinct (map fst m) \<Longrightarrow> ?thesis" by (cases "map_of m k") (simp_all add: count_up_def)
qed

definition occurrences :: "('a \<Rightarrow> bool) \<Rightarrow> 'a list \<Rightarrow> nat" where
  "occurrences P xs = length (filter P xs)"

text \<open>The profile of the events \<open>es\<close> of a host.\<close>

definition profile_ok :: "zone \<Rightarrow> NetworkEvent list \<Rightarrow> hostProfile \<Rightarrow> bool" where
  "profile_ok tz es p \<longleftrightarrow>
     hp_totalEvents p = length es \<and>
     distinct (map fst (hp_eventCounts p)) \<and>
     (\<forall>ty. map_of (hp_eventCounts p) ty = (let n = occurrences (\<lambda>e. ev_Type e = ty) es in if n = 0 then None else Some n)) \<and>
     distinct (hp_uniqueDests p) \<and> set (hp_uniqueDests p) = ev_Destination ` set es - {[]} \<and>
     length (hp_hourHistogram p) = 24 \<and>
     sum_list (map snd (hp_eventCounts p)) = length es \<and> sum_list (hp_hourHistogram p) = length es \<and>
     (\<forall>h < 24. hp_hourHistogram p ! h = occurrences (\<lambda>e. go_Hour (tz (Some e)) (ev_Timestamp e) = h) es) \<and>
     (es \<noteq> [] \<longrightarrow> hp_firstSeen p = ev_Timestamp (hd es) \<and> hp_lastSeen p = ev_Timestamp (last es))"

lemma profile_ok_new: "profile_ok tz [] (new_profile e)"
  by (simp add: profile_ok_def new_profile_def occurrences_def)

lemma profile_ok_add:
  assumes "profile_ok tz es p" "es = [] \<longrightarrow> hp_firstSeen p = ev_Timestamp e"
  shows "profile_ok tz (es @ [e]) (profile_add tz e p)"
proof -
  have counts: "map_of (hp_eventCounts (profile_add tz e p)) ty =
      (let n = occurrences (\<lambda>e. ev_Type e = ty) (es @ [e]) in if n = 0 then None else Some n)" for ty
    using assms(1) by (simp add: profile_ok_def profile_add_def Let_def map_of_count_up occurrences_def)
  have hours: "hp_hourHistogram (profile_add tz e p) ! h = occurrences (\<lambda>e. go_Hour (tz (Some e)) (ev_Timestamp e) = h) (es @ [e])" if "h < 24" for h
    using assms(1) that by (simp add: profile_ok_def profile_add_def Let_def occurrences_def nth_list_update)
  have dests: "set (hp_uniqueDests (profile_add tz e p)) = ev_Destination ` set (es @ [e]) - {[]}" "distinct (hp_uniqueDests (profile_add tz e p))"
    using assms(1) by (auto simp: profile_ok_def profile_add_def Let_def)
  have rest: "hp_totalEvents (profile_add tz e p) = length (es @ [e])" "distinct (map fst (hp_eventCounts (profile_add tz e p)))"
    "length (hp_hourHistogram (profile_add tz e p)) = 24"
    "hp_firstSeen (profile_add tz e p) = ev_Timestamp (hd (es @ [e]))" "hp_lastSeen (profile_add tz e p) = ev_Timestamp (last (es @ [e]))"
    using assms by (auto simp: profile_ok_def profile_add_def Let_def distinct_count_up hd_append)
  have sums: "sum_list (map snd (hp_eventCounts (profile_add tz e p))) = length (es @ [e])"
    "sum_list (hp_hourHistogram (profile_add tz e p)) = length (es @ [e])"
    using assms(1) by (auto simp: profile_ok_def profile_add_def Let_def sum_count_up sum_list_update)
  show ?thesis unfolding profile_ok_def using counts hours dests rest sums by simp
qed

definition of_host :: "string \<Rightarrow> NetworkEvent list \<Rightarrow> NetworkEvent list" where
  "of_host src es = filter (\<lambda>e. ev_Source e = src) es"

definition recorded :: "zone \<Rightarrow> int \<Rightarrow> gotime \<Rightarrow> NetworkEvent list \<Rightarrow> Baseline" where
  "recorded tz days start es = fold (ml_Record tz) es (NewBaseline days start)"

text \<open>The baseline holds exactly one profile for every named source, and it summarises that source's events.\<close>

lemma recorded_profiles:
  "map_of (bl_profiles (recorded tz days start es)) src = None \<longleftrightarrow> src = [] \<or> of_host src es = []"
  "map_of (bl_profiles (recorded tz days start es)) src = Some p \<Longrightarrow> profile_ok tz (of_host src es) p \<and> of_host src es \<noteq> []"
proof (induction es arbitrary: src p rule: rev_induct)
  case Nil
  { case 1 then show ?case by (simp add: recorded_def NewBaseline_def of_host_def) }
  { case 2 then show ?case by (simp add: recorded_def NewBaseline_def) }
next
  case (snoc e es)
  let ?b = "recorded tz days start es"
  have step: "map_of (bl_profiles (recorded tz days start (es @ [e]))) src =
      (if src \<noteq> [] \<and> src = ev_Source e
       then Some (profile_add tz e (case map_of (bl_profiles ?b) src of None \<Rightarrow> new_profile e | Some p \<Rightarrow> p))
       else map_of (bl_profiles ?b) src)" for src
    by (simp add: recorded_def ml_Record_def Let_def AList.update_conv')
  { case 1 then show ?case unfolding step using snoc.IH(1) [of src] by (auto simp: of_host_def) }
  { case 2
    show ?case
    proof (cases "src \<noteq> [] \<and> src = ev_Source e")
      case True
      let ?p = "case map_of (bl_profiles ?b) src of None \<Rightarrow> new_profile e | Some p \<Rightarrow> p"
      have "profile_ok tz (of_host src es) ?p \<and> (of_host src es = [] \<longrightarrow> hp_firstSeen ?p = ev_Timestamp e)"
      proof (cases "map_of (bl_profiles ?b) src")
        case None
        then have "of_host src es = []" using snoc.IH(1) [of src] True by blast
        then show ?thesis using None by (simp add: profile_ok_new) (simp add: new_profile_def)
      next
        case (Some p')
        then show ?thesis using snoc.IH(2) by simp
      qed
      then show ?thesis using 2 True profile_ok_add [of tz "of_host src es" ?p e] unfolding step by (auto simp: of_host_def)
    next
      case False
      with 2 have p: "map_of (bl_profiles ?b) src = Some p" unfolding step by (simp split: if_splits)
      with snoc.IH(1) [of src] have "src \<noteq> []" by auto
      then show ?thesis using snoc.IH(2) [OF p] False by (auto simp: of_host_def)
    qed }
qed

text \<open>Bounds of the four features of a host with \<open>n\<close> events.\<close>

definition features_in :: "nat \<Rightarrow> point \<Rightarrow> bool" where
  "features_in n fs \<longleftrightarrow>
     (\<exists>rate dv dev ent. fs = [rate, dv, dev, ent] \<and> 0 < rate \<and> rate \<le> real n \<and> 0 \<le> dv \<and> dv \<le> 1 \<and>
        0 \<le> dev \<and> dev \<le> 23 \<and> 0 \<le> ent \<and> ent \<le> log 2 (real n))"

lemma hourDeviation_bounds:
  assumes "profile_ok tz es p" "es \<noteq> []" "h < 24"
  shows "0 \<le> hourDeviation p h \<and> hourDeviation p h \<le> 23"
proof -
  let ?T = "real (length es)" and ?x = "real (hp_hourHistogram p ! h)"
  have T: "0 < ?T" using assms(2) by simp
  have "hp_hourHistogram p ! h \<le> length es" using assms(1,3) by (simp add: profile_ok_def occurrences_def)
  then have "?x \<le> ?T" "0 \<le> ?x" by simp_all
  then have "\<bar>?x - ?T / 24\<bar> \<le> 23 * (?T / 24)" by (simp add: abs_le_iff field_simps)
  then have "\<bar>?x - ?T / 24\<bar> / (?T / 24) \<le> 23" using T by (subst pos_divide_le_eq) simp_all
  moreover have "hourDeviation p h = \<bar>?x - ?T / 24\<bar> / (?T / 24)"
    using assms(1,2) by (simp add: hourDeviation_def profile_ok_def Let_def)
  ultimately show ?thesis using T by simp
qed

lemma entropy_term:
  assumes "1 \<le> c" "c \<le> n"
  shows "0 \<le> - (real c / real n * log 2 (real c / real n)) \<and> - (real c / real n * log 2 (real c / real n)) \<le> real c * (log 2 (real n) / real n)"
proof -
  have c: "1 \<le> real c" "real c \<le> real n" using assms by simp_all
  then have log: "log 2 (real c / real n) = log 2 (real c) - log 2 (real n)" by (subst log_divide) auto
  have "0 \<le> log 2 (real c)" "log 2 (real c) \<le> log 2 (real n)" using c by simp_all
  then have "0 \<le> real c / real n * (log 2 (real n) - log 2 (real c))" "real c / real n * log 2 (real c) \<ge> 0" by simp_all
  then show ?thesis unfolding log by (simp add: algebra_simps)
qed

lemma typeEntropy_bounds:
  assumes "profile_ok tz es p" "es \<noteq> []"
  shows "0 \<le> typeEntropy p \<and> typeEntropy p \<le> log 2 (real (length es))"
proof -
  let ?n = "length es"
  have cnt: "1 \<le> c \<and> c \<le> ?n" if "(ty, c) \<in> set (hp_eventCounts p)" for ty c
  proof -
    have "map_of (hp_eventCounts p) ty = Some c" 
      by (rule map_of_is_SomeI) (use that assms(1) in \<open>simp_all add: profile_ok_def\<close>)
    then show ?thesis using assms(1) by (auto simp: profile_ok_def Let_def occurrences_def Suc_le_eq split: if_splits)
  qed
  have total: "hp_totalEvents p = ?n" using assms(1) by (simp add: profile_ok_def)
  let ?h = "\<lambda>(ty :: string, c). - (real c / real ?n * log 2 (real c / real ?n))"
  have "typeEntropy p = sum_list (map ?h (hp_eventCounts p))"
    using assms(2) total unfolding typeEntropy_def
    by (auto simp: Let_def zero_less_divide_iff intro!: arg_cong [where f = sum_list] dest!: cnt)
  moreover have "0 \<le> sum_list (map ?h (hp_eventCounts p))"
    by (rule sum_list_nonneg) (use entropy_term cnt in \<open>force simp: Suc_le_eq\<close>)
  moreover have "sum_list (map ?h (hp_eventCounts p)) \<le> sum_list (map (\<lambda>(ty, c). real c * (log 2 (real ?n) / real ?n)) (hp_eventCounts p))"
    by (rule sum_list_mono) (use entropy_term cnt in \<open>force simp: Suc_le_eq\<close>)
  moreover have "sum_list (map (\<lambda>(ty, c). real c * (log 2 (real ?n) / real ?n)) xs) = real (sum_list (map snd xs)) * (log 2 (real ?n) / real ?n)" for xs :: "(string \<times> nat) list"
    by (induction xs) (auto simp: distrib_right add_divide_distrib)
  moreover have "sum_list (map snd (hp_eventCounts p)) = ?n" using assms(1) by (simp add: profile_ok_def)
  ultimately show ?thesis using assms(2) by simp
qed

lemma length_dests: "profile_ok tz es p \<Longrightarrow> length (hp_uniqueDests p) \<le> length es"
proof -
  assume ok: "profile_ok tz es p"
  then have "length (hp_uniqueDests p) = card (ev_Destination ` set es - {[]})" by (metis profile_ok_def distinct_card)
  also have "\<dots> \<le> card (ev_Destination ` set es)" by (intro card_mono) auto
  also have "\<dots> \<le> length es" using card_image_le [of "set es" ev_Destination] card_length [of es] by simp
  finally show "length (hp_uniqueDests p) \<le> length es" .
qed

lemma features_bounds:
  assumes "profile_ok tz es p" "es \<noteq> []" "h < 24"
  shows "features_in (length es) (features_of p h)"
proof -
  let ?n = "real (length es)"
  have n: "hp_totalEvents p = length es" "1 \<le> ?n" using assms(1,2) by (auto simp: profile_ok_def Suc_le_eq)
  define hours where "hours = real_of_int (go_Sub (hp_lastSeen p) (hp_firstSeen p)) / real_of_int time_Hour"
  define dur where "dur = (if hours < 1 then 1 else hours)"
  have dur: "1 \<le> dur" by (simp add: dur_def)
  then have "0 < ?n / dur" using n(2) by (intro divide_pos_pos) linarith+
  moreover have "?n / dur \<le> ?n" using dur n(2) by (simp add: divide_le_eq mult_le_cancel_left1)
  moreover have "real (length (hp_uniqueDests p)) / max 1 ?n \<le> 1" using length_dests [OF assms(1)] n(2) by (simp add: divide_le_eq)
  moreover have "features_of p h = [?n / dur, real (length (hp_uniqueDests p)) / max 1 ?n, hourDeviation p h, typeEntropy p]"
    using n(1) by (simp add: features_of_def Let_def dur_def hours_def)
  ultimately show ?thesis using hourDeviation_bounds [OF assms] typeEntropy_bounds [OF assms(1,2)] unfolding features_in_def by simp
qed

section \<open>Runs of the service\<close>

text \<open>
  Events and trainings in any order, each of them finished before the next starts; an operation comes with the clock.
  The state of a run also has the state of the random source, the disk and the alerts so far.
\<close>

datatype ml_op = MlEvent gotime NetworkEvent | MlTrain gotime map_order

fun ml_step ::
  "'g randsrc \<Rightarrow> ITree option list jcodec \<Rightarrow> zone \<Rightarrow> ml_op \<Rightarrow> (ml_Service \<times> 'g \<times> disk) \<times> ml_alert list \<Rightarrow>
   ((ml_Service \<times> 'g \<times> disk) \<times> ml_alert list) option" where
  "ml_step R C tz (MlEvent now e) ((s, g, d), out) =
     (case ml_Observe tz now e s of
        None \<Rightarrow> None
      | Some (s', a) \<Rightarrow> Some ((s', g, d), out @ (case a of None \<Rightarrow> [] | Some x \<Rightarrow> [x])))"
| "ml_step R C tz (MlTrain now order) (sgd, out) = map_option (\<lambda>sgd'. (sgd', out)) (ml_train R C tz order now sgd)"

fun ml_run ::
  "'g randsrc \<Rightarrow> ITree option list jcodec \<Rightarrow> zone \<Rightarrow> ml_op list \<Rightarrow> (ml_Service \<times> 'g \<times> disk) \<times> ml_alert list \<Rightarrow>
   ((ml_Service \<times> 'g \<times> disk) \<times> ml_alert list) option" where
  "ml_run R C tz [] st = Some st"
| "ml_run R C tz (op # ops) st = (case ml_step R C tz op st of None \<Rightarrow> None | Some st' \<Rightarrow> ml_run R C tz ops st')"

definition op_ok :: "ml_op \<Rightarrow> bool" where
  "op_ok op \<longleftrightarrow> (case op of MlEvent _ _ \<Rightarrow> True | MlTrain _ order \<Rightarrow> (\<forall>ps. mset (order ps) = mset ps))"

fun events_of :: "ml_op list \<Rightarrow> NetworkEvent list" where
  "events_of [] = []"
| "events_of (MlEvent _ e # ops) = e # events_of ops"
| "events_of (MlTrain _ _ # ops) = events_of ops"

definition service_ok :: "ml_Service \<Rightarrow> bool" where
  "service_ok s \<longleftrightarrow> forest_ok 4 (ms_forest s) \<and> 0 \<le> fo_numTrees (ms_forest s)"

lemma length_features [simp]: "length (features_of p h) = 4" "length (FeatureVector b src h) = 4"
  by (auto simp: features_of_def FeatureVector_def Let_def split: option.split)

definition alert_ok :: "real \<Rightarrow> ml_alert \<Rightarrow> bool" where
  "alert_ok threshold a \<longleftrightarrow>
     threshold < ma_score a \<and> 0 < ma_score a \<and> ma_score a \<le> 1 \<and> length (ma_features a) = 4 \<and>
     ev_Type (ma_event a) = EventAlert \<and>
     as_string (meta_get (ev_Metadata (ma_event a)) ''severity'') = Some (severityFromScore (ma_score a)) \<and>
     as_string (meta_get (ev_Metadata (ma_event a)) ''original_type'') \<noteq> Some EventAlert"

text \<open>One event: recorded, and reported exactly if its host scores above the threshold after the learning phase.\<close>

lemma Observe_cases:
  assumes "service_ok s"
  shows "\<exists>a. ml_Observe tz now e s = Some (s\<lparr>ms_baseline := ml_Record tz e (ms_baseline s)\<rparr>, a) \<and>
    (let b = ml_Record tz e (ms_baseline s); fs = FeatureVector b (ev_Source e) (go_Hour (tz (Some e)) (ev_Timestamp e))
     in (a \<noteq> None \<longleftrightarrow> ms_pipeline s \<and> \<not> IsLearning now b \<and> Trained (ms_forest s) \<and> ev_Type e \<noteq> EventAlert \<and> IsAnomaly (ms_forest s) fs = Some True) \<and>
        (\<forall>x. a = Some x \<longrightarrow> alert_ok (fo_threshold (ms_forest s)) x \<and> ma_features x = fs \<and> ev_Destination (ma_event x) = ev_Source e))"
proof -
  let ?b = "ml_Record tz e (ms_baseline s)"
  let ?fs = "FeatureVector ?b (ev_Source e) (go_Hour (tz (Some e)) (ev_Timestamp e))"
  show ?thesis
  proof (cases "IsLearning now ?b \<or> \<not> Trained (ms_forest s) \<or> ev_Type e = EventAlert")
    case True
    then show ?thesis by (auto simp: ml_Observe_def Let_def)
  next
    case False
    with assms Score_range [of ?fs "ms_forest s"] obtain sc where sc: "Score (ms_forest s) ?fs = Some sc" "0 < sc" "sc \<le> 1"
      by (auto simp: service_ok_def)
    show ?thesis
      using False sc
      by (cases "sc > fo_threshold (ms_forest s)"; cases "ms_pipeline s")
        (simp_all add: ml_Observe_def Let_def IsAnomaly_def ml_emitAlert_def alert_ok_def meta_get_def)
  qed
qed

lemma train_ok:
  assumes "random_ok R" "service_ok s" "\<forall>ps. mset (order ps) = mset ps"
  shows "\<exists>f g' d'. ml_train R C tz order now (s, g, d) = Some (s\<lparr>ms_forest := f\<rparr>, g', d') \<and> service_ok (s\<lparr>ms_forest := f\<rparr>) \<and>
    fo_threshold f = fo_threshold (ms_forest s)"
proof -
  let ?data = "TrainingData order (go_Hour (tz None) now) (ms_baseline s)"
  have rows: "\<forall>row \<in> set ?data. length row = 4" by (auto simp: TrainingData_def)
  have "0 \<le> fo_numTrees (ms_forest s)" using assms(2) by (simp add: service_ok_def)
  from Train_complete [OF assms(1) rows this, of g] obtain ts g' where
    t: "Train R ?data (ms_forest s) g = Some ((ms_forest s)\<lparr>fo_trees := map Some ts\<rparr>, g')"
      "\<forall>t \<in> set ts. grown R (fo_maxDepth (ms_forest s)) ?data t" by blast
  have "forest_ok 4 ((ms_forest s)\<lparr>fo_trees := map Some ts\<rparr>)" using t(2) grown_ok [OF assms(1) rows] unfolding forest_ok_iff by auto
  then have ok: "service_ok (s\<lparr>ms_forest := (ms_forest s)\<lparr>fo_trees := map Some ts\<rparr>\<rparr>)" using assms(2) by (simp add: service_ok_def)
  show ?thesis
  proof (cases "length ?data < 10")
    case True
    then have "ml_train R C tz order now (s, g, d) = Some (s\<lparr>ms_forest := ms_forest s\<rparr>, g, d)" by (simp add: ml_train_def Let_def)
    then show ?thesis using assms(2) by (intro exI [of _ "ms_forest s"] exI [of _ g] exI [of _ d]) simp
  next
    case False
    then show ?thesis using t(1) ok by (auto simp: ml_train_def Let_def intro!: exI [of _ "(ms_forest s)\<lparr>fo_trees := map Some ts\<rparr>"])
  qed
qed

lemma run_ok:
  assumes "random_ok R" "service_ok s" "\<forall>op \<in> set ops. op_ok op" "list_all (alert_ok (fo_threshold (ms_forest s))) out"
  shows "\<exists>s' g' d' out'. ml_run R C tz ops ((s, g, d), out) = Some ((s', g', d'), out') \<and> service_ok s' \<and>
    fo_threshold (ms_forest s') = fo_threshold (ms_forest s) \<and> ms_pipeline s' = ms_pipeline s \<and>
    ms_baseline s' = fold (ml_Record tz) (events_of ops) (ms_baseline s) \<and> list_all (alert_ok (fo_threshold (ms_forest s))) out'"
  using assms(2-4)
proof (induction ops arbitrary: s g d out)
  case (Cons op ops)
  show ?case
  proof (cases op)
    case (MlEvent now e)
    obtain a where a: "ml_Observe tz now e s = Some (s\<lparr>ms_baseline := ml_Record tz e (ms_baseline s)\<rparr>, a)"
      "\<forall>x. a = Some x \<longrightarrow> alert_ok (fo_threshold (ms_forest s)) x"
      using Observe_cases [OF Cons.prems(1), of tz now e] unfolding Let_def by blast
    then show ?thesis
      using Cons.prems Cons.IH [of "s\<lparr>ms_baseline := ml_Record tz e (ms_baseline s)\<rparr>" "out @ (case a of None \<Rightarrow> [] | Some x \<Rightarrow> [x])" g d] MlEvent
      by (cases a) (simp_all add: service_ok_def)
  next
    case (MlTrain now order)
    then have "\<forall>ps. mset (order ps) = mset ps" using Cons.prems(2) by (simp add: op_ok_def)
    from train_ok [OF assms(1) Cons.prems(1) this, of C tz now g d] obtain f g' d' where
      f: "ml_train R C tz order now (s, g, d) = Some (s\<lparr>ms_forest := f\<rparr>, g', d')" "service_ok (s\<lparr>ms_forest := f\<rparr>)"
        "fo_threshold f = fo_threshold (ms_forest s)" by blast
    then show ?thesis using Cons.prems Cons.IH [OF f(2), of out g' d'] MlTrain by simp
  qed
qed auto

text \<open>
  While a training is under way the forest has nil trees: any event that is scored in that time ends the process. The
  pipeline runs every observation in a goroutine of its own, and nothing keeps it from running then.
\<close>

theorem observe_during_training:
  assumes "random_ok R" "\<forall>row \<in> set data. length row = 4" "int k < fo_numTrees (ms_forest s)"
    and "train_steps R data k (ms_forest s) g = Some (f, g')"
    and "\<not> IsLearning now (ml_Record tz e (ms_baseline s))" "ev_Type e \<noteq> EventAlert"
  shows "ml_Observe tz now e (s\<lparr>ms_forest := f\<rparr>) = None"
  using score_during_training [OF assms(1-4)] assms(5,6) by (simp add: ml_Observe_def Let_def IsAnomaly_def)

text \<open>After training on 10 to 33 hosts that behave alike, every host is reported, these included.\<close>

theorem few_hosts_all_reported:
  assumes "random_ok R" "TrainingData order (go_Hour (tz None) now) (ms_baseline s) = replicate n v" "10 \<le> n" "n \<le> 33" "length v = 4"
    and "0 < fo_numTrees (ms_forest s)" "fo_threshold (ms_forest s) = 6 / 10" "ml_train R C tz order now (s, g, d) = Some (s', g', d')"
  shows "IsAnomaly (ms_forest s') (FeatureVector b src h) = Some True"
proof -
  from assms(2,3,8) obtain f where f: "Train R (replicate n v) (ms_forest s) g = Some (f, g')" "s' = s\<lparr>ms_forest := f\<rparr>"
    by (auto simp: ml_train_def Let_def split: option.splits)
  moreover have "fo_threshold f = 6 / 10" using Train_complete [OF assms(1), of "replicate n v" 4 "ms_forest s" g] assms(5-7) f(1) by auto
  moreover have "length (FeatureVector b src h) = length v" using assms(5) by simp
  ultimately show ?thesis using few_hosts_flagged [OF assms(1,3,4,6) f(1), of "FeatureVector b src h"] by (auto simp: IsAnomaly_def)
qed

section \<open>Properties\<close>

text \<open>
  C30: the behavioural baseline. After any sequence of events there is a profile for exactly the sources seen, and
  it says exactly what that source's events are: how many in all, of each type and in each hour of the day (in
  the location of each timestamp), the set of their non-empty destinations, and the times of the first and the last
  one. The learning phase lasts the configured number of days, seven by default, from the start.
\<close>

theorem baseline_exact:
  assumes "b = fold (ml_Record tz) es (NewBaseline days start)" "0 \<le> days" "days \<le> 106751"
  shows "(\<forall>src. map_of (bl_profiles b) src = None \<longleftrightarrow> src = [] \<or> src \<notin> ev_Source ` set es) \<and>
    (\<forall>src p. map_of (bl_profiles b) src = Some p \<longrightarrow>
      (let mine = filter (\<lambda>e. ev_Source e = src) es
       in mine \<noteq> [] \<and> hp_totalEvents p = length mine \<and>
          (\<forall>ty. (case map_of (hp_eventCounts p) ty of None \<Rightarrow> 0 | Some n \<Rightarrow> n) = length (filter (\<lambda>e. ev_Type e = ty) mine)) \<and>
          length (hp_hourHistogram p) = 24 \<and>
          (\<forall>h < 24. hp_hourHistogram p ! h =
             length (filter (\<lambda>e. (ev_Timestamp e + tz (Some e) (ev_Timestamp e)) div time_Hour mod 24 = int h) mine)) \<and>
          set (hp_uniqueDests p) = {d. d \<noteq> [] \<and> (\<exists>e \<in> set mine. ev_Destination e = d)} \<and> distinct (hp_uniqueDests p) \<and>
          hp_firstSeen p = ev_Timestamp (hd mine) \<and> hp_lastSeen p = ev_Timestamp (last mine))) \<and>
    (\<forall>now. IsLearning now b \<longleftrightarrow> now < start + (if days = 0 then 7 else days) * (24 * time_Hour))"
proof (intro conjI allI impI)
  have b: "b = recorded tz days start es" by (simp add: assms(1) recorded_def)
  show "map_of (bl_profiles b) src = None \<longleftrightarrow> src = [] \<or> src \<notin> ev_Source ` set es" for src
    unfolding b recorded_profiles(1) by (auto simp: of_host_def filter_empty_conv)
  show "let mine = filter (\<lambda>e. ev_Source e = src) es
       in mine \<noteq> [] \<and> hp_totalEvents p = length mine \<and>
          (\<forall>ty. (case map_of (hp_eventCounts p) ty of None \<Rightarrow> 0 | Some n \<Rightarrow> n) = length (filter (\<lambda>e. ev_Type e = ty) mine)) \<and>
          length (hp_hourHistogram p) = 24 \<and>
          (\<forall>h < 24. hp_hourHistogram p ! h =
             length (filter (\<lambda>e. (ev_Timestamp e + tz (Some e) (ev_Timestamp e)) div time_Hour mod 24 = int h) mine)) \<and>
          set (hp_uniqueDests p) = {d. d \<noteq> [] \<and> (\<exists>e \<in> set mine. ev_Destination e = d)} \<and> distinct (hp_uniqueDests p) \<and>
          hp_firstSeen p = ev_Timestamp (hd mine) \<and> hp_lastSeen p = ev_Timestamp (last mine)"
    if "map_of (bl_profiles b) src = Some p" for src p
  proof -
    have hour: "go_Hour off t = h \<longleftrightarrow> (t + off t) div time_Hour mod 24 = int h" for off t h
      by (auto simp: go_Hour_def)
    from recorded_profiles(2) [OF that [unfolded b]] show ?thesis
      unfolding profile_ok_def of_host_def occurrences_def hour Let_def by (auto split: option.splits)
  qed
  have "bl_started (fold (ml_Record tz) es b0) = bl_started b0 \<and> bl_window (fold (ml_Record tz) es b0) = bl_window b0" for b0
    by (induction es arbitrary: b0) (simp_all add: ml_Record_def Let_def)
  moreover have "signed_take_bit 63 (d * 24 * time_Hour) = d * 24 * time_Hour" if "0 \<le> d" "d \<le> 106751" for d :: int
    unfolding signed_take_bit_int_eq_self_iff using that by (simp add: durations)
  ultimately show "IsLearning now b \<longleftrightarrow> now < start + (if days = 0 then 7 else days) * (24 * time_Hour)" for now
    using assms by (simp add: IsLearning_def go_Sub_def NewBaseline_def durations) linarith
qed

text \<open>
  The detector as a whole, with real numbers for \<^verbatim>\<open>float64\<close>, for a threshold that is not negative and a forest
  read from disk that is well formed (reading checks nothing). Under any sequence of events and trainings that do
  not overlap, and whatever is drawn, it does not panic; every alert has a score above the threshold and at most 1,
  and the next event is reported if the learning phase is over, the event is no alert and the mean path of its
  host's features through the trees is below a bound that only depends on the threshold.
\<close>

theorem anomaly_detection:
  assumes "random_ok R" "\<forall>op \<in> set ops. op_ok op" "0 \<le> mc_AnomalyThreshold cfg"
    and "forest_ok 4 (ms_forest (ml_NewService C cfg True start d))"
  shows "\<exists>s g' d' out. ml_run R C tz ops ((ml_NewService C cfg True start d, g, d), []) = Some ((s, g', d'), out) \<and>
    (\<forall>src. map_of (bl_profiles (ms_baseline s)) src = None \<longleftrightarrow> src = [] \<or> of_host src (events_of ops) = []) \<and>
    (\<forall>src p h. map_of (bl_profiles (ms_baseline s)) src = Some p \<and> h < 24 \<longrightarrow>
       profile_ok tz (of_host src (events_of ops)) p \<and> features_in (length (of_host src (events_of ops))) (features_of p h)) \<and>
    list_all (alert_ok (fo_threshold (ms_forest s))) out \<and>
    (\<forall>now e. let b = ml_Record tz e (ms_baseline s); ts = map the (fo_trees (ms_forest s))
       in \<exists>s' a. ml_Observe tz now e s = Some (s', a) \<and> ms_baseline s' = b \<and>
         (a \<noteq> None \<longleftrightarrow> \<not> IsLearning now b \<and> ev_Type e \<noteq> EventAlert \<and> ts \<noteq> [] \<and>
            mean_path (FeatureVector b (ev_Source e) (go_Hour (tz (Some e)) (ev_Timestamp e))) ts
              < - (log 2 (if mc_AnomalyThreshold cfg = 0 then 6 / 10 else mc_AnomalyThreshold cfg) * averagePathLength 256)))"
proof -
  let ?s0 = "ml_NewService C cfg True start d"
  let ?th = "if mc_AnomalyThreshold cfg = 0 then 6 / 10 else mc_AnomalyThreshold cfg"
  have new: "0 \<le> fo_numTrees (ms_forest ?s0)" "fo_threshold (ms_forest ?s0) = ?th" "ms_pipeline ?s0"
    "ms_baseline ?s0 = NewBaseline (mc_BaselineLearningDays cfg) start"
    by (simp_all add: ml_NewService_def NewIsolationForest_def forest_Load_def Let_def split: sum.splits option.splits)
  have "service_ok ?s0" using assms(4) new(1) by (simp add: service_ok_def)
  from run_ok [OF assms(1) this assms(2), of "[]" C tz g d] new obtain s g' d' out where
    run: "ml_run R C tz ops ((?s0, g, d), []) = Some ((s, g', d'), out)" and ok: "service_ok s" "fo_threshold (ms_forest s) = ?th" "ms_pipeline s"
      "ms_baseline s = recorded tz (mc_BaselineLearningDays cfg) start (events_of ops)" "list_all (alert_ok (fo_threshold (ms_forest s))) out"
    by (auto simp: recorded_def)
  obtain ts where ts: "fo_trees (ms_forest s) = map Some ts" "\<forall>t \<in> set ts. tree_ok 4 t"
    using ok(1) unfolding service_ok_def forest_ok_iff by blast
  have "0 < ?th" using assms(3) by simp
  then have anomaly: "IsAnomaly (ms_forest s) (FeatureVector b src h) =
      Some (mean_path (FeatureVector b src h) ts < - (log 2 ?th * averagePathLength 256))" if "ts \<noteq> []" for b src h
    using IsAnomaly_iff [OF ts(1), of "FeatureVector b src h"] ts(2) that ok(2) by simp
  have observe: "let b = ml_Record tz e (ms_baseline s); ts = map the (fo_trees (ms_forest s))
       in \<exists>s' a. ml_Observe tz now e s = Some (s', a) \<and> ms_baseline s' = b \<and>
         (a \<noteq> None \<longleftrightarrow> \<not> IsLearning now b \<and> ev_Type e \<noteq> EventAlert \<and> ts \<noteq> [] \<and>
            mean_path (FeatureVector b (ev_Source e) (go_Hour (tz (Some e)) (ev_Timestamp e))) ts < - (log 2 ?th * averagePathLength 256))" for now e
    using Observe_cases [OF ok(1), of tz now e] anomaly ok(3) ts(1) by (cases "ts = []") (fastforce simp: Let_def Trained_def o_def)+
  have "profile_ok tz (of_host src (events_of ops)) p \<and> features_in (length (of_host src (events_of ops))) (features_of p h)"
    if "map_of (bl_profiles (ms_baseline s)) src = Some p" "h < 24" for src p h
    using recorded_profiles(2) [OF that(1) [unfolded ok(4)]] features_bounds [OF _ _ that(2)] by blast
  with run ok(5) observe recorded_profiles(1) [of tz "mc_BaselineLearningDays cfg" start "events_of ops", folded ok(4)]
  show ?thesis by blast
qed

definition sample_random :: "unit randsrc" where
  "sample_random = \<lparr>rnd_Intn = \<lambda>n g. (0, g), rnd_Float64 = \<lambda>g. (1 / 2, g), rnd_Perm = \<lambda>n g. ([0..<n], g)\<rparr>"

definition sample_ml :: MLConfig where
  "sample_ml = \<lparr>mc_Enabled = True, mc_ModelDir = [], mc_TrainingIntervalHours = 6, mc_AnomalyThreshold = 0, mc_BaselineLearningDays = 7\<rparr>"

definition sample_seen :: NetworkEvent where
  "sample_seen = \<lparr>ev_ID = ''1'', ev_Type = EventDNS, ev_Source = ''10.0.0.7'', ev_Destination = ''9.9.9.9'', ev_Metadata = None,
     ev_Timestamp = 5 * time_Hour, ev_Signature = [], ev_SignerKeyID = []\<rparr>"

text \<open>Three events of two hosts.\<close>

theorem baseline_exact_witness:
  "\<exists>p. map_of (bl_profiles (fold (ml_Record (\<lambda>_ _. 0)) [sample_seen, sample_seen\<lparr>ev_Source := ''10.0.0.8''\<rparr>,
        sample_seen\<lparr>ev_Timestamp := 30 * time_Hour\<rparr>] (NewBaseline 0 0))) ''10.0.0.7'' = Some p \<and>
     hp_totalEvents p = 2 \<and> hp_hourHistogram p ! 5 = 1 \<and> hp_hourHistogram p ! 6 = 1 \<and> set (hp_uniqueDests p) = {''9.9.9.9''}"
proof -
  let ?es = "[sample_seen, sample_seen\<lparr>ev_Source := ''10.0.0.8''\<rparr>, sample_seen\<lparr>ev_Timestamp := 30 * time_Hour\<rparr>]"
  let ?b = "fold (ml_Record (\<lambda>_ _. 0)) ?es (NewBaseline 0 0)"
  note ex = baseline_exact [of ?b "\<lambda>_ _. 0" ?es 0 0, OF refl]
  from ex have "map_of (bl_profiles ?b) ''10.0.0.7'' \<noteq> None" by (simp add: sample_seen_def)
  then obtain p where p: "map_of (bl_profiles ?b) ''10.0.0.7'' = Some p" by blast
  have mine: "filter (\<lambda>e. ev_Source e = ''10.0.0.7'') ?es = [sample_seen, sample_seen\<lparr>ev_Timestamp := 30 * time_Hour\<rparr>]"
    by (simp add: sample_seen_def)
  have "hp_totalEvents p = 2 \<and> hp_hourHistogram p ! 5 = 1 \<and> hp_hourHistogram p ! 6 = 1 \<and> set (hp_uniqueDests p) = {''9.9.9.9''}"
    using conjunct1 [OF conjunct2 [OF ex], rule_format, OF _ _ p] unfolding mine Let_def
    by (auto simp: sample_seen_def durations)
  with p show ?thesis by blast
qed

lemma sample_random_ok: "random_ok sample_random"
  by (simp add: random_ok_def sample_random_def)

theorem anomaly_detection_witness:
  "\<exists>s g' d' out p. ml_run sample_random \<lparr>jc_Marshal = \<lambda>_. None, jc_Unmarshal = \<lambda>_. None\<rparr> (\<lambda>_ _. 0) [MlEvent 0 sample_seen, MlTrain 1 (\<lambda>ps. ps)]
       ((ml_NewService \<lparr>jc_Marshal = \<lambda>_. None, jc_Unmarshal = \<lambda>_. None\<rparr> sample_ml True 0 \<lparr>dk_files = [], dk_fails = \<lambda>_ _. False, dk_torn = \<lambda>_. 0\<rparr>, (),
         \<lparr>dk_files = [], dk_fails = \<lambda>_ _. False, dk_torn = \<lambda>_. 0\<rparr>), []) = Some ((s, g', d'), out) \<and>
     map_of (bl_profiles (ms_baseline s)) ''10.0.0.7'' = Some p \<and> hp_totalEvents p = 1 \<and> hp_hourHistogram p ! 5 = 1"
proof -
  let ?C = "\<lparr>jc_Marshal = \<lambda>_. None, jc_Unmarshal = \<lambda>_. None\<rparr> :: ITree option list jcodec"
  let ?d = "\<lparr>dk_files = [], dk_fails = \<lambda>_ _. False, dk_torn = \<lambda>_. 0\<rparr>"
  let ?ops = "[MlEvent 0 sample_seen, MlTrain 1 (\<lambda>ps. ps)]"
  have "\<forall>op \<in> set ?ops. op_ok op" "0 \<le> mc_AnomalyThreshold sample_ml" "forest_ok 4 (ms_forest (ml_NewService ?C sample_ml True 0 ?d))"
    by (simp_all add: op_ok_def sample_ml_def ml_NewService_def NewIsolationForest_def forest_ok_def)
  from anomaly_detection [OF sample_random_ok this, of "\<lambda>_ _. 0" "()"] show ?thesis
  proof (elim exE conjE)
    fix s g' d' out
    assume run: "ml_run sample_random ?C (\<lambda>_ _. 0) ?ops ((ml_NewService ?C sample_ml True 0 ?d, (), ?d), []) = Some ((s, g', d'), out)"
      and seen: "\<forall>src. map_of (bl_profiles (ms_baseline s)) src = None \<longleftrightarrow> src = [] \<or> of_host src (events_of ?ops) = []"
      and profile: "\<forall>src p h. map_of (bl_profiles (ms_baseline s)) src = Some p \<and> h < 24 \<longrightarrow>
        profile_ok (\<lambda>_ _. 0) (of_host src (events_of ?ops)) p \<and> features_in (length (of_host src (events_of ?ops))) (features_of p h)"
    have host: "of_host ''10.0.0.7'' (events_of ?ops) = [sample_seen]" by (simp add: of_host_def sample_seen_def)
    with spec [OF seen, of "''10.0.0.7''"] obtain p where p: "map_of (bl_profiles (ms_baseline s)) ''10.0.0.7'' = Some p" by auto
    have "profile_ok (\<lambda>_ _. 0) [sample_seen] p" using profile [rule_format, of "''10.0.0.7''" p 0] p host by simp
    then have "hp_totalEvents p = 1 \<and> hp_hourHistogram p ! 5 = 1"
      by (simp add: profile_ok_def occurrences_def go_Hour_def sample_seen_def time_Hour_def time_Minute_def time_Second_def)
    with run p show ?thesis by blast
  qed
qed

end
