(* ===== verification/Scan.thy ===== *)
theory Scan
  imports Models GoLib "HOL-Library.Multiset"
begin

text \<open>
  The attack surface scanner (\<^verbatim>\<open>internal/discovery/attack_surface\<close>): which hosts are scanned, and the scan of one host
  by a producer of port numbers and a pool of workers over two channels, as a step relation. What a connection
  attempt finds is a parameter: \<open>None\<close> if it fails, otherwise the banner read (empty if none is asked for).
\<close>

section \<open>Targets\<close>

record PortRange =
  pr_Start :: int
  pr_End :: int

record AttackSurfaceConfig =
  ac_Enabled :: bool
  ac_ConcurrentScans :: int
  ac_PortRange :: PortRange
  ac_BannerGrabbing :: bool

text \<open>The lister of assets may be nil (\<open>None\<close>) or fail (\<open>Some None\<close>).\<close>

fun collect_targets :: "string set \<Rightarrow> Asset list \<Rightarrow> string list" where
  "collect_targets seen [] = []"
| "collect_targets seen (a # as) =
     (if as_IP a \<noteq> [] \<and> as_IP a \<notin> seen then as_IP a # collect_targets (insert (as_IP a) seen) as
      else collect_targets seen as)"

definition resolveTargets :: "Asset list option option \<Rightarrow> string list" where
  "resolveTargets lister =
     (case lister of
        Some (Some assets) \<Rightarrow> (if collect_targets {} assets \<noteq> [] then collect_targets {} assets else [''127.0.0.1''])
      | _ \<Rightarrow> [''127.0.0.1''])"

text \<open>Starting launches a scan of every target.\<close>

definition surface_Start :: "AttackSurfaceConfig \<Rightarrow> Asset list option option \<Rightarrow> string list" where
  "surface_Start cfg lister = (if \<not> ac_Enabled cfg then [] else resolveTargets lister)"

section \<open>Scanning a host\<close>

record PortResult =
  rs_Host :: string
  rs_Port :: int
  rs_Open :: bool
  rs_Banner :: string

definition probe_port :: "AttackSurfaceConfig \<Rightarrow> (int \<Rightarrow> string option) \<Rightarrow> int \<Rightarrow> bool \<times> string" where
  "probe_port cfg dial port =
     (case dial port of None \<Rightarrow> (False, []) | Some text \<Rightarrow> (True, if ac_BannerGrabbing cfg then take 256 text else []))"

text \<open>
  A scan under way: the port the producer sends next, whether it has closed its channel, the ports in that channel, the
  workers waiting for one, the ports being probed, the workers that have returned, the channel of results, what the
  consumer has received, and whether the context is cancelled.
\<close>

record scan =
  sn_next :: int
  sn_closed :: bool
  sn_ports :: "int list"
  sn_idle :: nat
  sn_busy :: "int list"
  sn_exited :: nat
  sn_results :: "PortResult list"
  sn_delivered :: "PortResult list"
  sn_cancelled :: bool

definition results_cap :: nat where "results_cap = 256"

definition scan_workers :: "AttackSurfaceConfig \<Rightarrow> nat" where
  "scan_workers cfg = (if ac_ConcurrentScans cfg \<le> 0 then 100 else nat (ac_ConcurrentScans cfg))"

definition scan_start :: "AttackSurfaceConfig \<Rightarrow> int" where
  "scan_start cfg = (let start = pr_Start (ac_PortRange cfg) in if start \<le> 0 then 1 else start)"

definition scan_end :: "AttackSurfaceConfig \<Rightarrow> int" where
  "scan_end cfg = (let end = pr_End (ac_PortRange cfg) in if end \<le> 0 \<or> end > 65535 then 65535 else end)"

text \<open>Making a channel of negative capacity panics.\<close>

definition ScanHost :: "AttackSurfaceConfig \<Rightarrow> scan option" where
  "ScanHost cfg =
     (if ac_ConcurrentScans cfg < 0 then None
      else Some \<lparr>sn_next = scan_start cfg, sn_closed = False, sn_ports = [], sn_idle = scan_workers cfg, sn_busy = [], sn_exited = 0,
                sn_results = [], sn_delivered = [], sn_cancelled = False\<rparr>)"

text \<open>A worker that receives a port returns if the context is cancelled, and the port is not probed.\<close>

definition receive :: "int \<Rightarrow> scan \<Rightarrow> scan" where
  "receive p s =
     (if sn_cancelled s then s\<lparr>sn_idle := sn_idle s - 1, sn_exited := sn_exited s + 1\<rparr>
      else s\<lparr>sn_idle := sn_idle s - 1, sn_busy := p # sn_busy s\<rparr>)"

inductive scan_step :: "AttackSurfaceConfig \<Rightarrow> string \<Rightarrow> (int \<Rightarrow> string option) \<Rightarrow> scan \<Rightarrow> scan \<Rightarrow> bool"
  for cfg host dial where
  cancel: "\<not> sn_cancelled s \<Longrightarrow> scan_step cfg host dial s (s\<lparr>sn_cancelled := True\<rparr>)"
| send: "\<not> sn_closed s \<Longrightarrow> sn_next s \<le> scan_end cfg \<Longrightarrow> length (sn_ports s) < nat (ac_ConcurrentScans cfg) \<Longrightarrow>
    scan_step cfg host dial s (s\<lparr>sn_next := sn_next s + 1, sn_ports := sn_ports s @ [sn_next s]\<rparr>)"
| hand: "\<not> sn_closed s \<Longrightarrow> sn_next s \<le> scan_end cfg \<Longrightarrow> sn_ports s = [] \<Longrightarrow> 0 < sn_idle s \<Longrightarrow>
    scan_step cfg host dial s (receive (sn_next s) (s\<lparr>sn_next := sn_next s + 1\<rparr>))"
| all_sent: "\<not> sn_closed s \<Longrightarrow> scan_end cfg < sn_next s \<Longrightarrow> scan_step cfg host dial s (s\<lparr>sn_closed := True\<rparr>)"
| stop_sending: "\<not> sn_closed s \<Longrightarrow> sn_cancelled s \<Longrightarrow> scan_step cfg host dial s (s\<lparr>sn_closed := True\<rparr>)"
| take_port: "sn_ports s = p # ps \<Longrightarrow> 0 < sn_idle s \<Longrightarrow> scan_step cfg host dial s (receive p (s\<lparr>sn_ports := ps\<rparr>))"
| shut: "p \<in> set (sn_busy s) \<Longrightarrow> probe_port cfg dial p = (False, banner) \<Longrightarrow>
    scan_step cfg host dial s (s\<lparr>sn_busy := remove1 p (sn_busy s), sn_idle := sn_idle s + 1\<rparr>)"
| found: "p \<in> set (sn_busy s) \<Longrightarrow> probe_port cfg dial p = (True, banner) \<Longrightarrow> length (sn_results s) < results_cap \<Longrightarrow>
    scan_step cfg host dial s
      (s\<lparr>sn_busy := remove1 p (sn_busy s), sn_idle := sn_idle s + 1,
         sn_results := sn_results s @ [\<lparr>rs_Host = host, rs_Port = p, rs_Open = True, rs_Banner = banner\<rparr>]\<rparr>)"
| leave: "sn_closed s \<Longrightarrow> sn_ports s = [] \<Longrightarrow> 0 < sn_idle s \<Longrightarrow>
    scan_step cfg host dial s (s\<lparr>sn_idle := sn_idle s - 1, sn_exited := sn_exited s + 1\<rparr>)"
| deliver: "sn_results s = r # rs \<Longrightarrow> scan_step cfg host dial s (s\<lparr>sn_results := rs, sn_delivered := sn_delivered s @ [r]\<rparr>)"

text \<open>The channel of results is closed once the producer and all workers have ended; the scan is over when it is drained.\<close>

definition scan_over :: "scan \<Rightarrow> bool" where
  "scan_over s \<longleftrightarrow> sn_closed s \<and> sn_idle s = 0 \<and> sn_busy s = [] \<and> sn_results s = []"

text \<open>What is pushed into the pipeline for a result.\<close>

definition surface_event :: "PortResult \<Rightarrow> NetworkEvent" where
  "surface_event r =
     \<lparr>ev_ID = [], ev_Type = EventPortScan, ev_Source = ''attack_surface_scanner'', ev_Destination = rs_Host r,
      ev_Metadata = Some [''port'' \<mapsto> AInt (rs_Port r), ''open'' \<mapsto> ABool (rs_Open r), ''banner'' \<mapsto> AString (rs_Banner r)],
      ev_Timestamp = 0, ev_Signature = [], ev_SignerKeyID = []\<rparr>"

definition scanTarget :: "bool \<Rightarrow> scan \<Rightarrow> NetworkEvent list" where
  "scanTarget pipeline s = (if pipeline then map surface_event (sn_delivered s) else [])"

section \<open>Lemmas\<close>

lemma collect_targets_spec:
  "distinct (collect_targets seen as) \<and> set (collect_targets seen as) = as_IP ` set as - {[]} - seen"
  by (induction as arbitrary: seen) auto

lemma resolveTargets_spec:
  "distinct (resolveTargets lister) \<and> resolveTargets lister \<noteq> []"
  "\<exists>a \<in> set assets. as_IP a \<noteq> [] \<Longrightarrow> set (resolveTargets (Some (Some assets))) = as_IP ` set assets - {[]}"
proof -
  show "distinct (resolveTargets lister) \<and> resolveTargets lister \<noteq> []"
    using collect_targets_spec [of "{}"] by (simp add: resolveTargets_def split: option.split)
  have "collect_targets {} assets \<noteq> []" if "\<exists>a \<in> set assets. as_IP a \<noteq> []"
    using collect_targets_spec [of "{}" assets] that by (metis (no_types, lifting) DiffI empty_iff empty_set image_eqI singletonD)
  then show "\<exists>a \<in> set assets. as_IP a \<noteq> [] \<Longrightarrow> set (resolveTargets (Some (Some assets))) = as_IP ` set assets - {[]}"
    using collect_targets_spec [of "{}" assets] by (simp add: resolveTargets_def)
qed

definition is_open :: "(int \<Rightarrow> string option) \<Rightarrow> int \<Rightarrow> bool" where
  "is_open dial p \<longleftrightarrow> dial p \<noteq> None"

lemma probe_port_iff: "probe_port cfg dial p = (b, banner) \<Longrightarrow> b = is_open dial p"
  by (auto simp: probe_port_def is_open_def split: option.splits)

inductive scan_reach :: "AttackSurfaceConfig \<Rightarrow> string \<Rightarrow> (int \<Rightarrow> string option) \<Rightarrow> scan \<Rightarrow> bool" for cfg host dial where
  init: "ScanHost cfg = Some s \<Longrightarrow> scan_reach cfg host dial s"
| step: "scan_reach cfg host dial s \<Longrightarrow> scan_step cfg host dial s s' \<Longrightarrow> scan_reach cfg host dial s'"

text \<open>Open ports: already reported, still in hand, and all those sent so far.\<close>

definition reported :: "scan \<Rightarrow> int multiset" where
  "reported s = mset (map rs_Port (sn_delivered s @ sn_results s))"

definition in_hand :: "(int \<Rightarrow> string option) \<Rightarrow> scan \<Rightarrow> int multiset" where
  "in_hand dial s = filter_mset (is_open dial) (mset (sn_busy s) + mset (sn_ports s))"

definition sent_open :: "AttackSurfaceConfig \<Rightarrow> (int \<Rightarrow> string option) \<Rightarrow> scan \<Rightarrow> int multiset" where
  "sent_open cfg dial s = filter_mset (is_open dial) (mset [scan_start cfg..sn_next s - 1])"

definition pool_ok :: "AttackSurfaceConfig \<Rightarrow> scan \<Rightarrow> bool" where
  "pool_ok cfg s \<longleftrightarrow>
     sn_idle s + length (sn_busy s) + sn_exited s = scan_workers cfg \<and>
     (0 < sn_exited s \<longrightarrow> sn_cancelled s \<or> sn_closed s \<and> sn_ports s = [])"

definition range_ok :: "AttackSurfaceConfig \<Rightarrow> scan \<Rightarrow> bool" where
  "range_ok cfg s \<longleftrightarrow>
     scan_start cfg \<le> sn_next s \<and> sn_next s \<le> max (scan_start cfg) (scan_end cfg + 1) \<and>
     (sn_closed s \<and> \<not> sn_cancelled s \<longrightarrow> scan_end cfg < sn_next s)"

definition ports_ok :: "AttackSurfaceConfig \<Rightarrow> (int \<Rightarrow> string option) \<Rightarrow> scan \<Rightarrow> bool" where
  "ports_ok cfg dial s \<longleftrightarrow>
     (if sn_cancelled s then reported s + in_hand dial s \<subseteq># sent_open cfg dial s else reported s + in_hand dial s = sent_open cfg dial s)"

definition results_ok :: "AttackSurfaceConfig \<Rightarrow> string \<Rightarrow> (int \<Rightarrow> string option) \<Rightarrow> scan \<Rightarrow> bool" where
  "results_ok cfg host dial s \<longleftrightarrow>
     (\<forall>r \<in> set (sn_delivered s @ sn_results s). rs_Host r = host \<and> rs_Open r \<and> probe_port cfg dial (rs_Port r) = (True, rs_Banner r))"

definition scan_inv :: "AttackSurfaceConfig \<Rightarrow> string \<Rightarrow> (int \<Rightarrow> string option) \<Rightarrow> scan \<Rightarrow> bool" where
  "scan_inv cfg host dial s \<longleftrightarrow> pool_ok cfg s \<and> range_ok cfg s \<and> ports_ok cfg dial s \<and> results_ok cfg host dial s"

lemma sent_open_Suc:
  assumes "scan_start cfg \<le> n"
  shows "filter_mset (is_open dial) (mset [scan_start cfg..n]) =
    filter_mset (is_open dial) (mset [scan_start cfg..n - 1]) + (if is_open dial n then {#n#} else {#})"
  using assms by (simp add: upto_rec2)

lemma filter_remove1: "p \<in> set xs \<Longrightarrow> is_open dial p \<Longrightarrow>
    filter_mset (is_open dial) (mset xs) = add_mset p (filter_mset (is_open dial) (mset (remove1 p xs)))"
  "\<not> is_open dial p \<Longrightarrow> filter_mset (is_open dial) (mset (remove1 p xs)) = filter_mset (is_open dial) (mset xs)"
  by (auto simp: filter_mset_eq_conv insert_DiffM2)

lemma receive_cancelled [simp]: "sn_cancelled (receive p s) = sn_cancelled s"
  by (simp add: receive_def)

lemma busy_shrinks: "p \<in> set xs \<Longrightarrow> \<exists>n. length xs = Suc n \<and> length (remove1 p xs) = n"
  by (induction xs) auto

lemma subset_without: "add_mset p A \<subseteq># B \<Longrightarrow> A \<subseteq># B"
  by (metis add_mset_add_single mset_subset_eq_add_left subset_mset.order_trans)

lemma subset_within: "A \<subseteq># B \<Longrightarrow> A \<subseteq># add_mset p B"
  by (metis add_mset_add_single mset_subset_eq_add_left subset_mset.order_trans)

lemma pool_step:
  assumes "pool_ok cfg s" "scan_step cfg host dial s s'"
  shows "pool_ok cfg s'"
  using assms(2)
proof cases
  case (shut p banner)
  from busy_shrinks [OF shut(2)] obtain n where "length (sn_busy s) = Suc n" "length (remove1 p (sn_busy s)) = n" by blast
  with shut(1) assms(1) show ?thesis by (simp add: pool_ok_def)
next
  case (found p banner)
  from busy_shrinks [OF found(2)] obtain n where "length (sn_busy s) = Suc n" "length (remove1 p (sn_busy s)) = n" by blast
  with found(1) assms(1) show ?thesis by (simp add: pool_ok_def)
qed (use assms(1) in \<open>auto simp: pool_ok_def receive_def\<close>)

lemma range_step:
  assumes "range_ok cfg s" "scan_step cfg host dial s s'"
  shows "range_ok cfg s'"
  using assms(2) by cases (use assms(1) in \<open>auto simp: range_ok_def receive_def\<close>)

lemma results_step:
  assumes "results_ok cfg host dial s" "scan_step cfg host dial s s'"
  shows "results_ok cfg host dial s'"
  using assms(2) by cases (use assms(1) in \<open>auto simp: results_ok_def receive_def\<close>)

text \<open>What a step does to the ports: one more sent, one handed over or dropped, one found shut or open, or nothing.\<close>

lemma ports_step:
  assumes "ports_ok cfg dial s" "range_ok cfg s" "scan_step cfg host dial s s'"
  shows "ports_ok cfg dial s'"
  using assms(3)
proof cases
  case send
  have "sent_open cfg dial s' = sent_open cfg dial s + (if is_open dial (sn_next s) then {#sn_next s#} else {#})"
    using sent_open_Suc [of cfg "sn_next s" dial] assms(2) send(1) by (simp add: sent_open_def range_ok_def)
  moreover have "in_hand dial s' = in_hand dial s + (if is_open dial (sn_next s) then {#sn_next s#} else {#})" "reported s' = reported s"
    using send(1) by (simp_all add: in_hand_def reported_def)
  ultimately show ?thesis using assms(1) send(1) by (simp add: ports_ok_def)
next
  case hand
  have sent: "sent_open cfg dial s' = sent_open cfg dial s + (if is_open dial (sn_next s) then {#sn_next s#} else {#})"
    using sent_open_Suc [of cfg "sn_next s" dial] assms(2) hand(1) by (simp add: sent_open_def range_ok_def receive_def)
  have "in_hand dial s' = in_hand dial s + (if is_open dial (sn_next s) \<and> \<not> sn_cancelled s then {#sn_next s#} else {#})" "reported s' = reported s"
    using hand(1,4) by (simp_all add: in_hand_def reported_def receive_def)
  then show ?thesis using assms(1) hand(1) sent
    by (auto simp: ports_ok_def intro: subset_within)
next
  case (take_port p ps)
  have "sent_open cfg dial s' = sent_open cfg dial s" "reported s' = reported s"
    "in_hand dial s = in_hand dial s' + (if is_open dial p \<and> sn_cancelled s then {#p#} else {#})"
    using take_port by (auto simp: sent_open_def in_hand_def reported_def receive_def)
  then show ?thesis using assms(1) take_port(1)
    by (auto simp: ports_ok_def dest: subset_without split: if_splits)
next
  case (shut p banner)
  then have "in_hand dial s' = in_hand dial s" "sent_open cfg dial s' = sent_open cfg dial s" "reported s' = reported s"
    using filter_remove1(2) [of dial p "sn_busy s"] probe_port_iff [OF shut(3)] by (simp_all add: in_hand_def sent_open_def reported_def)
  then show ?thesis using assms(1) shut(1) by (simp add: ports_ok_def)
next
  case (found p banner)
  then have "in_hand dial s = add_mset p (in_hand dial s')" "sent_open cfg dial s' = sent_open cfg dial s" "reported s' = add_mset p (reported s)"
    "sn_cancelled s' = sn_cancelled s"
    using filter_remove1(1) [of p "sn_busy s" dial] probe_port_iff [OF found(3)] by (simp_all add: in_hand_def sent_open_def reported_def)
  then show ?thesis using assms(1) by (auto simp: ports_ok_def)
qed (use assms(1) in \<open>auto simp: ports_ok_def in_hand_def sent_open_def reported_def add.assoc\<close>)

lemma inv_step:
  assumes "scan_inv cfg host dial s" "scan_step cfg host dial s s'"
  shows "scan_inv cfg host dial s'"
  using assms pool_step range_step ports_step results_step unfolding scan_inv_def by blast

lemma inv_reach: "scan_reach cfg host dial s \<Longrightarrow> scan_inv cfg host dial s"
proof (induction rule: scan_reach.induct)
  case (init s)
  then show ?case by (auto simp: ScanHost_def scan_inv_def pool_ok_def range_ok_def ports_ok_def results_ok_def reported_def in_hand_def sent_open_def split: if_splits)
qed (rule inv_step)

text \<open>Every step brings the scan closer to its end, and until then there is always one to take.\<close>

definition scan_measure :: "AttackSurfaceConfig \<Rightarrow> scan \<Rightarrow> nat" where
  "scan_measure cfg s =
     5 * nat (scan_end cfg + 1 - sn_next s) + 4 * length (sn_ports s) + 3 * length (sn_busy s) + sn_idle s + length (sn_results s) +
     (if sn_closed s then 0 else 1) + (if sn_cancelled s then 0 else 1)"

lemma step_decreases:
  assumes "scan_step cfg host dial s s'"
  shows "scan_measure cfg s' < scan_measure cfg s"
  using assms
proof cases
  case (shut p banner)
  from busy_shrinks [OF shut(2)] obtain n where "length (sn_busy s) = Suc n" "length (remove1 p (sn_busy s)) = n" by blast
  with shut show ?thesis by (simp add: scan_measure_def)
next
  case (found p banner)
  from busy_shrinks [OF found(2)] obtain n where "length (sn_busy s) = Suc n" "length (remove1 p (sn_busy s)) = n" by blast
  with found show ?thesis by (simp add: scan_measure_def)
qed (auto simp: scan_measure_def receive_def)

definition proceeds :: "AttackSurfaceConfig \<Rightarrow> string \<Rightarrow> (int \<Rightarrow> string option) \<Rightarrow> scan \<Rightarrow> bool" where
  "proceeds cfg host dial s \<longleftrightarrow> (\<exists>s'. scan_step cfg host dial s s' \<and> sn_cancelled s' = sn_cancelled s)"

lemma not_stuck:
  assumes "scan_inv cfg host dial s" "\<not> scan_over s"
  shows "proceeds cfg host dial s"
proof -
  have workers: "0 < scan_workers cfg" by (simp add: scan_workers_def)
  consider (res) "sn_results s \<noteq> []" | (busy) "sn_results s = []" "sn_busy s \<noteq> []"
    | (ports) "sn_ports s \<noteq> []" "0 < sn_idle s"
    | (left) "sn_results s = []" "sn_busy s = []" "sn_idle s = 0"
    | (wait) "sn_ports s = []" "0 < sn_idle s" by blast
  then show ?thesis
  proof cases
    case res
    then obtain r rs where "sn_results s = r # rs" by (cases "sn_results s") auto
    from scan_step.deliver [OF this] show ?thesis unfolding proceeds_def by fastforce
  next
    case busy
    then obtain p where p: "p \<in> set (sn_busy s)" by (cases "sn_busy s") auto
    obtain b banner where "probe_port cfg dial p = (b, banner)" by fastforce
    with scan_step.shut [OF p] scan_step.found [OF p] busy show ?thesis
      unfolding proceeds_def by (cases b) (fastforce simp: results_cap_def)+
  next
    case ports
    then obtain p ps where "sn_ports s = p # ps" by (cases "sn_ports s") auto
    from scan_step.take_port [OF this ports(2)] show ?thesis unfolding proceeds_def by fastforce
  next
    case left
    then have "\<not> sn_closed s" "sn_cancelled s" using assms workers by (auto simp: scan_inv_def pool_ok_def scan_over_def)
    from scan_step.stop_sending [OF this] show ?thesis unfolding proceeds_def by fastforce
  next
    case wait
    show ?thesis
    proof (cases "sn_closed s")
      case True
      from scan_step.leave [OF this wait] show ?thesis unfolding proceeds_def by fastforce
    next
      case False
      have "scan_step cfg host dial s (s\<lparr>sn_closed := True\<rparr>)" if "scan_end cfg < sn_next s" using scan_step.all_sent [OF False that] .
      moreover have "scan_step cfg host dial s (receive (sn_next s) (s\<lparr>sn_next := sn_next s + 1\<rparr>))" if "sn_next s \<le> scan_end cfg"
        using scan_step.hand [OF False that wait] .
      ultimately show ?thesis unfolding proceeds_def
        by (cases "sn_next s \<le> scan_end cfg") (auto intro: exI [of _ "receive (sn_next s) (s\<lparr>sn_next := sn_next s + 1\<rparr>)"] exI [of _ "s\<lparr>sn_closed := True\<rparr>"])
    qed
  qed
qed

lemma steps_bounded: "(scan_step cfg host dial ^^ n) s s' \<Longrightarrow> n + scan_measure cfg s' \<le> scan_measure cfg s"
proof (induction n arbitrary: s')
  case (Suc n)
  then obtain u where u: "(scan_step cfg host dial ^^ n) s u" "scan_step cfg host dial u s'" by auto
  from Suc.IH [OF u(1)] step_decreases [OF u(2)] show ?case by simp
qed simp

lemma ends:
  assumes "scan_reach cfg host dial s"
  shows "\<exists>s'. (scan_step cfg host dial)\<^sup>*\<^sup>* s s' \<and> scan_over s' \<and> sn_cancelled s' = sn_cancelled s"
  using assms
proof (induction "scan_measure cfg s" arbitrary: s rule: less_induct)
  case less
  show ?case
  proof (cases "scan_over s")
    case False
    from not_stuck [OF inv_reach [OF less.prems] False] obtain u where
      u: "scan_step cfg host dial s u" "sn_cancelled u = sn_cancelled s" unfolding proceeds_def by blast
    from less.hyps [OF step_decreases [OF u(1)] scan_reach.step [OF less.prems u(1)]] u show ?thesis
      by (metis converse_rtranclp_into_rtranclp)
  qed blast
qed

lemma distinct_sub: "mset xs \<subseteq># mset ys \<Longrightarrow> distinct ys \<Longrightarrow> distinct xs"
  unfolding distinct_count_atmost_1
  by (metis count_greater_eq_one_iff count_eq_zero_iff le_antisym mset_subset_eq_count mset_subset_eqD set_mset_mset)

lemma delivered_distinct:
  assumes "scan_inv cfg host dial s"
  shows "distinct (map rs_Port (sn_delivered s)) \<and> set (map rs_Port (sn_delivered s)) \<subseteq> {p. scan_start cfg \<le> p \<and> p \<le> scan_end cfg \<and> is_open dial p}"
proof -
  have "reported s + in_hand dial s \<subseteq># sent_open cfg dial s" using assms by (auto simp: scan_inv_def ports_ok_def split: if_splits)
  moreover have "mset (map rs_Port (sn_delivered s)) \<subseteq># reported s + in_hand dial s"
    unfolding reported_def map_append mset_append add.assoc by (rule mset_subset_eq_add_left)
  ultimately have "mset (map rs_Port (sn_delivered s)) \<subseteq># mset (filter (is_open dial) [scan_start cfg..sn_next s - 1])"
    unfolding sent_open_def mset_filter by (rule subset_mset.order_trans [rotated])
  moreover have "distinct (filter (is_open dial) [scan_start cfg..sn_next s - 1])" by simp
  ultimately have sub: "distinct (map rs_Port (sn_delivered s))" "set (map rs_Port (sn_delivered s)) \<subseteq> set (filter (is_open dial) [scan_start cfg..sn_next s - 1])"
    using distinct_sub set_mset_mono by (blast, fastforce)
  moreover have "sn_next s \<le> max (scan_start cfg) (scan_end cfg + 1)" using assms by (simp add: scan_inv_def range_ok_def)
  ultimately show ?thesis by auto
qed

section \<open>Properties\<close>

text \<open>
  C31: Whatever the number of workers and however their steps interleave, a scan reports only open ports of the range, each
  once, with the banner that was read; one that is not cancelled reports all of them by the time it is over. It takes
  a bounded number of steps, and from every state it can be completed without a cancellation. The hosts scanned are the
  distinct addresses of the known assets, or the local host.
\<close>

theorem port_scan_exact:
  assumes "scan_reach cfg host dial s"
  shows "(\<forall>r \<in> set (sn_delivered s). rs_Host r = host \<and> rs_Open r \<and> probe_port cfg dial (rs_Port r) = (True, rs_Banner r)) \<and>
    distinct (map rs_Port (sn_delivered s)) \<and>
    set (map rs_Port (sn_delivered s)) \<subseteq> {p. scan_start cfg \<le> p \<and> p \<le> scan_end cfg \<and> dial p \<noteq> None} \<and>
    (scan_over s \<and> \<not> sn_cancelled s \<longrightarrow> set (map rs_Port (sn_delivered s)) = {p. scan_start cfg \<le> p \<and> p \<le> scan_end cfg \<and> dial p \<noteq> None}) \<and>
    (\<forall>n s'. (scan_step cfg host dial ^^ n) s s' \<longrightarrow> n \<le> scan_measure cfg s) \<and>
    (\<exists>s'. (scan_step cfg host dial)\<^sup>*\<^sup>* s s' \<and> scan_over s' \<and> sn_cancelled s' = sn_cancelled s) \<and>
    (\<forall>lister. distinct (resolveTargets lister) \<and> resolveTargets lister \<noteq> [] \<and>
       (\<forall>assets. lister = Some (Some assets) \<and> (\<exists>a \<in> set assets. as_IP a \<noteq> []) \<longrightarrow> set (resolveTargets lister) = as_IP ` set assets - {[]}))"
proof -
  note inv = inv_reach [OF assms]
  have all: "set (map rs_Port (sn_delivered s)) = {p. scan_start cfg \<le> p \<and> p \<le> scan_end cfg \<and> dial p \<noteq> None}"
    if "scan_over s" "\<not> sn_cancelled s"
  proof -
    have ports: "sn_ports s = []" using inv that by (auto simp: scan_inv_def pool_ok_def scan_over_def scan_workers_def split: if_splits)
    have "mset (map rs_Port (sn_delivered s)) = filter_mset (is_open dial) (mset [scan_start cfg..sn_next s - 1])"
      using inv that ports by (simp add: scan_inv_def ports_ok_def scan_over_def reported_def in_hand_def sent_open_def)
    then have "set_mset (mset (map rs_Port (sn_delivered s))) = set_mset (filter_mset (is_open dial) (mset [scan_start cfg..sn_next s - 1]))"
      by (rule arg_cong)
    then have "set (map rs_Port (sn_delivered s)) = {p. scan_start cfg \<le> p \<and> p \<le> sn_next s - 1 \<and> is_open dial p}"
      unfolding set_mset_mset set_mset_filter set_upto by auto
    moreover have "sn_next s \<le> max (scan_start cfg) (scan_end cfg + 1)" "scan_end cfg < sn_next s"
      using inv that by (auto simp: scan_inv_def range_ok_def scan_over_def)
    ultimately show ?thesis by (auto simp: is_open_def)
  qed
  have targets: "distinct (resolveTargets lister) \<and> resolveTargets lister \<noteq> [] \<and>
       (\<forall>assets. lister = Some (Some assets) \<and> (\<exists>a \<in> set assets. as_IP a \<noteq> []) \<longrightarrow> set (resolveTargets lister) = as_IP ` set assets - {[]})" for lister
    using resolveTargets_spec by auto
  have "\<forall>r \<in> set (sn_delivered s). rs_Host r = host \<and> rs_Open r \<and> probe_port cfg dial (rs_Port r) = (True, rs_Banner r)"
    using inv by (simp add: scan_inv_def results_ok_def)
  moreover have "\<forall>n s'. (scan_step cfg host dial ^^ n) s s' \<longrightarrow> n \<le> scan_measure cfg s" using steps_bounded by fastforce
  ultimately show ?thesis using all delivered_distinct [OF inv] ends [OF assms] targets unfolding is_open_def by blast
qed

lemma reach_steps: "(scan_step cfg host dial)\<^sup>*\<^sup>* s s' \<Longrightarrow> scan_reach cfg host dial s \<Longrightarrow> scan_reach cfg host dial s'"
  by (induction rule: rtranclp_induct) (auto intro: scan_reach.step)

definition sample_surface :: AttackSurfaceConfig where
  "sample_surface = \<lparr>ac_Enabled = True, ac_ConcurrentScans = 2, ac_PortRange = \<lparr>pr_Start = 20, pr_End = 25\<rparr>, ac_BannerGrabbing = True\<rparr>"

definition sample_dial :: "int \<Rightarrow> string option" where
  "sample_dial p = (if p = 22 then Some ''SSH-2.0'' else None)"

theorem port_scan_exact_witness:
  "\<exists>s. scan_reach sample_surface ''10.0.0.7'' sample_dial s \<and> scan_over s \<and> set (map rs_Port (sn_delivered s)) = {22}"
proof -
  obtain s0 where s0: "ScanHost sample_surface = Some s0" "\<not> sn_cancelled s0" by (simp add: ScanHost_def sample_surface_def)
  have r0: "scan_reach sample_surface ''10.0.0.7'' sample_dial s0" by (rule scan_reach.init [OF s0(1)])
  have "\<exists>s. (scan_step sample_surface ''10.0.0.7'' sample_dial)\<^sup>*\<^sup>* s0 s \<and> scan_over s \<and> sn_cancelled s = sn_cancelled s0"
    using port_scan_exact [OF r0] by (elim conjE)
  with s0(2) obtain s where s: "(scan_step sample_surface ''10.0.0.7'' sample_dial)\<^sup>*\<^sup>* s0 s" "scan_over s" "\<not> sn_cancelled s" by auto
  note r = reach_steps [OF s(1) r0]
  have "scan_over s \<and> \<not> sn_cancelled s \<longrightarrow>
      set (map rs_Port (sn_delivered s)) = {p. scan_start sample_surface \<le> p \<and> p \<le> scan_end sample_surface \<and> sample_dial p \<noteq> None}"
    using port_scan_exact [OF r] by (elim conjE)
  with s have "set (map rs_Port (sn_delivered s)) = {p. scan_start sample_surface \<le> p \<and> p \<le> scan_end sample_surface \<and> sample_dial p \<noteq> None}" by blast
  also have "\<dots> = {22}" by (auto simp: scan_start_def scan_end_def sample_surface_def sample_dial_def)
  finally show ?thesis using r s(2) by blast
qed

text \<open>A negative number of workers is replaced by the default only after the channel of that capacity was made, which panics.\<close>

lemma negative_workers_panic: "ac_ConcurrentScans cfg < 0 \<Longrightarrow> ScanHost cfg = None"
  by (simp add: ScanHost_def)

end
