(* ===== verification/Virtual.thy ===== *)
theory Virtual
  imports Complex_Main Models Files
begin

text \<open>
  Discovery of virtual machines and containers (\<^verbatim>\<open>internal/discovery/virtual\<close>): reading the tables of \<^verbatim>\<open>virsh\<close>, the
  container listing and the resource statistics of Docker. The output of the commands and the replies of the Docker
  engine are arguments, as are the decoding of JSON and the printing of numbers; what is pushed into the pipeline is
  returned as a list.
\<close>

section \<open>Lines and fields\<close>

text \<open>
  \<^verbatim>\<open>bufio.Scanner\<close> by lines: the end of line and a carriage return before it are dropped, and scanning stops
  silently at a line that does not fit into the buffer of 64 kB.
\<close>

fun raw_lines :: "string \<Rightarrow> string \<Rightarrow> string list" where
  "raw_lines cur [] = (if cur = [] then [] else [cur])"
| "raw_lines cur (c # s) = (if c = CHR 0x0A then cur # raw_lines [] s else raw_lines (cur @ [c]) s)"

definition drop_cr :: "string \<Rightarrow> string" where
  "drop_cr l = (if l \<noteq> [] \<and> last l = CHR 0x0D then butlast l else l)"

definition scan_lines :: "string \<Rightarrow> string list" where
  "scan_lines s = map drop_cr (takeWhile (\<lambda>l. length l < 65536) (raw_lines [] s))"

text \<open>\<^verbatim>\<open>strings.Fields\<close>: \<open>skip\<close> counts the rest of a white space character of several bytes.\<close>

fun fields_loop :: "nat \<Rightarrow> string \<Rightarrow> string \<Rightarrow> string list" where
  "fields_loop skip cur [] = (if cur = [] then [] else [cur])"
| "fields_loop (Suc skip) cur (c # s) = fields_loop skip cur s"
| "fields_loop 0 cur (c # s) =
     (case find (\<lambda>r. prefix r (c # s)) space_runes of
        None \<Rightarrow> fields_loop 0 (cur @ [c]) s
      | Some r \<Rightarrow> (if cur = [] then [] else [cur]) @ fields_loop (length r - 1) [] s)"

definition strings_Fields :: "string \<Rightarrow> string list" where
  "strings_Fields s = fields_loop 0 [] s"

section \<open>Virtual machines\<close>

record domain =
  dm_id :: string
  dm_name :: string
  dm_state :: string

record domInfo =
  di_vcpus :: string
  di_memoryKB :: string
  di_autostart :: string

record virsh =
  vs_installed :: bool
  vs_list :: "string option"
  vs_dominfo :: "string \<Rightarrow> string option"
  vs_domifaddr :: "string \<Rightarrow> string option"

datatype virtual_error = NoVirsh | VirshFailed | DockerUnreachable | DockerStatus nat | DockerDecode

datatype pushed = PushedAsset Asset | PushedEvent NetworkEvent

definition parse_domain :: "string \<Rightarrow> domain option" where
  "parse_domain text =
     (let line = strings_TrimSpace text; fields = strings_Fields line
      in if line = [] then None
         else if length fields < 3 then None
         else Some \<lparr>dm_id = fields ! 0, dm_name = fields ! 1, dm_state = strings_Join (drop 2 fields) '' ''\<rparr>)"

definition listDomains :: "string option \<Rightarrow> virtual_error + domain list" where
  "listDomains out =
     (case out of None \<Rightarrow> Inl VirshFailed | Some text \<Rightarrow> Inr (List.map_filter parse_domain (drop 2 (scan_lines text))))"

definition info_line :: "string \<Rightarrow> domInfo \<Rightarrow> domInfo" where
  "info_line line info =
     (case strings_SplitN2 line (CHR '':'') of
        [k, v] \<Rightarrow>
          (let key = strings_TrimSpace k; val = strings_TrimSpace v
           in if key = ''CPU(s)'' then info\<lparr>di_vcpus := val\<rparr>
              else if key = ''Max memory'' \<or> key = ''Used memory'' then (if di_memoryKB info = [] then info\<lparr>di_memoryKB := val\<rparr> else info)
              else if key = ''Autostart'' then info\<lparr>di_autostart := val\<rparr>
              else info)
      | _ \<Rightarrow> info)"

definition domainInfo :: "string option \<Rightarrow> virtual_error + domInfo" where
  "domainInfo out =
     (case out of None \<Rightarrow> Inl VirshFailed
      | Some text \<Rightarrow> Inr (fold info_line (scan_lines text) \<lparr>di_vcpus = [], di_memoryKB = [], di_autostart = []\<rparr>))"

definition before_slash :: "string \<Rightarrow> string" where
  "before_slash s = (let w = takeWhile (\<lambda>c. c \<noteq> CHR ''/'') s in if w \<noteq> [] \<and> w \<noteq> s then w else s)"

definition domainNetwork :: "string option \<Rightarrow> string \<times> string" where
  "domainNetwork out =
     (case out of None \<Rightarrow> ([], [])
      | Some text \<Rightarrow>
          (case find (\<lambda>fs. 4 \<le> length fs) (map strings_Fields (drop 2 (scan_lines text))) of
             None \<Rightarrow> ([], [])
           | Some fs \<Rightarrow> (before_slash (fs ! 3), fs ! 1)))"

definition vm_asset :: "domain \<Rightarrow> string \<Rightarrow> string \<Rightarrow> Asset" where
  "vm_asset vm ip mac =
     \<lparr>as_ID = ''vm-'' @ dm_id vm, as_IP = ip, as_MAC = mac, as_Hostname = dm_name vm, as_OS = ''vm/libvirt'', as_Ports = [],
      as_FirstSeen = 0, as_LastSeen = 0\<rparr>"

definition vm_event :: "gotime \<Rightarrow> domain \<Rightarrow> domInfo \<Rightarrow> NetworkEvent" where
  "vm_event now vm info =
     (let meta = [''domain'' \<mapsto> AString (dm_name vm), ''state'' \<mapsto> AString (dm_state vm), ''vcpus'' \<mapsto> AString (di_vcpus info),
                  ''memory_kb'' \<mapsto> AString (di_memoryKB info), ''vm_id'' \<mapsto> AString (dm_id vm)]
      in \<lparr>ev_ID = [], ev_Type = EventVM, ev_Source = ''libvirt'', ev_Destination = dm_name vm,
          ev_Metadata = Some (if di_autostart info \<noteq> [] then meta(''autostart'' \<mapsto> AString (di_autostart info)) else meta),
          ev_Timestamp = now, ev_Signature = [], ev_SignerKeyID = []\<rparr>)"

definition scan_domain :: "virsh \<Rightarrow> bool \<Rightarrow> gotime \<Rightarrow> domain \<Rightarrow> pushed list" where
  "scan_domain v pipeline now vm =
     (case domainInfo (vs_dominfo v (dm_name vm)) of
        Inl _ \<Rightarrow> []
      | Inr info \<Rightarrow>
          (case domainNetwork (vs_domifaddr v (dm_name vm)) of (ip, mac) \<Rightarrow>
             if pipeline then [PushedAsset (vm_asset vm ip mac), PushedEvent (vm_event now vm info)] else []))"

definition libvirt_Scan :: "virsh \<Rightarrow> bool \<Rightarrow> gotime \<Rightarrow> virtual_error + pushed list" where
  "libvirt_Scan v pipeline now =
     (if \<not> vs_installed v then Inl NoVirsh
      else (case listDomains (vs_list v) of
              Inl e \<Rightarrow> Inl e
            | Inr domains \<Rightarrow> Inr (concat (map (scan_domain v pipeline now) domains))))"

text \<open>The entry of the configuration for libvirt is an arbitrary YAML value.\<close>

definition libvirt_entry :: "(string \<times> gany) list \<Rightarrow> string \<Rightarrow> gany option" where
  "libvirt_entry hypervisors key =
     (case map_of hypervisors ''libvirt'' of Some (AMap m) \<Rightarrow> map_of m key | _ \<Rightarrow> None)"

definition libvirt_uri :: "(string \<times> gany) list \<Rightarrow> string" where
  "libvirt_uri hypervisors =
     (case libvirt_entry hypervisors ''uri'' of Some (AString u) \<Rightarrow> if u \<noteq> [] then u else ''qemu:///system'' | _ \<Rightarrow> ''qemu:///system'')"

definition libvirt_Enabled :: "(string \<times> gany) list \<Rightarrow> bool" where
  "libvirt_Enabled hypervisors = (case libvirt_entry hypervisors ''enabled'' of Some (ABool b) \<Rightarrow> b | _ \<Rightarrow> False)"

section \<open>Containers\<close>

text \<open>The networks of a container are in the order in which Go walks the map this time.\<close>

record container =
  co_Id :: string
  co_Names :: "string list"
  co_Image :: string
  co_State :: string
  co_Networks :: "(string \<times> string \<times> string) list"

datatype docker_reply = NoReply | Reply nat "bytes option"

definition docker_body :: "(bytes \<Rightarrow> 'a option) \<Rightarrow> docker_reply \<Rightarrow> virtual_error + 'a" where
  "docker_body unmarshal reply =
     (case reply of
        NoReply \<Rightarrow> Inl DockerUnreachable
      | Reply status body \<Rightarrow>
          if status \<noteq> 200 then Inl (DockerStatus status)
          else (case body of
                  None \<Rightarrow> Inl DockerUnreachable
                | Some data \<Rightarrow> (case unmarshal data of None \<Rightarrow> Inl DockerDecode | Some x \<Rightarrow> Inr x)))"

definition shortID :: "string \<Rightarrow> string" where
  "shortID s = (if length s > 12 then take 12 s else s)"

definition container_name :: "container \<Rightarrow> string" where
  "container_name c = (if length (co_Names c) > 0 then co_Names c ! 0 else ''unknown'')"

definition container_asset :: "container \<Rightarrow> Asset" where
  "container_asset c =
     (let (ip, mac) = (case co_Networks c of [] \<Rightarrow> ([], []) | (_, ip, mac) # _ \<Rightarrow> (ip, mac))
      in \<lparr>as_ID = ''docker-'' @ shortID (co_Id c), as_IP = ip, as_MAC = mac, as_Hostname = container_name c,
          as_OS = ''container/'' @ co_Image c, as_Ports = [], as_FirstSeen = 0, as_LastSeen = 0\<rparr>)"

definition docker_Scan :: "(bytes \<Rightarrow> container list option) \<Rightarrow> bool \<Rightarrow> docker_reply \<Rightarrow> virtual_error + Asset list" where
  "docker_Scan unmarshal pipeline reply =
     (case docker_body unmarshal reply of Inl e \<Rightarrow> Inl e | Inr cs \<Rightarrow> Inr (if pipeline then map container_asset cs else []))"

section \<open>Resource statistics\<close>

record dockerStats =
  ds_TotalUsage :: u64
  ds_SystemCPUUsage :: u64
  ds_OnlineCPUs :: int
  ds_PreTotalUsage :: u64
  ds_PreSystemCPUUsage :: u64
  ds_MemUsage :: u64
  ds_MemLimit :: u64
  ds_Networks :: "(string \<times> u64 \<times> u64) list"
  ds_Blkio :: "(string \<times> u64) list"

definition float_of :: "u64 \<Rightarrow> real" where "float_of w = real (unat w)"

definition calculateCPUPercent :: "dockerStats \<Rightarrow> real" where
  "calculateCPUPercent s =
     (let cpuDelta = float_of (ds_TotalUsage s - ds_PreTotalUsage s);
          systemDelta = float_of (ds_SystemCPUUsage s - ds_PreSystemCPUUsage s)
      in if systemDelta \<le> 0 \<or> cpuDelta \<le> 0 then 0
         else (let cpus = (if ds_OnlineCPUs s = 0 then 1 else ds_OnlineCPUs s) in cpuDelta / systemDelta * real_of_int cpus * 100))"

definition memory_percent :: "dockerStats \<Rightarrow> real" where
  "memory_percent s = (if ds_MemLimit s > 0 then float_of (ds_MemUsage s) / float_of (ds_MemLimit s) * 100 else 0)"

definition blkio_sum :: "string list \<Rightarrow> (string \<times> u64) list \<Rightarrow> u64" where
  "blkio_sum ops entries = sum_list (map snd (filter (\<lambda>e. fst e \<in> set ops) entries))"

definition stats_event :: "(real \<Rightarrow> string) \<Rightarrow> gotime \<Rightarrow> string \<Rightarrow> string \<Rightarrow> dockerStats \<Rightarrow> NetworkEvent" where
  "stats_event fmt2 now containerID containerName s =
     \<lparr>ev_ID = [], ev_Type = EventVM, ev_Source = ''docker-'' @ shortID containerID, ev_Destination = ''resource-stats'',
      ev_Metadata = Some [''container_id'' \<mapsto> AString (shortID containerID), ''container_name'' \<mapsto> AString containerName,
        ''cpu_percent'' \<mapsto> AString (fmt2 (calculateCPUPercent s)),
        ''memory_usage'' \<mapsto> AInt (uint (ds_MemUsage s)), ''memory_limit'' \<mapsto> AInt (uint (ds_MemLimit s)),
        ''memory_percent'' \<mapsto> AString (fmt2 (memory_percent s)),
        ''net_rx_bytes'' \<mapsto> AInt (uint (sum_list (map (fst \<circ> snd) (ds_Networks s)))),
        ''net_tx_bytes'' \<mapsto> AInt (uint (sum_list (map (snd \<circ> snd) (ds_Networks s)))),
        ''blk_read'' \<mapsto> AInt (uint (blkio_sum [''read'', ''Read''] (ds_Blkio s))),
        ''blk_write'' \<mapsto> AInt (uint (blkio_sum [''write'', ''Write''] (ds_Blkio s)))],
      ev_Timestamp = now, ev_Signature = [], ev_SignerKeyID = []\<rparr>"

definition Collect_stats ::
  "(bytes \<Rightarrow> dockerStats option) \<Rightarrow> (real \<Rightarrow> string) \<Rightarrow> bool \<Rightarrow> gotime \<Rightarrow> docker_reply \<Rightarrow> string \<Rightarrow> string \<Rightarrow> virtual_error + NetworkEvent list" where
  "Collect_stats unmarshal fmt2 pipeline now reply containerID containerName =
     (case docker_body unmarshal reply of
        Inl e \<Rightarrow> Inl e
      | Inr s \<Rightarrow> Inr (if pipeline then [stats_event fmt2 now containerID containerName s] else []))"

text \<open>Containers that are not running are skipped, and a failure for one does not keep the others from being measured.\<close>

definition CollectAll ::
  "(bytes \<Rightarrow> container list option) \<Rightarrow> (bytes \<Rightarrow> dockerStats option) \<Rightarrow> (real \<Rightarrow> string) \<Rightarrow> bool \<Rightarrow> gotime \<Rightarrow> docker_reply \<Rightarrow>
   (string \<Rightarrow> docker_reply) \<Rightarrow> virtual_error + NetworkEvent list" where
  "CollectAll unmarshal_list unmarshal_stats fmt2 pipeline now reply stats =
     (case docker_body unmarshal_list reply of
        Inl e \<Rightarrow> Inl e
      | Inr cs \<Rightarrow>
          Inr (concat (map (\<lambda>c. case Collect_stats unmarshal_stats fmt2 pipeline now (stats (co_Id c)) (co_Id c) (container_name c) of
                                  Inl _ \<Rightarrow> [] | Inr evs \<Rightarrow> evs)
                           (filter (\<lambda>c. co_State c = ''running'') cs))))"

section \<open>Reading the table of machines\<close>

text \<open>Words of printable ASCII, and the table as \<^verbatim>\<open>virsh\<close> prints it: two lines of header, then one line per machine.\<close>

abbreviation graphic :: "char \<Rightarrow> bool" where
  "graphic c \<equiv> 33 \<le> (of_char c :: nat) \<and> (of_char c :: nat) \<le> 126"

definition word_ok :: "string \<Rightarrow> bool" where
  "word_ok w \<longleftrightarrow> w \<noteq> [] \<and> list_all graphic w"

definition domain_line :: "domain \<Rightarrow> string" where
  "domain_line vm = '' '' @ dm_id vm @ ''   '' @ dm_name vm @ ''   '' @ dm_state vm"

definition domain_table :: "string \<Rightarrow> string \<Rightarrow> domain list \<Rightarrow> string" where
  "domain_table h1 h2 vms = concat (map (\<lambda>l. l @ [CHR 0x0A]) (h1 # h2 # map domain_line vms @ [[]]))"

definition domain_ok :: "domain \<Rightarrow> bool" where
  "domain_ok vm \<longleftrightarrow>
     word_ok (dm_id vm) \<and> word_ok (dm_name vm) \<and>
     (\<exists>ws. ws \<noteq> [] \<and> list_all word_ok ws \<and> dm_state vm = strings_Join ws '' '') \<and> length (domain_line vm) < 65536"

lemma rune_heads: "r \<in> set (space_runes @ map rev space_runes) \<Longrightarrow> r \<noteq> [] \<and> \<not> graphic (hd r)"
proof -
  have "list_all (\<lambda>r. r \<noteq> [] \<and> \<not> graphic (hd r)) (space_runes @ map rev space_runes)"
    by (simp add: space_runes_def upt_rec)
  then show "r \<in> set (space_runes @ map rev space_runes) \<Longrightarrow> ?thesis" unfolding list_all_iff by blast
qed

lemma blank_rune: "r \<in> set space_runes \<Longrightarrow> hd r = CHR '' '' \<Longrightarrow> r = '' ''" "'' '' \<in> set space_runes"
proof -
  have blank: "CHR '' '' = char_of (32 :: nat)" by code_simp
  have "list_all (\<lambda>r. of_char (hd r) = (32 :: nat) \<longrightarrow> r = [char_of (32 :: nat)]) space_runes" by (simp add: space_runes_def upt_rec)
  then show "r \<in> set space_runes \<Longrightarrow> hd r = CHR '' '' \<Longrightarrow> r = '' ''" unfolding list_all_iff blank by simp
  show "'' '' \<in> set space_runes" unfolding blank by (simp add: space_runes_def)
qed

lemma no_rune: "graphic c \<Longrightarrow> find (\<lambda>r. prefix r (c # s)) space_runes = None"
  using rune_heads by (fastforce simp: find_None_iff prefix_Cons)

lemma fields_word:
  assumes "list_all graphic w"
  shows "fields_loop 0 cur (w @ s) = fields_loop 0 (cur @ w) s"
  using assms by (induction w arbitrary: cur) (auto simp: no_rune)

lemma fields_blank: "fields_loop 0 cur (CHR '' '' # s) = (if cur = [] then [] else [cur]) @ fields_loop 0 [] s"
proof -
  let ?P = "\<lambda>r. prefix r (CHR '' '' # s)"
  have "?P '' ''" by simp
  then obtain r where r: "find ?P space_runes = Some r" using blank_rune(2) by (metis find_None_iff not_None_eq)
  then have "r \<in> set space_runes" "?P r" by (auto simp: find_Some_iff)
  with rune_heads [of r] have "hd r = CHR '' ''" by (cases r) auto
  with blank_rune(1) \<open>r \<in> set space_runes\<close> have "r = '' ''" by blast
  with r show ?thesis by simp
qed

lemma fields_words:
  assumes "list_all word_ok ws" "ws \<noteq> []"
  shows "fields_loop 0 [] (strings_Join ws '' '') = ws"
  using assms
proof (induction ws)
  case (Cons w ws)
  then have w: "list_all graphic w" "w \<noteq> []" by (simp_all add: word_ok_def)
  show ?case
  proof (cases ws)
    case Nil
    then show ?thesis using fields_word [OF w(1), of "[]" "[]"] w(2) by simp
  next
    case (Cons v vs)
    then show ?thesis using fields_word [OF w(1), of "[]" "'' '' @ strings_Join ws '' ''"] w(2) fields_blank Cons.IH Cons.prems by simp
  qed
qed simp

lemma join_ends:
  assumes "list_all word_ok ws" "ws \<noteq> []"
  shows "strings_Join ws '' '' \<noteq> [] \<and> graphic (last (strings_Join ws '' '')) \<and> CHR 0x0A \<notin> set (strings_Join ws '' '')"
  using assms
proof (induction ws)
  case (Cons w ws)
  then have w: "w \<noteq> []" "graphic (last w)" "CHR 0x0A \<notin> set w" by (auto simp: word_ok_def list_all_iff)
  show ?case using Cons w by (cases ws) auto
qed simp

lemma trim_blank_line:
  assumes "s \<noteq> []" "graphic (hd s)" "graphic (last s)"
  shows "strings_TrimSpace ('' '' @ s) = s"
proof -
  obtain c t where c: "s = c # t" using assms(1) by (cases s) auto
  have solid: "trim_front runes (d # u) = d # u" if "graphic d" "set runes \<subseteq> set (space_runes @ map rev space_runes)" for d u runes
    using that rune_heads by (intro trim_front_stop) blast
  have "trim_front space_runes ('' '' @ s) = trim_front space_runes s"
    using trim_front_step [OF blank_rune(2)] blank_rune(1) by simp
  also have "\<dots> = s" using solid [of c space_runes t] assms(2) c by simp
  finally have front: "trim_front space_runes ('' '' @ s) = s" .
  obtain d u where d: "rev s = d # u" using assms(1) by (cases "rev s") auto
  then have "graphic d" using assms(3) by (metis hd_rev list.sel(1))
  then have "trim_front (map rev space_runes) (rev s) = rev s" using solid [of d "map rev space_runes" u] d by simp
  with front show ?thesis by (simp add: strings_TrimSpace_def)
qed

lemma parse_line:
  assumes "domain_ok vm"
  shows "parse_domain (domain_line vm) = Some vm"
proof -
  obtain ws where ws: "ws \<noteq> []" "list_all word_ok ws" "dm_state vm = strings_Join ws '' ''" using assms by (auto simp: domain_ok_def)
  let ?s = "dm_id vm @ ''   '' @ dm_name vm @ ''   '' @ dm_state vm"
  have words: "list_all graphic (dm_id vm)" "dm_id vm \<noteq> []" "list_all graphic (dm_name vm)" "dm_name vm \<noteq> []"
    using assms by (simp_all add: domain_ok_def word_ok_def)
  have "graphic (hd ?s)" using words(1,2) by (cases "dm_id vm") auto
  moreover have "graphic (last ?s)" using join_ends [OF ws(2,1)] ws(3) by simp
  ultimately have trim: "strings_TrimSpace (domain_line vm) = ?s" unfolding domain_line_def using words(2) by (intro trim_blank_line) auto
  have "strings_Fields ?s = [dm_id vm, dm_name vm] @ ws"
    using words fields_words [OF ws(2,1)] ws(3) by (simp add: strings_Fields_def fields_word fields_blank del: fields_loop.simps(3))
  then show ?thesis using ws words(2) trim by (cases ws) (auto simp: parse_domain_def Let_def)
qed

lemma raw_line: "CHR 0x0A \<notin> set l \<Longrightarrow> raw_lines cur (l @ CHR 0x0A # s) = (cur @ l) # raw_lines [] s"
  by (induction l arbitrary: cur) auto

lemma raw_lines_concat: "\<forall>l \<in> set ls. CHR 0x0A \<notin> set l \<Longrightarrow> raw_lines [] (concat (map (\<lambda>l. l @ [CHR 0x0A]) ls)) = ls"
  by (induction ls) (simp_all add: raw_line)

lemma line_chars:
  assumes "domain_ok vm"
  shows "CHR 0x0A \<notin> set (domain_line vm)" "drop_cr (domain_line vm) = domain_line vm"
proof -
  obtain ws where ws: "ws \<noteq> []" "list_all word_ok ws" "dm_state vm = strings_Join ws '' ''" using assms by (auto simp: domain_ok_def)
  note ends = join_ends [OF ws(2,1), folded ws(3)]
  have "last (domain_line vm) = last (dm_state vm)" using ends by (simp add: domain_line_def)
  then show "drop_cr (domain_line vm) = domain_line vm" using ends by (auto simp: drop_cr_def)
  show "CHR 0x0A \<notin> set (domain_line vm)" using ends assms by (auto simp: domain_line_def domain_ok_def word_ok_def list_all_iff)
qed

text \<open>The machines that are listed are read back exactly.\<close>

theorem virsh_table_read:
  assumes "list_all domain_ok vms" "CHR 0x0A \<notin> set h1" "length h1 < 65536" "CHR 0x0A \<notin> set h2" "length h2 < 65536"
  shows "listDomains (Some (domain_table h1 h2 vms)) = Inr vms"
proof -
  let ?ls = "h1 # h2 # map domain_line vms @ [[]]"
  have "\<forall>l \<in> set ?ls. CHR 0x0A \<notin> set l" using assms line_chars by (auto simp: list_all_iff)
  then have "raw_lines [] (domain_table h1 h2 vms) = ?ls" unfolding domain_table_def by (rule raw_lines_concat)
  moreover have "takeWhile (\<lambda>l. length l < 65536) ?ls = ?ls" using assms by (auto simp: takeWhile_eq_all_conv list_all_iff domain_ok_def)
  moreover have "map drop_cr (map domain_line vms) = map domain_line vms" using assms(1) line_chars by (simp add: list_all_iff)
  ultimately have "drop 2 (scan_lines (domain_table h1 h2 vms)) = map domain_line vms @ [[]]" by (simp add: scan_lines_def drop_cr_def)
  moreover have "parse_domain [] = None" by (simp add: parse_domain_def trim_empty)
  moreover have "List.map_filter parse_domain (map domain_line vms @ [[]]) = vms"
    using assms(1) \<open>parse_domain [] = None\<close> by (induction vms) (simp_all add: List.map_filter_simps parse_line)
  ultimately show ?thesis by (simp add: listDomains_def)
qed

text \<open>
  A machine that is shut off is listed with a dash for its number, so that all of them become the same asset.
\<close>

lemma inactive_machines_collide:
  "dm_id a = ''-'' \<Longrightarrow> dm_id b = ''-'' \<Longrightarrow> as_ID (vm_asset a ip mac) = as_ID (vm_asset b ip' mac')"
  by (simp add: vm_asset_def)

section \<open>Statistics\<close>

text \<open>While the counters grow the share of the processors is exact; after a reset of the counter the difference wraps.\<close>

lemma cpu_percent_exact:
  assumes "ds_PreTotalUsage s < ds_TotalUsage s" "ds_PreSystemCPUUsage s < ds_SystemCPUUsage s" "0 < ds_OnlineCPUs s"
  shows "calculateCPUPercent s =
    (real (unat (ds_TotalUsage s)) - real (unat (ds_PreTotalUsage s))) / (real (unat (ds_SystemCPUUsage s)) - real (unat (ds_PreSystemCPUUsage s)))
      * real_of_int (ds_OnlineCPUs s) * 100"
proof -
  have "float_of (a - b) = real (unat a) - real (unat b) \<and> 0 < float_of (a - b)" if "b < a" for a b :: u64
    using that by (simp add: float_of_def unat_sub less_imp_le word_less_nat_alt of_nat_diff del: of_nat_unat)
  from this [OF assms(1)] this [OF assms(2)] show ?thesis
    using assms(3) unfolding calculateCPUPercent_def Let_def by (auto simp del: of_nat_unat)
qed

lemma cpu_counter_reset:
  assumes "ds_TotalUsage s = 0" "ds_PreTotalUsage s = 1" "ds_SystemCPUUsage s = ds_PreSystemCPUUsage s + 10 ^ 9" "ds_OnlineCPUs s = 1"
  shows "calculateCPUPercent s > 10 ^ 12"
proof -
  have "float_of (- 1) = 2 ^ 64 - 1" "float_of (10 ^ 9) = 10 ^ 9"
    by (simp_all add: float_of_def unsigned_minus_1_eq_mask mask_eq_exp_minus_1)
  then show ?thesis using assms by (simp add: calculateCPUPercent_def Let_def)
qed

end
