(* ===== verification/Devices.thy ===== *)
theory Devices
  imports Models Files Virtual
begin

text \<open>
  Passive discovery over ARP (\<^verbatim>\<open>internal/network/discovery\<close>), the enumeration of hardware
  (\<^verbatim>\<open>internal/discovery/physical\<close>) and the choice of loops of virtual discovery. The capture library, the list
  of interfaces, the printing of addresses and the files below \<^verbatim>\<open>/sys\<close> are arguments.
\<close>

section \<open>ARP\<close>

definition arp_operation :: "nat \<Rightarrow> string" where
  "arp_operation op = (if op = 1 then ''Request'' else if op = 2 then ''Reply'' else ''Unknown'')"

record arp_packet =
  ap_Operation :: nat
  ap_SourceHw :: bytes
  ap_SourceProt :: bytes

definition handleARP :: "(bytes \<Rightarrow> string) \<Rightarrow> (bytes \<Rightarrow> string) \<Rightarrow> bool \<Rightarrow> string \<Rightarrow> gotime \<Rightarrow> arp_packet \<Rightarrow> NetworkEvent list" where
  "handleARP ip_String mac_String pipeline uuid now arp =
     (if \<not> pipeline then []
      else
        [\<lparr>ev_ID = uuid, ev_Type = EventARP, ev_Source = ip_String (ap_SourceProt arp), ev_Destination = ''SIEM_DISCOVERY'',
          ev_Metadata = Some [''ip'' \<mapsto> AString (ip_String (ap_SourceProt arp)), ''mac'' \<mapsto> AString (mac_String (ap_SourceHw arp)),
            ''operation'' \<mapsto> AString (arp_operation (ap_Operation arp))],
          ev_Timestamp = now, ev_Signature = [], ev_SignerKeyID = []\<rparr>])"

text \<open>A packet without an ARP layer is ignored.\<close>

definition processPacket ::
  "(bytes \<Rightarrow> string) \<Rightarrow> (bytes \<Rightarrow> string) \<Rightarrow> bool \<Rightarrow> string \<Rightarrow> gotime \<Rightarrow> arp_packet option \<Rightarrow> NetworkEvent list" where
  "processPacket ip_String mac_String pipeline uuid now layer =
     (case layer of None \<Rightarrow> [] | Some arp \<Rightarrow> handleARP ip_String mac_String pipeline uuid now arp)"

definition ipToInt :: "bytes \<Rightarrow> nat option" where
  "ipToInt ip =
     (if length ip = 16 then Some (be_nat (drop 12 ip)) else if length ip < 4 then None else Some (be_nat (take 4 ip)))"

section \<open>The passive scanner\<close>

text \<open>
  The capture handles that are open, the one the scanner holds, the stop channel and whether it runs. \<open>None\<close> is a
  panic: a channel is closed twice.
\<close>

record Scanner =
  sc_open :: "nat list"
  sc_handle :: "nat option"
  sc_stopClosed :: bool
  sc_isRunning :: bool

definition NewScanner :: Scanner where
  "NewScanner = \<lparr>sc_open = [], sc_handle = None, sc_stopClosed = False, sc_isRunning = False\<rparr>"

datatype scanner_error = OpenFailed | FilterFailed

text \<open>\<open>opened\<close> is the handle of a successful opening, \<open>filtered\<close> whether the filter could be set.\<close>

definition scanner_Start :: "nat option \<Rightarrow> bool \<Rightarrow> Scanner \<Rightarrow> scanner_error option \<times> Scanner" where
  "scanner_Start opened filtered s =
     (if sc_isRunning s then (None, s)
      else (case opened of
              None \<Rightarrow> (Some OpenFailed, s\<lparr>sc_handle := None\<rparr>)
            | Some h \<Rightarrow>
                (let s' = s\<lparr>sc_open := h # sc_open s, sc_handle := Some h\<rparr>
                 in if \<not> filtered then (Some FilterFailed, s') else (None, s'\<lparr>sc_isRunning := True\<rparr>))))"

definition scanner_Stop :: "Scanner \<Rightarrow> Scanner option" where
  "scanner_Stop s =
     (if \<not> sc_isRunning s then Some s
      else if sc_stopClosed s then None
      else
        (let s' = s\<lparr>sc_stopClosed := True\<rparr>
         in Some ((case sc_handle s' of None \<Rightarrow> s' | Some h \<Rightarrow> s'\<lparr>sc_open := remove1 h (sc_open s')\<rparr>)\<lparr>sc_isRunning := False\<rparr>)))"

record net_interface =
  ni_Name :: string
  ni_Loopback :: bool
  ni_Up :: bool

definition findInterface :: "net_interface list option \<Rightarrow> string option" where
  "findInterface ifaces =
     (case ifaces of None \<Rightarrow> None | Some is \<Rightarrow> map_option ni_Name (find (\<lambda>i. \<not> (ni_Loopback i \<or> \<not> ni_Up i)) is))"

text \<open>Starting the service never fails; without an interface or permission it stays idle.\<close>

definition discovery_Start :: "bool \<Rightarrow> net_interface list option \<Rightarrow> (string \<Rightarrow> nat option) \<Rightarrow> bool \<Rightarrow> Scanner \<Rightarrow> Scanner" where
  "discovery_Start enabled ifaces open_live filtered s =
     (if \<not> enabled then s
      else (case findInterface ifaces of None \<Rightarrow> s | Some iface \<Rightarrow> snd (scanner_Start (open_live iface) filtered s)))"

section \<open>Hardware\<close>

fun readSysAttr :: "(string \<Rightarrow> bytes option) \<Rightarrow> string \<Rightarrow> string list \<Rightarrow> string" where
  "readSysAttr read devicePath [] = []"
| "readSysAttr read devicePath (name # names) =
     (case read (filepath_Join devicePath name) of
        Some data \<Rightarrow> gostring data
      | None \<Rightarrow> readSysAttr read devicePath names)"

record Device =
  dv_Bus :: string
  dv_ID :: string
  dv_Vendor :: string
  dv_Product :: string
  dv_Class :: string

definition device_at :: "(string \<Rightarrow> bytes option) \<Rightarrow> string \<Rightarrow> string \<Rightarrow> Device" where
  "device_at read bus entry =
     (let devicePath = filepath_Join (filepath_Join (filepath_Join ''/sys/bus'' bus) ''devices'') entry
      in \<lparr>dv_Bus = bus, dv_ID = entry, dv_Vendor = readSysAttr read devicePath [''idVendor'', ''vendor''],
          dv_Product = readSysAttr read devicePath [''idProduct'', ''device''], dv_Class = readSysAttr read devicePath [''bDeviceClass'', ''class'']\<rparr>)"

definition device_asset :: "Device \<Rightarrow> Asset" where
  "device_asset dev =
     \<lparr>as_ID = dv_Bus dev @ ''-'' @ dv_ID dev, as_IP = [], as_MAC = ''system-hardware'', as_Hostname = dv_Vendor dev @ '' / '' @ dv_Product dev,
      as_OS = ''linux-sysfs'', as_Ports = [], as_FirstSeen = 0, as_LastSeen = 0\<rparr>"

definition Enumerate :: "(string \<Rightarrow> string list option) \<Rightarrow> (string \<Rightarrow> bytes option) \<Rightarrow> string list \<Rightarrow> bool \<Rightarrow> Asset list" where
  "Enumerate read_dir read devices pipeline =
     (let buses = (if length devices = 0 then [''usb'', ''pci''] else devices)
      in concat (map (\<lambda>bus.
           (case read_dir (filepath_Join (filepath_Join ''/sys/bus'' bus) ''devices'') of
              None \<Rightarrow> []
            | Some entries \<Rightarrow> if pipeline then map (\<lambda>entry. device_asset (device_at read bus entry)) entries else [])) buses))"

section \<open>Virtual discovery\<close>

datatype virtual_loop = DockerLoop duration | LibvirtLoop duration

text \<open>Which loops are started, with their intervals; the configuration of hypervisors may be missing.\<close>

definition virtual_Start :: "bool \<times> int \<Rightarrow> (bool \<times> int \<times> (string \<times> gany) list) option \<Rightarrow> virtual_loop list" where
  "virtual_Start containers vms =
     (let interval = (\<lambda>minutes default. let i = signed_take_bit 63 (minutes * time_Minute) in if i = 0 then default * time_Minute else i)
      in (if fst containers then [DockerLoop (interval (snd containers) 30)] else []) @
         (case vms of
            None \<Rightarrow> []
          | Some (enabled, minutes, hypervisors) \<Rightarrow>
              if enabled \<and> libvirt_Enabled hypervisors then [LibvirtLoop (interval minutes 60)] else []))"

section \<open>Properties of the parts\<close>

text \<open>A failing filter leaves the capture handle open, and no stop closes it.\<close>

lemma filter_failure_leaks:
  assumes "scanner_Start (Some h) False NewScanner = (e, s)"
  shows "e = Some FilterFailed \<and> sc_open s = [h] \<and> scanner_Stop s = Some s"
  using assms by (auto simp: scanner_Start_def scanner_Stop_def NewScanner_def Let_def)

text \<open>A scanner that was stopped can be started again, but the second stop closes the channel again and panics.\<close>

lemma second_stop_panics:
  assumes "scanner_Start (Some h) True NewScanner = (e, s)" "scanner_Stop s = Some s'" "scanner_Start (Some h') True s' = (e', s'')"
  shows "e' = None \<and> scanner_Stop s'' = None"
  using assms by (auto simp: scanner_Start_def scanner_Stop_def NewScanner_def Let_def)

text \<open>An attribute is taken with its trailing newline, which ends up in the name of the asset.\<close>

lemma attributes_verbatim:
  "read (filepath_Join p ''idVendor'') = Some data \<Longrightarrow> readSysAttr read p [''idVendor'', ''vendor''] = gostring data"
  by simp

text \<open>Devices get identifiers of their own, if the names of the buses have no dash.\<close>

definition bus_entries :: "(string \<Rightarrow> string list option) \<Rightarrow> string \<Rightarrow> string list" where
  "bus_entries read_dir bus = (case read_dir (filepath_Join (filepath_Join ''/sys/bus'' bus) ''devices'') of None \<Rightarrow> [] | Some es \<Rightarrow> es)"

lemma dash_inj: "CHR ''-'' \<notin> set a \<Longrightarrow> CHR ''-'' \<notin> set b \<Longrightarrow> a @ ''-'' @ x = b @ ''-'' @ y \<Longrightarrow> a = b \<and> x = y"
  by (induction a arbitrary: b) (auto simp: Cons_eq_append_conv append_eq_Cons_conv)

lemma ids_distinct:
  assumes "distinct buses" "\<forall>bus \<in> set buses. CHR ''-'' \<notin> set bus \<and> distinct (es bus)"
  shows "distinct (concat (map (\<lambda>bus. map (\<lambda>e. bus @ ''-'' @ e) (es bus)) buses))"
  using assms
proof (induction buses)
  case (Cons bus buses)
  have "distinct (map (\<lambda>e. bus @ ''-'' @ e) (es bus))" using Cons.prems(2) by (simp add: distinct_map inj_on_def)
  moreover have "set (map (\<lambda>e. bus @ ''-'' @ e) (es bus)) \<inter> set (concat (map (\<lambda>bus. map (\<lambda>e. bus @ ''-'' @ e) (es bus)) buses)) = {}"
  proof -
    have "bus @ ''-'' @ e \<noteq> other @ ''-'' @ e'" if "other \<in> set buses" for other e e'
    proof
      assume eq: "bus @ ''-'' @ e = other @ ''-'' @ e'"
      have "bus = other" using dash_inj [OF _ _ eq] Cons.prems(2) that by simp
      with Cons.prems(1) that show False by simp
    qed
    then show ?thesis by auto
  qed
  ultimately show ?case using Cons by (simp only: list.map concat.simps distinct_append) auto
qed simp

theorem hardware_ids_distinct:
  assumes "let buses = (if devices = [] then [''usb'', ''pci''] else devices)
    in distinct buses \<and> (\<forall>bus \<in> set buses. CHR ''-'' \<notin> set bus \<and> distinct (bus_entries read_dir bus))"
  shows "distinct (map as_ID (Enumerate read_dir read devices True))"
proof -
  let ?buses = "if devices = [] then [''usb'', ''pci''] else devices"
  have "map as_ID (Enumerate read_dir read devices True) = concat (map (\<lambda>bus. map (\<lambda>e. bus @ ''-'' @ e) (bus_entries read_dir bus)) ?buses)"
    unfolding Enumerate_def Let_def map_concat map_map length_0_conv
    by (intro arg_cong [where f = concat] map_cong refl)
      (auto simp: bus_entries_def device_asset_def device_at_def Let_def split: option.split)
  then show ?thesis using ids_distinct [of ?buses "bus_entries read_dir"] assms by (simp add: Let_def)
qed

end
