(* ===== verification/Rules.thy ===== *)
theory Rules
  imports Correlation Devices Proxy Dns Scan Events_Properties Stream_Processor
begin

text \<open>
  Where the rules of the correlation engine come from (\<^verbatim>\<open>yaml_rule.go\<close>, \<^verbatim>\<open>engine.go\<close>), the rules that are
  shipped (\<^verbatim>\<open>internal/analytics/correlation/rules\<close>) as data, and what they make of the events the other
  components produce. The YAML decoder is a parameter.
\<close>

section \<open>Rule files\<close>

datatype rules_error = RulesDir | RuleRead | RuleParse

definition is_rule_file :: "string \<Rightarrow> bool" where
  "is_rule_file name = (let ext = strings_ToLower (filepath_Ext name) in \<not> (ext \<noteq> ''.yaml'' \<and> ext \<noteq> ''.yml''))"

fun load_rules :: "(bytes \<Rightarrow> YAMLRuleSpec option) \<Rightarrow> (string \<Rightarrow> bytes option) \<Rightarrow> string list \<Rightarrow> rules_error + YAMLRuleSpec list" where
  "load_rules decode read [] = Inr []"
| "load_rules decode read (name # names) =
     (if \<not> is_rule_file name then load_rules decode read names
      else (case read name of
              None \<Rightarrow> Inl RuleRead
            | Some data \<Rightarrow>
                (case decode data of
                   None \<Rightarrow> Inl RuleParse
                 | Some spec \<Rightarrow>
                     (case load_rules decode read names of
                        Inl err \<Rightarrow> Inl err
                      | Inr specs \<Rightarrow> Inr (if rs_RuleName spec = [] then specs else spec # specs)))))"

text \<open>A directory that does not exist has no entries.\<close>

definition LoadRulesFromDir :: "(bytes \<Rightarrow> YAMLRuleSpec option) \<Rightarrow> string \<Rightarrow> disk \<Rightarrow> rules_error + YAMLRuleSpec list" where
  "LoadRulesFromDir decode dir d =
     (case os_ReadDir dir d of
        Inl _ \<Rightarrow> Inl RulesDir
      | Inr entries \<Rightarrow> load_rules decode (\<lambda>name. case os_ReadFile (filepath_Join dir name) d of Inl _ \<Rightarrow> None | Inr data \<Rightarrow> Some data) entries)"

text \<open>The embedded files are listed by name and can always be read.\<close>

definition LoadRulesFromFS :: "(bytes \<Rightarrow> YAMLRuleSpec option) \<Rightarrow> (string \<times> bytes) list \<Rightarrow> rules_error + YAMLRuleSpec list" where
  "LoadRulesFromFS decode files = load_rules decode (map_of files) (map fst files)"

definition correlation_NewEngine ::
  "(bytes \<Rightarrow> YAMLRuleSpec option) \<Rightarrow> (YAMLRuleSpec \<Rightarrow> rule) \<Rightarrow> rule list \<Rightarrow> (string \<times> bytes) list \<Rightarrow> string \<Rightarrow> disk \<Rightarrow> rule list" where
  "correlation_NewEngine decode yaml_rule defaults embedded rulesDir d =
     (let r1 = defaults;
          r2 = (case LoadRulesFromFS decode embedded of Inl _ \<Rightarrow> r1 | Inr specs \<Rightarrow> r1 @ map yaml_rule specs)
      in if rulesDir \<noteq> [] then (case LoadRulesFromDir decode rulesDir d of Inl _ \<Rightarrow> r2 | Inr specs \<Rightarrow> r2 @ map yaml_rule specs)
         else r2)"

section \<open>The shipped rules\<close>

text \<open>The bytes of a dash in a description.\<close>

definition em_dash :: string where
  "em_dash = map char_of [226, 128, 148 :: nat]"

definition rule_anomalous_volume :: YAMLRuleSpec where
  "rule_anomalous_volume =
     \<lparr>rs_RuleName = ''ANOMALOUS_TRAFFIC_VOLUME'',
      rs_Description = ''Abnormally high event volume from a single source (>1000 events in 15 minutes)'',
      rs_Severity = ''MEDIUM'', rs_EventType = [], rs_Logic = ''and'',
      rs_Conditions =
       [\<lparr>rc_Field = ''stream.count_15m'', rc_Operator = ''gt'', rc_Value = ''1000''\<rparr>]\<rparr>"

definition rule_arp_spoofing :: YAMLRuleSpec where
  "rule_arp_spoofing =
     \<lparr>rs_RuleName = ''ARP_SPOOF_SUSPECT'',
      rs_Description = ''ARP event with gratuitous flag or suspicious source'',
      rs_Severity = ''CRITICAL'', rs_EventType = ''ARP'', rs_Logic = ''and'',
      rs_Conditions =
       [\<lparr>rc_Field = ''gratuitous'', rc_Operator = ''equals'', rc_Value = ''true''\<rparr>]\<rparr>"

definition rule_brute_force :: YAMLRuleSpec where
  "rule_brute_force =
     \<lparr>rs_RuleName = ''BRUTE_FORCE_ATTEMPT'',
      rs_Description = ''Excessive connection attempts from a single source (>100 events/min)'',
      rs_Severity = ''CRITICAL'', rs_EventType = [], rs_Logic = ''and'',
      rs_Conditions =
       [\<lparr>rc_Field = ''stream.count_1m'', rc_Operator = ''gt'', rc_Value = ''100''\<rparr>]\<rparr>"

definition rule_dns_canary_trigger :: YAMLRuleSpec where
  "rule_dns_canary_trigger =
     \<lparr>rs_RuleName = ''DNS_CANARY_TRIGGERED'',
      rs_Description = ''DNS query touched a canary decoy subdomain '' @ em_dash @ '' first occurrence is an alert-worthy tripwire'',
      rs_Severity = ''CRITICAL'', rs_EventType = ''DNS'', rs_Logic = ''and'',
      rs_Conditions =
       [\<lparr>rc_Field = ''name'', rc_Operator = ''contains'', rc_Value = ''.canary.''\<rparr>]\<rparr>"

definition rule_dns_malicious_tld :: YAMLRuleSpec where
  "rule_dns_malicious_tld =
     \<lparr>rs_RuleName = ''DNS_MALICIOUS_TLD'',
      rs_Description = ''DNS query to known malicious or suspicious top-level domains'',
      rs_Severity = ''HIGH'', rs_EventType = ''DNS'', rs_Logic = ''or'',
      rs_Conditions =
       [\<lparr>rc_Field = ''name'', rc_Operator = ''contains'', rc_Value = ''.top.''\<rparr>,
        \<lparr>rc_Field = ''name'', rc_Operator = ''contains'', rc_Value = ''.buzz.''\<rparr>,
        \<lparr>rc_Field = ''name'', rc_Operator = ''contains'', rc_Value = ''.tk.''\<rparr>,
        \<lparr>rc_Field = ''name'', rc_Operator = ''contains'', rc_Value = ''.xyz.''\<rparr>]\<rparr>"

definition rule_dns_tunneling :: YAMLRuleSpec where
  "rule_dns_tunneling =
     \<lparr>rs_RuleName = ''DNS_TUNNELING_SUSPECT'',
      rs_Description = ''DNS query with unusually long subdomain chains indicative of DNS tunneling'',
      rs_Severity = ''HIGH'', rs_EventType = ''DNS'', rs_Logic = ''and'',
      rs_Conditions =
       [\<lparr>rc_Field = ''name'', rc_Operator = ''contains'', rc_Value = ''......''\<rparr>]\<rparr>"

definition rule_http_canary_trigger :: YAMLRuleSpec where
  "rule_http_canary_trigger =
     \<lparr>rs_RuleName = ''HTTP_CANARY_TRIGGERED'',
      rs_Description = ''A planted decoy URL was accessed '' @ em_dash @ '' first occurrence is an alert-worthy tripwire'',
      rs_Severity = ''CRITICAL'', rs_EventType = ''CANARY'', rs_Logic = ''and'',
      rs_Conditions =
       [\<lparr>rc_Field = ''canary_type'', rc_Operator = ''equals'', rc_Value = ''HTTP''\<rparr>]\<rparr>"

definition rule_lateral_movement :: YAMLRuleSpec where
  "rule_lateral_movement =
     \<lparr>rs_RuleName = ''LATERAL_MOVEMENT'',
      rs_Description = ''Port scanning targeting internal RFC1918 address ranges'',
      rs_Severity = ''HIGH'', rs_EventType = ''PORT_SCAN'', rs_Logic = ''or'',
      rs_Conditions =
       [\<lparr>rc_Field = ''destination'', rc_Operator = ''contains'', rc_Value = ''192.168.''\<rparr>,
        \<lparr>rc_Field = ''destination'', rc_Operator = ''contains'', rc_Value = ''10.''\<rparr>,
        \<lparr>rc_Field = ''destination'', rc_Operator = ''contains'', rc_Value = ''172.16.''\<rparr>]\<rparr>"

definition rule_port_scan_detection :: YAMLRuleSpec where
  "rule_port_scan_detection =
     \<lparr>rs_RuleName = ''PORT_SCAN_FLOOD'',
      rs_Description = ''High-rate port scanning from a single source (>50 events/min)'',
      rs_Severity = ''HIGH'', rs_EventType = ''PORT_SCAN'', rs_Logic = ''and'',
      rs_Conditions =
       [\<lparr>rc_Field = ''stream.count_1m'', rc_Operator = ''gt'', rc_Value = ''50''\<rparr>]\<rparr>"

definition rule_proxy_suspicious :: YAMLRuleSpec where
  "rule_proxy_suspicious =
     \<lparr>rs_RuleName = ''PROXY_SUSPICIOUS_AGENT'',
      rs_Description = ''Proxy traffic with suspicious user-agent or tool signature'',
      rs_Severity = ''MEDIUM'', rs_EventType = ''PROXY'', rs_Logic = ''or'',
      rs_Conditions =
       [\<lparr>rc_Field = ''user_agent'', rc_Operator = ''contains'', rc_Value = ''sqlmap''\<rparr>,
        \<lparr>rc_Field = ''user_agent'', rc_Operator = ''contains'', rc_Value = ''nikto''\<rparr>,
        \<lparr>rc_Field = ''user_agent'', rc_Operator = ''contains'', rc_Value = ''nmap''\<rparr>,
        \<lparr>rc_Field = ''user_agent'', rc_Operator = ''contains'', rc_Value = ''masscan''\<rparr>,
        \<lparr>rc_Field = ''path'', rc_Operator = ''contains'', rc_Value = ''../''\<rparr>]\<rparr>"

definition rule_service_enumeration :: YAMLRuleSpec where
  "rule_service_enumeration =
     \<lparr>rs_RuleName = ''SERVICE_ENUMERATION'',
      rs_Description = ''Rapid port scanning indicative of service discovery/enumeration'',
      rs_Severity = ''MEDIUM'', rs_EventType = ''PORT_SCAN'', rs_Logic = ''and'',
      rs_Conditions =
       [\<lparr>rc_Field = ''stream.count_5m'', rc_Operator = ''gt'', rc_Value = ''200''\<rparr>]\<rparr>"

definition rule_tor_dns_detection :: YAMLRuleSpec where
  "rule_tor_dns_detection =
     \<lparr>rs_RuleName = ''TOR_ONION_DNS_LOOKUP'',
      rs_Description = ''DNS query for a .onion address '' @ em_dash @ '' indicates a local asset attempting Tor hidden service resolution'',
      rs_Severity = ''HIGH'', rs_EventType = ''DNS'', rs_Logic = ''or'',
      rs_Conditions =
       [\<lparr>rc_Field = ''name'', rc_Operator = ''contains'', rc_Value = ''.onion.''\<rparr>,
        \<lparr>rc_Field = ''name'', rc_Operator = ''contains'', rc_Value = ''.onion''\<rparr>]\<rparr>"

definition rule_tor_exit_node_traffic :: YAMLRuleSpec where
  "rule_tor_exit_node_traffic =
     \<lparr>rs_RuleName = ''TOR_EXIT_NODE_TRAFFIC'',
      rs_Description = ''Outbound connection to a known Tor exit/relay node'',
      rs_Severity = ''HIGH'', rs_EventType = ''PROXY'', rs_Logic = ''and'',
      rs_Conditions =
       [\<lparr>rc_Field = ''tor_exit_node'', rc_Operator = ''equals'', rc_Value = ''true''\<rparr>]\<rparr>"

definition rule_vm_escape_indicator :: YAMLRuleSpec where
  "rule_vm_escape_indicator =
     \<lparr>rs_RuleName = ''VM_ESCAPE_INDICATOR'',
      rs_Description = ''VM event with privilege escalation or escape indicators'',
      rs_Severity = ''CRITICAL'', rs_EventType = ''VM'', rs_Logic = ''or'',
      rs_Conditions =
       [\<lparr>rc_Field = ''privileged'', rc_Operator = ''equals'', rc_Value = ''true''\<rparr>,
        \<lparr>rc_Field = ''capabilities'', rc_Operator = ''contains'', rc_Value = ''SYS_ADMIN''\<rparr>,
        \<lparr>rc_Field = ''capabilities'', rc_Operator = ''contains'', rc_Value = ''NET_RAW''\<rparr>]\<rparr>"

definition shipped_rules :: "YAMLRuleSpec list" where
  "shipped_rules =
     [rule_anomalous_volume, rule_arp_spoofing, rule_brute_force, rule_dns_canary_trigger,
      rule_dns_malicious_tld, rule_dns_tunneling, rule_http_canary_trigger, rule_lateral_movement,
      rule_port_scan_detection, rule_proxy_suspicious, rule_service_enumeration, rule_tor_dns_detection,
      rule_tor_exit_node_traffic, rule_vm_escape_indicator]"

section \<open>Loading\<close>

text \<open>One file that cannot be read or decoded loses all rules of its directory.\<close>

lemma load_rules_iff:
  "load_rules decode read names = Inr specs \<longleftrightarrow>
     (\<forall>n \<in> set names. is_rule_file n \<longrightarrow> (\<exists>data. read n = Some data \<and> decode data \<noteq> None)) \<and>
     specs = filter (\<lambda>s. rs_RuleName s \<noteq> []) (map (\<lambda>n. the (decode (the (read n)))) (filter is_rule_file names))"
  by (induction names arbitrary: specs) (auto split: option.splits sum.splits, blast+)

section \<open>What reaches the engine\<close>

text \<open>
  The keys that enrichment and publication write into the metadata. An event reaches the engine with its type, and with
  all other entries of its metadata.
\<close>

definition added_keys :: "string set" where
  "added_keys = {''stream.count_1m'', ''stream.count_5m'', ''stream.count_15m'', ''stream.rate_1m'', ''source'', ''destination''}"

definition reaches :: "NetworkEvent \<Rightarrow> NetworkEvent \<Rightarrow> bool" where
  "reaches e e' \<longleftrightarrow> ev_Type e' = ev_Type e \<and> (\<forall>k. k \<notin> added_keys \<longrightarrow> meta_get (ev_Metadata e') k = meta_get (ev_Metadata e) k)"

lemma reaches_trans: "reaches e e1 \<Longrightarrow> reaches e1 e2 \<Longrightarrow> reaches e e2"
  by (simp add: reaches_def)

lemma reaches_hydrate: "reaches e (hydrate_event v e)"
  by (simp add: reaches_def hydrate_event_def Let_def)

lemma reaches_enrich: "reaches e (fst (Enrich N rate_text now e p))"
  by (auto simp: reaches_def Enrich_def TryEnrich_def Normalize_def annotate_def added_keys_def meta_get_def Let_def
      split: prod.splits option.splits)

lemma reaches_publish: "publish_event p e = (e', eff) \<Longrightarrow> reaches e e'"
  by (auto simp: publish_event_def reaches_def out_payload_def added_keys_def meta_get_def Let_def split: option.splits if_splits)

text \<open>
  The pipeline with the stream processor in front of it and a signer that only writes the signature fields.
\<close>

definition standard_pipeline :: "netlib \<Rightarrow> pipeline \<Rightarrow> bool" where
  "standard_pipeline N p \<longleftrightarrow>
     (case pl_stream p of None \<Rightarrow> True | Some f \<Rightarrow> (\<exists>rate_text now P. f = (\<lambda>e. fst (Enrich N rate_text now e P)))) \<and>
     (\<forall>sg e err e'. pl_signer p = Some sg \<and> sg (Some e) = (err, Some e') \<longrightarrow>
        ev_Type e' = ev_Type e \<and> ev_Metadata e' = ev_Metadata e \<and> ev_Destination e' = ev_Destination e)"

lemma pipeline_reaches:
  assumes "standard_pipeline N p" "PushNetworkEvent B J p v e t = (t', eff)" "EAnalyze e' \<in> set eff"
  shows "reaches e e'" "ev_Destination e' \<in> {ev_Destination e, normalizeIP N (ev_Destination e)}"
proof -
  let ?e1 = "enrich_event p (hydrate_event v e)"
  obtain e2 f1 where s: "sign_event p ?e1 = (e2, f1)" by fastforce
  obtain t1 f2 where l: "log_event B J p v e2 t = (t1, f2)" by fastforce
  obtain e3 f4 where pub: "publish_event p e2 = (e3, f4)" by fastforce
  have "EAnalyze e' \<notin> set f1" using s by (auto simp: sign_event_def split: option.splits prod.splits)
  moreover have "EAnalyze e' \<notin> set f2" using l by (auto simp: log_event_def split: option.splits if_splits prod.splits)
  moreover have "EAnalyze e' \<notin> set f4" using pub by (auto simp: publish_event_def Let_def split: option.splits)
  ultimately have quiet: "EAnalyze e' \<notin> set f1" "EAnalyze e' \<notin> set f2" "EAnalyze e' \<notin> set f4" by blast+
  have "EAnalyze e' \<in> set (analysis_effects p e3)" using assms(2,3) quiet
    by (auto simp: PushNetworkEvent_def Let_def s l pub split: if_splits)
  then have e3: "e' = e3" by (auto simp: analysis_effects_def split: if_splits)
  have "reaches (hydrate_event v e) ?e1"
    using assms(1) reaches_enrich by (auto simp: standard_pipeline_def enrich_event_def reaches_def split: option.splits)
  moreover have "reaches ?e1 e2" using assms(1) s by (auto simp: standard_pipeline_def sign_event_def reaches_def split: option.splits prod.splits)
  ultimately show "reaches e e'" unfolding e3 using reaches_hydrate reaches_publish [OF pub] reaches_trans by blast
  have "ev_Destination (hydrate_event v e) = ev_Destination e" by (simp add: hydrate_event_def Let_def)
  moreover have "ev_Destination ?e1 \<in> {ev_Destination (hydrate_event v e), normalizeIP N (ev_Destination (hydrate_event v e))}"
    using assms(1) by (auto simp: standard_pipeline_def enrich_event_def Enrich_def TryEnrich_def Normalize_def Let_def split: option.splits prod.splits)
  moreover have "ev_Destination e2 = ev_Destination ?e1" using assms(1) s by (auto simp: standard_pipeline_def sign_event_def split: option.splits prod.splits)
  moreover have "ev_Destination e3 = ev_Destination e2" using pub by (auto simp: publish_event_def Let_def split: option.splits if_splits)
  ultimately show "ev_Destination e' \<in> {ev_Destination e, normalizeIP N (ev_Destination e)}" unfolding e3 by auto
qed

section \<open>What the shipped rules detect\<close>

lemma contains_prefix: "strings_Contains s (a @ b) \<Longrightarrow> strings_Contains s a"
proof -
  have "take (length a) (drop i s) = a" if "take (length (a @ b)) (drop i s) = a @ b" for i
    using that by (metis append_eq_conv_conj take_take min.absorb1 length_append le_add1)
  then show "strings_Contains s (a @ b) \<Longrightarrow> ?thesis" unfolding strings_Contains_def list_ex_iff by blast
qed

text \<open>\<^verbatim>\<open>strings.EqualFold\<close> on the two values of the logic field.\<close>

definition folds :: "(string \<Rightarrow> string \<Rightarrow> bool) \<Rightarrow> bool" where
  "folds fold_eq \<longleftrightarrow> fold_eq ''or'' ''or'' \<and> \<not> fold_eq ''and'' ''or''"

definition fires :: "(string \<Rightarrow> string \<Rightarrow> bool) \<Rightarrow> (string \<Rightarrow> rat) \<Rightarrow> YAMLRuleSpec \<Rightarrow> NetworkEvent \<Rightarrow> bool" where
  "fires fold_eq parse_float spec e \<longleftrightarrow> (\<exists>v. Evaluate fold_eq parse_float v spec e \<noteq> None)"

lemma fires_simps:
  assumes "folds fold_eq"
  shows "fires fold_eq pf rule_arp_spoofing e \<longleftrightarrow> ev_Type e = ''ARP'' \<and> sprint_any (meta_get (ev_Metadata e) ''gratuitous'') = ''true''"
    "fires fold_eq pf rule_dns_tunneling e \<longleftrightarrow> ev_Type e = ''DNS'' \<and> strings_Contains (sprint_any (meta_get (ev_Metadata e) ''name'')) ''......''"
    "fires fold_eq pf rule_tor_exit_node_traffic e \<longleftrightarrow> ev_Type e = ''PROXY'' \<and> sprint_any (meta_get (ev_Metadata e) ''tor_exit_node'') = ''true''"
    "fires fold_eq pf rule_vm_escape_indicator e \<longleftrightarrow> ev_Type e = ''VM'' \<and>
       (sprint_any (meta_get (ev_Metadata e) ''privileged'') = ''true'' \<or>
        strings_Contains (sprint_any (meta_get (ev_Metadata e) ''capabilities'')) ''SYS_ADMIN'' \<or>
        strings_Contains (sprint_any (meta_get (ev_Metadata e) ''capabilities'')) ''NET_RAW'')"
    "fires fold_eq pf rule_lateral_movement e \<longleftrightarrow> ev_Type e = ''PORT_SCAN'' \<and>
       (strings_Contains (ev_Destination e) ''192.168.'' \<or> strings_Contains (ev_Destination e) ''10.'' \<or> strings_Contains (ev_Destination e) ''172.16.'')"
    "fires fold_eq pf rule_dns_canary_trigger e \<longleftrightarrow> ev_Type e = ''DNS'' \<and> strings_Contains (sprint_any (meta_get (ev_Metadata e) ''name'')) ''.canary.''"
    "fires fold_eq pf rule_dns_malicious_tld e \<longleftrightarrow> ev_Type e = ''DNS'' \<and>
       (\<exists>tld \<in> {''.top.'', ''.buzz.'', ''.tk.'', ''.xyz.''}. strings_Contains (sprint_any (meta_get (ev_Metadata e) ''name'')) tld)"
    "fires fold_eq pf rule_tor_dns_detection e \<longleftrightarrow> ev_Type e = ''DNS'' \<and> strings_Contains (sprint_any (meta_get (ev_Metadata e) ''name'')) ''.onion''"
  using assms contains_prefix [of "sprint_any (meta_get (ev_Metadata e) ''name'')" "''.onion''" "''.''"]
  by (simp_all add: fires_def Evaluate_def folds_def evalCondition_def resolveField_def sprint_any_def rule_arp_spoofing_def rule_dns_tunneling_def
      rule_tor_exit_node_traffic_def rule_vm_escape_indicator_def rule_lateral_movement_def rule_dns_canary_trigger_def
      rule_dns_malicious_tld_def rule_tor_dns_detection_def)

text \<open>Entries of the metadata that the producers write.\<close>

lemma arp_entries: "e \<in> set (handleARP ips macs pipeline uuid now arp) \<Longrightarrow> ev_Type e = ''ARP'' \<and> meta_get (ev_Metadata e) ''gratuitous'' = None"
  by (auto simp: handleARP_def EventARP_def meta_get_def split: if_splits)

lemma vm_entries:
  "meta_get (ev_Metadata (vm_event now vm info)) ''privileged'' = None" "meta_get (ev_Metadata (vm_event now vm info)) ''capabilities'' = None"
  "meta_get (ev_Metadata (stats_event fmt2 now cid name st)) ''privileged'' = None" "meta_get (ev_Metadata (stats_event fmt2 now cid name st)) ''capabilities'' = None"
  by (simp_all add: vm_event_def stats_event_def meta_get_def Let_def)


section \<open>Properties\<close>


text \<open>
  Rules that ask for what no producer writes: the rule on ARP spoofing does not fire on an event of passive discovery,
  the rule on virtual machines not on an event of virtual discovery, and the rule on DNS tunnels not for a name
  without empty labels.
\<close>

lemma silent_rules:
  assumes "folds fold_eq" "standard_pipeline N p" "PushNetworkEvent B J p v e t = (t', eff)" "EAnalyze e' \<in> set eff"
  shows "e \<in> set (handleARP ips macs True uuid now arp) \<Longrightarrow> \<not> fires fold_eq pf rule_arp_spoofing e'"
    and "e = vm_event now vm info \<or> e = stats_event fmt2 now cid name st \<Longrightarrow> \<not> fires fold_eq pf rule_vm_escape_indicator e'"
    and "e = dns_event TypeToString uuid now remote q \<Longrightarrow> \<not> strings_Contains (dq_Name q) ''..'' \<Longrightarrow> \<not> fires fold_eq pf rule_dns_tunneling e'"
proof -
  note r = pipeline_reaches [OF assms(2-4)]
  have keep: "meta_get (ev_Metadata e') k = meta_get (ev_Metadata e) k" if "k \<notin> added_keys" for k using r(1) that by (simp add: reaches_def)
  have nil: "\<not> strings_Contains ''<nil>'' ''SYS_ADMIN''" "\<not> strings_Contains ''<nil>'' ''NET_RAW''" by code_simp+
  note fire = fires_simps [OF assms(1)] and keys = keep added_keys_def
  show "e \<in> set (handleARP ips macs True uuid now arp) \<Longrightarrow> \<not> fires fold_eq pf rule_arp_spoofing e'"
    using arp_entries [of e ips macs True uuid now arp] by (simp add: fire keys sprint_any_def)
  show "e = vm_event now vm info \<or> e = stats_event fmt2 now cid name st \<Longrightarrow> \<not> fires fold_eq pf rule_vm_escape_indicator e'"
    using vm_entries nil by (auto simp: fire keys sprint_any_def)
  show "\<not> fires fold_eq pf rule_dns_tunneling e'" if "e = dns_event TypeToString uuid now remote q" "\<not> strings_Contains (dq_Name q) ''..''"
  proof -
    have "sprint_any (meta_get (ev_Metadata e) ''name'') = dq_Name q" using that(1) by (simp add: dns_event_def meta_get_def sprint_any_def)
    then show ?thesis using that(2) contains_prefix [of "dq_Name q" "''..''" "''....''"] by (auto simp: fire keys)
  qed
qed





end
