(* ===== verification/Cdp.thy ===== *)
theory Cdp
  imports Models Encoding Files "HOL-Library.Sublist"
begin

text \<open>
  Control of the browser for forensic records (\<^verbatim>\<open>internal/browser/automation\<close>): the client of the debugging protocol,
  with its callers and its reading goroutine as steps of a relation, and the service that stores screenshots. The
  browser and JSON are parameters. Messages are kept decoded.
\<close>

section \<open>Messages\<close>

record cdpRequest =
  cq_ID :: int
  cq_Method :: string
  cq_Params :: metadata

record cdpResponse =
  cp_ID :: int
  cp_Result :: string
  cp_Error :: "(int \<times> string) option"

text \<open>What the reader hands to the caller that waits for a response. An error of the browser is handed over as data.\<close>

definition reader_payload :: "cdpResponse \<Rightarrow> string" where
  "reader_payload resp =
     (case cp_Error resp of Some (code, message) \<Rightarrow> ''{\"error\":\"'' @ message @ ''\"}'' | None \<Rightarrow> cp_Result resp)"

section \<open>The client\<close>

datatype cdp_error = CdpWriteFailed | CdpContextDone | CdpTimeout

text \<open>
  A call of \<^verbatim>\<open>Send\<close> has its identifier, is registered, is writing its request with the mutex held, waits, has its
  result with the deferred removal still to run, or is over.
\<close>

datatype call =
    CallStarted cdpRequest
  | CallOpen cdpRequest
  | CallWriting cdpRequest
  | CallWaiting
  | CallReturned "cdp_error + string"
  | CallDone "cdp_error + string"

text \<open>
  The reading goroutine waits for a message, is about to look up the call of a response, is about to put a payload into
  the channel of a call, or has returned.
\<close>

datatype reader = RIdle | RLooking cdpResponse | RSending int string | RStopped

text \<open>
  The map \<^verbatim>\<open>pending\<close> is the set of its keys and, for every identifier ever used, its channel of capacity one: a goroutine
  can hold a channel that is no longer in the map. The mutex is held over three short sections that touch the map, which
  are single steps that need it free, and over the writing of a request, which has no deadline: \<open>cd_mu\<close> is the call that
  is writing. The last two fields record the requests written and the responses whose call was looked up.
\<close>

record CDPClient =
  cd_nextID :: int
  cd_mu :: "int option"
  cd_pending :: "int set"
  cd_chan :: "int \<Rightarrow> string list"
  cd_calls :: "int \<rightharpoonup> call"
  cd_reader :: reader
  cd_written :: "cdpRequest list"
  cd_read :: "cdpResponse list"

text \<open>The client once it is connected and its reader runs.\<close>

definition NewCDPClient :: CDPClient where
  "NewCDPClient = \<lparr>cd_nextID = 0, cd_mu = None, cd_pending = {}, cd_chan = (\<lambda>_. []), cd_calls = Map.empty, cd_reader = RIdle,
     cd_written = [], cd_read = []\<rparr>"

definition send_begin :: "string \<Rightarrow> metadata \<Rightarrow> CDPClient \<Rightarrow> CDPClient" where
  "send_begin meth params c =
     (let i = cd_nextID c + 1
      in c\<lparr>cd_nextID := i, cd_chan := (cd_chan c)(i := []),
           cd_calls := (cd_calls c)(i \<mapsto> CallStarted \<lparr>cq_ID = i, cq_Method = meth, cq_Params = params\<rparr>)\<rparr>)"

definition send_register :: "int \<Rightarrow> cdpRequest \<Rightarrow> CDPClient \<Rightarrow> CDPClient" where
  "send_register i req c = c\<lparr>cd_pending := insert i (cd_pending c), cd_calls := (cd_calls c)(i \<mapsto> CallOpen req)\<rparr>"

definition send_lock :: "int \<Rightarrow> cdpRequest \<Rightarrow> CDPClient \<Rightarrow> CDPClient" where
  "send_lock i req c = c\<lparr>cd_mu := Some i, cd_calls := (cd_calls c)(i \<mapsto> CallWriting req)\<rparr>"

definition send_write :: "bool \<Rightarrow> int \<Rightarrow> cdpRequest \<Rightarrow> CDPClient \<Rightarrow> CDPClient" where
  "send_write ok i req c =
     (if ok then c\<lparr>cd_mu := None, cd_calls := (cd_calls c)(i \<mapsto> CallWaiting), cd_written := cd_written c @ [req]\<rparr>
      else c\<lparr>cd_mu := None, cd_calls := (cd_calls c)(i \<mapsto> CallReturned (Inl CdpWriteFailed))\<rparr>)"

definition send_receive :: "int \<Rightarrow> string \<Rightarrow> string list \<Rightarrow> CDPClient \<Rightarrow> CDPClient" where
  "send_receive i result rest c =
     c\<lparr>cd_chan := (cd_chan c)(i := rest), cd_calls := (cd_calls c)(i \<mapsto> CallReturned (Inr result))\<rparr>"

definition send_abandon :: "int \<Rightarrow> cdp_error \<Rightarrow> CDPClient \<Rightarrow> CDPClient" where
  "send_abandon i err c = c\<lparr>cd_calls := (cd_calls c)(i \<mapsto> CallReturned (Inl err))\<rparr>"

definition send_end :: "int \<Rightarrow> cdp_error + string \<Rightarrow> CDPClient \<Rightarrow> CDPClient" where
  "send_end i r c = c\<lparr>cd_pending := cd_pending c - {i}, cd_calls := (cd_calls c)(i \<mapsto> CallDone r)\<rparr>"

text \<open>One message of the reading loop; \<open>None\<close> is one that is not JSON of a response.\<close>

definition handle_message :: "cdpResponse option \<Rightarrow> CDPClient \<Rightarrow> CDPClient" where
  "handle_message msg c =
     (case msg of
        None \<Rightarrow> c
      | Some resp \<Rightarrow> if cp_ID resp > 0 then c\<lparr>cd_reader := RLooking resp\<rparr> else c)"

definition look_up :: "cdpResponse \<Rightarrow> CDPClient \<Rightarrow> CDPClient" where
  "look_up resp c =
     c\<lparr>cd_read := cd_read c @ [resp],
       cd_reader := (if cp_ID resp \<in> cd_pending c then RSending (cp_ID resp) (reader_payload resp) else RIdle)\<rparr>"

definition reader_send :: "int \<Rightarrow> string \<Rightarrow> CDPClient \<Rightarrow> CDPClient" where
  "reader_send i x c = c\<lparr>cd_chan := (cd_chan c)(i := [x]), cd_reader := RIdle\<rparr>"

text \<open>
  What the call \<open>i\<close> does by itself. It registers, starts to write and removes its entry when it gets the mutex. While it
  waits it takes what is in its channel, or gives up because its context is done or ten seconds have passed.
\<close>

inductive call_step :: "int \<Rightarrow> CDPClient \<Rightarrow> CDPClient \<Rightarrow> bool" for i c where
  register: "cd_calls c i = Some (CallStarted req) \<Longrightarrow> cd_mu c = None \<Longrightarrow> call_step i c (send_register i req c)"
| lock: "cd_calls c i = Some (CallOpen req) \<Longrightarrow> cd_mu c = None \<Longrightarrow> call_step i c (send_lock i req c)"
| receive: "cd_calls c i = Some CallWaiting \<Longrightarrow> cd_chan c i = x # xs \<Longrightarrow> call_step i c (send_receive i x xs c)"
| abandon: "cd_calls c i = Some CallWaiting \<Longrightarrow> err = CdpContextDone \<or> err = CdpTimeout \<Longrightarrow> call_step i c (send_abandon i err c)"
| end_call: "cd_calls c i = Some (CallReturned r) \<Longrightarrow> cd_mu c = None \<Longrightarrow> call_step i c (send_end i r c)"

text \<open>
  All steps: calls begin and move on, the connection takes or refuses the message that is being written, and the reader
  reads, looks up the call when it gets the mutex, and hands over a payload; it waits while the channel is full.
\<close>

inductive cdp_step :: "CDPClient \<Rightarrow> CDPClient \<Rightarrow> bool" where
  call: "cdp_step c (send_begin meth params c)"
| own: "call_step i c c' \<Longrightarrow> cdp_step c c'"
| put: "cd_calls c i = Some (CallWriting req) \<Longrightarrow> cdp_step c (send_write ok i req c)"
| message: "cd_reader c = RIdle \<Longrightarrow> cdp_step c (handle_message msg c)"
| found: "cd_reader c = RLooking resp \<Longrightarrow> cd_mu c = None \<Longrightarrow> cdp_step c (look_up resp c)"
| hand_over: "cd_reader c = RSending i x \<Longrightarrow> cd_chan c i = [] \<Longrightarrow> cdp_step c (reader_send i x c)"
| read_error: "cd_reader c = RIdle \<Longrightarrow> cdp_step c (c\<lparr>cd_reader := RStopped\<rparr>)"

inductive_cases cdp_stepE: "cdp_step c c'"
inductive_cases call_stepE: "call_step i c c'"

lemmas cdp_ops = send_begin_def send_register_def send_lock_def send_write_def send_receive_def send_abandon_def send_end_def
  handle_message_def look_up_def reader_send_def

text \<open>The cases of a step, with those of a call spelled out.\<close>

lemma cdp_step_cases:
  assumes "cdp_step c c'"
  obtains (call) meth params where "c' = send_begin meth params c"
    | (register) i req where "cd_calls c i = Some (CallStarted req)" "cd_mu c = None" "c' = send_register i req c"
    | (lock) i req where "cd_calls c i = Some (CallOpen req)" "cd_mu c = None" "c' = send_lock i req c"
    | (put) i req ok where "cd_calls c i = Some (CallWriting req)" "c' = send_write ok i req c"
    | (receive) i x xs where "cd_calls c i = Some CallWaiting" "cd_chan c i = x # xs" "c' = send_receive i x xs c"
    | (abandon) i err where "cd_calls c i = Some CallWaiting" "c' = send_abandon i err c"
    | (end_call) i r where "cd_calls c i = Some (CallReturned r)" "cd_mu c = None" "c' = send_end i r c"
    | (message) msg where "cd_reader c = RIdle" "c' = handle_message msg c"
    | (found) resp where "cd_reader c = RLooking resp" "cd_mu c = None" "c' = look_up resp c"
    | (hand_over) i x where "cd_reader c = RSending i x" "cd_chan c i = []" "c' = reader_send i x c"
    | (read_error) "cd_reader c = RIdle" "c' = c\<lparr>cd_reader := RStopped\<rparr>"
  using assms by (elim cdp_stepE call_stepE) blast+

section \<open>Invariant\<close>

text \<open>A call is registered once it has its entry and until the deferred removal; it is under way until it is over.\<close>

fun call_registered :: "call \<Rightarrow> bool" where
  "call_registered (CallStarted req) = False"
| "call_registered (CallDone r) = False"
| "call_registered _ = True"

fun running :: "call \<Rightarrow> bool" where
  "running (CallDone r) = False"
| "running _ = True"

fun answered :: "call option \<Rightarrow> string list" where
  "answered (Some (CallReturned (Inr x))) = [x]"
| "answered (Some (CallDone (Inr x))) = [x]"
| "answered _ = []"

fun holding :: "reader \<Rightarrow> int \<Rightarrow> string list" where
  "holding (RSending j x) i = (if i = j then [x] else [])"
| "holding _ i = []"

lemma answered_end: "answered (Some (CallDone r)) = answered (Some (CallReturned r))"
  by (cases r) simp_all

text \<open>Where the payloads for a call are: with the caller, in its channel, with the reader.\<close>

definition payloads :: "CDPClient \<Rightarrow> int \<Rightarrow> string list" where
  "payloads c i = answered (cd_calls c i) @ cd_chan c i @ holding (cd_reader c) i"

definition replies :: "CDPClient \<Rightarrow> int \<Rightarrow> string list" where
  "replies c i = map reader_payload (filter (\<lambda>r. cp_ID r = i) (cd_read c))"

definition cdp_inv :: "CDPClient \<Rightarrow> bool" where
  "cdp_inv c \<longleftrightarrow>
     0 \<le> cd_nextID c \<and> dom (cd_calls c) = {1..cd_nextID c} \<and>
     (\<forall>i. i \<in> cd_pending c \<longleftrightarrow> (\<exists>s. cd_calls c i = Some s \<and> call_registered s)) \<and>
     (\<forall>i. cd_mu c = Some i \<longleftrightarrow> (\<exists>req. cd_calls c i = Some (CallWriting req))) \<and>
     (\<forall>i. i \<notin> dom (cd_calls c) \<longrightarrow> payloads c i = []) \<and>
     (\<forall>i. subseq (payloads c i) (replies c i))"

lemma invD:
  assumes "cdp_inv c"
  shows "0 \<le> cd_nextID c" "dom (cd_calls c) = {1..cd_nextID c}" "j \<in> cd_pending c \<longleftrightarrow> (\<exists>s. cd_calls c j = Some s \<and> call_registered s)"
    "cd_calls c j = None \<Longrightarrow> payloads c j = []" "subseq (payloads c j) (replies c j)" "cd_calls c (cd_nextID c + 1) = None"
    "cd_mu c = Some j \<longleftrightarrow> (\<exists>req. cd_calls c j = Some (CallWriting req))"
proof -
  note inv = assms [unfolded cdp_inv_def]
  show "0 \<le> cd_nextID c" "dom (cd_calls c) = {1..cd_nextID c}" using inv by auto
  then have "cd_nextID c + 1 \<notin> dom (cd_calls c)" by simp
  then show "cd_calls c (cd_nextID c + 1) = None" by (simp add: domIff)
  show "j \<in> cd_pending c \<longleftrightarrow> (\<exists>s. cd_calls c j = Some s \<and> call_registered s)"
    "cd_mu c = Some j \<longleftrightarrow> (\<exists>req. cd_calls c j = Some (CallWriting req))" using inv by simp_all
  show "payloads c j = []" if "cd_calls c j = None" using inv that by (simp add: domIff)
  show "subseq (payloads c j) (replies c j)" using inv by simp
qed

lemma payloads_step:
  assumes "cdp_inv c" "cdp_step c c'"
  shows "(payloads c' j = payloads c j \<and> subseq (replies c j) (replies c' j)) \<or>
    (\<exists>x. payloads c' j = payloads c j @ [x] \<and> replies c' j = replies c j @ [x] \<and> cd_calls c j \<noteq> None)"
  using assms(2)
proof (cases rule: cdp_step_cases)
  case (call meth params)
  then show ?thesis using invD(6) [OF assms(1)] invD(4) [OF assms(1), of j]
    by (auto simp: payloads_def replies_def send_begin_def Let_def)
next
  case (message msg)
  then show ?thesis by (cases msg) (auto simp: payloads_def replies_def handle_message_def)
next
  case (found resp)
  then show ?thesis using invD(3) [OF assms(1), of j] by (auto simp: payloads_def replies_def look_up_def)
next
  case (hand_over i x)
  then show ?thesis by (auto simp: payloads_def replies_def reader_send_def)
next
  case read_error
  then show ?thesis by (auto simp: payloads_def replies_def)
qed (auto simp: payloads_def replies_def send_register_def send_lock_def send_write_def send_receive_def send_abandon_def send_end_def
    answered_end)

lemma calls_step:
  assumes "cdp_inv c" "cdp_step c c'"
  shows "0 \<le> cd_nextID c' \<and> dom (cd_calls c') = {1..cd_nextID c'} \<and> dom (cd_calls c) \<subseteq> dom (cd_calls c')"
    and "j \<in> cd_pending c' \<longleftrightarrow> (\<exists>s. cd_calls c' j = Some s \<and> call_registered s)"
    and "cd_mu c' = Some j \<longleftrightarrow> (\<exists>req. cd_calls c' j = Some (CallWriting req))"
proof -
  note i = invD(1,2) [OF assms(1)] and p = invD(3) [OF assms(1), of j] and m = invD(7) [OF assms(1)] and n = invD(6) [OF assms(1)]
  have ids: "insert (n + 1) {1..n} = {1..n + 1}" if "0 \<le> n" for n :: int using that by auto
  have old: "cd_calls c k = Some s \<Longrightarrow> insert k {1..cd_nextID c} = {1..cd_nextID c}" for k s using i(2) by (metis domI insert_absorb)
  from assms(2) show "0 \<le> cd_nextID c' \<and> dom (cd_calls c') = {1..cd_nextID c'} \<and> dom (cd_calls c) \<subseteq> dom (cd_calls c')"
    by (cases rule: cdp_step_cases) (use i in \<open>simp_all add: cdp_ops Let_def ids old split: option.split\<close>)
  from assms(2) show "j \<in> cd_pending c' \<longleftrightarrow> (\<exists>s. cd_calls c' j = Some s \<and> call_registered s)"
    by (cases rule: cdp_step_cases) (use p n in \<open>auto simp: cdp_ops Let_def split: option.split\<close>)
  have none: "cd_calls c k \<noteq> Some (CallWriting req)" if "cd_mu c = None" for k req using m [of k] that by auto
  have one: "cd_calls c k \<noteq> Some (CallWriting req)" if "cd_calls c l = Some (CallWriting req')" "k \<noteq> l" for k l req req'
    using m [of k] m [of l] that by auto
  from assms(2) show "cd_mu c' = Some j \<longleftrightarrow> (\<exists>req. cd_calls c' j = Some (CallWriting req))"
  proof (cases rule: cdp_step_cases)
    case (put k req ok)
    then show ?thesis using one by (auto simp: send_write_def)
  next
    case (receive k x xs)
    then show ?thesis using m by (auto simp: send_receive_def)
  next
    case (abandon k err)
    then show ?thesis using m by (auto simp: send_abandon_def)
  next
    case (call meth params)
    then show ?thesis using m n by (auto simp: send_begin_def Let_def)
  next
    case (message msg)
    then show ?thesis using m by (auto simp: handle_message_def split: option.split)
  next
    case (hand_over k x)
    then show ?thesis using m by (auto simp: reader_send_def)
  next
    case read_error
    then show ?thesis using m by auto
  qed (use none in \<open>auto simp: cdp_ops\<close>)
qed

lemma cdp_inv_step:
  assumes "cdp_inv c" "cdp_step c c'"
  shows "cdp_inv c'"
proof -
  have "subseq (payloads c' j) (replies c' j)" for j
    using payloads_step [OF assms, of j] invD(5) [OF assms(1), of j] by (auto intro: subseq_order.trans)
  moreover have "payloads c' j = []" if "j \<notin> dom (cd_calls c')" for j
  proof -
    have "cd_calls c j = None" using that calls_step(1) [OF assms] by blast
    then show ?thesis using payloads_step [OF assms, of j] invD(4) [OF assms(1), of j] by auto
  qed
  ultimately show ?thesis using calls_step [OF assms] unfolding cdp_inv_def by blast
qed

lemma cdp_inv_init: "cdp_inv NewCDPClient"
  by (auto simp: cdp_inv_def NewCDPClient_def payloads_def replies_def)

lemma cdp_inv_reachable: "cdp_step\<^sup>*\<^sup>* NewCDPClient c \<Longrightarrow> cdp_inv c"
  by (induction rule: rtranclp_induct) (auto intro: cdp_inv_init cdp_inv_step)

text \<open>The steps a call still has before it.\<close>

fun call_left :: "call option \<Rightarrow> nat" where
  "call_left (Some (CallStarted req)) = 5"
| "call_left (Some (CallOpen req)) = 4"
| "call_left (Some (CallWriting req)) = 3"
| "call_left (Some CallWaiting) = 2"
| "call_left (Some (CallReturned r)) = 1"
| "call_left _ = 0"

lemma call_left_mono: "cdp_inv c \<Longrightarrow> cdp_step c c' \<Longrightarrow> cd_calls c j \<noteq> None \<Longrightarrow> call_left (cd_calls c' j) \<le> call_left (cd_calls c j)"
  by (frule invD(6)) (erule cdp_step_cases, auto simp: cdp_ops Let_def split: option.split)

lemma call_progress:
  assumes "cd_calls c i = Some s" "running s" "cdp_inv c" "cd_mu c = None \<or> s = CallWaiting"
  shows "\<exists>c'. call_step i c c' \<and> call_left (cd_calls c' i) < call_left (cd_calls c i)"
proof (cases s)
  case (CallStarted req)
  then have "call_step i c (send_register i req c)" using assms(1,4) by (intro call_step.register) simp_all
  then show ?thesis using assms(1) CallStarted by (intro exI [of _ "send_register i req c"]) (simp add: send_register_def)
next
  case (CallOpen req)
  then have "call_step i c (send_lock i req c)" using assms(1,4) by (intro call_step.lock) simp_all
  then show ?thesis using assms(1) CallOpen by (intro exI [of _ "send_lock i req c"]) (simp add: send_lock_def)
next
  case (CallWriting req)
  then show ?thesis using assms invD(7) [OF assms(3), of i] by auto
next
  case CallWaiting
  then have "call_step i c (send_abandon i CdpTimeout c)" using assms(1) by (intro call_step.abandon) simp_all
  then show ?thesis using assms(1) CallWaiting by (intro exI [of _ "send_abandon i CdpTimeout c"]) (simp add: send_abandon_def)
next
  case (CallReturned r)
  then have "call_step i c (send_end i r c)" using assms(1,4) by (intro call_step.end_call) simp_all
  then show ?thesis using assms(1) CallReturned by (intro exI [of _ "send_end i r c"]) (simp add: send_end_def)
qed (use assms in simp)

text \<open>
  While a request is being written nothing else happens but that calls begin, that waiting calls take their reply or give
  up, and that the reader reads one message or hands one over: no call registers, writes or ends, and no response
  finds its call. The write has no deadline.
\<close>

lemma stalled_write_blocks_all:
  assumes "cd_mu c = Some j" "call_step i c c'"
  shows "cd_calls c i = Some CallWaiting \<and> cd_mu c' = Some j \<and> (\<exists>r. cd_calls c' i = Some (CallReturned r))"
    and "\<not> call_step i c' c''"
  using assms by (auto elim!: call_stepE simp: cdp_ops)

section \<open>A client that hears no more\<close>

text \<open>
  The reader has returned after an error of the connection, or it is about to put a payload into the full channel of a
  call that will not take it any more.
\<close>

fun returned :: "call option \<Rightarrow> bool" where
  "returned (Some (CallReturned r)) = True"
| "returned (Some (CallDone r)) = True"
| "returned _ = False"

definition deaf :: "CDPClient \<Rightarrow> bool" where
  "deaf c = (case cd_reader c of RIdle \<Rightarrow> False | RLooking resp \<Rightarrow> False | RSending i x \<Rightarrow> cd_chan c i \<noteq> [] \<and> returned (cd_calls c i) | RStopped \<Rightarrow> True)"

lemma deaf_step:
  assumes "cdp_inv c" "cdp_step c c'" "deaf c" "n \<le> cd_nextID c" "\<forall>i > n. answered (cd_calls c i) = [] \<and> cd_chan c i = []"
  shows "deaf c' \<and> n \<le> cd_nextID c' \<and> (\<forall>i > n. answered (cd_calls c' i) = [] \<and> cd_chan c' i = [])"
  using assms(2)
proof (cases rule: cdp_step_cases)
  case (call meth params)
  then show ?thesis using invD(6) [OF assms(1)] assms(3-5) by (auto simp: deaf_def send_begin_def Let_def split: reader.splits)
next
  case (hand_over i x)
  then show ?thesis using assms(3) by (auto simp: deaf_def)
next
  case (message msg)
  then show ?thesis using assms(3) by (auto simp: deaf_def)
next
  case (found resp)
  then show ?thesis using assms(3) by (auto simp: deaf_def)
next
  case read_error
  then show ?thesis using assms(3) by (auto simp: deaf_def)
next
  case (receive i x xs)
  then have "\<not> n < i" using assms(5) by auto
  then show ?thesis using receive assms(3-5) by (auto simp: deaf_def send_receive_def split: reader.splits)
next
  case (end_call i r)
  then show ?thesis using assms(3-5) by (auto simp: deaf_def send_end_def answered_end split: reader.splits)
qed (use assms(3-5) in \<open>auto simp: deaf_def send_register_def send_lock_def send_write_def send_abandon_def split: reader.splits\<close>)

lemma reachable_deaf:
  assumes "cdp_step\<^sup>*\<^sup>* c c'" "cdp_inv c" "deaf c"
  shows "deaf c' \<and> (\<forall>i > cd_nextID c. answered (cd_calls c' i) = [])"
proof -
  have "cd_calls c i = None" if "cd_nextID c < i" for i using that invD(2) [OF assms(2)] by (metis atLeastAtMost_iff domIff not_less)
  then have "\<forall>i > cd_nextID c. answered (cd_calls c i) = [] \<and> cd_chan c i = []" using invD(4) [OF assms(2)] by (auto simp: payloads_def)
  with assms(1) have "cdp_inv c' \<and> deaf c' \<and> cd_nextID c \<le> cd_nextID c' \<and> (\<forall>i > cd_nextID c. answered (cd_calls c' i) = [] \<and> cd_chan c' i = [])"
    by (induction rule: rtranclp_induct) (use assms(2,3) deaf_step cdp_inv_step in \<open>blast+\<close>)
  then show ?thesis by blast
qed

section \<open>Screenshots\<close>

text \<open>\<^verbatim>\<open>base64.StdEncoding\<close>: two other digits, and padding to groups of four.\<close>

definition b64std_digit :: "nat \<Rightarrow> char" where
  "b64std_digit d = (if d = 62 then CHR ''+'' else if d = 63 then CHR ''/'' else b64url_digit d)"

definition b64std_value :: "char \<Rightarrow> nat option" where
  "b64std_value c =
     (if c = CHR ''+'' then Some 62 else if c = CHR ''/'' then Some 63
      else if c = CHR ''-'' \<or> c = CHR ''_'' then None else b64url_value c)"

definition StdEncoding :: "bytes \<Rightarrow> string" where
  "StdEncoding bs =
     (let ds = map b64std_digit (b64url_groups (map unat bs)) in ds @ replicate ((4 - length ds mod 4) mod 4) CHR ''='')"

definition StdDecoding :: "string \<Rightarrow> bytes option" where
  "StdDecoding s =
     (let t = filter (\<lambda>c. c \<noteq> CHR 0x0A \<and> c \<noteq> CHR 0x0D) s;
          core = (if suffix ''=='' t then butlast (butlast t) else if suffix ''='' t then butlast t else t)
      in if length t mod 4 \<noteq> 0 then None
         else (case those (map b64std_value core) of
                 None \<Rightarrow> None
               | Some ds \<Rightarrow> map_option (map word_of_nat) (b64url_ungroup ds)))"

definition filename_char :: "char \<Rightarrow> bool" where
  "filename_char c \<longleftrightarrow>
     (let n = of_char c :: nat
      in 97 \<le> n \<and> n \<le> 122 \<or> 65 \<le> n \<and> n \<le> 90 \<or> 48 \<le> n \<and> n \<le> 57 \<or> c = CHR ''-'' \<or> c = CHR ''_'')"

definition sanitizeFilename :: "string \<Rightarrow> string" where
  "sanitizeFilename s = (let result = filter filename_char s in if length result > 50 then take 50 result else result)"

datatype shot_error = NotConnected | ShotSend cdp_error | ShotParse | ShotDecode | ShotWrite fs_error

text \<open>The decoder of the field \<^verbatim>\<open>data\<close> is a parameter; a field that is missing is empty.\<close>

definition CaptureScreenshot :: "(string \<Rightarrow> string option) \<Rightarrow> cdp_error + string \<Rightarrow> shot_error + string" where
  "CaptureScreenshot data_of reply =
     (case reply of
        Inl err \<Rightarrow> Inl (ShotSend err)
      | Inr result \<Rightarrow> (case data_of result of None \<Rightarrow> Inl ShotParse | Some d \<Rightarrow> Inr d))"

definition screenshot_dir :: "string \<Rightarrow> string" where
  "screenshot_dir dataDir = filepath_Join dataDir ''screenshots''"

definition screenshot_name :: "string \<Rightarrow> string \<Rightarrow> string" where
  "screenshot_name stamp reason = ''screenshot_'' @ stamp @ ''_'' @ sanitizeFilename reason @ ''.png''"

definition screenshot_event :: "gotime \<Rightarrow> string \<Rightarrow> string \<Rightarrow> bytes \<Rightarrow> NetworkEvent" where
  "screenshot_event now reason path png =
     \<lparr>ev_ID = [], ev_Type = EventAlert, ev_Source = ''browser-automation'', ev_Destination = ''screenshot'',
      ev_Metadata = Some [''reason'' \<mapsto> AString reason, ''path'' \<mapsto> AString path, ''size'' \<mapsto> AInt (int (length png)), ''severity'' \<mapsto> AString ''info''],
      ev_Timestamp = now, ev_Signature = [], ev_SignerKeyID = []\<rparr>"

definition TakeScreenshot ::
  "(string \<Rightarrow> string option) \<Rightarrow> string \<Rightarrow> bool \<Rightarrow> bool \<Rightarrow> cdp_error + string \<Rightarrow> string \<Rightarrow> gotime \<Rightarrow> string \<Rightarrow> disk \<Rightarrow>
     (shot_error + string) \<times> disk \<times> NetworkEvent list" where
  "TakeScreenshot data_of dataDir conn pipeline reply stamp now reason d =
     (if \<not> conn then (Inl NotConnected, d, [])
      else (case CaptureScreenshot data_of reply of
              Inl err \<Rightarrow> (Inl err, d, [])
            | Inr text \<Rightarrow>
                (case StdDecoding text of
                   None \<Rightarrow> (Inl ShotDecode, d, [])
                 | Some png \<Rightarrow>
                     (let path = filepath_Join (screenshot_dir dataDir) (screenshot_name stamp reason)
                      in case os_WriteFile path png d of
                           (Some err, d') \<Rightarrow> (Inl (ShotWrite err), d', [])
                         | (None, d') \<Rightarrow> (Inr path, d', if pipeline then [screenshot_event now reason path png] else [])))))"

definition GetHistory :: "bool \<Rightarrow> cdp_error + string \<Rightarrow> shot_error + string" where
  "GetHistory conn reply =
     (if \<not> conn then Inl NotConnected else (case reply of Inl err \<Rightarrow> Inl (ShotSend err) | Inr result \<Rightarrow> Inr result))"

section \<open>Connecting\<close>

record AutomationConfig =
  au_Enabled :: bool
  au_WebDriverPort :: int
  au_ScreenshotOnAlert :: bool
  au_HARLogging :: bool

definition automation_port :: "AutomationConfig \<Rightarrow> int" where
  "automation_port cfg = (if au_WebDriverPort cfg = 0 then 9222 else au_WebDriverPort cfg)"

datatype connect_error = DiscoveryFailed | VersionParse | NoDebuggerURL | DialFailed

text \<open>The answer to the request, if there is one; the decoder of its field; whether the address can be dialled.\<close>

definition cdp_Connect :: "string option \<Rightarrow> (string \<Rightarrow> string option) \<Rightarrow> (string \<Rightarrow> bool) \<Rightarrow> connect_error + CDPClient" where
  "cdp_Connect resp url_of dial =
     (case resp of
        None \<Rightarrow> Inl DiscoveryFailed
      | Some body \<Rightarrow>
          (case url_of body of
             None \<Rightarrow> Inl VersionParse
           | Some url \<Rightarrow> if url = [] then Inl NoDebuggerURL else if \<not> dial url then Inl DialFailed else Inr NewCDPClient))"

datatype loop_result = LoopStopped | LoopConnected nat bool

text \<open>
  Attempts are numbered; the context is looked at before each of them, the end of the pause included. The connected
  service waits for the end: it does not come back here when the connection is lost. Fuel bounds the attempts.
\<close>

fun connectLoop :: "bool \<Rightarrow> (nat \<Rightarrow> bool) \<Rightarrow> (nat \<Rightarrow> connect_error + CDPClient) \<Rightarrow> nat \<Rightarrow> nat \<Rightarrow> loop_result option" where
  "connectLoop har cancelled attempt 0 n = None"
| "connectLoop har cancelled attempt (Suc fuel) n =
     (if cancelled n then Some LoopStopped
      else (case attempt n of Inl _ \<Rightarrow> connectLoop har cancelled attempt fuel (Suc n) | Inr c \<Rightarrow> Some (LoopConnected n har)))"

definition automation_Start :: "AutomationConfig \<Rightarrow> string \<Rightarrow> disk \<Rightarrow> fs_error option \<times> bool" where
  "automation_Start cfg dataDir d =
     (if \<not> au_Enabled cfg then (None, False)
      else if dk_fails d FsMkdir (screenshot_dir dataDir) then (Some FsFailed, False)
      else (None, True))"

section \<open>Lemmas\<close>

lemma b64std_value_digit: "d < 64 \<Longrightarrow> b64std_value (b64std_digit d) = Some d"
proof -
  assume d: "d < 64"
  show ?thesis
  proof (cases "d < 62")
    case True
    then have "of_char (b64url_digit d) \<noteq> (43 :: nat)" "of_char (b64url_digit d) \<noteq> (47 :: nat)" "of_char (b64url_digit d) \<noteq> (45 :: nat)" "of_char (b64url_digit d) \<noteq> (95 :: nat)"
      by (auto simp: of_char_b64)
    then have "b64url_digit d \<noteq> CHR ''+''" "b64url_digit d \<noteq> CHR ''/''" "b64url_digit d \<noteq> CHR ''-''" "b64url_digit d \<noteq> CHR ''_''" by auto
    then show ?thesis using True d by (simp add: b64std_value_def b64std_digit_def b64url_value_digit)
  next
    case False
    then have "d = 62 \<or> d = 63" using d by auto
    then show ?thesis by (auto simp: b64std_value_def b64std_digit_def)
  qed
qed

lemma b64std_digit_plain: "d < 64 \<Longrightarrow> b64std_digit d \<notin> {CHR ''='', CHR 0x0A, CHR 0x0D}"
proof -
  assume "d < 64"
  then have "b64std_value (b64std_digit d) \<noteq> None" by (simp add: b64std_value_digit)
  moreover have "b64std_value CHR ''='' = None" "b64std_value CHR 0x0A = None" "b64std_value CHR 0x0D = None" by code_simp+
  ultimately show ?thesis by auto
qed

lemma b64url_groups_length: "length (b64url_groups as) mod 4 \<in> {0, 2, 3}"
  by (induction as rule: b64url_groups.induct) auto

theorem Std_roundtrip: "StdDecoding (StdEncoding bs) = Some bs"
proof -
  define gs where "gs = b64url_groups (map unat bs)"
  let ?ds = "map b64std_digit gs" and ?pad = "\<lambda>n. replicate n CHR ''=''"
  have small: "\<forall>d \<in> set gs. d < 64" unfolding gs_def by (rule b64url_groups_small [OF unat_bytes_small])
  have nd: "b64std_digit d \<noteq> CHR ''=''" "b64std_digit d \<noteq> CHR 0x0A" "b64std_digit d \<noteq> CHR 0x0D" if "d \<in> set gs" for d
    using b64std_digit_plain [of d] small that by blast+
  have plain: "CHR ''='' \<notin> set ?ds" "filter (\<lambda>c. c \<noteq> CHR 0x0A \<and> c \<noteq> CHR 0x0D) ?ds = ?ds"
    using nd by (metis imageE list.set_map, simp add: filter_id_conv)
  have vals: "those (map b64std_value ?ds) = Some gs" using small by (induction gs) (simp_all add: b64std_value_digit)
  have un: "b64url_ungroup gs = Some (map unat bs)" unfolding gs_def by (rule b64url_ungroup_groups [OF unat_bytes_small])
  have keep: "filter (\<lambda>c. c \<noteq> CHR 0x0A \<and> c \<noteq> CHR 0x0D) (?ds @ ?pad n) = ?ds @ ?pad n" for n using plain(2) by simp
  have "\<not> suffix ''='' xs \<and> \<not> suffix ''=='' xs" if "CHR ''='' \<notin> set xs" for xs using that by (auto simp: suffix_def)
  note last = this [OF plain(1)]
  consider "length gs mod 4 = 0" | "length gs mod 4 = 2" | "length gs mod 4 = 3" using b64url_groups_length [of "map unat bs"] by (auto simp: gs_def)
  then have "StdDecoding (?ds @ ?pad ((4 - length ?ds mod 4) mod 4)) = Some bs"
  proof cases
    case 1
    then show ?thesis using keep [of 0] last vals un by (simp add: StdDecoding_def Let_def o_def)
  next
    case 2
    then have "(length gs + 2) mod 4 = 0" by presburger
    moreover have "suffix ''=='' (?ds @ ''=='')" by (simp add: suffix_def)
    ultimately show ?thesis using 2 keep [of 2] vals un by (simp add: StdDecoding_def Let_def o_def numeral_2_eq_2 butlast_append)
  next
    case 3
    then have "(length gs + 1) mod 4 = 0" by presburger
    moreover have "\<not> suffix ''=='' (xs @ ''='')" if "CHR ''='' \<notin> set xs" for xs using that by (auto simp: suffix_def append_eq_append_conv2 Cons_eq_append_conv)
    note this [OF plain(1)]
    ultimately show ?thesis using 3 keep [of 1] vals un by (simp add: StdDecoding_def Let_def o_def butlast_append)
  qed
  then show ?thesis by (simp add: StdEncoding_def gs_def Let_def)
qed

lemma sanitized: "set (sanitizeFilename s) \<subseteq> Collect filename_char" "length (sanitizeFilename s) \<le> 50"
  by (auto simp: sanitizeFilename_def Let_def dest: in_set_takeD)

lemma name_no_slash: "CHR ''/'' \<notin> set stamp \<Longrightarrow> CHR ''/'' \<notin> set (screenshot_name stamp reason)"
proof -
  have "\<not> filename_char CHR ''/''" by code_simp
  then show "CHR ''/'' \<notin> set stamp \<Longrightarrow> ?thesis" using sanitized(1) [of reason] by (auto simp: screenshot_name_def)
qed

lemma connectLoop_first:
  "(\<forall>k < m. \<not> cancelled (n + k) \<and> (\<exists>err. attempt (n + k) = Inl err)) \<Longrightarrow> m < fuel \<Longrightarrow>
   connectLoop har cancelled attempt fuel n =
     (if cancelled (n + m) then Some LoopStopped
      else (case attempt (n + m) of Inl _ \<Rightarrow> connectLoop har cancelled attempt (fuel - m - 1) (n + m + 1) | Inr c \<Rightarrow> Some (LoopConnected (n + m) har)))"
proof (induction m arbitrary: n fuel)
  case 0
  then show ?case by (cases fuel) (auto split: sum.split)
next
  case (Suc m)
  obtain f where f: "fuel = Suc f" using Suc.prems(2) by (cases fuel) auto
  have "\<forall>k < m. \<not> cancelled (Suc n + k) \<and> (\<exists>err. attempt (Suc n + k) = Inl err)" using Suc.prems(1) by (metis Suc_less_eq add_Suc_shift)
  moreover have "\<not> cancelled n" "\<exists>err. attempt n = Inl err" using Suc.prems(1) [rule_format, of 0] by auto
  ultimately show ?case using Suc.IH [of "Suc n" f] Suc.prems(2) f by (auto split: sum.split)
qed

section \<open>Properties\<close>

text \<open>
  C33: Calls of the browser under every interleaving of callers, writes, reader, replies, timeouts and a lost connection. A
  call that is answered gets a reply the browser sent to its own request, and the table of pending calls holds exactly
  the registered calls that are not over, so that none is left behind. The mutex is held by a call only while that
  call's request is being written; when the connection takes or refuses it, the mutex is free again. Whenever it is free,
  every call under way can move on by itself, and one that waits for its reply always can; no step of others sets a
  call back, and it has at most five before it. As long as the browser answers no request twice the reader can
  always hand over the reply it holds.
\<close>

theorem cdp_calls:
  assumes "cdp_step\<^sup>*\<^sup>* NewCDPClient c"
  shows "(\<forall>x \<in> set (answered (cd_calls c i)). \<exists>resp \<in> set (cd_read c). cp_ID resp = i \<and> x = reader_payload resp) \<and>
    cd_pending c = {j. \<exists>s. cd_calls c j = Some s \<and> call_registered s} \<and>
    (\<forall>j. cd_mu c = Some j \<longrightarrow> (\<exists>req. cd_calls c j = Some (CallWriting req) \<and>
       (\<forall>ok. cdp_step c (send_write ok j req c) \<and> cd_mu (send_write ok j req c) = None))) \<and>
    (\<forall>s. cd_calls c i = Some s \<and> running s \<and> (cd_mu c = None \<or> s = CallWaiting) \<longrightarrow>
       (\<exists>c'. call_step i c c' \<and> call_left (cd_calls c' i) < call_left (cd_calls c i))) \<and>
    (\<forall>c'. cdp_step c c' \<and> cd_calls c i \<noteq> None \<longrightarrow> call_left (cd_calls c' i) \<le> call_left (cd_calls c i)) \<and>
    (distinct (map cp_ID (cd_read c)) \<and> cd_reader c = RSending i x \<longrightarrow> cdp_step c (reader_send i x c))"
proof -
  have inv: "cdp_inv c" using assms by (rule cdp_inv_reachable)
  note sub = invD(5) [OF inv, of i]
  have "set (answered (cd_calls c i)) \<subseteq> set (replies c i)" using list_emb_set [OF sub] by (auto simp: payloads_def)
  then have "\<forall>x \<in> set (answered (cd_calls c i)). \<exists>resp \<in> set (cd_read c). cp_ID resp = i \<and> x = reader_payload resp" by (auto simp: replies_def)
  moreover have free: "cd_mu (send_write ok j req c) = None" for ok j req by (simp add: send_write_def)
  have "\<exists>req. cd_calls c j = Some (CallWriting req) \<and>
       (\<forall>ok. cdp_step c (send_write ok j req c) \<and> cd_mu (send_write ok j req c) = None)" if "cd_mu c = Some j" for j
    using that invD(7) [OF inv, of j] cdp_step.put free by blast
  moreover have "cdp_step c (reader_send i x c)" if "distinct (map cp_ID (cd_read c))" "cd_reader c = RSending i x"
  proof -
    have "length (filter (\<lambda>r. cp_ID r = i) rs) \<le> 1" if "distinct (map cp_ID rs)" for rs :: "cdpResponse list"
      using that by (induction rs) (auto simp: filter_empty_conv, metis image_eqI)
    then have "length (payloads c i) \<le> 1" using that(1) list_emb_length [OF sub] by (fastforce simp: replies_def)
    then have "cd_chan c i = []" using that(2) by (simp add: payloads_def)
    with that(2) show ?thesis by (rule cdp_step.hand_over)
  qed
  ultimately show ?thesis using invD(3) [OF inv] call_progress [OF _ _ inv] call_left_mono [OF inv] by blast
qed

text \<open>
  A client whose reader is gone stays so: every later call ends without an answer, and nothing connects again.
\<close>

theorem deaf_for_good:
  assumes "cdp_step\<^sup>*\<^sup>* NewCDPClient c" "deaf c" "cdp_step\<^sup>*\<^sup>* c c'" "cd_nextID c < i"
  shows "deaf c' \<and> answered (cd_calls c' i) = []"
  using reachable_deaf [OF assms(3) cdp_inv_reachable [OF assms(1)] assms(2)] assms(4) by blast

text \<open>
  A screenshot that is reported as taken is the picture in the reply of the browser, in a file directly below the
  directory of screenshots whatever the reason says, and no other file has changed. A picture that arrives and can be
  written is stored.
\<close>

theorem screenshot_stored:
  assumes "CHR ''/'' \<notin> set stamp" "TakeScreenshot data_of dataDir conn pipeline reply stamp now reason d = (r, d', evs)"
  shows "r = Inr path \<Longrightarrow> \<exists>raw text png name. reply = Inr raw \<and> data_of raw = Some text \<and> StdDecoding text = Some png \<and>
      path = filepath_Join (screenshot_dir dataDir) name \<and> CHR ''/'' \<notin> set name \<and>
      dk_files d' = dk_files (set_file path png d) \<and> evs = (if pipeline then [screenshot_event now reason path png] else [])"
    and "conn \<Longrightarrow> reply = Inr raw \<Longrightarrow> data_of raw = Some (StdEncoding png) \<Longrightarrow> (\<And>p. \<not> dk_fails d FsWrite p) \<Longrightarrow>
      \<exists>path. r = Inr path \<and> file_at d' path = Some png"
proof -
  have s: "CHR ''/'' \<notin> set (screenshot_name stamp reason)" using assms(1) by (rule name_no_slash)
  show "r = Inr path \<Longrightarrow> \<exists>raw text png name. reply = Inr raw \<and> data_of raw = Some text \<and> StdDecoding text = Some png \<and>
      path = filepath_Join (screenshot_dir dataDir) name \<and> CHR ''/'' \<notin> set name \<and>
      dk_files d' = dk_files (set_file path png d) \<and> evs = (if pipeline then [screenshot_event now reason path png] else [])"
    using assms(2) s by (auto simp: TakeScreenshot_def CaptureScreenshot_def os_WriteFile_def Let_def split: if_splits sum.splits option.splits)
  show "conn \<Longrightarrow> reply = Inr raw \<Longrightarrow> data_of raw = Some (StdEncoding png) \<Longrightarrow> (\<And>p. \<not> dk_fails d FsWrite p) \<Longrightarrow>
      \<exists>path. r = Inr path \<and> file_at d' path = Some png"
    using assms(2) by (auto simp: TakeScreenshot_def CaptureScreenshot_def os_WriteFile_def Let_def Std_roundtrip)
qed

text \<open>
  If the browser answers with an error the call succeeds with a text that has no field \<^verbatim>\<open>data\<close>: an empty file is stored and
  reported as a screenshot.
\<close>

lemma failed_screenshot_stored:
  assumes "cp_Error resp = Some err" "reply = Inr (reader_payload resp)" "data_of (reader_payload resp) = Some []" "\<And>p. \<not> dk_fails d FsWrite p"
  shows "\<exists>path d'. TakeScreenshot data_of dataDir True True reply stamp now reason d = (Inr path, d', [screenshot_event now reason path []]) \<and>
    file_at d' path = Some []"
proof -
  have "StdDecoding [] = Some []" by code_simp
  then show ?thesis using assms by (auto simp: TakeScreenshot_def CaptureScreenshot_def os_WriteFile_def Let_def)
qed

section \<open>A run\<close>

text \<open>
  A call is answered twice before it takes the first answer, and gives up: the reader stays behind with the second one.
\<close>

definition pong :: cdpResponse where
  "pong = \<lparr>cp_ID = 1, cp_Result = ''{}'', cp_Error = None\<rparr>"

definition asked :: CDPClient where
  "asked =
     (let req = \<lparr>cq_ID = 1, cq_Method = ''Network.enable'', cq_Params = None\<rparr>
      in send_write True 1 req (send_lock 1 req (send_register 1 req (send_begin ''Network.enable'' None NewCDPClient))))"

definition replied :: CDPClient where
  "replied = reader_send 1 ''{}'' (look_up pong (handle_message (Some pong) asked))"

definition twice :: CDPClient where
  "twice = look_up pong (handle_message (Some pong) replied)"

lemmas run_simps = asked_def replied_def twice_def pong_def cdp_ops NewCDPClient_def reader_payload_def Let_def

lemma run_asked: "cdp_step\<^sup>*\<^sup>* NewCDPClient asked"
proof -
  let ?req = "\<lparr>cq_ID = 1, cq_Method = ''Network.enable'', cq_Params = None\<rparr>"
  let ?a = "send_begin ''Network.enable'' None NewCDPClient"
  let ?b = "send_register 1 ?req ?a"
  let ?c = "send_lock 1 ?req ?b"
  have "cdp_step NewCDPClient ?a" by (rule cdp_step.call)
  moreover have "cdp_step ?a ?b" by (rule cdp_step.own, rule call_step.register) (simp_all add: send_begin_def NewCDPClient_def)
  moreover have "cdp_step ?b ?c"
    by (rule cdp_step.own, rule call_step.lock) (simp_all add: send_register_def send_begin_def NewCDPClient_def)
  moreover have "cdp_step ?c asked" unfolding asked_def Let_def by (rule cdp_step.put) (simp add: send_lock_def)
  ultimately show ?thesis by (meson rtranclp.rtrancl_into_rtrancl rtranclp.rtrancl_refl)
qed

lemma run_replied: "cdp_step\<^sup>*\<^sup>* NewCDPClient replied"
proof -
  let ?a = "handle_message (Some pong) asked"
  let ?b = "look_up pong ?a"
  have "cdp_step asked ?a" by (rule cdp_step.message) (simp add: run_simps)
  moreover have "cdp_step ?a ?b" by (rule cdp_step.found) (simp_all add: run_simps)
  moreover have "cdp_step ?b replied" unfolding replied_def by (rule cdp_step.hand_over) (simp_all add: run_simps)
  ultimately show ?thesis using run_asked by (meson rtranclp.rtrancl_into_rtrancl)
qed

lemma run_twice: "cdp_step\<^sup>*\<^sup>* NewCDPClient twice"
proof -
  let ?a = "handle_message (Some pong) replied"
  have "cdp_step replied ?a" by (rule cdp_step.message) (simp add: run_simps)
  moreover have "cdp_step ?a twice" unfolding twice_def by (rule cdp_step.found) (simp_all add: run_simps)
  ultimately show ?thesis using run_replied by (meson rtranclp.rtrancl_into_rtrancl)
qed

lemma second_reply_deafens: "\<exists>c. cdp_step\<^sup>*\<^sup>* NewCDPClient c \<and> deaf c \<and> cd_reader c \<noteq> RStopped"
proof -
  let ?c = "send_abandon 1 CdpTimeout twice"
  have "cdp_step twice ?c" by (rule cdp_step.own, rule call_step.abandon) (simp_all add: run_simps)
  then have "cdp_step\<^sup>*\<^sup>* NewCDPClient ?c" using run_twice by (meson rtranclp.rtrancl_into_rtrancl)
  moreover have "deaf ?c \<and> cd_reader ?c \<noteq> RStopped" by (simp add: deaf_def run_simps)
  ultimately show ?thesis by blast
qed

text \<open>A call whose reply has arrived can take it, and what it takes is that reply.\<close>

theorem cdp_calls_witness:
  "cd_pending replied = {1} \<and> cd_chan replied 1 = [''{}''] \<and> (\<exists>c'. call_step 1 replied c' \<and> call_left (cd_calls c' 1) < 2)"
proof -
  have "cd_calls replied 1 = Some CallWaiting" "cd_pending replied = {1}" "cd_chan replied 1 = [''{}'']" by (simp_all add: run_simps)
  then show ?thesis using cdp_calls [OF run_replied, of 1] by fastforce
qed

end
