(* ===== verification/Firefox.thy ===== *)
theory Firefox
  imports Models Files
begin

text \<open>
  The hardened browser (\<^verbatim>\<open>internal/browser/firefox\<close>): the profile with its preferences, the enterprise policies, and a launch
  from the making of the profile to its removal. JSON and the browser process are parameters; the process may
  change the disk.
\<close>

section \<open>Preferences\<close>

record FirefoxConfig =
  ff_BinaryPath :: string
  ff_ProfileDir :: string
  ff_HardeningEnabled :: bool
  ff_ExtensionLockdown :: bool
  ff_TelemetryDisabled :: bool

definition telemetry_prefs :: "string list" where
  "telemetry_prefs =
     [''user_pref(\"toolkit.telemetry.enabled\", false);'',
      ''user_pref(\"toolkit.telemetry.server\", \"data:,\");'',
      ''user_pref(\"toolkit.telemetry.unified\", false);'',
      ''user_pref(\"datareporting.healthreport.uploadEnabled\", false);'',
      ''user_pref(\"datareporting.policy.dataSubmissionEnabled\", false);'']"

definition hardening_prefs :: "string list" where
  "hardening_prefs =
     [''user_pref(\"media.peerconnection.enabled\", false);'',
      ''user_pref(\"privacy.firstparty.isolate\", true);'',
      ''user_pref(\"browser.safebrowsing.enabled\", false);'',
      ''user_pref(\"browser.safebrowsing.downloads.enabled\", false);'',
      ''user_pref(\"browser.newtabpage.activity-stream.feeds.telemetry\", false);'',
      ''user_pref(\"network.http.referer.XOriginPolicy\", 2);'']"

definition generateUserJS :: "FirefoxConfig \<Rightarrow> string" where
  "generateUserJS cfg =
     strings_Join
       ((if ff_TelemetryDisabled cfg then telemetry_prefs else []) @
        (if ff_HardeningEnabled cfg then hardening_prefs else []) @
        (if ff_ExtensionLockdown cfg then [''user_pref(\"network.proxy.type\", 0);''] else []))
       [CHR 0x0A]"

section \<open>Policies\<close>

type_synonym policies = "string \<rightharpoonup> gany"

definition set_all :: "(string \<times> gany) list \<Rightarrow> policies \<Rightarrow> policies" where
  "set_all kvs m = fold (\<lambda>(k, v) m. m(k \<mapsto> v)) kvs m"

definition telemetry_policies :: "(string \<times> gany) list" where
  "telemetry_policies =
     [(''DisableTelemetry'', ABool True), (''DisableFirefoxStudies'', ABool True), (''DisableDefaultBrowserAgent'', ABool True),
      (''OverrideFirstRunPage'', AString []), (''OverridePostUpdatePage'', AString [])]"

definition hardening_policies :: "(string \<times> gany) list" where
  "hardening_policies =
     [(''DisableFormHistory'', ABool True), (''DisablePasswordReveal'', ABool True), (''DisablePocket'', ABool True),
      (''DisableSecurityBypass'', AMap [(''InvalidCertificate'', ABool False), (''SafeBrowsing'', ABool False)]),
      (''EnableTrackingProtection'',
         AMap [(''Value'', ABool True), (''Locked'', ABool True), (''Cryptomining'', ABool True), (''Fingerprinting'', ABool True)]),
      (''HttpsOnlyMode'', AString ''force_enabled''),
      (''Cookies'',
         AMap [(''Behavior'', AString ''reject-tracker-and-partition-foreign''), (''BehaviorPrivate'', AString ''reject''), (''Locked'', ABool True)]),
      (''SanitizeOnShutdown'',
         AMap (map (\<lambda>k. (k, ABool True))
           [''Cache'', ''Cookies'', ''Downloads'', ''FormData'', ''History'', ''Sessions'', ''SiteSettings'', ''OfflineApps''])),
      (''DNSOverHTTPS'', AMap [(''Enabled'', ABool False), (''Locked'', ABool True)])]"

definition extension_policies :: "(string \<times> gany) list" where
  "extension_policies =
     [(''ExtensionSettings'', AMap [(''*'', AMap [(''installation_mode'', AString ''blocked'')])]), (''DisableBuiltinPDFViewer'', ABool True)]"

definition leak_policies :: "(string \<times> gany) list" where
  "leak_policies =
     [(''DisableFirefoxAccounts'', ABool True), (''DisableProfileImport'', ABool True), (''DontCheckDefaultBrowser'', ABool True),
      (''NoDefaultBookmarks'', ABool True), (''OfferToSaveLogins'', ABool False), (''PasswordManagerEnabled'', ABool False)]"

definition locked_preferences :: "(string \<times> gany) list" where
  "locked_preferences =
     map (\<lambda>(k, v). (k, AMap [(''Value'', v), (''Status'', AString ''locked'')]))
       [(''media.peerconnection.enabled'', ABool False), (''geo.enabled'', ABool False), (''dom.battery.enabled'', ABool False),
        (''beacon.enabled'', ABool False), (''browser.send_pings'', ABool False), (''network.http.speculative-parallel-limit'', AInt 0),
        (''privacy.resistFingerprinting'', ABool True), (''privacy.trackingprotection.fingerprinting.enabled'', ABool True),
        (''privacy.trackingprotection.cryptomining.enabled'', ABool True)]"

definition buildProxyPolicy :: gany where
  "buildProxyPolicy = AMap [(''Mode'', AString ''none''), (''Locked'', ABool True)]"

definition buildPolicies :: "FirefoxConfig \<Rightarrow> policies" where
  "buildPolicies cfg =
     (let p1 = Map.empty;
          p2 = (if ff_TelemetryDisabled cfg then set_all telemetry_policies p1 else p1);
          p3 = (if ff_HardeningEnabled cfg then set_all hardening_policies p2 else p2);
          p4 = (if ff_ExtensionLockdown cfg then set_all extension_policies p3 else p3);
          p5 = p4(''Proxy'' \<mapsto> buildProxyPolicy);
          p6 = set_all leak_policies p5
      in p6(''Preferences'' \<mapsto> AMap locked_preferences))"

definition policy_path :: "string \<Rightarrow> string" where
  "policy_path profileDir = filepath_Join (filepath_Join profileDir ''distribution'') ''policies.json''"

definition Apply :: "(policies \<Rightarrow> bytes) \<Rightarrow> FirefoxConfig \<Rightarrow> string \<Rightarrow> disk \<Rightarrow> fs_error option \<times> disk" where
  "Apply marshal cfg profileDir d =
     (if dk_fails d FsMkdir (filepath_Join profileDir ''distribution'') then (Some FsFailed, d)
      else os_WriteFile (policy_path profileDir) (marshal (buildPolicies cfg)) d)"

text \<open>The decoder gives \<open>Some None\<close> if the text has no policies: the map is nil then, and assigning to it panics.\<close>

datatype routing_result = RoutingOk | RoutingRead fs_error | RoutingParse | RoutingWrite fs_error | RoutingPanic

definition manual_proxy :: "string \<Rightarrow> gany" where
  "manual_proxy addr = AMap [(''Mode'', AString ''manual''), (''HTTPProxy'', AString addr), (''SSLProxy'', AString addr), (''Locked'', ABool True)]"

definition ApplyProxyRouting ::
  "(policies \<Rightarrow> bytes) \<Rightarrow> (bytes \<Rightarrow> policies option option) \<Rightarrow> string \<Rightarrow> string \<Rightarrow> disk \<Rightarrow> routing_result \<times> disk" where
  "ApplyProxyRouting marshal unmarshal profileDir proxyAddr d =
     (case os_ReadFile (policy_path profileDir) d of
        Inl err \<Rightarrow> (RoutingRead err, d)
      | Inr data \<Rightarrow>
          (case unmarshal data of
             None \<Rightarrow> (RoutingParse, d)
           | Some None \<Rightarrow> (RoutingPanic, d)
           | Some (Some m) \<Rightarrow>
               (case os_WriteFile (policy_path profileDir) (marshal (m(''Proxy'' \<mapsto> manual_proxy proxyAddr))) d of
                  (Some err, d') \<Rightarrow> (RoutingWrite err, d')
                | (None, d') \<Rightarrow> (RoutingOk, d'))))"

section \<open>Launching\<close>

text \<open>\<^verbatim>\<open>os.RemoveAll\<close> removes what is at a path and below it.\<close>

definition below :: "string \<Rightarrow> string \<Rightarrow> bool" where
  "below dir p \<longleftrightarrow> p = dir \<or> prefix (dir @ ''/'') p"

definition os_RemoveAll :: "string \<Rightarrow> disk \<Rightarrow> fs_error option \<times> disk" where
  "os_RemoveAll dir d =
     (if dk_fails d FsRemove dir then (Some FsFailed, d)
      else (None, d\<lparr>dk_files := filter (\<lambda>(p, c). \<not> below dir p) (dk_files d)\<rparr>))"

datatype launch_error = ProfileTemp | ProfileMkdir | ProfileWrite fs_error | ExitError

text \<open>The name of a new temporary directory is an argument.\<close>

definition CreateTempProfile :: "FirefoxConfig \<Rightarrow> string \<Rightarrow> disk \<Rightarrow> (launch_error + string) \<times> disk" where
  "CreateTempProfile cfg temp d =
     (let profileDir = (if ff_ProfileDir cfg = [] then temp else ff_ProfileDir cfg)
      in if ff_ProfileDir cfg = [] \<and> dk_fails d FsTemp temp then (Inl ProfileTemp, d)
         else if ff_ProfileDir cfg \<noteq> [] \<and> dk_fails d FsMkdir profileDir then (Inl ProfileMkdir, d)
         else (case os_WriteFile (filepath_Join profileDir ''user.js'') (str_bytes (generateUserJS cfg)) d of
                 (Some err, d') \<Rightarrow> (Inl (ProfileWrite err), d')
               | (None, d') \<Rightarrow> (Inr profileDir, d')))"

definition profile_Cleanup :: "FirefoxConfig \<Rightarrow> string \<Rightarrow> disk \<Rightarrow> fs_error option \<times> disk" where
  "profile_Cleanup cfg profileDir d = (if ff_ProfileDir cfg = [] then os_RemoveAll profileDir d else (None, d))"

text \<open>
  The process gets its binary, its arguments and the disk; it returns whether it ended without an error, and its disk.
  Whether the context is done when it ends is an argument. Policies that cannot be written do not stop the launch.
\<close>

definition Launch ::
  "(policies \<Rightarrow> bytes) \<Rightarrow> FirefoxConfig \<Rightarrow> string \<Rightarrow> (string \<Rightarrow> string list \<Rightarrow> disk \<Rightarrow> bool \<times> disk) \<Rightarrow> bool \<Rightarrow> disk \<Rightarrow> launch_error option \<times> disk" where
  "Launch marshal cfg temp process ctx_done d =
     (case CreateTempProfile cfg temp d of
        (Inl err, d1) \<Rightarrow> (Some err, d1)
      | (Inr profileDir, d1) \<Rightarrow>
          (let binPath = (if ff_BinaryPath cfg = [] then ''firefox'' else ff_BinaryPath cfg);
               d2 = snd (Apply marshal cfg profileDir d1);
               (ok, d3) = process binPath [''--profile'', profileDir, ''--no-remote'', ''--new-instance''] d2;
               d4 = snd (profile_Cleanup cfg profileDir d3)
           in (if ok \<or> ctx_done then None else Some ExitError, d4)))"

section \<open>Lemmas\<close>

lemma set_all_map: "set_all kvs m k = (case map_of (rev kvs) k of None \<Rightarrow> m k | Some v \<Rightarrow> Some v)"
proof -
  have "set_all kvs m = m ++ map_of (rev kvs)" unfolding set_all_def by (induction kvs arbitrary: m) (auto simp: map_add_def fun_eq_iff split: option.split)
  then show ?thesis by (simp add: map_add_def)
qed

lemma file_at_remove: "map_of (filter (\<lambda>(p, c). \<not> below dir p) fs) q = (if below dir q then None else map_of fs q)"
  by (induction fs) auto

lemma below_Join [simp]: "below dir (filepath_Join dir n)" "below dir (filepath_Join (filepath_Join dir m) n)"
  by (simp_all add: below_def filepath_Join_def)

lemma Apply_file:
  "file_at (snd (Apply marshal cfg dir d)) p = file_at d p \<or> p = policy_path dir"
  "\<not> dk_fails d FsMkdir (filepath_Join dir ''distribution'') \<Longrightarrow> \<not> dk_fails d FsWrite (policy_path dir) \<Longrightarrow>
   Apply marshal cfg dir d = (None, set_file (policy_path dir) (marshal (buildPolicies cfg)) d)"
  by (auto simp: Apply_def os_WriteFile_def)

section \<open>Properties\<close>

text \<open>
  Every group of policies that the configuration switches on is in force in full, and with it what is always set; nothing
  else is set.
\<close>

definition policy_groups :: "FirefoxConfig \<Rightarrow> (string \<times> gany) list" where
  "policy_groups cfg =
     (if ff_TelemetryDisabled cfg then telemetry_policies else []) @ (if ff_HardeningEnabled cfg then hardening_policies else []) @
     (if ff_ExtensionLockdown cfg then extension_policies else []) @
     [(''Proxy'', buildProxyPolicy)] @ leak_policies @ [(''Preferences'', AMap locked_preferences)]"

lemma groups_distinct: "distinct (map fst (policy_groups cfg))"
  by (cases "ff_TelemetryDisabled cfg"; cases "ff_HardeningEnabled cfg"; cases "ff_ExtensionLockdown cfg")
    (simp_all add: policy_groups_def telemetry_policies_def hardening_policies_def extension_policies_def leak_policies_def)

theorem policies_exact: "buildPolicies cfg k = Some v \<longleftrightarrow> (k, v) \<in> set (policy_groups cfg)"
proof -
  have groups: "buildPolicies cfg = set_all (policy_groups cfg) Map.empty"
    by (simp add: buildPolicies_def policy_groups_def set_all_def Let_def)
  have "buildPolicies cfg k = map_of (rev (policy_groups cfg)) k"
    by (simp add: groups set_all_map split: option.split)
  moreover have "distinct (map fst (rev (policy_groups cfg)))" using groups_distinct by (metis distinct_rev rev_map)
  ultimately show ?thesis by (simp add: map_of_eq_Some_iff)
qed

text \<open>
  Whatever the configuration, a launch writes a policy that locks direct connections: the browser does not use the
  intercepting proxy until the routing is applied, which then changes this policy and no other.
\<close>

theorem proxy_routing:
  assumes "\<And>m. unmarshal (marshal m) = Some (Some m)" "\<And>op p. \<not> dk_fails d op p"
  shows "buildPolicies cfg ''Proxy'' = Some buildProxyPolicy"
    and "ApplyProxyRouting marshal unmarshal dir addr (snd (Apply marshal cfg dir d)) = (r, d') \<Longrightarrow>
      r = RoutingOk \<and> file_at d' (policy_path dir) = Some (marshal ((buildPolicies cfg)(''Proxy'' \<mapsto> manual_proxy addr)))"
proof -
  show "buildPolicies cfg ''Proxy'' = Some buildProxyPolicy" by (simp add: policies_exact policy_groups_def)
  show "ApplyProxyRouting marshal unmarshal dir addr (snd (Apply marshal cfg dir d)) = (r, d') \<Longrightarrow>
      r = RoutingOk \<and> file_at d' (policy_path dir) = Some (marshal ((buildPolicies cfg)(''Proxy'' \<mapsto> manual_proxy addr)))"
    using assms by (auto simp: ApplyProxyRouting_def Apply_def os_ReadFile_def os_WriteFile_def)
qed

text \<open>A file of policies that is empty JSON makes the routing panic.\<close>

lemma routing_panics: "os_ReadFile (policy_path dir) d = Inr data \<Longrightarrow> unmarshal data = Some None \<Longrightarrow> fst (ApplyProxyRouting marshal unmarshal dir addr d) = RoutingPanic"
  by (simp add: ApplyProxyRouting_def)

text \<open>
  A launch with a temporary profile leaves the disk as it was, if the browser keeps to its profile and the profile can
  be made and removed.
\<close>

theorem launch_leaves_nothing:
  assumes "ff_ProfileDir cfg = []" "\<And>p. below temp p \<Longrightarrow> file_at d p = None"
    and "\<And>b as e p. \<not> below temp p \<Longrightarrow> file_at (snd (process b as e)) p = file_at e p" "\<And>b as e. dk_fails (snd (process b as e)) = dk_fails e"
    and "\<not> dk_fails d FsTemp temp" "\<not> dk_fails d FsWrite (filepath_Join temp ''user.js'')" "\<not> dk_fails d FsRemove temp"
  shows "file_at (snd (Launch marshal cfg temp process ctx_done d)) p = file_at d p"
proof -
  define d1 where "d1 = set_file (filepath_Join temp ''user.js'') (str_bytes (generateUserJS cfg)) d"
  define d2 where "d2 = snd (Apply marshal cfg temp d1)"
  let ?b = "if ff_BinaryPath cfg = [] then ''firefox'' else ff_BinaryPath cfg" and ?as = "[''--profile'', temp, ''--no-remote'', ''--new-instance'']"
  let ?d3 = "snd (process ?b ?as d2)"
  have "CreateTempProfile cfg temp d = (Inr temp, d1)" using assms(1,5,6) by (simp add: CreateTempProfile_def os_WriteFile_def d1_def)
  then have launch: "snd (Launch marshal cfg temp process ctx_done d) = snd (profile_Cleanup cfg temp ?d3)"
    by (simp add: Launch_def d2_def Let_def split: prod.split)
  have "dk_fails ?d3 = dk_fails d" using assms(4) by (simp add: d2_def d1_def Apply_def os_WriteFile_def)
  then have rm: "file_at (snd (profile_Cleanup cfg temp ?d3)) p = (if below temp p then None else file_at ?d3 p)"
    using assms(1,7) by (simp add: profile_Cleanup_def os_RemoveAll_def file_at_remove)
  have "file_at ?d3 p = file_at d p" if "\<not> below temp p"
  proof -
    have "p \<noteq> policy_path temp" "p \<noteq> filepath_Join temp ''user.js''" using that by (auto simp: policy_path_def)
    then have "file_at d2 p = file_at d p" using Apply_file(1) [of marshal cfg temp d1 p] by (simp add: d2_def d1_def)
    then show ?thesis using assms(3) [OF that] by simp
  qed
  then show ?thesis using launch rm assms(2) by simp
qed

text \<open>If the preferences cannot be written in full the launch fails, and what was written stays in the temporary directory.\<close>

lemma broken_profile_stays:
  assumes "ff_ProfileDir cfg = []" "\<not> dk_fails d FsTemp temp" "dk_fails d FsWrite (filepath_Join temp ''user.js'')"
  shows "Launch marshal cfg temp process ctx_done d =
    (Some (ProfileWrite FsFailed), set_file (filepath_Join temp ''user.js'') (take (dk_torn d (filepath_Join temp ''user.js'')) (str_bytes (generateUserJS cfg))) d)"
  using assms by (simp add: Launch_def CreateTempProfile_def os_WriteFile_def)

end
