(* ===== verification/Banner.thy ===== *)
theory Banner
  imports Pki
begin

text \<open>
  The identity card printed at start (\<^verbatim>\<open>internal/identity/banner.go\<close>), over the keys of the authority, and what comparing
  it with a record tells about them. The formatted time is an argument.
\<close>

section \<open>Text\<close>

text \<open>Characters outside ASCII are their bytes.\<close>

definition rune_text :: "nat list \<Rightarrow> string" where
  "rune_text bs = map char_of bs"

definition ellipsis :: string where "ellipsis = rune_text [226, 128, 166]"

definition center :: "string \<Rightarrow> nat \<Rightarrow> string" where
  "center s width =
     (if length s \<ge> width then s
      else (let pad = width - length s; left = pad div 2; right = pad - left
            in replicate left CHR '' '' @ s @ replicate right CHR '' ''))"

definition truncateHex :: "string \<Rightarrow> nat \<Rightarrow> string" where
  "truncateHex s keep = (if length s \<le> keep * 2 + 1 then s else take keep s @ ellipsis @ drop (length s - keep) s)"

definition truncateFingerprint :: "string \<Rightarrow> nat \<Rightarrow> string" where
  "truncateFingerprint fp n =
     (let parts = strings_Split fp CHR '':''
      in if length parts \<le> n then fp else strings_Join (take n parts) '':'' @ '':'' @ ellipsis)"

section \<open>The banner\<close>

definition renderPurpose :: "'s KeyStore \<Rightarrow> 's \<Rightarrow> string \<Rightarrow> string \<Rightarrow> string" where
  "renderPurpose K s label purpose =
     (case ActiveKey K s purpose of
        Inl _ \<Rightarrow> []
      | Inr kp \<Rightarrow>
          (let padded = label @ '':''
           in ''  '' @ padded @ replicate (16 - length padded) CHR '' '' @ truncateFingerprint (Fingerprint (kp_Public kp)) 6 @ [CHR 0x0A]))"

record STHSnapshot =
  sh_TreeSize :: nat
  sh_RootHex :: string
  sh_Timestamp :: string

definition banner_rule :: "nat list \<Rightarrow> nat list \<Rightarrow> string" where
  "banner_rule left right = rune_text left @ concat (replicate 65 (rune_text [226, 149, 144])) @ rune_text right @ [CHR 0x0A]"

definition Render :: "'s KeyStore \<Rightarrow> 's \<Rightarrow> STHSnapshot \<Rightarrow> string" where
  "Render K s sth =
     [CHR 0x0A] @ banner_rule [226, 149, 148] [226, 149, 151] @
     rune_text [226, 149, 145] @ center ''OWASAKA stands ready.'' 65 @ rune_text [226, 149, 145] @ [CHR 0x0A] @
     banner_rule [226, 149, 154] [226, 149, 157] @
     renderPurpose K s ''Root CA'' PurposeCA @
     renderPurpose K s ''JWT signer'' PurposeJWTSigning @
     renderPurpose K s ''Event signer'' PurposeEventSigning @
     renderPurpose K s ''STH signer'' PurposeTransparencyLogSTH @
     (if sh_TreeSize sth > 0 \<or> sh_RootHex sth \<noteq> []
      then ''  Current STH:    size='' @ dec (sh_TreeSize sth) @ ''  root='' @ truncateHex (sh_RootHex sth) 16 @ ''  ('' @ sh_Timestamp sth @ '')'' @ [CHR 0x0A]
      else []) @
     ''  Trust these fingerprints? (compare to ops record)'' @ [CHR 0x0A]"

section \<open>Lemmas\<close>

lemma Split_no_sep: "sep \<notin> set a \<Longrightarrow> strings_Split (a @ s) sep = (case strings_Split s sep of [] \<Rightarrow> [a] | p # ps \<Rightarrow> (a @ p) # ps)"
proof (induction a)
  case Nil
  then show ?case by (cases s) (auto split: list.split)
next
  case (Cons c a)
  then show ?case by (cases "strings_Split s sep") auto
qed

lemma Split_Join: "ps \<noteq> [] \<Longrightarrow> \<forall>p \<in> set ps. sep \<notin> set p \<Longrightarrow> strings_Split (strings_Join ps [sep]) sep = ps"
proof (induction ps)
  case (Cons p ps)
  then show ?case using Split_no_sep [of sep p "[]"] by (cases ps) (auto simp: Split_no_sep)
qed simp

lemma hex_byte_no_colon: "CHR '':'' \<notin> set (hex_byte b)"
proof -
  have "unat b < 256" using unsigned_less [of b] by simp
  then have "unat b div 16 < 16" "unat b mod 16 < 16" by (simp_all add: div_less_iff_less_mult)
  then have "of_char (hex_digit (unat b div 16)) \<noteq> (58 :: nat)" "of_char (hex_digit (unat b mod 16)) \<noteq> (58 :: nat)"
    by (auto simp: of_char_hex_digit)
  then have "hex_digit (unat b div 16) \<noteq> CHR '':''" "hex_digit (unat b mod 16) \<noteq> CHR '':''" by auto
  then show ?thesis by (simp add: hex_byte_def)
qed

lemma truncated_fingerprint: "truncateFingerprint (Fingerprint pub) 6 = strings_Join (map hex_byte (take 6 (sha256 pub))) '':'' @ '':'' @ ellipsis"
proof -
  have len: "length (sha256 pub) = 32" by simp
  have "map hex_byte (sha256 pub) \<noteq> []" using len by (metis length_map list.size(3) zero_neq_numeral)
  then have "strings_Split (Fingerprint pub) CHR '':'' = map hex_byte (sha256 pub)"
    unfolding Fingerprint_def hex_pairs_encode by (rule Split_Join) (simp add: hex_byte_no_colon)
  with len show ?thesis by (simp add: truncateFingerprint_def Let_def take_map)
qed

lemma truncated_iff: "truncateFingerprint (Fingerprint a) 6 = truncateFingerprint (Fingerprint b) 6 \<longleftrightarrow> take 6 (sha256 a) = take 6 (sha256 b)"
  by (simp add: truncated_fingerprint Join_bytes_inj)

text \<open>A line is absent, or has a fixed length and a letter of its own in the third place.\<close>

definition line_of :: "string \<Rightarrow> string \<Rightarrow> bool" where
  "line_of label l \<longleftrightarrow> l = [] \<or> length l = 40 \<and> l ! 2 = hd label"

lemma renderPurpose_line: "label \<noteq> [] \<Longrightarrow> length label < 16 \<Longrightarrow> line_of label (renderPurpose K s label purpose)"
  by (cases label)
    (auto simp: renderPurpose_def line_of_def truncated_fingerprint length_Join_bytes ellipsis_def rune_text_def Let_def split: sum.split)

definition starts_off :: "char set \<Rightarrow> string \<Rightarrow> bool" where
  "starts_off cs r \<longleftrightarrow> 2 < length r \<and> r ! 2 \<notin> cs"

lemma line_off: "line_of label l \<Longrightarrow> starts_off cs r \<Longrightarrow> hd label \<notin> cs \<Longrightarrow> starts_off cs (l @ r)"
  by (auto simp: line_of_def starts_off_def nth_append)

lemma peel_line:
  assumes "line_of label l" "line_of label l'" "starts_off cs r" "starts_off cs r'" "hd label \<in> cs"
  shows "l @ r = l' @ r' \<longleftrightarrow> l = l' \<and> r = r'"
proof (cases "l = [] \<longleftrightarrow> l' = []")
  case True
  then show ?thesis using assms(1,2) by (auto simp: line_of_def)
next
  case False
  have "(l @ r) ! 2 \<noteq> (l' @ r') ! 2" using False assms by (auto simp: line_of_def starts_off_def nth_append)
  then show ?thesis using False by auto
qed

lemma peel_lines:
  assumes "line_of a la" "line_of a la'" "line_of b lb" "line_of b lb'" "line_of c lc" "line_of c lc'" "line_of d ld" "line_of d ld'"
    and "starts_off {hd a, hd b, hd c, hd d} t" "distinct [hd a, hd b, hd c, hd d]"
  shows "la @ lb @ lc @ ld @ t = la' @ lb' @ lc' @ ld' @ t \<longleftrightarrow> la = la' \<and> lb = lb' \<and> lc = lc' \<and> ld = ld'"
proof -
  have t: "starts_off cs t" if "cs \<subseteq> {hd a, hd b, hd c, hd d}" for cs using assms(9) that by (auto simp: starts_off_def)
  have ne: "hd d \<notin> {hd c}" "hd c \<notin> {hd b}" "hd d \<notin> {hd b}" "hd b \<notin> {hd a}" "hd c \<notin> {hd a}" "hd d \<notin> {hd a}" using assms(10) by auto
  note off = line_off [OF assms(3)] line_off [OF assms(4)] line_off [OF assms(5)] line_off [OF assms(6)] line_off [OF assms(7)] line_off [OF assms(8)]
  have 1: "starts_off {hd c} (ld @ t)" "starts_off {hd c} (ld' @ t)" using t ne by (auto intro!: off)
  have 2: "starts_off {hd b} (lc @ ld @ t)" "starts_off {hd b} (lc' @ ld' @ t)" using t ne by (auto intro!: off)
  have 3: "starts_off {hd a} (lb @ lc @ ld @ t)" "starts_off {hd a} (lb' @ lc' @ ld' @ t)" using t ne by (auto intro!: off)
  show ?thesis
    using peel_line [OF assms(1,2) 3] peel_line [OF assms(3,4) 2] peel_line [OF assms(5,6) 1] by simp
qed

definition shown :: "'s KeyStore \<Rightarrow> 's \<Rightarrow> string \<Rightarrow> bytes option" where
  "shown K s purpose = (case ActiveKey K s purpose of Inl _ \<Rightarrow> None | Inr kp \<Rightarrow> Some (take 6 (sha256 (kp_Public kp))))"

lemma line_iff: "renderPurpose K s label p = renderPurpose K' s' label p \<longleftrightarrow> shown K s p = shown K' s' p"
  by (auto simp: renderPurpose_def shown_def truncated_iff Let_def split: sum.split)

section \<open>Properties\<close>

text \<open>
  Two states of the authority have the same banner exactly if for each of the four purposes both have no active key or
  both have one, and the digests of the two keys agree in their first 48 bits. A swapped key is seen unless these bits are
  forged; nothing of the remaining 208 bits is compared.
\<close>

theorem banner_compares_48_bits:
  "Render K s sth = Render K' s' sth \<longleftrightarrow>
     (\<forall>p \<in> {PurposeCA, PurposeJWTSigning, PurposeEventSigning, PurposeTransparencyLogSTH}. shown K s p = shown K' s' p)"
proof -
  define tail where "tail = (if sh_TreeSize sth > 0 \<or> sh_RootHex sth \<noteq> []
      then ''  Current STH:    size='' @ dec (sh_TreeSize sth) @ ''  root='' @ truncateHex (sh_RootHex sth) 16 @ ''  ('' @ sh_Timestamp sth @ '')'' @ [CHR 0x0A]
      else []) @ ''  Trust these fingerprints? (compare to ops record)'' @ [CHR 0x0A]"
  let ?ca = "\<lambda>K s. renderPurpose K s ''Root CA'' PurposeCA" and ?jwt = "\<lambda>K s. renderPurpose K s ''JWT signer'' PurposeJWTSigning"
  let ?ev = "\<lambda>K s. renderPurpose K s ''Event signer'' PurposeEventSigning" and ?sth = "\<lambda>K s. renderPurpose K s ''STH signer'' PurposeTransparencyLogSTH"
  have "starts_off {hd ''Root CA'', hd ''JWT signer'', hd ''Event signer'', hd ''STH signer''} tail" by (simp add: tail_def starts_off_def)
  then have lines: "?ca K s @ ?jwt K s @ ?ev K s @ ?sth K s @ tail = ?ca K' s' @ ?jwt K' s' @ ?ev K' s' @ ?sth K' s' @ tail \<longleftrightarrow>
      ?ca K s = ?ca K' s' \<and> ?jwt K s = ?jwt K' s' \<and> ?ev K s = ?ev K' s' \<and> ?sth K s = ?sth K' s'"
    by (intro peel_lines [OF renderPurpose_line renderPurpose_line renderPurpose_line renderPurpose_line
          renderPurpose_line renderPurpose_line renderPurpose_line renderPurpose_line]) simp_all
  have "Render K s sth = Render K' s' sth \<longleftrightarrow> ?ca K s @ ?jwt K s @ ?ev K s @ ?sth K s @ tail = ?ca K' s' @ ?jwt K' s' @ ?ev K' s' @ ?sth K' s' @ tail"
    by (simp add: Render_def tail_def)
  also note lines
  finally show ?thesis by (simp add: line_iff)
qed

end
