(* ===== verification/Spec2Isabelle.thy ===== *)
theory Spec2Isabelle
  imports Ebpf_Service Probe_Object Probe_Code Reliability Authz_Reload Canary Events_Properties Stream_Processor Correlation
    Identity_Token Migrations Retention Integrity Inventory Backup_Properties Oidc
    Dns Health Tor Proxy Hub Server Api Dga Vault Nas Ml Scan Devices Rules Cdp Firefox Banner
begin

text \<open>
  \<^bold>\<open>O.W.A.S.A.K.A.: a verification library.\<close>

  The program is a host sensor with a small SIEM behind it.  A kernel probe written in C reports
  every outbound TCP connection; a Go process decodes the reports, runs all its findings through
  one event pipeline that signs, stores, broadcasts and logs them, correlates them into alerts, and
  serves the result behind an authorization engine.  This library models the probe, the kernel
  types it is compiled against, and the parts of the Go process that carry its security argument.

  \<^bold>\<open>Parts and how they interact.\<close>
  The probe \<^verbatim>\<open>internal/network/ebpf/bpf/probe.c\<close> writes 28-byte records into a ring
  buffer; \<^verbatim>\<open>internal/network/ebpf/service.go\<close> reads, filters and turns them into network
  events (\<^verbatim>\<open>internal/models\<close>).  \<^verbatim>\<open>internal/events/pipeline.go\<close> takes an event
  from any producer (this monitor, the canary webhook, the compliance subscriber): it signs it with the
  event key of \<^verbatim>\<open>internal/storage/pki\<close>, saves it through
  \<^verbatim>\<open>internal/storage/db\<close>, hands it to the broadcast hub, appends a critical one to
  \<^verbatim>\<open>internal/storage/transparency\<close>, publishes it, and gives it to
  \<^verbatim>\<open>internal/analytics\<close> and the canary observer.  \<^verbatim>\<open>internal/identity\<close> logs
  principals in, issues and checks their tokens and stands before the protected HTTP handlers;
  \<^verbatim>\<open>internal/authz\<close> decides permissions and has a middleware of its own, which the start-up
  code mounts on no handler.  The server and the handlers of \<^verbatim>\<open>internal/api\<close> read and change what is
  stored and announce it to WebSocket clients.  \<^verbatim>\<open>internal/network\<close> has further producers: the DNS
  resolver, the proxy, and the list of Tor exit nodes that proxy and monitor ask; the topology builder and the
  reconciliation of assets listen to the pipeline.  \<^verbatim>\<open>internal/storage/migrations\<close>,
  \<^verbatim>\<open>internal/storage/retention\<close> and \<^verbatim>\<open>internal/storage/backup\<close> maintain the database that everything
  above shares; \<^verbatim>\<open>internal/storage/integrity\<close> keeps an audit log beside it.
  \<^verbatim>\<open>internal/reliability\<close> wraps calls to outside services.

  \<^bold>\<open>Theories.\<close>
  \<^item> \<^emph>\<open>Prelude\<close>: byte strings, little- and big-endian codes, decimal printing; the collections of
    simplification rules the others use.
  \<^item> \<^emph>\<open>CLayout\<close>: C types as data (\<^verbatim>\<open>ctype\<close>) with size, alignment, bit-field placement
    and member lookup, after the System V ABI the header was generated for.
  \<^item> \<^emph>\<open>Kernel_Socket, Kernel_Task, Kernel_Net, Kernel_Device, Kernel_Probe\<close>: the type definitions of
    \<^verbatim>\<open>bpf/vmlinux.h\<close> around \<^verbatim>\<open>struct sock\<close>, one definition per C type under its C name
    (\<^verbatim>\<open>struct_\<close>, \<^verbatim>\<open>union_\<close>, \<^verbatim>\<open>enum_\<close> or \<^verbatim>\<open>typedef_\<close> first).  A member that only repeats a tag
    (\<^verbatim>\<open>struct slock_owned;\<close>) declares nothing in standard C and has no entry, as in the compiled probe.
  \<^item> \<^emph>\<open>Ebpf_Probe\<close>: the whole of \<^verbatim>\<open>probe.c\<close>.  The bpf helpers are the fields of the record
    \<^verbatim>\<open>bpf_env\<close>.
  \<^item> \<^emph>\<open>Probe_Object, Probe_Code\<close>: the compiled probe that \<^verbatim>\<open>probe_x86_bpfel.go\<close> embeds: the sizes and member
    positions of its type information, and its instructions with a machine that runs them.
  \<^item> \<^emph>\<open>Models\<close>: \<^verbatim>\<open>internal/models\<close>: events, alerts, assets, canary tokens; the canonical bytes
    that signatures cover.
  \<^item> \<^emph>\<open>Ebpf_Service\<close>: the monitor service; decoding, the Tor filter, the read loop, Start and Stop
    with the resources they hold.
  \<^item> \<^emph>\<open>Sha256\<close>: SHA-256 itself, with the digest of the empty message checked in the kernel.
  \<^item> \<^emph>\<open>Transparency_Merkle, Transparency_Proofs, Transparency_Consistency\<close>: \<^verbatim>\<open>hash.go\<close> and
    \<^verbatim>\<open>proofs.go\<close>: tree hash, inclusion and consistency proofs, and their verifiers.
  \<^item> \<^emph>\<open>GoLib\<close>: \<^verbatim>\<open>strconv\<close>, \<^verbatim>\<open>strings\<close> and \<^verbatim>\<open>sort\<close> functions the Go code uses.
  \<^item> \<^emph>\<open>Bolt\<close>: the embedded key-value store as an interface, the locale its clients rely on, and
    an instance.  \<^emph>\<open>Transparency_Log\<close>: \<^verbatim>\<open>tree.go\<close>, \<^verbatim>\<open>sth.go\<close>, \<^verbatim>\<open>http.go\<close>.
    \<^emph>\<open>Repository\<close>: \<^verbatim>\<open>internal/storage/db\<close>.
  \<^item> \<^emph>\<open>Pki\<close>: \<^verbatim>\<open>internal/storage/pki\<close>: the key store behind its interface and the authority.
    \<^emph>\<open>Banner\<close>: \<^verbatim>\<open>internal/identity/banner.go\<close>.
  \<^item> \<^emph>\<open>Reliability\<close>: \<^verbatim>\<open>internal/reliability\<close>: backoff, retry and circuit breaker.
  \<^item> \<^emph>\<open>Authz, Authz_Policy, Authz_Reload\<close>: \<^verbatim>\<open>internal/authz\<close>: policy loader, decision engine,
    hot reload, HTTP middleware and reload endpoint, with the shipped policy as data.
  \<^item> \<^emph>\<open>Identity\<close>: \<^verbatim>\<open>internal/identity\<close>: principals, the three kinds of credential, the memory
    stores and the authenticator; locale \<^verbatim>\<open>credential_store\<close>.  \<^emph>\<open>Revocation\<close>:
    \<^verbatim>\<open>revocation/store.go\<close>.  \<^emph>\<open>Identity_Token\<close>: \<^verbatim>\<open>jwt\<close>, \<^verbatim>\<open>middleware\<close>,
    \<^verbatim>\<open>internal/api/login.go\<close> and the registration of protected handlers.
    \<^emph>\<open>Encoding, Oidc\<close>: \<^verbatim>\<open>internal/identity/oidc\<close>, the login through an external provider, with
    base64 decoding and HMAC.
  \<^item> \<^emph>\<open>Files\<close>: the file system calls of \<^verbatim>\<open>os\<close> on a disk whose calls may fail.  \<^emph>\<open>Backup,
    Backup_Properties\<close>: \<^verbatim>\<open>internal/storage/backup\<close> and its endpoint.  \<^emph>\<open>Integrity\<close>:
    \<^verbatim>\<open>internal/storage/integrity\<close>.  \<^emph>\<open>Vault\<close>: \<^verbatim>\<open>internal/storage/crypto\<close>.
    \<^emph>\<open>Nas\<close>: \<^verbatim>\<open>internal/storage/nas\<close>.
  \<^item> \<^emph>\<open>Inventory\<close>: \<^verbatim>\<open>internal/network/topology\<close> and the reconciliation of assets.
  \<^item> \<^emph>\<open>Dns\<close>: \<^verbatim>\<open>internal/network/dns/resolver.go\<close>.  \<^emph>\<open>Tor\<close>: \<^verbatim>\<open>internal/network/tor\<close>; locale
    \<^verbatim>\<open>exit_node_checker\<close> for its two clients, the monitor and the proxy.  \<^emph>\<open>Proxy\<close>: what
    \<^verbatim>\<open>internal/network/proxy\<close> records and forwards.
  \<^item> \<^emph>\<open>Health\<close>: \<^verbatim>\<open>internal/health\<close>.  \<^emph>\<open>Hub\<close>: \<^verbatim>\<open>internal/api/websocket.go\<close> as a step
    relation.  \<^emph>\<open>Server\<close>: \<^verbatim>\<open>internal/api/server.go\<close> and the endpoints \<^verbatim>\<open>internal/app/app.go\<close>
    mounts.  \<^emph>\<open>Api\<close>: the REST handlers.
  \<^item> \<^emph>\<open>Scan\<close>: \<^verbatim>\<open>internal/discovery/attack_surface\<close>, with producer and workers as a step relation.
    \<^emph>\<open>Virtual, Devices\<close>: \<^verbatim>\<open>internal/discovery/virtual\<close>, \<^verbatim>\<open>internal/discovery/physical\<close> and
    \<^verbatim>\<open>internal/network/discovery\<close>.
  \<^item> \<^emph>\<open>Cdp\<close>: \<^verbatim>\<open>internal/browser/automation\<close>, with callers and reader as a step relation.  \<^emph>\<open>Firefox\<close>:
    \<^verbatim>\<open>internal/browser/firefox\<close>.
  \<^item> \<^emph>\<open>Migrations, Retention\<close>: \<^verbatim>\<open>internal/storage/migrations\<close> and
    \<^verbatim>\<open>internal/storage/retention\<close>.
  \<^item> \<^emph>\<open>Canary\<close>: \<^verbatim>\<open>internal/canary\<close> and \<^verbatim>\<open>internal/api/canary_webhook.go\<close>.
  \<^item> \<^emph>\<open>Events, Events_Properties\<close>: \<^verbatim>\<open>internal/events\<close>: signer, verifier, publisher, pipeline,
    compliance subscriber.
  \<^item> \<^emph>\<open>Stream_Processor, Correlation\<close>: \<^verbatim>\<open>internal/analytics/stream\<close> and
    \<^verbatim>\<open>internal/analytics/correlation\<close>.  \<^emph>\<open>Dga\<close>: its entropy heuristic.  \<^emph>\<open>Rules\<close>: its
    rule files with the shipped ones as data.
    \<^emph>\<open>Forest, Ml\<close>: \<^verbatim>\<open>internal/analytics/ml\<close>: the isolation forest with training step by step, the
    baselines of hosts and the detector.

  \<^bold>\<open>How state and effects are rendered.\<close>
  A Go struct is a \<^verbatim>\<open>record\<close> with the fields of the source behind a short prefix; a method is a
  function that takes and returns it; an \<^verbatim>\<open>(x, error)\<close> result is a sum whose left side is an
  error datatype of the package.  A mutex section is one step; where the source releases the lock
  between two accesses (the canary trigger, the calls of a key rotation) the accesses are separate steps; where it
  holds the lock over a call that may block (requests to the browser) the lock is part of the state.  An atomic pointer is
  the value it holds.  Effects whose order matters (save, broadcast, append, publish) are lists of
  steps.  Where the source aliases memory (the metadata map of an event, the array of a correlation
  window) the model has the shared object and the writes to it.  C integers and Go's fixed-width
  integers stay at their width where a wrap can be reached, time is an integer number of nanoseconds or
  seconds, float64 is a rational number in metadata and a real one in the entropy heuristic
  and the anomaly detector.  Concurrent
  callers of one object are arbitrary sequences of its steps.

  \<^bold>\<open>What the theorems show.\<close>
  \<^item> Capture: the layouts computed from the header are those of the compiled probe, whose instructions do what
    its source says; the probe reads what it means to read, the decoder inverts the probe's record, the filter selects what the
    configuration says, and no path of Start leaks a kernel resource.
  \<^item> Evidence: inclusion proofs are complete and, for proofs of the right length, sound up to a SHA-256
    collision; consistency proofs are complete; the log is append-only, survives failing writes and
    reopening; tree heads and events verify after signing; an event that leaves the pipeline is
    the signed one, is stored, and if critical is provably in the log; what a broker's message may change in the
    event that waits for its broadcast is stated.
  \<^item> Keys: under all interleavings a key that is no longer active never signs again; an uninterrupted rotation replaces
    the signing key; what two equal banners say of
    the keys.
  \<^item> Identity: the authenticator lets in only who proves a current credential of an active principal, and everyone who
    does so with a factor documented for the type of principal;
    a protected handler runs exactly for a valid access token of an active principal; the tokens of a login
    work as long as they should and no longer; a revoked token stays out.  A login through the provider
    needs a bound and valid state and, where a group map is configured, gives exactly the roles of the groups.
  \<^item> Access: what the loader accepts and refuses, expansion equals
    reachability over \<^verbatim>\<open>inherits\<close>, the engine grants nothing the file does not grant, and everything it grants if no
    text of a permission has a separator of the permission keys in it; no reload
    loses the administrator, and behind its middleware no request passes undecided or unaudited.
    The endpoints for data, alerts, canaries, honeypots and backups need authentication.
  \<^item> Maintenance: migrations run once, in order and resumably; a sweep removes exactly what is outdated; a
    backup restores to the same contents, a restoration never loses a database that can be inspected, rotation
    keeps the newest; the audit log verifies, and a change of it shows; the master key outlives the process;
    reports on the network share alternate between loss and recovery.
  \<^item> Discovery: a port scan reports exactly the open ports whatever its goroutines do in between, and ends; the
    table of virtual machines is read back as printed.
  \<^item> Network: topology and drift reports are exact, under stated conditions on names and port lists; replies of the resolver come from the server and are no
    older than the cache allows; the exit list in force is the last good one; what the proxy records is
    free of credentials.
  \<^item> Interface: a client of the hub gets what is broadcast while it is connected, in order; a change of an
    alert that is acknowledged is stored and reaches every client; readiness follows the required probes.
  \<^item> Analytics: the ring buffer implements a bounded queue, the windows count what they promise when no
    minute is silent, and a kill chain is reported exactly when it is a subsequence of the recent
    events of a source; the entropy heuristic needs labels of 14 bytes; on which
    of the product's own events shipped rules fire; the profiles of hosts are exact, and under stated conditions the
    anomaly detector does not panic unless it trains and scores at once and reports short paths.
  \<^item> Browser: a call gets only the reply to its own request and moves on unless a write is stalled; a screenshot reported as taken is the picture the
    browser sent; the policies in force are those configured, and a launch leaves nothing behind.
  \<^item> Robustness: retry terminates within its budget, delays stay in bounds, an open breaker runs nothing.
  Where the code departs from its comments, a lemma shows an instance of it, beside the property it limits.

  \<^bold>\<open>Termination and fuel.\<close>
  Loops are total functions with measures.  The retry loop with a budget of zero may run for ever and is a
  \<^verbatim>\<open>partial_function (option)\<close>; that it returns is proved under the conditions stated.
  The inheritance walk of the policy loader recurses on the roles of the file that are not yet on the path.
  The read loop of the monitor consumes the list of results of the ring buffer reader.  The loop that connects to the
  browser has fuel for its attempts: with more fuel than attempts fail it reaches the first that does not.

  \<^bold>\<open>Parameters.\<close>
  Code outside the repository is an argument, with its documented behaviour as named hypotheses that an
  instance in the library satisfies: bbolt (locale over get, put, delete and transactions; instance: finite
  maps), encoding/json and the YAML decoder (decode inverts encode on the values used), Ed25519 (what is
  signed verifies), crypto/rand and the clock (values they returned), math/rand (\<^verbatim>\<open>random_ok\<close>), encoding/gob, NATS (delivery by subject),
  net.ParseIP and (in the stream processor) net.SplitHostPort, gobreaker, the age encryption and the file format of bbolt (backups), AES-GCM (\<^verbatim>\<open>gcm_ok\<close>), the
  DNS library, the identity provider, HTTP exchanges, the failures of file system calls, bcrypt, totp and golang-jwt (\<^verbatim>\<open>jwt_lib_ok\<close>; instance: a
  table of tokens), certificate chains, the bpf helpers and libbpf's CO-RE reads.

  \<^bold>\<open>Not modelled.\<close>
  Of \<^verbatim>\<open>vmlinux.h\<close>, a generated dump of all kernel types of 139 thousand lines, only types within
  reach of the socket, task, network namespace and device types and those in the type information of the compiled
  probe are translated: the probe reads two members of one of them, and the others carry no logic.  Of the Go process: the components that
  drive something outside it (capture and the connections of the proxy, user interfaces), metrics, tracing and logging,
  the command line, and the wiring other than the mounting of endpoints.
\<close>

end
